(* ===== verification/Prelude.thy ===== *)
theory Prelude
  imports Complex_Main "HOL-Library.List_Lexorder" "HOL-Library.Char_ord" "HOL-Library.Multiset"
begin

text \<open>
  Shared vocabulary of the development: the exceptions of the Python code as values, the
  result type, JSON values, row-level reading and writing of a table, the ASCII part of the
  string methods the sources use, and the generic lemmas the components share.

  A table is a list of rows in insertion order. A query that returns at most one row is
  \<^const>\<open>find\<close>, a query that returns several is \<^const>\<open>filter\<close>, an UPDATE is
  \<open>update_where\<close>, an INSERT appends. A database transaction is a function from the
  state to a result: on an exception nothing is committed, so \<open>Inl\<close> carries no state.
\<close>

section \<open>Automation collections\<close>

named_theorems result_simps \<open>inversion of the result monad\<close>
named_theorems row_simps \<open>reading a table after it was written\<close>
named_theorems frame \<open>which tables an operation leaves alone\<close>

section \<open>Basic types\<close>

text \<open>
  A UUID is its canonical text (\<open>str(uuid)\<close>): the sources embed it in keys and sort by it.
  A timestamp is a number of microseconds since the epoch.
\<close>

type_synonym uuid = string
type_synonym datetime = int

definition hours :: "int \<Rightarrow> int" where
  "hours h = h * 3600 * 1000000"

definition seconds :: "int \<Rightarrow> int" where
  "seconds s = s * 1000000"

definition minutes :: "int \<Rightarrow> int" where
  "minutes m = m * 60 * 1000000"

lemma hours_nonneg: "0 \<le> h \<Longrightarrow> 0 \<le> hours h"
  by (simp add: hours_def)

datatype json =
    JNull
  | JBool bool
  | JInt int
  | JFloat rat
  | JStr string
  | JList "json list"
  | JObj "(string \<times> json) list"
  | JOpaque string

text \<open>
  \<open>JOpaque\<close> is a Python object that is no JSON value (a UUID, a datetime), by its \<open>repr\<close>.
  \<open>json_get\<close> is \<open>dict.get\<close> on a JSON object.
\<close>

fun json_get :: "json \<Rightarrow> string \<Rightarrow> json option" where
  "json_get (JObj kvs) k = map_of kvs k"
| "json_get _ k = None"

fun opt_str :: "string option \<Rightarrow> json" where
  "opt_str None = JNull"
| "opt_str (Some s) = JStr s"

section \<open>Exceptions and results\<close>

text \<open>
  The exceptions the modelled code raises: FastAPI's \<open>HTTPException\<close> (status and detail),
  the two conflict exceptions of the review package, the built-in ones, those of the agreement and
  processing packages (a \<open>PermanentProcessingError\<close> has a message and a category), and
  SQLAlchemy's \<open>NoResultFound\<close>.
\<close>

datatype exn =
    HTTPException nat json
  | ReviewWorkflowConflictError string
  | ReviewConflictError
  | ValueError string
  | RuntimeError string
  | LookupError string
  | IntegrityError string
  | PermissionError string
  | TimeoutError string
  | AgreementNotFoundError
  | IdempotencyKeyConflictError
  | RetryNotPermittedError
  | NoResultFound
  | ProcessingLeaseHeldError string
  | TransientProcessingError string
  | PermanentProcessingError string string
  | ObjectCleanupError string
  | AttributeError string
  | DuplicateAgreementVersionError
  | StaleCurrentVersionError
  | VersionIdempotencyConflictError
  | TypeError string
  | KeyError string
  | SearchNotAuthorizedError
  | VersionComparisonConflictError

type_synonym 'a result = "exn + 'a"

definition http_error :: "nat \<Rightarrow> string \<Rightarrow> exn" where
  "http_error st code = HTTPException st (JObj [(''code'', JStr code)])"

definition http_error_msg :: "nat \<Rightarrow> string \<Rightarrow> string \<Rightarrow> exn" where
  "http_error_msg st code msg =
     HTTPException st (JObj [(''code'', JStr code), (''message'', JStr msg)])"

fun bindR :: "'e + 'a \<Rightarrow> ('a \<Rightarrow> 'e + 'b) \<Rightarrow> 'e + 'b" where
  "bindR (Inl e) f = Inl e"
| "bindR (Inr x) f = f x"

definition require :: "bool \<Rightarrow> 'e \<Rightarrow> 'e + unit" where
  "require b e = (if b then Inr () else Inl e)"

definition some_or :: "'a option \<Rightarrow> 'e \<Rightarrow> 'e + 'a" where
  "some_or m e = (case m of None \<Rightarrow> Inl e | Some x \<Rightarrow> Inr x)"

lemma bindR_Inr_iff [result_simps]: "bindR m f = Inr y \<longleftrightarrow> (\<exists>x. m = Inr x \<and> f x = Inr y)"
  by (cases m) auto

lemma bindR_Inl_iff: "bindR m f = Inl e \<longleftrightarrow> m = Inl e \<or> (\<exists>x. m = Inr x \<and> f x = Inl e)"
  by (cases m) auto

fun mapR :: "('a \<Rightarrow> 'e + 'b) \<Rightarrow> 'a list \<Rightarrow> 'e + 'b list" where
  "mapR f [] = Inr []"
| "mapR f (x # xs) = bindR (f x) (\<lambda>y. bindR (mapR f xs) (\<lambda>ys. Inr (y # ys)))"

lemma mapR_Inr_iff: "mapR f xs = Inr ys \<longleftrightarrow> list_all2 (\<lambda>x y. f x = Inr y) xs ys"
  by (induction xs arbitrary: ys) (auto simp: bindR_Inr_iff list_all2_Cons1)

lemma mapR_Inr_map: "(\<And>x. x \<in> set xs \<Longrightarrow> f x = Inr (g x)) \<Longrightarrow> mapR f xs = Inr (map g xs)"
  by (induction xs) auto

lemma require_Inr_iff [result_simps]: "require b e = Inr u \<longleftrightarrow> b"
  by (simp add: require_def)

lemma require_simps [simp]: "require True e = Inr ()" "require False e = Inl e"
  by (simp_all add: require_def)

lemma some_or_Inr_iff [result_simps]: "some_or m e = Inr x \<longleftrightarrow> m = Some x"
  by (cases m) (auto simp: some_or_def)

lemma some_or_simps [simp]: "some_or None e = Inl e" "some_or (Some x) e = Inr x"
  by (simp_all add: some_or_def)

section \<open>Tables\<close>

definition update_where :: "('r \<Rightarrow> bool) \<Rightarrow> ('r \<Rightarrow> 'r) \<Rightarrow> 'r list \<Rightarrow> 'r list" where
  "update_where p f rs = map (\<lambda>r. if p r then f r else r) rs"

definition exists_row :: "('r \<Rightarrow> bool) \<Rightarrow> 'r list \<Rightarrow> bool" where
  "exists_row p rs = list_ex p rs"

lemma exists_row_iff [simp]: "exists_row p rs \<longleftrightarrow> (\<exists>r \<in> set rs. p r)"
  by (simp add: exists_row_def list_ex_iff)

lemma update_where_Nil [simp]: "update_where p f [] = []"
  by (simp add: update_where_def)

lemma update_where_Cons [simp]:
  "update_where p f (r # rs) = (if p r then f r else r) # update_where p f rs"
  by (simp add: update_where_def)

lemma length_update_where [simp]: "length (update_where p f rs) = length rs"
  by (simp add: update_where_def)

lemma update_where_append [simp]:
  "update_where p f (rs @ ss) = update_where p f rs @ update_where p f ss"
  by (simp add: update_where_def)

lemma set_update_where: "set (update_where p f rs) = (\<lambda>r. if p r then f r else r) ` set rs"
  by (simp add: update_where_def)

lemma in_update_where:
  "x \<in> set (update_where p f rs) \<longleftrightarrow>
     (\<exists>r \<in> set rs. x = (if p r then f r else r))"
  by (auto simp: set_update_where)

lemma map_update_where:
  assumes "\<And>r. p r \<Longrightarrow> g (f r) = g r"
  shows "map g (update_where p f rs) = map g rs"
  using assms by (induction rs) auto

lemma filter_update_where:
  assumes "\<And>r. p r \<Longrightarrow> q (f r) = q r"
  shows "filter q (update_where p f rs) = update_where p f (filter q rs)"
  using assms by (induction rs) auto

lemma filter_update_where_other:
  assumes "\<And>r. q r \<Longrightarrow> \<not> p r" and "\<And>r. p r \<Longrightarrow> \<not> q (f r)"
  shows "filter q (update_where p f rs) = filter q rs"
  using assms by (induction rs) auto

lemma find_update_where_keep:
  assumes "\<And>r. p r \<Longrightarrow> q (f r) = q r"
  shows "find q (update_where p f rs) =
    map_option (\<lambda>r. if p r then f r else r) (find q rs)"
  using assms by (induction rs) auto

lemma find_SomeD: "find p rs = Some r \<Longrightarrow> r \<in> set rs \<and> p r"
  by (induction rs) (auto split: if_splits)

lemma find_None_iff': "find p rs = None \<longleftrightarrow> (\<forall>r \<in> set rs. \<not> p r)"
  by (induction rs) auto

lemma find_append: "find p (rs @ ss) = (case find p rs of None \<Rightarrow> find p ss | Some r \<Rightarrow> Some r)"
  by (induction rs) auto

lemma find_distinct_key:
  assumes "distinct (map key rs)" and "r \<in> set rs"
  shows "find (\<lambda>x. key x = key r) rs = Some r"
  using assms by (induction rs) (auto simp: image_iff)

lemma distinct_key_inj:
  assumes "distinct (map key rs)" and "r \<in> set rs" and "s \<in> set rs" and "key r = key s"
  shows "r = s"
  using assms by (induction rs) (auto simp: image_iff)

section \<open>Strings\<close>

definition startswith :: "string \<Rightarrow> string \<Rightarrow> bool" where
  "startswith p s \<longleftrightarrow> take (length p) s = p"

lemma startswith_append [simp]: "startswith p (p @ s)"
  by (simp add: startswith_def)

lemma startswith_iff: "startswith p s \<longleftrightarrow> (\<exists>t. s = p @ t)"
  by (auto simp: startswith_def) (metis append_take_drop_id)

definition endswith :: "string \<Rightarrow> string \<Rightarrow> bool" where
  "endswith p s \<longleftrightarrow> startswith (rev p) (rev s)"

text \<open>Python's \<open>p in s\<close> for strings.\<close>

fun contains :: "string \<Rightarrow> string \<Rightarrow> bool" where
  "contains p [] \<longleftrightarrow> p = []"
| "contains p (c # s) \<longleftrightarrow> startswith p (c # s) \<or> contains p s"

lemma endswith_iff: "endswith p s \<longleftrightarrow> (\<exists>t. s = t @ p)"
  unfolding endswith_def startswith_iff by (metis rev_append rev_rev_ident)

lemma contains_iff: "contains p s \<longleftrightarrow> (\<exists>a b. s = a @ p @ b)"
proof (induction s)
  case (Cons c s)
  have "(\<exists>a b. c # s = a @ p @ b) \<longleftrightarrow> (\<exists>b. c # s = p @ b) \<or> (\<exists>a b. s = a @ p @ b)" (is "?l = ?r")
  proof
    assume ?l
    then obtain a b where ab: "c # s = a @ p @ b" by blast
    then show ?r by (cases a) auto
  next
    assume ?r
    then show ?l by (metis append_Cons append_Nil)
  qed
  then show ?case by (simp add: startswith_iff Cons.IH)
qed auto

text \<open>The decimal rendering of a natural number, as \<open>f"{n}"\<close> writes it.\<close>

fun str_nat :: "nat \<Rightarrow> string" where
  "str_nat n = (if n < 10 then [char_of (48 + n)]
     else str_nat (n div 10) @ [char_of (48 + n mod 10)])"

declare str_nat.simps [simp del]

definition str_int :: "int \<Rightarrow> string" where
  "str_int i = (if i < 0 then CHR ''-'' # str_nat (nat (- i)) else str_nat (nat i))"

definition lower_char :: "char \<Rightarrow> char" where
  "lower_char c = (if 65 \<le> (of_char c :: nat) \<and> (of_char c :: nat) \<le> 90
     then char_of (of_char c + (32::nat)) else c)"

definition upper_char :: "char \<Rightarrow> char" where
  "upper_char c = (if 97 \<le> (of_char c :: nat) \<and> (of_char c :: nat) \<le> 122
     then char_of (of_char c - (32::nat)) else c)"

definition str_lower :: "string \<Rightarrow> string" where
  "str_lower s = map lower_char s"

definition str_upper :: "string \<Rightarrow> string" where
  "str_upper s = map upper_char s"

definition is_space :: "char \<Rightarrow> bool" where
  "is_space c \<longleftrightarrow> (of_char c :: nat) \<in> {9, 10, 11, 12, 13, 28, 29, 30, 31, 32}"

definition str_strip :: "string \<Rightarrow> string" where
  "str_strip s = rev (dropWhile is_space (rev (dropWhile is_space s)))"

section \<open>Timestamps\<close>

text \<open>
  \<open>datetime.isoformat()\<close> of an aware UTC datetime: the civil date of a day count since the epoch in
  the proleptic Gregorian calendar, and microseconds only when they are not zero.
\<close>

definition civil_of_days :: "int \<Rightarrow> int \<times> int \<times> int" where
  "civil_of_days days =
     (let z = days + 719468; era = z div 146097; doe = z mod 146097;
          yoe = (doe - doe div 1460 + doe div 36524 - doe div 146096) div 365;
          doy = doe - (365 * yoe + yoe div 4 - yoe div 100);
          mp = (5 * doy + 2) div 153;
          m = (if mp < 10 then mp + 3 else mp - 9)
      in (yoe + era * 400 + (if m \<le> 2 then 1 else 0), m, doy - (153 * mp + 2) div 5 + 1))"

definition zero_padded :: "nat \<Rightarrow> int \<Rightarrow> string" where
  "zero_padded n i = (let d = str_int i in replicate (n - length d) (CHR ''0'') @ d)"

definition isoformat :: "datetime \<Rightarrow> string" where
  "isoformat t =
     (let secs = t div 1000000; us = t mod 1000000; (y, m, d) = civil_of_days (secs div 86400);
          sod = secs mod 86400
      in zero_padded 4 y @ ''-'' @ zero_padded 2 m @ ''-'' @ zero_padded 2 d @ ''T'' @
         zero_padded 2 (sod div 3600) @ '':'' @ zero_padded 2 (sod mod 3600 div 60) @ '':'' @
         zero_padded 2 (sod mod 60) @ (if us = 0 then [] else ''.'' @ zero_padded 6 us) @ ''+00:00'')"

lemma isoformat_example: "isoformat 1709251199000005 = ''2024-02-29T23:59:59.000005+00:00''"
  by code_simp

fun opt_iso :: "datetime option \<Rightarrow> json" where
  "opt_iso None = JNull"
| "opt_iso (Some t) = JStr (isoformat t)"

end
