(* ===== verification/Identity.thy ===== *)
theory Identity
  imports Prelude
begin

text \<open>
  Tenancy and authorization: the role and permission catalogue of
  \<open>identity/permissions.py\<close>, the tables of \<open>identity/models.py\<close> and the operations of
  \<open>IdentityService\<close> (\<open>identity/service.py\<close>). The PostgreSQL tenant setting of
  \<open>_set_tenant_scope\<close> is a second line of defence inside the database and is not part of
  the state; the decisions below are those of the application code.
\<close>

section \<open>Roles and permissions\<close>

datatype role_key =
    PLATFORM_ADMIN
  | ORGANIZATION_ADMIN
  | LEGAL_ADMIN
  | LEGAL_REVIEWER
  | BUSINESS_USER
  | BUSINESS_APPROVER
  | AUDITOR

datatype permission_key =
    MEMBERS_MANAGE
  | WORKSPACES_MANAGE
  | WORKSPACES_READ
  | AGREEMENTS_CREATE
  | AGREEMENTS_READ
  | AGREEMENTS_UPDATE
  | AGREEMENTS_DELETE
  | REVIEWS_ASSIGN
  | REVIEWS_DECIDE
  | REVIEWS_APPROVE
  | PLAYBOOKS_MANAGE
  | APPROVAL_POLICIES_MANAGE
  | SEARCH_QUERY
  | AUDIT_READ

fun role_value :: "role_key \<Rightarrow> string" where
  "role_value PLATFORM_ADMIN = ''platform_admin''"
| "role_value ORGANIZATION_ADMIN = ''organization_admin''"
| "role_value LEGAL_ADMIN = ''legal_admin''"
| "role_value LEGAL_REVIEWER = ''legal_reviewer''"
| "role_value BUSINESS_USER = ''business_user''"
| "role_value BUSINESS_APPROVER = ''business_approver''"
| "role_value AUDITOR = ''auditor''"

definition RoleKey :: "role_key list" where
  "RoleKey = [PLATFORM_ADMIN, ORGANIZATION_ADMIN, LEGAL_ADMIN, LEGAL_REVIEWER, BUSINESS_USER,
     BUSINESS_APPROVER, AUDITOR]"

definition PermissionKey :: "permission_key list" where
  "PermissionKey = [MEMBERS_MANAGE, WORKSPACES_MANAGE, WORKSPACES_READ, AGREEMENTS_CREATE,
     AGREEMENTS_READ, AGREEMENTS_UPDATE, AGREEMENTS_DELETE, REVIEWS_ASSIGN, REVIEWS_DECIDE,
     REVIEWS_APPROVE, PLAYBOOKS_MANAGE, APPROVAL_POLICIES_MANAGE, SEARCH_QUERY, AUDIT_READ]"

text \<open>A frozenset is a list without repetition; its iteration order is not observable.\<close>

fun ROLE_PERMISSIONS :: "role_key \<Rightarrow> permission_key list" where
  "ROLE_PERMISSIONS PLATFORM_ADMIN = PermissionKey"
| "ROLE_PERMISSIONS ORGANIZATION_ADMIN =
     [MEMBERS_MANAGE, WORKSPACES_MANAGE, WORKSPACES_READ, AGREEMENTS_READ, SEARCH_QUERY, AUDIT_READ]"
| "ROLE_PERMISSIONS LEGAL_ADMIN =
     [WORKSPACES_READ, REVIEWS_ASSIGN, REVIEWS_APPROVE, AGREEMENTS_READ, SEARCH_QUERY,
      APPROVAL_POLICIES_MANAGE]"
| "ROLE_PERMISSIONS LEGAL_REVIEWER =
     [WORKSPACES_READ, AGREEMENTS_READ, REVIEWS_DECIDE, SEARCH_QUERY]"
| "ROLE_PERMISSIONS BUSINESS_USER =
     [WORKSPACES_READ, AGREEMENTS_CREATE, AGREEMENTS_READ, AGREEMENTS_UPDATE, SEARCH_QUERY]"
| "ROLE_PERMISSIONS BUSINESS_APPROVER =
     [WORKSPACES_READ, AGREEMENTS_READ, REVIEWS_APPROVE, SEARCH_QUERY]"
| "ROLE_PERMISSIONS AUDITOR = [AGREEMENTS_READ, AUDIT_READ, SEARCH_QUERY]"

definition permissions_for :: "role_key \<Rightarrow> permission_key set" where
  "permissions_for r = set (ROLE_PERMISSIONS r)"

lemma RoleKey_UNIV: "set RoleKey = UNIV"
proof -
  have "r \<in> set RoleKey" for r by (cases r) (simp_all add: RoleKey_def)
  then show ?thesis by blast
qed

lemma PermissionKey_UNIV: "set PermissionKey = UNIV"
proof -
  have "p \<in> set PermissionKey" for p by (cases p) (simp_all add: PermissionKey_def)
  then show ?thesis by blast
qed

lemma distinct_RoleKey: "distinct RoleKey"
  by (simp add: RoleKey_def)

section \<open>Tables\<close>

text \<open>
  \<open>uuid4()\<close> draws from the operating system. The state carries the sequence it will return
  (\<open>uuid_src\<close>) and how many were drawn; theorems that need freshness say so.
\<close>

record entropy =
  uuid_src :: "nat \<Rightarrow> uuid"
  uuid_used :: nat

definition uuid4 :: "'z entropy_scheme \<Rightarrow> uuid" where
  "uuid4 s = uuid_src s (uuid_used s)"

definition draw :: "'z entropy_scheme \<Rightarrow> 'z entropy_scheme" where
  "draw s = s\<lparr>uuid_used := Suc (uuid_used s)\<rparr>"

definition used_ids :: "'z entropy_scheme \<Rightarrow> uuid set" where
  "used_ids s = uuid_src s ` {..<uuid_used s}"

record user_row =
  us_id :: uuid
  us_oidc_issuer :: string
  us_oidc_subject :: string
  us_display_name :: string
  us_email :: "string option"

record organization_row =
  og_id :: uuid
  og_name :: string
  og_slug :: string

record workspace_row =
  ws_id :: uuid
  ws_org :: uuid
  ws_name :: string
  ws_slug :: string

record role_row =
  rl_id :: uuid
  rl_key :: role_key
  rl_name :: string

record permission_row =
  pm_id :: uuid
  pm_key :: permission_key

record role_permission_row =
  rp_id :: uuid
  rp_role :: uuid
  rp_permission :: uuid

record membership_row =
  mb_id :: uuid
  mb_org :: uuid
  mb_user :: uuid
  mb_role :: uuid

record workspace_membership_row =
  wm_id :: uuid
  wm_org :: uuid
  wm_workspace :: uuid
  wm_membership :: uuid

record identity_db = entropy +
  users :: "user_row list"
  organizations :: "organization_row list"
  workspaces :: "workspace_row list"
  roles :: "role_row list"
  permissions :: "permission_row list"
  role_permissions :: "role_permission_row list"
  memberships :: "membership_row list"
  workspace_memberships :: "workspace_membership_row list"

section \<open>Catalogue and provisioning\<close>

text \<open>\<open>role_key.replace("_", " ").title()\<close>\<close>

fun title_from :: "bool \<Rightarrow> string \<Rightarrow> string" where
  "title_from up [] = []"
| "title_from up (c # cs) =
     (let letter = lower_char c \<noteq> upper_char c
      in (if up then upper_char c else lower_char c) # title_from (\<not> letter) cs)"

definition role_name :: "role_key \<Rightarrow> string" where
  "role_name r = title_from True (map (\<lambda>c. if c = CHR ''_'' then CHR '' '' else c) (role_value r))"

fun ensure_roles :: "role_key list \<Rightarrow> 'z identity_db_scheme \<Rightarrow> 'z identity_db_scheme" where
  "ensure_roles [] s = s"
| "ensure_roles (k # ks) s =
     (if exists_row (\<lambda>r. rl_key r = k) (roles s) then ensure_roles ks s
      else ensure_roles ks (draw s\<lparr>roles := roles s @
        [\<lparr>rl_id = uuid4 s, rl_key = k, rl_name = role_name k\<rparr>]\<rparr>))"

fun ensure_permissions :: "permission_key list \<Rightarrow> 'z identity_db_scheme \<Rightarrow> 'z identity_db_scheme"
where
  "ensure_permissions [] s = s"
| "ensure_permissions (k # ks) s =
     (if exists_row (\<lambda>p. pm_key p = k) (permissions s) then ensure_permissions ks s
      else ensure_permissions ks (draw s\<lparr>permissions := permissions s @
        [\<lparr>pm_id = uuid4 s, pm_key = k\<rparr>]\<rparr>))"

definition role_by_key :: "'z identity_db_scheme \<Rightarrow> role_key \<Rightarrow> role_row option" where
  "role_by_key s k = find (\<lambda>r. rl_key r = k) (roles s)"

definition permission_by_key ::
  "'z identity_db_scheme \<Rightarrow> permission_key \<Rightarrow> permission_row option" where
  "permission_by_key s k = find (\<lambda>p. pm_key p = k) (permissions s)"

text \<open>The pairs of the nested loop, in its order; \<open>existing\<close> is read once, before the loop.\<close>

fun ensure_role_permissions ::
  "(uuid \<times> uuid) list \<Rightarrow> (role_key \<times> permission_key) list \<Rightarrow> 'z identity_db_scheme
   \<Rightarrow> 'z identity_db_scheme" where
  "ensure_role_permissions existing [] s = s"
| "ensure_role_permissions existing ((rk, pk) # ks) s =
     (case (role_by_key s rk, permission_by_key s pk) of
        (Some r, Some p) \<Rightarrow>
          if (rl_id r, pm_id p) \<in> set existing then ensure_role_permissions existing ks s
          else ensure_role_permissions existing ks (draw s\<lparr>role_permissions := role_permissions s @
            [\<lparr>rp_id = uuid4 s, rp_role = rl_id r, rp_permission = pm_id p\<rparr>]\<rparr>)
      | _ \<Rightarrow> ensure_role_permissions existing ks s)"

definition catalog_pairs :: "(role_key \<times> permission_key) list" where
  "catalog_pairs = concat (map (\<lambda>r. map (\<lambda>p. (r, p)) (ROLE_PERMISSIONS r)) RoleKey)"

definition bootstrap_authorization_catalog :: "'z identity_db_scheme \<Rightarrow> 'z identity_db_scheme" where
  "bootstrap_authorization_catalog s =
     (let s1 = ensure_permissions PermissionKey (ensure_roles RoleKey s)
      in ensure_role_permissions
           (map (\<lambda>rp. (rp_role rp, rp_permission rp)) (role_permissions s1)) catalog_pairs s1)"

definition provision_user ::
  "string \<Rightarrow> string \<Rightarrow> string \<Rightarrow> string option \<Rightarrow> 'z identity_db_scheme
   \<Rightarrow> user_row \<times> 'z identity_db_scheme" where
  "provision_user issuer subject display_name email s =
     (case find (\<lambda>u. us_oidc_issuer u = issuer \<and> us_oidc_subject u = subject) (users s) of
        Some u \<Rightarrow> (u, s)
      | None \<Rightarrow>
          (let u = \<lparr>us_id = uuid4 s, us_oidc_issuer = issuer, us_oidc_subject = subject,
             us_display_name = display_name, us_email = email\<rparr>
           in (u, draw s\<lparr>users := users s @ [u]\<rparr>)))"

text \<open>
  \<open>organizations.slug\<close> and \<open>(organization_id, slug)\<close> of workspaces are unique columns, and
  \<open>organization_id\<close> and \<open>user_id\<close> are foreign keys: a violating INSERT raises.
\<close>

definition create_organization ::
  "string \<Rightarrow> string \<Rightarrow> 'z identity_db_scheme \<Rightarrow> (organization_row \<times> 'z identity_db_scheme) result" where
  "create_organization name slug s =
     bindR (require (\<not> exists_row (\<lambda>og. og_slug og = slug) (organizations s))
              (IntegrityError ''organizations.slug'')) (\<lambda>_.
       let og = \<lparr>og_id = uuid4 s, og_name = name, og_slug = slug\<rparr>
       in Inr (og, draw s\<lparr>organizations := organizations s @ [og]\<rparr>))"

definition create_workspace ::
  "uuid \<Rightarrow> string \<Rightarrow> string \<Rightarrow> 'z identity_db_scheme
   \<Rightarrow> (workspace_row \<times> 'z identity_db_scheme) result" where
  "create_workspace organization_id name slug s =
     bindR (require (exists_row (\<lambda>og. og_id og = organization_id) (organizations s))
              (IntegrityError ''workspaces.organization_id'')) (\<lambda>_.
     bindR (require (\<not> exists_row (\<lambda>w. ws_org w = organization_id \<and> ws_slug w = slug) (workspaces s))
              (IntegrityError ''workspaces.slug'')) (\<lambda>_.
       let w = \<lparr>ws_id = uuid4 s, ws_org = organization_id, ws_name = name, ws_slug = slug\<rparr>
       in Inr (w, draw s\<lparr>workspaces := workspaces s @ [w]\<rparr>)))"

definition grant_membership ::
  "uuid \<Rightarrow> uuid \<Rightarrow> role_key \<Rightarrow> 'z identity_db_scheme
   \<Rightarrow> (membership_row \<times> 'z identity_db_scheme) result" where
  "grant_membership organization_id user_id role_key s =
     bindR (some_or (role_by_key s role_key)
              (RuntimeError ''authorization catalog has not been bootstrapped'')) (\<lambda>role.
       case find (\<lambda>m. mb_org m = organization_id \<and> mb_user m = user_id \<and> mb_role m = rl_id role)
              (memberships s) of
         Some m \<Rightarrow> Inr (m, s)
       | None \<Rightarrow>
           bindR (require (exists_row (\<lambda>og. og_id og = organization_id) (organizations s) \<and>
                           exists_row (\<lambda>u. us_id u = user_id) (users s))
                    (IntegrityError ''memberships'')) (\<lambda>_.
             let m = \<lparr>mb_id = uuid4 s, mb_org = organization_id, mb_user = user_id,
               mb_role = rl_id role\<rparr>
             in Inr (m, draw s\<lparr>memberships := memberships s @ [m]\<rparr>)))"

definition grant_workspace_membership ::
  "uuid \<Rightarrow> uuid \<Rightarrow> uuid \<Rightarrow> 'z identity_db_scheme
   \<Rightarrow> (workspace_membership_row \<times> 'z identity_db_scheme) result" where
  "grant_workspace_membership organization_id membership_id workspace_id s =
     (case (find (\<lambda>m. mb_id m = membership_id) (memberships s),
            find (\<lambda>w. ws_id w = workspace_id) (workspaces s)) of
        (Some m, Some w) \<Rightarrow>
          if mb_org m \<noteq> organization_id \<or> ws_org w \<noteq> organization_id
          then Inl (ValueError ''workspace membership must remain within its organization'')
          else (case find (\<lambda>x. wm_membership x = membership_id \<and> wm_workspace x = workspace_id)
                       (workspace_memberships s) of
                  Some x \<Rightarrow> Inr (x, s)
                | None \<Rightarrow>
                    (let x = \<lparr>wm_id = uuid4 s, wm_org = ws_org w, wm_workspace = workspace_id,
                       wm_membership = membership_id\<rparr>
                     in Inr (x, draw s\<lparr>workspace_memberships := workspace_memberships s @ [x]\<rparr>)))
      | _ \<Rightarrow> Inl (ValueError ''workspace membership must remain within its organization''))"

section \<open>Access decisions\<close>

definition membership_role :: "'z identity_db_scheme \<Rightarrow> membership_row \<Rightarrow> role_key option" where
  "membership_role s m = map_option rl_key (find (\<lambda>r. rl_id r = mb_role m) (roles s))"

text \<open>\<open>select(Membership).join(Membership.role)\<close> for one organization and user: an inner join.\<close>

definition memberships_of :: "'z identity_db_scheme \<Rightarrow> uuid \<Rightarrow> uuid \<Rightarrow> (membership_row \<times> role_key) list"
where
  "memberships_of s organization_id user_id =
     concat (map (\<lambda>m. if mb_org m = organization_id \<and> mb_user m = user_id
        then (case membership_role s m of None \<Rightarrow> [] | Some k \<Rightarrow> [(m, k)]) else [])
        (memberships s))"

definition is_admin :: "role_key \<Rightarrow> bool" where
  "is_admin k \<longleftrightarrow> k \<in> {PLATFORM_ADMIN, ORGANIZATION_ADMIN}"

definition can_access_organization ::
  "'z identity_db_scheme \<Rightarrow> uuid \<Rightarrow> uuid \<Rightarrow> permission_key \<Rightarrow> bool" where
  "can_access_organization s user_id organization_id permission \<longleftrightarrow>
     list_ex (\<lambda>(m, k). permission \<in> permissions_for k) (memberships_of s organization_id user_id)"

definition can_access_workspace ::
  "'z identity_db_scheme \<Rightarrow> uuid \<Rightarrow> uuid \<Rightarrow> uuid \<Rightarrow> permission_key \<Rightarrow> bool" where
  "can_access_workspace s user_id organization_id workspace_id permission =
     (case find (\<lambda>w. ws_id w = workspace_id) (workspaces s) of
        None \<Rightarrow> False
      | Some w \<Rightarrow>
          if ws_org w \<noteq> organization_id then False
          else
            (let allowed = filter (\<lambda>(m, k). permission \<in> permissions_for k)
                   (memberships_of s organization_id user_id)
             in if allowed = [] then False
                else if list_ex (\<lambda>(m, k). is_admin k) allowed then True
                else exists_row (\<lambda>x. wm_workspace x = workspace_id \<and>
                       wm_membership x \<in> set (map (mb_id \<circ> fst) allowed)) (workspace_memberships s)))"



text \<open>\<open>hide_resource\<close> raises 404 without disclosing whether the resource exists.\<close>

definition hide_resource :: exn where
  "hide_resource = http_error 404 ''resource_not_found''"

section \<open>Lemmas\<close>

lemma draw_simps [simp]:
  "uuid_src (draw s) = uuid_src s" "uuid_used (draw s) = Suc (uuid_used s)"
  by (simp_all add: draw_def)

lemma used_draw [simp]: "used_ids (draw s) = insert (uuid4 s) (used_ids s)"
  by (simp add: used_ids_def uuid4_def lessThan_Suc)

lemma uuid4_fresh: "inj (uuid_src s) \<Longrightarrow> uuid4 s \<notin> used_ids s"
  by (auto simp: used_ids_def uuid4_def inj_eq)

lemma draw_identity [simp]:
  "users (draw s) = users s" "organizations (draw s) = organizations s"
  "workspaces (draw s) = workspaces s" "roles (draw s) = roles s"
  "permissions (draw s) = permissions s" "role_permissions (draw s) = role_permissions s"
  "memberships (draw s) = memberships s"
  "workspace_memberships (draw s) = workspace_memberships s"
  by (simp_all add: draw_def)

lemma in_memberships_of:
  "(m, k) \<in> set (memberships_of s o' u) \<longleftrightarrow>
     m \<in> set (memberships s) \<and> mb_org m = o' \<and> mb_user m = u \<and> membership_role s m = Some k"
  by (auto simp: memberships_of_def split: if_splits option.splits)

text \<open>What a grant is: a membership whose role carries the permission, tenant-wide for the
  two administrator roles and through a workspace membership for every other role.\<close>

definition granted ::
  "'z identity_db_scheme \<Rightarrow> uuid \<Rightarrow> uuid \<Rightarrow> uuid \<Rightarrow> permission_key \<Rightarrow> bool" where
  "granted s u o' w p \<longleftrightarrow>
     (\<exists>x. find (\<lambda>x. ws_id x = w) (workspaces s) = Some x \<and> ws_org x = o') \<and>
     (\<exists>m k. m \<in> set (memberships s) \<and> mb_org m = o' \<and> mb_user m = u \<and>
        membership_role s m = Some k \<and> p \<in> permissions_for k \<and>
        (is_admin k \<or> (\<exists>x \<in> set (workspace_memberships s).
           wm_workspace x = w \<and> wm_membership x = mb_id m)))"

lemma can_access_workspace_granted:
  "can_access_workspace s u o' w p \<longleftrightarrow> granted s u o' w p"
proof (cases "find (\<lambda>x. ws_id x = w) (workspaces s)")
  case None
  then show ?thesis by (simp add: can_access_workspace_def granted_def)
next
  case (Some x)
  let ?a = "filter (\<lambda>(m, k). p \<in> permissions_for k) (memberships_of s o' u)"
  have a: "(m, k) \<in> set ?a \<longleftrightarrow> m \<in> set (memberships s) \<and> mb_org m = o' \<and> mb_user m = u \<and>
      membership_role s m = Some k \<and> p \<in> permissions_for k" for m k
    by (auto simp: in_memberships_of)
  have wm: "exists_row (\<lambda>y. wm_workspace y = w \<and> wm_membership y \<in> set (map (mb_id \<circ> fst) ?a))
        (workspace_memberships s) \<longleftrightarrow>
      (\<exists>m k. (m, k) \<in> set ?a \<and> (\<exists>y \<in> set (workspace_memberships s).
        wm_workspace y = w \<and> wm_membership y = mb_id m))"
    by (simp only: exists_row_iff set_map) force
  have ad: "list_ex (\<lambda>(m, k). is_admin k) ?a \<longleftrightarrow> (\<exists>m k. (m, k) \<in> set ?a \<and> is_admin k)"
    by (simp only: list_ex_iff) force
  have ne: "?a = [] \<longleftrightarrow> \<not> (\<exists>m k. (m, k) \<in> set ?a)"
    by (metis list.set_intros(1) neq_Nil_conv list.set(1) empty_iff surj_pair)
  have "can_access_workspace s u o' w p \<longleftrightarrow> ws_org x = o' \<and> ?a \<noteq> [] \<and>
      (list_ex (\<lambda>(m, k). is_admin k) ?a \<or>
       exists_row (\<lambda>y. wm_workspace y = w \<and> wm_membership y \<in> set (map (mb_id \<circ> fst) ?a))
        (workspace_memberships s))"
    using Some by (simp add: can_access_workspace_def Let_def)
  also have "\<dots> \<longleftrightarrow> ws_org x = o' \<and> (\<exists>m k. (m, k) \<in> set ?a \<and>
      (is_admin k \<or> (\<exists>y \<in> set (workspace_memberships s).
        wm_workspace y = w \<and> wm_membership y = mb_id m)))"
    unfolding wm ad ne by blast
  also have "\<dots> \<longleftrightarrow> granted s u o' w p"
    using Some by (simp only: granted_def a) auto
  finally show ?thesis .
qed

lemma granted_identity_only:
  assumes "workspaces s' = workspaces s" "memberships s' = memberships s" "roles s' = roles s"
    "workspace_memberships s' = workspace_memberships s"
  shows "can_access_workspace s' u o' w p = can_access_workspace s u o' w p"
  using assms by (simp add: can_access_workspace_granted granted_def membership_role_def)

subsection \<open>Grants\<close>

lemma grant_membership_effect:
  assumes "grant_membership g u k s = Inr (m, s')"
  shows "workspaces s' = workspaces s \<and> roles s' = roles s \<and>
    workspace_memberships s' = workspace_memberships s \<and>
    set (memberships s') = insert m (set (memberships s)) \<and> mb_org m = g \<and> mb_user m = u"
proof -
  from assms obtain r where r: "role_by_key s k = Some r"
    by (auto simp: grant_membership_def result_simps)
  let ?f = "find (\<lambda>m. mb_org m = g \<and> mb_user m = u \<and> mb_role m = rl_id r) (memberships s)"
  show ?thesis
  proof (cases ?f)
    case None
    then show ?thesis using assms r by (auto simp: grant_membership_def result_simps Let_def)
  next
    case (Some y)
    with assms r have "m = y" "s' = s" by (auto simp: grant_membership_def)
    with find_SomeD [OF Some] show ?thesis by auto
  qed
qed

lemma grant_workspace_membership_effect:
  assumes "grant_workspace_membership g mid w s = Inr (x, s')"
  shows "workspaces s' = workspaces s \<and> roles s' = roles s \<and> memberships s' = memberships s \<and>
    set (workspace_memberships s') = insert x (set (workspace_memberships s)) \<and>
    wm_membership x = mid \<and> wm_workspace x = w \<and>
    (\<exists>m. find (\<lambda>m. mb_id m = mid) (memberships s) = Some m \<and> mb_org m = g) \<and>
    (\<exists>y. find (\<lambda>y. ws_id y = w) (workspaces s) = Some y \<and> ws_org y = g)"
proof -
  from assms obtain m y where my: "find (\<lambda>m. mb_id m = mid) (memberships s) = Some m"
      "find (\<lambda>y. ws_id y = w) (workspaces s) = Some y" "mb_org m = g" "ws_org y = g"
    by (auto simp: grant_workspace_membership_def split: option.splits if_splits)
  let ?f = "find (\<lambda>x. wm_membership x = mid \<and> wm_workspace x = w) (workspace_memberships s)"
  show ?thesis
  proof (cases ?f)
    case None
    then show ?thesis using assms my by (auto simp: grant_workspace_membership_def Let_def)
  next
    case (Some z)
    with assms my have "x = z" "s' = s" by (auto simp: grant_workspace_membership_def)
    with find_SomeD [OF Some] my show ?thesis by auto
  qed
qed

subsection \<open>The catalogue\<close>

lemma ensure_roles_keeps:
  "set (roles s) \<subseteq> set (roles (ensure_roles ks s))"
  by (induction ks s rule: ensure_roles.induct) (auto simp: subset_iff)

lemma ensure_roles_complete:
  "rl_key ` set (roles (ensure_roles ks s)) = rl_key ` set (roles s) \<union> set ks"
  by (induction ks s rule: ensure_roles.induct) auto

lemma ensure_roles_distinct:
  "distinct (map rl_key (roles s)) \<Longrightarrow> distinct (map rl_key (roles (ensure_roles ks s)))"
  by (induction ks s rule: ensure_roles.induct) auto

lemma ensure_roles_idle: "set ks \<subseteq> rl_key ` set (roles s) \<Longrightarrow> ensure_roles ks s = s"
  by (induction ks s rule: ensure_roles.induct) auto

lemma ensure_roles_frame [frame]:
  "permissions (ensure_roles ks s) = permissions s"
  "role_permissions (ensure_roles ks s) = role_permissions s"
  by (induction ks s rule: ensure_roles.induct) auto

lemma ensure_permissions_complete:
  "pm_key ` set (permissions (ensure_permissions ks s)) = pm_key ` set (permissions s) \<union> set ks"
  by (induction ks s rule: ensure_permissions.induct) auto

lemma ensure_permissions_idle:
  "set ks \<subseteq> pm_key ` set (permissions s) \<Longrightarrow> ensure_permissions ks s = s"
  by (induction ks s rule: ensure_permissions.induct) auto

lemma ensure_permissions_frame [frame]:
  "roles (ensure_permissions ks s) = roles s"
  "role_permissions (ensure_permissions ks s) = role_permissions s"
  by (induction ks s rule: ensure_permissions.induct) auto

lemma ensure_role_permissions_frame [frame]:
  "roles (ensure_role_permissions ex ks s) = roles s"
  "permissions (ensure_role_permissions ex ks s) = permissions s"
  by (induction ex ks s rule: ensure_role_permissions.induct)
    (auto split: option.splits)

definition rp_pairs :: "'z identity_db_scheme \<Rightarrow> (uuid \<times> uuid) set" where
  "rp_pairs s = (\<lambda>rp. (rp_role rp, rp_permission rp)) ` set (role_permissions s)"

definition catalog_linked :: "'z identity_db_scheme \<Rightarrow> role_key \<Rightarrow> permission_key \<Rightarrow> bool" where
  "catalog_linked s r p \<longleftrightarrow> (\<exists>rl pm. role_by_key s r = Some rl \<and>
     permission_by_key s p = Some pm \<and> (rl_id rl, pm_id pm) \<in> rp_pairs s)"

definition pair_row :: "'z identity_db_scheme \<Rightarrow> role_key \<times> permission_key \<Rightarrow> (uuid \<times> uuid) option"
where
  "pair_row s kp = (case (role_by_key s (fst kp), permission_by_key s (snd kp)) of
     (Some r, Some p) \<Rightarrow> Some (rl_id r, pm_id p) | _ \<Rightarrow> None)"

lemma pair_row_cong:
  "roles s' = roles s \<Longrightarrow> permissions s' = permissions s \<Longrightarrow> pair_row s' kp = pair_row s kp"
  by (simp add: pair_row_def role_by_key_def permission_by_key_def)

lemma ensure_role_permissions_pairs:
  "rp_pairs (ensure_role_permissions ex ks s) =
     rp_pairs s \<union> {q. q \<notin> set ex \<and> (\<exists>kp \<in> set ks. pair_row s kp = Some q)}"
proof (induction ks arbitrary: s)
  case Nil
  then show ?case by simp
next
  case (Cons kp ks)
  obtain rk pk where kp: "kp = (rk, pk)" by force
  show ?case
  proof (cases "pair_row s kp")
    case None
    then have "ensure_role_permissions ex (kp # ks) s = ensure_role_permissions ex ks s"
      by (auto simp: kp pair_row_def split: option.splits)
    then show ?thesis using Cons.IH [of s] None by auto
  next
    case (Some q)
    then obtain r p where rp: "role_by_key s rk = Some r" "permission_by_key s pk = Some p"
      and q: "q = (rl_id r, pm_id p)"
      by (auto simp: kp pair_row_def split: option.splits)
    let ?s' = "draw s\<lparr>role_permissions := role_permissions s @
        [\<lparr>rp_id = uuid4 s, rp_role = rl_id r, rp_permission = pm_id p\<rparr>]\<rparr>"
    have same: "pair_row ?s' x = pair_row s x" for x by (rule pair_row_cong) simp_all
    have new: "rp_pairs ?s' = insert q (rp_pairs s)" by (auto simp: rp_pairs_def q)
    show ?thesis
      using Cons.IH [of s] Cons.IH [of ?s'] rp Some
      by (auto simp: kp q [symmetric] same new)
  qed
qed

lemma ensure_role_permissions_idle:
  "\<forall>kp \<in> set ks. \<forall>q. pair_row s kp = Some q \<longrightarrow> q \<in> set ex \<Longrightarrow> ensure_role_permissions ex ks s = s"
  by (induction ks) (auto simp: pair_row_def split: option.splits)

lemma in_catalog_pairs: "(r, p) \<in> set catalog_pairs \<longleftrightarrow> p \<in> permissions_for r"
  using RoleKey_UNIV by (auto simp: catalog_pairs_def permissions_for_def)

lemma bootstrap_pairs:
  assumes kp: "kp \<in> set catalog_pairs"
    and q: "pair_row (bootstrap_authorization_catalog s) kp = Some q"
  shows "q \<in> rp_pairs (bootstrap_authorization_catalog s)"
proof -
  let ?s1 = "ensure_permissions PermissionKey (ensure_roles RoleKey s)"
  let ?ex = "map (\<lambda>rp. (rp_role rp, rp_permission rp)) (role_permissions ?s1)"
  have b: "bootstrap_authorization_catalog s = ensure_role_permissions ?ex catalog_pairs ?s1"
    by (simp add: bootstrap_authorization_catalog_def Let_def)
  have "pair_row ?s1 kp = Some q"
    using q pair_row_cong [of "bootstrap_authorization_catalog s" ?s1 kp] unfolding b
    by (simp add: frame)
  moreover have "set ?ex = rp_pairs ?s1" by (simp add: rp_pairs_def)
  ultimately show ?thesis unfolding b ensure_role_permissions_pairs using kp by blast
qed

lemma bootstrap_keys:
  "rl_key ` set (roles (bootstrap_authorization_catalog s)) = UNIV"
  "pm_key ` set (permissions (bootstrap_authorization_catalog s)) = UNIV"
  by (auto simp: bootstrap_authorization_catalog_def Let_def frame ensure_roles_complete
      ensure_permissions_complete RoleKey_UNIV PermissionKey_UNIV)

subsection \<open>Listing\<close>





section \<open>Properties\<close>

text \<open>
  C1: the access decision of \<open>can_access_workspace\<close> is exactly a grant: the workspace belongs to
  the organization, and one of the principal's memberships there has a role with the permission
  that is an administrator role or is tied to the workspace.
\<close>

theorem access_decision_is_grant: "can_access_workspace s u g w p = granted s u g w p"
  by (rule can_access_workspace_granted)

text \<open>
  C2: granting a membership never changes an access decision of another organization or of
  another user, and never takes a permission away.
\<close>

theorem grant_membership_isolated:
  assumes "grant_membership g u k s = Inr (m, s')"
  shows "(can_access_workspace s u' g' w p \<longrightarrow> can_access_workspace s' u' g' w p) \<and>
    ((g', u') \<noteq> (g, u) \<longrightarrow> can_access_workspace s' u' g' w p = can_access_workspace s u' g' w p)"
proof -
  note e = grant_membership_effect [OF assms]
  have r: "membership_role s' x = membership_role s x" for x
    using e by (simp add: membership_role_def)
  show ?thesis using e unfolding can_access_workspace_granted granted_def r by auto
qed

text \<open>
  Bootstrapping the catalogue is complete (every role and permission has a row and every
  pair of \<open>ROLE_PERMISSIONS\<close> has its link) and idempotent (a second run writes nothing).
\<close>

theorem bootstrap_complete_idempotent:
  "rl_key ` set (roles (bootstrap_authorization_catalog s)) = UNIV \<and>
   pm_key ` set (permissions (bootstrap_authorization_catalog s)) = UNIV \<and>
   {(r, p). p \<in> permissions_for r} \<subseteq>
     {(r, p). catalog_linked (bootstrap_authorization_catalog s) r p} \<and>
   bootstrap_authorization_catalog (bootstrap_authorization_catalog s) =
     bootstrap_authorization_catalog s"
proof -
  define b where "b = bootstrap_authorization_catalog s"
  have rl: "\<exists>x. role_by_key b r = Some x" for r
  proof -
    have "r \<in> rl_key ` set (roles b)" by (simp add: b_def bootstrap_keys)
    then have "role_by_key b r \<noteq> None" by (auto simp: role_by_key_def find_None_iff')
    then show ?thesis by blast
  qed
  have pm: "\<exists>x. permission_by_key b p = Some x" for p
  proof -
    have "p \<in> pm_key ` set (permissions b)" by (simp add: b_def bootstrap_keys)
    then have "permission_by_key b p \<noteq> None" by (auto simp: permission_by_key_def find_None_iff')
    then show ?thesis by blast
  qed
  have pair: "q \<in> rp_pairs b" if "kp \<in> set catalog_pairs" "pair_row b kp = Some q" for kp q
    using that unfolding b_def by (rule bootstrap_pairs)
  have links: "catalog_linked b r p" if "p \<in> permissions_for r" for r p
    using rl [of r] pm [of p] pair [of "(r, p)"] that
    by (auto simp: catalog_linked_def pair_row_def in_catalog_pairs)
  have i1: "ensure_roles RoleKey b = b"
    by (rule ensure_roles_idle) (simp add: b_def bootstrap_keys)
  have i2: "ensure_permissions PermissionKey b = b"
    by (rule ensure_permissions_idle) (simp add: b_def bootstrap_keys)
  have i3: "ensure_role_permissions (map (\<lambda>rp. (rp_role rp, rp_permission rp)) (role_permissions b))
      catalog_pairs b = b"
    by (rule ensure_role_permissions_idle) (use pair in \<open>auto simp: rp_pairs_def\<close>)
  have "bootstrap_authorization_catalog b = b"
    unfolding bootstrap_authorization_catalog_def Let_def i1 i2 by (rule i3)
  then show ?thesis using links by (auto simp: b_def bootstrap_keys)
qed


section \<open>A concrete tenant\<close>

text \<open>
  One organization with one workspace. \<open>U1\<close> is legal reviewer and business user there through
  two memberships, as the local demo seeds its reviewer; \<open>A1\<close> and \<open>A2\<close> are legal administrators,
  \<open>B1\<close> is a business user and \<open>P1\<close> a platform administrator. The tables of later components go into the record's extension.
\<close>

definition demo_uuid :: "nat \<Rightarrow> uuid" where
  "demo_uuid n = replicate n CHR ''u''"

lemma demo_uuid_eq [simp]: "demo_uuid m = demo_uuid n \<longleftrightarrow> m = n"
  by (simp add: demo_uuid_def)

lemma inj_demo_uuid [simp]: "inj demo_uuid"
  by (simp add: inj_def)

definition demo_tenant :: "'z \<Rightarrow> 'z identity_db_scheme" where
  "demo_tenant rest = \<lparr>uuid_src = demo_uuid, uuid_used = 0,
     users = [\<lparr>us_id = ''U1'', us_oidc_issuer = ''i'', us_oidc_subject = ''s'',
        us_display_name = ''Rev'', us_email = None\<rparr>],
     organizations = [\<lparr>og_id = ''G1'', og_name = ''Org'', og_slug = ''org''\<rparr>],
     workspaces = [\<lparr>ws_id = ''W1'', ws_org = ''G1'', ws_name = ''Ws'', ws_slug = ''ws''\<rparr>],
     roles = [\<lparr>rl_id = ''R1'', rl_key = LEGAL_REVIEWER, rl_name = ''Legal Reviewer''\<rparr>,
        \<lparr>rl_id = ''R2'', rl_key = BUSINESS_USER, rl_name = ''Business User''\<rparr>,
        \<lparr>rl_id = ''R3'', rl_key = LEGAL_ADMIN, rl_name = ''Legal Admin''\<rparr>,
        \<lparr>rl_id = ''R4'', rl_key = PLATFORM_ADMIN, rl_name = ''Platform Admin''\<rparr>],
     permissions = [], role_permissions = [],
     memberships = [\<lparr>mb_id = ''M1'', mb_org = ''G1'', mb_user = ''U1'', mb_role = ''R1''\<rparr>,
        \<lparr>mb_id = ''M2'', mb_org = ''G1'', mb_user = ''U1'', mb_role = ''R2''\<rparr>,
        \<lparr>mb_id = ''M3'', mb_org = ''G1'', mb_user = ''A1'', mb_role = ''R3''\<rparr>,
        \<lparr>mb_id = ''M4'', mb_org = ''G1'', mb_user = ''A2'', mb_role = ''R3''\<rparr>,
        \<lparr>mb_id = ''M5'', mb_org = ''G1'', mb_user = ''B1'', mb_role = ''R2''\<rparr>,
        \<lparr>mb_id = ''M6'', mb_org = ''G1'', mb_user = ''P1'', mb_role = ''R4''\<rparr>],
     workspace_memberships = [
        \<lparr>wm_id = ''X1'', wm_org = ''G1'', wm_workspace = ''W1'', wm_membership = ''M1''\<rparr>,
        \<lparr>wm_id = ''X2'', wm_org = ''G1'', wm_workspace = ''W1'', wm_membership = ''M2''\<rparr>,
        \<lparr>wm_id = ''X3'', wm_org = ''G1'', wm_workspace = ''W1'', wm_membership = ''M3''\<rparr>,
        \<lparr>wm_id = ''X4'', wm_org = ''G1'', wm_workspace = ''W1'', wm_membership = ''M4''\<rparr>,
        \<lparr>wm_id = ''X5'', wm_org = ''G1'', wm_workspace = ''W1'', wm_membership = ''M5''\<rparr>],
     \<dots> = rest\<rparr>"

definition demo_identity :: identity_db where
  "demo_identity = demo_tenant ()"

text \<open>The tenant tables do not depend on the extension, so an access decision is computed once.\<close>

definition demo_access :: "uuid \<Rightarrow> permission_key \<Rightarrow> bool" where
  "demo_access u p \<longleftrightarrow> u \<in> {''A1'', ''A2''} \<and> p \<in> permissions_for LEGAL_ADMIN \<or>
     u = ''U1'' \<and> p \<in> permissions_for LEGAL_REVIEWER \<union> permissions_for BUSINESS_USER \<or>
     u = ''B1'' \<and> p \<in> permissions_for BUSINESS_USER \<or>
     u = ''P1'' \<and> p \<in> permissions_for PLATFORM_ADMIN"

definition same_tenant :: "'z identity_db_scheme \<Rightarrow> bool" where
  "same_tenant s \<longleftrightarrow> workspaces s = workspaces demo_identity \<and> roles s = roles demo_identity \<and>
     memberships s = memberships demo_identity \<and>
     workspace_memberships s = workspace_memberships demo_identity"

lemma same_tenant_demo [simp]: "same_tenant (demo_tenant rest)"
  by (simp add: same_tenant_def demo_identity_def demo_tenant_def)

lemma same_tenant_draw [simp]: "same_tenant (draw s) = same_tenant s"
  by (simp add: same_tenant_def draw_def)

lemma same_tenant_more [simp]: "same_tenant (s\<lparr>identity_db.more := m\<rparr>) = same_tenant s"
  by (simp add: same_tenant_def)

lemma same_tenant_access:
  assumes "same_tenant s"
  shows "can_access_workspace s u ''G1'' ''W1'' p = demo_access u p"
proof -
  have "memberships_of s ''G1'' u =
     (if u = ''U1'' then
        [(\<lparr>mb_id = ''M1'', mb_org = ''G1'', mb_user = ''U1'', mb_role = ''R1''\<rparr>, LEGAL_REVIEWER),
         (\<lparr>mb_id = ''M2'', mb_org = ''G1'', mb_user = ''U1'', mb_role = ''R2''\<rparr>, BUSINESS_USER)]
      else if u = ''A1'' then
        [(\<lparr>mb_id = ''M3'', mb_org = ''G1'', mb_user = ''A1'', mb_role = ''R3''\<rparr>, LEGAL_ADMIN)]
      else if u = ''A2'' then
        [(\<lparr>mb_id = ''M4'', mb_org = ''G1'', mb_user = ''A2'', mb_role = ''R3''\<rparr>, LEGAL_ADMIN)]
      else if u = ''B1'' then
        [(\<lparr>mb_id = ''M5'', mb_org = ''G1'', mb_user = ''B1'', mb_role = ''R2''\<rparr>, BUSINESS_USER)]
      else if u = ''P1'' then
        [(\<lparr>mb_id = ''M6'', mb_org = ''G1'', mb_user = ''P1'', mb_role = ''R4''\<rparr>, PLATFORM_ADMIN)]
      else [])"
    using assms
    by (simp add: same_tenant_def memberships_of_def membership_role_def demo_identity_def demo_tenant_def)
  moreover have "workspaces s = [\<lparr>ws_id = ''W1'', ws_org = ''G1'', ws_name = ''Ws'', ws_slug = ''ws''\<rparr>]"
    "workspace_memberships s = workspace_memberships demo_identity"
    using assms by (simp_all add: same_tenant_def demo_identity_def demo_tenant_def)
  ultimately show ?thesis
    by (auto simp: can_access_workspace_def demo_access_def is_admin_def demo_identity_def
        demo_tenant_def)
qed


theorem grant_membership_isolated_witness:
  "\<exists>m s'. grant_membership ''G1'' ''U1'' LEGAL_ADMIN demo_identity = Inr (m, s') \<and>
     can_access_workspace s' ''U9'' ''G1'' ''W1'' REVIEWS_ASSIGN =
     can_access_workspace demo_identity ''U9'' ''G1'' ''W1'' REVIEWS_ASSIGN"
proof -
  obtain m s' where g: "grant_membership ''G1'' ''U1'' LEGAL_ADMIN demo_identity = Inr (m, s')"
    by (simp add: grant_membership_def role_by_key_def demo_identity_def demo_tenant_def Let_def)
  show ?thesis using g grant_membership_isolated [OF g, of "''U9''" "''G1''"] by auto
qed


end
