(* ===== verification/Agreements.thy ===== *)
theory Agreements
  imports Identity
begin

text \<open>
  The agreement tables every other component reads (\<open>agreements/models.py\<close>) and the single
  boundary through which user-visible agreements are loaded (\<open>agreements/access.py\<close>).
\<close>

record agreement_row =
  ag_id :: uuid
  ag_org :: uuid
  ag_ws :: uuid
  ag_title :: string
  ag_type :: string
  ag_status :: string
  ag_parties :: json
  ag_files :: json
  ag_processing_state :: string
  ag_audit_metadata :: json
  ag_audit_events :: json
  ag_current_version :: "uuid option"
  ag_baseline_version :: "uuid option"
  ag_archived_at :: "datetime option"
  ag_created_at :: datetime
  ag_updated_at :: datetime
  ag_deletion_requested_at :: "datetime option"

record agreement_version_row =
  vr_id :: uuid
  vr_agreement :: uuid
  vr_org :: uuid
  vr_ws :: uuid
  vr_number :: int
  vr_predecessor :: "uuid option"
  vr_file_name :: string
  vr_content_type :: string
  vr_storage_key :: string
  vr_checksum :: string
  vr_byte_size :: int
  vr_uploaded_by :: uuid
  vr_uploaded_at :: datetime
  vr_processing_state :: string
  vr_processing_job :: "uuid option"
  vr_extraction_version :: "string option"
  vr_analysis_provenance :: json
  vr_idempotency_key :: string

record agreement_db = identity_db +
  agreements :: "agreement_row list"
  agreement_versions :: "agreement_version_row list"

lemma draw_agreement [simp]:
  "agreements (draw s) = agreements s" "agreement_versions (draw s) = agreement_versions s"
  by (simp_all add: draw_def)

text \<open>\<open>active_agreement_statement\<close>: an agreement of the scope that is not being deleted.\<close>

definition active_agreement ::
  "'z agreement_db_scheme \<Rightarrow> uuid \<Rightarrow> uuid \<Rightarrow> uuid \<Rightarrow> agreement_row option" where
  "active_agreement s agreement_id organization_id workspace_id =
     find (\<lambda>a. ag_id a = agreement_id \<and> ag_org a = organization_id \<and> ag_ws a = workspace_id \<and>
        ag_deletion_requested_at a = None) (agreements s)"

text \<open>\<open>active_agreement_condition\<close>: for queries that already join the agreement.\<close>

definition agreement_is_active :: "'z agreement_db_scheme \<Rightarrow> uuid \<Rightarrow> bool" where
  "agreement_is_active s agreement_id \<longleftrightarrow>
     exists_row (\<lambda>a. ag_id a = agreement_id \<and> ag_deletion_requested_at a = None) (agreements s)"

lemma active_agreementD:
  "active_agreement s a g w = Some r \<Longrightarrow> r \<in> set (agreements s) \<and> ag_id r = a \<and> ag_org r = g \<and>
     ag_ws r = w \<and> ag_deletion_requested_at r = None"
  unfolding active_agreement_def by (auto dest: find_SomeD)

section \<open>The contract of a guarded operation\<close>

text \<open>
  Every service method that takes a principal and a scope refuses with the resource-agnostic 404
  unless the principal holds the method's permission in the workspace. The locale states that law;
  its lemmas are what each service gains from it.
\<close>

locale guarded =
  fixes op :: "'z identity_db_scheme \<Rightarrow> uuid \<Rightarrow> uuid \<Rightarrow> uuid \<Rightarrow> 'a result"
    and permission :: permission_key
  assumes refuses: "\<not> can_access_workspace s u g w permission \<Longrightarrow> op s u g w = Inl hide_resource"
begin

lemma success_granted: "op s u g w = Inr r \<Longrightarrow> granted s u g w permission"
  using refuses [of s u g w] by (auto simp: can_access_workspace_granted)

lemma success_member:
  assumes "op s u g w = Inr r"
  shows "\<exists>m k. m \<in> set (memberships s) \<and> mb_org m = g \<and> mb_user m = u \<and>
    membership_role s m = Some k \<and> permission \<in> permissions_for k"
  using success_granted [OF assms] by (auto simp: granted_def)

lemma success_scope:
  assumes "op s u g w = Inr r"
  shows "\<exists>x. find (\<lambda>x. ws_id x = w) (workspaces s) = Some x \<and> ws_org x = g"
  using success_granted [OF assms] by (auto simp: granted_def)

lemma stranger_refused:
  assumes "\<forall>m \<in> set (memberships s). \<not> (mb_org m = g \<and> mb_user m = u)"
  shows "op s u g w = Inl hide_resource"
  by (rule refuses) (use assms in \<open>auto simp: can_access_workspace_granted granted_def\<close>)

lemma foreign_workspace_refused:
  assumes "find (\<lambda>x. ws_id x = w) (workspaces s) = Some x" and "ws_org x \<noteq> g"
  shows "op s u g w = Inl hide_resource"
  by (rule refuses) (use assms in \<open>auto simp: can_access_workspace_granted granted_def\<close>)

end

end
