(* ===== verification/Approval_Policies.thy ===== *)
theory Approval_Policies
  imports Agreements "HOL-Library.Product_Lexorder"
begin

text \<open>
  Versioned approval policies (\<open>approval_policies/models.py\<close>, \<open>schemas.py\<close>, \<open>service.py\<close>):
  drafts, publication with validation, and routing of a review to the one policy that applies.
\<close>

section \<open>Tables and requests\<close>

datatype policy_status = Draft | Published

datatype approval_mode = ModeAny | ModeAll | ModeQuorum

record policy_row =
  ap_id :: uuid
  ap_org :: uuid
  ap_ws :: uuid
  ap_name :: string
  ap_family :: string
  ap_direction :: string
  ap_jurisdiction :: string
  ap_materiality :: string
  ap_precedence :: int
  ap_created_by :: uuid
  ap_created_at :: datetime

record policy_version_row =
  av_id :: uuid
  av_org :: uuid
  av_ws :: uuid
  av_policy :: uuid
  av_version :: nat
  av_status :: policy_status
  av_submitter_may_approve :: bool
  av_allow_cross_stage_same_approver :: bool
  av_created_by :: uuid
  av_created_at :: datetime
  av_published_at :: "datetime option"

record policy_stage_row =
  ps_id :: uuid
  ps_org :: uuid
  ps_ws :: uuid
  ps_version :: uuid
  ps_ordinal :: nat
  ps_name :: string
  ps_mode :: approval_mode
  ps_quorum :: "nat option"
  ps_roles :: "string list"
  ps_users :: "uuid list"
  ps_deadline_hours :: "int option"
  ps_escalation_role :: "string option"

record policy_audit_row =
  pa_id :: uuid
  pa_org :: uuid
  pa_ws :: uuid
  pa_policy :: uuid
  pa_version :: "uuid option"
  pa_action :: string
  pa_actor :: uuid
  pa_metadata :: json
  pa_occurred_at :: datetime

record policy_db = agreement_db +
  policies :: "policy_row list"
  policy_versions :: "policy_version_row list"
  policy_stages :: "policy_stage_row list"
  policy_audit :: "policy_audit_row list"

lemma draw_policy [simp]:
  "policies (draw s) = policies s" "policy_versions (draw s) = policy_versions s"
  "policy_stages (draw s) = policy_stages s" "policy_audit (draw s) = policy_audit s"
  by (simp_all add: draw_def)

record stage_write =
  sw_name :: string
  sw_mode :: approval_mode
  sw_quorum :: "nat option"
  sw_roles :: "string list"
  sw_users :: "uuid list"
  sw_deadline_hours :: "int option"
  sw_escalation_role :: "string option"

record create_policy_request =
  cp_name :: string
  cp_family :: string
  cp_direction :: string
  cp_jurisdiction :: string
  cp_materiality :: string
  cp_precedence :: int
  cp_submitter_may_approve :: bool
  cp_allow_cross_stage_same_approver :: bool
  cp_stages :: "stage_write list"

record route_request =
  rq_family :: string
  rq_direction :: string
  rq_jurisdiction :: string
  rq_materiality :: string

record policy_response =
  pr_version :: policy_version_row
  pr_policy :: policy_row
  pr_stages :: "policy_stage_row list"
  pr_events :: "policy_audit_row list"

section \<open>Routing keys and scopes\<close>

definition scope_matches :: "string \<Rightarrow> string \<Rightarrow> bool" where
  "scope_matches policy_value requested_value \<longleftrightarrow>
     policy_value = ''any'' \<or> policy_value = requested_value"

definition normalize_scope_value :: "string \<Rightarrow> string" where
  "normalize_scope_value value = (if str_lower value = ''any'' then ''any'' else str_upper value)"

definition route_sort_key :: "policy_row \<Rightarrow> int \<times> int" where
  "route_sort_key p =
     (sum_list (map (\<lambda>v. if v \<noteq> ''any'' then 1 else 0)
        [ap_direction p, ap_jurisdiction p, ap_materiality p]), ap_precedence p)"

definition scope_values_overlap :: "string \<Rightarrow> string \<Rightarrow> bool" where
  "scope_values_overlap first second \<longleftrightarrow> first = ''any'' \<or> second = ''any'' \<or> first = second"

definition routing_scopes_overlap :: "policy_row \<Rightarrow> policy_row \<Rightarrow> bool" where
  "routing_scopes_overlap p q \<longleftrightarrow>
     scope_values_overlap (ap_direction p) (ap_direction q) \<and>
     scope_values_overlap (ap_jurisdiction p) (ap_jurisdiction q) \<and>
     scope_values_overlap (ap_materiality p) (ap_materiality q)"

section \<open>Reading\<close>

text \<open>The relationships \<open>version.stages\<close> (ordered by ordinal) and \<open>version.policy\<close>.\<close>

definition stages_of :: "'z policy_db_scheme \<Rightarrow> uuid \<Rightarrow> policy_stage_row list" where
  "stages_of s version_id = sort_key ps_ordinal (filter (\<lambda>x. ps_version x = version_id) (policy_stages s))"

definition policy_of :: "'z policy_db_scheme \<Rightarrow> policy_version_row \<Rightarrow> policy_row option" where
  "policy_of s v = find (\<lambda>p. ap_id p = av_policy v) (policies s)"

definition policy_lookup :: "'z policy_db_scheme \<Rightarrow> uuid \<Rightarrow> uuid \<Rightarrow> uuid \<Rightarrow> policy_row result" where
  "policy_lookup s policy_id organization_id workspace_id =
     some_or (find (\<lambda>p. ap_id p = policy_id \<and> ap_org p = organization_id \<and> ap_ws p = workspace_id)
       (policies s)) hide_resource"

definition version_lookup ::
  "'z policy_db_scheme \<Rightarrow> uuid \<Rightarrow> nat \<Rightarrow> uuid \<Rightarrow> uuid \<Rightarrow> policy_version_row result" where
  "version_lookup s policy_id version_number organization_id workspace_id =
     some_or (find (\<lambda>v. av_policy v = policy_id \<and> av_version v = version_number \<and>
        av_org v = organization_id \<and> av_ws v = workspace_id) (policy_versions s)) hide_resource"

definition policy_view :: "'z policy_db_scheme \<Rightarrow> policy_version_row \<Rightarrow> policy_row \<Rightarrow> policy_response" where
  "policy_view s v p = \<lparr>pr_version = v, pr_policy = p, pr_stages = stages_of s (av_id v),
     pr_events = sort_key (\<lambda>e. (pa_occurred_at e, pa_id e))
       (filter (\<lambda>e. pa_version e = Some (av_id v)) (policy_audit s))\<rparr>"

definition authorize :: "permission_key \<Rightarrow> 'z identity_db_scheme \<Rightarrow> uuid \<Rightarrow> uuid \<Rightarrow> uuid \<Rightarrow> unit result"
where
  "authorize p s u g w = require (can_access_workspace s u g w p) hide_resource"

section \<open>Writing\<close>

definition audit_policy ::
  "policy_row \<Rightarrow> policy_version_row \<Rightarrow> uuid \<Rightarrow> string \<Rightarrow> datetime \<Rightarrow> 'z policy_db_scheme
   \<Rightarrow> 'z policy_db_scheme" where
  "audit_policy p v actor action now s =
     draw s\<lparr>policy_audit := policy_audit s @
       [\<lparr>pa_id = uuid4 s, pa_org = ap_org p, pa_ws = ap_ws p, pa_policy = ap_id p,
         pa_version = Some (av_id v), pa_action = action, pa_actor = actor,
         pa_metadata = JObj [], pa_occurred_at = now\<rparr>]\<rparr>"

fun add_stages ::
  "policy_version_row \<Rightarrow> nat \<Rightarrow> stage_write list \<Rightarrow> 'z policy_db_scheme \<Rightarrow> 'z policy_db_scheme" where
  "add_stages v ordinal [] s = s"
| "add_stages v ordinal (x # xs) s =
     add_stages v (Suc ordinal) xs (draw s\<lparr>policy_stages := policy_stages s @
       [\<lparr>ps_id = uuid4 s, ps_org = av_org v, ps_ws = av_ws v, ps_version = av_id v,
         ps_ordinal = ordinal, ps_name = sw_name x, ps_mode = sw_mode x, ps_quorum = sw_quorum x,
         ps_roles = sw_roles x, ps_users = sw_users x, ps_deadline_hours = sw_deadline_hours x,
         ps_escalation_role = sw_escalation_role x\<rparr>]\<rparr>)"

fun copy_stages ::
  "uuid \<Rightarrow> uuid \<Rightarrow> uuid \<Rightarrow> policy_stage_row list \<Rightarrow> 'z policy_db_scheme \<Rightarrow> 'z policy_db_scheme" where
  "copy_stages g w version_id [] s = s"
| "copy_stages g w version_id (x # xs) s =
     copy_stages g w version_id xs (draw s\<lparr>policy_stages := policy_stages s @
       [x\<lparr>ps_id := uuid4 s, ps_org := g, ps_ws := w, ps_version := version_id\<rparr>]\<rparr>)"

definition create_policy ::
  "'z policy_db_scheme \<Rightarrow> uuid \<Rightarrow> uuid \<Rightarrow> uuid \<Rightarrow> create_policy_request \<Rightarrow> datetime
   \<Rightarrow> (policy_response \<times> 'z policy_db_scheme) result" where
  "create_policy s actor organization_id workspace_id request now =
     bindR (authorize APPROVAL_POLICIES_MANAGE s actor organization_id workspace_id) (\<lambda>_.
       let policy = \<lparr>ap_id = uuid4 s, ap_org = organization_id, ap_ws = workspace_id,
             ap_name = cp_name request, ap_family = cp_family request,
             ap_direction = cp_direction request,
             ap_jurisdiction = normalize_scope_value (cp_jurisdiction request),
             ap_materiality = cp_materiality request, ap_precedence = cp_precedence request,
             ap_created_by = actor, ap_created_at = now\<rparr>;
           s1 = draw s\<lparr>policies := policies s @ [policy]\<rparr>;
           version = \<lparr>av_id = uuid4 s1, av_org = organization_id, av_ws = workspace_id,
             av_policy = ap_id policy, av_version = 1, av_status = Draft,
             av_submitter_may_approve = cp_submitter_may_approve request,
             av_allow_cross_stage_same_approver = cp_allow_cross_stage_same_approver request,
             av_created_by = actor, av_created_at = now, av_published_at = None\<rparr>;
           s2 = draw s1\<lparr>policy_versions := policy_versions s1 @ [version]\<rparr>;
           s3 = add_stages version 1 (cp_stages request) s2;
           s4 = audit_policy policy version actor ''draft_created'' now s3
       in Inr (policy_view s4 version policy, s4))"

text \<open>\<open>coalesce(max(version), 0) + 1\<close> over the policy's versions.\<close>

definition next_version :: "'z policy_db_scheme \<Rightarrow> uuid \<Rightarrow> nat" where
  "next_version s policy_id =
     fold max (map av_version (filter (\<lambda>v. av_policy v = policy_id) (policy_versions s))) 0 + 1"

text \<open>The rows \<open>create_version\<close> writes for a new draft, copying the source's settings and stages.\<close>

definition insert_version ::
  "uuid \<Rightarrow> uuid \<Rightarrow> uuid \<Rightarrow> policy_row \<Rightarrow> policy_version_row option \<Rightarrow> datetime
   \<Rightarrow> 'z policy_db_scheme \<Rightarrow> policy_version_row \<times> 'z policy_db_scheme" where
  "insert_version actor organization_id workspace_id policy source now s =
     (let version = \<lparr>av_id = uuid4 s, av_org = organization_id, av_ws = workspace_id,
            av_policy = ap_id policy, av_version = next_version s (ap_id policy),
            av_status = Draft,
            av_submitter_may_approve =
              (case source of None \<Rightarrow> False | Some v \<Rightarrow> av_submitter_may_approve v),
            av_allow_cross_stage_same_approver =
              (case source of None \<Rightarrow> False | Some v \<Rightarrow> av_allow_cross_stage_same_approver v),
            av_created_by = actor, av_created_at = now, av_published_at = None\<rparr>;
          s1 = draw s\<lparr>policy_versions := policy_versions s @ [version]\<rparr>;
          s2 = (case source of None \<Rightarrow> s1
                | Some v \<Rightarrow> copy_stages organization_id workspace_id (av_id version)
                    (stages_of s (av_id v)) s1)
      in (version, audit_policy policy version actor ''draft_created'' now s2))"

definition create_policy_version ::
  "'z policy_db_scheme \<Rightarrow> uuid \<Rightarrow> uuid \<Rightarrow> uuid \<Rightarrow> uuid \<Rightarrow> nat option \<Rightarrow> datetime
   \<Rightarrow> (policy_response \<times> 'z policy_db_scheme) result" where
  "create_policy_version s actor organization_id workspace_id policy_id source_version now =
     bindR (authorize APPROVAL_POLICIES_MANAGE s actor organization_id workspace_id) (\<lambda>_.
     bindR (policy_lookup s policy_id organization_id workspace_id) (\<lambda>policy.
     bindR (case source_version of None \<Rightarrow> Inr None
            | Some n \<Rightarrow> bindR (version_lookup s policy_id n organization_id workspace_id) (Inr \<circ> Some))
       (\<lambda>source.
       let (version, s1) = insert_version actor organization_id workspace_id policy source now s
       in Inr (policy_view s1 version policy, s1))))"

section \<open>Publication\<close>

definition invalid_draft :: "string \<Rightarrow> exn" where
  "invalid_draft message = http_error_msg 422 ''invalid_approval_policy_draft'' message"

definition role_values :: "string set" where
  "role_values = set (map role_value RoleKey)"

definition eligible_count :: "policy_stage_row \<Rightarrow> nat" where
  "eligible_count x = card (set (ps_roles x)) + card (set (ps_users x))"

definition validate_stage :: "nat \<Rightarrow> policy_stage_row \<Rightarrow> unit result" where
  "validate_stage expected x =
     (if ps_ordinal x \<noteq> expected then
        Inl (invalid_draft ''approval policy stages must have consecutive ordering'')
      else if ps_roles x = [] \<and> ps_users x = [] then
        Inl (invalid_draft ''approval policy stage requires an eligible role or user'')
      else if \<not> set (ps_roles x) \<subseteq> role_values then
        Inl (invalid_draft ''approval policy stage contains an unsupported role'')
      else if (case ps_escalation_role x of None \<Rightarrow> False | Some r \<Rightarrow> r \<noteq> [] \<and> r \<notin> role_values) then
        Inl (invalid_draft ''approval policy stage contains an unsupported escalation role'')
      else if ps_mode x = ModeQuorum then
        (case ps_quorum x of
           None \<Rightarrow> Inl (invalid_draft ''approval policy stage quorum exceeds eligible approvers'')
         | Some q \<Rightarrow> require (q \<le> eligible_count x)
             (invalid_draft ''approval policy stage quorum exceeds eligible approvers''))
      else require (ps_quorum x = None)
        (invalid_draft ''approval policy stage quorum is only valid for quorum mode''))"

fun validate_stages :: "nat \<Rightarrow> policy_stage_row list \<Rightarrow> unit result" where
  "validate_stages expected [] = Inr ()"
| "validate_stages expected (x # xs) =
     bindR (validate_stage expected x) (\<lambda>_. validate_stages (Suc expected) xs)"

definition validate_draft :: "'z policy_db_scheme \<Rightarrow> policy_version_row \<Rightarrow> unit result" where
  "validate_draft s v =
     bindR (require (stages_of s (av_id v) \<noteq> [])
              (invalid_draft ''approval policy requires at least one stage''))
       (\<lambda>_. validate_stages 1 (stages_of s (av_id v)))"

text \<open>The published versions of a scope and family, with their policies (an inner join).\<close>

definition published_in ::
  "'z policy_db_scheme \<Rightarrow> uuid \<Rightarrow> uuid \<Rightarrow> string \<Rightarrow> (policy_version_row \<times> policy_row) list" where
  "published_in s g w family =
     concat (map (\<lambda>v. case policy_of s v of
         None \<Rightarrow> []
       | Some p \<Rightarrow> if av_org v = g \<and> av_ws v = w \<and> av_status v = Published \<and> ap_family p = family
                  then [(v, p)] else []) (policy_versions s))"

definition ensure_no_equal_routing_match ::
  "'z policy_db_scheme \<Rightarrow> policy_row \<Rightarrow> uuid \<Rightarrow> unit result" where
  "ensure_no_equal_routing_match s policy version_id =
     require (\<not> list_ex (\<lambda>(v, p). av_id v \<noteq> version_id \<and> route_sort_key p = route_sort_key policy \<and>
                routing_scopes_overlap p policy)
              (published_in s (ap_org policy) (ap_ws policy) (ap_family policy)))
       (http_error 409 ''approval_policy_routing_conflict'')"

definition publish_policy ::
  "'z policy_db_scheme \<Rightarrow> uuid \<Rightarrow> uuid \<Rightarrow> uuid \<Rightarrow> uuid \<Rightarrow> nat \<Rightarrow> datetime
   \<Rightarrow> (policy_response \<times> 'z policy_db_scheme) result" where
  "publish_policy s actor organization_id workspace_id policy_id version_number now =
     bindR (authorize APPROVAL_POLICIES_MANAGE s actor organization_id workspace_id) (\<lambda>_.
     bindR (version_lookup s policy_id version_number organization_id workspace_id) (\<lambda>version.
     bindR (require (av_status version = Draft)
              (http_error 409 ''published_approval_policy_immutable'')) (\<lambda>_.
     bindR (validate_draft s version) (\<lambda>_.
     bindR (require (\<not> exists_row (\<lambda>v. av_policy v = policy_id \<and> av_status v = Published)
              (policy_versions s)) (http_error 409 ''published_approval_policy_exists'')) (\<lambda>_.
     bindR (some_or (policy_of s version) (RuntimeError ''version without policy'')) (\<lambda>policy.
     bindR (ensure_no_equal_routing_match s policy (av_id version)) (\<lambda>_.
       let version' = version\<lparr>av_status := Published, av_published_at := Some now\<rparr>;
           s1 = s\<lparr>policy_versions := update_where (\<lambda>v. av_id v = av_id version)
                    (\<lambda>v. v\<lparr>av_status := Published, av_published_at := Some now\<rparr>) (policy_versions s)\<rparr>;
           s2 = audit_policy policy version' actor ''published'' now s1
       in Inr (policy_view s2 version' policy, s2))))))))"

section \<open>Routing\<close>

definition normalize_request :: "route_request \<Rightarrow> route_request" where
  "normalize_request r = r\<lparr>rq_jurisdiction := normalize_scope_value (rq_jurisdiction r)\<rparr>"

definition policy_matches :: "route_request \<Rightarrow> policy_row \<Rightarrow> bool" where
  "policy_matches r p \<longleftrightarrow>
     scope_matches (ap_direction p) (rq_direction r) \<and>
     scope_matches (ap_jurisdiction p) (rq_jurisdiction r) \<and>
     scope_matches (ap_materiality p) (rq_materiality r)"

text \<open>\<open>list.sort(key=..., reverse=True)\<close> is stable, so it is an ascending sort by the negated key.\<close>

definition descending :: "int \<times> int \<Rightarrow> int \<times> int" where
  "descending k = (- fst k, - snd k)"

definition route_policy ::
  "'z policy_db_scheme \<Rightarrow> uuid \<Rightarrow> uuid \<Rightarrow> uuid \<Rightarrow> route_request \<Rightarrow> policy_response option result" where
  "route_policy s actor organization_id workspace_id request =
     bindR (authorize AGREEMENTS_READ s actor organization_id workspace_id) (\<lambda>_.
       let candidates = published_in s organization_id workspace_id (rq_family request);
           matches = sort_key (\<lambda>(v, p). descending (route_sort_key p))
             (filter (\<lambda>(v, p). policy_matches request p) candidates)
       in (case matches of
             [] \<Rightarrow> Inr None
           | (v, p) # rest \<Rightarrow>
               (case rest of
                  (v2, p2) # _ \<Rightarrow>
                    if route_sort_key p2 = route_sort_key p
                    then Inl (http_error 409 ''approval_policy_routing_conflict'')
                    else Inr (Some (policy_view s v p))
                | [] \<Rightarrow> Inr (Some (policy_view s v p)))))"

definition list_policies ::
  "'z policy_db_scheme \<Rightarrow> uuid \<Rightarrow> uuid \<Rightarrow> uuid \<Rightarrow> string option \<Rightarrow> policy_response list result" where
  "list_policies s actor organization_id workspace_id family =
     bindR (authorize APPROVAL_POLICIES_MANAGE s actor organization_id workspace_id) (\<lambda>_.
       let joined = concat (map (\<lambda>v. case policy_of s v of None \<Rightarrow> []
              | Some p \<Rightarrow> if av_org v = organization_id \<and> av_ws v = workspace_id \<and>
                  (case family of None \<Rightarrow> True | Some f \<Rightarrow> f = [] \<or> ap_family p = f)
                  then [(v, p)] else []) (policy_versions s))
       in Inr (map (\<lambda>(v, p). policy_view s v p)
            (sort_key (\<lambda>(v, p). (ap_name p, - int (av_version v))) joined)))"

section \<open>Permission guards\<close>

lemma authorize_refuses: "\<not> can_access_workspace s u g w p \<Longrightarrow> authorize p s u g w = Inl hide_resource"
  by (simp add: authorize_def)

lemma authorize_Inr [result_simps]: "authorize p s u g w = Inr x \<longleftrightarrow> can_access_workspace s u g w p"
  by (simp add: authorize_def result_simps)

interpretation create_policy: guarded "\<lambda>s u g w. create_policy s u g w request now"
    APPROVAL_POLICIES_MANAGE for request now
  by unfold_locales (simp add: create_policy_def authorize_refuses)

interpretation create_policy_version:
    guarded "\<lambda>s u g w. create_policy_version s u g w pid source now" APPROVAL_POLICIES_MANAGE
    for pid source now
  by unfold_locales (simp add: create_policy_version_def authorize_refuses)

interpretation publish_policy: guarded "\<lambda>s u g w. publish_policy s u g w pid n now"
    APPROVAL_POLICIES_MANAGE for pid n now
  by unfold_locales (simp add: publish_policy_def authorize_refuses)

interpretation route_policy: guarded "\<lambda>s u g w. route_policy s u g w request" AGREEMENTS_READ
    for request
  by unfold_locales (simp add: route_policy_def authorize_refuses)

section \<open>What publication checks\<close>

text \<open>The declarative form of a stage list that may be published.\<close>

definition stage_ok :: "policy_stage_row \<Rightarrow> bool" where
  "stage_ok x \<longleftrightarrow> (ps_roles x \<noteq> [] \<or> ps_users x \<noteq> []) \<and> set (ps_roles x) \<subseteq> role_values \<and>
     (\<forall>r. ps_escalation_role x = Some r \<longrightarrow> r = [] \<or> r \<in> role_values) \<and>
     (if ps_mode x = ModeQuorum then \<exists>q. ps_quorum x = Some q \<and> q \<le> eligible_count x
      else ps_quorum x = None)"

definition publishable :: "policy_stage_row list \<Rightarrow> bool" where
  "publishable xs \<longleftrightarrow> xs \<noteq> [] \<and> map ps_ordinal xs = [1..<Suc (length xs)] \<and> (\<forall>x \<in> set xs. stage_ok x)"

lemma validate_stage_iff: "validate_stage k x = Inr () \<longleftrightarrow> ps_ordinal x = k \<and> stage_ok x"
  by (auto simp: validate_stage_def stage_ok_def result_simps split: option.splits)

lemma validate_stages_iff:
  "validate_stages k xs = Inr () \<longleftrightarrow>
     map ps_ordinal xs = [k..<k + length xs] \<and> (\<forall>x \<in> set xs. stage_ok x)"
proof (induction xs arbitrary: k)
  case Nil
  then show ?case by simp
next
  case (Cons x xs)
  have "[k..<k + length (x # xs)] = k # [Suc k..<Suc k + length xs]"
    using upt_conv_Cons [of k "k + length (x # xs)"] by (simp del: upt_Suc)
  then show ?case using Cons.IH [of "Suc k"]
    by (auto simp: result_simps validate_stage_iff)
qed

lemma validate_draft_iff: "validate_draft s v = Inr () \<longleftrightarrow> publishable (stages_of s (av_id v))"
  by (auto simp: validate_draft_def result_simps validate_stages_iff publishable_def)

section \<open>The invariant of the policy tables\<close>

definition policy_ids :: "'z policy_db_scheme \<Rightarrow> uuid set" where
  "policy_ids s = ap_id ` set (policies s) \<union> av_id ` set (policy_versions s) \<union>
     ps_id ` set (policy_stages s)"

definition policy_keys :: "'z policy_db_scheme \<Rightarrow> bool" where
  "policy_keys s \<longleftrightarrow> inj (uuid_src s) \<and> (\<forall>n \<ge> uuid_used s. uuid_src s n \<notin> policy_ids s) \<and>
     distinct (map ap_id (policies s)) \<and> distinct (map av_id (policy_versions s)) \<and>
     distinct (map ps_id (policy_stages s))"

definition policy_links :: "'z policy_db_scheme \<Rightarrow> bool" where
  "policy_links s \<longleftrightarrow> (\<forall>v \<in> set (policy_versions s). \<exists>p. policy_of s v = Some p \<and>
     ap_org p = av_org v \<and> ap_ws p = av_ws v)"

definition stage_links :: "'z policy_db_scheme \<Rightarrow> bool" where
  "stage_links s \<longleftrightarrow> ps_version ` set (policy_stages s) \<subseteq> av_id ` set (policy_versions s)"

definition published_unique :: "'z policy_db_scheme \<Rightarrow> bool" where
  "published_unique s \<longleftrightarrow> (\<forall>v \<in> set (policy_versions s). \<forall>v' \<in> set (policy_versions s).
     av_status v = Published \<and> av_status v' = Published \<and> av_policy v = av_policy v' \<longrightarrow> v = v')"

definition published_valid :: "'z policy_db_scheme \<Rightarrow> bool" where
  "published_valid s \<longleftrightarrow> (\<forall>v \<in> set (policy_versions s). av_status v = Published \<longrightarrow>
     publishable (stages_of s (av_id v)))"

definition clash :: "policy_row \<Rightarrow> policy_row \<Rightarrow> bool" where
  "clash p q \<longleftrightarrow> route_sort_key p = route_sort_key q \<and> routing_scopes_overlap p q"

definition published_separated :: "'z policy_db_scheme \<Rightarrow> bool" where
  "published_separated s \<longleftrightarrow> (\<forall>g w f. \<forall>(v, p) \<in> set (published_in s g w f).
     \<forall>(v', p') \<in> set (published_in s g w f). av_id v \<noteq> av_id v' \<longrightarrow> \<not> clash p p')"

definition policy_inv :: "'z policy_db_scheme \<Rightarrow> bool" where
  "policy_inv s \<longleftrightarrow> policy_keys s \<and> policy_links s \<and> stage_links s \<and> published_unique s \<and> published_valid s \<and>
     published_separated s"

lemma in_published_in:
  "(v, p) \<in> set (published_in s g w f) \<longleftrightarrow> v \<in> set (policy_versions s) \<and> policy_of s v = Some p \<and>
     av_org v = g \<and> av_ws v = w \<and> av_status v = Published \<and> ap_family p = f"
  by (auto simp: published_in_def split: option.splits if_splits)

lemma clash_sym: "clash p q \<longleftrightarrow> clash q p"
  by (auto simp: clash_def routing_scopes_overlap_def scope_values_overlap_def)

subsection \<open>Appending rows\<close>

text \<open>What writing the stages of one version does, whichever loop writes them.\<close>

definition appends_stages :: "uuid \<Rightarrow> 'z policy_db_scheme \<Rightarrow> 'z policy_db_scheme \<Rightarrow> bool" where
  "appends_stages vid s s' \<longleftrightarrow> uuid_src s' = uuid_src s \<and> uuid_used s \<le> uuid_used s' \<and>
     policies s' = policies s \<and> policy_versions s' = policy_versions s \<and>
     (\<exists>new. policy_stages s' = policy_stages s @ new \<and> (\<forall>x \<in> set new. ps_version x = vid) \<and>
        map ps_id new = map (uuid_src s) [uuid_used s..<uuid_used s'])"

lemma appends_stages_refl: "appends_stages vid s s"
  by (simp add: appends_stages_def)

lemma appends_stages_trans:
  assumes "appends_stages vid s s1" and "appends_stages vid s1 s2"
  shows "appends_stages vid s s2"
proof -
  from assms(1) obtain a where a: "policy_stages s1 = policy_stages s @ a"
      "map ps_id a = map (uuid_src s) [uuid_used s..<uuid_used s1]" "\<forall>x \<in> set a. ps_version x = vid"
    unfolding appends_stages_def by blast
  from assms(2) obtain b where b: "policy_stages s2 = policy_stages s1 @ b"
      "map ps_id b = map (uuid_src s1) [uuid_used s1..<uuid_used s2]" "\<forall>x \<in> set b. ps_version x = vid"
    unfolding appends_stages_def by blast
  have u: "uuid_used s \<le> uuid_used s1" "uuid_used s1 \<le> uuid_used s2" "uuid_src s1 = uuid_src s"
    using assms by (simp_all add: appends_stages_def)
  have "map ps_id (a @ b) = map (uuid_src s) [uuid_used s..<uuid_used s2]"
    using a(2) b(2) u upt_add_eq_append [OF u(1), of "uuid_used s2 - uuid_used s1"] by simp
  moreover have "policy_stages s2 = policy_stages s @ a @ b" "\<forall>x \<in> set (a @ b). ps_version x = vid"
    using a b by auto
  ultimately show ?thesis using assms unfolding appends_stages_def by auto
qed

lemma appends_stages_one:
  assumes "ps_version x = vid" and "ps_id x = uuid4 s"
  shows "appends_stages vid s (draw s\<lparr>policy_stages := policy_stages s @ [x]\<rparr>)"
  using assms by (auto simp: appends_stages_def uuid4_def)

lemma add_stages_appends: "appends_stages (av_id v) s (add_stages v k xs s)"
proof (induction v k xs s rule: add_stages.induct)
  case (1 v k s)
  show ?case by (simp add: appends_stages_refl)
next
  case (2 v k x xs s)
  show ?case unfolding add_stages.simps
    by (rule appends_stages_trans [OF appends_stages_one 2]) simp_all
qed

lemma copy_stages_appends: "appends_stages vid s (copy_stages g w vid xs s)"
proof (induction g w vid xs s rule: copy_stages.induct)
  case (1 g w vid s)
  show ?case by (simp add: appends_stages_refl)
next
  case (2 g w vid x xs s)
  show ?case unfolding copy_stages.simps
    by (rule appends_stages_trans [OF appends_stages_one 2]) simp_all
qed

lemma appends_stages_other:
  assumes "appends_stages vid s s'" and "i \<noteq> vid"
  shows "stages_of s' i = stages_of s i"
  using assms unfolding appends_stages_def stages_of_def
  by (auto simp: filter_empty_conv intro!: arg_cong [where f = "sort_key ps_ordinal"])

lemma keys_appends_stages:
  assumes k: "policy_keys s" and a: "appends_stages vid s s'"
  shows "policy_keys s'"
proof -
  from a obtain new where new: "policy_stages s' = policy_stages s @ new"
      "map ps_id new = map (uuid_src s) [uuid_used s..<uuid_used s']"
    and u: "uuid_src s' = uuid_src s" "uuid_used s \<le> uuid_used s'" "policies s' = policies s"
      "policy_versions s' = policy_versions s"
    unfolding appends_stages_def by auto
  have img: "ps_id ` set new = uuid_src s ` {uuid_used s..<uuid_used s'}"
    using arg_cong [OF new(2), of set] by simp
  have inj: "inj (uuid_src s)" and fr: "\<forall>n \<ge> uuid_used s. uuid_src s n \<notin> policy_ids s"
    using k by (simp_all add: policy_keys_def)
  have d: "distinct (map ps_id new)"
    unfolding new(2) using inj_on_subset [OF inj subset_UNIV] by (simp add: distinct_map)
  have disj: "ps_id ` set (policy_stages s) \<inter> ps_id ` set new = {}"
    unfolding img using fr by (auto simp: policy_ids_def) (metis image_eqI)
  have "uuid_src s n \<notin> policy_ids s'" if "n \<ge> uuid_used s'" for n
  proof
    assume "uuid_src s n \<in> policy_ids s'"
    then have "uuid_src s n \<in> policy_ids s \<or> uuid_src s n \<in> uuid_src s ` {uuid_used s..<uuid_used s'}"
      using u by (auto simp: policy_ids_def new(1) image_Un img)
    then show False using that fr u(2) injD [OF inj] by force
  qed
  then show ?thesis using k d disj u
    by (simp add: policy_keys_def new(1) image_Un)
qed

lemma policy_of_cong: "policies s' = policies s \<Longrightarrow> policy_of s' v = policy_of s v"
  by (simp add: policy_of_def)

lemma published_in_cong:
  assumes "policies s' = policies s" "policy_versions s' = policy_versions s"
  shows "published_in s' g w f = published_in s g w f"
  using assms by (simp add: published_in_def policy_of_def cong: if_cong option.case_cong)

lemma inv_appends_stages:
  assumes i: "policy_inv s" and a: "appends_stages vid s s'"
    and d: "\<forall>v \<in> set (policy_versions s). av_id v = vid \<longrightarrow> av_status v = Draft"
    and e: "vid \<in> av_id ` set (policy_versions s)"
  shows "policy_inv s'"
proof -
  have t: "policies s' = policies s" "policy_versions s' = policy_versions s"
    using a by (simp_all add: appends_stages_def)
  have "published_valid s'"
    using i d appends_stages_other [OF a] unfolding policy_inv_def published_valid_def t by force
  moreover have "ps_version ` set (policy_stages s') \<subseteq> insert vid (ps_version ` set (policy_stages s))"
    using a by (auto simp: appends_stages_def)
  then have "stage_links s'"
    using e i unfolding policy_inv_def stage_links_def t by blast
  moreover have "policy_links s'" "published_unique s'" "published_separated s'"
    using i unfolding policy_inv_def policy_links_def published_unique_def published_separated_def
      published_in_cong [OF t] policy_of_cong [OF t(1)] unfolding t by blast+
  ultimately show ?thesis
    using i keys_appends_stages [OF _ a] by (simp only: policy_inv_def)
qed

subsection \<open>Preservation\<close>

lemma policy_inv_frame:
  assumes i: "policy_inv s" and t: "policies s' = policies s" "policy_versions s' = policy_versions s"
    "policy_stages s' = policy_stages s" "uuid_src s' = uuid_src s" "uuid_used s \<le> uuid_used s'"
  shows "policy_inv s'"
proof -
  have k: "policy_keys s'" using i t by (auto simp: policy_inv_def policy_keys_def policy_ids_def)
  have st: "stages_of s' x = stages_of s x" for x by (simp add: stages_of_def t)
  show ?thesis
    using i k unfolding policy_inv_def policy_links_def stage_links_def published_unique_def
      published_valid_def published_separated_def published_in_cong [OF t(1,2)] policy_of_cong [OF t(1)] st t by blast
qed

lemma inv_audit_policy: "policy_inv s \<Longrightarrow> policy_inv (audit_policy p v u a now s)"
  by (erule policy_inv_frame) (simp_all add: audit_policy_def)

lemma keys_fresh: "policy_keys s \<Longrightarrow> uuid4 s \<notin> policy_ids s"
  by (simp add: policy_keys_def uuid4_def)

lemma keys_later:
  "policy_keys s \<Longrightarrow> n \<ge> Suc (uuid_used s) \<Longrightarrow> uuid_src s n \<notin> insert (uuid4 s) (policy_ids s)"
  by (auto simp: policy_keys_def uuid4_def dest: injD)

lemma inv_insert_policy:
  assumes i: "policy_inv s" and p: "ap_id p = uuid4 s"
  shows "policy_inv (draw s\<lparr>policies := policies s @ [p]\<rparr>)" (is "policy_inv ?s'")
proof -
  have k: "policy_keys s" using i by (simp add: policy_inv_def)
  have pol: "policy_of ?s' v = policy_of s v" if "v \<in> set (policy_versions s)" for v
  proof -
    have "policy_of s v \<noteq> None" using i that by (auto simp: policy_inv_def policy_links_def)
    then show ?thesis by (auto simp: policy_of_def find_append)
  qed
  have pin: "published_in ?s' g w f = published_in s g w f" for g w f
    unfolding published_in_def using pol by (simp cong: map_cong)
  have "policy_keys ?s'"
    using k keys_fresh [OF k] keys_later [OF k]
    by (auto simp: policy_keys_def policy_ids_def p)
  moreover have "policy_links ?s'"
    using i pol by (auto simp: policy_inv_def policy_links_def)
  moreover have "published_separated ?s'"
    using i unfolding policy_inv_def published_separated_def pin by blast
  ultimately show ?thesis
    using i by (simp add: policy_inv_def published_unique_def published_valid_def stages_of_def
        stage_links_def)
qed

lemma inv_insert_draft:
  assumes i: "policy_inv s" and v: "av_id v = uuid4 s" "av_status v = Draft"
    and p: "policy_of s v = Some p" "ap_org p = av_org v" "ap_ws p = av_ws v"
  shows "policy_inv (draw s\<lparr>policy_versions := policy_versions s @ [v]\<rparr>)" (is "policy_inv ?s'")
proof -
  have k: "policy_keys s" using i by (simp add: policy_inv_def)
  have pol: "policy_of ?s' x = policy_of s x" for x by (simp add: policy_of_def)
  have pin: "published_in ?s' g w f = published_in s g w f" for g w f
    using v(2) by (simp add: published_in_def pol split: option.split)
  have "policy_keys ?s'"
    using k keys_fresh [OF k] keys_later [OF k]
    by (auto simp: policy_keys_def policy_ids_def v)
  moreover have "policy_links ?s'"
    using i p by (auto simp: policy_inv_def policy_links_def pol)
  moreover have "published_separated ?s'"
    using i unfolding policy_inv_def published_separated_def pin by blast
  moreover have "published_unique ?s'" "published_valid ?s'"
    using i v(2) by (auto simp: policy_inv_def published_unique_def published_valid_def stages_of_def)
  moreover have "stage_links ?s'" using i by (auto simp: policy_inv_def stage_links_def)
  ultimately show ?thesis by (simp add: policy_inv_def)
qed

definition published_row :: "datetime \<Rightarrow> policy_version_row \<Rightarrow> policy_version_row" where
  "published_row now v = v\<lparr>av_status := Published, av_published_at := Some now\<rparr>"

lemma published_row_simps [simp]:
  "av_id (published_row now v) = av_id v" "av_policy (published_row now v) = av_policy v"
  "av_org (published_row now v) = av_org v" "av_ws (published_row now v) = av_ws v"
  "av_status (published_row now v) = Published"
  by (simp_all add: published_row_def)

lemma inv_publish_row:
  assumes i: "policy_inv s" and v: "v \<in> set (policy_versions s)"
    and valid: "publishable (stages_of s (av_id v))"
    and first: "\<forall>x \<in> set (policy_versions s). \<not> (av_policy x = av_policy v \<and> av_status x = Published)"
    and p: "policy_of s v = Some p"
    and sep: "\<forall>(x, q) \<in> set (published_in s (av_org v) (av_ws v) (ap_family p)).
      av_id x \<noteq> av_id v \<longrightarrow> \<not> clash q p"
  shows "policy_inv (s\<lparr>policy_versions := update_where (\<lambda>x. av_id x = av_id v) (published_row now)
      (policy_versions s)\<rparr>)" (is "policy_inv ?s'")
proof -
  have k: "policy_keys s" using i by (simp add: policy_inv_def)
  have pol: "policy_of ?s' x = policy_of s x" for x by (simp add: policy_of_def)
  have polp: "policy_of s (published_row now x) = policy_of s x" for x by (simp add: policy_of_def)
  have only: "x = v" if "x \<in> set (policy_versions s)" "av_id x = av_id v" for x
    using k v that by (auto simp: policy_keys_def dest: distinct_key_inj)
  have ids: "map av_id (policy_versions ?s') = map av_id (policy_versions s)"
    by (simp add: map_update_where)
  have mem: "x \<in> set (policy_versions ?s') \<longleftrightarrow>
      x = published_row now v \<or> (x \<in> set (policy_versions s) \<and> av_id x \<noteq> av_id v)" for x
    by (simp add: in_update_where) (metis only v published_row_simps(1))
  have pin: "(x, q) \<in> set (published_in ?s' g w f) \<longleftrightarrow>
      (x = published_row now v \<and> q = p \<and> g = av_org v \<and> w = av_ws v \<and> f = ap_family p) \<or>
      (av_id x \<noteq> av_id v \<and> (x, q) \<in> set (published_in s g w f))" for x q g w f
    unfolding in_published_in mem pol using p by (auto simp: polp)
  have "policy_keys ?s'"
    using k unfolding policy_keys_def policy_ids_def set_map [symmetric] ids by simp
  moreover have "policy_links ?s'"
    using i v unfolding policy_inv_def policy_links_def Ball_def mem pol by (auto simp: polp)
  moreover have "published_unique ?s'"
    using i first unfolding policy_inv_def published_unique_def Ball_def mem by auto
  moreover have "published_valid ?s'"
    using i valid unfolding policy_inv_def published_valid_def Ball_def mem
    by (auto simp: stages_of_def)
  moreover have "\<not> clash q q'" if m: "(x, q) \<in> set (published_in ?s' g w f)"
      "(x', q') \<in> set (published_in ?s' g w f)" and ne: "av_id x \<noteq> av_id x'" for x q x' q' g w f
  proof -
    have old: "\<not> clash a b" if "(y, a) \<in> set (published_in s g w f)"
        "(z, b) \<in> set (published_in s g w f)" "av_id y \<noteq> av_id z" for y a z b
      using i that unfolding policy_inv_def published_separated_def by blast
    have new: "\<not> clash a p \<and> \<not> clash p a" if "(y, a) \<in> set (published_in s (av_org v) (av_ws v) (ap_family p))"
        "av_id y \<noteq> av_id v" for y a
      using sep that clash_sym [of p a] by blast
    show ?thesis using m ne unfolding pin
      by (elim disjE conjE) (auto dest: old new)
  qed
  then have "published_separated ?s'" unfolding published_separated_def by blast
  moreover have "stage_links ?s'"
    using i unfolding policy_inv_def stage_links_def set_map [symmetric] ids by simp
  ultimately show ?thesis by (simp add: policy_inv_def)
qed

subsection \<open>The operations keep the invariant\<close>

lemma draft_only:
  assumes "policy_keys s" and "av_id v = uuid4 s" and "av_status v = Draft"
  shows "\<forall>x \<in> set (policy_versions s @ [v]). av_id x = av_id v \<longrightarrow> av_status x = Draft"
  using keys_fresh [OF assms(1)] assms(2,3) by (force simp: policy_ids_def)

lemma inv_new_draft:
  assumes i: "policy_inv s" and v: "av_id v = uuid4 s" "av_status v = Draft"
    and p: "policy_of s v = Some p" "ap_org p = av_org v" "ap_ws p = av_ws v"
    and a: "appends_stages (av_id v) (draw s\<lparr>policy_versions := policy_versions s @ [v]\<rparr>) s'"
  shows "policy_inv s'"
  using inv_appends_stages [OF inv_insert_draft [OF i v p] a] draft_only [of s v] i v
  by (simp add: policy_inv_def)

lemma create_policy_inv:
  assumes "policy_inv s" and "create_policy s u g w request now = Inr (r, s')"
  shows "policy_inv s'"
proof -
  let ?p = "\<lparr>ap_id = uuid4 s, ap_org = g, ap_ws = w, ap_name = cp_name request,
    ap_family = cp_family request, ap_direction = cp_direction request,
    ap_jurisdiction = normalize_scope_value (cp_jurisdiction request),
    ap_materiality = cp_materiality request, ap_precedence = cp_precedence request,
    ap_created_by = u, ap_created_at = now\<rparr>"
  let ?s1 = "draw s\<lparr>policies := policies s @ [?p]\<rparr>"
  let ?v = "\<lparr>av_id = uuid4 ?s1, av_org = g, av_ws = w, av_policy = ap_id ?p, av_version = 1,
    av_status = Draft, av_submitter_may_approve = cp_submitter_may_approve request,
    av_allow_cross_stage_same_approver = cp_allow_cross_stage_same_approver request,
    av_created_by = u, av_created_at = now, av_published_at = None\<rparr>"
  let ?s3 = "add_stages ?v 1 (cp_stages request)
    (draw ?s1\<lparr>policy_versions := policy_versions ?s1 @ [?v]\<rparr>)"
  have s': "s' = audit_policy ?p ?v u ''draft_created'' now ?s3"
    using assms(2) by (simp add: create_policy_def Let_def result_simps)
  have i1: "policy_inv ?s1" by (rule inv_insert_policy [OF assms(1)]) simp
  have "find (\<lambda>q. ap_id q = uuid4 s) (policies s) = None"
    using keys_fresh [of s] assms(1) by (force simp: policy_inv_def policy_ids_def find_None_iff')
  then have "policy_of ?s1 ?v = Some ?p" by (simp add: policy_of_def find_append)
  moreover have "appends_stages (av_id ?v) (draw ?s1\<lparr>policy_versions := policy_versions ?s1 @ [?v]\<rparr>) ?s3"
    by (rule add_stages_appends)
  ultimately have "policy_inv ?s3"
    by (intro inv_new_draft [OF i1, where v = ?v and p = ?p]) simp_all
  then show ?thesis unfolding s' by (rule inv_audit_policy)
qed

lemma version_lookupD:
  "version_lookup s pid n g w = Inr v \<Longrightarrow> v \<in> set (policy_versions s) \<and> av_policy v = pid \<and>
     av_version v = n \<and> av_org v = g \<and> av_ws v = w"
  by (auto simp: version_lookup_def result_simps dest: find_SomeD)

lemma policy_lookupD:
  "policy_lookup s pid g w = Inr p \<Longrightarrow> p \<in> set (policies s) \<and> ap_id p = pid \<and> ap_org p = g \<and> ap_ws p = w"
  by (auto simp: policy_lookup_def result_simps dest: find_SomeD)

lemma insert_version_effect:
  obtains v s2 where "insert_version u g w p src now s =
      (v, audit_policy p v u ''draft_created'' now s2)"
    "av_id v = uuid4 s" "av_status v = Draft" "av_org v = g" "av_ws v = w" "av_policy v = ap_id p"
    "av_version v = next_version s (ap_id p)"
    "appends_stages (av_id v) (draw s\<lparr>policy_versions := policy_versions s @ [v]\<rparr>) s2"
proof -
  define v where "v = \<lparr>av_id = uuid4 s, av_org = g, av_ws = w, av_policy = ap_id p,
    av_version = next_version s (ap_id p), av_status = Draft,
    av_submitter_may_approve = (case src of None \<Rightarrow> False | Some v \<Rightarrow> av_submitter_may_approve v),
    av_allow_cross_stage_same_approver =
      (case src of None \<Rightarrow> False | Some v \<Rightarrow> av_allow_cross_stage_same_approver v),
    av_created_by = u, av_created_at = now, av_published_at = None\<rparr>"
  let ?s1 = "draw s\<lparr>policy_versions := policy_versions s @ [v]\<rparr>"
  define s2 where "s2 = (case src of None \<Rightarrow> ?s1
    | Some x \<Rightarrow> copy_stages g w (av_id v) (stages_of s (av_id x)) ?s1)"
  show thesis
  proof (rule that)
    show "insert_version u g w p src now s = (v, audit_policy p v u ''draft_created'' now s2)"
      unfolding insert_version_def Let_def v_def [symmetric] s2_def [symmetric] by (rule refl)
    show "appends_stages (av_id v) ?s1 s2"
      by (cases src) (simp_all add: s2_def appends_stages_refl copy_stages_appends)
  qed (simp_all add: v_def)
qed

lemma create_policy_version_inv:
  assumes i: "policy_inv s" and c: "create_policy_version s u g w pid source now = Inr (r, s')"
  shows "policy_inv s'"
proof -
  from c obtain p src where p: "policy_lookup s pid g w = Inr p"
    and rest: "s' = snd (insert_version u g w p src now s)"
    by (auto simp: create_policy_version_def result_simps case_prod_beta)
  have pk: "distinct (map ap_id (policies s))" using i by (simp add: policy_inv_def policy_keys_def)
  note pd = policy_lookupD [OF p]
  have po: "policy_of s v = Some p" if "av_policy v = ap_id p" for v
    using find_distinct_key [OF pk, of p] pd that by (simp add: policy_of_def)
  obtain v s2 where iv: "insert_version u g w p src now s =
      (v, audit_policy p v u ''draft_created'' now s2)"
    and v: "av_id v = uuid4 s" "av_status v = Draft" "av_org v = g" "av_ws v = w"
      "av_policy v = ap_id p"
    and a: "appends_stages (av_id v) (draw s\<lparr>policy_versions := policy_versions s @ [v]\<rparr>) s2"
    by (rule insert_version_effect)
  have "policy_inv s2"
    by (rule inv_new_draft [OF i v(1,2) po [OF v(5)] _ _ a]) (simp_all add: pd v)
  then show ?thesis unfolding rest iv snd_conv by (rule inv_audit_policy)
qed

lemma create_version_appends:
  assumes "create_policy_version s u g w pid source now = Inr (r, s')"
  shows "length (policy_versions s') = Suc (length (policy_versions s))"
proof -
  from assms obtain p src where rest: "s' = snd (insert_version u g w p src now s)"
    by (auto simp: create_policy_version_def result_simps case_prod_beta)
  show ?thesis unfolding rest
    by (rule insert_version_effect [of u g w p src now s])
      (simp add: appends_stages_def audit_policy_def)
qed

lemma publish_policyE:
  assumes "publish_policy s u g w pid n now = Inr (r, s')"
  obtains v p where "version_lookup s pid n g w = Inr v" "av_status v = Draft"
    "publishable (stages_of s (av_id v))"
    "\<forall>x \<in> set (policy_versions s). \<not> (av_policy x = pid \<and> av_status x = Published)"
    "policy_of s v = Some p" "ensure_no_equal_routing_match s p (av_id v) = Inr ()"
    "s' = audit_policy p (published_row now v) u ''published'' now
       (s\<lparr>policy_versions := update_where (\<lambda>x. av_id x = av_id v) (published_row now)
          (policy_versions s)\<rparr>)"
  using assms unfolding published_row_def [abs_def]
  by (auto simp: publish_policy_def Let_def result_simps validate_draft_iff)

lemma publish_policy_inv:
  assumes i: "policy_inv s" and c: "publish_policy s u g w pid n now = Inr (r, s')"
  shows "policy_inv s'"
proof -
  from c obtain v p where v: "version_lookup s pid n g w = Inr v" "publishable (stages_of s (av_id v))"
      "\<forall>x \<in> set (policy_versions s). \<not> (av_policy x = pid \<and> av_status x = Published)"
      "policy_of s v = Some p" "ensure_no_equal_routing_match s p (av_id v) = Inr ()"
    and s': "s' = audit_policy p (published_row now v) u ''published'' now
       (s\<lparr>policy_versions := update_where (\<lambda>x. av_id x = av_id v) (published_row now)
          (policy_versions s)\<rparr>)"
    by (rule publish_policyE)
  note vd = version_lookupD [OF v(1)]
  have sc: "ap_org p = av_org v" "ap_ws p = av_ws v"
    using i vd v(4) by (auto simp: policy_inv_def policy_links_def)
  show ?thesis unfolding s'
    by (intro inv_audit_policy inv_publish_row [OF i _ v(2) _ v(4)])
      (use vd v(3,5) sc in \<open>auto simp: ensure_no_equal_routing_match_def result_simps list_ex_iff
         clash_def\<close>)
qed

section \<open>Steps of the policy tables\<close>

inductive policy_step :: "'z policy_db_scheme \<Rightarrow> 'z policy_db_scheme \<Rightarrow> bool" where
  create: "create_policy s u g w request now = Inr (r, s') \<Longrightarrow> policy_step s s'"
| version: "create_policy_version s u g w pid source now = Inr (r, s') \<Longrightarrow> policy_step s s'"
| publish: "publish_policy s u g w pid n now = Inr (r, s') \<Longrightarrow> policy_step s s'"

inductive policy_reach :: "'z policy_db_scheme \<Rightarrow> 'z policy_db_scheme \<Rightarrow> bool" for s where
  start: "policy_reach s s"
| step: "policy_reach s t \<Longrightarrow> policy_step t t' \<Longrightarrow> policy_reach s t'"

lemma policy_step_inv: "policy_step s s' \<Longrightarrow> policy_inv s \<Longrightarrow> policy_inv s'"
  by (induction rule: policy_step.induct)
    (blast intro: create_policy_inv create_policy_version_inv publish_policy_inv)+

lemma policy_reach_inv: "policy_reach s t \<Longrightarrow> policy_inv s \<Longrightarrow> policy_inv t"
  by (induction rule: policy_reach.induct) (blast intro: policy_step_inv)+

definition empty_policies :: "'z policy_db_scheme \<Rightarrow> bool" where
  "empty_policies s \<longleftrightarrow> inj (uuid_src s) \<and> policies s = [] \<and> policy_versions s = [] \<and> policy_stages s = []"

lemma empty_policies_inv: "empty_policies s \<Longrightarrow> policy_inv s"
  by (simp add: empty_policies_def policy_inv_def policy_keys_def policy_ids_def policy_links_def
      stage_links_def published_unique_def published_valid_def published_separated_def
      published_in_def)

subsection \<open>What is published stays as it is\<close>

definition kept :: "'z policy_db_scheme \<Rightarrow> 'z policy_db_scheme \<Rightarrow> bool" where
  "kept s s' \<longleftrightarrow> (\<forall>v \<in> set (policy_versions s). av_status v = Published \<longrightarrow>
     v \<in> set (policy_versions s') \<and> stages_of s' (av_id v) = stages_of s (av_id v) \<and>
     policy_of s' v = policy_of s v)"

lemma kept_trans:
  assumes "kept s t" and "kept t t'"
  shows "kept s t'"
  using assms unfolding kept_def by force

lemma appends_stages_kept:
  assumes "policy_keys s" and "appends_stages (uuid4 s) s1 s'"
    and "set (policy_versions s) \<subseteq> set (policy_versions s1)" and "policy_stages s1 = policy_stages s"
    and "\<And>v. v \<in> set (policy_versions s) \<Longrightarrow> policy_of s1 v = policy_of s v"
  shows "kept s s'"
proof -
  have "av_id v \<noteq> uuid4 s" if "v \<in> set (policy_versions s)" for v
    using keys_fresh [OF assms(1)] that by (auto simp: policy_ids_def) (metis imageI)
  moreover have "stages_of s1 i = stages_of s i" for i by (simp add: stages_of_def assms(4))
  moreover have "policies s' = policies s1" "policy_versions s' = policy_versions s1"
    using assms(2) by (simp_all add: appends_stages_def)
  ultimately show ?thesis
    using assms(3,5) appends_stages_other [OF assms(2)]
    by (auto simp: kept_def policy_of_cong [of s' s1])
qed

lemma kept_audit [simp]: "kept s (audit_policy p v u a now s') \<longleftrightarrow> kept s s'"
  by (simp add: kept_def audit_policy_def stages_of_def policy_of_def)

lemma insert_version_kept:
  assumes "policy_keys s"
  shows "kept s (snd (insert_version u g w p src now s))"
proof -
  obtain v s2 where "insert_version u g w p src now s = (v, audit_policy p v u ''draft_created'' now s2)"
    and "av_id v = uuid4 s"
    and "appends_stages (av_id v) (draw s\<lparr>policy_versions := policy_versions s @ [v]\<rparr>) s2"
    by (rule insert_version_effect)
  then show ?thesis
    using appends_stages_kept [OF assms, of "draw s\<lparr>policy_versions := policy_versions s @ [v]\<rparr>" s2]
    by (auto simp: policy_of_def)
qed

lemma kept_publish:
  assumes "policy_keys s" and "v \<in> set (policy_versions s)" and "av_status v = Draft"
  shows "kept s (s\<lparr>policy_versions := update_where (\<lambda>x. av_id x = av_id v) f (policy_versions s)\<rparr>)"
proof -
  have "av_id x \<noteq> av_id v" if "x \<in> set (policy_versions s)" "av_status x = Published" for x
    using distinct_key_inj [of av_id "policy_versions s" x v] assms that
    by (auto simp: policy_keys_def)
  then show ?thesis
    by (force simp: kept_def in_update_where stages_of_def policy_of_def)
qed

lemma create_policy_kept:
  assumes i: "policy_inv s" and c: "create_policy s u g w request now = Inr (r, s')"
  shows "kept s s'"
proof -
  let ?s1 = "draw s\<lparr>policies := policies s @ [\<lparr>ap_id = uuid4 s, ap_org = g, ap_ws = w,
    ap_name = cp_name request, ap_family = cp_family request,
    ap_direction = cp_direction request,
    ap_jurisdiction = normalize_scope_value (cp_jurisdiction request),
    ap_materiality = cp_materiality request, ap_precedence = cp_precedence request,
    ap_created_by = u, ap_created_at = now\<rparr>]\<rparr>"
  have pol: "policy_of ?s1 v = policy_of s v" if "v \<in> set (policy_versions s)" for v
    using i that by (auto simp: policy_inv_def policy_links_def policy_of_def find_append)
  then have k1: "kept s ?s1" by (auto simp: kept_def stages_of_def)
  have i1: "policy_keys ?s1"
    using inv_insert_policy [OF i] by (simp add: policy_inv_def)
  from c obtain v p where v: "av_id v = uuid4 ?s1"
    and s': "s' = audit_policy p v u ''draft_created'' now (add_stages v 1 (cp_stages request)
      (draw ?s1\<lparr>policy_versions := policy_versions ?s1 @ [v]\<rparr>))"
    unfolding create_policy_def Let_def by (force simp: result_simps)
  have "kept ?s1 (add_stages v 1 (cp_stages request)
      (draw ?s1\<lparr>policy_versions := policy_versions ?s1 @ [v]\<rparr>))"
    by (rule appends_stages_kept [OF i1,
          where ?s1.0 = "draw ?s1\<lparr>policy_versions := policy_versions ?s1 @ [v]\<rparr>"])
      (simp_all only: v [symmetric] add_stages_appends, auto simp: policy_of_def)
  then show ?thesis unfolding s' kept_audit using k1 kept_trans by blast
qed

lemma policy_step_kept:
  assumes "policy_step s s'" and "policy_inv s"
  shows "kept s s'"
  using assms
proof (induction rule: policy_step.induct)
  case (create s u g w request now r s')
  then show ?case by (blast intro: create_policy_kept)
next
  case (version s u g w pid source now r s')
  then obtain p src where "s' = snd (insert_version u g w p src now s)"
    by (auto simp: create_policy_version_def result_simps case_prod_beta)
  with insert_version_kept version.prems show ?case unfolding policy_inv_def by blast
next
  case (publish s u g w pid n now r s')
  then obtain v p where v: "version_lookup s pid n g w = Inr v" "av_status v = Draft"
    and "s' = audit_policy p (published_row now v) u ''published'' now
       (s\<lparr>policy_versions := update_where (\<lambda>x. av_id x = av_id v) (published_row now)
          (policy_versions s)\<rparr>)"
    by (elim publish_policyE)
  then show ?case using kept_publish [of s v] version_lookupD [OF v(1)] publish.prems
    by (simp add: policy_inv_def)
qed

section \<open>Routing is unambiguous\<close>

lemma matching_overlap:
  "policy_matches r p \<Longrightarrow> policy_matches r q \<Longrightarrow> routing_scopes_overlap p q"
  by (auto simp: policy_matches_def scope_matches_def routing_scopes_overlap_def
      scope_values_overlap_def)

lemma descending_le: "descending a \<le> descending b \<longleftrightarrow> b \<le> a"
  by (cases a; cases b) (auto simp: descending_def less_eq_prod_def)

abbreviation routed where
  "routed s g w r \<equiv> filter (\<lambda>(v, p). policy_matches r p) (published_in s g w (rq_family r))"

lemma published_in_distinct:
  assumes "distinct (map av_id (policy_versions s))"
  shows "distinct (map (\<lambda>(v, p). av_id v) (published_in s g w f))"
proof -
  have "distinct (map (\<lambda>(v, p). av_id v) (concat (map (\<lambda>v. case policy_of s v of None \<Rightarrow> []
      | Some p \<Rightarrow> if av_org v = g \<and> av_ws v = w \<and> av_status v = Published \<and> ap_family p = f
                 then [(v, p)] else []) vs)))" if "distinct (map av_id vs)" for vs
    using that by (induction vs) (auto split: option.splits if_splits)
  then show ?thesis using assms by (simp add: published_in_def)
qed

lemma routed_key_distinct:
  assumes i: "policy_inv s" and m: "(v, p) \<in> set (routed s g w r)" "(v', p') \<in> set (routed s g w r)"
    and ne: "(v, p) \<noteq> (v', p')"
  shows "route_sort_key p \<noteq> route_sort_key p'"
proof -
  have "av_id v \<noteq> av_id v'"
  proof
    assume "av_id v = av_id v'"
    moreover have "distinct (map av_id (policy_versions s))"
      using i by (simp add: policy_inv_def policy_keys_def)
    ultimately have "v = v'" using m by (auto simp: in_published_in dest: distinct_key_inj)
    then show False using ne m by (auto simp: in_published_in)
  qed
  moreover have "\<forall>(v, p) \<in> set (published_in s g w (rq_family r)).
      \<forall>(v', p') \<in> set (published_in s g w (rq_family r)). av_id v \<noteq> av_id v' \<longrightarrow> \<not> clash p p'"
    using i by (simp add: policy_inv_def published_separated_def)
  ultimately have "\<not> clash p p'" using m by fastforce
  then show ?thesis using m matching_overlap [of r p p'] by (auto simp: clash_def)
qed

lemma routed_sorted:
  assumes i: "policy_inv s"
    and m: "sort_key (\<lambda>(v, p). descending (route_sort_key p)) (routed s g w r) = (v, p) # rest"
  shows "(v, p) \<in> set (routed s g w r) \<and>
    (\<forall>(v', p') \<in> set rest. route_sort_key p' < route_sort_key p)"
proof -
  let ?k = "\<lambda>(v, p). descending (route_sort_key p)"
  have st: "set ((v, p) # rest) = set (routed s g w r)"
    using arg_cong [OF m, of set] by simp
  have "distinct (published_in s g w (rq_family r))"
    using published_in_distinct [of s g w "rq_family r"] i
    by (simp add: policy_inv_def policy_keys_def distinct_map)
  then have d: "distinct ((v, p) # rest)" unfolding m [symmetric] by simp
  have sorted: "sorted (map ?k ((v, p) # rest))" unfolding m [symmetric] by simp
  have "route_sort_key p' < route_sort_key p" if r: "(v', p') \<in> set rest" for v' p'
  proof -
    have "descending (route_sort_key p) \<le> descending (route_sort_key p')" using sorted r by auto
    moreover have "route_sort_key p \<noteq> route_sort_key p'"
    proof (rule routed_key_distinct [OF i])
      show "(v, p) \<in> set (routed s g w r)" "(v', p') \<in> set (routed s g w r)"
        unfolding st [symmetric] using r by simp_all
      show "(v, p) \<noteq> (v', p')" using d r by auto
    qed
    ultimately show ?thesis by (simp add: descending_le)
  qed
  moreover have "(v, p) \<in> set (routed s g w r)" unfolding st [symmetric] by simp
  ultimately show ?thesis by blast
qed

section \<open>Properties\<close>

text \<open>
  C4: every operation on the policy tables keeps the policy invariant: keys are unique and fresh,
  each version has its policy, a policy has at most one published version, a published version has
  a valid stage list, and no two published versions of a family tie for the same request.
\<close>

theorem policy_invariant_preserved:
  assumes "policy_step s s'" and "policy_inv s"
  shows "policy_inv s'"
  by (rule policy_step_inv) fact+

text \<open>
  C5: from empty tables, \<open>route\<close> never raises the routing conflict: the publication check makes
  it unreachable.
\<close>

theorem route_conflict_unreachable:
  assumes "empty_policies s0" and "policy_reach s0 s"
  shows "route_policy s u g w r \<noteq> Inl (http_error 409 ''approval_policy_routing_conflict'')"
proof -
  have i: "policy_inv s" by (rule policy_reach_inv [OF assms(2) empty_policies_inv [OF assms(1)]])
  have "route_sort_key p2 \<noteq> route_sort_key p"
    if "sort_key (\<lambda>(v, p). descending (route_sort_key p)) (routed s g w r) = (v, p) # (v2, p2) # rest"
    for v p v2 p2 rest
    using routed_sorted [OF i that] by auto
  then show ?thesis
    by (auto simp: route_policy_def bindR_Inl_iff authorize_def require_def hide_resource_def
        http_error_def Let_def split: list.splits if_splits)
qed

text \<open>
  C6: for an authorized caller \<open>route\<close> returns nothing exactly when no published policy of the
  family matches the request, and otherwise the one match whose key (specificity, precedence) is
  strictly above that of every other match.
\<close>

theorem route_selects_best:
  assumes "policy_inv s" and "can_access_workspace s u g w AGREEMENTS_READ"
  shows "(routed s g w r = [] \<longrightarrow> route_policy s u g w r = Inr None) \<and>
    (routed s g w r \<noteq> [] \<longrightarrow> (\<exists>v p. route_policy s u g w r = Inr (Some (policy_view s v p)) \<and>
       (v, p) \<in> set (routed s g w r) \<and>
       (\<forall>(v', p') \<in> set (routed s g w r). (v', p') \<noteq> (v, p) \<longrightarrow>
          route_sort_key p' < route_sort_key p)))"
proof (cases "sort_key (\<lambda>(v, p). descending (route_sort_key p)) (routed s g w r)")
  case Nil
  then have "routed s g w r = []" by (metis length_0_conv length_sort)
  with Nil assms(2) show ?thesis by (simp add: route_policy_def authorize_def Let_def)
next
  case (Cons x rest)
  obtain v p where x: "x = (v, p)" by force
  note top = routed_sorted [OF assms(1) Cons [unfolded x]]
  have st: "set (routed s g w r) = insert (v, p) (set rest)"
    using arg_cong [OF Cons, of set] by (simp add: x)
  have "route_policy s u g w r = Inr (Some (policy_view s v p))"
    using Cons x top assms(2)
    by (cases rest) (auto simp: route_policy_def authorize_def Let_def)
  moreover have "\<forall>(v', p') \<in> set (routed s g w r). (v', p') \<noteq> (v, p) \<longrightarrow>
      route_sort_key p' < route_sort_key p"
    unfolding st using top by auto
  moreover have "routed s g w r \<noteq> []" using top by force
  ultimately show ?thesis using top by blast
qed

text \<open>
  C7: a published version is immutable: along any run its row, its policy and its stages stay
  exactly as they were.
\<close>

theorem published_version_frozen:
  assumes "policy_reach s t" and "policy_inv s" and "v \<in> set (policy_versions s)"
    and "av_status v = Published"
  shows "v \<in> set (policy_versions t) \<and> stages_of t (av_id v) = stages_of s (av_id v) \<and>
    policy_of t v = policy_of s v"
proof -
  have "kept s t" using assms(1,2)
  proof (induction rule: policy_reach.induct)
    case start
    show ?case by (simp add: kept_def)
  next
    case (step t t')
    then show ?case using policy_reach_inv policy_step_kept kept_trans by metis
  qed
  then show ?thesis using assms(3,4) by (simp add: kept_def)
qed

lemma fold_max_ge: "x \<in> insert a (set xs) \<Longrightarrow> x \<le> fold max xs (a::nat)"
proof (induction xs arbitrary: a x)
  case (Cons y ys)
  have "max y a \<le> fold max ys (max y a)" by (rule Cons.IH) (rule insertI1)
  moreover have "x \<le> fold max ys (max y a)" if "x \<in> set ys" by (rule Cons.IH) (simp add: that)
  ultimately show ?case using Cons.prems by auto
qed simp

definition stage_content where
  "stage_content x = (ps_ordinal x, ps_name x, ps_mode x, ps_quorum x, ps_roles x, ps_users x,
     ps_deadline_hours x, ps_escalation_role x)"

lemma stage_content_copy [simp]:
  "stage_content (x\<lparr>ps_id := i, ps_org := g, ps_ws := w, ps_version := vid\<rparr>) = stage_content x"
  by (simp add: stage_content_def)

lemma copy_stages_content:
  "\<exists>new. policy_stages (copy_stages g w vid xs s) = policy_stages s @ new \<and>
     map stage_content new = map stage_content xs \<and> (\<forall>x \<in> set new. ps_version x = vid)"
proof (induction g w vid xs s rule: copy_stages.induct)
  case (2 g w vid x xs s)
  let ?y = "x\<lparr>ps_id := uuid4 s, ps_org := g, ps_ws := w, ps_version := vid\<rparr>"
  from 2 obtain new where n: "policy_stages (copy_stages g w vid (x # xs) s) =
      policy_stages s @ ?y # new" "map stage_content new = map stage_content xs"
      "\<forall>x \<in> set new. ps_version x = vid"
    by auto
  then show ?case by (intro exI [of _ "?y # new"]) simp
qed simp

text \<open>
  \<open>create_version\<close> from a source version writes a draft with a version number above all
  earlier ones and the source's stages, in order and with the same content.
\<close>

theorem create_version_copies:
  assumes i: "policy_inv s" and src: "version_lookup s pid n g w = Inr v0"
    and c: "create_policy_version s u g w pid (Some n) now = Inr (r, s')"
  shows "av_status (pr_version r) = Draft \<and> av_policy (pr_version r) = pid \<and>
    (\<forall>x \<in> set (policy_versions s). av_policy x = pid \<longrightarrow> av_version x < av_version (pr_version r)) \<and>
    map stage_content (pr_stages r) = map stage_content (stages_of s (av_id v0))"
proof -
  from c src obtain p where p: "policy_lookup s pid g w = Inr p"
    and r: "r = policy_view s' (fst (insert_version u g w p (Some v0) now s)) p"
    and s': "s' = snd (insert_version u g w p (Some v0) now s)"
    by (auto simp: create_policy_version_def result_simps case_prod_beta)
  let ?v = "fst (insert_version u g w p (Some v0) now s)"
  let ?xs = "stages_of s (av_id v0)"
  have v: "av_id ?v = uuid4 s" "av_status ?v = Draft" "av_policy ?v = pid"
      "av_version ?v = next_version s pid"
    using policy_lookupD [OF p] by (simp_all add: insert_version_def Let_def)
  obtain new where new: "policy_stages s' = policy_stages s @ new"
      "map stage_content new = map stage_content ?xs" "\<forall>x \<in> set new. ps_version x = uuid4 s"
    using copy_stages_content [of g w "uuid4 s" ?xs "draw s\<lparr>policy_versions := policy_versions s @ [?v]\<rparr>"]
    by (auto simp: s' insert_version_def Let_def audit_policy_def)
  have "uuid4 s \<notin> ps_version ` set (policy_stages s)"
    using i keys_fresh [of s] by (auto simp: policy_inv_def stage_links_def policy_ids_def)
  then have none: "filter (\<lambda>x. ps_version x = uuid4 s) (policy_stages s) = []"
    by (simp add: filter_empty_conv) (metis imageI)
  have f: "filter (\<lambda>x. ps_version x = uuid4 s) new = new" using new(3) by (simp add: filter_id_conv)
  have "map ps_ordinal new = map ps_ordinal ?xs"
    using arg_cong [OF new(2), of "map fst"] by (simp add: stage_content_def comp_def)
  then have "sorted (map ps_ordinal new)" by (simp add: stages_of_def)
  then have "stages_of s' (av_id ?v) = new"
    by (simp add: stages_of_def v(1) new(1) none f sorted_sort_id sort_key_id_if_sorted)
  moreover have "av_version x < next_version s pid" if "x \<in> set (policy_versions s)" "av_policy x = pid" for x
    using fold_max_ge [of "av_version x" 0] that by (force simp: next_version_def less_Suc_eq_le)
  ultimately show ?thesis using new(2) v by (simp add: r policy_view_def)
qed

section \<open>A concrete policy\<close>

text \<open>
  A two-stage policy for client agreements: a legal reviewer, then a legal administrator. It is created
  and published by \<open>A1\<close> in an empty workspace.
\<close>

definition demo_policies :: policy_db where
  "demo_policies = demo_tenant \<lparr>agreements = [], agreement_versions = [],
     policies = [], policy_versions = [], policy_stages = [], policy_audit = []\<rparr>"

definition demo_request :: create_policy_request where
  "demo_request = \<lparr>cp_name = ''Contracts'', cp_family = ''client_agreement'', cp_direction = ''any'',
     cp_jurisdiction = ''ae'', cp_materiality = ''any'', cp_precedence = 5,
     cp_submitter_may_approve = False, cp_allow_cross_stage_same_approver = False,
     cp_stages = [\<lparr>sw_name = ''Legal'', sw_mode = ModeAny, sw_quorum = None,
         sw_roles = [''legal_reviewer''], sw_users = [], sw_deadline_hours = Some 24,
         sw_escalation_role = Some ''legal_admin''\<rparr>,
       \<lparr>sw_name = ''Admin'', sw_mode = ModeAny, sw_quorum = None,
         sw_roles = [''legal_admin''], sw_users = [], sw_deadline_hours = None,
         sw_escalation_role = None\<rparr>]\<rparr>"

definition demo_policy :: policy_row where
  "demo_policy = \<lparr>ap_id = demo_uuid 0, ap_org = ''G1'', ap_ws = ''W1'', ap_name = ''Contracts'',
     ap_family = ''client_agreement'', ap_direction = ''any'', ap_jurisdiction = ''AE'',
     ap_materiality = ''any'', ap_precedence = 5, ap_created_by = ''A1'', ap_created_at = 10\<rparr>"

definition demo_version :: "policy_status \<Rightarrow> datetime option \<Rightarrow> policy_version_row" where
  "demo_version status published = \<lparr>av_id = demo_uuid 1, av_org = ''G1'', av_ws = ''W1'',
     av_policy = demo_uuid 0, av_version = 1, av_status = status, av_submitter_may_approve = False,
     av_allow_cross_stage_same_approver = False, av_created_by = ''A1'', av_created_at = 10,
     av_published_at = published\<rparr>"

definition demo_stages :: "policy_stage_row list" where
  "demo_stages = [\<lparr>ps_id = demo_uuid 2, ps_org = ''G1'', ps_ws = ''W1'', ps_version = demo_uuid 1,
       ps_ordinal = 1, ps_name = ''Legal'', ps_mode = ModeAny, ps_quorum = None,
       ps_roles = [''legal_reviewer''], ps_users = [], ps_deadline_hours = Some 24,
       ps_escalation_role = Some ''legal_admin''\<rparr>,
     \<lparr>ps_id = demo_uuid 3, ps_org = ''G1'', ps_ws = ''W1'', ps_version = demo_uuid 1,
       ps_ordinal = 2, ps_name = ''Admin'', ps_mode = ModeAny, ps_quorum = None,
       ps_roles = [''legal_admin''], ps_users = [], ps_deadline_hours = None,
       ps_escalation_role = None\<rparr>]"

definition demo_event :: "uuid \<Rightarrow> string \<Rightarrow> datetime \<Rightarrow> policy_audit_row" where
  "demo_event i action now = \<lparr>pa_id = i, pa_org = ''G1'', pa_ws = ''W1'', pa_policy = demo_uuid 0,
     pa_version = Some (demo_uuid 1), pa_action = action, pa_actor = ''A1'', pa_metadata = JObj [],
     pa_occurred_at = now\<rparr>"

definition demo_created :: policy_db where
  "demo_created = demo_policies\<lparr>uuid_used := 5, policies := [demo_policy],
     policy_versions := [demo_version Draft None], policy_stages := demo_stages,
     policy_audit := [demo_event (demo_uuid 4) ''draft_created'' 10]\<rparr>"

definition demo_published :: policy_db where
  "demo_published = demo_created\<lparr>uuid_used := 6,
     policy_versions := [demo_version Published (Some 20)],
     policy_audit := [demo_event (demo_uuid 4) ''draft_created'' 10,
       demo_event (demo_uuid 5) ''published'' 20]\<rparr>"

lemmas demo_policy_defs = demo_policies_def demo_created_def demo_published_def demo_policy_def
  demo_version_def demo_stages_def demo_event_def demo_tenant_def

lemma demo_policy_access [simp]:
  "can_access_workspace demo_policies u ''G1'' ''W1'' p = demo_access u p"
  "can_access_workspace demo_created u ''G1'' ''W1'' p = demo_access u p"
  "can_access_workspace demo_published u ''G1'' ''W1'' p = demo_access u p"
  by (rule same_tenant_access,
      simp add: same_tenant_def demo_policy_defs demo_identity_def)+

lemma demo_jurisdiction: "normalize_scope_value ''ae'' = ''AE''"
  by code_simp

lemma demo_create:
  "\<exists>r. create_policy demo_policies ''A1'' ''G1'' ''W1'' demo_request 10 = Inr (r, demo_created)"
  by (simp add: create_policy_def authorize_def demo_access_def permissions_for_def Let_def)
    (simp add: demo_request_def draw_def uuid4_def audit_policy_def demo_policy_defs
      demo_jurisdiction)

lemma demo_publish:
  "\<exists>r. publish_policy demo_created ''A1'' ''G1'' ''W1'' (demo_uuid 0) 1 20 = Inr (r, demo_published)"
proof -
  have l: "version_lookup demo_created (demo_uuid 0) 1 ''G1'' ''W1'' = Inr (demo_version Draft None)"
    by (simp add: version_lookup_def demo_policy_defs)
  have st: "stages_of demo_created (demo_uuid 1) = demo_stages"
    by (simp add: stages_of_def demo_policy_defs)
  have av: "av_id (demo_version Draft None) = demo_uuid 1" by (simp add: demo_version_def)
  have v: "validate_draft demo_created (demo_version Draft None) = Inr ()"
    unfolding validate_draft_iff av st
    by (simp add: demo_stages_def publishable_def stage_ok_def role_values_def RoleKey_def)
  have p: "policy_of demo_created (demo_version Draft None) = Some demo_policy"
    by (simp add: policy_of_def demo_policy_defs)
  have e: "ensure_no_equal_routing_match demo_created demo_policy (demo_uuid 1) = Inr ()"
    by (simp add: ensure_no_equal_routing_match_def published_in_def policy_of_def demo_policy_defs)
  have x: "\<not> exists_row (\<lambda>v. av_policy v = demo_uuid 0 \<and> av_status v = Published) (policy_versions demo_created)"
    by (simp add: demo_policy_defs)
  have ad: "av_status (demo_version Draft None) = Draft" by (simp add: demo_version_def)
  show ?thesis unfolding publish_policy_def l
    using x by (simp add: authorize_def demo_access_def permissions_for_def v p e [folded av] Let_def ad
        del: exists_row_iff)
      (simp add: audit_policy_def draw_def uuid4_def demo_policy_defs)
qed

lemma demo_policies_empty: "empty_policies demo_policies"
  by (simp add: empty_policies_def demo_policy_defs)

lemma demo_reach: "policy_reach demo_policies demo_published"
proof -
  have "policy_step demo_policies demo_created" using demo_create policy_step.create by blast
  moreover have "policy_step demo_created demo_published" using demo_publish policy_step.publish by blast
  ultimately show ?thesis by (rule policy_reach.step [OF policy_reach.step [OF policy_reach.start]])
qed

lemma demo_published_inv: "policy_inv demo_published"
  by (rule policy_reach_inv [OF demo_reach empty_policies_inv [OF demo_policies_empty]])

theorem policy_invariant_preserved_witness: "policy_inv demo_created \<and> policies demo_created = [demo_policy]"
proof -
  have "policy_step demo_policies demo_created" using demo_create by (blast intro: policy_step.create)
  from policy_invariant_preserved [OF this empty_policies_inv [OF demo_policies_empty]]
  show ?thesis by (simp add: demo_created_def)
qed

definition demo_route :: route_request where
  "demo_route = \<lparr>rq_family = ''client_agreement'', rq_direction = ''counterparty'', rq_jurisdiction = ''AE'',
     rq_materiality = ''high''\<rparr>"

theorem route_conflict_unreachable_witness:
  "route_policy demo_published ''U1'' ''G1'' ''W1'' demo_route \<noteq>
     Inl (http_error 409 ''approval_policy_routing_conflict'')"
  by (rule route_conflict_unreachable [OF demo_policies_empty demo_reach])

theorem route_selects_best_witness:
  "\<exists>r. route_policy demo_published ''U1'' ''G1'' ''W1'' demo_route = Inr (Some r) \<and> pr_policy r = demo_policy"
proof -
  have a: "can_access_workspace demo_published ''U1'' ''G1'' ''W1'' AGREEMENTS_READ"
    by (simp add: demo_access_def permissions_for_def)
  have "routed demo_published ''G1'' ''W1'' demo_route = [(demo_version Published (Some 20), demo_policy)]"
    by (simp add: published_in_def policy_of_def demo_policy_defs demo_route_def policy_matches_def
        scope_matches_def)
  then show ?thesis using route_selects_best [OF demo_published_inv a, of demo_route]
    by (auto simp: policy_view_def)
qed

lemma demo_new_version:
  "\<exists>r s'. create_policy_version demo_published ''A1'' ''G1'' ''W1'' (demo_uuid 0) (Some 1) 30 = Inr (r, s')"
  by (simp add: create_policy_version_def authorize_def demo_access_def permissions_for_def
      policy_lookup_def version_lookup_def case_prod_beta Let_def)
    (simp add: demo_policy_defs)

theorem published_version_frozen_witness:
  "\<exists>t. policy_reach demo_published t \<and> t \<noteq> demo_published \<and> stages_of t (demo_uuid 1) = demo_stages"
proof -
  obtain r t where c: "create_policy_version demo_published ''A1'' ''G1'' ''W1'' (demo_uuid 0) (Some 1) 30 = Inr (r, t)"
    using demo_new_version by blast
  then have reach: "policy_reach demo_published t"
    by (blast intro: policy_reach.intros policy_step.intros)
  have v: "version_lookup demo_published (demo_uuid 0) 1 ''G1'' ''W1'' = Inr (demo_version Published (Some 20))"
    by (simp add: version_lookup_def demo_policy_defs)
  from published_version_frozen [OF reach demo_published_inv, of "demo_version Published (Some 20)"]
  have "stages_of t (demo_uuid 1) = stages_of demo_published (demo_uuid 1)"
    by (simp add: demo_policy_defs)
  moreover have "stages_of demo_published (demo_uuid 1) = demo_stages"
    by (simp add: stages_of_def demo_policy_defs)
  moreover have "length (policy_versions t) = Suc (length (policy_versions demo_published))"
    using c create_version_appends by blast
  then have "t \<noteq> demo_published" by auto
  ultimately show ?thesis using reach by auto
qed

theorem create_version_copies_witness:
  "\<exists>r s'. create_policy_version demo_published ''A1'' ''G1'' ''W1'' (demo_uuid 0) (Some 1) 30 = Inr (r, s') \<and>
     map stage_content (pr_stages r) = map stage_content demo_stages"
proof -
  obtain r t where c: "create_policy_version demo_published ''A1'' ''G1'' ''W1'' (demo_uuid 0) (Some 1) 30 = Inr (r, t)"
    using demo_new_version by blast
  have v: "version_lookup demo_published (demo_uuid 0) 1 ''G1'' ''W1'' = Inr (demo_version Published (Some 20))"
    by (simp add: version_lookup_def demo_policy_defs)
  have "stages_of demo_published (av_id (demo_version Published (Some 20))) = demo_stages"
    by (simp add: stages_of_def demo_policy_defs)
  with create_version_copies [OF demo_published_inv v c] c show ?thesis by auto
qed

end
