(* ===== verification/Regex.thy ===== *)
theory Regex
  imports Prelude
begin

text \<open>
  The part of Python's \<open>re\<close> the sources use: character classes, sequences, alternatives, bounded
  and unbounded repetition, word boundaries, anchors, the two negative lookarounds on \<open>\w\<close>, and any other
  lookaround as a test of the position (\<open>Look\<close>).
  Whether \<open>search\<close> or \<open>fullmatch\<close> finds a match does not depend on the backtracking order, so a
  pattern is matched by the list of its possible end positions. \<open>rx_match\<close> is the declarative
  meaning, \<open>rx_ends_iff\<close> relates the two. Classes are ASCII: \<open>\w\<close>, \<open>\d\<close> and \<open>\s\<close> restricted
  to it.
\<close>

section \<open>Patterns\<close>

datatype rx =
    Cls "char \<Rightarrow> bool"
  | Eps
  | Seq rx rx
  | Alt rx rx
  | Star rx
  | WordBoundary
  | NoWordBefore
  | NoWordAfter
  | AtStart
  | AtEnd
  | Look "string \<Rightarrow> nat \<Rightarrow> bool"

definition char_code :: "char \<Rightarrow> nat" where
  "char_code c = of_char c"

definition is_digit :: "char \<Rightarrow> bool" where
  "is_digit c \<longleftrightarrow> 48 \<le> char_code c \<and> char_code c \<le> 57"

definition is_upper :: "char \<Rightarrow> bool" where
  "is_upper c \<longleftrightarrow> 65 \<le> char_code c \<and> char_code c \<le> 90"

definition is_lower :: "char \<Rightarrow> bool" where
  "is_lower c \<longleftrightarrow> 97 \<le> char_code c \<and> char_code c \<le> 122"

definition is_alnum :: "char \<Rightarrow> bool" where
  "is_alnum c \<longleftrightarrow> is_digit c \<or> is_upper c \<or> is_lower c"

definition is_word :: "char \<Rightarrow> bool" where
  "is_word c \<longleftrightarrow> is_alnum c \<or> c = CHR ''_''"

text \<open>The classes bit by bit, so that a match on a literal is evaluated quickly.\<close>

lemma lower_char_bits [code]:
  "lower_char (Char b0 b1 b2 b3 b4 b5 b6 b7) =
     (if \<not> b7 \<and> b6 \<and> \<not> b5 \<and> (b0 \<or> b1 \<or> b2 \<or> b3 \<or> b4) \<and> \<not> (b4 \<and> b3 \<and> (b2 \<or> b1 \<and> b0))
      then Char b0 b1 b2 b3 b4 True b6 b7 else Char b0 b1 b2 b3 b4 b5 b6 b7)"
  by (cases b0; cases b1; cases b2; cases b3; cases b4; cases b5; cases b6; cases b7)
    (simp_all add: lower_char_def char_of_def bit_Suc_0_iff)

lemma is_upper_bits [code]:
  "is_upper (Char b0 b1 b2 b3 b4 b5 b6 b7) \<longleftrightarrow>
     \<not> b7 \<and> b6 \<and> \<not> b5 \<and> (b0 \<or> b1 \<or> b2 \<or> b3 \<or> b4) \<and> \<not> (b4 \<and> b3 \<and> (b2 \<or> b1 \<and> b0))"
  by (cases b0; cases b1; cases b2; cases b3; cases b4; cases b5; cases b6; cases b7)
    (simp_all add: is_upper_def char_code_def)

lemma is_lower_bits [code]:
  "is_lower (Char b0 b1 b2 b3 b4 b5 b6 b7) \<longleftrightarrow>
     \<not> b7 \<and> b6 \<and> b5 \<and> (b0 \<or> b1 \<or> b2 \<or> b3 \<or> b4) \<and> \<not> (b4 \<and> b3 \<and> (b2 \<or> b1 \<and> b0))"
  by (cases b0; cases b1; cases b2; cases b3; cases b4; cases b5; cases b6; cases b7)
    (simp_all add: is_lower_def char_code_def)

lemma is_digit_bits [code]:
  "is_digit (Char b0 b1 b2 b3 b4 b5 b6 b7) \<longleftrightarrow>
     \<not> b7 \<and> \<not> b6 \<and> b5 \<and> b4 \<and> \<not> (b3 \<and> (b2 \<or> b1))"
  by (cases b0; cases b1; cases b2; cases b3; cases b4; cases b5; cases b6; cases b7)
    (simp_all add: is_digit_def char_code_def)

lemma is_space_bits [code]:
  "is_space (Char b0 b1 b2 b3 b4 b5 b6 b7) \<longleftrightarrow> \<not> b7 \<and> \<not> b6 \<and>
     (if b5 then \<not> b0 \<and> \<not> b1 \<and> \<not> b2 \<and> \<not> b3 \<and> \<not> b4
      else b3 \<and> (if b4 then b2 else b2 \<and> \<not> b1 \<or> \<not> b2 \<and> (b0 \<or> b1)))"
  by (cases b0; cases b1; cases b2; cases b3; cases b4; cases b5; cases b6; cases b7)
    (simp_all add: is_space_def)

definition word_at :: "string \<Rightarrow> nat \<Rightarrow> bool" where
  "word_at s i \<longleftrightarrow> i < length s \<and> is_word (s ! i)"

definition word_before :: "string \<Rightarrow> nat \<Rightarrow> bool" where
  "word_before s i \<longleftrightarrow> 0 < i \<and> word_at s (i - 1)"

text \<open>\<open>$\<close> also matches before a final newline.\<close>

definition at_end :: "string \<Rightarrow> nat \<Rightarrow> bool" where
  "at_end s i \<longleftrightarrow> i = length s \<or> (Suc i = length s \<and> s ! i = char_of (10::nat))"

section \<open>Matching\<close>

fun rx_star :: "nat \<Rightarrow> (nat \<Rightarrow> nat list) \<Rightarrow> nat list \<Rightarrow> nat list" where
  "rx_star 0 f xs = xs"
| "rx_star (Suc n) f xs = rx_star n f (remdups (xs @ concat (map f xs)))"

fun rx_ends :: "rx \<Rightarrow> string \<Rightarrow> nat \<Rightarrow> nat list" where
  "rx_ends (Cls p) s i = (if i < length s \<and> p (s ! i) then [Suc i] else [])"
| "rx_ends Eps s i = [i]"
| "rx_ends (Seq a b) s i = remdups (concat (map (rx_ends b s) (rx_ends a s i)))"
| "rx_ends (Alt a b) s i = remdups (rx_ends a s i @ rx_ends b s i)"
| "rx_ends (Star a) s i = rx_star (length s) (rx_ends a s) [i]"
| "rx_ends WordBoundary s i = (if word_before s i \<noteq> word_at s i then [i] else [])"
| "rx_ends NoWordBefore s i = (if word_before s i then [] else [i])"
| "rx_ends NoWordAfter s i = (if word_at s i then [] else [i])"
| "rx_ends AtStart s i = (if i = 0 then [i] else [])"
| "rx_ends AtEnd s i = (if at_end s i then [i] else [])"
| "rx_ends (Look p) s i = (if p s i then [i] else [])"

definition rx_search :: "rx \<Rightarrow> string \<Rightarrow> bool" where
  "rx_search r s \<longleftrightarrow> list_ex (\<lambda>i. rx_ends r s i \<noteq> []) [0..<Suc (length s)]"

definition rx_fullmatch :: "rx \<Rightarrow> string \<Rightarrow> bool" where
  "rx_fullmatch r s \<longleftrightarrow> length s \<in> set (rx_ends r s 0)"

text \<open>
  \<open>findall\<close>: the matches from left to right, each from the end of the one before. A position where a pattern has
  several ends takes the last of them.
\<close>

fun rx_find_from :: "rx \<Rightarrow> string \<Rightarrow> nat \<Rightarrow> nat \<Rightarrow> string list" where
  "rx_find_from r s 0 i = []"
| "rx_find_from r s (Suc n) i =
     (if length s < i then []
      else case rx_ends r s i of
             [] \<Rightarrow> rx_find_from r s n (Suc i)
           | js \<Rightarrow> (let j = foldr max js 0
                    in take (j - i) (drop i s) # rx_find_from r s n (if j = i then Suc i else j)))"

definition rx_findall :: "rx \<Rightarrow> string \<Rightarrow> string list" where
  "rx_findall r s = rx_find_from r s (Suc (length s)) 0"

section \<open>Building patterns\<close>

fun seqs :: "rx list \<Rightarrow> rx" where
  "seqs [] = Eps"
| "seqs [r] = r"
| "seqs (r # rs) = Seq r (seqs rs)"

fun alts :: "rx list \<Rightarrow> rx" where
  "alts [] = Cls (\<lambda>_. False)"
| "alts [r] = r"
| "alts (r # rs) = Alt r (alts rs)"

definition optional :: "rx \<Rightarrow> rx" where
  "optional r = Alt r Eps"

definition plus :: "rx \<Rightarrow> rx" where
  "plus r = Seq r (Star r)"

fun times :: "nat \<Rightarrow> rx \<Rightarrow> rx" where
  "times 0 r = Eps"
| "times (Suc n) r = Seq r (times n r)"

definition at_least :: "nat \<Rightarrow> rx \<Rightarrow> rx" where
  "at_least n r = Seq (times n r) (Star r)"

fun at_most :: "nat \<Rightarrow> rx \<Rightarrow> rx" where
  "at_most 0 r = Eps"
| "at_most (Suc n) r = optional (Seq r (at_most n r))"

definition between :: "nat \<Rightarrow> nat \<Rightarrow> rx \<Rightarrow> rx" where
  "between m n r = Seq (times m r) (at_most (n - m) r)"

definition lit :: "string \<Rightarrow> rx" where
  "lit s = seqs (map (\<lambda>c. Cls (\<lambda>x. x = c)) s)"

text \<open>A literal and a class under \<open>re.IGNORECASE\<close>.\<close>

definition lit_ci :: "string \<Rightarrow> rx" where
  "lit_ci s = seqs (map (\<lambda>c. Cls (\<lambda>x. lower_char x = lower_char c)) s)"

definition one_of :: "string \<Rightarrow> rx" where
  "one_of cs = Cls (\<lambda>x. x \<in> set cs)"

definition spaces :: rx where
  "spaces = plus (Cls is_space)"

text \<open>\<open>\bw1\s+w2...\b\<close> for a list of words, under \<open>re.IGNORECASE\<close>.\<close>

fun words_ci :: "string list \<Rightarrow> rx" where
  "words_ci [] = Eps"
| "words_ci [w] = lit_ci w"
| "words_ci (w # ws) = Seq (lit_ci w) (Seq spaces (words_ci ws))"

definition bounded :: "rx \<Rightarrow> rx" where
  "bounded r = Seq WordBoundary (Seq r WordBoundary)"

section \<open>The declarative meaning\<close>

inductive rx_match :: "rx \<Rightarrow> string \<Rightarrow> nat \<Rightarrow> nat \<Rightarrow> bool" where
  cls: "i < length s \<Longrightarrow> p (s ! i) \<Longrightarrow> rx_match (Cls p) s i (Suc i)"
| eps: "rx_match Eps s i i"
| sequence: "rx_match a s i j \<Longrightarrow> rx_match b s j k \<Longrightarrow> rx_match (Seq a b) s i k"
| left: "rx_match a s i j \<Longrightarrow> rx_match (Alt a b) s i j"
| right: "rx_match b s i j \<Longrightarrow> rx_match (Alt a b) s i j"
| star_done: "rx_match (Star a) s i i"
| star_step: "rx_match (Star a) s i j \<Longrightarrow> rx_match a s j k \<Longrightarrow> rx_match (Star a) s i k"
| boundary: "word_before s i \<noteq> word_at s i \<Longrightarrow> rx_match WordBoundary s i i"
| no_before: "\<not> word_before s i \<Longrightarrow> rx_match NoWordBefore s i i"
| no_after: "\<not> word_at s i \<Longrightarrow> rx_match NoWordAfter s i i"
| start: "rx_match AtStart s 0 0"
| finish: "at_end s i \<Longrightarrow> rx_match AtEnd s i i"
| look: "p s i \<Longrightarrow> rx_match (Look p) s i i"

inductive_cases rx_matchE [elim!]:
  "rx_match (Cls p) s i j" "rx_match Eps s i j" "rx_match (Seq a b) s i j"
  "rx_match (Alt a b) s i j" "rx_match WordBoundary s i j" "rx_match NoWordBefore s i j"
  "rx_match NoWordAfter s i j" "rx_match AtStart s i j" "rx_match AtEnd s i j"
  "rx_match (Look p) s i j"

lemma rx_match_bounds: "rx_match r s i j \<Longrightarrow> i \<le> j \<and> (i < j \<longrightarrow> j \<le> length s)"
  by (induction rule: rx_match.induct) force+

lemma rx_match_star: "rx_match (Star a) s i j \<longleftrightarrow> (rx_match a s)\<^sup>*\<^sup>* i j"
proof
  show "(rx_match a s)\<^sup>*\<^sup>* i j" if "rx_match (Star a) s i j"
    using that by (induction "Star a" s i j rule: rx_match.induct) (auto intro: rtranclp.intros)
  show "rx_match (Star a) s i j" if "(rx_match a s)\<^sup>*\<^sup>* i j"
    using that by (induction rule: rtranclp_induct) (auto intro: rx_match.intros)
qed

text \<open>The fuel of a star: after \<open>n\<close> rounds every position reached in \<open>n\<close> steps is listed.\<close>

lemma rx_star_sound: "y \<in> set (rx_star n f xs) \<Longrightarrow> \<exists>x \<in> set xs. (\<lambda>a b. b \<in> set (f a))\<^sup>*\<^sup>* x y"
proof (induction n f xs rule: rx_star.induct)
  case (1 f xs)
  then show ?case by auto
next
  case (2 n f xs)
  then obtain x where "x \<in> set xs \<or> (\<exists>z \<in> set xs. x \<in> set (f z))"
    and x: "(\<lambda>a b. b \<in> set (f a))\<^sup>*\<^sup>* x y" by auto
  then show ?case using converse_rtranclp_into_rtranclp [of "\<lambda>a b. b \<in> set (f a)" _ x y] by blast
qed

lemma rx_star_mono: "x \<in> set xs \<Longrightarrow> x \<in> set (rx_star n f xs)"
  by (induction n f xs rule: rx_star.induct) auto

lemma rx_star_complete:
  "((\<lambda>a b. b \<in> set (f a)) ^^ k) x y \<Longrightarrow> k \<le> n \<Longrightarrow> x \<in> set xs \<Longrightarrow> y \<in> set (rx_star n f xs)"
proof (induction k arbitrary: n xs x)
  case 0
  then show ?case by (simp add: rx_star_mono)
next
  case (Suc k)
  then obtain z where z: "z \<in> set (f x)" "((\<lambda>a b. b \<in> set (f a)) ^^ k) z y"
    by (metis relpowp_Suc_D2)
  obtain m where n: "n = Suc m" "k \<le> m" using Suc.prems(2) by (cases n) auto
  have "z \<in> set (remdups (xs @ concat (map f xs)))" using z(1) Suc.prems(3) by auto
  from Suc.IH [OF z(2) n(2) this] show ?case by (simp add: n(1))
qed

lemma increasing_relpowp:
  assumes "\<And>a b. R a b \<Longrightarrow> a < b" and "(R ^^ k) x y"
  shows "x + k \<le> (y::nat)"
  using assms(2)
proof (induction k arbitrary: y)
  case (Suc k)
  then obtain z where "(R ^^ k) x z" "R z y" by auto
  then show ?case using Suc.IH assms(1) by fastforce
qed simp

lemma rtranclp_increasing:
  assumes "\<And>a b. R a b \<Longrightarrow> a \<le> b \<and> (a < b \<longrightarrow> b \<le> m)" and "R\<^sup>*\<^sup>* x (y::nat)"
  shows "\<exists>k \<le> m. (R ^^ k) x y"
proof -
  let ?S = "\<lambda>a b. R a b \<and> a \<noteq> b"
  have S: "?S\<^sup>*\<^sup>* x y" using assms(2)
  proof (induction rule: rtranclp_induct)
    case (step a b)
    then show ?case by (cases "a = b") (auto intro: rtranclp.rtrancl_into_rtrancl)
  qed simp
  then obtain k where k: "(?S ^^ k) x y" by (auto simp: rtranclp_power)
  have "x + k \<le> y" by (rule increasing_relpowp [OF _ k]) (use assms(1) in fastforce)
  moreover have "k = 0 \<or> y \<le> m"
  proof (cases k)
    case (Suc j)
    then obtain z where "?S z y" using k by auto
    then show ?thesis using assms(1) by fastforce
  qed simp
  ultimately have "k \<le> m" by linarith
  moreover have "(R ^^ k) x y" by (rule relpowp_mono [OF _ k]) simp
  ultimately show ?thesis by blast
qed

lemma rx_ends_iff: "j \<in> set (rx_ends r s i) \<longleftrightarrow> rx_match r s i j"
proof (induction r arbitrary: i j)
  case (Star r)
  have R: "(\<lambda>a b. b \<in> set (rx_ends r s a)) = rx_match r s" using Star.IH by (intro ext) simp
  show ?case
  proof
    assume "j \<in> set (rx_ends (Star r) s i)"
    then show "rx_match (Star r) s i j"
      using rx_star_sound [of j "length s" "rx_ends r s" "[i]"] by (simp add: R rx_match_star)
  next
    assume "rx_match (Star r) s i j"
    then have "(rx_match r s)\<^sup>*\<^sup>* i j" by (simp add: rx_match_star)
    then obtain k where "k \<le> length s" "(rx_match r s ^^ k) i j"
      using rtranclp_increasing [of "rx_match r s" "length s"] rx_match_bounds by blast
    then show "j \<in> set (rx_ends (Star r) s i)"
      using rx_star_complete [of k "rx_ends r s" i j "length s" "[i]"] by (simp add: R)
  qed
qed (auto intro: rx_match.intros split: if_splits)

lemma rx_search_iff: "rx_search r s \<longleftrightarrow> (\<exists>i j. i \<le> length s \<and> rx_match r s i j)"
proof -
  have "rx_ends r s i \<noteq> [] \<longleftrightarrow> (\<exists>j. rx_match r s i j)" for i
    by (cases "rx_ends r s i") (auto simp: rx_ends_iff [symmetric])
  then show ?thesis by (auto simp: rx_search_def list_ex_iff less_Suc_eq_le simp del: upt_Suc)
qed

lemma rx_fullmatch_iff: "rx_fullmatch r s \<longleftrightarrow> rx_match r s 0 (length s)"
  by (simp add: rx_fullmatch_def rx_ends_iff)

end
