(* ===== verification/Audit_Ledger.thy ===== *)
theory Audit_Ledger
  imports Approval_Policies Regex
begin

text \<open>
  The general audit ledger (\<open>audit/models.py\<close>, \<open>audit/service.py\<close>): the writer every component
  records its state transitions with, the redaction of the values it stores, and the listing for
  auditors. The listeners of the model class make a row immutable, so no operation here updates
  or deletes one.
\<close>

section \<open>Redaction\<close>

definition REDACTED :: string where
  "REDACTED = ''[REDACTED]''"

definition MAX_SAFE_TEXT_LENGTH :: nat where
  "MAX_SAFE_TEXT_LENGTH = 256"

definition SENSITIVE_KEY_FRAGMENTS :: "string list" where
  "SENSITIVE_KEY_FRAGMENTS = [''agreement_text'', ''document_text'', ''source_text'', ''raw_text'',
     ''content'', ''prompt'', ''completion'', ''provider_output'', ''secret'', ''token'',
     ''password'', ''credential'', ''api_key'', ''authorization'']"

definition FREE_FORM_KEY_FRAGMENTS :: "string list" where
  "FREE_FORM_KEY_FRAGMENTS = [''reason'', ''note'', ''comment'', ''rationale'', ''explanation'',
     ''description'', ''message'', ''body'']"

definition APPROVED_REASON_CODES :: "string set" where
  "APPROVED_REASON_CODES = {''business_exception'', ''contractual_requirement'',
     ''jurisdictional_requirement'', ''risk_exception'', ''other''}"

definition token_char :: "char \<Rightarrow> bool" where
  "token_char c \<longleftrightarrow> is_alnum c \<or> c \<in> {CHR ''_'', CHR ''-''}"

definition CREDENTIAL_PATTERN :: rx where
  "CREDENTIAL_PATTERN = alts
     [seqs [WordBoundary,
        alts [lit_ci ''sk'', lit_ci ''pk'', lit_ci ''ghp'', lit_ci ''github_pat'',
          Seq (lit_ci ''xox'') (alts (map (\<lambda>c. lit_ci [c]) ''baprs''))],
        one_of ''-_'', at_least 8 (Cls token_char)],
      seqs [WordBoundary, lit_ci ''akia'', times 16 (Cls is_alnum), WordBoundary],
      seqs [WordBoundary, lit_ci ''bearer'', spaces,
        at_least 8 (Cls (\<lambda>c. is_alnum c \<or> c \<in> set ''._~+/=-''))],
      seqs [lit_ci ''-----begin '', plus (Cls (\<lambda>c. is_upper c \<or> is_lower c \<or> c = CHR '' '')),
        lit_ci ''private key-----'']]"

definition JWT_PATTERN :: rx where
  "JWT_PATTERN = seqs [WordBoundary, lit ''eyJ'', at_least 8 (Cls token_char), lit ''.'',
     plus (Cls token_char), lit ''.'', plus (Cls token_char), WordBoundary]"

definition EMAIL_PATTERN :: rx where
  "EMAIL_PATTERN = (let part = plus (Cls (\<lambda>c. \<not> is_space c \<and> c \<noteq> CHR ''@''))
     in seqs [WordBoundary, part, lit ''@'', part, lit ''.'', part, WordBoundary])"

definition PHONE_PATTERN :: rx where
  "PHONE_PATTERN = seqs [NoWordBefore, optional (lit ''+''), Cls is_digit,
     at_least 7 (Seq (Star (Cls (\<lambda>c. is_space c \<or> c \<in> set ''().-''))) (Cls is_digit)), NoWordAfter]"

definition is_hex :: "char \<Rightarrow> bool" where
  "is_hex c \<longleftrightarrow> is_digit c \<or> lower_char c \<in> set ''abcdef''"

definition UUID_PATTERN :: rx where
  "UUID_PATTERN = (let hex = (\<lambda>n. times n (Cls is_hex))
     in seqs [AtStart, hex 8, lit ''-'', hex 4, lit ''-'', hex 4, lit ''-'', hex 4, lit ''-'',
          hex 12, AtEnd])"

definition RESTRICTED_TEXT_PATTERN :: rx where
  "RESTRICTED_TEXT_PATTERN = (let instruction = Seq (lit_ci ''instruction'') (optional (lit_ci ''s''));
        direction = Seq (lit_ci ''direction'') (optional (lit_ci ''s''));
        output = alts [lit_ci ''output'', lit_ci ''response'']
     in alts
     [bounded (Seq (Seq (lit_ci ''this'') spaces) (alts [lit_ci ''agreement'', lit_ci ''contract''])),
      bounded (lit_ci ''whereas''),
      bounded (words_ci [''governing'', ''law'']),
      bounded (words_ci [''terms'', ''and'', ''conditions'']),
      bounded (seqs [optional (Seq (lit_ci ''the'') spaces),
        alts [lit_ci ''supplier'', lit_ci ''customer'', lit_ci ''party'', lit_ci ''parties''],
        spaces, lit_ci ''shall'']),
      bounded (seqs [words_ci [''the'', ''parties'', ''agree''], spaces,
        alts [lit_ci ''to'', lit_ci ''that'']]),
      bounded (seqs [alts [lit_ci ''ignore'', lit_ci ''disregard'', lit_ci ''override''], spaces,
        optional (Seq (lit_ci ''all'') spaces),
        alts [lit_ci ''previous'', lit_ci ''prior'', lit_ci ''earlier''], spaces,
        alts [instruction, direction]]),
      bounded (seqs [lit_ci ''hidden'', spaces, instruction]),
      bounded (words_ci [''system'', ''prompt'']),
      bounded (seqs [lit_ci ''provider'', spaces, output]),
      bounded (seqs [optional (seqs [lit_ci ''here'', spaces, lit_ci ''is'', spaces]),
        optional (Seq (lit_ci ''the'') spaces), lit_ci ''assistant'', spaces, output]),
      bounded (seqs [lit_ci ''model'', spaces, alts [output, lit_ci ''completion'']])])"

definition normalize_key :: "string \<Rightarrow> string" where
  "normalize_key key = map (\<lambda>c. if c = CHR ''-'' \<or> c = CHR '' '' then CHR ''_'' else c) (str_lower key)"

definition is_sensitive_key :: "string \<Rightarrow> bool" where
  "is_sensitive_key key \<longleftrightarrow>
     (let normalized = normalize_key key
      in list_ex (\<lambda>f. contains f normalized) SENSITIVE_KEY_FRAGMENTS \<or>
         list_ex (\<lambda>f. contains f normalized) FREE_FORM_KEY_FRAGMENTS)"

definition is_reason_code_key :: "string \<Rightarrow> bool" where
  "is_reason_code_key key \<longleftrightarrow>
     (let normalized = normalize_key key
      in normalized = ''reason_code'' \<or> endswith ''_reason_code'' normalized)"

definition is_restricted_text :: "string \<Rightarrow> bool" where
  "is_restricted_text v \<longleftrightarrow> \<not> rx_fullmatch UUID_PATTERN v \<and>
     (length v > MAX_SAFE_TEXT_LENGTH \<or> rx_search CREDENTIAL_PATTERN v \<or> rx_search JWT_PATTERN v \<or>
      rx_search EMAIL_PATTERN v \<or> rx_search PHONE_PATTERN v \<or> rx_search RESTRICTED_TEXT_PATTERN v)"

fun safe_leaf :: "json \<Rightarrow> json" where
  "safe_leaf (JStr s) = (if is_restricted_text s then JStr REDACTED else JStr s)"
| "safe_leaf (JOpaque s) = JStr REDACTED"
| "safe_leaf v = v"

fun safe_reason :: "json \<Rightarrow> json" where
  "safe_reason (JStr s) = (if s \<in> APPROVED_REASON_CODES then JStr s else JStr REDACTED)"
| "safe_reason v = JStr REDACTED"

fun safe_value :: "string \<Rightarrow> json \<Rightarrow> json" where
  "safe_value key (JObj kvs) =
     (if is_reason_code_key key then safe_reason (JObj kvs)
      else if is_sensitive_key key then JStr REDACTED
      else JObj (map (\<lambda>(k, v). (k, safe_value k v)) kvs))"
| "safe_value key (JList vs) =
     (if is_reason_code_key key then safe_reason (JList vs)
      else if is_sensitive_key key then JStr REDACTED
      else JList (map (safe_value key) vs))"
| "safe_value key v =
     (if is_reason_code_key key then safe_reason v
      else if is_sensitive_key key then JStr REDACTED
      else safe_leaf v)"

definition safe_mapping :: "(string \<times> json) list \<Rightarrow> json" where
  "safe_mapping m = JObj (map (\<lambda>(k, v). (k, safe_value k v)) m)"

section \<open>The ledger\<close>

record audit_row =
  ae_id :: uuid
  ae_org :: uuid
  ae_ws :: uuid
  ae_actor :: uuid
  ae_action :: string
  ae_resource_type :: string
  ae_resource_id :: "uuid option"
  ae_outcome :: string
  ae_correlation_id :: string
  ae_before_ref :: json
  ae_after_ref :: json
  ae_metadata :: json
  ae_occurred_at :: datetime

record audit_db = policy_db +
  audit_events :: "audit_row list"

lemma draw_audit [simp]: "audit_events (draw s) = audit_events s"
  by (simp add: draw_def)

text \<open>
  The arguments of one \<open>record\<close> call. The correlation id is the caller's; the fallback to the
  request context for an empty one is the parameter \<open>context_id\<close>.
\<close>

record audit_entry =
  en_org :: uuid
  en_ws :: uuid
  en_actor :: uuid
  en_action :: string
  en_resource_type :: string
  en_resource_id :: "uuid option"
  en_outcome :: string
  en_correlation_id :: string
  en_before :: "(string \<times> json) list"
  en_after :: "(string \<times> json) list"
  en_metadata :: "(string \<times> json) list"

definition record_audit ::
  "string \<Rightarrow> audit_entry \<Rightarrow> datetime \<Rightarrow> 'z audit_db_scheme \<Rightarrow> 'z audit_db_scheme" where
  "record_audit context_id e occurred_at s =
     draw s\<lparr>audit_events := audit_events s @
       [\<lparr>ae_id = uuid4 s, ae_org = en_org e, ae_ws = en_ws e, ae_actor = en_actor e,
         ae_action = en_action e, ae_resource_type = en_resource_type e,
         ae_resource_id = en_resource_id e, ae_outcome = en_outcome e,
         ae_correlation_id = (if en_correlation_id e = [] then context_id else en_correlation_id e),
         ae_before_ref = safe_mapping (en_before e), ae_after_ref = safe_mapping (en_after e),
         ae_metadata = safe_mapping (en_metadata e), ae_occurred_at = occurred_at\<rparr>]\<rparr>"

definition list_events ::
  "'z audit_db_scheme \<Rightarrow> uuid \<Rightarrow> uuid \<Rightarrow> uuid \<Rightarrow> string option \<Rightarrow> uuid option \<Rightarrow> nat
   \<Rightarrow> audit_row list result" where
  "list_events s actor organization_id workspace_id resource_type resource_id limit =
     bindR (authorize AUDIT_READ s actor organization_id workspace_id) (\<lambda>_.
       Inr (take limit (rev (sort_key (\<lambda>e. (ae_occurred_at e, ae_id e))
         (filter (\<lambda>e. ae_org e = organization_id \<and> ae_ws e = workspace_id \<and>
            (case resource_type of None \<Rightarrow> True | Some t \<Rightarrow> ae_resource_type e = t) \<and>
            (case resource_id of None \<Rightarrow> True | Some i \<Rightarrow> ae_resource_id e = Some i))
          (audit_events s))))))"

interpretation list_events: guarded "\<lambda>s u g w. list_events s u g w rt ri n" AUDIT_READ for rt ri n
  by unfold_locales (simp add: list_events_def authorize_refuses)

section \<open>What is stored is clean\<close>

text \<open>
  A value that may be stored under a key: nothing but the marker under a sensitive key, nothing
  but the marker or an approved code under a reason code key, and elsewhere only strings that are
  not restricted, down to every leaf.
\<close>

fun clean :: "string \<Rightarrow> json \<Rightarrow> bool" where
  "clean key (JObj kvs) \<longleftrightarrow> \<not> is_reason_code_key key \<and> \<not> is_sensitive_key key \<and>
     (\<forall>(k, v) \<in> set kvs. clean k v)"
| "clean key (JList vs) \<longleftrightarrow> \<not> is_reason_code_key key \<and> \<not> is_sensitive_key key \<and>
     (\<forall>v \<in> set vs. clean key v)"
| "clean key (JStr s) \<longleftrightarrow>
     (if is_reason_code_key key then s \<in> APPROVED_REASON_CODES \<or> s = REDACTED
      else if is_sensitive_key key then s = REDACTED
      else \<not> is_restricted_text s)"
| "clean key (JOpaque s) \<longleftrightarrow> False"
| "clean key v \<longleftrightarrow> \<not> is_reason_code_key key \<and> \<not> is_sensitive_key key"

lemma marker_unrestricted: "\<not> is_restricted_text REDACTED"
  by code_simp

lemma safe_value_clean: "clean key (safe_value key v)"
proof (induction key v rule: safe_value.induct)
  case (1 key kvs)
  then show ?case by (auto split: prod.splits)
qed (auto simp: marker_unrestricted)

lemma clean_safe_value: "clean key v \<Longrightarrow> safe_value key v = v"
proof (induction key v rule: safe_value.induct)
  case (1 key kvs)
  then show ?case by (auto intro!: map_idI split: prod.splits)
next
  case (2 key vs)
  then show ?case by (auto intro: map_idI)
qed auto


text \<open>
  What redaction may do to a value: keep it, put the marker in its place, or do the same further
  down in an object (whose keys stay) or in a list. It never invents a value.
\<close>

inductive masked :: "json \<Rightarrow> json \<Rightarrow> bool" where
  masked_kept [intro]: "masked v v"
| masked_marker [intro]: "masked v (JStr REDACTED)"
| masked_object: "list_all2 (\<lambda>a b. fst b = fst a \<and> masked (snd a) (snd b)) kvs kvs' \<Longrightarrow>
    masked (JObj kvs) (JObj kvs')"
| masked_list: "list_all2 (\<lambda>a b. masked a b) vs vs' \<Longrightarrow> masked (JList vs) (JList vs')"
monos list.rel_mono_strong

lemma safe_reason_masked: "masked v (safe_reason v)"
  by (cases v) auto

lemma safe_leaf_masked: "masked v (safe_leaf v)"
  by (cases v) auto

lemma safe_value_masked: "masked v (safe_value key v)"
proof (induction key v rule: safe_value.induct)
  case (1 key kvs)
  then show ?case
    by (auto simp: safe_reason_masked list_all2_map2 intro!: masked_object list.rel_refl_strong)
next
  case (2 key vs)
  then show ?case
    by (auto simp: safe_reason_masked list_all2_map2 intro!: masked_list list.rel_refl_strong)
qed (auto simp: safe_reason_masked safe_leaf_masked simp del: safe_leaf.simps safe_reason.simps)

text \<open>
  A stored reference is clean when every value in it is clean under its key; a row when its three
  references are. A reference records a mapping when it has the keys of the mapping in their order
  and masks its values, those that were clean already unchanged.
\<close>

definition clean_reference :: "json \<Rightarrow> bool" where
  "clean_reference r \<longleftrightarrow> (case r of JObj kvs \<Rightarrow> list_all (\<lambda>(k, v). clean k v) kvs | _ \<Rightarrow> False)"

definition clean_row :: "audit_row \<Rightarrow> bool" where
  "clean_row row \<longleftrightarrow> clean_reference (ae_before_ref row) \<and> clean_reference (ae_after_ref row) \<and>
     clean_reference (ae_metadata row)"

definition records_mapping :: "(string \<times> json) list \<Rightarrow> json \<Rightarrow> bool" where
  "records_mapping m r \<longleftrightarrow> (case r of
     JObj kvs \<Rightarrow> list_all2 (\<lambda>(k, v) (k', v'). k' = k \<and> masked v v' \<and> (clean k v \<longrightarrow> v' = v)) m kvs
   | _ \<Rightarrow> False)"

lemma safe_mapping_clean: "clean_reference (safe_mapping m)"
  by (auto simp: clean_reference_def safe_mapping_def list_all_iff safe_value_clean)

lemma safe_mapping_records: "records_mapping m (safe_mapping m)"
  by (auto simp: records_mapping_def safe_mapping_def list_all2_map2 safe_value_masked
      clean_safe_value intro!: list.rel_refl_strong)

section \<open>Properties\<close>

text \<open>
  C8: whatever a caller passes to \<open>record\<close>, one row is appended whose three references (before,
  after, metadata) are clean: nothing but the marker under a sensitive key, nothing but the marker
  or one of the approved codes under a reason code key, and no restricted text (credentials,
  addresses, contract wording, more than 256 characters) in any other leaf, so a ledger of clean
  rows stays one. The references have the keys they were given in their order, each value is the
  given one with the marker in places, and a value that was clean already is stored as it is.
\<close>

theorem recorded_rows_redacted:
  "(\<exists>row. audit_events (record_audit context_id e t s) = audit_events s @ [row] \<and>
     clean_row row \<and>
     records_mapping (en_before e) (ae_before_ref row) \<and>
     records_mapping (en_after e) (ae_after_ref row) \<and>
     records_mapping (en_metadata e) (ae_metadata row)) \<and>
   list_all clean_row (audit_events (record_audit context_id e t s)) =
     list_all clean_row (audit_events s)"
  by (simp add: record_audit_def clean_row_def safe_mapping_clean safe_mapping_records)

lemma take_sorted_below:
  assumes "sorted_wrt R xs" and "x \<in> set (take n xs)" and "y \<in> set (drop n xs)"
  shows "R x y"
  using assms append_take_drop_id [of n xs] by (metis sorted_wrt_append)

text \<open>
  The listing returns the newest matching events of the caller's scope: at most \<open>limit\<close>, each
  of them matching, newest first, and any matching event left out is not newer than those returned.
\<close>

theorem list_events_newest:
  assumes "list_events s u g w rt ri n = Inr es"
  defines "m \<equiv> \<lambda>e. ae_org e = g \<and> ae_ws e = w \<and> (rt = None \<or> rt = Some (ae_resource_type e)) \<and>
      (ri = None \<or> ri = ae_resource_id e)"
  shows "length es = min n (length (filter m (audit_events s))) \<and>
    (\<forall>e \<in> set es. e \<in> set (audit_events s) \<and> m e) \<and>
    sorted_wrt (\<lambda>a b. ae_occurred_at b \<le> ae_occurred_at a) es \<and>
    (length es = n \<longrightarrow> (\<forall>e \<in> set (audit_events s). m e \<longrightarrow> e \<in> set es \<or>
       (\<forall>x \<in> set es. ae_occurred_at e \<le> ae_occurred_at x)))"
proof -
  let ?k = "\<lambda>e. (ae_occurred_at e, ae_id e)"
  let ?R = "\<lambda>a b. ae_occurred_at b \<le> ae_occurred_at a"
  let ?F = "rev (sort_key ?k (filter m (audit_events s)))"
  have m: "m = (\<lambda>e. ae_org e = g \<and> ae_ws e = w \<and>
      (case rt of None \<Rightarrow> True | Some t \<Rightarrow> ae_resource_type e = t) \<and>
      (case ri of None \<Rightarrow> True | Some i \<Rightarrow> ae_resource_id e = Some i))"
    unfolding m_def by (cases rt; cases ri) (auto simp: fun_eq_iff)
  have es: "es = take n ?F"
    using assms(1) unfolding list_events_def m [symmetric] by (auto simp: result_simps)
  have "sorted_wrt (\<lambda>a b. ?k a \<le> ?k b) (sort_key ?k (filter m (audit_events s)))"
    using sorted_sort_key [of ?k] unfolding sorted_map .
  then have F: "sorted_wrt ?R ?F"
    unfolding sorted_wrt_rev by (rule sorted_wrt_mono_rel [rotated]) (auto simp: less_eq_prod_def)
  then have s: "sorted_wrt ?R es" unfolding es by (rule sorted_wrt_take)
  have l: "length es = min n (length (filter m (audit_events s)))" unfolding es by simp
  have all: "e \<in> set (audit_events s) \<and> m e" if "e \<in> set es" for e
    using in_set_takeD [of e n ?F] that unfolding es by simp
  have "ae_occurred_at e \<le> ae_occurred_at x"
    if e: "e \<in> set (audit_events s)" "m e" "e \<notin> set es" and x: "x \<in> set es" for e x
  proof -
    have "e \<in> set (take n ?F @ drop n ?F)" using e unfolding append_take_drop_id by simp
    then have "e \<in> set (drop n ?F)" using e(3) unfolding es set_append by blast
    then show ?thesis using take_sorted_below [OF F] x unfolding es by blast
  qed
  then show ?thesis using l all s by blast
qed

section \<open>A concrete ledger\<close>

definition demo_entry :: "uuid \<Rightarrow> datetime \<Rightarrow> audit_row" where
  "demo_entry i t = \<lparr>ae_id = i, ae_org = ''G1'', ae_ws = ''W1'', ae_actor = ''U1'',
     ae_action = ''x'', ae_resource_type = ''agreement'', ae_resource_id = None,
     ae_outcome = ''accepted'', ae_correlation_id = ''c'', ae_before_ref = JObj [],
     ae_after_ref = JObj [], ae_metadata = JObj [], ae_occurred_at = t\<rparr>"

definition demo_ledger :: audit_db where
  "demo_ledger = demo_tenant \<lparr>agreements = [], agreement_versions = [],
     policies = [], policy_versions = [], policy_stages = [], policy_audit = [],
     audit_events = [demo_entry ''a'' 1, demo_entry ''b'' 3, demo_entry ''c'' 2]\<rparr>"

theorem list_events_newest_witness:
  "\<exists>es. list_events demo_ledger ''P1'' ''G1'' ''W1'' None None 2 = Inr es \<and> length es = 2"
proof -
  have "can_access_workspace demo_ledger ''P1'' ''G1'' ''W1'' AUDIT_READ"
    unfolding demo_ledger_def same_tenant_access [OF same_tenant_demo]
    by (simp add: demo_access_def permissions_for_def PermissionKey_UNIV)
  then obtain es where e: "list_events demo_ledger ''P1'' ''G1'' ''W1'' None None 2 = Inr es"
    by (simp add: list_events_def authorize_def)
  from list_events_newest [OF e] e show ?thesis
    by (simp add: demo_ledger_def demo_tenant_def demo_entry_def)
qed

end
