(* ===== verification/Review_Tables.thy ===== *)
theory Review_Tables
  imports Audit_Ledger
begin

text \<open>
  The tables of the review package (\<open>reviews/models.py\<close>): playbook evaluations and findings,
  review cases with their assignments, comments and notifications, the approval workflow with its
  stages, decisions and outbox, and the final packages.
\<close>

record evaluation_row =
  ev_id :: uuid
  ev_org :: uuid
  ev_ws :: uuid
  ev_agreement :: uuid
  ev_job :: "uuid option"
  ev_playbook_version :: uuid
  ev_analysis_version :: string
  ev_extraction_version :: string
  ev_state :: string
  ev_requested_by :: "uuid option"
  ev_created_at :: datetime

record finding_row =
  fi_id :: uuid
  fi_org :: uuid
  fi_ws :: uuid
  fi_evaluation :: uuid
  fi_rule :: uuid
  fi_result :: string
  fi_severity :: string
  fi_confidence :: rat
  fi_method :: string
  fi_citation_ids :: "string list"
  fi_extraction_version :: string
  fi_review_state :: string
  fi_risk_payload :: json
  fi_fallback_suggestions :: "json list"

record review_decision_row =
  rd_id :: uuid
  rd_org :: uuid
  rd_ws :: uuid
  rd_finding :: uuid
  rd_action :: string
  rd_original_result :: string
  rd_rationale :: string
  rd_edited_result :: "string option"
  rd_edited_severity :: "string option"
  rd_actor :: uuid
  rd_occurred_at :: datetime

record review_audit_row =
  ra_id :: uuid
  ra_org :: uuid
  ra_ws :: uuid
  ra_action :: string
  ra_actor :: uuid
  ra_finding :: "uuid option"
  ra_agreement :: "uuid option"
  ra_metadata :: json
  ra_occurred_at :: datetime

record review_case_row =
  rc_id :: uuid
  rc_org :: uuid
  rc_ws :: uuid
  rc_agreement :: uuid
  rc_agreement_version :: "uuid option"
  rc_state :: string
  rc_created_by :: uuid
  rc_idempotency_key :: string
  rc_revision :: nat
  rc_created_at :: datetime
  rc_updated_at :: datetime

record assignment_row =
  as_id :: uuid
  as_review :: uuid
  as_org :: uuid
  as_ws :: uuid
  as_assignee :: uuid
  as_assigned_by :: uuid
  as_predecessor :: "uuid option"
  as_due_at :: "datetime option"
  as_status :: string
  as_idempotency_key :: string
  as_created_at :: datetime
  as_updated_at :: datetime

record comment_row =
  co_id :: uuid
  co_review :: uuid
  co_org :: uuid
  co_ws :: uuid
  co_finding :: "uuid option"
  co_agreement_version :: "uuid option"
  co_author :: uuid
  co_body :: string
  co_idempotency_key :: string
  co_created_at :: datetime

record notification_row =
  no_id :: uuid
  no_org :: uuid
  no_ws :: uuid
  no_review :: uuid
  no_recipient :: uuid
  no_event_type :: string
  no_payload :: json
  no_idempotency_key :: string
  no_delivered_at :: "datetime option"
  no_processed_at :: "datetime option"
  no_created_at :: datetime

datatype workflow_state = Waiting | Approved | Rejected | RevisionRequested

datatype stage_state = Pending | Active | Completed

datatype workflow_action = Approve | Reject | RequestChanges

record workflow_row =
  wf_id :: uuid
  wf_org :: uuid
  wf_ws :: uuid
  wf_review :: uuid
  wf_policy_version :: uuid
  wf_checkpoint :: uuid
  wf_state :: workflow_state
  wf_active_stage :: "nat option"
  wf_revision :: nat
  wf_created_at :: datetime
  wf_updated_at :: datetime

record workflow_stage_row =
  st_id :: uuid
  st_workflow :: uuid
  st_org :: uuid
  st_ws :: uuid
  st_policy_stage :: uuid
  st_ordinal :: nat
  st_state :: stage_state
  st_deadline_at :: "datetime option"
  st_activated_at :: "datetime option"
  st_completed_at :: "datetime option"
  st_escalated_at :: "datetime option"

record workflow_decision_row =
  wd_id :: uuid
  wd_workflow :: uuid
  wd_stage :: uuid
  wd_org :: uuid
  wd_ws :: uuid
  wd_actor :: uuid
  wd_action :: workflow_action
  wd_idempotency_key :: string
  wd_occurred_at :: datetime

record outbox_row =
  ob_id :: uuid
  ob_workflow :: uuid
  ob_org :: uuid
  ob_ws :: uuid
  ob_event_type :: string
  ob_correlation_id :: string
  ob_idempotency_key :: string
  ob_package_snapshot :: "json option"
  ob_package_manifest_key :: "string option"
  ob_package_pdf_key :: "string option"
  ob_delivered_at :: "datetime option"
  ob_processed_at :: "datetime option"
  ob_attempt_count :: nat
  ob_next_attempt_at :: "datetime option"
  ob_lease_owner :: "string option"
  ob_lease_expires_at :: "datetime option"
  ob_last_error :: "string option"
  ob_created_at :: datetime

record final_package_row =
  fp_id :: uuid
  fp_org :: uuid
  fp_ws :: uuid
  fp_review :: uuid
  fp_workflow :: uuid
  fp_state :: string
  fp_manifest_key :: string
  fp_pdf_key :: string
  fp_manifest_checksum :: string
  fp_pdf_checksum :: string
  fp_created_at :: datetime

record review_db = audit_db +
  evaluations :: "evaluation_row list"
  findings :: "finding_row list"
  review_decisions :: "review_decision_row list"
  review_audit :: "review_audit_row list"
  review_cases :: "review_case_row list"
  assignments :: "assignment_row list"
  comments :: "comment_row list"
  notifications :: "notification_row list"
  workflows :: "workflow_row list"
  workflow_stages :: "workflow_stage_row list"
  workflow_decisions :: "workflow_decision_row list"
  workflow_outbox :: "outbox_row list"
  final_packages :: "final_package_row list"

lemma draw_review [simp]:
  "evaluations (draw s) = evaluations s" "findings (draw s) = findings s"
  "review_decisions (draw s) = review_decisions s" "review_audit (draw s) = review_audit s"
  "review_cases (draw s) = review_cases s" "assignments (draw s) = assignments s"
  "comments (draw s) = comments s" "notifications (draw s) = notifications s"
  "workflows (draw s) = workflows s" "workflow_stages (draw s) = workflow_stages s"
  "workflow_decisions (draw s) = workflow_decisions s" "workflow_outbox (draw s) = workflow_outbox s"
  "final_packages (draw s) = final_packages s"
  by (simp_all add: draw_def)

text \<open>The values of the state columns, as the responses and packages show them.\<close>

fun workflow_state_value :: "workflow_state \<Rightarrow> string" where
  "workflow_state_value Waiting = ''waiting_for_approval''"
| "workflow_state_value Approved = ''approved''"
| "workflow_state_value Rejected = ''rejected''"
| "workflow_state_value RevisionRequested = ''revision_requested''"

fun stage_state_value :: "stage_state \<Rightarrow> string" where
  "stage_state_value Pending = ''pending''"
| "stage_state_value Active = ''active''"
| "stage_state_value Completed = ''completed''"

fun action_value :: "workflow_action \<Rightarrow> string" where
  "action_value Approve = ''approve''"
| "action_value Reject = ''reject''"
| "action_value RequestChanges = ''request_changes''"

text \<open>Rows are updated by primary key.\<close>

definition put_workflow :: "workflow_row \<Rightarrow> 'z review_db_scheme \<Rightarrow> 'z review_db_scheme" where
  "put_workflow w s = s\<lparr>workflows := update_where (\<lambda>x. wf_id x = wf_id w) (\<lambda>_. w) (workflows s)\<rparr>"

definition put_stage :: "workflow_stage_row \<Rightarrow> 'z review_db_scheme \<Rightarrow> 'z review_db_scheme" where
  "put_stage x s = s\<lparr>workflow_stages :=
     update_where (\<lambda>y. st_id y = st_id x) (\<lambda>_. x) (workflow_stages s)\<rparr>"

text \<open>The relationships \<open>workflow.stages\<close> and \<open>workflow.outbox_events\<close>, in their declared order.\<close>

definition stages_of_workflow :: "'z review_db_scheme \<Rightarrow> uuid \<Rightarrow> workflow_stage_row list" where
  "stages_of_workflow s w = sort_key st_ordinal (filter (\<lambda>x. st_workflow x = w) (workflow_stages s))"

definition outbox_of_workflow :: "'z review_db_scheme \<Rightarrow> uuid \<Rightarrow> outbox_row list" where
  "outbox_of_workflow s w = sort_key ob_created_at (filter (\<lambda>x. ob_workflow x = w) (workflow_outbox s))"

end
