(* ===== verification/Review_Workflow.thy ===== *)
theory Review_Workflow
  imports Review_Tables
begin

text \<open>
  The approval workflow of a review (\<open>reviews/workflow.py\<close>): \<open>ReviewWorkflowCoordinator\<close> starts a
  workflow from a published policy, takes decisions, escalates overdue stages and writes the
  transactional outbox; the dispatchers hand the outbox to a checkpointer or a queue. The two
  clocks the code reads, \<open>now\<close> and the creation time of an outbox event, are the parameters \<open>now\<close>
  and \<open>clock\<close>; the correlation id of the request context is \<open>ctx\<close>.
\<close>

section \<open>Snapshots\<close>

record workflow_snapshot =
  sn_id :: uuid
  sn_state :: workflow_state
  sn_active_stage :: "nat option"
  sn_checkpoint :: uuid
  sn_revision :: nat
  sn_stages :: "(nat \<times> stage_state) list"
  sn_pending_events :: "string list"

definition workflow_snapshot_of :: "'z review_db_scheme \<Rightarrow> workflow_row \<Rightarrow> workflow_snapshot" where
  "workflow_snapshot_of s w = \<lparr>sn_id = wf_id w, sn_state = wf_state w, sn_active_stage = wf_active_stage w,
     sn_checkpoint = wf_checkpoint w, sn_revision = wf_revision w,
     sn_stages = map (\<lambda>x. (st_ordinal x, st_state x)) (stages_of_workflow s (wf_id w)),
     sn_pending_events = map ob_event_type
       (filter (\<lambda>e. ob_delivered_at e = None) (outbox_of_workflow s (wf_id w)))\<rparr>"

section \<open>Lookups\<close>

definition conflict :: exn where
  "conflict = ReviewWorkflowConflictError []"

definition locked_review :: "'z review_db_scheme \<Rightarrow> uuid \<Rightarrow> review_case_row result" where
  "locked_review s review_id =
     some_or (find (\<lambda>r. rc_id r = review_id \<and> agreement_is_active s (rc_agreement r)) (review_cases s))
       conflict"

definition published_policy_version ::
  "'z policy_db_scheme \<Rightarrow> uuid \<Rightarrow> review_case_row \<Rightarrow> policy_version_row result" where
  "published_policy_version s policy_version_id review =
     some_or (find (\<lambda>v. av_id v = policy_version_id \<and> av_org v = rc_org review \<and>
        av_ws v = rc_ws review \<and> av_status v = Published) (policy_versions s)) conflict"

definition active_stage :: "'z review_db_scheme \<Rightarrow> workflow_row \<Rightarrow> workflow_stage_row option" where
  "active_stage s w = find (\<lambda>x. st_state x = Active) (stages_of_workflow s (wf_id w))"

definition policy_stage_get :: "'z policy_db_scheme \<Rightarrow> uuid \<Rightarrow> policy_stage_row option" where
  "policy_stage_get s i = find (\<lambda>x. ps_id x = i) (policy_stages s)"

text \<open>
  The join of memberships, roles and workspace memberships of one workspace: the users there, each
  with a role, once per joined row.
\<close>

definition role_holders :: "'z identity_db_scheme \<Rightarrow> uuid \<Rightarrow> uuid \<Rightarrow> (uuid \<times> role_key) list" where
  "role_holders s organization_id workspace_id =
     concat (map (\<lambda>m. case membership_role s m of
         None \<Rightarrow> []
       | Some k \<Rightarrow> map (\<lambda>_. (mb_user m, k))
           (filter (\<lambda>x. wm_membership x = mb_id m \<and> wm_workspace x = workspace_id)
              (workspace_memberships s)))
       (filter (\<lambda>m. mb_org m = organization_id) (memberships s)))"

definition actor_is_eligible ::
  "'z identity_db_scheme \<Rightarrow> uuid \<Rightarrow> workflow_row \<Rightarrow> policy_stage_row \<Rightarrow> bool" where
  "actor_is_eligible s actor w ps \<longleftrightarrow> actor \<in> set (ps_users ps) \<or>
     list_ex (\<lambda>(u, k). u = actor \<and> role_value k \<in> set (ps_roles ps)) (role_holders s (wf_org w) (wf_ws w))"

definition eligible_actor_ids ::
  "'z identity_db_scheme \<Rightarrow> workflow_row \<Rightarrow> policy_stage_row \<Rightarrow> uuid set" where
  "eligible_actor_ids s w ps = set (ps_users ps) \<union>
     (if ps_roles ps = [] then {}
      else set (map fst (filter (\<lambda>(u, k). role_value k \<in> set (ps_roles ps))
             (role_holders s (wf_org w) (wf_ws w)))))"

definition stage_approvals :: "'z review_db_scheme \<Rightarrow> uuid \<Rightarrow> uuid \<Rightarrow> workflow_decision_row list" where
  "stage_approvals s workflow_id stage_id =
     filter (\<lambda>d. wd_workflow d = workflow_id \<and> wd_stage d = stage_id \<and> wd_action d = Approve)
       (workflow_decisions s)"

text \<open>\<open>quorum_count or 1\<close>: zero counts as missing.\<close>

definition quorum_met :: "policy_stage_row \<Rightarrow> workflow_decision_row list \<Rightarrow> bool" where
  "quorum_met ps approvals =
     (case ps_mode ps of
        ModeAny \<Rightarrow> approvals \<noteq> []
      | ModeQuorum \<Rightarrow> (case ps_quorum ps of None \<Rightarrow> 1 | Some q \<Rightarrow> if q = 0 then 1 else q)
                        \<le> card (set (map wd_actor approvals))
      | ModeAll \<Rightarrow> eligible_count ps \<le> card (set (map wd_actor approvals)))"

definition stage_is_satisfied ::
  "'z review_db_scheme \<Rightarrow> workflow_row \<Rightarrow> workflow_stage_row \<Rightarrow> bool result" where
  "stage_is_satisfied s w x =
     bindR (some_or (policy_stage_get s (st_policy_stage x)) conflict) (\<lambda>ps.
       Inr (quorum_met ps (stage_approvals s (wf_id w) (st_id x))))"

section \<open>Assignments\<close>

definition assignment_key :: "uuid \<Rightarrow> nat \<Rightarrow> uuid \<Rightarrow> string" where
  "assignment_key workflow_id ordinal assignee =
     ''workflow:'' @ workflow_id @ '':stage:'' @ str_nat ordinal @ '':assignee:'' @ assignee"

definition stage_due :: "policy_stage_row \<Rightarrow> datetime \<Rightarrow> datetime option" where
  "stage_due ps now = map_option (\<lambda>h. now + hours h) (ps_deadline_hours ps)"

definition activate_assignment ::
  "review_case_row \<Rightarrow> workflow_row \<Rightarrow> policy_stage_row \<Rightarrow> datetime \<Rightarrow> uuid
   \<Rightarrow> 'z review_db_scheme \<Rightarrow> 'z review_db_scheme" where
  "activate_assignment review w ps now assignee s =
     (let key = assignment_key (wf_id w) (ps_ordinal ps) assignee
      in if exists_row (\<lambda>a. as_review a = rc_id review \<and> as_idempotency_key a = key) (assignments s)
         then s\<lparr>assignments := update_where
                (\<lambda>a. as_review a = rc_id review \<and> as_idempotency_key a = key)
                (\<lambda>a. a\<lparr>as_status := ''active''\<rparr>) (assignments s)\<rparr>
         else
           (let s1 = draw s\<lparr>assignments := assignments s @
                  [\<lparr>as_id = uuid4 s, as_review = rc_id review, as_org = wf_org w, as_ws = wf_ws w,
                    as_assignee = assignee, as_assigned_by = rc_created_by review,
                    as_predecessor = None, as_due_at = stage_due ps now, as_status = ''active'',
                    as_idempotency_key = key, as_created_at = now, as_updated_at = now\<rparr>]\<rparr>
            in draw s1\<lparr>notifications := notifications s1 @
                  [\<lparr>no_id = uuid4 s1, no_org = wf_org w, no_ws = wf_ws w, no_review = rc_id review,
                    no_recipient = assignee, no_event_type = ''review.assignment.created'',
                    no_payload = JObj [(''agreement_id'', JStr (rc_agreement review)),
                      (''stage'', JInt (int (ps_ordinal ps)))],
                    no_idempotency_key = ''notification:'' @ key, no_delivered_at = None,
                    no_processed_at = None, no_created_at = now\<rparr>]\<rparr>))"

definition activate_assignments ::
  "review_case_row \<Rightarrow> workflow_row \<Rightarrow> policy_stage_row \<Rightarrow> datetime
   \<Rightarrow> 'z review_db_scheme \<Rightarrow> 'z review_db_scheme" where
  "activate_assignments review w ps now s =
     fold (activate_assignment review w ps now) (sorted_list_of_set (eligible_actor_ids s w ps)) s"

definition complete_assignments ::
  "workflow_row \<Rightarrow> workflow_stage_row \<Rightarrow> 'z review_db_scheme \<Rightarrow> 'z review_db_scheme" where
  "complete_assignments w x s =
     s\<lparr>assignments := update_where
        (\<lambda>a. as_review a = wf_review w \<and> as_status a = ''active'' \<and>
           startswith (''workflow:'' @ wf_id w @ '':stage:'' @ str_nat (st_ordinal x) @ '':'')
             (as_idempotency_key a))
        (\<lambda>a. a\<lparr>as_status := ''completed''\<rparr>) (assignments s)\<rparr>"

section \<open>The transactional outbox\<close>

definition package_base :: "workflow_row \<Rightarrow> string" where
  "package_base w =
     ''reviews/'' @ wf_org w @ ''/'' @ wf_ws w @ ''/'' @ wf_review w @ ''/final-package''"

definition terminal_state :: "workflow_state \<Rightarrow> bool" where
  "terminal_state st \<longleftrightarrow> st \<in> {Approved, Rejected, RevisionRequested}"

definition findings_of_agreement ::
  "'z review_db_scheme \<Rightarrow> uuid \<Rightarrow> uuid \<Rightarrow> uuid \<Rightarrow> finding_row list" where
  "findings_of_agreement s g w a = sort_key fi_id
     (filter (\<lambda>f. fi_org f = g \<and> fi_ws f = w \<and>
        exists_row (\<lambda>e. ev_id e = fi_evaluation f \<and> ev_agreement e = a) (evaluations s)) (findings s))"

definition terminal_package_snapshot ::
  "'z review_db_scheme \<Rightarrow> workflow_row \<Rightarrow> uuid \<Rightarrow> string \<Rightarrow> json result" where
  "terminal_package_snapshot s w event_id correlation_id =
     bindR (locked_review s (wf_review w)) (\<lambda>review. Inr (JObj
       [(''organization_id'', JStr (wf_org w)), (''workspace_id'', JStr (wf_ws w)),
        (''review_id'', JStr (rc_id review)), (''agreement_id'', JStr (rc_agreement review)),
        (''agreement_version_id'', opt_str (rc_agreement_version review)),
        (''workflow_id'', JStr (wf_id w)), (''policy_version_id'', JStr (wf_policy_version w)),
        (''manifest_key'', JStr (package_base w @ ''/manifest.json'')),
        (''pdf_key'', JStr (package_base w @ ''/report.pdf'')),
        (''state'', JStr (workflow_state_value (wf_state w))),
        (''revision'', JInt (int (wf_revision w))),
        (''decisions'', JList (map (\<lambda>d. JObj
           [(''actor_id'', JStr (wd_actor d)), (''action'', JStr (action_value (wd_action d))),
            (''stage_id'', JStr (wd_stage d)), (''occurred_at'', JStr (isoformat (wd_occurred_at d)))])
           (sort_key (\<lambda>d. (wd_occurred_at d, wd_id d))
              (filter (\<lambda>d. wd_workflow d = wf_id w) (workflow_decisions s))))),
        (''stages'', JList (map (\<lambda>x. JObj
           [(''id'', JStr (st_id x)), (''ordinal'', JInt (int (st_ordinal x))),
            (''state'', JStr (stage_state_value (st_state x))),
            (''activated_at'', opt_iso (st_activated_at x)),
            (''completed_at'', opt_iso (st_completed_at x))]) (stages_of_workflow s (wf_id w)))),
        (''assignments'', JList (map (\<lambda>a. JObj
           [(''id'', JStr (as_id a)), (''assignee_id'', JStr (as_assignee a)),
            (''status'', JStr (as_status a)), (''due_at'', opt_iso (as_due_at a))])
           (sort_key (\<lambda>a. (as_created_at a, as_id a))
              (filter (\<lambda>a. as_review a = rc_id review) (assignments s))))),
        (''comments'', JList (map (\<lambda>c. JObj
           [(''id'', JStr (co_id c)), (''author_id'', JStr (co_author c)),
            (''finding_id'', opt_str (co_finding c)),
            (''created_at'', JStr (isoformat (co_created_at c)))])
           (sort_key (\<lambda>c. (co_created_at c, co_id c))
              (filter (\<lambda>c. co_review c = rc_id review) (comments s))))),
        (''findings'', JList (map (\<lambda>f. JObj
           [(''id'', JStr (fi_id f)), (''result'', JStr (fi_result f)),
            (''severity'', JStr (fi_severity f)),
            (''citation_ids'', JList (map JStr (fi_citation_ids f)))])
           (findings_of_agreement s (rc_org review) (rc_ws review) (rc_agreement review)))),
        (''audit_event_ids'', JList (map (\<lambda>e. JStr (ae_id e))
           (sort_key (\<lambda>e. (ae_occurred_at e, ae_id e))
              (filter (\<lambda>e. ae_org e = rc_org review \<and> ae_ws e = rc_ws review \<and>
                 ae_resource_id e = Some (rc_id review)) (audit_events s))))),
        (''provenance'', JObj
           [(''generator'', JStr ''review-final-package-worker''),
            (''source'', JStr ''postgresql-terminal-snapshot''),
            (''workflow_correlation_id'', JStr correlation_id),
            (''workflow_event_id'', JStr event_id),
            (''workflow_revision'', JInt (int (wf_revision w)))])]))"

definition new_outbox_row ::
  "uuid \<Rightarrow> workflow_row \<Rightarrow> string \<Rightarrow> string \<Rightarrow> string \<Rightarrow> json option \<Rightarrow> datetime \<Rightarrow> outbox_row" where
  "new_outbox_row event_id w event_type correlation_id key snapshot created =
     \<lparr>ob_id = event_id, ob_workflow = wf_id w, ob_org = wf_org w, ob_ws = wf_ws w,
      ob_event_type = event_type, ob_correlation_id = correlation_id, ob_idempotency_key = key,
      ob_package_snapshot = snapshot,
      ob_package_manifest_key = map_option (\<lambda>_. package_base w @ ''/manifest.json'') snapshot,
      ob_package_pdf_key = map_option (\<lambda>_. package_base w @ ''/report.pdf'') snapshot,
      ob_delivered_at = None, ob_processed_at = None, ob_attempt_count = 0,
      ob_next_attempt_at = None, ob_lease_owner = None, ob_lease_expires_at = None,
      ob_last_error = None, ob_created_at = created\<rparr>"

definition emit ::
  "workflow_row \<Rightarrow> string \<Rightarrow> string \<Rightarrow> string \<Rightarrow> (uuid \<Rightarrow> datetime) \<Rightarrow> 'z review_db_scheme
   \<Rightarrow> 'z review_db_scheme result" where
  "emit w event_type correlation_id key clock s =
     (let event_id = uuid4 s; s1 = draw s
      in bindR (if event_type = ''review.workflow.terminal''
                then bindR (terminal_package_snapshot s1 w event_id correlation_id) (\<lambda>j. Inr (Some j))
                else Inr None) (\<lambda>snapshot.
         Inr (s1\<lparr>workflow_outbox := workflow_outbox s1 @
           [new_outbox_row event_id w event_type correlation_id key snapshot (clock event_id)]\<rparr>)))"

section \<open>Starting\<close>

definition new_stage ::
  "uuid \<Rightarrow> workflow_row \<Rightarrow> policy_stage_row \<Rightarrow> datetime \<Rightarrow> workflow_stage_row" where
  "new_stage i w ps now =
     (let activated = (Some (ps_ordinal ps) = wf_active_stage w)
      in \<lparr>st_id = i, st_workflow = wf_id w, st_org = wf_org w, st_ws = wf_ws w,
          st_policy_stage = ps_id ps, st_ordinal = ps_ordinal ps,
          st_state = (if activated then Active else Pending),
          st_deadline_at = (if activated then stage_due ps now else None),
          st_activated_at = (if activated then Some now else None),
          st_completed_at = None, st_escalated_at = None\<rparr>)"

fun start_stages ::
  "review_case_row \<Rightarrow> workflow_row \<Rightarrow> datetime \<Rightarrow> policy_stage_row list
   \<Rightarrow> 'z review_db_scheme \<Rightarrow> 'z review_db_scheme" where
  "start_stages review w now [] s = s"
| "start_stages review w now (ps # rest) s =
     (let s1 = draw s\<lparr>workflow_stages := workflow_stages s @ [new_stage (uuid4 s) w ps now]\<rparr>
      in start_stages review w now rest
           (if Some (ps_ordinal ps) = wf_active_stage w
            then activate_assignments review w ps now s1 else s1))"

definition start_workflow ::
  "'z review_db_scheme \<Rightarrow> uuid \<Rightarrow> uuid \<Rightarrow> string \<Rightarrow> string \<Rightarrow> datetime \<Rightarrow> (uuid \<Rightarrow> datetime)
   \<Rightarrow> (workflow_snapshot \<times> 'z review_db_scheme) result" where
  "start_workflow s review_id policy_version_id correlation_id ctx now clock =
     bindR (locked_review s review_id) (\<lambda>review.
     bindR (published_policy_version s policy_version_id review) (\<lambda>v.
       case find (\<lambda>w. wf_review w = rc_id review) (workflows s) of
         Some existing \<Rightarrow>
           if wf_policy_version existing \<noteq> av_id v then Inl conflict
           else Inr (workflow_snapshot_of s existing, s)
       | None \<Rightarrow>
           (case stages_of s (av_id v) of
              [] \<Rightarrow> Inl conflict
            | first # rest \<Rightarrow>
                (let w = \<lparr>wf_id = uuid4 s, wf_org = rc_org review, wf_ws = rc_ws review,
                       wf_review = rc_id review, wf_policy_version = av_id v,
                       wf_checkpoint = uuid4 (draw s), wf_state = Waiting,
                       wf_active_stage = Some (ps_ordinal first), wf_revision = 0,
                       wf_created_at = now, wf_updated_at = now\<rparr>;
                     s1 = draw (draw s)\<lparr>workflows := workflows s @ [w]\<rparr>;
                     s2 = start_stages review w now (first # rest) s1
                 in bindR (emit w ''review.workflow.resume'' correlation_id
                            (''workflow:'' @ wf_id w @ '':start'') clock s2) (\<lambda>s3.
                      let s4 = record_audit ctx
                        \<lparr>en_org = wf_org w, en_ws = wf_ws w, en_actor = rc_created_by review,
                         en_action = ''review_workflow_started'',
                         en_resource_type = ''review_workflow'', en_resource_id = Some (wf_id w),
                         en_outcome = ''accepted'', en_correlation_id = correlation_id,
                         en_before = [(''state'', JStr ''not_started'')],
                         en_after = [(''state'', JStr (workflow_state_value (wf_state w))),
                           (''checkpoint_id'', JStr (wf_checkpoint w))],
                         en_metadata = [(''review_id'', JStr (rc_id review)),
                           (''policy_version_id'', JStr (av_id v))]\<rparr> now s3
                      in Inr (workflow_snapshot_of s4 w, s4))))))"

section \<open>Deciding\<close>

definition synchronize_review_state ::
  "workflow_row \<Rightarrow> workflow_state \<Rightarrow> datetime \<Rightarrow> 'z review_db_scheme \<Rightarrow> 'z review_db_scheme result" where
  "synchronize_review_state w st now s =
     bindR (some_or (find (\<lambda>r. rc_id r = wf_review w) (review_cases s))
              (ReviewWorkflowConflictError ''review_not_found'')) (\<lambda>_.
       Inr (s\<lparr>review_cases := update_where (\<lambda>r. rc_id r = wf_review w)
          (\<lambda>r. r\<lparr>rc_state := workflow_state_value st, rc_updated_at := now\<rparr>) (review_cases s)\<rparr>))"

definition complete_terminal ::
  "workflow_row \<Rightarrow> workflow_stage_row \<Rightarrow> workflow_state \<Rightarrow> datetime \<Rightarrow> 'z review_db_scheme
   \<Rightarrow> (workflow_row \<times> 'z review_db_scheme) result" where
  "complete_terminal w x st now s =
     (let s1 = put_stage (x\<lparr>st_state := Completed, st_completed_at := Some now\<rparr>) s;
          s2 = s1\<lparr>assignments := update_where
                 (\<lambda>a. as_review a = wf_review w \<and> as_status a = ''active'')
                 (\<lambda>a. a\<lparr>as_status := ''completed''\<rparr>) (assignments s1)\<rparr>;
          w' = w\<lparr>wf_state := st, wf_active_stage := None\<rparr>
      in bindR (synchronize_review_state w st now (put_workflow w' s2)) (\<lambda>s3. Inr (w', s3)))"

definition advance ::
  "workflow_row \<Rightarrow> workflow_stage_row \<Rightarrow> datetime \<Rightarrow> 'z review_db_scheme
   \<Rightarrow> (workflow_row \<times> 'z review_db_scheme) result" where
  "advance w x now s =
     (let s1 = put_stage (x\<lparr>st_state := Completed, st_completed_at := Some now\<rparr>) s;
          s2 = complete_assignments w x s1
      in case find (\<lambda>y. st_ordinal y = st_ordinal x + 1) (stages_of_workflow s2 (wf_id w)) of
           None \<Rightarrow>
             (let w' = w\<lparr>wf_state := Approved, wf_active_stage := None\<rparr>
              in bindR (synchronize_review_state w Approved now (put_workflow w' s2))
                   (\<lambda>s3. Inr (w', s3)))
         | Some y \<Rightarrow>
             (let w' = w\<lparr>wf_active_stage := Some (st_ordinal y)\<rparr>;
                  y' = y\<lparr>st_state := Active, st_activated_at := Some now\<rparr>
              in case policy_stage_get s2 (st_policy_stage y) of
                   None \<Rightarrow> Inr (w', put_workflow w' (put_stage y' s2))
                 | Some ps \<Rightarrow>
                     (let y'' = (case stage_due ps now of None \<Rightarrow> y'
                            | Some t \<Rightarrow> y'\<lparr>st_deadline_at := Some t\<rparr>);
                          s3 = put_stage y'' s2
                      in bindR (locked_review s3 (wf_review w)) (\<lambda>review.
                           let s4 = activate_assignments review w ps now s3
                           in Inr (w', put_workflow w' s4)))))"

text \<open>The guards of a decision that is not a replay, in the order the code has them.\<close>

definition decision_guards ::
  "'z review_db_scheme \<Rightarrow> workflow_row \<Rightarrow> uuid \<Rightarrow> workflow_action \<Rightarrow> nat
   \<Rightarrow> workflow_stage_row result" where
  "decision_guards s w actor action expected_revision =
     bindR (require (wf_revision w = expected_revision \<and> wf_state w = Waiting) conflict) (\<lambda>_.
     bindR (some_or (active_stage s w) conflict) (\<lambda>x.
     bindR (some_or (find (\<lambda>v. av_id v = wf_policy_version w) (policy_versions s))
              (ReviewWorkflowConflictError ''policy_not_found'')) (\<lambda>v.
     bindR (locked_review s (wf_review w)) (\<lambda>review.
     bindR (require (\<not> (action = Approve \<and> \<not> av_submitter_may_approve v \<and>
                actor = rc_created_by review))
              (ReviewWorkflowConflictError ''submitter_cannot_approve'')) (\<lambda>_.
     bindR (require (case policy_stage_get s (st_policy_stage x) of None \<Rightarrow> False
                | Some ps \<Rightarrow> actor_is_eligible s actor w ps)
              (ReviewWorkflowConflictError ''actor_not_eligible'')) (\<lambda>_.
     bindR (require (\<not> (action = Approve \<and> \<not> av_allow_cross_stage_same_approver v \<and>
                exists_row (\<lambda>d. wd_workflow d = wf_id w \<and> wd_actor d = actor \<and>
                  wd_action d = Approve \<and> wd_stage d \<noteq> st_id x) (workflow_decisions s)))
              (ReviewWorkflowConflictError ''cross_stage_approver_not_allowed'')) (\<lambda>_.
       Inr x)))))))"

definition new_decision ::
  "uuid \<Rightarrow> workflow_row \<Rightarrow> workflow_stage_row \<Rightarrow> uuid \<Rightarrow> workflow_action \<Rightarrow> string \<Rightarrow> datetime
   \<Rightarrow> workflow_decision_row" where
  "new_decision i w x actor action key now =
     \<lparr>wd_id = i, wd_workflow = wf_id w, wd_stage = st_id x, wd_org = wf_org w, wd_ws = wf_ws w,
      wd_actor = actor, wd_action = action, wd_idempotency_key = key, wd_occurred_at = now\<rparr>"

text \<open>What the decision does to the workflow, its stages, assignments and review.\<close>

definition apply_decision ::
  "workflow_row \<Rightarrow> workflow_stage_row \<Rightarrow> workflow_action \<Rightarrow> datetime \<Rightarrow> 'z review_db_scheme
   \<Rightarrow> (workflow_row \<times> 'z review_db_scheme) result" where
  "apply_decision w x action now s =
     (case action of
        Reject \<Rightarrow> complete_terminal w x Rejected now s
      | RequestChanges \<Rightarrow> complete_terminal w x RevisionRequested now s
      | Approve \<Rightarrow> bindR (stage_is_satisfied s w x) (\<lambda>satisfied.
          if satisfied then advance w x now s else Inr (w, s)))"

definition decide ::
  "'z review_db_scheme \<Rightarrow> uuid \<Rightarrow> uuid \<Rightarrow> workflow_action \<Rightarrow> string \<Rightarrow> nat \<Rightarrow> string \<Rightarrow> string
   \<Rightarrow> datetime \<Rightarrow> (uuid \<Rightarrow> datetime) \<Rightarrow> (workflow_snapshot \<times> 'z review_db_scheme) result" where
  "decide s workflow_id actor action key expected_revision correlation_id ctx now clock =
     bindR (some_or (find (\<lambda>w. wf_id w = workflow_id) (workflows s)) conflict) (\<lambda>w.
       case find (\<lambda>d. wd_workflow d = wf_id w \<and> wd_idempotency_key d = key) (workflow_decisions s) of
         Some d \<Rightarrow>
           if wd_actor d \<noteq> actor \<or> wd_action d \<noteq> action then Inl conflict
           else Inr (workflow_snapshot_of s w, s)
       | None \<Rightarrow>
           bindR (decision_guards s w actor action expected_revision) (\<lambda>x.
             let s1 = draw s\<lparr>workflow_decisions := workflow_decisions s @
                   [new_decision (uuid4 s) w x actor action key now]\<rparr>
             in bindR (apply_decision w x action now s1) (\<lambda>(w1, s2).
                  let w2 = w1\<lparr>wf_revision := wf_revision w1 + 1, wf_updated_at := now\<rparr>;
                      s3 = put_workflow w2 s2;
                      s4 = record_audit ctx
                        \<lparr>en_org = wf_org w, en_ws = wf_ws w, en_actor = actor,
                         en_action = ''review_workflow_'' @ action_value action,
                         en_resource_type = ''review_workflow'', en_resource_id = Some (wf_id w),
                         en_outcome = ''accepted'', en_correlation_id = correlation_id,
                         en_before = [(''state'', JStr ''waiting_for_approval''),
                           (''stage'', JInt (int (st_ordinal x)))],
                         en_after = [(''state'', JStr (workflow_state_value (wf_state w2))),
                           (''stage'', case wf_active_stage w2 of None \<Rightarrow> JNull
                              | Some n \<Rightarrow> JInt (int n))],
                         en_metadata = []\<rparr> now s3
                  in bindR (emit w2 (if terminal_state (wf_state w2)
                               then ''review.workflow.terminal'' else ''review.workflow.resume'')
                             correlation_id (''workflow:'' @ wf_id w @ '':decision:'' @ key) clock s4)
                       (\<lambda>s5. Inr (workflow_snapshot_of s5 w2, s5)))))"

section \<open>Escalation\<close>

definition escalation_candidates :: "'z review_db_scheme \<Rightarrow> workflow_row list" where
  "escalation_candidates s = filter (\<lambda>w. wf_state w = Waiting \<and>
     exists_row (\<lambda>r. rc_id r = wf_review w \<and> agreement_is_active s (rc_agreement r)) (review_cases s))
       (workflows s)"

text \<open>The stage of a workflow that is overdue and not escalated yet.\<close>

definition overdue_stage ::
  "'z review_db_scheme \<Rightarrow> datetime \<Rightarrow> workflow_row \<Rightarrow> workflow_stage_row option" where
  "overdue_stage s now w =
     (case active_stage s w of
        None \<Rightarrow> None
      | Some x \<Rightarrow>
          (case st_deadline_at x of
             None \<Rightarrow> None
           | Some deadline \<Rightarrow>
               if deadline > now then None
               else if st_escalated_at x \<noteq> None then None
               else Some x))"

definition escalate_stage ::
  "string \<Rightarrow> string \<Rightarrow> datetime \<Rightarrow> (uuid \<Rightarrow> datetime) \<Rightarrow> workflow_row \<Rightarrow> workflow_stage_row
   \<Rightarrow> 'z review_db_scheme \<Rightarrow> 'z review_db_scheme result" where
  "escalate_stage correlation_id ctx now clock w x s =
     (let s1 = put_stage (x\<lparr>st_escalated_at := Some now\<rparr>) s
      in bindR (emit w ''review.workflow.escalate'' correlation_id
                 (''workflow:'' @ wf_id w @ '':stage:'' @ str_nat (st_ordinal x) @ '':escalation'')
                 clock s1) (\<lambda>s2.
         Inr (record_audit ctx
           \<lparr>en_org = wf_org w, en_ws = wf_ws w,
            en_actor = (case find (\<lambda>r. rc_id r = wf_review w) (review_cases s2) of
               None \<Rightarrow> ''00000000-0000-0000-0000-000000000000'' | Some r \<Rightarrow> rc_created_by r),
            en_action = ''review_workflow_escalated'', en_resource_type = ''review_workflow_stage'',
            en_resource_id = Some (st_id x), en_outcome = ''accepted'',
            en_correlation_id = correlation_id, en_before = [(''escalated_at'', JNull)],
            en_after = [(''escalated_at'', JStr (isoformat now))],
            en_metadata = [(''workflow_id'', JStr (wf_id w)),
              (''stage'', JInt (int (st_ordinal x)))]\<rparr> now s2)))"

fun escalate_each ::
  "string \<Rightarrow> string \<Rightarrow> datetime \<Rightarrow> (uuid \<Rightarrow> datetime) \<Rightarrow> workflow_row list \<Rightarrow> nat
   \<Rightarrow> 'z review_db_scheme \<Rightarrow> (nat \<times> 'z review_db_scheme) result" where
  "escalate_each correlation_id ctx now clock [] n s = Inr (n, s)"
| "escalate_each correlation_id ctx now clock (w # ws) n s =
     (case overdue_stage s now w of
        None \<Rightarrow> escalate_each correlation_id ctx now clock ws n s
      | Some x \<Rightarrow> bindR (escalate_stage correlation_id ctx now clock w x s)
          (escalate_each correlation_id ctx now clock ws (n + 1)))"

definition escalate_overdue ::
  "'z review_db_scheme \<Rightarrow> string \<Rightarrow> string \<Rightarrow> datetime \<Rightarrow> (uuid \<Rightarrow> datetime)
   \<Rightarrow> (nat \<times> 'z review_db_scheme) result" where
  "escalate_overdue s correlation_id ctx now clock =
     escalate_each correlation_id ctx now clock (escalation_candidates s) 0 s"

end
