(* ===== verification/Workflow_Safety.thy ===== *)
theory Workflow_Safety
  imports Review_Workflow
begin

text \<open>
  What the approval workflow guarantees. The first part computes the effect of a decision on each
  table; the second states the invariant of the workflow tables and shows that every operation
  keeps it; the last part holds the properties: refinement of an abstract approval machine,
  separation of duties, replay and staleness of decisions, finality of terminal states, the
  package snapshot and escalation.
\<close>

section \<open>Frames\<close>

definition case_static where
  "case_static r = (rc_id r, rc_org r, rc_ws r, rc_agreement r, rc_agreement_version r,
     rc_created_by r, rc_idempotency_key r, rc_revision r, rc_created_at r)"

text \<open>The tables a workflow operation may write; of a review it only writes state and update time.\<close>

definition wf_frame :: "'z review_db_scheme \<Rightarrow> 'z review_db_scheme \<Rightarrow> bool" where
  "wf_frame s s' \<longleftrightarrow> uuid_used s \<le> uuid_used s' \<and>
     map case_static (review_cases s') = map case_static (review_cases s) \<and>
     s' = s\<lparr>uuid_used := uuid_used s', audit_events := audit_events s',
       review_cases := review_cases s', assignments := assignments s',
       notifications := notifications s', workflows := workflows s',
       workflow_stages := workflow_stages s', workflow_decisions := workflow_decisions s',
       workflow_outbox := workflow_outbox s'\<rparr>"

lemma wf_frame_refl [simp]: "wf_frame s s"
  by (simp add: wf_frame_def)

lemma wf_frame_trans:
  assumes "wf_frame s t" and "wf_frame t u"
  shows "wf_frame s u"
proof -
  from assms have "uuid_used s \<le> uuid_used u" "map case_static (review_cases u) = map case_static (review_cases s)"
    by (simp_all add: wf_frame_def)
  moreover have "u = s\<lparr>uuid_used := uuid_used u, audit_events := audit_events u,
       review_cases := review_cases u, assignments := assignments u,
       notifications := notifications u, workflows := workflows u,
       workflow_stages := workflow_stages u, workflow_decisions := workflow_decisions u,
       workflow_outbox := workflow_outbox u\<rparr>" (is "_ = ?r u")
  proof -
    have t: "t = ?r t" and u: "u = t\<lparr>uuid_used := uuid_used u, audit_events := audit_events u,
       review_cases := review_cases u, assignments := assignments u,
       notifications := notifications u, workflows := workflows u,
       workflow_stages := workflow_stages u, workflow_decisions := workflow_decisions u,
       workflow_outbox := workflow_outbox u\<rparr>"
      using assms unfolding wf_frame_def by blast+
    show ?thesis by (subst u, subst t) simp
  qed
  ultimately show ?thesis by (simp add: wf_frame_def)
qed

lemma wf_frameD:
  assumes "wf_frame s s'"
  shows "policies s' = policies s" "policy_versions s' = policy_versions s"
    "policy_stages s' = policy_stages s" "agreements s' = agreements s"
    "memberships s' = memberships s" "roles s' = roles s" "workspaces s' = workspaces s"
    "workspace_memberships s' = workspace_memberships s" "uuid_src s' = uuid_src s"
    "uuid_used s \<le> uuid_used s'" "comments s' = comments s" "findings s' = findings s"
    "evaluations s' = evaluations s"
    "map case_static (review_cases s') = map case_static (review_cases s)"
proof -
  from assms have e: "s' = s\<lparr>uuid_used := uuid_used s', audit_events := audit_events s',
       review_cases := review_cases s', assignments := assignments s',
       notifications := notifications s', workflows := workflows s',
       workflow_stages := workflow_stages s', workflow_decisions := workflow_decisions s',
       workflow_outbox := workflow_outbox s'\<rparr>" unfolding wf_frame_def by blast
  show "policies s' = policies s" "policy_versions s' = policy_versions s"
    "policy_stages s' = policy_stages s" "agreements s' = agreements s"
    "memberships s' = memberships s" "roles s' = roles s" "workspaces s' = workspaces s"
    "workspace_memberships s' = workspace_memberships s" "uuid_src s' = uuid_src s"
    "comments s' = comments s" "findings s' = findings s" "evaluations s' = evaluations s"
    by (subst e; simp)+
  show "uuid_used s \<le> uuid_used s'" "map case_static (review_cases s') = map case_static (review_cases s)"
    using assms by (simp_all add: wf_frame_def)
qed

lemma wf_frame_intros [simp, intro]:
  "wf_frame s (draw s)"
  "wf_frame s (s\<lparr>assignments := a\<rparr>)" "wf_frame s (s\<lparr>notifications := n\<rparr>)"
  "wf_frame s (s\<lparr>workflows := w\<rparr>)" "wf_frame s (s\<lparr>workflow_stages := x\<rparr>)"
  "wf_frame s (s\<lparr>workflow_decisions := d\<rparr>)" "wf_frame s (s\<lparr>workflow_outbox := e\<rparr>)"
  "wf_frame s (put_stage y s)" "wf_frame s (put_workflow z s)" "wf_frame s (record_audit c r now s)"
  by (simp_all add: wf_frame_def draw_def put_stage_def put_workflow_def record_audit_def)

text \<open>Assignments and notifications are side tables: nothing else of the workflow depends on them.\<close>

definition assigns :: "'z review_db_scheme \<Rightarrow> 'z review_db_scheme \<Rightarrow> bool" where
  "assigns s s' \<longleftrightarrow> wf_frame s s' \<and> workflows s' = workflows s \<and> workflow_stages s' = workflow_stages s \<and>
     workflow_decisions s' = workflow_decisions s \<and> workflow_outbox s' = workflow_outbox s \<and>
     audit_events s' = audit_events s \<and> review_cases s' = review_cases s"

lemma assigns_refl [simp]: "assigns s s"
  by (simp add: assigns_def)

lemma assigns_trans: "assigns s t \<Longrightarrow> assigns t u \<Longrightarrow> assigns s u"
  unfolding assigns_def using wf_frame_trans by auto

lemma activate_assignment_assigns: "assigns s (activate_assignment r w ps now u s)"
  by (auto simp: activate_assignment_def assigns_def wf_frame_def Let_def draw_def)

lemma activate_assignments_assigns: "assigns s (activate_assignments r w ps now s)"
proof -
  have "assigns s (fold (activate_assignment r w ps now) us s)" for us
    by (induction us arbitrary: s) (auto intro: assigns_trans [OF activate_assignment_assigns])
  then show ?thesis by (simp add: activate_assignments_def)
qed

lemma complete_assignments_assigns: "assigns s (complete_assignments w x s)"
  by (simp add: complete_assignments_def assigns_def)

section \<open>The effect of a decision\<close>

text \<open>What a decision amounts to: nothing yet, the next stage, or the end.\<close>

datatype outcome = Stay | Next nat | Finish workflow_state

abbreviation wf_stages where
  "wf_stages s w \<equiv> {z \<in> set (workflow_stages s). st_workflow z = wf_id w}"

definition satisfied :: "'z review_db_scheme \<Rightarrow> workflow_row \<Rightarrow> workflow_stage_row \<Rightarrow> bool" where
  "satisfied s w x \<longleftrightarrow> stage_is_satisfied s w x = Inr True"

definition outcome_of ::
  "'z review_db_scheme \<Rightarrow> workflow_row \<Rightarrow> workflow_stage_row \<Rightarrow> workflow_action \<Rightarrow> outcome" where
  "outcome_of s w x action =
     (case action of
        Reject \<Rightarrow> Finish Rejected
      | RequestChanges \<Rightarrow> Finish RevisionRequested
      | Approve \<Rightarrow>
          if \<not> satisfied s w x then Stay
          else if Suc (st_ordinal x) \<in> st_ordinal ` wf_stages s w then Next (Suc (st_ordinal x))
          else Finish Approved)"

fun moved_workflow :: "outcome \<Rightarrow> workflow_row \<Rightarrow> workflow_row" where
  "moved_workflow Stay w = w"
| "moved_workflow (Next k) w = w\<lparr>wf_active_stage := Some k\<rparr>"
| "moved_workflow (Finish st) w = w\<lparr>wf_state := st, wf_active_stage := None\<rparr>"

definition moved_state :: "outcome \<Rightarrow> workflow_row \<Rightarrow> workflow_stage_row \<Rightarrow> workflow_stage_row \<Rightarrow> stage_state" where
  "moved_state out w x z =
     (if out = Stay then st_state z
      else if st_id z = st_id x then Completed
      else if out = Next (st_ordinal z) \<and> st_workflow z = wf_id w then Active
      else st_state z)"

definition st_static :: "workflow_stage_row \<Rightarrow> uuid \<times> uuid \<times> uuid \<times> nat" where
  "st_static z = (st_id z, st_workflow z, st_policy_stage z, st_ordinal z)"

text \<open>
  \<open>xs'\<close> is the stage table \<open>xs\<close> after the outcome, row by row: the states move, and the rows of
  other workflows stay as they are.
\<close>

definition stages_moved ::
  "outcome \<Rightarrow> workflow_row \<Rightarrow> workflow_stage_row \<Rightarrow> workflow_stage_row list \<Rightarrow> workflow_stage_row list \<Rightarrow> bool"
where
  "stages_moved out w x xs xs' \<longleftrightarrow>
     (\<exists>h. xs' = map h xs \<and> (\<forall>z \<in> set xs. st_static (h z) = st_static z \<and>
        st_state (h z) = moved_state out w x z \<and>
        (st_id z \<noteq> st_id x \<and> st_workflow z \<noteq> wf_id w \<longrightarrow> h z = z)))"

lemma put_stage_table:
  assumes "distinct (map st_id (workflow_stages s))" and "x \<in> set (workflow_stages s)"
    and "st_static (f x) = st_static x"
  shows "workflow_stages (put_stage (f x) s) =
    map (\<lambda>z. if st_id z = st_id x then f z else z) (workflow_stages s)"
  using assms distinct_key_inj [OF assms(1) _ assms(2)]
  by (auto simp: put_stage_def update_where_def st_static_def)

lemma finish_stage_moved:
  assumes "distinct (map st_id (workflow_stages s))" and "x \<in> set (workflow_stages s)"
  shows "stages_moved (Finish st) w x (workflow_stages s)
    (workflow_stages (put_stage (x\<lparr>st_state := Completed, st_completed_at := t\<rparr>) s))"
proof -
  let ?f = "\<lambda>x. x\<lparr>st_state := Completed, st_completed_at := t\<rparr>"
  let ?h = "\<lambda>z. if st_id z = st_id x then ?f z else z"
  have "workflow_stages (put_stage (?f x) s) = map ?h (workflow_stages s)"
    by (rule put_stage_table [where f = ?f, OF assms]) (simp add: st_static_def)
  moreover have "\<forall>z \<in> set (workflow_stages s). st_static (?h z) = st_static z \<and>
      st_state (?h z) = moved_state (Finish st) w x z \<and>
      (st_id z \<noteq> st_id x \<and> st_workflow z \<noteq> wf_id w \<longrightarrow> ?h z = z)"
    by (simp add: st_static_def moved_state_def)
  ultimately show ?thesis unfolding stages_moved_def by blast
qed

lemma map_st_static:
  assumes "\<forall>z \<in> set xs. st_static (h z) = st_static z"
  shows "map st_id (map h xs) = map st_id xs"
  using assms by (simp add: st_static_def)

lemma next_stage_moved:
  assumes d: "distinct (map st_id (workflow_stages s))" and x: "x \<in> set (workflow_stages s)"
    and fin: "stages_moved (Finish st) w x (workflow_stages s) (workflow_stages s2)"
    and inj: "inj_on st_ordinal (wf_stages s w)"
    and y: "y \<in> set (workflow_stages s2)" "st_workflow y = wf_id w" "st_ordinal y = Suc (st_ordinal x)"
    and f: "\<And>z. st_static (f z) = st_static z" "\<And>z. st_state (f z) = Active"
  shows "stages_moved (Next (Suc (st_ordinal x))) w x (workflow_stages s)
    (workflow_stages (put_stage (f y) s2))"
proof -
  from fin obtain h where t2: "workflow_stages s2 = map h (workflow_stages s)"
    and h: "\<forall>z \<in> set (workflow_stages s). st_static (h z) = st_static z \<and>
      st_state (h z) = moved_state (Finish st) w x z \<and>
      (st_id z \<noteq> st_id x \<and> st_workflow z \<noteq> wf_id w \<longrightarrow> h z = z)"
    unfolding stages_moved_def by blast
  let ?g = "\<lambda>z. if st_id z = st_id y then f z else z"
  have "distinct (map st_id (workflow_stages s2))"
    unfolding t2 using d h by (subst map_st_static) auto
  then have t3: "workflow_stages (put_stage (f y) s2) = map ?g (workflow_stages s2)"
    by (rule put_stage_table [where f = f]) (use y f in auto)
  obtain y0 where y0: "y0 \<in> set (workflow_stages s)" "y = h y0" using y(1) t2 by auto
  have y0s: "st_id y0 = st_id y" "st_workflow y0 = wf_id w" "st_ordinal y0 = Suc (st_ordinal x)"
    using h y0 y by (auto simp: st_static_def)
  have same: "z = y0" if "z \<in> set (workflow_stages s)" "st_workflow z = wf_id w"
      "st_ordinal z = Suc (st_ordinal x)" for z
    using inj_onD [OF inj, of z y0] that y0 y0s by simp
  have idy: "z = y0" if "z \<in> set (workflow_stages s)" "st_id z = st_id y" for z
    using distinct_key_inj [OF d that(1) y0(1)] that(2) y0s(1) by simp
  have "st_static (?g (h z)) = st_static z \<and>
      st_state (?g (h z)) = moved_state (Next (Suc (st_ordinal x))) w x z \<and>
      (st_id z \<noteq> st_id x \<and> st_workflow z \<noteq> wf_id w \<longrightarrow> ?g (h z) = z)"
    if z: "z \<in> set (workflow_stages s)" for z
  proof (cases "st_id z = st_id y")
    case True
    then have "z = y0" by (rule idy [OF z])
    moreover have "st_id y0 \<noteq> st_id x" using distinct_key_inj [OF d y0(1) x] y0s by force
    ultimately have g: "?g (h z) = f y" and m: "moved_state (Next (Suc (st_ordinal x))) w x z = Active"
      using y0 y0s by (simp_all add: moved_state_def)
    have "st_static y = st_static z" using \<open>z = y0\<close> y0 h by simp
    then show ?thesis unfolding g m using f y0s(2) \<open>z = y0\<close> by simp
  next
    case False
    then have "\<not> (st_workflow z = wf_id w \<and> st_ordinal z = Suc (st_ordinal x))"
      using same [OF z] y0s by auto
    moreover have "st_id (h z) \<noteq> st_id y" using False h z by (simp add: st_static_def)
    ultimately show ?thesis using h z by (auto simp: moved_state_def)
  qed
  then show ?thesis unfolding stages_moved_def t3 t2 map_map comp_def
    by (intro exI [of _ "\<lambda>z. ?g (h z)"] conjI ballI) (rule refl, blast+)
qed

lemma synchronize_effect:
  assumes "synchronize_review_state w st now s = Inr s'"
  shows "wf_frame s s' \<and> workflows s' = workflows s \<and> workflow_stages s' = workflow_stages s \<and>
    workflow_decisions s' = workflow_decisions s \<and> workflow_outbox s' = workflow_outbox s \<and>
    audit_events s' = audit_events s \<and> assignments s' = assignments s \<and>
    review_cases s' = update_where (\<lambda>r. rc_id r = wf_review w)
      (\<lambda>r. r\<lparr>rc_state := workflow_state_value st, rc_updated_at := now\<rparr>) (review_cases s)"
  using assms
  by (auto simp: synchronize_review_state_def result_simps wf_frame_def map_update_where case_static_def)

lemma in_stages_of_workflow:
  "z \<in> set (stages_of_workflow s i) \<longleftrightarrow> z \<in> set (workflow_stages s) \<and> st_workflow z = i"
  by (simp add: stages_of_workflow_def)

definition workflow_written :: "workflow_row \<Rightarrow> 'z review_db_scheme \<Rightarrow> 'z review_db_scheme \<Rightarrow> bool" where
  "workflow_written w s s' \<longleftrightarrow> workflows s' = workflows s \<or>
     workflows s' = update_where (\<lambda>x. wf_id x = wf_id w) (\<lambda>_. w) (workflows s)"

definition decision_effect ::
  "outcome \<Rightarrow> workflow_row \<Rightarrow> workflow_stage_row \<Rightarrow> 'z review_db_scheme \<Rightarrow> 'z review_db_scheme \<Rightarrow> bool" where
  "decision_effect out w x s s' \<longleftrightarrow> wf_frame s s' \<and> workflow_decisions s' = workflow_decisions s \<and>
     workflow_outbox s' = workflow_outbox s \<and> audit_events s' = audit_events s \<and>
     workflow_written (moved_workflow out w) s s' \<and>
     stages_moved out w x (workflow_stages s) (workflow_stages s')"

lemma stages_moved_Stay: "stages_moved Stay w x xs xs"
  unfolding stages_moved_def by (rule exI [of _ id]) (simp add: moved_state_def)

lemma synchronize_decision_effect:
  assumes e: "decision_effect out w x s t" and y: "synchronize_review_state v st now t = Inr s'"
  shows "decision_effect out w x s s'"
proof -
  note f = synchronize_effect [OF y]
  have "wf_frame s s'" using e f wf_frame_trans unfolding decision_effect_def by blast
  then show ?thesis using e f by (simp add: decision_effect_def workflow_written_def)
qed

lemma complete_terminal_effect:
  assumes d: "distinct (map st_id (workflow_stages s))" and x: "x \<in> set (workflow_stages s)"
    and c: "complete_terminal w x st now s = Inr (w1, s')"
  shows "w1 = moved_workflow (Finish st) w \<and> decision_effect (Finish st) w x s s'"
proof -
  let ?s1 = "put_stage (x\<lparr>st_state := Completed, st_completed_at := Some now\<rparr>) s"
  let ?w = "moved_workflow (Finish st) w"
  let ?s2 = "put_workflow ?w (?s1\<lparr>assignments := update_where
      (\<lambda>a. as_review a = wf_review w \<and> as_status a = ''active'')
      (\<lambda>a. a\<lparr>as_status := ''completed''\<rparr>) (assignments ?s1)\<rparr>)"
  from c have w1: "w1 = ?w" and y: "synchronize_review_state w st now ?s2 = Inr s'"
    by (auto simp: complete_terminal_def Let_def result_simps)
  have "wf_frame s ?s2"
    by (simp add: wf_frame_def put_workflow_def put_stage_def)
  moreover have "workflows ?s2 = update_where (\<lambda>y. wf_id y = wf_id ?w) (\<lambda>_. ?w) (workflows s)"
    by (simp add: put_workflow_def put_stage_def)
  moreover have "workflow_stages ?s2 = workflow_stages ?s1"
    "workflow_decisions ?s2 = workflow_decisions s" "workflow_outbox ?s2 = workflow_outbox s"
    "audit_events ?s2 = audit_events s"
    by (simp_all add: put_workflow_def put_stage_def)
  ultimately show ?thesis
    using finish_stage_moved [OF d x, of st w "Some now"] w1
    by (intro conjI synchronize_decision_effect [OF _ y])
      (simp_all only: decision_effect_def workflow_written_def, simp)
qed


lemma advance_effect:
  assumes d: "distinct (map st_id (workflow_stages s))" and x: "x \<in> set (workflow_stages s)"
    and xw: "st_workflow x = wf_id w" and inj: "inj_on st_ordinal (wf_stages s w)"
    and a: "advance w x now s = Inr (w1, s')"
  defines "out \<equiv> if Suc (st_ordinal x) \<in> st_ordinal ` wf_stages s w then Next (Suc (st_ordinal x))
      else Finish Approved"
  shows "w1 = moved_workflow out w \<and> decision_effect out w x s s'"
proof -
  let ?s1 = "put_stage (x\<lparr>st_state := Completed, st_completed_at := Some now\<rparr>) s"
  let ?s2 = "complete_assignments w x ?s1"
  let ?find = "find (\<lambda>y. st_ordinal y = st_ordinal x + 1) (stages_of_workflow ?s2 (wf_id w))"
  have tab: "workflow_stages ?s2 = workflow_stages ?s1" by (simp add: complete_assignments_def)
  have fin: "stages_moved (Finish st) w x (workflow_stages s) (workflow_stages ?s2)" for st
    unfolding tab by (rule finish_stage_moved [OF d x])
  have rest: "wf_frame s ?s2" "workflow_decisions ?s2 = workflow_decisions s"
    "workflow_outbox ?s2 = workflow_outbox s" "audit_events ?s2 = audit_events s"
    "workflows ?s2 = workflows s"
    by (simp_all add: complete_assignments_def put_stage_def wf_frame_def)
  have "?find = None \<longleftrightarrow> Suc (st_ordinal x) \<notin> st_ordinal ` wf_stages s w"
  proof -
    obtain h where t2: "workflow_stages ?s2 = map h (workflow_stages s)"
      and h: "\<forall>z \<in> set (workflow_stages s). st_static (h z) = st_static z"
      using fin unfolding stages_moved_def by blast
    have "?find = None \<longleftrightarrow> (\<forall>z \<in> set (workflow_stages s). st_workflow z = wf_id w \<longrightarrow>
        st_ordinal z \<noteq> Suc (st_ordinal x))"
      using h by (auto simp: find_None_iff' in_stages_of_workflow t2 st_static_def)
    then show ?thesis by (auto simp: image_iff)
  qed
  then show ?thesis
  proof (cases ?find)
    case None
    then have out: "out = Finish Approved" using \<open>?find = None \<longleftrightarrow> _\<close> by (simp add: out_def)
    let ?s3 = "put_workflow (moved_workflow out w) ?s2"
    from a None have w1: "w1 = moved_workflow out w"
      and y: "synchronize_review_state w Approved now ?s3 = Inr s'"
      by (auto simp: advance_def Let_def result_simps out)
    have "wf_frame s ?s3" by (rule wf_frame_trans [OF rest(1)]) simp
    moreover have "workflow_written (moved_workflow out w) s ?s3"
      by (simp add: workflow_written_def put_workflow_def rest out)
    moreover have "workflow_stages ?s3 = workflow_stages ?s2" "workflow_decisions ?s3 = workflow_decisions s"
      "workflow_outbox ?s3 = workflow_outbox s" "audit_events ?s3 = audit_events s"
      by (simp_all add: put_workflow_def rest)
    ultimately show ?thesis
      using fin [of Approved] w1
      by (intro conjI synchronize_decision_effect [OF _ y]) (simp_all only: decision_effect_def out)
  next
    case (Some y)
    then have out: "out = Next (Suc (st_ordinal x))"
      using \<open>?find = None \<longleftrightarrow> _\<close> by (auto simp: out_def)
    have y: "y \<in> set (workflow_stages ?s2)" "st_workflow y = wf_id w" "st_ordinal y = Suc (st_ordinal x)"
      using find_SomeD [OF Some] by (simp_all add: in_stages_of_workflow)
    define f where "f = (\<lambda>z :: workflow_stage_row. case policy_stage_get ?s2 (st_policy_stage y) of
        None \<Rightarrow> z\<lparr>st_state := Active, st_activated_at := Some now\<rparr>
      | Some ps \<Rightarrow> (case stage_due ps now of
            None \<Rightarrow> z\<lparr>st_state := Active, st_activated_at := Some now\<rparr>
          | Some t \<Rightarrow> z\<lparr>st_state := Active, st_activated_at := Some now, st_deadline_at := Some t\<rparr>))"
    have f: "st_static (f z) = st_static z" "st_state (f z) = Active" for z
      by (simp_all add: f_def st_static_def split: option.split)
    let ?s3 = "put_stage (f y) ?s2"
    have moved: "stages_moved out w x (workflow_stages s) (workflow_stages ?s3)"
      unfolding out by (rule next_stage_moved [OF d x fin inj y, where f = f]) (rule f)+
    have "wf_frame s ?s3" by (rule wf_frame_trans [OF rest(1)]) simp
    have w': "w\<lparr>wf_active_stage := Some (st_ordinal y)\<rparr> = moved_workflow out w" by (simp add: out y)
    have "\<exists>s4. assigns ?s3 s4 \<and> s' = put_workflow (moved_workflow out w) s4 \<and> w1 = moved_workflow out w"
    proof (cases "policy_stage_get ?s2 (st_policy_stage y)")
      case None
      then have "f y = y\<lparr>st_state := Active, st_activated_at := Some now\<rparr>" by (simp add: f_def)
      then show ?thesis using a unfolding advance_def Let_def Some w' None option.case
        by (intro exI [of _ ?s3]) auto
    next
      case (Some ps)
      then have fy: "f y = (case stage_due ps now of
            None \<Rightarrow> y\<lparr>st_state := Active, st_activated_at := Some now\<rparr>
          | Some t \<Rightarrow> y\<lparr>st_state := Active, st_activated_at := Some now, st_deadline_at := Some t\<rparr>)"
        by (simp add: f_def split: option.split)
      from a obtain review where "s' = put_workflow (moved_workflow out w)
          (activate_assignments review w ps now ?s3)" "w1 = moved_workflow out w"
        unfolding advance_def Let_def \<open>?find = Some y\<close> w' Some option.case fy
        by (auto simp: result_simps)
      then show ?thesis using activate_assignments_assigns by blast
    qed
    then obtain s4 where s4: "assigns ?s3 s4" and s': "s' = put_workflow (moved_workflow out w) s4"
      and w1: "w1 = moved_workflow out w" by blast
    have s3: "workflows ?s3 = workflows s" "workflow_decisions ?s3 = workflow_decisions s"
      "workflow_outbox ?s3 = workflow_outbox s" "audit_events ?s3 = audit_events s"
      using rest(2-5) by (simp_all add: put_stage_def complete_assignments_def)
    have "wf_frame s4 s'" unfolding s' by simp
    then have "wf_frame s s'"
      using \<open>wf_frame s ?s3\<close> s4 wf_frame_trans unfolding assigns_def by blast
    moreover have "workflows s' = update_where (\<lambda>z. wf_id z = wf_id (moved_workflow out w))
        (\<lambda>_. moved_workflow out w) (workflows s)"
      using s4 s3 by (simp add: s' put_workflow_def assigns_def)
    moreover have "workflow_stages s' = workflow_stages ?s3" "workflow_decisions s' = workflow_decisions s"
      "workflow_outbox s' = workflow_outbox s" "audit_events s' = audit_events s"
      using s4 s3 by (simp_all add: s' put_workflow_def assigns_def)
    ultimately show ?thesis
      using moved w1 by (simp only: decision_effect_def workflow_written_def simp_thms)
  qed
qed

lemma apply_decision_effect:
  assumes d: "distinct (map st_id (workflow_stages s))" and x: "x \<in> set (workflow_stages s)"
    and xw: "st_workflow x = wf_id w" and inj: "inj_on st_ordinal (wf_stages s w)"
    and a: "apply_decision w x action now s = Inr (w1, s')"
  shows "w1 = moved_workflow (outcome_of s w x action) w \<and>
    decision_effect (outcome_of s w x action) w x s s'"
proof (cases action)
  case Approve
  then obtain b where b: "stage_is_satisfied s w x = Inr b"
    and r: "(if b then advance w x now s else Inr (w, s)) = Inr (w1, s')"
    using a by (auto simp: apply_decision_def result_simps)
  show ?thesis
  proof (cases b)
    case True
    then show ?thesis using advance_effect [OF d x xw inj] r b Approve
      by (simp add: outcome_of_def satisfied_def)
  next
    case False
    then show ?thesis using r b Approve
      by (auto simp: outcome_of_def satisfied_def decision_effect_def workflow_written_def
          stages_moved_Stay)
  qed
next
  case Reject
  then show ?thesis using complete_terminal_effect [OF d x] a
    by (simp add: apply_decision_def outcome_of_def)
next
  case RequestChanges
  then show ?thesis using complete_terminal_effect [OF d x] a
    by (simp add: apply_decision_def outcome_of_def)
qed


subsection \<open>Outbox and audit\<close>

lemma emit_effect:
  assumes "emit w ty cid key clock s = Inr s'"
  obtains snap where
    "s' = (draw s)\<lparr>workflow_outbox := workflow_outbox s @
       [new_outbox_row (uuid4 s) w ty cid key snap (clock (uuid4 s))]\<rparr>"
    "snap \<noteq> None \<longleftrightarrow> ty = ''review.workflow.terminal''"
    "\<And>j. snap = Some j \<Longrightarrow> terminal_package_snapshot (draw s) w (uuid4 s) cid = Inr j"
  using assms by (cases "ty = ''review.workflow.terminal''") (auto simp: emit_def Let_def result_simps)

definition with_decision where
  "with_decision s w x actor action key now = (draw s)\<lparr>workflow_decisions := workflow_decisions s @
     [new_decision (uuid4 s) w x actor action key now]\<rparr>"

text \<open>The event type of a decision's outbox event.\<close>

definition decision_event :: "workflow_row \<Rightarrow> string" where
  "decision_event w = (if terminal_state (wf_state w) then ''review.workflow.terminal''
     else ''review.workflow.resume'')"

lemma decide_cases:
  assumes "decide s wid actor action key rv cid ctx now clock = Inr (r, s')"
  obtains (replay) w d where "find (\<lambda>w. wf_id w = wid) (workflows s) = Some w"
      "d \<in> set (workflow_decisions s)" "wd_workflow d = wid" "wd_idempotency_key d = key"
      "wd_actor d = actor" "wd_action d = action" "s' = s" "r = workflow_snapshot_of s w"
  | (fresh) w x w1 s2 w2 a s4 where "find (\<lambda>w. wf_id w = wid) (workflows s) = Some w"
      "\<forall>d \<in> set (workflow_decisions s). \<not> (wd_workflow d = wid \<and> wd_idempotency_key d = key)"
      "decision_guards s w actor action rv = Inr x"
      "apply_decision w x action now (with_decision s w x actor action key now) = Inr (w1, s2)"
      "w2 = w1\<lparr>wf_revision := wf_revision w1 + 1, wf_updated_at := now\<rparr>"
      "s4 = record_audit ctx a now (put_workflow w2 s2)"
      "en_resource_id a = Some (wf_id w)" "en_org a = wf_org w" "en_actor a = actor"
      "emit w2 (decision_event w2) cid (''workflow:'' @ wf_id w @ '':decision:'' @ key) clock s4 = Inr s'"
      "r = workflow_snapshot_of s' w2"
proof -
  from assms obtain w where w: "find (\<lambda>w. wf_id w = wid) (workflows s) = Some w"
    by (auto simp: decide_def result_simps)
  then have wid: "wf_id w = wid" by (auto dest: find_SomeD)
  show thesis
  proof (cases "find (\<lambda>d. wd_workflow d = wf_id w \<and> wd_idempotency_key d = key) (workflow_decisions s)")
    case (Some d)
    then show thesis using assms w wid find_SomeD [OF Some]
      by (intro replay [of w d]) (auto simp: decide_def split: if_splits)
  next
    case None
    from assms obtain x w1 s2 where g: "decision_guards s w actor action rv = Inr x"
      and ap: "apply_decision w x action now (with_decision s w x actor action key now) = Inr (w1, s2)"
      unfolding decide_def w None some_or_simps bindR.simps option.case with_decision_def
      by (auto simp: result_simps Let_def)
    let ?w2 = "w1\<lparr>wf_revision := wf_revision w1 + 1, wf_updated_at := now\<rparr>"
    have un: "\<forall>d \<in> set (workflow_decisions s). \<not> (wd_workflow d = wid \<and> wd_idempotency_key d = key)"
      using None by (simp add: find_None_iff' wid)
    let ?a = "\<lparr>en_org = wf_org w, en_ws = wf_ws w, en_actor = actor,
        en_action = ''review_workflow_'' @ action_value action,
        en_resource_type = ''review_workflow'', en_resource_id = Some (wf_id w),
        en_outcome = ''accepted'', en_correlation_id = cid,
        en_before = [(''state'', JStr ''waiting_for_approval''),
          (''stage'', JInt (int (st_ordinal x)))],
        en_after = [(''state'', JStr (workflow_state_value (wf_state ?w2))),
          (''stage'', case wf_active_stage ?w2 of None \<Rightarrow> JNull | Some n \<Rightarrow> JInt (int n))],
        en_metadata = []\<rparr>"
    let ?s4 = "record_audit ctx ?a now (put_workflow ?w2 s2)"
    have "bindR (emit ?w2 (decision_event ?w2) cid (''workflow:'' @ wf_id w @ '':decision:'' @ key) clock ?s4)
        (\<lambda>s5. Inr (workflow_snapshot_of s5 ?w2, s5)) = Inr (r, s')"
      using assms unfolding decide_def w None some_or_simps bindR.simps option.case g Let_def
        with_decision_def [symmetric] ap prod.case decision_event_def [symmetric] .
    then have e: "emit ?w2 (decision_event ?w2) cid (''workflow:'' @ wf_id w @ '':decision:'' @ key) clock ?s4 = Inr s'"
      and r: "r = workflow_snapshot_of s' ?w2"
      by (auto simp only: bindR_Inr_iff sum.inject prod.inject)
    show thesis by (rule fresh [OF w un g ap refl refl _ _ _ e r]) simp_all
  qed
qed


text \<open>The whole effect of a decision that is no replay, table by table.\<close>

definition decided ::
  "workflow_row \<Rightarrow> workflow_stage_row \<Rightarrow> uuid \<Rightarrow> workflow_action \<Rightarrow> string \<Rightarrow> datetime
   \<Rightarrow> 'z review_db_scheme \<Rightarrow> 'z review_db_scheme \<Rightarrow> bool" where
  "decided w x actor action key now s s' \<longleftrightarrow>
     (let s1 = with_decision s w x actor action key now; out = outcome_of s1 w x action;
          w2 = (moved_workflow out w)\<lparr>wf_revision := wf_revision w + 1, wf_updated_at := now\<rparr>
      in wf_frame s s' \<and> workflow_decisions s' = workflow_decisions s1 \<and>
         workflows s' = update_where (\<lambda>y. wf_id y = wf_id w) (\<lambda>_. w2) (workflows s) \<and>
         stages_moved out w x (workflow_stages s) (workflow_stages s') \<and>
         (\<exists>a. audit_events s' = audit_events s @ [a]) \<and>
         (\<exists>i cid k snap t. workflow_outbox s' = workflow_outbox s @
            [new_outbox_row i w2 (decision_event w2) cid k snap t] \<and>
            (snap \<noteq> None \<longleftrightarrow> terminal_state (wf_state w2))))"

lemma moved_workflow_static [simp]:
  "wf_id (moved_workflow out w) = wf_id w" "wf_revision (moved_workflow out w) = wf_revision w"
  "wf_org (moved_workflow out w) = wf_org w" "wf_ws (moved_workflow out w) = wf_ws w"
  "wf_review (moved_workflow out w) = wf_review w"
  "wf_policy_version (moved_workflow out w) = wf_policy_version w"
  by (cases out; simp)+

lemma decision_event_terminal: "decision_event w = ''review.workflow.terminal'' \<longleftrightarrow> terminal_state (wf_state w)"
  by (simp add: decision_event_def)

lemma decision_guardsD:
  assumes "decision_guards s w actor action rv = Inr x"
  obtains v r ps where "wf_revision w = rv" "wf_state w = Waiting" "active_stage s w = Some x"
    "find (\<lambda>v. av_id v = wf_policy_version w) (policy_versions s) = Some v"
    "locked_review s (wf_review w) = Inr r"
    "action = Approve \<longrightarrow> av_submitter_may_approve v \<or> actor \<noteq> rc_created_by r"
    "policy_stage_get s (st_policy_stage x) = Some ps" "actor_is_eligible s actor w ps"
    "action = Approve \<longrightarrow> av_allow_cross_stage_same_approver v \<or>
       (\<forall>d \<in> set (workflow_decisions s). wd_workflow d = wf_id w \<and> wd_actor d = actor \<and>
          wd_action d = Approve \<longrightarrow> wd_stage d = st_id x)"
proof -
  from assms have "\<exists>v r ps. wf_revision w = rv \<and> wf_state w = Waiting \<and> active_stage s w = Some x \<and>
    find (\<lambda>v. av_id v = wf_policy_version w) (policy_versions s) = Some v \<and>
    locked_review s (wf_review w) = Inr r \<and>
    (action = Approve \<longrightarrow> av_submitter_may_approve v \<or> actor \<noteq> rc_created_by r) \<and>
    policy_stage_get s (st_policy_stage x) = Some ps \<and> actor_is_eligible s actor w ps \<and>
    (action = Approve \<longrightarrow> av_allow_cross_stage_same_approver v \<or>
       (\<forall>d \<in> set (workflow_decisions s). wd_workflow d = wf_id w \<and> wd_actor d = actor \<and>
          wd_action d = Approve \<longrightarrow> wd_stage d = st_id x))"
    by (auto simp: decision_guards_def result_simps split: option.splits)
  then show thesis using that by blast
qed

lemma active_stageD:
  "active_stage s w = Some x \<Longrightarrow> x \<in> set (workflow_stages s) \<and> st_workflow x = wf_id w \<and> st_state x = Active"
  unfolding active_stage_def by (auto dest: find_SomeD simp: in_stages_of_workflow)

lemma update_where_twice:
  assumes "\<And>x. p x \<Longrightarrow> p w"
  shows "update_where p (\<lambda>_. v) (update_where p (\<lambda>_. w) xs) = update_where p (\<lambda>_. v) xs"
  using assms by (induction xs) auto

lemma decide_effect:
  assumes dec: "decide s wid actor action key rv cid ctx now clock = Inr (r, s')"
    and d: "distinct (map st_id (workflow_stages s))"
    and inj: "\<And>w. w \<in> set (workflows s) \<Longrightarrow> inj_on st_ordinal (wf_stages s w)"
  shows "s' = s \<and> (\<exists>e \<in> set (workflow_decisions s). wd_workflow e = wid \<and> wd_idempotency_key e = key \<and>
      wd_actor e = actor \<and> wd_action e = action) \<or>
    (\<exists>w x. w \<in> set (workflows s) \<and> wf_id w = wid \<and>
    (\<forall>e \<in> set (workflow_decisions s). \<not> (wd_workflow e = wid \<and> wd_idempotency_key e = key)) \<and>
    decision_guards s w actor action rv = Inr x \<and> decided w x actor action key now s s')"
  using dec
proof (cases rule: decide_cases)
  case (fresh w x w1 s2 w2 a s4)
  let ?s1 = "with_decision s w x actor action key now"
  let ?out = "outcome_of ?s1 w x action"
  have w: "w \<in> set (workflows s)" "wf_id w = wid" using find_SomeD [OF fresh(1)] by auto
  have xx: "x \<in> set (workflow_stages s)" "st_workflow x = wf_id w"
    using decision_guardsD [OF fresh(3)] active_stageD by metis+
  have t1: "workflow_stages ?s1 = workflow_stages s" "workflows ?s1 = workflows s"
    "workflow_outbox ?s1 = workflow_outbox s" "audit_events ?s1 = audit_events s"
    by (simp_all add: with_decision_def)
  have eff: "w1 = moved_workflow ?out w" "decision_effect ?out w x ?s1 s2"
    using apply_decision_effect [OF _ _ xx(2) _ fresh(4)] d xx(1) inj [OF w(1)] by (simp_all add: t1)
  have w2: "w2 = (moved_workflow ?out w)\<lparr>wf_revision := wf_revision w + 1, wf_updated_at := now\<rparr>"
    using fresh(5) eff(1) by simp
  from fresh(10) obtain snap where s': "s' = (draw s4)\<lparr>workflow_outbox := workflow_outbox s4 @
       [new_outbox_row (uuid4 s4) w2 (decision_event w2) cid
          (''workflow:'' @ wf_id w @ '':decision:'' @ key) snap (clock (uuid4 s4))]\<rparr>"
    and snap: "snap \<noteq> None \<longleftrightarrow> terminal_state (wf_state w2)"
    by (rule emit_effect) (simp add: decision_event_terminal)
  let ?p = "put_workflow w2 s2"
  have s4t: "workflows s4 = workflows ?p" "workflow_stages s4 = workflow_stages s2"
    "workflow_decisions s4 = workflow_decisions s2" "workflow_outbox s4 = workflow_outbox s2"
    "\<exists>b. audit_events s4 = audit_events s2 @ [b]"
    by (simp_all add: fresh(6) record_audit_def put_workflow_def)
  have "wf_frame s ?s1" unfolding with_decision_def by (rule wf_frame_trans [OF wf_frame_intros(1)]) simp
  moreover have "wf_frame ?s1 s2" using eff(2) by (simp add: decision_effect_def)
  moreover have "wf_frame s2 s4" unfolding fresh(6) by (rule wf_frame_trans [where t = ?p]) simp_all
  moreover have "wf_frame s4 s'" unfolding s' by (rule wf_frame_trans [OF wf_frame_intros(1)]) simp
  ultimately have "wf_frame s s'" using wf_frame_trans by blast
  moreover have "workflow_decisions s' = workflow_decisions ?s1"
    using eff(2) by (simp add: s' s4t decision_effect_def)
  moreover have "workflows s' = update_where (\<lambda>y. wf_id y = wf_id w) (\<lambda>_. w2) (workflows s)"
    using eff(2) by (auto simp: s' s4t decision_effect_def workflow_written_def put_workflow_def w2 t1
        update_where_twice)
  moreover have "stages_moved ?out w x (workflow_stages s) (workflow_stages s')"
    using eff(2) by (simp add: s' s4t decision_effect_def t1)
  moreover have "\<exists>a. audit_events s' = audit_events s @ [a]"
    using eff(2) s4t(5) by (auto simp: s' decision_effect_def t1)
  moreover have "workflow_outbox s' = workflow_outbox s @ [new_outbox_row (uuid4 s4) w2 (decision_event w2) cid
          (''workflow:'' @ wf_id w @ '':decision:'' @ key) snap (clock (uuid4 s4))]"
    using eff(2) by (simp add: s' s4t decision_effect_def t1)
  ultimately have "decided w x actor action key now s s'"
    using snap unfolding decided_def Let_def w2 by blast
  then show ?thesis using w fresh(2,3) by blast
qed blast

end
