(* ===== verification/Workflow_Invariant.thy ===== *)
theory Workflow_Invariant
  imports Workflow_Safety
begin

text \<open>
  The invariant of the workflow tables and its preservation by every operation that writes them:
  starting, deciding, escalating, and the policy operations that run beside them.
\<close>

section \<open>The stages of one workflow as a view\<close>

type_synonym stage_view = "uuid \<times> nat \<times> uuid \<times> stage_state"

abbreviation vid :: "stage_view \<Rightarrow> uuid" where "vid a \<equiv> fst a"
abbreviation vord :: "stage_view \<Rightarrow> nat" where "vord a \<equiv> fst (snd a)"
abbreviation vpol :: "stage_view \<Rightarrow> uuid" where "vpol a \<equiv> fst (snd (snd a))"
abbreviation vstate :: "stage_view \<Rightarrow> stage_state" where "vstate a \<equiv> snd (snd (snd a))"

definition view_of :: "workflow_stage_row \<Rightarrow> stage_view" where
  "view_of z = (st_id z, st_ordinal z, st_policy_stage z, st_state z)"

definition sview :: "'z review_db_scheme \<Rightarrow> uuid \<Rightarrow> stage_view set" where
  "sview s i = view_of ` {z \<in> set (workflow_stages s). st_workflow z = i}"

definition moved_view :: "outcome \<Rightarrow> uuid \<Rightarrow> stage_view \<Rightarrow> stage_view" where
  "moved_view out xi a = (vid a, vord a, vpol a,
     if out = Stay then vstate a else if vid a = xi then Completed
     else if out = Next (vord a) then Active else vstate a)"

lemma moved_view_simps [simp]:
  "vid (moved_view out xi a) = vid a" "vord (moved_view out xi a) = vord a"
  "vpol (moved_view out xi a) = vpol a"
  by (simp_all add: moved_view_def)

lemma moved_view_Stay [simp]: "moved_view Stay xi a = a"
  by (simp add: moved_view_def)

lemma sview_moved:
  assumes m: "stages_moved out w x (workflow_stages s) (workflow_stages s')"
  shows "sview s' (wf_id w) = moved_view out (st_id x) ` sview s (wf_id w)"
proof -
  from m obtain h where t: "workflow_stages s' = map h (workflow_stages s)"
    and h: "\<forall>z \<in> set (workflow_stages s). st_static (h z) = st_static z \<and> st_state (h z) = moved_state out w x z"
    unfolding stages_moved_def by blast
  have "view_of (h z) = moved_view out (st_id x) (view_of z)"
    if "z \<in> set (workflow_stages s)" "st_workflow z = wf_id w" for z
    using h that by (auto simp: view_of_def moved_view_def moved_state_def st_static_def)
  moreover have "{z \<in> set (workflow_stages s'). st_workflow z = wf_id w} =
      h ` {z \<in> set (workflow_stages s). st_workflow z = wf_id w}"
    using h by (auto simp: t st_static_def)
  ultimately show ?thesis by (force simp: sview_def image_image)
qed

lemma sview_moved_other:
  assumes m: "stages_moved out w x (workflow_stages s) (workflow_stages s')"
    and d: "distinct (map st_id (workflow_stages s))" and x: "x \<in> set (workflow_stages s)"
    and xw: "st_workflow x = wf_id w" and i: "i \<noteq> wf_id w"
  shows "sview s' i = sview s i"
proof -
  from m obtain h where t: "workflow_stages s' = map h (workflow_stages s)"
    and h: "\<forall>z \<in> set (workflow_stages s). st_static (h z) = st_static z \<and> st_state (h z) = moved_state out w x z"
    unfolding stages_moved_def by blast
  have "view_of (h z) = view_of z" if z: "z \<in> set (workflow_stages s)" "st_workflow z = i" for z
  proof -
    have "st_id z \<noteq> st_id x" using distinct_key_inj [OF d z(1) x] z(2) xw i by auto
    then show ?thesis using h z i by (auto simp: view_of_def moved_state_def st_static_def)
  qed
  moreover have "{z \<in> set (workflow_stages s'). st_workflow z = i} =
      h ` {z \<in> set (workflow_stages s). st_workflow z = i}"
    using h by (auto simp: t st_static_def)
  ultimately show ?thesis by (force simp: sview_def image_image)
qed

text \<open>The rows of a workflow, in full.\<close>

definition stage_rows :: "'z review_db_scheme \<Rightarrow> uuid \<Rightarrow> workflow_stage_row list" where
  "stage_rows s i = filter (\<lambda>z. st_workflow z = i) (workflow_stages s)"

lemma stage_rows_map:
  assumes t: "workflow_stages s' = map h (workflow_stages s)"
    and h: "\<forall>z \<in> set (workflow_stages s). st_static (h z) = st_static z"
    and k: "\<forall>z \<in> set (workflow_stages s). st_workflow z = i \<longrightarrow> h z = z"
  shows "stage_rows s' i = stage_rows s i"
proof -
  have "filter (\<lambda>z. st_workflow z = i) (map h zs) = filter (\<lambda>z. st_workflow z = i) zs"
    if "set zs \<subseteq> set (workflow_stages s)" for zs
    using that
  proof (induction zs)
    case (Cons z zs)
    then have "st_workflow (h z) = st_workflow z" using h by (auto simp: st_static_def)
    then show ?case using Cons k by auto
  qed simp
  then show ?thesis by (simp add: stage_rows_def t)
qed

lemma stage_rows_moved_other:
  assumes m: "stages_moved out w x (workflow_stages s) (workflow_stages s')"
    and d: "distinct (map st_id (workflow_stages s))" and x: "x \<in> set (workflow_stages s)"
    and xw: "st_workflow x = wf_id w" and i: "i \<noteq> wf_id w"
  shows "stage_rows s' i = stage_rows s i"
proof -
  from m obtain h where t: "workflow_stages s' = map h (workflow_stages s)"
    and h: "\<forall>z \<in> set (workflow_stages s). st_static (h z) = st_static z"
    and k: "\<forall>z \<in> set (workflow_stages s). st_id z \<noteq> st_id x \<and> st_workflow z \<noteq> wf_id w \<longrightarrow> h z = z"
    unfolding stages_moved_def by blast
  have "st_id z \<noteq> st_id x" if "z \<in> set (workflow_stages s)" "st_workflow z = i" for z
    using distinct_key_inj [OF d that(1) x] that(2) xw i by auto
  then show ?thesis using k i by (intro stage_rows_map [OF t h]) blast
qed

section \<open>Phases\<close>

definition phase_at :: "nat \<Rightarrow> nat \<Rightarrow> stage_state" where
  "phase_at k j = (if j < k then Completed else if j = k then Active else Pending)"

fun phase_states :: "workflow_state \<Rightarrow> nat option \<Rightarrow> stage_view set \<Rightarrow> bool" where
  "phase_states Waiting act V \<longleftrightarrow>
     (\<exists>k. act = Some k \<and> k \<in> vord ` V \<and> (\<forall>a \<in> V. vstate a = phase_at k (vord a)))"
| "phase_states Approved act V \<longleftrightarrow> act = None \<and> (\<forall>a \<in> V. vstate a = Completed)"
| "phase_states st act V \<longleftrightarrow> act = None \<and> (\<forall>a \<in> V. vstate a \<noteq> Active)"

text \<open>
  Stages are numbered \<open>1..n\<close>; a waiting workflow has exactly one active stage, the one it names, all
  earlier ones are completed and all later ones pending.
\<close>

definition phase_ok :: "workflow_state \<Rightarrow> nat option \<Rightarrow> stage_view set \<Rightarrow> bool" where
  "phase_ok st act V \<longleftrightarrow> inj_on vid V \<and> inj_on vord V \<and> (\<exists>n > 0. vord ` V = {1..n}) \<and> phase_states st act V"

definition outcome_fits :: "outcome \<Rightarrow> nat \<Rightarrow> stage_view set \<Rightarrow> bool" where
  "outcome_fits out k V \<longleftrightarrow>
     (case out of
        Stay \<Rightarrow> True
      | Next j \<Rightarrow> j = Suc k \<and> j \<in> vord ` V
      | Finish st \<Rightarrow> st \<noteq> Waiting \<and> (st = Approved \<longrightarrow> Suc k \<notin> vord ` V))"

fun next_state :: "outcome \<Rightarrow> workflow_state" where
  "next_state (Finish st) = st"
| "next_state out = Waiting"

fun next_active :: "outcome \<Rightarrow> nat \<Rightarrow> nat option" where
  "next_active Stay k = Some k"
| "next_active (Next j) k = Some j"
| "next_active (Finish st) k = None"

lemma phase_ok_moved:
  assumes p: "phase_ok Waiting act V" and x: "(xi, k, xp, Active) \<in> V" and f: "outcome_fits out k V"
  shows "act = Some k" "phase_ok (next_state out) (next_active out k) (moved_view out xi ` V)"
proof -
  obtain k' where k': "act = Some k'" "\<forall>a \<in> V. vstate a = phase_at k' (vord a)"
    using p by (auto simp: phase_ok_def)
  then have "phase_at k' k = Active" using x by force
  then have kk: "k' = k" by (auto simp: phase_at_def split: if_splits)
  then show act: "act = Some k" using k' by simp
  have st: "vstate a = phase_at k (vord a)" if "a \<in> V" for a using k' kk that by simp
  have idk: "vid a = xi \<longleftrightarrow> vord a = k" if "a \<in> V" for a
    using p x that unfolding phase_ok_def inj_on_def by (metis fst_conv snd_conv)
  obtain n where n: "n > 0" "vord ` V = {1..n}" using p by (auto simp: phase_ok_def)
  have ords: "vord ` moved_view out xi ` V = vord ` V" by (simp add: image_image)
  have inj: "inj_on vid (moved_view out xi ` V)" "inj_on vord (moved_view out xi ` V)"
    using p by (auto simp: phase_ok_def inj_on_def)
  have kV: "k \<in> vord ` V" using x by force
  have "phase_states (next_state out) (next_active out k) (moved_view out xi ` V)"
  proof (cases out)
    case Stay
    then show ?thesis using st kV by auto
  next
    case (Next j)
    then have j: "j = Suc k" "j \<in> vord ` V" using f unfolding outcome_fits_def Next outcome.case by blast+
    have "vstate (moved_view out xi a) = phase_at j (vord a)" if "a \<in> V" for a
      using st [OF that] idk [OF that] j Next by (auto simp: moved_view_def phase_at_def)
    moreover have "j \<in> vord ` moved_view out xi ` V" unfolding ords by (rule j(2))
    ultimately show ?thesis using Next by simp
  next
    case (Finish fs)
    have "vord a \<le> k" if "fs = Approved" "a \<in> V" for a
    proof -
      have "Suc k \<notin> {1..n}" using f Finish that(1) n(2) by (simp add: outcome_fits_def)
      moreover have "k \<in> {1..n}" "vord a \<in> {1..n}" using kV that(2) n(2) by blast+
      ultimately show ?thesis by simp
    qed
    moreover have "vstate (moved_view out xi a) = (if vord a \<le> k then Completed else Pending)"
      if "a \<in> V" for a
      using st [OF that] idk [OF that] Finish by (auto simp: moved_view_def phase_at_def)
    ultimately show ?thesis using f Finish by (cases fs) (auto simp: outcome_fits_def)
  qed
  then show "phase_ok (next_state out) (next_active out k) (moved_view out xi ` V)"
    unfolding phase_ok_def ords using inj n by blast
qed

section \<open>The invariant\<close>

definition workflow_keys :: "'z review_db_scheme \<Rightarrow> bool" where
  "workflow_keys s \<longleftrightarrow> inj (uuid_src s) \<and>
     (\<forall>n \<ge> uuid_used s. uuid_src s n \<notin> wf_id ` set (workflows s) \<union> st_id ` set (workflow_stages s)) \<and>
     distinct (map wf_id (workflows s)) \<and> distinct (map wf_review (workflows s)) \<and>
     distinct (map st_id (workflow_stages s)) \<and> distinct (map rc_id (review_cases s))"

definition workflow_links :: "'z review_db_scheme \<Rightarrow> bool" where
  "workflow_links s \<longleftrightarrow> st_workflow ` set (workflow_stages s) \<subseteq> wf_id ` set (workflows s) \<and>
     wd_workflow ` set (workflow_decisions s) \<subseteq> wf_id ` set (workflows s) \<and>
     wd_stage ` set (workflow_decisions s) \<subseteq> st_id ` set (workflow_stages s) \<and>
     ob_workflow ` set (workflow_outbox s) \<subseteq> wf_id ` set (workflows s)"

definition phases_ok :: "'z review_db_scheme \<Rightarrow> workflow_row \<Rightarrow> bool" where
  "phases_ok s w \<longleftrightarrow> phase_ok (wf_state w) (wf_active_stage w) (sview s (wf_id w))"

text \<open>The stages are those of the published policy version the workflow was started with.\<close>

definition policy_linked :: "'z review_db_scheme \<Rightarrow> workflow_row \<Rightarrow> bool" where
  "policy_linked s w \<longleftrightarrow> (\<exists>v \<in> set (policy_versions s). av_id v = wf_policy_version w \<and>
     av_status v = Published \<and>
     (\<lambda>a. (vord a, vpol a)) ` sview s (wf_id w) =
       (\<lambda>ps. (ps_ordinal ps, ps_id ps)) ` set (stages_of s (av_id v)))"

definition revision_counts :: "'z review_db_scheme \<Rightarrow> workflow_row \<Rightarrow> bool" where
  "revision_counts s w \<longleftrightarrow>
     wf_revision w = length (filter (\<lambda>d. wd_workflow d = wf_id w) (workflow_decisions s))"

definition completed_approved :: "'z review_db_scheme \<Rightarrow> workflow_row \<Rightarrow> bool" where
  "completed_approved s w \<longleftrightarrow> (wf_state w \<in> {Waiting, Approved} \<longrightarrow>
     (\<forall>a \<in> sview s (wf_id w). vstate a = Completed \<longrightarrow>
        (\<exists>ps. policy_stage_get s (vpol a) = Some ps \<and> quorum_met ps (stage_approvals s (wf_id w) (vid a)))))"

definition duties_separated :: "'z review_db_scheme \<Rightarrow> workflow_row \<Rightarrow> bool" where
  "duties_separated s w \<longleftrightarrow> (\<forall>v \<in> set (policy_versions s). av_id v = wf_policy_version w \<longrightarrow>
     (\<forall>d \<in> set (workflow_decisions s). wd_workflow d = wf_id w \<and> wd_action d = Approve \<longrightarrow>
        (av_submitter_may_approve v \<or>
           (\<forall>r \<in> set (review_cases s). rc_id r = wf_review w \<longrightarrow> wd_actor d \<noteq> rc_created_by r)) \<and>
        (av_allow_cross_stage_same_approver v \<or>
           (\<forall>d' \<in> set (workflow_decisions s). wd_workflow d' = wf_id w \<and> wd_action d' = Approve \<and>
              wd_actor d' = wd_actor d \<longrightarrow> wd_stage d' = wd_stage d))))"

text \<open>Exactly one terminal event per finished workflow, and each carries its package snapshot.\<close>

definition terminal_events :: "'z review_db_scheme \<Rightarrow> uuid \<Rightarrow> outbox_row list" where
  "terminal_events s i = filter (\<lambda>e. ob_workflow e = i \<and> ob_event_type e = ''review.workflow.terminal'')
     (workflow_outbox s)"

definition outbox_ok :: "'z review_db_scheme \<Rightarrow> workflow_row \<Rightarrow> bool" where
  "outbox_ok s w \<longleftrightarrow>
     length (terminal_events s (wf_id w)) = (if terminal_state (wf_state w) then 1 else 0) \<and>
     (\<forall>e \<in> set (terminal_events s (wf_id w)). ob_package_snapshot e \<noteq> None \<and>
        ob_package_manifest_key e \<noteq> None \<and> ob_package_pdf_key e \<noteq> None)"

definition decision_keys_unique :: "'z review_db_scheme \<Rightarrow> bool" where
  "decision_keys_unique s \<longleftrightarrow>
     distinct (map (\<lambda>d. (wd_workflow d, wd_idempotency_key d)) (workflow_decisions s))"

definition wf_row_inv :: "'z review_db_scheme \<Rightarrow> workflow_row \<Rightarrow> bool" where
  "wf_row_inv s w \<longleftrightarrow> phases_ok s w \<and> policy_linked s w \<and> revision_counts s w \<and>
     completed_approved s w \<and> duties_separated s w \<and> outbox_ok s w"

definition wf_inv :: "'z review_db_scheme \<Rightarrow> bool" where
  "wf_inv s \<longleftrightarrow> workflow_keys s \<and> workflow_links s \<and> decision_keys_unique s \<and>
     (\<forall>w \<in> set (workflows s). wf_row_inv s w)"


section \<open>Consequences\<close>

lemma sview_ids:
  "distinct (map st_id (workflow_stages s)) \<Longrightarrow> inj_on vid (sview s i)"
  by (auto simp: sview_def inj_on_def view_of_def dest: distinct_key_inj)

lemma inj_ordinals:
  assumes "phases_ok s w"
    and "distinct (map st_id (workflow_stages s))"
  shows "inj_on st_ordinal (wf_stages s w)"
proof (rule inj_onI)
  fix z z' assume z: "z \<in> wf_stages s w" "z' \<in> wf_stages s w" and eq: "st_ordinal z = st_ordinal z'"
  have "inj_on vord (sview s (wf_id w))" using assms(1) by (simp add: phases_ok_def phase_ok_def)
  moreover have "view_of z \<in> sview s (wf_id w)" "view_of z' \<in> sview s (wf_id w)"
    using z by (auto simp: sview_def)
  moreover have "vord (view_of z) = vord (view_of z')" by (simp add: view_of_def eq)
  ultimately have "view_of z = view_of z'" by (metis inj_onD)
  then show "z = z'" using z distinct_key_inj [OF assms(2), of z z'] by (simp add: view_of_def)
qed

lemma quorum_met_mono: "quorum_met ps xs \<Longrightarrow> set xs \<subseteq> set ys \<Longrightarrow> quorum_met ps ys"
proof -
  assume q: "quorum_met ps xs" and sub: "set xs \<subseteq> set ys"
  have "card (set (map wd_actor xs)) \<le> card (set (map wd_actor ys))"
    by (rule card_mono) (use sub in auto)
  moreover have "xs \<noteq> [] \<Longrightarrow> ys \<noteq> []" using sub by auto
  ultimately show "quorum_met ps ys" using q
    by (auto simp: quorum_met_def split: approval_mode.splits option.splits if_splits)
qed

section \<open>Decisions keep the invariant\<close>

lemma outcome_of_fits:
  assumes x: "x \<in> set (workflow_stages s)" and st: "workflow_stages s1 = workflow_stages s"
  shows "outcome_fits (outcome_of s1 w x action) (st_ordinal x) (sview s (wf_id w))"
proof -
  have "vord ` sview s (wf_id w) = st_ordinal ` wf_stages s w"
    by (simp add: sview_def view_of_def image_image)
  then show ?thesis
    by (auto simp: outcome_of_def outcome_fits_def st split: workflow_action.split)
qed

lemma next_state_moved:
  "wf_state w = Waiting \<Longrightarrow> wf_active_stage w = Some k \<Longrightarrow>
   wf_state (moved_workflow out w) = next_state out \<and> wf_active_stage (moved_workflow out w) = next_active out k"
  by (cases out) auto

text \<open>A decision that was taken, and the rows it read and wrote.\<close>

definition decision_taken ::
  "'z review_db_scheme \<Rightarrow> 'z review_db_scheme \<Rightarrow> workflow_row \<Rightarrow> workflow_stage_row \<Rightarrow> uuid
   \<Rightarrow> workflow_action \<Rightarrow> string \<Rightarrow> datetime \<Rightarrow> bool" where
  "decision_taken s s' w x actor action key now \<longleftrightarrow> w \<in> set (workflows s) \<and>
     decision_guards s w actor action (wf_revision w) = Inr x \<and>
     (\<forall>e \<in> set (workflow_decisions s). \<not> (wd_workflow e = wf_id w \<and> wd_idempotency_key e = key)) \<and>
     decided w x actor action key now s s'"

definition decision_outcome where
  "decision_outcome s w x actor action key now =
     outcome_of (with_decision s w x actor action key now) w x action"

definition decided_workflow where
  "decided_workflow s w x actor action key now =
     (moved_workflow (decision_outcome s w x actor action key now) w)
       \<lparr>wf_revision := wf_revision w + 1, wf_updated_at := now\<rparr>"

lemma decided_workflow_static [simp]:
  "wf_id (decided_workflow s w x u c k now) = wf_id w"
  "wf_review (decided_workflow s w x u c k now) = wf_review w"
  "wf_policy_version (decided_workflow s w x u c k now) = wf_policy_version w"
  "wf_revision (decided_workflow s w x u c k now) = wf_revision w + 1"
  by (simp_all add: decided_workflow_def)

lemma with_decision_tables [simp]:
  "workflow_stages (with_decision s w x u c k now) = workflow_stages s"
  "workflow_decisions (with_decision s w x u c k now) =
     workflow_decisions s @ [new_decision (uuid4 s) w x u c k now]"
  "policy_stages (with_decision s w x u c k now) = policy_stages s"
  by (simp_all add: with_decision_def)

lemma new_decision_simps [simp]:
  "wd_workflow (new_decision i w x u c k now) = wf_id w" "wd_stage (new_decision i w x u c k now) = st_id x"
  "wd_actor (new_decision i w x u c k now) = u" "wd_action (new_decision i w x u c k now) = c"
  "wd_idempotency_key (new_decision i w x u c k now) = k"
  by (simp_all add: new_decision_def)

lemma decision_takenD:
  assumes "decision_taken s s' w x u c k now"
  shows "w \<in> set (workflows s)" "wf_state w = Waiting"
    "x \<in> set (workflow_stages s)" "st_workflow x = wf_id w" "st_state x = Active"
    "wf_frame s s'"
    "workflow_decisions s' = workflow_decisions s @ [new_decision (uuid4 s) w x u c k now]"
    "workflows s' = update_where (\<lambda>y. wf_id y = wf_id w) (\<lambda>_. decided_workflow s w x u c k now) (workflows s)"
    "stages_moved (decision_outcome s w x u c k now) w x (workflow_stages s) (workflow_stages s')"
    "set (workflows s') = insert (decided_workflow s w x u c k now) {y \<in> set (workflows s). wf_id y \<noteq> wf_id w}"
proof -
  have g: "decision_guards s w u c (wf_revision w) = Inr x" and e: "decided w x u c k now s s'"
    and w: "w \<in> set (workflows s)"
    using assms by (simp_all add: decision_taken_def)
  show "w \<in> set (workflows s)" by (rule w)
  show "wf_state w = Waiting" using g by (rule decision_guardsD)
  show "x \<in> set (workflow_stages s)" "st_workflow x = wf_id w" "st_state x = Active"
    using g active_stageD by (blast elim: decision_guardsD)+
  show "wf_frame s s'" "workflow_decisions s' = workflow_decisions s @ [new_decision (uuid4 s) w x u c k now]"
    "stages_moved (decision_outcome s w x u c k now) w x (workflow_stages s) (workflow_stages s')"
    using e by (simp_all add: decided_def Let_def decision_outcome_def)
  show u: "workflows s' = update_where (\<lambda>y. wf_id y = wf_id w) (\<lambda>_. decided_workflow s w x u c k now) (workflows s)"
    using e by (simp add: decided_def Let_def decision_outcome_def decided_workflow_def)
  show "set (workflows s') = insert (decided_workflow s w x u c k now) {y \<in> set (workflows s). wf_id y \<noteq> wf_id w}"
    unfolding u using w by (auto simp: set_update_where image_iff)
qed

lemma decision_outbox:
  assumes "decision_taken s s' w x u c k now"
  obtains i cid ky snap t where "workflow_outbox s' = workflow_outbox s @
       [new_outbox_row i (decided_workflow s w x u c k now)
          (decision_event (decided_workflow s w x u c k now)) cid ky snap t]"
    "snap \<noteq> None \<longleftrightarrow> terminal_state (wf_state (decided_workflow s w x u c k now))"
  using assms unfolding decision_taken_def decided_def Let_def decision_outcome_def decided_workflow_def
  by blast

lemma decision_phase:
  assumes t: "decision_taken s s' w x u c k now" and r: "phases_ok s w"
  shows "wf_active_stage w = Some (st_ordinal x)"
    "phases_ok s' (decided_workflow s w x u c k now)"
proof -
  note D = decision_takenD [OF t]
  let ?out = "decision_outcome s w x u c k now"
  have p: "phase_ok Waiting (wf_active_stage w) (sview s (wf_id w))"
    using r D(2) by (simp add: phases_ok_def)
  have m: "(st_id x, st_ordinal x, st_policy_stage x, Active) \<in> sview s (wf_id w)"
    using D(3-5) by (force simp: sview_def view_of_def)
  have f: "outcome_fits ?out (st_ordinal x) (sview s (wf_id w))"
    unfolding decision_outcome_def by (rule outcome_of_fits [OF D(3)]) simp
  show a: "wf_active_stage w = Some (st_ordinal x)" by (rule phase_ok_moved(1) [OF p m f])
  show "phases_ok s' (decided_workflow s w x u c k now)"
    using phase_ok_moved(2) [OF p m f] next_state_moved [OF D(2) a, of ?out] sview_moved [OF D(9)]
    by (simp add: phases_ok_def decided_workflow_def)
qed

lemma frame_case:
  assumes "wf_frame s s'" and "r \<in> set (review_cases s')"
  shows "\<exists>q \<in> set (review_cases s). rc_id q = rc_id r \<and> rc_created_by q = rc_created_by r"
proof -
  have "case_static ` set (review_cases s') = case_static ` set (review_cases s)"
    using wf_frameD(14) [OF assms(1)] unfolding set_map [symmetric] by simp
  then have "case_static r \<in> case_static ` set (review_cases s)" using assms(2) by blast
  then show ?thesis by (auto simp: case_static_def)
qed

lemma policy_reads_frame:
  assumes "wf_frame s s'"
  shows "policy_stage_get s' i = policy_stage_get s i" "stages_of s' j = stages_of s j"
  using wf_frameD [OF assms] by (simp_all add: policy_stage_get_def stages_of_def)

text \<open>A row whose own data did not change keeps its invariant.\<close>

lemma row_inv_frame:
  assumes r: "wf_row_inv s y" and f: "wf_frame s s'"
    and v: "sview s' (wf_id y) = sview s (wf_id y)"
    and ds: "filter (\<lambda>d. wd_workflow d = wf_id y) (workflow_decisions s') =
      filter (\<lambda>d. wd_workflow d = wf_id y) (workflow_decisions s)"
    and te: "terminal_events s' (wf_id y) = terminal_events s (wf_id y)"
  shows "wf_row_inv s' y"
proof -
  note F = wf_frameD [OF f]
  have mem: "d \<in> set (workflow_decisions s') \<and> wd_workflow d = wf_id y \<longleftrightarrow>
      d \<in> set (workflow_decisions s) \<and> wd_workflow d = wf_id y" for d
    using arg_cong [OF ds, of set] by auto
  have ap: "stage_approvals s' (wf_id y) i = stage_approvals s (wf_id y) i" for i
    using arg_cong [OF ds, of "filter (\<lambda>d. wd_stage d = i \<and> wd_action d = Approve)"]
    by (simp add: stage_approvals_def conj_ac)
  have "duties_separated s' y"
    unfolding duties_separated_def F(2)
  proof (intro ballI impI conjI)
    fix v e assume v: "v \<in> set (policy_versions s)" "av_id v = wf_policy_version y"
      and e: "e \<in> set (workflow_decisions s')" "wd_workflow e = wf_id y \<and> wd_action e = Approve"
    have e': "e \<in> set (workflow_decisions s)" using mem e by blast
    have D: "av_submitter_may_approve v \<or>
        (\<forall>r \<in> set (review_cases s). rc_id r = wf_review y \<longrightarrow> wd_actor e \<noteq> rc_created_by r)"
      "av_allow_cross_stage_same_approver v \<or> (\<forall>d' \<in> set (workflow_decisions s).
        wd_workflow d' = wf_id y \<and> wd_action d' = Approve \<and> wd_actor d' = wd_actor e \<longrightarrow> wd_stage d' = wd_stage e)"
      using r v e e' unfolding wf_row_inv_def duties_separated_def by blast+
    show "av_submitter_may_approve v \<or>
        (\<forall>r \<in> set (review_cases s'). rc_id r = wf_review y \<longrightarrow> wd_actor e \<noteq> rc_created_by r)"
      using D(1) frame_case [OF f] by metis
    show "av_allow_cross_stage_same_approver v \<or> (\<forall>d' \<in> set (workflow_decisions s').
        wd_workflow d' = wf_id y \<and> wd_action d' = Approve \<and> wd_actor d' = wd_actor e \<longrightarrow> wd_stage d' = wd_stage e)"
      using D(2) mem by blast
  qed
  then show ?thesis
    using r unfolding wf_row_inv_def phases_ok_def policy_linked_def revision_counts_def
      completed_approved_def outbox_ok_def v ap te ds F(2) policy_reads_frame [OF f]
    by (elim conjE, intro conjI) assumption+
qed


lemma terminal_events_append:
  assumes "workflow_outbox s' = workflow_outbox s @ [e]"
  shows "terminal_events s' i = terminal_events s i @
    (if ob_workflow e = i \<and> ob_event_type e = ''review.workflow.terminal'' then [e] else [])"
  using assms by (simp add: terminal_events_def)

lemma new_outbox_row_simps [simp]:
  "ob_workflow (new_outbox_row i w ty cid k snap t) = wf_id w"
  "ob_event_type (new_outbox_row i w ty cid k snap t) = ty"
  "ob_package_snapshot (new_outbox_row i w ty cid k snap t) = snap"
  "ob_package_manifest_key (new_outbox_row i w ty cid k snap t) \<noteq> None \<longleftrightarrow> snap \<noteq> None"
  "ob_package_pdf_key (new_outbox_row i w ty cid k snap t) \<noteq> None \<longleftrightarrow> snap \<noteq> None"
  "ob_delivered_at (new_outbox_row i w ty cid k snap t) = None"
  by (auto simp: new_outbox_row_def)

lemma decision_outbox_ok:
  assumes t: "decision_taken s s' w x u c k now" and o: "outbox_ok s w"
  shows "outbox_ok s' (decided_workflow s w x u c k now)"
proof -
  let ?w2 = "decided_workflow s w x u c k now"
  from t obtain i cid ky snap tm where e: "workflow_outbox s' = workflow_outbox s @
       [new_outbox_row i ?w2 (decision_event ?w2) cid ky snap tm]" (is "_ = _ @ [?e]")
    and snap: "snap \<noteq> None \<longleftrightarrow> terminal_state (wf_state ?w2)"
    by (rule decision_outbox)
  have none: "terminal_events s (wf_id w) = []"
    using o decision_takenD(2) [OF t] by (simp add: outbox_ok_def terminal_state_def)
  have "terminal_events s' (wf_id ?w2) = (if terminal_state (wf_state ?w2) then [?e] else [])"
    using terminal_events_append [OF e, of "wf_id w"] none
    by (simp add: decision_event_terminal)
  moreover have "terminal_state (wf_state ?w2) \<Longrightarrow> ob_package_snapshot ?e \<noteq> None \<and>
      ob_package_manifest_key ?e \<noteq> None \<and> ob_package_pdf_key ?e \<noteq> None"
    using snap by (simp del: not_None_eq)
  ultimately show ?thesis unfolding outbox_ok_def by (simp del: not_None_eq)
qed

lemma decision_completed:
  assumes t: "decision_taken s s' w x u c k now" and r: "wf_row_inv s w"
    and d: "distinct (map st_id (workflow_stages s))"
  shows "completed_approved s' (decided_workflow s w x u c k now)"
proof -
  note D = decision_takenD [OF t]
  let ?out = "decision_outcome s w x u c k now" and ?s1 = "with_decision s w x u c k now"
  let ?w2 = "decided_workflow s w x u c k now"
  have approvals: "stage_approvals s' (wf_id w) i = stage_approvals ?s1 (wf_id w) i" for i
    by (simp add: stage_approvals_def D(7))
  have more: "set (stage_approvals s (wf_id w) i) \<subseteq> set (stage_approvals s' (wf_id w) i)" for i
    by (auto simp: stage_approvals_def D(7))
  have old: "\<exists>ps. policy_stage_get s (vpol a) = Some ps \<and> quorum_met ps (stage_approvals s' (wf_id w) (vid a))"
    if "a \<in> sview s (wf_id w)" "vstate a = Completed" for a
    using r that D(2) more quorum_met_mono unfolding wf_row_inv_def completed_approved_def by blast
  have xx: "a = view_of x" if a: "a \<in> sview s (wf_id w)" "vid a = st_id x" for a
  proof -
    from a(1) obtain z where z: "z \<in> set (workflow_stages s)" "a = view_of z" by (auto simp: sview_def)
    then have "z = x" using distinct_key_inj [OF d z(1) D(3)] a(2) by (simp add: view_of_def)
    then show ?thesis using z(2) by simp
  qed
  show ?thesis unfolding completed_approved_def
  proof (intro impI ballI)
    fix b assume st: "wf_state ?w2 \<in> {Waiting, Approved}"
      and b: "b \<in> sview s' (wf_id ?w2)" "vstate b = Completed"
    obtain a where a: "a \<in> sview s (wf_id w)" "b = moved_view ?out (st_id x) a"
      using b(1) sview_moved [OF D(9)] by auto
    have fin: "vid a = st_id x \<Longrightarrow> ?out \<noteq> Stay \<Longrightarrow> satisfied ?s1 w x"
      using st by (auto simp: decision_outcome_def decided_workflow_def outcome_of_def
          split: workflow_action.splits if_splits)
    have "\<exists>ps. policy_stage_get s (vpol a) = Some ps \<and> quorum_met ps (stage_approvals s' (wf_id w) (vid a))"
    proof (cases "vid a = st_id x \<and> ?out \<noteq> Stay")
      case True
      then have "stage_is_satisfied ?s1 w x = Inr True" using fin by (simp add: satisfied_def)
      moreover have "vpol a = st_policy_stage x" using xx [OF a(1)] True by (simp add: view_of_def)
      ultimately show ?thesis using True
        by (auto simp: stage_is_satisfied_def result_simps approvals policy_stage_get_def)
    next
      case False
      then have "vstate a = Completed" using b(2) by (auto simp: a moved_view_def split: if_splits)
      then show ?thesis by (rule old [OF a(1)])
    qed
    then show "\<exists>ps. policy_stage_get s' (vpol b) = Some ps \<and>
        quorum_met ps (stage_approvals s' (wf_id ?w2) (vid b))"
      using policy_reads_frame [OF D(6)] by (simp add: a)
  qed
qed

lemma decision_separated:
  assumes t: "decision_taken s s' w x u c k now" and r: "duties_separated s w"
    and pv: "distinct (map av_id (policy_versions s))" and rc: "distinct (map rc_id (review_cases s))"
  shows "duties_separated s' (decided_workflow s w x u c k now)"
proof -
  note D = decision_takenD [OF t]
  have g: "decision_guards s w u c (wf_revision w) = Inr x" using t by (simp add: decision_taken_def)
  obtain v r0 where v: "find (\<lambda>v. av_id v = wf_policy_version w) (policy_versions s) = Some v"
    and r0: "locked_review s (wf_review w) = Inr r0"
    and sub: "c = Approve \<longrightarrow> av_submitter_may_approve v \<or> u \<noteq> rc_created_by r0"
    and cross: "c = Approve \<longrightarrow> av_allow_cross_stage_same_approver v \<or>
       (\<forall>d \<in> set (workflow_decisions s). wd_workflow d = wf_id w \<and> wd_actor d = u \<and>
          wd_action d = Approve \<longrightarrow> wd_stage d = st_id x)"
    using g by (rule decision_guardsD)
  have only_v: "y = v" if "y \<in> set (policy_versions s)" "av_id y = wf_policy_version w" for y
    using distinct_key_inj [OF pv that(1), of v] find_SomeD [OF v] that(2) by simp
  have r0': "r0 \<in> set (review_cases s)" "rc_id r0 = wf_review w"
    using r0 by (auto simp: locked_review_def result_simps dest: find_SomeD)
  have only_r: "rc_created_by q = rc_created_by r0" if "q \<in> set (review_cases s')" "rc_id q = wf_review w" for q
    using frame_case [OF D(6) that(1)] distinct_key_inj [OF rc _ r0'(1)] that(2) r0'(2) by metis
  show ?thesis unfolding duties_separated_def wf_frameD(2) [OF D(6)] decided_workflow_static
  proof (intro ballI impI conjI)
    fix y e assume y: "y \<in> set (policy_versions s)" "av_id y = wf_policy_version w"
      and e: "e \<in> set (workflow_decisions s')" "wd_workflow e = wf_id w \<and> wd_action e = Approve"
    have yv: "y = v" by (rule only_v [OF y])
    have old: "(av_submitter_may_approve v \<or>
           (\<forall>r \<in> set (review_cases s). rc_id r = wf_review w \<longrightarrow> wd_actor d \<noteq> rc_created_by r)) \<and>
        (av_allow_cross_stage_same_approver v \<or>
           (\<forall>d' \<in> set (workflow_decisions s). wd_workflow d' = wf_id w \<and> wd_action d' = Approve \<and>
              wd_actor d' = wd_actor d \<longrightarrow> wd_stage d' = wd_stage d))"
      if "d \<in> set (workflow_decisions s)" "wd_workflow d = wf_id w \<and> wd_action d = Approve" for d
      using r y that unfolding duties_separated_def yv by blast
    have cases: "e \<in> set (workflow_decisions s) \<or> e = new_decision (uuid4 s) w x u c k now"
      using e(1) by (auto simp: D(7))
    then show "av_submitter_may_approve y \<or>
        (\<forall>r \<in> set (review_cases s'). rc_id r = wf_review w \<longrightarrow> wd_actor e \<noteq> rc_created_by r)"
    proof
      assume "e \<in> set (workflow_decisions s)"
      with old [OF this e(2)] show ?thesis unfolding yv using only_r r0' by metis
    next
      assume "e = new_decision (uuid4 s) w x u c k now"
      with sub e(2) only_r show ?thesis unfolding yv by auto
    qed
    show "av_allow_cross_stage_same_approver y \<or> (\<forall>d' \<in> set (workflow_decisions s').
        wd_workflow d' = wf_id w \<and> wd_action d' = Approve \<and> wd_actor d' = wd_actor e \<longrightarrow>
          wd_stage d' = wd_stage e)"
    proof (cases "av_allow_cross_stage_same_approver v")
      case False
      have "wd_stage d' = wd_stage e"
        if d': "d' \<in> set (workflow_decisions s')" "wd_workflow d' = wf_id w" "wd_action d' = Approve"
          "wd_actor d' = wd_actor e" for d'
      proof -
        have n: "d' \<in> set (workflow_decisions s) \<or> d' = new_decision (uuid4 s) w x u c k now"
          using d'(1) by (auto simp: D(7))
        have one: "wd_stage d = st_id x" if "c = Approve" "d \<in> set (workflow_decisions s)"
            "wd_workflow d = wf_id w" "wd_actor d = u" "wd_action d = Approve" for d
          using cross False that by blast
        show ?thesis using cases n
        proof (elim disjE)
          assume "e \<in> set (workflow_decisions s)" "d' \<in> set (workflow_decisions s)"
          then show ?thesis using old [OF _ e(2)] False d' by blast
        next
          assume "e \<in> set (workflow_decisions s)" "d' = new_decision (uuid4 s) w x u c k now"
          then show ?thesis using one [of e] d' e(2) by simp
        next
          assume "e = new_decision (uuid4 s) w x u c k now" "d' \<in> set (workflow_decisions s)"
          then show ?thesis using one [of d'] d' e(2) by simp
        qed simp
      qed
      then show ?thesis by blast
    qed (simp add: yv)
  qed
qed

lemma decision_links:
  assumes t: "decision_taken s s' w x u c k now" and l: "workflow_links s"
  shows "workflow_links s'"
proof -
  note D = decision_takenD [OF t]
  obtain h where h: "workflow_stages s' = map h (workflow_stages s)"
      "\<forall>z \<in> set (workflow_stages s). st_static (h z) = st_static z"
    using D(9) unfolding stages_moved_def by blast
  have ids: "wf_id ` set (workflows s') = wf_id ` set (workflows s)"
    unfolding D(8) set_map [symmetric] by (subst map_update_where) simp_all
  have st: "st_id ` set (workflow_stages s') = st_id ` set (workflow_stages s)"
    "st_workflow ` set (workflow_stages s') = st_workflow ` set (workflow_stages s)"
    unfolding h(1) set_map image_image by (intro image_cong refl; use h(2) in \<open>simp add: st_static_def\<close>)+
  obtain e where "workflow_outbox s' = workflow_outbox s @ [e]" "ob_workflow e = wf_id w"
    using decision_outbox [OF t] by (metis decided_workflow_static(1) new_outbox_row_simps(1))
  then show ?thesis
    using l D(1,3) unfolding workflow_links_def ids st by (auto simp: D(7))
qed

lemma decision_keys:
  assumes t: "decision_taken s s' w x u c k now" and l: "workflow_keys s"
  shows "workflow_keys s'"
proof -
  note D = decision_takenD [OF t] and F = wf_frameD [OF decision_takenD(6) [OF t]]
  obtain h where h: "workflow_stages s' = map h (workflow_stages s)"
      "\<forall>z \<in> set (workflow_stages s). st_static (h z) = st_static z"
    using D(9) unfolding stages_moved_def by blast
  have d: "distinct (map wf_id (workflows s))" using l by (simp add: workflow_keys_def)
  have wf: "map wf_id (workflows s') = map wf_id (workflows s)"
    unfolding D(8) by (rule map_update_where) simp
  have "wf_review (if wf_id y = wf_id w then decided_workflow s w x u c k now else y) = wf_review y"
    if "y \<in> set (workflows s)" for y
    using distinct_key_inj [OF d that D(1)] by auto
  then have rv: "map wf_review (workflows s') = map wf_review (workflows s)"
    by (simp add: D(8) update_where_def)
  have st: "map st_id (workflow_stages s') = map st_id (workflow_stages s)"
    unfolding h(1) by (rule map_st_static) (rule h(2))
  have "map rc_id (review_cases s') = map rc_id (review_cases s)"
    using arg_cong [OF F(14), of "map fst"] by (simp add: comp_def case_static_def)
  then show ?thesis
    using l F(9,10) unfolding workflow_keys_def set_map [symmetric] wf rv st by auto
qed

lemma decision_taken_inv:
  assumes t: "decision_taken s s' w x u c k now" and i: "wf_inv s"
    and pv: "distinct (map av_id (policy_versions s))"
  shows "wf_inv s'"
proof -
  note D = decision_takenD [OF t]
  let ?w2 = "decided_workflow s w x u c k now"
  have keys: "workflow_keys s" "workflow_links s" "decision_keys_unique s" and r: "wf_row_inv s w"
    using i D(1) by (simp_all add: wf_inv_def)
  have ds: "distinct (map st_id (workflow_stages s))" "distinct (map rc_id (review_cases s))"
    using keys by (simp_all add: workflow_keys_def)
  have new: "wf_row_inv s' ?w2"
  proof -
    have "phases_ok s' ?w2" using decision_phase(2) [OF t] r by (simp add: wf_row_inv_def)
    moreover have "policy_linked s' ?w2"
    proof -
      have "(\<lambda>a. (vord a, vpol a)) ` sview s' (wf_id w) = (\<lambda>a. (vord a, vpol a)) ` sview s (wf_id w)"
        unfolding sview_moved [OF D(9)] by (simp add: image_image)
      then show ?thesis
        using r unfolding wf_row_inv_def policy_linked_def decided_workflow_static
          wf_frameD(2) [OF D(6)] policy_reads_frame [OF D(6)] by simp
    qed
    moreover have "revision_counts s' ?w2"
      using r by (simp add: wf_row_inv_def revision_counts_def D(7))
    moreover have "duties_separated s' ?w2"
      using decision_separated [OF t _ pv ds(2)] r by (simp add: wf_row_inv_def)
    moreover have "outbox_ok s' ?w2" using decision_outbox_ok [OF t] r by (simp add: wf_row_inv_def)
    ultimately show ?thesis using decision_completed [OF t r ds(1)] by (simp add: wf_row_inv_def)
  qed
  have old: "wf_row_inv s' y" if y: "y \<in> set (workflows s)" "wf_id y \<noteq> wf_id w" for y
  proof (rule row_inv_frame [OF _ D(6)])
    show "wf_row_inv s y" using i y by (simp add: wf_inv_def)
    show "sview s' (wf_id y) = sview s (wf_id y)"
      by (rule sview_moved_other [OF D(9) ds(1) D(3,4) y(2)])
    show "filter (\<lambda>d. wd_workflow d = wf_id y) (workflow_decisions s') =
        filter (\<lambda>d. wd_workflow d = wf_id y) (workflow_decisions s)"
      using y(2) by (simp add: D(7))
    show "terminal_events s' (wf_id y) = terminal_events s (wf_id y)"
    proof (rule decision_outbox [OF t])
      fix i cid ky snap tm
      assume "workflow_outbox s' = workflow_outbox s @
         [new_outbox_row i ?w2 (decision_event ?w2) cid ky snap tm]"
      from terminal_events_append [OF this, of "wf_id y"] y(2) show ?thesis by simp
    qed
  qed
  have "decision_keys_unique s'"
    using keys(3) t by (auto simp: decision_keys_unique_def D(7) decision_taken_def)
  then show ?thesis
    using decision_keys [OF t keys(1)] decision_links [OF t keys(2)] new old
    unfolding wf_inv_def D(10) by blast
qed

lemma decide_taken:
  assumes "decide s wid u c k rv cid ctx now clock = Inr (r, s')" and "wf_inv s"
  shows "s' = s \<and> (\<exists>e \<in> set (workflow_decisions s). wd_workflow e = wid \<and> wd_idempotency_key e = k \<and>
      wd_actor e = u \<and> wd_action e = c) \<or>
    (\<exists>w x. wf_id w = wid \<and> wf_revision w = rv \<and> decision_taken s s' w x u c k now)"
proof -
  have d: "distinct (map st_id (workflow_stages s))"
    using assms(2) by (simp add: wf_inv_def workflow_keys_def)
  have inj: "inj_on st_ordinal (wf_stages s w)" if "w \<in> set (workflows s)" for w
    using inj_ordinals [OF _ d] assms(2) that by (simp add: wf_inv_def wf_row_inv_def)
  have "decision_taken s s' w x u c k now \<and> wf_revision w = rv"
    if "w \<in> set (workflows s)" "wf_id w = wid" "decision_guards s w u c rv = Inr x"
      "\<forall>e \<in> set (workflow_decisions s). \<not> (wd_workflow e = wid \<and> wd_idempotency_key e = k)"
      "decided w x u c k now s s'" for w x
  proof -
    have "wf_revision w = rv" by (rule decision_guardsD [OF that(3)])
    then show ?thesis using that by (simp add: decision_taken_def)
  qed
  then show ?thesis using decide_effect [OF assms(1) d inj] by blast
qed

lemma decide_inv:
  assumes "decide s wid u c k rv cid ctx now clock = Inr (r, s')" and "wf_inv s"
    and "distinct (map av_id (policy_versions s))"
  shows "wf_inv s'"
  using decide_taken [OF assms(1,2)] decision_taken_inv assms(2,3) by blast


section \<open>Starting keeps the invariant\<close>

lemma appends_ids:
  assumes "\<exists>ns. map st_id new = map (uuid_src s) ns \<and> sorted_wrt (<) ns \<and> (\<forall>n \<in> set ns. a \<le> n \<and> n < b)"
    and "a' \<le> a" "b \<le> b'"
  shows "\<exists>ns. map st_id new = map (uuid_src s) ns \<and> sorted_wrt (<) ns \<and> (\<forall>n \<in> set ns. a' \<le> n \<and> n < b')"
  using assms by fastforce

text \<open>The rows \<open>start_stages\<close> appends: one per policy stage, with fresh ids.\<close>

lemma start_stages_effect:
  "\<exists>new. workflow_stages (start_stages review w now pss s) = workflow_stages s @ new \<and>
     (\<forall>z \<in> set new. st_workflow z = wf_id w) \<and>
     map (\<lambda>z. (st_ordinal z, st_policy_stage z, st_state z)) new = map (\<lambda>ps. (ps_ordinal ps, ps_id ps,
        if Some (ps_ordinal ps) = wf_active_stage w then Active else Pending)) pss \<and>
     (\<exists>ns. map st_id new = map (uuid_src s) ns \<and> sorted_wrt (<) ns \<and>
        (\<forall>n \<in> set ns. uuid_used s \<le> n \<and> n < uuid_used (start_stages review w now pss s))) \<and>
     wf_frame s (start_stages review w now pss s) \<and>
     workflows (start_stages review w now pss s) = workflows s \<and>
     workflow_decisions (start_stages review w now pss s) = workflow_decisions s \<and>
     workflow_outbox (start_stages review w now pss s) = workflow_outbox s \<and>
     audit_events (start_stages review w now pss s) = audit_events s \<and>
     review_cases (start_stages review w now pss s) = review_cases s"
proof (induction pss arbitrary: s)
  case Nil
  show ?case by (auto intro: exI [of _ "[]"])
next
  case (Cons ps pss)
  let ?z = "new_stage (uuid4 s) w ps now"
  let ?s1 = "draw s\<lparr>workflow_stages := workflow_stages s @ [?z]\<rparr>"
  define s2 where "s2 = (if Some (ps_ordinal ps) = wf_active_stage w
      then activate_assignments review w ps now ?s1 else ?s1)"
  have a2: "assigns ?s1 s2" by (simp add: s2_def activate_assignments_assigns)
  have f1: "wf_frame s ?s1" by (rule wf_frame_trans [OF wf_frame_intros(1)]) simp
  have f2: "wf_frame s s2" using f1 a2 wf_frame_trans by (auto simp: assigns_def)
  have t2: "workflow_stages s2 = workflow_stages s @ [?z]" "workflows s2 = workflows s"
    "workflow_decisions s2 = workflow_decisions s" "workflow_outbox s2 = workflow_outbox s"
    "audit_events s2 = audit_events s" "review_cases s2 = review_cases s" "uuid_src s2 = uuid_src s"
    using a2 wf_frameD(9) [OF f2] by (simp_all add: assigns_def)
  have u2: "uuid_used s < uuid_used s2"
    using wf_frameD(10) [of ?s1 s2] a2 by (simp add: assigns_def draw_def)
  have e: "start_stages review w now (ps # pss) s = start_stages review w now pss s2"
    by (simp add: s2_def Let_def)
  obtain new ns where new: "workflow_stages (start_stages review w now pss s2) = workflow_stages s2 @ new"
      "\<forall>z \<in> set new. st_workflow z = wf_id w"
      "map (\<lambda>z. (st_ordinal z, st_policy_stage z, st_state z)) new = map (\<lambda>ps. (ps_ordinal ps, ps_id ps,
        if Some (ps_ordinal ps) = wf_active_stage w then Active else Pending)) pss"
      "map st_id new = map (uuid_src s2) ns" "sorted_wrt (<) ns"
      "\<forall>n \<in> set ns. uuid_used s2 \<le> n \<and> n < uuid_used (start_stages review w now pss s2)"
      "wf_frame s2 (start_stages review w now pss s2)"
    using Cons.IH [of s2] by blast
  note rest = Cons.IH [of s2]
  have u3: "uuid_used s2 \<le> uuid_used (start_stages review w now pss s2)"
    using wf_frameD(10) [OF new(7)] .
  show ?case unfolding e
  proof (intro exI [of _ "?z # new"] conjI)
    show "\<exists>ns. map st_id (?z # new) = map (uuid_src s) ns \<and> sorted_wrt (<) ns \<and>
        (\<forall>n \<in> set ns. uuid_used s \<le> n \<and> n < uuid_used (start_stages review w now pss s2))"
    proof (intro exI [of _ "uuid_used s # ns"] conjI)
      show "map st_id (?z # new) = map (uuid_src s) (uuid_used s # ns)"
        using new(4) t2(7) by (simp add: new_stage_def Let_def uuid4_def)
      show "sorted_wrt (<) (uuid_used s # ns)" using new(5,6) u2 by auto
      show "\<forall>n \<in> set (uuid_used s # ns). uuid_used s \<le> n \<and>
          n < uuid_used (start_stages review w now pss s2)"
        using new(6) u2 u3 by auto
    qed
    show "wf_frame s (start_stages review w now pss s2)" using f2 new(7) by (rule wf_frame_trans)
  qed (use new rest t2 in \<open>auto simp: new_stage_def Let_def\<close>)
qed

text \<open>The effect of a start that creates a workflow.\<close>

definition started ::
  "workflow_row \<Rightarrow> policy_version_row \<Rightarrow> workflow_stage_row list \<Rightarrow> 'z review_db_scheme
   \<Rightarrow> 'z review_db_scheme \<Rightarrow> bool" where
  "started w v new s s' \<longleftrightarrow> wf_frame s s' \<and> workflows s' = workflows s @ [w] \<and>
     workflow_stages s' = workflow_stages s @ new \<and>
     workflow_decisions s' = workflow_decisions s \<and>
     (\<exists>i cid k t. workflow_outbox s' = workflow_outbox s @
        [new_outbox_row i w ''review.workflow.resume'' cid k None t]) \<and>
     (\<exists>a. audit_events s' = audit_events s @ [a]) \<and>
     wf_id w = uuid4 s \<and> wf_state w = Waiting \<and> wf_revision w = 0 \<and>
     wf_policy_version w = av_id v \<and> v \<in> set (policy_versions s) \<and> av_status v = Published \<and>
     wf_active_stage w = Some (ps_ordinal (hd (stages_of s (av_id v)))) \<and> stages_of s (av_id v) \<noteq> [] \<and>
     (\<forall>y \<in> set (workflows s). wf_review y \<noteq> wf_review w) \<and>
     (\<exists>r. locked_review s (wf_review w) = Inr r \<and> wf_org w = rc_org r \<and> wf_ws w = rc_ws r) \<and>
     (\<forall>z \<in> set new. st_workflow z = wf_id w) \<and>
     map (\<lambda>z. (st_ordinal z, st_policy_stage z, st_state z)) new = map (\<lambda>ps. (ps_ordinal ps, ps_id ps,
        if Some (ps_ordinal ps) = wf_active_stage w then Active else Pending)) (stages_of s (av_id v)) \<and>
     (\<exists>ns. map st_id new = map (uuid_src s) ns \<and> sorted_wrt (<) ns \<and>
        (\<forall>n \<in> set ns. Suc (uuid_used s) \<le> n \<and> n < uuid_used s'))"

lemma start_effect:
  assumes "start_workflow s rid pvid cid ctx now clock = Inr (r, s')"
  shows "s' = s \<and> (\<exists>w \<in> set (workflows s). wf_review w = rid) \<or>
    (\<exists>w v new. started w v new s s' \<and> wf_review w = rid)"
proof -
  from assms obtain review where rv: "locked_review s rid = Inr review"
    by (auto simp: start_workflow_def result_simps)
  from assms rv obtain v where v: "published_policy_version s pvid review = Inr v"
    by (auto simp: start_workflow_def result_simps)
  have vin: "v \<in> set (policy_versions s)" "av_status v = Published"
    using v by (auto simp: published_policy_version_def result_simps dest: find_SomeD)
  have rid: "rc_id review = rid" using rv by (auto simp: locked_review_def result_simps dest: find_SomeD)
  show ?thesis
  proof (cases "find (\<lambda>w. wf_review w = rc_id review) (workflows s)")
    case (Some e)
    then show ?thesis using assms rv v find_SomeD [OF Some] rid
      by (auto simp: start_workflow_def split: if_splits)
  next
    case None
    then obtain first rest where st: "stages_of s (av_id v) = first # rest"
      using assms rv v by (auto simp: start_workflow_def split: list.splits)
    define w where "w = \<lparr>wf_id = uuid4 s, wf_org = rc_org review, wf_ws = rc_ws review,
         wf_review = rc_id review, wf_policy_version = av_id v,
         wf_checkpoint = uuid4 (draw s), wf_state = Waiting,
         wf_active_stage = Some (ps_ordinal first), wf_revision = 0,
         wf_created_at = now, wf_updated_at = now\<rparr>"
    define s1 where "s1 = draw (draw s)\<lparr>workflows := workflows s @ [w]\<rparr>"
    define s2 where "s2 = start_stages review w now (first # rest) s1"
    obtain s3 a where e: "emit w ''review.workflow.resume'' cid (''workflow:'' @ wf_id w @ '':start'') clock s2 = Inr s3"
      and s': "s' = record_audit ctx a now s3"
      using assms unfolding start_workflow_def rv v bindR.simps None option.case st list.case Let_def
        w_def [symmetric] s1_def [symmetric] s2_def [symmetric]
      by (auto simp only: bindR_Inr_iff sum.inject prod.inject)
    define i where "i = uuid4 s2"
    define k where "k = ''workflow:'' @ wf_id w @ '':start''"
    from e obtain snap where "s3 = (draw s2)\<lparr>workflow_outbox := workflow_outbox s2 @
        [new_outbox_row i w ''review.workflow.resume'' cid k snap (clock i)]\<rparr>"
      and "snap \<noteq> None \<longleftrightarrow> ''review.workflow.resume'' = ''review.workflow.terminal''"
      unfolding i_def k_def by (rule emit_effect)
    then have s3: "s3 = (draw s2)\<lparr>workflow_outbox := workflow_outbox s2 @
        [new_outbox_row i w ''review.workflow.resume'' cid k None (clock i)]\<rparr>" by simp
    obtain new ns where new: "workflow_stages s2 = workflow_stages s1 @ new"
        "\<forall>z \<in> set new. st_workflow z = wf_id w"
        "map (\<lambda>z. (st_ordinal z, st_policy_stage z, st_state z)) new = map (\<lambda>ps. (ps_ordinal ps, ps_id ps,
          if Some (ps_ordinal ps) = wf_active_stage w then Active else Pending)) (first # rest)"
        "map st_id new = map (uuid_src s1) ns" "sorted_wrt (<) ns"
        "\<forall>n \<in> set ns. uuid_used s1 \<le> n \<and> n < uuid_used s2"
      and f2: "wf_frame s1 s2" and t2: "workflows s2 = workflows s1"
        "workflow_decisions s2 = workflow_decisions s1" "workflow_outbox s2 = workflow_outbox s1"
        "audit_events s2 = audit_events s1" "review_cases s2 = review_cases s1"
      using start_stages_effect [of review w now "first # rest" s1] unfolding s2_def [symmetric] by blast
    have u1: "uuid_used s1 = uuid_used s + 2" "uuid_src s1 = uuid_src s" "workflow_stages s1 = workflow_stages s"
      "workflow_decisions s1 = workflow_decisions s" "workflow_outbox s1 = workflow_outbox s"
      "audit_events s1 = audit_events s" "workflows s1 = workflows s @ [w]"
      by (simp_all add: s1_def draw_def)
    have f1: "wf_frame s s1"
      by (simp add: s1_def wf_frame_def draw_def)
    have "wf_frame s2 s3" unfolding s3 by (rule wf_frame_trans [OF wf_frame_intros(1)]) simp
    moreover have "wf_frame s3 s'" unfolding s' by simp
    ultimately have fr: "wf_frame s s'" using f1 f2 wf_frame_trans by blast
    have "uuid_used s2 \<le> uuid_used s'" by (simp add: s' s3 record_audit_def draw_def)
    then have ids: "\<exists>ns. map st_id new = map (uuid_src s) ns \<and> sorted_wrt (<) ns \<and>
        (\<forall>n \<in> set ns. Suc (uuid_used s) \<le> n \<and> n < uuid_used s')"
      using new(4-6) u1 by (intro exI [of _ ns]) force
    have "workflow_outbox s' = workflow_outbox s @
        [new_outbox_row i w ''review.workflow.resume'' cid k None (clock i)]"
      by (simp add: s' s3 record_audit_def t2 u1)
    then have ob: "\<exists>i cid k t. workflow_outbox s' = workflow_outbox s @
        [new_outbox_row i w ''review.workflow.resume'' cid k None t]" by blast
    have tabs: "\<exists>a. audit_events s' = audit_events s @ [a]" "workflows s' = workflows s @ [w]"
      "workflow_stages s' = workflow_stages s @ new" "workflow_decisions s' = workflow_decisions s"
      by (simp_all add: s' s3 record_audit_def t2 u1 new(1))
    have fresh: "\<forall>y \<in> set (workflows s). wf_review y \<noteq> wf_review w"
      using None by (simp add: find_None_iff' w_def)
    have ww: "wf_id w = uuid4 s" "wf_state w = Waiting" "wf_revision w = 0" "wf_policy_version w = av_id v"
      "wf_active_stage w = Some (ps_ordinal (hd (stages_of s (av_id v))))" "wf_review w = rid"
      by (simp_all add: w_def st rid)
    have lr: "\<exists>r. locked_review s (wf_review w) = Inr r \<and> wf_org w = rc_org r \<and> wf_ws w = rc_ws r"
      using rv rid by (auto simp: w_def)
    have "stages_of s (av_id v) \<noteq> []" by (simp add: st)
    then have "started w v new s s'"
      unfolding started_def
      by (intro conjI fr ids ob tabs fresh lr ww(1-5) vin new(2) new(3) [folded st])
    then show ?thesis using \<open>wf_review w = rid\<close> by blast
  qed
qed


lemma inj_on_distinct_map: "distinct (map f xs) \<Longrightarrow> inj_on f (set xs)"
  by (simp add: distinct_map)

lemma started_keys:
  assumes st: "started w v new s s'" and k: "workflow_keys s"
  shows "workflow_keys s'"
proof -
  note F = wf_frameD [of s s']
  have f: "wf_frame s s'" and t: "workflows s' = workflows s @ [w]" "workflow_stages s' = workflow_stages s @ new"
    and w: "wf_id w = uuid4 s" and r: "\<forall>y \<in> set (workflows s). wf_review y \<noteq> wf_review w"
    using st unfolding started_def by blast+
  obtain ns where ns: "map st_id new = map (uuid_src s) ns" "sorted_wrt (<) ns"
      "\<forall>n \<in> set ns. Suc (uuid_used s) \<le> n \<and> n < uuid_used s'"
    using st unfolding started_def by blast
  have inj: "inj (uuid_src s)"
    and fr: "\<And>n. n \<ge> uuid_used s \<Longrightarrow> uuid_src s n \<notin> wf_id ` set (workflows s) \<union> st_id ` set (workflow_stages s)"
    using k by (auto simp: workflow_keys_def)
  have ids: "st_id ` set new = uuid_src s ` set ns" using arg_cong [OF ns(1), of set] by simp
  have "distinct ns" using ns(2) by (simp add: strict_sorted_iff)
  then have d: "distinct (map st_id new)" unfolding ns(1) using inj_on_subset [OF inj] by (simp add: distinct_map)
  have disj: "st_id ` set (workflow_stages s) \<inter> st_id ` set new = {}"
  proof (rule equals0I)
    fix y assume "y \<in> st_id ` set (workflow_stages s) \<inter> st_id ` set new"
    then obtain n where "y = uuid_src s n" "n \<in> set ns" "y \<in> st_id ` set (workflow_stages s)"
      unfolding ids by blast
    then show False using fr [of n] ns(3) by auto
  qed
  have rc: "map rc_id (review_cases s') = map rc_id (review_cases s)"
    using arg_cong [OF wf_frameD(14) [OF f], of "map fst"] by (simp add: comp_def case_static_def)
  have used: "uuid_used s < uuid_used s'"
  proof (cases ns)
    case Nil
    then have "new = []" using ns(1) by simp
    then show ?thesis using st unfolding started_def by auto
  next
    case (Cons n ns')
    then show ?thesis using ns(3) by force
  qed
  have "uuid_src s n \<notin> wf_id ` set (workflows s') \<union> st_id ` set (workflow_stages s')" if n: "n \<ge> uuid_used s'" for n
  proof -
    have "uuid_src s n \<noteq> uuid4 s" using injD [OF inj, of n "uuid_used s"] n used by (auto simp: uuid4_def)
    moreover have "uuid_src s n \<notin> uuid_src s ` set ns" using ns(3) n injD [OF inj] by fastforce
    moreover have "uuid_src s n \<notin> wf_id ` set (workflows s) \<union> st_id ` set (workflow_stages s)"
      using fr n used by simp
    ultimately show ?thesis unfolding t by (simp add: w image_Un ids)
  qed
  moreover have "uuid4 s \<notin> wf_id ` set (workflows s)" using fr [of "uuid_used s"] by (simp add: uuid4_def)
  ultimately show ?thesis
    using k r d disj unfolding workflow_keys_def rc wf_frameD(9) [OF f] by (auto simp: t w)
qed

lemma started_phase:
  assumes st: "started w v new s s'" and p: "policy_inv s" and k: "workflow_keys s" and l: "workflow_links s"
  shows "phases_ok s' w" "sview s' (wf_id w) = view_of ` set new"
proof -
  let ?L = "stages_of s (av_id v)"
  have t: "workflow_stages s' = workflow_stages s @ new" "wf_id w = uuid4 s" "wf_state w = Waiting"
      "wf_active_stage w = Some (ps_ordinal (hd ?L))" "\<forall>z \<in> set new. st_workflow z = wf_id w"
    and m: "map (\<lambda>z. (st_ordinal z, st_policy_stage z, st_state z)) new = map (\<lambda>ps. (ps_ordinal ps, ps_id ps,
        if Some (ps_ordinal ps) = wf_active_stage w then Active else Pending)) ?L"
    and v: "v \<in> set (policy_versions s)" "av_status v = Published"
    using st unfolding started_def by blast+
  have "uuid4 s \<notin> wf_id ` set (workflows s)" using k by (simp add: workflow_keys_def uuid4_def)
  moreover have "st_workflow ` set (workflow_stages s) \<subseteq> wf_id ` set (workflows s)"
    using l by (simp add: workflow_links_def)
  ultimately have "uuid4 s \<notin> st_workflow ` set (workflow_stages s)" by (rule contra_subsetD [rotated])
  then show V: "sview s' (wf_id w) = view_of ` set new"
    using t by (auto simp: sview_def image_iff)
  have pub: "publishable ?L" using p v by (simp add: policy_inv_def published_valid_def)
  then have ne: "?L \<noteq> []" and ord: "map ps_ordinal ?L = [1..<Suc (length ?L)]"
    by (simp_all add: publishable_def del: upt_Suc)
  have len: "length new = length ?L" using arg_cong [OF m, of length] by simp
  have ords: "map st_ordinal new = [1..<Suc (length ?L)]"
    using arg_cong [OF m, of "map fst"] ord by (simp add: comp_def del: upt_Suc)
  have one: "ps_ordinal (hd ?L) = 1"
    using arg_cong [OF ord, of hd] ne by (simp add: hd_map del: upt_Suc)
  have state: "st_state z = phase_at 1 (st_ordinal z)" if z: "z \<in> set new" for z
  proof -
    have "(st_ordinal z, st_policy_stage z, st_state z) \<in> set (map (\<lambda>ps. (ps_ordinal ps, ps_id ps,
        if Some (ps_ordinal ps) = wf_active_stage w then Active else Pending)) ?L)"
      unfolding m [symmetric] using z by simp
    then have "st_state z = (if st_ordinal z = 1 then Active else Pending)"
      using t(4) one by auto
    moreover have "st_ordinal z \<ge> 1"
    proof -
      have "st_ordinal z \<in> set [1..<Suc (length ?L)]" unfolding ords [symmetric] using z by simp
      then show ?thesis by (simp only: set_upt atLeastLessThan_iff)
    qed
    ultimately show ?thesis by (auto simp: phase_at_def)
  qed
  have vo: "vord ` view_of ` set new = {1..length ?L}"
    using arg_cong [OF ords, of set] by (simp add: view_of_def image_image atLeastLessThanSuc_atLeastAtMost del: upt_Suc)
  have "distinct (map st_id new)"
    using started_keys [OF st k] by (simp add: workflow_keys_def t(1))
  then have i1: "inj_on vid (view_of ` set new)"
    by (auto simp: inj_on_def view_of_def distinct_map dest: inj_onD)
  have "distinct (map st_ordinal new)" unfolding ords by (rule distinct_upt)
  then have i2: "inj_on vord (view_of ` set new)"
    by (auto simp: inj_on_def view_of_def distinct_map dest: inj_onD)
  have "length ?L > 0" using ne by simp
  moreover have "phase_states Waiting (Some 1) (view_of ` set new)"
    unfolding phase_states.simps vo using state \<open>length ?L > 0\<close>
    by (auto simp: view_of_def Suc_le_eq simp del: length_greater_0_conv)
  ultimately show "phases_ok s' w"
    unfolding phases_ok_def V phase_ok_def t(3,4) one vo using i1 i2 by blast
qed

lemma started_inv:
  assumes st: "started w v new s s'" and p: "policy_inv s" and i: "wf_inv s"
  shows "wf_inv s'"
proof -
  have keys: "workflow_keys s" "workflow_links s" "decision_keys_unique s" using i by (simp_all add: wf_inv_def)
  have f: "wf_frame s s'" and t: "workflows s' = workflows s @ [w]" "workflow_stages s' = workflow_stages s @ new"
      "workflow_decisions s' = workflow_decisions s" "wf_id w = uuid4 s" "wf_state w = Waiting" "wf_revision w = 0"
      "wf_policy_version w = av_id v" "v \<in> set (policy_versions s)" "av_status v = Published"
      "\<forall>z \<in> set new. st_workflow z = wf_id w"
    and m: "map (\<lambda>z. (st_ordinal z, st_policy_stage z, st_state z)) new = map (\<lambda>ps. (ps_ordinal ps, ps_id ps,
        if Some (ps_ordinal ps) = wf_active_stage w then Active else Pending)) (stages_of s (av_id v))"
    using st unfolding started_def by blast+
  obtain e where ob: "workflow_outbox s' = workflow_outbox s @ [e]"
    and e: "ob_workflow e = wf_id w" "ob_event_type e \<noteq> ''review.workflow.terminal''"
    using st unfolding started_def by auto
  have fresh: "uuid4 s \<notin> wf_id ` set (workflows s)" using keys(1) by (simp add: workflow_keys_def uuid4_def)
  note ph = started_phase [OF st p keys(1,2)]
  have no_dec: "\<And>d. d \<in> set (workflow_decisions s) \<Longrightarrow> wd_workflow d \<noteq> wf_id w"
    and no_ob: "\<And>d. d \<in> set (workflow_outbox s) \<Longrightarrow> ob_workflow d \<noteq> wf_id w"
    using keys(2) fresh unfolding t(4) workflow_links_def by (metis imageI subsetD)+
  have te: "terminal_events s' y = terminal_events s y" for y
    using terminal_events_append [OF ob, of y] e(2) by simp
  have new: "wf_row_inv s' w"
  proof -
    have "policy_linked s' w"
      unfolding policy_linked_def wf_frameD(2) [OF f] ph(2) policy_reads_frame [OF f]
    proof (intro bexI [of _ v] conjI)
      show "(\<lambda>a. (vord a, vpol a)) ` view_of ` set new =
          (\<lambda>ps. (ps_ordinal ps, ps_id ps)) ` set (stages_of s (av_id v))"
        using arg_cong [OF m, of "\<lambda>xs. (\<lambda>(a, b, c). (a, b)) ` set xs"]
        by (simp add: image_image view_of_def)
    qed (use t in auto)
    moreover have "revision_counts s' w"
      using no_dec by (simp add: revision_counts_def t filter_empty_conv)
    moreover have "completed_approved s' w"
      using ph(1) unfolding completed_approved_def phases_ok_def phase_ok_def t(5)
    proof (intro impI ballI)
      fix a assume a: "a \<in> sview s' (wf_id w)" "vstate a = Completed"
      then obtain z where z: "z \<in> set new" "a = view_of z" using ph(2) by auto
      have "(st_ordinal z, st_policy_stage z, st_state z) \<in> set (map (\<lambda>ps. (ps_ordinal ps, ps_id ps,
        if Some (ps_ordinal ps) = wf_active_stage w then Active else Pending)) (stages_of s (av_id v)))"
        unfolding m [symmetric] using z by simp
      then have "st_state z \<noteq> Completed" by (auto split: if_splits)
      then show "\<exists>ps. policy_stage_get s' (vpol a) = Some ps \<and>
          quorum_met ps (stage_approvals s' (wf_id w) (vid a))"
        using a(2) z(2) by (simp add: view_of_def)
    qed
    moreover have "duties_separated s' w" using no_dec by (auto simp: duties_separated_def t(3))
    moreover have "outbox_ok s' w"
      using no_ob unfolding outbox_ok_def te
      by (auto simp: terminal_events_def t(5) terminal_state_def filter_empty_conv)
    ultimately show ?thesis using ph(1) by (simp add: wf_row_inv_def)
  qed
  have old: "wf_row_inv s' y" if y: "y \<in> set (workflows s)" for y
  proof (rule row_inv_frame [OF _ f])
    show "wf_row_inv s y" using i y by (simp add: wf_inv_def)
    have "wf_id y \<noteq> wf_id w" using fresh y unfolding t(4) by (metis imageI)
    then show "sview s' (wf_id y) = sview s (wf_id y)"
      using t(10) by (auto simp: sview_def t(2))
  qed (simp_all add: t te)
  have "workflow_links s'"
    using keys(2) t(10) e by (auto simp: workflow_links_def t(1-3) ob)
  then show ?thesis
    using started_keys [OF st keys(1)] new old keys(3)
    by (auto simp: wf_inv_def t(1) decision_keys_unique_def t(3))
qed


section \<open>Escalation keeps the invariant\<close>

lemma wf_inv_same_views:
  assumes i: "wf_inv s" and f: "wf_frame s s'" and w: "workflows s' = workflows s"
    and d: "workflow_decisions s' = workflow_decisions s"
    and st: "map st_static (workflow_stages s') = map st_static (workflow_stages s)"
    and v: "\<And>i. sview s' i = sview s i" and te: "\<And>i. terminal_events s' i = terminal_events s i"
    and ob: "ob_workflow ` set (workflow_outbox s') \<subseteq> wf_id ` set (workflows s)"
  shows "wf_inv s'"
proof -
  have keys: "workflow_keys s" "workflow_links s" "decision_keys_unique s" using i by (simp_all add: wf_inv_def)
  have ids: "map st_id (workflow_stages s') = map st_id (workflow_stages s)"
    "map st_workflow (workflow_stages s') = map st_workflow (workflow_stages s)"
    using arg_cong [OF st, of "map fst"] arg_cong [OF st, of "map (fst \<circ> snd)"]
    by (simp_all add: comp_def st_static_def)
  have rc: "map rc_id (review_cases s') = map rc_id (review_cases s)"
    using arg_cong [OF wf_frameD(14) [OF f], of "map fst"] by (simp add: comp_def case_static_def)
  have "workflow_keys s'"
    using keys(1) wf_frameD(9,10) [OF f] unfolding workflow_keys_def rc set_map [symmetric] ids w by auto
  moreover have "workflow_links s'"
    using keys(2) ob unfolding workflow_links_def set_map [symmetric] ids w d by simp
  moreover have "wf_row_inv s' y" if "y \<in> set (workflows s)" for y
    by (rule row_inv_frame [OF _ f v _ te]) (use i that d in \<open>simp_all add: wf_inv_def\<close>)
  ultimately show ?thesis using keys(3) by (simp add: wf_inv_def w decision_keys_unique_def d)
qed

lemma escalate_stage_effect:
  assumes "escalate_stage cid ctx now clock w x s = Inr s'"
  shows "\<exists>i k t a. wf_frame s s' \<and> workflows s' = workflows s \<and> workflow_decisions s' = workflow_decisions s \<and>
    workflow_stages s' = workflow_stages (put_stage (x\<lparr>st_escalated_at := Some now\<rparr>) s) \<and>
    workflow_outbox s' = workflow_outbox s @ [new_outbox_row i w ''review.workflow.escalate'' cid k None t] \<and>
    audit_events s' = audit_events s @ [a] \<and> review_cases s' = review_cases s \<and>
    assignments s' = assignments s"
proof -
  let ?s1 = "put_stage (x\<lparr>st_escalated_at := Some now\<rparr>) s"
  let ?k = "''workflow:'' @ wf_id w @ '':stage:'' @ str_nat (st_ordinal x) @ '':escalation''"
  from assms obtain s2 a where e: "emit w ''review.workflow.escalate'' cid ?k clock ?s1 = Inr s2"
    and s': "s' = record_audit ctx a now s2"
    unfolding escalate_stage_def Let_def by (auto simp only: bindR_Inr_iff sum.inject)
  from e obtain snap where s2: "s2 = (draw ?s1)\<lparr>workflow_outbox := workflow_outbox ?s1 @
        [new_outbox_row (uuid4 ?s1) w ''review.workflow.escalate'' cid ?k snap (clock (uuid4 ?s1))]\<rparr>"
      and "snap \<noteq> None \<longleftrightarrow> ''review.workflow.escalate'' = ''review.workflow.terminal''"
    by (rule emit_effect)
  then have n: "snap = None" by simp
  have "wf_frame ?s1 s2" unfolding s2 by (rule wf_frame_trans [OF wf_frame_intros(1)]) simp
  moreover have "wf_frame s ?s1" "wf_frame s2 s'" unfolding s' by simp_all
  ultimately have f: "wf_frame s s'" using wf_frame_trans by blast
  have p: "workflows ?s1 = workflows s" "workflow_decisions ?s1 = workflow_decisions s"
    "workflow_outbox ?s1 = workflow_outbox s" "audit_events ?s1 = audit_events s"
    "review_cases ?s1 = review_cases s" "assignments ?s1 = assignments s"
    by (simp_all add: put_stage_def)
  have "workflows s' = workflows s" "workflow_decisions s' = workflow_decisions s"
    "workflow_stages s' = workflow_stages ?s1" "review_cases s' = review_cases s" "assignments s' = assignments s"
    "workflow_outbox s' = workflow_outbox s @
       [new_outbox_row (uuid4 ?s1) w ''review.workflow.escalate'' cid ?k None (clock (uuid4 ?s1))]"
    "\<exists>a. audit_events s' = audit_events s @ [a]"
    by (simp_all add: s' s2 n record_audit_def p)
  then show ?thesis using f by blast
qed

lemma escalate_stage_rows:
  assumes e: "escalate_stage cid ctx now clock w x s = Inr s'" and x: "x \<in> set (workflow_stages s)"
    and d: "distinct (map st_id (workflow_stages s))"
  shows "workflow_stages s' = map (\<lambda>z. if st_id z = st_id x then z\<lparr>st_escalated_at := Some now\<rparr> else z)
    (workflow_stages s)"
proof -
  have "workflow_stages s' = workflow_stages (put_stage (x\<lparr>st_escalated_at := Some now\<rparr>) s)"
    using escalate_stage_effect [OF e] by blast
  then show ?thesis
    using put_stage_table [where f = "\<lambda>z. z\<lparr>st_escalated_at := Some now\<rparr>", OF d x]
    by (simp add: st_static_def)
qed

text \<open>
  What a series of escalations may change: only the escalation time of stages of waiting workflows,
  the outbox and the ledger.
\<close>

definition waiting_ids :: "'z review_db_scheme \<Rightarrow> uuid set" where
  "waiting_ids s = wf_id ` {w \<in> set (workflows s). wf_state w = Waiting}"

definition escalated :: "'z review_db_scheme \<Rightarrow> 'z review_db_scheme \<Rightarrow> bool" where
  "escalated s s' \<longleftrightarrow> wf_frame s s' \<and> workflows s' = workflows s \<and>
     workflow_decisions s' = workflow_decisions s \<and> review_cases s' = review_cases s \<and>
     (\<exists>h. workflow_stages s' = map h (workflow_stages s) \<and>
        (\<forall>z. st_static (h z) = st_static z \<and> view_of (h z) = view_of z) \<and>
        (\<forall>z \<in> set (workflow_stages s). st_workflow z \<notin> waiting_ids s \<longrightarrow> h z = z)) \<and>
     (\<exists>es. workflow_outbox s' = workflow_outbox s @ es \<and>
        (\<forall>e \<in> set es. ob_event_type e = ''review.workflow.escalate'' \<and>
           ob_workflow e \<in> wf_id ` set (workflows s))) \<and>
     (\<exists>as. audit_events s' = audit_events s @ as)"

lemma escalated_refl: "escalated s s"
  by (auto simp: escalated_def intro: exI [of _ id])

lemma escalated_trans:
  assumes "escalated s t" and "escalated t u"
  shows "escalated s u"
proof -
  obtain h1 h2 where h1: "workflow_stages t = map h1 (workflow_stages s)"
      "\<forall>z. st_static (h1 z) = st_static z \<and> view_of (h1 z) = view_of z"
      "\<forall>z \<in> set (workflow_stages s). st_workflow z \<notin> waiting_ids s \<longrightarrow> h1 z = z"
    and h2: "workflow_stages u = map h2 (workflow_stages t)"
      "\<forall>z. st_static (h2 z) = st_static z \<and> view_of (h2 z) = view_of z"
      "\<forall>z \<in> set (workflow_stages t). st_workflow z \<notin> waiting_ids t \<longrightarrow> h2 z = z"
    using assms unfolding escalated_def by blast
  have "workflows t = workflows s" using assms(1) by (simp add: escalated_def)
  then have w: "waiting_ids t = waiting_ids s" by (simp add: waiting_ids_def)
  have "h2 (h1 z) = z" if z: "z \<in> set (workflow_stages s)" "st_workflow z \<notin> waiting_ids s" for z
  proof -
    have "h1 z \<in> set (workflow_stages t)" using z(1) unfolding h1(1) by simp
    moreover have "h1 z = z" using h1(3) z by blast
    ultimately show ?thesis using h2(3) z(2) unfolding w by metis
  qed
  then have "\<exists>h. workflow_stages u = map h (workflow_stages s) \<and>
      (\<forall>z. st_static (h z) = st_static z \<and> view_of (h z) = view_of z) \<and>
      (\<forall>z \<in> set (workflow_stages s). st_workflow z \<notin> waiting_ids s \<longrightarrow> h z = z)"
    by (intro exI [of _ "h2 \<circ> h1"]) (simp add: h1(1,2) h2(1,2))
  moreover obtain e1 e2 where "workflow_outbox t = workflow_outbox s @ e1" "workflow_outbox u = workflow_outbox t @ e2"
      "\<forall>e \<in> set (e1 @ e2). ob_event_type e = ''review.workflow.escalate'' \<and> ob_workflow e \<in> wf_id ` set (workflows s)"
    using assms unfolding escalated_def by fastforce
  then have "\<exists>es. workflow_outbox u = workflow_outbox s @ es \<and>
      (\<forall>e \<in> set es. ob_event_type e = ''review.workflow.escalate'' \<and> ob_workflow e \<in> wf_id ` set (workflows s))"
    by (intro exI [of _ "e1 @ e2"]) simp
  moreover have "\<exists>as. audit_events u = audit_events s @ as" using assms unfolding escalated_def by fastforce
  moreover have "wf_frame s u" using assms wf_frame_trans unfolding escalated_def by blast
  ultimately show ?thesis using assms unfolding escalated_def by simp
qed

lemma escalate_stage_escalated:
  assumes e: "escalate_stage cid ctx now clock w x s = Inr s'" and x: "x \<in> set (workflow_stages s)"
    and d: "distinct (map st_id (workflow_stages s))" and w: "w \<in> set (workflows s)"
    and xw: "st_workflow x = wf_id w" "wf_state w = Waiting"
  shows "escalated s s'"
proof -
  let ?h = "\<lambda>z. if st_id z = st_id x then z\<lparr>st_escalated_at := Some now\<rparr> else z"
  have "st_workflow x \<in> waiting_ids s" using w xw by (auto simp: waiting_ids_def)
  then have "?h z = z" if "z \<in> set (workflow_stages s)" "st_workflow z \<notin> waiting_ids s" for z
    using distinct_key_inj [OF d that(1) x] that(2) by auto
  then have "\<exists>h. workflow_stages s' = map h (workflow_stages s) \<and>
      (\<forall>z. st_static (h z) = st_static z \<and> view_of (h z) = view_of z) \<and>
      (\<forall>z \<in> set (workflow_stages s). st_workflow z \<notin> waiting_ids s \<longrightarrow> h z = z)"
    by (intro exI [of _ ?h]) (simp add: escalate_stage_rows [OF e x d] st_static_def view_of_def)
  moreover obtain j k t where "workflow_outbox s' = workflow_outbox s @
      [new_outbox_row j w ''review.workflow.escalate'' cid k None t]"
    using escalate_stage_effect [OF e] by blast
  then have "\<exists>es. workflow_outbox s' = workflow_outbox s @ es \<and>
      (\<forall>e \<in> set es. ob_event_type e = ''review.workflow.escalate'' \<and> ob_workflow e \<in> wf_id ` set (workflows s))"
    using w by auto
  ultimately show ?thesis using escalate_stage_effect [OF e] unfolding escalated_def by blast
qed

lemma escalated_ids:
  assumes "escalated s s'"
  shows "map st_id (workflow_stages s') = map st_id (workflow_stages s)"
    "map st_static (workflow_stages s') = map st_static (workflow_stages s)" "sview s' n = sview s n"
proof -
  obtain h where h: "workflow_stages s' = map h (workflow_stages s)"
      "\<forall>z. st_static (h z) = st_static z \<and> view_of (h z) = view_of z"
    using assms unfolding escalated_def by blast
  show "map st_static (workflow_stages s') = map st_static (workflow_stages s)" using h by simp
  show "map st_id (workflow_stages s') = map st_id (workflow_stages s)" using h by (simp add: st_static_def)
  have "{z \<in> set (workflow_stages s'). st_workflow z = n} = h ` {z \<in> set (workflow_stages s). st_workflow z = n}"
    using h by (auto simp: st_static_def)
  then show "sview s' n = sview s n" using h(2) by (simp add: sview_def image_image)
qed

lemma escalated_rows:
  assumes "escalated s s'" and "i \<notin> waiting_ids s"
  shows "stage_rows s' i = stage_rows s i"
proof -
  obtain h where h: "workflow_stages s' = map h (workflow_stages s)"
      "\<forall>z \<in> set (workflow_stages s). st_static (h z) = st_static z"
      "\<forall>z \<in> set (workflow_stages s). st_workflow z \<notin> waiting_ids s \<longrightarrow> h z = z"
    using assms(1) unfolding escalated_def by blast
  show ?thesis by (rule stage_rows_map [OF h(1,2)]) (use h(3) assms(2) in blast)
qed

lemma escalated_inv:
  assumes e: "escalated s s'" and i: "wf_inv s"
  shows "wf_inv s'"
proof -
  obtain es where es: "workflow_outbox s' = workflow_outbox s @ es"
      "\<forall>e \<in> set es. ob_event_type e = ''review.workflow.escalate'' \<and> ob_workflow e \<in> wf_id ` set (workflows s)"
    using e unfolding escalated_def by blast
  show ?thesis
  proof (rule wf_inv_same_views [OF i _ _ _ escalated_ids(2) [OF e] escalated_ids(3) [OF e]])
    show "wf_frame s s'" "workflows s' = workflows s" "workflow_decisions s' = workflow_decisions s"
      using e by (simp_all add: escalated_def)
    show "terminal_events s' n = terminal_events s n" for n
      using es by (auto simp: terminal_events_def filter_empty_conv)
    show "ob_workflow ` set (workflow_outbox s') \<subseteq> wf_id ` set (workflows s)"
      using es i by (auto simp: wf_inv_def workflow_links_def)
  qed
qed

lemma overdue_stageD:
  "overdue_stage s now w = Some x \<Longrightarrow> active_stage s w = Some x \<and> st_escalated_at x = None \<and>
     (\<exists>t \<le> now. st_deadline_at x = Some t)"
  by (auto simp: overdue_stage_def split: option.splits if_splits)

lemma escalate_each_escalated:
  assumes "escalate_each cid ctx now clock ws n s = Inr (m, s')"
    and "distinct (map st_id (workflow_stages s))"
    and "set ws \<subseteq> {w \<in> set (workflows s). wf_state w = Waiting}"
  shows "escalated s s'"
  using assms
proof (induction cid ctx now clock ws n s rule: escalate_each.induct)
  case (1 cid ctx now clock n s)
  then show ?case by (simp add: escalated_refl)
next
  case (2 cid ctx now clock w ws n s)
  show ?case
  proof (cases "overdue_stage s now w")
    case None
    then show ?thesis using 2 by simp
  next
    case (Some x)
    then obtain s1 where s1: "escalate_stage cid ctx now clock w x s = Inr s1"
      and r: "escalate_each cid ctx now clock ws (n + 1) s1 = Inr (m, s')"
      using 2(3) by (auto simp: result_simps)
    have "x \<in> set (workflow_stages s)" "st_workflow x = wf_id w"
      using overdue_stageD [OF Some] active_stageD by blast+
    then have e: "escalated s s1" using escalate_stage_escalated [OF s1 _ 2(4)] 2(5) by simp
    then have "distinct (map st_id (workflow_stages s1))"
        "set ws \<subseteq> {w \<in> set (workflows s1). wf_state w = Waiting}"
      using escalated_ids(1) [OF e] 2(4,5) by (simp_all add: escalated_def)
    then show ?thesis using 2(2) [OF Some r] escalated_trans [OF e] by blast
  qed
qed

lemma escalate_overdue_escalated:
  assumes "escalate_overdue s cid ctx now clock = Inr (m, s')" and "wf_inv s"
  shows "escalated s s'"
  using assms escalate_each_escalated [of cid ctx now clock "escalation_candidates s" 0 s m s']
  by (auto simp: escalate_overdue_def escalation_candidates_def wf_inv_def workflow_keys_def)

lemma escalate_overdue_inv:
  assumes "escalate_overdue s cid ctx now clock = Inr (m, s')" and "wf_inv s"
  shows "wf_inv s' \<and> wf_frame s s'"
  using escalate_overdue_escalated [OF assms] escalated_inv assms(2) by (auto simp: escalated_def)

section \<open>Policies that change beside running workflows\<close>

text \<open>What a policy operation leaves alone, seen from the tables built on top of the policies.\<close>

definition policy_frame :: "'z policy_db_scheme \<Rightarrow> 'z policy_db_scheme \<Rightarrow> bool" where
  "policy_frame s s' \<longleftrightarrow> policy_db.more s' = policy_db.more s \<and> uuid_src s' = uuid_src s \<and>
     uuid_used s \<le> uuid_used s' \<and> agreements s' = agreements s \<and>
     (\<exists>new. policy_stages s' = policy_stages s @ new)"

lemma policy_frame_refl: "policy_frame s s"
  by (simp add: policy_frame_def)

lemma policy_frame_trans: "policy_frame s t \<Longrightarrow> policy_frame t u \<Longrightarrow> policy_frame s u"
  by (auto simp: policy_frame_def)

lemma policy_frame_writes:
  "policy_frame s (draw s\<lparr>policy_stages := policy_stages s @ xs\<rparr>)"
  "policy_frame s (draw s\<lparr>policies := p\<rparr>)" "policy_frame s (draw s\<lparr>policy_versions := v\<rparr>)"
  "policy_frame s (s\<lparr>policy_versions := v\<rparr>)" "policy_frame s (audit_policy p' v' u a now s)"
  by (simp_all add: policy_frame_def draw_def audit_policy_def)

lemma add_stages_frame: "policy_frame s (add_stages v k xs s)"
  by (induction v k xs s rule: add_stages.induct)
    (auto intro: policy_frame_refl policy_frame_trans [OF policy_frame_writes(1)])

lemma copy_stages_frame: "policy_frame s (copy_stages g w i xs s)"
  by (induction g w i xs s rule: copy_stages.induct)
    (auto intro: policy_frame_refl policy_frame_trans [OF policy_frame_writes(1)])

lemma policy_step_frame: "policy_step s s' \<Longrightarrow> policy_frame s s'"
proof (induction rule: policy_step.induct)
  case (create s u g w request now r s')
  then obtain p v q x where s': "s' = audit_policy p v u ''draft_created'' now (add_stages v 1 (cp_stages request)
      (draw (draw s\<lparr>policies := q\<rparr>)\<lparr>policy_versions := x\<rparr>))"
    unfolding create_policy_def Let_def by (auto simp only: result_simps sum.inject prod.inject)
  have s1: "policy_frame s (draw (draw s\<lparr>policies := q\<rparr>)\<lparr>policy_versions := x\<rparr>)"
    by (rule policy_frame_trans [OF policy_frame_writes(2) policy_frame_writes(3)])
  show ?case unfolding s'
    by (rule policy_frame_trans [OF policy_frame_trans [OF s1 add_stages_frame] policy_frame_writes(5)])
next
  case (version s u g w pid source now r s')
  then obtain p src where s': "s' = snd (insert_version u g w p src now s)"
    by (auto simp: create_policy_version_def result_simps case_prod_beta)
  show ?case unfolding s' insert_version_def Let_def snd_conv
    by (cases src) (auto intro!: policy_frame_trans [OF _ policy_frame_writes(5)]
        policy_frame_trans [OF _ copy_stages_frame] policy_frame_writes)
next
  case (publish s u g w pid n now r s')
  then show ?case
    by (elim publish_policyE) (auto intro!: policy_frame_trans [OF _ policy_frame_writes(5)] policy_frame_writes)
qed

lemma review_tables_of_more:
  fixes s s' :: "'z review_db_scheme"
  assumes "policy_db.more s' = policy_db.more s"
  shows "workflows s' = workflows s" "workflow_stages s' = workflow_stages s"
    "workflow_decisions s' = workflow_decisions s" "workflow_outbox s' = workflow_outbox s"
    "review_cases s' = review_cases s" "audit_events s' = audit_events s"
  using assms by (cases s; cases s'; simp)+

lemma policy_step_wf_inv:
  fixes s s' :: "'z review_db_scheme"
  assumes st: "policy_step s s'" and p: "policy_inv s" and i: "wf_inv s"
  shows "wf_inv s'"
proof -
  have fr: "policy_frame s s'" by (rule policy_step_frame [OF st])
  note T = review_tables_of_more [of s' s]
  have t: "workflows s' = workflows s" "workflow_stages s' = workflow_stages s"
    "workflow_decisions s' = workflow_decisions s" "workflow_outbox s' = workflow_outbox s"
    "review_cases s' = review_cases s"
    using fr T by (auto simp: policy_frame_def)
  have p': "policy_inv s'" by (rule policy_step_inv [OF st p])
  have d: "distinct (map av_id (policy_versions s'))" using p' by (simp add: policy_inv_def policy_keys_def)
  have kept: "kept s s'" by (rule policy_step_kept [OF st p])
  obtain new where new: "policy_stages s' = policy_stages s @ new" using fr by (auto simp: policy_frame_def)
  have get: "policy_stage_get s' q = Some ps" if "policy_stage_get s q = Some ps" for q ps
    using that by (simp add: policy_stage_get_def new find_append)
  have v: "sview s' n = sview s n" for n by (simp add: sview_def t)
  have keys: "workflow_keys s'" "workflow_links s'" "decision_keys_unique s'"
    using i fr by (auto simp: wf_inv_def workflow_keys_def workflow_links_def decision_keys_unique_def t
        policy_frame_def)
  have "wf_row_inv s' y" if y: "y \<in> set (workflows s)" for y
  proof -
    have r: "wf_row_inv s y" using i y by (simp add: wf_inv_def)
    then obtain v0 where v0: "v0 \<in> set (policy_versions s)" "av_id v0 = wf_policy_version y"
        "av_status v0 = Published" and img: "(\<lambda>a. (vord a, vpol a)) ` sview s (wf_id y) =
       (\<lambda>ps. (ps_ordinal ps, ps_id ps)) ` set (stages_of s (av_id v0))"
      unfolding wf_row_inv_def policy_linked_def by blast
    have k: "v0 \<in> set (policy_versions s')" "stages_of s' (av_id v0) = stages_of s (av_id v0)"
      using kept v0 by (auto simp: kept_def)
    have "policy_linked s' y" unfolding policy_linked_def v
      using v0 k img by (intro bexI [of _ v0]) simp_all
    moreover have "duties_separated s' y"
    proof -
      have "x = v0" if "x \<in> set (policy_versions s')" "av_id x = wf_policy_version y" for x
        using distinct_key_inj [OF d that(1) k(1)] that(2) v0(2) by simp
      then show ?thesis using r v0(1,2) unfolding wf_row_inv_def duties_separated_def t by blast
    qed
    moreover have "completed_approved s' y"
      using r get unfolding wf_row_inv_def completed_approved_def v stage_approvals_def t by blast
    moreover have "phases_ok s' y" "revision_counts s' y" "outbox_ok s' y"
      using r by (simp_all add: wf_row_inv_def phases_ok_def v revision_counts_def outbox_ok_def
          terminal_events_def t)
    ultimately show ?thesis by (simp add: wf_row_inv_def)
  qed
  then show ?thesis using keys by (simp add: wf_inv_def t)
qed

section \<open>Runs\<close>

inductive review_step :: "'z review_db_scheme \<Rightarrow> 'z review_db_scheme \<Rightarrow> bool" where
  start: "start_workflow s rid pvid cid ctx now clock = Inr (r, s') \<Longrightarrow> review_step s s'"
| decision: "decide s wid u c k rv cid ctx now clock = Inr (r, s') \<Longrightarrow> review_step s s'"
| escalate: "escalate_overdue s cid ctx now clock = Inr (n, s') \<Longrightarrow> review_step s s'"
| policy: "policy_step s s' \<Longrightarrow> review_step s s'"

inductive review_reach :: "'z review_db_scheme \<Rightarrow> 'z review_db_scheme \<Rightarrow> bool" for s where
  refl: "review_reach s s"
| step: "review_reach s t \<Longrightarrow> review_step t t' \<Longrightarrow> review_reach s t'"

lemma policy_inv_wf_frame: "policy_inv s \<Longrightarrow> wf_frame s s' \<Longrightarrow> policy_inv s'"
  by (rule policy_inv_frame) (assumption, (rule wf_frameD, assumption)+)

lemma decision_frame: "decision_taken s s' w x u c k now \<Longrightarrow> wf_frame s s'"
  by (rule decision_takenD)

definition review_inv :: "'z review_db_scheme \<Rightarrow> bool" where
  "review_inv s \<longleftrightarrow> policy_inv s \<and> wf_inv s"

lemma review_step_inv:
  assumes "review_step s s'" and "review_inv s"
  shows "review_inv s'"
  using assms
proof (induction rule: review_step.induct)
  case (start s rid pvid cid ctx now clock r s')
  then show ?case
    using start_effect [OF start(1)] started_inv policy_inv_wf_frame
    unfolding review_inv_def started_def by blast
next
  case (decision s wid u c k rv cid ctx now clock r s')
  then have "policy_inv s" "wf_inv s" "distinct (map av_id (policy_versions s))"
    by (simp_all add: review_inv_def policy_inv_def policy_keys_def)
  then show ?case
    using decide_taken [OF decision(1)] decide_inv [OF decision(1)] decision_frame policy_inv_wf_frame
    unfolding review_inv_def by blast
next
  case (escalate s cid ctx now clock n s')
  then show ?case using escalate_overdue_inv policy_inv_wf_frame unfolding review_inv_def by blast
next
  case (policy s s')
  then show ?case using policy_step_wf_inv policy_step_inv unfolding review_inv_def by blast
qed

lemma review_reach_inv: "review_reach s t \<Longrightarrow> review_inv s \<Longrightarrow> review_inv t"
  by (induction rule: review_reach.induct) (blast intro: review_step_inv)+

text \<open>A state in which no workflow was ever started.\<close>

definition no_workflows :: "'z review_db_scheme \<Rightarrow> bool" where
  "no_workflows s \<longleftrightarrow> policy_inv s \<and> distinct (map rc_id (review_cases s)) \<and> workflows s = [] \<and>
     workflow_stages s = [] \<and> workflow_decisions s = [] \<and> workflow_outbox s = []"

lemma no_workflows_inv: "no_workflows s \<Longrightarrow> review_inv s"
  by (auto simp: no_workflows_def review_inv_def wf_inv_def workflow_keys_def workflow_links_def
      decision_keys_unique_def policy_inv_def policy_keys_def)

end
