(* ===== verification/Workflow_Properties.thy ===== *)
theory Workflow_Properties
  imports Workflow_Invariant
begin

text \<open>
  The properties of the approval workflow: the invariant along every run, what an approved
  workflow implies, separation of duties, refinement of an abstract approval machine, replay and
  optimistic locking of decisions, finality of terminal states, the transactional outbox, the
  terminal package and escalation. The concrete run at the end witnesses them.
\<close>

section \<open>The abstract approval machine\<close>

text \<open>
  An approval process of \<open>n\<close> stages: it is at a stage or closed. An approval that satisfies the
  stage moves on or, at the last stage, closes as approved; an approval that does not satisfy it
  changes nothing; rejecting and requesting changes close at once. \<open>approval_step n sat a\<close> is
  defined only while the process is open.
\<close>

datatype approval = At nat | Closed workflow_state

fun approval_step :: "nat \<Rightarrow> bool \<Rightarrow> workflow_action \<Rightarrow> approval \<Rightarrow> approval option" where
  "approval_step n sat a (Closed st) = None"
| "approval_step n sat Reject (At k) = Some (Closed Rejected)"
| "approval_step n sat RequestChanges (At k) = Some (Closed RevisionRequested)"
| "approval_step n sat Approve (At k) =
     Some (if \<not> sat then At k else if k < n then At (Suc k) else Closed Approved)"

definition approval_of :: "workflow_row \<Rightarrow> approval" where
  "approval_of w = (case (wf_state w, wf_active_stage w) of
     (Waiting, Some k) \<Rightarrow> At k | (st, _) \<Rightarrow> Closed st)"

lemma approval_of_simps:
  "wf_state w = Waiting \<Longrightarrow> wf_active_stage w = Some k \<Longrightarrow> approval_of w = At k"
  "wf_state w \<noteq> Waiting \<Longrightarrow> approval_of w = Closed (wf_state w)"
  by (auto simp: approval_of_def split: workflow_state.split)

lemma stage_count:
  assumes "phases_ok s w"
  shows "vord ` sview s (wf_id w) = {1..card (sview s (wf_id w))}"
proof -
  obtain n where n: "vord ` sview s (wf_id w) = {1..n}" and inj: "inj_on vord (sview s (wf_id w))"
    using assms by (auto simp: phases_ok_def phase_ok_def)
  have "card (sview s (wf_id w)) = n" using card_image [OF inj] n by simp
  then show ?thesis using n by simp
qed

lemma finite_sview: "finite (sview s i)"
  by (simp add: sview_def)

section \<open>Facts about runs\<close>

lemma decision_taken_refines:
  assumes t: "decision_taken s s' w x u c k now" and p: "phases_ok s w"
  shows "approval_step (card (sview s (wf_id w))) (satisfied (with_decision s w x u c k now) w x) c (approval_of w) =
    Some (approval_of (decided_workflow s w x u c k now))"
proof -
  note D = decision_takenD [OF t]
  have a: "wf_active_stage w = Some (st_ordinal x)" by (rule decision_phase(1) [OF t p])
  have view: "st_ordinal ` wf_stages s w = vord ` sview s (wf_id w)"
    by (simp add: sview_def view_of_def image_image)
  have "st_ordinal x \<in> vord ` sview s (wf_id w)" using D(3,4) view by blast
  then have le: "1 \<le> st_ordinal x \<and> st_ordinal x \<le> card (sview s (wf_id w))"
    using stage_count [OF p] by simp
  have nxt: "Suc (st_ordinal x) \<in> st_ordinal ` wf_stages s w \<longleftrightarrow> st_ordinal x < card (sview s (wf_id w))"
    unfolding view stage_count [OF p] using le by auto
  have "wf_stages (with_decision s w x u c k now) w = wf_stages s w" by simp
  then show ?thesis
    using D(2) a nxt unfolding decided_workflow_def decision_outcome_def outcome_of_def
    by (cases c) (auto simp: approval_of_def)
qed

definition recorded_decisions :: "'z review_db_scheme \<Rightarrow> uuid \<Rightarrow> workflow_decision_row list" where
  "recorded_decisions s i = filter (\<lambda>d. wd_workflow d = i) (workflow_decisions s)"

lemma review_step_workflow:
  assumes st: "review_step s s'" and i: "review_inv s" and w: "w \<in> set (workflows s)"
    and closed: "wf_state w \<noteq> Waiting"
  shows "w \<in> set (workflows s') \<and> stage_rows s' (wf_id w) = stage_rows s (wf_id w) \<and>
    recorded_decisions s' (wf_id w) = recorded_decisions s (wf_id w)"
  using st
proof cases
  case (start rid pvid cid ctx now clock r)
  from start_effect [OF start] show ?thesis
  proof
    assume "\<exists>w v new. started w v new s s' \<and> wf_review w = rid"
    then obtain y v new where y: "started y v new s s'" by blast
    then have t: "workflows s' = workflows s @ [y]" "workflow_stages s' = workflow_stages s @ new"
      "\<forall>z \<in> set new. st_workflow z = wf_id y" "wf_id y = uuid4 s"
      "workflow_decisions s' = workflow_decisions s"
      unfolding started_def by blast+
    have "uuid4 s \<notin> wf_id ` set (workflows s)"
      using i by (simp add: review_inv_def wf_inv_def workflow_keys_def uuid4_def)
    then have "wf_id w \<noteq> wf_id y" using w unfolding t(4) by (metis imageI)
    then have "\<forall>z \<in> set new. st_workflow z \<noteq> wf_id w" using t(3) by simp
    then show ?thesis using w by (simp add: t(1,2,5) stage_rows_def recorded_decisions_def filter_empty_conv)
  qed (use w in simp)
next
  case (decision wid u c k rv cid ctx now clock r)
  have inv: "wf_inv s" using i by (simp add: review_inv_def)
  from decide_taken [OF decision inv] show ?thesis
  proof
    assume "\<exists>w x. wf_id w = wid \<and> wf_revision w = rv \<and> decision_taken s s' w x u c k now"
    then obtain y x where y: "decision_taken s s' y x u c k now" by blast
    note D = decision_takenD [OF y]
    have keys: "distinct (map wf_id (workflows s))" "distinct (map st_id (workflow_stages s))"
      using inv by (simp_all add: wf_inv_def workflow_keys_def)
    have ne: "wf_id w \<noteq> wf_id y" using distinct_key_inj [OF keys(1) w D(1)] closed D(2) by auto
    then show ?thesis
      using w stage_rows_moved_other [OF D(9) keys(2) D(3,4) ne]
      by (simp add: D(7,10) recorded_decisions_def)
  qed (use w in simp)
next
  case (escalate cid ctx now clock n)
  have inv: "wf_inv s" using i by (simp add: review_inv_def)
  then have e: "escalated s s'" using escalate_overdue_escalated escalate by blast
  have "distinct (map wf_id (workflows s))" using inv by (simp add: wf_inv_def workflow_keys_def)
  then have "wf_id w \<notin> waiting_ids s"
    using distinct_key_inj [OF _ w] closed by (auto simp: waiting_ids_def)
  then show ?thesis using w escalated_rows [OF e] e by (simp add: escalated_def recorded_decisions_def)
next
  case policy
  have "policy_db.more s' = policy_db.more s" using policy_step_frame [OF policy] by (simp add: policy_frame_def)
  then show ?thesis
    using w review_tables_of_more [of s' s] by (simp add: stage_rows_def recorded_decisions_def)
qed


section \<open>A decision that passes the guards commits\<close>

lemma find_same_image:
  assumes "map f xs = map f ys" and "\<And>x y. f x = f y \<Longrightarrow> p x = q y"
    and "find p xs = Some x"
  shows "\<exists>y. find q ys = Some y \<and> f y = f x"
  using assms
proof (induction xs arbitrary: ys)
  case (Cons a xs)
  then obtain b zs where ys: "ys = b # zs" "f a = f b" "map f xs = map f zs" by (cases ys) auto
  show ?case
  proof (cases "p a")
    case True
    then have "q b" using Cons.prems(2) ys(2) by simp
    then show ?thesis using True Cons.prems(3) ys by simp
  next
    case False
    then have "\<not> q b" using Cons.prems(2) ys(2) by simp
    then show ?thesis using False Cons.IH [OF ys(3)] Cons.prems(2,3) ys(1) by simp
  qed
qed simp

lemma locked_review_frame:
  assumes f: "wf_frame s s'" and r: "locked_review s i = Inr r"
  shows "\<exists>r'. locked_review s' i = Inr r' \<and> case_static r' = case_static r"
proof -
  have ag: "agreement_is_active s' a = agreement_is_active s a" for a
    by (simp add: agreement_is_active_def wf_frameD(4) [OF f])
  have "find (\<lambda>r. rc_id r = i \<and> agreement_is_active s (rc_agreement r)) (review_cases s) = Some r"
    using r by (simp add: locked_review_def result_simps)
  from find_same_image [OF wf_frameD(14) [OF f, symmetric] _ this,
      of "\<lambda>r. rc_id r = i \<and> agreement_is_active s' (rc_agreement r)"]
  show ?thesis by (auto simp: locked_review_def result_simps case_static_def ag)
qed

lemma synchronize_ok:
  assumes "locked_review s (wf_review w) = Inr r"
  shows "\<exists>s'. synchronize_review_state w st now s = Inr s'"
proof -
  have "find (\<lambda>r. rc_id r = wf_review w) (review_cases s) \<noteq> None"
    using assms by (auto simp: locked_review_def result_simps find_None_iff' dest: find_SomeD)
  then show ?thesis by (auto simp: synchronize_review_state_def)
qed

lemma complete_terminal_ok:
  assumes "locked_review s (wf_review w) = Inr r"
  shows "\<exists>p. complete_terminal w x st now s = Inr p"
proof -
  let ?s = "put_workflow (w\<lparr>wf_state := st, wf_active_stage := None\<rparr>)
    ((put_stage (x\<lparr>st_state := Completed, st_completed_at := Some now\<rparr>) s)
      \<lparr>assignments := update_where (\<lambda>a. as_review a = wf_review w \<and> as_status a = ''active'')
        (\<lambda>a. a\<lparr>as_status := ''completed''\<rparr>)
        (assignments (put_stage (x\<lparr>st_state := Completed, st_completed_at := Some now\<rparr>) s))\<rparr>)"
  have "wf_frame s ?s" by (simp add: wf_frame_def put_workflow_def put_stage_def)
  then obtain r' where "locked_review ?s (wf_review w) = Inr r'"
    using locked_review_frame [OF _ assms] by blast
  then obtain s' where "synchronize_review_state w st now ?s = Inr s'" using synchronize_ok by blast
  then show ?thesis by (simp add: complete_terminal_def Let_def)
qed

lemma advance_ok:
  assumes "locked_review s (wf_review w) = Inr r"
  shows "\<exists>p. advance w x now s = Inr p"
proof -
  define s2 where "s2 = complete_assignments w x
    (put_stage (x\<lparr>st_state := Completed, st_completed_at := Some now\<rparr>) s)"
  have f: "wf_frame s s2" by (simp add: s2_def wf_frame_def complete_assignments_def put_stage_def)
  show ?thesis
  proof (cases "find (\<lambda>y. st_ordinal y = st_ordinal x + 1) (stages_of_workflow s2 (wf_id w))")
    case None
    let ?s = "put_workflow (w\<lparr>wf_state := Approved, wf_active_stage := None\<rparr>) s2"
    have "wf_frame s ?s" by (rule wf_frame_trans [OF f]) simp
    then obtain r' where "locked_review ?s (wf_review w) = Inr r'"
      using locked_review_frame [OF _ assms] by blast
    then obtain s' where "synchronize_review_state w Approved now ?s = Inr s'" using synchronize_ok by blast
    then show ?thesis unfolding advance_def Let_def s2_def [symmetric] None by simp
  next
    case (Some y)
    show ?thesis
    proof (cases "policy_stage_get s2 (st_policy_stage y)")
      case None
      then show ?thesis unfolding advance_def Let_def s2_def [symmetric] Some by simp
    next
      case (Some ps)
      have "\<exists>r'. locked_review (put_stage z s2) (wf_review w) = Inr r'" for z
        using locked_review_frame [OF wf_frame_trans [OF f] assms] by blast
      then show ?thesis
        unfolding advance_def Let_def s2_def [symmetric] \<open>find _ _ = Some y\<close> option.case Some
        by (metis bindR.simps(2))
    qed
  qed
qed

text \<open>A decision can only be refused: once the guards pass, it is committed.\<close>

lemma decide_ok:
  assumes w: "find (\<lambda>w. wf_id w = wid) (workflows s) = Some w"
    and k: "\<forall>d \<in> set (workflow_decisions s). \<not> (wd_workflow d = wid \<and> wd_idempotency_key d = key)"
    and g: "decision_guards s w u c rv = Inr x"
    and inv: "wf_inv s"
  shows "\<exists>r s'. decide s wid u c key rv cid ctx now clock = Inr (r, s')"
proof -
  have wid: "wf_id w = wid" and win: "w \<in> set (workflows s)" using find_SomeD [OF w] by auto
  obtain r where r: "locked_review s (wf_review w) = Inr r" using g by (rule decision_guardsD)
  obtain ps where ps: "policy_stage_get s (st_policy_stage x) = Some ps" using g by (rule decision_guardsD)
  have xx: "x \<in> set (workflow_stages s)" "st_workflow x = wf_id w"
    using g active_stageD by (blast elim: decision_guardsD)+
  let ?s1 = "with_decision s w x u c key now"
  have f1: "wf_frame s ?s1" unfolding with_decision_def by (rule wf_frame_trans [OF wf_frame_intros(1)]) simp
  obtain r1 where r1: "locked_review ?s1 (wf_review w) = Inr r1" using locked_review_frame [OF f1 r] by blast
  have "\<exists>p. apply_decision w x c now ?s1 = Inr p"
  proof (cases c)
    case Approve
    have "\<exists>b. stage_is_satisfied ?s1 w x = Inr b"
      using ps by (simp add: stage_is_satisfied_def policy_stage_get_def)
    then show ?thesis using Approve advance_ok [OF r1, of x now] by (auto simp: apply_decision_def)
  qed (use complete_terminal_ok [OF r1] in \<open>auto simp: apply_decision_def\<close>)
  then obtain w1 s2 where ap: "apply_decision w x c now ?s1 = Inr (w1, s2)" by force
  have d: "distinct (map st_id (workflow_stages ?s1))" and inj: "inj_on st_ordinal (wf_stages ?s1 w)"
    using inv win inj_ordinals [of s w] by (simp_all add: wf_inv_def workflow_keys_def wf_row_inv_def)
  have e: "w1 = moved_workflow (outcome_of ?s1 w x c) w" "wf_frame ?s1 s2"
    using apply_decision_effect [OF d _ xx(2) inj ap] xx(1) by (simp_all add: decision_effect_def)
  let ?w2 = "w1\<lparr>wf_revision := wf_revision w1 + 1, wf_updated_at := now\<rparr>"
  have rev: "wf_review ?w2 = wf_review w" using e(1) by simp
  have "\<exists>s'. emit ?w2 ty cid ky clock (record_audit ctx a now (put_workflow ?w2 s2)) = Inr s'" for ty ky a
  proof -
    let ?s4 = "record_audit ctx a now (put_workflow ?w2 s2)"
    have "wf_frame s2 (draw ?s4)"
      by (rule wf_frame_trans [OF wf_frame_trans [OF wf_frame_intros(9) wf_frame_intros(10)] wf_frame_intros(1)])
    then have "wf_frame s (draw ?s4)" using f1 e(2) wf_frame_trans by blast
    from locked_review_frame [OF this r] have "\<exists>r'. locked_review (draw ?s4) (wf_review ?w2) = Inr r'"
      unfolding rev by blast
    then show ?thesis by (auto simp: emit_def Let_def terminal_package_snapshot_def)
  qed
  then have em: "\<exists>s'. emit ?w2 ty cid ky clock (record_audit ctx a now (put_workflow ?w2 s2)) = Inr s'"
    for ty ky a by blast
  have none: "find (\<lambda>d. wd_workflow d = wf_id w \<and> wd_idempotency_key d = key) (workflow_decisions s) = None"
    using k by (simp add: find_None_iff' wid)
  let ?a = "\<lparr>en_org = wf_org w, en_ws = wf_ws w, en_actor = u,
      en_action = ''review_workflow_'' @ action_value c,
      en_resource_type = ''review_workflow'', en_resource_id = Some (wf_id w),
      en_outcome = ''accepted'', en_correlation_id = cid,
      en_before = [(''state'', JStr ''waiting_for_approval''), (''stage'', JInt (int (st_ordinal x)))],
      en_after = [(''state'', JStr (workflow_state_value (wf_state ?w2))),
        (''stage'', case wf_active_stage ?w2 of None \<Rightarrow> JNull | Some n \<Rightarrow> JInt (int n))],
      en_metadata = []\<rparr>"
  have "decide s wid u c key rv cid ctx now clock =
      bindR (emit ?w2 (decision_event ?w2) cid (''workflow:'' @ wf_id w @ '':decision:'' @ key) clock
        (record_audit ctx ?a now (put_workflow ?w2 s2))) (\<lambda>s5. Inr (workflow_snapshot_of s5 ?w2, s5))"
    unfolding decide_def w some_or_simps bindR.simps none option.case g Let_def
      with_decision_def [symmetric] ap prod.case decision_event_def by (simp only:)
  moreover obtain s5 where "emit ?w2 (decision_event ?w2) cid (''workflow:'' @ wf_id w @ '':decision:'' @ key) clock
        (record_audit ctx ?a now (put_workflow ?w2 s2)) = Inr s5"
    using em by blast
  ultimately show ?thesis by (metis bindR.simps(2))
qed

section \<open>A concrete run\<close>

text \<open>
  The submitter \<open>B1\<close> has a review of an agreement; the published two-stage policy of the policy
  component applies. \<open>U1\<close> approves the first stage as legal reviewer, \<open>A1\<close> the second as legal
  administrator.
\<close>

definition demo_agreement :: agreement_row where
  "demo_agreement = \<lparr>ag_id = ''AG1'', ag_org = ''G1'', ag_ws = ''W1'', ag_title = ''T'', ag_type = ''client'',
     ag_status = ''draft'', ag_parties = JList [], ag_files = JList [], ag_processing_state = ''completed'',
     ag_audit_metadata = JObj [], ag_audit_events = JList [], ag_current_version = None,
     ag_baseline_version = None, ag_archived_at = None, ag_created_at = 0, ag_updated_at = 0,
     ag_deletion_requested_at = None\<rparr>"

definition demo_case :: review_case_row where
  "demo_case = \<lparr>rc_id = ''RC1'', rc_org = ''G1'', rc_ws = ''W1'', rc_agreement = ''AG1'',
     rc_agreement_version = None, rc_state = ''open'', rc_created_by = ''B1'', rc_idempotency_key = ''x'',
     rc_revision = 0, rc_created_at = 0, rc_updated_at = 0\<rparr>"

definition demo_review :: review_db where
  "demo_review = (demo_tenant \<lparr>agreements = [demo_agreement], agreement_versions = [],
     policies = [demo_policy], policy_versions = [demo_version Published (Some 20)],
     policy_stages = demo_stages, policy_audit = [], audit_events = [],
     evaluations = [], findings = [], review_decisions = [], review_audit = [],
     review_cases = [demo_case], assignments = [], comments = [], notifications = [],
     workflows = [], workflow_stages = [], workflow_decisions = [], workflow_outbox = [],
     final_packages = []\<rparr>)\<lparr>uuid_used := 6\<rparr>"


lemma demo_review_tables [simp]:
  "workflows demo_review = []" "workflow_stages demo_review = []" "workflow_decisions demo_review = []"
  "workflow_outbox demo_review = []" "review_cases demo_review = [demo_case]"
  "policy_versions demo_review = [demo_version Published (Some 20)]" "policy_stages demo_review = demo_stages"
  "agreements demo_review = [demo_agreement]" "uuid_src demo_review = demo_uuid" "uuid_used demo_review = 6"
  by (simp_all add: demo_review_def demo_tenant_def)

lemma demo_review_inv: "review_inv demo_review"
proof (rule no_workflows_inv)
  have "policy_inv demo_review"
    by (rule policy_inv_frame [OF demo_published_inv])
      (simp_all add: demo_review_def demo_published_def demo_created_def demo_policies_def demo_tenant_def)
  then show "no_workflows demo_review" by (simp add: no_workflows_def demo_case_def)
qed

lemma demo_locked: "locked_review demo_review ''RC1'' = Inr demo_case"
  by (simp add: locked_review_def agreement_is_active_def demo_case_def demo_agreement_def)

lemma demo_stages_of: "stages_of demo_review (demo_uuid 1) = demo_stages"
  by (simp add: stages_of_def demo_stages_def)

lemma demo_holders:
  "role_holders demo_review ''G1'' ''W1'' =
     [(''U1'', LEGAL_REVIEWER), (''U1'', BUSINESS_USER), (''A1'', LEGAL_ADMIN), (''A2'', LEGAL_ADMIN),
      (''B1'', BUSINESS_USER)]"
  by (simp add: role_holders_def membership_role_def demo_review_def demo_tenant_def)

lemma role_holders_frame: "wf_frame s s' \<Longrightarrow> role_holders s' g w = role_holders s g w"
  by (simp add: role_holders_def membership_role_def wf_frameD comp_def cong: option.case_cong)

lemma demo_started:
  obtains r s1 w x1 x2 where
    "start_workflow demo_review ''RC1'' (demo_uuid 1) ''c'' ''c'' 100 (\<lambda>_. 500) = Inr (r, s1)"
    "wf_frame demo_review s1" "workflows s1 = [w]" "workflow_stages s1 = [x1, x2]" "workflow_decisions s1 = []"
    "wf_id w = demo_uuid 6" "wf_state w = Waiting" "wf_revision w = 0" "wf_policy_version w = demo_uuid 1"
    "wf_review w = ''RC1''" "wf_org w = ''G1''" "wf_ws w = ''W1''" "wf_active_stage w = Some 1"
    "st_workflow x1 = demo_uuid 6" "st_workflow x2 = demo_uuid 6" "st_ordinal x1 = 1" "st_ordinal x2 = 2"
    "st_policy_stage x1 = demo_uuid 2" "st_policy_stage x2 = demo_uuid 3" "st_state x1 = Active"
    "st_state x2 = Pending" "st_id x1 \<noteq> st_id x2" "review_inv s1"
proof -
  have v: "published_policy_version demo_review (demo_uuid 1) demo_case = Inr (demo_version Published (Some 20))"
    by (simp add: published_policy_version_def demo_version_def demo_case_def)
  have vid: "av_id (demo_version Published (Some 20)) = demo_uuid 1" by (simp add: demo_version_def)
  have st: "stages_of demo_review (av_id (demo_version Published (Some 20))) = hd demo_stages # tl demo_stages"
    unfolding vid demo_stages_of by (simp add: demo_stages_def)
  obtain r s1 where s1: "start_workflow demo_review ''RC1'' (demo_uuid 1) ''c'' ''c'' 100 (\<lambda>_. 500) = Inr (r, s1)"
    unfolding start_workflow_def demo_locked v bindR.simps st list.case
    by (simp add: emit_def Let_def del: start_stages.simps)
  from start_effect [OF s1] obtain w v' new where sd: "started w v' new demo_review s1"
    and rid: "wf_review w = ''RC1''" by auto
  have S: "wf_frame demo_review s1" "workflows s1 = workflows demo_review @ [w]"
    "workflow_stages s1 = workflow_stages demo_review @ new"
    "workflow_decisions s1 = workflow_decisions demo_review" "wf_id w = uuid4 demo_review" "wf_state w = Waiting"
    "wf_revision w = 0" "wf_policy_version w = av_id v'" "v' \<in> set (policy_versions demo_review)"
    "wf_active_stage w = Some (ps_ordinal (hd (stages_of demo_review (av_id v'))))"
    "\<forall>z \<in> set new. st_workflow z = wf_id w"
    using sd unfolding started_def by blast+
  have m: "map (\<lambda>z. (st_ordinal z, st_policy_stage z, st_state z)) new = map (\<lambda>ps. (ps_ordinal ps, ps_id ps,
        if Some (ps_ordinal ps) = wf_active_stage w then Active else Pending)) (stages_of demo_review (av_id v'))"
    using sd unfolding started_def by blast
  have lr: "wf_org w = ''G1''" "wf_ws w = ''W1''"
    using sd unfolding started_def rid demo_locked by (auto simp: demo_case_def)
  have v': "av_id v' = demo_uuid 1" using S(9) by (simp add: demo_version_def)
  have act: "wf_active_stage w = Some 1" using S(10) unfolding v' demo_stages_of by (simp add: demo_stages_def)
  have m2: "map (\<lambda>z. (st_ordinal z, st_policy_stage z, st_state z)) new =
      [(1, demo_uuid 2, Active), (2, demo_uuid 3, Pending)]"
    using m unfolding v' demo_stages_of act by (simp add: demo_stages_def)
  then obtain x1 x2 where new: "new = [x1, x2]" by (auto simp: map_eq_Cons_conv)
  have inv: "review_inv s1"
    using review_step_inv [OF review_step.start [OF s1] demo_review_inv] .
  then have "distinct (map st_id (workflow_stages s1))" by (simp add: review_inv_def wf_inv_def workflow_keys_def)
  then have ne: "st_id x1 \<noteq> st_id x2" by (simp add: S(3) new)
  have id: "wf_id w = demo_uuid 6" using S(5) by (simp add: uuid4_def)
  show thesis
    by (rule that [OF s1 S(1) _ _ _ id S(6,7) _ rid lr act, of x1 x2])
      (use S(2-4,8,11) v' m2 new ne inv id in simp_all)
qed


lemma demo_guards:
  assumes f: "wf_frame demo_review s" and st: "wf_state w = Waiting" and pv: "wf_policy_version w = demo_uuid 1"
    and rv: "wf_review w = ''RC1''" and sc: "wf_org w = ''G1''" "wf_ws w = ''W1''"
    and x: "active_stage s w = Some x"
    and u: "st_policy_stage x = demo_uuid 2 \<and> u = ''U1'' \<or> st_policy_stage x = demo_uuid 3 \<and> u = ''A1''"
    and no: "\<forall>d \<in> set (workflow_decisions s). wd_actor d \<noteq> u"
  shows "decision_guards s w u Approve (wf_revision w) = Inr x"
proof -
  obtain r where r: "locked_review s ''RC1'' = Inr r" "case_static r = case_static demo_case"
    using locked_review_frame [OF f demo_locked] by blast
  then have cb: "rc_created_by r = ''B1''" by (simp add: case_static_def demo_case_def)
  have v: "find (\<lambda>v. av_id v = wf_policy_version w) (policy_versions s) = Some (demo_version Published (Some 20))"
    by (simp add: wf_frameD [OF f] pv demo_version_def)
  obtain p where p: "policy_stage_get s (st_policy_stage x) = Some p" "actor_is_eligible s u w p"
  proof -
    have "policy_stage_get s (demo_uuid 2) = Some (demo_stages ! 0)"
      "policy_stage_get s (demo_uuid 3) = Some (demo_stages ! 1)"
      by (simp_all add: policy_stage_get_def wf_frameD(3) [OF f] demo_stages_def)
    moreover have "actor_is_eligible s ''U1'' w (demo_stages ! 0)" "actor_is_eligible s ''A1'' w (demo_stages ! 1)"
      by (simp_all add: actor_is_eligible_def role_holders_frame [OF f] sc demo_holders demo_stages_def)
    ultimately show thesis using u that by metis
  qed
  have nb: "u \<noteq> ''B1''" using u by auto
  have nx: "\<not> exists_row (\<lambda>d. wd_workflow d = wf_id w \<and> wd_actor d = u \<and> wd_action d = Approve \<and>
      wd_stage d \<noteq> st_id x) (workflow_decisions s)"
    using no by auto
  have st': "(wf_revision w = wf_revision w \<and> wf_state w = Waiting) = True" using st by simp
  show ?thesis unfolding decision_guards_def rv st' x v r(1) p(1) some_or_simps bindR.simps require_simps option.case
    using nb nx p(2) cb by (simp del: exists_row_iff)
qed

lemma demo_run:
  obtains r1 r2 r3 s1 s2 s3 w w2 w3 x1 x2 where
    "start_workflow demo_review ''RC1'' (demo_uuid 1) ''c'' ''c'' 100 (\<lambda>_. 500) = Inr (r1, s1)" "review_inv s1"
    "decide s1 (demo_uuid 6) ''U1'' Approve ''k1'' 0 ''c'' ''c'' 200 (\<lambda>_. 500) = Inr (r2, s2)" "review_inv s2"
    "decide s2 (demo_uuid 6) ''A1'' Approve ''k2'' 1 ''c'' ''c'' 300 (\<lambda>_. 500) = Inr (r3, s3)" "review_inv s3"
    "decision_taken s1 s2 w x1 ''U1'' Approve ''k1'' 200" "decision_taken s2 s3 w2 x2 ''A1'' Approve ''k2'' 300"
    "workflows s1 = [w]" "workflows s2 = [w2]" "workflows s3 = [w3]" "wf_id w = demo_uuid 6"
    "wf_id w2 = demo_uuid 6" "wf_id w3 = demo_uuid 6" "wf_state w = Waiting" "wf_state w2 = Waiting"
    "wf_state w3 = Approved" "workflow_decisions s1 = []" "length (workflow_decisions s2) = 1"
    "workflow_decisions s2 \<noteq> workflow_decisions s1" "length (workflow_decisions s3) = 2"
    "wf_revision w = 0" "wf_revision w2 = 1" "wf_review w3 = ''RC1''" "wf_policy_version w3 = demo_uuid 1"
    "wf_frame demo_review s3"
proof -
  obtain r1 s1 w y1 y2 where s1: "start_workflow demo_review ''RC1'' (demo_uuid 1) ''c'' ''c'' 100 (\<lambda>_. 500) = Inr (r1, s1)"
    and f1: "wf_frame demo_review s1" and t1: "workflows s1 = [w]" "workflow_stages s1 = [y1, y2]" "workflow_decisions s1 = []"
    and w: "wf_id w = demo_uuid 6" "wf_state w = Waiting" "wf_revision w = 0" "wf_policy_version w = demo_uuid 1"
      "wf_review w = ''RC1''" "wf_org w = ''G1''" "wf_ws w = ''W1''" "wf_active_stage w = Some 1"
    and y: "st_workflow y1 = demo_uuid 6" "st_workflow y2 = demo_uuid 6" "st_ordinal y1 = 1" "st_ordinal y2 = 2"
      "st_policy_stage y1 = demo_uuid 2" "st_policy_stage y2 = demo_uuid 3" "st_state y1 = Active" "st_state y2 = Pending"
      "st_id y1 \<noteq> st_id y2" and i1: "review_inv s1"
    by (rule demo_started)
  have a1: "active_stage s1 w = Some y1"
    by (simp add: active_stage_def stages_of_workflow_def t1 w y)
  have g1: "decision_guards s1 w ''U1'' Approve 0 = Inr y1"
    using demo_guards [OF f1 w(2,4-7) a1, of "''U1''"] y t1(3) w(3) by simp
  have wf1: "wf_inv s1" using i1 by (simp add: review_inv_def)
  obtain r2 s2 where s2: "decide s1 (demo_uuid 6) ''U1'' Approve ''k1'' 0 ''c'' ''c'' 200 (\<lambda>_. 500) = Inr (r2, s2)"
    using decide_ok [OF _ _ g1 wf1, of "demo_uuid 6" "''k1''" "''c''" "''c''" 200 "\<lambda>_. 500"] t1 w(1) by auto
  have i2: "review_inv s2" by (rule review_step_inv [OF review_step.decision [OF s2] i1])
  obtain x1 v1 where d1: "decision_taken s1 s2 v1 x1 ''U1'' Approve ''k1'' 200"
    using decide_taken [OF s2 wf1] t1(3) by auto
  note D1 = decision_takenD [OF d1]
  have v1: "v1 = w" using D1(1) t1(1) by simp
  have x1: "x1 = y1" using d1 g1 unfolding decision_taken_def v1 w(3) by simp
  let ?d1 = "new_decision (uuid4 s1) w y1 ''U1'' Approve ''k1'' 200"
  have o1: "decision_outcome s1 w y1 ''U1'' Approve ''k1'' 200 = Next 2"
  proof -
    have "policy_stage_get (with_decision s1 w y1 ''U1'' Approve ''k1'' 200) (demo_uuid 2) = Some (demo_stages ! 0)"
      by (simp add: policy_stage_get_def wf_frameD(3) [OF f1] demo_stages_def)
    moreover have "stage_approvals (with_decision s1 w y1 ''U1'' Approve ''k1'' 200) (demo_uuid 6) (st_id y1) \<noteq> []"
      by (simp add: stage_approvals_def w)
    ultimately have "satisfied (with_decision s1 w y1 ''U1'' Approve ''k1'' 200) w y1"
      by (simp add: satisfied_def stage_is_satisfied_def y w quorum_met_def demo_stages_def)
    moreover have "Suc (st_ordinal y1) \<in> st_ordinal ` wf_stages s1 w" using y w t1(2) by force
    ultimately show ?thesis by (simp add: decision_outcome_def outcome_of_def y(3))
  qed
  define w2 where "w2 = decided_workflow s1 w y1 ''U1'' Approve ''k1'' 200"
  have w2: "wf_id w2 = demo_uuid 6" "wf_state w2 = Waiting" "wf_revision w2 = 1" "wf_policy_version w2 = demo_uuid 1"
      "wf_review w2 = ''RC1''" "wf_org w2 = ''G1''" "wf_ws w2 = ''W1''"
    by (simp_all add: w2_def decided_workflow_def o1 w)
  have t2: "workflows s2 = [w2]" "workflow_decisions s2 = [?d1]"
    using D1(7,8) by (simp_all add: t1 v1 x1 w2_def)
  obtain h where h: "workflow_stages s2 = [h y1, h y2]" "st_static (h y1) = st_static y1"
      "st_static (h y2) = st_static y2" "st_state (h y1) = Completed" "st_state (h y2) = Active"
  proof -
    obtain h where "workflow_stages s2 = map h [y1, y2]" "\<forall>z \<in> {y1, y2}. st_static (h z) = st_static z \<and>
        st_state (h z) = moved_state (Next 2) w y1 z"
      using D1(9) unfolding stages_moved_def v1 x1 o1 t1(2) by auto
    then show thesis using y w by (intro that [of h]) (auto simp: moved_state_def)
  qed
  have a2: "active_stage s2 w2 = Some (h y2)"
    using h y by (simp add: active_stage_def stages_of_workflow_def w2 st_static_def)
  have f2: "wf_frame demo_review s2" using f1 D1(6) by (rule wf_frame_trans)
  have g2: "decision_guards s2 w2 ''A1'' Approve 1 = Inr (h y2)"
    using demo_guards [OF f2 w2(2,4-7) a2, of "''A1''"] h y t2(2) w2(3) by (simp add: st_static_def)
  have wf2: "wf_inv s2" using i2 by (simp add: review_inv_def)
  obtain r3 s3 where s3: "decide s2 (demo_uuid 6) ''A1'' Approve ''k2'' 1 ''c'' ''c'' 300 (\<lambda>_. 500) = Inr (r3, s3)"
    using decide_ok [OF _ _ g2 wf2, of "demo_uuid 6" "''k2''" "''c''" "''c''" 300 "\<lambda>_. 500"] t2 w2(1) by auto
  have i3: "review_inv s3" by (rule review_step_inv [OF review_step.decision [OF s3] i2])
  obtain x2 v2 where d2: "decision_taken s2 s3 v2 x2 ''A1'' Approve ''k2'' 300"
    using decide_taken [OF s3 wf2] t2(2) by auto
  note D2 = decision_takenD [OF d2]
  have v2: "v2 = w2" using D2(1) t2(1) by simp
  have x2: "x2 = h y2" using d2 g2 unfolding decision_taken_def v2 w2(3) by simp
  have o2: "decision_outcome s2 w2 (h y2) ''A1'' Approve ''k2'' 300 = Finish Approved"
  proof -
    have "policy_stage_get (with_decision s2 w2 (h y2) ''A1'' Approve ''k2'' 300) (demo_uuid 3) = Some (demo_stages ! 1)"
      by (simp add: policy_stage_get_def wf_frameD(3) [OF f2] demo_stages_def)
    moreover have "stage_approvals (with_decision s2 w2 (h y2) ''A1'' Approve ''k2'' 300) (demo_uuid 6) (st_id (h y2)) \<noteq> []"
      by (simp add: stage_approvals_def w2)
    moreover have "st_policy_stage (h y2) = demo_uuid 3" using h(3) y by (simp add: st_static_def)
    ultimately have "satisfied (with_decision s2 w2 (h y2) ''A1'' Approve ''k2'' 300) w2 (h y2)"
      by (simp add: satisfied_def stage_is_satisfied_def w2 quorum_met_def demo_stages_def)
    moreover have "Suc (st_ordinal (h y2)) \<notin> st_ordinal ` wf_stages s2 w2"
      using y h by (auto simp: st_static_def)
    ultimately show ?thesis by (simp add: decision_outcome_def outcome_of_def)
  qed
  define w3 where "w3 = decided_workflow s2 w2 (h y2) ''A1'' Approve ''k2'' 300"
  have w3: "wf_id w3 = demo_uuid 6" "wf_state w3 = Approved" "wf_review w3 = ''RC1''"
      "wf_policy_version w3 = demo_uuid 1"
    by (simp_all add: w3_def decided_workflow_def o2 w2)
  have t3: "workflows s3 = [w3]" "length (workflow_decisions s3) = 2"
    using D2(7,8) by (simp_all add: t2 v2 x2 w3_def)
  show thesis
    by (rule that [OF s1 i1 s2 i2 s3 i3 d1 [unfolded v1] d2 [unfolded v2] t1(1) t2(1) t3(1) w(1) w2(1) w3(1)
        w(2) w2(2) w3(2) t1(3) _ _ t3(2) w(3) w2(3) w3(3,4)
        wf_frame_trans [OF f2 D2(6)]]) (simp_all add: t2 t1)
qed

end
