(* ===== verification/Workflow_Claims.thy ===== *)
theory Workflow_Claims
  imports Workflow_Properties
begin

text \<open>
  The properties of the approval workflow: the invariant along every run, what an approved workflow
  implies, separation of duties, refinement of the abstract approval machine, replay and optimistic
  locking of decisions, finality of terminal states, the transactional outbox and escalation. The
  concrete run \<open>demo_run\<close> witnesses them.
\<close>

section \<open>Lemmas\<close>

lemma review_inv_wf: "review_inv s \<Longrightarrow> wf_inv s"
  by (simp add: review_inv_def)

lemma find_workflow:
  "wf_inv s \<Longrightarrow> w \<in> set (workflows s) \<Longrightarrow> find (\<lambda>x. wf_id x = wf_id w) (workflows s) = Some w"
  by (rule find_distinct_key) (simp_all add: wf_inv_def workflow_keys_def)

lemma find_decision_key:
  assumes "wf_inv s" and "d \<in> set (workflow_decisions s)"
  shows "find (\<lambda>e. wd_workflow e = wd_workflow d \<and> wd_idempotency_key e = wd_idempotency_key d)
    (workflow_decisions s) = Some d"
  using find_distinct_key [of "\<lambda>d. (wd_workflow d, wd_idempotency_key d)" "workflow_decisions s" d] assms
  by (simp add: wf_inv_def decision_keys_unique_def)

lemma review_reach_workflow:
  assumes "review_reach s t" and "review_inv s" and "w \<in> set (workflows s)" and "wf_state w \<noteq> Waiting"
  shows "w \<in> set (workflows t) \<and> stage_rows t (wf_id w) = stage_rows s (wf_id w) \<and>
    recorded_decisions t (wf_id w) = recorded_decisions s (wf_id w)"
  using assms(1)
proof induction
  case (step t t')
  then have "w \<in> set (workflows t)" "review_inv t" using review_reach_inv assms(2) by blast+
  then show ?case using review_step_workflow [OF step(2)] assms(4) step by metis
qed (use assms in simp)

lemma decide_unused_key:
  assumes "find (\<lambda>x. wf_id x = wid) (workflows s) = Some w"
    and "\<forall>d \<in> set (workflow_decisions s). \<not> (wd_workflow d = wid \<and> wd_idempotency_key d = key)"
    and "wf_revision w = rv \<and> wf_state w = Waiting \<Longrightarrow> False"
  shows "decide s wid u c key rv cid ctx now clock = Inl conflict"
proof -
  have "wf_id w = wid" using find_SomeD [OF assms(1)] by simp
  then have n: "find (\<lambda>d. wd_workflow d = wf_id w \<and> wd_idempotency_key d = key) (workflow_decisions s) = None"
    using assms(2) by (simp add: find_None_iff')
  have g: "(wf_revision w = rv \<and> wf_state w = Waiting) = False" using assms(3) by blast
  show ?thesis
    unfolding decide_def assms(1) some_or_simps bindR.simps n option.case decision_guards_def g require_simps ..
qed

lemma decide_replay:
  assumes i: "wf_inv s" and w: "w \<in> set (workflows s)" and d: "d \<in> set (workflow_decisions s)"
    and k: "wd_workflow d = wf_id w"
  shows "decide s (wf_id w) u c (wd_idempotency_key d) rv cid ctx now clock =
    (if u = wd_actor d \<and> c = wd_action d then Inr (workflow_snapshot_of s w, s) else Inl conflict)"
  using find_decision_key [OF i d]
  unfolding decide_def find_workflow [OF i w] some_or_simps bindR.simps k by auto

text \<open>A decision on a workflow that has ended is a repetition or a conflict.\<close>

lemma decide_closed:
  assumes i: "wf_inv s" and w: "w \<in> set (workflows s)" and closed: "wf_state w \<noteq> Waiting"
  shows "decide s (wf_id w) u c key rv cid ctx now clock =
    (if \<exists>d \<in> set (recorded_decisions s (wf_id w)). wd_idempotency_key d = key \<and> wd_actor d = u \<and> wd_action d = c
     then Inr (workflow_snapshot_of s w, s) else Inl conflict)"
proof (cases "\<exists>d \<in> set (workflow_decisions s). wd_workflow d = wf_id w \<and> wd_idempotency_key d = key")
  case True
  then obtain d where d: "d \<in> set (workflow_decisions s)" "wd_workflow d = wf_id w" "wd_idempotency_key d = key"
    by blast
  have u: "e = d" if "e \<in> set (workflow_decisions s)" "wd_workflow e = wf_id w" "wd_idempotency_key e = key" for e
    using find_decision_key [OF i d(1)] find_decision_key [OF i that(1)] d(2,3) that(2,3) by simp
  have "(\<exists>d \<in> set (recorded_decisions s (wf_id w)). wd_idempotency_key d = key \<and> wd_actor d = u \<and> wd_action d = c) \<longleftrightarrow>
      u = wd_actor d \<and> c = wd_action d"
    using d u unfolding recorded_decisions_def by fastforce
  then show ?thesis using decide_replay [OF i w d(1,2)] d(3) by simp
next
  case False
  then have "decide s (wf_id w) u c key rv cid ctx now clock = Inl conflict"
    using find_workflow [OF i w] closed by (intro decide_unused_key) auto
  then show ?thesis using False by (auto simp: recorded_decisions_def)
qed

lemma review_inv_stage:
  assumes "policy_inv s" and "ps \<in> set (stages_of s v)"
  shows "policy_stage_get s (ps_id ps) = Some ps"
proof -
  have "ps \<in> set (policy_stages s)" using assms(2) by (simp add: stages_of_def)
  then show ?thesis
    using assms(1) find_distinct_key [of ps_id "policy_stages s" ps]
    by (simp add: policy_stage_get_def policy_inv_def policy_keys_def)
qed

lemma approved_stages:
  assumes i: "review_inv t" and w: "w \<in> set (workflows t)" "wf_state w = Approved"
    and ps: "ps \<in> set (stages_of t (wf_policy_version w))"
  shows "\<exists>x \<in> set (workflow_stages t). st_workflow x = wf_id w \<and> st_policy_stage x = ps_id ps \<and>
    st_state x = Completed \<and> quorum_met ps (stage_approvals t (wf_id w) (st_id x))"
proof -
  have r: "phases_ok t w" "policy_linked t w" "completed_approved t w"
    using i w(1) by (simp_all add: review_inv_def wf_inv_def wf_row_inv_def)
  obtain v :: policy_version_row where "av_id v = wf_policy_version w"
      "(\<lambda>a. (vord a, vpol a)) ` sview t (wf_id w) = (\<lambda>ps. (ps_ordinal ps, ps_id ps)) ` set (stages_of t (av_id v))"
    using r(2) unfolding policy_linked_def by blast
  then have "(ps_ordinal ps, ps_id ps) \<in> (\<lambda>a. (vord a, vpol a)) ` sview t (wf_id w)" using ps by simp
  then obtain a where a: "a \<in> sview t (wf_id w)" "vpol a = ps_id ps" by auto
  have c: "vstate a = Completed" using r(1) a(1) w(2) by (simp add: phases_ok_def phase_ok_def)
  then obtain ps' where "policy_stage_get t (vpol a) = Some ps'"
      "quorum_met ps' (stage_approvals t (wf_id w) (vid a))"
    using r(3) a(1) w(2) by (auto simp: completed_approved_def)
  moreover have "policy_stage_get t (vpol a) = Some ps"
    using review_inv_stage [OF _ ps] i a(2) by (simp add: review_inv_def)
  ultimately show ?thesis using a c by (auto simp: sview_def view_of_def)
qed

lemma decision_taken_writes:
  assumes "decision_taken s s' w x u c k now"
  shows "\<exists>a e. audit_events s' = audit_events s @ [a] \<and> workflow_outbox s' = workflow_outbox s @ [e] \<and>
    ob_workflow e = wf_id w \<and> (ob_package_snapshot e \<noteq> None \<longleftrightarrow> terminal_state (wf_state (decided_workflow s w x u c k now)))"
proof -
  have d: "decided w x u c k now s s'" using assms by (simp add: decision_taken_def)
  then obtain a where a: "audit_events s' = audit_events s @ [a]" unfolding decided_def Let_def by blast
  obtain i cid key snap t where "workflow_outbox s' = workflow_outbox s @
      [new_outbox_row i (decided_workflow s w x u c k now) (decision_event (decided_workflow s w x u c k now)) cid key snap t]"
    "snap \<noteq> None \<longleftrightarrow> terminal_state (wf_state (decided_workflow s w x u c k now))"
    using d unfolding decided_def Let_def decided_workflow_def decision_outcome_def by blast
  then show ?thesis using a by (auto simp: new_outbox_row_def)
qed

lemma policy_has_stages:
  assumes "review_inv s" and "w \<in> set (workflows s)"
  shows "stages_of s (wf_policy_version w) \<noteq> []"
proof -
  have r: "phases_ok s w" "policy_linked s w"
    using assms by (simp_all add: review_inv_def wf_inv_def wf_row_inv_def)
  have "sview s (wf_id w) \<noteq> {}" using r(1) by (auto simp: phases_ok_def phase_ok_def)
  then show ?thesis using r(2) by (auto simp: policy_linked_def)
qed

lemma publishable_needs_approval: "publishable xs \<Longrightarrow> ps \<in> set xs \<Longrightarrow> \<not> quorum_met ps []"
  by (cases "ps_mode ps")
    (auto simp: publishable_def stage_ok_def quorum_met_def eligible_count_def card_eq_0_iff split: option.splits)

lemma policy_needs_approval:
  assumes "review_inv s" and "w \<in> set (workflows s)" and "ps \<in> set (stages_of s (wf_policy_version w))"
  shows "\<not> quorum_met ps []"
proof -
  have "policy_inv s" using assms(1) by (simp add: review_inv_def)
  moreover obtain v where "v \<in> set (policy_versions s)" "av_id v = wf_policy_version w" "av_status v = Published"
    using assms(1,2) by (auto simp: review_inv_def wf_inv_def wf_row_inv_def policy_linked_def)
  ultimately have "publishable (stages_of s (wf_policy_version w))"
    by (auto simp: policy_inv_def published_valid_def)
  then show ?thesis using assms(3) by (rule publishable_needs_approval)
qed

section \<open>Escalation\<close>

lemma insort_key_image: "(\<And>z. f (h z) = f z) \<Longrightarrow> insort_key f (h x) (map h xs) = map h (insort_key f x xs)"
  by (induction xs) auto

lemma sort_key_image: "(\<And>z. f (h z) = f z) \<Longrightarrow> sort_key f (map h xs) = map h (sort_key f xs)"
  by (induction xs) (simp_all add: insort_key_image)

lemma find_image: "(\<And>z. p (h z) = p z) \<Longrightarrow> find p (map h xs) = map_option h (find p xs)"
  by (induction xs) auto

definition mark :: "uuid \<Rightarrow> datetime \<Rightarrow> workflow_stage_row \<Rightarrow> workflow_stage_row" where
  "mark i now z = (if st_id z = i then z\<lparr>st_escalated_at := Some now\<rparr> else z)"

lemma mark_simps [simp]:
  "st_id (mark i now z) = st_id z" "st_workflow (mark i now z) = st_workflow z"
  "st_ordinal (mark i now z) = st_ordinal z" "st_state (mark i now z) = st_state z"
  "st_deadline_at (mark i now z) = st_deadline_at z"
  by (simp_all add: mark_def)

lemma mark_escalated: "st_escalated_at z \<noteq> None \<Longrightarrow> st_escalated_at (mark i now z) \<noteq> None"
  by (simp add: mark_def)

lemma active_stage_mark:
  assumes "workflow_stages s' = map (mark i now) (workflow_stages s)"
  shows "active_stage s' w = map_option (mark i now) (active_stage s w)"
  unfolding active_stage_def stages_of_workflow_def assms
  by (simp add: filter_map comp_def sort_key_image find_image)

lemma overdue_mark:
  assumes "workflow_stages s' = map (mark i now) (workflow_stages s)"
  shows "overdue_stage s now w = None \<Longrightarrow> overdue_stage s' now w = None"
    "overdue_stage s now w = Some x \<Longrightarrow> st_id x = i \<Longrightarrow> overdue_stage s' now w = None"
  unfolding overdue_stage_def active_stage_mark [OF assms]
  by (auto simp: mark_def split: option.splits if_splits)

lemma overdue_earlier: "overdue_stage s now w = None \<Longrightarrow> now' \<le> now \<Longrightarrow> overdue_stage s now' w = None"
  by (auto simp: overdue_stage_def split: option.splits if_splits)

lemma escalate_each_marks:
  assumes "escalate_each cid ctx now clock ws n s = Inr (m, s')"
    and "distinct (map st_id (workflow_stages s))"
  shows "(\<forall>w \<in> set ws. overdue_stage s' now w = None) \<and>
    (\<forall>w. overdue_stage s now w = None \<longrightarrow> overdue_stage s' now w = None)"
  using assms
proof (induction cid ctx now clock ws n s rule: escalate_each.induct)
  case (2 cid ctx now clock w ws n s)
  show ?case
  proof (cases "overdue_stage s now w")
    case None
    then show ?thesis using 2 by simp
  next
    case (Some x)
    then obtain s1 where s1: "escalate_stage cid ctx now clock w x s = Inr s1"
      and r: "escalate_each cid ctx now clock ws (n + 1) s1 = Inr (m, s')"
      using 2(3) by (auto simp: result_simps)
    have x: "x \<in> set (workflow_stages s)" using overdue_stageD [OF Some] active_stageD by blast
    have t: "workflow_stages s1 = map (mark (st_id x) now) (workflow_stages s)"
      using escalate_stage_rows [OF s1 x 2(4)] by (simp add: mark_def)
    then have "distinct (map st_id (workflow_stages s1))" using 2(4) by (simp add: comp_def)
    then show ?thesis
      using 2(2) [OF Some r] overdue_mark(1) [OF t] overdue_mark(2) [OF t Some HOL.refl] by simp
  qed
qed simp

lemma escalate_each_idle:
  "(\<forall>w \<in> set ws. overdue_stage s now w = None) \<Longrightarrow> escalate_each cid ctx now clock ws n s = Inr (n, s)"
  by (induction ws) simp_all

lemma escalation_candidates_frame:
  assumes "escalated s s'"
  shows "escalation_candidates s' = escalation_candidates s"
proof -
  have "workflows s' = workflows s" "review_cases s' = review_cases s" "wf_frame s s'"
    using assms by (simp_all add: escalated_def)
  then show ?thesis by (simp add: escalation_candidates_def agreement_is_active_def wf_frameD(4))
qed

section \<open>Properties\<close>

text \<open>
  C10: every operation of the coordinator, interleaved in any order with changes of the policies,
  keeps the review invariant: unique and fresh keys, referential links, stages numbered
  \<open>1..n\<close> with exactly one active stage while the workflow waits, the revision equal to the number
  of decisions, quorums behind every completed stage, duties separated and one terminal event.
\<close>

theorem review_invariant_preserved:
  assumes "review_reach s t" and "review_inv s"
  shows "review_inv t"
  using assms by (rule review_reach_inv)

lemma demo_no_workflows: "no_workflows demo_review"
  using demo_review_inv by (simp add: no_workflows_def review_inv_def demo_case_def)

lemma demo_approved_run:
  obtains t w where "review_reach demo_review t" "workflows t = [w]" "wf_state w = Approved"
    "length (workflow_decisions t) = 2" "review_inv t" "wf_review w = ''RC1''"
    "wf_policy_version w = demo_uuid 1" "wf_frame demo_review t"
proof (rule demo_run)
  fix r1 r2 r3 :: workflow_snapshot and s1 s2 s3 :: review_db and w w2 w3 :: workflow_row
    and x1 x2 :: workflow_stage_row
  assume st: "start_workflow demo_review ''RC1'' (demo_uuid 1) ''c'' ''c'' 100 (\<lambda>_. 500) = Inr (r1, s1)"
    and d1: "decide s1 (demo_uuid 6) ''U1'' Approve ''k1'' 0 ''c'' ''c'' 200 (\<lambda>_. 500) = Inr (r2, s2)"
    and d2: "decide s2 (demo_uuid 6) ''A1'' Approve ''k2'' 1 ''c'' ''c'' 300 (\<lambda>_. 500) = Inr (r3, s3)"
  have r: "review_reach demo_review s3"
    by (rule review_reach.step [OF review_reach.step [OF review_reach.step [OF review_reach.refl
      review_step.start [OF st]] review_step.decision [OF d1]] review_step.decision [OF d2]])
  assume s3: "review_inv s3" "workflows s3 = [w3]" "wf_state w3 = Approved" "length (workflow_decisions s3) = 2"
    "wf_review w3 = ''RC1''" "wf_policy_version w3 = demo_uuid 1" "wf_frame demo_review s3"
  show thesis by (rule that [OF r s3(2,3,4,1,5-7)])
qed

lemma review_invariant_preserved_witness: "\<exists>t :: review_db. review_inv t \<and> length (workflow_decisions t) = 2"
proof (rule demo_approved_run)
  fix t :: review_db and w
  assume r: "review_reach demo_review t" and l: "length (workflow_decisions t) = 2"
  have "review_inv t" using r demo_review_inv by (rule review_invariant_preserved)
  then show ?thesis using l by blast
qed

text \<open>
  C9: no approval without the whole policy: from a state in which no workflow was ever started,
  whenever a workflow is approved, every stage of its published policy has a completed stage row
  whose recorded approvals meet that stage's quorum.
\<close>

theorem approved_needs_every_stage:
  assumes "no_workflows s" and "review_reach s t"
    and "w \<in> set (workflows t)" and "wf_state w = Approved"
    and "ps \<in> set (stages_of t (wf_policy_version w))"
  shows "\<exists>x \<in> set (workflow_stages t). st_workflow x = wf_id w \<and> st_policy_stage x = ps_id ps \<and>
    st_state x = Completed \<and> quorum_met ps (stage_approvals t (wf_id w) (st_id x)) \<and>
    stage_approvals t (wf_id w) (st_id x) \<noteq> []"
proof -
  have i: "review_inv t" using review_reach_inv [OF assms(2) no_workflows_inv [OF assms(1)]] .
  then show ?thesis
    using approved_stages [OF i assms(3-5)] policy_needs_approval [OF i assms(3,5)] by metis
qed

lemma approved_needs_every_stage_witness:
  "\<exists>t :: review_db. \<exists>x \<in> set (workflow_stages t). st_state x = Completed \<and>
     stage_approvals t (st_workflow x) (st_id x) \<noteq> []"
proof (rule demo_approved_run)
  fix t :: review_db and w
  assume r: "review_reach demo_review t" and i: "review_inv t" and w: "workflows t = [w]" "wf_state w = Approved"
  then have win: "w \<in> set (workflows t)" by simp
  obtain ps where ps: "ps \<in> set (stages_of t (wf_policy_version w))"
    using policy_has_stages [OF i win] by (cases "stages_of t (wf_policy_version w)") auto
  from approved_needs_every_stage [OF demo_no_workflows r win w(2) ps] show ?thesis by metis
qed

text \<open>
  C11: separation of duties along every run: unless the policy version allows it, no approval of a
  workflow was given by the user who submitted the review, and no user approved two different
  stages of the same workflow.
\<close>

theorem approvals_separated:
  assumes "no_workflows s" and "review_reach s t" and "w \<in> set (workflows t)"
    and "v \<in> set (policy_versions t)" and "av_id v = wf_policy_version w"
    and "d \<in> set (workflow_decisions t)" and "wd_workflow d = wf_id w" and "wd_action d = Approve"
  shows "(av_submitter_may_approve v \<or> wd_actor d \<notin> rc_created_by ` {r \<in> set (review_cases t). rc_id r = wf_review w}) \<and>
    (av_allow_cross_stage_same_approver v \<or>
     {wd_stage d' | d'. d' \<in> set (workflow_decisions t) \<and> wd_workflow d' = wf_id w \<and>
        wd_action d' = Approve \<and> wd_actor d' = wd_actor d} = {wd_stage d})"
proof -
  have "duties_separated t w"
    using review_reach_inv [OF assms(2) no_workflows_inv [OF assms(1)]] assms(3)
    by (simp add: review_inv_def wf_inv_def wf_row_inv_def)
  then have d: "(av_submitter_may_approve v \<or>
           (\<forall>r \<in> set (review_cases t). rc_id r = wf_review w \<longrightarrow> wd_actor d \<noteq> rc_created_by r)) \<and>
        (av_allow_cross_stage_same_approver v \<or>
           (\<forall>d' \<in> set (workflow_decisions t). wd_workflow d' = wf_id w \<and> wd_action d' = Approve \<and>
              wd_actor d' = wd_actor d \<longrightarrow> wd_stage d' = wd_stage d))"
    using assms(4-8) unfolding duties_separated_def by blast
  then show ?thesis using assms(6-8) by blast
qed

lemma approvals_separated_witness:
  "\<exists>t :: review_db. \<exists>d \<in> set (workflow_decisions t). \<exists>w \<in> set (workflows t). wf_state w = Approved \<and>
     wd_workflow d = wf_id w \<and> wd_actor d \<noteq> ''B1''"
proof (rule demo_approved_run)
  fix t :: review_db and w
  assume r: "review_reach demo_review t" and i: "review_inv t" and w: "workflows t = [w]" "wf_state w = Approved"
    and rv: "wf_review w = ''RC1''" and pv: "wf_policy_version w = demo_uuid 1" and f: "wf_frame demo_review t"
  then have win: "w \<in> set (workflows t)" by simp
  obtain ps where ps: "ps \<in> set (stages_of t (wf_policy_version w))"
    using policy_has_stages [OF i win] by (cases "stages_of t (wf_policy_version w)") auto
  have "\<exists>x :: workflow_stage_row. stage_approvals t (wf_id w) (st_id x) \<noteq> []"
    using approved_stages [OF i win w(2) ps] policy_needs_approval [OF i win ps] by metis
  then obtain d where d: "d \<in> set (workflow_decisions t)" "wd_workflow d = wf_id w" "wd_action d = Approve"
    by (auto simp: stage_approvals_def filter_empty_conv)
  have v: "demo_version Published (Some 20) \<in> set (policy_versions t)"
    "av_id (demo_version Published (Some 20)) = wf_policy_version w"
    "\<not> av_submitter_may_approve (demo_version Published (Some 20))"
    by (simp_all add: wf_frameD(2) [OF f] pv demo_version_def)
  have "map case_static (review_cases t) = [case_static demo_case]"
    using wf_frameD(14) [OF f] by simp
  then obtain c where "review_cases t = [c]" "case_static c = case_static demo_case" by (auto simp: map_eq_Cons_conv)
  then have c: "c \<in> set (review_cases t)" "rc_id c = wf_review w" "rc_created_by c = ''B1''"
    by (simp_all add: case_static_def demo_case_def rv)
  from approvals_separated [OF demo_no_workflows r win v(1,2) d] v(3)
  have "wd_actor d \<notin> rc_created_by ` {r \<in> set (review_cases t). rc_id r = wf_review w}" by blast
  moreover have "rc_created_by c \<in> rc_created_by ` {r \<in> set (review_cases t). rc_id r = wf_review w}"
    using c(1,2) by (intro imageI) simp
  ultimately have "wd_actor d \<noteq> ''B1''" unfolding c(3) by (intro notI) simp
  then show ?thesis using d(1,2) w(2) win by (intro exI [of _ t] bexI [of _ d] bexI [of _ w] conjI)
qed

text \<open>
  C12: a committed decision implements the abstract approval machine: reading a workflow row as
  a stage number or a closing state, a decision that changes the database is exactly one abstract
  step for that action, where an approval satisfies the stage when the quorum is met by the
  approvals recorded so far together with this one.
\<close>

theorem decide_refines_approval:
  assumes "decide s wid u c key rv cid ctx now clock = Inr (r, s')" and "wf_inv s"
    and "workflow_decisions s' \<noteq> workflow_decisions s"
  shows "\<exists>w w' x. w \<in> set (workflows s) \<and> w' \<in> set (workflows s') \<and> wf_id w = wid \<and> wf_id w' = wid \<and>
    wf_revision w' = rv + 1 \<and> active_stage s w = Some x \<and>
    approval_step (card (sview s wid)) (satisfied (with_decision s w x u c key now) w x) c (approval_of w) =
      Some (approval_of w')"
proof -
  obtain w x where w: "wf_id w = wid" "wf_revision w = rv" and t: "decision_taken s s' w x u c key now"
    using decide_taken [OF assms(1,2)] assms(3) by auto
  note D = decision_takenD [OF t]
  have p: "phases_ok s w" using assms(2) D(1) by (simp add: wf_inv_def wf_row_inv_def)
  have x: "active_stage s w = Some x" using t unfolding decision_taken_def by (blast elim: decision_guardsD)
  show ?thesis
    using decision_taken_refines [OF t p] D(1,10) x w
    by (intro exI [of _ w] exI [of _ "decided_workflow s w x u c key now"] exI [of _ x]) simp
qed

lemma decide_refines_approval_witness:
  "\<exists>(s :: review_db) w x. active_stage s w = Some x \<and> approval_of w \<noteq> Closed Approved \<and>
     approval_step (card (sview s (demo_uuid 6))) (satisfied (with_decision s w x ''A1'' Approve ''k2'' 300) w x)
       Approve (approval_of w) = Some (Closed Approved)"
proof (rule demo_run)
  fix r3 :: workflow_snapshot and s1 s2 s3 :: review_db and w2 w3 :: workflow_row
  assume d: "decide s2 (demo_uuid 6) ''A1'' Approve ''k2'' 1 ''c'' ''c'' 300 (\<lambda>_. 500) = Inr (r3, s3)"
    and i: "review_inv s2" and w: "workflows s2 = [w2]" "workflows s3 = [w3]" "wf_state w2 = Waiting" "wf_state w3 = Approved"
    and l: "length (workflow_decisions s2) = 1" "length (workflow_decisions s3) = 2"
  have n: "workflow_decisions s3 \<noteq> workflow_decisions s2" using l by (metis numeral_One num.distinct(1) numeral_eq_iff)
  from decide_refines_approval [OF d review_inv_wf [OF i] n] obtain v v' x where v: "v \<in> set (workflows s2)"
    "v' \<in> set (workflows s3)" "active_stage s2 v = Some x" and st: "approval_step (card (sview s2 (demo_uuid 6)))
      (satisfied (with_decision s2 v x ''A1'' Approve ''k2'' 300) v x) Approve (approval_of v) = Some (approval_of v')"
    by blast
  have e: "v = w2" "v' = w3" using v(1,2) w(1,2) by auto
  have "approval_of w3 = Closed Approved" using w(4) by (simp add: approval_of_def)
  moreover have "approval_of w2 \<noteq> Closed Approved" using st unfolding e by (cases "approval_of w2") auto
  ultimately show ?thesis using st v(3) unfolding e by metis
qed

text \<open>
  C13: a decision is idempotent: after a decision with some key committed, sending it again (with any
  expected revision, correlation id and clock) answers with the snapshot and writes nothing, and the
  same key with another actor or another action is a conflict.
\<close>

theorem decide_idempotent:
  assumes "decide s wid u c key rv cid ctx now clock = Inr (r, s')" and "wf_inv s"
    and "distinct (map av_id (policy_versions s))"
  shows "\<exists>w. find (\<lambda>w. wf_id w = wid) (workflows s') = Some w \<and>
    decide s' wid u' c' key rv' cid' ctx' now' clock' =
      (if u' = u \<and> c' = c then Inr (workflow_snapshot_of s' w, s') else Inl conflict)"
proof -
  have i': "wf_inv s'" using decide_inv [OF assms] .
  have "\<exists>d \<in> set (workflow_decisions s'). wd_workflow d = wid \<and> wd_idempotency_key d = key \<and>
      wd_actor d = u \<and> wd_action d = c"
    using decide_taken [OF assms(1,2)] decision_takenD(7) by fastforce
  then obtain d where d: "d \<in> set (workflow_decisions s')" "wd_workflow d = wid" "wd_idempotency_key d = key"
      "wd_actor d = u" "wd_action d = c" by blast
  then have "wid \<in> wf_id ` set (workflows s')" using i' by (auto simp: wf_inv_def workflow_links_def)
  then obtain w where w: "w \<in> set (workflows s')" "wf_id w = wid" by auto
  have "decide s' wid u' c' key rv' cid' ctx' now' clock' =
      (if u' = u \<and> c' = c then Inr (workflow_snapshot_of s' w, s') else Inl conflict)"
    using decide_replay [OF i' w(1) d(1)] w(2) d by simp
  moreover have "find (\<lambda>w. wf_id w = wid) (workflows s') = Some w" using find_workflow [OF i' w(1)] w(2) by simp
  ultimately show ?thesis by blast
qed

lemma decide_idempotent_witness:
  "\<exists>s :: review_db. decide s (demo_uuid 6) ''U1'' Reject ''k1'' 0 ''c'' ''c'' 900 (\<lambda>_. 500) = Inl conflict"
proof (rule demo_run)
  fix r2 :: workflow_snapshot and s1 s2 :: review_db
  assume d: "decide s1 (demo_uuid 6) ''U1'' Approve ''k1'' 0 ''c'' ''c'' 200 (\<lambda>_. 500) = Inr (r2, s2)"
    and i: "review_inv s1"
  have "distinct (map av_id (policy_versions s1))"
    using i by (simp add: review_inv_def policy_inv_def policy_keys_def)
  from decide_idempotent [OF d review_inv_wf [OF i] this, of "''U1''" Reject 0 "''c''" "''c''" 900 "\<lambda>_. 500"]
  show ?thesis by auto
qed

text \<open>
  C14: optimistic locking: when two decisions were prepared against the same revision and one of them
  commits, the other one, sent under another key, is refused with a conflict, whoever sends it.
\<close>

theorem stale_revision_refused:
  assumes "decide s wid u c key rv cid ctx now clock = Inr (r, s')" and "wf_inv s"
    and "workflow_decisions s' \<noteq> workflow_decisions s"
    and "key' \<notin> wd_idempotency_key ` set (workflow_decisions s')"
  shows "decide s' wid u' c' key' rv cid' ctx' now' clock' = Inl conflict"
proof -
  obtain w x where w: "wf_id w = wid" "wf_revision w = rv" and t: "decision_taken s s' w x u c key now"
    using decide_taken [OF assms(1,2)] assms(3) by auto
  note D = decision_takenD [OF t]
  obtain y where y: "find (\<lambda>x. wf_id x = wid) (workflows s') = Some y"
    using D(10) w(1) by (cases "find (\<lambda>x. wf_id x = wid) (workflows s')") (auto simp: find_None_iff')
  have "y \<in> set (workflows s')" "wf_id y = wid" using find_SomeD [OF y] by auto
  then have "wf_revision y = rv + 1" using D(10) w by auto
  then show ?thesis using assms(4) by (intro decide_unused_key [OF y]) auto
qed

lemma stale_revision_refused_witness:
  "\<exists>s :: review_db. decide s (demo_uuid 6) ''A1'' Reject ''k9'' 0 ''c'' ''c'' 900 (\<lambda>_. 500) = Inl conflict"
proof (rule demo_run)
  fix r2 :: workflow_snapshot and s1 s2 :: review_db and w :: workflow_row and x1
  assume d: "decide s1 (demo_uuid 6) ''U1'' Approve ''k1'' 0 ''c'' ''c'' 200 (\<lambda>_. 500) = Inr (r2, s2)"
    and i: "review_inv s1" and n: "workflow_decisions s2 \<noteq> workflow_decisions s1" "workflow_decisions s1 = []"
    and t: "decision_taken s1 s2 w x1 ''U1'' Approve ''k1'' 200"
  have "''k9'' \<notin> wd_idempotency_key ` set (workflow_decisions s2)"
    using decision_takenD(7) [OF t] n(2) by simp
  from stale_revision_refused [OF d review_inv_wf [OF i] n(1) this] show ?thesis by blast
qed

text \<open>
  C15: terminal states are final: along every run, a workflow that is approved, rejected or sent back
  keeps its row, its stage rows and its decisions, every column of them. A later request is a
  conflict, except the repetition of a decision of the workflow by its actor under its key, which is
  answered with the snapshot of the workflow and writes nothing.
\<close>

theorem terminal_is_final:
  assumes "review_reach s t" and "review_inv s" and "w \<in> set (workflows s)" and "wf_state w \<noteq> Waiting"
  shows "w \<in> set (workflows t) \<and> stage_rows t (wf_id w) = stage_rows s (wf_id w) \<and>
    recorded_decisions t (wf_id w) = recorded_decisions s (wf_id w) \<and>
    decide t (wf_id w) u c key rv cid ctx now clock =
      (if \<exists>d \<in> set (recorded_decisions s (wf_id w)). wd_idempotency_key d = key \<and> wd_actor d = u \<and> wd_action d = c
       then Inr (workflow_snapshot_of t w, t) else Inl conflict)"
proof -
  have w: "w \<in> set (workflows t)" "stage_rows t (wf_id w) = stage_rows s (wf_id w)"
    "recorded_decisions t (wf_id w) = recorded_decisions s (wf_id w)"
    using review_reach_workflow [OF assms] by blast+
  have i: "wf_inv t" using review_reach_inv [OF assms(1,2)] by (rule review_inv_wf)
  have "decide t (wf_id w) u c key rv cid ctx now clock =
      (if \<exists>d \<in> set (recorded_decisions t (wf_id w)). wd_idempotency_key d = key \<and> wd_actor d = u \<and> wd_action d = c
       then Inr (workflow_snapshot_of t w, t) else Inl conflict)"
    by (rule decide_closed [OF i w(1) assms(4)])
  then show ?thesis using w by simp
qed

lemma terminal_is_final_witness:
  "\<exists>(t :: review_db) (w :: workflow_row). wf_state w = Approved \<and>
     decide t (wf_id w) ''A1'' Reject ''k9'' 2 ''c'' ''c'' 900 (\<lambda>_. 500) = Inl conflict \<and>
     decide t (wf_id w) ''A1'' Approve ''k2'' 9 ''c'' ''c'' 900 (\<lambda>_. 500) = Inr (workflow_snapshot_of t w, t)"
proof (rule demo_run)
  fix s2 s3 :: review_db and w2 w3 :: workflow_row and x2 w x1 s1
  assume w: "workflows s3 = [w3]" "wf_state w3 = Approved" and i: "review_inv s3"
    and n: "workflow_decisions s1 = []"
    and t: "decision_taken s1 s2 w x1 ''U1'' Approve ''k1'' 200"
      "decision_taken s2 s3 w2 x2 ''A1'' Approve ''k2'' 300"
  have ds: "workflow_decisions s3 = [new_decision (uuid4 s1) w x1 ''U1'' Approve ''k1'' 200,
      new_decision (uuid4 s2) w2 x2 ''A1'' Approve ''k2'' 300]"
    using decision_takenD(7) [OF t(1)] decision_takenD(7) [OF t(2)] n by simp
  have "w3 \<in> set (workflows s3)" "wf_state w3 \<noteq> Waiting" using w by simp_all
  note f = terminal_is_final [OF review_reach.refl i this, where cid = "''c''" and ctx = "''c''" and now = 900 and
      clock = "\<lambda>_. 500"]
  have "wf_id w2 = wf_id w3"
    using decision_takenD(10) [OF t(2)] w(1) by (auto dest: arg_cong [where f = "\<lambda>A. wf_id ` A"])
  then have "decide s3 (wf_id w3) ''A1'' Reject ''k9'' 2 ''c'' ''c'' 900 (\<lambda>_. 500) = Inl conflict"
    "decide s3 (wf_id w3) ''A1'' Approve ''k2'' 9 ''c'' ''c'' 900 (\<lambda>_. 500) = Inr (workflow_snapshot_of s3 w3, s3)"
    using f [where u = "''A1''" and c = Reject and key = "''k9''" and rv = 2]
      f [where u = "''A1''" and c = Approve and key = "''k2''" and rv = 9]
    by (simp_all add: recorded_decisions_def ds)
  then show ?thesis using w(2) by (intro exI conjI)
qed

text \<open>
  A decision that passes the guards is never lost: in every reachable state, when the key is new
  and the guards hold, the decision commits; the commit answers with the snapshot of the new row and
  raises the revision by one.
\<close>

theorem decide_commits:
  assumes "review_inv s" and "find (\<lambda>w. wf_id w = wid) (workflows s) = Some w"
    and "key \<notin> wd_idempotency_key ` set (workflow_decisions s)"
    and "decision_guards s w u c rv = Inr x"
  shows "\<exists>r s'. decide s wid u c key rv cid ctx now clock = Inr (r, s') \<and>
    workflow_decisions s' = workflow_decisions s @ [new_decision (uuid4 s) w x u c key now] \<and>
    wf_revision ` {w' \<in> set (workflows s'). wf_id w' = wid} = {rv + 1}"
proof -
  have k: "\<forall>d \<in> set (workflow_decisions s). \<not> (wd_workflow d = wid \<and> wd_idempotency_key d = key)"
    using assms(3) by blast
  have i: "wf_inv s" using assms(1) by (rule review_inv_wf)
  obtain r s' where d: "decide s wid u c key rv cid ctx now clock = Inr (r, s')"
    using decide_ok [OF assms(2) k assms(4) i] by blast
  obtain w' x' where w': "wf_id w' = wid" "wf_revision w' = rv" and t: "decision_taken s s' w' x' u c key now"
    using decide_taken [OF d i] k by blast
  note D = decision_takenD [OF t]
  have "w' = w" using find_workflow [OF i D(1)] assms(2) w'(1) by simp
  moreover have "x' = x" using t assms(4) w'(2) calculation by (simp add: decision_taken_def)
  moreover have "wf_revision ` {w' \<in> set (workflows s'). wf_id w' = wid} = {rv + 1}"
  proof -
    have "{y \<in> set (workflows s'). wf_id y = wid} = {decided_workflow s w' x' u c key now}"
      unfolding D(10) using w'(1) by auto
    then show ?thesis using w'(2) by simp
  qed
  ultimately show ?thesis using d D(7) by blast
qed

lemma decide_commits_witness:
  "\<exists>(s :: review_db) r (s' :: review_db). decide s (demo_uuid 6) ''U1'' Approve ''k1'' 0 ''c'' ''c'' 200 (\<lambda>_. 500) = Inr (r, s') \<and>
     workflow_decisions s' \<noteq> []"
proof (rule demo_run)
  fix s1 s2 :: review_db and w :: workflow_row and x1
  assume w: "workflows s1 = [w]" "wf_id w = demo_uuid 6" "wf_revision w = 0" and i: "review_inv s1"
    and t: "decision_taken s1 s2 w x1 ''U1'' Approve ''k1'' 200" and n: "workflow_decisions s1 = []"
  have g: "decision_guards s1 w ''U1'' Approve 0 = Inr x1" using t w(3) by (simp add: decision_taken_def)
  have f: "find (\<lambda>w. wf_id w = demo_uuid 6) (workflows s1) = Some w" using w by simp
  have k: "''k1'' \<notin> wd_idempotency_key ` set (workflow_decisions s1)" using n by simp
  from decide_commits [OF i f k g, of "''c''" "''c''" 200 "\<lambda>_. 500"] obtain r s' where
    "decide s1 (demo_uuid 6) ''U1'' Approve ''k1'' 0 ''c'' ''c'' 200 (\<lambda>_. 500) = Inr (r, s')"
    "workflow_decisions s' = workflow_decisions s1 @ [new_decision (uuid4 s1) w x1 ''U1'' Approve ''k1'' 200]"
    by blast
  then show ?thesis by (intro exI [of _ s1] exI [of _ r] exI [of _ s']) simp
qed

text \<open>
  The outbox is transactional: a decision either leaves the whole database as it was or appends
  exactly one decision, one entry of the audit ledger and one outbox event of that workflow, and
  the event carries a package snapshot exactly when the workflow ended.
\<close>

theorem decide_all_or_nothing:
  assumes "decide s wid u c key rv cid ctx now clock = Inr (r, s')" and "wf_inv s"
  shows "s' = s \<or> (\<exists>d a e w. workflow_decisions s' = workflow_decisions s @ [d] \<and>
    audit_events s' = audit_events s @ [a] \<and> workflow_outbox s' = workflow_outbox s @ [e] \<and>
    wd_workflow d = wid \<and> wd_actor d = u \<and> wd_action d = c \<and> ob_workflow e = wid \<and>
    w \<in> set (workflows s') \<and> wf_id w = wid \<and> (ob_package_snapshot e \<noteq> None \<longleftrightarrow> terminal_state (wf_state w)))"
  using decide_taken [OF assms]
proof
  assume "\<exists>w x. wf_id w = wid \<and> wf_revision w = rv \<and> decision_taken s s' w x u c key now"
  then obtain w x where w: "wf_id w = wid" and t: "decision_taken s s' w x u c key now" by blast
  obtain a e where "audit_events s' = audit_events s @ [a]" "workflow_outbox s' = workflow_outbox s @ [e]"
    "ob_workflow e = wf_id w"
    "ob_package_snapshot e \<noteq> None \<longleftrightarrow> terminal_state (wf_state (decided_workflow s w x u c key now))"
    using decision_taken_writes [OF t] by blast
  moreover have "decided_workflow s w x u c key now \<in> set (workflows s')"
    using decision_takenD(10) [OF t] by simp
  ultimately show ?thesis
    using decision_takenD(7) [OF t] w
    by (intro disjI2 exI [of _ "new_decision (uuid4 s) w x u c key now"] exI [of _ a] exI [of _ e]
        exI [of _ "decided_workflow s w x u c key now"]) simp
qed simp

lemma decide_all_or_nothing_witness:
  "\<exists>(s2 :: review_db) (s3 :: review_db) e w. workflow_outbox s3 = workflow_outbox s2 @ [e] \<and> w \<in> set (workflows s3) \<and>
     wf_state w = Approved \<and> ob_package_snapshot e \<noteq> None"
proof (rule demo_run)
  fix r3 :: workflow_snapshot and s2 s3 :: review_db and w3 :: workflow_row
  assume d: "decide s2 (demo_uuid 6) ''A1'' Approve ''k2'' 1 ''c'' ''c'' 300 (\<lambda>_. 500) = Inr (r3, s3)"
    and i: "review_inv s2" and w: "workflows s3 = [w3]" "wf_state w3 = Approved"
    and l: "length (workflow_decisions s2) = 1" "length (workflow_decisions s3) = 2"
  have n: "s3 \<noteq> s2" using l by (metis numeral_One num.distinct(1) numeral_eq_iff)
  from decide_all_or_nothing [OF d review_inv_wf [OF i]] n obtain e y where
    "workflow_outbox s3 = workflow_outbox s2 @ [e]" "y \<in> set (workflows s3)"
    "ob_package_snapshot e \<noteq> None \<longleftrightarrow> terminal_state (wf_state y)" by metis
  then have "workflow_outbox s3 = workflow_outbox s2 @ [e] \<and> w3 \<in> set (workflows s3) \<and>
      wf_state w3 = Approved \<and> ob_package_snapshot e \<noteq> None"
    using w by (auto simp: terminal_state_def)
  then show ?thesis by (intro exI)
qed

text \<open>
  An overdue stage is escalated once: after an escalation run, a run at the same or an earlier
  time escalates nothing and leaves the database as it is.
\<close>

theorem escalate_once:
  assumes "escalate_overdue s cid ctx now clock = Inr (n, s')" and "wf_inv s" and "now' \<le> now"
  shows "escalate_overdue s' cid' ctx' now' clock' = Inr (0, s')"
proof -
  have e: "escalated s s'" using escalate_overdue_escalated [OF assms(1,2)] .
  have "distinct (map st_id (workflow_stages s))" using assms(2) by (simp add: wf_inv_def workflow_keys_def)
  then have "\<forall>w \<in> set (escalation_candidates s). overdue_stage s' now w = None"
    using escalate_each_marks assms(1) unfolding escalate_overdue_def by blast
  then have "\<forall>w \<in> set (escalation_candidates s). overdue_stage s' now' w = None"
    using overdue_earlier assms(3) by blast
  then show ?thesis
    unfolding escalate_overdue_def escalation_candidates_frame [OF e] by (rule escalate_each_idle)
qed

lemma escalate_stage_total: "\<exists>s'. escalate_stage cid ctx now clock w x s = Inr s'"
  by (simp add: escalate_stage_def emit_def Let_def)

lemma escalate_each_total: "\<exists>m s'. escalate_each cid ctx now clock ws n s = Inr (m, s')"
proof (induction cid ctx now clock ws n s rule: escalate_each.induct)
  case (2 cid ctx now clock w ws n s)
  show ?case
  proof (cases "overdue_stage s now w")
    case (Some x)
    obtain s1 where "escalate_stage cid ctx now clock w x s = Inr s1"
      using escalate_stage_total [of cid ctx now clock w x s] by blast
    then show ?thesis using 2(2) [OF Some] Some by simp
  qed (use 2 in simp)
qed simp

lemma escalate_once_witness:
  "\<exists>s' :: review_db. escalate_overdue s' ''d'' ''d'' 700 (\<lambda>_. 500) = Inr (0, s')"
proof (rule demo_run)
  fix s1 :: review_db
  assume "review_inv s1"
  then have i: "wf_inv s1" by (rule review_inv_wf)
  have "\<exists>n s'. escalate_overdue s1 ''c'' ''c'' 700 (\<lambda>_. 500) = Inr (n, s')"
    unfolding escalate_overdue_def by (rule escalate_each_total)
  then show ?thesis
  proof (elim exE)
    fix n s' assume e: "escalate_overdue s1 ''c'' ''c'' 700 (\<lambda>_. 500) = Inr (n, s')"
    have "escalate_overdue s' ''d'' ''d'' 700 (\<lambda>_. 500) = Inr (0, s')"
      by (rule escalate_once [OF e i]) simp
    then show ?thesis by (rule exI)
  qed
qed

end
