(* ===== verification/Workflow_Dispatch.thy ===== *)
theory Workflow_Dispatch
  imports Workflow_Properties
begin

text \<open>
  The two dispatchers of the workflow outbox (\<open>reviews/workflow.py\<close>): one persists a checkpoint per
  event, one publishes the event to a queue. Both take the pending events of active agreements in
  order, hand over one after the other, mark and commit each one that was accepted and stop at the
  first failure. The checkpointer and the publisher are code outside the repository: a sink is a
  partial function on its own state, undefined where the call raises.
\<close>

section \<open>The dispatch loop\<close>

definition deliverable :: "'z review_db_scheme \<Rightarrow> outbox_row \<Rightarrow> bool" where
  "deliverable s e \<longleftrightarrow> ob_delivered_at e = None \<and>
     exists_row (\<lambda>w. wf_id w = ob_workflow e \<and>
       exists_row (\<lambda>r. rc_id r = wf_review w \<and> agreement_is_active s (rc_agreement r)) (review_cases s))
       (workflows s)"

definition pending_events :: "'z review_db_scheme \<Rightarrow> outbox_row list" where
  "pending_events s = sort_key (\<lambda>e. (ob_created_at e, ob_id e)) (filter (deliverable s) (workflow_outbox s))"

definition mark_delivered :: "datetime \<Rightarrow> uuid \<Rightarrow> 'z review_db_scheme \<Rightarrow> 'z review_db_scheme" where
  "mark_delivered now i s = s\<lparr>workflow_outbox :=
     update_where (\<lambda>e. ob_id e = i) (\<lambda>e. e\<lparr>ob_delivered_at := Some now\<rparr>) (workflow_outbox s)\<rparr>"

fun deliver_each ::
  "('p \<Rightarrow> outbox_row \<Rightarrow> 'p option) \<Rightarrow> (uuid \<Rightarrow> datetime) \<Rightarrow> outbox_row list \<Rightarrow> nat \<Rightarrow> 'p
   \<Rightarrow> 'z review_db_scheme \<Rightarrow> nat \<times> 'p \<times> 'z review_db_scheme" where
  "deliver_each sink clock [] delivered p s = (delivered, p, s)"
| "deliver_each sink clock (e # es) delivered p s =
     (case sink p e of
        None \<Rightarrow> (delivered, p, s)
      | Some p' \<Rightarrow> deliver_each sink clock es (delivered + 1) p' (mark_delivered (clock (ob_id e)) (ob_id e) s))"

definition dispatch_checkpoints ::
  "('p \<Rightarrow> uuid \<Rightarrow> uuid \<Rightarrow> string \<Rightarrow> 'p option) \<Rightarrow> (uuid \<Rightarrow> datetime) \<Rightarrow> nat \<Rightarrow> 'p
   \<Rightarrow> 'z review_db_scheme \<Rightarrow> nat \<times> 'p \<times> 'z review_db_scheme" where
  "dispatch_checkpoints persist clock limit p s =
     deliver_each (\<lambda>p e. case find (\<lambda>w. wf_id w = ob_workflow e) (workflows s) of
         None \<Rightarrow> None
       | Some w \<Rightarrow> persist p (wf_checkpoint w) (wf_id w) (ob_event_type e))
       clock (take limit (pending_events s)) 0 p s"

definition dispatch_queue ::
  "bool \<Rightarrow> ('p \<Rightarrow> outbox_row \<Rightarrow> 'p option) \<Rightarrow> (uuid \<Rightarrow> datetime) \<Rightarrow> nat \<Rightarrow> 'p
   \<Rightarrow> 'z review_db_scheme \<Rightarrow> nat \<times> 'p \<times> 'z review_db_scheme" where
  "dispatch_queue configured publish clock limit p s =
     (if \<not> configured then (0, p, s)
      else deliver_each publish clock (take limit (pending_events s)) 0 p s)"

section \<open>What a dispatch does\<close>

lemma mark_delivered_tables [simp]:
  "workflows (mark_delivered t i s) = workflows s" "review_cases (mark_delivered t i s) = review_cases s"
  "agreements (mark_delivered t i s) = agreements s"
  by (simp_all add: mark_delivered_def)

lemma deliverable_mark: "deliverable (mark_delivered t i s) e \<longleftrightarrow> deliverable s e"
  by (simp add: deliverable_def agreement_is_active_def)

lemma pending_mark:
  "pending_events (mark_delivered t i s) = filter (\<lambda>e. ob_id e \<noteq> i) (pending_events s)"
proof -
  have "filter (deliverable (mark_delivered t i s)) (workflow_outbox (mark_delivered t i s)) =
      filter (\<lambda>e. ob_id e \<noteq> i) (filter (deliverable s) (workflow_outbox s))"
  proof -
    have "filter (deliverable s) (update_where (\<lambda>e. ob_id e = i) (\<lambda>e. e\<lparr>ob_delivered_at := Some t\<rparr>) xs) =
        filter (\<lambda>e. ob_id e \<noteq> i) (filter (deliverable s) xs)" for xs
      by (induction xs) (auto simp: deliverable_def)
    then show ?thesis unfolding deliverable_mark by (simp add: mark_delivered_def fun_eq_iff)
  qed
  then show ?thesis unfolding pending_events_def by (simp add: filter_sort)
qed

text \<open>The events handed over are marked and leave the queue; everything else stays.\<close>

lemma deliver_each_effect:
  assumes "deliver_each sink clock es n p s = (m, p', s')" and "distinct (map ob_id es)"
  shows "\<exists>k \<le> length es. m = n + k \<and>
    fold (\<lambda>e acc. case acc of None \<Rightarrow> None | Some q \<Rightarrow> sink q e) (take k es) (Some p) = Some p' \<and>
    (k < length es \<longrightarrow> sink p' (es ! k) = None) \<and>
    pending_events s' = filter (\<lambda>e. ob_id e \<notin> ob_id ` set (take k es)) (pending_events s) \<and>
    map (\<lambda>e. e\<lparr>ob_delivered_at := None\<rparr>) (workflow_outbox s') =
      map (\<lambda>e. e\<lparr>ob_delivered_at := None\<rparr>) (workflow_outbox s)"
  using assms
proof (induction sink clock es n p s rule: deliver_each.induct)
  case (2 sink clock e es n p s)
  show ?case
  proof (cases "sink p e")
    case None
    then show ?thesis using 2(2) by (intro exI [of _ 0]) simp
  next
    case (Some q)
    let ?s = "mark_delivered (clock (ob_id e)) (ob_id e) s"
    obtain k where k: "k \<le> length es" "m = n + 1 + k"
      "fold (\<lambda>e acc. case acc of None \<Rightarrow> None | Some q \<Rightarrow> sink q e) (take k es) (Some q) = Some p'"
      "k < length es \<longrightarrow> sink p' (es ! k) = None"
      "pending_events s' = filter (\<lambda>e. ob_id e \<notin> ob_id ` set (take k es)) (pending_events ?s)"
      "map (\<lambda>e. e\<lparr>ob_delivered_at := None\<rparr>) (workflow_outbox s') =
        map (\<lambda>e. e\<lparr>ob_delivered_at := None\<rparr>) (workflow_outbox ?s)"
      using 2(1) [OF Some] 2(2,3) Some by auto
    have "map (\<lambda>e. e\<lparr>ob_delivered_at := None\<rparr>) (workflow_outbox ?s) =
        map (\<lambda>e. e\<lparr>ob_delivered_at := None\<rparr>) (workflow_outbox s)"
      by (simp add: mark_delivered_def map_update_where)
    then show ?thesis
      using k Some by (intro exI [of _ "Suc k"]) (simp add: pending_mark conj_commute)
  qed
qed simp

lemma filter_not_taken:
  assumes "distinct (map f xs)"
  shows "filter (\<lambda>x. f x \<notin> f ` set (take k xs)) xs = drop k xs"
proof -
  have "filter (\<lambda>x. f x \<notin> f ` set (take k xs)) (take k xs @ drop k xs) = drop k xs"
  proof -
    have "distinct (map f (take k xs @ drop k xs))" using assms by simp
    then have "f ` set (take k xs) \<inter> f ` set (drop k xs) = {}" unfolding map_append distinct_append by simp
    then have "filter (\<lambda>x. f x \<notin> f ` set (take k xs)) (drop k xs) = drop k xs"
      by (intro filter_True) blast
    then show ?thesis by (simp add: filter_empty_conv del: append_take_drop_id)
  qed
  then show ?thesis unfolding append_take_drop_id .
qed

definition outbox_keys_unique :: "'z review_db_scheme \<Rightarrow> bool" where
  "outbox_keys_unique s \<longleftrightarrow> distinct (map ob_id (workflow_outbox s))"

lemma pending_distinct: "outbox_keys_unique s \<Longrightarrow> distinct (map ob_id (pending_events s))"
proof -
  assume u: "outbox_keys_unique s"
  have "distinct (map ob_id (filter (deliverable s) (workflow_outbox s)))"
    using u unfolding outbox_keys_unique_def by (rule distinct_map_filter)
  then show ?thesis by (simp add: pending_events_def distinct_map)
qed

lemma deliver_prefix:
  assumes "deliver_each sink clock (take limit (pending_events s)) 0 p s = (m, p', s')"
    and "outbox_keys_unique s"
  shows "m \<le> limit" "pending_events s' = drop m (pending_events s)"
    "fold (\<lambda>e acc. case acc of None \<Rightarrow> None | Some q \<Rightarrow> sink q e) (take m (pending_events s)) (Some p) = Some p'"
    "m < limit \<and> m < length (pending_events s) \<Longrightarrow> sink p' (pending_events s ! m) = None"
    "outbox_keys_unique s'"
proof -
  let ?es = "take limit (pending_events s)"
  have d: "distinct (map ob_id ?es)"
    using pending_distinct [OF assms(2)] by (simp add: take_map [symmetric])
  obtain k where k: "k \<le> length ?es" "m = 0 + k"
    "fold (\<lambda>e acc. case acc of None \<Rightarrow> None | Some q \<Rightarrow> sink q e) (take k ?es) (Some p) = Some p'"
    "k < length ?es \<longrightarrow> sink p' (?es ! k) = None"
    "pending_events s' = filter (\<lambda>e. ob_id e \<notin> ob_id ` set (take k ?es)) (pending_events s)"
    "map (\<lambda>e. e\<lparr>ob_delivered_at := None\<rparr>) (workflow_outbox s') =
      map (\<lambda>e. e\<lparr>ob_delivered_at := None\<rparr>) (workflow_outbox s)"
    using deliver_each_effect [OF assms(1) d] by blast
  have t: "take k ?es = take m (pending_events s)" using k(1,2) by (simp add: min_absorb1)
  show "m \<le> limit" using k(1,2) by simp
  show "pending_events s' = drop m (pending_events s)"
    unfolding k(5) t by (rule filter_not_taken [OF pending_distinct [OF assms(2)]])
  show "fold (\<lambda>e acc. case acc of None \<Rightarrow> None | Some q \<Rightarrow> sink q e) (take m (pending_events s)) (Some p) = Some p'"
    using k(3) unfolding t .
  show "sink p' (pending_events s ! m) = None" if "m < limit \<and> m < length (pending_events s)"
    using k(2,4) that by simp
  have "map ob_id (workflow_outbox s') = map ob_id (workflow_outbox s)"
    using arg_cong [OF k(6), of "map ob_id"] by (simp add: comp_def)
  then show "outbox_keys_unique s'" using assms(2) by (simp add: outbox_keys_unique_def)
qed

section \<open>Draining\<close>

fun dispatch_rounds ::
  "nat \<Rightarrow> ('p \<Rightarrow> outbox_row \<Rightarrow> 'p option) \<Rightarrow> (uuid \<Rightarrow> datetime) \<Rightarrow> nat \<Rightarrow> 'p \<Rightarrow> 'z review_db_scheme
   \<Rightarrow> 'p \<times> 'z review_db_scheme" where
  "dispatch_rounds 0 publish clock limit p s = (p, s)"
| "dispatch_rounds (Suc n) publish clock limit p s =
     (case dispatch_queue True publish clock limit p s of (m, p', s') \<Rightarrow>
        dispatch_rounds n publish clock limit p' s')"

lemma dispatch_round_shrinks:
  assumes "\<And>q e. publish q e \<noteq> None" and "0 < limit" and "outbox_keys_unique s"
    and "dispatch_queue True publish clock limit p s = (m, p', s')"
  shows "length (pending_events s') \<le> length (pending_events s) - 1 \<and> outbox_keys_unique s'"
proof -
  have d: "deliver_each publish clock (take limit (pending_events s)) 0 p s = (m, p', s')"
    using assms(4) by (simp add: dispatch_queue_def)
  note P = deliver_prefix [OF d assms(3)]
  have "\<not> (m < limit \<and> m < length (pending_events s))" using P(4) assms(1) by blast
  then show ?thesis using P(2,5) assms(2) by auto
qed

section \<open>A concrete outbox\<close>

definition demo_waiting :: workflow_row where
  "demo_waiting = \<lparr>wf_id = ''WF1'', wf_org = ''G1'', wf_ws = ''W1'', wf_review = ''RC1'',
     wf_policy_version = demo_uuid 1, wf_checkpoint = ''CP1'', wf_state = Waiting, wf_active_stage = Some 1,
     wf_revision = 0, wf_created_at = 0, wf_updated_at = 0\<rparr>"

definition demo_event :: "uuid \<Rightarrow> datetime \<Rightarrow> outbox_row" where
  "demo_event i t = new_outbox_row i demo_waiting ''review.workflow.resume'' ''c'' i None t"

definition demo_dispatch :: review_db where
  "demo_dispatch = demo_review\<lparr>workflows := [demo_waiting],
     workflow_outbox := [demo_event ''E2'' 20, demo_event ''E1'' 10]\<rparr>"

lemma demo_dispatch_facts:
  "outbox_keys_unique demo_dispatch"
  "pending_events demo_dispatch = [demo_event ''E1'' 10, demo_event ''E2'' 20]"
  by (simp_all add: demo_dispatch_def outbox_keys_unique_def demo_event_def new_outbox_row_def
      pending_events_def deliverable_def demo_waiting_def demo_case_def agreement_is_active_def
      demo_agreement_def)

section \<open>Properties\<close>

text \<open>
  A queue dispatch hands over a prefix of the pending events, in the order of creation: the
  events marked delivered are exactly those the publisher accepted, one each, the rest stays
  pending in the same order, and when fewer than the limit were delivered although more were
  pending, the publisher refused the next one.
\<close>

theorem dispatch_in_order:
  assumes "dispatch_queue True publish clock limit p s = (m, p', s')" and "outbox_keys_unique s"
  shows "m \<le> limit \<and> pending_events s' = drop m (pending_events s) \<and>
    fold (\<lambda>e acc. case acc of None \<Rightarrow> None | Some q \<Rightarrow> publish q e) (take m (pending_events s)) (Some p) = Some p' \<and>
    (m \<ge> min limit (length (pending_events s)) \<or> publish p' (pending_events s ! m) = None)"
proof -
  have d: "deliver_each publish clock (take limit (pending_events s)) 0 p s = (m, p', s')"
    using assms(1) by (simp add: dispatch_queue_def)
  show ?thesis using deliver_prefix [OF d assms(2)] by (meson min.cobounded1 min_less_iff_conj not_le)
qed

lemma dispatch_in_order_witness:
  "\<exists>p' s'. dispatch_queue True (\<lambda>log e. if length log < 1 then Some (log @ [ob_id e]) else None) (\<lambda>_. 30) 5 []
     demo_dispatch = (1, p', s') \<and> pending_events s' = [demo_event ''E2'' 20] \<and> p' = [''E1'']"
proof -
  let ?pub = "\<lambda>log e. if length log < 1 then Some (log @ [ob_id e]) else None"
  obtain p' s' where d: "dispatch_queue True ?pub (\<lambda>_. 30) 5 [] demo_dispatch = (1, p', s')"
    by (simp add: dispatch_queue_def demo_dispatch_facts)
  from dispatch_in_order [OF d demo_dispatch_facts(1)] show ?thesis
    using d by (simp add: demo_dispatch_facts demo_event_def new_outbox_row_def)
qed

text \<open>
  The outbox drains: with a publisher that accepts every event and a positive limit, repeating
  the dispatch as often as there are pending events leaves none.
\<close>

theorem dispatch_drains:
  assumes "\<And>q e. publish q e \<noteq> None" and "0 < limit" and "outbox_keys_unique s"
    and "length (pending_events s) \<le> n"
  shows "pending_events (snd (dispatch_rounds n publish clock limit p s)) = []"
  using assms(3,4)
proof (induction n arbitrary: p s)
  case (Suc n)
  obtain m p' s' where d: "dispatch_queue True publish clock limit p s = (m, p', s')" by (metis prod_cases3)
  have r: "length (pending_events s') \<le> n" "outbox_keys_unique s'"
    using dispatch_round_shrinks [OF assms(1,2) Suc.prems(1) d] Suc.prems(2) by auto
  show ?case using Suc.IH [OF r(2,1), of p'] d by simp
qed simp

lemma dispatch_drains_witness:
  "pending_events (snd (dispatch_rounds 2 (\<lambda>log e. Some (log @ [ob_id e])) (\<lambda>_. 30) 1 [] demo_dispatch)) = []"
  by (rule dispatch_drains) (simp_all add: demo_dispatch_facts)

end
