(* ===== verification/Review_Collaboration.thy ===== *)
theory Review_Collaboration
  imports Review_Workflow
begin

text \<open>
  Collaboration on a review (\<open>reviews/collaboration.py\<close>: \<open>ReviewCollaborationService\<close>): opening a review
  case, assigning it, delegating or reassigning an assignment, commenting, and what each principal sees of
  it. The responses are the rows they project. Two requests are serial, so the branch of \<open>start\<close> that
  handles a violated UNIQUE constraint is not taken.
\<close>

section \<open>Requests\<close>

record start_review_request =
  sr_agreement :: uuid
  sr_version :: "uuid option"
  sr_key :: string

record assignment_request =
  aq_assignee :: uuid
  aq_due_at :: "datetime option"
  aq_key :: string

record reassign_request = assignment_request +
  aq_expected_revision :: nat

record comment_request =
  cq_body :: string
  cq_finding :: "uuid option"
  cq_version :: "uuid option"
  cq_key :: string

text \<open>The bounds of the field are checked before the validator strips the body.\<close>

definition checked_comment_body :: "string \<Rightarrow> string result" where
  "checked_comment_body body =
     bindR (require (1 \<le> length body \<and> length body \<le> 4000) (ValueError ''body'')) (\<lambda>_.
     bindR (require (str_strip body \<noteq> []) (ValueError ''comment body must not be blank'')) (\<lambda>_.
     Inr (str_strip body)))"

record review_route_context =
  rx_agreement_type :: string
  rx_jurisdiction :: string

definition safe_route_jurisdiction :: "json option \<Rightarrow> string" where
  "safe_route_jurisdiction v =
     (case v of
        Some (JStr s) \<Rightarrow>
          (let normalized = str_strip s
           in if 2 \<le> length normalized \<and> length normalized \<le> 16 then normalized else ''any'')
      | _ \<Rightarrow> ''any'')"

section \<open>Guards and lookups\<close>

definition authorize_assign :: "'z identity_db_scheme \<Rightarrow> uuid \<Rightarrow> uuid \<Rightarrow> uuid \<Rightarrow> unit result" where
  "authorize_assign s actor g w = require (can_access_workspace s actor g w REVIEWS_ASSIGN) hide_resource"

definition authorize_read :: "'z identity_db_scheme \<Rightarrow> uuid \<Rightarrow> uuid \<Rightarrow> uuid \<Rightarrow> unit result" where
  "authorize_read s actor g w = require (can_access_workspace s actor g w AGREEMENTS_READ) hide_resource"

definition scoped_review :: "'z review_db_scheme \<Rightarrow> uuid \<Rightarrow> uuid \<Rightarrow> uuid \<Rightarrow> review_case_row result" where
  "scoped_review s review_id g w =
     some_or (find (\<lambda>r. rc_id r = review_id \<and> rc_org r = g \<and> rc_ws r = w \<and> agreement_is_active s (rc_agreement r))
       (review_cases s)) hide_resource"

definition review_agreement :: "'z review_db_scheme \<Rightarrow> uuid \<Rightarrow> uuid \<Rightarrow> uuid \<Rightarrow> agreement_row result" where
  "review_agreement s agreement_id g w = some_or (active_agreement s agreement_id g w) hide_resource"

definition require_version ::
  "'z review_db_scheme \<Rightarrow> uuid option \<Rightarrow> uuid \<Rightarrow> uuid \<Rightarrow> uuid \<Rightarrow> unit result" where
  "require_version s version_id agreement_id g w =
     (case version_id of
        None \<Rightarrow> Inr ()
      | Some v \<Rightarrow> require (exists_row (\<lambda>r. vr_id r = v \<and> vr_agreement r = agreement_id \<and> vr_org r = g \<and> vr_ws r = w)
          (agreement_versions s)) hide_resource)"

definition require_finding :: "'z review_db_scheme \<Rightarrow> uuid option \<Rightarrow> uuid \<Rightarrow> uuid \<Rightarrow> unit result" where
  "require_finding s finding_id g w =
     (case finding_id of
        None \<Rightarrow> Inr ()
      | Some f \<Rightarrow> require (exists_row (\<lambda>r. fi_id r = f \<and> fi_org r = g \<and> fi_ws r = w) (findings s)) hide_resource)"

definition assignee_in_workspace :: "'z identity_db_scheme \<Rightarrow> uuid \<Rightarrow> uuid \<Rightarrow> uuid \<Rightarrow> unit result" where
  "assignee_in_workspace s user_id g w =
     require (exists_row (\<lambda>x. wm_org x = g \<and> wm_workspace x = w \<and>
         exists_row (\<lambda>m. mb_id m = wm_membership x \<and> mb_user m = user_id) (memberships s)) (workspace_memberships s))
       (HTTPException 422 (JStr ''assignee_not_in_workspace''))"

definition assignment_by_key :: "'z review_db_scheme \<Rightarrow> uuid \<Rightarrow> string \<Rightarrow> assignment_row option" where
  "assignment_by_key s review_id key =
     find (\<lambda>a. as_review a = review_id \<and> as_idempotency_key a = key) (assignments s)"

definition review_case_by_key ::
  "'z review_db_scheme \<Rightarrow> uuid \<Rightarrow> uuid option \<Rightarrow> string \<Rightarrow> review_case_row option" where
  "review_case_by_key s agreement_id version_id key =
     find (\<lambda>r. rc_agreement r = agreement_id \<and> rc_agreement_version r = version_id \<and> rc_idempotency_key r = key)
       (review_cases s)"

definition comment_by_key :: "'z review_db_scheme \<Rightarrow> uuid \<Rightarrow> string \<Rightarrow> comment_row option" where
  "comment_by_key s review_id key =
     find (\<lambda>c. co_review c = review_id \<and> co_idempotency_key c = key) (comments s)"

definition notify ::
  "review_case_row \<Rightarrow> uuid \<Rightarrow> string \<Rightarrow> string \<Rightarrow> datetime \<Rightarrow> 'z review_db_scheme \<Rightarrow> 'z review_db_scheme" where
  "notify review recipient event_type key now s =
     draw s\<lparr>notifications := notifications s @
       [\<lparr>no_id = uuid4 s, no_org = rc_org review, no_ws = rc_ws review, no_review = rc_id review,
         no_recipient = recipient, no_event_type = event_type,
         no_payload = JObj [(''agreement_id'', JStr (rc_agreement review))], no_idempotency_key = key,
         no_delivered_at = None, no_processed_at = None, no_created_at = now\<rparr>]\<rparr>"

section \<open>Opening a review\<close>

definition start_review ::
  "'z review_db_scheme \<Rightarrow> uuid \<Rightarrow> uuid \<Rightarrow> uuid \<Rightarrow> start_review_request \<Rightarrow> datetime
   \<Rightarrow> (review_case_row \<times> bool \<times> review_route_context \<times> 'z review_db_scheme) result" where
  "start_review s actor g w q now =
     bindR (authorize_assign s actor g w) (\<lambda>_.
     bindR (review_agreement s (sr_agreement q) g w) (\<lambda>a.
     let x = \<lparr>rx_agreement_type = ag_type a,
              rx_jurisdiction = safe_route_jurisdiction (json_get (ag_audit_metadata a) ''jurisdiction'')\<rparr>
     in bindR (require_version s (sr_version q) (sr_agreement q) g w) (\<lambda>_.
        case review_case_by_key s (sr_agreement q) (sr_version q) (sr_key q) of
          Some r \<Rightarrow>
            bindR (require (rc_agreement r = sr_agreement q \<and> rc_agreement_version r = sr_version q) ReviewConflictError)
              (\<lambda>_. Inr (r, False, x, s))
        | None \<Rightarrow>
            let r = \<lparr>rc_id = uuid4 s, rc_org = g, rc_ws = w, rc_agreement = sr_agreement q,
                     rc_agreement_version = sr_version q, rc_state = ''open'', rc_created_by = actor,
                     rc_idempotency_key = sr_key q, rc_revision = 0, rc_created_at = now, rc_updated_at = now\<rparr>
            in Inr (r, True, x, draw s\<lparr>review_cases := review_cases s @ [r]\<rparr>))))"

section \<open>Reading\<close>

definition get_review :: "'z review_db_scheme \<Rightarrow> uuid \<Rightarrow> uuid \<Rightarrow> uuid \<Rightarrow> uuid \<Rightarrow> review_case_row result" where
  "get_review s actor g w review_id = bindR (authorize_read s actor g w) (\<lambda>_. scoped_review s review_id g w)"

definition review_is_active :: "'z review_db_scheme \<Rightarrow> uuid \<Rightarrow> bool" where
  "review_is_active s review_id \<longleftrightarrow>
     exists_row (\<lambda>r. rc_id r = review_id \<and> agreement_is_active s (rc_agreement r)) (review_cases s)"

text \<open>Assignments without a due date come last, as PostgreSQL sorts NULL.\<close>

definition due_order :: "assignment_row \<Rightarrow> bool \<times> datetime \<times> datetime" where
  "due_order a = (case as_due_at a of None \<Rightarrow> (True, 0, as_created_at a) | Some d \<Rightarrow> (False, d, as_created_at a))"

definition inbox :: "'z review_db_scheme \<Rightarrow> uuid \<Rightarrow> uuid \<Rightarrow> uuid \<Rightarrow> assignment_row list result" where
  "inbox s actor g w =
     bindR (require (can_access_workspace s actor g w REVIEWS_DECIDE \<or> can_access_workspace s actor g w REVIEWS_APPROVE)
       hide_resource) (\<lambda>_.
     Inr (sort_key due_order (filter (\<lambda>a. as_org a = g \<and> as_ws a = w \<and> as_assignee a = actor \<and>
       as_status a = ''active'' \<and> review_is_active s (as_review a)) (assignments s))))"

definition list_comments :: "'z review_db_scheme \<Rightarrow> uuid \<Rightarrow> uuid \<Rightarrow> uuid \<Rightarrow> uuid \<Rightarrow> comment_row list result" where
  "list_comments s actor g w review_id =
     bindR (authorize_read s actor g w) (\<lambda>_.
     bindR (scoped_review s review_id g w) (\<lambda>_.
     Inr (sort_key (\<lambda>c. (co_created_at c, co_id c))
       (filter (\<lambda>c. co_org c = g \<and> co_ws c = w \<and> co_review c = review_id) (comments s)))))"

definition notification_summary :: "'z review_db_scheme \<Rightarrow> uuid \<Rightarrow> uuid \<Rightarrow> uuid \<Rightarrow> nat result" where
  "notification_summary s actor g w =
     bindR (authorize_read s actor g w) (\<lambda>_.
     Inr (length (filter (\<lambda>n. no_org n = g \<and> no_ws n = w \<and> no_recipient n = actor \<and> no_delivered_at n = None \<and>
       review_is_active s (no_review n)) (notifications s))))"

section \<open>Assignments\<close>

definition assignment_of_request ::
  "uuid \<Rightarrow> review_case_row \<Rightarrow> uuid \<Rightarrow> uuid \<Rightarrow> uuid \<Rightarrow> uuid option \<Rightarrow> 'q assignment_request_scheme \<Rightarrow> datetime
   \<Rightarrow> assignment_row" where
  "assignment_of_request i review actor g w predecessor q now =
     \<lparr>as_id = i, as_review = rc_id review, as_org = g, as_ws = w, as_assignee = aq_assignee q,
      as_assigned_by = actor, as_predecessor = predecessor, as_due_at = aq_due_at q, as_status = ''active'',
      as_idempotency_key = aq_key q, as_created_at = now, as_updated_at = now\<rparr>"

text \<open>Two instants are compared; a missing due date equals only a missing one.\<close>

definition same_due_at :: "datetime option \<Rightarrow> datetime option \<Rightarrow> bool" where
  "same_due_at left right \<longleftrightarrow>
     (case (left, right) of (Some l, Some r) \<Rightarrow> l = r | _ \<Rightarrow> left = None \<and> right = None)"

definition replayed_assignment :: "assignment_row \<Rightarrow> 'q assignment_request_scheme \<Rightarrow> unit result" where
  "replayed_assignment a q = require (as_assignee a = aq_assignee q \<and> same_due_at (as_due_at a) (aq_due_at q)) ReviewConflictError"

definition assign_review ::
  "'z review_db_scheme \<Rightarrow> uuid \<Rightarrow> uuid \<Rightarrow> uuid \<Rightarrow> uuid \<Rightarrow> assignment_request \<Rightarrow> datetime
   \<Rightarrow> (assignment_row \<times> bool \<times> 'z review_db_scheme) result" where
  "assign_review s actor g w review_id q now =
     bindR (authorize_assign s actor g w) (\<lambda>_.
     bindR (scoped_review s review_id g w) (\<lambda>review.
     bindR (assignee_in_workspace s (aq_assignee q) g w) (\<lambda>_.
     case assignment_by_key s (rc_id review) (aq_key q) of
       Some a \<Rightarrow> bindR (replayed_assignment a q) (\<lambda>_. Inr (a, False, s))
     | None \<Rightarrow>
         let a = assignment_of_request (uuid4 s) review actor g w None q now
         in Inr (a, True, notify review (aq_assignee q) ''review.assignment.created'' (''assignment:'' @ as_id a) now
              (draw s\<lparr>assignments := assignments s @ [a]\<rparr>)))))"

definition handed_over :: "string \<Rightarrow> datetime \<Rightarrow> assignment_row \<Rightarrow> assignment_row" where
  "handed_over kind now a =
     a\<lparr>as_status := (if kind = ''delegate'' then ''delegated'' else ''reassigned''), as_updated_at := now\<rparr>"

definition bump_revision :: "uuid \<Rightarrow> nat \<Rightarrow> datetime \<Rightarrow> review_case_row list \<Rightarrow> review_case_row list" where
  "bump_revision review_id expected now rs =
     update_where (\<lambda>r. rc_id r = review_id \<and> rc_revision r = expected)
       (\<lambda>r. r\<lparr>rc_revision := rc_revision r + 1, rc_updated_at := now\<rparr>) rs"

definition transfer_assignment ::
  "'z review_db_scheme \<Rightarrow> uuid \<Rightarrow> uuid \<Rightarrow> uuid \<Rightarrow> uuid \<Rightarrow> uuid \<Rightarrow> reassign_request \<Rightarrow> string \<Rightarrow> datetime
   \<Rightarrow> (assignment_row \<times> bool \<times> 'z review_db_scheme) result" where
  "transfer_assignment s actor g w review_id assignment_id q kind now =
     bindR (authorize_assign s actor g w) (\<lambda>_.
     bindR (scoped_review s review_id g w) (\<lambda>review.
     bindR (some_or (find (\<lambda>a. as_id a = assignment_id \<and> as_review a = rc_id review \<and> as_org a = g \<and> as_ws a = w)
              (assignments s)) hide_resource) (\<lambda>old.
     case assignment_by_key s (rc_id review) (aq_key q) of
       Some a \<Rightarrow> bindR (replayed_assignment a q) (\<lambda>_. Inr (a, False, s))
     | None \<Rightarrow>
         bindR (require (rc_revision review = aq_expected_revision q \<and> as_status old = ''active'') ReviewConflictError) (\<lambda>_.
         bindR (assignee_in_workspace s (aq_assignee q) g w) (\<lambda>_.
         bindR (require (length (filter (\<lambda>r. rc_id r = rc_id review \<and> rc_revision r = aq_expected_revision q)
                  (review_cases s)) = 1) ReviewConflictError) (\<lambda>_.
         let a = assignment_of_request (uuid4 s) review actor g w (Some (as_id old)) q now
         in Inr (a, True, notify review (aq_assignee q)
              (if kind = ''delegate'' then ''review.assignment.delegated'' else ''review.assignment.reassigned'')
              (''assignment:'' @ as_id a) now
              (draw s\<lparr>review_cases := bump_revision (rc_id review) (aq_expected_revision q) now (review_cases s),
                 assignments := update_where (\<lambda>x. as_id x = as_id old) (handed_over kind now) (assignments s) @ [a]\<rparr>))))))))"

section \<open>Comments\<close>

definition comment_review ::
  "'z review_db_scheme \<Rightarrow> uuid \<Rightarrow> uuid \<Rightarrow> uuid \<Rightarrow> uuid \<Rightarrow> comment_request \<Rightarrow> datetime
   \<Rightarrow> (comment_row \<times> bool \<times> 'z review_db_scheme) result" where
  "comment_review s actor g w review_id q now =
     bindR (authorize_read s actor g w) (\<lambda>_.
     bindR (scoped_review s review_id g w) (\<lambda>review.
     bindR (require_finding s (cq_finding q) g w) (\<lambda>_.
     bindR (require_version s (cq_version q) (rc_agreement review) g w) (\<lambda>_.
     bindR (require (cq_version q = None \<or> rc_agreement_version review = None \<or>
              cq_version q = rc_agreement_version review) ReviewConflictError) (\<lambda>_.
     let version = (case cq_version q of Some v \<Rightarrow> Some v | None \<Rightarrow> rc_agreement_version review)
     in case comment_by_key s (rc_id review) (cq_key q) of
          Some c \<Rightarrow>
            bindR (require (co_body c = cq_body q \<and> co_finding c = cq_finding q \<and> co_agreement_version c = version)
              ReviewConflictError) (\<lambda>_. Inr (c, False, s))
        | None \<Rightarrow>
            let c = \<lparr>co_id = uuid4 s, co_review = rc_id review, co_org = g, co_ws = w, co_finding = cq_finding q,
                     co_agreement_version = version, co_author = actor, co_body = cq_body q,
                     co_idempotency_key = cq_key q, co_created_at = now\<rparr>;
                s = draw s\<lparr>comments := comments s @ [c]\<rparr>
            in Inr (c, True, if rc_created_by review \<noteq> actor
                 then notify review (rc_created_by review) ''review.comment.created''
                        (''comment:'' @ co_id c @ '':owner'') now s
                 else s))))))"

end
