(* ===== verification/Py_Text.thy ===== *)
theory Py_Text
  imports Prelude "HOL-Library.Product_Lexorder"
begin

text \<open>
  The parts of Python's string and number library the text-processing modules share: the maximal
  runs a regular expression of one repeated character class finds, joining, and rounding to a
  number of decimals. Floating-point numbers are exact rationals throughout the development.
\<close>

section \<open>Runs and joins\<close>

text \<open>\<open>re.findall(r"[class]+", s)\<close>.\<close>

function runs :: "(char \<Rightarrow> bool) \<Rightarrow> string \<Rightarrow> string list" where
  "runs p [] = []"
| "runs p (c # s) = (if p c then (c # takeWhile p s) # runs p (dropWhile p s) else runs p s)"
  by pat_completeness auto
termination by (relation "measure (\<lambda>(p, s). length s)") (auto simp: less_Suc_eq_le length_dropWhile_le)

fun join_with :: "string \<Rightarrow> string list \<Rightarrow> string" where
  "join_with sep [] = []"
| "join_with sep [x] = x"
| "join_with sep (x # y # xs) = x @ sep @ join_with sep (y # xs)"

lemma runs_nonempty: "r \<in> set (runs p s) \<Longrightarrow> r \<noteq> [] \<and> (\<forall>c \<in> set r. p c)"
proof (induction p s rule: runs.induct)
  case (2 p c s)
  show ?case
  proof (cases "p c")
    case True
    then consider "r = c # takeWhile p s" | "r \<in> set (runs p (dropWhile p s))" using 2(3) by auto
    then show ?thesis
    proof cases
      case 1
      then show ?thesis using True set_takeWhileD by fastforce
    qed (use 2(1) True in blast)
  next
    case False
    then have "r \<in> set (runs p s)" using 2(3) by (simp only: runs.simps if_False)
    then show ?thesis using 2(2) False by blast
  qed
qed simp

text \<open>\<open>value.split()\<close>.\<close>

definition str_split :: "string \<Rightarrow> string list" where
  "str_split s = runs (\<lambda>c. \<not> is_space c) s"

lemma runs_word: "(\<forall>c \<in> set w. p c) \<Longrightarrow> runs p w = (if w = [] then [] else [w])"
  by (cases w) (simp_all add: takeWhile_eq_all_conv [THEN iffD2] dropWhile_eq_Nil_conv [THEN iffD2])

lemma runs_sep: "\<not> p x \<Longrightarrow> runs p (a @ x # b) = runs p a @ runs p b"
proof (induction p a rule: runs.induct)
  case (2 p c s)
  show ?case
  proof (cases "p c")
    case True
    have t: "takeWhile p (s @ x # b) = takeWhile p s" using 2(3) by (induction s) simp_all
    have d: "dropWhile p (s @ x # b) = dropWhile p s @ x # b" using 2(3) by (induction s) simp_all
    show ?thesis using 2(1) [OF True 2(3)] True by (simp add: t d)
  next
    case False
    then show ?thesis using 2(2) [OF False 2(3)] by simp
  qed
qed simp

lemma split_join_words:
  assumes "\<And>w. w \<in> set ws \<Longrightarrow> w \<noteq> [] \<and> (\<forall>c \<in> set w. p c)" and "\<not> p x"
  shows "runs p (join_with [x] ws) = ws"
  using assms(1)
proof (induction "[x]" ws rule: join_with.induct)
  case (3 w v ws)
  have "runs p (join_with [x] (v # ws)) = v # ws" by (rule 3(1)) (use 3(2) in auto)
  moreover have "runs p w = [w]" using runs_word [of w p] 3(2) [of w] by simp
  ultimately show ?case using runs_sep [where p = p and x = x and a = w and b = "join_with [x] (v # ws)"] assms(2) by simp
qed (simp_all add: runs_word)

lemma split_join_texts:
  assumes "\<not> p x"
  shows "runs p (join_with [x] ts) = concat (map (runs p) ts)"
proof (induction "[x]" ts rule: join_with.induct)
  case (3 t u ts)
  then show ?case using runs_sep [where p = p and x = x and a = t and b = "join_with [x] (u # ts)"] assms by simp
qed simp_all

definition is_lower_alnum :: "char \<Rightarrow> bool" where
  "is_lower_alnum c \<longleftrightarrow> (48 \<le> (of_char c :: nat) \<and> (of_char c :: nat) \<le> 57) \<or>
     (97 \<le> (of_char c :: nat) \<and> (of_char c :: nat) \<le> 122)"

section \<open>Rounding\<close>

text \<open>\<open>round(x, n)\<close>: half to even.\<close>

definition round_half_even :: "rat \<Rightarrow> int" where
  "round_half_even x =
     (let f = floor x; d = x - of_int f
      in if d < 1 / 2 then f else if 1 / 2 < d then f + 1 else if even f then f else f + 1)"

definition round_dec :: "nat \<Rightarrow> rat \<Rightarrow> rat" where
  "round_dec n x = of_int (round_half_even (x * 10 ^ n)) / 10 ^ n"

lemma round_half_even_of_int [simp]: "round_half_even (of_int i) = i"
  by (simp add: round_half_even_def)

lemma round_half_even_mono_int:
  "x \<le> of_int i \<Longrightarrow> round_half_even x \<le> i" "of_int i \<le> x \<Longrightarrow> i \<le> round_half_even x"
proof -
  assume x: "x \<le> of_int i"
  show "round_half_even x \<le> i"
  proof (cases "x = of_int i")
    case False
    then have "floor x < i" using x by (simp add: floor_less_iff)
    then show ?thesis by (auto simp: round_half_even_def Let_def)
  qed simp
next
  assume x: "of_int i \<le> x"
  then have "i \<le> floor x" by (simp add: le_floor_iff)
  then show "i \<le> round_half_even x" by (auto simp: round_half_even_def Let_def)
qed

lemma round_dec_unit:
  assumes "0 \<le> x" and "x \<le> 1"
  shows "0 \<le> round_dec n x" "round_dec n x \<le> 1"
proof -
  have "of_int 0 \<le> x * 10 ^ n" "x * 10 ^ n \<le> of_int (10 ^ n)"
    using assms by (simp_all add: mult_left_le_one_le)
  then have "0 \<le> round_half_even (x * 10 ^ n)" "round_half_even (x * 10 ^ n) \<le> 10 ^ n"
    using round_half_even_mono_int by blast+
  moreover from this have "(of_int (round_half_even (x * 10 ^ n)) :: rat) \<le> of_int (10 ^ n)"
    by (simp only: of_int_le_iff)
  ultimately show "0 \<le> round_dec n x" "round_dec n x \<le> 1" by (simp_all add: round_dec_def divide_le_eq)
qed

lemma round_dec_ints: "round_dec n 1 = 1" "round_dec n 0 = 0"
proof -
  have "round_half_even (of_int (10 ^ n)) = 10 ^ n" by (rule round_half_even_of_int)
  then show "round_dec n 1 = 1" by (simp add: round_dec_def)
  have "round_half_even (of_int 0) = 0" by (rule round_half_even_of_int)
  then show "round_dec n 0 = 0" by (simp add: round_dec_def)
qed

end
