(* ===== verification/Processing_Tables.thy ===== *)
theory Processing_Tables
  imports Review_Tables Py_Text
begin

text \<open>
  The tables of document processing and of agreement deletion: processing jobs with their
  artifacts, artifact intents and outbox (\<open>processing/models.py\<close>), comparison runs and changes
  (\<open>comparisons/models.py\<close>), the retrieval index (\<open>retrieval/models.py\<close>), question threads
  (\<open>qa/models.py\<close>), and the deletion requests with their inventory, outbox and audit
  (\<open>agreements/models.py\<close>). The API and the worker read and write the same tables.
\<close>

section \<open>Processing\<close>

datatype job_state = JQueued | JProcessing | JCompleted | JFailed

datatype intent_state = Expected | Settled

record job_row =
  jb_id :: uuid
  jb_org :: uuid
  jb_ws :: uuid
  jb_agreement :: uuid
  jb_version :: "uuid option"
  jb_idempotency_key :: string
  jb_profile :: string
  jb_source_storage_key :: "string option"
  jb_source_checksum :: "string option"
  jb_source_content_type :: "string option"
  jb_state :: job_state
  jb_attempt_count :: int
  jb_failure_category :: "string option"
  jb_failure_message :: "string option"
  jb_next_retry_at :: "datetime option"
  jb_claim_token :: "uuid option"
  jb_claim_lease_expires_at :: "datetime option"
  jb_queued_at :: datetime
  jb_processing_started_at :: "datetime option"
  jb_completed_at :: "datetime option"
  jb_failed_at :: "datetime option"
  jb_created_at :: datetime
  jb_updated_at :: datetime

record artifact_row =
  af_id :: uuid
  af_job :: uuid
  af_org :: uuid
  af_ws :: uuid
  af_agreement :: uuid
  af_key :: string
  af_created_at :: datetime

record intent_row =
  in_id :: uuid
  in_job :: uuid
  in_org :: uuid
  in_ws :: uuid
  in_agreement :: uuid
  in_profile :: string
  in_category :: string
  in_key :: string
  in_state :: intent_state
  in_created_at :: datetime
  in_updated_at :: datetime

record processing_outbox_row =
  po_id :: uuid
  po_job :: uuid
  po_org :: uuid
  po_ws :: uuid
  po_agreement :: uuid
  po_idempotency_key :: string
  po_profile :: string
  po_attempt_count :: int
  po_queued_at :: datetime
  po_delivered_at :: "datetime option"
  po_created_at :: datetime
  po_updated_at :: datetime

section \<open>Comparisons, retrieval and questions\<close>

record comparison_run_row =
  cr_id :: uuid
  cr_org :: uuid
  cr_ws :: uuid
  cr_agreement :: uuid
  cr_baseline_version :: uuid
  cr_target_version :: uuid
  cr_job :: "uuid option"
  cr_idempotency_key :: string
  cr_analysis_version :: string
  cr_state :: string
  cr_failure_category :: "string option"
  cr_failure_message :: "string option"
  cr_analysis_provenance :: json
  cr_created_at :: datetime
  cr_updated_at :: datetime
  cr_completed_at :: "datetime option"

record comparison_change_row =
  ch_id :: uuid
  ch_run :: uuid
  ch_org :: uuid
  ch_ws :: uuid
  ch_agreement :: uuid
  ch_ordinal :: int
  ch_alignment_kind :: string
  ch_baseline_element_ids :: json
  ch_target_element_ids :: json
  ch_baseline_citation_ids :: json
  ch_target_citation_ids :: json
  ch_word_diff :: json
  ch_confidence :: rat
  ch_review_required :: bool
  ch_severity :: string
  ch_legal_concepts :: json
  ch_rationale :: string
  ch_provider_provenance :: json
  ch_created_at :: datetime

record index_build_row =
  ib_id :: uuid
  ib_org :: uuid
  ib_ws :: uuid
  ib_agreement :: uuid
  ib_source_checksum :: string
  ib_chunker_version :: string
  ib_state :: string
  ib_created_at :: datetime
  ib_activated_at :: "datetime option"

record chunk_row =
  ck_chunk_id :: string
  ck_org :: uuid
  ck_ws :: uuid
  ck_agreement :: uuid
  ck_build :: uuid
  ck_source_checksum :: string
  ck_chunker_version :: string
  ck_ordinal :: int
  ck_heading_path :: "string list"
  ck_anchor_ids :: "string list"
  ck_content :: string

record chunk_embedding_row =
  ce_org :: uuid
  ce_ws :: uuid
  ce_agreement :: uuid
  ce_build :: uuid
  ce_chunk_id :: string
  ce_index_version :: string
  ce_dimensions :: int
  ce_embedding :: "rat list option"
  ce_state :: string
  ce_provider :: string
  ce_model :: string
  ce_configuration_version :: string
  ce_input_tokens :: "int option"
  ce_latency_ms :: "int option"
  ce_cost_usd :: "rat option"
  ce_retry_outcome :: string
  ce_fallback_outcome :: string
  ce_failure_reason :: "string option"
  ce_created_at :: datetime
  ce_updated_at :: datetime

record question_thread_row =
  qt_id :: uuid
  qt_org :: uuid
  qt_ws :: uuid
  qt_agreement_ids :: "string list option"
  qt_created_by :: uuid
  qt_created_at :: datetime

record question_turn_row =
  qu_id :: uuid
  qu_org :: uuid
  qu_ws :: uuid
  qu_thread :: uuid
  qu_question :: string
  qu_answer_status :: string
  qu_answer_message :: string
  qu_claims :: json
  qu_retrieval_provenance :: json
  qu_created_at :: datetime

section \<open>Deletion\<close>

datatype deletion_state = DAccepted | DProcessing | DRetrying | DCompleted | DFailed

datatype object_state = OPending | ODeleted | OPreserved

record deletion_request_row =
  dr_id :: uuid
  dr_org :: uuid
  dr_ws :: uuid
  dr_agreement :: uuid
  dr_actor :: uuid
  dr_title :: string
  dr_agreement_type :: string
  dr_file_checksums :: "string list"
  dr_state :: deletion_state
  dr_attempt_count :: int
  dr_retry_cycle :: int
  dr_claim_token :: "uuid option"
  dr_lease_expires_at :: "datetime option"
  dr_next_attempt_at :: datetime
  dr_failure_category :: "string option"
  dr_failure_message :: "string option"
  dr_accepted_at :: datetime
  dr_processing_started_at :: "datetime option"
  dr_completed_at :: "datetime option"
  dr_failed_at :: "datetime option"
  dr_updated_at :: datetime

record deletion_object_row =
  do_id :: uuid
  do_deletion :: uuid
  do_org :: uuid
  do_ws :: uuid
  do_agreement :: uuid
  do_category :: string
  do_key :: string
  do_state :: object_state
  do_last_error :: "string option"
  do_created_at :: datetime
  do_updated_at :: datetime

record deletion_outbox_row =
  dx_id :: uuid
  dx_deletion :: uuid
  dx_org :: uuid
  dx_ws :: uuid
  dx_agreement :: uuid
  dx_attempt_count :: int
  dx_next_attempt_at :: datetime
  dx_lease_token :: "uuid option"
  dx_lease_expires_at :: "datetime option"
  dx_last_error :: "string option"
  dx_delivered_at :: "datetime option"
  dx_created_at :: datetime
  dx_updated_at :: datetime

record deletion_audit_row =
  da_id :: uuid
  da_org :: uuid
  da_ws :: uuid
  da_agreement :: uuid
  da_title :: string
  da_agreement_type :: string
  da_file_checksums :: "string list"
  da_actor :: uuid
  da_deletion :: "uuid option"
  da_event_type :: string
  da_retry_cycle :: int
  da_metadata :: json
  da_occurred_at :: datetime

record registry_row =
  rg_id :: uuid
  rg_org :: uuid
  rg_ws :: uuid
  rg_key :: string
  rg_checksum :: "string option"
  rg_content_type :: "string option"
  rg_byte_size :: "int option"
  rg_state :: string
  rg_created_at :: datetime
  rg_updated_at :: datetime

record version_audit_row =
  va_id :: uuid
  va_org :: uuid
  va_ws :: uuid
  va_agreement :: uuid
  va_version :: uuid
  va_actor :: uuid
  va_action :: string
  va_metadata :: json
  va_occurred_at :: datetime

section \<open>The state\<close>

record processing_db = review_db +
  jobs :: "job_row list"
  artifacts :: "artifact_row list"
  intents :: "intent_row list"
  processing_outbox :: "processing_outbox_row list"
  comparison_runs :: "comparison_run_row list"
  comparison_changes :: "comparison_change_row list"
  index_builds :: "index_build_row list"
  chunks :: "chunk_row list"
  chunk_embeddings :: "chunk_embedding_row list"
  question_threads :: "question_thread_row list"
  question_turns :: "question_turn_row list"
  deletion_requests :: "deletion_request_row list"
  deletion_objects :: "deletion_object_row list"
  deletion_outbox :: "deletion_outbox_row list"
  deletion_audit :: "deletion_audit_row list"
  object_registry :: "registry_row list"
  version_audit :: "version_audit_row list"

text \<open>
  Drawing an id changes no table. The object store maps a key to the agreement whose work created
  the object (which only the theorems read) and its bytes.
\<close>

lemma draw_processing [simp]:
  "jobs (draw s) = jobs s" "artifacts (draw s) = artifacts s" "intents (draw s) = intents s"
  "processing_outbox (draw s) = processing_outbox s" "comparison_runs (draw s) = comparison_runs s"
  "deletion_requests (draw s) = deletion_requests s" "deletion_objects (draw s) = deletion_objects s"
  "deletion_outbox (draw s) = deletion_outbox s" "deletion_audit (draw s) = deletion_audit s"
  "object_registry (draw s) = object_registry s" "version_audit (draw s) = version_audit s"
  by (simp_all add: draw_def)

type_synonym object_store = "string \<Rightarrow> (uuid \<times> string) option"

end
