(* ===== verification/Processing_Demo.thy ===== *)
theory Processing_Demo
  imports Processing_Tables
begin

text \<open>
  A concrete database for the witnesses of the processing and deletion components: the demo tenant
  with one agreement and no other rows.
\<close>

definition demo_contract :: agreement_row where
  "demo_contract = \<lparr>ag_id = ''AG1'', ag_org = ''G1'', ag_ws = ''W1'', ag_title = ''T'', ag_type = ''client'',
     ag_status = ''draft'', ag_parties = JList [], ag_files = JList [], ag_processing_state = ''pending'',
     ag_audit_metadata = JObj [], ag_audit_events = JList [], ag_current_version = None,
     ag_baseline_version = None, ag_archived_at = None, ag_created_at = 0, ag_updated_at = 0,
     ag_deletion_requested_at = None\<rparr>"

definition demo_rows :: processing_db where
  "demo_rows = demo_tenant \<lparr>agreements = [demo_contract], agreement_versions = [],
     policies = [], policy_versions = [], policy_stages = [], policy_audit = [], audit_events = [],
     evaluations = [], findings = [], review_decisions = [], review_audit = [],
     review_cases = [], assignments = [], comments = [], notifications = [],
     workflows = [], workflow_stages = [], workflow_decisions = [], workflow_outbox = [],
     final_packages = [], jobs = [], artifacts = [], intents = [], processing_outbox = [],
     comparison_runs = [], comparison_changes = [], index_builds = [], chunks = [], chunk_embeddings = [],
     question_threads = [], question_turns = [], deletion_requests = [], deletion_objects = [],
     deletion_outbox = [], deletion_audit = [], object_registry = [], version_audit = []\<rparr>"

lemma demo_rows_simps [simp]:
  "uuid_src demo_rows = demo_uuid" "uuid_used demo_rows = 0" "agreements demo_rows = [demo_contract]"
  "agreement_versions demo_rows = []" "jobs demo_rows = []" "artifacts demo_rows = []" "intents demo_rows = []"
  "processing_outbox demo_rows = []" "comparison_runs demo_rows = []" "deletion_requests demo_rows = []"
  "deletion_objects demo_rows = []" "deletion_outbox demo_rows = []" "deletion_audit demo_rows = []"
  "object_registry demo_rows = []" "version_audit demo_rows = []" "review_cases demo_rows = []"
  "workflows demo_rows = []" "workflow_outbox demo_rows = []" "final_packages demo_rows = []"
  by (simp_all add: demo_rows_def demo_tenant_def)

lemma demo_contract_simps [simp]:
  "ag_id demo_contract = ''AG1''" "ag_org demo_contract = ''G1''" "ag_ws demo_contract = ''W1''"
  "ag_files demo_contract = JList []" "ag_current_version demo_contract = None"
  "ag_deletion_requested_at demo_contract = None"
  by (simp_all add: demo_contract_def)

lemma same_tenant_rows [simp]: "same_tenant demo_rows"
  by (simp add: demo_rows_def)

definition demo_request :: deletion_request_row where
  "demo_request = \<lparr>dr_id = ''D1'', dr_org = ''G1'', dr_ws = ''W1'', dr_agreement = ''AG1'', dr_actor = ''P1'',
     dr_title = ''T'', dr_agreement_type = ''client'', dr_file_checksums = [], dr_state = DAccepted,
     dr_attempt_count = 0, dr_retry_cycle = 1, dr_claim_token = None, dr_lease_expires_at = None,
     dr_next_attempt_at = 0, dr_failure_category = None, dr_failure_message = None, dr_accepted_at = 0,
     dr_processing_started_at = None, dr_completed_at = None, dr_failed_at = None, dr_updated_at = 0\<rparr>"

definition demo_announcement :: deletion_outbox_row where
  "demo_announcement = \<lparr>dx_id = ''X1'', dx_deletion = ''D1'', dx_org = ''G1'', dx_ws = ''W1'',
     dx_agreement = ''AG1'', dx_attempt_count = 0, dx_next_attempt_at = 0, dx_lease_token = None,
     dx_lease_expires_at = None, dx_last_error = None, dx_delivered_at = None, dx_created_at = 0,
     dx_updated_at = 0\<rparr>"

definition demo_job :: job_row where
  "demo_job = \<lparr>jb_id = ''J1'', jb_org = ''G1'', jb_ws = ''W1'', jb_agreement = ''AG1'', jb_version = None,
     jb_idempotency_key = ''k'', jb_profile = ''standard'', jb_source_storage_key = None,
     jb_source_checksum = None, jb_source_content_type = None, jb_state = JQueued, jb_attempt_count = 0,
     jb_failure_category = None, jb_failure_message = None, jb_next_retry_at = None, jb_claim_token = None,
     jb_claim_lease_expires_at = None, jb_queued_at = 0, jb_processing_started_at = None,
     jb_completed_at = None, jb_failed_at = None, jb_created_at = 0, jb_updated_at = 0\<rparr>"

end
