(* ===== verification/Review_Lineage.thy ===== *)
theory Review_Lineage
  imports Review_Collaboration Processing_Demo
begin

text \<open>
  The assignments of a review form chains: however principals assign, delegate, reassign and comment, a
  handed-over assignment has exactly one successor, so the work of a review is neither lost nor doubled.
\<close>

section \<open>The invariant\<close>

definition is_active :: "assignment_row \<Rightarrow> bool" where
  "is_active a \<longleftrightarrow> as_status a = ''active''"

definition id_table :: "'z review_db_scheme \<Rightarrow> bool" where
  "id_table s \<longleftrightarrow> inj (uuid_src s) \<and> distinct (map as_id (assignments s)) \<and> distinct (map rc_id (review_cases s)) \<and>
     as_id ` set (assignments s) \<subseteq> used_ids s \<and> rc_id ` set (review_cases s) \<subseteq> used_ids s \<and>
     as_review ` set (assignments s) \<subseteq> used_ids s"

text \<open>Every predecessor is an earlier assignment of the same review that was handed over.\<close>

definition chained :: "assignment_row list \<Rightarrow> bool" where
  "chained as \<longleftrightarrow> (\<forall>a \<in> set as. \<forall>p. as_predecessor a = Some p \<longrightarrow>
     (\<exists>b \<in> set as. as_id b = p \<and> as_review b = as_review a \<and> \<not> is_active b))"

text \<open>No assignment has two successors, and every one that is not active has one.\<close>

definition unforked :: "assignment_row list \<Rightarrow> bool" where
  "unforked as \<longleftrightarrow> distinct (List.map_filter as_predecessor as) \<and>
     (\<forall>b \<in> set as. \<not> is_active b \<longrightarrow> (\<exists>a \<in> set as. as_predecessor a = Some (as_id b)))"

text \<open>The revision of a review counts its hand-overs.\<close>

definition handovers :: "uuid \<Rightarrow> assignment_row list \<Rightarrow> nat" where
  "handovers r as = length (filter (\<lambda>a. as_review a = r \<and> as_predecessor a \<noteq> None) as)"

definition counted_handovers :: "'z review_db_scheme \<Rightarrow> bool" where
  "counted_handovers s \<longleftrightarrow> (\<forall>r \<in> set (review_cases s). rc_revision r = handovers (rc_id r) (assignments s))"

text \<open>Every assignment that no principal handed over is somebody's: as many are active as were first assigned.\<close>

definition balanced :: "assignment_row list \<Rightarrow> bool" where
  "balanced as \<longleftrightarrow> (\<forall>r. length (filter (\<lambda>a. as_review a = r \<and> is_active a) as) =
     length (filter (\<lambda>a. as_review a = r \<and> as_predecessor a = None) as))"

definition lineage_inv :: "'z review_db_scheme \<Rightarrow> bool" where
  "lineage_inv s \<longleftrightarrow> id_table s \<and> chained (assignments s) \<and> unforked (assignments s) \<and>
     balanced (assignments s) \<and> counted_handovers s"

section \<open>What the operations write\<close>

lemma notify_frame [simp]:
  "assignments (notify r u e k now s) = assignments s" "review_cases (notify r u e k now s) = review_cases s"
  "uuid_src (notify r u e k now s) = uuid_src s" "used_ids (notify r u e k now s) = insert (uuid4 s) (used_ids s)"
  by (simp_all add: notify_def used_ids_def uuid4_def lessThan_Suc)

datatype desk_change =
    Kept
  | Opened review_case_row
  | Taken assignment_row
  | Handed assignment_row string nat datetime assignment_row

text \<open>The changes of the two tables, as one effect per operation.\<close>

fun changed :: "desk_change \<Rightarrow> 'z review_db_scheme \<Rightarrow> 'z review_db_scheme \<Rightarrow> bool" where
  "changed Kept s s' \<longleftrightarrow> assignments s' = assignments s \<and> review_cases s' = review_cases s"
| "changed (Opened r) s s' \<longleftrightarrow> assignments s' = assignments s \<and> review_cases s' = review_cases s @ [r] \<and>
     rc_id r = uuid4 s \<and> rc_revision r = 0"
| "changed (Taken a) s s' \<longleftrightarrow> assignments s' = assignments s @ [a] \<and> review_cases s' = review_cases s \<and>
     as_id a = uuid4 s \<and> as_predecessor a = None \<and> is_active a \<and> as_review a \<in> rc_id ` set (review_cases s)"
| "changed (Handed old kind n now a) s s' \<longleftrightarrow>
     assignments s' = update_where (\<lambda>x. as_id x = as_id old) (handed_over kind now) (assignments s) @ [a] \<and>
     review_cases s' = bump_revision (as_review a) n now (review_cases s) \<and>
     (\<exists>r \<in> set (review_cases s). rc_id r = as_review a \<and> rc_revision r = n) \<and>
     old \<in> set (assignments s) \<and> is_active old \<and> as_review old = as_review a \<and>
     as_id a = uuid4 s \<and> as_predecessor a = Some (as_id old) \<and> is_active a"

lemma used_updates [simp]:
  "used_ids (s\<lparr>review_cases := x\<rparr>) = used_ids s" "used_ids (s\<lparr>assignments := y\<rparr>) = used_ids s"
  "used_ids (s\<lparr>comments := z\<rparr>) = used_ids s"
  by (simp_all add: used_ids_def)

definition grows :: "'z review_db_scheme \<Rightarrow> 'z review_db_scheme \<Rightarrow> bool" where
  "grows s s' \<longleftrightarrow> uuid_src s' = uuid_src s \<and> used_ids s \<subseteq> used_ids s'"

definition takes_id :: "'z review_db_scheme \<Rightarrow> 'z review_db_scheme \<Rightarrow> bool" where
  "takes_id s s' \<longleftrightarrow> uuid_src s' = uuid_src s \<and> insert (uuid4 s) (used_ids s) \<subseteq> used_ids s'"

lemma start_changes:
  assumes "start_review s u g w q now = Inr (r, created, x, s')"
  shows "if created then changed (Opened r) s s' \<and> takes_id s s' else s' = s"
  using assms by (auto simp: start_review_def result_simps Let_def takes_id_def split: option.splits)

lemma scoped_reviewD: "scoped_review s i g w = Inr r \<Longrightarrow> r \<in> set (review_cases s) \<and> rc_id r = i \<and> rc_org r = g \<and> rc_ws r = w"
  by (auto simp: scoped_review_def result_simps dest: find_SomeD)

lemma assign_changes:
  assumes "assign_review s u g w i q now = Inr (a, created, s')"
  shows "if created then changed (Taken a) s s' \<and> takes_id s s' \<and> as_review a = i else s' = s"
  using assms by (auto simp: assign_review_def result_simps Let_def takes_id_def assignment_of_request_def is_active_def
      dest!: scoped_reviewD split: option.splits)

lemma transfer_changes:
  assumes "transfer_assignment s u g w i o' q kind now = Inr (a, created, s')"
  shows "if created
    then \<exists>old. changed (Handed old kind (aq_expected_revision q) now a) s s' \<and> takes_id s s' \<and> as_id old = o' \<and>
      as_review a = i \<and> as_assignee a = aq_assignee q
    else s' = s"
  using assms by (auto simp: transfer_assignment_def result_simps Let_def takes_id_def assignment_of_request_def is_active_def
      dest!: scoped_reviewD find_SomeD split: option.splits) (rule exI, intro conjI, rule refl, blast, assumption+, auto)

lemma comment_changes:
  assumes "comment_review s u g w i q now = Inr (c, created, s')"
  shows "changed Kept s s' \<and> grows s s'"
  using assms by (auto simp: comment_review_def result_simps Let_def grows_def split: option.splits if_splits)

section \<open>Preservation\<close>

lemma handed_over_keeps [simp]:
  "as_id (handed_over k now a) = as_id a" "as_review (handed_over k now a) = as_review a"
  "as_predecessor (handed_over k now a) = as_predecessor a" "\<not> is_active (handed_over k now a)"
  by (simp_all add: handed_over_def is_active_def)

lemma handed_filters:
  "map as_id (update_where p (handed_over k now) xs) = map as_id xs"
  "handovers r (update_where p (handed_over k now) xs) = handovers r xs"
  "List.map_filter as_predecessor (update_where p (handed_over k now) xs) = List.map_filter as_predecessor xs"
  "length (filter (\<lambda>a. as_review a = r \<and> as_predecessor a = None) (update_where p (handed_over k now) xs)) =
     length (filter (\<lambda>a. as_review a = r \<and> as_predecessor a = None) xs)"
  by (induction xs) (simp_all add: handovers_def List.map_filter_def)

lemma handovers_append: "handovers r (xs @ ys) = handovers r xs + handovers r ys"
  by (simp add: handovers_def)

lemma handed_active:
  assumes "distinct (map as_id xs)" "old \<in> set xs" "is_active old"
  shows "length (filter (\<lambda>a. as_review a = r \<and> is_active a) (update_where (\<lambda>x. as_id x = as_id old) (handed_over k now) xs)) +
     (if as_review old = r then 1 else 0) = length (filter (\<lambda>a. as_review a = r \<and> is_active a) xs)"
  using assms
proof (induction xs)
  case (Cons x xs)
  show ?case
  proof (cases "x = old")
    case True
    then have "\<forall>y \<in> set xs. as_id y \<noteq> as_id old" using Cons.prems(1) by (metis image_eqI list.simps(9) distinct.simps(2) set_map)
    then have "update_where (\<lambda>x. as_id x = as_id old) (handed_over k now) xs = xs"
      unfolding update_where_def by (intro map_idI) simp
    then show ?thesis using True Cons.prems(3) by simp
  next
    case False
    then have "old \<in> set xs" "as_id x \<noteq> as_id old" using Cons.prems by auto
    then show ?thesis using Cons by (auto split: if_splits)
  qed
qed simp

lemma map_filter_set: "set (List.map_filter f xs) = {y. \<exists>x \<in> set xs. f x = Some y}"
  by (force simp: List.map_filter_def)

lemma map_filter_append: "List.map_filter f (xs @ ys) = List.map_filter f xs @ List.map_filter f ys"
  by (simp add: List.map_filter_def)

lemma lineage_kept:
  assumes i: "lineage_inv s" and c: "assignments s' = assignments s"
    "map (\<lambda>r. (rc_id r, rc_revision r)) (review_cases s') = map (\<lambda>r. (rc_id r, rc_revision r)) (review_cases s)" and g: "grows s s'"
  shows "lineage_inv s'"
proof -
  have "map rc_id (review_cases s') = map rc_id (review_cases s)"
    using arg_cong [OF c(2), of "map fst"] by (simp add: comp_def)
  moreover from this have "rc_id ` set (review_cases s') = rc_id ` set (review_cases s)" by (metis set_map)
  ultimately have "id_table s'" using i g c(1) by (auto simp: lineage_inv_def id_table_def grows_def)
  moreover have e: "(\<lambda>r. (rc_id r, rc_revision r)) ` set (review_cases s') = (\<lambda>r. (rc_id r, rc_revision r)) ` set (review_cases s)"
    using c(2) unfolding set_map [symmetric] by simp
  have "rc_revision r = handovers (rc_id r) (assignments s')" if r: "r \<in> set (review_cases s')" for r
  proof -
    have "(rc_id r, rc_revision r) \<in> (\<lambda>r. (rc_id r, rc_revision r)) ` set (review_cases s)"
      unfolding e [symmetric] using r by (rule imageI)
    then show ?thesis using i c(1) by (auto simp: lineage_inv_def counted_handovers_def)
  qed
  then have "counted_handovers s'" by (simp add: counted_handovers_def)
  ultimately show ?thesis using i c(1) by (simp add: lineage_inv_def)
qed

lemma lineage_opened:
  assumes i: "lineage_inv s" and c: "changed (Opened r) s s'" and g: "takes_id s s'"
  shows "lineage_inv s'"
proof -
  have f: "uuid4 s \<notin> used_ids s" using i by (intro uuid4_fresh) (simp add: lineage_inv_def id_table_def)
  then have "uuid4 s \<notin> rc_id ` set (review_cases s)" "uuid4 s \<notin> as_review ` set (assignments s)"
    using i by (auto simp: lineage_inv_def id_table_def)
  moreover from this have "handovers (uuid4 s) (assignments s) = 0" by (simp add: handovers_def filter_empty_conv) (metis image_eqI)
  ultimately show ?thesis using i c g
    by (auto simp: lineage_inv_def id_table_def takes_id_def counted_handovers_def)
qed

lemma lineage_taken:
  assumes i: "lineage_inv s" and c: "changed (Taken a) s s'" and g: "takes_id s s'"
  shows "lineage_inv s'"
proof -
  have f: "uuid4 s \<notin> used_ids s" using i by (intro uuid4_fresh) (simp add: lineage_inv_def id_table_def)
  then have n: "uuid4 s \<notin> as_id ` set (assignments s)" using i by (auto simp: lineage_inv_def id_table_def)
  have "id_table s'" using i c g n by (auto simp: lineage_inv_def id_table_def takes_id_def)
  moreover have "chained (assignments s')" using i c by (auto simp: lineage_inv_def chained_def)
  moreover have "unforked (assignments s')" using i c by (auto simp: lineage_inv_def unforked_def map_filter_append List.map_filter_def)
  moreover have "balanced (assignments s')" using i c by (auto simp: lineage_inv_def balanced_def)
  moreover have "counted_handovers s'" using i c by (auto simp: lineage_inv_def counted_handovers_def handovers_def)
  ultimately show ?thesis by (simp add: lineage_inv_def)
qed

lemma lineage_handed:
  assumes i: "lineage_inv s" and c: "changed (Handed old kind n now a) s s'" and g: "takes_id s s'"
  shows "lineage_inv s'"
proof -
  let ?xs = "update_where (\<lambda>x. as_id x = as_id old) (handed_over kind now) (assignments s)"
  have xs: "assignments s' = ?xs @ [a]" "review_cases s' = bump_revision (as_review a) n now (review_cases s)"
    and old: "old \<in> set (assignments s)" "is_active old" "as_review old = as_review a"
    and a: "as_id a = uuid4 s" "as_predecessor a = Some (as_id old)" "is_active a"
    and r: "\<exists>r \<in> set (review_cases s). rc_id r = as_review a \<and> rc_revision r = n"
    using c by simp_all
  have t: "id_table s" "chained (assignments s)" "unforked (assignments s)" "balanced (assignments s)" "counted_handovers s"
    using i by (simp_all add: lineage_inv_def)
  have d: "distinct (map as_id (assignments s))" "distinct (map rc_id (review_cases s))" using t(1) by (simp_all add: id_table_def)
  have f: "uuid4 s \<notin> used_ids s" using t(1) by (intro uuid4_fresh) (simp add: id_table_def)
  then have n: "uuid4 s \<notin> as_id ` set (assignments s)" using t(1) by (auto simp: id_table_def)
  have ids: "map as_id ?xs = map as_id (assignments s)" by (rule handed_filters)
  have sids: "as_id ` set ?xs = as_id ` set (assignments s)" using ids by (metis set_map)
  have srev: "as_review ` set ?xs = as_review ` set (assignments s)" 
    unfolding set_update_where image_image by (rule image_cong) simp_all
  have rids: "map rc_id (bump_revision (as_review a) n now (review_cases s)) = map rc_id (review_cases s)"
    unfolding bump_revision_def by (rule map_update_where) simp
  have srids: "rc_id ` set (review_cases s') = rc_id ` set (review_cases s)" using rids xs(2) by (metis set_map)
  have ra: "as_review a \<in> used_ids s" using r t(1) unfolding id_table_def by (metis image_eqI subsetD)
  have "id_table s'"
    using t(1) g n ids sids srev rids srids a(1) ra xs unfolding id_table_def takes_id_def by auto
  moreover have "chained (assignments s')"
  proof -
    have "\<exists>b \<in> set ?xs. as_id b = p \<and> as_review b = as_review x \<and> \<not> is_active b"
      if x: "x \<in> set (assignments s)" "as_predecessor x = Some p" for x p
    proof -
      obtain b where b: "b \<in> set (assignments s)" "as_id b = p" "as_review b = as_review x" "\<not> is_active b"
        using t(2) x unfolding chained_def by blast
      let ?b = "if as_id b = as_id old then handed_over kind now b else b"
      have "?b \<in> set ?xs" using b(1) by (auto simp: in_update_where)
      then show ?thesis using b by (intro bexI [of _ ?b]) simp_all
    qed
    moreover have "\<exists>b \<in> set ?xs. as_id b = as_id old \<and> as_review b = as_review a \<and> \<not> is_active b"
      using old by (intro bexI [of _ "handed_over kind now old"]) (auto simp: in_update_where)
    moreover have "\<exists>y \<in> set (assignments s). as_predecessor y = as_predecessor x \<and> as_review y = as_review x"
      if "x \<in> set ?xs" for x using that by (auto simp: in_update_where split: if_splits)
    ultimately show ?thesis using a(2) unfolding chained_def xs(1) set_append
      by (metis (no_types, lifting) UnCI UnE empty_iff list.set(1) option.inject set_ConsD)
  qed
  moreover have "unforked (assignments s')"
  proof -
    have "as_id old \<notin> set (List.map_filter as_predecessor (assignments s))"
    proof
      assume "as_id old \<in> set (List.map_filter as_predecessor (assignments s))"
      then obtain x where "x \<in> set (assignments s)" "as_predecessor x = Some (as_id old)" by (auto simp: map_filter_set)
      then obtain b where "b \<in> set (assignments s)" "as_id b = as_id old" "\<not> is_active b"
        using t(2) unfolding chained_def by blast
      then show False using distinct_key_inj [OF d(1) _ old(1)] old(2) by blast
    qed
    moreover have "List.map_filter as_predecessor [a] = [as_id old]" using a(2) by (simp add: List.map_filter_def)
    ultimately have "distinct (List.map_filter as_predecessor (assignments s'))"
      using t(3) unfolding xs(1) map_filter_append handed_filters unforked_def by simp
    moreover have "\<exists>y \<in> set (assignments s'). as_predecessor y = Some (as_id b)"
      if b: "b \<in> set (assignments s')" "\<not> is_active b" for b
    proof (cases "as_id b = as_id old")
      case False
      then have "b \<in> set (assignments s)" using b a(3) by (auto simp: xs(1) in_update_where split: if_splits)
      then obtain y where "y \<in> set (assignments s)" "as_predecessor y = Some (as_id b)"
        using b(2) t(3) unfolding unforked_def by blast
      then show ?thesis unfolding xs(1)
        by (intro bexI [of _ "if as_id y = as_id old then handed_over kind now y else y"]) (auto simp: in_update_where)
    qed (use a(2) in \<open>auto simp: xs(1)\<close>)
    ultimately show ?thesis unfolding unforked_def by blast
  qed
  moreover have "balanced (assignments s')"
  proof -
    have "length (filter (\<lambda>x. as_review x = q \<and> is_active x) (?xs @ [a])) =
        length (filter (\<lambda>x. as_review x = q \<and> as_predecessor x = None) (?xs @ [a]))" for q
      using handed_active [OF d(1) old(1,2), of q kind now] t(4) old(3) a(2,3)
      by (auto simp: balanced_def handed_filters split: if_splits)
    then show ?thesis by (simp add: balanced_def xs(1))
  qed
  moreover have "counted_handovers s'"
  proof -
    obtain r0 where r0: "r0 \<in> set (review_cases s)" "rc_id r0 = as_review a" "rc_revision r0 = n" using r by blast
    have h: "handovers q (assignments s') = handovers q (assignments s) + (if q = as_review a then 1 else 0)" for q
      by (simp add: xs(1) handovers_append handed_filters(2)) (simp add: handovers_def a(2))
    have "rc_revision x' = handovers (rc_id x') (assignments s')" if x': "x' \<in> set (review_cases s')" for x'
    proof -
      obtain x where x: "x \<in> set (review_cases s)" "x' = (if rc_id x = as_review a \<and> rc_revision x = n
          then x\<lparr>rc_revision := rc_revision x + 1, rc_updated_at := now\<rparr> else x)"
        using x' by (auto simp: xs(2) bump_revision_def in_update_where)
      have "x = r0" if "rc_id x = as_review a" using distinct_key_inj [OF d(2) x(1) r0(1)] r0(2) that by simp
      then show ?thesis using t(5) x r0(2,3) unfolding counted_handovers_def h by auto
    qed
    then show ?thesis by (simp add: counted_handovers_def)
  qed
  ultimately show ?thesis by (simp add: lineage_inv_def)
qed

section \<open>Runs\<close>

text \<open>
  The operations in any order, with any arguments, refused or not, between any other transactions that
  leave the assignments and the revisions of the reviews alone.
\<close>

inductive collab_step :: "'z review_db_scheme \<Rightarrow> 'z review_db_scheme \<Rightarrow> bool" where
  start: "start_review s u g w q now = Inr (r, created, x, s') \<Longrightarrow> collab_step s s'"
| assign: "assign_review s u g w i aq now = Inr (a, created, s') \<Longrightarrow> collab_step s s'"
| transfer: "transfer_assignment s u g w i k tq kind now = Inr (a, created, s') \<Longrightarrow> collab_step s s'"
| comment: "comment_review s u g w i cq now = Inr (c, created, s') \<Longrightarrow> collab_step s s'"
| other: "assignments s' = assignments s \<Longrightarrow>
    map (\<lambda>r. (rc_id r, rc_revision r)) (review_cases s') = map (\<lambda>r. (rc_id r, rc_revision r)) (review_cases s) \<Longrightarrow>
    grows s s' \<Longrightarrow> collab_step s s'"

inductive collab_reach :: "'z review_db_scheme \<Rightarrow> bool" where
  init: "inj (uuid_src s) \<Longrightarrow> assignments s = [] \<Longrightarrow> review_cases s = [] \<Longrightarrow> collab_reach s"
| step: "collab_reach s \<Longrightarrow> collab_step s s' \<Longrightarrow> collab_reach s'"

lemma lineage_step:
  assumes "collab_step s s'" "lineage_inv s"
  shows "lineage_inv s'"
  using assms
proof cases
  case (start u g w q now r created x)
  then show ?thesis using start_changes [OF start(1)] lineage_opened assms(2) by (cases created) auto
next
  case (assign u g w i aq now a created)
  then show ?thesis using assign_changes [OF assign(1)] lineage_taken assms(2) by (cases created) (auto simp del: changed.simps)
next
  case (transfer u g w i k tq kind now a created)
  then show ?thesis using transfer_changes [OF transfer(1)] lineage_handed assms(2) by (cases created) (auto simp del: changed.simps)
next
  case (comment u g w i cq now c created)
  then show ?thesis using comment_changes [OF comment(1)] lineage_kept [OF assms(2)] by simp
next
  case other
  then show ?thesis using lineage_kept [OF assms(2)] by blast
qed

lemma lineage_reach: "collab_reach s \<Longrightarrow> lineage_inv s"
proof (induction rule: collab_reach.induct)
  case (init s)
  then show ?case
    by (simp add: lineage_inv_def id_table_def chained_def unforked_def balanced_def counted_handovers_def List.map_filter_def)
next
  case (step s s')
  then show ?case using lineage_step by blast
qed

text \<open>
  C28: However reviews are opened, assigned, delegated, reassigned and commented, the assignments of every
  review form chains: a predecessor is an assignment of the same review that was handed over, no assignment
  has two successors, every one that is not active has one, so that exactly as many are active as were first
  assigned; and the revision of every review is the number of its hand-overs.
\<close>

theorem assignments_form_chains:
  assumes "collab_reach s"
  shows "chained (assignments s) \<and> unforked (assignments s) \<and> balanced (assignments s) \<and> counted_handovers s"
  using lineage_reach [OF assms] by (simp add: lineage_inv_def)

text \<open>A run of the demo tenant: a review is opened, assigned, and the assignment delegated.\<close>

definition demo_case :: review_case_row where
  "demo_case = \<lparr>rc_id = uuid4 demo_rows, rc_org = ''G1'', rc_ws = ''W1'',
     rc_agreement = ''AG1'', rc_agreement_version = None, rc_state = ''open'', rc_created_by = ''A1'',
     rc_idempotency_key = ''k'', rc_revision = 0, rc_created_at = 1, rc_updated_at = 1\<rparr>"

definition demo_opened :: processing_db where
  "demo_opened = draw demo_rows\<lparr>review_cases := [demo_case]\<rparr>"

definition demo_task :: assignment_request where
  "demo_task = \<lparr>aq_assignee = ''U1'', aq_due_at = None, aq_key = ''t''\<rparr>"

definition demo_handover :: reassign_request where
  "demo_handover = \<lparr>aq_assignee = ''U1'', aq_due_at = Some 9, aq_key = ''h'', aq_expected_revision = 0\<rparr>"

lemma demo_assigner: "can_access_workspace s ''A1'' ''G1'' ''W1'' REVIEWS_ASSIGN" if "same_tenant s"
  unfolding same_tenant_access [OF that] by (simp add: demo_access_def permissions_for_def)

lemma demo_worker: "assignee_in_workspace s ''U1'' ''G1'' ''W1'' = Inr ()" if "same_tenant s"
  using that by (simp add: assignee_in_workspace_def same_tenant_def demo_identity_def demo_tenant_def)

lemma demo_case_simps [simp]: "rc_id demo_case = uuid4 demo_rows" "rc_org demo_case = ''G1''" "rc_ws demo_case = ''W1''"
    "rc_agreement demo_case = ''AG1''" "rc_revision demo_case = 0"
  by (simp_all add: demo_case_def)

lemma demo_reviews: "review_cases demo_opened = [demo_case]" "assignments demo_opened = []"
    "same_tenant demo_opened" "agreement_is_active demo_opened ''AG1''"
proof -
  show "review_cases demo_opened = [demo_case]" "agreement_is_active demo_opened ''AG1''"
    by (simp_all add: demo_opened_def agreement_is_active_def)
  show "assignments demo_opened = []" by (simp add: demo_opened_def) (simp add: demo_rows_def demo_tenant_def)
  have "same_tenant (draw demo_rows)" by simp
  then show "same_tenant demo_opened" by (simp add: demo_opened_def same_tenant_def)
qed

lemma notify_review_frame [simp]:
  "same_tenant (notify r u e k now s) = same_tenant s" "agreement_is_active (notify r u e k now s) i = agreement_is_active s i"
  by (simp_all add: notify_def same_tenant_def agreement_is_active_def)

lemma demo_collaboration: "\<exists>a s1 b s2. assign_review demo_opened ''A1'' ''G1'' ''W1'' (uuid4 demo_rows) demo_task 2 = Inr (a, True, s1) \<and>
    transfer_assignment s1 ''A1'' ''G1'' ''W1'' (uuid4 demo_rows) (as_id a) demo_handover ''delegate'' 3 = Inr (b, True, s2) \<and>
    length (assignments s2) = 2"
proof -
  have f: "scoped_review s (uuid4 demo_rows) ''G1'' ''W1'' = Inr demo_case"
    if "review_cases s = [demo_case]" "agreement_is_active s ''AG1''" for s :: processing_db
    using that demo_reviews by (simp add: scoped_review_def)
  define a where "a = assignment_of_request (uuid4 demo_opened) demo_case ''A1'' ''G1'' ''W1'' None demo_task 2"
  define s1 where "s1 = notify demo_case ''U1'' ''review.assignment.created'' (''assignment:'' @ as_id a) 2
    (draw demo_opened\<lparr>assignments := [a]\<rparr>)"
  have assigned: "assign_review demo_opened ''A1'' ''G1'' ''W1'' (uuid4 demo_rows) demo_task 2 = Inr (a, True, s1)"
    using f [of demo_opened] demo_reviews
    by (simp add: assign_review_def authorize_assign_def demo_assigner demo_worker demo_task_def assignment_by_key_def Let_def
        a_def s1_def)
  have s1: "review_cases s1 = [demo_case]" "assignments s1 = [a]" "same_tenant s1" "agreement_is_active s1 ''AG1''"
    using demo_reviews by (simp_all add: s1_def) (simp_all add: same_tenant_def agreement_is_active_def)
  have a: "as_review a = uuid4 demo_rows" "as_org a = ''G1''" "as_ws a = ''W1''" "as_status a = ''active''"
    "as_idempotency_key a = ''t''"
    using demo_reviews by (simp_all add: a_def assignment_of_request_def demo_task_def)
  have "\<exists>b s2. transfer_assignment s1 ''A1'' ''G1'' ''W1'' (uuid4 demo_rows) (as_id a) demo_handover ''delegate'' 3 =
      Inr (b, True, s2) \<and> length (assignments s2) = 2"
    using f [OF s1(1,4)] s1 a demo_reviews
    by (simp add: transfer_assignment_def authorize_assign_def demo_assigner demo_worker demo_handover_def
        assignment_by_key_def Let_def)
  then show ?thesis using assigned by blast
qed

theorem assignments_form_chains_witness:
  "\<exists>s :: processing_db. length (assignments s) = 2 \<and> balanced (assignments s) \<and> chained (assignments s)"
proof -
  have "start_review demo_rows ''A1'' ''G1'' ''W1'' \<lparr>sr_agreement = ''AG1'', sr_version = None, sr_key = ''k''\<rparr> 1 =
      Inr (demo_case, True, \<lparr>rx_agreement_type = ''client'', rx_jurisdiction = ''any''\<rparr>, demo_opened)"
    by (simp add: start_review_def authorize_assign_def demo_assigner review_agreement_def active_agreement_def
        require_version_def review_case_by_key_def demo_opened_def demo_case_def Let_def demo_contract_def safe_route_jurisdiction_def)
  then have "collab_step demo_rows demo_opened" by (rule collab_step.start)
  moreover have "collab_reach demo_rows" by (rule collab_reach.init) (simp_all add: demo_rows_def demo_tenant_def)
  moreover obtain a s1 b s2 where "assign_review demo_opened ''A1'' ''G1'' ''W1'' (uuid4 demo_rows) demo_task 2 = Inr (a, True, s1)"
    "transfer_assignment s1 ''A1'' ''G1'' ''W1'' (uuid4 demo_rows) (as_id a) demo_handover ''delegate'' 3 = Inr (b, True, s2)"
    "length (assignments s2) = 2" using demo_collaboration by blast
  ultimately have "collab_reach s2" by (blast intro: collab_reach.step collab_step.assign collab_step.transfer)
  from assignments_form_chains [OF this] show ?thesis using \<open>length (assignments s2) = 2\<close> by blast
qed

end
