(* ===== verification/Difflib.thy ===== *)
theory Difflib
  imports Prelude
begin

text \<open>
  Python's \<open>difflib.SequenceMatcher\<close> as the comparison modules use it (no junk predicate):
  the longest matching block with its extension, the recursive decomposition into matching
  blocks, the edit operations and the similarity ratio. With \<open>autojunk\<close>, elements of a sequence
  of 200 or more that occur in more than one percent of it (plus one) start no match. The blocks
  are produced from left to right, which is the order in which the library sorts them.
\<close>

section \<open>The longest matching block\<close>

definition b2j :: "bool \<Rightarrow> 'a list \<Rightarrow> 'a \<Rightarrow> nat list" where
  "b2j autojunk b x =
     (let js = filter (\<lambda>j. b ! j = x) [0..<length b]
      in if autojunk \<and> 200 \<le> length b \<and> length b div 100 + 1 < length js then [] else js)"

definition row_get :: "(nat \<times> nat) list \<Rightarrow> nat \<Rightarrow> nat" where
  "row_get r j = (case map_of r j of None \<Rightarrow> 0 | Some k \<Rightarrow> k)"

definition prev_len :: "(nat \<times> nat) list \<Rightarrow> nat \<Rightarrow> nat" where
  "prev_len old j = (if j = 0 then 0 else row_get old (j - 1))"

type_synonym block = "nat \<times> nat \<times> nat"

definition better :: "nat \<Rightarrow> nat \<Rightarrow> nat \<Rightarrow> block \<Rightarrow> block" where
  "better i j k best = (if snd (snd best) < k then (i + 1 - k, j + 1 - k, k) else best)"

fun match_row ::
  "nat \<Rightarrow> nat \<Rightarrow> nat \<Rightarrow> (nat \<times> nat) list \<Rightarrow> nat list \<Rightarrow> (nat \<times> nat) list \<Rightarrow> block
   \<Rightarrow> (nat \<times> nat) list \<times> block" where
  "match_row blo bhi i old [] new best = (new, best)"
| "match_row blo bhi i old (j # js) new best =
     (if j < blo then match_row blo bhi i old js new best
      else if bhi \<le> j then (new, best)
      else
        (let k = prev_len old j + 1
         in match_row blo bhi i old js ((j, k) # new) (better i j k best)))"

fun match_rows ::
  "bool \<Rightarrow> 'a list \<Rightarrow> 'a list \<Rightarrow> nat \<Rightarrow> nat \<Rightarrow> nat list \<Rightarrow> (nat \<times> nat) list \<Rightarrow> block \<Rightarrow> block" where
  "match_rows auto a b blo bhi [] old best = best"
| "match_rows auto a b blo bhi (i # rows) old best =
     (case match_row blo bhi i old (b2j auto b (a ! i)) [] best of
        (new, best') \<Rightarrow> match_rows auto a b blo bhi rows new best')"

fun extend_left :: "'a list \<Rightarrow> 'a list \<Rightarrow> nat \<Rightarrow> nat \<Rightarrow> nat \<Rightarrow> nat \<Rightarrow> nat \<Rightarrow> block" where
  "extend_left a b alo blo i j k =
     (if alo < i \<and> blo < j \<and> a ! (i - 1) = b ! (j - 1)
      then extend_left a b alo blo (i - 1) (j - 1) (k + 1) else (i, j, k))"

function extend_right :: "'a list \<Rightarrow> 'a list \<Rightarrow> nat \<Rightarrow> nat \<Rightarrow> nat \<Rightarrow> nat \<Rightarrow> nat \<Rightarrow> block" where
  "extend_right a b ahi bhi i j k =
     (if i + k < ahi \<and> j + k < bhi \<and> a ! (i + k) = b ! (j + k)
      then extend_right a b ahi bhi i j (k + 1) else (i, j, k))"
  by pat_completeness auto
termination by (relation "measure (\<lambda>(a, b, ahi, bhi, i, j, k). ahi - (i + k))") auto

declare extend_left.simps [simp del] extend_right.simps [simp del]

definition longest_match ::
  "bool \<Rightarrow> 'a list \<Rightarrow> 'a list \<Rightarrow> nat \<Rightarrow> nat \<Rightarrow> nat \<Rightarrow> nat \<Rightarrow> block" where
  "longest_match auto a b alo ahi blo bhi =
     (case match_rows auto a b blo bhi [alo..<ahi] [] (alo, blo, 0) of (i, j, k) \<Rightarrow>
        (case extend_left a b alo blo i j k of (i, j, k) \<Rightarrow> extend_right a b ahi bhi i j k))"

text \<open>A block lies in its window and matches element by element.\<close>

definition block_ok :: "'a list \<Rightarrow> 'a list \<Rightarrow> nat \<Rightarrow> nat \<Rightarrow> nat \<Rightarrow> nat \<Rightarrow> block \<Rightarrow> bool" where
  "block_ok a b alo ahi blo bhi x \<longleftrightarrow>
     (case x of (i, j, k) \<Rightarrow> alo \<le> i \<and> blo \<le> j \<and> i + k \<le> ahi \<and> j + k \<le> bhi \<and>
        (\<forall>t < k. a ! (i + t) = b ! (j + t)))"

text \<open>The matches that end before row \<open>i\<close>, by column.\<close>

definition row_ok :: "'a list \<Rightarrow> 'a list \<Rightarrow> nat \<Rightarrow> nat \<Rightarrow> nat \<Rightarrow> (nat \<times> nat) list \<Rightarrow> bool" where
  "row_ok a b alo blo i r \<longleftrightarrow> (\<forall>(j, k) \<in> set r. k \<le> i - alo \<and> k + blo \<le> Suc j \<and>
     (\<forall>t < k. a ! (i - k + t) = b ! (Suc j - k + t)))"

lemma row_get_ok:
  assumes "row_ok a b alo blo i r"
  shows "row_get r j \<le> i - alo" "row_get r j + blo \<le> Suc j \<or> row_get r j = 0"
    "t < row_get r j \<Longrightarrow> a ! (i - row_get r j + t) = b ! (Suc j - row_get r j + t)"
  using assms by (auto simp: row_get_def row_ok_def split: option.splits dest!: map_of_SomeD)

lemma row_step:
  assumes r: "row_ok a b alo blo i old" and ij: "alo \<le> i" "i < ahi" "blo \<le> j" "j < bhi" "a ! i = b ! j"
    and k: "k = prev_len old j + 1"
  shows "k \<le> Suc i - alo" "k + blo \<le> Suc j" "\<And>t. t < k \<Longrightarrow> a ! (Suc i - k + t) = b ! (Suc j - k + t)"
proof -
  let ?m = "prev_len old j"
  have m: "?m \<le> i - alo" "?m + blo \<le> j"
    using row_get_ok(1,2) [OF r, of "j - 1"] ij by (cases j; auto simp: prev_len_def)+
  show "k \<le> Suc i - alo" "k + blo \<le> Suc j" using m ij k by auto
  show "a ! (Suc i - k + t) = b ! (Suc j - k + t)" if t: "t < k" for t
  proof (cases "t = ?m")
    case True
    then show ?thesis using m ij k by simp
  next
    case False
    then have "t < ?m" using t k by simp
    then have "j \<noteq> 0" "t < row_get old (j - 1)" by (auto simp: prev_len_def split: if_splits)
    then show ?thesis using row_get_ok(3) [OF r, of t "j - 1"] k m by (simp add: prev_len_def)
  qed
qed

lemma match_row_ok:
  assumes "match_row blo bhi i old js new best = (new', best')"
    and "row_ok a b alo blo i old" and "alo \<le> i" and "i < ahi" and "\<forall>j \<in> set js. a ! i = b ! j"
    and "row_ok a b alo blo (Suc i) new" and "block_ok a b alo ahi blo bhi best"
  shows "row_ok a b alo blo (Suc i) new' \<and> block_ok a b alo ahi blo bhi best'"
  using assms
proof (induction blo bhi i old js new best rule: match_row.induct [case_names Nil Cons])
  case (Cons blo bhi i old j js new best)
  consider "j < blo" | "\<not> j < blo" "bhi \<le> j" | "blo \<le> j" "j < bhi" by linarith
  then show ?case
  proof cases
    case 3
    define k where "k = prev_len old j + 1"
    note K = row_step [OF Cons.prems(2,3,4) 3 _ k_def]
    have e: "a ! i = b ! j" using Cons.prems(5) by simp
    have n: "row_ok a b alo blo (Suc i) ((j, k) # new)"
      using Cons.prems(6) K [OF e] by (simp add: row_ok_def)
    have o: "block_ok a b alo ahi blo bhi (better i j k best)"
      using Cons.prems(3,4,7) 3 K [OF e] by (auto simp: block_ok_def better_def)
    have r: "match_row blo bhi i old js ((j, k) # new) (better i j k best) = (new', best')"
      using Cons.prems(1) 3 by (simp add: k_def Let_def)
    show ?thesis
      using Cons.IH(2) [OF _ _ k_def r Cons.prems(2-4) _ n o] 3 Cons.prems(5) by simp
  qed (use Cons in auto)
qed auto

lemma match_rows_ok:
  assumes "row_ok a b alo blo i old" and "alo \<le> i" and "block_ok a b alo ahi blo bhi best"
  shows "block_ok a b alo ahi blo bhi (match_rows auto a b blo bhi [i..<ahi] old best)"
  using assms
proof (induction "ahi - i" arbitrary: i old best)
  case (Suc n)
  then have e: "[i..<ahi] = i # [Suc i..<ahi]" by (simp add: upt_conv_Cons)
  obtain new best' where m: "match_row blo bhi i old (b2j auto b (a ! i)) [] best = (new, best')"
    by (cases "match_row blo bhi i old (b2j auto b (a ! i)) [] best")
  have "\<forall>j \<in> set (b2j auto b (a ! i)). a ! i = b ! j" by (auto simp: b2j_def Let_def)
  then have "row_ok a b alo blo (Suc i) new \<and> block_ok a b alo ahi blo bhi best'"
    using match_row_ok [OF m Suc.prems(1,2) _ _ _ Suc.prems(3)] Suc.hyps(2) by (simp add: row_ok_def)
  then show ?case using Suc.hyps(1) [of "Suc i" new best'] Suc.hyps(2) Suc.prems(2) m e by simp
qed simp

lemma extend_left_ok:
  assumes "block_ok a b alo ahi blo bhi (i, j, k)"
  shows "block_ok a b alo ahi blo bhi (extend_left a b alo blo i j k)"
  using assms
proof (induction a b alo blo i j k rule: extend_left.induct)
  case (1 a b alo blo i j k)
  show ?case
  proof (cases "alo < i \<and> blo < j \<and> a ! (i - 1) = b ! (j - 1)")
    case True
    have "\<forall>t < k + 1. a ! (i - 1 + t) = b ! (j - 1 + t)"
    proof (intro allI impI)
      fix t assume "t < k + 1"
      then show "a ! (i - 1 + t) = b ! (j - 1 + t)"
        using True 1(2) by (cases t) (auto simp: block_ok_def)
    qed
    then have "block_ok a b alo ahi blo bhi (i - 1, j - 1, k + 1)"
      using True 1(2) by (auto simp: block_ok_def)
    then show ?thesis using 1(1) [OF True] True by (simp add: extend_left.simps [of a b alo blo i j k])
  next
    case False
    have e: "extend_left a b alo blo i j k = (i, j, k)" by (rule trans [OF extend_left.simps if_not_P [OF False]])
    show ?thesis unfolding e using 1(2) .
  qed
qed

lemma extend_right_ok:
  assumes "block_ok a b alo ahi blo bhi (i, j, k)"
  shows "block_ok a b alo ahi blo bhi (extend_right a b ahi bhi i j k)"
  using assms
proof (induction a b ahi bhi i j k rule: extend_right.induct)
  case (1 a b ahi bhi i j k)
  show ?case
  proof (cases "i + k < ahi \<and> j + k < bhi \<and> a ! (i + k) = b ! (j + k)")
    case True
    have "\<forall>t < k + 1. a ! (i + t) = b ! (j + t)"
      using True 1(2) by (auto simp: block_ok_def less_Suc_eq)
    then have "block_ok a b alo ahi blo bhi (i, j, k + 1)" using True 1(2) by (auto simp: block_ok_def)
    then show ?thesis using 1(1) [OF True] True by (simp add: extend_right.simps [of a b ahi bhi i j k])
  next
    case False
    have e: "extend_right a b ahi bhi i j k = (i, j, k)" by (rule trans [OF extend_right.simps if_not_P [OF False]])
    show ?thesis unfolding e using 1(2) .
  qed
qed

lemma longest_match_ok:
  assumes "alo \<le> ahi" and "blo \<le> bhi"
  shows "block_ok a b alo ahi blo bhi (longest_match auto a b alo ahi blo bhi)"
proof -
  obtain i j k where m: "match_rows auto a b blo bhi [alo..<ahi] [] (alo, blo, 0) = (i, j, k)"
    by (cases "match_rows auto a b blo bhi [alo..<ahi] [] (alo, blo, 0)")
  have b: "block_ok a b alo ahi blo bhi (i, j, k)"
    unfolding m [symmetric] by (rule match_rows_ok) (use assms in \<open>simp_all add: row_ok_def block_ok_def\<close>)
  obtain i2 j2 k2 where l: "extend_left a b alo blo i j k = (i2, j2, k2)" by (cases "extend_left a b alo blo i j k")
  show ?thesis
    using extend_right_ok extend_left_ok [OF b] by (simp add: longest_match_def m l)
qed

section \<open>Matching blocks\<close>

function match_tree :: "bool \<Rightarrow> 'a list \<Rightarrow> 'a list \<Rightarrow> nat \<Rightarrow> nat \<Rightarrow> nat \<Rightarrow> nat \<Rightarrow> block list" where
  "match_tree auto a b alo ahi blo bhi =
     (if ahi \<le> alo \<or> bhi \<le> blo then []
      else
        (case longest_match auto a b alo ahi blo bhi of (i, j, k) \<Rightarrow>
           if k = 0 then []
           else match_tree auto a b alo i blo j @ (i, j, k) # match_tree auto a b (i + k) ahi (j + k) bhi))"
  by pat_completeness auto
termination
proof (relation "measure (\<lambda>(auto, a, b, alo, ahi, blo, bhi). ahi - alo)", goal_cases)
  case (2 auto a b alo ahi blo bhi i y j k)
  then have "block_ok a b alo ahi blo bhi (i, j, k)" using longest_match_ok [of alo ahi blo bhi a b] by simp
  then show ?case using 2 by (auto simp: block_ok_def)
next
  case (3 auto a b alo ahi blo bhi i y j k)
  then have "block_ok a b alo ahi blo bhi (i, j, k)" using longest_match_ok [of alo ahi blo bhi a b] by simp
  then show ?case using 3 by (auto simp: block_ok_def)
qed simp

declare match_tree.simps [simp del]

fun collapse :: "block list \<Rightarrow> block \<Rightarrow> block list" where
  "collapse [] (i1, j1, k1) = (if k1 = 0 then [] else [(i1, j1, k1)])"
| "collapse ((i2, j2, k2) # xs) (i1, j1, k1) =
     (if i1 + k1 = i2 \<and> j1 + k1 = j2 then collapse xs (i1, j1, k1 + k2)
      else (if k1 = 0 then [] else [(i1, j1, k1)]) @ collapse xs (i2, j2, k2))"

definition matching_blocks :: "bool \<Rightarrow> 'a list \<Rightarrow> 'a list \<Rightarrow> block list" where
  "matching_blocks auto a b =
     collapse (match_tree auto a b 0 (length a) 0 (length b)) (0, 0, 0) @ [(length a, length b, 0)]"

text \<open>Blocks that follow each other from \<open>(i, j)\<close> without passing \<open>(m, n)\<close>.\<close>

fun chain :: "'a list \<Rightarrow> 'a list \<Rightarrow> nat \<Rightarrow> nat \<Rightarrow> nat \<Rightarrow> nat \<Rightarrow> block list \<Rightarrow> bool" where
  "chain a b m n i j [] \<longleftrightarrow> i \<le> m \<and> j \<le> n"
| "chain a b m n i j ((x, y, k) # xs) \<longleftrightarrow> i \<le> x \<and> j \<le> y \<and> (\<forall>t < k. a ! (x + t) = b ! (y + t)) \<and>
     chain a b m n (x + k) (y + k) xs"

lemma chain_le: "chain a b m n i j xs \<Longrightarrow> i' \<le> i \<Longrightarrow> j' \<le> j \<Longrightarrow> chain a b m n i' j' xs"
  by (cases xs) auto

lemma chain_append: "chain a b m n i j xs \<Longrightarrow> chain a b p q m n ys \<Longrightarrow> chain a b p q i j (xs @ ys)"
  by (induction a b m n i j xs rule: chain.induct) (auto intro: chain_le)

lemma blocks_chain:
  assumes "alo \<le> ahi" and "blo \<le> bhi"
  shows "chain a b ahi bhi alo blo (match_tree auto a b alo ahi blo bhi)"
  using assms
proof (induction auto a b alo ahi blo bhi rule: match_tree.induct)
  case (1 auto a b alo ahi blo bhi)
  obtain i j k where m: "longest_match auto a b alo ahi blo bhi = (i, j, k)"
    by (cases "longest_match auto a b alo ahi blo bhi")
  have ok: "block_ok a b alo ahi blo bhi (i, j, k)" using longest_match_ok [OF 1(3,4), of a b auto] m by simp
  show ?case
  proof (cases "ahi \<le> alo \<or> bhi \<le> blo \<or> k = 0")
    case True
    then show ?thesis using 1(3,4) m by (subst match_tree.simps) auto
  next
    case False
    have "chain a b i j alo blo (match_tree auto a b alo i blo j)"
      "chain a b ahi bhi (i + k) (j + k) (match_tree auto a b (i + k) ahi (j + k) bhi)"
      using 1(1) [OF _ m [symmetric] HOL.refl] 1(2) [OF _ m [symmetric] HOL.refl] False ok
      by (auto simp: block_ok_def)
    then show ?thesis
      using False m ok by (subst match_tree.simps) (auto simp: block_ok_def intro!: chain_append)
  qed
qed

lemma collapse_chain:
  "chain a b m n i j ((i1, j1, k1) # xs) \<Longrightarrow> chain a b m n i j (collapse xs (i1, j1, k1))"
proof (induction xs "(i1, j1, k1)" arbitrary: i j i1 j1 k1 rule: collapse.induct)
  case (2 i2 j2 k2 xs i1 j1 k1)
  show ?case
  proof (cases "i1 + k1 = i2 \<and> j1 + k1 = j2")
    case True
    have "a ! (i1 + t) = b ! (j1 + t)" if "t < k1 + k2" for t
    proof (cases "t < k1")
      case False
      then have "t = k1 + (t - k1)" "t - k1 < k2" using that by auto
      moreover have "\<forall>t < k2. a ! (i1 + k1 + t) = b ! (j1 + k1 + t)" using 2(3) True by auto
      ultimately show ?thesis by (metis add.assoc)
    qed (use 2(3) in auto)
    then show ?thesis using 2(1) [OF True, of i j] 2(3) True by (auto simp: add.assoc)
  next
    case False
    then show ?thesis using 2(2) [OF False] 2(3) by (auto intro: chain_le)
  qed
qed (auto intro: chain_le)

lemma matching_blocks_chain: "chain a b (length a) (length b) 0 0 (matching_blocks auto a b)"
  unfolding matching_blocks_def
  
proof (rule chain_append)
  show "chain a b (length a) (length b) 0 0
      (collapse (match_tree auto a b 0 (length a) 0 (length b)) (0, 0, 0))"
    by (rule collapse_chain) (simp add: blocks_chain)
qed simp

section \<open>Edit operations\<close>

datatype tag = Equal | Insert | Delete | Replace

type_synonym opcode = "tag \<times> nat \<times> nat \<times> nat \<times> nat"

definition gap :: "nat \<Rightarrow> nat \<Rightarrow> nat \<Rightarrow> nat \<Rightarrow> opcode list" where
  "gap i ai j bj =
     (if i < ai \<and> j < bj then [(Replace, i, ai, j, bj)]
      else if i < ai then [(Delete, i, ai, j, bj)]
      else if j < bj then [(Insert, i, ai, j, bj)] else [])"

fun opcodes_of :: "block list \<Rightarrow> nat \<Rightarrow> nat \<Rightarrow> opcode list" where
  "opcodes_of [] i j = []"
| "opcodes_of ((ai, bj, k) # xs) i j =
     gap i ai j bj @ (if k = 0 then [] else [(Equal, ai, ai + k, bj, bj + k)]) @ opcodes_of xs (ai + k) (bj + k)"

definition get_opcodes :: "bool \<Rightarrow> 'a list \<Rightarrow> 'a list \<Rightarrow> opcode list" where
  "get_opcodes auto a b = opcodes_of (matching_blocks auto a b) 0 0"

definition slice :: "'a list \<Rightarrow> nat \<Rightarrow> nat \<Rightarrow> 'a list" where
  "slice xs i j = take (j - i) (drop i xs)"

lemma slice_append: "i \<le> j \<Longrightarrow> j \<le> k \<Longrightarrow> slice xs i j @ slice xs j k = slice xs i k"
proof -
  assume "i \<le> j" "j \<le> k"
  then obtain d e where "j = i + d" "k = i + d + e" by (metis le_Suc_ex)
  then show ?thesis by (simp add: slice_def take_add add.commute)
qed

fun a_side :: "'a list \<Rightarrow> opcode \<Rightarrow> 'a list" where
  "a_side a (t, i1, i2, j1, j2) = slice a i1 i2"

fun b_side :: "'a list \<Rightarrow> opcode \<Rightarrow> 'a list" where
  "b_side b (t, i1, i2, j1, j2) = slice b j1 j2"

lemma slice_same [simp]: "slice xs i i = []"
  by (simp add: slice_def)

lemma gap_sides:
  "i \<le> ai \<Longrightarrow> j \<le> bj \<Longrightarrow> concat (map (a_side a) (gap i ai j bj)) = slice a i ai"
  "i \<le> ai \<Longrightarrow> j \<le> bj \<Longrightarrow> concat (map (b_side b) (gap i ai j bj)) = slice b j bj"
  by (auto simp: gap_def)

fun last_end :: "nat \<Rightarrow> nat \<Rightarrow> block list \<Rightarrow> nat \<times> nat" where
  "last_end i j [] = (i, j)"
| "last_end i j ((x, y, k) # xs) = last_end (x + k) (y + k) xs"

lemma last_end_append: "last_end i j (xs @ ys) = (case last_end i j xs of (m, n) \<Rightarrow> last_end m n ys)"
  by (induction i j xs rule: last_end.induct) auto

lemma last_end_ge: "chain a b m n i j xs \<Longrightarrow> i \<le> fst (last_end i j xs) \<and> j \<le> snd (last_end i j xs)"
  by (induction a b m n i j xs rule: chain.induct) auto

lemma opcodes_sides:
  assumes "chain a b m n i j xs"
  shows "concat (map (a_side a) (opcodes_of xs i j)) = slice a i (fst (last_end i j xs)) \<and>
    concat (map (b_side b) (opcodes_of xs i j)) = slice b j (snd (last_end i j xs))"
  using assms
proof (induction a b m n i j xs rule: chain.induct)
  case (2 a b m n i j x y k xs)
  have e: "x + k \<le> fst (last_end (x + k) (y + k) xs)" "y + k \<le> snd (last_end (x + k) (y + k) xs)"
    using last_end_ge [of a b m n "x + k" "y + k" xs] 2(2) by auto
  have "slice a i x @ slice a x (x + k) @ slice a (x + k) (fst (last_end (x + k) (y + k) xs)) =
      slice a i (fst (last_end (x + k) (y + k) xs))"
    "slice b j y @ slice b y (y + k) @ slice b (y + k) (snd (last_end (x + k) (y + k) xs)) =
      slice b j (snd (last_end (x + k) (y + k) xs))"
    using e 2(2) by (simp_all add: slice_append)
  then show ?case using 2 by (cases "k = 0") (simp_all add: gap_sides)
qed simp

text \<open>The operations rebuild both sequences.\<close>

lemma get_opcodes_rebuild:
  "concat (map (a_side a) (get_opcodes auto a b)) = a" "concat (map (b_side b) (get_opcodes auto a b)) = b"
proof -
  have "last_end 0 0 (matching_blocks auto a b) = (length a, length b)"
    by (simp add: matching_blocks_def last_end_append split: prod.split)
  then show "concat (map (a_side a) (get_opcodes auto a b)) = a"
      "concat (map (b_side b) (get_opcodes auto a b)) = b"
    using opcodes_sides [OF matching_blocks_chain [of a b auto]] by (simp_all add: get_opcodes_def slice_def)
qed

text \<open>What each kind of operation says about its two sides.\<close>

fun op_ok :: "'a list \<Rightarrow> 'a list \<Rightarrow> opcode \<Rightarrow> bool" where
  "op_ok a b (Equal, i1, i2, j1, j2) \<longleftrightarrow> i1 < i2 \<and> slice a i1 i2 = slice b j1 j2"
| "op_ok a b (Insert, i1, i2, j1, j2) \<longleftrightarrow> i1 = i2 \<and> j1 < j2"
| "op_ok a b (Delete, i1, i2, j1, j2) \<longleftrightarrow> i1 < i2 \<and> j1 = j2"
| "op_ok a b (Replace, i1, i2, j1, j2) \<longleftrightarrow> i1 < i2 \<and> j1 < j2"

lemma chain_end: "chain a b m n i j xs \<Longrightarrow> i \<le> m \<and> j \<le> n"
  by (induction a b m n i j xs rule: chain.induct) auto

lemma slice_matching:
  assumes "\<forall>t < k. a ! (x + t) = b ! (y + t)" and "x + k \<le> length a" and "y + k \<le> length b"
  shows "slice a x (x + k) = slice b y (y + k)"
  using assms by (intro nth_equalityI) (auto simp: slice_def)

lemma opcodes_ok:
  assumes "chain a b m n i j xs" and "m \<le> length a" and "n \<le> length b"
  shows "\<forall>p \<in> set (opcodes_of xs i j). op_ok a b p"
  using assms
proof (induction a b m n i j xs rule: chain.induct)
  case (2 a b m n i j x y k xs)
  have "slice a x (x + k) = slice b y (y + k)"
    using slice_matching [of k a x b y] chain_end [of a b m n "x + k" "y + k" xs] 2(2-4) by auto
  moreover have "\<forall>p \<in> set (opcodes_of xs (x + k) (y + k)). op_ok a b p" using 2 by simp
  moreover have "\<forall>p \<in> set (gap i x j y). op_ok a b p" using 2(2) by (auto simp: gap_def)
  ultimately show ?case by auto
qed simp

lemma get_opcodes_ok: "p \<in> set (get_opcodes auto a b) \<Longrightarrow> op_ok a b p"
  using opcodes_ok [OF matching_blocks_chain [of a b auto]] by (simp add: get_opcodes_def)

section \<open>The similarity ratio\<close>

definition matched :: "bool \<Rightarrow> 'a list \<Rightarrow> 'a list \<Rightarrow> nat" where
  "matched auto a b = sum_list (map (\<lambda>(i, j, k). k) (matching_blocks auto a b))"

definition ratio :: "bool \<Rightarrow> 'a list \<Rightarrow> 'a list \<Rightarrow> rat" where
  "ratio auto a b =
     (if length a + length b = 0 then 1
      else 2 * of_nat (matched auto a b) / of_nat (length a + length b))"

lemma chain_sum:
  "chain a b m n i j xs \<Longrightarrow> i + sum_list (map (\<lambda>(i, j, k). k) xs) \<le> m \<and> j + sum_list (map (\<lambda>(i, j, k). k) xs) \<le> n"
  by (induction a b m n i j xs rule: chain.induct) auto

lemma matched_le: "matched auto a b \<le> length a" "matched auto a b \<le> length b"
  using chain_sum [OF matching_blocks_chain [of a b auto]] by (simp_all add: matched_def)

lemma ratio_bounds: "0 \<le> ratio auto a b" "ratio auto a b \<le> 1"
proof -
  have "2 * matched auto a b \<le> length a + length b" using matched_le [of auto a b] by linarith
  then have "2 * (of_nat (matched auto a b) :: rat) \<le> of_nat (length a + length b)"
    by (metis of_nat_le_iff of_nat_mult of_nat_numeral)
  then show "ratio auto a b \<le> 1" by (simp add: ratio_def divide_le_eq)
qed (simp add: ratio_def)

lemma ratio_example:
  "ratio True ''abcd'' ''bcde'' = 3 / 4"
  "get_opcodes False [1, 2, 3 :: nat] [1, 4, 3, 5] =
     [(Equal, 0, 1, 0, 1), (Replace, 1, 2, 1, 2), (Equal, 2, 3, 2, 3), (Insert, 3, 3, 3, 4)]"
  by code_simp+

end
