(* ===== verification/Version_Alignment.thy ===== *)
theory Version_Alignment
  imports Difflib Py_Text
begin

text \<open>
  The alignment of two versions of an agreement (\<open>version_alignment.py\<close> of the worker): canonical
  elements are built from the analysis manifest and matched in four passes, exact text, one
  element against two adjacent ones, best remaining pairs, and the rest as removed or added.
  The constructors of the Python dataclasses raise on malformed values, so they are functions into
  results here, and the sets the passes update are explicit state.
\<close>

section \<open>Canonical versions\<close>

datatype alignment_kind = Matched | Moved | Split | Merged | Added | Removed

record canonical_element =
  el_id :: string
  el_ordinal :: int
  el_heading_path :: "string list"
  el_clause_type :: "string option"
  el_text :: string
  el_anchors :: "string list"

record canonical_version =
  cv_checksum :: string
  cv_elements :: "canonical_element list"

record alignment =
  al_kind :: alignment_kind
  al_baseline :: "string list"
  al_target :: "string list"
  al_confidence :: rat
  al_review :: bool
  al_rationale :: "string list"

definition checked_element :: "canonical_element \<Rightarrow> canonical_element result" where
  "checked_element e =
     (if el_id e = [] then Inl (ValueError ''Canonical element id is required'')
      else if el_ordinal e < 0 then Inl (ValueError ''Canonical element ordinal must be non-negative'')
      else if str_strip (el_text e) = [] then Inl (ValueError ''Canonical element text is required'')
      else if el_anchors e = [] then
        Inl (ValueError ''Canonical element requires at least one citation anchor'')
      else Inr e)"

definition checked_version :: "canonical_version \<Rightarrow> canonical_version result" where
  "checked_version v =
     (if cv_checksum v = [] then Inl (ValueError ''Canonical version source checksum is required'')
      else if \<not> distinct (map el_ordinal (cv_elements v)) then
        Inl (ValueError ''Canonical version element ordinals must be unique'')
      else Inr v)"

definition checked_alignment :: "alignment \<Rightarrow> alignment result" where
  "checked_alignment a =
     (if \<not> (0 \<le> al_confidence a \<and> al_confidence a \<le> 1) then
        Inl (ValueError ''Alignment confidence must be between zero and one'')
      else if al_kind a = Added \<and> (al_baseline a \<noteq> [] \<or> al_target a = []) then
        Inl (ValueError ''Added alignment must contain target elements only'')
      else if al_kind a = Removed \<and> (al_baseline a = [] \<or> al_target a \<noteq> []) then
        Inl (ValueError ''Removed alignment must contain baseline elements only'')
      else if al_kind a \<notin> {Added, Removed} \<and> (al_baseline a = [] \<or> al_target a = []) then
        Inl (ValueError ''Mapped alignment must contain baseline and target elements'')
      else Inr a)"

section \<open>From the manifest\<close>

definition required_string :: "json \<Rightarrow> string \<Rightarrow> string result" where
  "required_string value key =
     (case json_get value key of
        Some (JStr (c # cs)) \<Rightarrow> Inr (c # cs)
      | _ \<Rightarrow> Inl (ValueError (''Canonical analysis artifact has invalid '' @ key)))"

fun is_mapping :: "json \<Rightarrow> bool" where
  "is_mapping (JObj kvs) = True"
| "is_mapping _ = False"

fun pages_blocks :: "json list \<Rightarrow> json list result" where
  "pages_blocks [] = Inr []"
| "pages_blocks (page # pages) =
     (case json_get page ''blocks'' of
        Some (JList blocks) \<Rightarrow>
          bindR (pages_blocks pages) (\<lambda>rest. Inr (filter is_mapping blocks @ rest))
      | _ \<Rightarrow> Inl (ValueError ''Canonical analysis artifact has malformed page blocks''))"

definition blocks_from_manifest :: "json \<Rightarrow> json list result" where
  "blocks_from_manifest manifest =
     (case json_get manifest ''document'' of
        Some (JObj kvs) \<Rightarrow>
          (case json_get (JObj kvs) ''pages'' of
             Some (JList pages) \<Rightarrow> pages_blocks pages
           | _ \<Rightarrow> Inl (ValueError ''Canonical analysis artifact has no document pages''))
      | _ \<Rightarrow> Inl (ValueError ''Canonical analysis artifact has no document pages''))"

fun add_anchors :: "string \<Rightarrow> json list \<Rightarrow> (string \<Rightarrow> string option) \<Rightarrow> (string \<Rightarrow> string option)" where
  "add_anchors category [] m = m"
| "add_anchors category (JStr anchor # rest) m = add_anchors category rest (m(anchor \<mapsto> category))"
| "add_anchors category (_ # rest) m = add_anchors category rest m"

definition add_clause :: "json \<Rightarrow> (string \<Rightarrow> string option) \<Rightarrow> (string \<Rightarrow> string option)" where
  "add_clause clause m =
     (case (json_get clause ''category'', json_get clause ''citation_anchor_ids'') of
        (Some (JStr category), Some (JList anchors)) \<Rightarrow> add_anchors category anchors m
      | _ \<Rightarrow> m)"

definition clause_types_by_anchor :: "json \<Rightarrow> (string \<Rightarrow> string option)" where
  "clause_types_by_anchor manifest =
     (case json_get manifest ''clauses'' of
        Some (JList clauses) \<Rightarrow> fold add_clause clauses Map.empty
      | _ \<Rightarrow> Map.empty)"

definition clause_type :: "string list \<Rightarrow> (string \<Rightarrow> string option) \<Rightarrow> string option" where
  "clause_type anchors by_anchor =
     (case remdups (List.map_filter by_anchor anchors) of [c] \<Rightarrow> Some c | _ \<Rightarrow> None)"

text \<open>The elements built so far, the heading path and the entries of the open section.\<close>

type_synonym section_state = "canonical_element list \<times> string list \<times> (string \<times> string) list"

definition flush_section :: "string \<Rightarrow> (string \<Rightarrow> string option) \<Rightarrow> section_state \<Rightarrow> section_state result" where
  "flush_section checksum by_anchor st =
     (case st of (elements, heading_path, entries) \<Rightarrow>
        if entries = [] then Inr st
        else
          (let anchors = map fst entries
           in bindR (checked_element
                \<lparr>el_id = ''section-'' @ take 16 checksum @ ''-'' @ str_nat (length elements),
                 el_ordinal = int (length elements), el_heading_path = heading_path,
                 el_clause_type = clause_type anchors by_anchor,
                 el_text = join_with [CHR 0x0A] (map snd entries), el_anchors = anchors\<rparr>) (\<lambda>e.
              Inr (elements @ [e], heading_path, []))))"

definition add_block ::
  "string \<Rightarrow> (string \<Rightarrow> string option) \<Rightarrow> json \<Rightarrow> section_state \<Rightarrow> section_state result" where
  "add_block checksum by_anchor block st =
     bindR (required_string block ''text'') (\<lambda>raw.
       let text = str_strip raw
       in if text = [] then Inr st
          else
            bindR (required_string block ''anchor_id'') (\<lambda>anchor.
            bindR (if json_get block ''kind'' = Some (JStr ''heading'')
                   then bindR (flush_section checksum by_anchor st) (\<lambda>(elements, path, entries).
                     Inr (elements, path @ [text], entries))
                   else Inr st) (\<lambda>(elements, path, entries).
              Inr (elements, path, entries @ [(anchor, text)]))))"

fun add_blocks ::
  "string \<Rightarrow> (string \<Rightarrow> string option) \<Rightarrow> json list \<Rightarrow> section_state \<Rightarrow> section_state result" where
  "add_blocks checksum by_anchor [] st = Inr st"
| "add_blocks checksum by_anchor (b # bs) st =
     bindR (add_block checksum by_anchor b st) (add_blocks checksum by_anchor bs)"

definition canonical_version_from_manifest :: "json \<Rightarrow> canonical_version result" where
  "canonical_version_from_manifest manifest =
     (case json_get manifest ''source'' of
        Some (JObj kvs) \<Rightarrow>
          bindR (required_string (JObj kvs) ''checksum'') (\<lambda>checksum.
          bindR (blocks_from_manifest manifest) (\<lambda>blocks.
          let by_anchor = clause_types_by_anchor manifest
          in bindR (add_blocks checksum by_anchor blocks ([], [], [])) (\<lambda>st.
             bindR (flush_section checksum by_anchor st) (\<lambda>(elements, _, _).
               checked_version \<lparr>cv_checksum = checksum, cv_elements = elements\<rparr>))))
      | _ \<Rightarrow> Inl (ValueError ''Canonical analysis artifact has no source''))"

section \<open>Similarity\<close>

definition MINIMUM_CANDIDATE_SCORE :: rat where "MINIMUM_CANDIDATE_SCORE = 45 / 100"
definition REVIEW_CONFIDENCE :: rat where "REVIEW_CONFIDENCE = 75 / 100"
definition GROUP_COVERAGE_IMPROVEMENT :: rat where "GROUP_COVERAGE_IMPROVEMENT = 15 / 100"
definition GROUP_MINIMUM_COVERAGE :: rat where "GROUP_MINIMUM_COVERAGE = 76 / 100"
definition MOVED_POSITION_DISTANCE :: rat where "MOVED_POSITION_DISTANCE = 25 / 100"

definition tokens :: "string \<Rightarrow> string list" where
  "tokens v = runs is_lower_alnum (str_lower v)"

definition normalized_text :: "string \<Rightarrow> string" where
  "normalized_text v = join_with '' '' (tokens v)"

definition heading_of :: "canonical_element \<Rightarrow> string" where
  "heading_of e = (if el_heading_path e = [] then [] else last (el_heading_path e))"

definition token_similarity :: "string \<Rightarrow> string \<Rightarrow> rat" where
  "token_similarity x y =
     (let xs = set (tokens x); ys = set (tokens y)
      in if xs = {} \<and> ys = {} then 1
         else if xs = {} \<or> ys = {} then 0
         else of_nat (card (xs \<inter> ys)) / of_nat (card (xs \<union> ys)))"

definition token_coverage :: "string \<Rightarrow> string \<Rightarrow> rat" where
  "token_coverage source candidate =
     (let xs = set (tokens source)
      in if xs = {} then 0 else of_nat (card (xs \<inter> set (tokens candidate))) / of_nat (card xs))"

definition compatible_clause_type :: "canonical_element \<Rightarrow> canonical_element \<Rightarrow> bool" where
  "compatible_clause_type x y =
     (case (el_clause_type x, el_clause_type y) of
        (Some t, Some u) \<Rightarrow> str_lower t = str_lower u
      | _ \<Rightarrow> True)"

fun taxonomy_similarity :: "string option \<Rightarrow> string option \<Rightarrow> rat" where
  "taxonomy_similarity None None = 1 / 2"
| "taxonomy_similarity (Some t) (Some u) = (if str_lower t = str_lower u then 1 else 0)"
| "taxonomy_similarity _ _ = 1 / 4"

definition position_distance ::
  "canonical_element \<Rightarrow> canonical_element \<Rightarrow> nat \<Rightarrow> nat \<Rightarrow> rat" where
  "position_distance x y m n =
     \<bar>of_int (el_ordinal x) / of_int (max (int m - 1) 1) - of_int (el_ordinal y) / of_int (max (int n - 1) 1)\<bar>"

definition candidate_score ::
  "canonical_element \<Rightarrow> canonical_element \<Rightarrow> nat \<Rightarrow> nat \<Rightarrow> rat" where
  "candidate_score x y m n =
     65 / 100 * ratio True (normalized_text (el_text x)) (normalized_text (el_text y)) +
     2 / 10 * token_similarity (heading_of x) (heading_of y) +
     1 / 10 * taxonomy_similarity (el_clause_type x) (el_clause_type y) +
     5 / 100 * (1 - position_distance x y m n)"

section \<open>The passes\<close>

text \<open>The unmatched baseline ids, the unmatched target ids and the results so far.\<close>

type_synonym passes = "string set \<times> string set \<times> alignment list"

definition moved_kind :: "canonical_element \<Rightarrow> canonical_element \<Rightarrow> nat \<Rightarrow> nat \<Rightarrow> alignment_kind" where
  "moved_kind x y m n = (if MOVED_POSITION_DISTANCE \<le> position_distance x y m n then Moved else Matched)"

definition moved_note :: "alignment_kind \<Rightarrow> string list" where
  "moved_note k = (if k = Moved then [''Relative document position changed.''] else [])"

definition take_pair ::
  "alignment_kind \<Rightarrow> string list \<Rightarrow> string list \<Rightarrow> rat \<Rightarrow> bool \<Rightarrow> string list \<Rightarrow> passes \<Rightarrow> passes result" where
  "take_pair kind bs ts confidence review rationale st =
     (case st of (ub, ut, res) \<Rightarrow>
        bindR (checked_alignment \<lparr>al_kind = kind, al_baseline = bs, al_target = ts,
            al_confidence = confidence, al_review = review, al_rationale = rationale\<rparr>) (\<lambda>a.
          Inr (ub - set bs, ut - set ts, res @ [a])))"

definition exact_candidates ::
  "canonical_element list \<Rightarrow> string set \<Rightarrow> canonical_element \<Rightarrow> canonical_element list" where
  "exact_candidates target ut source =
     filter (\<lambda>e. normalized_text (el_text e) = normalized_text (el_text source) \<and> el_id e \<in> ut \<and>
       compatible_clause_type source e) target"

fun align_exact ::
  "nat \<Rightarrow> canonical_element list \<Rightarrow> canonical_element list \<Rightarrow> passes \<Rightarrow> passes result" where
  "align_exact m target [] st = Inr st"
| "align_exact m target (source # rest) (ub, ut, res) =
     (if el_id source \<notin> ub then align_exact m target rest (ub, ut, res)
      else
        (case exact_candidates target ut source of
           [candidate] \<Rightarrow>
             (let kind = moved_kind source candidate m (length target)
              in bindR (take_pair kind [el_id source] [el_id candidate] 1 False
                   (''Normalized text and clause taxonomy are identical.'' # moved_note kind)
                   (ub, ut, res)) (align_exact m target rest))
         | _ \<Rightarrow> align_exact m target rest (ub, ut, res)))"

definition adjacent_pairs ::
  "canonical_element list \<Rightarrow> string set \<Rightarrow> (canonical_element \<times> canonical_element) list" where
  "adjacent_pairs elements ids =
     (let available = filter (\<lambda>e. el_id e \<in> ids) elements
      in filter (\<lambda>(x, y). el_ordinal y = el_ordinal x + 1) (zip available (tl available)))"

definition combined_element :: "canonical_element \<Rightarrow> canonical_element \<Rightarrow> canonical_element" where
  "combined_element x y =
     \<lparr>el_id = el_id x @ ''+'' @ el_id y, el_ordinal = el_ordinal x, el_heading_path = el_heading_path x,
      el_clause_type = (if el_clause_type x = el_clause_type y then el_clause_type x else None),
      el_text = el_text x @ [CHR 0x0A] @ el_text y, el_anchors = el_anchors x @ el_anchors y\<rparr>"

type_synonym group_choice = "(canonical_element \<times> canonical_element \<times> rat) option"

definition consider_group ::
  "canonical_element \<Rightarrow> nat \<Rightarrow> nat \<Rightarrow> canonical_element \<times> canonical_element \<Rightarrow> group_choice
   \<Rightarrow> group_choice result" where
  "consider_group source m n pair best =
     (case pair of (x, y) \<Rightarrow>
        if \<not> compatible_clause_type source x \<and> \<not> compatible_clause_type source y then Inr best
        else
          bindR (checked_element (combined_element x y)) (\<lambda>combined.
            let coverage = token_coverage (el_text source) (el_text combined);
                individual = max (token_coverage (el_text source) (el_text x))
                                 (token_coverage (el_text source) (el_text y));
                confidence = max (candidate_score source combined m n) coverage
            in Inr (if coverage < GROUP_MINIMUM_COVERAGE \<or> coverage - individual < GROUP_COVERAGE_IMPROVEMENT
                    then best
                    else (case best of
                        None \<Rightarrow> Some (x, y, round_dec 4 confidence)
                      | Some (_, _, c) \<Rightarrow>
                          if c < confidence then Some (x, y, round_dec 4 confidence) else best))))"

fun best_group_candidate ::
  "canonical_element \<Rightarrow> nat \<Rightarrow> nat \<Rightarrow> (canonical_element \<times> canonical_element) list \<Rightarrow> group_choice
   \<Rightarrow> group_choice result" where
  "best_group_candidate source m n [] best = Inr best"
| "best_group_candidate source m n (p # ps) best =
     bindR (consider_group source m n p best) (best_group_candidate source m n ps)"

fun align_splits ::
  "canonical_element list \<Rightarrow> nat \<Rightarrow> canonical_element list \<Rightarrow> passes \<Rightarrow> passes result" where
  "align_splits target m [] st = Inr st"
| "align_splits target m (source # rest) (ub, ut, res) =
     (if el_id source \<notin> ub then align_splits target m rest (ub, ut, res)
      else
        bindR (best_group_candidate source m (length target) (adjacent_pairs target ut) None) (\<lambda>best.
          case best of
            None \<Rightarrow> align_splits target m rest (ub, ut, res)
          | Some (x, y, c) \<Rightarrow>
              bindR (take_pair Split [el_id source] [el_id x, el_id y] c (c < REVIEW_CONFIDENCE)
                  [''One baseline element is covered by two adjacent target elements.'']
                  (ub, ut, res)) (align_splits target m rest)))"

fun align_merges ::
  "canonical_element list \<Rightarrow> nat \<Rightarrow> canonical_element list \<Rightarrow> passes \<Rightarrow> passes result" where
  "align_merges baseline n [] st = Inr st"
| "align_merges baseline n (destination # rest) (ub, ut, res) =
     (if el_id destination \<notin> ut then align_merges baseline n rest (ub, ut, res)
      else
        bindR (best_group_candidate destination n (length baseline) (adjacent_pairs baseline ub) None) (\<lambda>best.
          case best of
            None \<Rightarrow> align_merges baseline n rest (ub, ut, res)
          | Some (x, y, c) \<Rightarrow>
              bindR (take_pair Merged [el_id x, el_id y] [el_id destination] c (c < REVIEW_CONFIDENCE)
                  [''Two adjacent baseline elements are covered by one target element.'']
                  (ub, ut, res)) (align_merges baseline n rest)))"

definition remaining_candidates ::
  "canonical_element list \<Rightarrow> canonical_element list \<Rightarrow> string set \<Rightarrow> string set
   \<Rightarrow> (rat \<times> canonical_element \<times> canonical_element) list" where
  "remaining_candidates baseline target ub ut =
     sort_key (\<lambda>(c, x, y). (- c, el_ordinal x, el_ordinal y))
       (concat (map (\<lambda>x. map (\<lambda>y. (candidate_score x y (length baseline) (length target), x, y))
            (filter (\<lambda>y. el_id y \<in> ut \<and> compatible_clause_type x y) target))
          (filter (\<lambda>x. el_id x \<in> ub) baseline)))"

fun align_candidates ::
  "nat \<Rightarrow> nat \<Rightarrow> (rat \<times> canonical_element \<times> canonical_element) list \<Rightarrow> passes \<Rightarrow> passes result" where
  "align_candidates m n [] st = Inr st"
| "align_candidates m n ((c, x, y) # rest) (ub, ut, res) =
     (if c < MINIMUM_CANDIDATE_SCORE then Inr (ub, ut, res)
      else if el_id x \<notin> ub \<or> el_id y \<notin> ut then align_candidates m n rest (ub, ut, res)
      else
        (let kind = moved_kind x y m n
         in bindR (take_pair kind [el_id x] [el_id y] (round_dec 4 c) (c < REVIEW_CONFIDENCE)
              (''Text, heading, clause taxonomy, and relative position were compared.'' # moved_note kind)
              (ub, ut, res)) (align_candidates m n rest)))"

definition unmatched_alignment :: "alignment_kind \<Rightarrow> string list \<Rightarrow> string list \<Rightarrow> alignment result" where
  "unmatched_alignment kind bs ts = checked_alignment
     \<lparr>al_kind = kind, al_baseline = bs, al_target = ts, al_confidence = 1, al_review = False,
      al_rationale = [if kind = Removed then ''No compatible target element was found.''
        else ''No compatible baseline element was found.'']\<rparr>"

fun append_unmatched ::
  "(canonical_element \<Rightarrow> alignment result) \<Rightarrow> string set \<Rightarrow> canonical_element list
   \<Rightarrow> alignment list \<Rightarrow> alignment list result" where
  "append_unmatched mk ids [] res = Inr res"
| "append_unmatched mk ids (e # es) res =
     (if el_id e \<in> ids then bindR (mk e) (\<lambda>a. append_unmatched mk ids es (res @ [a]))
      else append_unmatched mk ids es res)"

text \<open>\<open>baseline_by_id[item].ordinal\<close>; a dictionary built from a list keeps the last entry of a key.\<close>

definition ordinal_by_id :: "canonical_element list \<Rightarrow> string \<Rightarrow> int" where
  "ordinal_by_id elements i = (case find (\<lambda>e. el_id e = i) (rev elements) of
     None \<Rightarrow> 0 | Some e \<Rightarrow> el_ordinal e)"

definition alignment_sort_key ::
  "canonical_element list \<Rightarrow> canonical_element list \<Rightarrow> alignment \<Rightarrow> int \<times> int" where
  "alignment_sort_key baseline target a =
     (if al_baseline a \<noteq> [] then (Min (ordinal_by_id baseline ` set (al_baseline a)), 0)
      else (Min (ordinal_by_id target ` set (al_target a)), 1))"

definition align_versions :: "canonical_version \<Rightarrow> canonical_version \<Rightarrow> alignment list result" where
  "align_versions baseline target =
     (let bs = sort_key el_ordinal (cv_elements baseline);
          ts = sort_key el_ordinal (cv_elements target);
          m = length bs; n = length ts
      in bindR (align_exact m ts bs (el_id ` set bs, el_id ` set ts, [])) (\<lambda>s1.
         bindR (align_splits ts m bs s1) (\<lambda>s2.
         bindR (align_merges bs n ts s2) (\<lambda>(ub, ut, res).
         bindR (align_candidates m n (remaining_candidates bs ts ub ut) (ub, ut, res)) (\<lambda>(ub, ut, res).
         bindR (append_unmatched (\<lambda>e. unmatched_alignment Removed [el_id e] []) ub bs res) (\<lambda>res.
         bindR (append_unmatched (\<lambda>e. unmatched_alignment Added [] [el_id e]) ut ts res) (\<lambda>res.
           Inr (sort_key (alignment_sort_key bs ts) res))))))))"

end
