(* ===== verification/Alignment_Claims.thy ===== *)
theory Alignment_Claims
  imports Version_Alignment
begin

text \<open>
  What the alignment of two versions guarantees: it never raises on valid versions, every element
  of either version is in exactly one alignment, and aligning a version with itself matches every
  element.
\<close>

section \<open>Scores\<close>

lemma card_ratio:
  assumes "finite B" and "A \<subseteq> B" and "B \<noteq> {}"
  shows "(0::rat) \<le> of_nat (card A) / of_nat (card B)" "(of_nat (card A) / of_nat (card B) :: rat) \<le> 1"
proof -
  have "card A \<le> card B" "0 < card B" using assms by (simp_all add: card_mono card_gt_0_iff)
  then show "(0::rat) \<le> of_nat (card A) / of_nat (card B)" "(of_nat (card A) / of_nat (card B) :: rat) \<le> 1"
    by (simp_all add: divide_le_eq)
qed

lemma token_coverage_unit: "0 \<le> token_coverage x y" "token_coverage x y \<le> 1"
  using card_ratio [of "set (tokens x)" "set (tokens x) \<inter> set (tokens y)"]
  by (auto simp: token_coverage_def Let_def)

lemma token_similarity_unit: "0 \<le> token_similarity x y" "token_similarity x y \<le> 1"
  using card_ratio [of "set (tokens x) \<union> set (tokens y)" "set (tokens x) \<inter> set (tokens y)"]
  by (auto simp: token_similarity_def Let_def)

lemma taxonomy_similarity_unit: "0 \<le> taxonomy_similarity x y" "taxonomy_similarity x y \<le> 1"
  by (cases "(x, y)" rule: taxonomy_similarity.cases; simp)+

lemma position_distance_nonneg: "0 \<le> position_distance x y m n"
  by (simp add: position_distance_def)

lemma weighted_le:
  "r \<le> 1 \<Longrightarrow> t \<le> 1 \<Longrightarrow> x \<le> 1 \<Longrightarrow> 0 \<le> d \<Longrightarrow>
    65 / 100 * r + 2 / 10 * t + 1 / 10 * x + 5 / 100 * (1 - d) \<le> (1 :: rat)"
  by (simp add: field_simps)

lemma candidate_score_le: "candidate_score x y m n \<le> 1"
  unfolding candidate_score_def
  by (rule weighted_le [OF ratio_bounds(2) token_similarity_unit(2) taxonomy_similarity_unit(2)
        position_distance_nonneg])

section \<open>Elements that pass their constructor\<close>

definition valid_element :: "canonical_element \<Rightarrow> bool" where
  "valid_element e \<longleftrightarrow> checked_element e = Inr e"

lemma dropWhile_all: "dropWhile p xs = [] \<longleftrightarrow> (\<forall>x \<in> set xs. p x)"
  by (induction xs) auto

lemma str_strip_empty: "str_strip s = [] \<longleftrightarrow> (\<forall>c \<in> set s. is_space c)"
proof -
  have "dropWhile is_space (rev (dropWhile is_space s)) = [] \<longleftrightarrow> (\<forall>c \<in> set (dropWhile is_space s). is_space c)"
    by (simp add: dropWhile_all)
  also have "\<dots> \<longleftrightarrow> (\<forall>c \<in> set s. is_space c)"
  proof (cases "dropWhile is_space s")
    case (Cons c cs)
    then have "\<not> is_space c" by (metis dropWhile_eq_Cons_conv)
    moreover have "c \<in> set s" using Cons by (metis list.set_intros(1) set_dropWhileD)
    ultimately show ?thesis using Cons set_dropWhileD by (metis list.set_intros(1))
  next
    case Nil
    then have "\<forall>c \<in> set s. is_space c" by (simp only: dropWhile_all)
    then show ?thesis unfolding Nil by simp
  qed
  finally show ?thesis by (simp add: str_strip_def)
qed

lemma valid_combined:
  assumes "valid_element x" and "valid_element y"
  shows "checked_element (combined_element x y) = Inr (combined_element x y)"
proof -
  have "el_id x \<noteq> [] \<and> 0 \<le> el_ordinal x \<and> str_strip (el_text x) \<noteq> [] \<and> el_anchors x \<noteq> []"
    using assms(1) by (auto simp: valid_element_def checked_element_def split: if_splits)
  then show ?thesis
    by (auto simp: checked_element_def combined_element_def str_strip_empty)
qed

lemma consider_group_ok:
  assumes "valid_element x" and "valid_element y"
    and b: "\<forall>u v c. best = Some (u, v, c) \<longrightarrow> P u v \<and> 0 \<le> c \<and> c \<le> 1" and p: "P x y"
  shows "\<exists>best'. consider_group source m n (x, y) best = Inr best' \<and>
    (\<forall>u v c. best' = Some (u, v, c) \<longrightarrow> P u v \<and> 0 \<le> c \<and> c \<le> 1)"
proof (cases "\<not> compatible_clause_type source x \<and> \<not> compatible_clause_type source y")
  case True
  then have e: "consider_group source m n (x, y) best = Inr best" by (simp add: consider_group_def)
  show ?thesis unfolding e using b by blast
next
  case False
  define z where "z = combined_element x y"
  define c where "c = max (candidate_score source z m n) (token_coverage (el_text source) (el_text z))"
  have c: "0 \<le> c" "c \<le> 1"
    using token_coverage_unit [of "el_text source" "el_text z"] candidate_score_le [of source z m n]
    by (auto simp: c_def)
  have r: "0 \<le> round_dec 4 c" "round_dec 4 c \<le> 1" using round_dec_unit [OF c] by blast+
  have z: "checked_element z = Inr z" using valid_combined [OF assms(1,2)] by (simp add: z_def)
  have "\<exists>best'. consider_group source m n (x, y) best = Inr best' \<and> (best' = best \<or> best' = Some (x, y, round_dec 4 c))"
    unfolding consider_group_def prod.case if_not_P [OF False] z_def [symmetric] z bindR.simps Let_def c_def [symmetric]
    by (auto split: option.splits)
  then show ?thesis using b p r by auto
qed

lemma best_group_ok:
  assumes "\<forall>(x, y) \<in> set pairs. valid_element x \<and> valid_element y \<and> P x y"
    and "\<forall>u v c. best = Some (u, v, c) \<longrightarrow> P u v \<and> 0 \<le> c \<and> c \<le> 1"
  shows "\<exists>best'. best_group_candidate source m n pairs best = Inr best' \<and>
    (\<forall>u v c. best' = Some (u, v, c) \<longrightarrow> P u v \<and> 0 \<le> c \<and> c \<le> 1)"
  using assms
proof (induction pairs arbitrary: best)
  case (Cons p pairs)
  obtain x y where p: "p = (x, y)" by (cases p)
  have v: "valid_element x" "valid_element y" "P x y" using Cons.prems(1) p by auto
  obtain b where b: "consider_group source m n p best = Inr b"
    "\<forall>u v c. b = Some (u, v, c) \<longrightarrow> P u v \<and> 0 \<le> c \<and> c \<le> 1"
    using consider_group_ok [OF v(1,2) Cons.prems(2) v(3), of source m n] p by blast
  show ?case using Cons.IH [OF _ b(2)] Cons.prems(1) b(1) by simp
qed simp

section \<open>Every pass keeps the books\<close>

definition tracks :: "string list \<Rightarrow> (alignment \<Rightarrow> string list) \<Rightarrow> string set \<Rightarrow> alignment list \<Rightarrow> bool" where
  "tracks ids sel u res \<longleftrightarrow> u \<subseteq> set ids \<and> mset (concat (map sel res)) + mset_set u = mset ids"

lemma tracks_take:
  assumes t: "tracks ids sel u res" and xs: "set xs \<subseteq> u" "distinct xs" and a: "sel a = xs"
  shows "tracks ids sel (u - set xs) (res @ [a])"
proof -
  have f: "finite u" using t by (auto simp: tracks_def intro: finite_subset)
  have "mset_set (u - set xs) + mset_set (set xs) = mset_set u"
    using f xs(1) by (metis mset_set_Union Diff_disjoint Int_commute Un_Diff_cancel2 finite_Diff finite_set sup.absorb1)
  then have "mset_set (u - set xs) + mset xs = mset_set u" using xs(2) by (simp add: mset_set_set)
  then have "mset_set u = mset xs + mset_set (u - set xs)" by (simp add: add.commute)
  then show ?thesis using t a by (auto simp: tracks_def add.assoc)
qed

definition pass_ok :: "string list \<Rightarrow> string list \<Rightarrow> passes \<Rightarrow> bool" where
  "pass_ok bids tids st \<longleftrightarrow> (case st of (ub, ut, res) \<Rightarrow> tracks bids al_baseline ub res \<and>
     tracks tids al_target ut res \<and> (\<forall>a \<in> set res. checked_alignment a = Inr a))"

lemma take_pair_ok:
  assumes "pass_ok bids tids (ub, ut, res)" and "set bs \<subseteq> ub" and "set ts \<subseteq> ut" and "distinct bs" and "distinct ts"
    and "bs \<noteq> []" and "ts \<noteq> []" and "kind \<notin> {Added, Removed}" and "0 \<le> c" and "c \<le> 1"
  shows "\<exists>st'. take_pair kind bs ts c rv rt (ub, ut, res) = Inr st' \<and> pass_ok bids tids st'"
proof -
  let ?a = "\<lparr>al_kind = kind, al_baseline = bs, al_target = ts, al_confidence = c, al_review = rv, al_rationale = rt\<rparr>"
  have a: "checked_alignment ?a = Inr ?a" using assms(6-10) by (auto simp: checked_alignment_def)
  have "tracks bids al_baseline (ub - set bs) (res @ [?a])" "tracks tids al_target (ut - set ts) (res @ [?a])"
    using assms(1-5) by (auto simp: pass_ok_def intro!: tracks_take)
  then have "pass_ok bids tids (ub - set bs, ut - set ts, res @ [?a])"
    using assms(1) a by (simp add: pass_ok_def)
  then show ?thesis by (simp add: take_pair_def a)
qed

lemma in_set_tlD: "x \<in> set (tl xs) \<Longrightarrow> x \<in> set xs"
  by (cases xs) auto

lemma moved_kind_mapped: "moved_kind x y m n \<notin> {Added, Removed}"
  by (simp add: moved_kind_def)

lemma align_exact_ok:
  assumes "pass_ok bids tids st"
  shows "\<exists>st'. align_exact m target rest st = Inr st' \<and> pass_ok bids tids st'"
  using assms
proof (induction m target rest st rule: align_exact.induct [case_names Nil Cons])
  case (Cons m target source rest ub ut res)
  consider "el_id source \<notin> ub" | "el_id source \<in> ub" "\<nexists>c. exact_candidates target ut source = [c]"
    | c where "el_id source \<in> ub" "exact_candidates target ut source = [c]" by blast
  then show ?case
  proof cases
    case 1
    then show ?thesis using Cons by simp
  next
    case 2
    then show ?thesis using Cons by (cases "exact_candidates target ut source" rule: remdups_adj.cases) auto
  next
    case (3 c)
    have "c \<in> set (exact_candidates target ut source)" using 3 by simp
    then have c: "el_id c \<in> ut" by (simp add: exact_candidates_def)
    let ?kind = "moved_kind source c m (length target)"
    obtain st' where st': "take_pair ?kind [el_id source] [el_id c] 1 False
        (''Normalized text and clause taxonomy are identical.'' # moved_note ?kind) (ub, ut, res) = Inr st'"
      "pass_ok bids tids st'"
      using take_pair_ok [OF Cons.prems _ _ _ _ _ _ moved_kind_mapped, of "[el_id source]" "[el_id c]" 1] 3 c
      by fastforce
    show ?thesis using Cons.IH(3) 3 st' by (simp add: Let_def)
  qed
qed auto

lemma adjacent_pairs_ok:
  assumes "distinct (map el_id elements)" and "(x, y) \<in> set (adjacent_pairs elements ids)"
  shows "x \<in> set elements" "y \<in> set elements" "el_id x \<in> ids" "el_id y \<in> ids" "el_id x \<noteq> el_id y"
proof -
  let ?av = "filter (\<lambda>e. el_id e \<in> ids) elements"
  have "(x, y) \<in> set (zip ?av (tl ?av))" "el_ordinal y = el_ordinal x + 1"
    using assms(2) by (auto simp: adjacent_pairs_def Let_def)
  then have "x \<in> set ?av" "y \<in> set (tl ?av)" "x \<noteq> y" by (auto dest: set_zip_leftD set_zip_rightD)
  then have "x \<in> set ?av" "y \<in> set ?av" "x \<noteq> y" by (auto dest: in_set_tlD)
  then show "x \<in> set elements" "y \<in> set elements" "el_id x \<in> ids" "el_id y \<in> ids" "el_id x \<noteq> el_id y"
    using assms(1) distinct_key_inj [OF assms(1)] by auto
qed

lemma adjacent_pairs_valid:
  assumes "distinct (map el_id elements)" and "\<forall>e \<in> set elements. valid_element e"
  shows "\<forall>(x, y) \<in> set (adjacent_pairs elements ids). valid_element x \<and> valid_element y \<and>
    (el_id x \<in> ids \<and> el_id y \<in> ids \<and> el_id x \<noteq> el_id y)"
  using adjacent_pairs_ok [OF assms(1)] assms(2) by blast

lemma align_splits_ok:
  assumes "distinct (map el_id target)" and "\<forall>e \<in> set target. valid_element e" and "pass_ok bids tids st"
  shows "\<exists>st'. align_splits target m rest st = Inr st' \<and> pass_ok bids tids st'"
  using assms(3)
proof (induction rest arbitrary: st)
  case (Cons source rest)
  obtain ub ut res where st: "st = (ub, ut, res)" by (cases st)
  show ?case
  proof (cases "el_id source \<in> ub")
    case True
    obtain best where best: "best_group_candidate source m (length target) (adjacent_pairs target ut) None = Inr best"
      "\<forall>u v c. best = Some (u, v, c) \<longrightarrow> (el_id u \<in> ut \<and> el_id v \<in> ut \<and> el_id u \<noteq> el_id v) \<and> 0 \<le> c \<and> c \<le> 1"
      using best_group_ok [OF adjacent_pairs_valid [OF assms(1,2), of ut], of None source m "length target"] by auto
    show ?thesis
    proof (cases best)
      case None
      then show ?thesis using Cons st True best(1) by simp
    next
      case (Some p)
      obtain u v c where p: "best = Some (u, v, c)" using Some by (cases p) auto
      then have uv: "el_id u \<in> ut" "el_id v \<in> ut" "el_id u \<noteq> el_id v" "0 \<le> c" "c \<le> 1" using best(2) by auto
      obtain st' where st': "take_pair Split [el_id source] [el_id u, el_id v] c (c < REVIEW_CONFIDENCE)
          [''One baseline element is covered by two adjacent target elements.''] (ub, ut, res) = Inr st'"
        "pass_ok bids tids st'"
        using take_pair_ok [of bids tids ub ut res "[el_id source]" "[el_id u, el_id v]" Split c] Cons.prems uv True st
        by fastforce
      show ?thesis using Cons.IH [OF st'(2)] st' st True best(1) p by simp
    qed
  qed (use Cons st in simp)
qed simp

lemma align_merges_ok:
  assumes "distinct (map el_id baseline)" and "\<forall>e \<in> set baseline. valid_element e" and "pass_ok bids tids st"
  shows "\<exists>st'. align_merges baseline n rest st = Inr st' \<and> pass_ok bids tids st'"
  using assms(3)
proof (induction rest arbitrary: st)
  case (Cons destination rest)
  obtain ub ut res where st: "st = (ub, ut, res)" by (cases st)
  show ?case
  proof (cases "el_id destination \<in> ut")
    case True
    obtain best where best:
      "best_group_candidate destination n (length baseline) (adjacent_pairs baseline ub) None = Inr best"
      "\<forall>u v c. best = Some (u, v, c) \<longrightarrow> (el_id u \<in> ub \<and> el_id v \<in> ub \<and> el_id u \<noteq> el_id v) \<and> 0 \<le> c \<and> c \<le> 1"
      using best_group_ok [OF adjacent_pairs_valid [OF assms(1,2), of ub], of None destination n "length baseline"]
      by auto
    show ?thesis
    proof (cases best)
      case None
      then show ?thesis using Cons st True best(1) by simp
    next
      case (Some p)
      obtain u v c where p: "best = Some (u, v, c)" using Some by (cases p) auto
      then have uv: "el_id u \<in> ub" "el_id v \<in> ub" "el_id u \<noteq> el_id v" "0 \<le> c" "c \<le> 1" using best(2) by auto
      obtain st' where st': "take_pair Merged [el_id u, el_id v] [el_id destination] c (c < REVIEW_CONFIDENCE)
          [''Two adjacent baseline elements are covered by one target element.''] (ub, ut, res) = Inr st'"
        "pass_ok bids tids st'"
        using take_pair_ok [of bids tids ub ut res "[el_id u, el_id v]" "[el_id destination]" Merged c] Cons.prems uv True st
        by fastforce
      show ?thesis using Cons.IH [OF st'(2)] st' st True best(1) p by simp
    qed
  qed (use Cons st in simp)
qed simp

lemma align_candidates_ok:
  assumes "\<forall>(c, x, y) \<in> set cands. c \<le> 1" and "pass_ok bids tids st"
  shows "\<exists>st'. align_candidates m n cands st = Inr st' \<and> pass_ok bids tids st'"
  using assms
proof (induction cands arbitrary: st)
  case (Cons p cands)
  obtain c x y where p: "p = (c, x, y)" by (cases p)
  obtain ub ut res where st: "st = (ub, ut, res)" by (cases st)
  show ?case
  proof (cases "MINIMUM_CANDIDATE_SCORE \<le> c \<and> el_id x \<in> ub \<and> el_id y \<in> ut")
    case True
    have "0 \<le> c" using True by (simp add: MINIMUM_CANDIDATE_SCORE_def)
    moreover have "c \<le> 1" using Cons.prems(1) p by simp
    ultimately have c: "0 \<le> round_dec 4 c" "round_dec 4 c \<le> 1" by (blast intro: round_dec_unit)+
    let ?kind = "moved_kind x y m n"
    obtain st' where st': "take_pair ?kind [el_id x] [el_id y] (round_dec 4 c) (c < REVIEW_CONFIDENCE)
        (''Text, heading, clause taxonomy, and relative position were compared.'' # moved_note ?kind)
        (ub, ut, res) = Inr st'" "pass_ok bids tids st'"
      using take_pair_ok [OF _ _ _ _ _ _ _ moved_kind_mapped c, of bids tids ub ut res "[el_id x]" "[el_id y]"]
        Cons.prems(2) True st by fastforce
    show ?thesis using Cons.IH [OF _ st'(2)] Cons.prems(1) st' st True p by (simp add: Let_def)
  next
    case False
    then show ?thesis using Cons p st by (cases "c < MINIMUM_CANDIDATE_SCORE") auto
  qed
qed simp

section \<open>The whole alignment\<close>

lemma append_unmatched_ok:
  assumes "\<And>e. \<exists>a. mk e = Inr a \<and> checked_alignment a = Inr a \<and> sel a = [el_id e] \<and> oth a = []"
  shows "\<exists>new. append_unmatched mk ids es res = Inr (res @ new) \<and> (\<forall>a \<in> set new. checked_alignment a = Inr a) \<and>
    concat (map sel new) = filter (\<lambda>i. i \<in> ids) (map el_id es) \<and> concat (map oth new) = []"
proof (induction es arbitrary: res)
  case (Cons e es)
  show ?case
  proof (cases "el_id e \<in> ids")
    case True
    obtain a where a: "mk e = Inr a" "checked_alignment a = Inr a" "sel a = [el_id e]" "oth a = []" using assms by blast
    obtain new where "append_unmatched mk ids es (res @ [a]) = Inr ((res @ [a]) @ new)"
      "\<forall>a \<in> set new. checked_alignment a = Inr a" "concat (map sel new) = filter (\<lambda>i. i \<in> ids) (map el_id es)"
      "concat (map oth new) = []" using Cons.IH by blast
    then show ?thesis using a True by (intro exI [of _ "a # new"]) simp
  qed (use Cons in simp)
qed simp

lemma unmatched_ok:
  "\<exists>a. unmatched_alignment Removed [i] [] = Inr a \<and> checked_alignment a = Inr a \<and> al_baseline a = [i] \<and> al_target a = []"
  "\<exists>a. unmatched_alignment Added [] [i] = Inr a \<and> checked_alignment a = Inr a \<and> al_target a = [i] \<and> al_baseline a = []"
  by (simp_all add: unmatched_alignment_def checked_alignment_def)

lemma tracks_rest:
  assumes t: "tracks ids sel u res" and d: "distinct ids"
  shows "mset (concat (map sel res)) + mset (filter (\<lambda>i. i \<in> u) ids) = mset ids"
proof -
  have u: "u \<subseteq> set ids" using t by (simp add: tracks_def)
  have "mset (filter (\<lambda>i. i \<in> u) ids) = mset_set (set (filter (\<lambda>i. i \<in> u) ids))"
    using mset_set_set [of "filter (\<lambda>i. i \<in> u) ids"] d by (simp only: distinct_filter)
  also have "set (filter (\<lambda>i. i \<in> u) ids) = u" using u by auto
  finally show ?thesis using t by (simp add: tracks_def)
qed

lemma candidates_le: "\<forall>(c, x, y) \<in> set (remaining_candidates bs ts ub ut). c \<le> 1"
  by (auto simp: remaining_candidates_def candidate_score_le)

lemma sort_key_distinct_map: "distinct (map f xs) \<Longrightarrow> distinct (map f (sort_key g xs))"
  by (metis distinct_map mset_map mset_sort mset_eq_imp_distinct_iff)

definition valid_version :: "canonical_version \<Rightarrow> bool" where
  "valid_version v \<longleftrightarrow> checked_version v = Inr v \<and> (\<forall>e \<in> set (cv_elements v). valid_element e) \<and>
     distinct (map el_id (cv_elements v))"

section \<open>A version against itself\<close>

lemma compatible_self [simp]: "compatible_clause_type e e"
  by (simp add: compatible_clause_type_def split: option.split)

lemma moved_self [simp]: "moved_kind e e m m = Matched"
  by (simp add: moved_kind_def position_distance_def MOVED_POSITION_DISTANCE_def)

definition self_alignment :: "canonical_element \<Rightarrow> alignment" where
  "self_alignment e = \<lparr>al_kind = Matched, al_baseline = [el_id e], al_target = [el_id e], al_confidence = 1,
     al_review = False, al_rationale = [''Normalized text and clause taxonomy are identical.'']\<rparr>"

lemma take_self: "take_pair Matched [el_id e] [el_id e] 1 False (''Normalized text and clause taxonomy are identical.'' # moved_note Matched)
    (ub, ut, res) = Inr (ub - {el_id e}, ut - {el_id e}, res @ [self_alignment e])"
  by (simp add: take_pair_def checked_alignment_def self_alignment_def moved_note_def)

lemma exact_self:
  assumes "distinct (map (\<lambda>e. normalized_text (el_text e)) es)" and "e \<in> set es" and "el_id e \<in> ut"
  shows "exact_candidates es ut e = [e]"
proof -
  have "filter (\<lambda>x. normalized_text (el_text x) = normalized_text (el_text e)) es = [e]"
    using assms(1,2) by (induction es) (auto simp: filter_empty_conv image_iff)
  moreover have "exact_candidates es ut e = filter (\<lambda>x. el_id x \<in> ut \<and> compatible_clause_type e x)
      (filter (\<lambda>x. normalized_text (el_text x) = normalized_text (el_text e)) es)"
    by (simp add: exact_candidates_def conj_commute)
  ultimately show ?thesis using assms(3) by simp
qed

lemma align_exact_self:
  assumes "distinct (map (\<lambda>e. normalized_text (el_text e)) es)" and "distinct (map el_id rest)"
    and "set rest \<subseteq> set es"
  shows "align_exact (length es) es rest (el_id ` set rest, el_id ` set rest, res) =
    Inr ({}, {}, res @ map self_alignment rest)"
  using assms(2,3)
proof (induction rest arbitrary: res)
  case (Cons e rest)
  have c: "exact_candidates es (insert (el_id e) (el_id ` set rest)) e = [e]"
    by (rule exact_self [OF assms(1)]) (use Cons.prems in auto)
  have i: "insert (el_id e) (el_id ` set rest) - {el_id e} = el_id ` set rest" using Cons.prems(1) by auto
  have "align_exact (length es) es rest (el_id ` set rest, el_id ` set rest, res @ [self_alignment e]) =
      Inr ({}, {}, (res @ [self_alignment e]) @ map self_alignment rest)"
    by (rule Cons.IH) (use Cons.prems in auto)
  then show ?case by (simp add: c take_self i)
qed simp

lemma passes_done:
  "align_splits ts m bs ({}, {}, res) = Inr ({}, {}, res)" "align_merges bs n ts ({}, {}, res) = Inr ({}, {}, res)"
  "remaining_candidates bs ts {} {} = []" "append_unmatched mk {} es res = Inr res"
proof -
  show "align_splits ts m bs ({}, {}, res) = Inr ({}, {}, res)" by (induction bs) simp_all
  show "align_merges bs n ts ({}, {}, res) = Inr ({}, {}, res)" by (induction ts) simp_all
  show "remaining_candidates bs ts {} {} = []" by (simp add: remaining_candidates_def)
  show "append_unmatched mk {} es res = Inr res" by (induction es) simp_all
qed

section \<open>From the manifest\<close>

lemma str_nat_step: "str_nat n = (if n < 10 then [char_of (48 + n)] else str_nat (n div 10) @ [char_of (48 + n mod 10)])"
  by (rule str_nat.simps)

fun digits_value :: "string \<Rightarrow> nat" where
  "digits_value s = foldl (\<lambda>v c. 10 * v + (of_char c - 48)) 0 s"

lemma digits_value_str_nat: "digits_value (str_nat n) = n"
proof (induction n rule: less_induct)
  case (less n)
  have c: "(of_char (char_of (48 + d) :: char) :: nat) = 48 + d" if "d < 10" for d :: nat using that by simp
  show ?case
  proof (cases "n < 10")
    case True
    then show ?thesis using c [OF True] by (subst str_nat_step) simp
  next
    case False
    have "digits_value (str_nat (n div 10)) = n div 10" using less False by simp
    then show ?thesis using False c [of "n mod 10"] by (subst str_nat_step) simp
  qed
qed

lemma str_nat_inj: "str_nat m = str_nat n \<Longrightarrow> m = n"
  by (metis digits_value_str_nat)

lemma set_dropWhile_keep: "c \<in> set s \<Longrightarrow> \<not> p c \<Longrightarrow> c \<in> set (dropWhile p s)"
  by (induction s) auto

lemma str_strip_keep: "c \<in> set s \<Longrightarrow> \<not> is_space c \<Longrightarrow> c \<in> set (str_strip s)"
  by (simp add: str_strip_def set_dropWhile_keep)

lemma str_strip_idem_nonempty: "str_strip s \<noteq> [] \<Longrightarrow> str_strip (str_strip s) \<noteq> []"
  unfolding str_strip_empty using str_strip_keep by blast

lemma join_with_set: "x \<in> set xs \<Longrightarrow> set x \<subseteq> set (join_with sep xs)"
  by (induction sep xs rule: join_with.induct) auto

lemma join_nonblank: "x \<in> set xs \<Longrightarrow> str_strip x \<noteq> [] \<Longrightarrow> str_strip (join_with sep xs) \<noteq> []"
  unfolding str_strip_empty using join_with_set by blast

definition section_ok :: "string \<Rightarrow> section_state \<Rightarrow> bool" where
  "section_ok checksum st \<longleftrightarrow>
     (case st of (elements, path, entries) \<Rightarrow>
        (\<forall>e \<in> set elements. valid_element e) \<and> map el_ordinal elements = map int [0..<length elements] \<and>
        map el_id elements =
          map (\<lambda>i. ''section-'' @ take 16 checksum @ ''-'' @ str_nat i) [0..<length elements] \<and>
        (\<forall>(a, t) \<in> set entries. str_strip t \<noteq> []))"

definition anchors_so_far :: "section_state \<Rightarrow> string list" where
  "anchors_so_far st = (case st of (elements, path, entries) \<Rightarrow> concat (map el_anchors elements) @ map fst entries)"

lemma flush_section_ok:
  assumes "section_ok checksum st"
  shows "\<exists>elements path. flush_section checksum by_anchor st = Inr (elements, path, []) \<and>
    section_ok checksum (elements, path, []) \<and> anchors_so_far (elements, path, []) = anchors_so_far st"
proof -
  obtain elements path entries where st: "st = (elements, path, entries)" by (cases st)
  show ?thesis
  proof (cases "entries = []")
    case True
    then show ?thesis using assms st by (simp add: flush_section_def)
  next
    case False
    define e where "e = \<lparr>el_id = ''section-'' @ take 16 checksum @ ''-'' @ str_nat (length elements),
       el_ordinal = int (length elements), el_heading_path = path,
       el_clause_type = clause_type (map fst entries) by_anchor,
       el_text = join_with [CHR 0x0A] (map snd entries), el_anchors = map fst entries\<rparr>"
    obtain a t where "(a, t) \<in> set entries" using False by (cases entries) auto
    then have "str_strip (el_text e) \<noteq> []"
      using assms st join_nonblank [of t "map snd entries"] by (force simp: section_ok_def e_def)
    then have e: "checked_element e = Inr e" using False by (simp add: checked_element_def e_def)
    have "flush_section checksum by_anchor st = Inr (elements @ [e], path, [])"
      unfolding flush_section_def st prod.case if_not_P [OF False] Let_def e_def [symmetric] e bindR.simps ..
    moreover have "section_ok checksum (elements @ [e], path, [])"
      using assms st e by (simp add: section_ok_def valid_element_def) (simp add: e_def)
    moreover have "anchors_so_far (elements @ [e], path, []) = anchors_so_far st"
      by (simp add: anchors_so_far_def st e_def)
    ultimately show ?thesis by blast
  qed
qed

text \<open>The anchor a block contributes.\<close>

definition block_anchors :: "json \<Rightarrow> string list" where
  "block_anchors b =
     (case (required_string b ''text'', required_string b ''anchor_id'') of
        (Inr raw, Inr anchor) \<Rightarrow> (if str_strip raw = [] then [] else [anchor])
      | _ \<Rightarrow> [])"

lemma add_block_ok:
  assumes "add_block checksum by_anchor b st = Inr st'" and "section_ok checksum st"
  shows "section_ok checksum st' \<and> anchors_so_far st' = anchors_so_far st @ block_anchors b"
proof -
  obtain raw where raw: "required_string b ''text'' = Inr raw"
    using assms(1) by (auto simp: add_block_def result_simps)
  show ?thesis
  proof (cases "str_strip raw = []")
    case True
    then have "st' = st" using assms(1) raw by (simp add: add_block_def)
    then show ?thesis using assms(2) True raw by (simp add: block_anchors_def split: sum.split)
  next
    case False
    obtain anchor where anchor: "required_string b ''anchor_id'' = Inr anchor"
      using assms(1) raw False by (auto simp: add_block_def Let_def bindR_Inr_iff)
    obtain es path entries where s1: "(if json_get b ''kind'' = Some (JStr ''heading'')
        then bindR (flush_section checksum by_anchor st) (\<lambda>(elements, path, entries). Inr (elements, path @ [str_strip raw], entries))
        else Inr st) = Inr (es, path, entries)" "st' = (es, path, entries @ [(anchor, str_strip raw)])"
      using assms(1) raw anchor False by (auto simp: add_block_def Let_def bindR_Inr_iff [of _ _ st'])
    have "section_ok checksum (es, path, entries) \<and> anchors_so_far (es, path, entries) = anchors_so_far st"
    proof (cases "json_get b ''kind'' = Some (JStr ''heading'')")
      case True
      obtain elements p where "flush_section checksum by_anchor st = Inr (elements, p, [])"
        "section_ok checksum (elements, p, [])" "anchors_so_far (elements, p, []) = anchors_so_far st"
        using flush_section_ok [OF assms(2)] by blast
      then show ?thesis using s1(1) True by (auto simp: section_ok_def anchors_so_far_def)
    qed (use s1(1) assms(2) in simp)
    then show ?thesis
      using s1(2) raw anchor False str_strip_idem_nonempty [OF False]
      by (auto simp: section_ok_def anchors_so_far_def block_anchors_def)
  qed
qed

lemma add_blocks_ok:
  assumes "add_blocks checksum by_anchor bs st = Inr st'" and "section_ok checksum st"
  shows "section_ok checksum st' \<and> anchors_so_far st' = anchors_so_far st @ concat (map block_anchors bs)"
  using assms
proof (induction bs arbitrary: st)
  case (Cons b bs)
  obtain t where t: "add_block checksum by_anchor b st = Inr t" "add_blocks checksum by_anchor bs t = Inr st'"
    using Cons.prems(1) by (auto simp: bindR_Inr_iff)
  show ?case using Cons.IH [OF t(2)] add_block_ok [OF t(1) Cons.prems(2)] by simp
qed simp

section \<open>Properties\<close>

text \<open>
  Aligning two valid versions never raises, and it loses and duplicates nothing: the baseline
  ids over all alignments are a permutation of the element ids of the baseline, the target ids of
  those of the target, and every alignment passes the checks of its constructor, so confidences
  lie between zero and one and each kind names the sides it must name.
\<close>

theorem align_versions_partition:
  assumes "valid_version v" and "valid_version w"
  shows "\<exists>as. align_versions v w = Inr as \<and> (\<forall>a \<in> set as. checked_alignment a = Inr a) \<and>
    mset (concat (map al_baseline as)) = mset (map el_id (cv_elements v)) \<and>
    mset (concat (map al_target as)) = mset (map el_id (cv_elements w))"
proof -
  define bs where "bs = sort_key el_ordinal (cv_elements v)"
  define ts where "ts = sort_key el_ordinal (cv_elements w)"
  have d: "distinct (map el_id bs)" "distinct (map el_id ts)"
    using assms sort_key_distinct_map by (auto simp: bs_def ts_def valid_version_def)
  have v: "\<forall>e \<in> set bs. valid_element e" "\<forall>e \<in> set ts. valid_element e"
    using assms by (simp_all add: bs_def ts_def valid_version_def)
  let ?ok = "pass_ok (map el_id bs) (map el_id ts)"
  have "?ok (el_id ` set bs, el_id ` set ts, [])"
    using d by (simp add: pass_ok_def tracks_def flip: set_map)
      (simp add: mset_set_set del: set_map)
  then obtain s1 where s1: "align_exact (length bs) ts bs (el_id ` set bs, el_id ` set ts, []) = Inr s1" "?ok s1"
    using align_exact_ok by blast
  obtain s2 where s2: "align_splits ts (length bs) bs s1 = Inr s2" "?ok s2"
    using align_splits_ok [OF d(2) v(2) s1(2)] by blast
  obtain ub ut res where s3: "align_merges bs (length ts) ts s2 = Inr (ub, ut, res)" "?ok (ub, ut, res)"
    using align_merges_ok [OF d(1) v(1) s2(2)] by (metis prod_cases3)
  obtain ub' ut' res' where s4: "align_candidates (length bs) (length ts) (remaining_candidates bs ts ub ut)
      (ub, ut, res) = Inr (ub', ut', res')" "?ok (ub', ut', res')"
    using align_candidates_ok [OF candidates_le s3(2)] by (metis prod_cases3)
  obtain new1 where n1: "append_unmatched (\<lambda>e. unmatched_alignment Removed [el_id e] []) ub' bs res' = Inr (res' @ new1)"
      "\<forall>a \<in> set new1. checked_alignment a = Inr a"
      "concat (map al_baseline new1) = filter (\<lambda>i. i \<in> ub') (map el_id bs)" "concat (map al_target new1) = []"
    using append_unmatched_ok [of "\<lambda>e. unmatched_alignment Removed [el_id e] []" al_baseline al_target] unmatched_ok(1)
    by meson
  obtain new2 where n2: "append_unmatched (\<lambda>e. unmatched_alignment Added [] [el_id e]) ut' ts (res' @ new1) = Inr ((res' @ new1) @ new2)"
      "\<forall>a \<in> set new2. checked_alignment a = Inr a"
      "concat (map al_target new2) = filter (\<lambda>i. i \<in> ut') (map el_id ts)" "concat (map al_baseline new2) = []"
    using append_unmatched_ok [of "\<lambda>e. unmatched_alignment Added [] [el_id e]" al_target al_baseline] unmatched_ok(2)
    by meson
  let ?as = "sort_key (alignment_sort_key bs ts) (res' @ new1 @ new2)"
  have t: "tracks (map el_id bs) al_baseline ub' res'" "tracks (map el_id ts) al_target ut' res'"
      "\<forall>a \<in> set res'. checked_alignment a = Inr a"
    using s4(2) by (simp_all add: pass_ok_def)
  have perm: "mset (concat (map sel (sort_key k xs))) = mset (concat (map sel xs))"
    for sel :: "alignment \<Rightarrow> string list" and k :: "alignment \<Rightarrow> int \<times> int" and xs
    by (metis mset_concat mset_map mset_sort sum_mset_sum_list)
  have "align_versions v w = Inr ?as"
    unfolding align_versions_def Let_def bs_def [symmetric] ts_def [symmetric] s1(1) bindR.simps s2(1) s3(1) prod.case
      s4(1) n1(1) n2(1) by simp
  moreover have "\<forall>a \<in> set ?as. checked_alignment a = Inr a" using n1(2) n2(2) t(3) by auto
  moreover have "mset (concat (map al_baseline ?as)) = mset (map el_id (cv_elements v))"
    using tracks_rest [OF t(1) d(1)]
    unfolding perm map_append concat_append n1(3) n2(4) by (simp add: bs_def)
  moreover have "mset (concat (map al_target ?as)) = mset (map el_id (cv_elements w))"
    using tracks_rest [OF t(2) d(2)]
    unfolding perm map_append concat_append n1(4) n2(3) by (simp add: ts_def)
  ultimately show ?thesis by blast
qed

definition demo_element :: "nat \<Rightarrow> string \<Rightarrow> canonical_element" where
  "demo_element i t = \<lparr>el_id = ''e'' @ str_nat i, el_ordinal = int i, el_heading_path = [''Terms''],
     el_clause_type = None, el_text = t, el_anchors = [''a'' @ str_nat i]\<rparr>"

definition demo_base :: canonical_version where
  "demo_base = \<lparr>cv_checksum = ''sha'', cv_elements = [demo_element 1 ''The fee is 10 USD.'',
     demo_element 0 ''Either party may terminate.'']\<rparr>"

definition demo_target :: canonical_version where
  "demo_target = \<lparr>cv_checksum = ''shb'', cv_elements = [demo_element 0 ''Either party may terminate!'']\<rparr>"

lemma demo_valid: "valid_version demo_base" "valid_version demo_target"
  by code_simp+

lemma align_versions_partition_witness:
  "\<exists>as. align_versions demo_base demo_target = Inr as \<and> mset (concat (map al_baseline as)) = mset [''e0'', ''e1'']"
proof -
  have "mset (map el_id (cv_elements demo_base)) = mset [''e0'', ''e1'']" by code_simp
  then show ?thesis using align_versions_partition [OF demo_valid] by auto
qed

text \<open>
  A version aligned with itself is unchanged: when the normalized texts of its elements differ
  from each other, every element is matched with itself at full confidence, in document order,
  and nothing is reported as moved, split, merged, added or removed.
\<close>

theorem align_self_matches:
  assumes v: "distinct (map el_id (cv_elements v))"
    and t: "distinct (map (\<lambda>e. normalized_text (el_text e)) (cv_elements v))"
  shows "align_versions v v = Inr (map self_alignment (sort_key el_ordinal (cv_elements v)))"
proof -
  define es where "es = sort_key el_ordinal (cv_elements v)"
  have d: "distinct (map (\<lambda>e. normalized_text (el_text e)) es)" "distinct (map el_id es)"
    using v t sort_key_distinct_map by (auto simp: es_def)
  have "find (\<lambda>x. el_id x = el_id e) (rev es) = Some e" if "e \<in> set es" for e
    using find_distinct_key [of el_id "rev es" e] d(2) that by (simp add: rev_map [symmetric])
  then have k: "alignment_sort_key es es (self_alignment e) = (el_ordinal e, 0)" if "e \<in> set es" for e
    using that by (simp add: alignment_sort_key_def self_alignment_def ordinal_by_id_def)
  have "sorted (map el_ordinal es)" by (simp add: es_def)
  then have "sorted (map (\<lambda>e. (el_ordinal e, 0 :: int)) es)"
    by (simp add: sorted_map sorted_wrt_map less_eq_prod_def) (simp add: sorted_wrt_iff_nth_less less_eq_prod_def order_le_less)
  moreover have "map (alignment_sort_key es es) (map self_alignment es) = map (\<lambda>e. (el_ordinal e, 0)) es"
    using k by simp
  ultimately have "sorted (map (alignment_sort_key es es) (map self_alignment es))" by metis
  then have s: "sort_key (alignment_sort_key es es) (map self_alignment es) = map self_alignment es"
    by (rule sort_key_id_if_sorted)
  have x: "align_exact (length es) es es (el_id ` set es, el_id ` set es, []) = Inr ({}, {}, map self_alignment es)"
    using align_exact_self [OF d, of "[]"] by simp
  show ?thesis
    unfolding align_versions_def Let_def es_def [symmetric] x bindR.simps passes_done prod.case
    using s by (simp add: passes_done)
qed

lemma align_self_matches_witness:
  "align_versions demo_base demo_base = Inr (map self_alignment
     [demo_element 0 ''Either party may terminate.'', demo_element 1 ''The fee is 10 USD.''])"
proof -
  have "distinct (map el_id (cv_elements demo_base))"
    "distinct (map (\<lambda>e. normalized_text (el_text e)) (cv_elements demo_base))" by code_simp+
  from align_self_matches [OF this] show ?thesis
    by (simp add: demo_base_def demo_element_def)
qed

text \<open>
  The adapter is well typed and drops no evidence: a version built from a manifest is valid
  (unique ids, non-blank texts, anchors everywhere), its ordinals count from zero, and its
  citation anchors, in order, are exactly those of the manifest's non-blank blocks.
\<close>

theorem manifest_version_valid:
  assumes "canonical_version_from_manifest m = Inr v" and "blocks_from_manifest m = Inr bs"
  shows "valid_version v \<and> map el_ordinal (cv_elements v) = map int [0..<length (cv_elements v)] \<and>
    concat (map el_anchors (cv_elements v)) = concat (map block_anchors bs)"
proof -
  obtain kvs where src: "json_get m ''source'' = Some (JObj kvs)"
    using assms(1) by (auto simp: canonical_version_from_manifest_def split: option.splits json.splits)
  obtain checksum st where c: "required_string (JObj kvs) ''checksum'' = Inr checksum"
    and st: "add_blocks checksum (clause_types_by_anchor m) bs ([], [], []) = Inr st"
    and fin: "bindR (flush_section checksum (clause_types_by_anchor m) st) (\<lambda>(elements, _, _).
       checked_version \<lparr>cv_checksum = checksum, cv_elements = elements\<rparr>) = Inr v"
    using assms src by (auto simp: canonical_version_from_manifest_def Let_def bindR_Inr_iff)
  have ok: "section_ok checksum st" "anchors_so_far st = concat (map block_anchors bs)"
    using add_blocks_ok [OF st] by (simp_all add: section_ok_def anchors_so_far_def)
  obtain es path where f: "flush_section checksum (clause_types_by_anchor m) st = Inr (es, path, [])"
    "section_ok checksum (es, path, [])" "anchors_so_far (es, path, []) = anchors_so_far st"
    using flush_section_ok [OF ok(1)] by blast
  have v: "checked_version \<lparr>cv_checksum = checksum, cv_elements = es\<rparr> = Inr v" using fin f(1) by simp
  then have ve: "v = \<lparr>cv_checksum = checksum, cv_elements = es\<rparr>" by (simp add: checked_version_def split: if_splits)
  have "inj_on (\<lambda>i. ''section-'' @ take 16 checksum @ ''-'' @ str_nat i) (set [0..<length es])"
    by (rule inj_onI) (simp add: str_nat_inj)
  then have "distinct (map el_id es)" using f(2) by (simp add: section_ok_def distinct_map)
  then show ?thesis
    using f v ok(2) unfolding ve by (auto simp: valid_version_def section_ok_def anchors_so_far_def)
qed

definition demo_block :: "string \<Rightarrow> string \<Rightarrow> string \<Rightarrow> json" where
  "demo_block k a t = JObj [(''kind'', JStr k), (''anchor_id'', JStr a), (''text'', JStr t)]"

definition demo_blocks :: "json list" where
  "demo_blocks = [demo_block ''heading'' ''a1'' ''Fees'', demo_block ''paragraph'' ''a2'' ''The fee is 10 USD.'',
     demo_block ''paragraph'' ''a3'' ''  '', demo_block ''heading'' ''a4'' ''Term'']"

definition demo_manifest :: json where
  "demo_manifest = JObj [(''source'', JObj [(''checksum'', JStr ''sha'')]),
     (''document'', JObj [(''pages'', JList [JObj [(''blocks'', JList demo_blocks)]])])]"

lemma demo_manifest_version:
  "\<exists>v. canonical_version_from_manifest demo_manifest = Inr v \<and> length (cv_elements v) = 2"
  "blocks_from_manifest demo_manifest = Inr demo_blocks"
  "concat (map block_anchors demo_blocks) = [''a1'', ''a2'', ''a4'']"
proof -
  have "(case canonical_version_from_manifest demo_manifest of Inr v \<Rightarrow> length (cv_elements v) = 2 | _ \<Rightarrow> False)"
    by code_simp
  then show "\<exists>v. canonical_version_from_manifest demo_manifest = Inr v \<and> length (cv_elements v) = 2"
    by (auto split: sum.splits)
qed code_simp+

lemma manifest_version_valid_witness:
  "\<exists>v. canonical_version_from_manifest demo_manifest = Inr v \<and>
     concat (map el_anchors (cv_elements v)) = [''a1'', ''a2'', ''a4'']"
  using demo_manifest_version manifest_version_valid [OF _ demo_manifest_version(2)] by auto

end
