(* ===== verification/Usage_Limits.thy ===== *)
theory Usage_Limits
  imports Py_Text
begin

text \<open>
  The AI usage ledger (\<open>usage.py\<close>) and the rate limits (\<open>limits.py\<close>): reservations against a monthly
  budget of tokens and cost, their settlement and cancellation, and the request windows with the
  local fallback used when Redis is down. What the Redis script returns is an argument. Costs are
  exact decimals, as the code's \<open>Decimal(str(x))\<close> makes them.
\<close>

section \<open>The ledger\<close>

record usage_row =
  us_id :: uuid
  us_org :: uuid
  us_ws :: uuid
  us_user :: uuid
  us_operation :: string
  us_provider :: string
  us_configuration :: string
  us_estimated_tokens :: int
  us_estimated_cost :: rat
  us_actual_tokens :: "int option"
  us_actual_cost :: "rat option"
  us_status :: string
  us_settlement_key :: "string option"
  us_created_at :: datetime
  us_settled_at :: "datetime option"

record usage_amount =
  um_tokens :: int
  um_cost :: rat

record usage_budget =
  bu_max_tokens :: int
  bu_max_cost :: rat

record limit_scope =
  ls_org :: uuid
  ls_ws :: uuid
  ls_user :: uuid

record rate_limit_policy =
  rl_limit :: int
  rl_window :: int
  rl_expensive :: bool

record limit_decision =
  ld_allowed :: bool
  ld_reason :: string
  ld_retry_after :: "int option"
  ld_reservation :: "uuid option"

text \<open>\<open>now.replace(day=1, hour=0, minute=0, second=0, microsecond=0)\<close>.\<close>

definition month_start :: "datetime \<Rightarrow> datetime" where
  "month_start now =
     (let days = now div 86400000000; (y, m, d) = civil_of_days days
      in (days - (d - 1)) * 86400000000)"

definition row_tokens :: "usage_row \<Rightarrow> int" where
  "row_tokens r = (case us_actual_tokens r of Some t \<Rightarrow> t | None \<Rightarrow> us_estimated_tokens r)"

definition row_cost :: "usage_row \<Rightarrow> rat" where
  "row_cost r = (case us_actual_cost r of Some c \<Rightarrow> c | None \<Rightarrow> us_estimated_cost r)"

definition counted :: "uuid \<Rightarrow> datetime \<Rightarrow> usage_row \<Rightarrow> bool" where
  "counted g since r \<longleftrightarrow> us_org r = g \<and> since \<le> us_created_at r \<and> us_status r \<in> {''reserved'', ''settled''}"

definition usage_since :: "uuid \<Rightarrow> datetime \<Rightarrow> usage_row list \<Rightarrow> int \<times> rat" where
  "usage_since g since rows =
     (let rs = filter (counted g since) rows
      in (sum_list (map row_tokens rs), sum_list (map row_cost rs)))"

definition current_usage :: "uuid \<Rightarrow> datetime \<Rightarrow> usage_row list \<Rightarrow> int \<times> rat" where
  "current_usage g now rows = usage_since g (month_start now) rows"

definition reserve_usage ::
  "usage_budget \<Rightarrow> limit_scope \<Rightarrow> string \<Rightarrow> string \<Rightarrow> string \<Rightarrow> usage_amount \<Rightarrow> uuid option \<Rightarrow> uuid
   \<Rightarrow> datetime \<Rightarrow> usage_row list \<Rightarrow> limit_decision \<times> usage_row list" where
  "reserve_usage budget scope operation provider configuration estimated reservation_id new_id now rows =
     (let i = (case reservation_id of Some r \<Rightarrow> r | None \<Rightarrow> new_id)
      in case find (\<lambda>r. us_id r = i) rows of
           Some existing \<Rightarrow>
             (let same = (us_org existing = ls_org scope \<and> us_ws existing = ls_ws scope \<and>
                    us_user existing = ls_user scope \<and> us_operation existing = operation)
              in (\<lparr>ld_allowed = same, ld_reason = (if same then ''allowed'' else ''reservation_conflict''),
                   ld_retry_after = None, ld_reservation = Some i\<rparr>, rows))
         | None \<Rightarrow>
             (case current_usage (ls_org scope) now rows of
                (tokens, cost) \<Rightarrow>
                  if bu_max_tokens budget < tokens + um_tokens estimated \<or>
                     bu_max_cost budget < cost + um_cost estimated
                  then (\<lparr>ld_allowed = False, ld_reason = ''budget_exhausted'', ld_retry_after = None,
                         ld_reservation = None\<rparr>, rows)
                  else (\<lparr>ld_allowed = True, ld_reason = ''allowed'', ld_retry_after = None,
                         ld_reservation = Some i\<rparr>,
                        rows @ [\<lparr>us_id = i, us_org = ls_org scope, us_ws = ls_ws scope,
                          us_user = ls_user scope, us_operation = operation, us_provider = provider,
                          us_configuration = configuration, us_estimated_tokens = um_tokens estimated,
                          us_estimated_cost = um_cost estimated, us_actual_tokens = None,
                          us_actual_cost = None, us_status = ''reserved'', us_settlement_key = None,
                          us_created_at = now, us_settled_at = None\<rparr>])))"

definition settle_row :: "usage_amount \<Rightarrow> string \<Rightarrow> datetime \<Rightarrow> usage_row \<Rightarrow> usage_row" where
  "settle_row actual key now r = r\<lparr>us_actual_tokens := Some (um_tokens actual),
     us_actual_cost := Some (um_cost actual), us_status := ''settled'', us_settlement_key := Some key,
     us_settled_at := Some now\<rparr>"

definition settle_usage ::
  "uuid \<Rightarrow> usage_amount \<Rightarrow> string \<Rightarrow> datetime \<Rightarrow> usage_row list \<Rightarrow> usage_row list result" where
  "settle_usage i actual key now rows =
     (case find (\<lambda>r. us_id r = i) rows of
        None \<Rightarrow> Inl (LookupError ''usage reservation is unavailable'')
      | Some r \<Rightarrow>
          if us_status r = ''settled'' then
            (if us_settlement_key r \<noteq> Some key
             then Inl (ValueError ''usage reservation was settled by another provider request'')
             else Inr rows)
          else Inr (update_where (\<lambda>r. us_id r = i) (settle_row actual key now) rows))"

definition cancel_usage :: "uuid \<Rightarrow> usage_row list \<Rightarrow> usage_row list result" where
  "cancel_usage i rows =
     (case find (\<lambda>r. us_id r = i) rows of
        None \<Rightarrow> Inr rows
      | Some r \<Rightarrow>
          if us_status r = ''cancelled'' then Inr rows
          else if us_status r = ''settled'' then Inl (ValueError ''settled usage cannot be cancelled'')
          else Inr (update_where (\<lambda>r. us_id r = i) (\<lambda>r. r\<lparr>us_status := ''cancelled''\<rparr>) rows))"

section \<open>Rate limits\<close>

type_synonym windows = "string \<Rightarrow> (rat \<times> int) option"

definition rate_key :: "limit_scope \<Rightarrow> string \<Rightarrow> string" where
  "rate_key scope operation = ''rate:'' @ ls_org scope @ '':'' @ ls_ws scope @ '':'' @ ls_user scope @ '':'' @ operation"

definition decision :: "bool \<Rightarrow> string \<Rightarrow> int option \<Rightarrow> limit_decision" where
  "decision allowed reason retry = \<lparr>ld_allowed = allowed, ld_reason = reason, ld_retry_after = retry,
     ld_reservation = None\<rparr>"

definition conservative_limit :: "rate_limit_policy \<Rightarrow> int" where
  "conservative_limit policy = max 1 (min (rl_limit policy) 10)"

definition reserve_local_fallback ::
  "string \<Rightarrow> rate_limit_policy \<Rightarrow> rat \<Rightarrow> windows \<Rightarrow> limit_decision \<times> windows" where
  "reserve_local_fallback key policy now w =
     (let (started0, used0) = (case w key of None \<Rightarrow> (now, 0) | Some sc \<Rightarrow> sc);
          (started, used) = (if of_int (rl_window policy) \<le> now - started0 then (now, 0) else (started0, used0));
          w' = w(key \<mapsto> (started, used + 1))
      in if conservative_limit policy < used + 1
         then (decision False ''rate_limit_exceeded''
                (Some (max 1 (round_half_even (of_int (rl_window policy) - (now - started))))), w')
         else (decision True ''allowed_degraded'' None, w'))"

text \<open>\<open>redis\<close> is the count and the time to live the script returned, or the failure of the call.\<close>

definition reserve_rate_limit ::
  "(int \<times> int) option \<Rightarrow> limit_scope \<Rightarrow> string \<Rightarrow> rate_limit_policy \<Rightarrow> rat \<Rightarrow> windows
   \<Rightarrow> limit_decision \<times> windows" where
  "reserve_rate_limit redis scope operation policy now w =
     (case redis of
        None \<Rightarrow>
          if rl_expensive policy then (decision False ''limit_service_unavailable'' (Some 1), w)
          else reserve_local_fallback (rate_key scope operation) policy now w
      | Some (used, ttl) \<Rightarrow>
          (if rl_limit policy < used then decision False ''rate_limit_exceeded'' (Some ttl)
           else decision True ''allowed'' None, w))"

definition enforce_rate_limit ::
  "(int \<times> int) option \<Rightarrow> limit_scope \<Rightarrow> string \<Rightarrow> rate_limit_policy \<Rightarrow> rat \<Rightarrow> windows
   \<Rightarrow> (limit_decision \<times> windows) result" where
  "enforce_rate_limit redis scope operation policy now w =
     (case reserve_rate_limit redis scope operation policy now w of
        (d, w') \<Rightarrow> if ld_allowed d then Inr (d, w') else Inl (http_error 429 (ld_reason d)))"

section \<open>The budget is kept\<close>

definition usage_row_ok :: "usage_row \<Rightarrow> bool" where
  "usage_row_ok r \<longleftrightarrow> 0 \<le> row_tokens r \<and> 0 \<le> row_cost r \<and>
     us_status r \<in> {''reserved'', ''settled'', ''cancelled''}"

definition in_budget :: "usage_budget \<Rightarrow> uuid \<Rightarrow> datetime \<Rightarrow> usage_row list \<Rightarrow> bool" where
  "in_budget b g since rows \<longleftrightarrow> fst (usage_since g since rows) \<le> bu_max_tokens b \<and>
     snd (usage_since g since rows) \<le> bu_max_cost b"

definition ledger_ok :: "usage_budget \<Rightarrow> uuid \<Rightarrow> datetime \<Rightarrow> usage_row list \<Rightarrow> bool" where
  "ledger_ok b g since rows \<longleftrightarrow> in_budget b g since rows \<and> distinct (map us_id rows) \<and>
     (\<forall>r \<in> set rows. usage_row_ok r)"

text \<open>
  The calls in one month of one organization: reservations with estimates that are not negative,
  cancellations, and settlements of reservations that were not cancelled by amounts that are not
  negative and not above the estimate.
\<close>

inductive usage_step :: "usage_budget \<Rightarrow> datetime \<Rightarrow> usage_row list \<Rightarrow> usage_row list \<Rightarrow> bool"
  for b since where
  reserve: "reserve_usage b scope op pr cf est i new now rows = (d, rows') \<Longrightarrow> month_start now = since \<Longrightarrow>
     0 \<le> um_tokens est \<Longrightarrow> 0 \<le> um_cost est \<Longrightarrow> usage_step b since rows rows'"
| cancel: "cancel_usage i rows = Inr rows' \<Longrightarrow> usage_step b since rows rows'"
| settle: "settle_usage i act key now rows = Inr rows' \<Longrightarrow>
     (\<And>r. r \<in> set rows \<Longrightarrow> us_id r = i \<Longrightarrow> us_status r \<noteq> ''cancelled'' \<and>
        um_tokens act \<le> row_tokens r \<and> um_cost act \<le> row_cost r) \<Longrightarrow>
     0 \<le> um_tokens act \<Longrightarrow> 0 \<le> um_cost act \<Longrightarrow> usage_step b since rows rows'"

inductive usage_reach :: "usage_budget \<Rightarrow> datetime \<Rightarrow> usage_row list \<Rightarrow> usage_row list \<Rightarrow> bool"
  for b since rows where
  none: "usage_reach b since rows rows"
| more: "usage_reach b since rows rows1 \<Longrightarrow> usage_step b since rows1 rows2 \<Longrightarrow> usage_reach b since rows rows2"

definition share_tokens :: "uuid \<Rightarrow> datetime \<Rightarrow> usage_row \<Rightarrow> int" where
  "share_tokens g since r = (if counted g since r then row_tokens r else 0)"

definition share_cost :: "uuid \<Rightarrow> datetime \<Rightarrow> usage_row \<Rightarrow> rat" where
  "share_cost g since r = (if counted g since r then row_cost r else 0)"

lemma usage_since_shares:
  "usage_since g since rows = (sum_list (map (share_tokens g since) rows), sum_list (map (share_cost g since) rows))"
  by (induction rows) (auto simp: usage_since_def Let_def share_tokens_def share_cost_def)

lemma in_budget_update:
  assumes w: "in_budget b g since rows"
    and t: "\<And>r. r \<in> set rows \<Longrightarrow> p r \<Longrightarrow> share_tokens g since (h r) \<le> share_tokens g since r"
    and c: "\<And>r. r \<in> set rows \<Longrightarrow> p r \<Longrightarrow> share_cost g since (h r) \<le> share_cost g since r"
  shows "in_budget b g since (update_where p h rows)"
proof -
  have "sum_list (map (share_tokens g since) (update_where p h rows)) \<le> sum_list (map (share_tokens g since) rows)"
    unfolding update_where_def map_map by (rule sum_list_mono) (simp add: t)
  moreover have "sum_list (map (share_cost g since) (update_where p h rows)) \<le> sum_list (map (share_cost g since) rows)"
    unfolding update_where_def map_map by (rule sum_list_mono) (simp add: c)
  ultimately show ?thesis using w by (simp add: in_budget_def usage_since_shares)
qed

lemma usage_step_ok:
  assumes "usage_step b since rows rows'" and "ledger_ok b g since rows"
  shows "ledger_ok b g since rows'"
  using assms
proof (induction rule: usage_step.induct)
  case (reserve scope op pr cf est i new now rows d rows')
  let ?i = "case i of Some r \<Rightarrow> r | None \<Rightarrow> new"
  show ?case
  proof (cases "rows' = rows")
    case False
    then have n: "find (\<lambda>r. us_id r = ?i) rows = None"
      using reserve(1) by (auto simp: reserve_usage_def Let_def split: option.splits)
    obtain tk cs where u: "current_usage (ls_org scope) now rows = (tk, cs)" by force
    have ok: "\<not> (bu_max_tokens b < tk + um_tokens est \<or> bu_max_cost b < cs + um_cost est)"
      using reserve(1) False by (auto simp: reserve_usage_def Let_def n u split: if_splits)
    define r where "r = \<lparr>us_id = ?i, us_org = ls_org scope, us_ws = ls_ws scope,
      us_user = ls_user scope, us_operation = op, us_provider = pr,
      us_configuration = cf, us_estimated_tokens = um_tokens est,
      us_estimated_cost = um_cost est, us_actual_tokens = None,
      us_actual_cost = None, us_status = ''reserved'', us_settlement_key = None,
      us_created_at = now, us_settled_at = None\<rparr>"
    have rows': "rows' = rows @ [r]"
      using reserve(1) ok by (simp add: reserve_usage_def Let_def n u r_def)
    have "in_budget b g since (rows @ [r])"
    proof (cases "ls_org scope = g")
      case True
      have "usage_since g since rows = (tk, cs)" using u reserve(2) True by (simp add: current_usage_def)
      then show ?thesis using ok reserve(5) unfolding in_budget_def usage_since_shares
        by (auto simp: ledger_ok_def in_budget_def usage_since_shares share_tokens_def share_cost_def row_tokens_def
            row_cost_def r_def)
    next
      case False
      then have "\<not> counted g since r" by (simp add: counted_def r_def)
      then show ?thesis using reserve(5)
        by (simp add: ledger_ok_def in_budget_def usage_since_shares share_tokens_def share_cost_def)
    qed
    moreover have "distinct (map us_id (rows @ [r]))"
      using n reserve(5) by (auto simp: ledger_ok_def find_None_iff' r_def)
    moreover have "usage_row_ok r" using reserve(3,4) by (simp add: usage_row_ok_def row_tokens_def row_cost_def r_def)
    ultimately show ?thesis using reserve(5) unfolding rows' by (auto simp: ledger_ok_def)
  qed (use reserve in simp)
next
  case (cancel i rows rows')
  let ?h = "\<lambda>r. r\<lparr>us_status := ''cancelled''\<rparr>"
  consider "rows' = rows" | "rows' = update_where (\<lambda>r. us_id r = i) ?h rows"
    using cancel(1) by (auto simp: cancel_usage_def split: option.splits if_splits)
  then show ?case
  proof cases
    case 2
    have nn: "usage_row_ok r" if "r \<in> set rows" for r using cancel(2) that by (simp add: ledger_ok_def)
    have "in_budget b g since rows'"
      unfolding 2 by (rule in_budget_update)
        (use cancel(2) nn in \<open>auto simp: ledger_ok_def share_tokens_def share_cost_def counted_def usage_row_ok_def\<close>)
    moreover have "distinct (map us_id rows')" using cancel(2) by (simp add: 2 map_update_where ledger_ok_def)
    moreover have "usage_row_ok (r\<lparr>us_status := ''cancelled''\<rparr>)" if "r \<in> set rows" for r
      using nn [OF that] by (simp add: usage_row_ok_def row_tokens_def row_cost_def cong: option.case_cong)
    then have "usage_row_ok r" if "r \<in> set rows'" for r
      using that nn by (auto simp: 2 in_update_where)
    ultimately show ?thesis by (simp add: ledger_ok_def)
  qed (use cancel in simp)
next
  case (settle i act key now rows rows')
  consider "rows' = rows" | "rows' = update_where (\<lambda>r. us_id r = i) (settle_row act key now) rows"
    using settle(1) by (auto simp: settle_usage_def split: option.splits if_splits)
  then show ?case
  proof cases
    case 2
    have nn: "usage_row_ok r" if "r \<in> set rows" for r using settle(5) that by (simp add: ledger_ok_def)
    have st: "share_tokens g since (settle_row act key now r) \<le> share_tokens g since r \<and>
        share_cost g since (settle_row act key now r) \<le> share_cost g since r"
      if "r \<in> set rows" "us_id r = i" for r
      using settle(2) [OF that] nn [OF that(1)]
      by (auto simp: share_tokens_def share_cost_def counted_def settle_row_def usage_row_ok_def row_tokens_def row_cost_def)
    have "in_budget b g since rows'"
      unfolding 2 by (rule in_budget_update) (use settle(5) st in \<open>auto simp: ledger_ok_def\<close>)
    moreover have "distinct (map us_id rows')"
      using settle(5) by (simp add: 2 map_update_where ledger_ok_def settle_row_def)
    moreover have "usage_row_ok (settle_row act key now r)" for r
      using settle(3,4) by (simp add: usage_row_ok_def row_tokens_def row_cost_def settle_row_def)
    then have "usage_row_ok r" if "r \<in> set rows'" for r
      using that nn by (auto simp: 2 in_update_where)
    ultimately show ?thesis by (simp add: ledger_ok_def)
  qed (use settle in simp)
qed

section \<open>The fallback window\<close>

text \<open>Calls for one key at the given times, one after the other.\<close>

fun fallback_run :: "string \<Rightarrow> rate_limit_policy \<Rightarrow> rat list \<Rightarrow> windows \<Rightarrow> limit_decision list" where
  "fallback_run key policy [] w = []"
| "fallback_run key policy (t # ts) w =
     (case reserve_local_fallback key policy t w of (d, w') \<Rightarrow> d # fallback_run key policy ts w')"

lemma fallback_in_window:
  assumes "w key = Some (t0, used)" and "\<forall>t \<in> set ts. t - t0 < of_int (rl_window policy)" and "0 \<le> used"
  shows "length (filter ld_allowed (fallback_run key policy ts w)) \<le> nat (conservative_limit policy - used)"
  using assms
proof (induction ts arbitrary: w used)
  case (Cons t ts)
  obtain d w' where d: "reserve_local_fallback key policy t w = (d, w')" by force
  have w': "w' key = Some (t0, used + 1)" and al: "ld_allowed d \<longleftrightarrow> used + 1 \<le> conservative_limit policy"
    using d Cons.prems(1,2) by (auto simp: reserve_local_fallback_def Let_def decision_def not_less split: if_splits)
  have "length (filter ld_allowed (fallback_run key policy ts w')) \<le> nat (conservative_limit policy - (used + 1))"
    using Cons.IH [of w' "used + 1"] w' Cons.prems(2,3) by simp
  then show ?case using d al by auto
qed simp

section \<open>Properties\<close>

text \<open>
  C20: the budget is a bound: starting within the budget of a month, no sequence of reservations,
  cancellations and settlements takes the counted tokens or the counted cost of an organization
  beyond it, as long as no cancelled reservation is settled and no settlement exceeds what the
  reservation counted for.
\<close>

theorem usage_budget_kept:
  assumes "usage_reach b since rows rows'" and "ledger_ok b g since rows"
  shows "fst (usage_since g since rows') \<le> bu_max_tokens b \<and> snd (usage_since g since rows') \<le> bu_max_cost b"
proof -
  from assms have "ledger_ok b g since rows'" by induction (auto intro: usage_step_ok)
  then show ?thesis by (simp add: ledger_ok_def in_budget_def)
qed

definition demo_budget :: usage_budget where
  "demo_budget = \<lparr>bu_max_tokens = 100, bu_max_cost = 5\<rparr>"

definition demo_scope :: limit_scope where
  "demo_scope = \<lparr>ls_org = ''G1'', ls_ws = ''W1'', ls_user = ''U1''\<rparr>"

definition demo_reserve :: "uuid \<Rightarrow> usage_row list \<Rightarrow> limit_decision \<times> usage_row list" where
  "demo_reserve i rows = reserve_usage demo_budget demo_scope ''qa'' ''openai'' ''v1''
     \<lparr>um_tokens = 80, um_cost = 4\<rparr> (Some i) ''X'' 1700000000000000 rows"

lemma usage_budget_kept_witness:
  "fst (usage_since ''G1'' (month_start 1700000000000000) (snd (demo_reserve ''R1'' []))) \<le> 100 \<and>
   length (snd (demo_reserve ''R1'' [])) = 1"
proof -
  have e: "demo_reserve ''R1'' [] = (fst (demo_reserve ''R1'' []), snd (demo_reserve ''R1'' []))" by simp
  have "usage_step demo_budget (month_start 1700000000000000) [] (snd (demo_reserve ''R1'' []))"
    using e unfolding demo_reserve_def by (rule usage_step.reserve) simp_all
  then have r: "usage_reach demo_budget (month_start 1700000000000000) [] (snd (demo_reserve ''R1'' []))"
    by (blast intro: usage_reach.intros)
  have "ledger_ok demo_budget ''G1'' (month_start 1700000000000000) []"
    by (simp add: ledger_ok_def in_budget_def usage_since_def demo_budget_def)
  then have "fst (usage_since ''G1'' (month_start 1700000000000000) (snd (demo_reserve ''R1'' []))) \<le> bu_max_tokens demo_budget"
    using usage_budget_kept [OF r] by blast
  moreover have "length (snd (demo_reserve ''R1'' [])) = 1" by code_simp
  ultimately show ?thesis by (simp add: demo_budget_def)
qed

text \<open>
  What the premise on settlements excludes: a cancelled reservation can still be settled, which
  counts it again without a look at the budget. Two reservations of 80 tokens then count 160 of
  100.
\<close>

lemma cancelled_settlement_exceeds_budget:
  "(let r1 = snd (demo_reserve ''R1'' []) in
    case cancel_usage ''R1'' r1 of Inr r2 \<Rightarrow>
      (let r3 = snd (demo_reserve ''R2'' r2) in
       case settle_usage ''R1'' \<lparr>um_tokens = 80, um_cost = 4\<rparr> ''k'' 1700000000000001 r3 of
         Inr r4 \<Rightarrow> fst (current_usage ''G1'' 1700000000000002 r4) = 160 \<and> bu_max_tokens demo_budget = 100
       | Inl _ \<Rightarrow> False)
    | Inl _ \<Rightarrow> False)"
  by code_simp

text \<open>
  A repeated reservation under the id of a cancelled one is answered \<open>allowed\<close> and leaves the row
  cancelled, so what it is used for counts nothing.
\<close>

lemma cancelled_reservation_allowed:
  "(let r1 = snd (demo_reserve ''R1'' []) in
    case cancel_usage ''R1'' r1 of Inr r2 \<Rightarrow>
      (case demo_reserve ''R1'' r2 of (d, r3) \<Rightarrow>
         ld_allowed d \<and> r3 = r2 \<and> current_usage ''G1'' 1700000000000002 r3 = (0, 0))
    | Inl _ \<Rightarrow> False)"
  by code_simp

text \<open>
  The local fallback is conservative: while Redis is down, however many calls for one key fall
  into one window, at most ten of them and at most the configured limit (but at least one) are
  allowed.
\<close>

theorem fallback_bounded:
  assumes "w key = None" and "\<forall>t \<in> set ts. t - t0 < of_int (rl_window policy)" and "0 < rl_window policy"
  shows "length (filter ld_allowed (fallback_run key policy (t0 # ts) w)) \<le> nat (max 1 (min (rl_limit policy) 10))"
proof -
  obtain d w' where d: "reserve_local_fallback key policy t0 w = (d, w')" by force
  have w': "w' key = Some (t0, 1)"
    using d assms(1,3) by (auto simp: reserve_local_fallback_def Let_def split: if_splits)
  have "length (filter ld_allowed (fallback_run key policy ts w')) \<le> nat (conservative_limit policy - 1)"
    using fallback_in_window [of w' key t0 1 ts policy] w' assms(2) by simp
  then show ?thesis using d by (auto simp: conservative_limit_def)
qed

lemma fallback_bounded_witness:
  "length (filter ld_allowed (fallback_run ''k'' \<lparr>rl_limit = 2, rl_window = 60, rl_expensive = False\<rparr> [0, 1, 2, 3] Map.empty)) \<le> 2"
  using fallback_bounded [of Map.empty "''k''" "[1, 2, 3]" 0 "\<lparr>rl_limit = 2, rl_window = 60, rl_expensive = False\<rparr>"]
  by simp

end
