(* ===== verification/Py_Uuid.thy ===== *)
theory Py_Uuid
  imports Prelude
begin

text \<open>
  \<open>uuid.UUID(text)\<close> of the Python library: the prefixes, braces and hyphens it drops, the 32
  characters that are left read by \<open>int(_, 16)\<close> with the signs, prefix and underscores that function
  accepts, and the canonical text of the value.
\<close>

definition is_hex_digit :: "char \<Rightarrow> bool" where
  "is_hex_digit c \<longleftrightarrow> c \<in> set ''0123456789abcdefABCDEF''"

text \<open>
  The digits of the number, lower case. Single underscores may stand between two digits: \<open>fresh\<close>
  says that a digit has to follow.
\<close>

fun int16_digits :: "bool \<Rightarrow> string \<Rightarrow> string option" where
  "int16_digits fresh [] = (if fresh then None else Some [])"
| "int16_digits fresh (c # s) =
     (if c = CHR ''_'' then (if fresh then None else int16_digits True s)
      else if is_hex_digit c then map_option ((#) (lower_char c)) (int16_digits False s)
      else None)"

definition drop_hex_prefix :: "string \<Rightarrow> string" where
  "drop_hex_prefix s =
     (if startswith ''0x'' s \<or> startswith ''0X'' s
      then (if startswith ''_'' (drop 2 s) then drop 3 s else drop 2 s) else s)"

definition int16 :: "string \<Rightarrow> string option" where
  "int16 s =
     (let s = str_strip s; s = (if startswith ''+'' s then tl s else s)
      in int16_digits True (drop_hex_prefix s))"

fun remove_all :: "nat \<Rightarrow> string \<Rightarrow> string \<Rightarrow> string" where
  "remove_all 0 p s = s"
| "remove_all (Suc n) p [] = []"
| "remove_all (Suc n) p (c # s) =
     (if startswith p (c # s) then remove_all n p (drop (length p) (c # s)) else c # remove_all n p s)"

definition strip_braces :: "string \<Rightarrow> string" where
  "strip_braces s =
     rev (dropWhile (\<lambda>c. c \<in> set ''{}'') (rev (dropWhile (\<lambda>c. c \<in> set ''{}'') s)))"

text \<open>The canonical text of the number with the given digits, at most 32 of them.\<close>

definition uuid_text :: "string \<Rightarrow> uuid" where
  "uuid_text digits =
     (let h = replicate (32 - length digits) (CHR ''0'') @ digits
      in take 8 h @ ''-'' @ take 4 (drop 8 h) @ ''-'' @ take 4 (drop 12 h) @ ''-'' @ take 4 (drop 16 h) @
         ''-'' @ drop 20 h)"

definition parse_uuid :: "string \<Rightarrow> uuid option" where
  "parse_uuid s =
     (let n = length s;
          h = filter (\<lambda>c. c \<noteq> CHR ''-'') (strip_braces (remove_all n ''uuid:'' (remove_all n ''urn:'' s)))
      in if length h \<noteq> 32 then None else map_option uuid_text (int16 h))"

lemma parse_uuid_example:
  "parse_uuid ''{12345678-1234-5678-1234-56781234567A}'' = Some ''12345678-1234-5678-1234-56781234567a''"
  by code_simp

end
