(* ===== verification/Processing_Repository.thy ===== *)
theory Processing_Repository
  imports Processing_Tables Py_Uuid
begin

text \<open>
  The worker's job repository (\<open>processing.py\<close>: \<open>SQLAlchemyProcessingJobRepository\<close> and the functions
  below it) and the commit fence of immutable objects (\<open>artifact_commit.py\<close>). One operation is one
  transaction: \<open>Inl\<close> is an exception that rolled it back, the returned state what it committed. The
  row locks make transactions serial, so a second read of a row inside one transaction sees what the
  first one saw. The object store is outside the transaction: what was written stays. The database
  is PostgreSQL, where the tenant scope is required.
\<close>

section \<open>Values\<close>

record processing_job =
  pj_id :: uuid
  pj_agreement :: uuid
  pj_state :: job_state
  pj_attempt_count :: int
  pj_org :: "uuid option"
  pj_ws :: "uuid option"
  pj_profile :: "string option"
  pj_source_storage_key :: "string option"
  pj_source_checksum :: "string option"
  pj_source_content_type :: "string option"
  pj_failure_category :: "string option"
  pj_failure_message :: "string option"
  pj_next_retry_at :: "datetime option"
  pj_processing_started_at :: "datetime option"
  pj_completed_at :: "datetime option"
  pj_claim_token :: "uuid option"
  pj_claim_lease_expires_at :: "datetime option"

record completed_artifact =
  ca_job :: uuid
  ca_key :: string

record prepared_artifact =
  pa_artifact :: completed_artifact
  pa_content :: "string option"
  pa_content_type :: "string option"

text \<open>The mapping (a job row, an intent row, or the claimed job) some helpers read.\<close>

record artifact_context =
  cx_agreement :: uuid
  cx_org :: "uuid option"
  cx_ws :: "uuid option"
  cx_profile :: "string option"

definition job_context :: "job_row \<Rightarrow> artifact_context" where
  "job_context j = \<lparr>cx_agreement = jb_agreement j, cx_org = Some (jb_org j), cx_ws = Some (jb_ws j),
     cx_profile = Some (jb_profile j)\<rparr>"

definition intent_context :: "intent_row \<Rightarrow> artifact_context" where
  "intent_context i = \<lparr>cx_agreement = in_agreement i, cx_org = Some (in_org i), cx_ws = Some (in_ws i),
     cx_profile = Some (in_profile i)\<rparr>"

definition claimed_context :: "processing_job \<Rightarrow> artifact_context" where
  "claimed_context c = \<lparr>cx_agreement = pj_agreement c, cx_org = pj_org c, cx_ws = pj_ws c,
     cx_profile = pj_profile c\<rparr>"

section \<open>Helpers\<close>

fun job_state_value :: "job_state \<Rightarrow> string" where
  "job_state_value JQueued = ''queued''"
| "job_state_value JProcessing = ''processing''"
| "job_state_value JCompleted = ''completed''"
| "job_state_value JFailed = ''failed''"

definition PROCESSING_CLAIM_LEASE :: int where
  "PROCESSING_CLAIM_LEASE = minutes 14"

definition job_for_update :: "'z processing_db_scheme \<Rightarrow> uuid \<Rightarrow> job_row option" where
  "job_for_update s job_id = find (\<lambda>j. jb_id j = job_id) (jobs s)"

definition has_live_claim :: "job_row \<Rightarrow> datetime \<Rightarrow> bool" where
  "has_live_claim j now \<longleftrightarrow>
     (case (jb_claim_token j, jb_claim_lease_expires_at j) of
        (Some _, Some expires) \<Rightarrow> now < expires
      | _ \<Rightarrow> False)"

definition owns_claim :: "job_row \<Rightarrow> processing_job option \<Rightarrow> bool" where
  "owns_claim j claimed \<longleftrightarrow>
     (case claimed of
        None \<Rightarrow> jb_claim_token j = None
      | Some c \<Rightarrow> pj_claim_token c \<noteq> None \<and> jb_state j = JProcessing \<and>
          jb_claim_token j = pj_claim_token c)"

definition artifact_intent ::
  "'z processing_db_scheme \<Rightarrow> uuid \<Rightarrow> uuid option \<Rightarrow> uuid option \<Rightarrow> intent_row option" where
  "artifact_intent s job_id organization_id workspace_id =
     find (\<lambda>i. in_job i = job_id \<and> (organization_id \<noteq> None \<longrightarrow> organization_id = Some (in_org i)) \<and>
        (workspace_id \<noteq> None \<longrightarrow> workspace_id = Some (in_ws i))) (intents s)"

definition agreement_for_update ::
  "'z processing_db_scheme \<Rightarrow> artifact_context \<Rightarrow> agreement_row option" where
  "agreement_for_update s x =
     find (\<lambda>a. ag_id a = cx_agreement x \<and> cx_org x = Some (ag_org a) \<and> cx_ws x = Some (ag_ws a))
       (agreements s)"

definition late_artifact_category :: "string \<Rightarrow> string \<Rightarrow> string option" where
  "late_artifact_category profile key =
     (if startswith ''embedding-reindex:'' profile \<or> startswith ''embedding-reindex/'' key then None
      else if profile = ''version-comparison'' then Some ''comparison''
      else Some ''analysis'')"

definition required_tenant_scope :: "uuid option \<Rightarrow> string \<Rightarrow> uuid result" where
  "required_tenant_scope v field = some_or v (ValueError (''processing job is missing '' @ field))"

definition set_tenant_context :: "uuid option \<Rightarrow> uuid option \<Rightarrow> unit result" where
  "set_tenant_context organization_id workspace_id =
     require (organization_id \<noteq> None \<and> workspace_id \<noteq> None)
       (ValueError ''processing message is missing tenant scope'')"

definition matches_tenant_scope :: "artifact_context \<Rightarrow> uuid option \<Rightarrow> uuid option \<Rightarrow> bool" where
  "matches_tenant_scope x organization_id workspace_id \<longleftrightarrow>
     (organization_id = None \<or> cx_org x = organization_id) \<and> (workspace_id = None \<or> cx_ws x = workspace_id)"

definition update_job :: "uuid \<Rightarrow> (job_row \<Rightarrow> job_row) \<Rightarrow> 'z processing_db_scheme \<Rightarrow> 'z processing_db_scheme" where
  "update_job job_id f s = s\<lparr>jobs := update_where (\<lambda>j. jb_id j = job_id) f (jobs s)\<rparr>"

definition delete_intents :: "uuid \<Rightarrow> 'z processing_db_scheme \<Rightarrow> 'z processing_db_scheme" where
  "delete_intents job_id s = s\<lparr>intents := filter (\<lambda>i. in_job i \<noteq> job_id) (intents s)\<rparr>"

definition update_agreement_processing_state ::
  "job_row \<Rightarrow> job_state \<Rightarrow> datetime \<Rightarrow> 'z processing_db_scheme \<Rightarrow> 'z processing_db_scheme" where
  "update_agreement_processing_state job state now s =
     (if startswith ''embedding-reindex:'' (jb_profile job) then s
      else
        (let s = (case jb_version job of
                    None \<Rightarrow> s
                  | Some v \<Rightarrow> s\<lparr>agreement_versions := update_where
                      (\<lambda>r. vr_id r = v \<and> vr_agreement r = jb_agreement job \<and> vr_org r = jb_org job \<and>
                        vr_ws r = jb_ws job)
                      (\<lambda>r. r\<lparr>vr_processing_state := job_state_value state\<rparr>) (agreement_versions s)\<rparr>)
         in s\<lparr>agreements := update_where
              (\<lambda>a. ag_id a = jb_agreement job \<and> ag_org a = jb_org job \<and>
                 (jb_version job \<noteq> None \<longrightarrow> ag_current_version a = jb_version job))
              (\<lambda>a. a\<lparr>ag_processing_state := job_state_value state, ag_updated_at := now\<rparr>)
              (agreements s)\<rparr>))"

section \<open>The inventory of a deletion\<close>

definition active_request ::
  "'z processing_db_scheme \<Rightarrow> artifact_context \<Rightarrow> deletion_request_row option" where
  "active_request s x =
     find (\<lambda>r. dr_agreement r = cx_agreement x \<and> cx_org x = Some (dr_org r) \<and> cx_ws x = Some (dr_ws r))
       (deletion_requests s)"

text \<open>The object is listed as pending: a new row, or the existing one opened again.\<close>

definition pend_object ::
  "deletion_request_row \<Rightarrow> string \<Rightarrow> string \<Rightarrow> datetime \<Rightarrow> 'z processing_db_scheme
   \<Rightarrow> 'z processing_db_scheme" where
  "pend_object r category key now s =
     (case find (\<lambda>d. do_deletion d = dr_id r \<and> do_category d = category \<and> do_key d = key) (deletion_objects s) of
        None \<Rightarrow> draw s\<lparr>deletion_objects := deletion_objects s @
          [\<lparr>do_id = uuid4 s, do_deletion = dr_id r, do_org = dr_org r, do_ws = dr_ws r,
            do_agreement = dr_agreement r, do_category = category, do_key = key, do_state = OPending,
            do_last_error = None, do_created_at = now, do_updated_at = now\<rparr>]\<rparr>
      | Some d \<Rightarrow>
          if do_state d \<noteq> OPending
          then s\<lparr>deletion_objects := update_where (\<lambda>e. do_id e = do_id d)
                 (\<lambda>e. e\<lparr>do_state := OPending, do_last_error := None, do_updated_at := now\<rparr>) (deletion_objects s)\<rparr>
          else s)"

definition reopened_request :: "datetime \<Rightarrow> deletion_request_row \<Rightarrow> deletion_request_row" where
  "reopened_request now r =
     (let terminal = (dr_state r = DCompleted \<or> dr_state r = DFailed)
      in r\<lparr>dr_state := DRetrying, dr_attempt_count := (if terminal then 0 else dr_attempt_count r),
           dr_retry_cycle := dr_retry_cycle r + (if terminal then 1 else 0), dr_claim_token := None,
           dr_lease_expires_at := None, dr_next_attempt_at := now,
           dr_failure_category := Some ''artifact_race'',
           dr_failure_message := Some ''Processing completed after deletion was accepted'',
           dr_completed_at := None, dr_failed_at := None, dr_updated_at := now\<rparr>)"

definition rearm_outbox ::
  "deletion_request_row \<Rightarrow> datetime \<Rightarrow> 'z processing_db_scheme \<Rightarrow> 'z processing_db_scheme" where
  "rearm_outbox r now s =
     (if exists_row (\<lambda>d. dx_deletion d = dr_id r) (deletion_outbox s)
      then s\<lparr>deletion_outbox := update_where (\<lambda>d. dx_deletion d = dr_id r)
             (\<lambda>d. d\<lparr>dx_attempt_count := 0, dx_next_attempt_at := now, dx_lease_token := None,
                dx_lease_expires_at := None, dx_last_error := None, dx_delivered_at := None,
                dx_updated_at := now\<rparr>) (deletion_outbox s)\<rparr>
      else draw s\<lparr>deletion_outbox := deletion_outbox s @
             [\<lparr>dx_id = uuid4 s, dx_deletion = dr_id r, dx_org = dr_org r, dx_ws = dr_ws r,
               dx_agreement = dr_agreement r, dx_attempt_count = 0, dx_next_attempt_at = now,
               dx_lease_token = None, dx_lease_expires_at = None, dx_last_error = None,
               dx_delivered_at = None, dx_created_at = now, dx_updated_at = now\<rparr>]\<rparr>)"

definition inventory_late_artifact ::
  "artifact_context \<Rightarrow> string \<Rightarrow> datetime \<Rightarrow> 'z processing_db_scheme
   \<Rightarrow> 'z processing_db_scheme result" where
  "inventory_late_artifact x key now s =
     bindR (some_or (active_request s x) (RuntimeError ''tombstoned agreement has no active deletion request'')) (\<lambda>r.
     bindR (some_or (cx_profile x) (AttributeError ''startswith'')) (\<lambda>profile.
     case late_artifact_category profile key of
       None \<Rightarrow> Inr s
     | Some category \<Rightarrow>
         (let s = pend_object r category key now s;
              s = s\<lparr>deletion_requests := update_where (\<lambda>q. dr_id q = dr_id r) (\<lambda>_. reopened_request now r)
                    (deletion_requests s)\<rparr>
          in Inr (rearm_outbox r now s))))"

definition reconcile_artifact_intent ::
  "intent_row \<Rightarrow> datetime \<Rightarrow> 'z processing_db_scheme \<Rightarrow> 'z processing_db_scheme result" where
  "reconcile_artifact_intent i now s =
     bindR (inventory_late_artifact (intent_context i) (in_key i) now s) (\<lambda>s. Inr (delete_intents (in_job i) s))"

definition inventory_failed_artifact_after_purge ::
  "processing_job option \<Rightarrow> completed_artifact option \<Rightarrow> datetime \<Rightarrow> 'z processing_db_scheme
   \<Rightarrow> 'z processing_db_scheme result" where
  "inventory_failed_artifact_after_purge claimed expected now s =
     (case (claimed, expected) of
        (Some c, Some a) \<Rightarrow>
          (case agreement_for_update s (claimed_context c) of
             Some ag \<Rightarrow>
               if ag_deletion_requested_at ag \<noteq> None
               then inventory_late_artifact (claimed_context c) (ca_key a) now s
               else Inr s
           | None \<Rightarrow> Inr s)
      | _ \<Rightarrow> Inr s)"

section \<open>Claiming a job\<close>

definition claimed_job :: "job_row \<Rightarrow> uuid \<Rightarrow> datetime \<Rightarrow> processing_job" where
  "claimed_job j token now = \<lparr>pj_id = jb_id j, pj_agreement = jb_agreement j, pj_state = JProcessing,
     pj_attempt_count = jb_attempt_count j + 1, pj_org = Some (jb_org j), pj_ws = Some (jb_ws j),
     pj_profile = Some (jb_profile j), pj_source_storage_key = jb_source_storage_key j,
     pj_source_checksum = jb_source_checksum j, pj_source_content_type = jb_source_content_type j,
     pj_failure_category = None, pj_failure_message = None, pj_next_retry_at = None,
     pj_processing_started_at = Some now, pj_completed_at = None, pj_claim_token = Some token,
     pj_claim_lease_expires_at = Some (now + PROCESSING_CLAIM_LEASE)\<rparr>"

definition take_claim :: "uuid \<Rightarrow> datetime \<Rightarrow> job_row \<Rightarrow> job_row" where
  "take_claim token now j = j\<lparr>jb_state := JProcessing, jb_attempt_count := jb_attempt_count j + 1,
     jb_processing_started_at := Some now, jb_failure_category := None, jb_failure_message := None,
     jb_next_retry_at := None, jb_claim_token := Some token,
     jb_claim_lease_expires_at := Some (now + PROCESSING_CLAIM_LEASE), jb_updated_at := now\<rparr>"

definition completed_row :: "datetime \<Rightarrow> job_row \<Rightarrow> job_row" where
  "completed_row now j = j\<lparr>jb_state := JCompleted, jb_completed_at := Some now, jb_failure_category := None,
     jb_failure_message := None, jb_next_retry_at := None, jb_claim_token := None,
     jb_claim_lease_expires_at := None, jb_updated_at := now\<rparr>"

text \<open>A message for a job that is gone: an intent it left is reconciled with the deletion.\<close>

definition claim_without_job ::
  "datetime \<Rightarrow> uuid \<Rightarrow> uuid option \<Rightarrow> uuid option \<Rightarrow> 'z processing_db_scheme
   \<Rightarrow> 'z processing_db_scheme result" where
  "claim_without_job now job_id organization_id workspace_id s =
     (case artifact_intent s job_id organization_id workspace_id of
        None \<Rightarrow> Inr s
      | Some i \<Rightarrow>
          if (case agreement_for_update s (intent_context i) of
                None \<Rightarrow> True | Some a \<Rightarrow> ag_deletion_requested_at a = None)
          then Inl (RuntimeError ''orphaned processing artifact intent'')
          else reconcile_artifact_intent i now s)"

definition claim_tombstoned ::
  "datetime \<Rightarrow> job_row \<Rightarrow> uuid option \<Rightarrow> uuid option \<Rightarrow> 'z processing_db_scheme
   \<Rightarrow> 'z processing_db_scheme result" where
  "claim_tombstoned now job organization_id workspace_id s =
     (if jb_state job = JProcessing \<and> has_live_claim job now
      then Inl (ProcessingLeaseHeldError ''processing job lease is held'')
      else
        case artifact_intent s (jb_id job) organization_id workspace_id of
          None \<Rightarrow> Inr s
        | Some i \<Rightarrow> reconcile_artifact_intent i now s)"

definition claim_settled :: "datetime \<Rightarrow> job_row \<Rightarrow> 'z processing_db_scheme \<Rightarrow> 'z processing_db_scheme" where
  "claim_settled now job s =
     update_agreement_processing_state job JCompleted now
       (if jb_state job \<noteq> JCompleted then update_job (jb_id job) (completed_row now) s else s)"

definition claim_job ::
  "datetime \<Rightarrow> uuid \<Rightarrow> uuid option \<Rightarrow> uuid option \<Rightarrow> 'z processing_db_scheme
   \<Rightarrow> (processing_job option \<times> 'z processing_db_scheme) result" where
  "claim_job now job_id organization_id workspace_id s =
     bindR (set_tenant_context organization_id workspace_id) (\<lambda>_.
     case job_for_update s job_id of
       None \<Rightarrow> bindR (claim_without_job now job_id organization_id workspace_id s) (\<lambda>s. Inr (None, s))
     | Some job \<Rightarrow>
         if \<not> matches_tenant_scope (job_context job) organization_id workspace_id then Inr (None, s)
         else
           case agreement_for_update s (job_context job) of
             None \<Rightarrow> Inr (None, s)
           | Some a \<Rightarrow>
               if ag_deletion_requested_at a \<noteq> None
               then bindR (claim_tombstoned now job organization_id workspace_id s) (\<lambda>s. Inr (None, s))
               else if exists_row (\<lambda>r. af_job r = job_id) (artifacts s)
               then Inr (None, claim_settled now job s)
               else if jb_state job = JProcessing \<and> has_live_claim job now
               then Inl (ProcessingLeaseHeldError ''processing job lease is held'')
               else if jb_state job \<noteq> JProcessing \<and> jb_state job \<noteq> JQueued then Inr (None, s)
               else
                 let token = uuid4 s
                 in Inr (Some (claimed_job job token now),
                      update_agreement_processing_state job JProcessing now
                        (update_job job_id (take_claim token now) (draw s))))"

section \<open>The artifact a job is expected to write\<close>

definition intent_values ::
  "processing_job \<Rightarrow> uuid \<Rightarrow> uuid \<Rightarrow> string \<Rightarrow> string \<Rightarrow> datetime \<Rightarrow> uuid \<Rightarrow> intent_row" where
  "intent_values c organization_id workspace_id category key now i =
     \<lparr>in_id = i, in_job = pj_id c, in_org = organization_id, in_ws = workspace_id,
      in_agreement = pj_agreement c, in_profile = (case pj_profile c of None \<Rightarrow> [] | Some p \<Rightarrow> p),
      in_category = category, in_key = key, in_state = Expected, in_created_at = now, in_updated_at = now\<rparr>"

definition profile_or_empty :: "processing_job \<Rightarrow> string" where
  "profile_or_empty c = (case pj_profile c of None \<Rightarrow> [] | Some p \<Rightarrow> p)"

definition record_intent ::
  "datetime \<Rightarrow> processing_job \<Rightarrow> uuid \<Rightarrow> uuid \<Rightarrow> string \<Rightarrow> string \<Rightarrow> 'z processing_db_scheme
   \<Rightarrow> (intent_row \<times> 'z processing_db_scheme) result" where
  "record_intent now c og ws category key s =
     (case artifact_intent s (pj_id c) (Some og) (Some ws) of
        None \<Rightarrow>
          let i = intent_values c og ws category key now (uuid4 s)
          in Inr (i, draw s\<lparr>intents := intents s @ [i]\<rparr>)
      | Some i \<Rightarrow>
          if in_key i \<noteq> key \<or> in_category i \<noteq> category
          then Inl (RuntimeError ''processing artifact intent changed after reservation'')
          else Inr (i, s))"

definition expect_artifact ::
  "datetime \<Rightarrow> processing_job \<Rightarrow> completed_artifact \<Rightarrow> 'z processing_db_scheme
   \<Rightarrow> (bool \<times> 'z processing_db_scheme) result" where
  "expect_artifact now c artifact s =
     bindR (required_tenant_scope (pj_org c) ''organization_id'') (\<lambda>og.
     bindR (required_tenant_scope (pj_ws c) ''workspace_id'') (\<lambda>ws.
     case late_artifact_category (profile_or_empty c) (ca_key artifact) of
       None \<Rightarrow> Inr (True, s)
     | Some category \<Rightarrow>
         (case (agreement_for_update s (claimed_context c), job_for_update s (pj_id c)) of
            (Some a, Some job) \<Rightarrow>
              if \<not> owns_claim job (Some c) then Inr (False, s)
              else
                bindR (record_intent now c og ws category (ca_key artifact) s) (\<lambda>(i, s).
                if ag_deletion_requested_at a \<noteq> None
                then bindR (reconcile_artifact_intent i now s) (\<lambda>s. Inr (False, s))
                else if in_state i = Settled
                then Inr (True, s\<lparr>intents := update_where (\<lambda>x. in_job x = pj_id c \<and> in_state x = Settled)
                       (\<lambda>x. x\<lparr>in_state := Expected, in_updated_at := now\<rparr>) (intents s)\<rparr>)
                else Inr (True, s))
          | _ \<Rightarrow> Inr (False, s))))"

section \<open>The commit fence\<close>

text \<open>
  \<open>put_immutable\<close> creates an object only when the key is free; the creator's agreement is kept with
  it for the theorems.
\<close>

definition put_immutable :: "uuid \<Rightarrow> string \<Rightarrow> string \<Rightarrow> object_store \<Rightarrow> bool \<times> object_store" where
  "put_immutable owner key content store =
     (case store key of None \<Rightarrow> (True, store(key \<mapsto> (owner, content))) | Some _ \<Rightarrow> (False, store))"

definition write_or_read_canonical ::
  "uuid \<Rightarrow> prepared_artifact \<Rightarrow> object_store \<Rightarrow> string result \<times> object_store" where
  "write_or_read_canonical owner p store =
     (case (pa_content p, pa_content_type p) of
        (Some content, Some _) \<Rightarrow>
          (case put_immutable owner (ca_key (pa_artifact p)) content store of
             (True, store) \<Rightarrow> (Inr content, store)
           | (False, store) \<Rightarrow>
               (case store (ca_key (pa_artifact p)) of
                  None \<Rightarrow> (Inl (RuntimeError ''immutable artifact disappeared after create conflict''), store)
                | Some (_, canonical) \<Rightarrow> (Inr canonical, store)))
      | _ \<Rightarrow> (Inl (ValueError ''object-backed artifact content is required''), store))"

text \<open>
  The checks under the locks. \<open>Inl s\<close> is the early \<open>return False\<close>, which commits \<open>s\<close>; otherwise the
  job row and the intent the commit goes on with.
\<close>

definition commit_checks ::
  "datetime \<Rightarrow> processing_job \<Rightarrow> completed_artifact \<Rightarrow> uuid \<Rightarrow> uuid \<Rightarrow> 'z processing_db_scheme
   \<Rightarrow> ('z processing_db_scheme + (job_row \<times> intent_row option)) result" where
  "commit_checks now c artifact og ws s =
     (let category = late_artifact_category (profile_or_empty c) (ca_key artifact)
      in case agreement_for_update s (claimed_context c) of
           None \<Rightarrow> Inr (Inl s)
         | Some a \<Rightarrow>
             (case job_for_update s (pj_id c) of
                None \<Rightarrow>
                  if ag_deletion_requested_at a \<noteq> None \<and> category \<noteq> None
                  then bindR (inventory_late_artifact (claimed_context c) (ca_key artifact) now s) (\<lambda>s. Inr (Inl s))
                  else Inr (Inl s)
              | Some job \<Rightarrow>
                  if \<not> matches_tenant_scope (job_context job) (Some og) (Some ws) then Inr (Inl s)
                  else if \<not> owns_claim job (Some c) then
                    (if ag_deletion_requested_at a \<noteq> None \<and> category \<noteq> None
                     then bindR (inventory_late_artifact (job_context job) (ca_key artifact) now s) (\<lambda>s. Inr (Inl s))
                     else Inl (ProcessingLeaseHeldError ''processing job lease is no longer owned''))
                  else
                    (let intent = artifact_intent s (pj_id c) (Some og) (Some ws)
                     in if category \<noteq> None \<and>
                           (case intent of None \<Rightarrow> True
                            | Some i \<Rightarrow> in_key i \<noteq> ca_key artifact \<or> Some (in_category i) \<noteq> category \<or>
                                in_state i \<noteq> Expected)
                        then Inl (RuntimeError ''prepared artifact has no current durable intent'')
                        else if ag_deletion_requested_at a \<noteq> None then
                          (case intent of
                             None \<Rightarrow> Inr (Inl s)
                           | Some i \<Rightarrow> bindR (reconcile_artifact_intent i now s) (\<lambda>s. Inr (Inl s)))
                        else Inr (Inr (job, intent)))))"

definition add_artifact ::
  "job_row \<Rightarrow> string \<Rightarrow> datetime \<Rightarrow> 'z processing_db_scheme \<Rightarrow> 'z processing_db_scheme" where
  "add_artifact job key now s =
     (if exists_row (\<lambda>r. af_job r = jb_id job \<and> af_key r = key) (artifacts s) then s
      else draw s\<lparr>artifacts := artifacts s @
             [\<lparr>af_id = uuid4 s, af_job = jb_id job, af_org = jb_org job, af_ws = jb_ws job,
               af_agreement = jb_agreement job, af_key = key, af_created_at = now\<rparr>]\<rparr>)"

definition finish_commit ::
  "datetime \<Rightarrow> job_row \<Rightarrow> intent_row option \<Rightarrow> bool \<Rightarrow> string \<Rightarrow> 'z processing_db_scheme
   \<Rightarrow> 'z processing_db_scheme" where
  "finish_commit now job intent tracked key s =
     (let s = (if tracked then add_artifact job key now s else s);
          s = update_agreement_processing_state job JCompleted now (update_job (jb_id job) (completed_row now) s)
      in if intent \<noteq> None then delete_intents (jb_id job) s else s)"

text \<open>The bytes the finalizer sees: what is in the store under the key afterwards, if there are any.\<close>

definition canonical_content ::
  "uuid \<Rightarrow> prepared_artifact \<Rightarrow> object_store \<Rightarrow> string option result \<times> object_store" where
  "canonical_content owner p store =
     (case pa_content p of
        None \<Rightarrow> (Inr None, store)
      | Some _ \<Rightarrow> (case write_or_read_canonical owner p store of (r, store) \<Rightarrow> (map_sum id Some r, store)))"

type_synonym 'z finalizer =
  "processing_job \<Rightarrow> prepared_artifact \<Rightarrow> string option \<Rightarrow> 'z processing_db_scheme
   \<Rightarrow> 'z processing_db_scheme result"

definition commit_prepared ::
  "datetime \<Rightarrow> 'z finalizer \<Rightarrow> processing_job \<Rightarrow> prepared_artifact \<Rightarrow> 'z processing_db_scheme \<Rightarrow> object_store
   \<Rightarrow> (bool \<times> 'z processing_db_scheme) result \<times> object_store" where
  "commit_prepared now finalize c p s store =
     (let artifact = pa_artifact p;
          category = late_artifact_category (profile_or_empty c) (ca_key artifact)
      in if ca_job artifact \<noteq> pj_id c
         then (Inl (RuntimeError ''prepared artifact belongs to another processing job''), store)
         else
           case bindR (required_tenant_scope (pj_org c) ''organization_id'') (\<lambda>og.
                bindR (required_tenant_scope (pj_ws c) ''workspace_id'') (\<lambda>ws.
                commit_checks now c artifact og ws s)) of
             Inl e \<Rightarrow> (Inl e, store)
           | Inr (Inl s) \<Rightarrow> (Inr (False, s), store)
           | Inr (Inr (job, intent)) \<Rightarrow>
               (case canonical_content (pj_agreement c) p store of
                  (r, store) \<Rightarrow>
                    (bindR r (\<lambda>content. bindR (finalize c p content s) (\<lambda>s.
                       Inr (True, finish_commit now job intent (category \<noteq> None) (ca_key artifact) s))), store)))"

section \<open>Completing without the fence\<close>

text \<open>
  A stale completion of a tombstoned agreement commits its inventory and then raises, so the state
  is returned beside the outcome.
\<close>

definition complete_owned ::
  "datetime \<Rightarrow> job_row \<Rightarrow> completed_artifact \<Rightarrow> 'z processing_db_scheme \<Rightarrow> 'z processing_db_scheme" where
  "complete_owned now job artifact s =
     delete_intents (jb_id job)
       (update_agreement_processing_state job JCompleted now
          (update_job (jb_id job) (completed_row now) (add_artifact job (ca_key artifact) now s)))"

definition complete_job ::
  "datetime \<Rightarrow> uuid \<Rightarrow> completed_artifact \<Rightarrow> uuid option \<Rightarrow> uuid option \<Rightarrow> processing_job option
   \<Rightarrow> 'z processing_db_scheme \<Rightarrow> bool result \<times> 'z processing_db_scheme" where
  "complete_job now job_id artifact organization_id workspace_id claimed s =
     (case set_tenant_context organization_id workspace_id of
        Inl e \<Rightarrow> (Inl e, s)
      | Inr _ \<Rightarrow>
          (case (job_for_update s job_id, claimed) of
             (None, None) \<Rightarrow> (Inr False, s)
           | (job, _) \<Rightarrow>
               (let x = (case job of Some j \<Rightarrow> job_context j
                         | None \<Rightarrow> claimed_context (the claimed))
                in if \<not> matches_tenant_scope x organization_id workspace_id then (Inr False, s)
                   else
                     case agreement_for_update s x of
                       None \<Rightarrow> (Inr False, s)
                     | Some a \<Rightarrow>
                         if (case job of Some j \<Rightarrow> \<not> owns_claim j claimed | None \<Rightarrow> False) then
                           (if ag_deletion_requested_at a \<noteq> None
                            then (case inventory_late_artifact x (ca_key artifact) now s of
                                    Inl e \<Rightarrow> (Inl e, s)
                                  | Inr s' \<Rightarrow>
                                      (Inl (ProcessingLeaseHeldError ''processing job lease is no longer owned''), s'))
                            else (Inl (ProcessingLeaseHeldError ''processing job lease is no longer owned''), s))
                         else if ag_deletion_requested_at a \<noteq> None
                         then (case inventory_late_artifact x (ca_key artifact) now s of
                                 Inl e \<Rightarrow> (Inl e, s)
                               | Inr s' \<Rightarrow> (Inr False, delete_intents job_id s'))
                         else case job of
                                None \<Rightarrow> (Inr False, s)
                              | Some j \<Rightarrow> (Inr True, complete_owned now j artifact s))))"

section \<open>Reading a completed artifact\<close>

definition embedding_sentinel_key :: "string \<Rightarrow> string option" where
  "embedding_sentinel_key profile =
     (if startswith ''embedding-reindex:'' profile
      then map_option (\<lambda>u. ''embedding-reindex/'' @ u @ ''.json'') (parse_uuid (drop 18 profile))
      else None)"

definition latest_artifact_key :: "'z processing_db_scheme \<Rightarrow> job_row \<Rightarrow> string option" where
  "latest_artifact_key s job =
     (case sort_key (\<lambda>r. - af_created_at r) (filter (\<lambda>r. af_job r = jb_id job) (artifacts s)) of
        [] \<Rightarrow> embedding_sentinel_key (jb_profile job)
      | r # _ \<Rightarrow> Some (af_key r))"

definition completed_artifact_of ::
  "uuid \<Rightarrow> uuid option \<Rightarrow> uuid option \<Rightarrow> 'z processing_db_scheme
   \<Rightarrow> (processing_job \<times> completed_artifact) option result" where
  "completed_artifact_of job_id organization_id workspace_id s =
     bindR (set_tenant_context organization_id workspace_id) (\<lambda>_.
     case job_for_update s job_id of
       None \<Rightarrow> Inr None
     | Some job \<Rightarrow>
         if jb_state job \<noteq> JCompleted \<or> \<not> matches_tenant_scope (job_context job) organization_id workspace_id
         then Inr None
         else if exists_row (\<lambda>a. ag_id a = jb_agreement job \<and> ag_org a = jb_org job \<and>
                   ag_deletion_requested_at a \<noteq> None) (agreements s) then Inr None
         else
           Inr (map_option (\<lambda>key.
             (\<lparr>pj_id = job_id, pj_agreement = jb_agreement job, pj_state = JCompleted,
               pj_attempt_count = jb_attempt_count job, pj_org = Some (jb_org job), pj_ws = Some (jb_ws job),
               pj_profile = Some (jb_profile job), pj_source_storage_key = jb_source_storage_key job,
               pj_source_checksum = jb_source_checksum job,
               pj_source_content_type = jb_source_content_type job, pj_failure_category = None,
               pj_failure_message = None, pj_next_retry_at = None, pj_processing_started_at = None,
               pj_completed_at = jb_completed_at job, pj_claim_token = None,
               pj_claim_lease_expires_at = None\<rparr>,
              \<lparr>ca_job = job_id, ca_key = key\<rparr>)) (latest_artifact_key s job)))"

section \<open>Giving a job back\<close>

definition queued_row ::
  "string \<Rightarrow> string \<Rightarrow> datetime \<Rightarrow> datetime \<Rightarrow> job_row \<Rightarrow> job_row" where
  "queued_row category msg next_retry_at now j = j\<lparr>jb_state := JQueued, jb_failure_category := Some category,
     jb_failure_message := Some msg, jb_next_retry_at := Some next_retry_at, jb_claim_token := None,
     jb_claim_lease_expires_at := None, jb_updated_at := now\<rparr>"

definition failed_row :: "string \<Rightarrow> string \<Rightarrow> datetime \<Rightarrow> job_row \<Rightarrow> job_row" where
  "failed_row category msg now j = j\<lparr>jb_state := JFailed, jb_failure_category := Some category,
     jb_failure_message := Some msg, jb_failed_at := Some now, jb_claim_token := None,
     jb_claim_lease_expires_at := None, jb_updated_at := now\<rparr>"

definition inventory_expected ::
  "job_row \<Rightarrow> completed_artifact option \<Rightarrow> datetime \<Rightarrow> 'z processing_db_scheme
   \<Rightarrow> 'z processing_db_scheme result" where
  "inventory_expected job expected now s =
     (case expected of None \<Rightarrow> Inr s
      | Some e \<Rightarrow> inventory_late_artifact (job_context job) (ca_key e) now s)"

text \<open>A failed attempt of an agreement that is being deleted.\<close>

definition requeue_tombstoned ::
  "datetime \<Rightarrow> job_row \<Rightarrow> uuid option \<Rightarrow> uuid option \<Rightarrow> processing_job option
   \<Rightarrow> completed_artifact option \<Rightarrow> 'z processing_db_scheme \<Rightarrow> 'z processing_db_scheme result" where
  "requeue_tombstoned now job organization_id workspace_id claimed expected s =
     bindR (inventory_expected job expected now s) (\<lambda>s.
     if owns_claim job claimed
     then (case artifact_intent s (jb_id job) organization_id workspace_id of
             None \<Rightarrow> Inr s
           | Some i \<Rightarrow> reconcile_artifact_intent i now s)
     else Inr s)"

definition requeue_job ::
  "datetime \<Rightarrow> uuid \<Rightarrow> string \<Rightarrow> string \<Rightarrow> datetime \<Rightarrow> uuid option \<Rightarrow> uuid option
   \<Rightarrow> processing_job option \<Rightarrow> completed_artifact option \<Rightarrow> 'z processing_db_scheme
   \<Rightarrow> (bool \<times> 'z processing_db_scheme) result" where
  "requeue_job now job_id category msg next_retry_at organization_id workspace_id claimed expected s =
     bindR (set_tenant_context organization_id workspace_id) (\<lambda>_.
     case job_for_update s job_id of
       None \<Rightarrow> bindR (inventory_failed_artifact_after_purge claimed expected now s) (\<lambda>s. Inr (False, s))
     | Some job \<Rightarrow>
         if \<not> matches_tenant_scope (job_context job) organization_id workspace_id then Inr (False, s)
         else
           case agreement_for_update s (job_context job) of
             None \<Rightarrow> Inr (False, s)
           | Some a \<Rightarrow>
               if ag_deletion_requested_at a \<noteq> None
               then bindR (requeue_tombstoned now job organization_id workspace_id claimed expected s)
                      (\<lambda>s. Inr (False, s))
               else if \<not> owns_claim job claimed then Inr (False, s)
               else Inr (True, update_agreement_processing_state job JQueued now
                      (update_job job_id (queued_row category msg next_retry_at now) s)))"

definition fail_comparison ::
  "job_row \<Rightarrow> string \<Rightarrow> string \<Rightarrow> datetime \<Rightarrow> 'z processing_db_scheme \<Rightarrow> 'z processing_db_scheme" where
  "fail_comparison job category msg now s =
     (if jb_profile job = ''version-comparison''
      then s\<lparr>comparison_runs := update_where (\<lambda>r. cr_job r = Some (jb_id job))
             (\<lambda>r. r\<lparr>cr_state := ''failed'', cr_failure_category := Some category,
                cr_failure_message := Some msg, cr_updated_at := now\<rparr>) (comparison_runs s)\<rparr>
      else s)"

definition settle_intent ::
  "datetime \<Rightarrow> job_row \<Rightarrow> agreement_row \<Rightarrow> uuid option \<Rightarrow> uuid option \<Rightarrow> 'z processing_db_scheme
   \<Rightarrow> 'z processing_db_scheme result" where
  "settle_intent now job a organization_id workspace_id s =
     (case artifact_intent s (jb_id job) organization_id workspace_id of
        None \<Rightarrow> Inr s
      | Some i \<Rightarrow>
          if ag_deletion_requested_at a \<noteq> None then reconcile_artifact_intent i now s
          else Inr (s\<lparr>intents := update_where (\<lambda>x. in_job x = jb_id job)
                      (\<lambda>x. x\<lparr>in_state := Settled, in_updated_at := now\<rparr>) (intents s)\<rparr>))"

definition fail_job ::
  "datetime \<Rightarrow> uuid \<Rightarrow> string \<Rightarrow> string \<Rightarrow> uuid option \<Rightarrow> uuid option
   \<Rightarrow> processing_job option \<Rightarrow> completed_artifact option \<Rightarrow> 'z processing_db_scheme
   \<Rightarrow> 'z processing_db_scheme result" where
  "fail_job now job_id category msg organization_id workspace_id claimed expected s =
     bindR (set_tenant_context organization_id workspace_id) (\<lambda>_.
     case job_for_update s job_id of
       None \<Rightarrow> inventory_failed_artifact_after_purge claimed expected now s
     | Some job \<Rightarrow>
         if \<not> matches_tenant_scope (job_context job) organization_id workspace_id then Inr s
         else
           case agreement_for_update s (job_context job) of
             None \<Rightarrow> Inr s
           | Some a \<Rightarrow>
               if \<not> owns_claim job claimed then
                 (if ag_deletion_requested_at a \<noteq> None then inventory_expected job expected now s else Inr s)
               else
                 bindR (settle_intent now job a organization_id workspace_id s) (\<lambda>s.
                 Inr (update_agreement_processing_state job JFailed now
                   (fail_comparison job category msg now (update_job job_id (failed_row category msg now) s)))))"

end
