(* ===== verification/Deletion_Repository.thy ===== *)
theory Deletion_Repository
  imports Processing_Repository
begin

text \<open>
  The worker's deletion repository (\<open>agreement_deletion.py\<close>:
  \<open>SQLAlchemyAgreementDeletionRepository\<close>): claims with leases, the object inventory, retries and
  failures, the outbox, and the purge of every derived row of an agreement. One operation is one
  transaction; \<open>lease\<close> is the repository's \<open>lease_seconds\<close>.
\<close>

section \<open>Values\<close>

record agreement_deletion =
  ad_id :: uuid
  ad_org :: uuid
  ad_ws :: uuid
  ad_agreement :: uuid
  ad_attempt_count :: int
  ad_claim_token :: uuid

record deletion_item =
  di_id :: uuid
  di_category :: string
  di_key :: string
  di_state :: object_state

record claimed_outbox =
  cb_id :: uuid
  cb_deletion :: uuid
  cb_agreement :: uuid
  cb_org :: uuid
  cb_ws :: uuid
  cb_lease_token :: uuid
  cb_attempt_count :: int

section \<open>Claims\<close>

definition due :: "datetime option \<Rightarrow> datetime \<Rightarrow> bool" where
  "due t now \<longleftrightarrow> (case t of None \<Rightarrow> False | Some x \<Rightarrow> x \<le> now)"

definition claimable :: "uuid \<Rightarrow> uuid \<Rightarrow> uuid \<Rightarrow> datetime \<Rightarrow> deletion_request_row \<Rightarrow> bool" where
  "claimable deletion_id organization_id workspace_id now r \<longleftrightarrow>
     dr_id r = deletion_id \<and> dr_org r = organization_id \<and> dr_ws r = workspace_id \<and>
     dr_next_attempt_at r \<le> now \<and>
     (dr_state r = DAccepted \<or> dr_state r = DRetrying \<or>
      dr_state r = DProcessing \<and> due (dr_lease_expires_at r) now)"

definition update_request ::
  "(deletion_request_row \<Rightarrow> bool) \<Rightarrow> (deletion_request_row \<Rightarrow> deletion_request_row)
   \<Rightarrow> 'z processing_db_scheme \<Rightarrow> 'z processing_db_scheme" where
  "update_request p f s = s\<lparr>deletion_requests := update_where p f (deletion_requests s)\<rparr>"

definition claimed_request :: "uuid \<Rightarrow> int \<Rightarrow> datetime \<Rightarrow> deletion_request_row \<Rightarrow> deletion_request_row" where
  "claimed_request token lease now r = r\<lparr>dr_state := DProcessing,
     dr_attempt_count := dr_attempt_count r + 1, dr_claim_token := Some token,
     dr_lease_expires_at := Some (now + seconds lease),
     dr_processing_started_at :=
       (case dr_processing_started_at r of None \<Rightarrow> Some now | Some t \<Rightarrow> Some t),
     dr_failure_category := None, dr_failure_message := None, dr_updated_at := now\<rparr>"

definition claim_deletion ::
  "int \<Rightarrow> datetime \<Rightarrow> uuid \<Rightarrow> uuid \<Rightarrow> uuid \<Rightarrow> 'z processing_db_scheme
   \<Rightarrow> agreement_deletion option \<times> 'z processing_db_scheme" where
  "claim_deletion lease now deletion_id organization_id workspace_id s =
     (let token = uuid4 s; s = draw s
      in case find (claimable deletion_id organization_id workspace_id now) (deletion_requests s) of
           None \<Rightarrow> (None, s)
         | Some r \<Rightarrow>
             (Some \<lparr>ad_id = deletion_id, ad_org = organization_id, ad_ws = workspace_id,
                ad_agreement = dr_agreement r, ad_attempt_count = dr_attempt_count r + 1,
                ad_claim_token = token\<rparr>,
              update_request (\<lambda>q. dr_id q = deletion_id) (\<lambda>_. claimed_request token lease now r) s))"

text \<open>\<open>_locked_claim\<close>, and \<open>_claim_is_current\<close> (whether there is such a row).\<close>

definition holds_claim :: "agreement_deletion \<Rightarrow> deletion_request_row \<Rightarrow> bool" where
  "holds_claim d r \<longleftrightarrow> dr_id r = ad_id d \<and> dr_org r = ad_org d \<and> dr_ws r = ad_ws d \<and>
     dr_state r = DProcessing \<and> dr_claim_token r = Some (ad_claim_token d)"

definition locked_claim ::
  "agreement_deletion \<Rightarrow> 'z processing_db_scheme \<Rightarrow> deletion_request_row option" where
  "locked_claim d s = find (holds_claim d) (deletion_requests s)"

definition claim_is_current :: "agreement_deletion \<Rightarrow> 'z processing_db_scheme \<Rightarrow> bool" where
  "claim_is_current d s \<longleftrightarrow> locked_claim d s \<noteq> None"

definition pending_objects :: "agreement_deletion \<Rightarrow> 'z processing_db_scheme \<Rightarrow> deletion_item list" where
  "pending_objects d s =
     (if claim_is_current d s
      then map (\<lambda>o'. \<lparr>di_id = do_id o', di_category = do_category o', di_key = do_key o', di_state = do_state o'\<rparr>)
             (sort_key do_id (filter (\<lambda>o'. do_deletion o' = ad_id d \<and> do_state o' = OPending) (deletion_objects s)))
      else [])"

section \<open>Objects\<close>

definition own_claim :: "agreement_deletion \<Rightarrow> deletion_request_row \<Rightarrow> bool" where
  "own_claim d r \<longleftrightarrow> dr_id r = ad_id d \<and> dr_claim_token r = Some (ad_claim_token d)"

definition finish_object ::
  "int \<Rightarrow> agreement_deletion \<Rightarrow> uuid \<Rightarrow> object_state \<Rightarrow> datetime \<Rightarrow> 'z processing_db_scheme
   \<Rightarrow> 'z processing_db_scheme" where
  "finish_object lease d object_id st now s =
     update_request (own_claim d)
       (\<lambda>r. r\<lparr>dr_lease_expires_at := Some (now + seconds lease), dr_updated_at := now\<rparr>)
       (s\<lparr>deletion_objects := update_where
            (\<lambda>x. do_id x = object_id \<and> do_deletion x = ad_id d \<and> do_state x = OPending)
            (\<lambda>x. x\<lparr>do_state := st, do_last_error := None, do_updated_at := now\<rparr>) (deletion_objects s)\<rparr>)"

definition mark_deleted ::
  "int \<Rightarrow> datetime \<Rightarrow> agreement_deletion \<Rightarrow> deletion_item \<Rightarrow> 'z processing_db_scheme
   \<Rightarrow> 'z processing_db_scheme result" where
  "mark_deleted lease now d item s =
     (if \<not> claim_is_current d s then Inl (RuntimeError ''agreement deletion lease was lost'')
      else Inr (finish_object lease d (di_id item) ODeleted now s))"

text \<open>The storage keys in the JSON column \<open>agreements.files\<close>.\<close>

fun json_items :: "json \<Rightarrow> json list" where
  "json_items (JList xs) = xs"
| "json_items _ = []"

definition file_keys :: "agreement_row \<Rightarrow> string list" where
  "file_keys a = concat (map (\<lambda>f. case json_get f ''storage_key'' of Some (JStr k) \<Rightarrow> [k] | _ \<Rightarrow> [])
     (json_items (ag_files a)))"

definition source_shared :: "agreement_deletion \<Rightarrow> string \<Rightarrow> 'z processing_db_scheme \<Rightarrow> bool" where
  "source_shared d key s \<longleftrightarrow>
     exists_row (\<lambda>v. vr_storage_key v = key \<and> vr_agreement v \<noteq> ad_agreement d \<and> vr_org v = ad_org d \<and>
        vr_ws v = ad_ws d \<and>
        exists_row (\<lambda>a. ag_id a = vr_agreement v \<and> ag_deletion_requested_at a = None) (agreements s))
       (agreement_versions s) \<or>
     exists_row (\<lambda>a. key \<in> set (file_keys a) \<and> ag_id a \<noteq> ad_agreement d \<and> ag_org a = ad_org d \<and>
        ag_ws a = ad_ws d \<and> ag_deletion_requested_at a = None) (agreements s) \<or>
     exists_row (\<lambda>g. rg_org g = ad_org d \<and> rg_ws g = ad_ws d \<and> rg_key g = key \<and>
        rg_state g = ''available'' \<and>
        exists_row (\<lambda>r. dr_id r = ad_id d \<and> dr_accepted_at r < rg_updated_at g) (deletion_requests s))
       (object_registry s)"

definition register_deleted ::
  "agreement_deletion \<Rightarrow> string \<Rightarrow> datetime \<Rightarrow> 'z processing_db_scheme \<Rightarrow> 'z processing_db_scheme" where
  "register_deleted d key now s =
     (let here = (\<lambda>g. rg_org g = ad_org d \<and> rg_ws g = ad_ws d \<and> rg_key g = key);
          i = uuid4 s; s = draw s
      in if exists_row here (object_registry s)
         then s\<lparr>object_registry := update_where here (\<lambda>g. g\<lparr>rg_state := ''deleted'', rg_updated_at := now\<rparr>)
                (object_registry s)\<rparr>
         else s\<lparr>object_registry := object_registry s @
                [\<lparr>rg_id = i, rg_org = ad_org d, rg_ws = ad_ws d, rg_key = key, rg_checksum = None,
                  rg_content_type = None, rg_byte_size = None, rg_state = ''deleted'',
                  rg_created_at = now, rg_updated_at = now\<rparr>]\<rparr>)"

text \<open>
  \<open>delete_object\<close> deletes from the store or raises; the store is returned beside the outcome of the
  transaction.
\<close>

definition delete_source_if_unreferenced ::
  "int \<Rightarrow> datetime \<Rightarrow> (string \<Rightarrow> object_store \<Rightarrow> unit result \<times> object_store)
   \<Rightarrow> agreement_deletion \<Rightarrow> deletion_item \<Rightarrow> 'z processing_db_scheme \<Rightarrow> object_store
   \<Rightarrow> 'z processing_db_scheme result \<times> object_store" where
  "delete_source_if_unreferenced lease now delete_object d item s store =
     (if \<not> claim_is_current d s then (Inl (RuntimeError ''agreement deletion lease was lost''), store)
      else if \<not> exists_row (\<lambda>x. do_id x = di_id item \<and> do_deletion x = ad_id d \<and> do_state x = OPending)
                (deletion_objects s) then (Inr s, store)
      else if source_shared d (di_key item) s
      then (Inr (finish_object lease d (di_id item) OPreserved now s), store)
      else
        case delete_object (di_key item) store of
          (Inl e, store) \<Rightarrow> (Inl e, store)
        | (Inr _, store) \<Rightarrow>
            (Inr (finish_object lease d (di_id item) ODeleted now (register_deleted d (di_key item) now s)), store))"

section \<open>Retrying and failing\<close>

definition rearm_deletion_outbox ::
  "agreement_deletion \<Rightarrow> string \<Rightarrow> datetime \<Rightarrow> datetime \<Rightarrow> 'z processing_db_scheme
   \<Rightarrow> 'z processing_db_scheme" where
  "rearm_deletion_outbox d msg next_attempt now s =
     s\<lparr>deletion_outbox := update_where (\<lambda>x. dx_deletion x = ad_id d)
       (\<lambda>x. x\<lparr>dx_delivered_at := None, dx_lease_token := None, dx_lease_expires_at := None,
          dx_next_attempt_at := next_attempt, dx_last_error := Some msg, dx_updated_at := now\<rparr>)
       (deletion_outbox s)\<rparr>"

definition object_error ::
  "agreement_deletion \<Rightarrow> uuid \<Rightarrow> string \<Rightarrow> datetime \<Rightarrow> 'z processing_db_scheme \<Rightarrow> 'z processing_db_scheme" where
  "object_error d object_id msg now s =
     s\<lparr>deletion_objects := update_where (\<lambda>x. do_id x = object_id \<and> do_deletion x = ad_id d)
       (\<lambda>x. x\<lparr>do_last_error := Some msg, do_updated_at := now\<rparr>) (deletion_objects s)\<rparr>"

definition retrying_request :: "string \<Rightarrow> string \<Rightarrow> datetime \<Rightarrow> datetime \<Rightarrow> deletion_request_row \<Rightarrow> deletion_request_row" where
  "retrying_request category msg next_retry_at now r = r\<lparr>dr_state := DRetrying, dr_claim_token := None,
     dr_lease_expires_at := None, dr_next_attempt_at := next_retry_at, dr_failure_category := Some category,
     dr_failure_message := Some msg, dr_updated_at := now\<rparr>"

definition failed_request :: "string \<Rightarrow> string \<Rightarrow> datetime \<Rightarrow> deletion_request_row \<Rightarrow> deletion_request_row" where
  "failed_request category msg now r = r\<lparr>dr_state := DFailed, dr_claim_token := None,
     dr_lease_expires_at := None, dr_failure_category := Some category, dr_failure_message := Some msg,
     dr_failed_at := Some now, dr_updated_at := now\<rparr>"

definition insert_terminal_audit ::
  "deletion_request_row \<Rightarrow> string \<Rightarrow> datetime \<Rightarrow> 'z processing_db_scheme \<Rightarrow> 'z processing_db_scheme" where
  "insert_terminal_audit r event_type now s =
     draw s\<lparr>deletion_audit := deletion_audit s @
       [\<lparr>da_id = uuid4 s, da_org = dr_org r, da_ws = dr_ws r, da_agreement = dr_agreement r,
         da_title = dr_title r, da_agreement_type = dr_agreement_type r,
         da_file_checksums = dr_file_checksums r, da_actor = dr_actor r, da_deletion = Some (dr_id r),
         da_event_type = event_type, da_retry_cycle = dr_retry_cycle r,
         da_metadata = JObj [(''attempt_count'', JInt (dr_attempt_count r))], da_occurred_at = now\<rparr>]\<rparr>"

definition retry_deletion ::
  "datetime \<Rightarrow> agreement_deletion \<Rightarrow> uuid \<Rightarrow> string \<Rightarrow> datetime \<Rightarrow> 'z processing_db_scheme
   \<Rightarrow> 'z processing_db_scheme" where
  "retry_deletion now d object_id msg next_retry_at s =
     (if \<not> claim_is_current d s then s
      else rearm_deletion_outbox d msg next_retry_at now
             (update_request (own_claim d) (retrying_request ''object_storage'' msg next_retry_at now)
               (object_error d object_id msg now s)))"

definition fail_deletion ::
  "datetime \<Rightarrow> agreement_deletion \<Rightarrow> uuid \<Rightarrow> string \<Rightarrow> 'z processing_db_scheme \<Rightarrow> 'z processing_db_scheme" where
  "fail_deletion now d object_id msg s =
     (case locked_claim d s of
        None \<Rightarrow> s
      | Some r \<Rightarrow>
          insert_terminal_audit r ''failed'' now
            (rearm_deletion_outbox d msg now now
              (update_request (own_claim d) (failed_request ''object_storage'' msg now)
                (object_error d object_id msg now s))))"

definition retry_database_cleanup ::
  "datetime \<Rightarrow> agreement_deletion \<Rightarrow> string \<Rightarrow> datetime \<Rightarrow> 'z processing_db_scheme \<Rightarrow> 'z processing_db_scheme" where
  "retry_database_cleanup now d msg next_retry_at s =
     (if \<not> claim_is_current d s then s
      else rearm_deletion_outbox d msg next_retry_at now
             (update_request (own_claim d) (retrying_request ''database_cleanup'' msg next_retry_at now) s))"

definition fail_database_cleanup ::
  "datetime \<Rightarrow> agreement_deletion \<Rightarrow> string \<Rightarrow> 'z processing_db_scheme \<Rightarrow> 'z processing_db_scheme" where
  "fail_database_cleanup now d msg s =
     (case locked_claim d s of
        None \<Rightarrow> s
      | Some r \<Rightarrow>
          insert_terminal_audit r ''failed'' now
            (rearm_deletion_outbox d msg now now
              (update_request (own_claim d) (failed_request ''database_cleanup'' msg now) s)))"

definition stale_request :: "uuid \<Rightarrow> datetime \<Rightarrow> deletion_request_row \<Rightarrow> bool" where
  "stale_request organization_id now r \<longleftrightarrow> dr_org r = organization_id \<and> dr_state r = DProcessing \<and>
     due (dr_lease_expires_at r) now"

definition recover_stale_deletions ::
  "datetime \<Rightarrow> uuid \<Rightarrow> 'z processing_db_scheme \<Rightarrow> nat \<times> 'z processing_db_scheme" where
  "recover_stale_deletions now organization_id s =
     (let stale = map dr_id (filter (stale_request organization_id now) (deletion_requests s));
          msg = ''Expired deletion lease recovered''
      in if stale = [] then (0, s)
         else (length stale,
           (update_request (\<lambda>r. dr_id r \<in> set stale) (retrying_request ''database_cleanup'' msg now now) s)
             \<lparr>deletion_outbox := update_where (\<lambda>x. dx_deletion x \<in> set stale)
               (\<lambda>x. x\<lparr>dx_delivered_at := None, dx_lease_token := None, dx_lease_expires_at := None,
                  dx_next_attempt_at := now, dx_last_error := Some msg, dx_updated_at := now\<rparr>)
               (deletion_outbox s)\<rparr>))"

end
