(* ===== verification/Agreement_Service.thy ===== *)
theory Agreement_Service
  imports Deletion_Repository
begin

text \<open>
  Agreements, their versions and the acceptance of a deletion, as the API serves them
  (\<open>agreements/repository.py\<close>, \<open>agreements/service.py\<close>, \<open>agreements/versions.py\<close>). A response is the
  row it projects. Each service method is one transaction.
\<close>

section \<open>Values\<close>

record agreement_file =
  fl_file_name :: string
  fl_content_type :: string
  fl_storage_key :: string
  fl_checksum :: string
  fl_byte_size :: int
  fl_version_number :: int

record create_agreement_request =
  rq_title :: string
  rq_agreement_type :: string
  rq_status :: string
  rq_parties :: json
  rq_files :: "agreement_file list"
  rq_processing_state :: string
  rq_audit_metadata :: json

record uploaded_document =
  ud_document_id :: uuid
  ud_tenant :: uuid
  ud_ws :: uuid
  ud_original_filename :: string
  ud_content_type :: string
  ud_byte_size :: int
  ud_sha256 :: string
  ud_object_key :: string
  ud_duplicate :: bool

definition file_json :: "agreement_file \<Rightarrow> json" where
  "file_json f = JObj [(''file_name'', JStr (fl_file_name f)), (''content_type'', JStr (fl_content_type f)),
     (''storage_key'', JStr (fl_storage_key f)), (''checksum'', JStr (fl_checksum f)),
     (''byte_size'', JInt (fl_byte_size f)), (''version_number'', JInt (fl_version_number f))]"

definition audit_event_json :: "string \<Rightarrow> uuid \<Rightarrow> datetime \<Rightarrow> json" where
  "audit_event_json action actor now =
     JObj [(''action'', JStr action), (''actor_id'', JStr actor), (''occurred_at'', JStr (isoformat now))]"

definition file_checksums :: "agreement_row \<Rightarrow> string list" where
  "file_checksums a = concat (map (\<lambda>f. case json_get f ''checksum'' of Some (JStr k) \<Rightarrow> [k] | _ \<Rightarrow> [])
     (json_items (ag_files a)))"

text \<open>\<open>metadata.pop(key, None)\<close> and \<open>metadata[key] = value\<close> on a JSON object.\<close>

fun json_pop :: "string \<Rightarrow> json \<Rightarrow> json" where
  "json_pop k (JObj kvs) = JObj (filter (\<lambda>(x, _). x \<noteq> k) kvs)"
| "json_pop k v = v"

fun json_put :: "string \<Rightarrow> json \<Rightarrow> json \<Rightarrow> json" where
  "json_put k x (JObj kvs) =
     JObj (if k \<in> fst ` set kvs then map (\<lambda>(a, b). if a = k then (a, x) else (a, b)) kvs else kvs @ [(k, x)])"
| "json_put k x v = v"

section \<open>The repository\<close>

definition get_agreement :: "'z processing_db_scheme \<Rightarrow> uuid \<Rightarrow> agreement_row option" where
  "get_agreement s agreement_id =
     find (\<lambda>a. ag_id a = agreement_id \<and> ag_deletion_requested_at a = None) (agreements s)"

text \<open>SQL \<open>LIKE\<close>: \<open>contains\<close> puts the query between two percent signs and escapes nothing in it.\<close>

function sql_like :: "string \<Rightarrow> string \<Rightarrow> bool" where
  "sql_like [] s \<longleftrightarrow> s = []"
| "sql_like (c # p) s \<longleftrightarrow>
     (if c = CHR ''%'' then sql_like p s \<or> (case s of [] \<Rightarrow> False | _ # t \<Rightarrow> sql_like (c # p) t)
      else if c = CHR ''_'' then (case s of [] \<Rightarrow> False | _ # t \<Rightarrow> sql_like p t)
      else if c = char_of (92::nat) \<and> p \<noteq> []
      then (case s of [] \<Rightarrow> False | x # t \<Rightarrow> x = hd p \<and> sql_like (tl p) t)
      else (case s of [] \<Rightarrow> False | x # t \<Rightarrow> x = c \<and> sql_like p t))"
  by pat_completeness auto
termination by (relation "measure (\<lambda>(p, s). length p + length s)") auto

definition list_for_scope ::
  "'z processing_db_scheme \<Rightarrow> uuid \<Rightarrow> uuid \<Rightarrow> string option \<Rightarrow> string option \<Rightarrow> string option \<Rightarrow> bool
   \<Rightarrow> agreement_row list" where
  "list_for_scope s organization_id workspace_id query agreement_type status include_archived =
     rev (sort_key (\<lambda>a. (ag_created_at a, ag_id a))
       (filter (\<lambda>a. ag_deletion_requested_at a = None \<and> ag_org a = organization_id \<and> ag_ws a = workspace_id \<and>
          (case query of None \<Rightarrow> True | Some q \<Rightarrow> sql_like (''%'' @ str_lower q @ ''%'') (str_lower (ag_title a))) \<and>
          (case agreement_type of None \<Rightarrow> True | Some t \<Rightarrow> ag_type a = t) \<and>
          (case status of None \<Rightarrow> True | Some t \<Rightarrow> ag_status a = t) \<and>
          (include_archived \<or> ag_archived_at a = None)) (agreements s)))"

definition replace_agreement ::
  "agreement_row \<Rightarrow> 'z processing_db_scheme \<Rightarrow> 'z processing_db_scheme result" where
  "replace_agreement a s =
     bindR (some_or (active_agreement s (ag_id a) (ag_org a) (ag_ws a))
       (RuntimeError ''cannot replace a missing agreement'')) (\<lambda>r.
     Inr (s\<lparr>agreements := update_where (\<lambda>x. ag_id x = ag_id r)
       (\<lambda>x. x\<lparr>ag_title := ag_title a, ag_type := ag_type a, ag_status := ag_status a,
          ag_parties := ag_parties a, ag_files := ag_files a,
          ag_processing_state := ag_processing_state a, ag_audit_metadata := ag_audit_metadata a,
          ag_audit_events := ag_audit_events a, ag_current_version := ag_current_version a,
          ag_baseline_version := ag_baseline_version a, ag_archived_at := ag_archived_at a,
          ag_updated_at := ag_updated_at a\<rparr>) (agreements s)\<rparr>))"

definition registry_entry ::
  "'z processing_db_scheme \<Rightarrow> uuid \<Rightarrow> uuid \<Rightarrow> string \<Rightarrow> registry_row option" where
  "registry_entry s organization_id workspace_id key =
     find (\<lambda>g. rg_org g = organization_id \<and> rg_ws g = workspace_id \<and> rg_key g = key) (object_registry s)"

definition create_version ::
  "agreement_version_row \<Rightarrow> uuid \<Rightarrow> string \<Rightarrow> datetime \<Rightarrow> 'z processing_db_scheme
   \<Rightarrow> 'z processing_db_scheme result" where
  "create_version v actor action now s =
     bindR (require (active_agreement s (vr_agreement v) (vr_org v) (vr_ws v) \<noteq> None)
       (RuntimeError ''cannot create a version for a deleted agreement'')) (\<lambda>_.
     bindR (require (case registry_entry s (vr_org v) (vr_ws v) (vr_storage_key v) of
                       None \<Rightarrow> True | Some g \<Rightarrow> rg_state g = ''available'')
       (RuntimeError ''source object is not available; upload it again'')) (\<lambda>_.
     Inr (draw s\<lparr>agreement_versions := agreement_versions s @ [v],
       version_audit := version_audit s @
         [\<lparr>va_id = uuid4 s, va_org = vr_org v, va_ws = vr_ws v, va_agreement = vr_agreement v,
           va_version = vr_id v, va_actor = actor, va_action = action,
           va_metadata = JObj [(''version_number'', JInt (vr_number v)), (''checksum'', JStr (vr_checksum v))],
           va_occurred_at = now\<rparr>]\<rparr>)))"

text \<open>The rows of versions of agreements that are not being deleted.\<close>

definition live_versions :: "'z processing_db_scheme \<Rightarrow> agreement_version_row list" where
  "live_versions s = filter (\<lambda>v. agreement_is_active s (vr_agreement v)) (agreement_versions s)"

definition get_version :: "'z processing_db_scheme \<Rightarrow> uuid \<Rightarrow> agreement_version_row option" where
  "get_version s version_id = find (\<lambda>v. vr_id v = version_id) (live_versions s)"

definition list_versions :: "'z processing_db_scheme \<Rightarrow> uuid \<Rightarrow> agreement_version_row list" where
  "list_versions s agreement_id =
     sort_key vr_number (filter (\<lambda>v. vr_agreement v = agreement_id) (live_versions s))"

definition version_by_idempotency_key ::
  "'z processing_db_scheme \<Rightarrow> uuid \<Rightarrow> string \<Rightarrow> agreement_version_row option" where
  "version_by_idempotency_key s agreement_id key =
     find (\<lambda>v. vr_agreement v = agreement_id \<and> vr_idempotency_key v = key) (live_versions s)"

definition version_by_checksum ::
  "'z processing_db_scheme \<Rightarrow> uuid \<Rightarrow> string \<Rightarrow> agreement_version_row option" where
  "version_by_checksum s agreement_id checksum =
     find (\<lambda>v. vr_agreement v = agreement_id \<and> vr_checksum v = checksum) (live_versions s)"

subsection \<open>Accepting a deletion\<close>

text \<open>\<open>list(dict.fromkeys(xs))\<close>: the first occurrence of each element.\<close>

definition dedup_first :: "'a list \<Rightarrow> 'a list" where
  "dedup_first xs = rev (remdups (rev xs))"

lemma set_dedup_first [simp]: "set (dedup_first xs) = set xs"
  by (simp add: dedup_first_def)

lemma distinct_dedup_first [simp]: "distinct (dedup_first xs)"
  by (simp add: dedup_first_def)

definition artifact_category :: "string \<Rightarrow> string option" where
  "artifact_category profile =
     (if profile = ''version-comparison'' then Some ''comparison''
      else if startswith ''embedding-reindex:'' profile then None
      else Some ''analysis'')"

definition artifact_objects :: "'z processing_db_scheme \<Rightarrow> uuid \<Rightarrow> (string \<times> string) list" where
  "artifact_objects s agreement_id =
     concat (map (\<lambda>r. concat (map (\<lambda>j. case artifact_category (jb_profile j) of
                                      None \<Rightarrow> [] | Some c \<Rightarrow> [(c, af_key r)])
                               (filter (\<lambda>j. jb_id j = af_job r) (jobs s))))
       (filter (\<lambda>r. af_agreement r = agreement_id) (artifacts s)))"

definition intent_objects :: "'z processing_db_scheme \<Rightarrow> uuid \<Rightarrow> (string \<times> string) list" where
  "intent_objects s agreement_id =
     map (\<lambda>i. (in_category i, in_key i)) (filter (\<lambda>i. in_agreement i = agreement_id) (intents s))"

definition source_objects :: "'z processing_db_scheme \<Rightarrow> agreement_row \<Rightarrow> (string \<times> string) list" where
  "source_objects s a =
     map (\<lambda>k. (''source'', k))
       (map vr_storage_key (sort_key vr_number (filter (\<lambda>v. vr_agreement v = ag_id a) (agreement_versions s))) @
        file_keys a)"

definition comparison_objects :: "'z processing_db_scheme \<Rightarrow> uuid \<Rightarrow> (string \<times> string) list" where
  "comparison_objects s agreement_id =
     map (\<lambda>r. (''comparison'', ''comparisons/'' @ cr_id r @ ''/version-comparison.v1.json''))
       (filter (\<lambda>r. cr_agreement r = agreement_id) (comparison_runs s))"

definition reviews_of :: "'z processing_db_scheme \<Rightarrow> uuid \<Rightarrow> uuid list" where
  "reviews_of s agreement_id = map rc_id (filter (\<lambda>r. rc_agreement r = agreement_id) (review_cases s))"

definition package_objects :: "'z processing_db_scheme \<Rightarrow> uuid \<Rightarrow> (string \<times> string) list" where
  "package_objects s agreement_id =
     concat (map (\<lambda>p. [(''review_manifest'', fp_manifest_key p), (''review_pdf'', fp_pdf_key p)])
       (filter (\<lambda>p. fp_review p \<in> set (reviews_of s agreement_id)) (final_packages s)))"

definition legacy_key :: "json \<Rightarrow> string \<Rightarrow> string option" where
  "legacy_key snapshot key = (case json_get snapshot key of Some (JStr k) \<Rightarrow> Some k | _ \<Rightarrow> None)"

definition terminal_objects_of :: "outbox_row \<Rightarrow> (string \<times> string) list" where
  "terminal_objects_of x =
     (case ob_package_snapshot x of
        None \<Rightarrow> []
      | Some snapshot \<Rightarrow>
          concat (map (\<lambda>(c, k). case k of None \<Rightarrow> [] | Some k \<Rightarrow> [(c, k)])
            [(''review_manifest'', ob_package_manifest_key x), (''review_pdf'', ob_package_pdf_key x),
             (''review_manifest'', legacy_key snapshot ''legacy_manifest_key''),
             (''review_pdf'', legacy_key snapshot ''legacy_pdf_key'')]))"

definition terminal_objects :: "'z processing_db_scheme \<Rightarrow> uuid \<Rightarrow> (string \<times> string) list" where
  "terminal_objects s agreement_id =
     (let flows = map wf_id (filter (\<lambda>w. wf_review w \<in> set (reviews_of s agreement_id)) (workflows s))
      in concat (map terminal_objects_of
           (filter (\<lambda>x. ob_workflow x \<in> set flows \<and> ob_event_type x = ''review.workflow.terminal'' \<and>
              ob_package_snapshot x \<noteq> None) (workflow_outbox s))))"

definition inventory_of :: "'z processing_db_scheme \<Rightarrow> agreement_row \<Rightarrow> (string \<times> string) list" where
  "inventory_of s a = dedup_first
     (source_objects s a @ artifact_objects s (ag_id a) @ intent_objects s (ag_id a) @
      comparison_objects s (ag_id a) @ package_objects s (ag_id a) @ terminal_objects s (ag_id a))"

text \<open>The rows of an acceptance.\<close>

definition new_request :: "uuid \<Rightarrow> agreement_row \<Rightarrow> uuid \<Rightarrow> datetime \<Rightarrow> deletion_request_row" where
  "new_request i a actor now = \<lparr>dr_id = i, dr_org = ag_org a, dr_ws = ag_ws a, dr_agreement = ag_id a,
     dr_actor = actor, dr_title = ag_title a, dr_agreement_type = ag_type a,
     dr_file_checksums = file_checksums a, dr_state = DAccepted, dr_attempt_count = 0, dr_retry_cycle = 1,
     dr_claim_token = None, dr_lease_expires_at = None, dr_next_attempt_at = now,
     dr_failure_category = None, dr_failure_message = None, dr_accepted_at = now,
     dr_processing_started_at = None, dr_completed_at = None, dr_failed_at = None, dr_updated_at = now\<rparr>"

fun add_objects ::
  "deletion_request_row \<Rightarrow> datetime \<Rightarrow> (string \<times> string) list \<Rightarrow> 'z processing_db_scheme
   \<Rightarrow> 'z processing_db_scheme" where
  "add_objects r now [] s = s"
| "add_objects r now ((category, key) # xs) s =
     add_objects r now xs (draw s\<lparr>deletion_objects := deletion_objects s @
       [\<lparr>do_id = uuid4 s, do_deletion = dr_id r, do_org = dr_org r, do_ws = dr_ws r,
         do_agreement = dr_agreement r, do_category = category, do_key = key, do_state = OPending,
         do_last_error = None, do_created_at = now, do_updated_at = now\<rparr>]\<rparr>)"

definition add_deletion_audit ::
  "deletion_request_row \<Rightarrow> uuid \<Rightarrow> string \<Rightarrow> int \<Rightarrow> json \<Rightarrow> datetime \<Rightarrow> 'z processing_db_scheme
   \<Rightarrow> 'z processing_db_scheme" where
  "add_deletion_audit r actor event_type cycle metadata now s =
     draw s\<lparr>deletion_audit := deletion_audit s @
       [\<lparr>da_id = uuid4 s, da_org = dr_org r, da_ws = dr_ws r, da_agreement = dr_agreement r,
         da_title = dr_title r, da_agreement_type = dr_agreement_type r,
         da_file_checksums = dr_file_checksums r, da_actor = actor, da_deletion = Some (dr_id r),
         da_event_type = event_type, da_retry_cycle = cycle, da_metadata = metadata, da_occurred_at = now\<rparr>]\<rparr>"

definition accept_agreement_deletion ::
  "datetime \<Rightarrow> agreement_row \<Rightarrow> uuid \<Rightarrow> 'z processing_db_scheme
   \<Rightarrow> (deletion_request_row \<times> 'z processing_db_scheme) result" where
  "accept_agreement_deletion now a actor s =
     (let locked = find (\<lambda>x. ag_id x = ag_id a \<and> ag_org x = ag_org a \<and> ag_ws x = ag_ws a) (agreements s)
      in bindR (require (case locked of None \<Rightarrow> False | Some x \<Rightarrow> ag_deletion_requested_at x = None)
           (RuntimeError ''agreement deletion cannot be accepted twice'')) (\<lambda>_.
         let objects = inventory_of s a;
             r = new_request (uuid4 s) a actor now;
             s = draw s\<lparr>deletion_requests := deletion_requests s @ [r]\<rparr>;
             s = add_objects r now objects s;
             s = add_deletion_audit r actor ''requested'' 1
                   (JObj [(''object_count'', JInt (int (length objects)))]) now s;
             s = draw s\<lparr>deletion_outbox := deletion_outbox s @
                   [\<lparr>dx_id = uuid4 s, dx_deletion = dr_id r, dx_org = ag_org a, dx_ws = ag_ws a,
                     dx_agreement = ag_id a, dx_attempt_count = 0, dx_next_attempt_at = now,
                     dx_lease_token = None, dx_lease_expires_at = None, dx_last_error = None,
                     dx_delivered_at = None, dx_created_at = now, dx_updated_at = now\<rparr>]\<rparr>
         in Inr (r, s\<lparr>agreements := update_where (\<lambda>x. ag_id x = ag_id a)
              (\<lambda>x. x\<lparr>ag_deletion_requested_at := Some now, ag_updated_at := now\<rparr>) (agreements s)\<rparr>)))"

definition deletion_by_agreement ::
  "'z processing_db_scheme \<Rightarrow> uuid \<Rightarrow> uuid \<Rightarrow> uuid \<Rightarrow> deletion_request_row option" where
  "deletion_by_agreement s agreement_id organization_id workspace_id =
     find (\<lambda>r. dr_agreement r = agreement_id \<and> dr_org r = organization_id \<and> dr_ws r = workspace_id)
       (deletion_requests s)"

definition redriven_request :: "datetime \<Rightarrow> deletion_request_row \<Rightarrow> deletion_request_row" where
  "redriven_request now r = r\<lparr>dr_state := DAccepted, dr_retry_cycle := dr_retry_cycle r + 1,
     dr_attempt_count := 0, dr_claim_token := None, dr_lease_expires_at := None, dr_next_attempt_at := now,
     dr_failure_category := None, dr_failure_message := None, dr_failed_at := None, dr_updated_at := now\<rparr>"

definition redrive_deletion ::
  "datetime \<Rightarrow> deletion_request_row \<Rightarrow> uuid \<Rightarrow> 'z processing_db_scheme
   \<Rightarrow> deletion_request_row \<times> 'z processing_db_scheme" where
  "redrive_deletion now r actor s =
     (case find (\<lambda>q. dr_id q = dr_id r) (deletion_requests s) of
        None \<Rightarrow> (r, s)
      | Some locked \<Rightarrow>
          if dr_state locked \<noteq> DFailed then (locked, s)
          else
            (let q = redriven_request now locked;
                 s = update_request (\<lambda>x. dr_id x = dr_id r) (\<lambda>_. q) s;
                 s = s\<lparr>deletion_outbox := update_where (\<lambda>x. dx_deletion x = dr_id r)
                       (\<lambda>x. x\<lparr>dx_delivered_at := None, dx_lease_token := None, dx_lease_expires_at := None,
                          dx_next_attempt_at := now, dx_last_error := None, dx_updated_at := now\<rparr>)
                       (deletion_outbox s)\<rparr>
             in (q, add_deletion_audit q actor ''redriven'' (dr_retry_cycle q) (JObj []) now s)))"

end
