(* ===== verification/Agreement_Api.thy ===== *)
theory Agreement_Api
  imports Agreement_Service
begin

text \<open>
  The agreement services of the API on top of the repository (\<open>agreements/service.py\<close>,
  \<open>agreements/versions.py\<close>, and the source registry of \<open>agreements/repository.py\<close>).
\<close>

definition authorize_agreement ::
  "permission_key \<Rightarrow> 'z processing_db_scheme \<Rightarrow> uuid \<Rightarrow> uuid \<Rightarrow> uuid \<Rightarrow> unit result" where
  "authorize_agreement permission s actor organization_id workspace_id =
     require (can_access_workspace s actor organization_id workspace_id permission) AgreementNotFoundError"

section \<open>Sources\<close>

definition is_object_pending_deletion ::
  "'z processing_db_scheme \<Rightarrow> string \<Rightarrow> uuid \<Rightarrow> uuid \<Rightarrow> bool" where
  "is_object_pending_deletion s key organization_id workspace_id \<longleftrightarrow>
     exists_row (\<lambda>x. do_org x = organization_id \<and> do_ws x = workspace_id \<and> do_key x = key \<and>
       exists_row (\<lambda>r. dr_id r = do_deletion x \<and> dr_state r \<noteq> DCompleted) (deletion_requests s) \<and>
       (do_category x \<noteq> ''source'' \<or>
        \<not> exists_row (\<lambda>v. vr_storage_key v = key \<and> vr_agreement v \<noteq> do_agreement x \<and>
            vr_org v = organization_id \<and> vr_ws v = workspace_id) (live_versions s))) (deletion_objects s)"

definition record_source_upload ::
  "datetime \<Rightarrow> uploaded_document \<Rightarrow> 'z processing_db_scheme \<Rightarrow> 'z processing_db_scheme" where
  "record_source_upload now u s =
     (let here = (\<lambda>g. rg_org g = ud_tenant u \<and> rg_ws g = ud_ws u \<and> rg_key g = ud_object_key u)
      in case find here (object_registry s) of
           None \<Rightarrow> draw s\<lparr>object_registry := object_registry s @
             [\<lparr>rg_id = uuid4 s, rg_org = ud_tenant u, rg_ws = ud_ws u, rg_key = ud_object_key u,
               rg_checksum = Some (ud_sha256 u), rg_content_type = Some (ud_content_type u),
               rg_byte_size = Some (ud_byte_size u), rg_state = ''available'', rg_created_at = now,
               rg_updated_at = now\<rparr>]\<rparr>
         | Some _ \<Rightarrow> s\<lparr>object_registry := update_where here
             (\<lambda>g. g\<lparr>rg_checksum := Some (ud_sha256 u), rg_content_type := Some (ud_content_type u),
                rg_byte_size := Some (ud_byte_size u), rg_state := ''available'', rg_updated_at := now\<rparr>)
             (object_registry s)\<rparr>)"

section \<open>Agreements\<close>

definition initial_version :: "agreement_row \<Rightarrow> agreement_file \<Rightarrow> uuid \<Rightarrow> uuid \<Rightarrow> datetime \<Rightarrow> agreement_version_row" where
  "initial_version a f i actor now = \<lparr>vr_id = i, vr_agreement = ag_id a, vr_org = ag_org a, vr_ws = ag_ws a,
     vr_number = 1, vr_predecessor = None, vr_file_name = fl_file_name f,
     vr_content_type = fl_content_type f, vr_storage_key = fl_storage_key f, vr_checksum = fl_checksum f,
     vr_byte_size = fl_byte_size f, vr_uploaded_by = actor, vr_uploaded_at = now,
     vr_processing_state = ag_processing_state a, vr_processing_job = None, vr_extraction_version = None,
     vr_analysis_provenance = JObj [], vr_idempotency_key = ''initial:'' @ ag_id a\<rparr>"

definition new_agreement ::
  "uuid \<Rightarrow> uuid \<Rightarrow> uuid \<Rightarrow> uuid \<Rightarrow> create_agreement_request \<Rightarrow> datetime \<Rightarrow> agreement_row" where
  "new_agreement i actor organization_id workspace_id request now =
     \<lparr>ag_id = i, ag_org = organization_id, ag_ws = workspace_id, ag_title = rq_title request,
      ag_type = rq_agreement_type request, ag_status = rq_status request, ag_parties = rq_parties request,
      ag_files = JList (map file_json (rq_files request)), ag_processing_state = rq_processing_state request,
      ag_audit_metadata = rq_audit_metadata request,
      ag_audit_events = JList [audit_event_json ''created'' actor now], ag_current_version = None,
      ag_baseline_version = None, ag_archived_at = None, ag_created_at = now, ag_updated_at = now,
      ag_deletion_requested_at = None\<rparr>"

definition create_agreement ::
  "'z processing_db_scheme \<Rightarrow> uuid \<Rightarrow> uuid \<Rightarrow> uuid \<Rightarrow> create_agreement_request \<Rightarrow> datetime
   \<Rightarrow> (agreement_row \<times> 'z processing_db_scheme) result" where
  "create_agreement s actor organization_id workspace_id request now =
     bindR (authorize_agreement AGREEMENTS_CREATE s actor organization_id workspace_id) (\<lambda>_.
       let a = new_agreement (uuid4 s) actor organization_id workspace_id request now;
           s = draw s\<lparr>agreements := agreements s @ [a]\<rparr>
       in if rq_files request = [] then Inr (a, s)
          else
            let v = initial_version a (last (rq_files request)) (uuid4 s) actor now; s = draw s;
                a = a\<lparr>ag_current_version := Some (vr_id v)\<rparr>
            in bindR (create_version v actor ''version_created'' now s) (\<lambda>s.
               bindR (replace_agreement a s) (\<lambda>s. Inr (a, s))))"

definition get_visible_agreement ::
  "'z processing_db_scheme \<Rightarrow> uuid \<Rightarrow> uuid \<Rightarrow> uuid \<Rightarrow> uuid \<Rightarrow> agreement_row result" where
  "get_visible_agreement s actor organization_id workspace_id agreement_id =
     bindR (authorize_agreement AGREEMENTS_READ s actor organization_id workspace_id) (\<lambda>_.
     bindR (some_or (get_agreement s agreement_id) AgreementNotFoundError) (\<lambda>a.
     bindR (require (ag_org a = organization_id \<and> ag_ws a = workspace_id) AgreementNotFoundError) (\<lambda>_. Inr a)))"

definition list_agreements ::
  "'z processing_db_scheme \<Rightarrow> uuid \<Rightarrow> uuid \<Rightarrow> uuid \<Rightarrow> nat \<Rightarrow> nat \<Rightarrow> string option \<Rightarrow> string option
   \<Rightarrow> string option \<Rightarrow> bool \<Rightarrow> (agreement_row list \<times> string option) result" where
  "list_agreements s actor organization_id workspace_id limit cursor query agreement_type status include_archived =
     bindR (authorize_agreement AGREEMENTS_READ s actor organization_id workspace_id) (\<lambda>_.
       let all_rows = list_for_scope s organization_id workspace_id query agreement_type status include_archived;
           items = take limit (drop cursor all_rows);
           next_offset = cursor + length items
       in Inr (items, if next_offset < length all_rows then Some (str_nat next_offset) else None))"

definition append_event :: "json \<Rightarrow> json \<Rightarrow> json" where
  "append_event events e = JList (json_items events @ [e])"

definition archive_agreement ::
  "'z processing_db_scheme \<Rightarrow> uuid \<Rightarrow> uuid \<Rightarrow> uuid \<Rightarrow> uuid \<Rightarrow> datetime
   \<Rightarrow> (agreement_row \<times> 'z processing_db_scheme) result" where
  "archive_agreement s actor organization_id workspace_id agreement_id now =
     bindR (authorize_agreement AGREEMENTS_UPDATE s actor organization_id workspace_id) (\<lambda>_.
     bindR (get_visible_agreement s actor organization_id workspace_id agreement_id) (\<lambda>a.
     if ag_archived_at a \<noteq> None then Inr (a, s)
     else
       let a = a\<lparr>ag_archived_at := Some now, ag_updated_at := now,
             ag_audit_events := append_event (ag_audit_events a) (audit_event_json ''archived'' actor now)\<rparr>
       in bindR (replace_agreement a s) (\<lambda>s. Inr (a, s))))"

definition restore_agreement ::
  "'z processing_db_scheme \<Rightarrow> uuid \<Rightarrow> uuid \<Rightarrow> uuid \<Rightarrow> uuid \<Rightarrow> datetime
   \<Rightarrow> (agreement_row \<times> 'z processing_db_scheme) result" where
  "restore_agreement s actor organization_id workspace_id agreement_id now =
     bindR (authorize_agreement AGREEMENTS_UPDATE s actor organization_id workspace_id) (\<lambda>_.
     bindR (get_visible_agreement s actor organization_id workspace_id agreement_id) (\<lambda>a.
     if ag_archived_at a = None then Inr (a, s)
     else
       let a = a\<lparr>ag_archived_at := None, ag_updated_at := now,
             ag_audit_events := append_event (ag_audit_events a) (audit_event_json ''restored'' actor now)\<rparr>
       in bindR (replace_agreement a s) (\<lambda>s. Inr (a, s))))"

section \<open>Deletions\<close>

definition accept_deletion ::
  "'z processing_db_scheme \<Rightarrow> uuid \<Rightarrow> uuid \<Rightarrow> uuid \<Rightarrow> uuid \<Rightarrow> datetime
   \<Rightarrow> (deletion_request_row \<times> 'z processing_db_scheme) result" where
  "accept_deletion s actor organization_id workspace_id agreement_id now =
     bindR (authorize_agreement AGREEMENTS_DELETE s actor organization_id workspace_id) (\<lambda>_.
     case deletion_by_agreement s agreement_id organization_id workspace_id of
       Some r \<Rightarrow> Inr (if dr_state r = DFailed then redrive_deletion now r actor s else (r, s))
     | None \<Rightarrow>
         bindR (get_visible_agreement s actor organization_id workspace_id agreement_id) (\<lambda>a.
         accept_agreement_deletion now a actor s))"

definition deletion_status ::
  "'z processing_db_scheme \<Rightarrow> uuid \<Rightarrow> uuid \<Rightarrow> uuid \<Rightarrow> uuid \<Rightarrow> deletion_request_row result" where
  "deletion_status s actor organization_id workspace_id deletion_id =
     bindR (authorize_agreement AGREEMENTS_DELETE s actor organization_id workspace_id) (\<lambda>_.
     bindR (some_or (find (\<lambda>r. dr_id r = deletion_id) (deletion_requests s)) AgreementNotFoundError) (\<lambda>r.
     bindR (require (dr_org r = organization_id \<and> dr_ws r = workspace_id) AgreementNotFoundError) (\<lambda>_. Inr r)))"

section \<open>Versions\<close>

definition list_agreement_versions ::
  "'z processing_db_scheme \<Rightarrow> uuid \<Rightarrow> uuid \<Rightarrow> uuid \<Rightarrow> uuid
   \<Rightarrow> (agreement_version_row list \<times> uuid option \<times> uuid option) result" where
  "list_agreement_versions s actor organization_id workspace_id agreement_id =
     bindR (get_visible_agreement s actor organization_id workspace_id agreement_id) (\<lambda>a.
     Inr (list_versions s (ag_id a), ag_current_version a, ag_baseline_version a))"

definition get_agreement_version ::
  "'z processing_db_scheme \<Rightarrow> uuid \<Rightarrow> uuid \<Rightarrow> uuid \<Rightarrow> uuid \<Rightarrow> uuid \<Rightarrow> agreement_version_row result" where
  "get_agreement_version s actor organization_id workspace_id agreement_id version_id =
     bindR (get_visible_agreement s actor organization_id workspace_id agreement_id) (\<lambda>_.
     bindR (some_or (get_version s version_id) AgreementNotFoundError) (\<lambda>v.
     bindR (require (vr_agreement v = agreement_id \<and> vr_org v = organization_id \<and> vr_ws v = workspace_id)
       AgreementNotFoundError) (\<lambda>_. Inr v)))"

definition uploaded_version ::
  "agreement_row \<Rightarrow> uuid \<Rightarrow> uuid \<Rightarrow> int \<Rightarrow> agreement_version_row option \<Rightarrow> uploaded_document \<Rightarrow> string
   \<Rightarrow> datetime \<Rightarrow> agreement_version_row" where
  "uploaded_version a i actor n current u key now = \<lparr>vr_id = i, vr_agreement = ag_id a, vr_org = ag_org a,
     vr_ws = ag_ws a, vr_number = n, vr_predecessor = map_option vr_id current,
     vr_file_name = ud_original_filename u, vr_content_type = ud_content_type u,
     vr_storage_key = ud_object_key u, vr_checksum = ud_sha256 u, vr_byte_size = ud_byte_size u,
     vr_uploaded_by = actor, vr_uploaded_at = now, vr_processing_state = ''pending'',
     vr_processing_job = None, vr_extraction_version = None, vr_analysis_provenance = JObj [],
     vr_idempotency_key = key\<rparr>"

definition source_file :: "agreement_version_row \<Rightarrow> agreement_file" where
  "source_file v = \<lparr>fl_file_name = vr_file_name v, fl_content_type = vr_content_type v,
     fl_storage_key = vr_storage_key v, fl_checksum = vr_checksum v, fl_byte_size = vr_byte_size v,
     fl_version_number = vr_number v\<rparr>"

definition create_agreement_version ::
  "'z processing_db_scheme \<Rightarrow> uuid \<Rightarrow> uuid \<Rightarrow> uuid \<Rightarrow> uuid \<Rightarrow> int \<Rightarrow> string \<Rightarrow> uploaded_document
   \<Rightarrow> datetime \<Rightarrow> (agreement_version_row \<times> bool \<times> 'z processing_db_scheme) result" where
  "create_agreement_version s actor organization_id workspace_id agreement_id expected_current key u now =
     bindR (authorize_agreement AGREEMENTS_UPDATE s actor organization_id workspace_id) (\<lambda>_.
     bindR (get_visible_agreement s actor organization_id workspace_id agreement_id) (\<lambda>a.
     case version_by_idempotency_key s (ag_id a) key of
       Some v \<Rightarrow>
         if vr_checksum v \<noteq> ud_sha256 u then Inl VersionIdempotencyConflictError else Inr (v, False, s)
     | None \<Rightarrow>
         (let versions = list_versions s (ag_id a);
              current = (if versions = [] then None else Some (last versions));
              current_number = (case current of None \<Rightarrow> 0 | Some c \<Rightarrow> vr_number c)
          in if expected_current \<noteq> current_number then Inl StaleCurrentVersionError
             else if version_by_checksum s (ag_id a) (ud_sha256 u) \<noteq> None
             then Inl DuplicateAgreementVersionError
             else
               let v = uploaded_version a (uuid4 s) actor (current_number + 1) current u key now; s = draw s;
                   a = a\<lparr>ag_files := JList [file_json (source_file v)], ag_current_version := Some (vr_id v),
                         ag_baseline_version := map_option vr_id current, ag_processing_state := ''pending'',
                         ag_audit_metadata := json_pop ''processing_job_id'' (ag_audit_metadata a),
                         ag_updated_at := now\<rparr>
               in bindR (create_version v actor ''version_created'' now s) (\<lambda>s.
                  bindR (replace_agreement a s) (\<lambda>s. Inr (v, True, s))))))"

end
