(* ===== verification/Processing_Service.thy ===== *)
theory Processing_Service
  imports Agreement_Api
begin

text \<open>
  The submission of processing jobs by the API (\<open>processing/service.py\<close>,
  \<open>processing/repository.py\<close>) and the dispatch of its outbox (\<open>processing/queue.py\<close>). The queue
  publisher is a parameter that accepts or refuses a message. Two submissions are serial, so the
  branch that handles a violated UNIQUE constraint is not taken.
\<close>

section \<open>The repository\<close>

definition live_jobs :: "'z processing_db_scheme \<Rightarrow> job_row list" where
  "live_jobs s = filter (\<lambda>j. agreement_is_active s (jb_agreement j)) (jobs s)"

definition get_job :: "'z processing_db_scheme \<Rightarrow> uuid \<Rightarrow> job_row option" where
  "get_job s job_id = find (\<lambda>j. jb_id j = job_id) (live_jobs s)"

definition job_by_idempotency_key :: "'z processing_db_scheme \<Rightarrow> uuid \<Rightarrow> string \<Rightarrow> job_row option" where
  "job_by_idempotency_key s agreement_id key =
     find (\<lambda>j. jb_agreement j = agreement_id \<and> jb_idempotency_key j = key) (live_jobs s)"

definition create_job :: "job_row \<Rightarrow> 'z processing_db_scheme \<Rightarrow> 'z processing_db_scheme result" where
  "create_job j s =
     bindR (require (active_agreement s (jb_agreement j) (jb_org j) (jb_ws j) \<noteq> None)
       (RuntimeError ''cannot process a deleted agreement'')) (\<lambda>_.
     Inr (s\<lparr>jobs := jobs s @ [j]\<rparr>))"

definition enqueue_outbox ::
  "job_row \<Rightarrow> datetime \<Rightarrow> 'z processing_db_scheme \<Rightarrow> 'z processing_db_scheme" where
  "enqueue_outbox j now s = draw s\<lparr>processing_outbox := processing_outbox s @
     [\<lparr>po_id = uuid4 s, po_job = jb_id j, po_org = jb_org j, po_ws = jb_ws j, po_agreement = jb_agreement j,
       po_idempotency_key = jb_idempotency_key j, po_profile = jb_profile j,
       po_attempt_count = jb_attempt_count j, po_queued_at = jb_queued_at j, po_delivered_at = None,
       po_created_at = now, po_updated_at = now\<rparr>]\<rparr>"

section \<open>The dispatcher\<close>

fun deliver_outbox ::
  "(processing_outbox_row \<Rightarrow> bool) \<Rightarrow> datetime \<Rightarrow> processing_outbox_row list \<Rightarrow> nat
   \<Rightarrow> 'z processing_db_scheme \<Rightarrow> nat \<times> 'z processing_db_scheme" where
  "deliver_outbox publish now [] delivered s = (delivered, s)"
| "deliver_outbox publish now (m # ms) delivered s =
     (if \<not> publish m then (delivered, s)
      else deliver_outbox publish now ms (delivered + 1)
        (s\<lparr>processing_outbox := update_where (\<lambda>x. po_id x = po_id m)
          (\<lambda>x. x\<lparr>po_delivered_at := Some now, po_updated_at := now\<rparr>) (processing_outbox s)\<rparr>))"

definition dispatch_processing ::
  "(processing_outbox_row \<Rightarrow> bool) \<Rightarrow> datetime \<Rightarrow> uuid \<Rightarrow> uuid \<Rightarrow> nat \<Rightarrow> 'z processing_db_scheme
   \<Rightarrow> nat \<times> 'z processing_db_scheme" where
  "dispatch_processing publish now organization_id workspace_id limit s =
     deliver_outbox publish now
       (take limit (sort_key (\<lambda>x. (po_created_at x, po_id x))
         (filter (\<lambda>x. po_org x = organization_id \<and> po_ws x = workspace_id \<and> po_delivered_at x = None)
           (processing_outbox s)))) 0 s"

section \<open>The service\<close>

definition can_retry_failure :: "string option \<Rightarrow> bool" where
  "can_retry_failure category \<longleftrightarrow> category = Some ''transient'' \<or> category = Some ''transient_exhausted''"

definition set_agreement_state ::
  "uuid \<Rightarrow> string \<Rightarrow> datetime \<Rightarrow> uuid option \<Rightarrow> bool \<Rightarrow> 'z processing_db_scheme
   \<Rightarrow> 'z processing_db_scheme result" where
  "set_agreement_state agreement_id state updated_at job_id update_agreement s =
     (if \<not> update_agreement then Inr s
      else
        bindR (some_or (get_agreement s agreement_id) AgreementNotFoundError) (\<lambda>a.
        replace_agreement (a\<lparr>ag_processing_state := state, ag_updated_at := updated_at,
          ag_audit_metadata := (case job_id of None \<Rightarrow> ag_audit_metadata a
            | Some i \<Rightarrow> json_put ''processing_job_id'' (JStr i) (ag_audit_metadata a))\<rparr>) s))"

definition agreement_in_scope ::
  "'z processing_db_scheme \<Rightarrow> uuid \<Rightarrow> uuid \<Rightarrow> uuid \<Rightarrow> agreement_row result" where
  "agreement_in_scope s agreement_id organization_id workspace_id =
     bindR (some_or (get_agreement s agreement_id) AgreementNotFoundError) (\<lambda>a.
     bindR (require (ag_org a = organization_id \<and> ag_ws a = workspace_id) AgreementNotFoundError) (\<lambda>_. Inr a))"

definition job_in_scope ::
  "'z processing_db_scheme \<Rightarrow> uuid \<Rightarrow> uuid \<Rightarrow> uuid \<Rightarrow> uuid \<Rightarrow> job_row result" where
  "job_in_scope s agreement_id job_id organization_id workspace_id =
     bindR (some_or (get_job s job_id) AgreementNotFoundError) (\<lambda>j.
     bindR (require (jb_agreement j = agreement_id \<and> jb_org j = organization_id \<and> jb_ws j = workspace_id)
       AgreementNotFoundError) (\<lambda>_. Inr j))"

text \<open>The replay of a submission under a known key.\<close>

definition same_submission :: "job_row \<Rightarrow> uuid option \<Rightarrow> string \<Rightarrow> bool" where
  "same_submission j version_id profile \<longleftrightarrow>
     jb_profile j = profile \<and> (version_id = None \<or> jb_version j = version_id)"

definition existing_submission ::
  "'z processing_db_scheme \<Rightarrow> uuid \<Rightarrow> uuid \<Rightarrow> uuid \<Rightarrow> uuid \<Rightarrow> uuid option \<Rightarrow> string \<Rightarrow> string
   \<Rightarrow> job_row option result" where
  "existing_submission s actor organization_id workspace_id agreement_id version_id key profile =
     bindR (authorize_agreement AGREEMENTS_UPDATE s actor organization_id workspace_id) (\<lambda>_.
     bindR (agreement_in_scope s agreement_id organization_id workspace_id) (\<lambda>_.
     case job_by_idempotency_key s agreement_id key of
       None \<Rightarrow> Inr None
     | Some j \<Rightarrow>
         bindR (require (same_submission j version_id profile) IdempotencyKeyConflictError) (\<lambda>_. Inr (Some j))))"

text \<open>The source: of the version, or of the first file of an agreement without versions.\<close>

definition first_file_field :: "agreement_row \<Rightarrow> string \<Rightarrow> string option" where
  "first_file_field a field =
     (case json_items (ag_files a) of
        [] \<Rightarrow> None
      | f # _ \<Rightarrow> (case json_get f field of Some (JStr v) \<Rightarrow> Some v | _ \<Rightarrow> None))"

definition submitted_job ::
  "uuid \<Rightarrow> agreement_row \<Rightarrow> agreement_version_row option \<Rightarrow> uuid option \<Rightarrow> string \<Rightarrow> string \<Rightarrow> datetime \<Rightarrow> job_row" where
  "submitted_job i a version version_id key profile now =
     \<lparr>jb_id = i, jb_org = ag_org a, jb_ws = ag_ws a, jb_agreement = ag_id a, jb_version = version_id,
      jb_idempotency_key = key, jb_profile = profile,
      jb_source_storage_key = (case version of Some v \<Rightarrow> Some (vr_storage_key v)
        | None \<Rightarrow> first_file_field a ''storage_key''),
      jb_source_checksum = (case version of Some v \<Rightarrow> Some (vr_checksum v)
        | None \<Rightarrow> first_file_field a ''checksum''),
      jb_source_content_type = (case version of Some v \<Rightarrow> Some (vr_content_type v)
        | None \<Rightarrow> first_file_field a ''content_type''),
      jb_state = JQueued, jb_attempt_count = 0, jb_failure_category = None, jb_failure_message = None,
      jb_next_retry_at = None, jb_claim_token = None, jb_claim_lease_expires_at = None, jb_queued_at = now,
      jb_processing_started_at = None, jb_completed_at = None, jb_failed_at = None, jb_created_at = now,
      jb_updated_at = now\<rparr>"

definition queue_version ::
  "agreement_version_row option \<Rightarrow> uuid \<Rightarrow> 'z processing_db_scheme \<Rightarrow> 'z processing_db_scheme" where
  "queue_version version job_id s =
     (case version of
        None \<Rightarrow> s
      | Some v \<Rightarrow> s\<lparr>agreement_versions := update_where (\<lambda>x. vr_id x = vr_id v)
          (\<lambda>x. x\<lparr>vr_processing_state := ''queued'', vr_processing_job := Some job_id\<rparr>) (agreement_versions s)\<rparr>)"

definition submit_new ::
  "(processing_outbox_row \<Rightarrow> bool) \<Rightarrow> 'z processing_db_scheme \<Rightarrow> agreement_row \<Rightarrow> uuid option
   \<Rightarrow> string \<Rightarrow> string \<Rightarrow> datetime \<Rightarrow> (job_row \<times> bool \<times> 'z processing_db_scheme) result" where
  "submit_new publish s a version_id key profile now =
     (let resolved = (case version_id of Some v \<Rightarrow> Some v | None \<Rightarrow> ag_current_version a);
          version = Option.bind resolved (get_version s)
      in bindR (require (resolved = None \<or>
                   (case version of None \<Rightarrow> False
                    | Some v \<Rightarrow> vr_agreement v = ag_id a \<and> vr_org v = ag_org a \<and> vr_ws v = ag_ws a))
                 AgreementNotFoundError) (\<lambda>_.
           let j = submitted_job (uuid4 s) a version resolved key profile now
           in bindR (create_job j (draw s)) (\<lambda>s.
              bindR (set_agreement_state (ag_id a) ''queued'' now (Some (jb_id j))
                       (resolved = None \<or> resolved = ag_current_version a)
                       (queue_version version (jb_id j) s)) (\<lambda>s.
              Inr (j, True, snd (dispatch_processing publish now (ag_org a) (ag_ws a) 50 (enqueue_outbox j now s)))))))"

definition submit_job ::
  "(processing_outbox_row \<Rightarrow> bool) \<Rightarrow> 'z processing_db_scheme \<Rightarrow> uuid \<Rightarrow> uuid \<Rightarrow> uuid \<Rightarrow> uuid
   \<Rightarrow> uuid option \<Rightarrow> string \<Rightarrow> string \<Rightarrow> datetime \<Rightarrow> (job_row \<times> bool \<times> 'z processing_db_scheme) result" where
  "submit_job publish s actor organization_id workspace_id agreement_id version_id key profile now =
     bindR (authorize_agreement AGREEMENTS_UPDATE s actor organization_id workspace_id) (\<lambda>_.
     bindR (agreement_in_scope s agreement_id organization_id workspace_id) (\<lambda>a.
     case job_by_idempotency_key s agreement_id key of
       Some j \<Rightarrow>
         bindR (require (same_submission j version_id profile) IdempotencyKeyConflictError) (\<lambda>_. Inr (j, False, s))
     | None \<Rightarrow> submit_new publish s a version_id key profile now))"

definition get_submitted_job ::
  "'z processing_db_scheme \<Rightarrow> uuid \<Rightarrow> uuid \<Rightarrow> uuid \<Rightarrow> uuid \<Rightarrow> uuid \<Rightarrow> job_row result" where
  "get_submitted_job s actor organization_id workspace_id agreement_id job_id =
     bindR (authorize_agreement AGREEMENTS_UPDATE s actor organization_id workspace_id) (\<lambda>_.
     job_in_scope s agreement_id job_id organization_id workspace_id)"

definition retried_row :: "datetime \<Rightarrow> job_row \<Rightarrow> job_row" where
  "retried_row now j = j\<lparr>jb_state := JQueued, jb_failure_category := None, jb_failure_message := None,
     jb_next_retry_at := None, jb_claim_token := None, jb_claim_lease_expires_at := None,
     jb_queued_at := now, jb_updated_at := now\<rparr>"

definition retry_job ::
  "(processing_outbox_row \<Rightarrow> bool) \<Rightarrow> 'z processing_db_scheme \<Rightarrow> uuid \<Rightarrow> uuid \<Rightarrow> uuid \<Rightarrow> uuid
   \<Rightarrow> uuid \<Rightarrow> datetime \<Rightarrow> (job_row \<times> 'z processing_db_scheme) result" where
  "retry_job publish s actor organization_id workspace_id agreement_id job_id now =
     bindR (authorize_agreement AGREEMENTS_UPDATE s actor organization_id workspace_id) (\<lambda>_.
     bindR (require (active_agreement s agreement_id organization_id workspace_id \<noteq> None) AgreementNotFoundError) (\<lambda>_.
     bindR (job_in_scope s agreement_id job_id organization_id workspace_id) (\<lambda>j.
     bindR (require (jb_state j = JFailed \<and> can_retry_failure (jb_failure_category j)) RetryNotPermittedError) (\<lambda>_.
     bindR (set_agreement_state agreement_id ''queued'' now None True (update_job job_id (retried_row now) s)) (\<lambda>s.
     Inr (retried_row now j,
       snd (dispatch_processing publish now organization_id workspace_id 50
         (enqueue_outbox (retried_row now j) now s))))))))"

definition requeue_submitted_job ::
  "(processing_outbox_row \<Rightarrow> bool) \<Rightarrow> 'z processing_db_scheme \<Rightarrow> uuid \<Rightarrow> uuid \<Rightarrow> uuid \<Rightarrow> uuid
   \<Rightarrow> uuid \<Rightarrow> datetime \<Rightarrow> (job_row \<times> 'z processing_db_scheme) result" where
  "requeue_submitted_job publish s actor organization_id workspace_id agreement_id job_id now =
     bindR (authorize_agreement AGREEMENTS_UPDATE s actor organization_id workspace_id) (\<lambda>_.
     bindR (job_in_scope s agreement_id job_id organization_id workspace_id) (\<lambda>j.
     bindR (require (jb_state j = JQueued) RetryNotPermittedError) (\<lambda>_.
     Inr (j, snd (dispatch_processing publish now organization_id workspace_id 50 (enqueue_outbox j now s))))))"

end
