(* ===== verification/Deletion_Purge.thy ===== *)
theory Deletion_Purge
  imports Deletion_Repository
begin

text \<open>
  The end of a deletion (\<open>agreement_deletion.py\<close>): the purge of every row derived from the
  agreement, the outbox that announces deletions, and the check that a key belongs to its tenant
  before the object is deleted. The statements of the purge run in the order of the source;
  violated foreign keys would abort the transaction and are not modelled.
\<close>

section \<open>The purge\<close>

definition purge_questions :: "agreement_deletion \<Rightarrow> 'z processing_db_scheme \<Rightarrow> 'z processing_db_scheme" where
  "purge_questions d s =
     (let mine = (\<lambda>t. qt_org t = ad_org d \<and> qt_ws t = ad_ws d \<and>
             (case qt_agreement_ids t of None \<Rightarrow> False | Some xs \<Rightarrow> ad_agreement d \<in> set xs));
          ids = map qt_id (filter mine (question_threads s))
      in s\<lparr>question_turns := filter (\<lambda>u. qu_thread u \<notin> set ids) (question_turns s),
           question_threads := filter (\<lambda>t. \<not> mine t) (question_threads s)\<rparr>)"

definition purge_reviews :: "agreement_deletion \<Rightarrow> 'z processing_db_scheme \<Rightarrow> 'z processing_db_scheme" where
  "purge_reviews d s =
     (let reviews = map rc_id (filter (\<lambda>r. rc_agreement r = ad_agreement d) (review_cases s));
          flows = map wf_id (filter (\<lambda>w. wf_review w \<in> set reviews) (workflows s))
      in s\<lparr>final_packages := filter (\<lambda>p. fp_review p \<notin> set reviews) (final_packages s),
           notifications := filter (\<lambda>n. no_review n \<notin> set reviews) (notifications s),
           workflow_outbox := filter (\<lambda>x. ob_workflow x \<notin> set flows) (workflow_outbox s),
           workflow_decisions := filter (\<lambda>x. wd_workflow x \<notin> set flows) (workflow_decisions s),
           workflow_stages := filter (\<lambda>x. st_workflow x \<notin> set flows) (workflow_stages s),
           workflows := filter (\<lambda>w. wf_review w \<notin> set reviews) (workflows s),
           assignments := filter (\<lambda>x. as_review x \<notin> set reviews) (assignments s),
           comments := filter (\<lambda>x. co_review x \<notin> set reviews) (comments s),
           review_cases := filter (\<lambda>r. rc_agreement r \<noteq> ad_agreement d) (review_cases s)\<rparr>)"

definition purge_index :: "agreement_deletion \<Rightarrow> 'z processing_db_scheme \<Rightarrow> 'z processing_db_scheme" where
  "purge_index d s = s
     \<lparr>comparison_changes := filter (\<lambda>x. ch_agreement x \<noteq> ad_agreement d) (comparison_changes s),
      comparison_runs := filter (\<lambda>x. cr_agreement x \<noteq> ad_agreement d) (comparison_runs s),
      chunk_embeddings := filter (\<lambda>x. ce_agreement x \<noteq> ad_agreement d) (chunk_embeddings s),
      chunks := filter (\<lambda>x. ck_agreement x \<noteq> ad_agreement d) (chunks s),
      index_builds := filter (\<lambda>x. ib_agreement x \<noteq> ad_agreement d) (index_builds s)\<rparr>"

text \<open>
  Findings with a review decision stay, without their evidence, and so do their evaluations.
\<close>

definition purge_evaluations :: "agreement_deletion \<Rightarrow> 'z processing_db_scheme \<Rightarrow> 'z processing_db_scheme" where
  "purge_evaluations d s =
     (let mine = (\<lambda>e. ev_agreement e = ad_agreement d);
          ids = map ev_id (filter mine (evaluations s));
          evs = update_where mine
            (\<lambda>e. e\<lparr>ev_job := None, ev_requested_by := None, ev_analysis_version := ''deleted'',
               ev_extraction_version := ''deleted'', ev_state := ''deleted''\<rparr>) (evaluations s);
          kept = filter (\<lambda>f. \<not> (fi_evaluation f \<in> set ids \<and>
             \<not> exists_row (\<lambda>r. rd_finding r = fi_id f) (review_decisions s))) (findings s);
          fs = update_where (\<lambda>f. fi_evaluation f \<in> set ids)
            (\<lambda>f. f\<lparr>fi_citation_ids := [], fi_risk_payload := JObj [], fi_fallback_suggestions := [],
               fi_extraction_version := ''deleted''\<rparr>) kept
      in s\<lparr>findings := fs,
           evaluations := filter (\<lambda>e. \<not> (mine e \<and> \<not> exists_row (\<lambda>f. fi_evaluation f = ev_id e) fs)) evs\<rparr>)"

definition purge_processing :: "agreement_deletion \<Rightarrow> 'z processing_db_scheme \<Rightarrow> 'z processing_db_scheme" where
  "purge_processing d s = s
     \<lparr>processing_outbox := filter (\<lambda>x. po_agreement x \<noteq> ad_agreement d) (processing_outbox s),
      artifacts := filter (\<lambda>x. af_agreement x \<noteq> ad_agreement d) (artifacts s),
      intents := filter (\<lambda>x. in_agreement x \<noteq> ad_agreement d) (intents s),
      jobs := filter (\<lambda>x. jb_agreement x \<noteq> ad_agreement d) (jobs s),
      agreement_versions := filter (\<lambda>x. vr_agreement x \<noteq> ad_agreement d) (agreement_versions s),
      deletion_objects := filter (\<lambda>x. do_deletion x \<noteq> ad_id d) (deletion_objects s),
      deletion_outbox := filter (\<lambda>x. dx_deletion x \<noteq> ad_id d) (deletion_outbox s)\<rparr>"

definition is_tombstone_of :: "agreement_deletion \<Rightarrow> agreement_row \<Rightarrow> bool" where
  "is_tombstone_of d a \<longleftrightarrow> ag_id a = ad_agreement d \<and> ag_org a = ad_org d \<and> ag_ws a = ad_ws d \<and>
     ag_deletion_requested_at a \<noteq> None"

definition purge_owned_rows ::
  "agreement_deletion \<Rightarrow> datetime \<Rightarrow> 'z processing_db_scheme \<Rightarrow> 'z processing_db_scheme result" where
  "purge_owned_rows d now s =
     (let s = purge_processing d (purge_evaluations d (purge_index d (purge_reviews d (purge_questions d s))));
          n = length (filter (is_tombstone_of d) (agreements s));
          s = s\<lparr>agreements := update_where (is_tombstone_of d)
                (\<lambda>a. a\<lparr>ag_title := ''Deleted agreement'', ag_type := ''deleted'', ag_status := ''deleted'',
                   ag_parties := JList [], ag_files := JList [], ag_processing_state := ''deleted'',
                   ag_audit_metadata := JObj [], ag_audit_events := JList [], ag_current_version := None,
                   ag_baseline_version := None, ag_archived_at := None, ag_updated_at := now\<rparr>) (agreements s)\<rparr>
      in if n \<noteq> 1 then Inl (RuntimeError ''agreement deletion tombstone is missing'') else Inr s)"

definition unresolved_intent :: "agreement_deletion \<Rightarrow> 'z processing_db_scheme \<Rightarrow> bool" where
  "unresolved_intent d s \<longleftrightarrow>
     exists_row (\<lambda>i. in_agreement i = ad_agreement d \<and> in_org i = ad_org d \<and> in_ws i = ad_ws d \<and>
       (in_state i = Expected \<or>
        (let objs = filter (\<lambda>x. do_deletion x = ad_id d \<and> do_category x = in_category i \<and>
               do_key x = in_key i) (deletion_objects s)
         in objs = [] \<or> list_ex (\<lambda>x. do_state x \<noteq> ODeleted \<and> do_state x \<noteq> OPreserved) objs))) (intents s)"

definition completed_request :: "datetime \<Rightarrow> deletion_request_row \<Rightarrow> deletion_request_row" where
  "completed_request now r = r\<lparr>dr_state := DCompleted, dr_title := ''Deleted agreement'',
     dr_agreement_type := ''deleted'', dr_file_checksums := [], dr_claim_token := None,
     dr_lease_expires_at := None, dr_failure_category := None, dr_failure_message := None,
     dr_completed_at := Some now, dr_updated_at := now\<rparr>"

definition complete_and_purge ::
  "datetime \<Rightarrow> agreement_deletion \<Rightarrow> 'z processing_db_scheme \<Rightarrow> 'z processing_db_scheme result" where
  "complete_and_purge now d s =
     bindR (require (exists_row (\<lambda>a. ag_id a = ad_agreement d \<and> ag_org a = ad_org d \<and> ag_ws a = ad_ws d)
              (agreements s)) NoResultFound) (\<lambda>_.
     case locked_claim d s of
       None \<Rightarrow> Inr s
     | Some r \<Rightarrow>
         if exists_row (\<lambda>x. do_deletion x = ad_id d \<and> do_state x = OPending) (deletion_objects s)
         then Inl (RuntimeError ''agreement deletion inventory is not complete'')
         else if unresolved_intent d s
         then Inl (RuntimeError ''processing artifact intent is not reconciled'')
         else
           bindR (purge_owned_rows d now s) (\<lambda>s.
           Inr (insert_terminal_audit r ''completed'' now
             (update_request (own_claim d) (completed_request now) s))))"

section \<open>The outbox\<close>

definition outbox_due :: "uuid \<Rightarrow> datetime \<Rightarrow> 'z processing_db_scheme \<Rightarrow> deletion_outbox_row \<Rightarrow> bool" where
  "outbox_due organization_id now s x \<longleftrightarrow>
     dx_org x = organization_id \<and> dx_delivered_at x = None \<and> dx_next_attempt_at x \<le> now \<and>
     exists_row (\<lambda>r. dr_id r = dx_deletion x \<and> (dr_state r = DAccepted \<or> dr_state r = DRetrying))
       (deletion_requests s) \<and>
     (dx_lease_token x = None \<or> due (dx_lease_expires_at x) now)"

definition update_outbox ::
  "(deletion_outbox_row \<Rightarrow> bool) \<Rightarrow> (deletion_outbox_row \<Rightarrow> deletion_outbox_row)
   \<Rightarrow> 'z processing_db_scheme \<Rightarrow> 'z processing_db_scheme" where
  "update_outbox p f s = s\<lparr>deletion_outbox := update_where p f (deletion_outbox s)\<rparr>"

definition claim_due_outbox ::
  "int \<Rightarrow> datetime \<Rightarrow> uuid \<Rightarrow> 'z processing_db_scheme \<Rightarrow> claimed_outbox option \<times> 'z processing_db_scheme" where
  "claim_due_outbox lease now organization_id s =
     (let token = uuid4 s; s = draw s
      in case sort_key (\<lambda>x. (dx_next_attempt_at x, dx_id x))
                (filter (outbox_due organization_id now s) (deletion_outbox s)) of
           [] \<Rightarrow> (None, s)
         | x # _ \<Rightarrow>
             (Some \<lparr>cb_id = dx_id x, cb_deletion = dx_deletion x, cb_agreement = dx_agreement x,
                cb_org = dx_org x, cb_ws = dx_ws x, cb_lease_token = token,
                cb_attempt_count = dx_attempt_count x + 1\<rparr>,
              update_outbox (\<lambda>y. dx_id y = dx_id x)
                (\<lambda>y. y\<lparr>dx_lease_token := Some token, dx_lease_expires_at := Some (now + seconds lease),
                   dx_attempt_count := dx_attempt_count y + 1, dx_updated_at := now\<rparr>) s))"

definition leased_by :: "claimed_outbox \<Rightarrow> deletion_outbox_row \<Rightarrow> bool" where
  "leased_by m x \<longleftrightarrow> dx_id x = cb_id m \<and> dx_lease_token x = Some (cb_lease_token m) \<and> dx_delivered_at x = None"

definition mark_outbox_delivered ::
  "datetime \<Rightarrow> claimed_outbox \<Rightarrow> 'z processing_db_scheme \<Rightarrow> 'z processing_db_scheme" where
  "mark_outbox_delivered now m s =
     update_outbox (leased_by m)
       (\<lambda>x. x\<lparr>dx_delivered_at := Some now, dx_lease_token := None, dx_lease_expires_at := None,
          dx_last_error := None, dx_updated_at := now\<rparr>) s"

definition release_outbox ::
  "datetime \<Rightarrow> claimed_outbox \<Rightarrow> datetime \<Rightarrow> 'z processing_db_scheme \<Rightarrow> 'z processing_db_scheme" where
  "release_outbox now m next_attempt_at s =
     update_outbox (leased_by m)
       (\<lambda>x. x\<lparr>dx_lease_token := None, dx_lease_expires_at := None, dx_next_attempt_at := next_attempt_at,
          dx_last_error := Some ''Agreement deletion outbox delivery failed'', dx_updated_at := now\<rparr>) s"

section \<open>Keys\<close>

text \<open>\<open>key.split("/")\<close>.\<close>

fun split_slash :: "string \<Rightarrow> string list" where
  "split_slash [] = [[]]"
| "split_slash (c # s) =
     (if c = CHR ''/'' then [] # split_slash s
      else case split_slash s of [] \<Rightarrow> [[c]] | p # ps \<Rightarrow> (c # p) # ps)"

definition is_sha256 :: "string \<Rightarrow> bool" where
  "is_sha256 v \<longleftrightarrow> length v = 64 \<and> (\<forall>c \<in> set v. c \<in> set ''0123456789abcdef'')"

definition is_uuid :: "string \<Rightarrow> bool" where
  "is_uuid v \<longleftrightarrow> parse_uuid v \<noteq> None"

definition owned_key :: "agreement_deletion \<Rightarrow> deletion_item \<Rightarrow> bool" where
  "owned_key d item =
     (let parts = split_slash (di_key item)
      in if di_category item = ''source'' then
           length parts = 7 \<and>
           take 5 parts = [''tenants'', ad_org d, ''workspaces'', ad_ws d, ''documents''] \<and>
           is_sha256 (parts ! 5) \<and> parts ! 6 \<in> {''original.pdf'', ''original.docx''}
         else if di_category item = ''analysis'' then
           length parts = 9 \<and>
           take 7 parts = [''tenants'', ad_org d, ''workspaces'', ad_ws d, ''agreements'', ad_agreement d,
             ''analysis''] \<and>
           is_sha256 (parts ! 7) \<and> parts ! 8 = ''document-analysis.v1.json''
         else if di_category item = ''comparison'' then
           length parts = 3 \<and> parts ! 0 = ''comparisons'' \<and> is_uuid (parts ! 1) \<and>
           parts ! 2 = ''version-comparison.v1.json''
         else if di_category item = ''review_manifest'' \<or> di_category item = ''review_pdf'' then
           length parts = 6 \<and> take 3 parts = [''reviews'', ad_org d, ad_ws d] \<and> is_uuid (parts ! 3) \<and>
           drop 4 parts = [''final-package'',
             if di_category item = ''review_manifest'' then ''manifest.json'' else ''report.pdf'']
         else False)"

definition validate_owned_key :: "agreement_deletion \<Rightarrow> deletion_item \<Rightarrow> unit result" where
  "validate_owned_key d item =
     require (owned_key d item) (ObjectCleanupError ''deletion object key does not match its owned category'')"

end
