(* ===== verification/Job_Processor.thy ===== *)
theory Job_Processor
  imports Processing_Repository Regex
begin

text \<open>
  The job processor of the worker (\<open>processing.py\<close>: \<open>JobProcessor\<close>, \<open>RetryPolicy\<close>, the queue messages):
  one delivery of a message claims the job, runs the agreement processor, commits what it prepared or
  gives the job back, and announces completions. The agreement processor and the completion handlers
  are parameters. Every transaction of a delivery has its own time, taken from \<open>clock\<close>.
\<close>

section \<open>Retry policy\<close>

record retry_policy =
  rp_max_attempts :: int
  rp_base_delay :: int
  rp_max_delay :: int

definition default_retry_policy :: retry_policy where
  "default_retry_policy = \<lparr>rp_max_attempts = 3, rp_base_delay = 2, rp_max_delay = 60\<rparr>"

definition delay_seconds :: "retry_policy \<Rightarrow> int \<Rightarrow> int result" where
  "delay_seconds p attempt_count =
     (if attempt_count < 1 then Inl (ValueError ''attempt_count must be positive'')
      else Inr (min (rp_base_delay p * 2 ^ nat (attempt_count - 1)) (rp_max_delay p)))"

definition may_retry :: "retry_policy \<Rightarrow> int \<Rightarrow> bool" where
  "may_retry p attempt_count \<longleftrightarrow> attempt_count < rp_max_attempts p"

section \<open>Failure messages\<close>

definition SENSITIVE_MESSAGE_PATTERN :: rx where
  "SENSITIVE_MESSAGE_PATTERN = bounded (alts (map lit_ci
     [''agreement'', ''bearer'', ''credential'', ''password'', ''secret'', ''token'']))"

definition safe_summary :: "string \<Rightarrow> string" where
  "safe_summary msg =
     (let normalized = join_with '' '' (runs (\<lambda>c. \<not> is_space c) msg)
      in if rx_search SENSITIVE_MESSAGE_PATTERN normalized then ''Processing dependency failure''
         else take 500 (if normalized = [] then ''Processing failed'' else normalized))"

section \<open>The queue\<close>

record queue_message =
  qm_job :: uuid
  qm_org :: uuid
  qm_ws :: uuid
  qm_delay :: int

text \<open>\<open>queue_url.rsplit("/", 1)[-1].endswith(".fifo")\<close>.\<close>

definition is_fifo_queue :: "string \<Rightarrow> bool" where
  "is_fifo_queue url \<longleftrightarrow> endswith ''.fifo'' (rev (takeWhile (\<lambda>c. c \<noteq> CHR ''/'') (rev url)))"

text \<open>
  The request of \<open>SQSProcessingQueue.enqueue\<close> and of \<open>enqueue_deletion\<close>: the body's fields and the
  parameters of \<open>send_message\<close> (without the trace attributes).
\<close>

record sqs_request =
  sq_body :: "(string \<times> string) list"
  sq_delay :: "int option"
  sq_group :: "string option"
  sq_deduplication :: "string option"

definition enqueue_request :: "string \<Rightarrow> datetime \<Rightarrow> queue_message \<Rightarrow> sqs_request" where
  "enqueue_request url now m =
     (let fifo = is_fifo_queue url
      in \<lparr>sq_body = [(''job_id'', qm_job m), (''organization_id'', qm_org m), (''workspace_id'', qm_ws m)],
          sq_delay = Some (qm_delay m),
          sq_group = (if fifo then Some (qm_job m) else None),
          sq_deduplication = (if fifo then Some (qm_job m @ '':retry:'' @ str_int (qm_delay m) @ '':'' @ isoformat now)
            else None)\<rparr>)"

definition enqueue_deletion_request ::
  "string \<Rightarrow> datetime \<Rightarrow> uuid \<Rightarrow> uuid \<Rightarrow> uuid \<Rightarrow> uuid \<Rightarrow> int \<Rightarrow> sqs_request" where
  "enqueue_deletion_request url now deletion_id agreement_id organization_id workspace_id delay =
     (let fifo = is_fifo_queue url
      in \<lparr>sq_body = [(''agreement_id'', agreement_id), (''deletion_id'', deletion_id),
            (''message_type'', ''agreement_deletion''), (''organization_id'', organization_id),
            (''workspace_id'', workspace_id)],
          sq_delay = (if fifo then None else Some delay),
          sq_group = (if fifo then Some agreement_id else None),
          sq_deduplication = (if fifo
            then Some (deletion_id @ '':retry:'' @ str_int delay @ '':'' @ isoformat now) else None)\<rparr>)"

section \<open>A delivery\<close>

text \<open>
  What a delivery changes: the database, the object store, the messages it sent back to the queue,
  and the completions it announced.
\<close>

record 'z job_world =
  jw_db :: "'z processing_db_scheme"
  jw_store :: object_store
  jw_queue :: "queue_message list"
  jw_completed :: "(processing_job \<times> completed_artifact) list"

text \<open>
  An agreement processor: \<open>prepare\<close> and \<open>finalize\<close> for fenced commits, \<open>process\<close> and \<open>discard\<close> for
  processors without \<open>prepare\<close>; both of these may write to the object store.
\<close>

record 'z agreement_processor =
  pr_expected :: "processing_job \<Rightarrow> completed_artifact result"
  pr_prepare :: "(processing_job \<Rightarrow> prepared_artifact result) option"
  pr_finalize :: "'z finalizer"
  pr_process :: "processing_job \<Rightarrow> object_store \<Rightarrow> completed_artifact result \<times> object_store"
  pr_discard :: "completed_artifact \<Rightarrow> object_store \<Rightarrow> object_store"

definition fail_delivery ::
  "datetime \<Rightarrow> processing_job \<Rightarrow> string \<Rightarrow> string \<Rightarrow> completed_artifact option \<Rightarrow> 'z job_world
   \<Rightarrow> unit result \<times> 'z job_world" where
  "fail_delivery now job category msg expected w =
     (case bindR (required_tenant_scope (pj_org job) ''organization_id'') (\<lambda>og.
           bindR (required_tenant_scope (pj_ws job) ''workspace_id'') (\<lambda>ws.
           fail_job now (pj_id job) category msg (Some og) (Some ws) (Some job) expected (jw_db w))) of
        Inl e \<Rightarrow> (Inl e, w)
      | Inr s \<Rightarrow> (Inr (), w\<lparr>jw_db := s\<rparr>))"

definition requeue_delivery ::
  "(nat \<Rightarrow> datetime) \<Rightarrow> int \<Rightarrow> processing_job \<Rightarrow> string \<Rightarrow> completed_artifact option \<Rightarrow> 'z job_world
   \<Rightarrow> unit result \<times> 'z job_world" where
  "requeue_delivery clock delay job msg expected w =
     (case bindR (required_tenant_scope (pj_org job) ''organization_id'') (\<lambda>og.
           bindR (required_tenant_scope (pj_ws job) ''workspace_id'') (\<lambda>ws.
           bindR (requeue_job (clock 4) (pj_id job) ''transient'' msg (clock 3 + seconds delay) (Some og) (Some ws)
                    (Some job) expected (jw_db w)) (\<lambda>(ok, s).
           Inr (og, ws, ok, s)))) of
        Inl e \<Rightarrow> (Inl e, w)
      | Inr (og, ws, ok, s) \<Rightarrow>
          (Inr (), if ok
             then w\<lparr>jw_db := s, jw_queue := jw_queue w @
                    [\<lparr>qm_job = pj_id job, qm_org = og, qm_ws = ws, qm_delay = delay\<rparr>]\<rparr>
             else w\<lparr>jw_db := s\<rparr>))"

definition handle_transient_failure ::
  "retry_policy \<Rightarrow> (nat \<Rightarrow> datetime) \<Rightarrow> processing_job \<Rightarrow> string \<Rightarrow> completed_artifact option
   \<Rightarrow> 'z job_world \<Rightarrow> unit result \<times> 'z job_world" where
  "handle_transient_failure policy clock job msg expected w =
     (let safe_message = safe_summary msg
      in if \<not> may_retry policy (pj_attempt_count job)
         then fail_delivery (clock 4) job ''transient_exhausted'' safe_message expected w
         else
           case delay_seconds policy (pj_attempt_count job) of
             Inl e \<Rightarrow> (Inl e, w)
           | Inr delay \<Rightarrow> requeue_delivery clock delay job safe_message expected w)"

text \<open>
  The body of the \<open>try\<close>: \<open>Inr (Some (artifact, committed))\<close> is the artifact that was committed or
  processed, \<open>Inr None\<close> an early return. The expected artifact is \<open>None\<close> as long as it was not
  computed.
\<close>

definition attempt_prepared ::
  "(nat \<Rightarrow> datetime) \<Rightarrow> 'z agreement_processor \<Rightarrow> (processing_job \<Rightarrow> prepared_artifact result)
   \<Rightarrow> processing_job \<Rightarrow> completed_artifact \<Rightarrow> 'z job_world
   \<Rightarrow> (completed_artifact \<times> bool) option result \<times> 'z job_world" where
  "attempt_prepared clock pr prepare job expected w =
     (case prepare job of
        Inl e \<Rightarrow> (Inl e, w)
      | Inr p \<Rightarrow>
          if pa_artifact p \<noteq> expected
          then (Inl (RuntimeError ''processor prepared an artifact outside its durable intent''), w)
          else
            case commit_prepared (clock 2) (pr_finalize pr) job p (jw_db w) (jw_store w) of
              (Inl e, store) \<Rightarrow> (Inl e, w\<lparr>jw_store := store\<rparr>)
            | (Inr (ok, s), store) \<Rightarrow>
                (Inr (if ok then Some (pa_artifact p, True) else None), w\<lparr>jw_db := s, jw_store := store\<rparr>))"

definition attempt ::
  "(nat \<Rightarrow> datetime) \<Rightarrow> 'z agreement_processor \<Rightarrow> processing_job \<Rightarrow> 'z job_world
   \<Rightarrow> completed_artifact option \<times> (completed_artifact \<times> bool) option result \<times> 'z job_world" where
  "attempt clock pr job w =
     (case pr_expected pr job of
        Inl e \<Rightarrow> (None, Inl e, w)
      | Inr expected \<Rightarrow>
          (case expect_artifact (clock 1) job expected (jw_db w) of
             Inl e \<Rightarrow> (Some expected, Inl e, w)
           | Inr (False, s) \<Rightarrow> (Some expected, Inr None, w\<lparr>jw_db := s\<rparr>)
           | Inr (True, s) \<Rightarrow>
               (case pr_prepare pr of
                  Some prepare \<Rightarrow> (Some expected, attempt_prepared clock pr prepare job expected (w\<lparr>jw_db := s\<rparr>))
                | None \<Rightarrow>
                    (case pr_process pr job (jw_store w) of
                       (r, store) \<Rightarrow>
                         (Some expected, map_sum id (\<lambda>a. Some (a, False)) r, w\<lparr>jw_db := s, jw_store := store\<rparr>)))))"

text \<open>The \<open>else\<close> of the \<open>try\<close>: completing what was processed without a fence, and announcing it.\<close>

definition announce :: "bool \<Rightarrow> processing_job \<Rightarrow> completed_artifact \<Rightarrow> 'z job_world \<Rightarrow> 'z job_world" where
  "announce handler job artifact w =
     (if handler then w\<lparr>jw_completed := jw_completed w @ [(job, artifact)]\<rparr> else w)"

definition finish_delivery ::
  "datetime \<Rightarrow> bool \<Rightarrow> 'z agreement_processor \<Rightarrow> processing_job \<Rightarrow> completed_artifact option
   \<Rightarrow> completed_artifact \<times> bool \<Rightarrow> 'z job_world \<Rightarrow> unit result \<times> 'z job_world" where
  "finish_delivery now handler pr job expected outcome w =
     (case outcome of (artifact, committed) \<Rightarrow>
        if Some artifact \<noteq> expected
        then (Inl (RuntimeError ''processor returned an artifact outside its durable intent''), w)
        else if committed then (Inr (), announce handler job artifact w)
        else
          case bindR (required_tenant_scope (pj_org job) ''organization_id'') (\<lambda>og.
               bindR (required_tenant_scope (pj_ws job) ''workspace_id'') (\<lambda>ws. Inr (og, ws))) of
            Inl e \<Rightarrow> (Inl e, w)
          | Inr (og, ws) \<Rightarrow>
              (case complete_job now (pj_id job) artifact (Some og) (Some ws) (Some job) (jw_db w) of
                 (Inl e, s) \<Rightarrow> (Inl e, w\<lparr>jw_db := s\<rparr>)
               | (Inr True, s) \<Rightarrow> (Inr (), announce handler job artifact (w\<lparr>jw_db := s\<rparr>))
               | (Inr False, s) \<Rightarrow>
                   (Inr (), w\<lparr>jw_db := s, jw_store := pr_discard pr artifact (jw_store w)\<rparr>)))"

definition recover_completed_evaluation ::
  "bool \<Rightarrow> uuid \<Rightarrow> uuid option \<Rightarrow> uuid option \<Rightarrow> 'z job_world \<Rightarrow> unit result \<times> 'z job_world" where
  "recover_completed_evaluation handler job_id organization_id workspace_id w =
     (if \<not> handler then (Inr (), w)
      else
        case completed_artifact_of job_id organization_id workspace_id (jw_db w) of
          Inl e \<Rightarrow> (Inl e, w)
        | Inr None \<Rightarrow> (Inr (), w)
        | Inr (Some (job, artifact)) \<Rightarrow> (Inr (), announce handler job artifact w))"

definition handle_claimed ::
  "retry_policy \<Rightarrow> (nat \<Rightarrow> datetime) \<Rightarrow> bool \<Rightarrow> 'z agreement_processor \<Rightarrow> processing_job \<Rightarrow> 'z job_world
   \<Rightarrow> unit result \<times> 'z job_world" where
  "handle_claimed policy clock handler pr job w =
     (case attempt clock pr job w of
        (expected, Inl (ProcessingLeaseHeldError m), w) \<Rightarrow> (Inl (ProcessingLeaseHeldError m), w)
      | (expected, Inl (TransientProcessingError m), w) \<Rightarrow> handle_transient_failure policy clock job m expected w
      | (expected, Inl (PermanentProcessingError m category), w) \<Rightarrow>
          fail_delivery (clock 4) job category (safe_summary m) expected w
      | (expected, Inl _, w) \<Rightarrow>
          handle_transient_failure policy clock job ''Unexpected processing dependency failure'' expected w
      | (expected, Inr None, w) \<Rightarrow> (Inr (), w)
      | (expected, Inr (Some outcome), w) \<Rightarrow> finish_delivery (clock 4) handler pr job expected outcome w)"

text \<open>\<open>claim(job_id)\<close> without a scope when one of the two parts is missing.\<close>

definition message_scope :: "uuid option \<Rightarrow> uuid option \<Rightarrow> uuid option \<times> uuid option" where
  "message_scope organization_id workspace_id =
     (if organization_id = None \<or> workspace_id = None then (None, None) else (organization_id, workspace_id))"

definition handle_job ::
  "retry_policy \<Rightarrow> (nat \<Rightarrow> datetime) \<Rightarrow> bool \<Rightarrow> 'z agreement_processor \<Rightarrow> uuid \<Rightarrow> uuid option \<Rightarrow> uuid option
   \<Rightarrow> 'z job_world \<Rightarrow> unit result \<times> 'z job_world" where
  "handle_job policy clock handler pr job_id organization_id workspace_id w =
     (case message_scope organization_id workspace_id of (og, ws) \<Rightarrow>
        (case claim_job (clock 0) job_id og ws (jw_db w) of
           Inl e \<Rightarrow> (Inl e, w)
         | Inr (None, s) \<Rightarrow> recover_completed_evaluation handler job_id og ws (w\<lparr>jw_db := s\<rparr>)
         | Inr (Some job, s) \<Rightarrow> handle_claimed policy clock handler pr job (w\<lparr>jw_db := s\<rparr>)))"

end
