(* ===== verification/Deletion_Processor.thy ===== *)
theory Deletion_Processor
  imports Deletion_Purge Job_Processor
begin

text \<open>
  The deletion processor and the outbox sweeper of the worker (\<open>agreement_deletion.py\<close>:
  \<open>AgreementDeletionProcessor\<close>, \<open>AgreementDeletionOutboxSweeper\<close>). Which deletions the object store
  accepts, and which announcements the queue accepts, are parameters. Every transaction has its own
  time, taken from \<open>clock\<close>.
\<close>

section \<open>Retry policy\<close>

definition default_deletion_policy :: retry_policy where
  "default_deletion_policy = \<lparr>rp_max_attempts = 5, rp_base_delay = 2, rp_max_delay = 300\<rparr>"

definition deletion_delay :: "retry_policy \<Rightarrow> int \<Rightarrow> int" where
  "deletion_delay p attempt_count =
     min (rp_base_delay p * 2 ^ nat (max (attempt_count - 1) 0)) (rp_max_delay p)"

section \<open>The processor\<close>

definition delete_object ::
  "(string \<Rightarrow> bool) \<Rightarrow> string \<Rightarrow> object_store \<Rightarrow> unit result \<times> object_store" where
  "delete_object accepts key store =
     (if accepts key then (Inr (), store(key := None))
      else (Inl (ObjectCleanupError ''object storage deletion failed''), store))"

definition delete_item ::
  "int \<Rightarrow> datetime \<Rightarrow> (string \<Rightarrow> bool) \<Rightarrow> agreement_deletion \<Rightarrow> deletion_item
   \<Rightarrow> 'z processing_db_scheme \<Rightarrow> object_store \<Rightarrow> 'z processing_db_scheme result \<times> object_store" where
  "delete_item lease now accepts d item s store =
     (case validate_owned_key d item of
        Inl e \<Rightarrow> (Inl e, store)
      | Inr _ \<Rightarrow>
          if di_category item = ''source''
          then delete_source_if_unreferenced lease now (delete_object accepts) d item s store
          else
            case delete_object accepts (di_key item) store of
              (Inl e, store) \<Rightarrow> (Inl e, store)
            | (Inr _, store) \<Rightarrow> (mark_deleted lease now d item s, store))"

definition give_up_object ::
  "retry_policy \<Rightarrow> datetime \<Rightarrow> agreement_deletion \<Rightarrow> deletion_item \<Rightarrow> 'z processing_db_scheme
   \<Rightarrow> 'z processing_db_scheme" where
  "give_up_object policy now d item s =
     (let msg = ''Agreement object cleanup failed''
      in if \<not> may_retry policy (ad_attempt_count d) then fail_deletion now d (di_id item) msg s
         else retry_deletion now d (di_id item) msg
                (now + seconds (deletion_delay policy (ad_attempt_count d))) s)"

text \<open>
  The loop over the inventory: \<open>Inr True\<close> when every object is done, \<open>Inr False\<close> when the attempt
  was given back, \<open>Inl\<close> an exception that leaves the delivery open. What was committed before stays.
\<close>

fun delete_items ::
  "int \<Rightarrow> retry_policy \<Rightarrow> (nat \<Rightarrow> datetime) \<Rightarrow> nat \<Rightarrow> (string \<Rightarrow> bool) \<Rightarrow> agreement_deletion
   \<Rightarrow> deletion_item list \<Rightarrow> 'z processing_db_scheme \<Rightarrow> object_store
   \<Rightarrow> bool result \<times> 'z processing_db_scheme \<times> object_store" where
  "delete_items lease policy clock k accepts d [] s store = (Inr True, s, store)"
| "delete_items lease policy clock k accepts d (item # items) s store =
     (case delete_item lease (clock k) accepts d item s store of
        (Inr s, store) \<Rightarrow> delete_items lease policy clock (Suc k) accepts d items s store
      | (Inl (ObjectCleanupError m), store) \<Rightarrow>
          (Inr False, give_up_object policy (clock (Suc k)) d item s, store)
      | (Inl e, store) \<Rightarrow> (Inl e, s, store))"

definition finish_deletion ::
  "retry_policy \<Rightarrow> datetime \<Rightarrow> agreement_deletion \<Rightarrow> 'z processing_db_scheme \<Rightarrow> 'z processing_db_scheme" where
  "finish_deletion policy now d s =
     (case complete_and_purge now d s of
        Inr s \<Rightarrow> s
      | Inl _ \<Rightarrow>
          (let msg = ''Agreement database cleanup failed''
           in if \<not> may_retry policy (ad_attempt_count d) then fail_database_cleanup now d msg s
              else retry_database_cleanup now d msg
                     (now + seconds (deletion_delay policy (ad_attempt_count d))) s))"

definition handle_deletion ::
  "int \<Rightarrow> retry_policy \<Rightarrow> (nat \<Rightarrow> datetime) \<Rightarrow> (string \<Rightarrow> bool) \<Rightarrow> uuid \<Rightarrow> uuid \<Rightarrow> uuid
   \<Rightarrow> 'z processing_db_scheme \<Rightarrow> object_store \<Rightarrow> unit result \<times> 'z processing_db_scheme \<times> object_store" where
  "handle_deletion lease policy clock accepts deletion_id organization_id workspace_id s store =
     (case claim_deletion lease (clock 0) deletion_id organization_id workspace_id s of
        (None, s) \<Rightarrow> (Inr (), s, store)
      | (Some d, s) \<Rightarrow>
          (let items = pending_objects d s
           in case delete_items lease policy clock 1 accepts d items s store of
                (Inl e, s, store) \<Rightarrow> (Inl e, s, store)
              | (Inr False, s, store) \<Rightarrow> (Inr (), s, store)
              | (Inr True, s, store) \<Rightarrow>
                  (Inr (), finish_deletion policy (clock (2 + length items)) d s, store)))"

section \<open>The sweeper\<close>

definition undelivered :: "'z processing_db_scheme \<Rightarrow> nat" where
  "undelivered s = length (filter (\<lambda>x. dx_delivered_at x = None) (deletion_outbox s))"

definition release_failed ::
  "retry_policy \<Rightarrow> datetime \<Rightarrow> claimed_outbox \<Rightarrow> 'z processing_db_scheme \<Rightarrow> 'z processing_db_scheme" where
  "release_failed policy now m s =
     release_outbox now m (now + seconds (deletion_delay policy (cb_attempt_count m))) s"

lemma undelivered_update_same:
  assumes "\<And>x. dx_delivered_at (f x) = dx_delivered_at x"
  shows "undelivered (update_outbox p f s) = undelivered s"
proof -
  have "length (filter (\<lambda>x. dx_delivered_at x = None) (update_where p f xs)) =
      length (filter (\<lambda>x. dx_delivered_at x = None) xs)" for xs
    using assms by (induction xs) auto
  then show ?thesis by (simp add: undelivered_def update_outbox_def)
qed

lemma undelivered_draw [simp]: "undelivered (draw s) = undelivered s"
  by (simp add: undelivered_def)

lemma undelivered_mark:
  assumes "\<exists>x \<in> set (deletion_outbox s). leased_by m x"
  shows "undelivered (mark_outbox_delivered now m s) < undelivered s"
proof -
  let ?f = "\<lambda>x. x\<lparr>dx_delivered_at := Some now, dx_lease_token := None, dx_lease_expires_at := None,
    dx_last_error := None, dx_updated_at := now\<rparr>"
  have le: "length (filter (\<lambda>x. dx_delivered_at x = None) (update_where (leased_by m) ?f xs)) \<le>
      length (filter (\<lambda>x. dx_delivered_at x = None) xs)" for xs
    by (induction xs) auto
  have "length (filter (\<lambda>x. dx_delivered_at x = None) (update_where (leased_by m) ?f xs)) <
      length (filter (\<lambda>x. dx_delivered_at x = None) xs)" if "\<exists>x \<in> set xs. leased_by m x" for xs
    using that
  proof (induction xs)
    case (Cons x xs)
    show ?case
    proof (cases "leased_by m x")
      case True
      then have "dx_delivered_at x = None" by (simp add: leased_by_def)
      then show ?thesis using True le [of xs] by simp
    qed (use Cons in simp)
  qed simp
  then show ?thesis using assms by (simp add: undelivered_def mark_outbox_delivered_def update_outbox_def)
qed

text \<open>What a claim of the outbox leaves: the claimed row is leased by the claim and undelivered.\<close>

lemma claim_due_outboxD:
  assumes "claim_due_outbox lease now organization_id s = (Some m, s')"
  shows "\<exists>x \<in> set (deletion_outbox s'). leased_by m x" "undelivered s' = undelivered s"
proof -
  from assms obtain x xs where srt: "sort_key (\<lambda>x. (dx_next_attempt_at x, dx_id x))
      (filter (outbox_due organization_id now (draw s)) (deletion_outbox s)) = x # xs"
    by (auto simp: claim_due_outbox_def Let_def split: list.splits)
  have "x \<in> set (filter (outbox_due organization_id now (draw s)) (deletion_outbox s))"
    using srt by (metis list.set_intros(1) set_sort)
  then have x: "x \<in> set (deletion_outbox s)" "dx_delivered_at x = None" by (auto simp: outbox_due_def)
  let ?f = "\<lambda>y. y\<lparr>dx_lease_token := Some (uuid4 s), dx_lease_expires_at := Some (now + seconds lease),
    dx_attempt_count := dx_attempt_count y + 1, dx_updated_at := now\<rparr>"
  have s': "s' = update_outbox (\<lambda>y. dx_id y = dx_id x) ?f (draw s)" and
    m: "cb_id m = dx_id x" "cb_lease_token m = uuid4 s"
    using assms srt by (auto simp: claim_due_outbox_def Let_def)
  have "?f x \<in> set (deletion_outbox s')" using x(1) by (force simp: s' update_outbox_def in_update_where)
  moreover have "leased_by m (?f x)" using x(2) by (simp add: leased_by_def m)
  ultimately show "\<exists>x \<in> set (deletion_outbox s'). leased_by m x" by blast
  show "undelivered s' = undelivered s" unfolding s' by (subst undelivered_update_same) simp_all
qed

text \<open>
  \<open>while claim_due_outbox() is not None\<close>: every announcement that is accepted marks an undelivered
  row, so the loop ends.
\<close>

function sweep_organization ::
  "int \<Rightarrow> retry_policy \<Rightarrow> (nat \<Rightarrow> datetime) \<Rightarrow> (claimed_outbox \<Rightarrow> bool) \<Rightarrow> uuid \<Rightarrow> nat \<Rightarrow> nat
   \<Rightarrow> 'z processing_db_scheme \<Rightarrow> nat \<times> nat \<times> 'z processing_db_scheme" where
  "sweep_organization lease policy clock publish organization_id k delivered s =
     (case claim_due_outbox lease (clock k) organization_id s of
        (None, s) \<Rightarrow> (delivered, Suc k, s)
      | (Some m, s) \<Rightarrow>
          if publish m
          then sweep_organization lease policy clock publish organization_id (Suc (Suc k)) (Suc delivered)
                 (mark_outbox_delivered (clock (Suc k)) m s)
          else (delivered, Suc (Suc k), release_failed policy (clock (Suc k)) m s))"
  by pat_completeness auto
termination
proof (relation "measure (\<lambda>(lease, policy, clock, publish, organization_id, k, delivered, s). undelivered s)",
    goal_cases)
  case (2 lease policy clock publish organization_id k delivered s x s' m)
  have "claim_due_outbox lease (clock k) organization_id s = (Some m, s')" using 2 by simp
  from claim_due_outboxD [OF this] have "undelivered (mark_outbox_delivered (clock (Suc k)) m s') < undelivered s"
    using undelivered_mark by fastforce
  then show ?case by simp
qed simp

declare sweep_organization.simps [simp del]

fun sweep_organizations ::
  "int \<Rightarrow> retry_policy \<Rightarrow> (nat \<Rightarrow> datetime) \<Rightarrow> (claimed_outbox \<Rightarrow> bool) \<Rightarrow> uuid list \<Rightarrow> nat \<Rightarrow> nat
   \<Rightarrow> 'z processing_db_scheme \<Rightarrow> nat \<times> nat \<times> 'z processing_db_scheme" where
  "sweep_organizations lease policy clock publish [] k delivered s = (delivered, k, s)"
| "sweep_organizations lease policy clock publish (g # gs) k delivered s =
     (case sweep_organization lease policy clock publish g (Suc k) delivered
             (snd (recover_stale_deletions (clock k) g s)) of
        (delivered, k, s) \<Rightarrow> sweep_organizations lease policy clock publish gs k delivered s)"

definition organization_ids :: "'z processing_db_scheme \<Rightarrow> uuid list" where
  "organization_ids s = sort (map og_id (organizations s))"

definition sweep_once ::
  "int \<Rightarrow> retry_policy \<Rightarrow> (nat \<Rightarrow> datetime) \<Rightarrow> (claimed_outbox \<Rightarrow> bool) \<Rightarrow> 'z processing_db_scheme
   \<Rightarrow> nat \<times> 'z processing_db_scheme" where
  "sweep_once lease policy clock publish s =
     (case sweep_organizations lease policy clock publish (organization_ids s) 0 0 s of
        (delivered, _, s) \<Rightarrow> (delivered, s))"

end
