(* ===== verification/Deletion_Core.thy ===== *)
theory Deletion_Core
  imports Processing_Service Deletion_Processor
begin

text \<open>
  What the safety of deletion depends on: a view of the database as sets of facts (\<open>core\<close>), and how
  each operation of the repositories changes it. Most operations leave the view alone.
\<close>

section \<open>The view\<close>

record agr_fact =
  gf_id :: uuid
  gf_dead :: bool

record job_fact =
  jf_id :: uuid
  jf_agreement :: uuid
  jf_org :: uuid
  jf_ws :: uuid
  jf_profile :: string

record art_fact =
  rf_job :: uuid
  rf_agreement :: uuid
  rf_key :: string

record int_fact =
  if_job :: job_fact
  if_category :: string
  if_key :: string

record req_fact =
  qf_id :: uuid
  qf_agreement :: uuid
  qf_done :: bool

record obj_fact =
  xf_id :: uuid
  xf_deletion :: uuid
  xf_category :: string
  xf_key :: string
  xf_pending :: bool

record core =
  c_agrs :: "agr_fact set"
  c_jobs :: "job_fact set"
  c_arts :: "art_fact set"
  c_ints :: "int_fact set"
  c_reqs :: "req_fact set"
  c_objs :: "obj_fact set"

definition agr_fact :: "agreement_row \<Rightarrow> agr_fact" where
  "agr_fact a = \<lparr>gf_id = ag_id a, gf_dead = (ag_deletion_requested_at a \<noteq> None)\<rparr>"

definition job_fact :: "job_row \<Rightarrow> job_fact" where
  "job_fact j = \<lparr>jf_id = jb_id j, jf_agreement = jb_agreement j, jf_org = jb_org j, jf_ws = jb_ws j,
     jf_profile = jb_profile j\<rparr>"

definition art_fact :: "artifact_row \<Rightarrow> art_fact" where
  "art_fact r = \<lparr>rf_job = af_job r, rf_agreement = af_agreement r, rf_key = af_key r\<rparr>"

definition int_fact :: "intent_row \<Rightarrow> int_fact" where
  "int_fact i = \<lparr>if_job = \<lparr>jf_id = in_job i, jf_agreement = in_agreement i, jf_org = in_org i, jf_ws = in_ws i,
     jf_profile = in_profile i\<rparr>, if_category = in_category i, if_key = in_key i\<rparr>"

definition req_fact :: "deletion_request_row \<Rightarrow> req_fact" where
  "req_fact r = \<lparr>qf_id = dr_id r, qf_agreement = dr_agreement r, qf_done = (dr_state r = DCompleted)\<rparr>"

definition obj_fact :: "deletion_object_row \<Rightarrow> obj_fact" where
  "obj_fact x = \<lparr>xf_id = do_id x, xf_deletion = do_deletion x, xf_category = do_category x, xf_key = do_key x,
     xf_pending = (do_state x = OPending)\<rparr>"

definition core_of :: "'z processing_db_scheme \<Rightarrow> core" where
  "core_of s = \<lparr>c_agrs = agr_fact ` set (agreements s),
     c_jobs = job_fact ` set (jobs s), c_arts = art_fact ` set (artifacts s),
     c_ints = int_fact ` set (intents s), c_reqs = req_fact ` set (deletion_requests s),
     c_objs = obj_fact ` set (deletion_objects s)\<rparr>"

named_theorems core_simps \<open>operations that leave the view alone\<close>

lemma draw_agreements [simp]: "agreements (draw s) = agreements s"
  by (simp add: draw_def)

lemma core_draw [simp]: "core_of (draw s) = core_of s"
  by (simp add: core_of_def)

text \<open>An update that keeps what the view reads of a row keeps the view.\<close>

lemma image_update_same: "(\<And>x. p x \<Longrightarrow> g (f x) = g x) \<Longrightarrow> g ` set (update_where p f xs) = g ` set xs"
  by (induction xs) auto

lemma core_update_job [core_simps]:
  assumes "\<And>j. job_fact (f j) = job_fact j"
  shows "core_of (update_job i f s) = core_of s"
  by (simp add: core_of_def update_job_def image_update_same assms)

lemma job_fact_rows [simp]:
  "job_fact (take_claim t now j) = job_fact j" "job_fact (completed_row now j) = job_fact j"
  "job_fact (queued_row c m n now j) = job_fact j" "job_fact (failed_row c m now j) = job_fact j"
  "job_fact (retried_row now j) = job_fact j"
  by (simp_all add: job_fact_def take_claim_def completed_row_def queued_row_def failed_row_def retried_row_def)

lemma core_state [core_simps]: "core_of (update_agreement_processing_state job st now s) = core_of s"
  by (simp add: core_of_def update_agreement_processing_state_def Let_def image_update_same agr_fact_def split: option.split)

lemma core_comparison [core_simps]: "core_of (fail_comparison job c m now s) = core_of s"
  by (simp add: core_of_def fail_comparison_def)

lemma core_outbox [core_simps]: "core_of (rearm_outbox r now s) = core_of s"
  by (simp add: core_of_def rearm_outbox_def)

lemma core_int_state [core_simps]:
  assumes "\<And>i. int_fact (f i) = int_fact i"
  shows "core_of (s\<lparr>intents := update_where p f (intents s)\<rparr>) = core_of s"
  by (simp add: core_of_def image_update_same assms)

lemma used_same: "uuid_src s' = uuid_src s \<Longrightarrow> uuid_used s' = uuid_used s \<Longrightarrow> used_ids s' = used_ids s"
  by (simp add: used_ids_def)

lemma used_fields [simp]:
  "used_ids (s\<lparr>intents := xs\<rparr>) = used_ids s" "used_ids (s\<lparr>jobs := js\<rparr>) = used_ids s"
  "used_ids (s\<lparr>artifacts := ars\<rparr>) = used_ids s" "used_ids (s\<lparr>deletion_objects := os\<rparr>) = used_ids s"
  "used_ids (s\<lparr>deletion_requests := rs\<rparr>) = used_ids s" "used_ids (s\<lparr>deletion_outbox := ds\<rparr>) = used_ids s"
  "used_ids (s\<lparr>deletion_audit := das\<rparr>) = used_ids s" "used_ids (s\<lparr>agreements := ags\<rparr>) = used_ids s"
  "used_ids (s\<lparr>agreement_versions := vs\<rparr>) = used_ids s" "used_ids (s\<lparr>version_audit := vas\<rparr>) = used_ids s"
  "used_ids (s\<lparr>object_registry := regs\<rparr>) = used_ids s" "used_ids (s\<lparr>processing_outbox := pos\<rparr>) = used_ids s"
  "used_ids (s\<lparr>comparison_runs := crs\<rparr>) = used_ids s"
  by (rule used_same; simp)+

lemma used_ops [simp]:
  "used_ids (update_job i f s) = used_ids s" "used_ids (delete_intents i s) = used_ids s"
  "used_ids (update_request p g s) = used_ids s" "used_ids (update_outbox p2 h s) = used_ids s"
  by (simp_all add: update_job_def delete_intents_def update_request_def update_outbox_def)

lemma used_state [simp]: "used_ids (update_agreement_processing_state job st now s) = used_ids s"
  unfolding update_agreement_processing_state_def Let_def by (cases "jb_version job") simp_all

lemma used_comparison [simp]: "used_ids (fail_comparison job c m now s) = used_ids s"
  by (simp add: fail_comparison_def)

lemma core_delete_intents:
  "core_of (delete_intents i s) = (core_of s)\<lparr>c_ints := {f \<in> c_ints (core_of s). jf_id (if_job f) \<noteq> i}\<rparr>"
proof -
  have "int_fact ` {x \<in> set (intents s). in_job x \<noteq> i} = {f \<in> int_fact ` set (intents s). jf_id (if_job f) \<noteq> i}"
    by (force simp: int_fact_def)
  then show ?thesis by (simp add: core_of_def delete_intents_def)
qed

lemma in_core:
  "j \<in> set (jobs s) \<Longrightarrow> job_fact j \<in> c_jobs (core_of s)"
  "i \<in> set (intents s) \<Longrightarrow> int_fact i \<in> c_ints (core_of s)"
  "r \<in> set (artifacts s) \<Longrightarrow> art_fact r \<in> c_arts (core_of s)"
  "q \<in> set (deletion_requests s) \<Longrightarrow> req_fact q \<in> c_reqs (core_of s)"
  "a \<in> set (agreements s) \<Longrightarrow> agr_fact a \<in> c_agrs (core_of s)"
  "x \<in> set (deletion_objects s) \<Longrightarrow> obj_fact x \<in> c_objs (core_of s)"
  by (simp_all add: core_of_def)

lemma agreement_for_updateD:
  assumes "agreement_for_update s x = Some a"
  shows "ag_id a = cx_agreement x" "agr_fact a \<in> c_agrs (core_of s)"
  using find_SomeD [OF assms [unfolded agreement_for_update_def]] by (simp_all add: core_of_def)

lemma job_for_updateD: "job_for_update s i = Some j \<Longrightarrow> j \<in> set (jobs s) \<and> jb_id j = i"
  unfolding job_for_update_def by (drule find_SomeD)

lemma artifact_intentD:
  "artifact_intent s i g w = Some x \<Longrightarrow> x \<in> set (intents s) \<and> in_job x = i \<and>
     (g \<noteq> None \<longrightarrow> g = Some (in_org x)) \<and> (w \<noteq> None \<longrightarrow> w = Some (in_ws x))"
  unfolding artifact_intent_def by (drule find_SomeD)

end
