(* ===== verification/Deletion_Properties.thy ===== *)
theory Deletion_Properties
  imports Deletion_Core Processing_Demo
begin

text \<open>
  Properties of the deletion worker apart from its safety: a pass of the outbox sweeper ends
  and drains the outbox, the keys a deletion may touch, and the constraints of the table of deletion requests.
\<close>

section \<open>The sweeper\<close>

lemma claim_due_outbox_None:
  assumes "claim_due_outbox lease now g s = (None, s')"
  shows "undelivered s' = undelivered s" "\<forall>x \<in> set (deletion_outbox s'). \<not> outbox_due g now s' x"
proof -
  have "filter (outbox_due g now (draw s)) (deletion_outbox s) = []"
    using assms unfolding claim_due_outbox_def Let_def
    by (auto split: list.splits dest: arg_cong [where f = set])
  moreover have s': "s' = draw s" using assms by (auto simp: claim_due_outbox_def Let_def split: list.splits)
  ultimately show "undelivered s' = undelivered s" "\<forall>x \<in> set (deletion_outbox s'). \<not> outbox_due g now s' x"
    by (simp_all add: filter_empty_conv)
qed

text \<open>
  Identities of the rows of the outbox and of the requests; no operation of the sweeper changes them.
  The keys are the primary keys of the tables, and an announcement carries the organization of its
  request.
\<close>

definition dx_static :: "deletion_outbox_row \<Rightarrow> uuid \<times> uuid \<times> uuid" where
  "dx_static x = (dx_id x, dx_deletion x, dx_org x)"

definition dr_static :: "deletion_request_row \<Rightarrow> uuid \<times> uuid" where
  "dr_static r = (dr_id r, dr_org r)"

definition announcements_ok :: "'z processing_db_scheme \<Rightarrow> bool" where
  "announcements_ok s \<longleftrightarrow> distinct (map dx_id (deletion_outbox s)) \<and> distinct (map dr_id (deletion_requests s)) \<and>
     (\<forall>x \<in> set (deletion_outbox s). \<forall>r \<in> set (deletion_requests s). dr_id r = dx_deletion x \<longrightarrow> dr_org r = dx_org x)"

text \<open>What the work on one organization may change: rows of that organization.\<close>

definition swept :: "uuid \<Rightarrow> 'z processing_db_scheme \<Rightarrow> 'z processing_db_scheme \<Rightarrow> bool" where
  "swept g s s' \<longleftrightarrow>
     (\<exists>h. deletion_outbox s' = map h (deletion_outbox s) \<and>
        (\<forall>x \<in> set (deletion_outbox s). dx_static (h x) = dx_static x \<and> (dx_org x \<noteq> g \<longrightarrow> h x = x))) \<and>
     (\<exists>f. deletion_requests s' = map f (deletion_requests s) \<and>
        (\<forall>r \<in> set (deletion_requests s). dr_static (f r) = dr_static r \<and> (dr_org r \<noteq> g \<longrightarrow> f r = r)))"

lemma swept_refl [simp]: "swept g s s"
  unfolding swept_def by (intro conjI exI [of _ id]) simp_all

lemma swept_draw [simp]: "swept g s (draw s)" "swept g (draw s) s' = swept g s s'"
  by (auto simp: swept_def intro: exI [of _ id])

lemma mapped_trans:
  assumes "\<exists>h. ys = map h xs \<and> (\<forall>x \<in> set xs. key (h x) = key x \<and> (org x \<noteq> g \<longrightarrow> h x = x))"
    and "\<exists>h. zs = map h ys \<and> (\<forall>y \<in> set ys. key (h y) = key y \<and> (org y \<noteq> g \<longrightarrow> h y = y))"
    and "\<And>x y. key x = key y \<Longrightarrow> org x = org y"
  shows "\<exists>h. zs = map h xs \<and> (\<forall>x \<in> set xs. key (h x) = key x \<and> (org x \<noteq> g \<longrightarrow> h x = x))"
proof -
  obtain h k where h: "ys = map h xs" "\<forall>x \<in> set xs. key (h x) = key x \<and> (org x \<noteq> g \<longrightarrow> h x = x)"
    and k: "zs = map k ys" "\<forall>y \<in> set ys. key (k y) = key y \<and> (org y \<noteq> g \<longrightarrow> k y = y)"
    using assms(1,2) by blast
  have "key (k (h x)) = key x \<and> (org x \<noteq> g \<longrightarrow> k (h x) = x)" if x: "x \<in> set xs" for x
  proof -
    have "h x \<in> set ys" using x h(1) by simp
    then have "key (k (h x)) = key (h x)" "org (h x) \<noteq> g \<longrightarrow> k (h x) = h x" using k(2) by blast+
    moreover have "key (h x) = key x" "org x \<noteq> g \<longrightarrow> h x = x" using h(2) x by blast+
    ultimately show ?thesis by metis
  qed
  then show ?thesis by (intro exI [of _ "k \<circ> h"]) (simp add: h(1) k(1))
qed

lemma swept_trans:
  assumes "swept g s t" and "swept g t u"
  shows "swept g s u"
proof -
  note st = assms(1) [unfolded swept_def] and tu = assms(2) [unfolded swept_def]
  have "dx_static x = dx_static y \<Longrightarrow> dx_org x = dx_org y" for x y by (simp add: dx_static_def)
  note outbox = mapped_trans [OF conjunct1 [OF st] conjunct1 [OF tu] this]
  have "dr_static x = dr_static y \<Longrightarrow> dr_org x = dr_org y" for x y by (simp add: dr_static_def)
  note requests = mapped_trans [OF conjunct2 [OF st] conjunct2 [OF tu] this]
  show ?thesis unfolding swept_def by (rule conjI [OF outbox requests])
qed

lemma swept_keys:
  assumes "swept g s s'"
  shows "map dx_static (deletion_outbox s') = map dx_static (deletion_outbox s)"
    "map dr_static (deletion_requests s') = map dr_static (deletion_requests s)"
  using assms unfolding swept_def by auto

lemma map_fst_static:
  "map dx_id xs = map fst (map dx_static xs)" "map dr_id rs = map fst (map dr_static rs)"
  by (simp_all add: dx_static_def dr_static_def comp_def)

lemma announcements_ok_static:
  "announcements_ok s \<longleftrightarrow> distinct (map fst (map dx_static (deletion_outbox s))) \<and>
     distinct (map fst (map dr_static (deletion_requests s))) \<and>
     (\<forall>(i, d, g) \<in> set (map dx_static (deletion_outbox s)). \<forall>(j, h) \<in> set (map dr_static (deletion_requests s)).
        j = d \<longrightarrow> h = g)"
  unfolding announcements_ok_def map_fst_static by (auto simp: dx_static_def dr_static_def)

lemma swept_ok: "swept g s s' \<Longrightarrow> announcements_ok s \<Longrightarrow> announcements_ok s'"
  unfolding announcements_ok_static by (simp add: swept_keys)

text \<open>What is not due for an organization does not become due by work on another one.\<close>

lemma swept_not_due:
  assumes ok: "announcements_ok s" and sw: "swept g s s'" and g: "g' \<noteq> g"
    and none: "\<forall>x \<in> set (deletion_outbox s). \<not> outbox_due g' t s x"
  shows "\<forall>x \<in> set (deletion_outbox s'). \<not> outbox_due g' t s' x"
proof (intro ballI notI)
  fix x assume x: "x \<in> set (deletion_outbox s')" and due: "outbox_due g' t s' x"
  obtain h f where h: "deletion_outbox s' = map h (deletion_outbox s)"
      "\<forall>x \<in> set (deletion_outbox s). dx_static (h x) = dx_static x \<and> (dx_org x \<noteq> g \<longrightarrow> h x = x)"
    and f: "deletion_requests s' = map f (deletion_requests s)"
      "\<forall>r \<in> set (deletion_requests s). dr_static (f r) = dr_static r \<and> (dr_org r \<noteq> g \<longrightarrow> f r = r)"
    using sw unfolding swept_def by blast
  obtain y where y: "y \<in> set (deletion_outbox s)" "x = h y" using x h(1) by auto
  then have "dx_org y = g'" using due h(2) by (auto simp: outbox_due_def dx_static_def)
  then have x: "x \<in> set (deletion_outbox s)" "dx_org x = g'" using y h(2) g by auto
  obtain r where r: "r \<in> set (deletion_requests s)" "dr_id (f r) = dx_deletion x"
      "dr_state (f r) = DAccepted \<or> dr_state (f r) = DRetrying"
    using due f(1) by (auto simp: outbox_due_def exists_row_def)
  then have "dr_id r = dx_deletion x" using f(2) by (auto simp: dr_static_def)
  moreover from this have "dr_org r = g'" using ok x r(1) by (auto simp: announcements_ok_def)
  ultimately have "f r = r" "dr_id r = dx_deletion x" using f(2) r(1) g by auto
  then have "outbox_due g' t s x" using due x r by (auto simp: outbox_due_def exists_row_def)
  then show False using none x(1) by blast
qed

lemma update_outbox_swept:
  assumes "\<And>x. x \<in> set (deletion_outbox s) \<Longrightarrow> p x \<Longrightarrow> dx_org x = g" and "\<And>x. dx_static (f x) = dx_static x"
  shows "swept g s (update_outbox p f s)"
proof -
  have "\<exists>f. deletion_requests s = map f (deletion_requests s) \<and>
      (\<forall>r \<in> set (deletion_requests s). dr_static (f r) = dr_static r \<and> (dr_org r \<noteq> g \<longrightarrow> f r = r))"
    by (rule exI [of _ id]) simp
  moreover have "\<exists>h. deletion_outbox (update_outbox p f s) = map h (deletion_outbox s) \<and>
      (\<forall>x \<in> set (deletion_outbox s). dx_static (h x) = dx_static x \<and> (dx_org x \<noteq> g \<longrightarrow> h x = x))"
    using assms by (intro exI [of _ "\<lambda>x. if p x then f x else x"]) (auto simp: update_outbox_def update_where_def)
  ultimately show ?thesis by (simp add: swept_def update_outbox_def)
qed

lemma claim_swept:
  assumes ok: "announcements_ok s" and c: "claim_due_outbox lease now g s = (c, s')"
  shows "swept g s s' \<and> (\<forall>m. c = Some m \<longrightarrow> (\<forall>x \<in> set (deletion_outbox s'). dx_id x = cb_id m \<longrightarrow> dx_org x = g))"
proof (cases c)
  case None
  then have "s' = draw s" using c by (auto simp: claim_due_outbox_def Let_def split: list.splits)
  then show ?thesis using None by simp
next
  case (Some m)
  then obtain x xs where srt: "sort_key (\<lambda>x. (dx_next_attempt_at x, dx_id x))
      (filter (outbox_due g now (draw s)) (deletion_outbox s)) = x # xs"
    using c by (auto simp: claim_due_outbox_def Let_def split: list.splits)
  have "x \<in> set (filter (outbox_due g now (draw s)) (deletion_outbox s))"
    using srt by (metis list.set_intros(1) set_sort)
  then have x: "x \<in> set (deletion_outbox s)" "dx_org x = g" by (auto simp: outbox_due_def)
  have only: "dx_org y = g" if "y \<in> set (deletion_outbox s)" "dx_id y = dx_id x" for y
    using distinct_key_inj [of dx_id "deletion_outbox s" y x] ok that x by (simp add: announcements_ok_def)
  let ?f = "\<lambda>y. y\<lparr>dx_lease_token := Some (uuid4 s), dx_lease_expires_at := Some (now + seconds lease),
    dx_attempt_count := dx_attempt_count y + 1, dx_updated_at := now\<rparr>"
  have s': "s' = update_outbox (\<lambda>y. dx_id y = dx_id x) ?f (draw s)" and m: "cb_id m = dx_id x"
    using c srt Some by (auto simp: claim_due_outbox_def Let_def)
  have "swept g (draw s) s'"
    unfolding s' by (rule update_outbox_swept) (use only in \<open>auto simp: dx_static_def\<close>)
  then have "swept g s s'" by simp
  moreover have "dx_org y = g" if "y \<in> set (deletion_outbox s')" "dx_id y = cb_id m" for y
    using that only by (auto simp: s' m update_outbox_def in_update_where)
  ultimately show ?thesis using Some by blast
qed

lemma recover_swept:
  assumes ok: "announcements_ok s"
  shows "swept g s (snd (recover_stale_deletions now g s))"
proof -
  let ?stale = "map dr_id (filter (stale_request g now) (deletion_requests s))"
  let ?s' = "snd (recover_stale_deletions now g s)"
  have stale: "\<exists>q \<in> set (deletion_requests s). dr_org q = g \<and> i = dr_id q" if "i \<in> set ?stale" for i
    using that by (auto simp: stale_request_def)
  have org: "dr_org r = g" if r: "r \<in> set (deletion_requests s)" "dr_id r \<in> set ?stale" for r
  proof -
    obtain q where "q \<in> set (deletion_requests s)" "dr_org q = g" "dr_id r = dr_id q"
      using stale [OF r(2)] by blast
    then show ?thesis
      using distinct_key_inj [of dr_id "deletion_requests s" r q] ok r(1) by (simp add: announcements_ok_def)
  qed
  show ?thesis
  proof (cases "?stale = []")
    case True
    then have "?s' = s" by (simp add: recover_stale_deletions_def Let_def)
    then show ?thesis by simp
  next
    case False
    have out: "dx_org x = g" if x: "x \<in> set (deletion_outbox s)" "dx_deletion x \<in> set ?stale" for x
      using stale [OF x(2)] ok x(1) by (auto simp: announcements_ok_def)
    obtain p f where p: "deletion_outbox ?s' = update_where p f (deletion_outbox s)"
        "\<And>x. dx_static (f x) = dx_static x" "\<And>x. p x \<longleftrightarrow> dx_deletion x \<in> set ?stale"
      using False by (auto simp: recover_stale_deletions_def Let_def update_request_def dx_static_def)
    have "\<exists>h. deletion_outbox ?s' = map h (deletion_outbox s) \<and>
        (\<forall>x \<in> set (deletion_outbox s). dx_static (h x) = dx_static x \<and> (dx_org x \<noteq> g \<longrightarrow> h x = x))"
      using out by (intro exI [of _ "\<lambda>x. if p x then f x else x"]) (auto simp: p update_where_def)
    moreover obtain q e where q: "deletion_requests ?s' = update_where q e (deletion_requests s)"
        "\<And>x. dr_static (e x) = dr_static x" "\<And>x. q x \<longleftrightarrow> dr_id x \<in> set ?stale"
      using False by (auto simp: recover_stale_deletions_def Let_def update_request_def dr_static_def retrying_request_def)
    have "\<exists>h. deletion_requests ?s' = map h (deletion_requests s) \<and>
        (\<forall>x \<in> set (deletion_requests s). dr_static (h x) = dr_static x \<and> (dr_org x \<noteq> g \<longrightarrow> h x = x))"
      using org by (intro exI [of _ "\<lambda>x. if q x then e x else x"]) (auto simp: q update_where_def)
    ultimately show ?thesis unfolding swept_def by blast
  qed
qed

text \<open>The announcements of an organization, and those of them that were not delivered.\<close>

definition announced_to :: "uuid set \<Rightarrow> 'z processing_db_scheme \<Rightarrow> nat" where
  "announced_to G s = length (filter (\<lambda>x. dx_org x \<in> G) (deletion_outbox s))"

definition open_for :: "uuid \<Rightarrow> 'z processing_db_scheme \<Rightarrow> nat" where
  "open_for g s = length (filter (\<lambda>x. dx_org x = g \<and> dx_delivered_at x = None) (deletion_outbox s))"

lemma open_for_announced: "open_for g s \<le> announced_to {g} s"
proof -
  have "filter (\<lambda>x. dx_org x = g \<and> dx_delivered_at x = None) xs =
      filter (\<lambda>x. dx_delivered_at x = None) (filter (\<lambda>x. dx_org x \<in> {g}) xs)" for xs :: "deletion_outbox_row list"
    by (induction xs) auto
  then show ?thesis by (simp add: open_for_def announced_to_def del: filter_filter)
qed

lemma announced_to_swept:
  assumes "swept g s s'"
  shows "announced_to G s' = announced_to G s"
proof -
  have n: "announced_to G t = length (filter (\<lambda>g. g \<in> G) (map (\<lambda>p. snd (snd p)) (map dx_static (deletion_outbox t))))"
    for t :: "'z processing_db_scheme"
    by (simp add: announced_to_def filter_map comp_def dx_static_def)
  show ?thesis by (simp only: n swept_keys [OF assms])
qed

lemma announced_to_insert: "g \<notin> G \<Longrightarrow> announced_to (insert g G) s = announced_to {g} s + announced_to G s"
proof -
  assume "g \<notin> G"
  then have "length (filter (\<lambda>x. dx_org x \<in> insert g G) xs) =
      length (filter (\<lambda>x. dx_org x \<in> {g}) xs) + length (filter (\<lambda>x. dx_org x \<in> G) xs)" for xs :: "deletion_outbox_row list"
    by (induction xs) auto
  then show ?thesis by (simp add: announced_to_def)
qed

lemma open_for_update:
  assumes "\<And>x. dx_org (f x) = dx_org x" and "\<And>x. dx_delivered_at (f x) = None \<Longrightarrow> dx_delivered_at x = None"
  shows "open_for g (update_outbox p f s) \<le> open_for g s"
proof -
  have "length (filter (\<lambda>x. dx_org x = g \<and> dx_delivered_at x = None) (update_where p f xs)) \<le>
      length (filter (\<lambda>x. dx_org x = g \<and> dx_delivered_at x = None) xs)" for xs
  proof (induction xs)
    case (Cons x xs)
    have "dx_org (f x) = g \<and> dx_delivered_at (f x) = None \<Longrightarrow> dx_org x = g \<and> dx_delivered_at x = None"
      using assms(1) [of x] assms(2) [of x] by simp
    then show ?case using Cons.IH by (cases "p x"; cases "dx_org x = g \<and> dx_delivered_at x = None") auto
  qed simp
  then show ?thesis by (simp add: open_for_def update_outbox_def)
qed

lemma open_for_claim: "claim_due_outbox lease now g' s = (c, s') \<Longrightarrow> open_for g s' \<le> open_for g s"
  by (auto simp: claim_due_outbox_def Let_def open_for_def [of g "draw s"] open_for_def [of g s, symmetric]
      split: list.splits intro!: order.trans [OF open_for_update])

lemma open_for_mark:
  assumes "\<exists>x \<in> set (deletion_outbox s). leased_by m x \<and> dx_org x = g"
  shows "open_for g (mark_outbox_delivered now m s) < open_for g s"
proof -
  let ?f = "\<lambda>x. x\<lparr>dx_delivered_at := Some now, dx_lease_token := None, dx_lease_expires_at := None,
    dx_last_error := None, dx_updated_at := now\<rparr>"
  let ?n = "\<lambda>xs. length (filter (\<lambda>x. dx_org x = g \<and> dx_delivered_at x = None) xs)"
  have le: "?n (update_where (leased_by m) ?f xs) \<le> ?n xs" for xs by (induction xs) auto
  have "?n (update_where (leased_by m) ?f xs) < ?n xs" if "\<exists>x \<in> set xs. leased_by m x \<and> dx_org x = g" for xs
    using that
  proof (induction xs)
    case (Cons x xs)
    show ?case
    proof (cases "leased_by m x \<and> dx_org x = g")
      case True
      then have "dx_delivered_at x = None" by (simp add: leased_by_def)
      then show ?thesis using True le [of xs] by simp
    qed (use Cons in \<open>auto simp: leased_by_def\<close>)
  qed simp
  then show ?thesis using assms by (simp add: open_for_def mark_outbox_delivered_def update_outbox_def)
qed

lemma sweep_organization_run:
  assumes "sweep_organization lease policy clock publish g k n s = (n', k', s')" and "announcements_ok s"
  shows "n \<le> n' \<and> n' - n + open_for g s' \<le> open_for g s \<and> k < k' \<and> k' \<le> k + 2 * (n' - n) + 2 \<and> swept g s s' \<and>
    ((\<forall>m. publish m) \<longrightarrow> (\<forall>x \<in> set (deletion_outbox s'). \<not> outbox_due g (clock (k' - 1)) s' x))"
  using assms
proof (induction lease policy clock publish g k n s rule: sweep_organization.induct)
  case (1 lease policy clock publish g k n s)
  obtain c s1 where c: "claim_due_outbox lease (clock k) g s = (c, s1)" by force
  note sw = claim_swept [OF "1.prems"(2) c]
  have ok1: "announcements_ok s1" using swept_ok sw "1.prems"(2) by blast
  show ?case
  proof (cases c)
    case None
    then have "n' = n" "k' = Suc k" "s' = s1" using "1.prems"(1) c by (simp_all add: sweep_organization.simps)
    then show ?thesis
      using None c claim_due_outbox_None [of lease "clock k" g s s1] open_for_claim [OF c] sw by simp
  next
    case (Some m)
    note claimed = claim_due_outboxD [OF c [unfolded Some]]
    have only: "\<forall>x \<in> set (deletion_outbox s1). dx_id x = cb_id m \<longrightarrow> dx_org x = g" using sw Some by blast
    have upd: "swept g s1 (update_outbox (leased_by m) f s1)" if "\<And>x. dx_static (f x) = dx_static x" for f
      by (rule update_outbox_swept) (use only that in \<open>auto simp: leased_by_def\<close>)
    show ?thesis
    proof (cases "publish m")
      case True
      let ?s2 = "mark_outbox_delivered (clock (Suc k)) m s1"
      have "\<exists>x \<in> set (deletion_outbox s1). leased_by m x \<and> dx_org x = g"
        using claimed(1) only by (auto simp: leased_by_def)
      then have less: "open_for g ?s2 < open_for g s"
        by (rule less_le_trans [OF open_for_mark open_for_claim [OF c]])
      have sw2: "swept g s1 ?s2" unfolding mark_outbox_delivered_def by (rule upd) (simp add: dx_static_def)
      have run: "sweep_organization lease policy clock publish g (Suc (Suc k)) (Suc n) ?s2 = (n', k', s')"
        using "1.prems"(1) c Some True by (subst (asm) sweep_organization.simps) simp
      note IH = "1.IH" [OF c [symmetric] Some True run swept_ok [OF sw2 ok1]]
      have "swept g s s'" using sw sw2 IH swept_trans by blast
      moreover have "n \<le> n' \<and> n' - n + open_for g s' \<le> open_for g s \<and> k < k' \<and> k' \<le> k + 2 * (n' - n) + 2"
        using IH less by linarith
      ultimately show ?thesis using IH by blast
    next
      case False
      then have e: "n' = n" "k' = Suc (Suc k)" "s' = release_failed policy (clock (Suc k)) m s1"
        using "1.prems"(1) c Some by (simp_all add: sweep_organization.simps)
      have "swept g s1 s'" unfolding e release_failed_def release_outbox_def by (rule upd) (simp add: dx_static_def)
      moreover have "open_for g s' \<le> open_for g s1"
        unfolding e release_failed_def release_outbox_def by (rule open_for_update) simp_all
      moreover have "swept g s s'" using sw swept_trans calculation(1) by blast
      ultimately show ?thesis using e(1,2) False open_for_claim [OF c, of g] by auto
    qed
  qed
qed

lemma sweep_organizations_run:
  assumes "sweep_organizations lease policy clock publish gs k n s = (n', k', s')" and "announcements_ok s"
    and "distinct gs"
  shows "n \<le> n' \<and> n' - n \<le> announced_to (set gs) s \<and> k \<le> k' \<and> k' \<le> k + 3 * length gs + 2 * (n' - n) \<and>
    (\<forall>g t. g \<notin> set gs \<longrightarrow> (\<forall>x \<in> set (deletion_outbox s). \<not> outbox_due g t s x) \<longrightarrow>
       (\<forall>x \<in> set (deletion_outbox s'). \<not> outbox_due g t s' x)) \<and>
    ((\<forall>m. publish m) \<longrightarrow> (\<forall>g \<in> set gs. \<exists>j < k'. \<forall>x \<in> set (deletion_outbox s'). \<not> outbox_due g (clock j) s' x))"
  using assms
proof (induction lease policy clock publish gs k n s rule: sweep_organizations.induct)
  case (1 lease policy clock publish k n s)
  then show ?case by simp
next
  case (2 lease policy clock publish g gs k n s)
  let ?s1 = "snd (recover_stale_deletions (clock k) g s)"
  obtain n1 k1 s2 where o: "sweep_organization lease policy clock publish g (Suc k) n ?s1 = (n1, k1, s2)"
    by (metis prod_cases3)
  then have r: "sweep_organizations lease policy clock publish gs k1 n1 s2 = (n', k', s')" using 2(2) by simp
  have sw1: "swept g s ?s1" by (rule recover_swept [OF 2(3)])
  note run = sweep_organization_run [OF o swept_ok [OF sw1 2(3)]]
  have sw: "swept g s s2" using swept_trans sw1 run by blast
  note ok2 = swept_ok [OF sw 2(3)]
  have d: "distinct gs" "g \<notin> set gs" using 2(4) by simp_all
  note IH = "2.IH" [OF o [symmetric] refl r ok2 d(1)]
  have "n1 - n \<le> announced_to {g} s"
    using run open_for_announced [of g ?s1] announced_to_swept [OF sw1, of "{g}"] by linarith
  moreover have "n' - n1 \<le> announced_to (set gs) s" using IH announced_to_swept [OF sw] by simp
  ultimately have "n' - n \<le> announced_to (set (g # gs)) s"
    using announced_to_insert [OF d(2), of s] IH run by simp
  moreover have "n \<le> n' \<and> k \<le> k' \<and> k' \<le> k + 3 * length (g # gs) + 2 * (n' - n)"
  proof -
    have "n \<le> n1" "n1 \<le> n'" "Suc k < k1" "k1 \<le> Suc k + 2 * (n1 - n) + 2" "k1 \<le> k'"
      "k' \<le> k1 + 3 * length gs + 2 * (n' - n1)" using IH run by blast+
    then show ?thesis by simp
  qed
  moreover have "\<forall>x \<in> set (deletion_outbox s'). \<not> outbox_due q t s' x"
    if "q \<notin> set (g # gs)" "\<forall>x \<in> set (deletion_outbox s). \<not> outbox_due q t s x" for q t
    using IH swept_not_due [OF 2(3) sw _ that(2)] that(1) by simp
  moreover have "\<exists>j < k'. \<forall>x \<in> set (deletion_outbox s'). \<not> outbox_due q (clock j) s' x"
    if "\<forall>m. publish m" "q \<in> set (g # gs)" for q
  proof (cases "q = g")
    case True
    have "\<forall>x \<in> set (deletion_outbox s'). \<not> outbox_due g (clock (k1 - 1)) s' x"
      using IH d(2) run that(1) by blast
    moreover have "k1 - 1 < k'" using IH run by linarith
    ultimately show ?thesis using True by blast
  qed (use IH that in auto)
  ultimately show ?case by blast
qed

text \<open>
  C21: A pass of the outbox sweeper over all organizations ends, whatever the queue does: it delivers
  every announcement of the table at most once, and takes at most three transactions for each
  organization (the recovery of its stale deletions and, when nothing is left or the queue refuses,
  a last claim with the release of what it claimed) and two for each delivery. When the queue accepts
  every message, then for every organization nothing that was due at the time of its last claim is
  left undelivered, announcements that the recovery had armed again included.
\<close>

theorem sweep_once_ends:
  assumes "announcements_ok s" and "distinct (map og_id (organizations s))"
    and "sweep_organizations lease policy clock publish (organization_ids s) 0 0 s = (n, k, s')"
  shows "sweep_once lease policy clock publish s = (n, s') \<and>
    n \<le> length (deletion_outbox s) \<and> k \<le> 3 * length (organizations s) + 2 * n \<and>
    ((\<forall>m. publish m) \<longrightarrow> (\<forall>g \<in> og_id ` set (organizations s). \<exists>j < k.
       \<forall>x \<in> set (deletion_outbox s'). \<not> outbox_due g (clock j) s' x))"
proof -
  have o: "distinct (organization_ids s)" "set (organization_ids s) = og_id ` set (organizations s)"
    "length (organization_ids s) = length (organizations s)"
    using assms(2) by (simp_all add: organization_ids_def)
  note run = sweep_organizations_run [OF assms(3,1) o(1)]
  have "announced_to G s \<le> length (deletion_outbox s)" for G by (simp add: announced_to_def)
  moreover have "n \<le> announced_to (set (organization_ids s)) s" using run by simp
  ultimately have "n \<le> length (deletion_outbox s)" using le_trans by blast
  then show ?thesis using run assms(3) o by (simp add: sweep_once_def)
qed

definition demo_sweep :: processing_db where
  "demo_sweep = demo_rows\<lparr>deletion_requests := [demo_request], deletion_outbox := [demo_announcement]\<rparr>"

theorem sweep_once_ends_witness:
  "\<exists>s' :: processing_db. sweep_once 30 default_deletion_policy int (\<lambda>_. True) demo_sweep = (1, s') \<and>
     (\<exists>j < 5. \<not> list_ex (outbox_due ''G1'' (int j) s') (deletion_outbox s'))"
proof -
  have ok: "announcements_ok demo_sweep" by (simp add: announcements_ok_def demo_sweep_def demo_request_def demo_announcement_def)
  have orgs: "map og_id (organizations demo_sweep) = [''G1'']" by code_simp
  have "case sweep_organizations 30 default_deletion_policy int (\<lambda>_. True) (organization_ids demo_sweep) 0 0 demo_sweep of
      (n, k, s') \<Rightarrow> n = 1 \<and> k \<le> 5" by code_simp
  then obtain k s' where run: "sweep_organizations 30 default_deletion_policy int (\<lambda>_. True) (organization_ids demo_sweep) 0 0
      demo_sweep = (1, k, s')" and k: "k \<le> 5" by (auto split: prod.splits)
  have "distinct (map og_id (organizations demo_sweep))" "''G1'' \<in> og_id ` set (organizations demo_sweep)"
    unfolding set_map [symmetric] orgs by simp_all
  note ends = sweep_once_ends [OF ok this(1) run] and g = this(2)
  then obtain j where "j < k" "\<forall>x \<in> set (deletion_outbox s'). \<not> outbox_due ''G1'' (int j) s' x" by blast
  then show ?thesis using ends k by (intro exI [of _ s'] conjI exI [of _ j]) (simp_all add: list_ex_iff)
qed

section \<open>Owned keys\<close>

lemma split_slash_not_Nil [simp]: "split_slash s \<noteq> []"
  by (cases s) (auto split: list.split)

lemma join_Cons: "ps \<noteq> [] \<Longrightarrow> join_with sep (p # ps) = p @ sep @ join_with sep ps"
  by (cases ps) simp_all

lemma join_split_slash: "join_with ''/'' (split_slash s) = s"
proof (induction s)
  case (Cons c s)
  show ?case
  proof (cases "c = CHR ''/''")
    case True
    then show ?thesis using Cons by (simp add: join_Cons)
  next
    case False
    obtain p ps where ps: "split_slash s = p # ps" by (cases "split_slash s") auto
    then have "join_with ''/'' ((c # p) # ps) = c # s" using Cons by (cases ps) simp_all
    then show ?thesis using False ps by simp
  qed
qed simp

lemma split_slash_parts: "p \<in> set (split_slash s) \<Longrightarrow> CHR ''/'' \<notin> set p"
  by (induction s arbitrary: p) (auto split: if_splits list.splits)

lemma split_slash_word: "CHR ''/'' \<notin> set p \<Longrightarrow> split_slash (p @ s) =
    (p @ hd (split_slash s)) # tl (split_slash s)"
proof (induction p)
  case Nil
  then show ?case by (cases "split_slash s") auto
qed (auto split: list.split)

lemma split_join_slash: "ps \<noteq> [] \<Longrightarrow> \<forall>p \<in> set ps. CHR ''/'' \<notin> set p \<Longrightarrow> split_slash (join_with ''/'' ps) = ps"
proof (induction ps)
  case (Cons p ps)
  show ?case
  proof (cases ps)
    case Nil
    then show ?thesis using Cons.prems split_slash_word [of p "[]"] by simp
  next
    case (Cons q qs)
    have "split_slash (p @ ''/'' @ join_with ''/'' ps) = p # split_slash (join_with ''/'' ps)"
      using Cons.prems by (simp add: split_slash_word)
    then show ?thesis using Cons.IH Cons.prems Cons by (simp add: join_Cons)
  qed
qed simp

lemma split_slash_eq:
  "ps \<noteq> [] \<Longrightarrow> \<forall>p \<in> set ps. CHR ''/'' \<notin> set p \<Longrightarrow> split_slash s = ps \<longleftrightarrow> s = join_with ''/'' ps"
  using join_split_slash [of s] split_join_slash [of ps] by auto

text \<open>
  The reference: the text of the key of a category. The last one is the key of a package that the
  worker writes anew for an event of migration 0035 (\<open>final_package.py\<close>).
\<close>

definition source_key :: "uuid \<Rightarrow> uuid \<Rightarrow> string \<Rightarrow> string \<Rightarrow> string" where
  "source_key og ws sha name =
     ''tenants/'' @ og @ ''/workspaces/'' @ ws @ ''/documents/'' @ sha @ ''/'' @ name"

definition analysis_key :: "uuid \<Rightarrow> uuid \<Rightarrow> uuid \<Rightarrow> string \<Rightarrow> string" where
  "analysis_key og ws a sha = ''tenants/'' @ og @ ''/workspaces/'' @ ws @ ''/agreements/'' @ a @
     ''/analysis/'' @ sha @ ''/document-analysis.v1.json''"

definition comparison_key :: "uuid \<Rightarrow> string" where
  "comparison_key run = ''comparisons/'' @ run @ ''/version-comparison.v1.json''"

definition package_key :: "uuid \<Rightarrow> uuid \<Rightarrow> uuid \<Rightarrow> string \<Rightarrow> string" where
  "package_key og ws review name = ''reviews/'' @ og @ ''/'' @ ws @ ''/'' @ review @ ''/final-package/'' @ name"

definition recovered_package_key :: "uuid \<Rightarrow> uuid \<Rightarrow> uuid \<Rightarrow> string \<Rightarrow> string" where
  "recovered_package_key og ws review name =
     ''reviews/'' @ og @ ''/'' @ ws @ ''/'' @ review @ ''/final-package/recovery-0035/'' @ name"

definition no_slash :: "string \<Rightarrow> bool" where
  "no_slash s \<longleftrightarrow> CHR ''/'' \<notin> set s"

text \<open>
  The grammar of the keys a deletion accepts. The names of a run and of a review are any text
  \<open>uuid.UUID\<close> reads, in capitals, without hyphens, in braces or as a URN as well.
\<close>

definition key_format :: "agreement_deletion \<Rightarrow> string \<Rightarrow> string \<Rightarrow> bool" where
  "key_format d category key \<longleftrightarrow>
     (category = ''source'' \<and> (\<exists>sha name. is_sha256 sha \<and> name \<in> {''original.pdf'', ''original.docx''} \<and>
        key = source_key (ad_org d) (ad_ws d) sha name)) \<or>
     (category = ''analysis'' \<and> (\<exists>sha. is_sha256 sha \<and> key = analysis_key (ad_org d) (ad_ws d) (ad_agreement d) sha)) \<or>
     (category = ''comparison'' \<and> (\<exists>run. is_uuid run \<and> no_slash run \<and> key = comparison_key run)) \<or>
     (category = ''review_manifest'' \<and> (\<exists>review. is_uuid review \<and> no_slash review \<and>
        key = package_key (ad_org d) (ad_ws d) review ''manifest.json'')) \<or>
     (category = ''review_pdf'' \<and> (\<exists>review. is_uuid review \<and> no_slash review \<and>
        key = package_key (ad_org d) (ad_ws d) review ''report.pdf''))"

lemma sha256_no_slash: "is_sha256 v \<Longrightarrow> CHR ''/'' \<notin> set v"
  by (auto simp: is_sha256_def)

lemma list_of_length:
  "length xs = 3 \<longleftrightarrow> (\<exists>a b c. xs = [a, b, c])"
  "length xs = 6 \<longleftrightarrow> (\<exists>a b c d e f. xs = [a, b, c, d, e, f])"
  "length xs = 7 \<longleftrightarrow> (\<exists>a b c d e f g. xs = [a, b, c, d, e, f, g])"
  "length xs = 9 \<longleftrightarrow> (\<exists>a b c d e f g h i. xs = [a, b, c, d, e, f, g, h, i])"
  by (auto simp: length_Suc_conv eval_nat_numeral)

lemma split_source:
  assumes "no_slash og" "no_slash ws"
  shows "(\<exists>sha name. split_slash key = [''tenants'', og, ''workspaces'', ws, ''documents'', sha, name] \<and>
      is_sha256 sha \<and> name \<in> {''original.pdf'', ''original.docx''}) \<longleftrightarrow>
    (\<exists>sha name. is_sha256 sha \<and> name \<in> {''original.pdf'', ''original.docx''} \<and> key = source_key og ws sha name)"
proof -
  have "split_slash key = [''tenants'', og, ''workspaces'', ws, ''documents'', sha, name] \<longleftrightarrow>
      key = source_key og ws sha name"
    if "is_sha256 sha" "name \<in> {''original.pdf'', ''original.docx''}" for sha name
    using that assms sha256_no_slash [OF that(1)]
    by (subst split_slash_eq) (auto simp: no_slash_def source_key_def)
  then show ?thesis by blast
qed

lemma split_analysis:
  assumes "no_slash og" "no_slash ws" "no_slash a"
  shows "(\<exists>sha. split_slash key = [''tenants'', og, ''workspaces'', ws, ''agreements'', a, ''analysis'', sha,
      ''document-analysis.v1.json''] \<and> is_sha256 sha) \<longleftrightarrow>
    (\<exists>sha. is_sha256 sha \<and> key = analysis_key og ws a sha)"
proof -
  have "split_slash key = [''tenants'', og, ''workspaces'', ws, ''agreements'', a, ''analysis'', sha,
      ''document-analysis.v1.json''] \<longleftrightarrow> key = analysis_key og ws a sha" if "is_sha256 sha" for sha
    using assms sha256_no_slash [OF that]
    by (subst split_slash_eq) (auto simp: no_slash_def analysis_key_def)
  then show ?thesis by blast
qed

lemma split_comparison:
  "(\<exists>run. split_slash key = [''comparisons'', run, ''version-comparison.v1.json''] \<and> is_uuid run) \<longleftrightarrow>
    (\<exists>run. is_uuid run \<and> no_slash run \<and> key = comparison_key run)"
proof -
  have "split_slash key = [''comparisons'', run, ''version-comparison.v1.json''] \<longleftrightarrow> key = comparison_key run"
    if "no_slash run" for run
    using that by (subst split_slash_eq) (auto simp: no_slash_def comparison_key_def)
  moreover have "no_slash run" if "split_slash key = [''comparisons'', run, ''version-comparison.v1.json'']" for run
    using split_slash_parts [of run key] that by (simp add: no_slash_def)
  ultimately show ?thesis by blast
qed

lemma split_package:
  assumes "no_slash og" "no_slash ws" "no_slash name"
  shows "(\<exists>review. split_slash key = [''reviews'', og, ws, review, ''final-package'', name] \<and> is_uuid review) \<longleftrightarrow>
    (\<exists>review. is_uuid review \<and> no_slash review \<and> key = package_key og ws review name)"
proof -
  have "split_slash key = [''reviews'', og, ws, review, ''final-package'', name] \<longleftrightarrow> key = package_key og ws review name"
    if "no_slash review" for review
    using that assms by (subst split_slash_eq) (auto simp: no_slash_def package_key_def)
  moreover have "no_slash review" if "split_slash key = [''reviews'', og, ws, review, ''final-package'', name]" for review
    using split_slash_parts [of review key] that by (simp add: no_slash_def)
  ultimately show ?thesis by blast
qed

lemma owned_key_parts:
  "owned_key d item \<longleftrightarrow>
     (di_category item = ''source'' \<and> (\<exists>sha name. split_slash (di_key item) =
        [''tenants'', ad_org d, ''workspaces'', ad_ws d, ''documents'', sha, name] \<and>
        is_sha256 sha \<and> name \<in> {''original.pdf'', ''original.docx''})) \<or>
     (di_category item = ''analysis'' \<and> (\<exists>sha. split_slash (di_key item) =
        [''tenants'', ad_org d, ''workspaces'', ad_ws d, ''agreements'', ad_agreement d, ''analysis'', sha,
         ''document-analysis.v1.json''] \<and> is_sha256 sha)) \<or>
     (di_category item = ''comparison'' \<and> (\<exists>run. split_slash (di_key item) =
        [''comparisons'', run, ''version-comparison.v1.json''] \<and> is_uuid run)) \<or>
     (di_category item = ''review_manifest'' \<and> (\<exists>review. split_slash (di_key item) =
        [''reviews'', ad_org d, ad_ws d, review, ''final-package'', ''manifest.json''] \<and> is_uuid review)) \<or>
     (di_category item = ''review_pdf'' \<and> (\<exists>review. split_slash (di_key item) =
        [''reviews'', ad_org d, ad_ws d, review, ''final-package'', ''report.pdf''] \<and> is_uuid review))"
  unfolding owned_key_def Let_def list_of_length by (auto simp: eval_nat_numeral)

lemma owned_key_tenant:
  assumes "owned_key d item" "owned_key d' item'" "di_key item = di_key item'" "di_category item \<noteq> ''comparison''"
  shows "ad_org d = ad_org d' \<and> ad_ws d = ad_ws d'"
proof -
  have "di_category item' \<noteq> ''comparison''" using assms unfolding owned_key_parts by auto
  then show ?thesis using assms unfolding owned_key_parts by (elim disjE conjE exE) simp_all
qed

lemma length_split_slash: "length (split_slash s) = Suc (length (filter (\<lambda>c. c = CHR ''/'') s))"
  by (induction s) (auto split: list.split)

lemma recovered_package_refused:
  assumes "di_category item \<in> {''review_manifest'', ''review_pdf''}"
    and "di_key item = recovered_package_key og ws review name"
  shows "\<not> owned_key d item"
proof -
  have "6 < length (split_slash (di_key item))" by (simp add: length_split_slash assms(2) recovered_package_key_def)
  then show ?thesis using assms(1) by (auto simp: owned_key_def Let_def)
qed

lemma delete_item_refused:
  "\<not> owned_key d item \<Longrightarrow> delete_item lease now accepts d item s store =
     (Inl (ObjectCleanupError ''deletion object key does not match its owned category''), store)"
  by (simp add: delete_item_def validate_owned_key_def require_def)

lemma delete_items_refused:
  assumes "item \<in> set items" and "\<not> owned_key d item"
  shows "fst (delete_items lease policy clock k accepts d items s store) \<noteq> Inr True"
  using assms
proof (induction lease policy clock k accepts d items s store rule: delete_items.induct)
  case (2 lease policy clock k accepts d x items s store)
  obtain r store1 where r: "delete_item lease (clock k) accepts d x s store = (r, store1)" by force
  show ?case
  proof (cases r)
    case (Inl err)
    then show ?thesis using r by (cases err) simp_all
  next
    case (Inr s1)
    then have "x \<noteq> item" using r delete_item_refused [OF "2.prems"(2), of lease "clock k" accepts s store] by auto
    then have "item \<in> set items" using "2.prems"(1) by simp
    then show ?thesis using "2.IH" [OF r [symmetric] Inr] "2.prems"(2) r Inr by simp
  qed
qed simp

text \<open>
  C22: The check before an object is deleted accepts a key exactly when it has the form of its category
  for the organization, workspace and agreement of the deletion, where the segment of a run or of a
  review may be any text that \<open>uuid.UUID\<close> reads; outside the category of comparisons, two deletions
  that accept the same key belong to the same organization and workspace. The keys under
  \<open>recovery-0035\<close>, which the worker writes for a repaired final package and the inventory of a deletion
  lists, do not have the form: such an object is refused with nothing deleted, and no attempt at a
  deletion with one in its inventory gets to the end of the inventory.
\<close>

theorem validate_owned_key_format:
  assumes "no_slash (ad_org d)" "no_slash (ad_ws d)" "no_slash (ad_agreement d)"
  shows "(validate_owned_key d item = Inr () \<longleftrightarrow> key_format d (di_category item) (di_key item)) \<and>
    (validate_owned_key d item = Inr () \<and> validate_owned_key d' item' = Inr () \<and>
       di_key item = di_key item' \<and> di_category item \<noteq> ''comparison'' \<longrightarrow>
     ad_org d = ad_org d' \<and> ad_ws d = ad_ws d') \<and>
    (di_category item \<in> {''review_manifest'', ''review_pdf''} \<and>
       di_key item = recovered_package_key og ws review name \<longrightarrow>
     delete_item lease now accepts d item s store =
       (Inl (ObjectCleanupError ''deletion object key does not match its owned category''), store) \<and>
     (item \<in> set items \<longrightarrow> fst (delete_items lease policy clock k accepts d items s' store') \<noteq> Inr True))"
proof (intro conjI)
  show "validate_owned_key d item = Inr () \<longleftrightarrow> key_format d (di_category item) (di_key item)"
    unfolding validate_owned_key_def require_Inr_iff owned_key_parts key_format_def
      split_source [OF assms(1,2)] split_analysis [OF assms] split_comparison
      split_package [OF assms(1,2), of "''manifest.json''", simplified no_slash_def, simplified]
      split_package [OF assms(1,2), of "''report.pdf''", simplified no_slash_def, simplified]
    by (simp add: no_slash_def)
  show "validate_owned_key d item = Inr () \<and> validate_owned_key d' item' = Inr () \<and>
       di_key item = di_key item' \<and> di_category item \<noteq> ''comparison'' \<longrightarrow>
     ad_org d = ad_org d' \<and> ad_ws d = ad_ws d'"
    unfolding validate_owned_key_def require_Inr_iff using owned_key_tenant by blast
  show "di_category item \<in> {''review_manifest'', ''review_pdf''} \<and>
       di_key item = recovered_package_key og ws review name \<longrightarrow>
     delete_item lease now accepts d item s store =
       (Inl (ObjectCleanupError ''deletion object key does not match its owned category''), store) \<and>
     (item \<in> set items \<longrightarrow> fst (delete_items lease policy clock k accepts d items s' store') \<noteq> Inr True)"
  proof (intro impI conjI)
    assume "di_category item \<in> {''review_manifest'', ''review_pdf''} \<and>
       di_key item = recovered_package_key og ws review name"
    then have refused: "\<not> owned_key d item" using recovered_package_refused by blast
    then show "delete_item lease now accepts d item s store =
       (Inl (ObjectCleanupError ''deletion object key does not match its owned category''), store)"
      by (rule delete_item_refused)
    show "fst (delete_items lease policy clock k accepts d items s' store') \<noteq> Inr True" if "item \<in> set items"
      using that refused by (rule delete_items_refused)
  qed
qed

definition demo_deletion :: agreement_deletion where
  "demo_deletion = \<lparr>ad_id = ''D1'', ad_org = ''G1'', ad_ws = ''W1'', ad_agreement = ''AG1'',
     ad_attempt_count = 1, ad_claim_token = ''t''\<rparr>"

definition demo_item :: deletion_item where
  "demo_item = \<lparr>di_id = ''O1'', di_category = ''source'',
     di_key = source_key ''G1'' ''W1'' (replicate 64 CHR ''a'') ''original.pdf'', di_state = OPending\<rparr>"

definition demo_recovered :: deletion_item where
  "demo_recovered = \<lparr>di_id = ''O2'', di_category = ''review_pdf'',
     di_key = recovered_package_key ''G1'' ''W1'' (demo_uuid 3) ''report.pdf'', di_state = OPending\<rparr>"

theorem validate_owned_key_format_witness:
  "validate_owned_key demo_deletion demo_item = Inr () \<and>
   validate_owned_key (demo_deletion\<lparr>ad_ws := ''W2''\<rparr>) demo_item \<noteq> Inr () \<and>
   fst (delete_items 30 default_deletion_policy int 1 (\<lambda>_. True) demo_deletion [demo_item, demo_recovered]
     demo_rows Map.empty) \<noteq> Inr True"
proof -
  have d: "no_slash (ad_org demo_deletion)" "no_slash (ad_ws demo_deletion)" "no_slash (ad_agreement demo_deletion)"
    by (simp_all add: demo_deletion_def no_slash_def)
  have f: "key_format demo_deletion ''source'' (di_key demo_item)"
    unfolding key_format_def
    by (rule disjI1, intro conjI exI [of _ "replicate 64 CHR ''a''"] exI [of _ "''original.pdf''"])
      (simp_all add: demo_item_def demo_deletion_def is_sha256_def)
  have r: "di_category demo_recovered \<in> {''review_manifest'', ''review_pdf''}"
    "di_key demo_recovered = recovered_package_key ''G1'' ''W1'' (demo_uuid 3) ''report.pdf''"
    by (simp_all add: demo_recovered_def)
  have v: "validate_owned_key demo_deletion demo_item = Inr ()"
    using validate_owned_key_format [OF d, of demo_item] f by (simp add: demo_item_def)
  moreover have "validate_owned_key (demo_deletion\<lparr>ad_ws := ''W2''\<rparr>) demo_item \<noteq> Inr ()"
    using v validate_owned_key_format [OF d, of demo_item "demo_deletion\<lparr>ad_ws := ''W2''\<rparr>" demo_item]
    by (simp add: demo_deletion_def demo_item_def)
  moreover have "fst (delete_items 30 default_deletion_policy int 1 (\<lambda>_. True) demo_deletion [demo_item, demo_recovered]
     demo_rows Map.empty) \<noteq> Inr True"
    using conjunct2 [OF conjunct2 [OF validate_owned_key_format [OF d, of demo_recovered, where og = "''G1''" and
          ws = "''W1''" and review = "demo_uuid 3" and name = "''report.pdf''" and lease = 30 and accepts = "\<lambda>_. True" and
          items = "[demo_item, demo_recovered]" and policy = default_deletion_policy and clock = int and k = 1 and
          s' = demo_rows and store' = Map.empty]], THEN mp, OF conjI [OF r]]
    by (rule mp [OF conjunct2]) simp
  ultimately show ?thesis by blast
qed

end
