(* ===== verification/Deletion_Machine.thy ===== *)
theory Deletion_Machine
  imports Deletion_Core
begin

text \<open>
  The safety argument for deletion on the view of the database (\<open>core\<close>), the object store, and what
  the workers know: the jobs they claimed (\<open>held\<close>), the deletions they claimed, the inventory items
  they read and the items whose object they deleted. Each lemma is one kind of change the operations
  make.
\<close>

record known =
  k_held :: "job_fact set"
  k_claims :: "(uuid \<times> uuid) set"
  k_listed :: "(uuid \<times> string \<times> string) set"
  k_erased :: "(uuid \<times> string) set"

abbreviation live :: "core \<Rightarrow> uuid \<Rightarrow> bool" where
  "live k a \<equiv> \<lparr>gf_id = a, gf_dead = False\<rparr> \<in> c_agrs k"

abbreviation dead :: "core \<Rightarrow> uuid \<Rightarrow> bool" where
  "dead k a \<equiv> \<lparr>gf_id = a, gf_dead = True\<rparr> \<in> c_agrs k"

abbreviation is_reindex :: "string \<Rightarrow> bool" where
  "is_reindex p \<equiv> startswith ''embedding-reindex:'' p"

text \<open>The requests with their agreements, the requests that are completed, the facts about jobs.\<close>

definition pairs :: "core \<Rightarrow> (uuid \<times> uuid) set" where
  "pairs k = (\<lambda>q. (qf_id q, qf_agreement q)) ` c_reqs k"

definition finished :: "core \<Rightarrow> uuid set" where
  "finished k = qf_id ` {q \<in> c_reqs k. qf_done q}"

definition facts :: "known \<Rightarrow> core \<Rightarrow> job_fact set" where
  "facts n k = c_jobs k \<union> if_job ` c_ints k \<union> k_held n"

section \<open>The invariant\<close>

definition wf_scope :: "core \<Rightarrow> bool" where
  "wf_scope k \<longleftrightarrow>
     (\<forall>a. \<not> (dead k a \<and> live k a)) \<and>
     (\<forall>p \<in> pairs k. dead k (snd p)) \<and>
     (\<forall>p \<in> pairs k. \<forall>p' \<in> pairs k. (fst p = fst p') = (snd p = snd p')) \<and>
     (\<forall>x \<in> c_objs k. \<forall>y \<in> c_objs k. xf_id x = xf_id y \<longrightarrow> x = y)"

definition wf_facts :: "known \<Rightarrow> core \<Rightarrow> bool" where
  "wf_facts n k \<longleftrightarrow>
     (\<forall>f \<in> facts n k. \<forall>g \<in> facts n k. jf_id f = jf_id g \<longrightarrow> f = g) \<and>
     (\<forall>r \<in> c_arts k. \<forall>f \<in> facts n k. jf_id f = rf_job r \<longrightarrow> jf_agreement f = rf_agreement r) \<and>
     (\<forall>i \<in> c_ints k. \<not> is_reindex (jf_profile (if_job i)) \<and> if_category i \<noteq> ''source'') \<and>
     (\<forall>i \<in> c_ints k. \<forall>i' \<in> c_ints k. jf_id (if_job i) = jf_id (if_job i') \<longrightarrow> i = i')"

definition wf_fresh :: "uuid set \<Rightarrow> known \<Rightarrow> core \<Rightarrow> bool" where
  "wf_fresh U n k \<longleftrightarrow> jf_id ` facts n k \<subseteq> U \<and> rf_job ` c_arts k \<subseteq> U \<and> gf_id ` c_agrs k \<subseteq> U \<and>
     fst ` pairs k \<subseteq> U \<and> xf_id ` c_objs k \<subseteq> U \<and> xf_deletion ` c_objs k \<subseteq> U \<and>
     fst ` k_claims n \<subseteq> U \<and> fst ` k_listed n \<subseteq> U \<and> fst ` k_erased n \<subseteq> U"

text \<open>
  A stored object of an agreement that is not being deleted has an artifact or an intent; a stored
  object of an agreement that is being deleted is pending in its inventory; a completed deletion has
  nothing pending.
\<close>

definition tracked :: "core \<Rightarrow> uuid \<Rightarrow> string \<Rightarrow> bool" where
  "tracked k a key \<longleftrightarrow>
     (\<exists>r \<in> c_arts k. \<exists>j \<in> c_jobs k. rf_job r = jf_id j \<and> rf_agreement r = a \<and> rf_key r = key \<and>
        \<not> is_reindex (jf_profile j)) \<or>
     (\<exists>i \<in> c_ints k. jf_agreement (if_job i) = a \<and> if_key i = key)"

definition pended :: "core \<Rightarrow> uuid \<Rightarrow> string \<Rightarrow> bool" where
  "pended k a key \<longleftrightarrow>
     (\<exists>x \<in> c_objs k. xf_pending x \<and> xf_category x \<noteq> ''source'' \<and> xf_key x = key \<and> (xf_deletion x, a) \<in> pairs k)"

definition kept :: "object_store \<Rightarrow> core \<Rightarrow> bool" where
  "kept store k \<longleftrightarrow>
     (\<forall>key a b. store key = Some (a, b) \<longrightarrow> \<not> dead k a \<longrightarrow> tracked k a key) \<and>
     (\<forall>key a b. store key = Some (a, b) \<longrightarrow> dead k a \<longrightarrow> pended k a key) \<and>
     (\<forall>x \<in> c_objs k. xf_pending x \<longrightarrow> xf_deletion x \<notin> finished k)"

definition knows :: "known \<Rightarrow> object_store \<Rightarrow> core \<Rightarrow> bool" where
  "knows n store k \<longleftrightarrow>
     (\<forall>p \<in> pairs k. \<forall>c \<in> k_claims n. fst p = fst c \<longrightarrow> p = c) \<and>
     (\<forall>x \<in> c_objs k. \<forall>l \<in> k_listed n. xf_id x = fst l \<longrightarrow> l = (xf_id x, xf_category x, xf_key x)) \<and>
     (\<forall>x \<in> c_objs k. \<forall>e \<in> k_erased n. xf_id x = fst e \<longrightarrow> xf_key x = snd e \<and>
        (\<forall>p \<in> pairs k. fst p = xf_deletion x \<longrightarrow> (\<forall>b. store (snd e) \<noteq> Some (snd p, b))))"

definition safe :: "uuid set \<Rightarrow> known \<Rightarrow> object_store \<Rightarrow> core \<Rightarrow> bool" where
  "safe U n store k \<longleftrightarrow> wf_scope k \<and> wf_facts n k \<and> wf_fresh U n k \<and> kept store k \<and> knows n store k"

section \<open>What it gives\<close>

lemma safe_completed:
  assumes s: "safe U n store k" and q: "q \<in> c_reqs k" "qf_done q"
  shows "store key \<noteq> Some (qf_agreement q, b)"
proof
  assume st: "store key = Some (qf_agreement q, b)"
  have p: "(qf_id q, qf_agreement q) \<in> pairs k" using q by (simp add: pairs_def)
  have fin: "qf_id q \<in> finished k" using q by (simp add: finished_def)
  have sc: "wf_scope k" and kp: "kept store k" using s by (simp_all add: safe_def)
  have "dead k (qf_agreement q)" using sc p unfolding wf_scope_def by (metis snd_conv)
  then have "pended k (qf_agreement q) key" using kp st unfolding kept_def by blast
  then obtain x where x: "x \<in> c_objs k" "xf_pending x" "(xf_deletion x, qf_agreement q) \<in> pairs k"
    unfolding pended_def by blast
  have "xf_deletion x = qf_id q" using sc p x(3) unfolding wf_scope_def by (metis fst_conv snd_conv)
  then show False using kp x(1,2) fin unfolding kept_def by metis
qed

section \<open>Knowledge\<close>

lemma safe_used: "safe U n store k \<Longrightarrow> U \<subseteq> U' \<Longrightarrow> safe U' n store k"
  unfolding safe_def wf_fresh_def by (elim conjE, intro conjI) (assumption | erule (1) subset_trans)+

lemma safe_remove:
  assumes "safe U n store k"
  shows "safe U n (store(key := None)) k"
  using assms unfolding safe_def kept_def knows_def by simp

lemma safe_hold:
  assumes s: "safe U n store k" and f: "f \<in> c_jobs k"
  shows "safe U (n\<lparr>k_held := insert f (k_held n)\<rparr>) store k"
proof -
  have "facts (n\<lparr>k_held := insert f (k_held n)\<rparr>) k = facts n k" using f by (auto simp: facts_def)
  then show ?thesis using s by (simp add: safe_def wf_facts_def wf_fresh_def knows_def)
qed

lemma facts_known [simp]:
  "facts (n\<lparr>k_claims := cs\<rparr>) k = facts n k" "facts (n\<lparr>k_listed := ls\<rparr>) k = facts n k"
  "facts (n\<lparr>k_erased := es\<rparr>) k = facts n k"
  by (simp_all add: facts_def)

lemma safe_claim:
  assumes s: "safe U n store k" and p: "p \<in> pairs k"
  shows "safe U (n\<lparr>k_claims := insert p (k_claims n)\<rparr>) store k"
proof -
  have "p' = p" if "p' \<in> pairs k" "fst p' = fst p" for p'
    using s p that unfolding safe_def wf_scope_def by (metis prod.collapse)
  then have "knows (n\<lparr>k_claims := insert p (k_claims n)\<rparr>) store k"
    using s unfolding safe_def knows_def by simp
  moreover have "fst p \<in> U" using s p by (auto simp: safe_def wf_fresh_def)
  ultimately show ?thesis using s by (simp add: safe_def wf_facts_def wf_fresh_def)
qed

lemma safe_list:
  assumes s: "safe U n store k" and x: "x \<in> c_objs k"
  shows "safe U (n\<lparr>k_listed := insert (xf_id x, xf_category x, xf_key x) (k_listed n)\<rparr>) store k"
proof -
  have "y = x" if "y \<in> c_objs k" "xf_id y = xf_id x" for y
    using s x that unfolding safe_def wf_scope_def by metis
  then have "\<forall>y \<in> c_objs k. xf_id y = xf_id x \<longrightarrow> (xf_id x, xf_category x, xf_key x) = (xf_id y, xf_category y, xf_key y)"
    by metis
  then have "knows (n\<lparr>k_listed := insert (xf_id x, xf_category x, xf_key x) (k_listed n)\<rparr>) store k"
    using s unfolding safe_def knows_def by simp
  moreover have "xf_id x \<in> U" using s x by (auto simp: safe_def wf_fresh_def)
  ultimately show ?thesis using s by (simp add: safe_def wf_facts_def wf_fresh_def)
qed

lemma safe_erase:
  assumes s: "safe U n store k" and l: "(i, c, key) \<in> k_listed n"
  shows "safe U (n\<lparr>k_erased := insert (i, key) (k_erased n)\<rparr>) (store(key := None)) k"
proof -
  have "safe U n (store(key := None)) k" by (rule safe_remove [OF s])
  moreover have "\<forall>x \<in> c_objs k. xf_id x = i \<longrightarrow> xf_key x = key"
    using s l unfolding safe_def knows_def by fastforce
  moreover have "i \<in> U" using s image_eqI [OF _ l, of i fst] by (auto simp: safe_def wf_fresh_def)
  ultimately show ?thesis by (simp add: safe_def wf_facts_def wf_fresh_def knows_def)
qed

section \<open>Changes\<close>

text \<open>The parts of the invariant that a change of one table leaves alone.\<close>

lemma view_simps [simp]:
  "pairs (k\<lparr>c_agrs := as\<rparr>) = pairs k" "finished (k\<lparr>c_agrs := as\<rparr>) = finished k"
  "facts n (k\<lparr>c_agrs := as\<rparr>) = facts n k" "tracked (k\<lparr>c_agrs := as\<rparr>) a key = tracked k a key"
  "pended (k\<lparr>c_agrs := as\<rparr>) a key = pended k a key"
  "pairs (k\<lparr>c_jobs := js\<rparr>) = pairs k" "finished (k\<lparr>c_jobs := js\<rparr>) = finished k"
  "pended (k\<lparr>c_jobs := js\<rparr>) a key = pended k a key"
  "pairs (k\<lparr>c_ints := is\<rparr>) = pairs k" "finished (k\<lparr>c_ints := is\<rparr>) = finished k"
  "pended (k\<lparr>c_ints := is\<rparr>) a key = pended k a key"
  "pairs (k\<lparr>c_arts := rs\<rparr>) = pairs k" "finished (k\<lparr>c_arts := rs\<rparr>) = finished k"
  "facts n (k\<lparr>c_arts := rs\<rparr>) = facts n k" "pended (k\<lparr>c_arts := rs\<rparr>) a key = pended k a key"
  "pairs (k\<lparr>c_objs := os\<rparr>) = pairs k" "finished (k\<lparr>c_objs := os\<rparr>) = finished k"
  "facts n (k\<lparr>c_objs := os\<rparr>) = facts n k" "tracked (k\<lparr>c_objs := os\<rparr>) a key = tracked k a key"
  "facts n (k\<lparr>c_reqs := qs\<rparr>) = facts n k" "tracked (k\<lparr>c_reqs := qs\<rparr>) a key = tracked k a key"
  by (simp_all add: pairs_def finished_def facts_def tracked_def pended_def)

lemma tracked_mono:
  "tracked k a key \<Longrightarrow> c_arts k \<subseteq> c_arts k' \<Longrightarrow> c_jobs k \<subseteq> c_jobs k' \<Longrightarrow> c_ints k \<subseteq> c_ints k' \<Longrightarrow> tracked k' a key"
  unfolding tracked_def by (meson subsetD)

lemma wf_facts_mono:
  assumes "wf_facts n k" "facts n k' \<subseteq> facts n k" "c_arts k' \<subseteq> c_arts k" "c_ints k' \<subseteq> c_ints k"
  shows "wf_facts n k'"
  using assms unfolding wf_facts_def by (elim conjE, intro conjI ballI impI) (meson subsetD)+

lemma wf_facts_art: "wf_facts n k \<Longrightarrow> r \<in> c_arts k \<Longrightarrow> f \<in> facts n k \<Longrightarrow> jf_id f = rf_job r \<Longrightarrow>
    jf_agreement f = rf_agreement r"
  by (simp add: wf_facts_def)

lemma keptI:
  assumes "\<And>key a b. store key = Some (a, b) \<Longrightarrow> \<not> dead k a \<Longrightarrow> tracked k a key"
    "\<And>key a b. store key = Some (a, b) \<Longrightarrow> dead k a \<Longrightarrow> pended k a key"
    "\<forall>x \<in> c_objs k. xf_pending x \<longrightarrow> xf_deletion x \<notin> finished k"
  shows "kept store k"
  unfolding kept_def by (intro conjI allI impI assms)

lemma keptD:
  assumes "kept store k"
  shows "store key = Some (a, b) \<Longrightarrow> \<not> dead k a \<Longrightarrow> tracked k a key"
    "store key = Some (a, b) \<Longrightarrow> dead k a \<Longrightarrow> pended k a key"
    "\<forall>x \<in> c_objs k. xf_pending x \<longrightarrow> xf_deletion x \<notin> finished k"
  using assms unfolding kept_def by simp_all

lemma kept_mono:
  assumes k: "kept store k" and d: "\<And>a. dead k' a \<longleftrightarrow> dead k a"
    and t: "\<And>a key. tracked k a key \<Longrightarrow> \<not> dead k a \<Longrightarrow> tracked k' a key"
    and p: "\<And>a key. pended k a key \<Longrightarrow> dead k a \<Longrightarrow> pended k' a key"
    and f: "\<forall>x \<in> c_objs k'. xf_pending x \<longrightarrow> xf_deletion x \<notin> finished k'"
  shows "kept store k'"
  by (rule keptI [OF _ _ f]) (use keptD(1,2) [OF k] d t p in auto)

lemma knows_objects:
  assumes k: "knows n store k" and p: "pairs k' \<subseteq> pairs k"
    and os: "\<And>x'. x' \<in> c_objs k' \<Longrightarrow> \<exists>x \<in> c_objs k. xf_id x' = xf_id x \<and> xf_category x' = xf_category x \<and>
      xf_key x' = xf_key x \<and> xf_deletion x' = xf_deletion x"
  shows "knows n store k'"
proof -
  have a: "\<forall>p \<in> pairs k'. \<forall>c \<in> k_claims n. fst p = fst c \<longrightarrow> p = c"
    using k p unfolding knows_def by (meson subsetD)
  have b: "l = (xf_id x', xf_category x', xf_key x')" if l: "x' \<in> c_objs k'" "l \<in> k_listed n" "xf_id x' = fst l" for x' l
  proof -
    obtain x where x: "x \<in> c_objs k" "xf_id x' = xf_id x" "xf_category x' = xf_category x" "xf_key x' = xf_key x"
      using os [OF l(1)] by blast
    have "l = (xf_id x, xf_category x, xf_key x)" using k x(1,2) l(2,3) unfolding knows_def by metis
    then show ?thesis using x by simp
  qed
  have c: "xf_key x' = snd e \<and> (\<forall>p \<in> pairs k'. fst p = xf_deletion x' \<longrightarrow> (\<forall>b. store (snd e) \<noteq> Some (snd p, b)))"
    if e: "x' \<in> c_objs k'" "e \<in> k_erased n" "xf_id x' = fst e" for x' e
  proof -
    obtain x where x: "x \<in> c_objs k" "xf_id x' = xf_id x" "xf_key x' = xf_key x" "xf_deletion x' = xf_deletion x"
      using os [OF e(1)] by blast
    have "xf_key x = snd e \<and> (\<forall>p \<in> pairs k. fst p = xf_deletion x \<longrightarrow> (\<forall>b. store (snd e) \<noteq> Some (snd p, b)))"
      using k x(1,2) e(2,3) unfolding knows_def by simp
    then show ?thesis using x p by auto
  qed
  show ?thesis unfolding knows_def by (intro conjI a ballI impI) (blast intro: b, use c in blast, use c in blast)
qed

lemma wf_facts_insert_art:
  assumes "wf_facts n k" "\<forall>f \<in> facts n k. jf_id f = rf_job r \<longrightarrow> jf_agreement f = rf_agreement r"
  shows "wf_facts n (k\<lparr>c_arts := insert r (c_arts k)\<rparr>)"
proof -
  have "c_ints (k\<lparr>c_arts := insert r (c_arts k)\<rparr>) = c_ints k" "c_arts (k\<lparr>c_arts := insert r (c_arts k)\<rparr>) = insert r (c_arts k)"
    by simp_all
  then show ?thesis using assms unfolding wf_facts_def
    by (simp only: view_simps ball_simps HOL.simp_thms) (elim conjE, intro conjI, assumption+)
qed

lemma safe_new_agreement:
  assumes s: "safe U n store k" and a: "a \<notin> U"
  shows "safe (insert a U) n store (k\<lparr>c_agrs := insert \<lparr>gf_id = a, gf_dead = False\<rparr> (c_agrs k)\<rparr>)"
proof -
  have nd: "\<not> dead k a" using s a by (force simp: safe_def wf_fresh_def)
  let ?k = "k\<lparr>c_agrs := insert \<lparr>gf_id = a, gf_dead = False\<rparr> (c_agrs k)\<rparr>"
  have "wf_scope ?k" using s nd unfolding safe_def wf_scope_def by (simp; metis)
  moreover have "wf_facts n ?k" using s unfolding safe_def wf_facts_def by simp
  moreover have "wf_fresh (insert a U) n ?k" using s unfolding safe_def wf_fresh_def by auto
  moreover have "kept store ?k" using s unfolding safe_def kept_def by simp
  moreover have "knows n store ?k" using s unfolding safe_def knows_def by simp
  ultimately show ?thesis by (simp add: safe_def)
qed

lemma safe_new_job:
  assumes s: "safe U n store k" and f: "jf_id f \<notin> U"
  shows "safe (insert (jf_id f) U) n store (k\<lparr>c_jobs := insert f (c_jobs k)\<rparr>)"
proof -
  let ?k = "k\<lparr>c_jobs := insert f (c_jobs k)\<rparr>"
  have fs: "facts n ?k = insert f (facts n k)" by (auto simp: facts_def)
  have fr: "jf_id ` facts n k \<subseteq> U" "rf_job ` c_arts k \<subseteq> U" using s by (simp_all add: safe_def wf_fresh_def)
  have new: "\<forall>g \<in> facts n k. jf_id g \<noteq> jf_id f" "\<forall>r \<in> c_arts k. rf_job r \<noteq> jf_id f" using fr f by auto
  have "wf_scope ?k" using s unfolding safe_def wf_scope_def by simp
  moreover have "wf_facts n ?k"
    using s new unfolding safe_def wf_facts_def fs by (simp add: eq_commute [of "jf_id f"])
  moreover have "wf_fresh (insert (jf_id f) U) n ?k" using s unfolding safe_def wf_fresh_def fs by auto
  moreover have "kept store ?k"
    using s tracked_mono [of k _ _ ?k] unfolding safe_def kept_def by simp blast
  moreover have "knows n store ?k" using s unfolding safe_def knows_def by simp
  ultimately show ?thesis by (simp add: safe_def)
qed

lemma safe_add_intent:
  assumes s: "safe U n store k" and i: "if_job i \<in> facts n k" "\<not> is_reindex (jf_profile (if_job i))"
      "if_category i \<noteq> ''source''"
    and new: "\<forall>x \<in> c_ints k. jf_id (if_job x) \<noteq> jf_id (if_job i)"
  shows "safe U n store (k\<lparr>c_ints := insert i (c_ints k)\<rparr>)"
proof -
  let ?k = "k\<lparr>c_ints := insert i (c_ints k)\<rparr>"
  have fs: "facts n ?k = facts n k" using i(1) by (auto simp: facts_def)
  have "wf_scope ?k" using s unfolding safe_def wf_scope_def by simp
  moreover have "wf_facts n ?k"
    using s i new unfolding safe_def wf_facts_def fs by (simp add: eq_commute [of "jf_id (if_job i)"])
  moreover have "wf_fresh U n ?k" using s unfolding safe_def wf_fresh_def fs by simp
  moreover have "kept store ?k"
    using s tracked_mono [of k _ _ ?k] unfolding safe_def kept_def by simp blast
  moreover have "knows n store ?k" using s unfolding safe_def knows_def by simp
  ultimately show ?thesis by (simp add: safe_def)
qed

text \<open>The intents of a job may go when its agreement is being deleted.\<close>

lemma safe_drop_intents:
  assumes s: "safe U n store k"
    and d: "\<forall>i \<in> c_ints k. jf_id (if_job i) = j \<longrightarrow> dead k (jf_agreement (if_job i))"
  shows "safe U n store (k\<lparr>c_ints := {i \<in> c_ints k. jf_id (if_job i) \<noteq> j}\<rparr>)"
proof -
  let ?k = "k\<lparr>c_ints := {i \<in> c_ints k. jf_id (if_job i) \<noteq> j}\<rparr>"
  have fs: "facts n ?k \<subseteq> facts n k" by (auto simp: facts_def)
  have tr: "tracked ?k a key" if "tracked k a key" "\<not> dead k a" for a key
    using that d unfolding tracked_def by (simp; metis)
  have "wf_scope ?k" using s unfolding safe_def wf_scope_def by simp
  moreover have "wf_facts n ?k" by (rule wf_facts_mono [OF _ fs]) (use s in \<open>auto simp: safe_def\<close>)
  moreover have "wf_fresh U n ?k"
    using s subset_trans [OF image_mono [OF fs, of jf_id]] unfolding safe_def wf_fresh_def by simp
  moreover have "kept store ?k"
    by (rule kept_mono [of store k]) (use s tr keptD(3) [of store k] in \<open>simp_all add: safe_def\<close>)
  moreover have "knows n store ?k" using s unfolding safe_def knows_def by simp
  ultimately show ?thesis by (simp add: safe_def)
qed

text \<open>Requests that change without a new completion.\<close>

lemma safe_requests:
  assumes s: "safe U n store k" and p: "pairs (k\<lparr>c_reqs := qs\<rparr>) = pairs k"
    and f: "finished (k\<lparr>c_reqs := qs\<rparr>) \<subseteq> finished k"
  shows "safe U n store (k\<lparr>c_reqs := qs\<rparr>)"
proof -
  let ?k = "k\<lparr>c_reqs := qs\<rparr>"
  have pe: "pended ?k a key = pended k a key" for a key using p by (simp add: pended_def)
  have "wf_scope ?k" using s unfolding safe_def wf_scope_def p by simp
  moreover have "wf_facts n ?k" using s unfolding safe_def wf_facts_def by simp
  moreover have "wf_fresh U n ?k" using s unfolding safe_def wf_fresh_def p by simp
  moreover have "kept store ?k"
    by (rule kept_mono [of store k]) (use s f keptD(3) [of store k] in \<open>auto simp: safe_def pe\<close>)
  moreover have "knows n store ?k" using s unfolding safe_def knows_def p by simp
  ultimately show ?thesis by (simp add: safe_def)
qed

text \<open>A new pending object of an open request.\<close>

lemma pended_mono: "pended k a key \<Longrightarrow> c_objs k \<subseteq> os \<Longrightarrow> pended (k\<lparr>c_objs := os\<rparr>) a key"
  unfolding pended_def by (simp, blast)

lemma safe_new_object:
  assumes s: "safe U n store k" and x: "xf_id x \<notin> U" "xf_deletion x \<in> U" "xf_deletion x \<notin> finished k"
  shows "safe (insert (xf_id x) U) n store (k\<lparr>c_objs := insert x (c_objs k)\<rparr>)"
proof -
  let ?k = "k\<lparr>c_objs := insert x (c_objs k)\<rparr>"
  have fr: "\<forall>y \<in> c_objs k. xf_id y \<noteq> xf_id x" "\<forall>l \<in> k_listed n. fst l \<noteq> xf_id x" "\<forall>e \<in> k_erased n. fst e \<noteq> xf_id x"
    using s x(1) unfolding safe_def wf_fresh_def by auto
  have "wf_scope ?k" using s fr(1) unfolding safe_def wf_scope_def by (simp add: eq_commute [of "xf_id x"])
  moreover have "wf_facts n ?k" using s unfolding safe_def wf_facts_def by simp
  moreover have "wf_fresh (insert (xf_id x) U) n ?k" using s x(2) unfolding safe_def wf_fresh_def by auto
  moreover have "kept store ?k"
    by (rule kept_mono [of store k])
      (use s x(3) keptD(3) [of store k] pended_mono [of k _ _ "insert x (c_objs k)"] in \<open>auto simp: safe_def\<close>)
  moreover have "knows n store ?k"
    using s fr(2,3) unfolding safe_def knows_def by (simp add: eq_commute [of "xf_id x"])
  ultimately show ?thesis by (simp add: safe_def)
qed

text \<open>The pending flag of one object.\<close>

definition set_pending :: "uuid \<Rightarrow> bool \<Rightarrow> core \<Rightarrow> core" where
  "set_pending i b k = k\<lparr>c_objs := (\<lambda>x. if xf_id x = i then x\<lparr>xf_pending := b\<rparr> else x) ` c_objs k\<rparr>"

lemma set_pending_simps [simp]:
  "c_agrs (set_pending i b k) = c_agrs k" "c_jobs (set_pending i b k) = c_jobs k"
  "c_arts (set_pending i b k) = c_arts k" "c_ints (set_pending i b k) = c_ints k"
  "c_reqs (set_pending i b k) = c_reqs k" "pairs (set_pending i b k) = pairs k"
  "finished (set_pending i b k) = finished k" "facts n (set_pending i b k) = facts n k"
  "tracked (set_pending i b k) a key = tracked k a key"
  by (simp_all add: set_pending_def)

lemma in_set_pending:
  assumes "x' \<in> c_objs (set_pending i b k)"
  obtains x where "x \<in> c_objs k" "xf_id x' = xf_id x" "xf_category x' = xf_category x" "xf_key x' = xf_key x"
    "xf_deletion x' = xf_deletion x" "xf_id x = i \<and> xf_pending x' = b \<or> x' = x"
proof -
  from assms obtain x where x: "x \<in> c_objs k" "x' = (if xf_id x = i then x\<lparr>xf_pending := b\<rparr> else x)"
    unfolding set_pending_def by auto
  show thesis by (rule that [of x]) (use x in auto)
qed

lemma ids_set_pending: "xf_id ` c_objs (set_pending i b k) = xf_id ` c_objs k"
  "xf_deletion ` c_objs (set_pending i b k) = xf_deletion ` c_objs k"
  unfolding set_pending_def by (simp_all add: image_image del: if_image_distrib) (rule image_cong; simp)+

lemma safe_set_pending:
  assumes s: "safe U n store k"
    and on: "\<forall>x \<in> c_objs k. xf_id x = i \<longrightarrow> b \<longrightarrow> xf_deletion x \<notin> finished k"
    and off: "\<forall>x \<in> c_objs k. xf_id x = i \<longrightarrow> \<not> b \<longrightarrow> xf_category x \<noteq> ''source'' \<longrightarrow>
      (\<forall>a c. (xf_deletion x, a) \<in> pairs k \<longrightarrow> store (xf_key x) \<noteq> Some (a, c))"
  shows "safe U n store (set_pending i b k)"
proof -
  let ?k = "set_pending i b k"
  have "wf_scope ?k"
  proof -
    have "x' = y'" if x': "x' \<in> c_objs ?k" and y': "y' \<in> c_objs ?k" and eq: "xf_id x' = xf_id y'" for x' y'
    proof -
      obtain x where x: "x \<in> c_objs k" "x' = (if xf_id x = i then x\<lparr>xf_pending := b\<rparr> else x)"
        using x' unfolding set_pending_def by auto
      obtain y where y: "y \<in> c_objs k" "y' = (if xf_id y = i then y\<lparr>xf_pending := b\<rparr> else y)"
        using y' unfolding set_pending_def by auto
      have "xf_id x = xf_id y" using x y eq by (auto split: if_splits)
      then have "x = y" using s x(1) y(1) unfolding safe_def wf_scope_def by blast
      then show ?thesis using x y by simp
    qed
    then show ?thesis using s unfolding safe_def wf_scope_def by simp
  qed
  moreover have "wf_facts n ?k" using s unfolding safe_def wf_facts_def by simp
  moreover have "wf_fresh U n ?k" using s unfolding safe_def wf_fresh_def ids_set_pending by simp
  moreover have "kept store ?k"
  proof (rule keptI)
    have kp: "kept store k" using s by (simp add: safe_def)
    show "tracked ?k a key" if "store key = Some (a, c)" "\<not> dead ?k a" for key a c
      using keptD(1) [OF kp that(1)] that(2) by simp
    show "pended ?k a key" if st: "store key = Some (a, c)" and d: "dead ?k a" for key a c
    proof -
      obtain x where x: "x \<in> c_objs k" "xf_pending x" "xf_category x \<noteq> ''source''" "xf_key x = key"
          "(xf_deletion x, a) \<in> pairs k"
        using keptD(2) [OF kp st] d unfolding pended_def by auto
      have "(if xf_id x = i then x\<lparr>xf_pending := b\<rparr> else x) \<in> c_objs ?k" using x(1) by (simp add: set_pending_def)
      moreover have "xf_id x = i \<longrightarrow> b" using off x st by blast
      ultimately show ?thesis using x unfolding pended_def by (intro bexI) auto
    qed
    show "\<forall>x \<in> c_objs ?k. xf_pending x \<longrightarrow> xf_deletion x \<notin> finished ?k"
    proof (intro ballI impI)
      fix x' assume "x' \<in> c_objs ?k" "xf_pending x'"
      then obtain x where "x \<in> c_objs k" "xf_deletion x' = xf_deletion x" "xf_id x = i \<and> b \<or> xf_pending x"
        by (auto elim!: in_set_pending)
      then show "xf_deletion x' \<notin> finished ?k" using on keptD(3) [OF kp] by auto
    qed
  qed
  moreover have "knows n store ?k"
    by (rule knows_objects [of n store k]) (use s in \<open>auto simp: safe_def elim!: in_set_pending\<close>)
  ultimately show ?thesis by (simp add: safe_def)
qed

text \<open>The acceptance of a deletion: the request, and a pending object for everything that is tracked.\<close>

definition accepted :: "uuid \<Rightarrow> uuid \<Rightarrow> obj_fact set \<Rightarrow> core \<Rightarrow> core" where
  "accepted a r os k = k
     \<lparr>c_agrs := (\<lambda>g. \<lparr>gf_id = gf_id g, gf_dead = gf_dead g \<or> gf_id g = a\<rparr>) ` c_agrs k,
      c_reqs := insert \<lparr>qf_id = r, qf_agreement = a, qf_done = False\<rparr> (c_reqs k),
      c_objs := os \<union> c_objs k\<rparr>"

lemma in_accepted:
  "\<lparr>gf_id = b, gf_dead = d\<rparr> \<in> c_agrs (accepted a r os k) \<longleftrightarrow>
     (\<exists>d'. \<lparr>gf_id = b, gf_dead = d'\<rparr> \<in> c_agrs k \<and> d = (d' \<or> b = a))"
proof
  assume "\<lparr>gf_id = b, gf_dead = d\<rparr> \<in> c_agrs (accepted a r os k)"
  then obtain g where g: "g \<in> c_agrs k" "b = gf_id g" "d = (gf_dead g \<or> gf_id g = a)"
    unfolding accepted_def by auto
  moreover have "g = \<lparr>gf_id = b, gf_dead = gf_dead g\<rparr>" using g(2) by (cases g) simp
  ultimately show "\<exists>d'. \<lparr>gf_id = b, gf_dead = d'\<rparr> \<in> c_agrs k \<and> d = (d' \<or> b = a)" by metis
next
  assume "\<exists>d'. \<lparr>gf_id = b, gf_dead = d'\<rparr> \<in> c_agrs k \<and> d = (d' \<or> b = a)"
  then show "\<lparr>gf_id = b, gf_dead = d\<rparr> \<in> c_agrs (accepted a r os k)"
    unfolding accepted_def by force
qed

lemma dead_accepted: "live k a \<Longrightarrow> dead (accepted a r os k) b \<longleftrightarrow> b = a \<or> dead k b"
  unfolding in_accepted by (metis (full_types))

lemma safe_accept:
  assumes s: "safe U n store k" and a: "live k a" and r: "r \<notin> U" "r \<notin> V"
    and new: "xf_id ` os = V" "V \<inter> U = {}" "inj_on xf_id os"
      "\<forall>x \<in> os. xf_deletion x = r \<and> xf_pending x"
    and all: "\<And>key. tracked k a key \<Longrightarrow> \<exists>x \<in> os. xf_key x = key \<and> xf_category x \<noteq> ''source''"
  shows "safe (insert r (V \<union> U)) n store (accepted a r os k)"
proof -
  let ?k = "accepted a r os k"
  have sc: "wf_scope k" and kp: "kept store k" and kn: "knows n store k" and fr: "wf_fresh U n k"
    using s by (simp_all add: safe_def)
  have na: "\<not> dead k a" using sc a unfolding wf_scope_def by blast
  have ps: "pairs ?k = insert (r, a) (pairs k)" by (simp add: accepted_def pairs_def)
  have fi: "finished ?k = finished k" by (auto simp: accepted_def finished_def)
  have fa: "facts n ?k = facts n k" and tr: "tracked ?k = tracked k"
    by (simp_all add: accepted_def facts_def tracked_def fun_eq_iff)
  have ob: "c_objs ?k = os \<union> c_objs k" by (simp add: accepted_def)
  have dd: "dead ?k b \<longleftrightarrow> b = a \<or> dead k b" for b by (rule dead_accepted [OF a])
  have lv: "live ?k b \<Longrightarrow> b \<noteq> a \<and> live k b" for b
    unfolding in_accepted by (metis (full_types))
  have nr: "p \<in> pairs k \<Longrightarrow> fst p \<noteq> r \<and> snd p \<noteq> a" for p
    using fr r(1) sc na unfolding wf_fresh_def wf_scope_def by auto
  have old: "x \<in> c_objs k \<Longrightarrow> xf_id x \<notin> V \<and> xf_deletion x \<noteq> r" for x
    using fr new(2) r(1) unfolding wf_fresh_def by auto
  have nf: "r \<notin> finished k" using nr unfolding finished_def pairs_def by force
  have "wf_scope ?k"
  proof -
    have "\<not> (dead ?k b \<and> live ?k b)" for b
      using lv [of b] dd [of b] sc unfolding wf_scope_def by blast
    moreover have "\<forall>p \<in> pairs ?k. dead ?k (snd p)" using sc unfolding wf_scope_def ps dd by auto
    moreover have "\<forall>p \<in> pairs ?k. \<forall>p' \<in> pairs ?k. (fst p = fst p') = (snd p = snd p')"
      using sc nr unfolding wf_scope_def ps by (simp add: eq_commute [of r] eq_commute [of a])
    moreover have "\<forall>x \<in> c_objs ?k. \<forall>y \<in> c_objs ?k. xf_id x = xf_id y \<longrightarrow> x = y"
    proof (intro ballI impI)
      fix x y assume x: "x \<in> c_objs ?k" and y: "y \<in> c_objs ?k" and e: "xf_id x = xf_id y"
      show "x = y"
      proof (cases "xf_id x \<in> V")
        case True
        then have "x \<in> os" "y \<in> os" using x y e old [of x] old [of y] unfolding ob by auto
        then show ?thesis using new(3) e by (auto dest: inj_onD)
      next
        case False
        then have "x \<notin> os" "y \<notin> os" using e new(1) by (metis imageI)+
        then have "x \<in> c_objs k" "y \<in> c_objs k" using x y unfolding ob by simp_all
        then show ?thesis using sc e unfolding wf_scope_def by blast
      qed
    qed
    ultimately show ?thesis unfolding wf_scope_def by simp
  qed
  moreover have "wf_facts n ?k" using s unfolding safe_def wf_facts_def fa by (simp add: accepted_def)
  moreover have "wf_fresh (insert r (V \<union> U)) n ?k"
  proof -
    have "gf_id ` c_agrs ?k \<subseteq> U"
      using fr unfolding wf_fresh_def accepted_def by auto
    moreover have "xf_deletion ` os \<subseteq> {r}" using new(4) by auto
    moreover have "rf_job ` c_arts ?k \<subseteq> U" using fr by (simp add: wf_fresh_def accepted_def)
    ultimately show ?thesis using fr new(1) unfolding wf_fresh_def fa ob ps by auto
  qed
  moreover have "kept store ?k"
  proof (rule keptI)
    fix key b c assume st: "store key = Some (b, c)"
    { assume "\<not> dead ?k b"
      then show "tracked ?k b key" using keptD(1) [OF kp st] dd tr by auto }
    assume d: "dead ?k b"
    show "pended ?k b key"
    proof (cases "b = a")
      case True
      then have "tracked k a key" using keptD(1) [OF kp st] na by simp
      then obtain x where "x \<in> os" "xf_key x = key" "xf_category x \<noteq> ''source''" using all by blast
      then show ?thesis using new(4) True unfolding pended_def ob ps by auto
    next
      case False
      then have "pended k b key" using d dd keptD(2) [OF kp st] by auto
      then show ?thesis unfolding pended_def ob ps by auto
    qed
  next
    show "\<forall>x \<in> c_objs ?k. xf_pending x \<longrightarrow> xf_deletion x \<notin> finished ?k"
      using keptD(3) [OF kp] new(4) nf unfolding ob fi by auto
  qed
  moreover have "knows n store ?k"
  proof -
    have kr: "\<forall>c \<in> k_claims n. fst c \<noteq> r" "\<forall>l \<in> k_listed n. fst l \<notin> V" "\<forall>e \<in> k_erased n. fst e \<notin> V"
      using fr r(1) new(2) unfolding wf_fresh_def by auto
    have "\<forall>p \<in> pairs ?k. \<forall>c \<in> k_claims n. fst p = fst c \<longrightarrow> p = c"
      using kn kr(1) unfolding knows_def ps by auto
    moreover have "\<forall>x \<in> c_objs ?k. \<forall>l \<in> k_listed n. xf_id x = fst l \<longrightarrow> l = (xf_id x, xf_category x, xf_key x)"
    proof (intro ballI impI)
      fix x l assume x: "x \<in> c_objs ?k" and l: "l \<in> k_listed n" "xf_id x = fst l"
      then have "x \<notin> os" using kr(2) new(1) by (metis imageI)
      then have "x \<in> c_objs k" using x unfolding ob by simp
      then show "l = (xf_id x, xf_category x, xf_key x)" using kn l unfolding knows_def by blast
    qed
    moreover have "\<forall>x \<in> c_objs ?k. \<forall>e \<in> k_erased n. xf_id x = fst e \<longrightarrow> xf_key x = snd e \<and>
        (\<forall>p \<in> pairs ?k. fst p = xf_deletion x \<longrightarrow> (\<forall>b. store (snd e) \<noteq> Some (snd p, b)))"
    proof (intro ballI impI)
      fix x e assume x: "x \<in> c_objs ?k" and e: "e \<in> k_erased n" "xf_id x = fst e"
      then have "x \<notin> os" using kr(3) new(1) by (metis imageI)
      then have xk: "x \<in> c_objs k" using x unfolding ob by simp
      have "xf_key x = snd e \<and> (\<forall>p \<in> pairs k. fst p = xf_deletion x \<longrightarrow> (\<forall>b. store (snd e) \<noteq> Some (snd p, b)))"
        using kn xk e unfolding knows_def by blast
      then show "xf_key x = snd e \<and> (\<forall>p \<in> pairs ?k. fst p = xf_deletion x \<longrightarrow> (\<forall>b. store (snd e) \<noteq> Some (snd p, b)))"
        using old [OF xk] unfolding ps by auto
    qed
    ultimately show ?thesis unfolding knows_def by blast
  qed
  ultimately show ?thesis by (simp add: safe_def)
qed

text \<open>The completion of a deletion with the purge of its rows.\<close>

definition purged :: "uuid \<Rightarrow> uuid \<Rightarrow> deletion_request_row set \<Rightarrow> core \<Rightarrow> core" where
  "purged a r qs k = k
     \<lparr>c_jobs := {f \<in> c_jobs k. jf_agreement f \<noteq> a}, c_arts := {f \<in> c_arts k. rf_agreement f \<noteq> a},
      c_ints := {f \<in> c_ints k. jf_agreement (if_job f) \<noteq> a}, c_reqs := req_fact ` qs,
      c_objs := {x \<in> c_objs k. xf_deletion x \<noteq> r}\<rparr>"

lemma safe_purged:
  assumes s: "safe U n store k" and p: "(r, a) \<in> pairs k"
    and q: "pairs (purged a r qs k) = pairs k" "finished (purged a r qs k) \<subseteq> insert r (finished k)"
    and none: "\<forall>x \<in> c_objs k. xf_deletion x = r \<longrightarrow> \<not> xf_pending x"
  shows "safe U n store (purged a r qs k)"
proof -
  let ?k = "purged a r qs k"
  have sc: "wf_scope k" and wf: "wf_facts n k" and kp: "kept store k" and kn: "knows n store k" and fr: "wf_fresh U n k"
    using s by (simp_all add: safe_def)
  have da: "dead k a" using sc p unfolding wf_scope_def by force
  have ag: "c_agrs ?k = c_agrs k" by (simp add: purged_def)
  have sub: "facts n ?k \<subseteq> facts n k" "c_arts ?k \<subseteq> c_arts k" "c_ints ?k \<subseteq> c_ints k" "c_objs ?k \<subseteq> c_objs k"
    by (auto simp: purged_def facts_def)
  have "wf_scope ?k" using sc sub(4) unfolding wf_scope_def ag q(1) by (meson subsetD)
  moreover have "wf_facts n ?k" by (rule wf_facts_mono [OF wf sub(1,2,3)])
  moreover have "wf_fresh U n ?k"
  proof -
    have "jf_id ` facts n ?k \<subseteq> U" "rf_job ` c_arts ?k \<subseteq> U" "xf_id ` c_objs ?k \<subseteq> U" "xf_deletion ` c_objs ?k \<subseteq> U"
      using fr image_mono [OF sub(1), of jf_id] image_mono [OF sub(2), of rf_job]
        image_mono [OF sub(4), of xf_id] image_mono [OF sub(4), of xf_deletion]
      unfolding wf_fresh_def by (meson subset_trans)+
    then show ?thesis using fr unfolding wf_fresh_def ag q(1) by simp
  qed
  moreover have "kept store ?k"
  proof (rule kept_mono [OF kp])
    show "dead ?k b = dead k b" for b by (simp add: ag)
    show "tracked ?k b key" if t: "tracked k b key" and nd: "\<not> dead k b" for b key
    proof -
      have ba: "b \<noteq> a" using nd da by blast
      from t consider (art) f j where "f \<in> c_arts k" "j \<in> c_jobs k" "rf_job f = jf_id j" "rf_agreement f = b"
          "rf_key f = key" "\<not> is_reindex (jf_profile j)"
        | (int) i where "i \<in> c_ints k" "jf_agreement (if_job i) = b" "if_key i = key"
        unfolding tracked_def by blast
      then show ?thesis
      proof cases
        case art
        have "j \<in> facts n k" using art(2) by (simp add: facts_def)
        then have "jf_agreement j = b" using wf_facts_art [OF wf art(1)] art(3,4) by metis
        then have "f \<in> c_arts ?k" "j \<in> c_jobs ?k" using art ba by (simp_all add: purged_def)
        then show ?thesis using art(3-6) unfolding tracked_def by blast
      next
        case int
        then have "i \<in> c_ints ?k" using ba by (simp add: purged_def)
        then show ?thesis using int(2,3) unfolding tracked_def by blast
      qed
    qed
    show "pended ?k b key" if t: "pended k b key" for b key
    proof -
      obtain x where x: "x \<in> c_objs k" "xf_pending x" "xf_category x \<noteq> ''source''" "xf_key x = key"
          "(xf_deletion x, b) \<in> pairs k"
        using t unfolding pended_def by blast
      then have "x \<in> c_objs ?k" using none by (auto simp: purged_def)
      then show ?thesis using x unfolding pended_def q(1) by blast
    qed
    show "\<forall>x \<in> c_objs ?k. xf_pending x \<longrightarrow> xf_deletion x \<notin> finished ?k"
      using keptD(3) [OF kp] q(2) by (auto simp: purged_def)
  qed
  moreover have "knows n store ?k"
    by (rule knows_objects [OF kn]) (use q(1) sub(4) in auto)
  ultimately show ?thesis by (simp add: safe_def)
qed

text \<open>The commit of an artifact of an agreement that is not being deleted.\<close>

lemma safe_commit:
  assumes s: "safe U n store k" and j: "j \<in> c_jobs k" "\<not> is_reindex (jf_profile j)" "\<not> dead k (jf_agreement j)"
    and i: "\<forall>i \<in> c_ints k. jf_id (if_job i) = jf_id j \<longrightarrow> if_key i = key"
    and st: "store' = store \<or> store' = store(key \<mapsto> (jf_agreement j, b))"
  shows "safe U n store' (k\<lparr>c_ints := {i \<in> c_ints k. jf_id (if_job i) \<noteq> jf_id j},
    c_arts := insert \<lparr>rf_job = jf_id j, rf_agreement = jf_agreement j, rf_key = key\<rparr> (c_arts k)\<rparr>)" (is "safe U n store' ?k")
proof -
  have sc: "wf_scope k" and wf: "wf_facts n k" and kp: "kept store k" and kn: "knows n store k" and fr: "wf_fresh U n k"
    using s by (simp_all add: safe_def)
  let ?r = "\<lparr>rf_job = jf_id j, rf_agreement = jf_agreement j, rf_key = key\<rparr>"
  have fj: "j \<in> facts n k" using j(1) by (simp add: facts_def)
  have sub: "facts n ?k \<subseteq> facts n k" by (auto simp: facts_def)
  have own: "jf_agreement f = jf_agreement j" if "f \<in> facts n k" "jf_id f = jf_id j" for f
    using wf fj that unfolding wf_facts_def by metis
  have here: "tracked ?k (jf_agreement j) key"
    unfolding tracked_def by (rule disjI1, rule bexI [of _ ?r], rule bexI [of _ j]) (use j in auto)
  have tr: "tracked ?k a y" if "tracked k a y" for a y
  proof -
    from that consider (art) "\<exists>r \<in> c_arts k. \<exists>j \<in> c_jobs k. rf_job r = jf_id j \<and> rf_agreement r = a \<and> rf_key r = y \<and>
        \<not> is_reindex (jf_profile j)"
      | (int) x where "x \<in> c_ints k" "jf_agreement (if_job x) = a" "if_key x = y"
      unfolding tracked_def by blast
    then show ?thesis
    proof cases
      case art
      then show ?thesis unfolding tracked_def by (simp; blast)
    next
      case int
      show ?thesis
      proof (cases "jf_id (if_job x) = jf_id j")
        case True
        have "a = jf_agreement j" using own [of "if_job x"] int True by (auto simp: facts_def)
        moreover have "y = key" using i int True by auto
        ultimately show ?thesis using here by simp
      next
        case False
        then show ?thesis using int unfolding tracked_def by auto
      qed
    qed
  qed
  have "wf_scope ?k" using sc unfolding wf_scope_def by simp
  moreover have "wf_facts n ?k"
  proof -
    let ?k0 = "k\<lparr>c_ints := {i \<in> c_ints k. jf_id (if_job i) \<noteq> jf_id j}\<rparr>"
    have "wf_facts n ?k0" by (rule wf_facts_mono [OF wf]) (auto simp: facts_def)
    moreover have "\<forall>f \<in> facts n ?k0. jf_id f = rf_job ?r \<longrightarrow> jf_agreement f = rf_agreement ?r"
      using own by (auto simp: facts_def)
    ultimately have "wf_facts n (?k0\<lparr>c_arts := insert ?r (c_arts ?k0)\<rparr>)" by (rule wf_facts_insert_art)
    moreover have "c_arts ?k0 = c_arts k" by simp
    ultimately show ?thesis by (simp only:)
  qed
  moreover have "wf_fresh U n ?k"
  proof -
    have u: "jf_id ` facts n k \<subseteq> U" using fr by (simp add: wf_fresh_def)
    have "jf_id ` facts n ?k \<subseteq> U" by (rule subset_trans [OF image_mono [OF sub] u])
    moreover have "jf_id j \<in> U" by (rule subsetD [OF u imageI [OF fj]])
    ultimately show ?thesis using fr unfolding wf_fresh_def by simp
  qed
  moreover have "kept store' ?k"
  proof (rule keptI)
    fix y a c assume y: "store' y = Some (a, c)"
    show "tracked ?k a y" if nd: "\<not> dead ?k a"
    proof (cases "store y = Some (a, c)")
      case True
      then show ?thesis using tr keptD(1) [OF kp True] nd by simp
    next
      case False
      then have "y = key \<and> a = jf_agreement j" using y st by (auto split: if_splits)
      then show ?thesis using here by simp
    qed
    show "pended ?k a y" if d: "dead ?k a"
    proof -
      have "store y = Some (a, c)" using y st d j(3) by (auto split: if_splits)
      then show ?thesis using keptD(2) [OF kp] d by simp
    qed
  next
    show "\<forall>x \<in> c_objs ?k. xf_pending x \<longrightarrow> xf_deletion x \<notin> finished ?k" using keptD(3) [OF kp] by simp
  qed
  moreover have "knows n store' ?k"
  proof -
    have "store' y \<noteq> Some (snd p, c)" if "p \<in> pairs k" "store y \<noteq> Some (snd p, c)" for p y c
      using that st j(3) sc unfolding wf_scope_def by (auto split: if_splits)
    then show ?thesis using kn unfolding knows_def by simp
  qed
  ultimately show ?thesis by (simp add: safe_def)
qed

end
