(* ===== verification/Deletion_Steps.thy ===== *)
theory Deletion_Steps
  imports Deletion_Machine
begin

text \<open>
  The operations of the workers and of the API keep the invariant of the deletion argument. \<open>good\<close> is
  the invariant of a database and an object store.
\<close>

definition good :: "known \<Rightarrow> object_store \<Rightarrow> 'z processing_db_scheme \<Rightarrow> bool" where
  "good n store s \<longleftrightarrow> inj (uuid_src s) \<and> safe (used_ids s) n store (core_of s)"

lemma goodI: "inj (uuid_src s) \<Longrightarrow> safe (used_ids s) n store (core_of s) \<Longrightarrow> good n store s"
  by (simp add: good_def)

lemma good_fresh: "good n store s \<Longrightarrow> uuid4 s \<notin> used_ids s"
  by (simp add: good_def uuid4_fresh)

lemma used_ids_mono: "uuid_src s' = uuid_src s \<Longrightarrow> uuid_used s \<le> uuid_used s' \<Longrightarrow> used_ids s \<subseteq> used_ids s'"
  unfolding used_ids_def by (simp add: image_mono)

text \<open>An operation that keeps the view keeps the invariant.\<close>

lemma good_same:
  assumes "good n store s" "core_of s' = core_of s" "uuid_src s' = uuid_src s" "uuid_used s \<le> uuid_used s'"
  shows "good n store s'"
  using assms safe_used [OF _ used_ids_mono] unfolding good_def by metis

definition same_view :: "'z processing_db_scheme \<Rightarrow> 'z processing_db_scheme \<Rightarrow> bool" where
  "same_view s s' \<longleftrightarrow> core_of s' = core_of s \<and> uuid_src s' = uuid_src s \<and> uuid_used s \<le> uuid_used s'"

lemma same_view_refl [simp]: "same_view s s"
  by (simp add: same_view_def)

lemma same_view_trans [trans]: "same_view s s' \<Longrightarrow> same_view s' s'' \<Longrightarrow> same_view s s''"
  by (auto simp: same_view_def)

lemma good_view: "good n store s \<Longrightarrow> same_view s s' \<Longrightarrow> good n store s'"
  using good_same by (auto simp: same_view_def)

lemma good_draw [simp]: "good n store s \<Longrightarrow> good n store (draw s)"
  by (rule good_same [of n store s]) simp_all

lemma good_scope: "good n store s \<Longrightarrow> wf_scope (core_of s)"
  and good_facts: "good n store s \<Longrightarrow> wf_facts n (core_of s)"
  by (simp_all add: good_def safe_def)

section \<open>Requests\<close>

lemma core_update_request:
  "core_of (update_request p f s) = (core_of s)\<lparr>c_reqs := req_fact ` set (update_where p f (deletion_requests s))\<rparr>"
  by (simp add: core_of_def update_request_def)

lemma request_pair: "q \<in> set (deletion_requests s) \<Longrightarrow> (dr_id q, dr_agreement q) \<in> pairs (core_of s)"
  by (force simp: pairs_def core_of_def req_fact_def)

lemma request_agreement:
  assumes "wf_scope (core_of s)" "q \<in> set (deletion_requests s)" "q' \<in> set (deletion_requests s)" "dr_id q = dr_id q'"
  shows "dr_agreement q = dr_agreement q'"
  using assms request_pair [of q s] request_pair [of q' s] unfolding wf_scope_def by (metis fst_conv snd_conv)

lemma finished_iff: "r \<in> finished (core_of s) \<longleftrightarrow> (\<exists>q \<in> set (deletion_requests s). dr_id q = r \<and> dr_state q = DCompleted)"
  by (force simp: finished_def core_of_def req_fact_def)

definition keeps_request :: "deletion_request_row \<Rightarrow> deletion_request_row \<Rightarrow> bool" where
  "keeps_request q q' \<longleftrightarrow> dr_id q' = dr_id q \<and> dr_agreement q' = dr_agreement q \<and>
     (dr_state q' = DCompleted \<longrightarrow> dr_state q = DCompleted)"

lemma image_update_same_set:
  assumes "\<And>x. x \<in> set xs \<Longrightarrow> p x \<Longrightarrow> g (f x) = g x"
  shows "g ` set (update_where p f xs) = g ` set xs"
  using assms by (induction xs) auto

lemma pairs_update_request:
  assumes "\<forall>q \<in> set (deletion_requests s). p q \<longrightarrow> dr_id (f q) = dr_id q \<and> dr_agreement (f q) = dr_agreement q"
  shows "pairs ((core_of s)\<lparr>c_reqs := req_fact ` set (update_where p f (deletion_requests s))\<rparr>) = pairs (core_of s)"
proof -
  let ?g = "\<lambda>q. (dr_id q, dr_agreement q)"
  have "?g ` set (update_where p f (deletion_requests s)) = ?g ` set (deletion_requests s)"
    by (rule image_update_same_set) (use assms in auto)
  then show ?thesis by (simp add: pairs_def core_of_def image_image req_fact_def)
qed

lemma safe_update_request:
  assumes s: "safe U n store (core_of s)"
    and k: "\<forall>q \<in> set (deletion_requests s). p q \<longrightarrow> keeps_request q (f q)"
  shows "safe U n store (core_of (update_request p f s))"
  unfolding core_update_request
proof (rule safe_requests [OF s])
  show "pairs ((core_of s)\<lparr>c_reqs := req_fact ` set (update_where p f (deletion_requests s))\<rparr>) = pairs (core_of s)"
    by (rule pairs_update_request) (use k in \<open>simp add: keeps_request_def\<close>)
  show "finished ((core_of s)\<lparr>c_reqs := req_fact ` set (update_where p f (deletion_requests s))\<rparr>) \<subseteq> finished (core_of s)"
  proof
    fix r assume "r \<in> finished ((core_of s)\<lparr>c_reqs := req_fact ` set (update_where p f (deletion_requests s))\<rparr>)"
    then obtain q where q: "q \<in> set (deletion_requests s)" "dr_id (if p q then f q else q) = r"
        "dr_state (if p q then f q else q) = DCompleted"
      by (auto simp: finished_def in_update_where req_fact_def)
    then have "dr_id q = r" "dr_state q = DCompleted" using k by (auto simp: keeps_request_def split: if_splits)
    then show "r \<in> finished (core_of s)" using q(1) by (auto simp: finished_iff)
  qed
qed

lemma good_update_request:
  assumes "good n store s" "\<forall>q \<in> set (deletion_requests s). p q \<longrightarrow> keeps_request q (f q)"
  shows "good n store (update_request p f s)"
  using assms safe_update_request [OF _ assms(2)] unfolding good_def by (simp add: update_request_def)

lemma keeps_rows [simp]:
  "keeps_request q (claimed_request t l now q)" "keeps_request q (retrying_request c m x now q)"
  "keeps_request q (failed_request c m now q)" "keeps_request q (reopened_request now q)"
  "keeps_request q (redriven_request now q)" "keeps_request q (q\<lparr>dr_lease_expires_at := e, dr_updated_at := now\<rparr>)"
  by (simp_all add: keeps_request_def claimed_request_def retrying_request_def failed_request_def
      reopened_request_def redriven_request_def Let_def)

text \<open>An update of a row by its id.\<close>

lemma keeps_by_id:
  assumes "wf_scope (core_of s)" "r \<in> set (deletion_requests s)" "keeps_request r r'" "dr_state r' \<noteq> DCompleted"
  shows "\<forall>q \<in> set (deletion_requests s). dr_id q = dr_id r \<longrightarrow> keeps_request q r'"
  using assms request_agreement [OF assms(1)] unfolding keeps_request_def by metis

section \<open>Late artifacts\<close>

definition pending_fact :: "uuid \<Rightarrow> deletion_request_row \<Rightarrow> string \<Rightarrow> string \<Rightarrow> obj_fact" where
  "pending_fact i r category key = \<lparr>xf_id = i, xf_deletion = dr_id r, xf_category = category, xf_key = key,
     xf_pending = True\<rparr>"

lemma core_pend_object:
  "core_of (pend_object r category key now s) =
     (case find (\<lambda>d. do_deletion d = dr_id r \<and> do_category d = category \<and> do_key d = key) (deletion_objects s) of
        None \<Rightarrow> (core_of s)\<lparr>c_objs := insert (pending_fact (uuid4 s) r category key) (c_objs (core_of s))\<rparr>
      | Some d \<Rightarrow> if do_state d \<noteq> OPending then set_pending (do_id d) True (core_of s) else core_of s)"
proof -
  let ?f = "\<lambda>e. e\<lparr>do_state := OPending, do_last_error := None, do_updated_at := now\<rparr>"
  have "obj_fact ` set (update_where (\<lambda>e. do_id e = i) ?f (deletion_objects s)) =
      (\<lambda>x. if xf_id x = i then x\<lparr>xf_pending := True\<rparr> else x) ` (obj_fact ` set (deletion_objects s))" for i
    unfolding set_update_where image_image by (rule image_cong) (simp_all add: obj_fact_def)
  then have "core_of (s\<lparr>deletion_objects := update_where (\<lambda>e. do_id e = i) ?f (deletion_objects s)\<rparr>) =
      set_pending i True (core_of s)" for i
    by (simp add: core_of_def set_pending_def del: if_image_distrib)
  then show ?thesis
    unfolding pend_object_def
    by (simp add: option.case_distrib [of core_of] split: option.split)
      (simp add: core_of_def draw_def obj_fact_def pending_fact_def)
qed

lemma pend_object_frame [simp]:
  "uuid_src (pend_object r category key now s) = uuid_src s"
  "deletion_requests (pend_object r category key now s) = deletion_requests s"
  "uuid_used s \<le> uuid_used (pend_object r category key now s)"
  by (simp_all add: pend_object_def split: option.split)

lemma used_pend_object:
  "used_ids (pend_object r category key now s) =
     (if find (\<lambda>d. do_deletion d = dr_id r \<and> do_category d = category \<and> do_key d = key) (deletion_objects s) = None
      then insert (uuid4 s) (used_ids s) else used_ids s)"
  by (simp add: pend_object_def split: option.split)

text \<open>The request is reopened with its object pending; the order of the two writes does not matter.\<close>

lemma pend_reopen_swap:
  "update_request p f (pend_object r category key now s) = pend_object r category key now (update_request p f s)"
  unfolding pend_object_def update_request_def by (simp add: draw_def uuid4_def split: option.split)

lemma good_pend:
  assumes g: "good n store s" and r: "dr_id r \<in> fst ` pairs (core_of s)" "dr_id r \<notin> finished (core_of s)"
  shows "good n store (pend_object r category key now s)"
proof (rule goodI)
  have s: "safe (used_ids s) n store (core_of s)" and inj: "inj (uuid_src s)" using g by (simp_all add: good_def)
  show "inj (uuid_src (pend_object r category key now s))" using inj by simp
  show "safe (used_ids (pend_object r category key now s)) n store (core_of (pend_object r category key now s))"
  proof (cases "find (\<lambda>d. do_deletion d = dr_id r \<and> do_category d = category \<and> do_key d = key) (deletion_objects s)")
    case None
    have "dr_id r \<in> used_ids s" using s r(1) unfolding safe_def wf_fresh_def by (meson subsetD)
    then have "safe (insert (xf_id (pending_fact (uuid4 s) r category key)) (used_ids s)) n store
        ((core_of s)\<lparr>c_objs := insert (pending_fact (uuid4 s) r category key) (c_objs (core_of s))\<rparr>)"
      using r(2) good_fresh [OF g] by (intro safe_new_object [OF s]) (simp_all add: pending_fact_def)
    then show ?thesis unfolding core_pend_object used_pend_object by (simp add: None pending_fact_def)
  next
    case (Some d)
    have d: "d \<in> set (deletion_objects s)" "do_deletion d = dr_id r" using find_SomeD [OF Some] by simp_all
    have "safe (used_ids s) n store (set_pending (do_id d) True (core_of s))"
    proof (rule safe_set_pending [OF s])
      have "x = obj_fact d" if "x \<in> c_objs (core_of s)" "xf_id x = do_id d" for x
        using good_scope [OF g] in_core(6) [OF d(1)] that unfolding wf_scope_def by (simp add: obj_fact_def)
      then show "\<forall>x \<in> c_objs (core_of s). xf_id x = do_id d \<longrightarrow> True \<longrightarrow> xf_deletion x \<notin> finished (core_of s)"
        using d(2) r(2) by (metis obj_fact_def obj_fact.select_convs(2))
    qed simp
    then show ?thesis using s unfolding core_pend_object used_pend_object by (simp add: Some)
  qed
qed

lemma good_inventory:
  assumes g: "good n store s" and i: "inventory_late_artifact x key now s = Inr s'"
  shows "good n store s'" "c_agrs (core_of s') = c_agrs (core_of s)" "c_ints (core_of s') = c_ints (core_of s)"
    "intents s' = intents s" "jobs s' = jobs s"
proof -
  obtain r profile where r: "active_request s x = Some r" "cx_profile x = Some profile"
    using i unfolding inventory_late_artifact_def by (auto simp: result_simps)
  have rs: "r \<in> set (deletion_requests s)" using find_SomeD [OF r(1) [unfolded active_request_def]] by simp
  have all: "good n store s' \<and> c_agrs (core_of s') = c_agrs (core_of s) \<and> c_ints (core_of s') = c_ints (core_of s) \<and>
      intents s' = intents s \<and> jobs s' = jobs s"
  proof (cases "late_artifact_category profile key")
    case None
    then show ?thesis using i r g by (simp add: inventory_late_artifact_def)
  next
    case (Some category)
    let ?s1 = "update_request (\<lambda>q. dr_id q = dr_id r) (\<lambda>_. reopened_request now r) s"
    let ?s2 = "pend_object r category key now ?s1"
    have nc: "dr_state (reopened_request now r) \<noteq> DCompleted" by (simp add: reopened_request_def Let_def)
    have g1: "good n store ?s1"
      by (rule good_update_request [OF g keeps_by_id [OF good_scope [OF g] rs keeps_rows(4) nc]])
    have "dr_id q \<noteq> dr_id r \<or> dr_state q \<noteq> DCompleted" if "q \<in> set (deletion_requests ?s1)" for q
      using that by (auto simp: update_request_def in_update_where reopened_request_def Let_def split: if_splits)
    then have "dr_id r \<notin> finished (core_of ?s1)" unfolding finished_iff by blast
    moreover have "reopened_request now r \<in> set (deletion_requests ?s1)"
      using rs by (force simp: update_request_def in_update_where)
    then have "dr_id r \<in> fst ` pairs (core_of ?s1)"
      using request_pair [of "reopened_request now r" ?s1] by (force simp: reopened_request_def Let_def)
    ultimately have g2: "good n store ?s2" by (intro good_pend [OF g1])
    have s': "s' = rearm_outbox r now ?s2"
      using i r Some unfolding inventory_late_artifact_def pend_reopen_swap [symmetric]
      by (simp add: update_request_def Let_def)
    have "good n store s'" unfolding s'
      by (rule good_same [OF g2 core_outbox]) (simp_all add: rearm_outbox_def)
    moreover have "c_agrs (core_of s') = c_agrs (core_of s) \<and> c_ints (core_of s') = c_ints (core_of s)"
      unfolding s' core_outbox core_pend_object by (simp add: core_update_request split: option.split)
    moreover have "intents s' = intents s \<and> jobs s' = jobs s"
      unfolding s' by (simp add: rearm_outbox_def pend_object_def update_request_def split: option.split)
    ultimately show ?thesis by simp
  qed
  show "good n store s'" "c_agrs (core_of s') = c_agrs (core_of s)" "c_ints (core_of s') = c_ints (core_of s)"
    "intents s' = intents s" "jobs s' = jobs s"
    using all by simp_all
qed

lemma good_delete_intents:
  assumes g: "good n store s" and d: "\<forall>i \<in> set (intents s). in_job i = j \<longrightarrow> dead (core_of s) (in_agreement i)"
  shows "good n store (delete_intents j s)"
proof (rule goodI)
  show "inj (uuid_src (delete_intents j s))" using g by (simp add: good_def delete_intents_def)
  have "\<forall>f \<in> c_ints (core_of s). jf_id (if_job f) = j \<longrightarrow> dead (core_of s) (jf_agreement (if_job f))"
    using d by (simp add: core_of_def int_fact_def)
  then have "safe (used_ids s) n store ((core_of s)\<lparr>c_ints := {f \<in> c_ints (core_of s). jf_id (if_job f) \<noteq> j}\<rparr>)"
    using g by (intro safe_drop_intents) (simp_all add: good_def)
  then show "safe (used_ids (delete_intents j s)) n store (core_of (delete_intents j s))"
    by (simp add: core_delete_intents)
qed

lemma intent_unique:
  assumes "wf_facts n (core_of s)" "i \<in> set (intents s)" "i' \<in> set (intents s)" "in_job i = in_job i'"
  shows "int_fact i = int_fact i'"
proof -
  have "jf_id (if_job (int_fact i)) = jf_id (if_job (int_fact i'))" using assms(4) by (simp add: int_fact_def)
  then show ?thesis using assms(1) in_core(2) [OF assms(2)] in_core(2) [OF assms(3)] unfolding wf_facts_def by blast
qed

lemma good_reconcile:
  assumes g: "good n store s" and i: "i \<in> set (intents s)" and d: "dead (core_of s) (in_agreement i)"
    and r: "reconcile_artifact_intent i now s = Inr s'"
  shows "good n store s'"
proof -
  obtain s1 where s1: "inventory_late_artifact (intent_context i) (in_key i) now s = Inr s1"
      and s': "s' = delete_intents (in_job i) s1"
    using r unfolding reconcile_artifact_intent_def by (auto simp: result_simps)
  note inv = good_inventory [OF g s1]
  have "in_agreement i' = in_agreement i" if "i' \<in> set (intents s)" "in_job i' = in_job i" for i'
    using intent_unique [OF good_facts [OF g] that(1) i that(2)] by (simp add: int_fact_def)
  then show ?thesis unfolding s' using inv(2,4) d by (intro good_delete_intents [OF inv(1)]) simp
qed

lemma dead_agreement:
  assumes "agreement_for_update s x = Some a" "ag_deletion_requested_at a \<noteq> None"
  shows "dead (core_of s) (cx_agreement x)"
  using agreement_for_updateD [OF assms(1)] assms(2) by (simp add: agr_fact_def)

lemma live_agreement:
  assumes "agreement_for_update s x = Some a" "ag_deletion_requested_at a = None"
  shows "live (core_of s) (cx_agreement x)"
  using agreement_for_updateD [OF assms(1)] assms(2) by (simp add: agr_fact_def)

section \<open>Jobs\<close>

definition claim_fact :: "processing_job \<Rightarrow> job_fact" where
  "claim_fact c = \<lparr>jf_id = pj_id c, jf_agreement = pj_agreement c, jf_org = the (pj_org c), jf_ws = the (pj_ws c),
     jf_profile = the (pj_profile c)\<rparr>"

definition complete_claim :: "processing_job \<Rightarrow> bool" where
  "complete_claim c \<longleftrightarrow> pj_org c \<noteq> None \<and> pj_ws c \<noteq> None \<and> pj_profile c \<noteq> None"

text \<open>Updates of job rows, job states and comparison runs keep the view.\<close>

lemma good_update_job:
  assumes "good n store s" "\<And>j. job_fact (f j) = job_fact j"
  shows "good n store (update_job i f s)"
  by (rule good_same [OF assms(1) core_update_job [OF assms(2)]]) (simp_all add: update_job_def)

lemma state_frame [simp]:
  "uuid_src (update_agreement_processing_state job st now s) = uuid_src s"
  "uuid_used (update_agreement_processing_state job st now s) = uuid_used s"
  unfolding update_agreement_processing_state_def Let_def by (cases "jb_version job"; simp)+

lemma good_state:
  assumes "good n store s"
  shows "good n store (update_agreement_processing_state job st now s)"
  by (rule good_same [OF assms core_state]) simp_all

lemma good_comparison:
  assumes "good n store s"
  shows "good n store (fail_comparison job c m now s)"
  by (rule good_same [OF assms core_comparison]) (simp_all add: fail_comparison_def)

lemma good_tombstoned:
  assumes g: "good n store s" and a: "agreement_for_update s (job_context job) = Some a" "ag_deletion_requested_at a \<noteq> None"
    and j: "job \<in> set (jobs s)" and i: "artifact_intent s (jb_id job) og ws = Some i"
    and r: "reconcile_artifact_intent i now s = Inr s'"
  shows "good n store s'"
proof -
  have i': "i \<in> set (intents s)" "in_job i = jb_id job" using artifact_intentD [OF i] by simp_all
  have "if_job (int_fact i) = job_fact job"
  proof -
    have "if_job (int_fact i) \<in> facts n (core_of s)" "job_fact job \<in> facts n (core_of s)"
      using in_core(1) [OF j] in_core(2) [OF i'(1)] by (auto simp: facts_def)
    moreover have "jf_id (if_job (int_fact i)) = jf_id (job_fact job)" using i'(2) by (simp add: int_fact_def job_fact_def)
    ultimately show ?thesis using good_facts [OF g] unfolding wf_facts_def by blast
  qed
  then have "in_agreement i = jb_agreement job" by (simp add: int_fact_def job_fact_def)
  then have "dead (core_of s) (in_agreement i)" using dead_agreement [OF a] by (simp add: job_context_def)
  then show ?thesis by (rule good_reconcile [OF g i'(1) _ r])
qed

lemma good_claim_job:
  assumes g: "good n store s" and c: "claim_job now i og ws s = Inr (c, s')"
  shows "good n store s' \<and> (\<forall>j. c = Some j \<longrightarrow> complete_claim j \<and> claim_fact j \<in> c_jobs (core_of s'))"
proof (cases "job_for_update s i")
  case None
  obtain u where w: "claim_without_job now i og ws s = Inr s'" "c = None"
    using c None unfolding claim_job_def by (auto simp: result_simps)
  have "good n store s'"
  proof (cases "artifact_intent s i og ws")
    case None
    then show ?thesis using w(1) g by (simp add: claim_without_job_def)
  next
    case (Some x)
    then obtain a where a: "agreement_for_update s (intent_context x) = Some a" "ag_deletion_requested_at a \<noteq> None"
        and r: "reconcile_artifact_intent x now s = Inr s'"
      using w(1) by (auto simp: claim_without_job_def split: option.splits if_splits)
    have "dead (core_of s) (in_agreement x)" using dead_agreement [OF a] by (simp add: intent_context_def)
    then show ?thesis using artifact_intentD [OF Some] by (intro good_reconcile [OF g _ _ r]) simp_all
  qed
  then show ?thesis using w(2) by simp
next
  case (Some job)
  note j = job_for_updateD [OF Some]
  show ?thesis
  proof (cases "matches_tenant_scope (job_context job) og ws \<and> agreement_for_update s (job_context job) \<noteq> None")
    case False
    then show ?thesis using c Some g unfolding claim_job_def by (auto simp: result_simps split: option.splits if_splits)
  next
    case True
    then obtain a where m: "matches_tenant_scope (job_context job) og ws" "agreement_for_update s (job_context job) = Some a"
      by blast
    show ?thesis
    proof (cases "ag_deletion_requested_at a = None")
      case False
      then have t: "claim_tombstoned now job og ws s = Inr s'" "c = None"
        using c Some m unfolding claim_job_def by (auto simp: result_simps)
      have "good n store s'"
      proof (cases "artifact_intent s (jb_id job) og ws")
        case None
        then show ?thesis using t(1) g by (simp add: claim_tombstoned_def split: if_splits)
      next
        case (Some x)
        then have "reconcile_artifact_intent x now s = Inr s'" using t(1) by (simp add: claim_tombstoned_def split: if_splits)
        then show ?thesis using good_tombstoned [OF g m(2) False _ Some] j by blast
      qed
      then show ?thesis using t(2) by simp
    next
      case True
      let ?s1 = "update_job i (take_claim (uuid4 s) now) (draw s)"
      have g1: "good n store ?s1" by (rule good_update_job [OF good_draw [OF g]]) simp
      have g2: "good n store (claim_settled now job s)"
        unfolding claim_settled_def using good_update_job [OF g, of "completed_row now"]
        by (cases "jb_state job = JCompleted") (simp_all add: good_state g)
      have f: "claim_fact (claimed_job job (uuid4 s) now) = job_fact job" "complete_claim (claimed_job job (uuid4 s) now)"
        by (simp_all add: claim_fact_def claimed_job_def job_fact_def complete_claim_def)
      have k: "c_jobs (core_of (update_agreement_processing_state job JProcessing now ?s1)) = c_jobs (core_of s)"
        by (simp add: core_state core_update_job)
      show ?thesis
        using c Some m True g g2 good_state [OF g1] f k in_core(1) [of job s] j
        unfolding claim_job_def by (auto simp: result_simps Let_def split: if_splits)
    qed
  qed
qed

text \<open>A claim that is held agrees with the rows of its job.\<close>

lemma held_intent:
  assumes g: "good n store s" and c: "claim_fact c \<in> k_held n" and i: "i \<in> set (intents s)" "in_job i = pj_id c"
  shows "if_job (int_fact i) = claim_fact c"
proof -
  have "if_job (int_fact i) \<in> facts n (core_of s)" "claim_fact c \<in> facts n (core_of s)"
    using c in_core(2) [OF i(1)] by (auto simp: facts_def)
  moreover have "jf_id (if_job (int_fact i)) = jf_id (claim_fact c)" using i(2) by (simp add: int_fact_def claim_fact_def)
  ultimately show ?thesis using good_facts [OF g] unfolding wf_facts_def by blast
qed

lemma held_job:
  assumes g: "good n store s" and c: "claim_fact c \<in> k_held n" and j: "j \<in> set (jobs s)" "jb_id j = pj_id c"
  shows "job_fact j = claim_fact c"
proof -
  have "job_fact j \<in> facts n (core_of s)" "claim_fact c \<in> facts n (core_of s)"
    using c in_core(1) [OF j(1)] by (auto simp: facts_def)
  moreover have "jf_id (job_fact j) = jf_id (claim_fact c)" using j(2) by (simp add: job_fact_def claim_fact_def)
  ultimately show ?thesis using good_facts [OF g] unfolding wf_facts_def by blast
qed

lemma category_profile:
  assumes "late_artifact_category (profile_or_empty c) key = Some category" "complete_claim c"
  shows "\<not> is_reindex (jf_profile (claim_fact c))" "category \<noteq> ''source''"
  using assms by (auto simp: late_artifact_category_def profile_or_empty_def claim_fact_def complete_claim_def
      split: if_splits)

lemma core_insert_intent:
  "core_of (draw s\<lparr>intents := intents s @ [i]\<rparr>) = (core_of s)\<lparr>c_ints := insert (int_fact i) (c_ints (core_of s))\<rparr>"
  by (simp add: core_of_def draw_def)

lemma good_record_intent:
  assumes g: "good n store s" and c: "claim_fact c \<in> k_held n" "complete_claim c"
    and sc: "pj_org c = Some og" "pj_ws c = Some ws"
    and cat: "late_artifact_category (profile_or_empty c) key = Some category"
    and r: "record_intent now c og ws category key s = Inr (i, s')"
  shows "good n store s'" "i \<in> set (intents s')" "if_job (int_fact i) = claim_fact c"
    "c_agrs (core_of s') = c_agrs (core_of s)" "in_job i = pj_id c"
proof -
  have all: "good n store s' \<and> i \<in> set (intents s') \<and> if_job (int_fact i) = claim_fact c \<and>
      c_agrs (core_of s') = c_agrs (core_of s) \<and> in_job i = pj_id c"
  proof (cases "artifact_intent s (pj_id c) (Some og) (Some ws)")
    case None
    let ?i = "intent_values c og ws category key now (uuid4 s)"
    have e: "i = ?i" "s' = draw s\<lparr>intents := intents s @ [?i]\<rparr>"
      using r None by (auto simp: record_intent_def Let_def)
    have f: "if_job (int_fact ?i) = claim_fact c"
      using c(2) sc by (auto simp: int_fact_def intent_values_def claim_fact_def complete_claim_def)
    have "\<forall>x \<in> c_ints (core_of s). jf_id (if_job x) \<noteq> jf_id (if_job (int_fact ?i))"
    proof
      fix x assume "x \<in> c_ints (core_of s)"
      then obtain y where y: "y \<in> set (intents s)" "x = int_fact y" by (auto simp: core_of_def)
      have "in_job y \<noteq> pj_id c"
      proof
        assume j: "in_job y = pj_id c"
        then have "if_job (int_fact y) = claim_fact c" by (rule held_intent [OF g c(1) y(1)])
        then have "in_org y = og" "in_ws y = ws" using sc by (auto simp: int_fact_def claim_fact_def)
        then show False using None y(1) j by (auto simp: artifact_intent_def find_None_iff')
      qed
      then show "jf_id (if_job x) \<noteq> jf_id (if_job (int_fact ?i))"
        using y(2) f by (simp add: int_fact_def claim_fact_def intent_values_def)
    qed
    moreover have "claim_fact c \<in> facts n (core_of s)" using c(1) by (simp add: facts_def)
    moreover have "if_category (int_fact ?i) = category" by (simp add: int_fact_def intent_values_def)
    ultimately have "safe (used_ids s) n store ((core_of s)\<lparr>c_ints := insert (int_fact ?i) (c_ints (core_of s))\<rparr>)"
      using g f category_profile [OF cat c(2)] by (intro safe_add_intent) (simp_all add: good_def)
    then have "safe (insert (uuid4 s) (used_ids s)) n store (core_of s')"
      unfolding e(2) core_insert_intent by (rule safe_used) auto
    moreover have "used_ids s' = insert (uuid4 s) (used_ids s)" unfolding e(2) by simp
    ultimately have "good n store s'" using g e(2) by (simp add: good_def)
    then show ?thesis using e f core_insert_intent [of s ?i] by (simp add: intent_values_def)
  next
    case (Some x)
    then have "s' = s" "i = x" using r by (simp_all add: record_intent_def split: if_splits)
    then show ?thesis using g artifact_intentD [OF Some] held_intent [OF g c(1)] by auto
  qed
  then show "good n store s'" "i \<in> set (intents s')" "if_job (int_fact i) = claim_fact c"
    "c_agrs (core_of s') = c_agrs (core_of s)" "in_job i = pj_id c" by blast+
qed

lemma good_intent_state:
  assumes "good n store s" "\<And>i. int_fact (f i) = int_fact i"
  shows "good n store (s\<lparr>intents := update_where p f (intents s)\<rparr>)"
  by (rule good_same [OF assms(1) core_int_state [OF assms(2)]]) simp_all

lemma good_expect_artifact:
  assumes g: "good n store s" and c: "claim_fact c \<in> k_held n" "complete_claim c"
    and e: "expect_artifact now c artifact s = Inr (ok, s')"
  shows "good n store s'"
proof -
  obtain og ws where sc: "pj_org c = Some og" "pj_ws c = Some ws" using c(2) by (auto simp: complete_claim_def)
  show ?thesis
  proof (cases "late_artifact_category (profile_or_empty c) (ca_key artifact)")
    case None
    then show ?thesis using e g sc by (simp add: expect_artifact_def required_tenant_scope_def)
  next
    case (Some category)
    note e' = e [unfolded expect_artifact_def, simplified sc required_tenant_scope_def Some, simplified]
    show ?thesis
    proof (cases "agreement_for_update s (claimed_context c)")
      case None
      then show ?thesis using e' g by simp
    next
      case (Some a)
      show ?thesis
      proof (cases "job_for_update s (pj_id c)")
        case None
        then show ?thesis using e' Some g by simp
      next
        case (Some job)
        note e2 = e' [unfolded Some \<open>agreement_for_update s (claimed_context c) = Some a\<close>, simplified]
        show ?thesis
        proof (cases "owns_claim job (Some c)")
          case False
          then show ?thesis using e2 g by simp
        next
          case True
          then obtain i s1 where r: "record_intent now c og ws category (ca_key artifact) s = Inr (i, s1)"
            using e2 by (cases "record_intent now c og ws category (ca_key artifact) s") auto
          note rec = good_record_intent [OF g c sc \<open>late_artifact_category _ _ = Some category\<close> r]
          show ?thesis
          proof (cases "ag_deletion_requested_at a = None")
            case False
            then have "reconcile_artifact_intent i now s1 = Inr s'" using e2 True r by (auto simp: result_simps)
            moreover have "in_agreement i = pj_agreement c"
              using rec(3) by (simp add: int_fact_def claim_fact_def)
            then have "dead (core_of s1) (in_agreement i)"
              using dead_agreement [OF \<open>agreement_for_update s (claimed_context c) = Some a\<close> False] rec(4)
              by (simp add: claimed_context_def)
            ultimately show ?thesis by (intro good_reconcile [OF rec(1,2)])
          next
            case live: True
            then show ?thesis using e2 True r good_intent_state [OF rec(1)] rec(1)
              by (auto simp: int_fact_def split: if_splits)
          qed
        qed
      qed
    qed
  qed
qed

section \<open>The commit\<close>

lemma safe_write:
  assumes s: "safe U n store k" and a: "\<not> dead k a" "tracked k a key"
  shows "safe U n (store(key \<mapsto> (a, b))) k"
proof -
  have sc: "wf_scope k" and kp: "kept store k" and kn: "knows n store k" using s by (simp_all add: safe_def)
  have "kept (store(key \<mapsto> (a, b))) k"
  proof (rule keptI)
    fix y x c assume y: "(store(key \<mapsto> (a, b))) y = Some (x, c)"
    show "tracked k x y" if "\<not> dead k x" using y a keptD(1) [OF kp] that by (auto split: if_splits)
    show "pended k x y" if "dead k x" using y a keptD(2) [OF kp] that by (auto split: if_splits)
  qed (rule keptD(3) [OF kp])
  moreover have "knows n (store(key \<mapsto> (a, b))) k"
  proof -
    have "(store(key \<mapsto> (a, b))) y \<noteq> Some (snd p, c)" if "p \<in> pairs k" "store y \<noteq> Some (snd p, c)" for p y c
      using that a(1) sc unfolding wf_scope_def by (auto split: if_splits)
    then show ?thesis using kn unfolding knows_def by simp
  qed
  ultimately show ?thesis using s by (simp add: safe_def)
qed

lemma canonical_store:
  assumes "canonical_content owner p store = (r, store')"
  shows "store' = store \<or> (pa_content p \<noteq> None \<and> (\<exists>b. store' = store(ca_key (pa_artifact p) \<mapsto> (owner, b))))"
  using assms by (auto simp: canonical_content_def write_or_read_canonical_def put_immutable_def
      split: option.splits prod.splits)

definition keeps_view :: "'z finalizer \<Rightarrow> bool" where
  "keeps_view finalize \<longleftrightarrow> (\<forall>c p content s s'. finalize c p content s = Inr s' \<longrightarrow> same_view s s')"

text \<open>
  An artifact outside the inventory is one of a reindex job and comes without an object. What the
  processors prepare for a profile is shown to be so in \<open>Profile_Processor\<close>.
\<close>

definition conforming :: "processing_job \<Rightarrow> prepared_artifact \<Rightarrow> bool" where
  "conforming c p \<longleftrightarrow>
     (late_artifact_category (profile_or_empty c) (ca_key (pa_artifact p)) = None \<longrightarrow>
        pa_content p = None \<and> is_reindex (profile_or_empty c))"

lemma core_add_artifact:
  assumes "wf_facts n (core_of s)" "job_fact job \<in> c_jobs (core_of s)"
  shows "core_of (add_artifact job key now s) = (core_of s)\<lparr>c_arts :=
    insert \<lparr>rf_job = jb_id job, rf_agreement = jb_agreement job, rf_key = key\<rparr> (c_arts (core_of s))\<rparr>"
proof (cases "exists_row (\<lambda>r. af_job r = jb_id job \<and> af_key r = key) (artifacts s)")
  case True
  then obtain r where r: "r \<in> set (artifacts s)" "af_job r = jb_id job" "af_key r = key" by auto
  have "job_fact job \<in> facts n (core_of s)" using assms(2) by (simp add: facts_def)
  then have "af_agreement r = jb_agreement job"
    using wf_facts_art [OF assms(1) in_core(3) [OF r(1)], of "job_fact job"] r(2) by (simp add: art_fact_def job_fact_def)
  then have "\<lparr>rf_job = jb_id job, rf_agreement = jb_agreement job, rf_key = key\<rparr> \<in> c_arts (core_of s)"
    using in_core(3) [OF r(1)] r(2,3) by (simp add: art_fact_def)
  then show ?thesis using True by (simp add: add_artifact_def insert_absorb)
next
  case False
  then have "add_artifact job key now s = draw s\<lparr>artifacts := artifacts s @
      [\<lparr>af_id = uuid4 s, af_job = jb_id job, af_org = jb_org job, af_ws = jb_ws job,
        af_agreement = jb_agreement job, af_key = key, af_created_at = now\<rparr>]\<rparr>"
    unfolding add_artifact_def by (rule if_not_P)
  then show ?thesis by (simp add: core_of_def draw_def art_fact_def)
qed

lemma add_artifact_frame [simp]:
  "uuid_src (add_artifact job key now s) = uuid_src s" "uuid_used s \<le> uuid_used (add_artifact job key now s)"
  by (simp_all add: add_artifact_def)

lemma commit_checksD:
  assumes "commit_checks now c artifact og ws s = Inr (Inr (job, intent))"
  obtains a where "agreement_for_update s (claimed_context c) = Some a" "ag_deletion_requested_at a = None"
    "job_for_update s (pj_id c) = Some job" "intent = artifact_intent s (pj_id c) (Some og) (Some ws)"
    "late_artifact_category (profile_or_empty c) (ca_key artifact) \<noteq> None \<Longrightarrow>
       \<exists>i. intent = Some i \<and> in_key i = ca_key artifact"
proof -
  obtain a where a: "agreement_for_update s (claimed_context c) = Some a"
    using assms by (auto simp: commit_checks_def Let_def split: option.splits)
  obtain j where j: "job_for_update s (pj_id c) = Some j"
    using assms a by (auto simp: commit_checks_def Let_def result_simps split: option.splits if_splits)
  show thesis
  proof (rule that [OF a])
    show "\<exists>i. intent = Some i \<and> in_key i = ca_key artifact"
      if "late_artifact_category (profile_or_empty c) (ca_key artifact) \<noteq> None"
      using assms a j that
      by (cases "artifact_intent s (pj_id c) (Some og) (Some ws)")
        (auto simp: commit_checks_def Let_def result_simps split: if_splits dest: sym)
  qed (use assms a j in \<open>auto simp: commit_checks_def Let_def result_simps split: option.splits if_splits\<close>)
qed

lemma good_commit_checks:
  assumes g: "good n store s" and c: "claim_fact c \<in> k_held n"
    and e: "commit_checks now c artifact og ws s = Inr (Inl s')"
  shows "good n store s'"
proof (cases "agreement_for_update s (claimed_context c)")
  case None
  then show ?thesis using e g by (simp add: commit_checks_def)
next
  case (Some a)
  note ag = Some
  show ?thesis
  proof (cases "job_for_update s (pj_id c)")
    case None
    then show ?thesis using e ag g good_inventory(1) [OF g]
      by (auto simp: commit_checks_def Let_def result_simps split: if_splits)
  next
    case (Some job)
    note j = job_for_updateD [OF Some]
    have "job_fact job = claim_fact c" using held_job [OF g c] j by simp
    show ?thesis
    proof (cases "s' = s \<or> (\<exists>x key. inventory_late_artifact x key now s = Inr s')")
      case True
      then show ?thesis using g good_inventory(1) [OF g] by blast
    next
      case False
      then obtain i where i: "artifact_intent s (pj_id c) (Some og) (Some ws) = Some i"
          "reconcile_artifact_intent i now s = Inr s'" "ag_deletion_requested_at a \<noteq> None"
        using e ag Some by (auto simp: commit_checks_def Let_def result_simps split: if_splits option.splits)
      have "if_job (int_fact i) = claim_fact c"
        using artifact_intentD [OF i(1)] by (intro held_intent [OF g c]) simp_all
      then have "in_agreement i = pj_agreement c" by (simp add: int_fact_def claim_fact_def)
      then have "dead (core_of s) (in_agreement i)"
        using dead_agreement [OF ag i(3)] by (simp add: claimed_context_def)
      then show ?thesis using artifact_intentD [OF i(1)] by (intro good_reconcile [OF g _ _ i(2)]) simp_all
    qed
  qed
qed

lemma good_finish_commit:
  assumes g: "good n store s" and j: "job_fact job \<in> c_jobs (core_of s)" "\<not> is_reindex (jb_profile job)"
      "\<not> dead (core_of s) (jb_agreement job)"
    and i: "\<forall>i \<in> set (intents s). in_job i = jb_id job \<longrightarrow> in_key i = key"
    and st: "store' = store \<or> (\<exists>b. store' = store(key \<mapsto> (jb_agreement job, b)))"
  shows "good n store' (finish_commit now job (Some intent) True key s)"
proof -
  let ?k = "core_of s"
  let ?a = "add_artifact job key now s"
  let ?s1 = "update_agreement_processing_state job JCompleted now (update_job (jb_id job) (completed_row now) ?a)"
  have s: "safe (used_ids s) n store ?k" using g by (simp add: good_def)
  have c1: "core_of ?s1 = ?k\<lparr>c_arts :=
      insert \<lparr>rf_job = jb_id job, rf_agreement = jb_agreement job, rf_key = key\<rparr> (c_arts ?k)\<rparr>"
    by (simp add: core_state core_update_job core_add_artifact [OF good_facts [OF g] j(1)])
  have f: "jf_id (job_fact job) = jb_id job" "jf_agreement (job_fact job) = jb_agreement job"
    "jf_profile (job_fact job) = jb_profile job" by (simp_all add: job_fact_def)
  have i': "\<forall>x \<in> c_ints ?k. jf_id (if_job x) = jf_id (job_fact job) \<longrightarrow> if_key x = key"
    using i unfolding f by (simp add: core_of_def int_fact_def)
  obtain b where st': "store' = store \<or> store' = store(key \<mapsto> (jf_agreement (job_fact job), b))"
    using st unfolding f by blast
  have "safe (used_ids s) n store' (?k\<lparr>c_ints := {x \<in> c_ints ?k. jf_id (if_job x) \<noteq> jb_id job},
      c_arts := insert \<lparr>rf_job = jb_id job, rf_agreement = jb_agreement job, rf_key = key\<rparr> (c_arts ?k)\<rparr>)"
    using safe_commit [OF s j(1) _ _ i' st'] j(2,3) unfolding f by blast
  moreover have "core_of (delete_intents (jb_id job) ?s1) =
      ?k\<lparr>c_ints := {x \<in> c_ints ?k. jf_id (if_job x) \<noteq> jb_id job},
        c_arts := insert \<lparr>rf_job = jb_id job, rf_agreement = jb_agreement job, rf_key = key\<rparr> (c_arts ?k)\<rparr>"
    unfolding core_delete_intents c1 by (rule core.equality) simp_all
  moreover have "used_ids s \<subseteq> used_ids (delete_intents (jb_id job) ?s1)"
    by (rule used_ids_mono) (simp_all add: delete_intents_def update_job_def)
  ultimately have "safe (used_ids (delete_intents (jb_id job) ?s1)) n store' (core_of (delete_intents (jb_id job) ?s1))"
    using safe_used by simp
  moreover have "inj (uuid_src (delete_intents (jb_id job) ?s1))"
    using g by (simp add: good_def delete_intents_def update_job_def)
  ultimately show ?thesis by (simp add: finish_commit_def good_def)
qed

lemma good_commit:
  assumes g: "good n store s" and c: "claim_fact c \<in> k_held n" "complete_claim c"
    and fin: "keeps_view finalize" and p: "conforming c p"
    and r: "commit_prepared now finalize c p s store = (r, store')"
  shows "good n store' (case r of Inl _ \<Rightarrow> s | Inr (_, s') \<Rightarrow> s')"
proof -
  obtain og ws where sc: "pj_org c = Some og" "pj_ws c = Some ws" using c(2) by (auto simp: complete_claim_def)
  let ?art = "pa_artifact p"
  let ?key = "ca_key ?art"
  note r' = r [unfolded commit_prepared_def, simplified sc required_tenant_scope_def Let_def, simplified]
  show ?thesis
  proof (cases "ca_job ?art \<noteq> pj_id c \<or> (\<forall>job intent. commit_checks now c ?art og ws s \<noteq> Inr (Inr (job, intent)))")
    case True
    then show ?thesis
      using r' g good_commit_checks [OF g c(1)] by (auto split: sum.splits if_splits)
  next
    case False
    then obtain job intent where ck: "commit_checks now c ?art og ws s = Inr (Inr (job, intent))" by blast
    obtain a where a: "agreement_for_update s (claimed_context c) = Some a" "ag_deletion_requested_at a = None"
        and j: "job_for_update s (pj_id c) = Some job"
        and i: "intent = artifact_intent s (pj_id c) (Some og) (Some ws)"
          "late_artifact_category (profile_or_empty c) ?key \<noteq> None \<Longrightarrow> \<exists>i. intent = Some i \<and> in_key i = ?key"
      using commit_checksD [OF ck] by metis
    have jf: "job_fact job = claim_fact c" using held_job [OF g c(1)] job_for_updateD [OF j] by simp
    have jv: "jb_agreement job = pj_agreement c" "jb_id job = pj_id c" "jb_profile job = jf_profile (claim_fact c)"
      using jf by (simp_all add: job_fact_def claim_fact_def)
    have jc: "job_fact job \<in> c_jobs (core_of s)" using in_core(1) job_for_updateD [OF j] by blast
    have nd: "\<not> dead (core_of s) (pj_agreement c)"
      using live_agreement [OF a] good_scope [OF g] unfolding wf_scope_def by (auto simp: claimed_context_def)
    obtain cr st where cc: "canonical_content (pj_agreement c) p store = (cr, st)" by force
    have out: "r = bindR cr (\<lambda>content. bindR (finalize c p content s) (\<lambda>s.
        Inr (True, finish_commit now job intent (late_artifact_category (profile_or_empty c) ?key \<noteq> None) ?key s)))"
        "store' = st"
      using r' False ck cc by (auto split: if_splits)
    note st = canonical_store [OF cc]
    show ?thesis
    proof (cases "late_artifact_category (profile_or_empty c) ?key")
      case None
      then have cn: "pa_content p = None" "is_reindex (profile_or_empty c)" using p by (simp_all add: conforming_def)
      then have "store' = store" using st out(2) by simp
      moreover have "intent = None"
      proof (rule ccontr)
        assume "intent \<noteq> None"
        then obtain x where "artifact_intent s (pj_id c) (Some og) (Some ws) = Some x" using i(1) by auto
        then have x: "x \<in> set (intents s)" "in_job x = pj_id c" using artifact_intentD by blast+
        have "\<not> is_reindex (jf_profile (if_job (int_fact x)))"
          using good_facts [OF g] in_core(2) [OF x(1)] unfolding wf_facts_def by blast
        then show False
          using held_intent [OF g c(1) x] cn(2) c(2) by (auto simp: claim_fact_def profile_or_empty_def complete_claim_def)
      qed
      moreover have "good n store (case r of Inl _ \<Rightarrow> s | Inr (_, s') \<Rightarrow> s')"
      proof (cases r)
        case (Inr x)
        then obtain content s2 where s2: "finalize c p content s = Inr s2"
            "x = (True, finish_commit now job intent False ?key s2)"
          using out(1) None by (auto simp: result_simps)
        have "good n store s2" by (rule good_same [OF g]) (use fin s2(1) in \<open>auto simp: keeps_view_def same_view_def\<close>)
        then have "good n store (update_agreement_processing_state job JCompleted now
            (update_job (jb_id job) (completed_row now) s2))"
          by (intro good_state good_update_job) simp_all
        then show ?thesis using Inr s2(2) \<open>intent = None\<close> by (simp add: finish_commit_def)
      qed (simp add: g)
      ultimately show ?thesis by simp
    next
      case (Some category)
      then obtain x where x: "intent = Some x" "in_key x = ?key" using i(2) by auto
      have x': "x \<in> set (intents s)" "in_job x = pj_id c" using artifact_intentD [of s _ _ _ x] i(1) x(1) by auto
      have xf: "if_job (int_fact x) = claim_fact c" by (rule held_intent [OF g c(1) x'])
      have tr: "tracked (core_of s) (pj_agreement c) ?key"
        unfolding tracked_def
        by (rule disjI2, rule bexI [OF _ in_core(2) [OF x'(1)]]) (use xf x(2) in \<open>simp add: int_fact_def claim_fact_def\<close>)
      have st': "store' = store \<or> (\<exists>b. store' = store(?key \<mapsto> (pj_agreement c, b)))" using st out(2) by blast
      have gs: "good n store' s"
        using st' g safe_write [OF _ nd tr] by (auto simp: good_def)
      show ?thesis
      proof (cases r)
        case (Inr y)
        then obtain content s2 where s2: "finalize c p content s = Inr s2"
            "y = (True, finish_commit now job intent True ?key s2)"
          using out(1) Some by (auto simp: result_simps)
        have k2: "core_of s2 = core_of s" using fin s2(1) unfolding keeps_view_def same_view_def by blast
        have g2: "good n store' s2" by (rule good_same [OF gs]) (use fin s2(1) in \<open>auto simp: keeps_view_def same_view_def\<close>)
        have "in_key i = ?key" if "i \<in> set (intents s2)" "in_job i = jb_id job" for i
        proof -
          have m: "int_fact i \<in> c_ints (core_of s)" using in_core(2) [OF that(1)] k2 by simp
          have "jf_id (if_job (int_fact i)) = jf_id (if_job (int_fact x))"
            using that(2) x'(2) jv(2) by (simp add: int_fact_def)
          then have "int_fact i = int_fact x"
            using good_facts [OF g] m in_core(2) [OF x'(1)] unfolding wf_facts_def by blast
          then show ?thesis using x(2) by (simp add: int_fact_def)
        qed
        then have "good n store' (finish_commit now job (Some x) True ?key s2)"
          using jc jv nd category_profile(1) [OF Some c(2)] k2
          by (intro good_finish_commit [OF g2]) simp_all
        then show ?thesis using Inr s2(2) x(1) by simp
      qed (simp add: gs)
    qed
  qed
qed

section \<open>Giving a job back\<close>

lemma good_after_purge:
  "good n store s \<Longrightarrow> inventory_failed_artifact_after_purge claimed expected now s = Inr s' \<Longrightarrow> good n store s'"
  by (auto simp: inventory_failed_artifact_after_purge_def dest: good_inventory(1) split: option.splits if_splits)

lemma inventory_expected_cases:
  "inventory_expected job expected now s = Inr s' \<Longrightarrow>
     s' = s \<or> (\<exists>key. inventory_late_artifact (job_context job) key now s = Inr s')"
  by (auto simp: inventory_expected_def split: option.splits)

lemma good_inventory_expected:
  assumes g: "good n store s" and e: "inventory_expected job expected now s = Inr s'"
  shows "good n store s'" "intents s' = intents s" "jobs s' = jobs s" "c_agrs (core_of s') = c_agrs (core_of s)"
  using inventory_expected_cases [OF e] g good_inventory [OF g] by auto

lemma reconcile_owned:
  assumes g: "good n store s" and j: "job \<in> set (jobs s)" and d: "dead (core_of s) (jb_agreement job)"
    and i: "artifact_intent s (jb_id job) og ws = Some i" and r: "reconcile_artifact_intent i now s = Inr s'"
  shows "good n store s'"
proof -
  have i': "i \<in> set (intents s)" "in_job i = jb_id job" using artifact_intentD [OF i] by simp_all
  have "if_job (int_fact i) \<in> facts n (core_of s)" "job_fact job \<in> facts n (core_of s)"
    using in_core(1) [OF j] in_core(2) [OF i'(1)] by (auto simp: facts_def)
  moreover have "jf_id (if_job (int_fact i)) = jf_id (job_fact job)" using i'(2) by (simp add: int_fact_def job_fact_def)
  ultimately have "if_job (int_fact i) = job_fact job" using good_facts [OF g] unfolding wf_facts_def by blast
  then have "in_agreement i = jb_agreement job" by (simp add: int_fact_def job_fact_def)
  then show ?thesis using d by (intro good_reconcile [OF g i'(1) _ r]) simp
qed

lemma good_requeue_tombstoned:
  assumes g: "good n store s" and j: "job \<in> set (jobs s)" and d: "dead (core_of s) (jb_agreement job)"
    and r: "requeue_tombstoned now job og ws claimed expected s = Inr s'"
  shows "good n store s'"
proof -
  obtain s1 where e: "inventory_expected job expected now s = Inr s1"
      and s': "(if owns_claim job claimed then (case artifact_intent s1 (jb_id job) og ws of None \<Rightarrow> Inr s1
           | Some i \<Rightarrow> reconcile_artifact_intent i now s1) else Inr s1) = Inr s'"
    using r unfolding requeue_tombstoned_def by (auto simp: result_simps)
  note x = good_inventory_expected [OF g e]
  show ?thesis
    using s' x(1) reconcile_owned [OF x(1), of job] j d x(3,4) by (auto split: if_splits option.splits)
qed

lemma good_requeue_job:
  assumes g: "good n store s"
    and r: "requeue_job now i category msg t og ws claimed expected s = Inr (ok, s')"
  shows "good n store s'"
proof (cases "job_for_update s i")
  case None
  then show ?thesis using r good_after_purge [OF g] unfolding requeue_job_def by (auto simp: result_simps)
next
  case (Some job)
  note j = job_for_updateD [OF Some]
  show ?thesis
  proof (cases "matches_tenant_scope (job_context job) og ws \<and> agreement_for_update s (job_context job) \<noteq> None")
    case False
    then show ?thesis using r Some g unfolding requeue_job_def by (auto simp: result_simps split: option.splits if_splits)
  next
    case True
    then obtain a where m: "matches_tenant_scope (job_context job) og ws" "agreement_for_update s (job_context job) = Some a"
      by blast
    show ?thesis
    proof (cases "ag_deletion_requested_at a = None")
      case False
      have "dead (core_of s) (jb_agreement job)" using dead_agreement [OF m(2) False] by (simp add: job_context_def)
      moreover have "requeue_tombstoned now job og ws claimed expected s = Inr s'"
        using r Some m False unfolding requeue_job_def by (auto simp: result_simps)
      ultimately show ?thesis using j by (intro good_requeue_tombstoned [OF g]) simp_all
    next
      case True
      have "good n store (update_agreement_processing_state job JQueued now (update_job i (queued_row category msg t now) s))"
        by (intro good_state good_update_job [OF g]) simp
      then show ?thesis using r Some m True g unfolding requeue_job_def by (auto simp: result_simps split: if_splits)
    qed
  qed
qed

lemma good_settle:
  assumes g: "good n store s" and j: "job \<in> set (jobs s)" and a: "agreement_for_update s (job_context job) = Some a"
    and r: "settle_intent now job a og ws s = Inr s'"
  shows "good n store s'"
proof (cases "artifact_intent s (jb_id job) og ws")
  case None
  then show ?thesis using r g by (simp add: settle_intent_def)
next
  case (Some i)
  show ?thesis
  proof (cases "ag_deletion_requested_at a = None")
    case True
    have "good n store (s\<lparr>intents := update_where (\<lambda>x. in_job x = jb_id job)
        (\<lambda>x. x\<lparr>in_state := Settled, in_updated_at := now\<rparr>) (intents s)\<rparr>)"
      by (rule good_intent_state [OF g]) (simp add: int_fact_def)
    then show ?thesis using r Some True by (simp add: settle_intent_def)
  next
    case False
    then have "dead (core_of s) (jb_agreement job)" using dead_agreement [OF a] by (simp add: job_context_def)
    moreover have "reconcile_artifact_intent i now s = Inr s'" using r Some False by (simp add: settle_intent_def)
    ultimately show ?thesis by (rule reconcile_owned [OF g j _ Some])
  qed
qed

lemma good_fail_job:
  assumes g: "good n store s"
    and r: "fail_job now i category msg og ws claimed expected s = Inr s'"
  shows "good n store s'"
proof (cases "job_for_update s i")
  case None
  then show ?thesis using r good_after_purge [OF g] unfolding fail_job_def by (auto simp: result_simps)
next
  case (Some job)
  note j = job_for_updateD [OF Some]
  show ?thesis
  proof (cases "matches_tenant_scope (job_context job) og ws \<and> agreement_for_update s (job_context job) \<noteq> None")
    case False
    then show ?thesis using r Some g unfolding fail_job_def by (auto simp: result_simps split: option.splits if_splits)
  next
    case True
    then obtain a where m: "matches_tenant_scope (job_context job) og ws" "agreement_for_update s (job_context job) = Some a"
      by blast
    show ?thesis
    proof (cases "owns_claim job claimed")
      case False
      then show ?thesis using r Some m g good_inventory_expected(1) [OF g]
        unfolding fail_job_def by (auto simp: result_simps split: if_splits)
    next
      case True
      then obtain s1 where s1: "settle_intent now job a og ws s = Inr s1"
          and s': "s' = update_agreement_processing_state job JFailed now
            (fail_comparison job category msg now (update_job i (failed_row category msg now) s1))"
        using r Some m unfolding fail_job_def by (auto simp: result_simps)
      have "good n store s1" using j by (intro good_settle [OF g _ m(2) s1]) simp
      then show ?thesis unfolding s' by (intro good_state good_comparison good_update_job) simp_all
    qed
  qed
qed

section \<open>The deletion worker\<close>

lemma good_claim_deletion:
  assumes g: "good n store s" and c: "claim_deletion lease now i og ws s = (d, s')"
  shows "good n store s' \<and> (\<forall>x. d = Some x \<longrightarrow> (ad_id x, ad_agreement x) \<in> pairs (core_of s'))"
proof (cases "find (claimable i og ws now) (deletion_requests s)")
  case None
  then show ?thesis using c g by (auto simp: claim_deletion_def Let_def)
next
  case (Some r)
  have r: "r \<in> set (deletion_requests (draw s))" "dr_id r = i" using find_SomeD [OF Some] by (simp_all add: claimable_def)
  let ?s1 = "update_request (\<lambda>q. dr_id q = i) (\<lambda>_. claimed_request (uuid4 s) lease now r) (draw s)"
  have g0: "good n store (draw s)" by (rule good_draw [OF g])
  have k: "\<forall>q \<in> set (deletion_requests (draw s)). dr_id q = i \<longrightarrow> keeps_request q (claimed_request (uuid4 s) lease now r)"
    using keeps_by_id [OF good_scope [OF g0] r(1) keeps_rows(1)] r(2) by (simp add: claimed_request_def)
  have "claimed_request (uuid4 s) lease now r \<in> set (deletion_requests ?s1)"
    using r by (force simp: update_request_def in_update_where)
  then have "(i, dr_agreement r) \<in> pairs (core_of ?s1)"
    using request_pair [of "claimed_request (uuid4 s) lease now r" ?s1] r(2) by (simp add: claimed_request_def)
  then show ?thesis using c Some good_update_request [OF g0 k] by (auto simp: claim_deletion_def Let_def)
qed

lemma pending_objects_known:
  assumes "i \<in> set (pending_objects d s)"
  shows "\<exists>x \<in> c_objs (core_of s). xf_id x = di_id i \<and> xf_category x = di_category i \<and> xf_key x = di_key i"
  using assms by (auto simp: pending_objects_def core_of_def obj_fact_def split: if_splits)

lemma core_finish_object:
  assumes "\<And>x. x \<in> set (deletion_objects s) \<Longrightarrow> do_id x = i \<Longrightarrow> do_deletion x = ad_id d" and "st \<noteq> OPending"
  shows "core_of (s\<lparr>deletion_objects := update_where
      (\<lambda>x. do_id x = i \<and> do_deletion x = ad_id d \<and> do_state x = OPending)
      (\<lambda>x. x\<lparr>do_state := st, do_last_error := None, do_updated_at := now\<rparr>) (deletion_objects s)\<rparr>) =
    set_pending i False (core_of s)"
proof -
  let ?p = "\<lambda>x. do_id x = i \<and> do_deletion x = ad_id d \<and> do_state x = OPending"
  let ?f = "\<lambda>x. x\<lparr>do_state := st, do_last_error := None, do_updated_at := now\<rparr>"
  have "obj_fact ` set (update_where ?p ?f (deletion_objects s)) =
      (\<lambda>x. if xf_id x = i then x\<lparr>xf_pending := False\<rparr> else x) ` (obj_fact ` set (deletion_objects s))"
    unfolding set_update_where image_image by (rule image_cong) (use assms in \<open>auto simp: obj_fact_def\<close>)
  then show ?thesis by (simp add: core_of_def set_pending_def del: if_image_distrib)
qed

lemma object_unique: "wf_scope k \<Longrightarrow> x \<in> c_objs k \<Longrightarrow> y \<in> c_objs k \<Longrightarrow> xf_id x = xf_id y \<Longrightarrow> x = y"
  unfolding wf_scope_def by blast

lemma listed_object: "good n store s \<Longrightarrow> l \<in> k_listed n \<Longrightarrow> x \<in> c_objs (core_of s) \<Longrightarrow> xf_id x = fst l \<Longrightarrow>
    l = (xf_id x, xf_category x, xf_key x)"
  unfolding good_def safe_def knows_def by blast

lemma good_finish_object:
  assumes g: "good n store s" and st: "st \<noteq> OPending"
    and off: "\<forall>x \<in> c_objs (core_of s). xf_id x = i \<longrightarrow> xf_category x \<noteq> ''source'' \<longrightarrow>
      (\<forall>a c. (xf_deletion x, a) \<in> pairs (core_of s) \<longrightarrow> store (xf_key x) \<noteq> Some (a, c))"
  shows "good n store (finish_object lease d i st now s)"
proof -
  let ?p = "\<lambda>x. do_id x = i \<and> do_deletion x = ad_id d \<and> do_state x = OPending"
  let ?f = "\<lambda>x. x\<lparr>do_state := st, do_last_error := None, do_updated_at := now\<rparr>"
  let ?s1 = "s\<lparr>deletion_objects := update_where ?p ?f (deletion_objects s)\<rparr>"
  have "good n store ?s1"
  proof (cases "\<forall>x \<in> set (deletion_objects s). do_id x = i \<longrightarrow> do_deletion x = ad_id d")
    case True
    have "safe (used_ids s) n store (set_pending i False (core_of s))"
      using g off by (intro safe_set_pending) (simp_all add: good_def)
    moreover have "core_of ?s1 = set_pending i False (core_of s)" using True st by (intro core_finish_object) auto
    ultimately show ?thesis using g by (simp add: good_def)
  next
    case False
    then obtain x where x: "x \<in> set (deletion_objects s)" "do_id x = i" "do_deletion x \<noteq> ad_id d" by blast
    have "\<not> ?p y" if y: "y \<in> set (deletion_objects s)" for y
    proof
      assume p: "?p y"
      then have "obj_fact y = obj_fact x"
        using x(2) by (intro object_unique [OF good_scope [OF g] in_core(6) [OF y] in_core(6) [OF x(1)]]) (simp add: obj_fact_def)
      then show False using p x(3) by (simp add: obj_fact_def)
    qed
    then have "update_where ?p ?f (deletion_objects s) = deletion_objects s"
      unfolding update_where_def by (intro map_idI) auto
    then show ?thesis using g by simp
  qed
  then show ?thesis unfolding finish_object_def by (rule good_update_request) simp
qed

lemma good_mark_deleted:
  assumes g: "good n store s" and e: "(di_id item, di_key item) \<in> k_erased n"
    and m: "mark_deleted lease now d item s = Inr s'"
  shows "good n store s'"
proof -
  have "xf_key x = di_key item \<and> (\<forall>p \<in> pairs (core_of s). fst p = xf_deletion x \<longrightarrow> (\<forall>b. store (di_key item) \<noteq> Some (snd p, b)))"
    if x: "x \<in> c_objs (core_of s)" "xf_id x = di_id item" for x
    using g e x unfolding good_def safe_def knows_def by (metis fst_conv snd_conv)
  then have "good n store (finish_object lease d (di_id item) ODeleted now s)"
    by (intro good_finish_object [OF g]) force+
  then show ?thesis using m by (simp add: mark_deleted_def split: if_splits)
qed

lemma good_remove: "good n store s \<Longrightarrow> good n (store(key := None)) s"
  by (simp add: good_def safe_remove)

lemma core_register: "core_of (register_deleted d key now s) = core_of s"
  by (simp add: register_deleted_def Let_def) (simp add: core_of_def draw_def)

lemma good_register: "good n store s \<Longrightarrow> good n store (register_deleted d key now s)"
  by (rule good_same [OF _ core_register]) (simp_all add: register_deleted_def Let_def)

lemma good_delete_source:
  assumes g: "good n store s" and l: "(di_id item, ''source'', di_key item) \<in> k_listed n"
    and r: "delete_source_if_unreferenced lease now (delete_object accepts) d item s store = (r, store')"
  shows "good n store' (case r of Inl _ \<Rightarrow> s | Inr s' \<Rightarrow> s')"
proof -
  have cat: "xf_category x = ''source''" if "x \<in> c_objs (core_of s)" "xf_id x = di_id item" for x
    using listed_object [OF g l that(1)] that(2) by simp
  have gr: "good n (store(di_key item := None)) s" by (rule good_remove [OF g])
  have gp: "good n store (finish_object lease d (di_id item) OPreserved now s)"
    by (rule good_finish_object [OF g]) (use cat in auto)
  have gd: "good n (store(di_key item := None)) (finish_object lease d (di_id item) ODeleted now (register_deleted d (di_key item) now s))"
    by (rule good_finish_object [OF good_register [OF gr]]) (use cat in \<open>auto simp: core_register\<close>)
  show ?thesis
    using r g gp gd unfolding delete_source_if_unreferenced_def delete_object_def by (auto split: if_splits)
qed

text \<open>Giving a deletion back.\<close>

lemma core_rearm: "core_of (rearm_deletion_outbox d msg t now s) = core_of s"
  and core_object_error: "core_of (object_error d i msg now s) = core_of s"
  and core_terminal_audit: "core_of (insert_terminal_audit r ev now s) = core_of s"
proof -
  show "core_of (rearm_deletion_outbox d msg t now s) = core_of s"
    by (simp add: core_of_def rearm_deletion_outbox_def)
  show "core_of (object_error d i msg now s) = core_of s"
    by (simp add: core_of_def object_error_def image_update_same obj_fact_def)
  show "core_of (insert_terminal_audit r ev now s) = core_of s"
    by (simp add: core_of_def insert_terminal_audit_def draw_def)
qed

lemma good_rearm: "good n store s \<Longrightarrow> good n store (rearm_deletion_outbox d msg t now s)"
  by (rule good_same [OF _ core_rearm]) (simp_all add: rearm_deletion_outbox_def)

lemma good_object_error: "good n store s \<Longrightarrow> good n store (object_error d i msg now s)"
  by (rule good_same [OF _ core_object_error]) (simp_all add: object_error_def)

lemma good_terminal_audit: "good n store s \<Longrightarrow> good n store (insert_terminal_audit r ev now s)"
  by (rule good_same [OF _ core_terminal_audit]) (simp_all add: insert_terminal_audit_def)

lemmas good_steps = good_rearm good_object_error good_terminal_audit good_update_request

lemma good_give_back:
  assumes "good n store s"
  shows "good n store (retry_deletion now d i msg t s)" "good n store (fail_deletion now d i msg s)"
    "good n store (retry_database_cleanup now d msg t s)" "good n store (fail_database_cleanup now d msg s)"
  using assms unfolding retry_deletion_def fail_deletion_def retry_database_cleanup_def fail_database_cleanup_def
  by (auto intro!: good_steps split: option.split)

lemma good_outbox_rows:
  assumes "good n store s"
  shows "good n store (s\<lparr>deletion_outbox := xs\<rparr>)"
  by (rule good_same [OF assms]) (simp_all add: core_of_def)

lemma good_recover:
  assumes g: "good n store s"
  shows "good n store (snd (recover_stale_deletions now og s))"
proof -
  have "good n store (update_request p (retrying_request c m t now) s)" for p c m t
    by (rule good_update_request [OF g]) simp
  then have "good n store ((update_request p (retrying_request c m t now) s)\<lparr>deletion_outbox := xs\<rparr>)" for p c m t xs
    by (rule good_outbox_rows)
  then show ?thesis using g unfolding recover_stale_deletions_def Let_def by (simp only: if_distrib [of snd] snd_conv if_split) blast
qed

section \<open>The purge\<close>

text \<open>The steps of the purge that touch no table of the view.\<close>

lemma purge_frame [simp]:
  "core_of (purge_questions d s) = core_of s" "core_of (purge_reviews d s) = core_of s"
  "core_of (purge_index d s) = core_of s" "core_of (purge_evaluations d s) = core_of s"
  by (simp_all add: core_of_def purge_questions_def purge_reviews_def purge_index_def purge_evaluations_def Let_def)

lemma purge_ids [simp]:
  "uuid_src (purge_questions d s) = uuid_src s" "uuid_used (purge_questions d s) = uuid_used s"
  "uuid_src (purge_reviews d s) = uuid_src s" "uuid_used (purge_reviews d s) = uuid_used s"
  "uuid_src (purge_index d s) = uuid_src s" "uuid_used (purge_index d s) = uuid_used s"
  "uuid_src (purge_evaluations d s) = uuid_src s" "uuid_used (purge_evaluations d s) = uuid_used s"
  "uuid_src (purge_processing d s) = uuid_src s" "uuid_used (purge_processing d s) = uuid_used s"
  by (simp_all add: purge_questions_def purge_reviews_def purge_index_def purge_evaluations_def
      purge_processing_def Let_def)

lemma core_purge_processing:
  "core_of (purge_processing d s) = (core_of s)
     \<lparr>c_jobs := {f \<in> c_jobs (core_of s). jf_agreement f \<noteq> ad_agreement d},
      c_arts := {f \<in> c_arts (core_of s). rf_agreement f \<noteq> ad_agreement d},
      c_ints := {f \<in> c_ints (core_of s). jf_agreement (if_job f) \<noteq> ad_agreement d},
      c_objs := {x \<in> c_objs (core_of s). xf_deletion x \<noteq> ad_id d}\<rparr>"
proof -
  have "job_fact ` {x \<in> set (jobs s). jb_agreement x \<noteq> ad_agreement d} =
      {f \<in> job_fact ` set (jobs s). jf_agreement f \<noteq> ad_agreement d}" by (force simp: job_fact_def)
  moreover have "art_fact ` {x \<in> set (artifacts s). af_agreement x \<noteq> ad_agreement d} =
      {f \<in> art_fact ` set (artifacts s). rf_agreement f \<noteq> ad_agreement d}" by (force simp: art_fact_def)
  moreover have "int_fact ` {x \<in> set (intents s). in_agreement x \<noteq> ad_agreement d} =
      {f \<in> int_fact ` set (intents s). jf_agreement (if_job f) \<noteq> ad_agreement d}" by (force simp: int_fact_def)
  moreover have "obj_fact ` {x \<in> set (deletion_objects s). do_deletion x \<noteq> ad_id d} =
      {x \<in> obj_fact ` set (deletion_objects s). xf_deletion x \<noteq> ad_id d}" by (force simp: obj_fact_def)
  ultimately show ?thesis by (simp add: core_of_def purge_processing_def)
qed

lemma core_tombstone:
  assumes "\<And>a. agr_fact (f a) = agr_fact a"
  shows "core_of (s\<lparr>agreements := update_where p f (agreements s)\<rparr>) = core_of s"
  by (simp add: core_of_def image_update_same assms)

lemma purge_owned_rowsD:
  assumes "purge_owned_rows d now s = Inr s'"
  shows "core_of s' = core_of (purge_processing d s)" "uuid_src s' = uuid_src s" "uuid_used s' = uuid_used s"
proof -
  let ?s1 = "purge_processing d (purge_evaluations d (purge_index d (purge_reviews d (purge_questions d s))))"
  let ?f = "\<lambda>a. a\<lparr>ag_title := ''Deleted agreement'', ag_type := ''deleted'', ag_status := ''deleted'',
      ag_parties := JList [], ag_files := JList [], ag_processing_state := ''deleted'',
      ag_audit_metadata := JObj [], ag_audit_events := JList [], ag_current_version := None,
      ag_baseline_version := None, ag_archived_at := None, ag_updated_at := now\<rparr>"
  have s': "s' = ?s1\<lparr>agreements := update_where (is_tombstone_of d) ?f (agreements ?s1)\<rparr>"
    using assms unfolding purge_owned_rows_def Let_def by (simp split: if_splits)
  have "core_of s' = core_of ?s1" unfolding s' by (rule core_tombstone) (simp add: agr_fact_def)
  then show "core_of s' = core_of (purge_processing d s)" by (simp add: core_purge_processing)
  show "uuid_src s' = uuid_src s" "uuid_used s' = uuid_used s" by (simp_all add: s')
qed

lemma good_complete:
  assumes g: "good n store s" and c: "(ad_id d, ad_agreement d) \<in> k_claims n"
    and r: "complete_and_purge now d s = Inr s'"
  shows "good n store s'"
proof (cases "locked_claim d s")
  case None
  then show ?thesis using r g by (simp add: complete_and_purge_def result_simps)
next
  case (Some q)
  have q: "q \<in> set (deletion_requests s)" "dr_id q = ad_id d"
    using find_SomeD [OF Some [unfolded locked_claim_def]] by (simp_all add: holds_claim_def)
  obtain s1 where s1: "purge_owned_rows d now s = Inr s1"
      and none: "\<not> exists_row (\<lambda>x. do_deletion x = ad_id d \<and> do_state x = OPending) (deletion_objects s)"
      and s': "s' = insert_terminal_audit q ''completed'' now (update_request (own_claim d) (completed_request now) s1)"
    using r Some unfolding complete_and_purge_def by (auto simp: result_simps split: if_splits)
  note p1 = purge_owned_rowsD [OF s1]
  have s: "safe (used_ids s) n store (core_of s)" and inj: "inj (uuid_src s)" using g by (simp_all add: good_def)
  have pr: "(ad_id d, ad_agreement d) \<in> pairs (core_of s)"
    using s c request_pair [OF q(1)] q(2) unfolding safe_def knows_def by (metis fst_conv)
  have reqs: "c_reqs (core_of s1) = c_reqs (core_of s)" unfolding p1(1) core_purge_processing by simp
  then have rows: "req_fact ` set (deletion_requests s1) = req_fact ` set (deletion_requests s)" by (simp add: core_of_def)
  let ?qs = "set (update_where (own_claim d) (completed_request now) (deletion_requests s1))"
  have c2: "core_of (update_request (own_claim d) (completed_request now) s1) =
      purged (ad_agreement d) (ad_id d) ?qs (core_of s)"
    unfolding core_update_request p1(1) core_purge_processing purged_def by (rule core.equality) simp_all
  have "pairs (purged (ad_agreement d) (ad_id d) ?qs (core_of s)) = pairs (core_of s)"
    unfolding c2 [symmetric] core_update_request
    by (subst pairs_update_request) (simp add: completed_request_def, simp add: pairs_def reqs)
  moreover have "finished (purged (ad_agreement d) (ad_id d) ?qs (core_of s)) \<subseteq> insert (ad_id d) (finished (core_of s))"
  proof
    fix x assume "x \<in> finished (purged (ad_agreement d) (ad_id d) ?qs (core_of s))"
    then obtain y where y: "y \<in> set (deletion_requests s1)" "dr_id (if own_claim d y then completed_request now y else y) = x"
        "dr_state (if own_claim d y then completed_request now y else y) = DCompleted"
      by (auto simp: finished_def purged_def in_update_where req_fact_def)
    show "x \<in> insert (ad_id d) (finished (core_of s))"
    proof (cases "own_claim d y")
      case True
      then show ?thesis using y(2) by (simp add: own_claim_def completed_request_def)
    next
      case False
      have "req_fact y \<in> c_reqs (core_of s)" using in_core(4) [OF y(1)] reqs by simp
      then show ?thesis using y False by (force simp: finished_def req_fact_def)
    qed
  qed
  ultimately have "safe (used_ids s) n store (core_of (update_request (own_claim d) (completed_request now) s1))"
    unfolding c2 using none
    by (intro safe_purged [OF s pr]) (auto simp: core_of_def obj_fact_def)
  moreover have "used_ids (update_request (own_claim d) (completed_request now) s1) = used_ids s"
    unfolding used_ops by (simp add: used_ids_def p1)
  ultimately have "good n store (update_request (own_claim d) (completed_request now) s1)"
    using inj p1(2) by (simp add: good_def update_request_def)
  then show ?thesis unfolding s' by (rule good_terminal_audit)
qed

section \<open>The API\<close>

lemma add_objects_effect:
  assumes "inj (uuid_src s)"
  shows "\<exists>os. core_of (add_objects r now xs s) = (core_of s)\<lparr>c_objs := os \<union> c_objs (core_of s)\<rparr> \<and>
    uuid_src (add_objects r now xs s) = uuid_src s \<and>
    used_ids (add_objects r now xs s) = xf_id ` os \<union> used_ids s \<and> xf_id ` os \<inter> used_ids s = {} \<and>
    inj_on xf_id os \<and> (\<forall>x \<in> os. xf_deletion x = dr_id r \<and> xf_pending x) \<and>
    (\<forall>p \<in> set xs. \<exists>x \<in> os. xf_category x = fst p \<and> xf_key x = snd p)"
  using assms
proof (induction xs arbitrary: s)
  case Nil
  then show ?case by (intro exI [of _ "{}"]) simp
next
  case (Cons p xs)
  obtain c key where p: "p = (c, key)" by force
  let ?s1 = "draw s\<lparr>deletion_objects := deletion_objects s @
       [\<lparr>do_id = uuid4 s, do_deletion = dr_id r, do_org = dr_org r, do_ws = dr_ws r,
         do_agreement = dr_agreement r, do_category = c, do_key = key, do_state = OPending,
         do_last_error = None, do_created_at = now, do_updated_at = now\<rparr>]\<rparr>"
  let ?x = "pending_fact (uuid4 s) r c key"
  have k1: "core_of ?s1 = (core_of s)\<lparr>c_objs := insert ?x (c_objs (core_of s))\<rparr>"
    by (simp add: core_of_def draw_def obj_fact_def pending_fact_def)
  have u1: "used_ids ?s1 = insert (uuid4 s) (used_ids s)" by simp
  have "inj (uuid_src ?s1)" using Cons.prems by simp
  from Cons.IH [OF this] obtain os where os:
    "core_of (add_objects r now xs ?s1) = (core_of ?s1)\<lparr>c_objs := os \<union> c_objs (core_of ?s1)\<rparr>"
    "uuid_src (add_objects r now xs ?s1) = uuid_src ?s1"
    "used_ids (add_objects r now xs ?s1) = xf_id ` os \<union> used_ids ?s1" "xf_id ` os \<inter> used_ids ?s1 = {}"
    "inj_on xf_id os" "\<forall>x \<in> os. xf_deletion x = dr_id r \<and> xf_pending x"
    "\<forall>p \<in> set xs. \<exists>x \<in> os. xf_category x = fst p \<and> xf_key x = snd p" by blast
  have fr: "uuid4 s \<notin> used_ids s" using Cons.prems by (rule uuid4_fresh)
  have x: "xf_id ?x = uuid4 s" "xf_deletion ?x = dr_id r" "xf_pending ?x" "xf_category ?x = c" "xf_key ?x = key"
    by (simp_all add: pending_fact_def)
  have no: "uuid4 s \<notin> xf_id ` os" using os(4) unfolding u1 by blast
  have add: "add_objects r now (p # xs) s = add_objects r now xs ?s1" by (simp add: p)
  show ?case unfolding add
  proof (intro exI [of _ "insert ?x os"] conjI)
    show "core_of (add_objects r now xs ?s1) = (core_of s)\<lparr>c_objs := insert ?x os \<union> c_objs (core_of s)\<rparr>"
      unfolding os(1) k1 by simp
    show "used_ids (add_objects r now xs ?s1) = xf_id ` insert ?x os \<union> used_ids s" unfolding os(3) u1 using x(1) by auto
    show "xf_id ` insert ?x os \<inter> used_ids s = {}" using os(4) fr x(1) unfolding u1 by auto
    show "inj_on xf_id (insert ?x os)" using os(5) no x(1) by (auto simp: inj_on_insert)
    show "\<forall>p \<in> set (p # xs). \<exists>x \<in> insert ?x os. xf_category x = fst p \<and> xf_key x = snd p" using os(7) p x by auto
  qed (use os(2,6) x in auto)
qed

lemma core_accept_agreement:
  "core_of (s\<lparr>agreements := update_where (\<lambda>x. ag_id x = i)
      (\<lambda>x. x\<lparr>ag_deletion_requested_at := Some now, ag_updated_at := now\<rparr>) (agreements s)\<rparr>) =
    (core_of s)\<lparr>c_agrs := (\<lambda>g. \<lparr>gf_id = gf_id g, gf_dead = gf_dead g \<or> gf_id g = i\<rparr>) ` c_agrs (core_of s)\<rparr>"
proof -
  let ?f = "\<lambda>x. x\<lparr>ag_deletion_requested_at := Some now, ag_updated_at := now\<rparr>"
  have "agr_fact ` set (update_where (\<lambda>x. ag_id x = i) ?f (agreements s)) =
      (\<lambda>g. \<lparr>gf_id = gf_id g, gf_dead = gf_dead g \<or> gf_id g = i\<rparr>) ` (agr_fact ` set (agreements s))"
    unfolding set_update_where image_image by (rule image_cong) (simp_all add: agr_fact_def)
  then show ?thesis by (simp add: core_of_def)
qed

lemma tracked_inventory:
  assumes wf: "wf_facts n (core_of s)" and t: "tracked (core_of s) (ag_id a) key"
  shows "\<exists>c. c \<noteq> ''source'' \<and> (c, key) \<in> set (inventory_of s a)"
  using t unfolding tracked_def
proof
  assume "\<exists>r \<in> c_arts (core_of s). \<exists>j \<in> c_jobs (core_of s). rf_job r = jf_id j \<and> rf_agreement r = ag_id a \<and>
      rf_key r = key \<and> \<not> is_reindex (jf_profile j)"
  then obtain r j where r: "r \<in> set (artifacts s)" "j \<in> set (jobs s)" "af_job r = jb_id j" "af_agreement r = ag_id a"
      "af_key r = key" "\<not> is_reindex (jb_profile j)"
    by (auto simp: core_of_def art_fact_def job_fact_def)
  have "\<exists>c. artifact_category (jb_profile j) = Some c \<and> c \<noteq> ''source''"
    using r(6) by (simp add: artifact_category_def)
  then obtain c where c: "artifact_category (jb_profile j) = Some c" "c \<noteq> ''source''" by blast
  have "(c, key) \<in> set (artifact_objects s (ag_id a))"
    unfolding artifact_objects_def using r c(1) by (fastforce intro!: bexI [of _ r] bexI [of _ j])
  then show ?thesis using c(2) by (auto simp: inventory_of_def)
next
  assume "\<exists>i \<in> c_ints (core_of s). jf_agreement (if_job i) = ag_id a \<and> if_key i = key"
  then obtain i where i: "i \<in> set (intents s)" "in_agreement i = ag_id a" "in_key i = key"
    by (auto simp: core_of_def int_fact_def)
  have "in_category i \<noteq> ''source''" using wf in_core(2) [OF i(1)] unfolding wf_facts_def by (auto simp: int_fact_def)
  moreover have "(in_category i, key) \<in> set (intent_objects s (ag_id a))" using i by (auto simp: intent_objects_def)
  ultimately show ?thesis by (auto simp: inventory_of_def)
qed

lemma good_accept_agreement:
  assumes g: "good n store s" and a: "a \<in> set (agreements s)" "ag_deletion_requested_at a = None"
    and r: "accept_agreement_deletion now a actor s = Inr (q, s')"
  shows "good n store s'"
proof -
  have s: "safe (used_ids s) n store (core_of s)" and inj: "inj (uuid_src s)" using g by (simp_all add: good_def)
  let ?r = "new_request (uuid4 s) a actor now"
  let ?s1 = "draw s\<lparr>deletion_requests := deletion_requests s @ [?r]\<rparr>"
  let ?s2 = "add_objects ?r now (inventory_of s a) ?s1"
  let ?m = "JObj [(''object_count'', JInt (int (length (inventory_of s a))))]"
  have m: "s' = (let s3 = add_deletion_audit ?r actor ''requested'' 1 ?m now ?s2;
        s4 = draw s3\<lparr>deletion_outbox := deletion_outbox s3 @
                   [\<lparr>dx_id = uuid4 s3, dx_deletion = dr_id ?r, dx_org = ag_org a, dx_ws = ag_ws a,
                     dx_agreement = ag_id a, dx_attempt_count = 0, dx_next_attempt_at = now,
                     dx_lease_token = None, dx_lease_expires_at = None, dx_last_error = None,
                     dx_delivered_at = None, dx_created_at = now, dx_updated_at = now\<rparr>]\<rparr>
      in s4\<lparr>agreements := update_where (\<lambda>x. ag_id x = ag_id a)
              (\<lambda>x. x\<lparr>ag_deletion_requested_at := Some now, ag_updated_at := now\<rparr>) (agreements s4)\<rparr>)"
    using r unfolding accept_agreement_deletion_def Let_def bindR_Inr_iff
    by (elim exE conjE Inr_inject [elim_format] Pair_inject) (erule sym)
  have "inj (uuid_src ?s1)" using inj by simp
  from add_objects_effect [OF this, of ?r now "inventory_of s a"] obtain os where os:
    "core_of ?s2 = (core_of ?s1)\<lparr>c_objs := os \<union> c_objs (core_of ?s1)\<rparr>"
    "uuid_src ?s2 = uuid_src ?s1"
    "used_ids ?s2 = xf_id ` os \<union> used_ids ?s1" "xf_id ` os \<inter> used_ids ?s1 = {}"
    "inj_on xf_id os" "\<forall>x \<in> os. xf_deletion x = dr_id ?r \<and> xf_pending x"
    "\<forall>p \<in> set (inventory_of s a). \<exists>x \<in> os. xf_category x = fst p \<and> xf_key x = snd p" by blast
  have u1: "used_ids ?s1 = insert (uuid4 s) (used_ids s)" by simp
  have k1: "core_of ?s1 = (core_of s)\<lparr>c_reqs := insert \<lparr>qf_id = uuid4 s, qf_agreement = ag_id a, qf_done = False\<rparr>
      (c_reqs (core_of s))\<rparr>"
    by (simp add: core_of_def draw_def req_fact_def new_request_def)
  have ids: "dr_id ?r = uuid4 s" by (simp add: new_request_def)
  have "safe (insert (uuid4 s) (xf_id ` os \<union> used_ids s)) n store (accepted (ag_id a) (uuid4 s) os (core_of s))"
  proof (rule safe_accept [OF s _ good_fresh [OF g] _ HOL.refl _ os(5)])
    show "live (core_of s) (ag_id a)" using in_core(5) [OF a(1)] a(2) by (simp add: agr_fact_def)
    show "uuid4 s \<notin> xf_id ` os" "xf_id ` os \<inter> used_ids s = {}" using os(4) unfolding u1 by blast+
    show "\<forall>x \<in> os. xf_deletion x = uuid4 s \<and> xf_pending x" using os(6) unfolding ids .
    show "\<exists>x \<in> os. xf_key x = key \<and> xf_category x \<noteq> ''source''" if "tracked (core_of s) (ag_id a) key" for key
      using tracked_inventory [OF good_facts [OF g] that] os(7) by fastforce
  qed
  moreover have "core_of s' = accepted (ag_id a) (uuid4 s) os (core_of s)"
  proof -
    let ?s4 = "?s2"
    have "core_of s' = (core_of ?s2)\<lparr>c_agrs := (\<lambda>g. \<lparr>gf_id = gf_id g, gf_dead = gf_dead g \<or> gf_id g = ag_id a\<rparr>) `
        c_agrs (core_of ?s2)\<rparr>"
      unfolding m Let_def core_accept_agreement by (simp add: core_of_def draw_def add_deletion_audit_def)
    then show ?thesis unfolding os(1) k1 accepted_def by simp
  qed
  moreover have "insert (uuid4 s) (xf_id ` os \<union> used_ids s) \<subseteq> used_ids s'"
    using os(3) unfolding u1 m Let_def by (auto simp: add_deletion_audit_def)
  moreover have "uuid_src s' = uuid_src s" using os(2) unfolding m Let_def by (simp add: add_deletion_audit_def)
  ultimately show ?thesis using inj safe_used by (simp add: good_def)
qed

lemma view_redrive_rows: "same_view s (add_deletion_audit q actor ev c m now (s\<lparr>deletion_outbox := xs\<rparr>))"
  by (simp add: same_view_def add_deletion_audit_def) (simp add: core_of_def draw_def)

lemma good_redrive:
  assumes g: "good n store s" and r: "redrive_deletion now q actor s = (q', s')"
  shows "good n store s'"
proof (cases "find (\<lambda>x. dr_id x = dr_id q) (deletion_requests s)")
  case None
  then show ?thesis using r g by (simp add: redrive_deletion_def)
next
  case (Some x)
  have x: "x \<in> set (deletion_requests s)" "dr_id x = dr_id q" using find_SomeD [OF Some] by simp_all
  show ?thesis
  proof (cases "dr_state x = DFailed")
    case False
    then show ?thesis using r Some g by (simp add: redrive_deletion_def)
  next
    case True
    have "good n store (update_request (\<lambda>y. dr_id y = dr_id q) (\<lambda>_. redriven_request now x) s)"
      using keeps_by_id [OF good_scope [OF g] x(1) keeps_rows(5), of now] x(2)
      by (intro good_update_request [OF g]) (simp add: redriven_request_def)
    then have "good n store (add_deletion_audit y actor ev c m now
        ((update_request (\<lambda>y. dr_id y = dr_id q) (\<lambda>_. redriven_request now x) s)\<lparr>deletion_outbox := xs\<rparr>))" for y ev c m xs
      using good_view view_redrive_rows by blast
    then show ?thesis using r Some True unfolding redrive_deletion_def Let_def by auto
  qed
qed

lemma good_accept_deletion:
  assumes g: "good n store s" and r: "accept_deletion s actor og ws i now = Inr (q, s')"
  shows "good n store s'"
proof (cases "deletion_by_agreement s i og ws")
  case (Some x)
  then show ?thesis using r g good_redrive [OF g, of now x actor q s']
    by (auto simp: accept_deletion_def result_simps split: if_splits)
next
  case None
  then obtain a where a: "get_visible_agreement s actor og ws i = Inr a" "accept_agreement_deletion now a actor s = Inr (q, s')"
    using r by (auto simp: accept_deletion_def result_simps)
  have "get_agreement s i = Some a" using a(1) by (auto simp: get_visible_agreement_def result_simps)
  then have "a \<in> set (agreements s)" "ag_deletion_requested_at a = None"
    using find_SomeD [of _ "agreements s" a] unfolding get_agreement_def by blast+
  then show ?thesis by (rule good_accept_agreement [OF g _ _ a(2)])
qed

end
