(* ===== verification/Comparison_Processor.thy ===== *)
theory Comparison_Processor
  imports Processing_Repository Version_Alignment Version_Materiality
begin

text \<open>
  The comparison of two versions by the worker (\<open>version_comparison_processor.py\<close>:
  \<open>VersionComparisonProcessor\<close>): it reads the committed analyses of both versions, aligns their sections, assesses
  every change, and stores the changes inside the commit fence of the job. The two directions of \<open>json\<close> on bytes,
  \<open>datetime.fromisoformat\<close>, Python's \<open>str\<close> of a value that is no text, the ids the worker draws and the resolved
  configuration of the assessment are parameters. A JSON column takes any value; a value of another type than its
  column is refused by the statement.
\<close>

record comparison_externals =
  cx_dumps :: "json \<Rightarrow> string"
  cx_loads :: "string \<Rightarrow> json option"
  cx_fromisoformat :: "string \<Rightarrow> datetime option"
  cx_str :: "json \<Rightarrow> string"

section \<open>Reading the run and the analyses\<close>

definition permanent :: "string \<Rightarrow> exn" where
  "permanent message = PermanentProcessingError message ''permanent''"

definition comparison_artifact_key :: "uuid \<Rightarrow> string" where
  "comparison_artifact_key run_id = ''comparisons/'' @ run_id @ ''/version-comparison.v1.json''"

definition run_of_job :: "'z processing_db_scheme \<Rightarrow> uuid \<Rightarrow> comparison_run_row option" where
  "run_of_job s job_id = find (\<lambda>r. cr_job r = Some job_id) (comparison_runs s)"

definition comparison_scope :: "processing_job \<Rightarrow> (uuid \<times> uuid) result" where
  "comparison_scope job =
     (case (pj_org job, pj_ws job) of
        (Some g, Some w) \<Rightarrow> Inr (g, w)
      | _ \<Rightarrow> Inl (permanent ''Version comparison is missing tenant scope''))"

definition expected_comparison ::
  "processing_job \<Rightarrow> 'z processing_db_scheme \<Rightarrow> completed_artifact result" where
  "expected_comparison job s =
     bindR (comparison_scope job) (\<lambda>_.
     bindR (some_or (run_of_job s (pj_id job)) (permanent ''Version comparison run is unavailable'')) (\<lambda>run.
     Inr \<lparr>ca_job = pj_id job, ca_key = comparison_artifact_key (cr_id run)\<rparr>))"

definition discard_comparison :: "completed_artifact \<Rightarrow> object_store \<Rightarrow> object_store" where
  "discard_comparison artifact store = store(ca_key artifact := None)"

definition latest_completed_job :: "'z processing_db_scheme \<Rightarrow> uuid \<Rightarrow> job_row option" where
  "latest_completed_job s version_id =
     (case rev (sort_key jb_id (filter (\<lambda>j. jb_version j = Some version_id \<and> jb_state j = JCompleted) (jobs s))) of
        [] \<Rightarrow> None | j # _ \<Rightarrow> Some j)"

definition latest_artifact :: "'z processing_db_scheme \<Rightarrow> uuid \<Rightarrow> artifact_row option" where
  "latest_artifact s job_id =
     (case sort_key (\<lambda>a. - af_created_at a) (filter (\<lambda>a. af_job a = job_id) (artifacts s)) of
        [] \<Rightarrow> None | a # _ \<Rightarrow> Some a)"

definition artifact_key_for_version :: "'z processing_db_scheme \<Rightarrow> uuid \<Rightarrow> string result" where
  "artifact_key_for_version s version_id =
     bindR (some_or (latest_completed_job s version_id) (permanent ''Version analysis artifact is unavailable'')) (\<lambda>j.
     bindR (some_or (latest_artifact s (jb_id j)) (permanent ''Version analysis artifact is unavailable'')) (\<lambda>a.
     Inr (af_key a)))"

definition read_manifest :: "comparison_externals \<Rightarrow> object_store \<Rightarrow> string \<Rightarrow> json result" where
  "read_manifest x store key =
     bindR (some_or (map_option snd (store key)) (permanent ''Version analysis artifact is unavailable'')) (\<lambda>raw.
     case cx_loads x raw of
       Some (JObj kvs) \<Rightarrow> Inr (JObj kvs)
     | _ \<Rightarrow> Inl (permanent ''Version analysis artifact is invalid''))"

definition comparison_source :: "'z processing_db_scheme \<Rightarrow> uuid \<Rightarrow> agreement_version_row option" where
  "comparison_source s version_id = find (\<lambda>v. vr_id v = version_id) (agreement_versions s)"

definition comparison_sources ::
  "'z processing_db_scheme \<Rightarrow> comparison_run_row \<Rightarrow> (string \<times> string) result" where
  "comparison_sources s run =
     bindR (some_or (comparison_source s (cr_baseline_version run))
       (permanent ''Version comparison sources are unavailable'')) (\<lambda>baseline.
     bindR (some_or (comparison_source s (cr_target_version run))
       (permanent ''Version comparison sources are unavailable'')) (\<lambda>target.
     bindR (artifact_key_for_version s (vr_id baseline)) (\<lambda>baseline_key.
     bindR (artifact_key_for_version s (vr_id target)) (\<lambda>target_key.
     Inr (baseline_key, target_key)))))"

section \<open>One change\<close>

text \<open>A dictionary built from the elements keeps the last element of an id.\<close>

definition element_by_id :: "canonical_element list \<Rightarrow> string \<Rightarrow> canonical_element result" where
  "element_by_id elements i = some_or (find (\<lambda>e. el_id e = i) (rev elements)) (KeyError i)"

fun alignment_value :: "alignment_kind \<Rightarrow> string" where
  "alignment_value Matched = ''matched''"
| "alignment_value Moved = ''moved''"
| "alignment_value Split = ''split''"
| "alignment_value Merged = ''merged''"
| "alignment_value Added = ''added''"
| "alignment_value Removed = ''removed''"

fun change_type_of :: "alignment_kind \<Rightarrow> change_type" where
  "change_type_of Matched = CModified"
| "change_type_of Moved = CMoved"
| "change_type_of Split = CSplit"
| "change_type_of Merged = CMerged"
| "change_type_of Added = CAdded"
| "change_type_of Removed = CRemoved"

definition lines_of :: "canonical_element list \<Rightarrow> string" where
  "lines_of elements = join_with [CHR 0x0A] (map el_text elements)"

definition alignment_candidate ::
  "canonical_element list \<Rightarrow> canonical_element list \<Rightarrow> alignment \<Rightarrow> materiality_candidate result" where
  "alignment_candidate baseline target a =
     bindR (mapR (element_by_id baseline) (al_baseline a)) (\<lambda>old.
     bindR (mapR (element_by_id target) (al_target a)) (\<lambda>new.
     checked_candidate
       \<lparr>mc_change = change_type_of (al_kind a), mc_baseline_text = lines_of old, mc_target_text = lines_of new,
        mc_baseline_citations = concat (map el_anchors old), mc_target_citations = concat (map el_anchors new),
        mc_confidence = al_confidence a, mc_review = al_review a\<rparr>))"

fun tag_value :: "tag \<Rightarrow> string" where
  "tag_value Equal = ''equal''"
| "tag_value Insert = ''insert''"
| "tag_value Delete = ''delete''"
| "tag_value Replace = ''replace''"

definition word_diff_part :: "word_diff_operation \<Rightarrow> json" where
  "word_diff_part item = JObj
     [(''kind'', JStr (tag_value (wo_kind item))),
      (''baseline_tokens'', JStr (join_with '' '' (wo_baseline item))),
      (''target_tokens'', JStr (join_with '' '' (wo_target item)))]"

definition change_object ::
  "uuid \<Rightarrow> datetime \<Rightarrow> processing_job \<Rightarrow> uuid \<times> uuid \<Rightarrow> comparison_run_row \<Rightarrow> nat \<Rightarrow> alignment
   \<Rightarrow> materiality_candidate \<Rightarrow> materiality_result \<Rightarrow> json" where
  "change_object i now job scope run ordinal a c r = JObj
     [(''id'', JStr i), (''comparison_run_id'', JStr (cr_id run)),
      (''organization_id'', JStr (fst scope)), (''workspace_id'', JStr (snd scope)),
      (''agreement_id'', JStr (pj_agreement job)), (''ordinal'', JInt (int ordinal)),
      (''alignment_kind'', JStr (alignment_value (al_kind a))),
      (''baseline_element_ids'', JList (map JStr (al_baseline a))),
      (''target_element_ids'', JList (map JStr (al_target a))),
      (''baseline_citation_ids'', JList (map JStr (mc_baseline_citations c))),
      (''target_citation_ids'', JList (map JStr (mc_target_citations c))),
      (''word_diff'', JList (map word_diff_part (mr_word_diff r))),
      (''confidence'', JFloat (mr_confidence r)), (''review_required'', JBool (mr_review r)),
      (''severity'', JStr (severity_value (mr_severity r))),
      (''legal_concepts'', JList (map JStr (mr_concepts r))), (''rationale'', JStr (mr_rationale r)),
      (''provider_provenance'', (case mr_provenance r of None \<Rightarrow> JNull | Some v \<Rightarrow> v)),
      (''created_at'', JStr (isoformat now))]"

section \<open>Preparing the artifact\<close>

definition prepared_changes ::
  "materiality_gateway option \<Rightarrow> resolved_ai_configuration \<Rightarrow> (nat \<Rightarrow> uuid) \<Rightarrow> datetime \<Rightarrow> processing_job
   \<Rightarrow> uuid \<times> uuid \<Rightarrow> comparison_run_row \<Rightarrow> canonical_version \<Rightarrow> canonical_version \<Rightarrow> json list result" where
  "prepared_changes gateway cfg fresh now job scope run v w =
     bindR (align_versions v w) (\<lambda>as.
       mapR (\<lambda>(ordinal, a). bindR (alignment_candidate (cv_elements v) (cv_elements w) a) (\<lambda>c.
           Inr (change_object (fresh ordinal) now job scope run ordinal a c
             (assess_materiality_with_model c gateway cfg)))) (enumerate 0 as))"

definition run_provenance :: "comparison_run_row \<Rightarrow> (string \<times> json) list result" where
  "run_provenance run =
     (case cr_analysis_provenance run of
        JObj kvs \<Rightarrow> Inr kvs
      | v \<Rightarrow> if v \<in> {JNull, JBool False, JInt 0, JFloat 0, JStr [], JList []} then Inr []
              else Inl (TypeError ''dict''))"

definition comparison_identity :: "processing_job \<Rightarrow> uuid \<times> uuid \<Rightarrow> comparison_run_row \<Rightarrow> (string \<times> json) list" where
  "comparison_identity job scope run =
     [(''schema_version'', JStr ''version-comparison.v1''), (''job_id'', JStr (pj_id job)),
      (''run_id'', JStr (cr_id run)), (''organization_id'', JStr (fst scope)),
      (''workspace_id'', JStr (snd scope)), (''agreement_id'', JStr (pj_agreement job)),
      (''baseline_version_id'', JStr (cr_baseline_version run)),
      (''target_version_id'', JStr (cr_target_version run))]"

definition comparison_payload ::
  "processing_job \<Rightarrow> uuid \<times> uuid \<Rightarrow> comparison_run_row \<Rightarrow> json list \<Rightarrow> (string \<times> json) list \<Rightarrow> json" where
  "comparison_payload job scope run changes provenance =
     JObj (comparison_identity job scope run @
       [(''changes'', JList changes),
        (''analysis_provenance'', JObj (dict_put ''alignment'' (JStr ''deterministic'') provenance))])"

text \<open>The order \<open>sort_keys=True\<close> gives every dictionary.\<close>

fun sorted_json :: "json \<Rightarrow> json" where
  "sorted_json (JObj kvs) = JObj (sort_key fst (map (\<lambda>(k, v). (k, sorted_json v)) kvs))"
| "sorted_json (JList vs) = JList (map sorted_json vs)"
| "sorted_json v = v"

definition prepare_comparison ::
  "comparison_externals \<Rightarrow> materiality_gateway option \<Rightarrow> resolved_ai_configuration \<Rightarrow> (nat \<Rightarrow> uuid) \<Rightarrow> datetime
   \<Rightarrow> processing_job \<Rightarrow> 'z processing_db_scheme \<Rightarrow> object_store \<Rightarrow> prepared_artifact result" where
  "prepare_comparison x gateway cfg fresh now job s store =
     bindR (comparison_scope job) (\<lambda>scope.
     bindR (some_or (run_of_job s (pj_id job)) (permanent ''Version comparison run is unavailable'')) (\<lambda>run.
     bindR (comparison_sources s run) (\<lambda>(baseline_key, target_key).
     bindR (bindR (read_manifest x store baseline_key) canonical_version_from_manifest) (\<lambda>v.
     bindR (bindR (read_manifest x store target_key) canonical_version_from_manifest) (\<lambda>w.
     bindR (prepared_changes gateway cfg fresh now job scope run v w) (\<lambda>changes.
     bindR (run_provenance run) (\<lambda>provenance.
     Inr \<lparr>pa_artifact = \<lparr>ca_job = pj_id job, ca_key = comparison_artifact_key (cr_id run)\<rparr>,
          pa_content = Some (cx_dumps x (sorted_json (comparison_payload job scope run changes provenance))),
          pa_content_type = Some ''application/json''\<rparr>)))))))"

section \<open>Storing the changes\<close>

definition str_value :: "comparison_externals \<Rightarrow> json \<Rightarrow> string" where
  "str_value x v = (case v of JStr t \<Rightarrow> t | _ \<Rightarrow> cx_str x v)"

definition uuid_field :: "comparison_externals \<Rightarrow> json \<Rightarrow> string \<Rightarrow> uuid option" where
  "uuid_field x change k = Option.bind (json_get change k) (\<lambda>v. parse_uuid (str_value x v))"

definition time_field :: "comparison_externals \<Rightarrow> json \<Rightarrow> string \<Rightarrow> datetime option" where
  "time_field x change k = Option.bind (json_get change k) (\<lambda>v. cx_fromisoformat x (str_value x v))"

definition converted_change ::
  "comparison_externals \<Rightarrow> json \<Rightarrow> (uuid \<times> uuid \<times> uuid \<times> uuid \<times> uuid \<times> datetime) result" where
  "converted_change x change =
     (case (uuid_field x change ''id'', uuid_field x change ''comparison_run_id'',
            uuid_field x change ''organization_id'', uuid_field x change ''workspace_id'',
            uuid_field x change ''agreement_id'', time_field x change ''created_at'') of
        (Some i, Some r, Some g, Some w, Some a, Some t) \<Rightarrow> Inr (i, r, g, w, a, t)
      | _ \<Rightarrow> Inl (permanent ''Version comparison artifact is invalid''))"

fun int_column :: "json \<Rightarrow> int option" where
  "int_column (JInt i) = Some i"
| "int_column _ = None"

fun float_column :: "json \<Rightarrow> rat option" where
  "float_column (JFloat q) = Some q"
| "float_column (JInt i) = Some (of_int i)"
| "float_column _ = None"

fun bool_column :: "json \<Rightarrow> bool option" where
  "bool_column (JBool b) = Some b"
| "bool_column _ = None"

fun string_column :: "json \<Rightarrow> string option" where
  "string_column (JStr t) = Some t"
| "string_column _ = None"

definition column :: "(json \<Rightarrow> 'a option) \<Rightarrow> json \<Rightarrow> string \<Rightarrow> 'a result" where
  "column read change k =
     some_or (Option.bind (json_get change k) read) (RuntimeError (''the statement refuses the value of '' @ k))"

definition CHANGE_COLUMNS :: "string list" where
  "CHANGE_COLUMNS = [''id'', ''comparison_run_id'', ''organization_id'', ''workspace_id'', ''agreement_id'',
     ''ordinal'', ''alignment_kind'', ''baseline_element_ids'', ''target_element_ids'', ''baseline_citation_ids'',
     ''target_citation_ids'', ''word_diff'', ''confidence'', ''review_required'', ''severity'', ''legal_concepts'',
     ''rationale'', ''provider_provenance'', ''created_at'']"

fun change_keys :: "json \<Rightarrow> string list" where
  "change_keys (JObj kvs) = map fst kvs"
| "change_keys _ = []"

definition change_row ::
  "json \<times> uuid \<times> uuid \<times> uuid \<times> uuid \<times> uuid \<times> datetime \<Rightarrow> comparison_change_row result" where
  "change_row = (\<lambda>(change, i, r, g, w, a, t).
     bindR (require (set (change_keys change) \<subseteq> set CHANGE_COLUMNS) (RuntimeError ''unconsumed column names'')) (\<lambda>_.
     bindR (column int_column change ''ordinal'') (\<lambda>ordinal.
     bindR (column string_column change ''alignment_kind'') (\<lambda>kind.
     bindR (column Some change ''baseline_element_ids'') (\<lambda>bs.
     bindR (column Some change ''target_element_ids'') (\<lambda>ts.
     bindR (column Some change ''baseline_citation_ids'') (\<lambda>bc.
     bindR (column Some change ''target_citation_ids'') (\<lambda>tc.
     bindR (column Some change ''word_diff'') (\<lambda>diff.
     bindR (column float_column change ''confidence'') (\<lambda>confidence.
     bindR (column bool_column change ''review_required'') (\<lambda>review.
     bindR (column string_column change ''severity'') (\<lambda>sev.
     bindR (column Some change ''legal_concepts'') (\<lambda>concepts.
     bindR (column string_column change ''rationale'') (\<lambda>rationale.
     bindR (column Some change ''provider_provenance'') (\<lambda>pv.
     Inr \<lparr>ch_id = i, ch_run = r, ch_org = g, ch_ws = w, ch_agreement = a, ch_ordinal = ordinal,
          ch_alignment_kind = kind, ch_baseline_element_ids = bs, ch_target_element_ids = ts,
          ch_baseline_citation_ids = bc, ch_target_citation_ids = tc, ch_word_diff = diff,
          ch_confidence = confidence, ch_review_required = review, ch_severity = sev,
          ch_legal_concepts = concepts, ch_rationale = rationale, ch_provider_provenance = pv,
          ch_created_at = t\<rparr>)))))))))))))))"

fun id_text :: "uuid option \<Rightarrow> string" where
  "id_text None = ''None''"
| "id_text (Some i) = i"

definition completed_run :: "json \<Rightarrow> datetime \<Rightarrow> comparison_run_row \<Rightarrow> comparison_run_row" where
  "completed_run provenance now r = r\<lparr>cr_state := ''completed'', cr_failure_category := None,
     cr_failure_message := None, cr_analysis_provenance := provenance, cr_completed_at := Some now,
     cr_updated_at := now\<rparr>"

definition store_changes ::
  "datetime \<Rightarrow> comparison_run_row \<Rightarrow> comparison_change_row list \<Rightarrow> json \<Rightarrow> 'z processing_db_scheme
   \<Rightarrow> 'z processing_db_scheme" where
  "store_changes now run rows provenance s =
     s\<lparr>comparison_changes := filter (\<lambda>c. ch_run c \<noteq> cr_id run) (comparison_changes s) @ rows,
       comparison_runs := update_where (\<lambda>r. cr_id r = cr_id run) (completed_run provenance now) (comparison_runs s)\<rparr>"

definition finalize_comparison :: "comparison_externals \<Rightarrow> datetime \<Rightarrow> 'z finalizer" where
  "finalize_comparison x now job prepared content s =
     bindR (some_or content (permanent ''Version comparison artifact is unavailable'')) (\<lambda>raw.
     case cx_loads x raw of
       Some (JObj payload) \<Rightarrow>
         bindR (some_or (run_of_job s (pj_id job)) (permanent ''Version comparison run is unavailable'')) (\<lambda>run.
         bindR (require (list_all (\<lambda>(k, v). map_of payload k = Some v)
             (comparison_identity job (id_text (pj_org job), id_text (pj_ws job)) run))
           (permanent ''Version comparison artifact identity conflicts'')) (\<lambda>_.
         case (map_of payload ''changes'', map_of payload ''analysis_provenance'') of
           (Some (JList changes), Some (JObj provenance)) \<Rightarrow>
             bindR (mapR (converted_change x) changes) (\<lambda>converted.
             bindR (mapR change_row (zip changes converted)) (\<lambda>rows.
             Inr (store_changes now run rows (JObj provenance) s)))
         | _ \<Rightarrow> Inl (permanent ''Version comparison artifact is invalid'')))
     | _ \<Rightarrow> Inl (permanent ''Version comparison artifact is invalid''))"

end
