(* ===== verification/Profile_Processor.thy ===== *)
theory Profile_Processor
  imports Job_Processor Comparison_Processor
begin

text \<open>
  The dispatch of a job to the processor of its profile (\<open>main.py\<close>: \<open>ProfileProcessor\<close>;
  \<open>embedding_indexing.py\<close>: \<open>embedding_reindex_configuration_id\<close>), with the artifact each of them expects.
  What the document processor and the comparison processor prepare is a parameter here: the reading
  and parsing of a document is not modelled, the comparison is in \<open>Comparison_Processor\<close>.
\<close>

section \<open>The profile of a reindex\<close>

definition EMBEDDING_REINDEX_PROFILE_PREFIX :: string where
  "EMBEDDING_REINDEX_PROFILE_PREFIX = ''embedding-reindex:''"

definition embedding_reindex_configuration_id :: "string option \<Rightarrow> uuid option" where
  "embedding_reindex_configuration_id profile =
     (case profile of
        None \<Rightarrow> None
      | Some p \<Rightarrow>
          if \<not> startswith EMBEDDING_REINDEX_PROFILE_PREFIX p then None
          else parse_uuid (drop (length EMBEDDING_REINDEX_PROFILE_PREFIX) p))"

section \<open>The document processor\<close>

definition source_from :: "processing_job \<Rightarrow> (string \<times> string \<times> string) result" where
  "source_from job =
     (case (pj_source_storage_key job, pj_source_checksum job, pj_source_content_type job) of
        (Some key, Some checksum, Some content_type) \<Rightarrow>
          if key = [] \<or> checksum = [] \<or> content_type = []
          then Inl (permanent ''The processing job has no source document'')
          else if pj_org job = None \<or> pj_ws job = None
          then Inl (permanent ''The processing job has no workspace scope'')
          else Inr (key, checksum, content_type)
      | _ \<Rightarrow> Inl (permanent ''The processing job has no source document''))"

definition document_artifact_key :: "processing_job \<Rightarrow> string \<Rightarrow> string" where
  "document_artifact_key job checksum =
     ''tenants/'' @ id_text (pj_org job) @ ''/workspaces/'' @ id_text (pj_ws job) @ ''/agreements/'' @
     pj_agreement job @ ''/analysis/'' @ checksum @ ''/document-analysis.v1.json''"

definition expected_document :: "processing_job \<Rightarrow> completed_artifact result" where
  "expected_document job =
     bindR (source_from job) (\<lambda>(_, checksum, _).
     Inr \<lparr>ca_job = pj_id job, ca_key = document_artifact_key job checksum\<rparr>)"

definition get_or_none :: "json \<Rightarrow> string \<Rightarrow> json" where
  "get_or_none v key = (case json_get v key of None \<Rightarrow> JNull | Some x \<Rightarrow> x)"

definition finalize_document :: "(string \<Rightarrow> json option) \<Rightarrow> 'z finalizer" where
  "finalize_document loads job prepared content s =
     (case content of
        None \<Rightarrow> Inl (RuntimeError ''document analysis artifact content is missing'')
      | Some raw \<Rightarrow>
          (case loads raw of
             Some (JObj kvs) \<Rightarrow>
               (case get_or_none (JObj kvs) ''source'' of
                  JObj src \<Rightarrow>
                    if get_or_none (JObj kvs) ''schema_version'' \<noteq> JStr ''document-analysis.v1'' \<or>
                       get_or_none (JObj src) ''checksum'' \<noteq> opt_str (pj_source_checksum job) \<or>
                       get_or_none (JObj src) ''storage_key'' \<noteq> opt_str (pj_source_storage_key job)
                    then Inl (permanent ''The document analysis artifact identity conflicts'')
                    else Inr s
                | _ \<Rightarrow> Inl (permanent ''The document analysis artifact identity conflicts''))
           | _ \<Rightarrow> Inl (permanent ''The document analysis artifact is invalid'')))"

definition discard_document :: "completed_artifact \<Rightarrow> object_store \<Rightarrow> object_store" where
  "discard_document artifact store = store(ca_key artifact := None)"

section \<open>The dispatch\<close>

definition reindex_artifact :: "processing_job \<Rightarrow> uuid \<Rightarrow> completed_artifact" where
  "reindex_artifact job configuration_id =
     \<lparr>ca_job = pj_id job, ca_key = ''embedding-reindex/'' @ configuration_id @ ''.json''\<rparr>"

definition profile_expected_artifact ::
  "'z processing_db_scheme \<Rightarrow> processing_job \<Rightarrow> completed_artifact result" where
  "profile_expected_artifact s job =
     (if pj_profile job = Some ''version-comparison'' then expected_comparison job s
      else
        case embedding_reindex_configuration_id (pj_profile job) of
          Some configuration_id \<Rightarrow> Inr (reindex_artifact job configuration_id)
        | None \<Rightarrow> expected_document job)"

definition profile_prepare ::
  "(processing_job \<Rightarrow> prepared_artifact result) \<Rightarrow> (processing_job \<Rightarrow> prepared_artifact result)
   \<Rightarrow> processing_job \<Rightarrow> prepared_artifact result" where
  "profile_prepare document comparison job =
     (if pj_profile job = Some ''version-comparison'' then comparison job
      else
        case embedding_reindex_configuration_id (pj_profile job) of
          Some configuration_id \<Rightarrow>
            Inr \<lparr>pa_artifact = reindex_artifact job configuration_id, pa_content = None, pa_content_type = None\<rparr>
        | None \<Rightarrow> document job)"

definition profile_finalize :: "comparison_externals \<Rightarrow> datetime \<Rightarrow> 'z finalizer" where
  "profile_finalize x now job prepared content s =
     (if pj_profile job = Some ''version-comparison'' then finalize_comparison x now job prepared content s
      else if embedding_reindex_configuration_id (pj_profile job) = None
      then finalize_document (cx_loads x) job prepared content s
      else Inr s)"

definition profile_discard :: "completed_artifact \<Rightarrow> object_store \<Rightarrow> object_store" where
  "profile_discard artifact store =
     (if startswith ''comparisons/'' (ca_key artifact) then discard_comparison artifact store
      else if \<not> startswith ''embedding-reindex/'' (ca_key artifact) then discard_document artifact store
      else store)"

section \<open>What is prepared for a profile\<close>

text \<open>A profile with the prefix of a reindex whose rest is no UUID.\<close>

definition malformed_reindex :: "string option \<Rightarrow> bool" where
  "malformed_reindex profile \<longleftrightarrow>
     (case profile of None \<Rightarrow> False | Some p \<Rightarrow> startswith EMBEDDING_REINDEX_PROFILE_PREFIX p) \<and>
     embedding_reindex_configuration_id profile = None"

lemma expected_keys:
  "expected_comparison job s = Inr a \<Longrightarrow> \<not> startswith ''embedding-reindex/'' (ca_key a)"
  "expected_document job = Inr a \<Longrightarrow> \<not> startswith ''embedding-reindex/'' (ca_key a)"
  by (auto simp: expected_comparison_def expected_document_def result_simps comparison_artifact_key_def
      document_artifact_key_def startswith_def)

text \<open>
  A worker writes an object only under a key of the inventory: the artifact of a profile that is not
  malformed has a category, or the profile is one of a reindex and there is no content.
\<close>

lemma profile_prepared:
  assumes "profile_prepare document comparison job = Inr p"
    and "profile_expected_artifact s job = Inr (pa_artifact p)" and "\<not> malformed_reindex (pj_profile job)"
    and "late_artifact_category (profile_or_empty job) (ca_key (pa_artifact p)) = None"
  shows "pa_content p = None \<and> startswith ''embedding-reindex:'' (profile_or_empty job)"
proof (cases "embedding_reindex_configuration_id (pj_profile job)")
  case None
  then have "\<not> startswith ''embedding-reindex:'' (profile_or_empty job)"
    using assms(3)
    by (cases "pj_profile job")
      (auto simp: malformed_reindex_def profile_or_empty_def EMBEDDING_REINDEX_PROFILE_PREFIX_def startswith_def)
  moreover have "\<not> startswith ''embedding-reindex/'' (ca_key (pa_artifact p))"
    using assms(2) expected_keys None by (auto simp: profile_expected_artifact_def split: if_splits)
  ultimately show ?thesis using assms(4) by (auto simp: late_artifact_category_def split: if_splits)
next
  case (Some i)
  then have "startswith ''embedding-reindex:'' (profile_or_empty job)" "pj_profile job \<noteq> Some ''version-comparison''"
    by (auto simp: embedding_reindex_configuration_id_def profile_or_empty_def EMBEDDING_REINDEX_PROFILE_PREFIX_def
        startswith_def split: option.splits if_splits)
  then show ?thesis using assms(1) Some by (auto simp: profile_prepare_def)
qed

text \<open>
  With a malformed profile the document processor prepares the artifact, but no category of the
  inventory takes it: neither an intent nor the inventory of a deletion names the object it writes.
\<close>

lemma malformed_reindex_unlisted:
  assumes "malformed_reindex (pj_profile job)"
  shows "profile_prepare document comparison job = document job"
    "profile_expected_artifact s job = expected_document job"
    "late_artifact_category (profile_or_empty job) key = None"
proof -
  have "pj_profile job \<noteq> Some ''version-comparison''"
    using assms by (auto simp: malformed_reindex_def EMBEDDING_REINDEX_PROFILE_PREFIX_def startswith_def)
  then show "profile_prepare document comparison job = document job"
    "profile_expected_artifact s job = expected_document job"
    using assms by (simp_all add: malformed_reindex_def profile_prepare_def profile_expected_artifact_def)
  show "late_artifact_category (profile_or_empty job) key = None"
    using assms by (auto simp: malformed_reindex_def EMBEDDING_REINDEX_PROFILE_PREFIX_def late_artifact_category_def
        profile_or_empty_def split: option.splits)
qed

end
