(* ===== verification/Deletion_Safety.thy ===== *)
theory Deletion_Safety
  imports Deletion_Steps Profile_Processor Processing_Demo
begin

text \<open>
  The safety of deletion for the system of API, processing workers and deletion workers: in every
  reachable state, an agreement whose deletion is completed owns no object that the workers stored.
\<close>

section \<open>The submission side of the API\<close>

lemma core_rows:
  assumes "\<And>a. agr_fact (f a) = agr_fact a"
  shows "same_view s (s\<lparr>agreements := update_where p f (agreements s)\<rparr>)"
  by (simp add: same_view_def core_tombstone assms)

lemma view_replace: "replace_agreement a s = Inr s' \<Longrightarrow> same_view s s'"
  unfolding replace_agreement_def by (auto simp: result_simps agr_fact_def intro!: core_rows)

lemma view_create_version: "create_version v actor ev now s = Inr s' \<Longrightarrow> same_view s s'"
  unfolding create_version_def by (auto simp: result_simps same_view_def core_of_def)

lemma view_draw: "same_view s (draw s)"
  by (simp add: same_view_def)

lemma good_new_agreement:
  assumes g: "good n store s" and a: "ag_id a = uuid4 s" "ag_deletion_requested_at a = None"
  shows "good n store (draw s\<lparr>agreements := agreements s @ [a]\<rparr>)"
proof (rule goodI)
  show "inj (uuid_src (draw s\<lparr>agreements := agreements s @ [a]\<rparr>))" using g by (simp add: good_def)
  have "core_of (draw s\<lparr>agreements := agreements s @ [a]\<rparr>) =
      (core_of s)\<lparr>c_agrs := insert \<lparr>gf_id = uuid4 s, gf_dead = False\<rparr> (c_agrs (core_of s))\<rparr>"
    using a by (simp add: core_of_def draw_def agr_fact_def)
  moreover have "safe (insert (uuid4 s) (used_ids s)) n store
      ((core_of s)\<lparr>c_agrs := insert \<lparr>gf_id = uuid4 s, gf_dead = False\<rparr> (c_agrs (core_of s))\<rparr>)"
    using g good_fresh [OF g] by (intro safe_new_agreement) (simp_all add: good_def)
  ultimately show "safe (used_ids (draw s\<lparr>agreements := agreements s @ [a]\<rparr>)) n store
      (core_of (draw s\<lparr>agreements := agreements s @ [a]\<rparr>))" by simp
qed

lemma good_create_agreement:
  assumes g: "good n store s" and r: "create_agreement s actor og ws request now = Inr (a, s')"
  shows "good n store s'"
proof -
  let ?a = "new_agreement (uuid4 s) actor og ws request now"
  let ?s1 = "draw s\<lparr>agreements := agreements s @ [?a]\<rparr>"
  have g1: "good n store ?s1" by (rule good_new_agreement [OF g]) (simp_all add: new_agreement_def)
  show ?thesis
  proof (cases "rq_files request = []")
    case True
    then show ?thesis using r g1 by (auto simp: create_agreement_def Let_def result_simps)
  next
    case False
    then obtain v b s2 where "create_version v actor ''version_created'' now (draw ?s1) = Inr s2"
        "replace_agreement b s2 = Inr s'"
      using r by (auto simp: create_agreement_def Let_def result_simps)
    then show ?thesis
      using good_view [OF good_draw [OF g1]] view_create_version view_replace good_view by blast
  qed
qed

lemma good_new_job:
  assumes g: "good n store s" and j: "jb_id j = uuid4 s"
  shows "good n store (draw s\<lparr>jobs := jobs s @ [j]\<rparr>)"
proof (rule goodI)
  show "inj (uuid_src (draw s\<lparr>jobs := jobs s @ [j]\<rparr>))" using g by (simp add: good_def)
  have i: "jf_id (job_fact j) = uuid4 s" using j by (simp add: job_fact_def)
  have "core_of (draw s\<lparr>jobs := jobs s @ [j]\<rparr>) = (core_of s)\<lparr>c_jobs := insert (job_fact j) (c_jobs (core_of s))\<rparr>"
    by (simp add: core_of_def draw_def)
  moreover have "safe (insert (jf_id (job_fact j)) (used_ids s)) n store
      ((core_of s)\<lparr>c_jobs := insert (job_fact j) (c_jobs (core_of s))\<rparr>)"
    using g good_fresh [OF g] i by (intro safe_new_job) (simp_all add: good_def)
  ultimately show "safe (used_ids (draw s\<lparr>jobs := jobs s @ [j]\<rparr>)) n store (core_of (draw s\<lparr>jobs := jobs s @ [j]\<rparr>))"
    using i by simp
qed

lemma view_deliver: "same_view s (snd (deliver_outbox publish now ms k s))"
proof (induction publish now ms k s rule: deliver_outbox.induct)
  case (2 publish now m ms k s)
  let ?s1 = "s\<lparr>processing_outbox := update_where (\<lambda>x. po_id x = po_id m)
    (\<lambda>x. x\<lparr>po_delivered_at := Some now, po_updated_at := now\<rparr>) (processing_outbox s)\<rparr>"
  have "same_view s ?s1" by (simp add: same_view_def core_of_def)
  then show ?case using 2 same_view_trans by (simp add: Let_def) blast
qed simp

lemma view_dispatch: "same_view s (snd (dispatch_processing publish now og ws k s))"
  unfolding dispatch_processing_def by (rule view_deliver)

lemma view_enqueue: "same_view s (enqueue_outbox j now s)"
  by (simp add: same_view_def enqueue_outbox_def) (simp add: core_of_def draw_def)

lemma view_agreement_state: "set_agreement_state a st t j b s = Inr s' \<Longrightarrow> same_view s s'"
  unfolding set_agreement_state_def by (auto simp: result_simps dest: view_replace split: if_splits)

lemma view_queue_version: "same_view s (queue_version v j s)"
  unfolding queue_version_def by (auto simp: same_view_def core_of_def split: option.split)

lemma submitted_job_id: "jb_id (submitted_job i a v r key profile now) = i"
  by (simp add: submitted_job_def)

lemma good_submit_job:
  assumes g: "good n store s"
    and r: "submit_job publish s actor og ws agreement_id version_id key profile now = Inr (j, created, s')"
  shows "good n store s'"
proof -
  obtain a where a: "agreement_in_scope s agreement_id og ws = Inr a"
      and c: "(case job_by_idempotency_key s agreement_id key of
         Some j \<Rightarrow> bindR (require (same_submission j version_id profile) IdempotencyKeyConflictError) (\<lambda>_. Inr (j, False, s))
       | None \<Rightarrow> submit_new publish s a version_id key profile now) = Inr (j, created, s')"
    using r unfolding submit_job_def by (auto simp: result_simps)
  show ?thesis
  proof (cases "job_by_idempotency_key s agreement_id key")
    case (Some x)
    then show ?thesis using c g by (auto simp: result_simps)
  next
    case None
    have "\<exists>version resolved s1 s2 st b. create_job (submitted_job (uuid4 s) a version resolved key profile now) (draw s) = Inr s1 \<and>
        set_agreement_state (ag_id a) st now (Some (jb_id j)) b (queue_version version (jb_id j) s1) = Inr s2 \<and>
        j = submitted_job (uuid4 s) a version resolved key profile now \<and>
        s' = snd (dispatch_processing publish now (ag_org a) (ag_ws a) 50 (enqueue_outbox j now s2))"
      using c unfolding None option.case submit_new_def Let_def bindR_Inr_iff
      by (elim exE conjE Inr_inject [elim_format] Pair_inject) blast
    then obtain version resolved s1 s2 st b where x: "create_job j (draw s) = Inr s1" "jb_id j = uuid4 s"
        and t: "set_agreement_state (ag_id a) st now (Some (jb_id j)) b (queue_version version (jb_id j) s1) = Inr s2"
          "s' = snd (dispatch_processing publish now (ag_org a) (ag_ws a) 50 (enqueue_outbox j now s2))"
      by (metis submitted_job_id)
    have "s1 = draw s\<lparr>jobs := jobs s @ [j]\<rparr>" using x(1) by (auto simp: create_job_def result_simps)
    then have "good n store s1" using good_new_job [OF g x(2)] by simp
    from good_view [OF this view_queue_version] have "good n store (queue_version version (jb_id j) s1)" .
    from good_view [OF this view_agreement_state [OF t(1)]] have "good n store (enqueue_outbox j now s2)"
      by (rule good_view [OF _ view_enqueue])
    then show ?thesis unfolding t(2) by (rule good_view [OF _ view_dispatch])
  qed
qed

section \<open>What the processors of the profiles do\<close>

lemma case_object_Inr:
  "(case v of Some (JObj kvs) \<Rightarrow> f kvs | _ \<Rightarrow> Inl e) = Inr y \<Longrightarrow> \<exists>kvs. v = Some (JObj kvs) \<and> f kvs = Inr y"
  "(case v of Some (JList vs) \<Rightarrow> g vs | _ \<Rightarrow> Inl e) = Inr y \<Longrightarrow> \<exists>vs. v = Some (JList vs) \<and> g vs = Inr y"
  by (auto split: option.splits json.splits)

lemma finalize_comparison_effect:
  assumes "finalize_comparison x now job p content s = Inr s'"
  shows "\<exists>run rows provenance. s' = store_changes now run rows provenance s"
  using assms unfolding finalize_comparison_def bindR_Inr_iff
  by (auto dest!: case_object_Inr simp: bindR_Inr_iff, blast)

lemma profile_keeps_view: "keeps_view (profile_finalize x now :: 'z finalizer)"
proof -
  have "core_of (store_changes now run rows provenance s) = core_of s" for run rows provenance and s :: "'z processing_db_scheme"
    by (simp add: core_of_def store_changes_def)
  moreover have "uuid_src (store_changes now run rows provenance s) = uuid_src s"
    "uuid_used (store_changes now run rows provenance s) = uuid_used s" for run rows provenance
      and s :: "'z processing_db_scheme"
    by (simp_all add: store_changes_def)
  ultimately have v: "same_view s (store_changes now run rows provenance s)" for run rows provenance
      and s :: "'z processing_db_scheme"
    by (simp add: same_view_def)
  have c: "same_view s s'" if "finalize_comparison x now job p content s = Inr s'" for job p content
      and s s' :: "'z processing_db_scheme"
    using finalize_comparison_effect [OF that] v by auto
  have d: "s' = s" if "finalize_document loads job p content s = Inr s'" for loads job p content
      and s s' :: "'z processing_db_scheme"
    using that by (auto simp: finalize_document_def Let_def split: option.splits json.splits if_splits)
  show ?thesis
    unfolding keeps_view_def profile_finalize_def by (auto dest: c d split: if_splits)
qed

lemma profile_conforming:
  assumes "profile_prepare document comparison c = Inr p"
    and "profile_expected_artifact s c = Inr (pa_artifact p)" and "\<not> malformed_reindex (pj_profile c)"
  shows "conforming c p"
  using profile_prepared [OF assms] by (simp add: conforming_def)

section \<open>The system\<close>

text \<open>
  The database and the object store with what the workers hold in memory: the jobs and the deletions
  they claimed, the inventory items they read, and the items whose object they deleted. Nothing is
  forgotten, so a worker may act on a claim long after another worker took it over.
\<close>

record machine =
  m_db :: processing_db
  m_store :: object_store
  m_held :: "processing_job set"
  m_claims :: "agreement_deletion set"
  m_listed :: "(agreement_deletion \<times> deletion_item) set"
  m_erased :: "(agreement_deletion \<times> deletion_item) set"

text \<open>
  The transactions of the processing workers, of the deletion workers and of the API, in any order and
  at any times. A worker commits what the processor of the profile prepared, when it is the artifact the
  profile was expected to give in some earlier state (the comparison \<open>JobProcessor\<close> makes); jobs with a
  malformed reindex profile are left out here. The deletion of an object and the transaction that marks it are separate steps. \<open>other\<close>
  is every transaction that leaves agreements, jobs, artifacts, intents and the deletion tables as they
  are for the argument: the outboxes, archiving, new versions, retries, reviews and questions.
\<close>

inductive deletion_step :: "machine \<Rightarrow> machine \<Rightarrow> bool" where
  claim_job: "claim_job now i og ws (m_db m) = Inr (c, s) \<Longrightarrow>
    deletion_step m (m\<lparr>m_db := s, m_held := m_held m \<union> set_option c\<rparr>)"
| expect: "c \<in> m_held m \<Longrightarrow> expect_artifact now c artifact (m_db m) = Inr (ok, s) \<Longrightarrow>
    deletion_step m (m\<lparr>m_db := s\<rparr>)"
| commit: "c \<in> m_held m \<Longrightarrow> \<not> malformed_reindex (pj_profile c) \<Longrightarrow>
    profile_expected_artifact (earlier :: processing_db) c = Inr (pa_artifact p) \<Longrightarrow>
    profile_prepare document comparison c = Inr p \<Longrightarrow>
    commit_prepared now (profile_finalize x now) c p (m_db m) (m_store m) = (r, store) \<Longrightarrow>
    deletion_step m (m\<lparr>m_db := (case r of Inl _ \<Rightarrow> m_db m | Inr (_, s) \<Rightarrow> s), m_store := store\<rparr>)"
| requeue: "c \<in> m_held m \<Longrightarrow>
    requeue_job now i category msg t og ws (Some c) expected (m_db m) = Inr (ok, s) \<Longrightarrow>
    deletion_step m (m\<lparr>m_db := s\<rparr>)"
| fail: "c \<in> m_held m \<Longrightarrow> fail_job now i category msg og ws (Some c) expected (m_db m) = Inr s \<Longrightarrow>
    deletion_step m (m\<lparr>m_db := s\<rparr>)"
| claim_deletion: "claim_deletion lease now i og ws (m_db m) = (d, s) \<Longrightarrow>
    deletion_step m (m\<lparr>m_db := s, m_claims := m_claims m \<union> set_option d\<rparr>)"
| read_inventory: "d \<in> m_claims m \<Longrightarrow>
    deletion_step m (m\<lparr>m_listed := m_listed m \<union> Pair d ` set (pending_objects d (m_db m))\<rparr>)"
| erase: "(d, item) \<in> m_listed m \<Longrightarrow> validate_owned_key d item = Inr () \<Longrightarrow> di_category item \<noteq> ''source'' \<Longrightarrow>
    delete_object accepts (di_key item) (m_store m) = (Inr (), store) \<Longrightarrow>
    deletion_step m (m\<lparr>m_store := store, m_erased := insert (d, item) (m_erased m)\<rparr>)"
| mark: "(d, item) \<in> m_erased m \<Longrightarrow> mark_deleted lease now d item (m_db m) = Inr s \<Longrightarrow>
    deletion_step m (m\<lparr>m_db := s\<rparr>)"
| delete_source: "(d, item) \<in> m_listed m \<Longrightarrow> validate_owned_key d item = Inr () \<Longrightarrow> di_category item = ''source'' \<Longrightarrow>
    delete_source_if_unreferenced lease now (delete_object accepts) d item (m_db m) (m_store m) = (r, store) \<Longrightarrow>
    deletion_step m (m\<lparr>m_db := (case r of Inl _ \<Rightarrow> m_db m | Inr s \<Rightarrow> s), m_store := store\<rparr>)"
| give_up: "d \<in> m_claims m \<Longrightarrow> deletion_step m (m\<lparr>m_db := give_up_object policy now d item (m_db m)\<rparr>)"
| finish: "d \<in> m_claims m \<Longrightarrow> deletion_step m (m\<lparr>m_db := finish_deletion policy now d (m_db m)\<rparr>)"
| recover: "deletion_step m (m\<lparr>m_db := snd (recover_stale_deletions now og (m_db m))\<rparr>)"
| accept: "accept_deletion (m_db m) actor og ws i now = Inr (q, s) \<Longrightarrow> deletion_step m (m\<lparr>m_db := s\<rparr>)"
| create: "create_agreement (m_db m) actor og ws request now = Inr (a, s) \<Longrightarrow> deletion_step m (m\<lparr>m_db := s\<rparr>)"
| submit: "submit_job publish (m_db m) actor og ws i v key profile now = Inr (j, created, s) \<Longrightarrow>
    deletion_step m (m\<lparr>m_db := s\<rparr>)"
| other: "same_view (m_db m) s \<Longrightarrow> deletion_step m (m\<lparr>m_db := s\<rparr>)"

inductive deletion_reach :: "machine \<Rightarrow> machine \<Rightarrow> bool" for m0 where
  start: "deletion_reach m0 m0"
| step: "deletion_reach m0 m \<Longrightarrow> deletion_step m m' \<Longrightarrow> deletion_reach m0 m'"

section \<open>The invariant of the system\<close>

definition known_of :: "machine \<Rightarrow> known" where
  "known_of m = \<lparr>k_held = claim_fact ` m_held m, k_claims = (\<lambda>d. (ad_id d, ad_agreement d)) ` m_claims m,
     k_listed = (\<lambda>(d, i). (di_id i, di_category i, di_key i)) ` m_listed m,
     k_erased = (\<lambda>(d, i). (di_id i, di_key i)) ` m_erased m\<rparr>"

definition machine_inv :: "machine \<Rightarrow> bool" where
  "machine_inv m \<longleftrightarrow> good (known_of m) (m_store m) (m_db m) \<and> (\<forall>c \<in> m_held m. complete_claim c)"

lemma known_fields [simp]:
  "known_of (m\<lparr>m_db := s\<rparr>) = known_of m" "known_of (m\<lparr>m_store := store\<rparr>) = known_of m"
  by (simp_all add: known_of_def)

lemma machine_db: "machine_inv m \<Longrightarrow> good (known_of m) (m_store m) s \<Longrightarrow> machine_inv (m\<lparr>m_db := s\<rparr>)"
  by (simp add: machine_inv_def)

lemma view_outboxes:
  "same_view s (snd (claim_due_outbox lease now og s))" "same_view s (mark_outbox_delivered now x s)"
  "same_view s (release_outbox now x t s)"
proof -
  have u: "same_view s (update_outbox p f s)" for p f and s :: "'a processing_db_scheme"
    by (simp add: same_view_def update_outbox_def core_of_def)
  show "same_view s (mark_outbox_delivered now x s)" "same_view s (release_outbox now x t s)"
    unfolding mark_outbox_delivered_def release_outbox_def by (rule u)+
  have "same_view s (update_outbox p f (draw s))" for p f using same_view_trans [OF view_draw u] .
  then show "same_view s (snd (claim_due_outbox lease now og s))"
    unfolding claim_due_outbox_def Let_def by (auto simp: view_draw split: list.split)
qed

lemma machine_start:
  assumes "inj (uuid_src s)" "jobs s = []" "artifacts s = []" "intents s = []" "deletion_requests s = []"
    "deletion_objects s = []" "\<forall>a \<in> set (agreements s). ag_id a \<in> used_ids s \<and> ag_deletion_requested_at a = None"
  shows "machine_inv \<lparr>m_db = s, m_store = Map.empty, m_held = {}, m_claims = {}, m_listed = {}, m_erased = {}\<rparr>"
  using assms unfolding machine_inv_def good_def safe_def wf_scope_def wf_facts_def wf_fresh_def kept_def knows_def
  by (auto simp: known_of_def core_of_def facts_def pairs_def agr_fact_def)

lemma good_finish_deletion:
  assumes g: "good n store s" and c: "(ad_id d, ad_agreement d) \<in> k_claims n"
  shows "good n store (finish_deletion policy now d s)"
  using good_complete [OF g c] good_give_back [OF g]
  unfolding finish_deletion_def by (auto simp: Let_def split: sum.split)

lemma good_give_up: "good n store s \<Longrightarrow> good n store (give_up_object policy now d item s)"
  using good_give_back unfolding give_up_object_def Let_def by auto

lemma good_listed:
  assumes g: "good n store s" and i: "\<And>i. i \<in> is \<Longrightarrow> \<exists>x \<in> c_objs (core_of s). xf_id x = di_id i \<and> xf_category x = di_category i \<and> xf_key x = di_key i"
    and f: "finite is"
  shows "good (n\<lparr>k_listed := k_listed n \<union> (\<lambda>i. (di_id i, di_category i, di_key i)) ` is\<rparr>) store s"
  using f i
proof (induction "is")
  case empty
  then show ?case using g by simp
next
  case (insert i F)
  let ?n = "n\<lparr>k_listed := k_listed n \<union> (\<lambda>i. (di_id i, di_category i, di_key i)) ` F\<rparr>"
  have IH: "good ?n store s" using insert by simp
  obtain x where x: "x \<in> c_objs (core_of s)" "xf_id x = di_id i" "xf_category x = di_category i" "xf_key x = di_key i"
    using insert.prems by blast
  have "safe (used_ids s) (?n\<lparr>k_listed := insert (xf_id x, xf_category x, xf_key x) (k_listed ?n)\<rparr>) store (core_of s)"
    using IH x(1) by (intro safe_list) (simp_all add: good_def)
  then show ?case using IH x by (simp add: good_def)
qed

lemma machine_held: "machine_inv m \<Longrightarrow> c \<in> m_held m \<Longrightarrow> claim_fact c \<in> k_held (known_of m) \<and> complete_claim c"
  by (simp add: machine_inv_def known_of_def)

lemma machine_step:
  assumes "deletion_step m m'" and "machine_inv m"
  shows "machine_inv m'"
  using assms
proof (cases rule: deletion_step.cases)
  case (claim_job now i og ws c s)
  have g: "good (known_of m) (m_store m) (m_db m)" using assms(2) by (simp add: machine_inv_def)
  note c = good_claim_job [OF g claim_job(2)]
  show ?thesis
  proof (cases c)
    case None
    then show ?thesis using claim_job c assms(2) by (auto simp: machine_inv_def known_of_def)
  next
    case (Some j)
    have "safe (used_ids s) ((known_of m)\<lparr>k_held := insert (claim_fact j) (k_held (known_of m))\<rparr>) (m_store m) (core_of s)"
      using c Some by (intro safe_hold) (simp_all add: good_def)
    moreover have "(known_of m)\<lparr>k_held := insert (claim_fact j) (k_held (known_of m))\<rparr> = known_of m'"
      using claim_job(1) Some by (simp add: known_of_def)
    ultimately show ?thesis using claim_job(1) c Some assms(2) by (simp add: machine_inv_def good_def)
  qed
next
  case (expect c now artifact ok s)
  have "good (known_of m) (m_store m) (m_db m)" using assms(2) by (simp add: machine_inv_def)
  from good_expect_artifact [OF this _ _ expect(3)] show ?thesis
    using machine_held [OF assms(2) expect(2)] expect(1) assms(2) by (simp add: machine_inv_def)
next
  case (commit c earlier p document comparison now x r store)
  have "good (known_of m) (m_store m) (m_db m)" using assms(2) by (simp add: machine_inv_def)
  from good_commit [OF this _ _ profile_keeps_view profile_conforming [OF commit(5,4,3)] commit(6)]
  show ?thesis using machine_held [OF assms(2) commit(2)] commit(1) assms(2) by (simp add: machine_inv_def)
next
  case (requeue c now i category msg t og ws expected ok s)
  then show ?thesis using good_requeue_job assms(2) by (auto simp: machine_inv_def)
next
  case (fail c now i category msg og ws expected s)
  then show ?thesis using good_fail_job assms(2) by (auto simp: machine_inv_def)
next
  case (claim_deletion lease now i og ws d s)
  have g: "good (known_of m) (m_store m) (m_db m)" using assms(2) by (simp add: machine_inv_def)
  note c = good_claim_deletion [OF g claim_deletion(2)]
  show ?thesis
  proof (cases d)
    case None
    then show ?thesis using claim_deletion c assms(2) by (auto simp: machine_inv_def known_of_def)
  next
    case (Some x)
    have "safe (used_ids s) ((known_of m)\<lparr>k_claims := insert (ad_id x, ad_agreement x) (k_claims (known_of m))\<rparr>) (m_store m) (core_of s)"
      using c Some by (intro safe_claim) (simp_all add: good_def)
    moreover have "(known_of m)\<lparr>k_claims := insert (ad_id x, ad_agreement x) (k_claims (known_of m))\<rparr> = known_of m'"
      using claim_deletion(1) Some by (simp add: known_of_def)
    ultimately show ?thesis using claim_deletion(1) c Some assms(2) by (simp add: machine_inv_def good_def)
  qed
next
  case (read_inventory d)
  have g: "good (known_of m) (m_store m) (m_db m)" using assms(2) by (simp add: machine_inv_def)
  have "known_of m' = (known_of m)\<lparr>k_listed := k_listed (known_of m) \<union>
      (\<lambda>i. (di_id i, di_category i, di_key i)) ` set (pending_objects d (m_db m))\<rparr>"
    unfolding read_inventory(1) by (simp add: known_of_def image_Un image_image)
  then show ?thesis using good_listed [OF g pending_objects_known] assms(2) read_inventory(1)
    by (simp add: machine_inv_def)
next
  case (erase d item accepts store)
  have g: "good (known_of m) (m_store m) (m_db m)" using assms(2) by (simp add: machine_inv_def)
  have st: "store = (m_store m)(di_key item := None)" using erase(5) by (simp add: delete_object_def split: if_splits)
  have l: "(di_id item, di_category item, di_key item) \<in> k_listed (known_of m)"
    using erase(2) by (force simp: known_of_def)
  have "known_of m' = (known_of m)\<lparr>k_erased := insert (di_id item, di_key item) (k_erased (known_of m))\<rparr>"
    unfolding erase(1) by (simp add: known_of_def)
  then show ?thesis using g assms(2) erase(1) safe_erase [OF _ l] unfolding st
    by (simp add: machine_inv_def good_def)
next
  case (mark d item lease now s)
  have "(di_id item, di_key item) \<in> k_erased (known_of m)" using mark(2) by (force simp: known_of_def)
  then show ?thesis using mark good_mark_deleted assms(2) by (auto simp: machine_inv_def)
next
  case (delete_source d item lease now accepts r store)
  have "(di_id item, ''source'', di_key item) \<in> k_listed (known_of m)" using delete_source(2,4) by (force simp: known_of_def)
  then show ?thesis using delete_source good_delete_source [of "known_of m" "m_store m" "m_db m" item lease now accepts d r store] assms(2)
    by (simp add: machine_inv_def known_of_def)
next
  case (give_up d policy now item)
  then show ?thesis using good_give_up assms(2) by (auto simp: machine_inv_def)
next
  case (finish d policy now)
  have "(ad_id d, ad_agreement d) \<in> k_claims (known_of m)" using finish(2) by (simp add: known_of_def)
  then show ?thesis using finish good_finish_deletion assms(2) by (auto simp: machine_inv_def)
next
  case (recover now og)
  then show ?thesis using good_recover assms(2) by (auto simp: machine_inv_def)
next
  case (accept actor og ws i now q s)
  then show ?thesis using good_accept_deletion assms(2) by (auto simp: machine_inv_def)
next
  case (create actor og ws request now a s)
  then show ?thesis using good_create_agreement assms(2) by (auto simp: machine_inv_def)
next
  case (submit publish actor og ws i v key profile now j created s)
  then show ?thesis using good_submit_job assms(2) by (auto simp: machine_inv_def)
next
  case (other s)
  then show ?thesis using good_view assms(2) by (auto simp: machine_inv_def)
qed

lemma machine_reach: "deletion_reach m0 m \<Longrightarrow> machine_inv m0 \<Longrightarrow> machine_inv m"
  by (induction rule: deletion_reach.induct) (auto intro: machine_step)

text \<open>
  C23: From a system in which no deletion was requested and the workers stored nothing, whatever the
  processing workers, the deletion workers and the API do and in whatever order, as long as no worker
  commits a job with a malformed reindex profile: when the deletion of an agreement is completed, the
  object store holds no analysis and no comparison that a processing worker stored for that agreement.
  (Uploaded sources and final packages are written by others and are not in this store.)
\<close>

theorem completed_deletion_leaves_no_object:
  assumes "deletion_reach \<lparr>m_db = s, m_store = Map.empty, m_held = {}, m_claims = {}, m_listed = {}, m_erased = {}\<rparr> m"
    and "inj (uuid_src s)" "jobs s = []" "artifacts s = []" "intents s = []" "deletion_requests s = []"
    and "deletion_objects s = []" "\<forall>a \<in> set (agreements s). ag_id a \<in> used_ids s \<and> ag_deletion_requested_at a = None"
    and "r \<in> set (deletion_requests (m_db m))" "dr_state r = DCompleted"
  shows "m_store m key \<noteq> Some (dr_agreement r, content)"
proof -
  have "machine_inv m" using machine_reach [OF assms(1) machine_start [OF assms(2-8)]] .
  then have "safe (used_ids (m_db m)) (known_of m) (m_store m) (core_of (m_db m))"
    by (simp add: machine_inv_def good_def)
  from safe_completed [OF this in_core(4) [OF assms(9)], of key content] assms(10)
  show ?thesis by (simp add: req_fact_def)
qed

definition demo_deletable :: processing_db where
  "demo_deletable = demo_rows\<lparr>uuid_used := 1, agreements := [demo_contract\<lparr>ag_id := demo_uuid 0\<rparr>]\<rparr>"

lemma demo_accept:
  "\<exists>q s. accept_deletion demo_deletable ''P1'' ''G1'' ''W1'' (demo_uuid 0) 5 = Inr (q, s) \<and>
     deletion_requests s = [q] \<and> deletion_objects s = [] \<and> intents s = [] \<and>
     dr_id q = demo_uuid 1 \<and> dr_org q = ''G1'' \<and> dr_ws q = ''W1'' \<and> dr_agreement q = demo_uuid 0 \<and>
     dr_state q = DAccepted \<and> dr_next_attempt_at q = 5 \<and>
     (\<exists>a. agreements s = [a] \<and> ag_id a = demo_uuid 0 \<and> ag_org a = ''G1'' \<and> ag_ws a = ''W1'' \<and>
        ag_deletion_requested_at a \<noteq> None)"
proof -
  have "same_tenant demo_deletable"
    using same_tenant_rows by (simp add: demo_deletable_def same_tenant_def del: same_tenant_rows)
  note acc = same_tenant_access [OF this]
  have may: "demo_access ''P1'' AGREEMENTS_DELETE" "demo_access ''P1'' AGREEMENTS_READ"
    by (simp_all add: demo_access_def permissions_for_def PermissionKey_def)
  let ?a = "demo_contract\<lparr>ag_id := demo_uuid 0\<rparr>"
  have v: "get_visible_agreement demo_deletable ''P1'' ''G1'' ''W1'' (demo_uuid 0) = Inr ?a"
    unfolding get_visible_agreement_def authorize_agreement_def acc
    using may by (simp add: get_agreement_def) (simp add: demo_deletable_def)
  have "accept_deletion demo_deletable ''P1'' ''G1'' ''W1'' (demo_uuid 0) 5 = accept_agreement_deletion 5 ?a ''P1'' demo_deletable"
    unfolding accept_deletion_def authorize_agreement_def acc v
    using may by (simp add: deletion_by_agreement_def) (simp add: demo_deletable_def)
  moreover have "inventory_of demo_deletable ?a = []"
    by (simp add: demo_deletable_def inventory_of_def source_objects_def artifact_objects_def intent_objects_def
        comparison_objects_def package_objects_def terminal_objects_def file_keys_def reviews_of_def dedup_first_def)
  ultimately show ?thesis
    by (simp add: accept_agreement_deletion_def Let_def)
      (simp add: demo_deletable_def new_request_def add_deletion_audit_def uuid4_def)
qed

lemma demo_claimed:
  assumes "deletion_requests s = [q]" "dr_id q = i" "dr_org q = g" "dr_ws q = w" "dr_state q = DAccepted"
    "dr_next_attempt_at q \<le> now"
  shows "\<exists>d s'. claim_deletion 30 now i g w s = (Some d, s') \<and> ad_id d = i \<and> ad_org d = g \<and> ad_ws d = w \<and>
    ad_agreement d = dr_agreement q \<and> deletion_objects s' = deletion_objects s \<and> intents s' = intents s \<and>
    agreements s' = agreements s \<and> (\<exists>q'. deletion_requests s' = [q'] \<and> holds_claim d q' \<and> dr_agreement q' = dr_agreement q)"
  using assms by (simp add: claim_deletion_def Let_def claimable_def update_request_def claimed_request_def holds_claim_def)

lemma demo_purged:
  assumes "deletion_requests s = [q]" "holds_claim d q" "deletion_objects s = []" "intents s = []" "agreements s = [a]"
    "ag_id a = ad_agreement d" "ag_org a = ad_org d" "ag_ws a = ad_ws d" "ag_deletion_requested_at a \<noteq> None"
  shows "\<exists>r. deletion_requests (finish_deletion policy now d s) = [r] \<and> dr_state r = DCompleted \<and>
    dr_agreement r = dr_agreement q"
proof -
  have h: "own_claim d q" "dr_id q = ad_id d" using assms(2) by (simp_all add: own_claim_def holds_claim_def)
  have c: "locked_claim d s = Some q" using assms(1,2) by (simp add: locked_claim_def)
  have u: "\<not> unresolved_intent d s" using assms(4) by (simp add: unresolved_intent_def)
  let ?s1 = "purge_processing d (purge_evaluations d (purge_index d (purge_reviews d (purge_questions d s))))"
  have t: "agreements ?s1 = [a]" "deletion_requests ?s1 = [q]"
    using assms(1,5) by (simp_all add: purge_processing_def purge_evaluations_def purge_index_def purge_reviews_def
        purge_questions_def Let_def)
  obtain s2 where s2: "purge_owned_rows d now s = Inr s2" "deletion_requests s2 = [q]"
    using t assms(6-9) unfolding purge_owned_rows_def Let_def by (simp add: is_tombstone_of_def)
  have "complete_and_purge now d s = Inr (insert_terminal_audit q ''completed'' now
      (update_request (own_claim d) (completed_request now) s2))"
    unfolding complete_and_purge_def using assms(3,5-8) c u s2(1) by simp
  then show ?thesis using s2(2) h
    by (simp add: finish_deletion_def insert_terminal_audit_def update_request_def completed_request_def)
qed

theorem completed_deletion_leaves_no_object_witness:
  "\<exists>m r. deletion_reach \<lparr>m_db = demo_deletable, m_store = Map.empty, m_held = {}, m_claims = {}, m_listed = {},
       m_erased = {}\<rparr> m \<and> r \<in> set (deletion_requests (m_db m)) \<and> dr_state r = DCompleted \<and>
     m_store m ''k'' \<noteq> Some (dr_agreement r, ''x'')"
proof -
  let ?m0 = "\<lparr>m_db = demo_deletable, m_store = Map.empty, m_held = {}, m_claims = {}, m_listed = {}, m_erased = {}\<rparr>"
  obtain q s1 a where s1: "accept_deletion demo_deletable ''P1'' ''G1'' ''W1'' (demo_uuid 0) 5 = Inr (q, s1)"
      "deletion_requests s1 = [q]" "deletion_objects s1 = []" "intents s1 = []" "dr_id q = demo_uuid 1"
      "dr_org q = ''G1''" "dr_ws q = ''W1''" "dr_agreement q = demo_uuid 0" "dr_state q = DAccepted"
      "dr_next_attempt_at q = 5" and a: "agreements s1 = [a]" "ag_id a = demo_uuid 0" "ag_org a = ''G1''"
      "ag_ws a = ''W1''" "ag_deletion_requested_at a \<noteq> None"
    using demo_accept by blast
  let ?m1 = "?m0\<lparr>m_db := s1\<rparr>"
  have r1: "deletion_reach ?m0 ?m1"
    by (rule deletion_reach.step [OF deletion_reach.start deletion_step.accept
          [where actor = "''P1''" and og = "''G1''" and ws = "''W1''" and i = "demo_uuid 0" and now = 5 and q = q]])
      (simp add: s1(1))
  obtain d s2 q2 where s2: "claim_deletion 30 6 (demo_uuid 1) ''G1'' ''W1'' s1 = (Some d, s2)" "ad_id d = demo_uuid 1"
      "ad_org d = ''G1''" "ad_ws d = ''W1''" "ad_agreement d = demo_uuid 0" "deletion_objects s2 = []" "intents s2 = []"
      "agreements s2 = [a]" "deletion_requests s2 = [q2]" "holds_claim d q2" "dr_agreement q2 = demo_uuid 0"
    using demo_claimed [OF s1(2,5,6,7,9), of 6] s1 a(1) by auto
  let ?m2 = "?m1\<lparr>m_db := s2, m_claims := m_claims ?m1 \<union> set_option (Some d)\<rparr>"
  have r2: "deletion_reach ?m0 ?m2"
    by (rule deletion_reach.step [OF r1 deletion_step.claim_deletion
          [where lease = 30 and now = 6 and i = "demo_uuid 1" and og = "''G1''" and ws = "''W1''"]])
      (simp add: s2(1) [simplified])
  let ?m3 = "?m2\<lparr>m_db := finish_deletion default_deletion_policy 7 d (m_db ?m2)\<rparr>"
  have r3: "deletion_reach ?m0 ?m3" by (rule deletion_reach.step [OF r2 deletion_step.finish]) simp
  obtain r where r: "deletion_requests (finish_deletion default_deletion_policy 7 d s2) = [r]" "dr_state r = DCompleted"
    using demo_purged [OF s2(9,10,6,7,8), of default_deletion_policy 7] s2 a by auto
  have "m_store ?m3 ''k'' \<noteq> Some (dr_agreement r, ''x'')"
    by (rule completed_deletion_leaves_no_object [OF r3])
      (use r in \<open>simp_all add: demo_deletable_def used_ids_def lessThan_Suc\<close>)
  then show ?thesis using r3 r by (intro exI [of _ ?m3] exI [of _ r]) simp
qed

section \<open>What the malformed profiles are left out for\<close>

definition demo_reindex_row :: job_row where
  "demo_reindex_row = demo_job\<lparr>jb_profile := ''embedding-reindex:nightly'', jb_source_storage_key := Some ''k'',
     jb_source_checksum := Some ''c'', jb_source_content_type := Some ''application/pdf'', jb_state := JProcessing,
     jb_claim_token := Some ''T1'', jb_claim_lease_expires_at := Some 100\<rparr>"

definition demo_reindex_job :: processing_job where
  "demo_reindex_job = \<lparr>pj_id = ''J1'', pj_agreement = ''AG1'', pj_state = JProcessing, pj_attempt_count = 1,
     pj_org = Some ''G1'', pj_ws = Some ''W1'', pj_profile = Some ''embedding-reindex:nightly'',
     pj_source_storage_key = Some ''k'', pj_source_checksum = Some ''c'',
     pj_source_content_type = Some ''application/pdf'', pj_failure_category = None, pj_failure_message = None,
     pj_next_retry_at = None, pj_processing_started_at = None, pj_completed_at = None, pj_claim_token = Some ''T1'',
     pj_claim_lease_expires_at = Some 100\<rparr>"

definition demo_reindex_manifest :: json where
  "demo_reindex_manifest = JObj [(''schema_version'', JStr ''document-analysis.v1''),
     (''source'', JObj [(''checksum'', JStr ''c''), (''storage_key'', JStr ''k'')])]"

definition demo_reindex_externals :: comparison_externals where
  "demo_reindex_externals = \<lparr>cx_dumps = (\<lambda>_. ''m''), cx_loads = (\<lambda>_. Some demo_reindex_manifest),
     cx_fromisoformat = (\<lambda>_. None), cx_str = (\<lambda>_. [])\<rparr>"

definition demo_reindex_prepared :: prepared_artifact where
  "demo_reindex_prepared = \<lparr>pa_artifact = \<lparr>ca_job = ''J1'', ca_key = document_artifact_key demo_reindex_job ''c''\<rparr>,
     pa_content = Some ''m'', pa_content_type = Some ''application/json''\<rparr>"

text \<open>
  A job with the profile \<open>embedding-reindex:nightly\<close> commits the analysis its document gives: the object is
  stored, and the inventory that a deletion of the agreement accepts afterwards is empty.
\<close>

lemma malformed_reindex_object_unlisted:
  "malformed_reindex (pj_profile demo_reindex_job) \<and>
   profile_expected_artifact demo_rows demo_reindex_job = Inr (pa_artifact demo_reindex_prepared) \<and>
   (case commit_prepared 5 (profile_finalize demo_reindex_externals 5) demo_reindex_job demo_reindex_prepared
       (demo_rows\<lparr>jobs := [demo_reindex_row]\<rparr>) Map.empty of
      (Inr (ok, s), store) \<Rightarrow> ok \<and> inventory_of s demo_contract = [] \<and>
        store (document_artifact_key demo_reindex_job ''c'') = Some (''AG1'', ''m'')
    | _ \<Rightarrow> False)"
  by code_simp

end
