(* ===== verification/Deletion_Rows.thy ===== *)
theory Deletion_Rows
  imports Deletion_Core Processing_Demo
begin

text \<open>
  The constraints the database declares for the rows of deletion requests
  (\<open>AgreementDeletionRequestRecord.__table_args__\<close>), and that every operation keeps them: no transaction
  of the deletion is rejected by one of them.
\<close>

definition request_ok :: "deletion_request_row \<Rightarrow> bool" where
  "request_ok r \<longleftrightarrow> 0 \<le> dr_attempt_count r \<and> 1 \<le> dr_retry_cycle r \<and>
     (dr_claim_token r = None) = (dr_lease_expires_at r = None) \<and>
     (dr_state r = DProcessing) = (dr_claim_token r \<noteq> None) \<and>
     (dr_state r = DCompleted) = (dr_completed_at r \<noteq> None) \<and>
     (dr_state r = DFailed) = (dr_failed_at r \<noteq> None)"

definition requests_ok :: "'z processing_db_scheme \<Rightarrow> bool" where
  "requests_ok s \<longleftrightarrow> distinct (map dr_id (deletion_requests s)) \<and> (\<forall>r \<in> set (deletion_requests s). request_ok r)"

lemma requests_ok_same: "requests_ok s \<Longrightarrow> deletion_requests s' = deletion_requests s \<Longrightarrow> requests_ok s'"
  by (simp add: requests_ok_def)

lemma requests_ok_update:
  assumes "requests_ok s" "\<And>r. r \<in> set (deletion_requests s) \<Longrightarrow> p r \<Longrightarrow> dr_id (f r) = dr_id r \<and> request_ok (f r)"
    "deletion_requests s' = update_where p f (deletion_requests s)"
  shows "requests_ok s'"
proof -
  have "map dr_id (update_where p f rs) = map dr_id rs" if "\<And>r. r \<in> set rs \<Longrightarrow> p r \<Longrightarrow> dr_id (f r) = dr_id r" for rs
    using that by (induction rs) auto
  then show ?thesis using assms unfolding requests_ok_def by (auto simp: in_update_where)
qed

lemma request_rows_ok:
  assumes "request_ok r"
  shows "dr_state r = DProcessing \<Longrightarrow> request_ok (retrying_request c m t now r)"
    "dr_state r = DProcessing \<Longrightarrow> request_ok (failed_request c m now r)"
    "dr_state r \<noteq> DCompleted \<Longrightarrow> dr_state r \<noteq> DFailed \<Longrightarrow> request_ok (claimed_request tk l now r)"
    "dr_state r = DProcessing \<Longrightarrow> request_ok (completed_request now r)"
    "request_ok (reopened_request now r)"
    "dr_state r = DFailed \<Longrightarrow> request_ok (redriven_request now r)"
    "dr_claim_token r \<noteq> None \<Longrightarrow> request_ok (r\<lparr>dr_lease_expires_at := Some e, dr_updated_at := now\<rparr>)"
  using assms
  by (auto simp: request_ok_def retrying_request_def failed_request_def claimed_request_def completed_request_def
      reopened_request_def redriven_request_def Let_def split: option.split)

lemma own_claim_processing: "own_claim d r \<Longrightarrow> request_ok r \<Longrightarrow> dr_state r = DProcessing \<and> dr_claim_token r \<noteq> None"
  by (auto simp: own_claim_def request_ok_def)

lemma ok_rowD: "requests_ok s \<Longrightarrow> r \<in> set (deletion_requests s) \<Longrightarrow> request_ok r"
  by (simp add: requests_ok_def)

lemma ok_own_claim:
  assumes "requests_ok s" "\<And>r. own_claim d r \<Longrightarrow> request_ok r \<Longrightarrow> dr_state r = DProcessing \<Longrightarrow> dr_id (f r) = dr_id r \<and> request_ok (f r)"
    "deletion_requests s' = update_where (own_claim d) f (deletion_requests s)"
  shows "requests_ok s'"
  by (rule requests_ok_update [OF assms(1) _ assms(3)]) (use assms(2) ok_rowD [OF assms(1)] own_claim_processing in blast)

text \<open>A row that replaces the row of its id.\<close>

lemma ok_by_id:
  assumes "requests_ok s" "r \<in> set (deletion_requests s)" "dr_id r' = dr_id r" "request_ok r'"
    "deletion_requests s' = update_where (\<lambda>q. dr_id q = dr_id r) (\<lambda>_. r') (deletion_requests s)"
  shows "requests_ok s'"
  by (rule requests_ok_update [OF assms(1) _ assms(5)]) (use assms(3,4) in simp)

section \<open>The operations\<close>

lemma ok_claim:
  assumes s: "requests_ok s" and c: "claim_deletion lease now i og ws s = (d, s')"
  shows "requests_ok s'"
proof (cases "find (claimable i og ws now) (deletion_requests s)")
  case None
  then show ?thesis using c s by (auto simp: claim_deletion_def Let_def requests_ok_def)
next
  case (Some r)
  note r = find_SomeD [OF Some]
  then have "dr_state r \<noteq> DCompleted" "dr_state r \<noteq> DFailed" "dr_id r = i" by (auto simp: claimable_def)
  moreover have "deletion_requests s' =
      update_where (\<lambda>q. dr_id q = i) (\<lambda>_. claimed_request (uuid4 s) lease now r) (deletion_requests s)"
    using c Some by (auto simp: claim_deletion_def Let_def update_request_def)
  ultimately show ?thesis using r ok_rowD [OF s] request_rows_ok(3)
    by (intro ok_by_id [OF s, of r "claimed_request (uuid4 s) lease now r"]) (auto simp: claimed_request_def)
qed

lemma ok_finish_object:
  assumes "requests_ok s"
  shows "requests_ok (finish_object lease d i st now s)"
  by (rule ok_own_claim [OF assms, of d "\<lambda>r. r\<lparr>dr_lease_expires_at := Some (now + seconds lease), dr_updated_at := now\<rparr>"])
    (use request_rows_ok(7) own_claim_processing in \<open>auto simp: finish_object_def update_request_def\<close>)

lemma register_requests: "deletion_requests (register_deleted d key now s) = deletion_requests s"
  by (simp add: register_deleted_def Let_def)

lemma ok_delete_item:
  assumes s: "requests_ok s" and r: "delete_item lease now accepts d item s store = (Inr s', store')"
  shows "requests_ok s'"
proof -
  have "requests_ok (register_deleted d (di_key item) now s)" by (rule requests_ok_same [OF s register_requests])
  then show ?thesis
    using r s ok_finish_object [OF s] ok_finish_object
    unfolding delete_item_def delete_source_if_unreferenced_def mark_deleted_def
    by (auto split: sum.splits prod.splits if_splits)
qed

lemma give_back_requests:
  "deletion_requests (rearm_deletion_outbox d msg t now s) = deletion_requests s"
  "deletion_requests (object_error d i msg now s) = deletion_requests s"
  "deletion_requests (insert_terminal_audit r ev now s) = deletion_requests s"
  by (simp_all add: rearm_deletion_outbox_def object_error_def insert_terminal_audit_def)

lemma ok_give_back:
  assumes s: "requests_ok s"
  shows "requests_ok (retry_deletion now d i msg t s)" "requests_ok (fail_deletion now d i msg s)"
    "requests_ok (retry_database_cleanup now d msg t s)" "requests_ok (fail_database_cleanup now d msg s)"
proof -
  have retry: "requests_ok s'" if "deletion_requests s' = update_where (own_claim d) (retrying_request c msg t now) (deletion_requests s)"
    for c s' by (rule ok_own_claim [OF s _ that]) (use request_rows_ok(1) in \<open>simp add: retrying_request_def\<close>)
  have fail: "requests_ok s'" if "deletion_requests s' = update_where (own_claim d) (failed_request c msg now) (deletion_requests s)"
    for c s' by (rule ok_own_claim [OF s _ that]) (use request_rows_ok(2) in \<open>simp add: failed_request_def\<close>)
  show "requests_ok (retry_deletion now d i msg t s)"
    using s retry [of "retry_deletion now d i msg t s"] by (cases "claim_is_current d s")
      (auto simp: retry_deletion_def give_back_requests update_request_def)
  show "requests_ok (retry_database_cleanup now d msg t s)"
    using s retry [of "retry_database_cleanup now d msg t s"] by (cases "claim_is_current d s")
      (auto simp: retry_database_cleanup_def give_back_requests update_request_def)
  show "requests_ok (fail_deletion now d i msg s)"
    using s fail [of "fail_deletion now d i msg s"] by (cases "locked_claim d s")
      (auto simp: fail_deletion_def give_back_requests update_request_def)
  show "requests_ok (fail_database_cleanup now d msg s)"
    using s fail [of "fail_database_cleanup now d msg s"] by (cases "locked_claim d s")
      (auto simp: fail_database_cleanup_def give_back_requests update_request_def)
qed

lemma ok_recover:
  assumes s: "requests_ok s"
  shows "requests_ok (snd (recover_stale_deletions now og s))"
proof -
  let ?stale = "map dr_id (filter (stale_request og now) (deletion_requests s))"
  let ?f = "retrying_request ''database_cleanup'' ''Expired deletion lease recovered'' now now"
  have st: "dr_state r = DProcessing" if r: "r \<in> set (deletion_requests s)" "dr_id r \<in> set ?stale" for r
  proof -
    obtain q where q: "q \<in> set (deletion_requests s)" "stale_request og now q" "dr_id q = dr_id r" using r(2) by auto
    have "q = r" using s distinct_key_inj [of dr_id "deletion_requests s" q r] q r(1) by (simp add: requests_ok_def)
    then show ?thesis using q(2) by (simp add: stale_request_def)
  qed
  have k: "requests_ok s'" if "deletion_requests s' = update_where (\<lambda>r. dr_id r \<in> set ?stale) ?f (deletion_requests s)"
    for s' :: "'a processing_db_scheme"
  proof (rule requests_ok_update [OF s _ that])
    fix r assume r: "r \<in> set (deletion_requests s)" "dr_id r \<in> set ?stale"
    show "dr_id (?f r) = dr_id r \<and> request_ok (?f r)"
      using request_rows_ok(1) [OF ok_rowD [OF s r(1)] st [OF r]] by (simp add: retrying_request_def)
  qed
  show ?thesis
  proof (cases "?stale = []")
    case False
    then show ?thesis by (intro k) (simp add: recover_stale_deletions_def Let_def update_request_def)
  qed (simp add: recover_stale_deletions_def Let_def s)
qed

lemma purge_requests:
  "deletion_requests (purge_questions d s) = deletion_requests s"
  "deletion_requests (purge_reviews d s) = deletion_requests s"
  "deletion_requests (purge_index d s) = deletion_requests s"
  "deletion_requests (purge_evaluations d s) = deletion_requests s"
  "deletion_requests (purge_processing d s) = deletion_requests s"
  by (simp_all add: purge_questions_def purge_reviews_def purge_index_def purge_evaluations_def purge_processing_def Let_def)

lemma ok_complete:
  assumes s: "requests_ok s" and r: "complete_and_purge now d s = Inr s'"
  shows "requests_ok s'"
proof (cases "locked_claim d s")
  case None
  then show ?thesis using r s by (simp add: complete_and_purge_def result_simps)
next
  case (Some q)
  obtain s1 where s1: "purge_owned_rows d now s = Inr s1"
      and s': "s' = insert_terminal_audit q ''completed'' now (update_request (own_claim d) (completed_request now) s1)"
    using r Some unfolding complete_and_purge_def by (auto simp: result_simps split: if_splits)
  have "deletion_requests s1 = deletion_requests s"
    using s1 by (auto simp: purge_owned_rows_def Let_def purge_requests split: if_splits)
  then have "deletion_requests s' = update_where (own_claim d) (completed_request now) (deletion_requests s)"
    by (simp add: s' give_back_requests update_request_def)
  then show ?thesis
    by (rule ok_own_claim [OF s, rotated]) (use request_rows_ok(4) in \<open>simp add: completed_request_def\<close>)
qed

lemma ok_finish:
  assumes "requests_ok s"
  shows "requests_ok (finish_deletion policy now d s)"
  using ok_complete [OF assms] ok_give_back [OF assms] unfolding finish_deletion_def
  by (auto simp: Let_def split: sum.split)

lemma ok_give_up:
  assumes "requests_ok s"
  shows "requests_ok (give_up_object policy now d item s)"
  using ok_give_back [OF assms] unfolding give_up_object_def by (simp add: Let_def)

lemma ok_inventory:
  assumes s: "requests_ok s" and i: "inventory_late_artifact x key now s = Inr s'"
  shows "requests_ok s'"
proof -
  obtain r profile where r: "active_request s x = Some r" "cx_profile x = Some profile"
    using i unfolding inventory_late_artifact_def by (auto simp: result_simps)
  have rs: "r \<in> set (deletion_requests s)" using find_SomeD [OF r(1) [unfolded active_request_def]] by simp
  show ?thesis
  proof (cases "late_artifact_category profile key")
    case None
    then show ?thesis using i r s by (simp add: inventory_late_artifact_def)
  next
    case (Some category)
    have "deletion_requests s' = update_where (\<lambda>q. dr_id q = dr_id r) (\<lambda>_. reopened_request now r) (deletion_requests s)"
      using i r Some by (auto simp: inventory_late_artifact_def Let_def rearm_outbox_def pend_object_def split: option.splits if_splits)
    then show ?thesis
      using request_rows_ok(5) [OF ok_rowD [OF s rs]]
      by (intro ok_by_id [OF s rs]) (auto simp: reopened_request_def Let_def)
  qed
qed

lemma add_objects_requests: "deletion_requests (add_objects r now xs s) = deletion_requests s"
  by (induction r now xs s rule: add_objects.induct) simp_all

lemma ok_accept:
  assumes s: "requests_ok s" and f: "uuid4 s \<notin> dr_id ` set (deletion_requests s)"
    and r: "accept_deletion s actor og ws i now = Inr (q, s')"
  shows "requests_ok s'"
proof (cases "deletion_by_agreement s i og ws")
  case None
  then obtain a where "accept_agreement_deletion now a actor s = Inr (q, s')"
    using r by (auto simp: accept_deletion_def result_simps)
  then have "deletion_requests s' = deletion_requests s @ [new_request (uuid4 s) a actor now]"
    by (auto simp: accept_agreement_deletion_def Let_def result_simps add_deletion_audit_def add_objects_requests)
  moreover have "request_ok (new_request (uuid4 s) a actor now)" by (simp add: request_ok_def new_request_def)
  ultimately show ?thesis using s f by (auto simp: requests_ok_def new_request_def)
next
  case (Some x)
  have rd: "(if dr_state x = DFailed then redrive_deletion now x actor s else (x, s)) = (q, s')"
    using r Some by (auto simp: accept_deletion_def result_simps)
  show ?thesis
  proof (cases "dr_state x = DFailed \<and> (\<exists>l. find (\<lambda>y. dr_id y = dr_id x) (deletion_requests s) = Some l \<and> dr_state l = DFailed)")
    case False
    then show ?thesis using rd s by (auto simp: redrive_deletion_def split: if_splits option.splits)
  next
    case True
    then obtain l where l: "find (\<lambda>y. dr_id y = dr_id x) (deletion_requests s) = Some l" "dr_state l = DFailed" by blast
    have ls: "l \<in> set (deletion_requests s)" "dr_id l = dr_id x" using find_SomeD [OF l(1)] by simp_all
    have "deletion_requests s' = update_where (\<lambda>y. dr_id y = dr_id l) (\<lambda>_. redriven_request now l) (deletion_requests s)"
      using rd True l ls(2) by (auto simp: redrive_deletion_def Let_def add_deletion_audit_def update_request_def)
    then show ?thesis
      using request_rows_ok(6) [OF ok_rowD [OF s ls(1)] l(2)]
      by (intro ok_by_id [OF s ls(1)]) (auto simp: redriven_request_def)
  qed
qed

text \<open>
  C24: The rows of deletion requests keep the constraints of their table (a claim token exactly with a
  lease and exactly while processing, the completion and failure times exactly in those states, no
  negative attempts, at least one cycle) and their distinct ids under every operation of the deletion
  worker, under a late artifact and under an acceptance.
\<close>

theorem request_constraints_kept:
  assumes "requests_ok s" "uuid4 s \<notin> dr_id ` set (deletion_requests s)"
  shows "requests_ok (snd (claim_deletion lease now i og ws s)) \<and>
    (\<forall>s'. fst (delete_item lease now accepts d item s store) = Inr s' \<longrightarrow> requests_ok s') \<and>
    requests_ok (give_up_object policy now d item s) \<and> requests_ok (finish_deletion policy now d s) \<and>
    requests_ok (snd (recover_stale_deletions now og s)) \<and>
    (\<forall>s'. inventory_late_artifact x key now s = Inr s' \<longrightarrow> requests_ok s') \<and>
    (\<forall>q s'. accept_deletion s actor og ws a now = Inr (q, s') \<longrightarrow> requests_ok s')"
proof -
  have "requests_ok (snd (claim_deletion lease now i og ws s))" by (rule ok_claim [OF assms(1)]) (rule prod.collapse [symmetric])
  moreover have "\<forall>s'. fst (delete_item lease now accepts d item s store) = Inr s' \<longrightarrow> requests_ok s'"
    using ok_delete_item [OF assms(1)] by (metis prod.collapse)
  moreover note ok_give_up [OF assms(1), of policy now d item] ok_finish [OF assms(1), of policy now d]
    ok_recover [OF assms(1), of now og]
  moreover have "\<forall>s'. inventory_late_artifact x key now s = Inr s' \<longrightarrow> requests_ok s'"
    using ok_inventory [OF assms(1)] by simp
  moreover have "\<forall>q s'. accept_deletion s actor og ws a now = Inr (q, s') \<longrightarrow> requests_ok s'"
    using ok_accept [OF assms] by simp
  ultimately show ?thesis by simp
qed

theorem request_constraints_kept_witness:
  "requests_ok (finish_deletion default_deletion_policy 5
     \<lparr>ad_id = ''D1'', ad_org = ''G1'', ad_ws = ''W1'', ad_agreement = ''AG1'', ad_attempt_count = 1, ad_claim_token = ''t''\<rparr>
     (demo_rows\<lparr>deletion_requests := [demo_request]\<rparr>))"
proof -
  have "requests_ok (demo_rows\<lparr>deletion_requests := [demo_request]\<rparr>)"
    by (simp add: requests_ok_def request_ok_def demo_request_def)
  moreover have "uuid4 (demo_rows\<lparr>deletion_requests := [demo_request]\<rparr>) \<notin>
      dr_id ` set (deletion_requests (demo_rows\<lparr>deletion_requests := [demo_request]\<rparr>))"
    by (simp add: uuid4_def demo_request_def demo_uuid_def)
  ultimately show ?thesis by (rule request_constraints_kept [THEN conjunct2, THEN conjunct2, THEN conjunct2, THEN conjunct1])
qed

end
