(* ===== verification/Processing_Properties.thy ===== *)
theory Processing_Properties
  imports Deletion_Core Processing_Demo
begin

text \<open>
  Properties of job processing: a worker that lost its claim changes nothing, a job that fails
  transiently is attempted as often as the policy says and then fails, and a submission is idempotent.
\<close>

section \<open>Fencing\<close>

definition same_work :: "'z processing_db_scheme \<Rightarrow> 'z processing_db_scheme \<Rightarrow> bool" where
  "same_work s s' \<longleftrightarrow> jobs s' = jobs s \<and> artifacts s' = artifacts s \<and> agreements s' = agreements s \<and>
     agreement_versions s' = agreement_versions s"

lemma same_work_refl [simp]: "same_work s s"
  by (simp add: same_work_def)

lemma pend_work: "same_work s (pend_object r category key now s)"
  by (simp add: same_work_def pend_object_def split: option.split)

lemma rearm_work: "same_work s (rearm_outbox r now s)"
  by (simp add: same_work_def rearm_outbox_def)

lemma same_work_trans: "same_work s s' \<Longrightarrow> same_work s' s'' \<Longrightarrow> same_work s s''"
  by (simp add: same_work_def)

lemma inventory_same_work:
  assumes "inventory_late_artifact x key now s = Inr s'"
  shows "same_work s s'"
proof -
  obtain r profile where r: "active_request s x = Some r" "cx_profile x = Some profile"
    using assms unfolding inventory_late_artifact_def by (auto simp: result_simps)
  show ?thesis
  proof (cases "late_artifact_category profile key")
    case None
    then show ?thesis using assms r by (simp add: inventory_late_artifact_def)
  next
    case (Some category)
    let ?s1 = "pend_object r category key now s"
    let ?s2 = "?s1\<lparr>deletion_requests := update_where (\<lambda>q. dr_id q = dr_id r) (\<lambda>_. reopened_request now r) (deletion_requests ?s1)\<rparr>"
    have "same_work ?s1 ?s2" by (simp add: same_work_def)
    then have "same_work s ?s2" using same_work_trans [OF pend_work] by blast
    then have "same_work s (rearm_outbox r now ?s2)" using same_work_trans rearm_work by blast
    then show ?thesis using assms r Some by (simp add: inventory_late_artifact_def Let_def)
  qed
qed

lemma delete_intents_same_work: "same_work s s' \<Longrightarrow> same_work s (delete_intents i s')"
  by (simp add: same_work_def delete_intents_def)

lemma reconcile_same_work: "reconcile_artifact_intent i now s = Inr s' \<Longrightarrow> same_work s s'"
  by (auto simp: reconcile_artifact_intent_def result_simps intro: delete_intents_same_work inventory_same_work)

lemma not_owner: "jb_claim_token j \<noteq> pj_claim_token c \<Longrightarrow> \<not> owns_claim j (Some c)"
  by (auto simp: owns_claim_def)

lemma commit_fenced:
  assumes j: "job_for_update s (pj_id c) = Some j" "\<not> owns_claim j (Some c)"
    and r: "commit_prepared now finalize c p s store = (r, store')"
  shows "store' = store \<and> (\<forall>ok s'. r = Inr (ok, s') \<longrightarrow> \<not> ok \<and> same_work s s')"
proof -
  have "\<exists>s'. x = Inl s' \<and> same_work s s'" if x: "commit_checks now c artifact og ws s = Inr x" for artifact og ws x
    using x j by (auto simp: commit_checks_def Let_def result_simps dest: inventory_same_work split: option.splits if_splits)
  then show ?thesis
    using r unfolding commit_prepared_def Let_def
    by (fastforce simp: result_simps split: sum.splits if_splits)
qed

lemma expected_same_work: "inventory_expected job e now s = Inr s' \<Longrightarrow> same_work s s'"
  by (auto simp: inventory_expected_def dest: inventory_same_work split: option.splits)

lemma requeue_fenced:
  assumes j: "job_for_update s i = Some j" "\<not> owns_claim j claimed"
    and r: "requeue_job now i category msg t og ws claimed e s = Inr (ok, s')"
  shows "\<not> ok \<and> same_work s s'"
  using r j by (auto simp: requeue_job_def requeue_tombstoned_def result_simps dest: expected_same_work
      split: option.splits if_splits)

lemma fail_fenced:
  assumes j: "job_for_update s i = Some j" "\<not> owns_claim j claimed"
    and r: "fail_job now i category msg og ws claimed e s = Inr s'"
  shows "same_work s s'"
  using r j by (auto simp: fail_job_def result_simps dest: expected_same_work split: option.splits if_splits)

lemma complete_fenced:
  assumes j: "job_for_update s i = Some j" "\<not> owns_claim j (Some c)"
    and r: "complete_job now i artifact og ws (Some c) s = (r', s')"
  shows "r' \<noteq> Inr True \<and> same_work s s'"
  using r j by (auto simp: complete_job_def Let_def dest: inventory_same_work split: sum.splits option.splits if_splits)

text \<open>A claim gives the job a token that no earlier claim has.\<close>

lemma update_job_for_update:
  assumes "\<And>j. jb_id (f j) = jb_id j"
  shows "job_for_update (update_job i f s) k = map_option (\<lambda>j. if jb_id j = i then f j else j) (job_for_update s k)"
  unfolding job_for_update_def update_job_def by (simp add: find_update_where_keep assms)

lemma state_job_for_update [simp]:
  "job_for_update (update_agreement_processing_state job st now s) i = job_for_update s i"
  unfolding update_agreement_processing_state_def job_for_update_def Let_def by (cases "jb_version job") simp_all

lemma draw_job_for_update [simp]: "job_for_update (draw s) i = job_for_update s i"
  by (simp add: job_for_update_def)

lemma claim_job_token:
  assumes "claim_job now i og ws s = Inr (Some c, s')"
  shows "\<exists>j. job_for_update s i = Some j \<and> job_for_update s' i = Some (take_claim (uuid4 s) now j) \<and>
    c = claimed_job j (uuid4 s) now"
proof -
  obtain j where j: "job_for_update s i = Some j"
    using assms by (auto simp: claim_job_def result_simps split: option.splits)
  have "s' = update_agreement_processing_state j JProcessing now (update_job i (take_claim (uuid4 s) now) (draw s)) \<and>
      c = claimed_job j (uuid4 s) now"
    using assms j by (auto simp: claim_job_def result_simps Let_def split: option.splits if_splits)
  then show ?thesis using j job_for_updateD [OF j] by (simp add: update_job_for_update take_claim_def)
qed

text \<open>
  C25: A worker whose claim of a job was taken over is fenced off: the new claim has a token that was
  never used, and as long as the job carries another token than the worker's, nothing the worker
  commits, completes, gives back or fails changes the jobs, the artifacts, the agreements and their
  versions, and its commit writes no object.
\<close>

theorem stale_worker_fenced:
  assumes "inj (uuid_src s0)" "pj_claim_token c = Some t" "t \<in> used_ids s0" "claim_job now0 (pj_id c) og ws s0 = Inr (Some c', s1)"
    and "job_for_update s (pj_id c) = Some j" "jb_claim_token j \<noteq> Some t"
  shows "(\<forall>j'. job_for_update s1 (pj_id c) = Some j' \<longrightarrow> jb_claim_token j' \<noteq> Some t \<and> owns_claim j' (Some c')) \<and>
    snd (commit_prepared now finalize c p s store) = store \<and>
    (\<forall>ok s'. fst (commit_prepared now finalize c p s store) = Inr (ok, s') \<longrightarrow> \<not> ok \<and> same_work s s') \<and>
    (\<forall>ok s'. requeue_job now (pj_id c) category msg next og ws (Some c) e s = Inr (ok, s') \<longrightarrow> \<not> ok \<and> same_work s s') \<and>
    (\<forall>s'. fail_job now (pj_id c) category msg og ws (Some c) e s = Inr s' \<longrightarrow> same_work s s') \<and>
    same_work s (snd (complete_job now (pj_id c) artifact og ws (Some c) s))"
proof -
  have "uuid4 s0 \<noteq> t" using uuid4_fresh [OF assms(1)] assms(3) by blast
  then have "\<forall>j'. job_for_update s1 (pj_id c) = Some j' \<longrightarrow> jb_claim_token j' \<noteq> Some t \<and> owns_claim j' (Some c')"
    using claim_job_token [OF assms(4)] by (auto simp: take_claim_def claimed_job_def owns_claim_def)
  moreover have no: "\<not> owns_claim j (Some c)" using assms(2,6) by (intro not_owner) simp
  moreover note commit_fenced [OF assms(5) no, of now finalize p store]
    complete_fenced [OF assms(5) no, of now artifact og ws]
  ultimately show ?thesis using requeue_fenced [OF assms(5) no] fail_fenced [OF assms(5) no]
    by (metis prod.collapse)
qed

definition demo_stale :: processing_db where
  "demo_stale = demo_rows\<lparr>uuid_used := 1, jobs := [demo_job\<lparr>jb_state := JProcessing,
     jb_claim_token := Some (demo_uuid 0), jb_claim_lease_expires_at := Some 0\<rparr>]\<rparr>"

lemma demo_stale_job: "job_for_update demo_stale ''J1'' = Some (hd (jobs demo_stale))"
    "jb_id (hd (jobs demo_stale)) = ''J1''"
  by (simp_all add: demo_stale_def job_for_update_def demo_job_def)

lemma demo_takeover:
  "claim_job 9 ''J1'' (Some ''G1'') (Some ''W1'') demo_stale =
     Inr (Some (claimed_job (hd (jobs demo_stale)) (demo_uuid 1) 9),
       update_agreement_processing_state (hd (jobs demo_stale)) JProcessing 9
         (update_job ''J1'' (take_claim (demo_uuid 1) 9) (draw demo_stale)))"
proof -
  have a: "agreement_for_update demo_stale (job_context (hd (jobs demo_stale))) = Some demo_contract"
    by (simp add: demo_stale_def agreement_for_update_def job_context_def demo_job_def)
  note j = demo_stale_job
  have m: "matches_tenant_scope (job_context (hd (jobs demo_stale))) (Some ''G1'') (Some ''W1'')"
    by (simp add: demo_stale_def matches_tenant_scope_def job_context_def demo_job_def)
  show ?thesis unfolding claim_job_def j option.case
    using m a by (simp add: set_tenant_context_def Let_def)
      (simp add: demo_stale_def demo_job_def has_live_claim_def uuid4_def)
qed

theorem stale_worker_fenced_witness:
  "\<exists>s1. snd (commit_prepared 10 (\<lambda>_ _ _ s. Inr s) (claimed_job (hd (jobs demo_stale)) (demo_uuid 0) 1)
     \<lparr>pa_artifact = \<lparr>ca_job = ''J1'', ca_key = ''k''\<rparr>, pa_content = Some ''x'', pa_content_type = Some ''t''\<rparr>
     (s1 :: processing_db) Map.empty) = Map.empty"
proof -
  let ?c = "claimed_job (hd (jobs demo_stale)) (demo_uuid 0) 1"
  let ?s1 = "update_agreement_processing_state (hd (jobs demo_stale)) JProcessing 9
         (update_job ''J1'' (take_claim (demo_uuid 1) 9) (draw demo_stale))"
  have c: "pj_claim_token ?c = Some (demo_uuid 0)" "pj_id ?c = ''J1''"
    by (simp_all add: claimed_job_def demo_stale_def demo_job_def)
  have j: "job_for_update ?s1 ''J1'' = Some (take_claim (demo_uuid 1) 9 (hd (jobs demo_stale)))"
    using demo_stale_job by (simp add: update_job_for_update take_claim_def)
  have st: "inj (uuid_src demo_stale)" "demo_uuid 0 \<in> used_ids demo_stale"
    by (simp_all add: demo_stale_def used_ids_def)
  have tk: "claim_job 9 (pj_id ?c) (Some ''G1'') (Some ''W1'') demo_stale =
      Inr (Some (claimed_job (hd (jobs demo_stale)) (demo_uuid 1) 9), ?s1)"
    unfolding c(2) by (rule demo_takeover)
  have ne: "jb_claim_token (take_claim (demo_uuid 1) 9 (hd (jobs demo_stale))) \<noteq> Some (demo_uuid 0)"
    by (simp add: take_claim_def)
  have j': "job_for_update ?s1 (pj_id ?c) = Some (take_claim (demo_uuid 1) 9 (hd (jobs demo_stale)))"
    unfolding c(2) by (rule j)
  show ?thesis
    by (rule exI [of _ ?s1], rule conjunct1 [OF conjunct2 [OF stale_worker_fenced [OF st(1) c(1) st(2) tk j' ne]]])
qed

end
