(* ===== verification/Processing_Progress.thy ===== *)
theory Processing_Progress
  imports Processing_Properties
begin

text \<open>
  Progress of a processing job: what one delivery does to a job that waits in the queue, and from it
  the life of a job whose processor fails transiently a number of times.
\<close>

section \<open>A job at work\<close>

text \<open>The row \<open>j\<close> is the job of its id, its agreement is live and it has no artifact yet.\<close>

definition live_in :: "'z processing_db_scheme \<Rightarrow> artifact_context \<Rightarrow> bool" where
  "live_in s x \<longleftrightarrow> (\<exists>a. agreement_for_update s x = Some a \<and> ag_deletion_requested_at a = None)"

definition job_at :: "'z processing_db_scheme \<Rightarrow> job_row \<Rightarrow> bool" where
  "job_at s j \<longleftrightarrow> job_for_update s (jb_id j) = Some j \<and> live_in s (job_context j) \<and>
     (\<forall>r \<in> set (artifacts s). af_job r \<noteq> jb_id j)"

text \<open>What is reserved for the job is nothing or the artifact under \<open>key\<close>; \<open>expects\<close>: it is reserved.\<close>

definition may_expect :: "'z processing_db_scheme \<Rightarrow> job_row \<Rightarrow> string \<Rightarrow> string \<Rightarrow> bool" where
  "may_expect s j category key \<longleftrightarrow>
     (\<forall>i. artifact_intent s (jb_id j) (Some (jb_org j)) (Some (jb_ws j)) = Some i \<longrightarrow>
        in_key i = key \<and> in_category i = category \<and> in_state i = Expected)"

definition expects :: "'z processing_db_scheme \<Rightarrow> job_row \<Rightarrow> string \<Rightarrow> string \<Rightarrow> bool" where
  "expects s j category key \<longleftrightarrow>
     (\<exists>i. artifact_intent s (jb_id j) (Some (jb_org j)) (Some (jb_ws j)) = Some i \<and>
        in_key i = key \<and> in_category i = category \<and> in_state i = Expected)"

lemma expects_may: "expects s j category key \<Longrightarrow> may_expect s j category key"
  by (auto simp: expects_def may_expect_def)

lemma live_update_job [simp]: "live_in (update_job i f s) x = live_in s x"
  by (simp add: live_in_def agreement_for_update_def update_job_def)

lemma live_draw [simp]: "live_in (draw s) x = live_in s x"
  by (simp add: live_in_def agreement_for_update_def)

lemma live_in_iff: "live_in s x \<longleftrightarrow> map_option ag_deletion_requested_at (agreement_for_update s x) = Some None"
  by (auto simp: live_in_def)

lemma find_processing_state:
  "map_option ag_deletion_requested_at (find (\<lambda>a. ag_id a = cx_agreement x \<and> cx_org x = Some (ag_org a) \<and> cx_ws x = Some (ag_ws a))
      (update_where p (\<lambda>a. a\<lparr>ag_processing_state := v, ag_updated_at := now\<rparr>) rows)) =
   map_option ag_deletion_requested_at
     (find (\<lambda>a. ag_id a = cx_agreement x \<and> cx_org x = Some (ag_org a) \<and> cx_ws x = Some (ag_ws a)) rows)"
  by (induction rows) auto

lemma live_state [simp]: "live_in (update_agreement_processing_state job st now s) x = live_in s x"
proof -
  have "map_option ag_deletion_requested_at (agreement_for_update (update_agreement_processing_state job st now s) x) =
      map_option ag_deletion_requested_at (agreement_for_update s x)"
    unfolding agreement_for_update_def update_agreement_processing_state_def Let_def
    by (cases "jb_version job") (simp_all add: find_processing_state)
  then show ?thesis by (simp only: live_in_iff)
qed

lemma artifacts_state [simp]: "artifacts (update_agreement_processing_state job st now s) = artifacts s"
  by (simp add: update_agreement_processing_state_def Let_def split: option.split)

lemma artifacts_update_job [simp]: "artifacts (update_job i f s) = artifacts s"
  by (simp add: update_job_def)

lemma intent_frame [simp]:
  "artifact_intent (update_agreement_processing_state job st now s) i og ws = artifact_intent s i og ws"
  "artifact_intent (update_job k f s) i og ws = artifact_intent s i og ws"
  "artifact_intent (draw s) i og ws = artifact_intent s i og ws"
  by (simp_all add: artifact_intent_def update_agreement_processing_state_def Let_def update_job_def
      split: option.split)

lemma row_keeps [simp]:
  "jb_id (take_claim t now j) = jb_id j" "jb_org (take_claim t now j) = jb_org j"
  "jb_ws (take_claim t now j) = jb_ws j" "job_context (take_claim t now j) = job_context j"
  "jb_profile (take_claim t now j) = jb_profile j" "jb_attempt_count (take_claim t now j) = jb_attempt_count j + 1"
  "jb_id (queued_row c m n now j) = jb_id j" "jb_org (queued_row c m n now j) = jb_org j"
  "jb_ws (queued_row c m n now j) = jb_ws j" "job_context (queued_row c m n now j) = job_context j"
  "jb_profile (queued_row c m n now j) = jb_profile j" "jb_attempt_count (queued_row c m n now j) = jb_attempt_count j"
  "jb_state (queued_row c m n now j) = JQueued"
  "jb_id (failed_row c m now j) = jb_id j" "jb_id (completed_row now j) = jb_id j"
  by (simp_all add: take_claim_def queued_row_def failed_row_def completed_row_def job_context_def)

lemma job_at_update:
  assumes "job_at s j" "\<And>k. jb_id (f k) = jb_id k" "job_context (f j) = job_context j"
  shows "job_at (update_agreement_processing_state k st now (update_job (jb_id j) f s)) (f j)"
  using assms by (simp add: job_at_def update_job_for_update)

lemma job_at_scope: "matches_tenant_scope (job_context j) (Some (jb_org j)) (Some (jb_ws j))"
  by (simp add: matches_tenant_scope_def job_context_def)

section \<open>The steps of a delivery\<close>

lemma claim_waiting:
  assumes "job_at s j" "jb_state j = JQueued"
  shows "\<exists>s'. claim_job now (jb_id j) (Some (jb_org j)) (Some (jb_ws j)) s =
      Inr (Some (claimed_job j (uuid4 s) now), s') \<and> job_at s' (take_claim (uuid4 s) now j) \<and>
      (\<forall>category key. may_expect s j category key \<longrightarrow> may_expect s' (take_claim (uuid4 s) now j) category key)"
proof -
  let ?s = "update_agreement_processing_state j JProcessing now (update_job (jb_id j) (take_claim (uuid4 s) now) (draw s))"
  obtain a where a: "agreement_for_update s (job_context j) = Some a" "ag_deletion_requested_at a = None"
    using assms by (auto simp: job_at_def live_in_def)
  have "claim_job now (jb_id j) (Some (jb_org j)) (Some (jb_ws j)) s = Inr (Some (claimed_job j (uuid4 s) now), ?s)"
    using assms a job_at_scope [of j] unfolding claim_job_def job_at_def set_tenant_context_def Let_def by simp
  moreover have "job_at (draw s) j" using assms(1) by (simp add: job_at_def)
  then have "job_at ?s (take_claim (uuid4 s) now j)" by (rule job_at_update) simp_all
  ultimately show ?thesis by (auto simp: may_expect_def)
qed

text \<open>\<open>c\<close> is a claim on the row \<open>j\<close>.\<close>

definition claims :: "processing_job \<Rightarrow> job_row \<Rightarrow> bool" where
  "claims c j \<longleftrightarrow> pj_id c = jb_id j \<and> pj_org c = Some (jb_org j) \<and> pj_ws c = Some (jb_ws j) \<and>
     pj_profile c = Some (jb_profile j) \<and> claimed_context c = job_context j \<and> owns_claim j (Some c) \<and>
     pj_attempt_count c = jb_attempt_count j"

lemma claimed_claims: "claims (claimed_job j t now) (take_claim t now j)"
  by (simp add: claims_def claimed_job_def take_claim_def claimed_context_def job_context_def owns_claim_def)

lemma expect_waiting:
  assumes "job_at s j" "claims c j" "ca_job e = jb_id j" "may_expect s j category (ca_key e)"
    and "late_artifact_category (jb_profile j) (ca_key e) = Some category"
  shows "\<exists>s'. expect_artifact now c e s = Inr (True, s') \<and> job_at s' j \<and> expects s' j category (ca_key e)"
proof -
  obtain a where a: "agreement_for_update s (job_context j) = Some a" "ag_deletion_requested_at a = None"
    using assms by (auto simp: job_at_def live_in_def)
  have c: "pj_id c = jb_id j" "pj_org c = Some (jb_org j)" "pj_ws c = Some (jb_ws j)" "claimed_context c = job_context j"
    "owns_claim j (Some c)" "profile_or_empty c = jb_profile j"
    using assms(2) by (simp_all add: claims_def profile_or_empty_def)
  have j: "job_for_update s (jb_id j) = Some j" using assms(1) by (simp add: job_at_def)
  show ?thesis
  proof (cases "artifact_intent s (jb_id j) (Some (jb_org j)) (Some (jb_ws j))")
    case None
    let ?i = "intent_values c (jb_org j) (jb_ws j) category (ca_key e) now (uuid4 s)"
    let ?s = "draw s\<lparr>intents := intents s @ [?i]\<rparr>"
    have i: "in_job ?i = jb_id j" "in_org ?i = jb_org j" "in_ws ?i = jb_ws j" "in_key ?i = ca_key e"
      "in_category ?i = category" "in_state ?i = Expected" using c by (simp_all add: intent_values_def)
    have "expect_artifact now c e s = Inr (True, ?s)"
      using a c j assms(5) None by (simp add: expect_artifact_def required_tenant_scope_def record_intent_def Let_def i)
    moreover have "job_at ?s j" using assms(1) by (simp add: job_at_def job_for_update_def live_in_def agreement_for_update_def)
    moreover have "artifact_intent ?s (jb_id j) (Some (jb_org j)) (Some (jb_ws j)) = Some ?i"
      using None i by (simp add: artifact_intent_def find_append)
    ultimately show ?thesis using i by (auto simp: expects_def)
  next
    case (Some i)
    then have i: "in_key i = ca_key e" "in_category i = category" "in_state i = Expected"
      using assms(4) by (simp_all add: may_expect_def)
    have "expect_artifact now c e s = Inr (True, s)"
      using a c j assms(5) Some i by (simp add: expect_artifact_def required_tenant_scope_def record_intent_def)
    then show ?thesis using assms(1) Some i by (auto simp: expects_def)
  qed
qed

lemma requeue_waiting:
  assumes "job_at s j" "claims c j" "may_expect s j category' key"
  shows "\<exists>s'. requeue_job now (jb_id j) category msg t (Some (jb_org j)) (Some (jb_ws j)) (Some c) e s = Inr (True, s') \<and>
    job_at s' (queued_row category msg t now j) \<and> may_expect s' (queued_row category msg t now j) category' key"
proof -
  let ?s = "update_agreement_processing_state j JQueued now (update_job (jb_id j) (queued_row category msg t now) s)"
  obtain a where a: "agreement_for_update s (job_context j) = Some a" "ag_deletion_requested_at a = None"
    using assms by (auto simp: job_at_def live_in_def)
  have "requeue_job now (jb_id j) category msg t (Some (jb_org j)) (Some (jb_ws j)) (Some c) e s = Inr (True, ?s)"
    using assms a job_at_scope [of j] by (simp add: requeue_job_def job_at_def set_tenant_context_def claims_def)
  moreover have "job_at ?s (queued_row category msg t now j)" using assms(1) by (rule job_at_update) simp_all
  moreover have "may_expect ?s (queued_row category msg t now j) category' key"
    using assms(3) by (simp add: may_expect_def)
  ultimately show ?thesis by blast
qed

lemma fail_waiting:
  assumes "job_at s j" "claims c j"
  shows "\<exists>s'. fail_job now (jb_id j) category msg (Some (jb_org j)) (Some (jb_ws j)) (Some c) e s = Inr s' \<and>
    job_for_update s' (jb_id j) = Some (failed_row category msg now j)"
proof -
  obtain a where a: "agreement_for_update s (job_context j) = Some a" "ag_deletion_requested_at a = None"
    using assms by (auto simp: job_at_def live_in_def)
  obtain s1 where s1: "settle_intent now j a (Some (jb_org j)) (Some (jb_ws j)) s = Inr s1" "jobs s1 = jobs s"
    using a(2) that unfolding settle_intent_def
    by (cases "artifact_intent s (jb_id j) (Some (jb_org j)) (Some (jb_ws j))") simp_all
  have j: "job_for_update s1 (jb_id j) = Some j" using assms(1) s1(2) by (simp add: job_at_def job_for_update_def)
  have f: "job_for_update (fail_comparison j category msg now t) i = job_for_update t i" for t i
    by (simp add: fail_comparison_def job_for_update_def)
  have "fail_job now (jb_id j) category msg (Some (jb_org j)) (Some (jb_ws j)) (Some c) e s =
      Inr (update_agreement_processing_state j JFailed now
        (fail_comparison j category msg now (update_job (jb_id j) (failed_row category msg now) s1)))"
    using assms a s1(1) job_at_scope [of j] by (simp add: fail_job_def job_at_def set_tenant_context_def claims_def)
  then show ?thesis using j by (simp add: f update_job_for_update)
qed

text \<open>A finalizer that raises nothing and does not touch the jobs.\<close>

definition quiet_finalizer :: "'z finalizer \<Rightarrow> bool" where
  "quiet_finalizer finalize \<longleftrightarrow> (\<forall>c p content s. \<exists>s'. finalize c p content s = Inr s' \<and> jobs s' = jobs s)"

lemma add_artifact_jobs [simp]: "jobs (add_artifact j key now s) = jobs s"
  by (simp add: add_artifact_def)

lemma add_artifact_listed: "\<exists>r \<in> set (artifacts (add_artifact j key now s)). af_job r = jb_id j \<and> af_key r = key"
  by (simp add: add_artifact_def)

lemma canonical_written:
  assumes "pa_content p = Some content" "pa_content_type p = Some t"
  shows "\<exists>x store'. canonical_content owner p store = (Inr x, store') \<and> store' (ca_key (pa_artifact p)) \<noteq> None"
  using assms by (cases "store (ca_key (pa_artifact p))")
    (auto simp: canonical_content_def write_or_read_canonical_def put_immutable_def)

lemma commit_waiting:
  assumes j: "job_at s j" and c: "claims c j" and e: "expects s j category (ca_key e)" "ca_job e = jb_id j"
    "late_artifact_category (jb_profile j) (ca_key e) = Some category"
    and p: "pa_artifact p = e" "pa_content p = Some content" "pa_content_type p = Some t" and q: "quiet_finalizer finalize"
  shows "\<exists>s' store'. commit_prepared now finalize c p s store = (Inr (True, s'), store') \<and>
    job_for_update s' (jb_id j) = Some (completed_row now j) \<and>
    (\<exists>r \<in> set (artifacts s'). af_job r = jb_id j \<and> af_key r = ca_key e) \<and> store' (ca_key e) \<noteq> None"
proof -
  obtain a where a: "agreement_for_update s (job_context j) = Some a" "ag_deletion_requested_at a = None"
    using j by (auto simp: job_at_def live_in_def)
  obtain i where i: "artifact_intent s (jb_id j) (Some (jb_org j)) (Some (jb_ws j)) = Some i"
    "in_key i = ca_key e" "in_category i = category" "in_state i = Expected"
    using e by (auto simp: expects_def)
  have jf: "job_for_update s (jb_id j) = Some j" using j by (simp add: job_at_def)
  have pc: "pj_id c = jb_id j" "pj_org c = Some (jb_org j)" "pj_ws c = Some (jb_ws j)" "claimed_context c = job_context j"
    "owns_claim j (Some c)" "profile_or_empty c = jb_profile j"
    using c by (simp_all add: claims_def profile_or_empty_def)
  have ch: "commit_checks now c e (jb_org j) (jb_ws j) s = Inr (Inr (j, Some i))"
    using pc a jf i e(3) job_at_scope [of j] by (simp add: commit_checks_def Let_def)
  obtain x store' where x: "canonical_content (pj_agreement c) p store = (Inr x, store')" "store' (ca_key e) \<noteq> None"
    using canonical_written [OF p(2,3)] p(1) by metis
  obtain s1 where s1: "finalize c p x s = Inr s1" "jobs s1 = jobs s" using q unfolding quiet_finalizer_def by blast
  have c1: "commit_prepared now finalize c p s store = (Inr (True, finish_commit now j (Some i) True (ca_key e) s1), store')"
    using pc e(2,3) p(1) ch x(1) s1(1) by (simp add: commit_prepared_def Let_def required_tenant_scope_def)
  have d: "job_for_update (delete_intents k t) i' = job_for_update t i'" "artifacts (delete_intents k t) = artifacts t" for k t i'
    by (simp_all add: delete_intents_def job_for_update_def)
  have "job_for_update (add_artifact j (ca_key e) now s1) (jb_id j) = Some j"
    using jf s1(2) by (simp add: job_for_update_def)
  then have "job_for_update (finish_commit now j (Some i) True (ca_key e) s1) (jb_id j) = Some (completed_row now j)"
    by (simp add: finish_commit_def Let_def d update_job_for_update)
  moreover have "\<exists>r \<in> set (artifacts (finish_commit now j (Some i) True (ca_key e) s1)). af_job r = jb_id j \<and> af_key r = ca_key e"
    using add_artifact_listed [of j "ca_key e" now s1] by (simp add: finish_commit_def Let_def d)
  ultimately show ?thesis using c1 x(2) by blast
qed

section \<open>A delivery\<close>

text \<open>A processor that fails transiently in the first \<open>n\<close> attempts and prepares \<open>p\<close> in every later one.\<close>

definition flaky_processor :: "int \<Rightarrow> string \<Rightarrow> prepared_artifact \<Rightarrow> 'z agreement_processor \<Rightarrow> bool" where
  "flaky_processor n msg p pr \<longleftrightarrow>
     (\<forall>c. pr_expected pr c = Inr (pa_artifact p)) \<and> quiet_finalizer (pr_finalize pr) \<and>
     (\<exists>prepare. pr_prepare pr = Some prepare \<and>
        (\<forall>c. prepare c = (if pj_attempt_count c \<le> n then Inl (TransientProcessingError msg) else Inr p)))"

text \<open>The job waits in the queue before its next attempt, and only its artifact may be reserved for it.\<close>

definition waiting :: "job_row \<Rightarrow> string \<Rightarrow> string \<Rightarrow> nat \<Rightarrow> 'z job_world \<Rightarrow> bool" where
  "waiting j0 category key k w \<longleftrightarrow> (\<exists>j. job_at (jw_db w) j \<and> may_expect (jw_db w) j category key \<and>
     jb_id j = jb_id j0 \<and> jb_org j = jb_org j0 \<and> jb_ws j = jb_ws j0 \<and> jb_profile j = jb_profile j0 \<and>
     jb_state j = JQueued \<and> jb_attempt_count j = int k)"

lemma attempt_fails:
  assumes j: "job_at (jw_db w) j" "claims c j" "may_expect (jw_db w) j category (ca_key (pa_artifact p))"
    and e: "late_artifact_category (jb_profile j) (ca_key (pa_artifact p)) = Some category" "ca_job (pa_artifact p) = jb_id j"
    and pr: "flaky_processor n msg p pr" "pj_attempt_count c \<le> n"
  shows "\<exists>s. attempt clock pr c w = (Some (pa_artifact p), Inl (TransientProcessingError msg), w\<lparr>jw_db := s\<rparr>) \<and>
    job_at s j \<and> may_expect s j category (ca_key (pa_artifact p))"
proof -
  obtain s where "expect_artifact (clock 1) c (pa_artifact p) (jw_db w) = Inr (True, s)" "job_at s j"
    "expects s j category (ca_key (pa_artifact p))"
    using expect_waiting [OF j(1,2) e(2) j(3) e(1)] by blast
  then show ?thesis using pr expects_may
    by (intro exI [of _ s]) (auto simp: attempt_def flaky_processor_def attempt_prepared_def)
qed

lemma attempt_succeeds:
  assumes j: "job_at (jw_db w) j" "claims c j" "may_expect (jw_db w) j category (ca_key (pa_artifact p))"
    and e: "late_artifact_category (jb_profile j) (ca_key (pa_artifact p)) = Some category" "ca_job (pa_artifact p) = jb_id j"
    and pr: "flaky_processor n msg p pr" "n < pj_attempt_count c" "pa_content p = Some content" "pa_content_type p = Some t"
  shows "\<exists>s store. attempt clock pr c w = (Some (pa_artifact p), Inr (Some (pa_artifact p, True)), w\<lparr>jw_db := s, jw_store := store\<rparr>) \<and>
    job_for_update s (jb_id j) = Some (completed_row (clock 2) j) \<and>
    (\<exists>r \<in> set (artifacts s). af_job r = jb_id j \<and> af_key r = ca_key (pa_artifact p)) \<and> store (ca_key (pa_artifact p)) \<noteq> None"
proof -
  obtain s where s: "expect_artifact (clock 1) c (pa_artifact p) (jw_db w) = Inr (True, s)" "job_at s j"
    "expects s j category (ca_key (pa_artifact p))"
    using expect_waiting [OF j(1,2) e(2) j(3) e(1)] by blast
  have q: "quiet_finalizer (pr_finalize pr)" using pr(1) by (simp add: flaky_processor_def)
  obtain s' store' where c: "commit_prepared (clock 2) (pr_finalize pr) c p s (jw_store w) = (Inr (True, s'), store')"
    "job_for_update s' (jb_id j) = Some (completed_row (clock 2) j)"
    "\<exists>r \<in> set (artifacts s'). af_job r = jb_id j \<and> af_key r = ca_key (pa_artifact p)" "store' (ca_key (pa_artifact p)) \<noteq> None"
    using commit_waiting [OF s(2) j(2) s(3) e(2,1) refl pr(3,4) q] by blast
  have "attempt clock pr c w = (Some (pa_artifact p), Inr (Some (pa_artifact p, True)), w\<lparr>jw_db := s', jw_store := store'\<rparr>)"
    using s(1) c(1) pr(1,2) by (auto simp: attempt_def flaky_processor_def attempt_prepared_def)
  then show ?thesis using c by blast
qed

lemma handle_claims:
  assumes "job_at (jw_db w) j" "jb_state j = JQueued" "may_expect (jw_db w) j category key"
  shows "\<exists>s t. job_at s (take_claim t (clock 0) j) \<and> may_expect s (take_claim t (clock 0) j) category key \<and>
    handle_job policy clock handler pr (jb_id j) (Some (jb_org j)) (Some (jb_ws j)) w =
      handle_claimed policy clock handler pr (claimed_job j t (clock 0)) (w\<lparr>jw_db := s\<rparr>)"
proof -
  obtain s where "claim_job (clock 0) (jb_id j) (Some (jb_org j)) (Some (jb_ws j)) (jw_db w) =
      Inr (Some (claimed_job j (uuid4 (jw_db w)) (clock 0)), s)"
    "job_at s (take_claim (uuid4 (jw_db w)) (clock 0) j)" "may_expect s (take_claim (uuid4 (jw_db w)) (clock 0) j) category key"
    using claim_waiting [OF assms(1,2)] assms(3) by blast
  then show ?thesis by (auto simp: handle_job_def message_scope_def)
qed

lemma claimed_job_attempt [simp]: "pj_attempt_count (claimed_job j t now) = jb_attempt_count j + 1"
    "pj_org (claimed_job j t now) = Some (jb_org j)" "pj_ws (claimed_job j t now) = Some (jb_ws j)"
    "pj_id (claimed_job j t now) = jb_id j"
  by (simp_all add: claimed_job_def)

lemma announce_frame [simp]: "jw_db (announce h c a w) = jw_db w" "jw_store (announce h c a w) = jw_store w"
    "jw_queue (announce h c a w) = jw_queue w"
  by (simp_all add: announce_def)

text \<open>The message that a transient failure of attempt \<open>k\<close> puts back on the queue.\<close>

definition retry_message :: "retry_policy \<Rightarrow> job_row \<Rightarrow> nat \<Rightarrow> queue_message" where
  "retry_message policy j k = \<lparr>qm_job = jb_id j, qm_org = jb_org j, qm_ws = jb_ws j,
     qm_delay = min (rp_base_delay policy * 2 ^ (k - 1)) (rp_max_delay policy)\<rparr>"

lemma delivery_retried:
  assumes category: "late_artifact_category (jb_profile j0) (ca_key (pa_artifact p)) = Some category"
    and own: "ca_job (pa_artifact p) = jb_id j0" and pr: "flaky_processor n msg p pr"
    and w: "waiting j0 category (ca_key (pa_artifact p)) k w" and k: "int k + 1 \<le> n" "int k + 1 < rp_max_attempts policy"
  shows "\<exists>w'. handle_job policy clock handler pr (jb_id j0) (Some (jb_org j0)) (Some (jb_ws j0)) w = (Inr (), w') \<and>
    waiting j0 category (ca_key (pa_artifact p)) (Suc k) w' \<and> jw_queue w' = jw_queue w @ [retry_message policy j0 (Suc k)] \<and>
    jw_store w' = jw_store w \<and> jw_completed w' = jw_completed w"
proof -
  obtain j where j: "job_at (jw_db w) j" "may_expect (jw_db w) j category (ca_key (pa_artifact p))"
    "jb_id j = jb_id j0" "jb_org j = jb_org j0" "jb_ws j = jb_ws j0" "jb_profile j = jb_profile j0" "jb_state j = JQueued"
    "jb_attempt_count j = int k" using w by (auto simp: waiting_def)
  obtain s t where s: "job_at s (take_claim t (clock 0) j)" "may_expect s (take_claim t (clock 0) j) category (ca_key (pa_artifact p))"
    "handle_job policy clock handler pr (jb_id j) (Some (jb_org j)) (Some (jb_ws j)) w =
      handle_claimed policy clock handler pr (claimed_job j t (clock 0)) (w\<lparr>jw_db := s\<rparr>)"
    using handle_claims [OF j(1,7,2)] by blast
  let ?c = "claimed_job j t (clock 0)" and ?j = "take_claim t (clock 0) j"
  have n: "pj_attempt_count ?c \<le> n" using k(1) j(8) by simp
  obtain s1 where s1: "attempt clock pr ?c (w\<lparr>jw_db := s\<rparr>) = (Some (pa_artifact p), Inl (TransientProcessingError msg), w\<lparr>jw_db := s1\<rparr>)"
    "job_at s1 ?j" "may_expect s1 ?j category (ca_key (pa_artifact p))"
    using attempt_fails [of "w\<lparr>jw_db := s\<rparr>" ?j ?c category p n msg pr clock] s(1,2) claimed_claims category own pr n j by auto
  obtain s2 where s2: "requeue_job (clock 4) (jb_id ?j) ''transient'' (safe_summary msg)
        (clock 3 + seconds (qm_delay (retry_message policy j0 (Suc k)))) (Some (jb_org ?j)) (Some (jb_ws ?j)) (Some ?c)
        (Some (pa_artifact p)) s1 = Inr (True, s2)"
      "job_at s2 (queued_row ''transient'' (safe_summary msg) (clock 3 + seconds (qm_delay (retry_message policy j0 (Suc k)))) (clock 4) ?j)"
      "may_expect s2 (queued_row ''transient'' (safe_summary msg) (clock 3 + seconds (qm_delay (retry_message policy j0 (Suc k)))) (clock 4) ?j)
        category (ca_key (pa_artifact p))"
    using requeue_waiting [OF s1(2) claimed_claims s1(3)] by blast
  have d: "delay_seconds policy (pj_attempt_count ?c) = Inr (qm_delay (retry_message policy j0 (Suc k)))"
    using j(8) by (simp add: delay_seconds_def retry_message_def nat_add_distrib)
  let ?w = "w\<lparr>jw_db := s2, jw_queue := jw_queue w @ [retry_message policy j0 (Suc k)]\<rparr>"
  have "handle_job policy clock handler pr (jb_id j0) (Some (jb_org j0)) (Some (jb_ws j0)) w = (Inr (), ?w)"
    using s(3) s1(1) s2(1) d k(2) j(3-5,8)
    by (simp add: handle_claimed_def handle_transient_failure_def Let_def may_retry_def requeue_delivery_def
        required_tenant_scope_def) (simp add: retry_message_def)
  moreover have "waiting j0 category (ca_key (pa_artifact p)) (Suc k) ?w"
    unfolding waiting_def using s2(2,3) j
    by (intro exI [of _ "queued_row ''transient'' (safe_summary msg) (clock 3 + seconds (qm_delay (retry_message policy j0 (Suc k)))) (clock 4) ?j"]) simp
  ultimately show ?thesis by (intro exI [of _ ?w]) simp
qed

lemma delivery_exhausted:
  assumes category: "late_artifact_category (jb_profile j0) (ca_key (pa_artifact p)) = Some category"
    and own: "ca_job (pa_artifact p) = jb_id j0" and pr: "flaky_processor n msg p pr"
    and w: "waiting j0 category (ca_key (pa_artifact p)) k w" and k: "int k + 1 \<le> n" "rp_max_attempts policy \<le> int k + 1"
  shows "\<exists>w' j. handle_job policy clock handler pr (jb_id j0) (Some (jb_org j0)) (Some (jb_ws j0)) w = (Inr (), w') \<and>
    job_for_update (jw_db w') (jb_id j0) = Some j \<and> jb_state j = JFailed \<and> jb_attempt_count j = int k + 1 \<and>
    jb_failure_category j = Some ''transient_exhausted'' \<and> jw_queue w' = jw_queue w"
proof -
  obtain j where j: "job_at (jw_db w) j" "may_expect (jw_db w) j category (ca_key (pa_artifact p))"
    "jb_id j = jb_id j0" "jb_org j = jb_org j0" "jb_ws j = jb_ws j0" "jb_profile j = jb_profile j0" "jb_state j = JQueued"
    "jb_attempt_count j = int k" using w by (auto simp: waiting_def)
  obtain s t where s: "job_at s (take_claim t (clock 0) j)" "may_expect s (take_claim t (clock 0) j) category (ca_key (pa_artifact p))"
    "handle_job policy clock handler pr (jb_id j) (Some (jb_org j)) (Some (jb_ws j)) w =
      handle_claimed policy clock handler pr (claimed_job j t (clock 0)) (w\<lparr>jw_db := s\<rparr>)"
    using handle_claims [OF j(1,7,2)] by blast
  let ?c = "claimed_job j t (clock 0)" and ?j = "take_claim t (clock 0) j"
  have n: "pj_attempt_count ?c \<le> n" using k(1) j(8) by simp
  obtain s1 where s1: "attempt clock pr ?c (w\<lparr>jw_db := s\<rparr>) = (Some (pa_artifact p), Inl (TransientProcessingError msg), w\<lparr>jw_db := s1\<rparr>)"
    "job_at s1 ?j"
    using attempt_fails [of "w\<lparr>jw_db := s\<rparr>" ?j ?c category p n msg pr clock] s(1,2) claimed_claims category own pr n j by auto
  obtain s2 where s2: "fail_job (clock 4) (jb_id ?j) ''transient_exhausted'' (safe_summary msg) (Some (jb_org ?j)) (Some (jb_ws ?j))
      (Some ?c) (Some (pa_artifact p)) s1 = Inr s2"
    "job_for_update s2 (jb_id ?j) = Some (failed_row ''transient_exhausted'' (safe_summary msg) (clock 4) ?j)"
    using fail_waiting [OF s1(2) claimed_claims] by blast
  have "handle_job policy clock handler pr (jb_id j0) (Some (jb_org j0)) (Some (jb_ws j0)) w = (Inr (), w\<lparr>jw_db := s2\<rparr>)"
    using s(3) s1(1) s2(1) k(2) j(3-5,8)
    by (simp add: handle_claimed_def handle_transient_failure_def Let_def may_retry_def fail_delivery_def required_tenant_scope_def)
  then show ?thesis using s2(2) j(3,8)
    by (intro exI [of _ "w\<lparr>jw_db := s2\<rparr>"] exI [of _ "failed_row ''transient_exhausted'' (safe_summary msg) (clock 4) ?j"])
      (simp add: failed_row_def take_claim_def)
qed

lemma delivery_completes:
  assumes category: "late_artifact_category (jb_profile j0) (ca_key (pa_artifact p)) = Some category"
    and own: "ca_job (pa_artifact p) = jb_id j0" and pr: "flaky_processor n msg p pr"
    and w: "waiting j0 category (ca_key (pa_artifact p)) k w" and k: "n < int k + 1"
    and content: "pa_content p = Some content" "pa_content_type p = Some t'"
  shows "\<exists>w' j. handle_job policy clock handler pr (jb_id j0) (Some (jb_org j0)) (Some (jb_ws j0)) w = (Inr (), w') \<and>
    job_for_update (jw_db w') (jb_id j0) = Some j \<and> jb_state j = JCompleted \<and> jb_attempt_count j = int k + 1 \<and>
    (\<exists>r \<in> set (artifacts (jw_db w')). af_job r = jb_id j0 \<and> af_key r = ca_key (pa_artifact p)) \<and>
    jw_store w' (ca_key (pa_artifact p)) \<noteq> None \<and> jw_queue w' = jw_queue w"
proof -
  obtain j where j: "job_at (jw_db w) j" "may_expect (jw_db w) j category (ca_key (pa_artifact p))"
    "jb_id j = jb_id j0" "jb_org j = jb_org j0" "jb_ws j = jb_ws j0" "jb_profile j = jb_profile j0" "jb_state j = JQueued"
    "jb_attempt_count j = int k" using w by (auto simp: waiting_def)
  obtain s t where s: "job_at s (take_claim t (clock 0) j)" "may_expect s (take_claim t (clock 0) j) category (ca_key (pa_artifact p))"
    "handle_job policy clock handler pr (jb_id j) (Some (jb_org j)) (Some (jb_ws j)) w =
      handle_claimed policy clock handler pr (claimed_job j t (clock 0)) (w\<lparr>jw_db := s\<rparr>)"
    using handle_claims [OF j(1,7,2)] by blast
  let ?c = "claimed_job j t (clock 0)" and ?j = "take_claim t (clock 0) j"
  have n: "n < pj_attempt_count ?c" using k j(8) by simp
  obtain s1 store where s1: "attempt clock pr ?c (w\<lparr>jw_db := s\<rparr>) =
      (Some (pa_artifact p), Inr (Some (pa_artifact p, True)), w\<lparr>jw_db := s1, jw_store := store\<rparr>)"
    "job_for_update s1 (jb_id ?j) = Some (completed_row (clock 2) ?j)"
    "\<exists>r \<in> set (artifacts s1). af_job r = jb_id ?j \<and> af_key r = ca_key (pa_artifact p)" "store (ca_key (pa_artifact p)) \<noteq> None"
    using attempt_succeeds [of "w\<lparr>jw_db := s\<rparr>" ?j ?c category p n msg pr content t' clock] s(1,2) claimed_claims category own pr n j content
    by auto
  have "handle_job policy clock handler pr (jb_id j0) (Some (jb_org j0)) (Some (jb_ws j0)) w =
      (Inr (), announce handler ?c (pa_artifact p) (w\<lparr>jw_db := s1, jw_store := store\<rparr>))"
    using s(3) s1(1) j(3-5) by (simp add: handle_claimed_def finish_delivery_def)
  then show ?thesis using s1(2-4) j(3,8)
    by (intro exI [of _ "announce handler ?c (pa_artifact p) (w\<lparr>jw_db := s1, jw_store := store\<rparr>)"]
        exI [of _ "completed_row (clock 2) ?j"]) (simp add: completed_row_def take_claim_def)
qed

section \<open>The life of a job\<close>

text \<open>One delivery after the other, each with its own clock; the outcomes are kept.\<close>

fun deliveries ::
  "retry_policy \<Rightarrow> (nat \<Rightarrow> nat \<Rightarrow> datetime) \<Rightarrow> bool \<Rightarrow> 'z agreement_processor \<Rightarrow> job_row \<Rightarrow> nat \<Rightarrow> 'z job_world
   \<Rightarrow> unit result list \<times> 'z job_world" where
  "deliveries policy clock handler pr j 0 w = ([], w)"
| "deliveries policy clock handler pr j (Suc k) w =
     (let (rs, w) = deliveries policy clock handler pr j k w;
          (r, w) = handle_job policy (clock k) handler pr (jb_id j) (Some (jb_org j)) (Some (jb_ws j)) w
      in (rs @ [r], w))"

lemma retried_deliveries:
  assumes category: "late_artifact_category (jb_profile j0) (ca_key (pa_artifact p)) = Some category"
    and own: "ca_job (pa_artifact p) = jb_id j0" and pr: "flaky_processor n msg p pr"
    and w: "waiting j0 category (ca_key (pa_artifact p)) 0 w" and k: "int k \<le> n" "k = 0 \<or> int k < rp_max_attempts policy"
  shows "\<exists>w'. deliveries policy clock handler pr j0 k w = (replicate k (Inr ()), w') \<and>
    waiting j0 category (ca_key (pa_artifact p)) k w' \<and> jw_queue w' = jw_queue w @ map (retry_message policy j0) [1..<Suc k]"
  using k
proof (induction k)
  case 0
  then show ?case using w by simp
next
  case (Suc k)
  then obtain w' where w': "deliveries policy clock handler pr j0 k w = (replicate k (Inr ()), w')"
    "waiting j0 category (ca_key (pa_artifact p)) k w'" "jw_queue w' = jw_queue w @ map (retry_message policy j0) [1..<Suc k]"
    by auto
  obtain w'' where "handle_job policy (clock k) handler pr (jb_id j0) (Some (jb_org j0)) (Some (jb_ws j0)) w' = (Inr (), w'')"
    "waiting j0 category (ca_key (pa_artifact p)) (Suc k) w''" "jw_queue w'' = jw_queue w' @ [retry_message policy j0 (Suc k)]"
    using delivery_retried [OF category own pr w'(2), of policy "clock k" handler] Suc.prems by auto
  then show ?case using w' by (simp add: replicate_append_same)
qed

text \<open>
  C26: A queued job of a live agreement whose processor fails transiently in its first \<open>n\<close> attempts is
  settled after exactly \<open>min (n + 1) max_attempts\<close> deliveries, none of which raises: when the attempts
  suffice it is completed, its artifact row is written and its object stored, otherwise it has failed as
  exhausted. Every attempt before the last one put one message with its backoff delay on the queue.
\<close>

theorem job_settles:
  assumes category: "late_artifact_category (jb_profile j) (ca_key (pa_artifact p)) = Some category"
    and own: "ca_job (pa_artifact p) = jb_id j" and content: "pa_content p = Some content" "pa_content_type p = Some t"
    and pr: "flaky_processor n msg p pr" and n: "0 \<le> n" "1 \<le> rp_max_attempts policy"
    and w: "waiting j category (ca_key (pa_artifact p)) 0 w" and d: "d = nat (min (n + 1) (rp_max_attempts policy))"
  shows "\<exists>w' j'. deliveries policy clock handler pr j d w = (replicate d (Inr ()), w') \<and>
    job_for_update (jw_db w') (jb_id j) = Some j' \<and> jb_attempt_count j' = int d \<and>
    jw_queue w' = jw_queue w @ map (retry_message policy j) [1..<d] \<and>
    (if n < rp_max_attempts policy
     then jb_state j' = JCompleted \<and> jw_store w' (ca_key (pa_artifact p)) \<noteq> None \<and>
       (\<exists>r \<in> set (artifacts (jw_db w')). af_job r = jb_id j \<and> af_key r = ca_key (pa_artifact p))
     else jb_state j' = JFailed \<and> jb_failure_category j' = Some ''transient_exhausted'')"
proof -
  define k where "k = nat (min n (rp_max_attempts policy - 1))"
  have k: "d = Suc k" "int k = min n (rp_max_attempts policy - 1)"
    using n unfolding d k_def by linarith+
  have kn: "int k \<le> n" "k = 0 \<or> int k < rp_max_attempts policy" using k(2) by linarith+
  obtain w1 where w1: "deliveries policy clock handler pr j k w = (replicate k (Inr ()), w1)"
    "waiting j category (ca_key (pa_artifact p)) k w1" "jw_queue w1 = jw_queue w @ map (retry_message policy j) [1..<d]"
    using retried_deliveries [OF category own pr w kn, of clock handler] unfolding k(1) by blast
  show ?thesis
  proof (cases "n < rp_max_attempts policy")
    case True
    then have "n < int k + 1" using k(2) by simp
    from delivery_completes [OF category own pr w1(2) this content, of policy "clock k" handler]
    obtain w' j' where "handle_job policy (clock k) handler pr (jb_id j) (Some (jb_org j)) (Some (jb_ws j)) w1 = (Inr (), w')"
      "job_for_update (jw_db w') (jb_id j) = Some j'" "jb_state j' = JCompleted" "jb_attempt_count j' = int k + 1"
      "\<exists>r \<in> set (artifacts (jw_db w')). af_job r = jb_id j \<and> af_key r = ca_key (pa_artifact p)"
      "jw_store w' (ca_key (pa_artifact p)) \<noteq> None" "jw_queue w' = jw_queue w1" by blast
    then show ?thesis using w1 k(1) True by (intro exI [of _ w'] exI [of _ j']) (simp add: replicate_append_same)
  next
    case False
    then have "int k + 1 \<le> n" "rp_max_attempts policy \<le> int k + 1" using k(2) by simp_all
    from delivery_exhausted [OF category own pr w1(2) this, of "clock k" handler]
    obtain w' j' where "handle_job policy (clock k) handler pr (jb_id j) (Some (jb_org j)) (Some (jb_ws j)) w1 = (Inr (), w')"
      "job_for_update (jw_db w') (jb_id j) = Some j'" "jb_state j' = JFailed" "jb_attempt_count j' = int k + 1"
      "jb_failure_category j' = Some ''transient_exhausted''" "jw_queue w' = jw_queue w1" by blast
    then show ?thesis using w1 k(1) False by (intro exI [of _ w'] exI [of _ j']) (simp add: replicate_append_same)
  qed
qed

definition demo_prepared :: prepared_artifact where
  "demo_prepared = \<lparr>pa_artifact = \<lparr>ca_job = ''J1'', ca_key = ''k''\<rparr>, pa_content = Some ''x'', pa_content_type = Some ''t''\<rparr>"

definition demo_processor :: "(unit) agreement_processor" where
  "demo_processor = \<lparr>pr_expected = (\<lambda>_. Inr (pa_artifact demo_prepared)),
     pr_prepare = Some (\<lambda>c. if pj_attempt_count c \<le> 2 then Inl (TransientProcessingError ''timeout'') else Inr demo_prepared),
     pr_finalize = (\<lambda>_ _ _ s. Inr s), pr_process = (\<lambda>_ store. (Inl (RuntimeError []), store)), pr_discard = (\<lambda>_ store. store)\<rparr>"

definition demo_job_world :: "unit job_world" where
  "demo_job_world = \<lparr>jw_db = demo_rows\<lparr>jobs := [demo_job]\<rparr>, jw_store = Map.empty, jw_queue = [], jw_completed = []\<rparr>"

theorem job_settles_witness:
  "\<exists>w' j'. deliveries default_retry_policy (\<lambda>k i. int (5 * k + i)) False demo_processor demo_job 3 demo_job_world =
      ([Inr (), Inr (), Inr ()], w') \<and>
    job_for_update (jw_db w') ''J1'' = Some j' \<and> jb_state j' = JCompleted \<and> jb_attempt_count j' = 3 \<and>
    jw_store w' ''k'' \<noteq> None \<and> map qm_delay (jw_queue w') = [2, 4]"
proof -
  have c: "late_artifact_category (jb_profile demo_job) (ca_key (pa_artifact demo_prepared)) = Some ''analysis''"
    "ca_job (pa_artifact demo_prepared) = jb_id demo_job" "pa_content demo_prepared = Some ''x''"
    "pa_content_type demo_prepared = Some ''t''"
    by (simp_all add: late_artifact_category_def demo_job_def demo_prepared_def startswith_def)
  have f: "flaky_processor 2 ''timeout'' demo_prepared demo_processor"
    by (simp add: flaky_processor_def demo_processor_def quiet_finalizer_def)
  have w: "waiting demo_job ''analysis'' (ca_key (pa_artifact demo_prepared)) 0 demo_job_world"
    unfolding waiting_def
    by (intro exI [of _ demo_job])
      (simp add: job_at_def job_for_update_def live_in_def agreement_for_update_def job_context_def may_expect_def
        artifact_intent_def demo_job_world_def demo_job_def)
  have n: "(0::int) \<le> 2" "1 \<le> rp_max_attempts default_retry_policy"
    "3 = nat (min (2 + 1) (rp_max_attempts default_retry_policy))" by (simp_all add: default_retry_policy_def)
  obtain w' j' where r: "deliveries default_retry_policy (\<lambda>k i. int (5 * k + i)) False demo_processor demo_job 3 demo_job_world =
      (replicate 3 (Inr ()), w')" "job_for_update (jw_db w') (jb_id demo_job) = Some j'" "jb_attempt_count j' = int 3"
    "jw_queue w' = jw_queue demo_job_world @ map (retry_message default_retry_policy demo_job) [1..<3]"
    "if 2 < rp_max_attempts default_retry_policy
     then jb_state j' = JCompleted \<and> jw_store w' (ca_key (pa_artifact demo_prepared)) \<noteq> None \<and>
       (\<exists>r \<in> set (artifacts (jw_db w')). af_job r = jb_id demo_job \<and> af_key r = ca_key (pa_artifact demo_prepared))
     else jb_state j' = JFailed \<and> jb_failure_category j' = Some ''transient_exhausted''"
    using job_settles [OF c f n(1,2) w n(3), of "\<lambda>k i. int (5 * k + i)" False] by blast
  have q: "map qm_delay (jw_queue w') = [2, 4]"
    by (simp add: r(4) demo_job_world_def retry_message_def default_retry_policy_def upt_rec)
  show ?thesis
    using r(1-3,5) q by (intro exI [of _ w'] exI [of _ j'])
      (simp add: default_retry_policy_def demo_job_def demo_prepared_def numeral_3_eq_3)
qed

end
