(* ===== verification/Processing_Submission.thy ===== *)
theory Processing_Submission
  imports Processing_Service Processing_Demo
begin

text \<open>
  Submissions of processing jobs are idempotent: what a submission writes, and that its replay finds it.
\<close>

section \<open>What a submission leaves alone\<close>

definition ag_keys :: "'z processing_db_scheme \<Rightarrow> (uuid \<times> uuid \<times> uuid \<times> datetime option) list" where
  "ag_keys s = map (\<lambda>a. (ag_id a, ag_org a, ag_ws a, ag_deletion_requested_at a)) (agreements s)"

definition same_scope :: "'z processing_db_scheme \<Rightarrow> 'z processing_db_scheme \<Rightarrow> bool" where
  "same_scope s s' \<longleftrightarrow> workspaces s' = workspaces s \<and> memberships s' = memberships s \<and> roles s' = roles s \<and>
     workspace_memberships s' = workspace_memberships s \<and> ag_keys s' = ag_keys s"

lemma same_scope_refl [simp]: "same_scope s s"
  by (simp add: same_scope_def)

lemma same_scope_trans: "same_scope s s' \<Longrightarrow> same_scope s' s'' \<Longrightarrow> same_scope s s''"
  by (simp add: same_scope_def)

lemma same_scope_access: "same_scope s s' \<Longrightarrow> authorize_agreement p s' u g w = authorize_agreement p s u g w"
  unfolding authorize_agreement_def same_scope_def by (elim conjE) (simp only: granted_identity_only [of s' s])

lemma find_via_map: "map_option f (find (\<lambda>x. q (f x)) xs) = find q (map f xs)"
  by (induction xs) auto

lemma same_scope_get:
  assumes "same_scope s s'"
  shows "map_option (\<lambda>a. (ag_id a, ag_org a, ag_ws a, ag_deletion_requested_at a)) (get_agreement s' i) =
    map_option (\<lambda>a. (ag_id a, ag_org a, ag_ws a, ag_deletion_requested_at a)) (get_agreement s i)"
proof -
  have "map_option (\<lambda>a. (ag_id a, ag_org a, ag_ws a, ag_deletion_requested_at a)) (get_agreement t i) =
      find (\<lambda>k. fst k = i \<and> snd (snd (snd k)) = None) (ag_keys t)" for t :: "'a processing_db_scheme"
    using find_via_map [of "\<lambda>a. (ag_id a, ag_org a, ag_ws a, ag_deletion_requested_at a)"
        "\<lambda>k. fst k = i \<and> snd (snd (snd k)) = None" "agreements t"]
    by (simp add: get_agreement_def ag_keys_def)
  then show ?thesis using assms by (simp add: same_scope_def)
qed

lemma same_scope_active:
  assumes "same_scope s s'"
  shows "agreement_is_active s' i = agreement_is_active s i"
proof -
  have "agreement_is_active t i \<longleftrightarrow> (\<exists>k \<in> set (ag_keys t). fst k = i \<and> snd (snd (snd k)) = None)" for t :: "'a processing_db_scheme"
    by (auto simp: agreement_is_active_def ag_keys_def)
  then show ?thesis using assms by (simp add: same_scope_def)
qed

lemma same_scope_in_scope:
  assumes "same_scope s s'" "agreement_in_scope s i g w = Inr a"
  shows "\<exists>a'. agreement_in_scope s' i g w = Inr a'"
  using same_scope_get [OF assms(1), of i] assms(2) by (auto simp: agreement_in_scope_def result_simps)

section \<open>The steps of a submission\<close>

lemma draw_submission [simp]: "jobs (draw s) = jobs s" "processing_outbox (draw s) = processing_outbox s"
    "agreement_versions (draw s) = agreement_versions s" "agreements (draw s) = agreements s"
  by simp_all

lemma scope_draw: "same_scope s (draw s)"
  by (simp add: same_scope_def ag_keys_def)

lemma create_job_effect:
  assumes "create_job j s = Inr s'"
  shows "same_scope s s' \<and> jobs s' = jobs s @ [j] \<and> processing_outbox s' = processing_outbox s \<and>
    agreement_versions s' = agreement_versions s \<and> agreement_is_active s (jb_agreement j)"
proof -
  obtain a where "active_agreement s (jb_agreement j) (jb_org j) (jb_ws j) = Some a" "s' = s\<lparr>jobs := jobs s @ [j]\<rparr>"
    using assms by (auto simp: create_job_def result_simps)
  then show ?thesis using active_agreementD [of s "jb_agreement j" "jb_org j" "jb_ws j" a]
    by (auto simp: same_scope_def ag_keys_def agreement_is_active_def)
qed

lemma queue_version_effect:
  "same_scope s (queue_version v i s)" "jobs (queue_version v i s) = jobs s"
  "processing_outbox (queue_version v i s) = processing_outbox s"
  by (simp_all add: queue_version_def same_scope_def ag_keys_def split: option.split)

lemma replace_agreement_effect:
  assumes "replace_agreement a s = Inr s'"
  shows "same_scope s s' \<and> jobs s' = jobs s \<and> processing_outbox s' = processing_outbox s \<and>
    agreement_versions s' = agreement_versions s"
  using assms by (auto simp: replace_agreement_def result_simps same_scope_def ag_keys_def intro!: map_update_where)

lemma set_agreement_state_effect:
  assumes "set_agreement_state i st now k upd s = Inr s'"
  shows "same_scope s s' \<and> jobs s' = jobs s \<and> processing_outbox s' = processing_outbox s \<and>
    agreement_versions s' = agreement_versions s"
  using assms by (auto simp: set_agreement_state_def result_simps dest: replace_agreement_effect split: if_splits)

lemma deliver_effect:
  "same_scope s (snd (deliver_outbox publish now ms d s)) \<and> jobs (snd (deliver_outbox publish now ms d s)) = jobs s \<and>
   map po_job (processing_outbox (snd (deliver_outbox publish now ms d s))) = map po_job (processing_outbox s) \<and>
   agreement_versions (snd (deliver_outbox publish now ms d s)) = agreement_versions s"
proof (induction ms arbitrary: d s)
  case (Cons m ms)
  let ?s = "s\<lparr>processing_outbox := update_where (\<lambda>x. po_id x = po_id m)
          (\<lambda>x. x\<lparr>po_delivered_at := Some now, po_updated_at := now\<rparr>) (processing_outbox s)\<rparr>"
  have "same_scope s ?s" by (simp add: same_scope_def ag_keys_def)
  then show ?case using Cons.IH [where d = "d + 1" and s = ?s] same_scope_trans
    by (auto simp: map_update_where)
qed simp

lemma announce_effect:
  assumes "s' = snd (dispatch_processing publish now g w 50 (enqueue_outbox j now s))"
  shows "same_scope s s' \<and> jobs s' = jobs s \<and> map po_job (processing_outbox s') = map po_job (processing_outbox s) @ [jb_id j] \<and>
    agreement_versions s' = agreement_versions s"
proof -
  have "same_scope s (enqueue_outbox j now s)" by (simp add: enqueue_outbox_def same_scope_def ag_keys_def)
  moreover have "jobs (enqueue_outbox j now s) = jobs s" "agreement_versions (enqueue_outbox j now s) = agreement_versions s"
    "map po_job (processing_outbox (enqueue_outbox j now s)) = map po_job (processing_outbox s) @ [jb_id j]"
    by (simp_all add: enqueue_outbox_def)
  moreover obtain ms where s': "s' = snd (deliver_outbox publish now ms 0 (enqueue_outbox j now s))"
    using assms unfolding dispatch_processing_def by blast
  note deliver_effect [of "enqueue_outbox j now s" publish now ms 0, folded s']
  ultimately show ?thesis using same_scope_trans [of s "enqueue_outbox j now s" s'] by simp
qed

section \<open>Submissions\<close>

text \<open>The source of the job \<open>j\<close> is that of its version as it is stored in \<open>s\<close>.\<close>

definition pinned_source :: "'z processing_db_scheme \<Rightarrow> job_row \<Rightarrow> bool" where
  "pinned_source s j \<longleftrightarrow>
     (case jb_version j of
        None \<Rightarrow> True
      | Some v \<Rightarrow> list_ex (\<lambda>r. vr_id r = v \<and> vr_agreement r = jb_agreement j \<and> vr_org r = jb_org j \<and> vr_ws r = jb_ws j \<and>
          jb_source_storage_key j = Some (vr_storage_key r) \<and> jb_source_checksum j = Some (vr_checksum r))
          (agreement_versions s))"

lemma submit_new_effect:
  assumes a: "agreement_in_scope s i g w = Inr a"
    and r: "submit_new publish s a v key profile now = Inr (j, created, s')"
  shows "created \<and> same_scope s s' \<and> jobs s' = jobs s @ [j] \<and>
    map po_job (processing_outbox s') = map po_job (processing_outbox s) @ [jb_id j] \<and>
    agreement_is_active s i \<and> jb_agreement j = i \<and> jb_org j = g \<and> jb_ws j = w \<and> jb_idempotency_key j = key \<and>
    jb_profile j = profile \<and> jb_id j = uuid4 s \<and> jb_state j = JQueued \<and> jb_attempt_count j = 0 \<and>
    jb_version j = (case v of Some x \<Rightarrow> Some x | None \<Rightarrow> ag_current_version a) \<and> pinned_source s j"
proof -
  let ?v = "case v of Some x \<Rightarrow> Some x | None \<Rightarrow> ag_current_version a"
  let ?r = "Option.bind ?v (get_version s)"
  have ag: "ag_id a = i" "ag_org a = g" "ag_ws a = w"
    using a by (auto simp: agreement_in_scope_def get_agreement_def result_simps dest: find_SomeD)
  let ?j = "submitted_job (uuid4 s) a ?r ?v key profile now"
  have "\<exists>s1 s2. (?v = None \<or> (case ?r of None \<Rightarrow> False | Some x \<Rightarrow> vr_agreement x = ag_id a \<and> vr_org x = ag_org a \<and> vr_ws x = ag_ws a)) \<and>
      create_job ?j (draw s) = Inr s1 \<and>
      set_agreement_state (ag_id a) ''queued'' now (Some (jb_id ?j)) (?v = None \<or> ?v = ag_current_version a)
         (queue_version ?r (jb_id ?j) s1) = Inr s2 \<and>
      (?j, True, snd (dispatch_processing publish now (ag_org a) (ag_ws a) 50 (enqueue_outbox ?j now s2))) = (j, created, s')"
    using r unfolding submit_new_def Let_def bindR_Inr_iff require_Inr_iff sum.inject
    by (elim exE conjE) (intro exI conjI, assumption+)
  then obtain s1 s2 where
    c: "?v = None \<or> (case ?r of None \<Rightarrow> False | Some x \<Rightarrow> vr_agreement x = ag_id a \<and> vr_org x = ag_org a \<and> vr_ws x = ag_ws a)"
      "create_job ?j (draw s) = Inr s1"
      "set_agreement_state (ag_id a) ''queued'' now (Some (jb_id ?j)) (?v = None \<or> ?v = ag_current_version a)
         (queue_version ?r (jb_id ?j) s1) = Inr s2"
    and e': "?j = j" "True = created" "snd (dispatch_processing publish now (ag_org a) (ag_ws a) 50 (enqueue_outbox ?j now s2)) = s'"
    unfolding prod.inject by (elim exE conjE) (rule that, assumption+)
  note e = e'(1,2,3) [symmetric]
  have j: "jb_agreement j = i" "jb_org j = g" "jb_ws j = w" "jb_idempotency_key j = key" "jb_profile j = profile"
    "jb_id j = uuid4 s" "jb_state j = JQueued" "jb_attempt_count j = 0" "jb_version j = ?v"
    using ag by (simp_all add: e(1) submitted_job_def)
  note c1 = create_job_effect [OF c(2)] and c2 = set_agreement_state_effect [OF c(3)]
    and c3 = announce_effect [OF e(3), folded e(1)]
  have "same_scope s s'"
    by (rule same_scope_trans [OF scope_draw], rule same_scope_trans [OF conjunct1 [OF c1]],
        rule same_scope_trans [OF queue_version_effect(1)], rule same_scope_trans [OF conjunct1 [OF c2]],
        rule conjunct1 [OF c3])
  moreover have "jobs s' = jobs s @ [j]" using c1 c2 c3 e(1) by (simp add: queue_version_effect)
  moreover have "map po_job (processing_outbox s') = map po_job (processing_outbox s) @ [jb_id j]"
    using c1 c2 c3 by (simp add: queue_version_effect)
  moreover have "agreement_is_active s i"
    using c1 same_scope_active [OF scope_draw, of s i] ag by (simp add: submitted_job_def)
  moreover have "pinned_source s j"
  proof (cases ?v)
    case (Some x)
    then obtain y where y: "get_version s x = Some y" "vr_agreement y = i" "vr_org y = g" "vr_ws y = w"
      using c(1) ag by (auto split: option.splits)
    then have "y \<in> set (agreement_versions s)" "vr_id y = x"
      unfolding get_version_def live_versions_def using find_SomeD by fastforce+
    then show ?thesis using y Some j(1-3,9) e(1) by (auto simp: pinned_source_def list_ex_iff submitted_job_def)
  qed (simp add: pinned_source_def j)
  ultimately show ?thesis using e'(2) j by (intro conjI) simp_all
qed

text \<open>
  C27: A submission is idempotent. What it answers, every later submission of the same key, version and
  profile answers again without creating anything, and one of another profile is a conflict. A job that
  is created is queued with no attempts, is the only new row of the jobs, is announced by exactly one new
  outbox row, and has the source of the version it was submitted for.
\<close>

theorem submit_idempotent:
  assumes "submit_job publish s u g w i v key profile now = Inr (j, created, s')"
  shows "submit_job publish' s' u g w i v key profile now' = Inr (j, False, s') \<and>
    (\<forall>profile'. profile' \<noteq> profile \<longrightarrow>
       submit_job publish' s' u g w i v key profile' now' = Inl IdempotencyKeyConflictError) \<and>
    (if created
     then job_by_idempotency_key s i key = None \<and> jobs s' = jobs s @ [j] \<and> jb_state j = JQueued \<and>
       jb_attempt_count j = 0 \<and> jb_id j = uuid4 s \<and> pinned_source s j \<and>
       map po_job (processing_outbox s') = map po_job (processing_outbox s) @ [jb_id j]
     else s' = s \<and> job_by_idempotency_key s i key = Some j)"
proof -
  obtain a where a: "authorize_agreement AGREEMENTS_UPDATE s u g w = Inr ()" "agreement_in_scope s i g w = Inr a"
    and r: "(case job_by_idempotency_key s i key of
       Some j \<Rightarrow> bindR (require (same_submission j v profile) IdempotencyKeyConflictError) (\<lambda>_. Inr (j, False, s))
     | None \<Rightarrow> submit_new publish s a v key profile now) = Inr (j, created, s')"
    using assms unfolding submit_job_def bindR_Inr_iff by auto
  show ?thesis
  proof (cases "job_by_idempotency_key s i key")
    case (Some k)
    then have "j = k" "\<not> created" "s' = s" "same_submission j v profile" using r by (auto simp: result_simps)
    then show ?thesis using Some a by (auto simp: submit_job_def same_submission_def)
  next
    case None
    then have "submit_new publish s a v key profile now = Inr (j, created, s')" using r by simp
    note e = submit_new_effect [OF a(2) this]
    have "live_jobs s' = live_jobs s @ [j]" using e same_scope_active [of s s'] by (simp add: live_jobs_def)
    then have "job_by_idempotency_key s' i key = Some j"
      using None e by (simp add: job_by_idempotency_key_def find_append)
    moreover obtain a' where "agreement_in_scope s' i g w = Inr a'" using same_scope_in_scope [OF _ a(2)] e by blast
    moreover have "authorize_agreement AGREEMENTS_UPDATE s' u g w = Inr ()" using same_scope_access [of s s'] e a(1) by (elim conjE) (simp only:)
    moreover have "same_submission j v profile" using e by (auto simp: same_submission_def split: option.splits)
    moreover have "\<not> same_submission j v profile'" if "profile' \<noteq> profile" for profile' using e that by (simp add: same_submission_def)
    ultimately show ?thesis using e None by (simp add: submit_job_def)
  qed
qed

theorem submit_idempotent_witness:
  "\<exists>j s'. submit_job (\<lambda>_. True) demo_rows ''P1'' ''G1'' ''W1'' ''AG1'' None ''k'' ''standard'' 7 = Inr (j, True, s') \<and>
    submit_job (\<lambda>_. True) s' ''P1'' ''G1'' ''W1'' ''AG1'' None ''k'' ''standard'' 8 = Inr (j, False, s')"
proof -
  have "demo_access ''P1'' AGREEMENTS_UPDATE" by (simp add: demo_access_def permissions_for_def PermissionKey_def)
  then have a: "authorize_agreement AGREEMENTS_UPDATE demo_rows ''P1'' ''G1'' ''W1'' = Inr ()"
    by (simp add: authorize_agreement_def same_tenant_access)
  have b: "agreement_in_scope demo_rows ''AG1'' ''G1'' ''W1'' = Inr demo_contract"
    by (simp add: agreement_in_scope_def get_agreement_def)
  have "\<exists>s1. create_job (submitted_job i demo_contract None None ''k'' ''standard'' 7) (draw demo_rows) = Inr s1 \<and>
      agreements s1 = [demo_contract]" for i
    by (simp add: create_job_def active_agreement_def submitted_job_def draw_def)
  then obtain s1 where c: "create_job (submitted_job (uuid4 demo_rows) demo_contract None None ''k'' ''standard'' 7) (draw demo_rows) = Inr s1"
    "agreements s1 = [demo_contract]" by blast
  have "\<exists>s2. set_agreement_state ''AG1'' ''queued'' 7 (Some i) True s1 = Inr s2" for i
    using c(2) by (simp add: set_agreement_state_def get_agreement_def replace_agreement_def active_agreement_def)
  then obtain s2 where d: "set_agreement_state ''AG1'' ''queued'' 7 (Some (uuid4 demo_rows)) True s1 = Inr s2" by blast
  have i: "jb_id (submitted_job (uuid4 demo_rows) demo_contract None None ''k'' ''standard'' 7) = uuid4 demo_rows"
    by (simp add: submitted_job_def)
  have "submit_new (\<lambda>_. True) demo_rows demo_contract None ''k'' ''standard'' 7 =
      Inr (submitted_job (uuid4 demo_rows) demo_contract None None ''k'' ''standard'' 7, True,
        snd (dispatch_processing (\<lambda>_. True) 7 ''G1'' ''W1'' 50
          (enqueue_outbox (submitted_job (uuid4 demo_rows) demo_contract None None ''k'' ''standard'' 7) 7 s2)))"
    unfolding submit_new_def Let_def by (simp add: c(1) d i queue_version_def)
  moreover have "job_by_idempotency_key demo_rows ''AG1'' ''k'' = None"
    by (simp add: job_by_idempotency_key_def live_jobs_def)
  ultimately have "\<exists>j s'. submit_job (\<lambda>_. True) demo_rows ''P1'' ''G1'' ''W1'' ''AG1'' None ''k'' ''standard'' 7 = Inr (j, True, s')"
    by (simp add: submit_job_def a b)
  then obtain j s' where "submit_job (\<lambda>_. True) demo_rows ''P1'' ''G1'' ''W1'' ''AG1'' None ''k'' ''standard'' 7 = Inr (j, True, s')"
    by blast
  with submit_idempotent [OF this, THEN conjunct1] show ?thesis by blast
qed

end
