(* ===== verification/Playbooks.thy ===== *)
theory Playbooks
  imports Agreement_Api
begin

text \<open>
  The legal playbooks of the API (\<open>playbooks/service.py\<close>: \<open>PlaybookService\<close>, \<open>playbooks/models.py\<close>,
  \<open>playbooks/schemas.py\<close>): playbooks with numbered versions, each a set of clause rules that is edited as a
  draft and then published. A clause type is unique within a version by an index of the table, so a write
  that would repeat it raises \<open>IntegrityError\<close>. The retry of \<open>create_version\<close> after a conflict of two
  transactions is not taken under serial execution.
\<close>

section \<open>Tables\<close>

record playbook_row =
  pb_id :: uuid
  pb_org :: uuid
  pb_ws :: uuid
  pb_name :: string
  pb_family :: string
  pb_direction :: string
  pb_jurisdiction :: string
  pb_priority :: int
  pb_created_by :: uuid
  pb_archived_at :: "datetime option"
  pb_created_at :: datetime
  pb_updated_at :: datetime

record playbook_version_row =
  pv_id :: uuid
  pv_org :: uuid
  pv_ws :: uuid
  pv_playbook :: uuid
  pv_number :: nat
  pv_status :: string
  pv_created_by :: uuid
  pv_created_at :: datetime
  pv_published_at :: "datetime option"

record rule_evaluation_config =
  cfg_method :: string
  cfg_semantic_permitted :: bool

record playbook_rule_write =
  rw_clause_type :: string
  rw_title :: string
  rw_policy_type :: string
  rw_preferred :: "string option"
  rw_fallback :: "string option"
  rw_severity :: string
  rw_rationale :: string
  rw_guidance :: string
  rw_config :: rule_evaluation_config

record playbook_rule_row = playbook_rule_write +
  pl_id :: uuid
  pl_org :: uuid
  pl_ws :: uuid
  pl_version :: uuid
  pl_created_at :: datetime
  pl_updated_at :: datetime

record playbook_audit_row =
  py_id :: uuid
  py_org :: uuid
  py_ws :: uuid
  py_playbook :: uuid
  py_version :: "uuid option"
  py_rule :: "uuid option"
  py_agreement :: "uuid option"
  py_action :: string
  py_actor :: uuid
  py_metadata :: "(string \<times> json) list"
  py_occurred_at :: datetime

record playbook_db = processing_db +
  playbooks :: "playbook_row list"
  playbook_versions :: "playbook_version_row list"
  playbook_rules :: "playbook_rule_row list"
  playbook_audit :: "playbook_audit_row list"

section \<open>Requests and responses\<close>

record create_playbook_request =
  cp_name :: string
  cp_family :: string
  cp_direction :: string
  cp_jurisdiction :: string
  cp_priority :: int
  cp_rules :: "playbook_rule_write list"

text \<open>\<open>model_dump(exclude_unset=True)\<close>: a field is absent, or present with a value or null.\<close>

record update_rule_request =
  ur_clause_type :: "string option option"
  ur_title :: "string option option"
  ur_policy_type :: "string option option"
  ur_preferred :: "string option option"
  ur_fallback :: "string option option"
  ur_severity :: "string option option"
  ur_rationale :: "string option option"
  ur_guidance :: "string option option"
  ur_config :: "rule_evaluation_config option option"

record playbook_override_request =
  po_agreement_id :: uuid
  po_version_id :: uuid
  po_reason :: string

record playbook_version_response =
  pw_version :: playbook_version_row
  pw_playbook :: playbook_row
  pw_status :: string
  pw_rules :: "playbook_rule_row list"
  pw_audit :: "playbook_audit_row list"

definition rules_of_version :: "'z playbook_db_scheme \<Rightarrow> uuid \<Rightarrow> playbook_rule_row list" where
  "rules_of_version s version_id = filter (\<lambda>r. pl_version r = version_id) (playbook_rules s)"

definition playbook_response ::
  "'z playbook_db_scheme \<Rightarrow> playbook_version_row \<Rightarrow> playbook_row \<Rightarrow> playbook_version_response" where
  "playbook_response s v p = \<lparr>pw_version = v, pw_playbook = p,
     pw_status = (if pb_archived_at p \<noteq> None then ''archived'' else pv_status v),
     pw_rules = rules_of_version s (pv_id v),
     pw_audit = sort_key (\<lambda>e. (py_occurred_at e, py_id e)) (filter (\<lambda>e. py_version e = Some (pv_id v)) (playbook_audit s))\<rparr>"

section \<open>Guards and lookups\<close>

definition authorize_playbooks :: "'z identity_db_scheme \<Rightarrow> uuid \<Rightarrow> uuid \<Rightarrow> uuid \<Rightarrow> unit result" where
  "authorize_playbooks s actor g w = require (can_access_workspace s actor g w PLAYBOOKS_MANAGE) hide_resource"

definition authorize_override :: "'z identity_db_scheme \<Rightarrow> uuid \<Rightarrow> uuid \<Rightarrow> uuid \<Rightarrow> unit result" where
  "authorize_override s actor g w = require (can_access_workspace s actor g w REVIEWS_APPROVE) hide_resource"

definition playbook_for_scope :: "'z playbook_db_scheme \<Rightarrow> uuid \<Rightarrow> uuid \<Rightarrow> uuid \<Rightarrow> playbook_row result" where
  "playbook_for_scope s playbook_id g w =
     some_or (find (\<lambda>p. pb_id p = playbook_id \<and> pb_org p = g \<and> pb_ws p = w) (playbooks s)) hide_resource"

definition version_for_scope ::
  "'z playbook_db_scheme \<Rightarrow> uuid \<Rightarrow> nat \<Rightarrow> uuid \<Rightarrow> uuid \<Rightarrow> playbook_version_row result" where
  "version_for_scope s playbook_id number g w =
     some_or (find (\<lambda>v. pv_playbook v = playbook_id \<and> pv_number v = number \<and> pv_org v = g \<and> pv_ws v = w)
       (playbook_versions s)) hide_resource"

text \<open>\<open>version.playbook\<close>: the relationship, a foreign key of the version.\<close>

definition playbook_of :: "'z playbook_db_scheme \<Rightarrow> playbook_version_row \<Rightarrow> playbook_row result" where
  "playbook_of s v = some_or (find (\<lambda>p. pb_id p = pv_playbook v) (playbooks s)) (AttributeError ''playbook'')"

definition ensure_draft :: "playbook_version_row \<Rightarrow> unit result" where
  "ensure_draft v = require (pv_status v \<noteq> ''published'') (http_error 409 ''published_playbook_immutable'')"

definition rule_for_version ::
  "'z playbook_db_scheme \<Rightarrow> uuid \<Rightarrow> playbook_version_row \<Rightarrow> playbook_rule_row result" where
  "rule_for_version s rule_id v =
     some_or (find (\<lambda>r. pl_id r = rule_id \<and> pl_version r = pv_id v) (playbook_rules s)) hide_resource"

definition confirmation_required :: exn where
  "confirmation_required = http_error 422 ''deletion_confirmation_required''"

definition reason_metadata :: "string option \<Rightarrow> (string \<times> json) list" where
  "reason_metadata reason =
     (case reason of Some r \<Rightarrow> if r = [] then [] else [(''reason'', JStr r)] | None \<Rightarrow> [])"

section \<open>Writing\<close>

definition audit_playbook ::
  "playbook_row \<Rightarrow> playbook_version_row \<Rightarrow> uuid option \<Rightarrow> uuid option \<Rightarrow> uuid \<Rightarrow> string \<Rightarrow> (string \<times> json) list
   \<Rightarrow> datetime \<Rightarrow> 'z playbook_db_scheme \<Rightarrow> 'z playbook_db_scheme" where
  "audit_playbook p v rule_id agreement_id actor action metadata now s =
     draw s\<lparr>playbook_audit := playbook_audit s @
       [\<lparr>py_id = uuid4 s, py_org = pb_org p, py_ws = pb_ws p, py_playbook = pb_id p, py_version = Some (pv_id v),
         py_rule = rule_id, py_agreement = agreement_id, py_action = action, py_actor = actor,
         py_metadata = [(''version'', JInt (int (pv_number v)))] @ metadata, py_occurred_at = now\<rparr>]\<rparr>"

definition rule_of_write ::
  "uuid \<Rightarrow> playbook_version_row \<Rightarrow> 'q playbook_rule_write_scheme \<Rightarrow> datetime \<Rightarrow> playbook_rule_row" where
  "rule_of_write i v r now =
     \<lparr>rw_clause_type = rw_clause_type r, rw_title = rw_title r, rw_policy_type = rw_policy_type r,
      rw_preferred = rw_preferred r, rw_fallback = rw_fallback r, rw_severity = rw_severity r,
      rw_rationale = rw_rationale r, rw_guidance = rw_guidance r, rw_config = rw_config r,
      pl_id = i, pl_org = pv_org v, pl_ws = pv_ws v, pl_version = pv_id v, pl_created_at = now, pl_updated_at = now\<rparr>"

definition add_rule_record ::
  "playbook_version_row \<Rightarrow> 'q playbook_rule_write_scheme \<Rightarrow> datetime \<Rightarrow> 'z playbook_db_scheme
   \<Rightarrow> (playbook_rule_row \<times> 'z playbook_db_scheme) result" where
  "add_rule_record v r now s =
     bindR (require (\<not> exists_row (\<lambda>x. pl_version x = pv_id v \<and> rw_clause_type x = rw_clause_type r) (playbook_rules s))
       (IntegrityError ''uq_playbook_rules_version_clause_type'')) (\<lambda>_.
     let x = rule_of_write (uuid4 s) v r now in Inr (x, draw s\<lparr>playbook_rules := playbook_rules s @ [x]\<rparr>))"

fun add_rules ::
  "playbook_version_row \<Rightarrow> 'q playbook_rule_write_scheme list \<Rightarrow> datetime \<Rightarrow> 'z playbook_db_scheme
   \<Rightarrow> 'z playbook_db_scheme result" where
  "add_rules v [] now s = Inr s"
| "add_rules v (r # rs) now s = bindR (add_rule_record v r now s) (\<lambda>(_, s). add_rules v rs now s)"

definition new_draft ::
  "uuid \<Rightarrow> playbook_row \<Rightarrow> nat \<Rightarrow> uuid \<Rightarrow> datetime \<Rightarrow> playbook_version_row" where
  "new_draft i p number actor now = \<lparr>pv_id = i, pv_org = pb_org p, pv_ws = pb_ws p, pv_playbook = pb_id p,
     pv_number = number, pv_status = ''draft'', pv_created_by = actor, pv_created_at = now, pv_published_at = None\<rparr>"

definition put_version ::
  "playbook_version_row \<Rightarrow> 'z playbook_db_scheme \<Rightarrow> 'z playbook_db_scheme" where
  "put_version v s = s\<lparr>playbook_versions := update_where (\<lambda>x. pv_id x = pv_id v) (\<lambda>_. v) (playbook_versions s)\<rparr>"

section \<open>Drafts\<close>

definition create_playbook ::
  "'z playbook_db_scheme \<Rightarrow> uuid \<Rightarrow> uuid \<Rightarrow> uuid \<Rightarrow> create_playbook_request \<Rightarrow> datetime
   \<Rightarrow> (playbook_version_response \<times> 'z playbook_db_scheme) result" where
  "create_playbook s actor g w q now =
     bindR (authorize_playbooks s actor g w) (\<lambda>_.
     let p = \<lparr>pb_id = uuid4 s, pb_org = g, pb_ws = w, pb_name = cp_name q, pb_family = cp_family q,
              pb_direction = cp_direction q, pb_jurisdiction = str_upper (cp_jurisdiction q),
              pb_priority = cp_priority q, pb_created_by = actor, pb_archived_at = None, pb_created_at = now,
              pb_updated_at = now\<rparr>;
         s = draw s\<lparr>playbooks := playbooks s @ [p]\<rparr>;
         v = new_draft (uuid4 s) p 1 actor now;
         s = draw s\<lparr>playbook_versions := playbook_versions s @ [v]\<rparr>
     in bindR (add_rules v (cp_rules q) now s) (\<lambda>s.
        let s = audit_playbook p v None None actor ''draft_created'' [] now s
        in Inr (playbook_response s v p, s)))"

text \<open>\<open>coalesce(max(version), 0) + 1\<close>.\<close>

definition next_playbook_version :: "'z playbook_db_scheme \<Rightarrow> uuid \<Rightarrow> nat" where
  "next_playbook_version s playbook_id =
     fold max (map pv_number (filter (\<lambda>v. pv_playbook v = playbook_id) (playbook_versions s))) 0 + 1"

definition create_playbook_version ::
  "'z playbook_db_scheme \<Rightarrow> uuid \<Rightarrow> uuid \<Rightarrow> uuid \<Rightarrow> uuid \<Rightarrow> nat option \<Rightarrow> datetime
   \<Rightarrow> (playbook_version_response \<times> 'z playbook_db_scheme) result" where
  "create_playbook_version s actor g w playbook_id source now =
     bindR (authorize_playbooks s actor g w) (\<lambda>_.
     bindR (playbook_for_scope s playbook_id g w) (\<lambda>p.
     bindR (case source of None \<Rightarrow> Inr None
            | Some n \<Rightarrow> bindR (version_for_scope s playbook_id n g w) (\<lambda>v. Inr (Some v))) (\<lambda>source.
     let v = new_draft (uuid4 s) p (next_playbook_version s playbook_id) actor now;
         rules = (case source of None \<Rightarrow> [] | Some x \<Rightarrow> rules_of_version s (pv_id x));
         s = draw s\<lparr>playbook_versions := playbook_versions s @ [v]\<rparr>
     in bindR (add_rules v rules now s) (\<lambda>s.
        let s = audit_playbook p v None None actor ''draft_created'' [] now s
        in Inr (playbook_response s v p, s)))))"

definition add_playbook_rule ::
  "'z playbook_db_scheme \<Rightarrow> uuid \<Rightarrow> uuid \<Rightarrow> uuid \<Rightarrow> uuid \<Rightarrow> nat \<Rightarrow> playbook_rule_write \<Rightarrow> datetime
   \<Rightarrow> (playbook_version_response \<times> 'z playbook_db_scheme) result" where
  "add_playbook_rule s actor g w playbook_id number q now =
     bindR (authorize_playbooks s actor g w) (\<lambda>_.
     bindR (version_for_scope s playbook_id number g w) (\<lambda>v.
     bindR (ensure_draft v) (\<lambda>_.
     bindR (add_rule_record v q now s) (\<lambda>(r, s).
     bindR (playbook_of s v) (\<lambda>p.
     let s = audit_playbook p v (Some (pl_id r)) None actor ''rule_created'' [] now s
     in Inr (playbook_response s v p, s))))))"

text \<open>Setting a column that must not be null to null violates its constraint.\<close>

definition set_required :: "'a option option \<Rightarrow> 'a \<Rightarrow> 'a result" where
  "set_required field old =
     (case field of None \<Rightarrow> Inr old | Some (Some v) \<Rightarrow> Inr v | Some None \<Rightarrow> Inl (IntegrityError ''not null''))"

definition set_nullable :: "'a option option \<Rightarrow> 'a option \<Rightarrow> 'a option" where
  "set_nullable field old = (case field of None \<Rightarrow> old | Some v \<Rightarrow> v)"

definition updated_rule :: "update_rule_request \<Rightarrow> datetime \<Rightarrow> playbook_rule_row \<Rightarrow> playbook_rule_row result" where
  "updated_rule q now r =
     bindR (set_required (ur_clause_type q) (rw_clause_type r)) (\<lambda>clause_type.
     bindR (set_required (ur_title q) (rw_title r)) (\<lambda>title.
     bindR (set_required (ur_policy_type q) (rw_policy_type r)) (\<lambda>policy_type.
     bindR (set_required (ur_severity q) (rw_severity r)) (\<lambda>severity.
     bindR (set_required (ur_rationale q) (rw_rationale r)) (\<lambda>rationale.
     bindR (set_required (ur_guidance q) (rw_guidance r)) (\<lambda>guidance.
     bindR (set_required (ur_config q) (rw_config r)) (\<lambda>config.
     Inr (r\<lparr>rw_clause_type := clause_type, rw_title := title, rw_policy_type := policy_type,
       rw_preferred := set_nullable (ur_preferred q) (rw_preferred r),
       rw_fallback := set_nullable (ur_fallback q) (rw_fallback r), rw_severity := severity,
       rw_rationale := rationale, rw_guidance := guidance, rw_config := config, pl_updated_at := now\<rparr>))))))))"

definition update_playbook_rule ::
  "'z playbook_db_scheme \<Rightarrow> uuid \<Rightarrow> uuid \<Rightarrow> uuid \<Rightarrow> uuid \<Rightarrow> nat \<Rightarrow> uuid \<Rightarrow> update_rule_request \<Rightarrow> datetime
   \<Rightarrow> (playbook_version_response \<times> 'z playbook_db_scheme) result" where
  "update_playbook_rule s actor g w playbook_id number rule_id q now =
     bindR (authorize_playbooks s actor g w) (\<lambda>_.
     bindR (version_for_scope s playbook_id number g w) (\<lambda>v.
     bindR (ensure_draft v) (\<lambda>_.
     bindR (some_or (find (\<lambda>r. pl_id r = rule_id \<and> pl_version r = pv_id v \<and> pl_org r = g \<and> pl_ws r = w)
              (playbook_rules s)) hide_resource) (\<lambda>r.
     bindR (updated_rule q now r) (\<lambda>r'.
     bindR (require (\<not> exists_row (\<lambda>x. pl_version x = pv_id v \<and> pl_id x \<noteq> pl_id r \<and>
                rw_clause_type x = rw_clause_type r') (playbook_rules s))
              (IntegrityError ''uq_playbook_rules_version_clause_type'')) (\<lambda>_.
     bindR (playbook_of s v) (\<lambda>p.
     let s = s\<lparr>playbook_rules := update_where (\<lambda>x. pl_id x = pl_id r) (\<lambda>_. r') (playbook_rules s)\<rparr>;
         s = audit_playbook p v (Some (pl_id r)) None actor ''rule_updated'' [] now s
     in Inr (playbook_response s v p, s))))))))"

definition delete_playbook_rule ::
  "'z playbook_db_scheme \<Rightarrow> uuid \<Rightarrow> uuid \<Rightarrow> uuid \<Rightarrow> uuid \<Rightarrow> nat \<Rightarrow> uuid \<Rightarrow> bool \<Rightarrow> datetime
   \<Rightarrow> 'z playbook_db_scheme result" where
  "delete_playbook_rule s actor g w playbook_id number rule_id confirmed now =
     bindR (authorize_playbooks s actor g w) (\<lambda>_.
     bindR (require confirmed confirmation_required) (\<lambda>_.
     bindR (version_for_scope s playbook_id number g w) (\<lambda>v.
     bindR (ensure_draft v) (\<lambda>_.
     bindR (rule_for_version s rule_id v) (\<lambda>r.
     bindR (playbook_of s v) (\<lambda>p.
     let s = audit_playbook p v (Some (pl_id r)) None actor ''rule_deleted'' [] now s
     in Inr (s\<lparr>playbook_rules := filter (\<lambda>x. pl_id x \<noteq> pl_id r) (playbook_rules s)\<rparr>)))))))"

section \<open>Publication\<close>

definition normalized_clause_type :: "string \<Rightarrow> string" where
  "normalized_clause_type t = str_lower (str_strip t)"

definition invalid_draft :: "string \<Rightarrow> exn" where
  "invalid_draft msg = http_error_msg 422 ''invalid_playbook_draft'' msg"

fun validate_rules :: "playbook_rule_row list \<Rightarrow> unit result" where
  "validate_rules [] = Inr ()"
| "validate_rules (r # rs) =
     (if str_strip (rw_title r) = [] \<or> str_strip (rw_rationale r) = [] \<or> str_strip (rw_guidance r) = []
      then Inl (invalid_draft ''title, legal rationale, and reviewer guidance are required'')
      else if rw_policy_type r \<in> {''required'', ''preferred''} \<and>
              str_strip (case rw_preferred r of None \<Rightarrow> [] | Some t \<Rightarrow> t) = []
      then Inl (invalid_draft (''preferred language is required for '' @ rw_policy_type r @ '' rules''))
      else validate_rules rs)"

definition validate_for_publication :: "playbook_rule_row list \<Rightarrow> unit result" where
  "validate_for_publication rules =
     bindR (require (rules \<noteq> []) (invalid_draft ''at least one playbook rule is required'')) (\<lambda>_.
     bindR (require (distinct (map (\<lambda>r. normalized_clause_type (rw_clause_type r)) rules))
       (invalid_draft ''playbook version contains duplicate clause types'')) (\<lambda>_.
     validate_rules rules))"

text \<open>The published version of another live playbook with the same route.\<close>

definition same_playbook_route :: "playbook_row \<Rightarrow> playbook_row \<Rightarrow> bool" where
  "same_playbook_route p q \<longleftrightarrow> pb_family p = pb_family q \<and> pb_direction p = pb_direction q \<and>
     pb_jurisdiction p = pb_jurisdiction q \<and> pb_priority p = pb_priority q"

definition routing_conflict :: "'z playbook_db_scheme \<Rightarrow> uuid \<Rightarrow> uuid \<Rightarrow> playbook_row \<Rightarrow> bool" where
  "routing_conflict s g w p \<longleftrightarrow>
     exists_row (\<lambda>v. pv_org v = g \<and> pv_ws v = w \<and> pv_status v = ''published'' \<and> pv_playbook v \<noteq> pb_id p \<and>
       exists_row (\<lambda>q. pb_id q = pv_playbook v \<and> pb_archived_at q = None \<and> same_playbook_route q p) (playbooks s))
       (playbook_versions s)"

definition publish_playbook ::
  "'z playbook_db_scheme \<Rightarrow> uuid \<Rightarrow> uuid \<Rightarrow> uuid \<Rightarrow> uuid \<Rightarrow> nat \<Rightarrow> datetime
   \<Rightarrow> (playbook_version_response \<times> 'z playbook_db_scheme) result" where
  "publish_playbook s actor g w playbook_id number now =
     bindR (authorize_playbooks s actor g w) (\<lambda>_.
     bindR (version_for_scope s playbook_id number g w) (\<lambda>v.
     bindR (ensure_draft v) (\<lambda>_.
     bindR (validate_for_publication (rules_of_version s (pv_id v))) (\<lambda>_.
     bindR (require (\<not> exists_row (\<lambda>x. pv_playbook x = playbook_id \<and> pv_status x = ''published'') (playbook_versions s))
       (http_error 409 ''published_playbook_exists'')) (\<lambda>_.
     bindR (playbook_of s v) (\<lambda>p.
     bindR (require (\<not> routing_conflict s g w p) (http_error 409 ''playbook_routing_conflict'')) (\<lambda>_.
     let v = v\<lparr>pv_status := ''published'', pv_published_at := Some now\<rparr>;
         s = audit_playbook p v None None actor ''published'' [] now (put_version v s)
     in Inr (playbook_response s v p, s))))))))"

section \<open>Removal\<close>

definition delete_playbook_version ::
  "'z playbook_db_scheme \<Rightarrow> uuid \<Rightarrow> uuid \<Rightarrow> uuid \<Rightarrow> uuid \<Rightarrow> nat \<Rightarrow> bool \<Rightarrow> string option \<Rightarrow> datetime
   \<Rightarrow> 'z playbook_db_scheme result" where
  "delete_playbook_version s actor g w playbook_id number confirmed reason now =
     bindR (authorize_playbooks s actor g w) (\<lambda>_.
     bindR (require confirmed confirmation_required) (\<lambda>_.
     bindR (version_for_scope s playbook_id number g w) (\<lambda>v.
     bindR (ensure_draft v) (\<lambda>_.
     bindR (playbook_of s v) (\<lambda>p.
     let s = audit_playbook p v None None actor ''draft_deleted'' (reason_metadata reason) now s
     in Inr (s\<lparr>playbook_versions := filter (\<lambda>x. pv_id x \<noteq> pv_id v) (playbook_versions s),
              playbook_rules := filter (\<lambda>x. pl_version x \<noteq> pv_id v) (playbook_rules s)\<rparr>))))))"

definition versions_of_playbook :: "'z playbook_db_scheme \<Rightarrow> uuid \<Rightarrow> playbook_version_row list" where
  "versions_of_playbook s playbook_id = filter (\<lambda>v. pv_playbook v = playbook_id) (playbook_versions s)"

fun audit_versions ::
  "playbook_row \<Rightarrow> playbook_version_row list \<Rightarrow> uuid \<Rightarrow> string \<Rightarrow> (string \<times> json) list \<Rightarrow> datetime
   \<Rightarrow> 'z playbook_db_scheme \<Rightarrow> 'z playbook_db_scheme" where
  "audit_versions p [] actor action metadata now s = s"
| "audit_versions p (v # vs) actor action metadata now s =
     audit_versions p vs actor action metadata now (audit_playbook p v None None actor action metadata now s)"

text \<open>\<open>max(versions, key=...)\<close> and \<open>order_by(version.desc())\<close>: the numbers of a playbook are distinct.\<close>

definition latest_version :: "playbook_version_row list \<Rightarrow> playbook_version_row option" where
  "latest_version vs = (case rev (sort_key pv_number vs) of [] \<Rightarrow> None | v # _ \<Rightarrow> Some v)"

definition archive_playbook ::
  "'z playbook_db_scheme \<Rightarrow> uuid \<Rightarrow> uuid \<Rightarrow> uuid \<Rightarrow> uuid \<Rightarrow> string option \<Rightarrow> datetime
   \<Rightarrow> (playbook_version_response \<times> 'z playbook_db_scheme) result" where
  "archive_playbook s actor g w playbook_id reason now =
     bindR (authorize_playbooks s actor g w) (\<lambda>_.
     bindR (playbook_for_scope s playbook_id g w) (\<lambda>p.
     bindR (require (\<not> exists_row (\<lambda>v. pv_playbook v = pb_id p \<and> pv_status v = ''draft'') (playbook_versions s))
       (http_error 409 ''draft_playbook_version_must_be_deleted'')) (\<lambda>_.
     let vs = versions_of_playbook s (pb_id p)
     in case pb_archived_at p of
          None \<Rightarrow>
            (let p = p\<lparr>pb_archived_at := Some now\<rparr>;
                 s = s\<lparr>playbooks := update_where (\<lambda>x. pb_id x = pb_id p) (\<lambda>_. p) (playbooks s)\<rparr>;
                 s = audit_versions p vs actor ''archived'' (reason_metadata reason) now s
             in bindR (some_or (latest_version vs) (ValueError ''max() arg is an empty sequence'')) (\<lambda>v.
                Inr (playbook_response s v p, s)))
        | Some _ \<Rightarrow>
            bindR (some_or (latest_version vs) (RuntimeError ''persisted playbook has no versions'')) (\<lambda>v.
            Inr (playbook_response s v p, s)))))"

definition delete_playbook ::
  "'z playbook_db_scheme \<Rightarrow> uuid \<Rightarrow> uuid \<Rightarrow> uuid \<Rightarrow> uuid \<Rightarrow> bool \<Rightarrow> string option \<Rightarrow> datetime
   \<Rightarrow> 'z playbook_db_scheme result" where
  "delete_playbook s actor g w playbook_id confirmed reason now =
     bindR (authorize_playbooks s actor g w) (\<lambda>_.
     bindR (require confirmed confirmation_required) (\<lambda>_.
     bindR (playbook_for_scope s playbook_id g w) (\<lambda>p.
     let vs = filter (\<lambda>v. pv_org v = g \<and> pv_ws v = w) (versions_of_playbook s (pb_id p))
     in bindR (require (\<not> list_ex (\<lambda>v. pv_status v = ''published'') vs)
          (http_error 409 ''published_playbook_must_be_archived'')) (\<lambda>_.
        let s = audit_versions p vs actor ''draft_deleted'' (reason_metadata reason) now s;
            ids = map pv_id vs
        in Inr (s\<lparr>playbook_rules := filter (\<lambda>r. pl_version r \<notin> set ids) (playbook_rules s),
                 playbook_versions := filter (\<lambda>v. pv_id v \<notin> set ids) (playbook_versions s),
                 playbooks := filter (\<lambda>x. pb_id x \<noteq> pb_id p) (playbooks s)\<rparr>)))))"

section \<open>Use\<close>

definition override_playbook ::
  "'z playbook_db_scheme \<Rightarrow> uuid \<Rightarrow> uuid \<Rightarrow> uuid \<Rightarrow> playbook_override_request \<Rightarrow> datetime
   \<Rightarrow> (playbook_version_response \<times> 'z playbook_db_scheme) result" where
  "override_playbook s actor g w q now =
     bindR (authorize_override s actor g w) (\<lambda>_.
     bindR (some_or (active_agreement s (po_agreement_id q) g w) hide_resource) (\<lambda>a.
     bindR (some_or (find (\<lambda>v. pv_id v = po_version_id q \<and> pv_org v = g \<and> pv_ws v = w \<and> pv_status v = ''published'')
              (playbook_versions s)) hide_resource) (\<lambda>v.
     bindR (playbook_of s v) (\<lambda>p.
     bindR (require (pb_archived_at p = None) hide_resource) (\<lambda>_.
     bindR (require (pb_family p = ag_type a) (http_error 422 ''playbook_override_family_mismatch'')) (\<lambda>_.
     let s = audit_playbook p v None (Some (ag_id a)) actor ''agreement_override_recorded''
               [(''reason'', JStr (po_reason q))] now s
     in Inr (playbook_response s v p, s)))))))"

text \<open>The join of versions and playbooks, each version with its playbook.\<close>

definition versions_with_playbooks :: "'z playbook_db_scheme \<Rightarrow> (playbook_version_row \<times> playbook_row) list" where
  "versions_with_playbooks s =
     concat (map (\<lambda>v. map (\<lambda>p. (v, p)) (filter (\<lambda>p. pb_id p = pv_playbook v) (playbooks s))) (playbook_versions s))"

definition eligible_playbooks ::
  "'z playbook_db_scheme \<Rightarrow> uuid \<Rightarrow> uuid \<Rightarrow> uuid \<Rightarrow> uuid \<Rightarrow> playbook_version_response list result" where
  "eligible_playbooks s actor g w agreement_id =
     bindR (authorize_override s actor g w) (\<lambda>_.
     bindR (some_or (active_agreement s agreement_id g w) hide_resource) (\<lambda>a.
     Inr (map (\<lambda>(v, p). playbook_response s v p)
       (sort_key (\<lambda>(v, p). (- pb_priority p, pv_id v))
         (filter (\<lambda>(v, p). pv_org v = g \<and> pv_ws v = w \<and> pv_status v = ''published'' \<and> pb_archived_at p = None \<and>
            pb_family p = ag_type a) (versions_with_playbooks s))))))"

definition list_playbooks ::
  "'z playbook_db_scheme \<Rightarrow> uuid \<Rightarrow> uuid \<Rightarrow> uuid \<Rightarrow> string option \<Rightarrow> bool \<Rightarrow> playbook_version_response list result" where
  "list_playbooks s actor g w family include_archived =
     bindR (authorize_playbooks s actor g w) (\<lambda>_.
     Inr (map (\<lambda>(v, p). playbook_response s v p)
       (sort_key (\<lambda>(v, p). (pv_playbook v, pv_number v))
         (filter (\<lambda>(v, p). pv_org v = g \<and> pv_ws v = w \<and> (include_archived \<or> pb_archived_at p = None) \<and>
            (case family of None \<Rightarrow> True | Some f \<Rightarrow> pb_family p = f)) (versions_with_playbooks s)))))"

end
