(* ===== verification/Playbook_Evaluation.thy ===== *)
theory Playbook_Evaluation
  imports Playbooks Processing_Repository Py_Text
begin

text \<open>
  The evaluation of an analysed agreement against a published playbook by the worker
  (\<open>playbook_evaluation.py\<close>, \<open>risk_explanation.py\<close>, \<open>fallback_suggestions.py\<close>, \<open>completion_fence.py\<close>): the
  routing to a playbook version, the deterministic findings, the bounded use of models, and the sink that
  stores them once an analysis is committed. The semantic assessor, the risk explainer and the fallback
  comparator are parameters; an explainer or comparator that raises is undefined there, because the code
  catches it. An analysis is its decoded JSON; its numbers are exact.
\<close>

section \<open>JSON access\<close>

definition json_string :: "json option \<Rightarrow> string \<Rightarrow> string" where
  "json_string v fallback = (case v of Some (JStr s) \<Rightarrow> s | _ \<Rightarrow> fallback)"

fun is_json_object :: "json \<Rightarrow> bool" where
  "is_json_object (JObj kvs) \<longleftrightarrow> True"
| "is_json_object _ \<longleftrightarrow> False"

fun json_keys :: "json \<Rightarrow> string list" where
  "json_keys (JObj kvs) = map fst kvs"
| "json_keys _ = []"

section \<open>Findings\<close>

datatype finding_result = Satisfied | Missing | NonCompliant | NeedsReview

fun finding_result_value :: "finding_result \<Rightarrow> string" where
  "finding_result_value Satisfied = ''satisfied''"
| "finding_result_value Missing = ''missing''"
| "finding_result_value NonCompliant = ''non_compliant''"
| "finding_result_value NeedsReview = ''needs_review''"

record worker_rule =
  wr_id :: uuid
  wr_clause_type :: string
  wr_policy_type :: string
  wr_preferred :: "string option"
  wr_severity :: string
  wr_fallback :: "string option"
  wr_rationale :: string
  wr_method :: string
  wr_semantic_permitted :: bool

section \<open>Risk explanations\<close>

record risk_request =
  rq_severity :: string
  rq_rationale :: string
  rq_result :: string
  rq_confidence :: rat
  rq_citation_ids :: "string list"
  rq_clause_text :: "string option"

record risk_payload =
  rk_version :: string
  rk_severity :: string
  rk_rationale :: string
  rk_confidence :: rat
  rk_review_status :: string
  rk_citation_ids :: "string list"
  rk_model_explanation :: "string option"

definition RISK_PAYLOAD_VERSION :: string where
  "RISK_PAYLOAD_VERSION = ''playbook-risk.v1''"

definition REVIEW_REQUIRED_RESULTS :: "string list" where
  "REVIEW_REQUIRED_RESULTS = [''missing'', ''non_compliant'', ''needs_review'']"

definition risk_rationale :: "string \<Rightarrow> string" where
  "risk_rationale rationale =
     (if str_strip rationale = [] then ''The deterministic finding requires reviewer assessment.''
      else str_strip rationale)"

definition risk_confidence :: "rat \<Rightarrow> rat" where
  "risk_confidence v = min 1 (max 0 v)"

definition review_status :: "string \<Rightarrow> string" where
  "review_status r = (if r \<in> set REVIEW_REQUIRED_RESULTS then ''review_required'' else ''complete'')"

fun string_items :: "json list \<Rightarrow> string list option" where
  "string_items [] = Some []"
| "string_items (JStr s # vs) = map_option (\<lambda>ss. s # ss) (string_items vs)"
| "string_items (_ # vs) = None"

definition grounded_model_text :: "json \<Rightarrow> string \<Rightarrow> string list \<Rightarrow> string option" where
  "grounded_model_text response text_key allowed =
     (if \<not> is_json_object response \<or> set (json_keys response) \<noteq> {text_key, ''citation_ids''} then None
      else
        case (json_get response text_key, json_get response ''citation_ids'') of
          (Some (JStr text), Some (JList items)) \<Rightarrow>
            if str_strip text = [] then None
            else (case string_items items of
                    None \<Rightarrow> None
                  | Some ids \<Rightarrow> if ids = [] \<or> \<not> set ids \<subseteq> set allowed then None else Some (str_strip text))
        | _ \<Rightarrow> None)"

type_synonym risk_explainer = "risk_request \<Rightarrow> json option"

definition model_explanation :: "risk_request \<Rightarrow> risk_explainer option \<Rightarrow> string option" where
  "model_explanation q explainer =
     (case (explainer, rq_clause_text q) of
        (Some f, Some text) \<Rightarrow>
          if rq_citation_ids q = [] \<or> text = [] then None
          else Option.bind (f q) (\<lambda>response. grounded_model_text response ''rationale'' (rq_citation_ids q))
      | _ \<Rightarrow> None)"

definition explain_risk :: "risk_request \<Rightarrow> risk_explainer option \<Rightarrow> risk_payload" where
  "explain_risk q explainer = \<lparr>rk_version = RISK_PAYLOAD_VERSION, rk_severity = rq_severity q,
     rk_rationale = risk_rationale (rq_rationale q), rk_confidence = risk_confidence (rq_confidence q),
     rk_review_status = review_status (rq_result q), rk_citation_ids = rq_citation_ids q,
     rk_model_explanation = model_explanation q explainer\<rparr>"

section \<open>Fallback suggestions\<close>

record suggestion_request =
  fq_rule :: uuid
  fq_playbook_version :: uuid
  fq_result :: string
  fq_citation_ids :: "string list"
  fq_clause_text :: "string option"
  fq_preferred :: "string option"
  fq_fallback :: "string option"

record fallback_suggestion =
  fs_version :: string
  fs_rule :: uuid
  fs_playbook_version :: uuid
  fs_language :: "string option"
  fs_recommendation :: string
  fs_citation_ids :: "string list"
  fs_comparison_kind :: "string option"
  fs_comparison :: "string option"
  fs_ai_generated :: bool

definition CLAUSE_DIFFERS :: string where
  "CLAUSE_DIFFERS = ''clause_differs_from_approved_position''"

definition COMPARISON_RENDERINGS :: "(string \<times> string) list" where
  "COMPARISON_RENDERINGS = [(CLAUSE_DIFFERS, ''The cited clause differs from the approved position.'')]"

definition render_comparison :: "string option \<Rightarrow> string option" where
  "render_comparison kind = Option.bind kind (map_of COMPARISON_RENDERINGS)"

definition approved_language :: "suggestion_request \<Rightarrow> string option" where
  "approved_language q =
     Option.bind (find (\<lambda>l. case l of None \<Rightarrow> False | Some t \<Rightarrow> str_strip t \<noteq> []) [fq_fallback q, fq_preferred q]) id"

definition bounded_comparison_kind :: "suggestion_request \<Rightarrow> json \<Rightarrow> json \<Rightarrow> string option" where
  "bounded_comparison_kind q kind ids =
     (case grounded_model_text (JObj [(''comparison_kind'', kind), (''citation_ids'', ids)]) ''comparison_kind''
             (fq_citation_ids q) of
        None \<Rightarrow> None
      | Some k \<Rightarrow> if k \<in> fst ` set COMPARISON_RENDERINGS then Some k else None)"

type_synonym fallback_comparator = "suggestion_request \<Rightarrow> json option"

text \<open>\<open>response.get\<close> of a missing key is null.\<close>

definition get_or_null :: "json \<Rightarrow> string \<Rightarrow> json" where
  "get_or_null v k = (case json_get v k of None \<Rightarrow> JNull | Some x \<Rightarrow> x)"

definition comparison_kind :: "suggestion_request \<Rightarrow> fallback_comparator option \<Rightarrow> string option" where
  "comparison_kind q comparator =
     (case (comparator, fq_clause_text q) of
        (Some f, Some text) \<Rightarrow>
          if fq_citation_ids q = [] \<or> text = [] then None
          else Option.bind (f q) (\<lambda>response.
                 if \<not> is_json_object response then None
                 else bounded_comparison_kind q (get_or_null response ''comparison_kind'')
                        (get_or_null response ''citation_ids''))
      | _ \<Rightarrow> None)"

definition suggestion :: "suggestion_request \<Rightarrow> string option \<Rightarrow> string option \<Rightarrow> fallback_suggestion" where
  "suggestion q language kind = \<lparr>fs_version = ''playbook-fallback-suggestion.v1'', fs_rule = fq_rule q,
     fs_playbook_version = fq_playbook_version q, fs_language = language,
     fs_recommendation = (if language \<noteq> None
        then ''Review the cited clause against the approved fallback language.''
        else ''No approved language is available; reviewer assessment is required.''),
     fs_citation_ids = fq_citation_ids q, fs_comparison_kind = kind, fs_comparison = render_comparison kind,
     fs_ai_generated = (kind \<noteq> None)\<rparr>"

definition SUGGESTIBLE_RESULTS :: "string list" where
  "SUGGESTIBLE_RESULTS = [''missing'', ''non_compliant'']"

definition suggest_fallback :: "suggestion_request \<Rightarrow> fallback_comparator option \<Rightarrow> fallback_suggestion option" where
  "suggest_fallback q comparator =
     (if fq_result q \<notin> set SUGGESTIBLE_RESULTS then None
      else case approved_language q of
             None \<Rightarrow> Some (suggestion q None None)
           | Some l \<Rightarrow> Some (suggestion q (Some l) (comparison_kind q comparator)))"

section \<open>Evaluation\<close>

record evaluated_finding =
  ef_rule :: uuid
  ef_result :: finding_result
  ef_severity :: string
  ef_confidence :: rat
  ef_method :: string
  ef_citation_ids :: "string list"
  ef_extraction_version :: string
  ef_risk :: risk_payload
  ef_suggestions :: "fallback_suggestion list"

definition MINIMUM_CONFIDENCE :: rat where
  "MINIMUM_CONFIDENCE = 8 / 10"

text \<open>
  \<open>re.sub(r"[^a-z0-9]+", "_", value.casefold()).strip("_")\<close>: the runs of letters and digits, joined by one
  underscore each.
\<close>

definition is_word_char :: "char \<Rightarrow> bool" where
  "is_word_char c \<longleftrightarrow> (let n = (of_char c :: nat) in 97 \<le> n \<and> n \<le> 122 \<or> 48 \<le> n \<and> n \<le> 57)"

definition normalized_type :: "json option \<Rightarrow> string" where
  "normalized_type v = join_with ''_'' (runs is_word_char (str_lower (json_string v [])))"

definition canonical_clause_type :: "json option \<Rightarrow> string" where
  "canonical_clause_type v =
     (let n = normalized_type v in if n = ''liability'' then ''limitation_of_liability'' else n)"

definition clause_confidence :: "json \<Rightarrow> rat" where
  "clause_confidence clause =
     (case json_get clause ''confidence'' of Some (JInt i) \<Rightarrow> of_int i | Some (JFloat r) \<Rightarrow> r | _ \<Rightarrow> 0)"

definition is_deterministic_clause :: "json \<Rightarrow> bool" where
  "is_deterministic_clause clause \<longleftrightarrow>
     (case json_get clause ''extraction_version'' of Some (JStr v) \<Rightarrow> startswith ''clause-rules.'' v | _ \<Rightarrow> False)"

definition clause_citations :: "json \<Rightarrow> string list" where
  "clause_citations clause =
     (case json_get clause ''citation_anchor_ids'' of
        Some (JList vs) \<Rightarrow> filter (\<lambda>s. s \<noteq> []) (List.map_filter (\<lambda>v. case v of JStr s \<Rightarrow> Some s | _ \<Rightarrow> None) vs)
      | _ \<Rightarrow> [])"

definition analysis_clauses :: "json \<Rightarrow> json list" where
  "analysis_clauses analysis =
     (case json_get analysis ''clauses'' of Some (JList vs) \<Rightarrow> filter is_json_object vs | _ \<Rightarrow> [])"

text \<open>\<open>max\<close> with a key: the first of the greatest.\<close>

fun first_max :: "('a \<Rightarrow> 'b::linorder) \<Rightarrow> 'a \<Rightarrow> 'a list \<Rightarrow> 'a" where
  "first_max f x [] = x"
| "first_max f x (y # ys) = first_max f (if f x < f y then y else x) ys"

definition clause_authority :: "json \<Rightarrow> bool \<times> rat" where
  "clause_authority clause = (is_deterministic_clause clause, clause_confidence clause)"

definition rule_risk_payload ::
  "worker_rule \<Rightarrow> finding_result \<Rightarrow> rat \<Rightarrow> string list \<Rightarrow> string option \<Rightarrow> risk_explainer option \<Rightarrow> risk_payload" where
  "rule_risk_payload rule r confidence ids text explainer =
     explain_risk \<lparr>rq_severity = wr_severity rule, rq_rationale = wr_rationale rule, rq_result = finding_result_value r,
       rq_confidence = confidence, rq_citation_ids = ids, rq_clause_text = text\<rparr> explainer"

definition plain_finding ::
  "worker_rule \<Rightarrow> finding_result \<Rightarrow> rat \<Rightarrow> string list \<Rightarrow> string \<Rightarrow> evaluated_finding" where
  "plain_finding rule r confidence ids extraction_version = \<lparr>ef_rule = wr_id rule, ef_result = r,
     ef_severity = wr_severity rule, ef_confidence = confidence, ef_method = ''deterministic'',
     ef_citation_ids = ids, ef_extraction_version = extraction_version,
     ef_risk = rule_risk_payload rule r confidence ids None None, ef_suggestions = []\<rparr>"

definition rule_language :: "string option \<Rightarrow> string" where
  "rule_language preferred = str_lower (str_strip (case preferred of None \<Rightarrow> [] | Some t \<Rightarrow> t))"

definition deterministic_finding :: "worker_rule \<Rightarrow> json list \<Rightarrow> evaluated_finding \<times> json option" where
  "deterministic_finding rule candidates =
     (case candidates of
        [] \<Rightarrow> (plain_finding rule NeedsReview 0 [] ''unknown'', None)
      | c # cs \<Rightarrow>
          (let clause = first_max clause_authority c cs;
               confidence = clause_confidence clause;
               ids = clause_citations clause;
               extraction_version = json_string (json_get clause ''extraction_version'') ''unknown'';
               finding = (\<lambda>r. (plain_finding rule r confidence ids extraction_version, Some clause))
           in if confidence < MINIMUM_CONFIDENCE \<or> ids = [] then finding NeedsReview
              else
                (let source_text = str_lower (json_string (json_get clause ''source_text'') []);
                     expected = rule_language (wr_preferred rule)
                 in if expected = [] then finding NeedsReview
                    else if wr_policy_type rule = ''prohibited''
                    then finding (if contains expected source_text then NonCompliant else Satisfied)
                    else finding (if contains expected source_text then Satisfied else NeedsReview))))"

type_synonym semantic_assessor = "worker_rule \<Rightarrow> json \<Rightarrow> finding_result result"

definition may_assess_semantically :: "worker_rule \<Rightarrow> evaluated_finding \<Rightarrow> bool" where
  "may_assess_semantically rule f \<longleftrightarrow> wr_method rule = ''semantic'' \<and> wr_semantic_permitted rule \<and>
     ef_result f = NeedsReview \<and> ef_citation_ids f \<noteq> [] \<and> MINIMUM_CONFIDENCE \<le> ef_confidence f"

definition assessed ::
  "semantic_assessor option \<Rightarrow> worker_rule \<Rightarrow> evaluated_finding \<Rightarrow> json option \<Rightarrow> evaluated_finding result" where
  "assessed assessor rule f clause =
     (case (assessor, clause) of
        (Some assess, Some c) \<Rightarrow>
          if \<not> may_assess_semantically rule f then Inr f
          else bindR (assess rule c) (\<lambda>r.
                 Inr (if r = NeedsReview \<or> r = NonCompliant
                      then f\<lparr>ef_result := r, ef_method := ''semantic'', ef_suggestions := []\<rparr> else f))
      | _ \<Rightarrow> Inr f)"

definition with_risk_explanation ::
  "worker_rule \<Rightarrow> evaluated_finding \<Rightarrow> json option \<Rightarrow> risk_explainer option \<Rightarrow> fallback_comparator option
   \<Rightarrow> uuid option \<Rightarrow> evaluated_finding" where
  "with_risk_explanation rule f clause explainer comparator version_id =
     (let text = map_option (\<lambda>c. json_string (json_get c ''source_text'') []) clause
      in f\<lparr>ef_risk := rule_risk_payload rule (ef_result f) (ef_confidence f) (ef_citation_ids f) text explainer,
           ef_suggestions :=
             (case version_id of
                None \<Rightarrow> []
              | Some v \<Rightarrow>
                  (case suggest_fallback \<lparr>fq_rule = wr_id rule, fq_playbook_version = v,
                           fq_result = finding_result_value (ef_result f), fq_citation_ids = ef_citation_ids f,
                           fq_clause_text = text, fq_preferred = wr_preferred rule, fq_fallback = wr_fallback rule\<rparr>
                         comparator of
                     None \<Rightarrow> [] | Some x \<Rightarrow> [x]))\<rparr>)"

definition rule_candidates :: "worker_rule \<Rightarrow> json \<Rightarrow> json list" where
  "rule_candidates rule analysis =
     filter (\<lambda>c. canonical_clause_type (json_get c ''category'') = canonical_clause_type (Some (JStr (wr_clause_type rule))) \<and>
       is_deterministic_clause c) (analysis_clauses analysis)"

definition evaluate_rule ::
  "worker_rule \<Rightarrow> json \<Rightarrow> semantic_assessor option \<Rightarrow> risk_explainer option \<Rightarrow> fallback_comparator option
   \<Rightarrow> uuid option \<Rightarrow> evaluated_finding result" where
  "evaluate_rule rule analysis assessor explainer comparator version_id =
     (case deterministic_finding rule (rule_candidates rule analysis) of
        (f, clause) \<Rightarrow>
          bindR (assessed assessor rule f clause) (\<lambda>f.
          Inr (with_risk_explanation rule f clause
                 (if ef_method f = ''deterministic'' then explainer else None)
                 (if ef_method f = ''deterministic'' then comparator else None) version_id)))"

fun evaluate_playbook ::
  "worker_rule list \<Rightarrow> json \<Rightarrow> semantic_assessor option \<Rightarrow> risk_explainer option \<Rightarrow> fallback_comparator option
   \<Rightarrow> uuid option \<Rightarrow> evaluated_finding list result" where
  "evaluate_playbook [] analysis assessor explainer comparator version_id = Inr []"
| "evaluate_playbook (r # rs) analysis assessor explainer comparator version_id =
     bindR (evaluate_rule r analysis assessor explainer comparator version_id) (\<lambda>f.
     bindR (evaluate_playbook rs analysis assessor explainer comparator version_id) (\<lambda>fs.
     Inr (f # fs)))"

end
