(* ===== verification/Playbook_Sink.thy ===== *)
theory Playbook_Sink
  imports Playbook_Evaluation
begin

text \<open>
  What the worker does when an analysis was committed (\<open>playbook_evaluation.py\<close>:
  \<open>SQLAlchemyPlaybookEvaluationSink\<close> and the routing; \<open>completion_fence.py\<close>): it selects the one playbook
  version that applies to the agreement, evaluates it and stores the findings. The stored analysis is read
  through \<open>decode\<close>, which is undefined where \<open>json.loads\<close> raises.
\<close>

section \<open>The fence\<close>

definition lock_active_agreement :: "'z agreement_db_scheme \<Rightarrow> uuid \<Rightarrow> uuid option \<Rightarrow> uuid option \<Rightarrow> bool" where
  "lock_active_agreement s agreement_id og ws =
     (case (og, ws) of
        (Some g, Some w) \<Rightarrow> active_agreement s agreement_id g w \<noteq> None
      | _ \<Rightarrow> False)"

section \<open>Routing\<close>

text \<open>The latest recorded override for the agreement whose version is published and live.\<close>

definition live_published :: "'z playbook_db_scheme \<Rightarrow> uuid \<Rightarrow> bool" where
  "live_published s version_id \<longleftrightarrow>
     exists_row (\<lambda>v. pv_id v = version_id \<and> pv_status v = ''published'' \<and>
       exists_row (\<lambda>p. pb_id p = pv_playbook v \<and> pb_archived_at p = None) (playbooks s)) (playbook_versions s)"

definition overrides_of ::
  "'z playbook_db_scheme \<Rightarrow> uuid \<Rightarrow> uuid option \<Rightarrow> uuid option \<Rightarrow> playbook_audit_row list" where
  "overrides_of s agreement_id og ws =
     rev (sort_key (\<lambda>e. (py_occurred_at e, py_id e))
       (filter (\<lambda>e. og = Some (py_org e) \<and> ws = Some (py_ws e) \<and> py_agreement e = Some agreement_id \<and>
          py_action e = ''agreement_override_recorded'' \<and>
          (case py_version e of None \<Rightarrow> False | Some v \<Rightarrow> live_published s v)) (playbook_audit s)))"

definition selected_override ::
  "'z playbook_db_scheme \<Rightarrow> uuid \<Rightarrow> uuid option \<Rightarrow> uuid option \<Rightarrow> uuid option" where
  "selected_override s agreement_id og ws =
     (case overrides_of s agreement_id og ws of [] \<Rightarrow> None | e # _ \<Rightarrow> py_version e)"

definition route_candidates ::
  "'z playbook_db_scheme \<Rightarrow> uuid option \<Rightarrow> uuid option \<Rightarrow> string \<Rightarrow> string \<Rightarrow> string
   \<Rightarrow> (playbook_version_row \<times> playbook_row) list" where
  "route_candidates s og ws family direction jurisdiction =
     filter (\<lambda>(v, p). og = Some (pv_org v) \<and> ws = Some (pv_ws v) \<and> pv_status v = ''published'' \<and>
       og = Some (pb_org p) \<and> ws = Some (pb_ws p) \<and> pb_archived_at p = None \<and> pb_family p = family \<and>
       pb_direction p \<in> {''any'', direction} \<and> pb_jurisdiction p \<in> {''any'', jurisdiction})
       (versions_with_playbooks s)"

text \<open>Descending priority, then playbooks with a direction, then with a jurisdiction, then the version id.\<close>

definition route_order :: "playbook_version_row \<times> playbook_row \<Rightarrow> int \<times> bool \<times> bool \<times> uuid" where
  "route_order x = (case x of (v, p) \<Rightarrow>
     (- pb_priority p, pb_direction p = ''any'', pb_jurisdiction p = ''any'', pv_id v))"

definition routed_version ::
  "'z playbook_db_scheme \<Rightarrow> uuid option \<Rightarrow> uuid option \<Rightarrow> agreement_row \<Rightarrow> uuid option" where
  "routed_version s og ws a =
     (let direction = json_string (json_get (ag_audit_metadata a) ''document_direction'') ''any'';
          jurisdiction = str_upper (json_string (json_get (ag_audit_metadata a) ''jurisdiction'') ''any'')
      in case sort_key route_order (route_candidates s og ws (ag_type a) direction jurisdiction) of
           [] \<Rightarrow> None | (v, p) # _ \<Rightarrow> Some (pv_id v))"

definition select_routed_playbook_version ::
  "'z playbook_db_scheme \<Rightarrow> uuid \<Rightarrow> uuid option \<Rightarrow> uuid option \<Rightarrow> agreement_row \<Rightarrow> uuid option" where
  "select_routed_playbook_version s agreement_id og ws a =
     (case selected_override s agreement_id og ws of
        Some v \<Rightarrow> Some v
      | None \<Rightarrow> routed_version s og ws a)"

section \<open>The stored findings\<close>

definition worker_rule_of :: "playbook_rule_row \<Rightarrow> worker_rule" where
  "worker_rule_of r = \<lparr>wr_id = pl_id r, wr_clause_type = rw_clause_type r,
     wr_policy_type = (if rw_policy_type r \<in> {''required'', ''prohibited'', ''preferred''} then rw_policy_type r
       else ''required''),
     wr_preferred = rw_preferred r, wr_severity = rw_severity r, wr_fallback = rw_fallback r,
     wr_rationale = rw_rationale r,
     wr_method = (if cfg_method (rw_config r) = ''semantic'' then ''semantic'' else ''deterministic''),
     wr_semantic_permitted = cfg_semantic_permitted (rw_config r)\<rparr>"

definition risk_payload_value :: "risk_payload \<Rightarrow> json" where
  "risk_payload_value k = JObj [(''version'', JStr (rk_version k)), (''severity'', JStr (rk_severity k)),
     (''risk_rationale'', JStr (rk_rationale k)), (''risk_confidence'', JFloat (rk_confidence k)),
     (''review_status'', JStr (rk_review_status k)), (''citation_ids'', JList (map JStr (rk_citation_ids k))),
     (''model_explanation'', opt_str (rk_model_explanation k))]"

definition fallback_suggestion_value :: "fallback_suggestion \<Rightarrow> json" where
  "fallback_suggestion_value f = JObj [(''version'', JStr (fs_version f)), (''rule_id'', JStr (fs_rule f)),
     (''playbook_version_id'', JStr (fs_playbook_version f)), (''suggested_language'', opt_str (fs_language f)),
     (''review_recommendation'', JStr (fs_recommendation f)),
     (''citation_ids'', JList (map JStr (fs_citation_ids f))),
     (''comparison_kind'', opt_str (fs_comparison_kind f)), (''comparison'', opt_str (fs_comparison f)),
     (''ai_generated'', JBool (fs_ai_generated f))]"

definition finding_row_of :: "uuid \<Rightarrow> uuid \<Rightarrow> uuid \<Rightarrow> uuid \<Rightarrow> evaluated_finding \<Rightarrow> finding_row" where
  "finding_row_of i g w evaluation f = \<lparr>fi_id = i, fi_org = g, fi_ws = w, fi_evaluation = evaluation,
     fi_rule = ef_rule f, fi_result = finding_result_value (ef_result f), fi_severity = ef_severity f,
     fi_confidence = ef_confidence f, fi_method = ef_method f, fi_citation_ids = ef_citation_ids f,
     fi_extraction_version = ef_extraction_version f, fi_review_state = ''unreviewed'',
     fi_risk_payload = risk_payload_value (ef_risk f),
     fi_fallback_suggestions = map fallback_suggestion_value (ef_suggestions f)\<rparr>"

fun insert_findings ::
  "uuid \<Rightarrow> uuid \<Rightarrow> uuid \<Rightarrow> evaluated_finding list \<Rightarrow> 'z review_db_scheme \<Rightarrow> 'z review_db_scheme" where
  "insert_findings g w evaluation [] s = s"
| "insert_findings g w evaluation (f # fs) s =
     insert_findings g w evaluation fs
       (draw s\<lparr>findings := findings s @ [finding_row_of (uuid4 s) g w evaluation f]\<rparr>)"

text \<open>The extraction version of the first finding that has one.\<close>

definition extraction_version_of :: "evaluated_finding list \<Rightarrow> string" where
  "extraction_version_of fs =
     (case find (\<lambda>f. ef_extraction_version f \<noteq> ''unknown'') fs of
        None \<Rightarrow> ''unknown'' | Some f \<Rightarrow> ef_extraction_version f)"

definition version_rules :: "'z playbook_db_scheme \<Rightarrow> uuid \<Rightarrow> uuid \<Rightarrow> uuid \<Rightarrow> playbook_rule_row list" where
  "version_rules s version_id g w =
     sort_key pl_id (filter (\<lambda>r. pl_org r = g \<and> pl_ws r = w \<and> pl_version r = version_id) (playbook_rules s))"

definition store_evaluation ::
  "datetime \<Rightarrow> processing_job \<Rightarrow> uuid \<Rightarrow> uuid \<Rightarrow> uuid \<Rightarrow> json \<Rightarrow> evaluated_finding list \<Rightarrow> 'z review_db_scheme
   \<Rightarrow> 'z review_db_scheme" where
  "store_evaluation now job g w version_id manifest fs s =
     (let e = \<lparr>ev_id = uuid4 s, ev_org = g, ev_ws = w, ev_agreement = pj_agreement job, ev_job = Some (pj_id job),
              ev_playbook_version = version_id,
              ev_analysis_version = json_string (json_get manifest ''schema_version'') ''unknown'',
              ev_extraction_version = extraction_version_of fs, ev_state = ''completed'', ev_requested_by = None,
              ev_created_at = now\<rparr>
      in insert_findings g w (ev_id e) fs (draw s\<lparr>evaluations := evaluations s @ [e]\<rparr>))"

definition evaluation_completed ::
  "(string \<Rightarrow> json option) \<Rightarrow> risk_explainer option \<Rightarrow> fallback_comparator option \<Rightarrow> datetime \<Rightarrow> processing_job
   \<Rightarrow> completed_artifact \<Rightarrow> object_store \<Rightarrow> 'z playbook_db_scheme \<Rightarrow> 'z playbook_db_scheme result" where
  "evaluation_completed decode explainer comparator now job artifact store s =
     (case (pj_org job, pj_ws job, Option.bind (map_option snd (store (ca_key artifact))) decode) of
        (Some g, Some w, Some manifest) \<Rightarrow>
          if \<not> is_json_object manifest then Inr s
          else if \<not> lock_active_agreement s (pj_agreement job) (Some g) (Some w) then Inr s
          else
            (case find (\<lambda>a. ag_id a = pj_agreement job \<and> ag_org a = g \<and> ag_ws a = w) (agreements s) of
               None \<Rightarrow> Inr s
             | Some a \<Rightarrow>
                 (case select_routed_playbook_version s (pj_agreement job) (Some g) (Some w) a of
                    None \<Rightarrow> Inr s
                  | Some version_id \<Rightarrow>
                      if exists_row (\<lambda>e. ev_job e = Some (pj_id job) \<and> ev_playbook_version e = version_id) (evaluations s)
                      then Inr s
                      else
                        bindR (evaluate_playbook (map worker_rule_of (version_rules s version_id g w)) manifest None
                                 explainer comparator (Some version_id)) (\<lambda>fs.
                        Inr (store_evaluation now job g w version_id manifest fs s))))
      | _ \<Rightarrow> Inr s)"

end
