(* ===== verification/Playbook_Findings.thy ===== *)
theory Playbook_Findings
  imports Playbook_Sink
begin

text \<open>
  Properties of the evaluation against a playbook: compliance rests on deterministic evidence, and a model
  neither creates it nor writes policy text.
\<close>

section \<open>Evidence\<close>

text \<open>A cited deterministic clause of the rule's type, above the confidence floor.\<close>

definition evidence_for :: "worker_rule \<Rightarrow> json \<Rightarrow> json \<Rightarrow> bool" where
  "evidence_for rule analysis c \<longleftrightarrow> c \<in> set (analysis_clauses analysis) \<and> is_deterministic_clause c \<and>
     canonical_clause_type (json_get c ''category'') = canonical_clause_type (Some (JStr (wr_clause_type rule))) \<and>
     MINIMUM_CONFIDENCE \<le> clause_confidence c \<and> clause_citations c \<noteq> []"

definition states_language :: "worker_rule \<Rightarrow> json \<Rightarrow> bool" where
  "states_language rule c \<longleftrightarrow> rule_language (wr_preferred rule) \<noteq> [] \<and>
     contains (rule_language (wr_preferred rule)) (str_lower (json_string (json_get c ''source_text'') []))"

definition evidenced :: "worker_rule \<Rightarrow> json \<Rightarrow> evaluated_finding \<Rightarrow> bool" where
  "evidenced rule analysis f \<longleftrightarrow>
     (ef_result f = Satisfied \<longrightarrow>
        (\<exists>c. evidence_for rule analysis c \<and> ef_citation_ids f = clause_citations c \<and>
           (states_language rule c \<longleftrightarrow> wr_policy_type rule \<noteq> ''prohibited'')))"

text \<open>What the models may have changed: nothing of the deterministic finding \<open>d\<close> but a doubt.\<close>

definition bounded_by :: "worker_rule \<Rightarrow> evaluated_finding \<Rightarrow> evaluated_finding \<Rightarrow> bool" where
  "bounded_by rule d f \<longleftrightarrow> ef_rule f = wr_id rule \<and> ef_severity f = wr_severity rule \<and>
     ef_confidence f = ef_confidence d \<and> ef_citation_ids f = ef_citation_ids d \<and>
     (ef_result f = ef_result d \<or> ef_result d = NeedsReview \<and> ef_result f = NonCompliant \<and> ef_method f = ''semantic'')"

text \<open>The texts of a finding are the rule's, the fixed sentences, or prose whose citations were given to the model.\<close>

definition policy_texts :: "worker_rule \<Rightarrow> evaluated_finding \<Rightarrow> bool" where
  "policy_texts rule f \<longleftrightarrow>
     rk_severity (ef_risk f) = wr_severity rule \<and> rk_citation_ids (ef_risk f) = ef_citation_ids f \<and>
     rk_review_status (ef_risk f) = (if ef_result f = Satisfied then ''complete'' else ''review_required'') \<and>
     0 \<le> rk_confidence (ef_risk f) \<and> rk_confidence (ef_risk f) \<le> 1 \<and>
     list_all (\<lambda>x. fs_language x \<in> {None, wr_fallback rule, wr_preferred rule} \<and> fs_citation_ids x = ef_citation_ids f \<and>
       fs_comparison x \<in> {None, Some ''The cited clause differs from the approved position.''} \<and>
       (fs_ai_generated x \<longleftrightarrow> fs_comparison x \<noteq> None)) (ef_suggestions f)"

section \<open>The deterministic finding\<close>

lemma first_max_in: "first_max f x ys \<in> insert x (set ys)"
  by (induction ys arbitrary: x) (auto split: if_splits)

lemma plain_finding_simps [simp]:
  "ef_rule (plain_finding r x c i e) = wr_id r" "ef_result (plain_finding r x c i e) = x"
  "ef_severity (plain_finding r x c i e) = wr_severity r" "ef_confidence (plain_finding r x c i e) = c"
  "ef_method (plain_finding r x c i e) = ''deterministic''" "ef_citation_ids (plain_finding r x c i e) = i"
  by (simp_all add: plain_finding_def)

lemma deterministic_fields:
  "ef_rule (fst (deterministic_finding r cs)) = wr_id r" "ef_severity (fst (deterministic_finding r cs)) = wr_severity r"
  by (simp_all add: deterministic_finding_def Let_def split: list.split)

lemma deterministic_evidenced: "evidenced rule analysis (fst (deterministic_finding rule (rule_candidates rule analysis)))"
proof (cases "rule_candidates rule analysis")
  case (Cons c cs)
  let ?c = "first_max clause_authority c cs"
  have "?c \<in> set (rule_candidates rule analysis)" using first_max_in [of clause_authority c cs] Cons by simp
  then have c: "?c \<in> set (analysis_clauses analysis)" "is_deterministic_clause ?c"
    "canonical_clause_type (json_get ?c ''category'') = canonical_clause_type (Some (JStr (wr_clause_type rule)))"
    by (simp_all add: rule_candidates_def)
  show ?thesis unfolding evidenced_def
  proof (intro impI exI [of _ ?c])
    assume s: "ef_result (fst (deterministic_finding rule (rule_candidates rule analysis))) = Satisfied"
    then show "evidence_for rule analysis ?c \<and>
        ef_citation_ids (fst (deterministic_finding rule (rule_candidates rule analysis))) = clause_citations ?c \<and>
        (states_language rule ?c \<longleftrightarrow> wr_policy_type rule \<noteq> ''prohibited'')"
      using c by (auto simp: Cons deterministic_finding_def Let_def evidence_for_def states_language_def split: if_splits)
  qed
qed (simp add: evidenced_def deterministic_finding_def)

section \<open>The models\<close>

lemma assessed_bounded:
  assumes "assessed assessor rule d clause = Inr f" "ef_rule d = wr_id rule" "ef_severity d = wr_severity rule"
  shows "bounded_by rule d f"
  using assms by (auto simp: assessed_def bounded_by_def result_simps may_assess_semantically_def split: option.splits if_splits)

lemma suggest_fallback_texts:
  assumes "suggest_fallback q comparator = Some x"
  shows "fs_language x \<in> {None, fq_fallback q, fq_preferred q} \<and> fs_citation_ids x = fq_citation_ids q \<and>
    fs_comparison x \<in> {None, Some ''The cited clause differs from the approved position.''} \<and>
    (fs_ai_generated x \<longleftrightarrow> fs_comparison x \<noteq> None)"
proof -
  have k: "comparison_kind q comparator = None \<or> comparison_kind q comparator = Some CLAUSE_DIFFERS"
  proof (cases comparator)
    case (Some g)
    have "bounded_comparison_kind q a b \<in> {None, Some CLAUSE_DIFFERS}" for a b
      by (simp add: bounded_comparison_kind_def COMPARISON_RENDERINGS_def split: option.split)
    then show ?thesis by (cases "g q") (auto simp: Some comparison_kind_def split: option.split)
  qed (simp add: comparison_kind_def)
  have r: "render_comparison None = None"
    "render_comparison (Some CLAUSE_DIFFERS) = Some ''The cited clause differs from the approved position.''"
    by (simp_all add: render_comparison_def COMPARISON_RENDERINGS_def)
  have l: "Some l \<in> {fq_fallback q, fq_preferred q}" if "approved_language q = Some l" for l
    using that by (auto simp: approved_language_def split: if_splits option.splits)
  show ?thesis using assms k r l
    by (auto simp: suggest_fallback_def suggestion_def split: if_splits option.splits)
qed

lemma with_risk_fields [simp]:
  "ef_rule (with_risk_explanation r f c e k v) = ef_rule f" "ef_result (with_risk_explanation r f c e k v) = ef_result f"
  "ef_severity (with_risk_explanation r f c e k v) = ef_severity f"
  "ef_confidence (with_risk_explanation r f c e k v) = ef_confidence f"
  "ef_method (with_risk_explanation r f c e k v) = ef_method f"
  "ef_citation_ids (with_risk_explanation r f c e k v) = ef_citation_ids f"
  by (simp_all add: with_risk_explanation_def Let_def)

lemma review_status_value:
  "review_status (finding_result_value r) = (if r = Satisfied then ''complete'' else ''review_required'')"
  by (cases r) (simp_all add: review_status_def REVIEW_REQUIRED_RESULTS_def)

lemma with_risk_texts: "policy_texts rule (with_risk_explanation rule f clause explainer comparator version_id)"
proof -
  let ?g = "with_risk_explanation rule f clause explainer comparator version_id"
  have "list_all (\<lambda>x. fs_language x \<in> {None, wr_fallback rule, wr_preferred rule} \<and> fs_citation_ids x = ef_citation_ids f \<and>
       fs_comparison x \<in> {None, Some ''The cited clause differs from the approved position.''} \<and>
       (fs_ai_generated x \<longleftrightarrow> fs_comparison x \<noteq> None)) (ef_suggestions ?g)"
  proof -
    have q: "\<exists>q. suggest_fallback q comparator = Some x \<and> fq_fallback q = wr_fallback rule \<and> fq_preferred q = wr_preferred rule \<and>
        fq_citation_ids q = ef_citation_ids f" if x: "x \<in> set (ef_suggestions ?g)" for x
      using x by (auto simp: with_risk_explanation_def Let_def split: option.splits)
    show ?thesis unfolding list_all_iff
    proof (intro ballI, goal_cases)
      case (1 x)
      obtain q where "suggest_fallback q comparator = Some x" "fq_fallback q = wr_fallback rule" "fq_preferred q = wr_preferred rule"
        "fq_citation_ids q = ef_citation_ids f" using q [OF 1] by blast
      then show ?case using suggest_fallback_texts [of q comparator x] by simp
    qed
  qed
  moreover have "0 \<le> risk_confidence c" "risk_confidence c \<le> 1" for c by (simp_all add: risk_confidence_def)
  ultimately show ?thesis
    by (simp add: policy_texts_def) (simp add: with_risk_explanation_def Let_def rule_risk_payload_def explain_risk_def review_status_value [simplified]
        review_status_value [of Satisfied, simplified])
qed

definition bounded_finding :: "json \<Rightarrow> worker_rule \<Rightarrow> evaluated_finding \<Rightarrow> bool" where
  "bounded_finding analysis rule f \<longleftrightarrow>
     bounded_by rule (fst (deterministic_finding rule (rule_candidates rule analysis))) f \<and>
     evidenced rule analysis f \<and> policy_texts rule f"

lemma evaluate_rule_bounded:
  assumes "evaluate_rule rule analysis assessor explainer comparator version_id = Inr f"
  shows "bounded_finding analysis rule f"
proof -
  obtain d clause where d: "deterministic_finding rule (rule_candidates rule analysis) = (d, clause)" by fastforce
  then obtain a where a: "assessed assessor rule d clause = Inr a"
    and f: "f = with_risk_explanation rule a clause (if ef_method a = ''deterministic'' then explainer else None)
       (if ef_method a = ''deterministic'' then comparator else None) version_id"
    using assms by (auto simp: evaluate_rule_def result_simps)
  have b: "bounded_by rule d a" using assessed_bounded [OF a] deterministic_fields [of rule "rule_candidates rule analysis"] d by simp
  moreover have "evidenced rule analysis d" using deterministic_evidenced [of rule analysis] d by simp
  ultimately have "evidenced rule analysis a" by (auto simp: evidenced_def bounded_by_def)
  then show ?thesis using b d f with_risk_texts
    by (auto simp: bounded_finding_def bounded_by_def evidenced_def)
qed

text \<open>
  C29: Whatever the semantic assessor, the risk explainer and the fallback comparator answer, the evaluation
  gives one finding per rule in order. Each keeps the rule's severity and the confidence and citations of its
  deterministic finding, and its result is the deterministic one or a doubt turned into a deviation, so no model
  creates compliance: a satisfied finding cites a deterministic clause of the rule's type above the confidence
  floor which states the preferred language (or, for a prohibition, does not). Suggested language is the rule's
  own, and a comparison is the one fixed sentence.
\<close>

theorem models_create_no_compliance:
  assumes "evaluate_playbook rules analysis assessor explainer comparator version_id = Inr fs"
  shows "list_all2 (bounded_finding analysis) rules fs"
  using assms by (induction rules arbitrary: fs) (auto simp: result_simps dest: evaluate_rule_bounded)

definition demo_worker_rule :: worker_rule where
  "demo_worker_rule = \<lparr>wr_id = ''PL1'', wr_clause_type = ''governing_law'', wr_policy_type = ''required'',
     wr_preferred = Some ''England'', wr_severity = ''high'', wr_fallback = None, wr_rationale = ''R'',
     wr_method = ''semantic'', wr_semantic_permitted = True\<rparr>"

definition demo_analysis :: json where
  "demo_analysis = JObj [(''clauses'', JList [JObj [(''category'', JStr ''Governing law''),
     (''extraction_version'', JStr ''clause-rules.v1''), (''confidence'', JInt 1),
     (''citation_anchor_ids'', JList [JStr ''a1'']), (''source_text'', JStr ''the laws of england apply'')]])]"

theorem models_create_no_compliance_witness:
  "\<exists>f. evaluate_playbook [demo_worker_rule] demo_analysis (Some (\<lambda>_ _. Inr Missing)) (Some (\<lambda>_. None)) None (Some ''PV1'') =
      Inr [f] \<and> ef_result f = Satisfied \<and> bounded_finding demo_analysis demo_worker_rule f"
proof -
  have l: "str_lower ''Governing law'' = ''governing law''" "str_lower ''governing_law'' = ''governing_law''"
    "rule_language (Some ''England'') = ''england''" "str_lower ''the laws of england apply'' = ''the laws of england apply''"
    by code_simp+
  have n: "normalized_type (Some (JStr ''Governing law'')) = ''governing_law''"
    "normalized_type (Some (JStr ''governing_law'')) = ''governing_law''" by code_simp+
  have t: "contains ''england'' ''the laws of england apply''" by code_simp+
  let ?c = "JObj [(''category'', JStr ''Governing law''),
     (''extraction_version'', JStr ''clause-rules.v1''), (''confidence'', JInt 1),
     (''citation_anchor_ids'', JList [JStr ''a1'']), (''source_text'', JStr ''the laws of england apply'')]"
  have c: "rule_candidates demo_worker_rule demo_analysis = [?c]"
    by (simp add: rule_candidates_def demo_analysis_def analysis_clauses_def demo_worker_rule_def canonical_clause_type_def
        n is_deterministic_clause_def startswith_def)
  have d: "deterministic_finding demo_worker_rule [?c] =
      (plain_finding demo_worker_rule Satisfied 1 [''a1''] ''clause-rules.v1'', Some ?c)"
    by (simp add: deterministic_finding_def clause_confidence_def clause_citations_def List.map_filter_def
        json_string_def MINIMUM_CONFIDENCE_def demo_worker_rule_def l t Let_def del: contains.simps)
  have "\<exists>f. evaluate_playbook [demo_worker_rule] demo_analysis (Some (\<lambda>_ _. Inr Missing)) (Some (\<lambda>_. None)) None (Some ''PV1'') =
      Inr [f] \<and> ef_result f = Satisfied"
    by (simp add: evaluate_rule_def c d assessed_def may_assess_semantically_def)
  then obtain f where f: "evaluate_playbook [demo_worker_rule] demo_analysis (Some (\<lambda>_ _. Inr Missing)) (Some (\<lambda>_. None)) None (Some ''PV1'') =
      Inr [f]" "ef_result f = Satisfied" by blast
  from models_create_no_compliance [OF f(1)] have "bounded_finding demo_analysis demo_worker_rule f" by simp
  then show ?thesis using f by blast
qed

end
