(* ===== verification/Playbook_Routes.thy ===== *)
theory Playbook_Routes
  imports Playbook_Sink Processing_Demo
begin

text \<open>
  The playbooks under every order of the operations of \<open>PlaybookService\<close>: the invariant of their three tables,
  the publications it freezes, and what it gives the worker, whose routing then has one best playbook.
\<close>

section \<open>The invariant of the tables\<close>

definition keys_ok ::
  "playbook_row list \<Rightarrow> playbook_version_row list \<Rightarrow> playbook_rule_row list \<Rightarrow> uuid set \<Rightarrow> bool" where
  "keys_ok P V R U \<longleftrightarrow> distinct (map pb_id P) \<and> pb_id ` set P \<subseteq> U \<and> distinct (map pv_id V) \<and> pv_id ` set V \<subseteq> U \<and>
     distinct (map pl_id R) \<and> pl_id ` set R \<subseteq> U"

definition version_in :: "playbook_version_row \<Rightarrow> playbook_row \<Rightarrow> bool" where
  "version_in v p \<longleftrightarrow> pv_playbook v = pb_id p \<and> pv_org v = pb_org p \<and> pv_ws v = pb_ws p"

definition owned_ok :: "playbook_row list \<Rightarrow> playbook_version_row list \<Rightarrow> bool" where
  "owned_ok P V \<longleftrightarrow> (\<forall>v \<in> set V. \<exists>p \<in> set P. version_in v p)"

definition published :: "playbook_version_row list \<Rightarrow> playbook_version_row \<Rightarrow> bool" where
  "published V v \<longleftrightarrow> v \<in> set V \<and> pv_status v = ''published''"

definition one_published :: "playbook_version_row list \<Rightarrow> bool" where
  "one_published V \<longleftrightarrow> (\<forall>v v'. published V v \<and> published V v' \<and> pv_playbook v = pv_playbook v' \<longrightarrow> v = v')"

text \<open>A live playbook with its published version.\<close>

definition live_with ::
  "playbook_row list \<Rightarrow> playbook_version_row list \<Rightarrow> playbook_version_row \<Rightarrow> playbook_row \<Rightarrow> bool" where
  "live_with P V v p \<longleftrightarrow> published V v \<and> p \<in> set P \<and> version_in v p \<and> pb_archived_at p = None"

definition same_scope_route :: "playbook_row \<Rightarrow> playbook_row \<Rightarrow> bool" where
  "same_scope_route p q \<longleftrightarrow> pb_org p = pb_org q \<and> pb_ws p = pb_ws q \<and> same_playbook_route p q"

definition routes_ok :: "playbook_row list \<Rightarrow> playbook_version_row list \<Rightarrow> bool" where
  "routes_ok P V \<longleftrightarrow> (\<forall>v p v' p'. live_with P V v p \<and> live_with P V v' p' \<and> same_scope_route p p' \<longrightarrow> pb_id p = pb_id p')"

definition rules_in :: "playbook_rule_row list \<Rightarrow> uuid \<Rightarrow> playbook_rule_row list" where
  "rules_in R i = filter (\<lambda>r. pl_version r = i) R"

definition published_valid :: "playbook_version_row list \<Rightarrow> playbook_rule_row list \<Rightarrow> bool" where
  "published_valid V R \<longleftrightarrow> (\<forall>v. published V v \<longrightarrow> validate_for_publication (rules_in R (pv_id v)) = Inr ())"

definition playbook_tables_ok ::
  "playbook_row list \<Rightarrow> playbook_version_row list \<Rightarrow> playbook_rule_row list \<Rightarrow> uuid set \<Rightarrow> bool" where
  "playbook_tables_ok P V R U \<longleftrightarrow>
     keys_ok P V R U \<and> owned_ok P V \<and> one_published V \<and> routes_ok P V \<and> published_valid V R"

text \<open>What a change keeps: a published version, its rules, and its playbook but for the time of its archiving.\<close>

definition same_playbook :: "playbook_row \<Rightarrow> playbook_row \<Rightarrow> bool" where
  "same_playbook p q \<longleftrightarrow> q\<lparr>pb_archived_at := pb_archived_at p\<rparr> = p \<and> (pb_archived_at p \<noteq> None \<longrightarrow> q = p)"

definition publications_kept ::
  "playbook_row list \<Rightarrow> playbook_version_row list \<Rightarrow> playbook_rule_row list \<Rightarrow>
   playbook_row list \<Rightarrow> playbook_version_row list \<Rightarrow> playbook_rule_row list \<Rightarrow> bool" where
  "publications_kept P V R P' V' R' \<longleftrightarrow>
     (\<forall>v p. published V v \<and> p \<in> set P \<and> version_in v p \<longrightarrow>
        published V' v \<and> rules_in R' (pv_id v) = rules_in R (pv_id v) \<and> (\<exists>q \<in> set P'. same_playbook p q))"

lemma same_playbook_refl [simp]: "same_playbook p p"
  by (simp add: same_playbook_def)

lemma same_playbook_fields:
  assumes "same_playbook p q"
  shows "pb_id q = pb_id p" "pb_org q = pb_org p" "pb_ws q = pb_ws p" "same_playbook_route q p"
proof -
  from assms have e: "p = q\<lparr>pb_archived_at := pb_archived_at p\<rparr>" by (simp add: same_playbook_def)
  show "pb_id q = pb_id p" "pb_org q = pb_org p" "pb_ws q = pb_ws p" "same_playbook_route q p"
    by (subst e, simp add: same_playbook_route_def)+
qed

lemma same_playbook_trans:
  assumes "same_playbook p q" "same_playbook q r"
  shows "same_playbook p r"
proof (cases "pb_archived_at q")
  case None
  then have p: "pb_archived_at p = None" using assms(1) by (auto simp: same_playbook_def)
  have "q = p" using assms(1) None p by (simp add: same_playbook_def) (metis playbook_row.surjective playbook_row.update_convs(10))
  then show ?thesis using assms(2) by simp
next
  case (Some t)
  then have "r = q" using assms(2) by (simp add: same_playbook_def)
  then show ?thesis using assms(1) by simp
qed

lemma same_playbook_version: "same_playbook p q \<Longrightarrow> version_in v q \<longleftrightarrow> version_in v p"
  by (simp add: version_in_def same_playbook_fields)

lemma publications_keptI:
  assumes "\<And>v p. published V v \<Longrightarrow> p \<in> set P \<Longrightarrow> version_in v p \<Longrightarrow>
    published V' v \<and> rules_in R' (pv_id v) = rules_in R (pv_id v) \<and> p \<in> set P'"
  shows "publications_kept P V R P' V' R'"
  using assms same_playbook_refl unfolding publications_kept_def by blast

lemma publications_kept_refl: "publications_kept P V R P V R"
  by (rule publications_keptI) simp

lemma publications_kept_trans:
  assumes "publications_kept P V R P' V' R'" "publications_kept P' V' R' P'' V'' R''"
  shows "publications_kept P V R P'' V'' R''"
  unfolding publications_kept_def
proof (intro allI impI, elim conjE)
  fix v p assume v: "published V v" "p \<in> set P" "version_in v p"
  obtain q where q: "published V' v" "rules_in R' (pv_id v) = rules_in R (pv_id v)" "q \<in> set P'" "same_playbook p q"
    using assms(1) v unfolding publications_kept_def by blast
  moreover have "version_in v q" using same_playbook_version [OF q(4)] v(3) by simp
  ultimately obtain r where "published V'' v" "rules_in R'' (pv_id v) = rules_in R' (pv_id v)" "r \<in> set P''" "same_playbook q r"
    using assms(2) unfolding publications_kept_def by blast
  then show "published V'' v \<and> rules_in R'' (pv_id v) = rules_in R (pv_id v) \<and> (\<exists>r \<in> set P''. same_playbook p r)"
    using q same_playbook_trans by metis
qed

section \<open>The changes\<close>

text \<open>What the operations do to the tables: each keeps the invariant and the publications.\<close>

definition safe_change ::
  "playbook_row list \<Rightarrow> playbook_version_row list \<Rightarrow> playbook_rule_row list \<Rightarrow> uuid set \<Rightarrow>
   playbook_row list \<Rightarrow> playbook_version_row list \<Rightarrow> playbook_rule_row list \<Rightarrow> uuid set \<Rightarrow> bool" where
  "safe_change P V R U P' V' R' U' \<longleftrightarrow>
     (playbook_tables_ok P V R U \<longrightarrow> playbook_tables_ok P' V' R' U' \<and> publications_kept P V R P' V' R')"

lemma safe_changeI:
  assumes "playbook_tables_ok P V R U \<Longrightarrow> keys_ok P' V' R' U'" "playbook_tables_ok P V R U \<Longrightarrow> owned_ok P' V'"
    "playbook_tables_ok P V R U \<Longrightarrow> one_published V'" "playbook_tables_ok P V R U \<Longrightarrow> routes_ok P' V'"
    "playbook_tables_ok P V R U \<Longrightarrow> published_valid V' R'" "playbook_tables_ok P V R U \<Longrightarrow> publications_kept P V R P' V' R'"
  shows "safe_change P V R U P' V' R' U'"
  using assms unfolding safe_change_def playbook_tables_ok_def by blast

lemma tables_okD:
  assumes "playbook_tables_ok P V R U"
  shows "keys_ok P V R U" "owned_ok P V" "one_published V" "routes_ok P V" "published_valid V R"
  using assms unfolding playbook_tables_ok_def by blast+

lemma safe_same: "U \<subseteq> U' \<Longrightarrow> safe_change P V R U P V R U'"
  unfolding safe_change_def playbook_tables_ok_def by (auto simp: publications_kept_refl keys_ok_def)

lemma safe_trans:
  "safe_change P V R U P' V' R' U' \<Longrightarrow> safe_change P' V' R' U' P'' V'' R'' U'' \<Longrightarrow> safe_change P V R U P'' V'' R'' U''"
  unfolding safe_change_def using publications_kept_trans by blast

lemma rules_in_append [simp]: "rules_in (R @ S) i = rules_in R i @ rules_in S i"
  by (simp add: rules_in_def)

lemma published_append [simp]: "published (V @ [v]) x \<longleftrightarrow> published V x \<or> x = v \<and> pv_status v = ''published''"
  by (auto simp: published_def)

lemma safe_new_playbook:
  assumes "pb_id p \<notin> U" "insert (pb_id p) U \<subseteq> U'"
  shows "safe_change P V R U (P @ [p]) V R U'"
proof (rule safe_changeI)
  assume ok: "playbook_tables_ok P V R U"
  note k = tables_okD [OF ok]
  have f: "pb_id p \<noteq> pb_id q" if "q \<in> set P" for q using k(1) assms(1) that by (auto simp: keys_ok_def)
  have n: "\<not> version_in v p" if v: "v \<in> set V" for v
    using k(2) v f unfolding owned_ok_def version_in_def by metis
  show "keys_ok (P @ [p]) V R U'" using k(1) assms by (auto simp: keys_ok_def)
  show "owned_ok (P @ [p]) V" using k(2) by (auto simp: owned_ok_def)
  show "routes_ok (P @ [p]) V"
    using k(4) n unfolding routes_ok_def live_with_def published_def by simp blast
  show "publications_kept P V R (P @ [p]) V R" by (rule publications_keptI) simp
qed (auto dest: tables_okD)

lemma safe_new_version:
  assumes "pv_id v \<notin> U" "insert (pv_id v) U \<subseteq> U'" "pv_status v \<noteq> ''published''" "p \<in> set P" "version_in v p"
  shows "safe_change P V R U P (V @ [v]) R U'"
proof (rule safe_changeI)
  assume ok: "playbook_tables_ok P V R U"
  note k = tables_okD [OF ok]
  show "keys_ok P (V @ [v]) R U'" using k(1) assms(1,2) by (auto simp: keys_ok_def)
  show "owned_ok P (V @ [v])" using k(2) assms(4,5) by (auto simp: owned_ok_def)
  show "one_published (V @ [v])" using k(3) assms(3) by (simp add: one_published_def)
  show "routes_ok P (V @ [v])" using k(4) assms(3) by (simp add: routes_ok_def live_with_def)
  show "published_valid (V @ [v]) R" using k(5) assms(3) by (simp add: published_valid_def)
  show "publications_kept P V R P (V @ [v]) R" by (rule publications_keptI) simp
qed

text \<open>A change of the rules of one draft.\<close>

lemma safe_rules:
  assumes "\<And>v. keys_ok P V R U \<Longrightarrow> v \<in> set V \<Longrightarrow> pv_status v = ''published'' \<Longrightarrow>
       rules_in R' (pv_id v) = rules_in R (pv_id v)"
    and "keys_ok P V R U \<Longrightarrow> keys_ok P V R' U'"
  shows "safe_change P V R U P V R' U'"
proof (rule safe_changeI)
  assume ok: "playbook_tables_ok P V R U"
  note k = tables_okD [OF ok]
  show "keys_ok P V R' U'" using k(1) assms(2) by blast
  show "published_valid V R'" using k(1,5) assms(1) by (simp add: published_valid_def published_def)
  show "publications_kept P V R P V R'" using k(1) assms(1) by (intro publications_keptI) (simp add: published_def)
qed (auto dest: tables_okD)

lemma safe_publish:
  fixes t :: "datetime option"
  assumes "v \<in> set V" "pv_status v \<noteq> ''published''" "validate_for_publication (rules_in R (pv_id v)) = Inr ()"
    "p \<in> set P" "version_in v p"
    "\<And>x. x \<in> set V \<Longrightarrow> pv_status x = ''published'' \<Longrightarrow> pv_playbook x \<noteq> pv_playbook v"
    "\<And>x q. x \<in> set V \<Longrightarrow> q \<in> set P \<Longrightarrow> pv_org x = pb_org p \<Longrightarrow> pv_ws x = pb_ws p \<Longrightarrow> pv_status x = ''published'' \<Longrightarrow>
       pb_id q = pv_playbook x \<Longrightarrow> pb_archived_at q = None \<Longrightarrow> \<not> same_playbook_route q p"
  defines "v' \<equiv> v\<lparr>pv_status := ''published'', pv_published_at := t\<rparr>"
  defines "V' \<equiv> update_where (\<lambda>x. pv_id x = pv_id v') (\<lambda>_. v') V"
  shows "safe_change P V R U P V' R U"
proof (rule safe_changeI)
  assume ok: "playbook_tables_ok P V R U"
  note k = tables_okD [OF ok]
  have i: "pv_id v' = pv_id v" "pv_playbook v' = pv_playbook v" "pv_org v' = pv_org v" "pv_ws v' = pv_ws v"
    "version_in v' = version_in v" by (simp_all add: v'_def version_in_def fun_eq_iff)
  have d: "x = v" if "x \<in> set V" "pv_id x = pv_id v" for x
    using distinct_key_inj [of pv_id V x v] k(1) that assms(1) by (simp add: keys_ok_def)
  have P: "published V' x \<longleftrightarrow> published V x \<or> x = v'" for x
    using d assms(1,2) unfolding published_def V'_def in_update_where i by (auto simp: v'_def)
  have q: "p' = p" if "p' \<in> set P" "version_in v p'" for p'
    using distinct_key_inj [of pb_id P p' p] k(1) that assms(4,5) by (simp add: keys_ok_def version_in_def)
  have m: "map pv_id V' = map pv_id V" unfolding V'_def by (rule map_update_where) simp
  then have s: "pv_id ` set V' = pv_id ` set V" by (metis list.set_map)
  show "keys_ok P V' R U" using k(1) m s by (simp add: keys_ok_def)
  show "owned_ok P V'" unfolding owned_ok_def
  proof
    fix x assume "x \<in> set V'"
    then obtain r where "r \<in> set V" "x = (if pv_id r = pv_id v' then v' else r)" unfolding V'_def in_update_where by blast
    then show "\<exists>q \<in> set P. version_in x q" using k(2) assms(4,5) i(5) unfolding owned_ok_def by (cases "pv_id r = pv_id v'") auto
  qed
  show "one_published V'" 
  proof -
    have "pv_playbook x \<noteq> pv_playbook v'" if "published V x" for x using assms(6) that i(2) by (simp add: published_def)
    then show ?thesis using k(3) unfolding one_published_def P by metis
  qed
  have n: "\<not> same_scope_route p q'" "\<not> same_scope_route q' p" if "live_with P V x q'" for x q'
    using assms(7) [of x q'] that
    by (auto simp: live_with_def published_def version_in_def same_scope_route_def same_playbook_route_def)
  have L: "live_with P V' x q' \<longleftrightarrow> live_with P V x q' \<or> x = v' \<and> q' = p \<and> pb_archived_at p = None" for x q'
  proof (cases "x = v'")
    case True
    have "live_with P V' v' q' \<longleftrightarrow> q' = p \<and> pb_archived_at p = None"
      using q assms(4,5) unfolding live_with_def P i(5) by blast
    moreover have "live_with P V v' q' \<Longrightarrow> q' = p \<and> pb_archived_at p = None"
      using q unfolding live_with_def i(5) by blast
    ultimately show ?thesis using True by blast
  qed (simp add: live_with_def P)
  show "routes_ok P V'" unfolding routes_ok_def
  proof (intro allI impI, elim conjE)
    fix x a y b assume l: "live_with P V' x a" "live_with P V' y b" and r: "same_scope_route a b"
    from l r show "pb_id a = pb_id b" unfolding L using k(4) n unfolding routes_ok_def by metis
  qed
  show "published_valid V' R" using k(5) assms(3) unfolding published_valid_def P by (auto simp: i)
  show "publications_kept P V R P V' R" by (rule publications_keptI) (simp add: P)
qed

lemma safe_archive:
  fixes t :: datetime
  assumes "p \<in> set P" "pb_archived_at p = None"
  defines "p' \<equiv> p\<lparr>pb_archived_at := Some t\<rparr>"
  defines "P' \<equiv> update_where (\<lambda>x. pb_id x = pb_id p') (\<lambda>_. p') P"
  shows "safe_change P V R U P' V R U"
proof (rule safe_changeI)
  assume ok: "playbook_tables_ok P V R U"
  note k = tables_okD [OF ok]
  have i: "pb_id p' = pb_id p" "version_in v p' \<longleftrightarrow> version_in v p" "same_playbook p p'" for v
    using assms(2) by (simp_all add: p'_def version_in_def same_playbook_def)
  have d: "x = p" if "x \<in> set P" "pb_id x = pb_id p" for x
    using distinct_key_inj [of pb_id P x p] k(1) that assms(1) by (simp add: keys_ok_def)
  have P: "x \<in> set P' \<longleftrightarrow> x = p' \<or> x \<in> set P \<and> x \<noteq> p" for x
    using d assms(1) unfolding P'_def in_update_where i(1) by auto
  have m: "map pb_id P' = map pb_id P" unfolding P'_def by (rule map_update_where) simp
  then have s: "pb_id ` set P' = pb_id ` set P" by (metis list.set_map)
  show "keys_ok P' V R U" using k(1) m s by (simp add: keys_ok_def)
  show "owned_ok P' V" using k(2) i(2) unfolding owned_ok_def Bex_def P by metis
  have "live_with P V x q" if "live_with P' V x q" for x q
    using that unfolding live_with_def P by (auto simp: p'_def)
  then show "routes_ok P' V" using k(4) unfolding routes_ok_def by blast
  show "publications_kept P V R P' V R" unfolding publications_kept_def
  proof (intro allI impI conjI)
    fix v q assume "published V v \<and> q \<in> set P \<and> version_in v q"
    then show "\<exists>x \<in> set P'. same_playbook q x"
      using i(3) same_playbook_refl P by (cases "q = p") blast+
  qed simp_all
qed (auto dest: tables_okD)

text \<open>Versions that are dropped with their rules, and playbooks that have no version left.\<close>

lemma safe_drop_versions:
  assumes drafts: "\<And>v. keys_ok P V R U \<Longrightarrow> v \<in> set V \<Longrightarrow> pv_id v \<in> I \<Longrightarrow> pv_status v \<noteq> ''published''"
  shows "safe_change P V R U P (filter (\<lambda>v. pv_id v \<notin> I) V) (filter (\<lambda>r. pl_version r \<notin> I) R) U"
proof (rule safe_changeI)
  let ?V = "filter (\<lambda>v. pv_id v \<notin> I) V" and ?R = "filter (\<lambda>r. pl_version r \<notin> I) R"
  assume ok: "playbook_tables_ok P V R U"
  note k = tables_okD [OF ok]
  note assms = drafts [OF k(1)]
  have p: "published ?V v \<longleftrightarrow> published V v" for v using assms by (auto simp: published_def)
  have r: "rules_in ?R i = rules_in R i" if "i \<notin> I" for i
    using that unfolding rules_in_def filter_filter by (intro filter_cong) auto
  have n: "pv_id v \<notin> I" if "published V v" for v using that assms by (auto simp: published_def)
  show "keys_ok P ?V ?R U" using k(1) by (auto simp: keys_ok_def distinct_map_filter)
  show "owned_ok P ?V" using k(2) by (simp add: owned_ok_def)
  show "one_published ?V" using k(3) unfolding one_published_def p .
  show "routes_ok P ?V" using k(4) unfolding routes_ok_def live_with_def p .
  show "published_valid ?V ?R" using k(5) r n unfolding published_valid_def p by simp
  show "publications_kept P V R P ?V ?R" using r n by (intro publications_keptI) (simp add: p)
qed

lemma safe_drop_playbook:
  assumes empty: "\<And>v. playbook_tables_ok P V R U \<Longrightarrow> v \<in> set V \<Longrightarrow> pv_playbook v \<noteq> i"
  shows "safe_change P V R U (filter (\<lambda>p. pb_id p \<noteq> i) P) V R U"
proof (rule safe_changeI)
  let ?P = "filter (\<lambda>p. pb_id p \<noteq> i) P"
  assume ok: "playbook_tables_ok P V R U"
  note k = tables_okD [OF ok]
  have n: "pb_id p \<noteq> i" if "v \<in> set V" "version_in v p" for v p using empty [OF ok] that by (auto simp: version_in_def)
  show "keys_ok ?P V R U" using k(1) by (auto simp: keys_ok_def distinct_map_filter)
  show "owned_ok ?P V" using k(2) n by (simp add: owned_ok_def) blast
  show "routes_ok ?P V" using k(4) unfolding routes_ok_def live_with_def by simp blast
  show "publications_kept P V R ?P V R" using n by (intro publications_keptI) (auto simp: published_def)
qed (auto dest: tables_okD)

section \<open>The operations\<close>

text \<open>A change of the database that is safe for the tables, when drawn identifiers are distinct.\<close>

definition safe_db :: "'z playbook_db_scheme \<Rightarrow> 'z playbook_db_scheme \<Rightarrow> bool" where
  "safe_db s s' \<longleftrightarrow> uuid_src s' = uuid_src s \<and> (inj (uuid_src s) \<longrightarrow>
     safe_change (playbooks s) (playbook_versions s) (playbook_rules s) (used_ids s)
       (playbooks s') (playbook_versions s') (playbook_rules s') (used_ids s'))"

lemma draw_playbooks [simp]:
  "playbooks (draw s) = playbooks s" "playbook_versions (draw s) = playbook_versions s"
  "playbook_rules (draw s) = playbook_rules s" "playbook_audit (draw s) = playbook_audit s"
  by (simp_all add: draw_def)

lemma used_playbooks [simp]:
  "used_ids (s\<lparr>playbooks := a\<rparr>) = used_ids s" "used_ids (s\<lparr>playbook_versions := b\<rparr>) = used_ids s"
  "used_ids (s\<lparr>playbook_rules := c\<rparr>) = used_ids s" "used_ids (s\<lparr>playbook_audit := d\<rparr>) = used_ids s"
  by (simp_all add: used_ids_def)

lemma safe_db_trans: "safe_db s s' \<Longrightarrow> safe_db s' s'' \<Longrightarrow> safe_db s s''"
  unfolding safe_db_def using safe_trans by (metis (no_types, lifting))

lemma safe_db_refl: "safe_db s s"
  by (simp add: safe_db_def safe_same)

lemma audit_tables [simp]:
  "playbooks (audit_playbook p v r g u a m now s) = playbooks s"
  "playbook_versions (audit_playbook p v r g u a m now s) = playbook_versions s"
  "playbook_rules (audit_playbook p v r g u a m now s) = playbook_rules s"
  "uuid_src (audit_playbook p v r g u a m now s) = uuid_src s"
  "used_ids (audit_playbook p v r g u a m now s) = insert (uuid4 s) (used_ids s)"
  by (simp_all add: audit_playbook_def)

lemma safe_audit: "safe_db s (audit_playbook p v r g u a m now s)"
  by (auto simp: safe_db_def intro: safe_same)

lemma safe_audit_versions: "safe_db s (audit_versions p vs u a m now s)"
  by (induction vs arbitrary: s) (auto intro: safe_db_refl safe_db_trans [OF safe_audit])

lemma audit_versions_tables [simp]:
  "playbooks (audit_versions p vs u a m now s) = playbooks s"
  "playbook_versions (audit_versions p vs u a m now s) = playbook_versions s"
  "playbook_rules (audit_versions p vs u a m now s) = playbook_rules s"
  by (induction vs arbitrary: s) simp_all

lemma audit_versions_used:
  "uuid_src (audit_versions p vs u a m now s) = uuid_src s" "used_ids s \<subseteq> used_ids (audit_versions p vs u a m now s)"
  by (induction vs arbitrary: s) (simp, simp, simp, metis audit_tables(5) audit_versions.simps(2) insert_subset)

lemma draft_ids:
  assumes "keys_ok P V R U" "v \<in> set V" "pv_status v \<noteq> ''published''" "x \<in> set V" "pv_status x = ''published''"
  shows "pv_id x \<noteq> pv_id v"
  using assms distinct_key_inj [of pv_id V x v] by (auto simp: keys_ok_def)

lemma safe_add_rule:
  assumes "add_rule_record v r now s = Inr (x, s')" "v \<in> set (playbook_versions s)" "pv_status v \<noteq> ''published''"
  shows "safe_db s s' \<and> playbook_versions s' = playbook_versions s \<and> playbooks s' = playbooks s"
proof -
  have x: "x = rule_of_write (uuid4 s) v r now" "s' = draw s\<lparr>playbook_rules := playbook_rules s @ [x]\<rparr>"
    using assms(1) by (auto simp: add_rule_record_def Let_def result_simps)
  have f: "pl_id x = uuid4 s" "pl_version x = pv_id v" by (simp_all add: x rule_of_write_def)
  have "safe_change (playbooks s) (playbook_versions s) (playbook_rules s) (used_ids s)
       (playbooks s) (playbook_versions s) (playbook_rules s @ [x]) (insert (uuid4 s) (used_ids s))" if i: "inj (uuid_src s)"
  proof (rule safe_rules, goal_cases)
    case (1 y)
    then show ?case using draft_ids [OF 1(1) assms(2,3) 1(2,3)] f by (simp add: rules_in_def)
  next
    case 2
    then show ?case using uuid4_fresh [OF i] f unfolding keys_ok_def by (auto simp: image_subset_iff)
  qed
  then show ?thesis by (simp add: x(2) safe_db_def)
qed

lemma safe_add_rules:
  assumes "add_rules v rs now s = Inr s'" "v \<in> set (playbook_versions s)" "pv_status v \<noteq> ''published''"
  shows "safe_db s s'"
  using assms(1,2)
proof (induction rs arbitrary: s)
  case (Cons r rs)
  obtain x t where t: "add_rule_record v r now s = Inr (x, t)" "add_rules v rs now t = Inr s'"
    using Cons.prems(1) by (auto simp: result_simps)
  then show ?case using safe_add_rule [OF t(1) Cons.prems(2) assms(3)] Cons.IH [OF t(2)] Cons.prems(2) safe_db_trans by metis
qed (simp add: safe_db_refl)

lemma safe_insert_version:
  assumes "p \<in> set (playbooks s)" "v = new_draft (uuid4 s) p n u now"
  shows "safe_db s (draw s\<lparr>playbook_versions := playbook_versions s @ [v]\<rparr>)"
  unfolding safe_db_def using assms
  by (auto simp: new_draft_def version_in_def dest: uuid4_fresh intro!: safe_new_version)

lemma safe_insert_playbook:
  assumes "pb_id p = uuid4 s"
  shows "safe_db s (draw s\<lparr>playbooks := playbooks s @ [p]\<rparr>)"
  unfolding safe_db_def using assms by (auto dest: uuid4_fresh intro!: safe_new_playbook)

lemma safe_create:
  assumes "create_playbook s actor g w q now = Inr (r, s')"
  shows "safe_db s s'"
proof -
  define p where "p = \<lparr>pb_id = uuid4 s, pb_org = g, pb_ws = w, pb_name = cp_name q, pb_family = cp_family q,
      pb_direction = cp_direction q, pb_jurisdiction = str_upper (cp_jurisdiction q),
      pb_priority = cp_priority q, pb_created_by = actor, pb_archived_at = None, pb_created_at = now,
      pb_updated_at = now\<rparr>"
  let ?a = "draw s\<lparr>playbooks := playbooks s @ [p]\<rparr>"
  define v where "v = new_draft (uuid4 ?a) p 1 actor now"
  let ?b = "draw ?a\<lparr>playbook_versions := playbook_versions ?a @ [v]\<rparr>"
  obtain t where t: "add_rules v (cp_rules q) now ?b = Inr t"
    and s': "audit_playbook p v None None actor ''draft_created'' [] now t = s'"
    using assms unfolding create_playbook_def Let_def bindR_Inr_iff sum.inject prod.inject
      p_def [symmetric] v_def [symmetric] by (elim exE conjE) (rule that, assumption+)
  have a: "safe_db s ?a" by (rule safe_insert_playbook) (simp add: p_def)
  have b: "safe_db ?a ?b" by (rule safe_insert_version) (simp_all add: v_def)
  have c: "safe_db ?b t" by (rule safe_add_rules [OF t]) (simp_all add: v_def new_draft_def)
  show ?thesis unfolding s' [symmetric] by (rule safe_db_trans [OF a safe_db_trans [OF b safe_db_trans [OF c safe_audit]]])
qed

lemma scope_playbook:
  "playbook_for_scope s i g w = Inr p \<Longrightarrow> p \<in> set (playbooks s) \<and> pb_id p = i \<and> pb_org p = g \<and> pb_ws p = w"
  by (auto simp: playbook_for_scope_def result_simps dest!: find_SomeD)

lemma scope_version:
  "version_for_scope s i n g w = Inr v \<Longrightarrow>
     v \<in> set (playbook_versions s) \<and> pv_playbook v = i \<and> pv_org v = g \<and> pv_ws v = w"
  by (auto simp: version_for_scope_def result_simps dest!: find_SomeD)

lemma safe_create_version:
  assumes "create_playbook_version s actor g w i source now = Inr (r, s')"
  shows "safe_db s s'"
proof -
  obtain p rules n t where p: "playbook_for_scope s i g w = Inr p"
    and t: "add_rules (new_draft (uuid4 s) p n actor now) (rules :: playbook_rule_row list) now
      (draw s\<lparr>playbook_versions := playbook_versions s @ [new_draft (uuid4 s) p n actor now]\<rparr>) = Inr t"
    and s': "s' = audit_playbook p (new_draft (uuid4 s) p n actor now) None None actor ''draft_created'' [] now t"
    using assms unfolding create_playbook_version_def Let_def bindR_Inr_iff by auto
  let ?v = "new_draft (uuid4 s) p n actor now"
  let ?b = "draw s\<lparr>playbook_versions := playbook_versions s @ [?v]\<rparr>"
  have b: "safe_db s ?b" using scope_playbook [OF p] by (intro safe_insert_version) simp_all
  have c: "safe_db ?b t" by (rule safe_add_rules [OF t]) (simp_all add: new_draft_def)
  show ?thesis unfolding s' by (rule safe_db_trans [OF b safe_db_trans [OF c safe_audit]])
qed

lemma ensure_draftD: "ensure_draft v = Inr u \<Longrightarrow> pv_status v \<noteq> ''published''"
  by (simp add: ensure_draft_def result_simps)

lemma safe_add:
  assumes "add_playbook_rule s actor g w i n q now = Inr (r, s')"
  shows "safe_db s s'"
proof -
  obtain v x p t where v: "version_for_scope s i n g w = Inr v" "ensure_draft v = Inr ()" "add_rule_record v q now s = Inr (x, t)"
    and s': "s' = audit_playbook p v (Some (pl_id x)) None actor ''rule_created'' [] now t"
    using assms by (auto simp: add_playbook_rule_def Let_def result_simps)
  show ?thesis unfolding s'
    using safe_add_rule [OF v(3)] scope_version [OF v(1)] ensure_draftD [OF v(2)] safe_db_trans safe_audit by blast
qed

text \<open>Rewriting or removing a rule of a draft.\<close>

lemma rules_of_others:
  assumes "distinct (map pl_id R)" "r \<in> set R" "pl_version r \<noteq> i" "pl_version r' = pl_version r"
  shows "rules_in (update_where (\<lambda>x. pl_id x = pl_id r) (\<lambda>_. r') R) i = rules_in R i"
    "rules_in (filter (\<lambda>x. pl_id x \<noteq> pl_id r) R) i = rules_in R i"
proof -
  have d: "x = r" if "x \<in> set R" "pl_id x = pl_id r" for x
    using distinct_key_inj [OF assms(1) that(1) assms(2) that(2)] .
  have u: "update_where (\<lambda>x. pl_id x = pl_id r) (\<lambda>_. r') R = map (\<lambda>x. if x = r then r' else x) R"
    unfolding update_where_def using d assms(2) by (intro map_cong) auto
  have "filter (\<lambda>x. pl_version x = i) (map (\<lambda>x. if x = r then r' else x) S) = filter (\<lambda>x. pl_version x = i) S" for S
    using assms(3,4) by (induction S) auto
  then show "rules_in (update_where (\<lambda>x. pl_id x = pl_id r) (\<lambda>_. r') R) i = rules_in R i" unfolding rules_in_def u .
  show "rules_in (filter (\<lambda>x. pl_id x \<noteq> pl_id r) R) i = rules_in R i"
    unfolding rules_in_def filter_filter using d assms(3) by (intro filter_cong) auto
qed

lemma updated_rule_fields:
  assumes "updated_rule q now r = Inr r'"
  shows "pl_id r' = pl_id r" "pl_version r' = pl_version r"
  using assms by (auto simp: updated_rule_def result_simps)

lemma safe_update:
  assumes "update_playbook_rule s actor g w i n j q now = Inr (x, s')"
  shows "safe_db s s'"
proof -
  obtain v r r' p where v: "version_for_scope s i n g w = Inr v" "ensure_draft v = Inr ()" and
      r: "r \<in> set (playbook_rules s)" "pl_version r = pv_id v" "updated_rule q now r = Inr r'" and
      s': "s' = audit_playbook p v (Some (pl_id r)) None actor ''rule_updated'' [] now
        (s\<lparr>playbook_rules := update_where (\<lambda>x. pl_id x = pl_id r) (\<lambda>_. r') (playbook_rules s)\<rparr>)"
    using assms by (auto simp: update_playbook_rule_def Let_def result_simps dest!: find_SomeD)
  let ?R = "update_where (\<lambda>x. pl_id x = pl_id r) (\<lambda>_. r') (playbook_rules s)"
  have m: "map pl_id ?R = map pl_id (playbook_rules s)"
    using updated_rule_fields(1) [OF r(3)] by (intro map_update_where) simp
  then have m': "pl_id ` set ?R = pl_id ` set (playbook_rules s)" by (metis list.set_map)
  have "safe_db s (s\<lparr>playbook_rules := ?R\<rparr>)" unfolding safe_db_def
  proof (intro conjI impI, simp, simp, rule safe_rules, goal_cases)
    case (1 y)
    have "pl_version r \<noteq> pv_id y"
      using draft_ids [OF 1(2) _ ensure_draftD [OF v(2)] 1(3,4)] scope_version [OF v(1)] r(2) by simp
    then show ?case using 1(2) r(1) updated_rule_fields(2) [OF r(3)] by (intro rules_of_others) (simp_all add: keys_ok_def)
  next
    case 2
    then show ?case by (simp add: keys_ok_def m m')
  qed
  then show ?thesis unfolding s' using safe_audit safe_db_trans by blast
qed

lemma safe_delete_rule:
  assumes "delete_playbook_rule s actor g w i n j confirmed now = Inr s'"
  shows "safe_db s s'"
proof -
  obtain v r p where v: "version_for_scope s i n g w = Inr v" "ensure_draft v = Inr ()" and
      r: "r \<in> set (playbook_rules s)" "pl_version r = pv_id v" and
      s': "s' = (audit_playbook p v (Some (pl_id r)) None actor ''rule_deleted'' [] now s)
         \<lparr>playbook_rules := filter (\<lambda>x. pl_id x \<noteq> pl_id r) (playbook_rules s)\<rparr>"
    using assms by (auto simp: delete_playbook_rule_def rule_for_version_def Let_def result_simps dest!: find_SomeD)
  show ?thesis unfolding s' safe_db_def
  proof (intro conjI impI, simp, simp, rule safe_rules, goal_cases)
    case (1 y)
    have "pl_version r \<noteq> pv_id y"
      using draft_ids [OF 1(2) _ ensure_draftD [OF v(2)] 1(3,4)] scope_version [OF v(1)] r(2) by simp
    then show ?case using 1(2) r(1) by (intro rules_of_others) (simp_all add: keys_ok_def)
  next
    case 2
    then show ?case by (auto simp: keys_ok_def distinct_map_filter)
  qed
qed

lemma safe_publication:
  assumes "publish_playbook s actor g w i n now = Inr (r, s')"
  shows "safe_db s s'"
proof -
  obtain v p where v: "version_for_scope s i n g w = Inr v" "ensure_draft v = Inr ()"
      "validate_for_publication (rules_of_version s (pv_id v)) = Inr ()" "playbook_of s v = Inr p" "\<not> routing_conflict s g w p"
      and o: "\<not> exists_row (\<lambda>x. pv_playbook x = i \<and> pv_status x = ''published'') (playbook_versions s)"
      and s': "s' = audit_playbook p (v\<lparr>pv_status := ''published'', pv_published_at := Some now\<rparr>) None None actor
        ''published'' [] now (put_version (v\<lparr>pv_status := ''published'', pv_published_at := Some now\<rparr>) s)"
    using assms by (auto simp: publish_playbook_def Let_def result_simps simp del: exists_row_iff)
  note sv = scope_version [OF v(1)]
  have p: "p \<in> set (playbooks s)" "pb_id p = pv_playbook v"
    using v(4) by (auto simp: playbook_of_def result_simps dest!: find_SomeD)
  let ?t = "put_version (v\<lparr>pv_status := ''published'', pv_published_at := Some now\<rparr>) s"
  have "safe_db s ?t" unfolding safe_db_def safe_change_def
  proof (intro conjI impI)
    assume ok: "playbook_tables_ok (playbooks s) (playbook_versions s) (playbook_rules s) (used_ids s)"
    have k: "keys_ok (playbooks s) (playbook_versions s) (playbook_rules s) (used_ids s)" "owned_ok (playbooks s) (playbook_versions s)"
      by (rule tables_okD [OF ok])+
    obtain q where q: "q \<in> set (playbooks s)" "version_in v q" using k(2) sv unfolding owned_ok_def by blast
    then have "q = p" using distinct_key_inj [of pb_id "playbooks s" q p] k(1) p by (simp add: keys_ok_def version_in_def)
    then have vp: "version_in v p" using q by simp
    then have e: "pb_org p = g" "pb_ws p = w" "pb_id p = i" using sv by (simp_all add: version_in_def)
    have pt: "playbook_versions ?t = update_where (\<lambda>x. pv_id x = pv_id (v\<lparr>pv_status := ''published'', pv_published_at := Some now\<rparr>))
        (\<lambda>_. v\<lparr>pv_status := ''published'', pv_published_at := Some now\<rparr>) (playbook_versions s)"
      by (simp add: put_version_def)
    have "safe_change (playbooks s) (playbook_versions s) (playbook_rules s) (used_ids s) (playbooks s)
        (playbook_versions ?t) (playbook_rules s) (used_ids s)"
      unfolding pt
    proof (rule safe_publish [where v = v and p = p and t = "Some now"], goal_cases)
      case (6 x)
      then show ?case using o sv by auto
    next
      case (7 x q)
      have "pv_playbook x \<noteq> pb_id p" using o 7 e by auto
      show ?case
      proof
        assume "same_playbook_route q p"
        then have "routing_conflict s g w p" unfolding routing_conflict_def exists_row_iff
          using 7 e \<open>pv_playbook x \<noteq> pb_id p\<close> by (intro bexI [of _ x] bexI [of _ q] conjI) simp_all
        then show False using v(5) by simp
      qed
    qed (use sv v(3) ensure_draftD [OF v(2)] p vp in \<open>simp_all add: rules_of_version_def rules_in_def\<close>)
    from this [unfolded safe_change_def, rule_format, OF ok]
    show "playbook_tables_ok (playbooks ?t) (playbook_versions ?t) (playbook_rules ?t) (used_ids ?t)"
      "publications_kept (playbooks s) (playbook_versions s) (playbook_rules s) (playbooks ?t) (playbook_versions ?t) (playbook_rules ?t)"
      by (simp_all add: put_version_def)
  qed (simp add: put_version_def)
  then show ?thesis unfolding s' using safe_audit safe_db_trans by blast
qed

lemma safe_delete_version:
  assumes "delete_playbook_version s actor g w i n confirmed reason now = Inr s'"
  shows "safe_db s s'"
proof -
  obtain v p where v: "version_for_scope s i n g w = Inr v" "ensure_draft v = Inr ()" and
      s': "s' = (audit_playbook p v None None actor ''draft_deleted'' (reason_metadata reason) now s)
         \<lparr>playbook_versions := filter (\<lambda>x. pv_id x \<noteq> pv_id v) (playbook_versions s),
          playbook_rules := filter (\<lambda>x. pl_version x \<noteq> pv_id v) (playbook_rules s)\<rparr>"
    using assms by (auto simp: delete_playbook_version_def Let_def result_simps)
  let ?V = "filter (\<lambda>x. pv_id x \<noteq> pv_id v) (playbook_versions s)" and ?R = "filter (\<lambda>x. pl_version x \<noteq> pv_id v) (playbook_rules s)"
  have "safe_change (playbooks s) (playbook_versions s) (playbook_rules s) (used_ids s) (playbooks s) ?V ?R (used_ids s)"
  proof -
    have "safe_change (playbooks s) (playbook_versions s) (playbook_rules s) (used_ids s) (playbooks s)
        (filter (\<lambda>x. pv_id x \<notin> {pv_id v}) (playbook_versions s)) (filter (\<lambda>x. pl_version x \<notin> {pv_id v}) (playbook_rules s)) (used_ids s)"
    proof (rule safe_drop_versions)
      fix x assume x: "keys_ok (playbooks s) (playbook_versions s) (playbook_rules s) (used_ids s)"
        "x \<in> set (playbook_versions s)" "pv_id x \<in> {pv_id v}"
      have v': "v \<in> set (playbook_versions s)" using scope_version [OF v(1)] by simp
      show "pv_status x \<noteq> ''published''" using draft_ids [OF x(1) v' ensure_draftD [OF v(2)] x(2)] x(3) by auto
    qed
    then show ?thesis by simp
  qed
  then have "safe_db s (s\<lparr>playbook_versions := ?V, playbook_rules := ?R\<rparr>)" by (simp add: safe_db_def)
  moreover have "safe_db (s\<lparr>playbook_versions := ?V, playbook_rules := ?R\<rparr>) s'"
    unfolding s' by (auto simp: safe_db_def intro: safe_same)
  ultimately show ?thesis by (rule safe_db_trans)
qed

lemma safe_archived:
  assumes "archive_playbook s actor g w i reason now = Inr (r, s')"
  shows "safe_db s s'"
proof -
  obtain p where p: "playbook_for_scope s i g w = Inr p" and
      s': "case pb_archived_at p of
          None \<Rightarrow> s' = audit_versions (p\<lparr>pb_archived_at := Some now\<rparr>) (versions_of_playbook s (pb_id p)) actor ''archived''
            (reason_metadata reason) now
            (s\<lparr>playbooks := update_where (\<lambda>x. pb_id x = pb_id p) (\<lambda>_. p\<lparr>pb_archived_at := Some now\<rparr>) (playbooks s)\<rparr>)
        | Some _ \<Rightarrow> s' = s"
    using assms by (auto simp: archive_playbook_def Let_def result_simps split: option.splits)
  show ?thesis
  proof (cases "pb_archived_at p")
    case None
    have "safe_db s (s\<lparr>playbooks := update_where (\<lambda>x. pb_id x = pb_id p) (\<lambda>_. p\<lparr>pb_archived_at := Some now\<rparr>) (playbooks s)\<rparr>)"
      using safe_archive [of p "playbooks s"] scope_playbook [OF p] None by (simp add: safe_db_def)
    moreover have "s' = audit_versions (p\<lparr>pb_archived_at := Some now\<rparr>) (versions_of_playbook s (pb_id p)) actor ''archived''
            (reason_metadata reason) now
            (s\<lparr>playbooks := update_where (\<lambda>x. pb_id x = pb_id p) (\<lambda>_. p\<lparr>pb_archived_at := Some now\<rparr>) (playbooks s)\<rparr>)"
      using s' None by simp
    ultimately show ?thesis by (simp add: safe_db_trans [OF _ safe_audit_versions])
  qed (use s' safe_db_refl in auto)
qed

lemma safe_delete_playbook:
  assumes "delete_playbook s actor g w i confirmed reason now = Inr s'"
  shows "safe_db s s'"
proof -
  obtain p where p: "playbook_for_scope s i g w = Inr p" using assms by (auto simp: delete_playbook_def result_simps)
  note sp = scope_playbook [OF p]
  define vs where "vs = filter (\<lambda>v. pv_org v = g \<and> pv_ws v = w) (versions_of_playbook s (pb_id p))"
  define t where "t = audit_versions p vs actor ''draft_deleted'' (reason_metadata reason) now s"
  let ?I = "set (map pv_id vs)"
  let ?P = "filter (\<lambda>x. pb_id x \<noteq> pb_id p) (playbooks s)" and ?V = "filter (\<lambda>v. pv_id v \<notin> ?I) (playbook_versions s)"
    and ?R = "filter (\<lambda>r. pl_version r \<notin> ?I) (playbook_rules s)"
  have d: "\<not> list_ex (\<lambda>v. pv_status v = ''published'') vs"
    and s': "s' = t\<lparr>playbook_rules := ?R, playbook_versions := ?V, playbooks := ?P\<rparr>"
    using assms p unfolding delete_playbook_def Let_def bindR_Inr_iff require_Inr_iff sum.inject
      by (auto simp: vs_def t_def)
  have vs: "v \<in> set vs \<longleftrightarrow> v \<in> set (playbook_versions s) \<and> pv_playbook v = pb_id p \<and> pv_org v = g \<and> pv_ws v = w" for v
    by (auto simp: vs_def versions_of_playbook_def)
  have "safe_change (playbooks s) (playbook_versions s) (playbook_rules s) (used_ids s) (playbooks s) ?V ?R (used_ids s)"
  proof (rule safe_drop_versions)
    fix v assume k: "keys_ok (playbooks s) (playbook_versions s) (playbook_rules s) (used_ids s)"
      "v \<in> set (playbook_versions s)" "pv_id v \<in> ?I"
    then obtain x where "x \<in> set vs" "pv_id x = pv_id v" by auto
    then have "v \<in> set vs" using distinct_key_inj [of pv_id "playbook_versions s" x v] k(1,2) vs by (auto simp: keys_ok_def)
    then show "pv_status v \<noteq> ''published''" using d by (auto simp: list_ex_iff)
  qed
  moreover have "safe_change (playbooks s) ?V ?R (used_ids s) ?P ?V ?R (used_ids s)"
  proof (rule safe_drop_playbook)
    fix v assume ok: "playbook_tables_ok (playbooks s) ?V ?R (used_ids s)" and v: "v \<in> set ?V"
    note k = tables_okD [OF ok]
    obtain q where q: "q \<in> set (playbooks s)" "version_in v q" using k(2) v unfolding owned_ok_def by blast
    show "pv_playbook v \<noteq> pb_id p"
    proof
      assume e: "pv_playbook v = pb_id p"
      then have "q = p" using distinct_key_inj [of pb_id "playbooks s" q p] k(1) q sp by (simp add: keys_ok_def version_in_def)
      then have "v \<in> set vs" using q e sp v by (simp add: vs version_in_def)
      then show False using v by simp
    qed
  qed
  ultimately have "safe_change (playbooks s) (playbook_versions s) (playbook_rules s) (used_ids s) ?P ?V ?R (used_ids s)"
    by (rule safe_trans)
  then have "safe_db s (s\<lparr>playbook_rules := ?R, playbook_versions := ?V, playbooks := ?P\<rparr>)"
    by (simp add: safe_db_def)
  moreover have "safe_db (s\<lparr>playbook_rules := ?R, playbook_versions := ?V, playbooks := ?P\<rparr>) s'"
    unfolding s' by (simp add: safe_db_def t_def safe_same audit_versions_used)
  ultimately show ?thesis by (rule safe_db_trans)
qed

lemma safe_override:
  assumes "override_playbook s actor g w q now = Inr (r, s')"
  shows "safe_db s s'"
  using assms safe_audit by (auto simp: override_playbook_def Let_def result_simps)

section \<open>The machine\<close>

text \<open>
  The calls that change the tables, in any order, and every other transaction of the system, of which only is
  assumed that it leaves the three tables alone and draws its identifiers from the same source.
\<close>

inductive playbook_step :: "'z playbook_db_scheme \<Rightarrow> 'z playbook_db_scheme \<Rightarrow> bool" where
  created: "create_playbook s actor g w q now = Inr (r, s') \<Longrightarrow> playbook_step s s'"
| versioned: "create_playbook_version s actor g w i source now = Inr (r, s') \<Longrightarrow> playbook_step s s'"
| rule_added: "add_playbook_rule s actor g w i n rule now = Inr (r, s') \<Longrightarrow> playbook_step s s'"
| rule_updated: "update_playbook_rule s actor g w i n j u now = Inr (r, s') \<Longrightarrow> playbook_step s s'"
| rule_deleted: "delete_playbook_rule s actor g w i n j confirmed now = Inr s' \<Longrightarrow> playbook_step s s'"
| publication: "publish_playbook s actor g w i n now = Inr (r, s') \<Longrightarrow> playbook_step s s'"
| version_deleted: "delete_playbook_version s actor g w i n confirmed reason now = Inr s' \<Longrightarrow> playbook_step s s'"
| archived: "archive_playbook s actor g w i reason now = Inr (r, s') \<Longrightarrow> playbook_step s s'"
| playbook_deleted: "delete_playbook s actor g w i confirmed reason now = Inr s' \<Longrightarrow> playbook_step s s'"
| overridden: "override_playbook s actor g w o' now = Inr (r, s') \<Longrightarrow> playbook_step s s'"
| other: "playbooks s' = playbooks s \<Longrightarrow> playbook_versions s' = playbook_versions s \<Longrightarrow>
    playbook_rules s' = playbook_rules s \<Longrightarrow> uuid_src s' = uuid_src s \<Longrightarrow> used_ids s \<subseteq> used_ids s' \<Longrightarrow> playbook_step s s'"

definition no_playbooks :: "'z playbook_db_scheme \<Rightarrow> bool" where
  "no_playbooks s \<longleftrightarrow> inj (uuid_src s) \<and> playbooks s = [] \<and> playbook_versions s = [] \<and> playbook_rules s = []"

definition playbook_inv :: "'z playbook_db_scheme \<Rightarrow> bool" where
  "playbook_inv s \<longleftrightarrow> inj (uuid_src s) \<and>
     playbook_tables_ok (playbooks s) (playbook_versions s) (playbook_rules s) (used_ids s)"

inductive playbook_reach :: "'z playbook_db_scheme \<Rightarrow> bool" where
  reach_empty: "no_playbooks s \<Longrightarrow> playbook_reach s"
| reach_step: "playbook_reach s \<Longrightarrow> playbook_step s s' \<Longrightarrow> playbook_reach s'"

lemma playbook_step_safe: "playbook_step s s' \<Longrightarrow> safe_db s s'"
  by (induction rule: playbook_step.induct)
    (simp_all add: safe_create safe_create_version safe_add safe_update safe_delete_rule safe_publication safe_delete_version
      safe_archived safe_delete_playbook safe_override, simp add: safe_db_def safe_same)

lemma playbook_reach_inv: "playbook_reach s \<Longrightarrow> playbook_inv s"
proof (induction rule: playbook_reach.induct)
  case (reach_empty s)
  then show ?case
    by (simp add: no_playbooks_def playbook_inv_def playbook_tables_ok_def keys_ok_def owned_ok_def one_published_def
        routes_ok_def published_valid_def published_def live_with_def)
next
  case (reach_step s s')
  then show ?case using playbook_step_safe [OF reach_step.hyps(2)] unfolding playbook_inv_def safe_db_def safe_change_def by auto
qed

section \<open>The properties\<close>

text \<open>The rank of a candidate: its priority, then whether it names a direction, then a jurisdiction.\<close>

definition route_rank :: "playbook_version_row \<times> playbook_row \<Rightarrow> int \<times> bool \<times> bool" where
  "route_rank x = (case x of (v, p) \<Rightarrow> (pb_priority p, pb_direction p \<noteq> ''any'', pb_jurisdiction p \<noteq> ''any''))"

lemma in_candidates:
  "(v, p) \<in> set (route_candidates s og ws f d j) \<longleftrightarrow> v \<in> set (playbook_versions s) \<and> p \<in> set (playbooks s) \<and>
     pb_id p = pv_playbook v \<and> og = Some (pv_org v) \<and> ws = Some (pv_ws v) \<and> pv_status v = ''published'' \<and>
     og = Some (pb_org p) \<and> ws = Some (pb_ws p) \<and> pb_archived_at p = None \<and> pb_family p = f \<and>
     pb_direction p \<in> {''any'', d} \<and> pb_jurisdiction p \<in> {''any'', j}"
  by (auto simp: route_candidates_def versions_with_playbooks_def)

lemma candidate_route:
  assumes "(v, p) \<in> set (route_candidates s og ws f d j)" "(v', p') \<in> set (route_candidates s og ws f d j)"
    and "route_rank (v, p) = route_rank (v', p')"
  shows "same_scope_route p p'"
proof -
  have "pb_direction p = pb_direction p'" "pb_jurisdiction p = pb_jurisdiction p'" "pb_priority p = pb_priority p'"
    using assms unfolding in_candidates route_rank_def by auto
  moreover have "pb_org p = pb_org p'" "pb_ws p = pb_ws p'" "pb_family p = pb_family p'"
    using assms unfolding in_candidates by auto
  ultimately show ?thesis by (simp add: same_scope_route_def same_playbook_route_def)
qed

lemma candidate_live:
  "(v, p) \<in> set (route_candidates s og ws f d j) \<Longrightarrow> live_with (playbooks s) (playbook_versions s) v p"
  unfolding in_candidates live_with_def published_def version_in_def by auto

lemma candidates_distinct:
  assumes i: "playbook_inv s" and x: "x \<in> set (route_candidates s og ws f d j)" and y: "y \<in> set (route_candidates s og ws f d j)"
    and r: "route_rank x = route_rank y"
  shows "x = y"
proof -
  obtain v p v' p' where e: "x = (v, p)" "y = (v', p')" by (cases x, cases y) auto
  note k = tables_okD [OF i [unfolded playbook_inv_def, THEN conjunct2]]
  note l = candidate_live [OF x [unfolded e]] candidate_live [OF y [unfolded e]]
  have m: "same_scope_route p p'" using candidate_route x y r unfolding e by blast
  have "pb_id p = pb_id p'" using k(4) l m unfolding routes_ok_def by blast
  then have p: "p = p'" using distinct_key_inj [of pb_id "playbooks s" p p'] k(1) l by (simp add: keys_ok_def live_with_def)
  then have "pv_playbook v = pv_playbook v'" using l by (simp add: live_with_def version_in_def)
  then have "v = v'" using k(3) l unfolding one_published_def live_with_def by blast
  then show ?thesis using p e by simp
qed

definition agreement_candidates ::
  "'z playbook_db_scheme \<Rightarrow> uuid option \<Rightarrow> uuid option \<Rightarrow> agreement_row \<Rightarrow> (playbook_version_row \<times> playbook_row) list" where
  "agreement_candidates s og ws a = route_candidates s og ws (ag_type a)
     (json_string (json_get (ag_audit_metadata a) ''document_direction'') ''any'')
     (str_upper (json_string (json_get (ag_audit_metadata a) ''jurisdiction'') ''any''))"

lemma order_rank: "route_order x \<le> route_order y \<Longrightarrow> route_rank y \<le> route_rank x"
  by (cases x; cases y) (auto simp: route_order_def route_rank_def)

lemma sort_key_Cons:
  assumes "sort_key f xs = y # ys"
  shows "y \<in> set xs \<and> (\<forall>x \<in> set xs. f y \<le> f x)"
proof -
  have "sorted (map f (y # ys))" "set (y # ys) = set xs" by (metis assms sorted_sort_key, metis assms set_sort)
  then show ?thesis by (metis (no_types, lifting) dual_order.refl image_eqI list.set_intros(1) list.set_map list.simps(9) set_ConsD sorted_simps(2))
qed

definition best_candidate ::
  "(playbook_version_row \<times> playbook_row) list \<Rightarrow> playbook_version_row \<times> playbook_row \<Rightarrow> bool" where
  "best_candidate cs x \<longleftrightarrow> x \<in> set cs \<and> (\<forall>y \<in> set cs. y \<noteq> x \<longrightarrow> route_rank y < route_rank x)"

text \<open>
  C30: The routing of the worker is unambiguous. In every state the operations of the playbook service reach from
  empty tables, the version it selects without an override has a rank (priority, a named direction, a named
  jurisdiction) strictly above that of every other published live playbook that applies to the agreement, so the
  tie-break by identifier never decides; and it selects none exactly when no playbook applies.
\<close>

theorem playbook_routing_unambiguous:
  assumes "playbook_reach s"
  shows "case routed_version s og ws a of
      None \<Rightarrow> agreement_candidates s og ws a = []
    | Some i \<Rightarrow> \<exists>x. best_candidate (agreement_candidates s og ws a) x \<and> pv_id (fst x) = i"
proof (cases "sort_key route_order (agreement_candidates s og ws a)")
  case Nil
  then have "agreement_candidates s og ws a = []" by (metis length_0_conv length_sort)
  then show ?thesis by (simp add: routed_version_def agreement_candidates_def Let_def)
next
  case (Cons x xs)
  let ?c = "agreement_candidates s og ws a"
  have x: "x \<in> set ?c" and m: "route_order x \<le> route_order y" if "y \<in> set ?c" for y
    using sort_key_Cons [OF Cons] that by blast+
  have x: "x \<in> set ?c" using sort_key_Cons [OF Cons] by blast
  have "best_candidate ?c x" unfolding best_candidate_def
  proof (intro conjI ballI impI x)
    fix y assume y: "y \<in> set ?c" "y \<noteq> x"
    have "route_rank y \<le> route_rank x" by (rule order_rank [OF m [OF y(1)]])
    moreover have "route_rank y \<noteq> route_rank x"
      using candidates_distinct [OF playbook_reach_inv [OF assms], of y og ws "ag_type a"] y x
      unfolding agreement_candidates_def by blast
    ultimately show "route_rank y < route_rank x" by simp
  qed
  moreover have "routed_version s og ws a = Some (pv_id (fst x))"
    using Cons unfolding agreement_candidates_def by (cases x) (simp add: routed_version_def Let_def)
  ultimately show ?thesis by (simp del: split_paired_Ex) blast
qed

text \<open>
  C31: A published version is frozen for good. Whatever the playbook service does afterwards, in any order, the
  version stays in its table unchanged, with the very same rules, which remain valid for publication, and its
  playbook stays but for the time of an archiving.
\<close>

theorem published_playbook_frozen:
  assumes "playbook_reach s" and "playbook_step\<^sup>*\<^sup>* s s'"
    and "v \<in> set (playbook_versions s)" and "pv_status v = ''published''"
  shows "v \<in> set (playbook_versions s') \<and> rules_of_version s' (pv_id v) = rules_of_version s (pv_id v) \<and>
    validate_for_publication (rules_of_version s' (pv_id v)) = Inr () \<and>
    (\<exists>p \<in> set (playbooks s). \<exists>q \<in> set (playbooks s'). pb_id p = pv_playbook v \<and> same_playbook p q)"
proof -
  have i: "playbook_inv s" by (rule playbook_reach_inv [OF assms(1)])
  from assms(2) i have "playbook_inv s' \<and> publications_kept (playbooks s) (playbook_versions s) (playbook_rules s)
      (playbooks s') (playbook_versions s') (playbook_rules s')"
  proof (induction rule: rtranclp_induct)
    case (step t u)
    then show ?case using playbook_step_safe [OF step.hyps(2)] publications_kept_trans
      unfolding playbook_inv_def safe_db_def safe_change_def by metis
  qed (simp add: publications_kept_refl)
  then have j: "playbook_inv s'" and k: "publications_kept (playbooks s) (playbook_versions s) (playbook_rules s)
      (playbooks s') (playbook_versions s') (playbook_rules s')" by blast+
  have v: "published (playbook_versions s) v" using assms(3,4) by (simp add: published_def)
  obtain p where p: "p \<in> set (playbooks s)" "version_in v p"
    using tables_okD(2) [OF i [unfolded playbook_inv_def, THEN conjunct2]] assms(3) unfolding owned_ok_def by blast
  obtain q where q: "published (playbook_versions s') v" "rules_in (playbook_rules s') (pv_id v) = rules_in (playbook_rules s) (pv_id v)"
      "q \<in> set (playbooks s')" "same_playbook p q"
    using k v p unfolding publications_kept_def by blast
  have "validate_for_publication (rules_in (playbook_rules s') (pv_id v)) = Inr ()"
    using tables_okD(5) [OF j [unfolded playbook_inv_def, THEN conjunct2]] q(1) unfolding published_valid_def by blast
  then show ?thesis using q p by (auto simp: rules_of_version_def rules_in_def published_def version_in_def)
qed

section \<open>A published playbook\<close>

definition demo_playbooks :: playbook_db where
  "demo_playbooks = processing_db.extend demo_rows
     \<lparr>playbooks = [], playbook_versions = [], playbook_rules = [], playbook_audit = []\<rparr>"

definition demo_rule :: playbook_rule_write where
  "demo_rule = \<lparr>rw_clause_type = ''term'', rw_title = ''T'', rw_policy_type = ''required'', rw_preferred = Some ''P'',
     rw_fallback = None, rw_severity = ''high'', rw_rationale = ''R'', rw_guidance = ''G'',
     rw_config = \<lparr>cfg_method = ''deterministic'', cfg_semantic_permitted = False\<rparr>\<rparr>"

definition demo_playbook_request :: create_playbook_request where
  "demo_playbook_request = \<lparr>cp_name = ''N'', cp_family = ''client'', cp_direction = ''any'', cp_jurisdiction = ''any'',
     cp_priority = 1, cp_rules = [demo_rule]\<rparr>"

definition demo_playbook :: "datetime option \<Rightarrow> playbook_row" where
  "demo_playbook t = \<lparr>pb_id = demo_uuid 0, pb_org = ''G1'', pb_ws = ''W1'', pb_name = ''N'', pb_family = ''client'',
     pb_direction = ''any'', pb_jurisdiction = ''ANY'', pb_priority = 1, pb_created_by = ''P1'', pb_archived_at = t,
     pb_created_at = 10, pb_updated_at = 10\<rparr>"

definition demo_playbook_version :: "string \<Rightarrow> datetime option \<Rightarrow> playbook_version_row" where
  "demo_playbook_version st t = \<lparr>pv_id = demo_uuid 1, pv_org = ''G1'', pv_ws = ''W1'', pv_playbook = demo_uuid 0,
     pv_number = 1, pv_status = st, pv_created_by = ''P1'', pv_created_at = 10, pv_published_at = t\<rparr>"

definition demo_playbook_rule :: playbook_rule_row where
  "demo_playbook_rule = rule_of_write (demo_uuid 2) (demo_playbook_version ''draft'' None) demo_rule 10"

definition demo_drafted :: playbook_db where
  "demo_drafted = audit_playbook (demo_playbook None) (demo_playbook_version ''draft'' None) None None ''P1'' ''draft_created'' [] 10
     (demo_playbooks\<lparr>playbooks := [demo_playbook None], playbook_versions := [demo_playbook_version ''draft'' None],
       uuid_used := 3, playbook_rules := [demo_playbook_rule]\<rparr>)"

definition demo_publication :: playbook_db where
  "demo_publication = audit_playbook (demo_playbook None) (demo_playbook_version ''published'' (Some 20)) None None ''P1''
     ''published'' [] 20 (demo_drafted\<lparr>playbook_versions := [demo_playbook_version ''published'' (Some 20)]\<rparr>)"

lemma demo_playbooks_simps [simp]:
  "playbooks demo_playbooks = []" "playbook_versions demo_playbooks = []" "playbook_rules demo_playbooks = []"
  "playbook_audit demo_playbooks = []" "uuid_src demo_playbooks = demo_uuid" "uuid_used demo_playbooks = 0"
  by (simp_all add: demo_playbooks_def processing_db.defs demo_rows_def demo_tenant_def)

lemma same_tenant_playbooks [simp]:
  "same_tenant (s\<lparr>playbooks := a\<rparr>) = same_tenant s" "same_tenant (s\<lparr>playbook_versions := b\<rparr>) = same_tenant s"
  "same_tenant (s\<lparr>playbook_rules := c\<rparr>) = same_tenant s" "same_tenant (s\<lparr>playbook_audit := d\<rparr>) = same_tenant s"
  "same_tenant (s\<lparr>uuid_used := n\<rparr>) = same_tenant s"
  by (simp_all add: same_tenant_def)

lemma same_tenant_demo_playbooks [simp]:
  "same_tenant demo_playbooks" "same_tenant demo_drafted" "same_tenant demo_publication"
  by (simp_all add: demo_playbooks_def processing_db.defs demo_rows_def demo_drafted_def demo_publication_def
      audit_playbook_def same_tenant_def demo_tenant_def demo_identity_def draw_def)

lemma demo_manager:
  assumes "same_tenant s"
  shows "authorize_playbooks s ''P1'' ''G1'' ''W1'' = Inr ()"
  by (simp add: authorize_playbooks_def same_tenant_access [OF assms] demo_access_def permissions_for_def PermissionKey_def)

lemma demo_created_playbook:
  "\<exists>r. create_playbook demo_playbooks ''P1'' ''G1'' ''W1'' demo_playbook_request 10 = Inr (r, demo_drafted)"
proof -
  have u: "str_upper ''any'' = ''ANY''" by code_simp
  show ?thesis
    by (simp add: create_playbook_def demo_manager Let_def demo_playbook_request_def u add_rule_record_def uuid4_def)
      (simp add: demo_drafted_def demo_playbook_def demo_playbook_version_def new_draft_def demo_playbook_rule_def
        draw_def uuid4_def eval_nat_numeral)
qed

lemma demo_published_playbook:
  "\<exists>r. publish_playbook demo_drafted ''P1'' ''G1'' ''W1'' (demo_uuid 0) 1 20 = Inr (r, demo_publication)"
proof -
  have t: "playbooks demo_drafted = [demo_playbook None]" "playbook_versions demo_drafted = [demo_playbook_version ''draft'' None]"
    "playbook_rules demo_drafted = [demo_playbook_rule]" by (simp_all add: demo_drafted_def)
  have v: "version_for_scope demo_drafted (demo_uuid 0) 1 ''G1'' ''W1'' = Inr (demo_playbook_version ''draft'' None)"
    by (simp add: version_for_scope_def t demo_playbook_version_def)
  have p: "playbook_of demo_drafted (demo_playbook_version ''draft'' None) = Inr (demo_playbook None)"
    by (simp add: playbook_of_def t demo_playbook_version_def demo_playbook_def)
  have r: "rules_of_version demo_drafted (pv_id (demo_playbook_version ''draft'' None)) = [demo_playbook_rule]"
    by (simp add: rules_of_version_def t demo_playbook_version_def demo_playbook_rule_def rule_of_write_def)
  have w: "str_strip ''T'' \<noteq> []" "str_strip ''R'' \<noteq> []" "str_strip ''G'' \<noteq> []" "str_strip ''P'' \<noteq> []" by code_simp+
  have l: "validate_for_publication [demo_playbook_rule] = Inr ()"
    by (simp add: validate_for_publication_def demo_playbook_rule_def rule_of_write_def demo_rule_def w)
  have c: "\<not> routing_conflict demo_drafted ''G1'' ''W1'' (demo_playbook None)"
    by (simp add: routing_conflict_def t demo_playbook_version_def)
  have d: "ensure_draft (demo_playbook_version ''draft'' None) = Inr ()"
    by (simp add: ensure_draft_def demo_playbook_version_def)
  have n: "\<not> exists_row (\<lambda>x. pv_playbook x = demo_uuid 0 \<and> pv_status x = ''published'') (playbook_versions demo_drafted)"
    by (simp add: t demo_playbook_version_def)
  show ?thesis unfolding publish_playbook_def v
    using n c by (simp add: demo_manager d r l p Let_def del: exists_row_iff)
      (simp add: demo_publication_def demo_playbook_version_def put_version_def t)
qed

lemma demo_playbook_reach: "playbook_reach demo_publication"
proof -
  have "playbook_reach demo_playbooks"
    by (rule reach_empty) (simp add: no_playbooks_def inj_demo_uuid)
  moreover have "playbook_step demo_playbooks demo_drafted" using demo_created_playbook playbook_step.created by blast
  moreover have "playbook_step demo_drafted demo_publication" using demo_published_playbook playbook_step.publication by blast
  ultimately show ?thesis by (blast intro: reach_step)
qed

lemma demo_publication_tables:
  "playbooks demo_publication = [demo_playbook None]"
  "playbook_versions demo_publication = [demo_playbook_version ''published'' (Some 20)]"
  "playbook_rules demo_publication = [demo_playbook_rule]"
  by (simp_all add: demo_publication_def demo_drafted_def)

theorem playbook_routing_unambiguous_witness:
  "\<exists>x. best_candidate (agreement_candidates demo_publication (Some ''G1'') (Some ''W1'') demo_contract) x \<and>
     pv_id (fst x) = demo_uuid 1"
proof -
  have u: "str_upper ''any'' = ''ANY''" by code_simp
  have "routed_version demo_publication (Some ''G1'') (Some ''W1'') demo_contract = Some (demo_uuid 1)"
    by (simp add: routed_version_def demo_contract_def json_string_def u route_candidates_def versions_with_playbooks_def
        demo_publication_tables demo_playbook_def demo_playbook_version_def)
  then show ?thesis
    using playbook_routing_unambiguous [OF demo_playbook_reach, of "Some ''G1''" "Some ''W1''" demo_contract] by simp
qed

theorem published_playbook_frozen_witness:
  "\<exists>s. playbook_step demo_publication s \<and> playbooks s = [demo_playbook (Some 30)] \<and>
     rules_of_version s (demo_uuid 1) = [demo_playbook_rule]"
proof -
  have f: "playbook_for_scope demo_publication (demo_uuid 0) ''G1'' ''W1'' = Inr (demo_playbook None)"
    by (simp add: playbook_for_scope_def demo_publication_tables demo_playbook_def)
  have n: "\<not> exists_row (\<lambda>v. pv_playbook v = pb_id (demo_playbook None) \<and> pv_status v = ''draft'') (playbook_versions demo_publication)"
    by (simp add: demo_publication_tables demo_playbook_version_def)
  have v: "versions_of_playbook demo_publication (pb_id (demo_playbook None)) = [demo_playbook_version ''published'' (Some 20)]"
    by (simp add: versions_of_playbook_def demo_publication_tables demo_playbook_version_def demo_playbook_def)
  have a: "pb_archived_at (demo_playbook None) = None" "(demo_playbook None)\<lparr>pb_archived_at := Some 30\<rparr> = demo_playbook (Some 30)"
    "pb_id (demo_playbook t) = demo_uuid 0" for t by (simp_all add: demo_playbook_def)
  obtain r s where s: "archive_playbook demo_publication ''P1'' ''G1'' ''W1'' (demo_uuid 0) None 30 = Inr (r, s)"
    "playbooks s = [demo_playbook (Some 30)]"
    using n by (simp add: archive_playbook_def demo_manager f v [unfolded a(3)] a Let_def latest_version_def demo_publication_tables
        del: exists_row_iff)
  then have st: "playbook_step demo_publication s" by (blast intro: playbook_step.archived)
  have i: "pv_id (demo_playbook_version ''published'' (Some 20)) = demo_uuid 1"
    "pv_status (demo_playbook_version ''published'' (Some 20)) = ''published''"
    "demo_playbook_version ''published'' (Some 20) \<in> set (playbook_versions demo_publication)"
    by (simp_all add: demo_playbook_version_def demo_publication_tables)
  from published_playbook_frozen [OF demo_playbook_reach r_into_rtranclp [of playbook_step, OF st] i(3,2)]
  have "rules_of_version s (demo_uuid 1) = rules_of_version demo_publication (demo_uuid 1)" unfolding i by blast
  also have "\<dots> = [demo_playbook_rule]"
    by (simp add: rules_of_version_def demo_publication_tables demo_playbook_rule_def rule_of_write_def demo_playbook_version_def)
  finally show ?thesis using st s by blast
qed

end
