(* ===== verification/Review_Decisions.thy ===== *)
theory Review_Decisions
  imports Review_Tables Playbook_Evaluation
begin

text \<open>
  Decisions on playbook findings (\<open>reviews/decisions.py\<close>: \<open>ReviewDecisionService\<close>, and the requests and
  responses of \<open>reviews/schemas.py\<close>): a decision is appended to the finding's history, which is never
  changed, and the current state is computed from the history. The parsing of a stored result or action
  raises \<open>ValueError\<close> when the text is none of the enumeration.
\<close>

section \<open>Requests and responses\<close>

datatype decision_action = AcceptedFinding | RejectedFinding | EditedFinding

fun decision_action_value :: "decision_action \<Rightarrow> string" where
  "decision_action_value AcceptedFinding = ''accepted''"
| "decision_action_value RejectedFinding = ''rejected''"
| "decision_action_value EditedFinding = ''edited''"

record decision_request =
  dq_action :: decision_action
  dq_rationale :: string
  dq_edited_result :: "finding_result option"
  dq_edited_severity :: "string option"

text \<open>The validator of the request; the rationale arrives stripped and not empty.\<close>

definition checked_decision_request :: "decision_request \<Rightarrow> decision_request result" where
  "checked_decision_request q =
     (let has_edits = (dq_edited_result q \<noteq> None \<or> dq_edited_severity q \<noteq> None)
      in if dq_action q = EditedFinding \<and> \<not> has_edits
         then Inl (ValueError ''edited decisions require an edited result or severity'')
         else if dq_action q \<noteq> EditedFinding \<and> has_edits
         then Inl (ValueError ''only edited decisions may include edited values'')
         else Inr q)"

record decision_event =
  dv_id :: uuid
  dv_finding :: uuid
  dv_action :: decision_action
  dv_original_result :: finding_result
  dv_rationale :: string
  dv_edited_result :: "finding_result option"
  dv_edited_severity :: "string option"
  dv_actor :: uuid
  dv_occurred_at :: datetime

record current_decision =
  cd_action :: decision_action
  cd_result :: finding_result
  cd_severity :: string
  cd_rationale :: string
  cd_actor :: uuid
  cd_decided_at :: datetime

record decision_history =
  dh_finding :: uuid
  dh_events :: "decision_event list"
  dh_current :: "current_decision option"

definition finding_result_of :: "string \<Rightarrow> finding_result result" where
  "finding_result_of v =
     some_or (find (\<lambda>r. finding_result_value r = v) [Satisfied, Missing, NonCompliant, NeedsReview]) (ValueError v)"

definition decision_action_of :: "string \<Rightarrow> decision_action result" where
  "decision_action_of v =
     some_or (find (\<lambda>a. decision_action_value a = v) [AcceptedFinding, RejectedFinding, EditedFinding]) (ValueError v)"

section \<open>The history\<close>

definition decision_event_of :: "review_decision_row \<Rightarrow> decision_event result" where
  "decision_event_of d =
     bindR (decision_action_of (rd_action d)) (\<lambda>action.
     bindR (finding_result_of (rd_original_result d)) (\<lambda>original.
     bindR (case rd_edited_result d of
              None \<Rightarrow> Inr None
            | Some r \<Rightarrow> if r = [] then Inr None else bindR (finding_result_of r) (\<lambda>x. Inr (Some x))) (\<lambda>edited.
     Inr \<lparr>dv_id = rd_id d, dv_finding = rd_finding d, dv_action = action, dv_original_result = original,
          dv_rationale = rd_rationale d, dv_edited_result = edited, dv_edited_severity = rd_edited_severity d,
          dv_actor = rd_actor d, dv_occurred_at = rd_occurred_at d\<rparr>)))"

fun decision_events :: "review_decision_row list \<Rightarrow> decision_event list result" where
  "decision_events [] = Inr []"
| "decision_events (d # ds) =
     bindR (decision_event_of d) (\<lambda>e. bindR (decision_events ds) (\<lambda>es. Inr (e # es)))"

text \<open>The loop over the events: an edit changes what it names, any other decision resets both.\<close>

fun apply_decisions ::
  "finding_row \<Rightarrow> review_decision_row list \<Rightarrow> finding_result \<times> string \<Rightarrow> (finding_result \<times> string) result" where
  "apply_decisions f [] x = Inr x"
| "apply_decisions f (d # ds) x =
     (if rd_action d = ''edited''
      then
        bindR (case rd_edited_result d of None \<Rightarrow> Inr (fst x) | Some r \<Rightarrow> finding_result_of r) (\<lambda>r.
        apply_decisions f ds (r, case rd_edited_severity d of None \<Rightarrow> snd x | Some v \<Rightarrow> v))
      else bindR (finding_result_of (fi_result f)) (\<lambda>r. apply_decisions f ds (r, fi_severity f)))"

definition current_decision_of ::
  "finding_row \<Rightarrow> review_decision_row list \<Rightarrow> current_decision option result" where
  "current_decision_of f ds =
     (if ds = [] then Inr None
      else
        bindR (finding_result_of (fi_result f)) (\<lambda>r.
        bindR (apply_decisions f ds (r, fi_severity f)) (\<lambda>(r, severity).
        bindR (decision_action_of (rd_action (last ds))) (\<lambda>action.
        Inr (Some \<lparr>cd_action = action, cd_result = r, cd_severity = severity, cd_rationale = rd_rationale (last ds),
                   cd_actor = rd_actor (last ds), cd_decided_at = rd_occurred_at (last ds)\<rparr>)))))"

definition decision_order :: "review_decision_row \<Rightarrow> datetime \<times> uuid" where
  "decision_order d = (rd_occurred_at d, rd_id d)"

text \<open>\<open>finding.decisions\<close>: the relationship with its order.\<close>

definition decisions_of :: "'z review_db_scheme \<Rightarrow> uuid \<Rightarrow> review_decision_row list" where
  "decisions_of s finding_id = sort_key decision_order (filter (\<lambda>d. rd_finding d = finding_id) (review_decisions s))"

definition decision_history_response :: "'z review_db_scheme \<Rightarrow> finding_row \<Rightarrow> decision_history result" where
  "decision_history_response s f =
     (let events = sort_key decision_order (decisions_of s (fi_id f))
      in bindR (decision_events events) (\<lambda>es.
         bindR (current_decision_of f events) (\<lambda>current.
         Inr \<lparr>dh_finding = fi_id f, dh_events = es, dh_current = current\<rparr>)))"

section \<open>The service\<close>

definition authorize_decisions :: "'z identity_db_scheme \<Rightarrow> uuid \<Rightarrow> uuid \<Rightarrow> uuid \<Rightarrow> unit result" where
  "authorize_decisions s actor g w = require (can_access_workspace s actor g w REVIEWS_DECIDE) hide_resource"

definition scoped_finding :: "'z review_db_scheme \<Rightarrow> uuid \<Rightarrow> uuid \<Rightarrow> uuid \<Rightarrow> finding_row result" where
  "scoped_finding s finding_id g w =
     some_or (find (\<lambda>f. fi_id f = finding_id \<and> fi_org f = g \<and> fi_ws f = w \<and>
         exists_row (\<lambda>e. ev_id e = fi_evaluation f \<and> agreement_is_active s (ev_agreement e)) (evaluations s))
       (findings s)) hide_resource"

definition decision_of_request ::
  "uuid \<Rightarrow> uuid \<Rightarrow> uuid \<Rightarrow> uuid \<Rightarrow> finding_row \<Rightarrow> decision_request \<Rightarrow> datetime \<Rightarrow> review_decision_row" where
  "decision_of_request i actor g w f q now =
     \<lparr>rd_id = i, rd_org = g, rd_ws = w, rd_finding = fi_id f, rd_action = decision_action_value (dq_action q),
      rd_original_result = fi_result f, rd_rationale = str_strip (dq_rationale q),
      rd_edited_result = map_option finding_result_value (dq_edited_result q),
      rd_edited_severity = dq_edited_severity q, rd_actor = actor, rd_occurred_at = now\<rparr>"

definition audit_decision ::
  "string \<Rightarrow> uuid \<Rightarrow> uuid \<Rightarrow> uuid \<Rightarrow> finding_row \<Rightarrow> decision_request \<Rightarrow> uuid \<Rightarrow> datetime \<Rightarrow> 'z review_db_scheme
   \<Rightarrow> 'z review_db_scheme" where
  "audit_decision ctx actor g w f q decision_id now s =
     (let s = draw s\<lparr>review_audit := review_audit s @
            [\<lparr>ra_id = uuid4 s, ra_org = g, ra_ws = w, ra_action = ''decision_recorded'', ra_actor = actor,
              ra_finding = Some (fi_id f), ra_agreement = None,
              ra_metadata = JObj [(''decision_id'', JStr decision_id),
                (''action'', JStr (decision_action_value (dq_action q)))], ra_occurred_at = now\<rparr>]\<rparr>
      in record_audit ctx
           \<lparr>en_org = g, en_ws = w, en_actor = actor, en_action = ''review_finding_decision_recorded'',
            en_resource_type = ''review_finding'', en_resource_id = Some (fi_id f), en_outcome = ''succeeded'',
            en_correlation_id = [], en_before = [(''review_state'', JStr (fi_review_state f))],
            en_after = [(''decision_id'', JStr decision_id), (''review_state'', JStr ''decided'')],
            en_metadata = [(''finding_id'', JStr (fi_id f)),
              (''decision_action'', JStr (decision_action_value (dq_action q)))]\<rparr> now s)"

definition record_decision ::
  "string \<Rightarrow> 'z review_db_scheme \<Rightarrow> uuid \<Rightarrow> uuid \<Rightarrow> uuid \<Rightarrow> uuid \<Rightarrow> decision_request \<Rightarrow> datetime
   \<Rightarrow> (decision_event \<times> current_decision \<times> 'z review_db_scheme) result" where
  "record_decision ctx s actor g w finding_id q now =
     bindR (authorize_decisions s actor g w) (\<lambda>_.
     bindR (scoped_finding s finding_id g w) (\<lambda>f.
     let d = decision_of_request (uuid4 s) actor g w f q now;
         s' = audit_decision ctx actor g w f q (rd_id d) now
                (draw s\<lparr>review_decisions := review_decisions s @ [d]\<rparr>)
     in bindR (current_decision_of f (decisions_of s (fi_id f) @ [d])) (\<lambda>current.
        bindR (some_or current (RuntimeError ''a recorded decision must produce current state'')) (\<lambda>current.
        bindR (decision_event_of d) (\<lambda>e.
        Inr (e, current, s'))))))"

definition decision_history_of ::
  "'z review_db_scheme \<Rightarrow> uuid \<Rightarrow> uuid \<Rightarrow> uuid \<Rightarrow> uuid \<Rightarrow> decision_history result" where
  "decision_history_of s actor g w finding_id =
     bindR (authorize_decisions s actor g w) (\<lambda>_.
     bindR (scoped_finding s finding_id g w) (\<lambda>f. decision_history_response s f))"

end
