(* ===== verification/Review_Evaluations.thy ===== *)
theory Review_Evaluations
  imports Review_Decisions Playbook_Sink
begin

text \<open>
  The evaluation of an agreement on request (\<open>reviews/service.py\<close>: \<open>PlaybookEvaluationService\<close>): the API's own
  deterministic evaluation of the latest committed analysis against a published playbook version, the stored
  findings, and the listing, which shows a stored risk or suggestion only when it is the one the finding and
  its rule give. The response models that validate a stored payload are those of \<open>reviews/schemas.py\<close>; the
  storage, the decoding of an analysis and the conversions of single values by pydantic are parameters.
\<close>

section \<open>The evaluation\<close>

type_synonym api_finding = "finding_result \<times> rat \<times> string list \<times> string"

text \<open>The candidates compare the normalized types without the canonical names of the worker.\<close>

definition api_candidates :: "'q playbook_rule_write_scheme \<Rightarrow> json \<Rightarrow> json list" where
  "api_candidates rule analysis =
     filter (\<lambda>c. normalized_type (json_get c ''category'') = normalized_type (Some (JStr (rw_clause_type rule))) \<and>
       is_deterministic_clause c) (analysis_clauses analysis)"

definition api_evaluate :: "'q playbook_rule_write_scheme \<Rightarrow> json \<Rightarrow> api_finding" where
  "api_evaluate rule analysis =
     (case api_candidates rule analysis of
        [] \<Rightarrow> (NeedsReview, 0, [], ''unknown'')
      | c # cs \<Rightarrow>
          (let clause = first_max clause_authority c cs;
               confidence = clause_confidence clause;
               citations = clause_citations clause;
               extraction_version = json_string (json_get clause ''extraction_version'') ''unknown'';
               finding = (\<lambda>r. (r, confidence, citations, extraction_version))
           in if confidence < MINIMUM_CONFIDENCE \<or> citations = [] then finding NeedsReview
              else
                (let source_text = str_lower (json_string (json_get clause ''source_text'') []);
                     expected = rule_language (rw_preferred rule)
                 in if expected = [] then finding NeedsReview
                    else if rw_policy_type rule = ''prohibited''
                    then finding (if contains expected source_text then NonCompliant else Satisfied)
                    else finding (if contains expected source_text then Satisfied else NeedsReview))))"

section \<open>Payloads\<close>

definition api_risk_payload ::
  "'q playbook_rule_write_scheme \<Rightarrow> finding_result \<Rightarrow> rat \<Rightarrow> string list \<Rightarrow> json" where
  "api_risk_payload rule r confidence ids =
     JObj [(''version'', JStr ''playbook-risk.v1''), (''severity'', JStr (rw_severity rule)),
       (''risk_rationale'', JStr (if str_strip (rw_rationale rule) = []
          then ''The deterministic finding requires reviewer assessment.'' else str_strip (rw_rationale rule))),
       (''risk_confidence'', JFloat (min 1 (max 0 confidence))),
       (''review_status'', JStr (if r \<in> {Missing, NonCompliant, NeedsReview} then ''review_required'' else ''complete'')),
       (''citation_ids'', JList (map JStr ids)), (''model_explanation'', JNull)]"

definition rule_suggestion_request ::
  "playbook_rule_row \<Rightarrow> uuid \<Rightarrow> finding_result \<Rightarrow> string list \<Rightarrow> suggestion_request" where
  "rule_suggestion_request rule version_id r ids = \<lparr>fq_rule = pl_id rule, fq_playbook_version = version_id,
     fq_result = finding_result_value r, fq_citation_ids = ids, fq_clause_text = None,
     fq_preferred = rw_preferred rule, fq_fallback = rw_fallback rule\<rparr>"

definition fallback_suggestion_payloads ::
  "playbook_rule_row \<Rightarrow> finding_result \<Rightarrow> string list \<Rightarrow> uuid \<Rightarrow> json list" where
  "fallback_suggestion_payloads rule r ids version_id =
     (case suggest_fallback (rule_suggestion_request rule version_id r ids) None of
        None \<Rightarrow> [] | Some x \<Rightarrow> [fallback_suggestion_value x])"

section \<open>Responses\<close>

record finding_response =
  fr_finding :: finding_row
  fr_rule_title :: string
  fr_clause_type :: string
  fr_guidance :: string
  fr_result :: finding_result
  fr_risk :: risk_payload
  fr_suggestions :: "fallback_suggestion list"
  fr_history :: decision_history

record evaluation_response =
  er_evaluation :: evaluation_row
  er_findings :: "finding_response list"

text \<open>
  The validation of a stored payload by the response models of \<open>reviews/schemas.py\<close>. How pydantic reads
  the text of a UUID, and what it converts to a number or a truth value when the value is not one, are
  parameters.
\<close>

record pydantic_inputs =
  px_float :: "json \<Rightarrow> rat option"
  px_bool :: "json \<Rightarrow> bool option"
  px_uuid :: "string \<Rightarrow> uuid option"

fun str_input :: "json \<Rightarrow> string option" where
  "str_input (JStr s) = Some s"
| "str_input _ = None"

fun optional_str_input :: "json \<Rightarrow> string option option" where
  "optional_str_input JNull = Some None"
| "optional_str_input v = map_option Some (str_input v)"

fun float_input :: "pydantic_inputs \<Rightarrow> json \<Rightarrow> rat option" where
  "float_input px (JFloat x) = Some x"
| "float_input px (JInt i) = Some (of_int i)"
| "float_input px v = px_float px v"

fun bool_input :: "pydantic_inputs \<Rightarrow> json \<Rightarrow> bool option" where
  "bool_input px (JBool b) = Some b"
| "bool_input px v = px_bool px v"

fun uuid_input :: "pydantic_inputs \<Rightarrow> json \<Rightarrow> uuid option" where
  "uuid_input px (JStr s) = px_uuid px s"
| "uuid_input px _ = None"

fun strings_input :: "json \<Rightarrow> string list option" where
  "strings_input (JList vs) = string_items vs"
| "strings_input _ = None"

definition literal_input :: "string \<Rightarrow> json \<Rightarrow> string option" where
  "literal_input expected v = (if v = JStr expected then Some expected else None)"

text \<open>A required field, and \<open>extra="forbid"\<close>.\<close>

definition field :: "json \<Rightarrow> string \<Rightarrow> (json \<Rightarrow> 'a option) \<Rightarrow> 'a option" where
  "field v key input = Option.bind (json_get v key) input"

definition only_fields :: "string list \<Rightarrow> json \<Rightarrow> bool" where
  "only_fields keys v = (case v of JObj kvs \<Rightarrow> list_all (\<lambda>(k, _). k \<in> set keys) kvs | _ \<Rightarrow> False)"

definition risk_payload_response :: "pydantic_inputs \<Rightarrow> json \<Rightarrow> risk_payload option" where
  "risk_payload_response px v =
     (if \<not> only_fields [''version'', ''severity'', ''risk_rationale'', ''risk_confidence'', ''review_status'',
           ''citation_ids'', ''model_explanation''] v then None
      else
        Option.bind (field v ''version'' (literal_input ''playbook-risk.v1'')) (\<lambda>version.
        Option.bind (field v ''severity'' str_input) (\<lambda>severity.
        Option.bind (field v ''risk_rationale'' str_input) (\<lambda>risk_rationale.
        Option.bind (field v ''risk_confidence'' (float_input px)) (\<lambda>risk_confidence.
        Option.bind (field v ''review_status'' str_input) (\<lambda>review_status.
        Option.bind (field v ''citation_ids'' strings_input) (\<lambda>citation_ids.
        Option.bind (field v ''model_explanation'' optional_str_input) (\<lambda>model_explanation.
        Some \<lparr>rk_version = version, rk_severity = severity, rk_rationale = risk_rationale,
          rk_confidence = risk_confidence, rk_review_status = review_status, rk_citation_ids = citation_ids,
          rk_model_explanation = model_explanation\<rparr>))))))))"

definition comparison_kind_input :: "json option \<Rightarrow> string option option" where
  "comparison_kind_input v =
     (case v of
        None \<Rightarrow> Some None
      | Some JNull \<Rightarrow> Some None
      | Some x \<Rightarrow> map_option Some (literal_input ''clause_differs_from_approved_position'' x))"

definition fallback_suggestion_response :: "pydantic_inputs \<Rightarrow> json \<Rightarrow> fallback_suggestion option" where
  "fallback_suggestion_response px v =
     (if \<not> only_fields [''version'', ''rule_id'', ''playbook_version_id'', ''suggested_language'',
           ''review_recommendation'', ''citation_ids'', ''comparison_kind'', ''comparison'', ''ai_generated''] v then None
      else
        Option.bind (field v ''version'' (literal_input ''playbook-fallback-suggestion.v1'')) (\<lambda>version.
        Option.bind (field v ''rule_id'' (uuid_input px)) (\<lambda>rule_id.
        Option.bind (field v ''playbook_version_id'' (uuid_input px)) (\<lambda>playbook_version_id.
        Option.bind (field v ''suggested_language'' optional_str_input) (\<lambda>suggested_language.
        Option.bind (field v ''review_recommendation'' str_input) (\<lambda>review_recommendation.
        Option.bind (field v ''citation_ids'' strings_input) (\<lambda>citation_ids.
        Option.bind (comparison_kind_input (json_get v ''comparison_kind'')) (\<lambda>comparison_kind.
        Option.bind (field v ''comparison'' optional_str_input) (\<lambda>comparison.
        Option.bind (field v ''ai_generated'' (bool_input px)) (\<lambda>ai_generated.
        Some \<lparr>fs_version = version, fs_rule = rule_id, fs_playbook_version = playbook_version_id,
          fs_language = suggested_language, fs_recommendation = review_recommendation, fs_citation_ids = citation_ids,
          fs_comparison_kind = comparison_kind, fs_comparison = comparison, fs_ai_generated = ai_generated\<rparr>))))))))))"

definition fallback_risk_payload :: "finding_row \<Rightarrow> risk_payload" where
  "fallback_risk_payload f = \<lparr>rk_version = ''playbook-risk.v1'', rk_severity = fi_severity f,
     rk_rationale = ''The deterministic finding requires reviewer assessment.'',
     rk_confidence = min 1 (max 0 (fi_confidence f)),
     rk_review_status = (if fi_result f \<in> {''missing'', ''non_compliant'', ''needs_review''} then ''review_required''
       else ''complete''),
     rk_citation_ids = fi_citation_ids f, rk_model_explanation = None\<rparr>"

definition risk_response :: "pydantic_inputs \<Rightarrow> finding_row \<Rightarrow> risk_payload" where
  "risk_response pv f =
     (let fallback = fallback_risk_payload f
      in case risk_payload_response pv (fi_risk_payload f) of
           None \<Rightarrow> fallback
         | Some risk \<Rightarrow>
             if rk_severity risk \<noteq> rk_severity fallback \<or> rk_confidence risk \<noteq> rk_confidence fallback \<or>
                rk_review_status risk \<noteq> rk_review_status fallback \<or> rk_citation_ids risk \<noteq> rk_citation_ids fallback
             then fallback else risk)"

definition fallback_suggestion_responses ::
  "pydantic_inputs \<Rightarrow> finding_row \<Rightarrow> uuid \<Rightarrow> playbook_rule_row option \<Rightarrow> fallback_suggestion list" where
  "fallback_suggestion_responses pv f version_id rule =
     (case (rule, fi_fallback_suggestions f, finding_result_of (fi_result f)) of
        (Some r, [stored], Inr res) \<Rightarrow>
          (let q = rule_suggestion_request r version_id res (fi_citation_ids f)
           in case (suggest_fallback q None, fallback_suggestion_response pv stored) of
                (Some expected, Some x) \<Rightarrow>
                  if fs_rule x \<noteq> fi_rule f \<or> fs_playbook_version x \<noteq> version_id \<or>
                     fs_language x \<noteq> fs_language expected \<or> fs_recommendation x \<noteq> fs_recommendation expected \<or>
                     fs_citation_ids x \<noteq> fs_citation_ids expected \<or>
                     fs_ai_generated x \<noteq> (fs_comparison_kind x \<noteq> None) \<or>
                     fs_comparison x \<noteq> render_comparison (fs_comparison_kind x)
                  then []
                  else if (case fs_comparison_kind x of None \<Rightarrow> False
                           | Some k \<Rightarrow> bounded_comparison_kind q (JStr k) (JList (map JStr (fs_citation_ids x))) = None)
                  then [] else [x]
              | _ \<Rightarrow> [])
      | _ \<Rightarrow> [])"

definition finding_response_of ::
  "pydantic_inputs \<Rightarrow> 'z review_db_scheme \<Rightarrow> uuid \<Rightarrow> playbook_rule_row list \<Rightarrow> finding_row
   \<Rightarrow> finding_response result" where
  "finding_response_of pv s version_id rules f =
     (let rule = find (\<lambda>r. pl_id r = fi_rule f) rules
      in bindR (finding_result_of (fi_result f)) (\<lambda>r.
         bindR (decision_history_response s f) (\<lambda>h.
         Inr \<lparr>fr_finding = f,
              fr_rule_title = (case rule of Some x \<Rightarrow> rw_title x | None \<Rightarrow> fi_rule f),
              fr_clause_type = (case rule of Some x \<Rightarrow> rw_clause_type x | None \<Rightarrow> ''unknown''),
              fr_guidance = (case rule of Some x \<Rightarrow> rw_guidance x | None \<Rightarrow> []),
              fr_result = r, fr_risk = risk_response pv f,
              fr_suggestions = fallback_suggestion_responses pv f version_id rule, fr_history = h\<rparr>)))"

fun finding_responses ::
  "pydantic_inputs \<Rightarrow> 'z review_db_scheme \<Rightarrow> uuid \<Rightarrow> playbook_rule_row list \<Rightarrow> finding_row list
   \<Rightarrow> finding_response list result" where
  "finding_responses pv s version_id rules [] = Inr []"
| "finding_responses pv s version_id rules (f # fs) =
     bindR (finding_response_of pv s version_id rules f) (\<lambda>x.
     bindR (finding_responses pv s version_id rules fs) (\<lambda>xs. Inr (x # xs)))"

definition evaluation_response_of ::
  "pydantic_inputs \<Rightarrow> 'z review_db_scheme \<Rightarrow> evaluation_row \<Rightarrow> uuid \<Rightarrow> playbook_rule_row list
   \<Rightarrow> evaluation_response result" where
  "evaluation_response_of pv s e version_id rules =
     bindR (finding_responses pv s version_id rules (filter (\<lambda>f. fi_evaluation f = ev_id e) (findings s))) (\<lambda>fs.
     Inr \<lparr>er_evaluation = e, er_findings = fs\<rparr>)"

section \<open>The service\<close>

definition evaluable_version :: "'z playbook_db_scheme \<Rightarrow> uuid \<Rightarrow> uuid \<Rightarrow> uuid \<Rightarrow> playbook_version_row result" where
  "evaluable_version s version_id g w =
     some_or (find (\<lambda>v. pv_id v = version_id \<and> pv_org v = g \<and> pv_ws v = w) (playbook_versions s)) hide_resource"

text \<open>The latest artifact of a completed job of the agreement, with its job.\<close>

definition completed_artifact_row ::
  "'z processing_db_scheme \<Rightarrow> uuid \<Rightarrow> uuid \<Rightarrow> uuid \<Rightarrow> (uuid \<times> string) option" where
  "completed_artifact_row s agreement_id g w =
     (case sort_key (\<lambda>a. - af_created_at a) (filter (\<lambda>a. af_agreement a = agreement_id \<and>
             exists_row (\<lambda>j. jb_id j = af_job a \<and> jb_org j = g \<and> jb_ws j = w \<and> jb_state j = JCompleted) (jobs s))
             (artifacts s)) of
        [] \<Rightarrow> None | a # _ \<Rightarrow> Some (af_job a, af_key a))"

definition api_finding_row ::
  "uuid \<Rightarrow> uuid \<Rightarrow> uuid \<Rightarrow> uuid \<Rightarrow> uuid \<Rightarrow> playbook_rule_row \<Rightarrow> api_finding \<Rightarrow> finding_row" where
  "api_finding_row i g w evaluation version_id rule x =
     (case x of (r, confidence, citations, extraction_version) \<Rightarrow>
        \<lparr>fi_id = i, fi_org = g, fi_ws = w, fi_evaluation = evaluation, fi_rule = pl_id rule,
         fi_result = finding_result_value r, fi_severity = rw_severity rule, fi_confidence = confidence,
         fi_method = ''deterministic'', fi_citation_ids = citations, fi_extraction_version = extraction_version,
         fi_review_state = ''unreviewed'', fi_risk_payload = api_risk_payload rule r confidence citations,
         fi_fallback_suggestions = fallback_suggestion_payloads rule r citations version_id\<rparr>)"

fun add_api_findings ::
  "uuid \<Rightarrow> uuid \<Rightarrow> uuid \<Rightarrow> uuid \<Rightarrow> json \<Rightarrow> playbook_rule_row list \<Rightarrow> 'z review_db_scheme \<Rightarrow> 'z review_db_scheme" where
  "add_api_findings g w evaluation version_id analysis [] s = s"
| "add_api_findings g w evaluation version_id analysis (r # rs) s =
     add_api_findings g w evaluation version_id analysis rs
       (draw s\<lparr>findings := findings s @
          [api_finding_row (uuid4 s) g w evaluation version_id r (api_evaluate r analysis)]\<rparr>)"

definition api_extraction_version :: "playbook_rule_row list \<Rightarrow> json \<Rightarrow> string" where
  "api_extraction_version rules analysis =
     (case find (\<lambda>x. snd (snd (snd x)) \<noteq> ''unknown'') (map (\<lambda>r. api_evaluate r analysis) rules) of
        None \<Rightarrow> ''unknown'' | Some x \<Rightarrow> snd (snd (snd x)))"

definition analysis_required :: exn where
  "analysis_required = http_error 409 ''completed_analysis_required''"

definition submit_evaluation ::
  "pydantic_inputs \<Rightarrow> (string \<Rightarrow> string option) \<Rightarrow> (string \<Rightarrow> json option) \<Rightarrow> 'z playbook_db_scheme \<Rightarrow> uuid \<Rightarrow> uuid
   \<Rightarrow> uuid \<Rightarrow> uuid \<Rightarrow> uuid \<Rightarrow> datetime \<Rightarrow> (evaluation_response \<times> 'z playbook_db_scheme) result" where
  "submit_evaluation pv read decode s actor g w agreement_id version_id now =
     bindR (authorize_decisions s actor g w) (\<lambda>_.
     bindR (some_or (active_agreement s agreement_id g w) hide_resource) (\<lambda>a.
     bindR (evaluable_version s version_id g w) (\<lambda>v.
     bindR (require (pv_status v = ''published'') (http_error 422 ''published_playbook_required'')) (\<lambda>_.
     bindR (playbook_of s v) (\<lambda>p.
     bindR (require (pb_family p = ag_type a) (http_error 422 ''playbook_family_mismatch'')) (\<lambda>_.
     bindR (some_or (completed_artifact_row s agreement_id g w) analysis_required) (\<lambda>(job_id, key).
     let rules = rules_of_version s (pv_id v)
     in case find (\<lambda>e. ev_org e = g \<and> ev_ws e = w \<and> ev_agreement e = agreement_id \<and> ev_job e = Some job_id \<and>
               ev_playbook_version e = pv_id v) (evaluations s) of
          Some e \<Rightarrow> bindR (evaluation_response_of pv s e (pv_id v) rules) (\<lambda>r. Inr (r, s))
        | None \<Rightarrow>
            bindR (some_or (read key) analysis_required) (\<lambda>content.
            bindR (some_or (decode content) analysis_required) (\<lambda>analysis.
            bindR (require (is_json_object analysis) analysis_required) (\<lambda>_.
            let e = \<lparr>ev_id = uuid4 s, ev_org = g, ev_ws = w, ev_agreement = agreement_id, ev_job = Some job_id,
                     ev_playbook_version = pv_id v,
                     ev_analysis_version = json_string (json_get analysis ''schema_version'') ''unknown'',
                     ev_extraction_version = api_extraction_version rules analysis, ev_state = ''completed'',
                     ev_requested_by = Some actor, ev_created_at = now\<rparr>;
                s = add_api_findings g w (ev_id e) (pv_id v) analysis rules
                      (draw s\<lparr>evaluations := evaluations s @ [e]\<rparr>)
            in bindR (evaluation_response_of pv s e (pv_id v) rules) (\<lambda>r. Inr (r, s))))))))))))"

fun evaluation_responses ::
  "pydantic_inputs \<Rightarrow> 'z playbook_db_scheme \<Rightarrow> uuid \<Rightarrow> uuid \<Rightarrow> evaluation_row list \<Rightarrow> evaluation_response list result" where
  "evaluation_responses pv s g w [] = Inr []"
| "evaluation_responses pv s g w (e # es) =
     bindR (evaluation_response_of pv s e (ev_playbook_version e)
        (filter (\<lambda>r. pl_org r = g \<and> pl_ws r = w \<and> pl_version r = ev_playbook_version e) (playbook_rules s))) (\<lambda>x.
     bindR (evaluation_responses pv s g w es) (\<lambda>xs. Inr (x # xs)))"

definition list_evaluations ::
  "pydantic_inputs \<Rightarrow> 'z playbook_db_scheme \<Rightarrow> uuid \<Rightarrow> uuid \<Rightarrow> uuid \<Rightarrow> uuid \<Rightarrow> evaluation_response list result" where
  "list_evaluations pv s actor g w agreement_id =
     bindR (authorize_decisions s actor g w) (\<lambda>_.
     bindR (some_or (active_agreement s agreement_id g w) hide_resource) (\<lambda>_.
     evaluation_responses pv s g w (sort_key (\<lambda>e. (- ev_created_at e, ev_id e))
       (filter (\<lambda>e. ev_org e = g \<and> ev_ws e = w \<and> ev_agreement e = agreement_id) (evaluations s)))))"

end
