(* ===== verification/Evaluation_Agreement.thy ===== *)
theory Evaluation_Agreement
  imports Review_Evaluations Playbook_Findings
begin

text \<open>
  The two evaluations of the system, the worker's and the API's, and the payloads that pass between them: where
  they agree, and that what the worker stored is what the API shows.
\<close>

section \<open>The same findings\<close>

definition plainly_named :: "'q playbook_rule_write_scheme \<Rightarrow> bool" where
  "plainly_named r \<longleftrightarrow>
     normalized_type (Some (JStr (rw_clause_type r))) \<notin> {''liability'', ''limitation_of_liability''}"

lemma same_candidates:
  assumes "plainly_named r"
  shows "rule_candidates (worker_rule_of r) analysis = api_candidates r analysis"
proof -
  have "canonical_clause_type c = canonical_clause_type (Some (JStr (rw_clause_type r))) \<longleftrightarrow>
      normalized_type c = normalized_type (Some (JStr (rw_clause_type r)))" for c
    using assms by (auto simp: canonical_clause_type_def plainly_named_def Let_def)
  then show ?thesis by (simp add: rule_candidates_def api_candidates_def worker_rule_of_def)
qed

definition finding_values :: "evaluated_finding \<Rightarrow> api_finding" where
  "finding_values f = (ef_result f, ef_confidence f, ef_citation_ids f, ef_extraction_version f)"

lemma same_values:
  assumes "plainly_named r"
  shows "finding_values (fst (deterministic_finding (worker_rule_of r) (rule_candidates (worker_rule_of r) analysis))) =
    api_evaluate r analysis"
proof (cases "api_candidates r analysis")
  case Nil
  then show ?thesis
    by (simp add: same_candidates [OF assms] deterministic_finding_def api_evaluate_def finding_values_def plain_finding_def)
next
  case (Cons c cs)
  have p: "wr_policy_type (worker_rule_of r) = ''prohibited'' \<longleftrightarrow> rw_policy_type r = ''prohibited''"
    "wr_preferred (worker_rule_of r) = rw_preferred r" by (simp_all add: worker_rule_of_def)
  show ?thesis
    by (simp add: same_candidates [OF assms] Cons deterministic_finding_def api_evaluate_def Let_def p
        finding_values_def plain_finding_def)
qed

lemma same_risk: "risk_payload_value (rule_risk_payload (worker_rule_of r) x c ids text None) = api_risk_payload r x c ids"
  by (cases x) (simp_all add: risk_payload_value_def rule_risk_payload_def explain_risk_def api_risk_payload_def
      RISK_PAYLOAD_VERSION_def risk_rationale_def risk_confidence_def review_status_def REVIEW_REQUIRED_RESULTS_def
      model_explanation_def worker_rule_of_def)

lemma same_suggestion:
  "suggest_fallback (q\<lparr>fq_clause_text := t\<rparr>) None = suggest_fallback q None"
proof -
  have "suggestion (q\<lparr>fq_clause_text := t\<rparr>) l k = suggestion q l k" for l k by (simp add: suggestion_def)
  moreover have "approved_language (q\<lparr>fq_clause_text := t\<rparr>) = approved_language q" by (simp add: approved_language_def)
  moreover have "comparison_kind x None = None" for x by (simp add: comparison_kind_def)
  ultimately show ?thesis by (simp add: suggest_fallback_def split: option.split)
qed

text \<open>
  C32: The API and the worker evaluate alike. For a rule whose clause type is not one of the two names of the
  liability cap, the finding row the API's own evaluation stores is, to the last column, the row the worker
  stores for the rule when no model takes part: result, confidence, citations, versions, risk and suggestions.
\<close>

theorem evaluations_agree:
  assumes "plainly_named r"
  shows "\<exists>f. evaluate_rule (worker_rule_of r) analysis None None None (Some v) = Inr f \<and>
    finding_row_of i g w e f = api_finding_row i g w e v r (api_evaluate r analysis)"
proof -
  obtain d clause where d: "deterministic_finding (worker_rule_of r) (rule_candidates (worker_rule_of r) analysis) = (d, clause)"
    by fastforce
  let ?f = "with_risk_explanation (worker_rule_of r) d clause None None (Some v)"
  have f: "evaluate_rule (worker_rule_of r) analysis None None None (Some v) = Inr ?f"
    by (simp add: evaluate_rule_def d assessed_def)
  have m: "ef_method d = ''deterministic''" "ef_rule d = pl_id r" "ef_severity d = rw_severity r"
    using d by (auto simp: deterministic_finding_def plain_finding_def Let_def worker_rule_of_def split: list.splits if_splits)
  have v: "api_evaluate r analysis = finding_values d" using same_values [OF assms, of analysis] d by simp
  have s: "map fallback_suggestion_value (ef_suggestions ?f) =
      fallback_suggestion_payloads r (ef_result d) (ef_citation_ids d) v"
  proof -
    have q: "suggest_fallback \<lparr>fq_rule = pl_id r, fq_playbook_version = v, fq_result = x, fq_citation_ids = y,
         fq_clause_text = t, fq_preferred = rw_preferred r, fq_fallback = rw_fallback r\<rparr> None =
       suggest_fallback \<lparr>fq_rule = pl_id r, fq_playbook_version = v, fq_result = x, fq_citation_ids = y,
         fq_clause_text = None, fq_preferred = rw_preferred r, fq_fallback = rw_fallback r\<rparr> None" for x y t
      using same_suggestion [where t = t and q = "\<lparr>fq_rule = pl_id r, fq_playbook_version = v, fq_result = x, fq_citation_ids = y,
         fq_clause_text = None, fq_preferred = rw_preferred r, fq_fallback = rw_fallback r\<rparr>"] by simp
    show ?thesis
      by (simp add: with_risk_explanation_def Let_def fallback_suggestion_payloads_def rule_suggestion_request_def
          worker_rule_of_def q [of _ _ "map_option (\<lambda>c. json_string (json_get c ''source_text'') []) clause"] split: option.split)
  qed
  have k: "ef_risk ?f = rule_risk_payload (worker_rule_of r) (ef_result d) (ef_confidence d) (ef_citation_ids d)
      (map_option (\<lambda>c. json_string (json_get c ''source_text'') []) clause) None"
    by (simp add: with_risk_explanation_def Let_def)
  have x: "ef_extraction_version ?f = ef_extraction_version d" by (simp add: with_risk_explanation_def Let_def)
  show ?thesis
    using f s by (simp add: x finding_row_of_def api_finding_row_def v finding_values_def m k same_risk)
qed

section \<open>What was stored is shown\<close>

text \<open>Pydantic reads the canonical text of a UUID as that UUID.\<close>

definition reads_canonical_uuids :: "pydantic_inputs \<Rightarrow> bool" where
  "reads_canonical_uuids px \<longleftrightarrow> (\<forall>i. parse_uuid i = Some i \<longrightarrow> px_uuid px i = Some i)"

lemma string_items_JStr: "string_items (map JStr ids) = Some ids"
  by (induction ids) simp_all

lemma optional_str_input_opt [simp]: "optional_str_input (opt_str x) = Some x"
  by (cases x) simp_all

lemmas validation_simps = field_def only_fields_def literal_input_def string_items_JStr

lemma risk_payload_accepted:
  "rk_version k = ''playbook-risk.v1'' \<Longrightarrow> risk_payload_response px (risk_payload_value k) = Some k"
  by (simp add: risk_payload_response_def risk_payload_value_def validation_simps)

lemma comparison_kind_input_opt:
  "k = None \<or> k = Some CLAUSE_DIFFERS \<Longrightarrow> comparison_kind_input (Some (opt_str k)) = Some k"
  by (auto simp: comparison_kind_input_def literal_input_def CLAUSE_DIFFERS_def)

lemma suggestion_accepted:
  assumes "fs_version x = ''playbook-fallback-suggestion.v1''" and "reads_canonical_uuids px"
    and "parse_uuid (fs_rule x) = Some (fs_rule x)"
    and "parse_uuid (fs_playbook_version x) = Some (fs_playbook_version x)"
    and "fs_comparison_kind x = None \<or> fs_comparison_kind x = Some CLAUSE_DIFFERS"
  shows "fallback_suggestion_response px (fallback_suggestion_value x) = Some x"
  using assms
  by (simp add: fallback_suggestion_response_def fallback_suggestion_value_def validation_simps
      reads_canonical_uuids_def comparison_kind_input_opt del: optional_str_input.simps)

lemma evaluate_rule_parts:
  assumes "evaluate_rule rule analysis assessor explainer comparator (Some v) = Inr f"
  obtains a t e c where "f = with_risk_explanation rule a t e c (Some v)" "ef_rule a = wr_id rule"
    "ef_severity a = wr_severity rule"
proof -
  obtain d clause where d: "deterministic_finding rule (rule_candidates rule analysis) = (d, clause)" by fastforce
  then obtain a where a: "assessed assessor rule d clause = Inr a"
    and f: "f = with_risk_explanation rule a clause (if ef_method a = ''deterministic'' then explainer else None)
       (if ef_method a = ''deterministic'' then comparator else None) (Some v)"
    using assms by (auto simp: evaluate_rule_def result_simps)
  have "bounded_by rule d a" using assessed_bounded [OF a] deterministic_fields [of rule "rule_candidates rule analysis"] d by simp
  then show thesis using that [OF f] by (simp add: bounded_by_def)
qed

lemma stored_risk_shown:
  assumes "ef_severity a = wr_severity rule"
  shows "risk_response px (finding_row_of i g w e (with_risk_explanation rule a t ex c v)) =
    ef_risk (with_risk_explanation rule a t ex c v)"
proof -
  let ?f = "with_risk_explanation rule a t ex c v"
  have "rk_version (ef_risk ?f) = ''playbook-risk.v1''" "rk_severity (ef_risk ?f) = ef_severity ?f"
    "rk_confidence (ef_risk ?f) = min 1 (max 0 (ef_confidence ?f))"
    "rk_citation_ids (ef_risk ?f) = ef_citation_ids ?f"
    "rk_review_status (ef_risk ?f) = review_status (finding_result_value (ef_result ?f))"
    using assms by (simp_all add: with_risk_explanation_def Let_def rule_risk_payload_def explain_risk_def risk_confidence_def RISK_PAYLOAD_VERSION_def)
  then show ?thesis
    by (simp add: risk_response_def risk_payload_accepted finding_row_of_def fallback_risk_payload_def
        review_status_def REVIEW_REQUIRED_RESULTS_def Let_def)
qed

lemma bounded_kind_accepted:
  assumes "ids \<noteq> []" "fq_citation_ids q = ids"
  shows "bounded_comparison_kind q (JStr CLAUSE_DIFFERS) (JList (map JStr ids)) = Some CLAUSE_DIFFERS"
proof -
  have "str_strip CLAUSE_DIFFERS = CLAUSE_DIFFERS" "CLAUSE_DIFFERS \<noteq> []" by code_simp+
  then show ?thesis using assms
    by (simp add: bounded_comparison_kind_def grounded_model_text_def string_items_JStr COMPARISON_RENDERINGS_def insert_commute)
qed

lemma comparison_kind_cases:
  assumes "comparison_kind q comparator = Some k"
  shows "k = CLAUSE_DIFFERS" "fq_citation_ids q \<noteq> []"
proof -
  have b: "bounded_comparison_kind q x y = Some k \<Longrightarrow> k = CLAUSE_DIFFERS" for x y
    by (simp add: bounded_comparison_kind_def COMPARISON_RENDERINGS_def split: option.splits if_splits)
  show "k = CLAUSE_DIFFERS" "fq_citation_ids q \<noteq> []"
    using assms b by (auto simp: comparison_kind_def Option.bind_eq_Some_conv split: option.splits if_splits)
qed

lemma stored_suggestions_shown:
  assumes px: "reads_canonical_uuids px" and ids: "parse_uuid (pl_id r) = Some (pl_id r)" "parse_uuid v = Some v"
    and a: "ef_rule a = pl_id r"
    and f_def: "f = with_risk_explanation (worker_rule_of r) a t ex c (Some v)"
  shows "fallback_suggestion_responses px (finding_row_of i g w e f) v (Some r) = ef_suggestions f"
proof -
  define q where "q = \<lparr>fq_rule = pl_id r, fq_playbook_version = v, fq_result = finding_result_value (ef_result a),
      fq_citation_ids = ef_citation_ids a, fq_clause_text = map_option (\<lambda>c. json_string (json_get c ''source_text'') []) t,
      fq_preferred = rw_preferred r, fq_fallback = rw_fallback r\<rparr>"
  let ?q = "rule_suggestion_request r v (ef_result a) (ef_citation_ids a)"
  have s: "ef_suggestions f = (case suggest_fallback q c of None \<Rightarrow> [] | Some x \<Rightarrow> [x])"
    by (simp add: f_def with_risk_explanation_def Let_def q_def worker_rule_of_def)
  have qq: "?q = q\<lparr>fq_clause_text := None\<rparr>" by (simp add: rule_suggestion_request_def q_def)
  then have e: "suggest_fallback ?q None = suggest_fallback q None" by (simp add: same_suggestion)
  have rr: "finding_result_of (finding_result_value x) = Inr x" for x
    by (cases x) (simp_all add: finding_result_of_def)
  show ?thesis
  proof (cases "suggest_fallback q c")
    case None
    then show ?thesis by (simp add: s fallback_suggestion_responses_def finding_row_of_def)
  next
    case (Some x)
    then obtain l k where x: "x = suggestion q l k" and o: "suggest_fallback q None = Some (suggestion q l None)"
      and k: "k = None \<or> (\<exists>y. k = Some y \<and> comparison_kind q c = Some y)"
      by (cases "approved_language q"; cases "comparison_kind q c")
        (auto simp: suggest_fallback_def comparison_kind_def [of q None] split: if_splits)
    have b: "bounded_comparison_kind ?q (JStr y) (JList (map JStr (ef_citation_ids a))) \<noteq> None" if "k = Some y" for y
    proof -
      have "comparison_kind q c = Some y" using k that by simp
      from comparison_kind_cases [OF this] have "y = CLAUSE_DIFFERS" "ef_citation_ids a \<noteq> []" by (simp_all add: q_def)
      then show ?thesis using bounded_kind_accepted [of "ef_citation_ids a" ?q] by (simp add: rule_suggestion_request_def)
    qed
    have fs: "fs_rule x = pl_id r" "fs_playbook_version x = v" "fs_language x = l" "fs_citation_ids x = ef_citation_ids a"
      "fs_comparison_kind x = k" "fs_comparison x = render_comparison k" "fs_ai_generated x = (k \<noteq> None)"
      "fs_recommendation x = fs_recommendation (suggestion q l None)"
      "fs_language (suggestion q l None) = l" "fs_citation_ids (suggestion q l None) = ef_citation_ids a"
      unfolding x suggestion_def by (simp_all add: q_def)
    have "fs_comparison_kind x = None \<or> fs_comparison_kind x = Some CLAUSE_DIFFERS"
      using k comparison_kind_cases(1) [of q c] fs(5) by auto
    moreover have "fs_version x = ''playbook-fallback-suggestion.v1''" by (simp add: x suggestion_def)
    ultimately have m: "fallback_suggestion_response px (fallback_suggestion_value x) = Some x"
      using suggestion_accepted [OF _ px] ids fs(1,2) by simp
    have u: "fi_fallback_suggestions (finding_row_of i g w e f) = [fallback_suggestion_value x]"
      "fi_result (finding_row_of i g w e f) = finding_result_value (ef_result a)"
      "fi_citation_ids (finding_row_of i g w e f) = ef_citation_ids a" "fi_rule (finding_row_of i g w e f) = pl_id r"
      by (simp_all add: finding_row_of_def s Some) (simp_all add: f_def a)
    have "(case k of None \<Rightarrow> False | Some y \<Rightarrow>
        bounded_comparison_kind ?q (JStr y) (JList (map JStr (fs_citation_ids x))) = None) = False"
      using b by (cases k) (simp_all add: fs)
    then show ?thesis unfolding fallback_suggestion_responses_def u rr
      by (simp add: e o m fs s Some Let_def)
  qed
qed

text \<open>
  C33: What the worker stored is what the API shows. A finding of the worker, whatever models took part, is
  answered by the API with the very risk payload and suggestions the worker computed: the response models accept
  them, with the versions, fields and comparison kinds they fix, and none of the checks by which the API replaces
  or drops a stored payload that does not fit its finding and rule fires on one the worker wrote. The ids of the
  rule and of the version are UUIDs in the text the database gives them.
\<close>

theorem stored_payloads_shown:
  assumes "reads_canonical_uuids px" and "parse_uuid (pl_id r) = Some (pl_id r)" and "parse_uuid v = Some v"
    and "evaluate_rule (worker_rule_of r) analysis assessor explainer comparator (Some v) = Inr f"
  shows "risk_response px (finding_row_of i g w e f) = ef_risk f \<and>
    fallback_suggestion_responses px (finding_row_of i g w e f) v (Some r) = ef_suggestions f"
proof -
  obtain a t ex c where f: "f = with_risk_explanation (worker_rule_of r) a t ex c (Some v)"
    and a: "ef_rule a = wr_id (worker_rule_of r)" "ef_severity a = wr_severity (worker_rule_of r)"
    using evaluate_rule_parts [OF assms(4)] by metis
  have "ef_rule a = pl_id r" using a(1) by (simp add: worker_rule_of_def)
  then show ?thesis
    unfolding f using stored_risk_shown [OF a(2)] stored_suggestions_shown [OF assms(1-3) _ refl] by blast
qed

section \<open>Witnesses\<close>

definition demo_rule_row :: playbook_rule_row where
  "demo_rule_row = \<lparr>rw_clause_type = ''governing_law'', rw_title = ''T'', rw_policy_type = ''prohibited'',
     rw_preferred = Some ''England'', rw_fallback = Some ''Wales'', rw_severity = ''high'', rw_rationale = ''R'',
     rw_guidance = ''G'', rw_config = \<lparr>cfg_method = ''deterministic'', cfg_semantic_permitted = False\<rparr>,
     pl_id = ''PL1'', pl_org = ''G1'', pl_ws = ''W1'', pl_version = ''PV1'', pl_created_at = 0, pl_updated_at = 0\<rparr>"

theorem evaluations_agree_witness:
  "\<exists>f. evaluate_rule (worker_rule_of demo_rule_row) demo_analysis None None None (Some ''PV1'') = Inr f \<and>
    finding_row_of ''F1'' ''G1'' ''W1'' ''E1'' f =
      api_finding_row ''F1'' ''G1'' ''W1'' ''E1'' ''PV1'' demo_rule_row (api_evaluate demo_rule_row demo_analysis)"
proof -
  have "normalized_type (Some (JStr ''governing_law'')) = ''governing_law''" by code_simp
  then have "plainly_named demo_rule_row" by (simp add: plainly_named_def demo_rule_row_def)
  from evaluations_agree [OF this] show ?thesis by blast
qed

definition demo_id_rule :: playbook_rule_row where
  "demo_id_rule = demo_rule_row\<lparr>pl_id := ''12345678-1234-5678-1234-567812345678''\<rparr>"

definition demo_pydantic :: pydantic_inputs where
  "demo_pydantic = \<lparr>px_float = (\<lambda>_. None), px_bool = (\<lambda>_. None), px_uuid = parse_uuid\<rparr>"

theorem stored_payloads_shown_witness:
  "\<exists>f. evaluate_rule (worker_rule_of demo_id_rule) demo_analysis None (Some (\<lambda>_. None))
       (Some (\<lambda>_. None)) (Some ''12345678-1234-5678-1234-567812345679'') = Inr f \<and>
     risk_response demo_pydantic (finding_row_of ''F1'' ''G1'' ''W1'' ''E1'' f) = ef_risk f \<and>
     fallback_suggestion_responses demo_pydantic (finding_row_of ''F1'' ''G1'' ''W1'' ''E1'' f)
       ''12345678-1234-5678-1234-567812345679'' (Some demo_id_rule) = ef_suggestions f"
proof -
  obtain f where f: "evaluate_rule (worker_rule_of demo_id_rule) demo_analysis None (Some (\<lambda>_. None))
       (Some (\<lambda>_. None)) (Some ''12345678-1234-5678-1234-567812345679'') = Inr f"
    by (cases "deterministic_finding (worker_rule_of demo_id_rule) (rule_candidates (worker_rule_of demo_id_rule) demo_analysis)")
      (simp add: evaluate_rule_def assessed_def)
  have "reads_canonical_uuids demo_pydantic" by (simp add: reads_canonical_uuids_def demo_pydantic_def)
  moreover have "parse_uuid (pl_id demo_id_rule) = Some (pl_id demo_id_rule)" by code_simp
  moreover have "parse_uuid ''12345678-1234-5678-1234-567812345679'' = Some ''12345678-1234-5678-1234-567812345679''"
    by code_simp
  ultimately show ?thesis using f stored_payloads_shown [OF _ _ _ f] by blast
qed

end
