(* ===== verification/Document_Indexing.thy ===== *)
theory Document_Indexing
  imports Playbook_Sink
begin

text \<open>
  The retrieval index of an analysed document (\<open>document_indexing.py\<close>): the chunks of its sections, and the sink
  that replaces the active build of an agreement by one of the committed analysis. The digest of a chunk's
  identity (\<open>sha256\<close> of its canonical JSON) is a parameter, as is the decoding of the stored manifest. An insert
  of no rows is one of a row of defaults, which the columns refuse.
\<close>

section \<open>The manifest\<close>

definition invalid_artifact :: "string \<Rightarrow> exn" where
  "invalid_artifact key = ValueError (''Canonical analysis artifact has invalid '' @ key)"

definition required_string :: "json \<Rightarrow> string \<Rightarrow> string result" where
  "required_string v key =
     (case json_get v key of
        Some (JStr s) \<Rightarrow> if s = [] then Inl (invalid_artifact key) else Inr s
      | _ \<Rightarrow> Inl (invalid_artifact key))"

definition source_checksum :: "json \<Rightarrow> string result" where
  "source_checksum manifest =
     (case json_get manifest ''source'' of
        Some (JObj kvs) \<Rightarrow> required_string (JObj kvs) ''checksum''
      | _ \<Rightarrow> Inl (ValueError ''Canonical analysis artifact has no source''))"

fun page_blocks :: "json list \<Rightarrow> json list result" where
  "page_blocks [] = Inr []"
| "page_blocks (page # ps) =
     (case json_get page ''blocks'' of
        Some (JList bs) \<Rightarrow> bindR (page_blocks ps) (\<lambda>rest. Inr (bs @ rest))
      | _ \<Rightarrow> Inl (ValueError ''Canonical analysis artifact has malformed page blocks''))"

definition manifest_blocks :: "json \<Rightarrow> json list result" where
  "manifest_blocks manifest =
     (case Option.bind (json_get manifest ''document'') (\<lambda>d. json_get d ''pages'') of
        Some (JList pages) \<Rightarrow> page_blocks pages
      | _ \<Rightarrow> Inl (ValueError ''Canonical analysis artifact has no document pages''))"

section \<open>Chunks\<close>

definition CHUNKER_VERSION :: string where
  "CHUNKER_VERSION = ''structure-aware.v1''"

definition MAX_CHUNK_TOKENS :: nat where
  "MAX_CHUNK_TOKENS = 1000"

definition CHUNK_OVERLAP_TOKENS :: nat where
  "CHUNK_OVERLAP_TOKENS = 100"

record retrieval_chunk =
  rc_chunk_id :: string
  rc_ordinal :: nat
  rc_heading_path :: "string list"
  rc_anchor_ids :: "string list"
  rc_text :: string

type_synonym chunk_digest = "json \<Rightarrow> string"

definition chunk_id_of :: "chunk_digest \<Rightarrow> string \<Rightarrow> string list \<Rightarrow> nat \<Rightarrow> string" where
  "chunk_id_of digest checksum anchors start_token =
     ''chunk-'' @ take 32 (digest (JObj [(''anchor_ids'', JList (map JStr anchors)),
       (''chunker_version'', JStr CHUNKER_VERSION), (''source_checksum'', JStr checksum),
       (''start_token'', JInt (int start_token))]))"

definition token_count :: "string \<Rightarrow> nat" where
  "token_count v = length (str_split v)"

text \<open>The tokens of the entries with their anchors.\<close>

definition source_tokens :: "(string \<times> string) list \<Rightarrow> (string \<times> string) list" where
  "source_tokens entries = concat (map (\<lambda>(anchor, t). map (Pair anchor) (str_split t)) entries)"

text \<open>The loop over the tokens: the windows with the number of their first token.\<close>

fun token_windows :: "'t list \<Rightarrow> 't list \<Rightarrow> nat \<Rightarrow> ('t list \<times> nat) list" where
  "token_windows [] cur start = (if cur = [] then [] else [(cur, start)])"
| "token_windows (t # ts) cur start =
     (if cur \<noteq> [] \<and> length cur = MAX_CHUNK_TOKENS
      then (let overlap = drop (length cur - CHUNK_OVERLAP_TOKENS) cur
            in (cur, start) # token_windows ts (overlap @ [t]) (start + (MAX_CHUNK_TOKENS - length overlap)))
      else token_windows ts (cur @ [t]) start)"

text \<open>\<open>dict.fromkeys\<close>: the keys in the order of their first occurrence.\<close>

definition unique_anchors :: "string list \<Rightarrow> string list" where
  "unique_anchors as = rev (remdups (rev as))"

definition chunk_from_tokens ::
  "chunk_digest \<Rightarrow> string \<Rightarrow> string list \<Rightarrow> (string \<times> string) list \<Rightarrow> nat \<Rightarrow> nat \<Rightarrow> retrieval_chunk" where
  "chunk_from_tokens digest checksum path tokens ordinal start_token =
     (let anchors = unique_anchors (map fst tokens)
      in \<lparr>rc_chunk_id = chunk_id_of digest checksum anchors start_token, rc_ordinal = ordinal, rc_heading_path = path,
          rc_anchor_ids = anchors, rc_text = join_with '' '' (map snd tokens)\<rparr>)"

fun number_windows ::
  "chunk_digest \<Rightarrow> string \<Rightarrow> string list \<Rightarrow> ((string \<times> string) list \<times> nat) list \<Rightarrow> nat \<Rightarrow> retrieval_chunk list" where
  "number_windows digest checksum path [] n = []"
| "number_windows digest checksum path ((tokens, start) # ws) n =
     chunk_from_tokens digest checksum path tokens n start # number_windows digest checksum path ws (Suc n)"

definition group_text :: "(string \<times> string) list \<Rightarrow> string" where
  "group_text entries = join_with [char_of (10::nat)] (map snd entries)"

definition chunks_for_group ::
  "chunk_digest \<Rightarrow> string \<Rightarrow> string list \<Rightarrow> (string \<times> string) list \<Rightarrow> nat \<Rightarrow> retrieval_chunk list" where
  "chunks_for_group digest checksum path entries ordinal =
     (if token_count (group_text entries) \<le> MAX_CHUNK_TOKENS
      then (let anchors = map fst entries
            in [\<lparr>rc_chunk_id = chunk_id_of digest checksum anchors 0, rc_ordinal = ordinal, rc_heading_path = path,
                 rc_anchor_ids = anchors, rc_text = group_text entries\<rparr>])
      else number_windows digest checksum path (token_windows (source_tokens entries) [] 0) ordinal)"

section \<open>Sections\<close>

type_synonym chunk_groups = "(string list \<times> (string \<times> string) list) list"

definition add_entry :: "string list \<Rightarrow> string \<times> string \<Rightarrow> chunk_groups \<Rightarrow> chunk_groups" where
  "add_entry path e groups =
     (if groups = [] then [(path, [e])]
      else butlast groups @ [(fst (last groups), snd (last groups) @ [e])])"

text \<open>The loop over the blocks; a block that is no object has no \<open>get\<close>.\<close>

fun group_blocks :: "json list \<Rightarrow> string list \<Rightarrow> chunk_groups \<Rightarrow> chunk_groups result" where
  "group_blocks [] path groups = Inr groups"
| "group_blocks (block # bs) path groups =
     (if \<not> is_json_object block then Inl (AttributeError ''get'')
      else
        bindR (required_string block ''text'') (\<lambda>raw.
        let t = str_strip raw
        in if t = [] then group_blocks bs path groups
           else
             bindR (required_string block ''anchor_id'') (\<lambda>anchor.
             if json_get block ''kind'' = Some (JStr ''heading'')
             then group_blocks bs (path @ [t]) (groups @ [(path @ [t], [(anchor, t)])])
             else group_blocks bs path (add_entry path (anchor, t) groups))))"

fun chunk_groups_of :: "chunk_digest \<Rightarrow> string \<Rightarrow> chunk_groups \<Rightarrow> retrieval_chunk list \<Rightarrow> retrieval_chunk list" where
  "chunk_groups_of digest checksum [] acc = acc"
| "chunk_groups_of digest checksum ((path, entries) # gs) acc =
     chunk_groups_of digest checksum gs (acc @ chunks_for_group digest checksum path entries (length acc))"

definition structural_chunks :: "chunk_digest \<Rightarrow> json \<Rightarrow> retrieval_chunk list result" where
  "structural_chunks digest manifest =
     bindR (source_checksum manifest) (\<lambda>checksum.
     bindR (manifest_blocks manifest) (\<lambda>blocks.
     bindR (group_blocks blocks [] []) (\<lambda>groups.
     Inr (chunk_groups_of digest checksum groups []))))"

section \<open>The sink\<close>

definition manifest_from_artifact :: "(string \<Rightarrow> json option) \<Rightarrow> object_store \<Rightarrow> string \<Rightarrow> json result" where
  "manifest_from_artifact decode store key =
     (case store key of
        None \<Rightarrow> Inl (ValueError ''Canonical analysis artifact is unavailable'')
      | Some (_, content) \<Rightarrow>
          bindR (some_or (decode content) (ValueError ''json'')) (\<lambda>v.
          if is_json_object v then Inr v else Inl (ValueError ''Canonical analysis artifact must be an object'')))"

definition chunk_row_of :: "uuid \<Rightarrow> uuid \<Rightarrow> uuid \<Rightarrow> uuid \<Rightarrow> string \<Rightarrow> retrieval_chunk \<Rightarrow> chunk_row" where
  "chunk_row_of g w agreement build checksum c = \<lparr>ck_chunk_id = rc_chunk_id c, ck_org = g, ck_ws = w,
     ck_agreement = agreement, ck_build = build, ck_source_checksum = checksum, ck_chunker_version = CHUNKER_VERSION,
     ck_ordinal = int (rc_ordinal c), ck_heading_path = rc_heading_path c, ck_anchor_ids = rc_anchor_ids c,
     ck_content = rc_text c\<rparr>"

definition new_build :: "uuid \<Rightarrow> uuid \<Rightarrow> uuid \<Rightarrow> uuid \<Rightarrow> string \<Rightarrow> datetime \<Rightarrow> index_build_row" where
  "new_build i g w agreement checksum now = \<lparr>ib_id = i, ib_org = g, ib_ws = w, ib_agreement = agreement,
     ib_source_checksum = checksum, ib_chunker_version = CHUNKER_VERSION, ib_state = ''building'',
     ib_created_at = now, ib_activated_at = None\<rparr>"

definition same_scope_build :: "uuid \<Rightarrow> uuid \<Rightarrow> uuid \<Rightarrow> index_build_row \<Rightarrow> bool" where
  "same_scope_build g w agreement b \<longleftrightarrow> ib_org b = g \<and> ib_ws b = w \<and> ib_agreement b = agreement"

definition stale_builds :: "'z processing_db_scheme \<Rightarrow> uuid \<Rightarrow> uuid \<Rightarrow> uuid \<Rightarrow> uuid \<Rightarrow> uuid list" where
  "stale_builds s g w agreement build =
     map ib_id (filter (\<lambda>b. same_scope_build g w agreement b \<and> ib_state b = ''active'' \<and> ib_id b \<noteq> build)
       (index_builds s))"

text \<open>The rows of the build: made new, or cleared of its chunks.\<close>

definition prepare_build ::
  "uuid \<Rightarrow> uuid \<Rightarrow> uuid \<Rightarrow> string \<Rightarrow> datetime \<Rightarrow> index_build_row option \<Rightarrow> 'z processing_db_scheme
   \<Rightarrow> uuid \<times> 'z processing_db_scheme" where
  "prepare_build g w agreement checksum now build s =
     (case build of
        None \<Rightarrow> (uuid4 s, draw s\<lparr>index_builds := index_builds s @ [new_build (uuid4 s) g w agreement checksum now]\<rparr>)
      | Some b \<Rightarrow> (ib_id b, s\<lparr>chunks := filter (\<lambda>c. ck_build c \<noteq> ib_id b) (chunks s)\<rparr>))"

definition activate_build ::
  "uuid \<Rightarrow> uuid \<Rightarrow> uuid \<Rightarrow> uuid \<Rightarrow> datetime \<Rightarrow> 'z processing_db_scheme \<Rightarrow> 'z processing_db_scheme" where
  "activate_build g w agreement build now s =
     (let stale = stale_builds s g w agreement build;
          bs = update_where (\<lambda>b. ib_id b \<in> set stale) (\<lambda>b. b\<lparr>ib_state := ''stale''\<rparr>) (index_builds s)
      in s\<lparr>index_builds := update_where (\<lambda>b. ib_id b = build)
             (\<lambda>b. b\<lparr>ib_state := ''active'', ib_activated_at := Some now\<rparr>) bs,
           chunk_embeddings := filter (\<lambda>e. ce_build e \<notin> set stale) (chunk_embeddings s),
           chunks := filter (\<lambda>c. ck_build c \<notin> set stale) (chunks s)\<rparr>)"

definition index_completed ::
  "chunk_digest \<Rightarrow> (string \<Rightarrow> json option) \<Rightarrow> datetime \<Rightarrow> processing_job \<Rightarrow> completed_artifact \<Rightarrow> object_store
   \<Rightarrow> 'z processing_db_scheme \<Rightarrow> 'z processing_db_scheme result" where
  "index_completed digest decode now job artifact store s =
     (case (pj_org job, pj_ws job) of
        (Some g, Some w) \<Rightarrow>
          bindR (manifest_from_artifact decode store (ca_key artifact)) (\<lambda>manifest.
          bindR (source_checksum manifest) (\<lambda>checksum.
          bindR (structural_chunks digest manifest) (\<lambda>cs.
          if \<not> lock_active_agreement s (pj_agreement job) (Some g) (Some w) then Inr s
          else
            (let found = find (\<lambda>b. same_scope_build g w (pj_agreement job) b \<and> ib_source_checksum b = checksum \<and>
                     ib_chunker_version b = CHUNKER_VERSION) (index_builds s)
             in if (case found of None \<Rightarrow> False | Some b \<Rightarrow> ib_state b = ''active'') then Inr s
                else if cs = [] then Inl (IntegrityError ''not null'')
                else
                  (case prepare_build g w (pj_agreement job) checksum now found s of
                     (build, s) \<Rightarrow>
                       Inr (activate_build g w (pj_agreement job) build now
                         (s\<lparr>chunks := chunks s @ map (chunk_row_of g w (pj_agreement job) build checksum) cs\<rparr>)))))))
      | _ \<Rightarrow> Inl (ValueError ''Document index requires tenant scope''))"

end
