(* ===== verification/Document_Chunks.thy ===== *)
theory Document_Chunks
  imports Document_Indexing "HOL-Library.Sublist"
begin

text \<open>
  The chunks of a section cover it: none is longer than the limit, and no passage of up to 101 tokens is cut.
\<close>

section \<open>Windows\<close>

lemma window_lengths: "MAX_CHUNK_TOKENS = 1000" "CHUNK_OVERLAP_TOKENS = 100"
  by (simp_all add: MAX_CHUNK_TOKENS_def CHUNK_OVERLAP_TOKENS_def)

definition covering :: "'t list \<Rightarrow> nat \<Rightarrow> ('t list \<times> nat) list \<Rightarrow> bool" where
  "covering T start ws \<longleftrightarrow> (\<forall>(w, st) \<in> set ws. w = take 1000 (drop st T)) \<and>
     (\<forall>i. start \<le> i \<and> i < length T \<longrightarrow> (\<exists>(w, st) \<in> set ws. st \<le> i \<and> (i + 100 < st + 1000 \<or> length T \<le> st + 1000)))"

lemma token_windows_covering:
  assumes "T = P @ ts" "cur = drop start P" "length cur \<le> 1000" "start \<le> length P"
  shows "covering T start (token_windows ts cur start)"
  using assms
proof (induction ts cur start arbitrary: P rule: token_windows.induct)
  case (1 cur start)
  then show ?case by (auto simp: covering_def)
next
  case (2 t ts cur start)
  show ?case
  proof (cases "cur \<noteq> [] \<and> length cur = MAX_CHUNK_TOKENS")
    case True
    then have l: "length cur = 1000" "length P = start + 1000" using 2(4,6) by (auto simp: window_lengths)
    have o: "drop (length cur - CHUNK_OVERLAP_TOKENS) cur = drop (start + 900) P" "length (drop (start + 900) P) = 100"
      using l 2(4) by (simp_all add: window_lengths add.commute)
    have e: "token_windows (t # ts) cur start = (cur, start) # token_windows ts (drop (start + 900) P @ [t]) (start + 900)"
      using l 2(4) by (simp add: Let_def window_lengths add.commute)
    have "covering T (start + 900) (token_windows ts (drop (start + 900) P @ [t]) (start + 900))"
      using 2(1) [OF True o(1) [symmetric], of "P @ [t]"] o l 2(3) by (simp add: window_lengths)
    moreover have "cur = take 1000 (drop start T)" using 2(3,4) l by simp
    ultimately show ?thesis unfolding covering_def e by (auto simp: not_less)
  next
    case False
    then have "length (cur @ [t]) \<le> 1000" using 2(4-6) by (auto simp: window_lengths)
    then show ?thesis using 2(2) [OF False, of "P @ [t]"] False 2(3,4,6) by auto
  qed
qed

section \<open>The chunks of a section\<close>

text \<open>The words of a section, and a passage: up to 101 of them from one on.\<close>

definition section_words :: "(string \<times> string) list \<Rightarrow> string list" where
  "section_words entries = map snd (source_tokens entries)"

definition passage :: "string list \<Rightarrow> nat \<Rightarrow> string list" where
  "passage ws i = take 101 (drop i ws)"

lemma sublist_slice: "sublist (take n (drop i xs)) xs"
  using sublist_def by (metis append_take_drop_id)

lemma passage_in_window:
  assumes "st \<le> i" "i + 100 < st + 1000 \<or> length T \<le> st + 1000"
  shows "sublist (passage T i) (take 1000 (drop st T))"
proof -
  have d: "drop (i - st) (take 1000 (drop st T)) = take (1000 - (i - st)) (drop i T)"
    using assms(1) by (simp add: drop_take)
  have "take 101 (take (1000 - (i - st)) (drop i T)) = take 101 (drop i T)"
  proof (cases "101 \<le> 1000 - (i - st)")
    case False
    then have "length T \<le> st + 1000" using assms by arith
    then have "length (drop i T) \<le> 1000 - (i - st)" using assms(1) by simp
    then show ?thesis by simp
  qed (simp add: min_def)
  then have "passage T i = take 101 (drop (i - st) (take 1000 (drop st T)))" by (simp add: passage_def d)
  then show ?thesis using sublist_slice by metis
qed

lemma split_words: "w \<in> set (str_split s) \<Longrightarrow> w \<noteq> [] \<and> (\<forall>c \<in> set w. \<not> is_space c)"
  unfolding str_split_def by (rule runs_nonempty)

lemma source_token_words: "t \<in> set (source_tokens entries) \<Longrightarrow> snd t \<noteq> [] \<and> (\<forall>c \<in> set (snd t). \<not> is_space c)"
  by (auto simp: source_tokens_def dest: split_words)

lemma spaces_are_spaces: "is_space CHR '' ''" "is_space (char_of (10::nat))"
  by (simp_all add: is_space_def)

lemma split_window:
  assumes "set ts \<subseteq> set (source_tokens entries)"
  shows "str_split (join_with '' '' (map snd ts)) = map snd ts"
  unfolding str_split_def
  by (rule split_join_words) (use assms source_token_words spaces_are_spaces in auto)

lemma split_group: "str_split (group_text entries) = section_words entries"
proof -
  have "str_split (group_text entries) = concat (map str_split (map snd entries))"
    unfolding str_split_def group_text_def by (rule split_join_texts) (simp add: spaces_are_spaces)
  also have "\<dots> = section_words entries"
    unfolding section_words_def source_tokens_def by (induction entries) (auto simp: comp_def)
  finally show ?thesis .
qed

lemma in_number_windows:
  "c \<in> set (number_windows digest checksum path ws n) \<Longrightarrow>
     \<exists>w st. (w, st) \<in> set ws \<and> rc_text c = join_with '' '' (map snd w) \<and> rc_anchor_ids c = unique_anchors (map fst w)"
proof (induction ws arbitrary: n)
  case (Cons x ws)
  obtain w st where x: "x = (w, st)" by (cases x)
  consider "c = chunk_from_tokens digest checksum path w n st" | "c \<in> set (number_windows digest checksum path ws (Suc n))"
    using Cons.prems by (auto simp: x)
  then show ?case
  proof cases
    case 1
    then show ?thesis unfolding x by (intro exI [of _ w] exI [of _ st]) (simp add: chunk_from_tokens_def Let_def)
  next
    case 2
    then show ?thesis using Cons.IH [OF 2] by (meson list.set_intros(2))
  qed
qed simp

lemma number_windows_in:
  "(w, st) \<in> set ws \<Longrightarrow> \<exists>c \<in> set (number_windows digest checksum path ws n). rc_text c = join_with '' '' (map snd w)"
  by (induction ws arbitrary: n) (auto simp: chunk_from_tokens_def Let_def)

text \<open>
  C34: Chunks cover their section without cutting passages. No chunk of a section is longer than 1000 words, each is
  a stretch of the section, and every passage of up to 101 words of the section stands uncut in one of them.
\<close>

theorem chunks_cover_section:
  shows "(\<forall>c \<in> set (chunks_for_group digest checksum path entries n).
       token_count (rc_text c) \<le> 1000 \<and> sublist (str_split (rc_text c)) (section_words entries)) \<and>
    (\<forall>i < length (section_words entries). \<exists>c \<in> set (chunks_for_group digest checksum path entries n).
       sublist (passage (section_words entries) i) (str_split (rc_text c)))"
proof (cases "token_count (group_text entries) \<le> MAX_CHUNK_TOKENS")
  case True
  then show ?thesis using sublist_slice
    by (auto simp: chunks_for_group_def Let_def split_group window_lengths passage_def)
next
  case False
  let ?T = "source_tokens entries" and ?ws = "token_windows (source_tokens entries) [] 0"
  have c: "chunks_for_group digest checksum path entries n = number_windows digest checksum path ?ws n"
    using False by (simp add: chunks_for_group_def)
  have v: "covering ?T 0 ?ws" by (rule token_windows_covering [of _ "[]"]) simp_all
  have w: "str_split (join_with '' '' (map snd (take 1000 (drop st ?T)))) = take 1000 (drop st (section_words entries))" for st
    using split_window [of "take 1000 (drop st ?T)" entries] set_take_subset set_drop_subset
    by (metis (no_types, lifting) section_words_def dual_order.trans take_map drop_map)
  show ?thesis unfolding c
  proof (intro conjI ballI allI impI)
    fix x assume "x \<in> set (number_windows digest checksum path ?ws n)"
    then obtain u st where "(u, st) \<in> set ?ws" "rc_text x = join_with '' '' (map snd u)" using in_number_windows by blast
    then have x: "str_split (rc_text x) = take 1000 (drop st (section_words entries))"
      using v w unfolding covering_def by fastforce
    show "token_count (rc_text x) \<le> 1000" by (simp add: token_count_def x)
    show "sublist (str_split (rc_text x)) (section_words entries)" by (simp add: x sublist_slice)
  next
    fix i assume "i < length (section_words entries)"
    then obtain u st where u: "(u, st) \<in> set ?ws" "st \<le> i" "i + 100 < st + 1000 \<or> length ?T \<le> st + 1000"
      using v unfolding covering_def section_words_def by auto
    obtain x where x: "x \<in> set (number_windows digest checksum path ?ws n)" "rc_text x = join_with '' '' (map snd u)"
      using number_windows_in [OF u(1)] by blast
    have "str_split (rc_text x) = take 1000 (drop st (section_words entries))"
      using v w u(1) x(2) unfolding covering_def by fastforce
    then have "sublist (passage (section_words entries) i) (str_split (rc_text x))"
      using passage_in_window [OF u(2), of "section_words entries"] u(3) by (simp add: section_words_def)
    then show "\<exists>x \<in> set (number_windows digest checksum path ?ws n). sublist (passage (section_words entries) i) (str_split (rc_text x))"
      using x(1) by blast
  qed
qed

theorem chunks_cover_section_witness:
  "\<exists>c \<in> set (chunks_for_group (\<lambda>_. ''d'') ''s'' [] [(''a1'', ''Fees are due''), (''a2'', ''monthly.'')] 0).
     sublist [''are'', ''due'', ''monthly.''] (str_split (rc_text c))"
proof -
  have "section_words [(''a1'', ''Fees are due''), (''a2'', ''monthly.'')] = [''Fees'', ''are'', ''due'', ''monthly.'']"
    by code_simp
  then show ?thesis
    using chunks_cover_section [of "\<lambda>_. ''d''" "''s''" "[]" "[(''a1'', ''Fees are due''), (''a2'', ''monthly.'')]" 0,
        THEN conjunct2, rule_format, of 1] by (simp add: passage_def)
qed

end
