(* ===== verification/AI_Configuration.thy ===== *)
theory AI_Configuration
  imports Processing_Service
begin

text \<open>
  The versioned AI configurations of a workspace (\<open>ai_config/models.py\<close>, \<open>ai_config/schemas.py\<close>,
  \<open>ai_config/service.py\<close>) and their resolution by the worker (\<open>ai_configuration.py\<close>), which reads the same tables.
  The digests, the JSON Schema checker and the deployment's environment name are parameters. A response is the
  row it projects, once its operation is one of the enumeration.
\<close>

section \<open>Operations\<close>

datatype ai_operation = DocumentAnalysis | Embedding | GroundedQa | VersionMateriality

fun ai_operation_value :: "ai_operation \<Rightarrow> string" where
  "ai_operation_value DocumentAnalysis = ''document_analysis''"
| "ai_operation_value Embedding = ''embedding''"
| "ai_operation_value GroundedQa = ''grounded_qa''"
| "ai_operation_value VersionMateriality = ''version_materiality''"

definition ai_operation_of :: "string \<Rightarrow> ai_operation result" where
  "ai_operation_of v =
     some_or (find (\<lambda>a. ai_operation_value a = v) [DocumentAnalysis, Embedding, GroundedQa, VersionMateriality])
       (ValueError v)"

section \<open>Tables\<close>

record ai_version_row =
  av_id :: uuid
  av_org :: uuid
  av_ws :: uuid
  av_operation :: string
  av_version :: string
  av_prompt :: string
  av_prompt_checksum :: string
  av_schema :: json
  av_schema_checksum :: string
  av_route :: string
  av_parameters :: json
  av_status :: string
  av_created_by :: uuid
  av_created_at :: datetime
  av_published_at :: "datetime option"

record ai_promotion_row =
  ap_id :: uuid
  ap_org :: uuid
  ap_ws :: uuid
  ap_configuration :: uuid
  ap_operation :: string
  ap_environment :: string
  ap_promoted_by :: uuid
  ap_promoted_at :: datetime

record ai_audit_row =
  ax_id :: uuid
  ax_org :: uuid
  ax_ws :: uuid
  ax_configuration :: uuid
  ax_actor :: uuid
  ax_action :: string
  ax_metadata :: json
  ax_occurred_at :: datetime

record ai_db = processing_db +
  ai_versions :: "ai_version_row list"
  ai_promotions :: "ai_promotion_row list"
  ai_audit :: "ai_audit_row list"

lemma draw_ai [simp]:
  "ai_versions (draw s) = ai_versions s" "ai_promotions (draw s) = ai_promotions s" "ai_audit (draw s) = ai_audit s"
  by (simp_all add: draw_def)

text \<open>What the service takes from outside: \<open>sha256\<close> of a text and of a canonical JSON text, \<open>check_schema\<close>, and
  \<open>AI_CONFIGURATION_ENVIRONMENT\<close>.\<close>

record ai_externals =
  cx_sha256 :: "string \<Rightarrow> string"
  cx_json_sha256 :: "json \<Rightarrow> string"
  cx_schema_ok :: "json \<Rightarrow> bool"
  cx_environment :: string

record create_ai_request =
  ci_operation :: ai_operation
  ci_version :: string
  ci_prompt :: string
  ci_schema :: json
  ci_route :: string
  ci_parameters :: json

text \<open>\<open>schema_must_be_an_object\<close>: the validator of the request.\<close>

definition schema_must_be_an_object :: "json \<Rightarrow> json result" where
  "schema_must_be_an_object v = (if v = JObj [] then Inl (ValueError ''schema must not be empty'') else Inr v)"

section \<open>Validation\<close>

text \<open>\<open>partition(":")\<close>: what precedes the first colon, whether there is one, and what follows it.\<close>

definition partition_colon :: "string \<Rightarrow> string \<times> bool \<times> string" where
  "partition_colon s =
     (takeWhile (\<lambda>c. c \<noteq> CHR '':'') s, CHR '':'' \<in> set s, drop 1 (dropWhile (\<lambda>c. c \<noteq> CHR '':'') s))"

fun config_json_keys :: "json \<Rightarrow> string list" where
  "config_json_keys (JObj kvs) = map fst kvs"
| "config_json_keys _ = []"

definition only_keys :: "string list \<Rightarrow> json \<Rightarrow> bool" where
  "only_keys allowed v \<longleftrightarrow> list_all (\<lambda>k. k \<in> set allowed) (config_json_keys v)"

text \<open>\<open>x in {"float", "base64"}\<close> hashes \<open>x\<close>, which a list or a dictionary refuses.\<close>

fun encoding_supported :: "json option \<Rightarrow> bool result" where
  "encoding_supported None = Inr True"
| "encoding_supported (Some JNull) = Inr True"
| "encoding_supported (Some (JStr f)) = Inr (f = ''float'' \<or> f = ''base64'')"
| "encoding_supported (Some (JList _)) = Inl (TypeError ''unhashable type: list'')"
| "encoding_supported (Some (JObj _)) = Inl (TypeError ''unhashable type: dict'')"
| "encoding_supported (Some _) = Inr False"

fun temperature_supported :: "json option \<Rightarrow> bool" where
  "temperature_supported None \<longleftrightarrow> True"
| "temperature_supported (Some JNull) \<longleftrightarrow> True"
| "temperature_supported (Some (JInt _)) \<longleftrightarrow> True"
| "temperature_supported (Some (JFloat _)) \<longleftrightarrow> True"
| "temperature_supported (Some _) \<longleftrightarrow> False"

fun token_limit_supported :: "json option \<Rightarrow> bool" where
  "token_limit_supported None \<longleftrightarrow> True"
| "token_limit_supported (Some (JInt v)) \<longleftrightarrow> 0 < v"
| "token_limit_supported (Some _) \<longleftrightarrow> False"

definition supported_runtime_configuration :: "ai_version_row \<Rightarrow> bool result" where
  "supported_runtime_configuration r =
     (let (provider, separator, model) = partition_colon (av_route r); ps = av_parameters r
      in if \<not> separator \<or> provider \<notin> {''openai'', ''openai-compatible''} \<or> str_strip model = [] then Inr False
         else if av_operation r = ai_operation_value Embedding then
           (if \<not> only_keys [''encoding_format''] ps then Inr False
            else encoding_supported (json_get ps ''encoding_format''))
         else if \<not> only_keys (if provider = ''openai'' then [''temperature'', ''max_output_tokens'']
                  else [''temperature'', ''max_tokens'']) ps then Inr False
         else Inr (temperature_supported (json_get ps ''temperature'') \<and>
                   token_limit_supported (json_get ps ''max_output_tokens'') \<and>
                   token_limit_supported (json_get ps ''max_tokens'')))"

definition ensure_valid_configuration :: "ai_externals \<Rightarrow> ai_version_row \<Rightarrow> unit result" where
  "ensure_valid_configuration x r =
     bindR (require (str_strip (av_prompt r) \<noteq> [] \<and> config_json_keys (av_schema r) \<noteq> [] \<and> str_strip (av_route r) \<noteq> [] \<and>
         av_prompt_checksum r = cx_sha256 x (av_prompt r) \<and> av_schema_checksum r = cx_json_sha256 x (av_schema r))
       (http_error 422 ''invalid_ai_configuration_draft'')) (\<lambda>_.
     bindR (require (cx_schema_ok x (av_schema r)) (http_error 422 ''invalid_ai_configuration_schema'')) (\<lambda>_.
     bindR (supported_runtime_configuration r) (\<lambda>supported.
     require supported (http_error 422 ''unsupported_ai_configuration''))))"

definition ensure_draft_configuration :: "ai_version_row \<Rightarrow> unit result" where
  "ensure_draft_configuration r =
     require (av_status r = ''draft'') (http_error 409 ''published_ai_configuration_immutable'')"

section \<open>The service\<close>

definition authorize_ai :: "'z identity_db_scheme \<Rightarrow> uuid \<Rightarrow> uuid \<Rightarrow> uuid \<Rightarrow> unit result" where
  "authorize_ai s actor g w = require (can_access_workspace s actor g w PLAYBOOKS_MANAGE) hide_resource"

definition configuration_record :: "'z ai_db_scheme \<Rightarrow> uuid \<Rightarrow> uuid \<Rightarrow> uuid \<Rightarrow> ai_version_row result" where
  "configuration_record s i g w =
     some_or (find (\<lambda>r. av_id r = i \<and> av_org r = g \<and> av_ws r = w) (ai_versions s)) hide_resource"

definition configuration_response :: "ai_version_row \<Rightarrow> ai_version_row result" where
  "configuration_response r = bindR (ai_operation_of (av_operation r)) (\<lambda>_. Inr r)"

definition promotion_response :: "ai_promotion_row \<Rightarrow> ai_promotion_row result" where
  "promotion_response p = bindR (ai_operation_of (ap_operation p)) (\<lambda>_. Inr p)"

definition audit_configuration ::
  "ai_version_row \<Rightarrow> uuid \<Rightarrow> string \<Rightarrow> string option \<Rightarrow> nat option \<Rightarrow> datetime \<Rightarrow> 'z ai_db_scheme \<Rightarrow> 'z ai_db_scheme" where
  "audit_configuration r actor action environment reindex clock s = draw s\<lparr>ai_audit := ai_audit s @
     [\<lparr>ax_id = uuid4 s, ax_org = av_org r, ax_ws = av_ws r, ax_configuration = av_id r, ax_actor = actor,
       ax_action = action,
       ax_metadata = JObj ([(''operation'', JStr (av_operation r)), (''version'', JStr (av_version r)),
         (''prompt_checksum'', JStr (av_prompt_checksum r)), (''schema_checksum'', JStr (av_schema_checksum r))]
         @ (case environment of None \<Rightarrow> [] | Some e \<Rightarrow> [(''environment'', JStr e)])
         @ (case reindex of None \<Rightarrow> [] | Some n \<Rightarrow> [(''reindex_job_count'', JStr (str_nat n))])),
       ax_occurred_at = clock\<rparr>]\<rparr>"

definition draft_of_request ::
  "ai_externals \<Rightarrow> uuid \<Rightarrow> uuid \<Rightarrow> uuid \<Rightarrow> uuid \<Rightarrow> create_ai_request \<Rightarrow> datetime \<Rightarrow> ai_version_row" where
  "draft_of_request x i actor g w q clock =
     \<lparr>av_id = i, av_org = g, av_ws = w, av_operation = ai_operation_value (ci_operation q), av_version = ci_version q,
      av_prompt = ci_prompt q, av_prompt_checksum = cx_sha256 x (ci_prompt q), av_schema = ci_schema q,
      av_schema_checksum = cx_json_sha256 x (ci_schema q), av_route = ci_route q, av_parameters = ci_parameters q,
      av_status = ''draft'', av_created_by = actor, av_created_at = clock, av_published_at = None\<rparr>"

text \<open>\<open>uq_ai_configuration_scope_operation_version\<close>.\<close>

definition same_configuration_key :: "ai_version_row \<Rightarrow> ai_version_row \<Rightarrow> bool" where
  "same_configuration_key r v \<longleftrightarrow> av_org v = av_org r \<and> av_ws v = av_ws r \<and> av_operation v = av_operation r \<and>
     av_version v = av_version r"

definition create_configuration ::
  "ai_externals \<Rightarrow> 'z ai_db_scheme \<Rightarrow> uuid \<Rightarrow> uuid \<Rightarrow> uuid \<Rightarrow> create_ai_request \<Rightarrow> datetime
   \<Rightarrow> (ai_version_row \<times> 'z ai_db_scheme) result" where
  "create_configuration x s actor g w q clock =
     bindR (authorize_ai s actor g w) (\<lambda>_.
     let r = draft_of_request x (uuid4 s) actor g w q clock; s = draw s
     in bindR (require (\<not> exists_row (same_configuration_key r) (ai_versions s))
          (http_error 409 ''ai_configuration_version_conflict'')) (\<lambda>_.
        bindR (configuration_response r) (\<lambda>response.
        Inr (response, audit_configuration r actor ''draft_created'' None None clock
          (s\<lparr>ai_versions := ai_versions s @ [r]\<rparr>)))))"

definition validate_configuration ::
  "ai_externals \<Rightarrow> 'z ai_db_scheme \<Rightarrow> uuid \<Rightarrow> uuid \<Rightarrow> uuid \<Rightarrow> uuid \<Rightarrow> ai_version_row result" where
  "validate_configuration x s actor g w i =
     bindR (authorize_ai s actor g w) (\<lambda>_.
     bindR (configuration_record s i g w) (\<lambda>r.
     bindR (ensure_valid_configuration x r) (\<lambda>_. configuration_response r)))"

definition publish_configuration ::
  "ai_externals \<Rightarrow> 'z ai_db_scheme \<Rightarrow> uuid \<Rightarrow> uuid \<Rightarrow> uuid \<Rightarrow> uuid \<Rightarrow> datetime \<Rightarrow> datetime
   \<Rightarrow> (ai_version_row \<times> 'z ai_db_scheme) result" where
  "publish_configuration x s actor g w i now clock =
     bindR (authorize_ai s actor g w) (\<lambda>_.
     bindR (configuration_record s i g w) (\<lambda>r.
     bindR (ensure_draft_configuration r) (\<lambda>_.
     bindR (ensure_valid_configuration x r) (\<lambda>_.
     let r = r\<lparr>av_status := ''published'', av_published_at := Some now\<rparr>
     in bindR (configuration_response r) (\<lambda>response.
        Inr (response, audit_configuration r actor ''published'' None None clock
          (s\<lparr>ai_versions := update_where (\<lambda>v. av_id v = i)
             (\<lambda>v. v\<lparr>av_status := ''published'', av_published_at := Some now\<rparr>) (ai_versions s)\<rparr>)))))))"

text \<open>The reindex jobs of a promoted embedding configuration.\<close>

definition reindex_profile :: "ai_version_row \<Rightarrow> string" where
  "reindex_profile r = ''embedding-reindex:'' @ av_id r"

definition reindex_key :: "ai_version_row \<Rightarrow> index_build_row \<Rightarrow> string" where
  "reindex_key r b = ''ai-config:'' @ av_id r @ '':embedding-reindex:'' @ ib_id b"

definition indexed_agreements :: "'z ai_db_scheme \<Rightarrow> ai_version_row \<Rightarrow> (index_build_row \<times> agreement_row) list" where
  "indexed_agreements s r =
     filter (\<lambda>(b, a). ag_id a = ib_agreement b \<and> ag_org a = ib_org b \<and> ag_ws a = ib_ws b \<and>
         ib_org b = av_org r \<and> ib_ws b = av_ws r \<and> ib_state b = ''active'' \<and> ag_archived_at a = None \<and>
         ag_deletion_requested_at a = None)
       (List.product (index_builds s) (agreements s))"

definition reindex_job ::
  "uuid \<Rightarrow> ai_version_row \<Rightarrow> index_build_row \<Rightarrow> agreement_row \<Rightarrow> datetime \<Rightarrow> job_row" where
  "reindex_job i r b a now =
     \<lparr>jb_id = i, jb_org = av_org r, jb_ws = av_ws r, jb_agreement = ag_id a, jb_version = None,
      jb_idempotency_key = reindex_key r b, jb_profile = reindex_profile r, jb_source_storage_key = None,
      jb_source_checksum = Some (ib_source_checksum b), jb_source_content_type = None, jb_state = JQueued,
      jb_attempt_count = 0, jb_failure_category = None, jb_failure_message = None, jb_next_retry_at = None,
      jb_claim_token = None, jb_claim_lease_expires_at = None, jb_queued_at = now, jb_processing_started_at = None,
      jb_completed_at = None, jb_failed_at = None, jb_created_at = now, jb_updated_at = now\<rparr>"

fun enqueue_reindex ::
  "ai_version_row \<Rightarrow> datetime \<Rightarrow> (index_build_row \<times> agreement_row) list \<Rightarrow> nat \<Rightarrow> 'z ai_db_scheme
   \<Rightarrow> nat \<times> 'z ai_db_scheme" where
  "enqueue_reindex r now [] created s = (created, s)"
| "enqueue_reindex r now ((b, a) # rows) created s =
     (if exists_row (\<lambda>j. jb_agreement j = ag_id a \<and> jb_idempotency_key j = reindex_key r b) (jobs s)
      then enqueue_reindex r now rows created s
      else
        (let j = reindex_job (uuid4 s) r b a now
         in enqueue_reindex r now rows (created + 1) (enqueue_outbox j now (draw s\<lparr>jobs := jobs s @ [j]\<rparr>))))"

definition reindexes :: "ai_externals \<Rightarrow> ai_version_row \<Rightarrow> string \<Rightarrow> bool" where
  "reindexes x r environment \<longleftrightarrow> av_operation r = ai_operation_value Embedding \<and> environment = cx_environment x"

definition enqueue_embedding_reindex_jobs ::
  "ai_externals \<Rightarrow> ai_version_row \<Rightarrow> string \<Rightarrow> datetime \<Rightarrow> 'z ai_db_scheme \<Rightarrow> nat \<times> 'z ai_db_scheme" where
  "enqueue_embedding_reindex_jobs x r environment now s =
     (if \<not> reindexes x r environment then (0, s) else enqueue_reindex r now (indexed_agreements s r) 0 s)"

definition promotion_of ::
  "uuid \<Rightarrow> ai_version_row \<Rightarrow> string \<Rightarrow> uuid \<Rightarrow> datetime \<Rightarrow> ai_promotion_row" where
  "promotion_of i r environment actor clock =
     \<lparr>ap_id = i, ap_org = av_org r, ap_ws = av_ws r, ap_configuration = av_id r, ap_operation = av_operation r,
      ap_environment = environment, ap_promoted_by = actor, ap_promoted_at = clock\<rparr>"

definition promote_configuration ::
  "ai_externals \<Rightarrow> (processing_outbox_row \<Rightarrow> bool) \<Rightarrow> 'z ai_db_scheme \<Rightarrow> uuid \<Rightarrow> uuid \<Rightarrow> uuid \<Rightarrow> uuid \<Rightarrow> string
   \<Rightarrow> datetime \<Rightarrow> datetime \<Rightarrow> (ai_promotion_row \<times> 'z ai_db_scheme) result" where
  "promote_configuration x publish s actor g w i environment now clock =
     bindR (authorize_ai s actor g w) (\<lambda>_.
     bindR (configuration_record s i g w) (\<lambda>r.
     bindR (require (av_status r = ''published'') (http_error 409 ''ai_configuration_not_published'')) (\<lambda>_.
     bindR (ensure_valid_configuration x r) (\<lambda>_.
     let p = promotion_of (uuid4 s) r environment actor clock;
         s = draw s\<lparr>ai_promotions := ai_promotions s @ [p]\<rparr>;
         (created, s) = enqueue_embedding_reindex_jobs x r environment now s;
         s = audit_configuration r actor ''promoted'' (Some environment) (Some created) clock s
     in bindR (promotion_response p) (\<lambda>response.
        Inr (response,
          if reindexes x r environment then snd (dispatch_processing publish now g w (max 10000 created) s) else s))))))"

text \<open>\<open>resolve\<close>: a version by its id, or the version promoted last.\<close>

definition newest_first :: "(ai_promotion_row \<times> ai_version_row) list \<Rightarrow> (ai_promotion_row \<times> ai_version_row) list" where
  "newest_first rows = rev (sort_key (\<lambda>(p, _). (ap_promoted_at p, ap_id p)) rows)"

definition first_row :: "'a list \<Rightarrow> 'a option" where
  "first_row xs = (case xs of [] \<Rightarrow> None | x # _ \<Rightarrow> Some x)"

definition resolve_response :: "ai_version_row option \<Rightarrow> ai_version_row option result" where
  "resolve_response r = (case r of None \<Rightarrow> Inr None | Some v \<Rightarrow> bindR (configuration_response v) (\<lambda>y. Inr (Some y)))"

definition promoted_versions ::
  "'z ai_db_scheme \<Rightarrow> uuid \<Rightarrow> uuid \<Rightarrow> string \<Rightarrow> string \<Rightarrow> (ai_promotion_row \<times> ai_version_row) list" where
  "promoted_versions s g w operation environment =
     filter (\<lambda>(p, v). ap_configuration p = av_id v \<and> ap_operation p = operation \<and> ap_environment p = environment \<and>
         ap_org p = g \<and> ap_ws p = w \<and> av_status v = ''published'')
       (List.product (ai_promotions s) (ai_versions s))"

definition resolve_promoted ::
  "'z ai_db_scheme \<Rightarrow> uuid \<Rightarrow> uuid \<Rightarrow> string \<Rightarrow> string \<Rightarrow> uuid option \<Rightarrow> ai_version_row option result" where
  "resolve_promoted s g w operation environment configuration_id =
     resolve_response
       (case configuration_id of
          Some i \<Rightarrow> find (\<lambda>v. av_id v = i \<and> av_org v = g \<and> av_ws v = w \<and> av_operation v = operation) (ai_versions s)
        | None \<Rightarrow> map_option snd (first_row (newest_first (promoted_versions s g w operation environment))))"

definition get_configuration ::
  "'z ai_db_scheme \<Rightarrow> uuid \<Rightarrow> uuid \<Rightarrow> uuid \<Rightarrow> uuid \<Rightarrow> ai_version_row result" where
  "get_configuration s actor g w i =
     bindR (authorize_ai s actor g w) (\<lambda>_. bindR (configuration_record s i g w) configuration_response)"

fun configuration_responses :: "ai_version_row list \<Rightarrow> ai_version_row list result" where
  "configuration_responses [] = Inr []"
| "configuration_responses (r # rs) =
     bindR (configuration_response r) (\<lambda>y. bindR (configuration_responses rs) (\<lambda>ys. Inr (y # ys)))"

definition list_configurations :: "'z ai_db_scheme \<Rightarrow> uuid \<Rightarrow> uuid \<Rightarrow> uuid \<Rightarrow> ai_version_row list result" where
  "list_configurations s actor g w =
     bindR (authorize_ai s actor g w) (\<lambda>_.
     configuration_responses (sort_key (\<lambda>r. (av_operation r, av_version r))
       (filter (\<lambda>r. av_org r = g \<and> av_ws r = w) (ai_versions s))))"

definition update_prompt ::
  "ai_externals \<Rightarrow> 'z ai_db_scheme \<Rightarrow> uuid \<Rightarrow> uuid \<Rightarrow> uuid \<Rightarrow> uuid \<Rightarrow> string
   \<Rightarrow> (ai_version_row \<times> 'z ai_db_scheme) result" where
  "update_prompt x s actor g w i prompt =
     bindR (authorize_ai s actor g w) (\<lambda>_.
     bindR (configuration_record s i g w) (\<lambda>r.
     bindR (ensure_draft_configuration r) (\<lambda>_.
     bindR (configuration_response (r\<lparr>av_prompt := prompt, av_prompt_checksum := cx_sha256 x prompt\<rparr>)) (\<lambda>response.
     Inr (response, s\<lparr>ai_versions := update_where (\<lambda>v. av_id v = i)
       (\<lambda>v. v\<lparr>av_prompt := prompt, av_prompt_checksum := cx_sha256 x prompt\<rparr>) (ai_versions s)\<rparr>)))))"

section \<open>The resolution by the worker\<close>

record resolved_configuration =
  vc_operation :: string
  vc_version :: string
  vc_prompt :: string
  vc_schema :: json
  vc_route :: string
  vc_parameters :: json
  vc_schema_checksum :: string

definition snapshot_of :: "ai_version_row \<Rightarrow> resolved_configuration" where
  "snapshot_of v = \<lparr>vc_operation = av_operation v, vc_version = av_version v, vc_prompt = av_prompt v,
     vc_schema = av_schema v, vc_route = av_route v, vc_parameters = av_parameters v,
     vc_schema_checksum = av_schema_checksum v\<rparr>"

definition built_in_configuration :: "ai_operation \<Rightarrow> resolved_configuration" where
  "built_in_configuration op = \<lparr>vc_operation = ai_operation_value op,
     vc_version = ''builtin.'' @ ai_operation_value op @ ''.v1'', vc_prompt = [], vc_schema = JObj [],
     vc_route = ''environment-default'', vc_parameters = JObj [], vc_schema_checksum = ''builtin''\<rparr>"

definition load_configuration ::
  "'z ai_db_scheme \<Rightarrow> ai_operation \<Rightarrow> string \<Rightarrow> uuid option \<Rightarrow> uuid option \<Rightarrow> resolved_configuration option" where
  "load_configuration s op environment g w =
     (case (g, w) of
        (Some g, Some w) \<Rightarrow>
          map_option (\<lambda>(p, v). snapshot_of v)
            (first_row (newest_first (filter (\<lambda>(p, v). av_id v = ap_configuration p \<and>
                ap_operation p = ai_operation_value op \<and> ap_environment p = environment \<and>
                ap_org p = g \<and> ap_ws p = w \<and> av_org v = g \<and> av_ws v = w \<and> av_status v = ''published'')
              (List.product (ai_promotions s) (ai_versions s)))))
      | _ \<Rightarrow> None)"

definition load_configuration_by_id ::
  "'z ai_db_scheme \<Rightarrow> ai_operation \<Rightarrow> uuid \<Rightarrow> uuid option \<Rightarrow> uuid option \<Rightarrow> resolved_configuration option" where
  "load_configuration_by_id s op i g w =
     (case (g, w) of
        (Some g, Some w) \<Rightarrow>
          map_option snapshot_of (find (\<lambda>v. av_id v = i \<and> av_operation v = ai_operation_value op \<and> av_org v = g \<and>
            av_ws v = w \<and> av_status v = ''published'') (ai_versions s))
      | _ \<Rightarrow> None)"

definition load_configuration_by_version ::
  "'z ai_db_scheme \<Rightarrow> ai_operation \<Rightarrow> string \<Rightarrow> uuid option \<Rightarrow> uuid option \<Rightarrow> resolved_configuration option" where
  "load_configuration_by_version s op version g w =
     (case (g, w) of
        (Some g, Some w) \<Rightarrow>
          map_option snapshot_of (find (\<lambda>v. av_version v = version \<and> av_operation v = ai_operation_value op \<and>
            av_org v = g \<and> av_ws v = w \<and> av_status v = ''published'') (ai_versions s))
      | _ \<Rightarrow> None)"

text \<open>The resolver of the environment: over the database, or without one.\<close>

definition resolve_configuration ::
  "'z ai_db_scheme option \<Rightarrow> ai_operation \<Rightarrow> string \<Rightarrow> uuid option \<Rightarrow> uuid option \<Rightarrow> resolved_configuration" where
  "resolve_configuration db op environment g w =
     (case Option.bind db (\<lambda>s. load_configuration s op environment g w) of
        Some c \<Rightarrow> c
      | None \<Rightarrow> built_in_configuration op)"

definition resolve_configuration_by_id ::
  "'z ai_db_scheme option \<Rightarrow> ai_operation \<Rightarrow> uuid \<Rightarrow> uuid option \<Rightarrow> uuid option \<Rightarrow> resolved_configuration option" where
  "resolve_configuration_by_id db op i g w = Option.bind db (\<lambda>s. load_configuration_by_id s op i g w)"

definition resolve_configuration_by_version ::
  "'z ai_db_scheme option \<Rightarrow> ai_operation \<Rightarrow> string \<Rightarrow> uuid option \<Rightarrow> uuid option \<Rightarrow> resolved_configuration option" where
  "resolve_configuration_by_version db op version g w =
     (if version = vc_version (built_in_configuration op) then Some (built_in_configuration op)
      else Option.bind db (\<lambda>s. load_configuration_by_version s op version g w))"

definition model_for_route :: "resolved_configuration \<Rightarrow> string \<Rightarrow> string \<Rightarrow> string result" where
  "model_for_route c fallback_model endpoint_mode =
     (let (provider, separator, model) = partition_colon (vc_route c)
      in if vc_route c = ''environment-default'' \<and> startswith ''builtin.'' (vc_version c) then Inr fallback_model
         else if separator \<and> provider = endpoint_mode \<and> model \<noteq> [] then Inr model
         else Inl (ValueError ''unsupported AI configuration route''))"

end
