(* ===== verification/AI_Resolution.thy ===== *)
theory AI_Resolution
  imports AI_Configuration
begin

text \<open>
  Every state the configuration service reaches: published configurations are valid and never change, what is promoted
  is published, and the worker resolves what the API resolves, to a configuration it can run.
\<close>

section \<open>Steps and the invariant\<close>

inductive ai_step :: "ai_externals \<Rightarrow> 'z ai_db_scheme \<Rightarrow> 'z ai_db_scheme \<Rightarrow> bool" for x where
  create: "create_configuration x s actor g w q clock = Inr (r, s') \<Longrightarrow> ai_step x s s'"
| publish: "publish_configuration x s actor g w i now clock = Inr (r, s') \<Longrightarrow> ai_step x s s'"
| promote: "promote_configuration x deliver s actor g w i environment now clock = Inr (p, s') \<Longrightarrow> ai_step x s s'"
| update: "update_prompt x s actor g w i prompt = Inr (r, s') \<Longrightarrow> ai_step x s s'"
| other: "ai_versions s' = ai_versions s \<Longrightarrow> ai_promotions s' = ai_promotions s \<Longrightarrow> uuid_src s' = uuid_src s \<Longrightarrow>
    used_ids s \<subseteq> used_ids s' \<Longrightarrow> ai_step x s s'"

inductive ai_reach :: "ai_externals \<Rightarrow> 'z ai_db_scheme \<Rightarrow> bool" for x where
  init: "ai_versions s = [] \<Longrightarrow> ai_promotions s = [] \<Longrightarrow> inj (uuid_src s) \<Longrightarrow> ai_reach x s"
| step: "ai_reach x s \<Longrightarrow> ai_step x s s' \<Longrightarrow> ai_reach x s'"

definition sound_version :: "ai_externals \<Rightarrow> ai_version_row \<Rightarrow> bool" where
  "sound_version x v \<longleftrightarrow> (\<exists>op. av_operation v = ai_operation_value op) \<and>
     (av_status v = ''published'' \<longrightarrow> ensure_valid_configuration x v = Inr ())"

definition promotes :: "ai_promotion_row \<Rightarrow> ai_version_row \<Rightarrow> bool" where
  "promotes p v \<longleftrightarrow> av_id v = ap_configuration p \<and> av_org v = ap_org p \<and> av_ws v = ap_ws p \<and>
     av_operation v = ap_operation p \<and> av_status v = ''published''"

definition ai_inv :: "ai_externals \<Rightarrow> 'z ai_db_scheme \<Rightarrow> bool" where
  "ai_inv x s \<longleftrightarrow> inj (uuid_src s) \<and> av_id ` set (ai_versions s) \<subseteq> used_ids s \<and> distinct (map av_id (ai_versions s)) \<and>
     (\<forall>v \<in> set (ai_versions s). sound_version x v) \<and>
     (\<forall>p \<in> set (ai_promotions s). \<exists>v \<in> set (ai_versions s). promotes p v)"

lemma ai_invI:
  assumes "inj (uuid_src s)" "av_id ` set (ai_versions s) \<subseteq> used_ids s" "distinct (map av_id (ai_versions s))"
    "\<And>v. v \<in> set (ai_versions s) \<Longrightarrow> sound_version x v"
    "\<And>p. p \<in> set (ai_promotions s) \<Longrightarrow> \<exists>v \<in> set (ai_versions s). promotes p v"
  shows "ai_inv x s"
  using assms unfolding ai_inv_def by blast

lemma ai_invD:
  assumes "ai_inv x s"
  shows "inj (uuid_src s)" "av_id ` set (ai_versions s) \<subseteq> used_ids s" "distinct (map av_id (ai_versions s))"
    "v \<in> set (ai_versions s) \<Longrightarrow> sound_version x v"
    "p \<in> set (ai_promotions s) \<Longrightarrow> \<exists>v \<in> set (ai_versions s). promotes p v"
  using assms unfolding ai_inv_def by blast+

section \<open>What the operations leave alone\<close>

definition ai_kept :: "'z ai_db_scheme \<Rightarrow> 'z ai_db_scheme \<Rightarrow> bool" where
  "ai_kept s s' \<longleftrightarrow> ai_versions s' = ai_versions s \<and> ai_promotions s' = ai_promotions s \<and> uuid_src s' = uuid_src s \<and>
     used_ids s \<subseteq> used_ids s'"

lemma ai_kept_trans: "ai_kept a b \<Longrightarrow> ai_kept b c \<Longrightarrow> ai_kept a c"
  by (auto simp: ai_kept_def)

lemma ai_kept_refl [simp]: "ai_kept s s"
  by (simp add: ai_kept_def)

lemma audit_configuration_kept: "ai_kept s (audit_configuration r actor action e n clock s)"
  by (auto simp: ai_kept_def audit_configuration_def draw_def used_ids_def)

lemma enqueue_outbox_kept: "ai_kept s (enqueue_outbox j now s)"
  by (auto simp: ai_kept_def enqueue_outbox_def draw_def used_ids_def)

lemma add_job_kept: "ai_kept s (draw s\<lparr>jobs := js\<rparr>)"
  by (auto simp: ai_kept_def draw_def used_ids_def)

lemma enqueue_reindex_kept: "ai_kept s (snd (enqueue_reindex r now rows n s))"
proof (induction rows arbitrary: n s)
  case (Cons row rows)
  obtain b a where row: "row = (b, a)" by (cases row)
  have "ai_kept s (enqueue_outbox j now (draw s\<lparr>jobs := js\<rparr>))" for j js
    using enqueue_outbox_kept add_job_kept ai_kept_trans by blast
  then have "ai_kept s (snd (enqueue_reindex r now rows m (enqueue_outbox j now (draw s\<lparr>jobs := js\<rparr>))))" for j js m
    using Cons ai_kept_trans by blast
  then show ?case using Cons by (simp add: row Let_def)
qed simp

lemma deliver_outbox_kept: "ai_kept s (snd (deliver_outbox publish now ms n s))"
proof (induction ms arbitrary: n s)
  case (Cons m ms)
  have "ai_kept s (s\<lparr>processing_outbox := xs\<rparr>)" for xs by (simp add: ai_kept_def used_ids_def)
  then have "ai_kept s (snd (deliver_outbox publish now ms k (s\<lparr>processing_outbox := xs\<rparr>)))" for xs k
    using Cons ai_kept_trans by blast
  then show ?case by simp
qed simp

lemma dispatch_kept: "ai_kept s (snd (dispatch_processing publish now g w n s))"
  unfolding dispatch_processing_def by (rule deliver_outbox_kept)

section \<open>Preservation\<close>

lemma supported_published [simp]:
  "supported_runtime_configuration (v\<lparr>av_status := a, av_published_at := b\<rparr>) = supported_runtime_configuration v"
  by (simp add: supported_runtime_configuration_def Let_def case_prod_beta)

lemma ensure_valid_published [simp]:
  "ensure_valid_configuration x (v\<lparr>av_status := a, av_published_at := b\<rparr>) = ensure_valid_configuration x v"
  by (simp add: ensure_valid_configuration_def)

lemma kept_inv: "ai_kept s s' \<Longrightarrow> ai_inv x s \<Longrightarrow> ai_inv x s'"
  unfolding ai_kept_def ai_inv_def by (metis subset_trans)

lemma create_preserves:
  assumes "create_configuration x s actor g w q clock = Inr (r, s')" "ai_inv x s"
  shows "ai_inv x s'"
proof -
  let ?d = "draft_of_request x (uuid4 s) actor g w q clock"
  let ?m = "(draw s)\<lparr>ai_versions := ai_versions s @ [?d]\<rparr>"
  have s': "s' = audit_configuration ?d actor ''draft_created'' None None clock ?m"
    using assms(1) by (auto simp: create_configuration_def bindR_Inr_iff Let_def)
  have u: "uuid_src ?m = uuid_src s" "used_ids ?m = insert (uuid4 s) (used_ids s)"
    by (auto simp: draw_def used_ids_def uuid4_def lessThan_Suc)
  have d: "av_id ?d = uuid4 s" "sound_version x ?d"
    by (auto simp: draft_of_request_def sound_version_def)
  note inv = ai_invD [OF assms(2)]
  have fresh: "uuid4 s \<notin> av_id ` set (ai_versions s)" using uuid4_fresh [OF inv(1)] inv(2) by blast
  have "ai_inv x ?m"
  proof (rule ai_invI)
    show "inj (uuid_src ?m)" using inv(1) u(1) by simp
    show "av_id ` set (ai_versions ?m) \<subseteq> used_ids ?m" using inv(2) unfolding u(2) by (auto simp: d(1))
    show "distinct (map av_id (ai_versions ?m))" using inv(3) fresh by (simp add: d(1))
  next
    fix v assume "v \<in> set (ai_versions ?m)"
    then show "sound_version x v" using inv(4) d(2) by auto
  next
    fix p assume "p \<in> set (ai_promotions ?m)"
    then show "\<exists>v \<in> set (ai_versions ?m). promotes p v" using inv(5) by auto
  qed
  then show ?thesis unfolding s' using audit_configuration_kept kept_inv by blast
qed

text \<open>An update of the version found by its id, which keeps ids and what is promoted.\<close>

lemma update_version_preserves:
  assumes inv: "ai_inv x s"
    and h: "\<And>v. av_id (h v) = av_id v" "\<And>v. v \<in> set (ai_versions s) \<Longrightarrow> av_id v = i \<Longrightarrow> sound_version x (h v)"
      "\<And>v p. v \<in> set (ai_versions s) \<Longrightarrow> av_id v = i \<Longrightarrow> promotes p v \<Longrightarrow> promotes p (h v)"
  shows "ai_inv x (s\<lparr>ai_versions := update_where (\<lambda>v. av_id v = i) h (ai_versions s)\<rparr>)" (is "ai_inv x ?s")
proof (rule ai_invI)
  have ids: "map av_id (ai_versions ?s) = map av_id (ai_versions s)" by (simp add: update_where_def h(1))
  have u: "used_ids ?s = used_ids s" by (simp add: used_ids_def)
  show "inj (uuid_src ?s)" using ai_invD(1) [OF inv] by simp
  show "distinct (map av_id (ai_versions ?s))" using ai_invD(3) [OF inv] ids by simp
  have "av_id ` set (ai_versions ?s) = av_id ` set (ai_versions s)" using ids by (metis set_map)
  then show "av_id ` set (ai_versions ?s) \<subseteq> used_ids ?s" using ai_invD(2) [OF inv] u by simp
next
  fix v assume "v \<in> set (ai_versions ?s)"
  then show "sound_version x v" using ai_invD(4) [OF inv] h(2) by (auto simp: set_update_where)
next
  fix p assume "p \<in> set (ai_promotions ?s)"
  then obtain v where v: "v \<in> set (ai_versions s)" "promotes p v" using ai_invD(5) [OF inv] by auto
  then have "(if av_id v = i then h v else v) \<in> set (ai_versions ?s)" by (simp add: set_update_where)
  moreover have "promotes p (if av_id v = i then h v else v)" using v h(3) by simp
  ultimately show "\<exists>v \<in> set (ai_versions ?s). promotes p v" by blast
qed

lemma record_found:
  "configuration_record s i g w = Inr r \<Longrightarrow> r \<in> set (ai_versions s) \<and> av_id r = i \<and> av_org r = g \<and> av_ws r = w"
  by (auto simp: configuration_record_def some_or_Inr_iff dest: find_SomeD)

lemma same_id_same_version:
  "ai_inv x s \<Longrightarrow> v \<in> set (ai_versions s) \<Longrightarrow> r \<in> set (ai_versions s) \<Longrightarrow> av_id v = av_id r \<Longrightarrow> v = r"
  using ai_invD(3) distinct_key_inj by metis

lemma publish_preserves:
  assumes "publish_configuration x s actor g w i now clock = Inr (y, s')" "ai_inv x s"
  shows "ai_inv x s'"
proof -
  let ?h = "\<lambda>v. v\<lparr>av_status := ''published'', av_published_at := Some now\<rparr>"
  obtain r where r: "configuration_record s i g w = Inr r" "ensure_valid_configuration x r = Inr ()"
      "s' = audit_configuration (?h r) actor ''published'' None None clock
         (s\<lparr>ai_versions := update_where (\<lambda>v. av_id v = i) ?h (ai_versions s)\<rparr>)"
    using assms(1) by (auto simp: publish_configuration_def bindR_Inr_iff Let_def)
  note found = record_found [OF r(1)]
  have "ai_inv x (s\<lparr>ai_versions := update_where (\<lambda>v. av_id v = i) ?h (ai_versions s)\<rparr>)"
  proof (rule update_version_preserves [OF assms(2)])
    fix v assume v: "v \<in> set (ai_versions s)" "av_id v = i"
    then have "v = r" using same_id_same_version [OF assms(2)] found by blast
    then show "sound_version x (?h v)" using ai_invD(4) [OF assms(2) v(1)] r(2) by (auto simp: sound_version_def)
  qed (auto simp: promotes_def)
  then show ?thesis unfolding r(3) using audit_configuration_kept kept_inv by blast
qed

lemma update_prompt_preserves:
  assumes "update_prompt x s actor g w i prompt = Inr (y, s')" "ai_inv x s"
  shows "ai_inv x s'"
proof -
  let ?h = "\<lambda>v. v\<lparr>av_prompt := prompt, av_prompt_checksum := cx_sha256 x prompt\<rparr>"
  obtain r where r: "configuration_record s i g w = Inr r" "av_status r = ''draft''"
      "s' = s\<lparr>ai_versions := update_where (\<lambda>v. av_id v = i) ?h (ai_versions s)\<rparr>"
    using assms(1) by (auto simp: update_prompt_def ensure_draft_configuration_def bindR_Inr_iff require_Inr_iff)
  have draft: "av_status v = ''draft''" if "v \<in> set (ai_versions s)" "av_id v = i" for v
    using same_id_same_version [OF assms(2) that(1)] record_found [OF r(1)] r(2) that(2) by metis
  show ?thesis unfolding r(3)
  proof (rule update_version_preserves [OF assms(2)])
    fix v assume v: "v \<in> set (ai_versions s)" "av_id v = i"
    then show "sound_version x (?h v)" using ai_invD(4) [OF assms(2) v(1)] draft by (auto simp: sound_version_def)
  next
    fix v p assume "v \<in> set (ai_versions s)" "av_id v = i" "promotes p v"
    then show "promotes p (?h v)" using draft by (auto simp: promotes_def)
  qed simp
qed

lemma promote_kept:
  assumes "promote_configuration x deliver s actor g w i environment now clock = Inr (y, s')"
  obtains r where "configuration_record s i g w = Inr r" "av_status r = ''published''"
    "ai_kept (draw s\<lparr>ai_promotions := ai_promotions s @ [promotion_of (uuid4 s) r environment actor clock]\<rparr>) s'"
proof -
  obtain r where r: "configuration_record s i g w = Inr r" "av_status r = ''published''" and
    s': "(let s = draw s\<lparr>ai_promotions := ai_promotions s @ [promotion_of (uuid4 s) r environment actor clock]\<rparr>;
         (created, s) = enqueue_embedding_reindex_jobs x r environment now s;
         s = audit_configuration r actor ''promoted'' (Some environment) (Some created) clock s
       in if reindexes x r environment then snd (dispatch_processing deliver now g w (max 10000 created) s) else s) = s'"
    using assms unfolding promote_configuration_def bindR_Inr_iff require_Inr_iff
    by (auto simp: Let_def bindR_Inr_iff case_prod_beta)
  let ?m = "draw s\<lparr>ai_promotions := ai_promotions s @ [promotion_of (uuid4 s) r environment actor clock]\<rparr>"
  let ?e = "enqueue_embedding_reindex_jobs x r environment now ?m"
  let ?a = "audit_configuration r actor ''promoted'' (Some environment) (Some (fst ?e)) clock (snd ?e)"
  have "ai_kept ?m (snd ?e)" by (simp add: enqueue_embedding_reindex_jobs_def enqueue_reindex_kept)
  then have a: "ai_kept ?m ?a" using audit_configuration_kept ai_kept_trans by blast
  then have "ai_kept ?m (snd (dispatch_processing deliver now g w n ?a))" for n using dispatch_kept ai_kept_trans by blast
  moreover have "s' = (if reindexes x r environment then snd (dispatch_processing deliver now g w (max 10000 (fst ?e)) ?a) else ?a)"
    using s' by (simp add: Let_def case_prod_beta)
  ultimately have "ai_kept ?m s'" using a by simp
  then show thesis using that r by blast
qed

lemma promote_preserves:
  assumes "promote_configuration x deliver s actor g w i environment now clock = Inr (y, s')" "ai_inv x s"
  shows "ai_inv x s'"
proof -
  obtain r where r: "configuration_record s i g w = Inr r" "av_status r = ''published''"
    "ai_kept (draw s\<lparr>ai_promotions := ai_promotions s @ [promotion_of (uuid4 s) r environment actor clock]\<rparr>) s'"
    using promote_kept [OF assms(1)] .
  let ?m = "draw s\<lparr>ai_promotions := ai_promotions s @ [promotion_of (uuid4 s) r environment actor clock]\<rparr>"
  have p: "promotes (promotion_of (uuid4 s) r environment actor clock) r" "r \<in> set (ai_versions s)"
    using r(2) record_found [OF r(1)] by (simp_all add: promotes_def promotion_of_def)
  have "ai_inv x ?m"
  proof (rule ai_invI)
    show "av_id ` set (ai_versions ?m) \<subseteq> used_ids ?m" using ai_invD(2) [OF assms(2)] by (auto simp: draw_def used_ids_def)
  next
    fix q assume "q \<in> set (ai_promotions ?m)"
    then show "\<exists>v \<in> set (ai_versions ?m). promotes q v" using ai_invD(5) [OF assms(2)] p by (auto simp: draw_def)
  qed (use ai_invD(1,3,4) [OF assms(2)] in \<open>simp_all add: draw_def\<close>)
  then show ?thesis using kept_inv r(3) by blast
qed

lemma ai_reach_inv: "ai_reach x s \<Longrightarrow> ai_inv x s"
proof (induction rule: ai_reach.induct)
  case (init s)
  then show ?case by (simp add: ai_inv_def)
next
  case (step s s')
  from step(2,3) show ?case
  proof (cases rule: ai_step.cases)
    case other
    then show ?thesis using kept_inv step(3) unfolding ai_kept_def by blast
  qed (blast intro: create_preserves publish_preserves promote_preserves update_prompt_preserves)+
qed

section \<open>Resolution\<close>

lemma newest_first_greatest:
  "first_row (newest_first rows) = Some y \<Longrightarrow> y \<in> set rows \<and>
     (\<forall>z \<in> set rows. (ap_promoted_at (fst z), ap_id (fst z)) \<le> (ap_promoted_at (fst y), ap_id (fst y)))"
proof -
  let ?f = "\<lambda>(p :: ai_promotion_row, _ :: ai_version_row). (ap_promoted_at p, ap_id p)"
  let ?l = "sort_key ?f rows"
  assume "first_row (newest_first rows) = Some y"
  then obtain l where l: "rev ?l = y # l" unfolding first_row_def newest_first_def by (auto split: list.splits)
  then have e: "?l = rev l @ [y]" by (metis rev.simps(2) rev_rev_ident)
  have "sorted (map ?f (rev l @ [y]))" unfolding e [symmetric] by simp
  then have "\<forall>z \<in> set (rev l @ [y]). ?f z \<le> ?f y" by (auto simp: sorted_append)
  moreover have "set rows = set (rev l @ [y])" using e by (metis set_sort)
  ultimately show ?thesis by (auto simp: case_prod_beta)
qed

lemma newest_first_None: "first_row (newest_first rows) = None \<longleftrightarrow> rows = []"
  unfolding first_row_def newest_first_def by (auto split: list.splits dest: arg_cong [where f = set])

text \<open>The rows the worker joins are those of the API, since a promotion is in the scope of its version.\<close>

lemma worker_rows:
  assumes "ai_inv x s"
  shows "load_configuration s op environment (Some g) (Some w) =
    map_option (\<lambda>(p, v). snapshot_of v) (first_row (newest_first (promoted_versions s g w (ai_operation_value op) environment)))"
proof -
  have "av_org v = ap_org p \<and> av_ws v = ap_ws p"
    if "p \<in> set (ai_promotions s)" "v \<in> set (ai_versions s)" "av_id v = ap_configuration p" for p v
    using ai_invD(5) [OF assms that(1)] same_id_same_version [OF assms that(2)] that(3) unfolding promotes_def by metis
  then show ?thesis
    unfolding load_configuration_def promoted_versions_def prod.case option.case
    by (intro arg_cong [where f = "\<lambda>rows. map_option (\<lambda>(p, v). snapshot_of v) (first_row (newest_first rows))"] filter_cong) auto
qed

lemma resolved_row:
  assumes "ai_inv x s" "first_row (newest_first (promoted_versions s g w o' environment)) = Some (p, v)"
  shows "p \<in> set (ai_promotions s) \<and> v \<in> set (ai_versions s) \<and> promotes p v \<and> ap_org p = g \<and> ap_ws p = w \<and>
    ap_operation p = o' \<and> ap_environment p = environment \<and>
    (\<forall>q \<in> set (ai_promotions s). ap_org q = g \<and> ap_ws q = w \<and> ap_operation q = o' \<and> ap_environment q = environment \<longrightarrow>
       (ap_promoted_at q, ap_id q) \<le> (ap_promoted_at p, ap_id p))"
proof -
  let ?rows = "promoted_versions s g w o' environment"
  have m: "(p, v) \<in> set ?rows" "\<forall>z \<in> set ?rows. (ap_promoted_at (fst z), ap_id (fst z)) \<le> (ap_promoted_at p, ap_id p)"
    using newest_first_greatest [OF assms(2)] by simp_all
  have p: "p \<in> set (ai_promotions s)" "v \<in> set (ai_versions s)" "ap_configuration p = av_id v" "ap_org p = g" "ap_ws p = w"
      "ap_operation p = o'" "ap_environment p = environment"
    using m(1) by (auto simp: promoted_versions_def)
  obtain u where u: "u \<in> set (ai_versions s)" "promotes p u" using ai_invD(5) [OF assms(1) p(1)] by blast
  then have pv: "promotes p v" using same_id_same_version [OF assms(1) u(1) p(2)] p(3) by (simp add: promotes_def)
  have "(ap_promoted_at q, ap_id q) \<le> (ap_promoted_at p, ap_id p)"
    if q: "q \<in> set (ai_promotions s)" "ap_org q = g" "ap_ws q = w" "ap_operation q = o'" "ap_environment q = environment" for q
  proof -
    obtain u where "u \<in> set (ai_versions s)" "promotes q u" using ai_invD(5) [OF assms(1) q(1)] by blast
    then have "(q, u) \<in> set ?rows" using q by (auto simp: promoted_versions_def promotes_def)
    then show ?thesis using m(2) by force
  qed
  then show ?thesis using p pv by blast
qed

text \<open>
  C35: The worker resolves what the API resolves. In every state the configuration service reaches, the resolution of the API
  for an operation and environment succeeds, and its result is the one the worker loads for the same scope: both
  find nothing, or the same version.
\<close>

theorem resolvers_agree:
  assumes "ai_reach x s"
  shows "\<exists>r. resolve_promoted s g w (ai_operation_value op) environment None = Inr r \<and>
    load_configuration s op environment (Some g) (Some w) = map_option snapshot_of r"
proof -
  note inv = ai_reach_inv [OF assms]
  show ?thesis
  proof (cases "first_row (newest_first (promoted_versions s g w (ai_operation_value op) environment))")
    case None
    then show ?thesis using worker_rows [OF inv] by (simp add: resolve_promoted_def resolve_response_def)
  next
    case (Some y)
    obtain p v where y: "y = (p, v)" by (cases y)
    have "ap_operation p = av_operation v" "ap_operation p = ai_operation_value op"
      using resolved_row [OF inv] Some unfolding y promotes_def by metis+
    then have "configuration_response v = Inr v"
      by (cases op) (simp_all add: configuration_response_def ai_operation_of_def)
    then show ?thesis using worker_rows [OF inv] Some y by (simp add: resolve_promoted_def resolve_response_def)
  qed
qed

section \<open>Usable configurations\<close>

lemma valid_route:
  assumes "ensure_valid_configuration x v = Inr ()" "av_route v \<noteq> ''environment-default''"
  shows "\<exists>mode \<in> {''openai'', ''openai-compatible''}. \<exists>model. str_strip model \<noteq> [] \<and>
    (\<forall>fallback_model. model_for_route (snapshot_of v) fallback_model mode = Inr model)"
proof -
  obtain provider separator model where r: "partition_colon (av_route v) = (provider, separator, model)"
    by (cases "partition_colon (av_route v)")
  have "supported_runtime_configuration v = Inr True"
    using assms(1) by (auto simp: ensure_valid_configuration_def bindR_Inr_iff require_Inr_iff)
  then have p: "separator" "provider \<in> {''openai'', ''openai-compatible''}" "str_strip model \<noteq> []"
    unfolding supported_runtime_configuration_def r Let_def prod.case by (auto split: if_splits)
  then have "model \<noteq> []" by (auto simp: str_strip_def)
  then have "model_for_route (snapshot_of v) fallback_model provider = Inr model" for fallback_model
    using p assms(2) by (simp add: model_for_route_def snapshot_of_def r)
  then show ?thesis using p by blast
qed

lemma valid_not_default: "ensure_valid_configuration x v = Inr () \<Longrightarrow> av_route v \<noteq> ''environment-default''"
proof
  assume v: "ensure_valid_configuration x v = Inr ()" "av_route v = ''environment-default''"
  have "\<not> fst (snd (partition_colon ''environment-default''))" by code_simp
  then show False using v
    by (cases "partition_colon ''environment-default''")
      (auto simp: ensure_valid_configuration_def supported_runtime_configuration_def bindR_Inr_iff require_Inr_iff)
qed

text \<open>
  C36: What is resolved can be run. In every state the configuration service reaches, the worker resolves an operation to the
  built-in configuration, which runs the fallback model of any endpoint, exactly when nothing was promoted for the
  environment; otherwise to the version promoted last there, which is published, has a prompt, and names a model of
  an endpoint the gateway supports.
\<close>

theorem resolved_configuration_usable:
  assumes "ai_reach x s" and "c = resolve_configuration (Some s) op environment (Some g) (Some w)"
    and "mine = filter (\<lambda>p. ap_org p = g \<and> ap_ws p = w \<and> ap_operation p = ai_operation_value op \<and>
      ap_environment p = environment) (ai_promotions s)"
  shows "if mine = [] then c = built_in_configuration op \<and> (\<forall>m mode. model_for_route c m mode = Inr m)
    else \<exists>p v. p \<in> set mine \<and> (\<forall>q \<in> set mine. (ap_promoted_at q, ap_id q) \<le> (ap_promoted_at p, ap_id p)) \<and>
      v \<in> set (ai_versions s) \<and> promotes p v \<and> c = snapshot_of v \<and> str_strip (vc_prompt c) \<noteq> [] \<and>
      (\<exists>mode \<in> {''openai'', ''openai-compatible''}. \<exists>model. str_strip model \<noteq> [] \<and> (\<forall>m. model_for_route c m mode = Inr model))"
proof -
  note inv = ai_reach_inv [OF assms(1)]
  let ?rows = "promoted_versions s g w (ai_operation_value op) environment"
  show ?thesis
  proof (cases "first_row (newest_first ?rows)")
    case None
    then have "?rows = []" by (simp add: newest_first_None)
    then have "q \<notin> set mine" for q
      using ai_invD(5) [OF inv, of q] unfolding promoted_versions_def assms(3) filter_empty_conv by (fastforce simp: promotes_def)
    then have m: "mine = []" by (metis list.set_intros(1) neq_Nil_conv)
    have c: "c = built_in_configuration op" using worker_rows [OF inv] None by (simp add: assms(2) resolve_configuration_def)
    then show ?thesis using m
      by (simp add: built_in_configuration_def model_for_route_def startswith_iff case_prod_beta)
  next
    case (Some y)
    obtain p v where y: "y = (p, v)" by (cases y)
    note r = resolved_row [OF inv Some [unfolded y]]
    then have p: "p \<in> set mine" "\<forall>q \<in> set mine. (ap_promoted_at q, ap_id q) \<le> (ap_promoted_at p, ap_id p)"
      by (simp_all add: assms(3))
    have valid: "ensure_valid_configuration x v = Inr ()"
      using r ai_invD(4) [OF inv] unfolding sound_version_def promotes_def by blast
    have c: "c = snapshot_of v" using worker_rows [OF inv] Some y by (simp add: assms(2) resolve_configuration_def)
    have "str_strip (av_prompt v) \<noteq> []" using valid by (auto simp: ensure_valid_configuration_def bindR_Inr_iff require_Inr_iff)
    then have "str_strip (vc_prompt c) \<noteq> []" by (simp add: c snapshot_of_def)
    moreover have "mine \<noteq> []" using p(1) by auto
    ultimately show ?thesis using p r c valid_route [OF valid valid_not_default [OF valid]] by auto
  qed
qed

end
