(* ===== verification/Search.thy ===== *)
theory Search
  imports AI_Configuration
begin

text \<open>
  The retrieval of evidence (\<open>search/service.py\<close>, \<open>search/repository.py\<close>, \<open>search/schemas.py\<close>): the lexical and
  the semantic candidates of a workspace and their fusion by reciprocal ranks. What the database computes on texts
  and vectors (the full-text rank, \<open>None\<close> where it does not match; the distance; a JSON value as text) and the
  embedding gateway are parameters. Scores are exact rationals; rows a query leaves in any order keep that of
  their tables.
\<close>

section \<open>Requests and results\<close>

text \<open>A \<open>datetime\<close>: its wall clock and the offset of its zone, if it has one.\<close>

record py_datetime =
  pd_wall :: datetime
  pd_offset :: "int option"

definition as_naive_utc :: "py_datetime \<Rightarrow> datetime" where
  "as_naive_utc v = pd_wall v"

record search_filters =
  sf_query :: string
  sf_agreement_type :: "string option"
  sf_party :: "string option"
  sf_status :: "string option"
  sf_updated_after :: "py_datetime option"
  sf_updated_before :: "py_datetime option"
  sf_source_version :: "string option"
  sf_agreement_ids :: "uuid list option"

text \<open>The bounds on the fields of \<open>SearchFilters\<close>.\<close>

definition shorter :: "nat \<Rightarrow> string option \<Rightarrow> bool" where
  "shorter n v \<longleftrightarrow> (case v of None \<Rightarrow> True | Some x \<Rightarrow> length x \<le> n)"

definition checked_filters :: "search_filters \<Rightarrow> search_filters result" where
  "checked_filters f =
     (if 1 \<le> length (sf_query f) \<and> length (sf_query f) \<le> 500 \<and> shorter 100 (sf_agreement_type f) \<and>
         shorter 500 (sf_party f) \<and> shorter 32 (sf_status f) \<and> shorter 255 (sf_source_version f)
      then Inr f else Inl (ValueError ''SearchFilters''))"

record ranked_chunk =
  rk_chunk_id :: string
  rk_agreement :: uuid
  rk_title :: string
  rk_type :: string
  rk_status :: string
  rk_source_checksum :: string
  rk_chunker_version :: string
  rk_build :: uuid
  rk_anchor_ids :: "string list"
  rk_content :: string
  rk_embedding_index_version :: "string option"

record fused_chunk =
  fu_chunk :: ranked_chunk
  fu_lexical :: "nat option"
  fu_semantic :: "nat option"
  fu_score :: rat

record search_citation =
  sc_chunk_id :: string
  sc_anchor_ids :: "string list"
  sc_source_checksum :: string
  sc_source_version :: string

record search_result =
  sr_agreement :: uuid
  sr_title :: string
  sr_type :: string
  sr_status :: string
  sr_preview :: string
  sr_citation :: search_citation
  sr_navigation :: "uuid \<times> string list"
  sr_lexical_rank :: "nat option"
  sr_semantic_rank :: "nat option"
  sr_score :: rat
  sr_build :: uuid
  sr_chunker_version :: string
  sr_source_checksum :: string
  sr_embedding_index_version :: "string option"

record search_response =
  se_items :: "search_result list"
  se_limit :: nat

section \<open>The repository\<close>

record search_backend =
  sb_postgres :: bool
  sb_text_rank :: "string \<Rightarrow> string \<Rightarrow> rat option"
  sb_distance :: "rat list \<Rightarrow> rat list \<Rightarrow> rat"
  sb_json_text :: "json \<Rightarrow> string"

definition like_contains :: "string \<Rightarrow> string \<Rightarrow> bool" where
  "like_contains q s \<longleftrightarrow> sql_like (''%'' @ str_lower q @ ''%'') (str_lower s)"

fun when_some :: "('a \<Rightarrow> bool) \<Rightarrow> 'a option \<Rightarrow> bool" where
  "when_some p None \<longleftrightarrow> True"
| "when_some p (Some x) \<longleftrightarrow> p x"

definition passes_filters :: "search_backend \<Rightarrow> search_filters \<Rightarrow> chunk_row \<Rightarrow> agreement_row \<Rightarrow> bool" where
  "passes_filters db f k a \<longleftrightarrow>
     when_some (\<lambda>v. ag_type a = v) (sf_agreement_type f) \<and> when_some (\<lambda>v. ag_status a = v) (sf_status f) \<and>
     when_some (\<lambda>v. ck_source_checksum k = v) (sf_source_version f) \<and>
     when_some (\<lambda>vs. ag_id a \<in> set vs) (sf_agreement_ids f) \<and>
     when_some (\<lambda>v. as_naive_utc v \<le> ag_updated_at a) (sf_updated_after f) \<and>
     when_some (\<lambda>v. ag_updated_at a \<le> as_naive_utc v) (sf_updated_before f) \<and>
     when_some (\<lambda>v. like_contains v (sb_json_text db (ag_parties a))) (sf_party f)"

definition build_of_chunk :: "chunk_row \<Rightarrow> index_build_row \<Rightarrow> bool" where
  "build_of_chunk k b \<longleftrightarrow>
     ck_build k = ib_id b \<and> ck_org k = ib_org b \<and> ck_ws k = ib_ws b \<and> ck_agreement k = ib_agreement b"

definition searchable :: "uuid \<Rightarrow> uuid \<Rightarrow> chunk_row \<Rightarrow> index_build_row \<Rightarrow> agreement_row \<Rightarrow> bool" where
  "searchable g w k b a \<longleftrightarrow> build_of_chunk k b \<and> ck_agreement k = ag_id a \<and> ck_org k = g \<and> ck_ws k = w \<and>
     ib_state b = ''active'' \<and> ag_archived_at a = None \<and> ag_deletion_requested_at a = None"

definition search_rows ::
  "'z processing_db_scheme \<Rightarrow> search_backend \<Rightarrow> uuid \<Rightarrow> uuid \<Rightarrow> search_filters
   \<Rightarrow> (chunk_row \<times> index_build_row \<times> agreement_row) list" where
  "search_rows s db g w f =
     filter (\<lambda>(k, b, a). searchable g w k b a \<and> passes_filters db f k a)
       (List.product (chunks s) (List.product (index_builds s) (agreements s)))"

definition ranked_of :: "string option \<Rightarrow> chunk_row \<Rightarrow> index_build_row \<Rightarrow> agreement_row \<Rightarrow> ranked_chunk" where
  "ranked_of version k b a = \<lparr>rk_chunk_id = ck_chunk_id k, rk_agreement = ag_id a, rk_title = ag_title a,
     rk_type = ag_type a, rk_status = ag_status a, rk_source_checksum = ck_source_checksum k,
     rk_chunker_version = ck_chunker_version k, rk_build = ib_id b, rk_anchor_ids = ck_anchor_ids k,
     rk_content = ck_content k, rk_embedding_index_version = version\<rparr>"

definition lexical_candidates ::
  "'z processing_db_scheme \<Rightarrow> search_backend \<Rightarrow> uuid \<Rightarrow> uuid \<Rightarrow> search_filters \<Rightarrow> nat \<Rightarrow> ranked_chunk list" where
  "lexical_candidates s db g w f limit =
     (let rows = search_rows s db g w f;
          ordered =
            (if sb_postgres db
             then sort_key (\<lambda>(k, _, _). (- the (sb_text_rank db (sf_query f) (ck_content k)), ck_chunk_id k))
                    (filter (\<lambda>(k, _, _). sb_text_rank db (sf_query f) (ck_content k) \<noteq> None) rows)
             else sort_key (\<lambda>(k, _, _). ck_chunk_id k)
                    (filter (\<lambda>(k, _, _). like_contains (sf_query f) (ck_content k)) rows))
      in map (\<lambda>(k, b, a). ranked_of None k b a) (take limit ordered))"

text \<open>The vectors of one index space, and the spaces that have some.\<close>

record embedding_space =
  es_configuration_version :: string
  es_model :: string

definition ready_embedding ::
  "uuid \<Rightarrow> uuid \<Rightarrow> string \<Rightarrow> int \<Rightarrow> chunk_row \<Rightarrow> chunk_embedding_row \<Rightarrow> bool" where
  "ready_embedding g w index_version dimensions k e \<longleftrightarrow>
     ce_org e = ck_org k \<and> ce_ws e = ck_ws k \<and> ce_agreement e = ck_agreement k \<and> ce_build e = ck_build k \<and>
     ce_chunk_id e = ck_chunk_id k \<and> ce_org e = g \<and> ce_ws e = w \<and> ce_index_version e = index_version \<and>
     ce_dimensions e = dimensions \<and> ce_state e = ''ready'' \<and> ce_embedding e \<noteq> None"

definition embedded_rows ::
  "'z processing_db_scheme \<Rightarrow> search_backend \<Rightarrow> uuid \<Rightarrow> uuid \<Rightarrow> search_filters \<Rightarrow> string \<Rightarrow> int
   \<Rightarrow> ((chunk_row \<times> index_build_row \<times> agreement_row) \<times> chunk_embedding_row) list" where
  "embedded_rows s db g w f index_version dimensions =
     filter (\<lambda>((k, _, _), e). ready_embedding g w index_version dimensions k e)
       (List.product (search_rows s db g w f) (chunk_embeddings s))"

definition semantic_candidates ::
  "'z processing_db_scheme \<Rightarrow> search_backend \<Rightarrow> uuid \<Rightarrow> uuid \<Rightarrow> search_filters \<Rightarrow> rat list \<Rightarrow> string \<Rightarrow> int
   \<Rightarrow> string \<Rightarrow> string \<Rightarrow> nat \<Rightarrow> ranked_chunk list" where
  "semantic_candidates s db g w f query index_version dimensions configuration_version model limit =
     map (\<lambda>((k, b, a), e). ranked_of (Some (ce_index_version e)) k b a)
       (take limit
         (sort_key (\<lambda>((k, _, _), e). (sb_distance db (the (ce_embedding e)) query, ck_chunk_id k))
           (filter (\<lambda>(_, e). ce_configuration_version e = configuration_version \<and> ce_model e = model)
             (embedded_rows s db g w f index_version dimensions))))"

definition space_of :: "chunk_embedding_row \<Rightarrow> embedding_space" where
  "space_of e = \<lparr>es_configuration_version = ce_configuration_version e, es_model = ce_model e\<rparr>"

definition latest_update :: "chunk_embedding_row list \<Rightarrow> embedding_space \<Rightarrow> datetime" where
  "latest_update es x = Max (ce_updated_at ` set (filter (\<lambda>e. space_of e = x) es))"

definition available_embedding_spaces ::
  "'z processing_db_scheme \<Rightarrow> search_backend \<Rightarrow> uuid \<Rightarrow> uuid \<Rightarrow> search_filters \<Rightarrow> string \<Rightarrow> int \<Rightarrow> nat
   \<Rightarrow> embedding_space list" where
  "available_embedding_spaces s db g w f index_version dimensions limit =
     (let es = map snd (embedded_rows s db g w f index_version dimensions)
      in take limit (sort_key (\<lambda>x. - latest_update es x) (remdups (map space_of es))))"

section \<open>Semantic candidates\<close>

record embedding_configuration =
  ec_model :: string
  ec_dimensions :: nat
  ec_index_version :: string

record embedding_request =
  em_inputs :: "string list"
  em_model :: string
  em_dimensions :: nat
  em_configuration :: resolved_configuration

text \<open>The vectors and the model of the provenance; \<open>None\<close> when the gateway raises.\<close>

record embedding_gateway =
  eg_mode :: string
  eg_embed :: "embedding_request \<Rightarrow> (rat list list \<times> string) option"

record semantic_provider =
  sv_gateway :: "embedding_gateway option"
  sv_configuration :: embedding_configuration
  sv_environment :: string

definition endpoint_mode :: "embedding_gateway \<Rightarrow> string result" where
  "endpoint_mode gw =
     (if eg_mode gw \<in> {''openai'', ''openai-compatible''} then Inr (eg_mode gw)
      else Inl (ValueError ''unsupported embedding gateway endpoint mode''))"

definition candidates_for_configuration ::
  "'z ai_db_scheme \<Rightarrow> search_backend \<Rightarrow> embedding_gateway \<Rightarrow> embedding_configuration \<Rightarrow> resolved_configuration
   \<Rightarrow> uuid \<Rightarrow> uuid \<Rightarrow> search_filters \<Rightarrow> nat \<Rightarrow> ranked_chunk list result" where
  "candidates_for_configuration s db gw ec c g w f limit =
     bindR (endpoint_mode gw) (\<lambda>mode.
     bindR (model_for_route c (ec_model ec) mode) (\<lambda>model.
     bindR (some_or (eg_embed gw \<lparr>em_inputs = [sf_query f], em_model = model, em_dimensions = ec_dimensions ec,
         em_configuration = c\<rparr>) (RuntimeError ''embedding'')) (\<lambda>(vectors, used_model).
     case vectors of
       [v] \<Rightarrow>
         if length v \<noteq> ec_dimensions ec then Inr []
         else Inr (semantic_candidates s db g w f v (ec_index_version ec) (int (ec_dimensions ec)) (vc_version c)
           used_model limit)
     | _ \<Rightarrow> Inr [])))"

definition chunk_key :: "ranked_chunk \<Rightarrow> uuid \<times> uuid \<times> string" where
  "chunk_key k = (rk_agreement k, rk_build k, rk_chunk_id k)"

fun add_unseen :: "ranked_chunk list \<Rightarrow> (uuid \<times> uuid \<times> string) list \<Rightarrow> ranked_chunk list
  \<Rightarrow> ranked_chunk list \<times> (uuid \<times> uuid \<times> string) list" where
  "add_unseen [] seen results = (results, seen)"
| "add_unseen (k # ks) seen results =
     (if chunk_key k \<in> set seen then add_unseen ks seen results
      else add_unseen ks (seen @ [chunk_key k]) (results @ [k]))"

fun prior_spaces ::
  "'z ai_db_scheme \<Rightarrow> search_backend \<Rightarrow> embedding_gateway \<Rightarrow> embedding_configuration \<Rightarrow> string \<Rightarrow> uuid \<Rightarrow> uuid
   \<Rightarrow> search_filters \<Rightarrow> nat \<Rightarrow> embedding_space list \<Rightarrow> (uuid \<times> uuid \<times> string) list \<Rightarrow> ranked_chunk list
   \<Rightarrow> ranked_chunk list" where
  "prior_spaces s db gw ec version g w f limit [] seen results = results"
| "prior_spaces s db gw ec version g w f limit (x # xs) seen results =
     (if limit \<le> length results then results
      else if es_configuration_version x = version then prior_spaces s db gw ec version g w f limit xs seen results
      else
        (case resolve_configuration_by_version (Some s) Embedding (es_configuration_version x) (Some g) (Some w) of
           None \<Rightarrow> prior_spaces s db gw ec version g w f limit xs seen results
         | Some c \<Rightarrow>
             (case candidates_for_configuration s db gw ec c g w f (limit - length results) of
                Inl _ \<Rightarrow> prior_spaces s db gw ec version g w f limit xs seen results
              | Inr fallback \<Rightarrow>
                  (case add_unseen fallback seen results of
                     (results, seen) \<Rightarrow> prior_spaces s db gw ec version g w f limit xs seen results))))"

definition semantic_provider_candidates ::
  "'z ai_db_scheme \<Rightarrow> search_backend \<Rightarrow> semantic_provider \<Rightarrow> uuid \<Rightarrow> uuid \<Rightarrow> search_filters \<Rightarrow> nat
   \<Rightarrow> ranked_chunk list result" where
  "semantic_provider_candidates s db pv g w f limit =
     (case sv_gateway pv of
        None \<Rightarrow> Inr []
      | Some gw \<Rightarrow>
          (let c = resolve_configuration (Some s) Embedding (sv_environment pv) (Some g) (Some w);
               ec = sv_configuration pv
           in bindR (candidates_for_configuration s db gw ec c g w f limit) (\<lambda>active.
              Inr (take limit (prior_spaces s db gw ec (vc_version c) g w f limit
                (available_embedding_spaces s db g w f (ec_index_version ec) (int (ec_dimensions ec)) 5)
                (map chunk_key active) active)))))"

section \<open>Fusion\<close>

definition RRF_K :: nat where "RRF_K = 60"
definition MAX_CANDIDATES_PER_CHANNEL :: nat where "MAX_CANDIDATES_PER_CHANNEL = 50"
definition DEFAULT_RESULT_LIMIT :: nat where "DEFAULT_RESULT_LIMIT = 20"
definition MAX_RESULT_LIMIT :: nat where "MAX_RESULT_LIMIT = 50"

datatype channel = Lexical | Semantic

text \<open>The dictionary of the fused chunks, in the order of their keys' insertion; a later chunk of a key
  takes the place of the earlier one.\<close>

definition fused_with :: "channel \<Rightarrow> nat \<Rightarrow> ranked_chunk \<Rightarrow> fused_chunk option \<Rightarrow> fused_chunk" where
  "fused_with ch rank k prior =
     \<lparr>fu_chunk = k,
      fu_lexical = (if ch = Lexical then Some rank else Option.bind prior fu_lexical),
      fu_semantic = (if ch = Semantic then Some rank else Option.bind prior fu_semantic),
      fu_score = (case prior of None \<Rightarrow> 0 | Some p \<Rightarrow> fu_score p) + 1 / of_nat (RRF_K + rank)\<rparr>"

fun put_fused :: "channel \<Rightarrow> nat \<Rightarrow> ranked_chunk \<Rightarrow> fused_chunk list \<Rightarrow> fused_chunk list" where
  "put_fused ch rank k [] = [fused_with ch rank k None]"
| "put_fused ch rank k (x # xs) =
     (if chunk_key (fu_chunk x) = chunk_key k then fused_with ch rank k (Some x) # xs
      else x # put_fused ch rank k xs)"

fun fuse_channel :: "channel \<Rightarrow> nat \<Rightarrow> ranked_chunk list \<Rightarrow> fused_chunk list \<Rightarrow> fused_chunk list" where
  "fuse_channel ch rank [] fused = fused"
| "fuse_channel ch rank (k # ks) fused = fuse_channel ch (Suc rank) ks (put_fused ch rank k fused)"

definition fusion_order :: "fused_chunk \<Rightarrow> rat \<times> nat \<times> nat \<times> uuid \<times> string" where
  "fusion_order x = (- fu_score x,
     case fu_lexical x of Some r \<Rightarrow> r | None \<Rightarrow> MAX_CANDIDATES_PER_CHANNEL + 1,
     case fu_semantic x of Some r \<Rightarrow> r | None \<Rightarrow> MAX_CANDIDATES_PER_CHANNEL + 1,
     rk_agreement (fu_chunk x), rk_chunk_id (fu_chunk x))"

definition fuse_reciprocal_rank :: "ranked_chunk list \<Rightarrow> ranked_chunk list \<Rightarrow> nat \<Rightarrow> fused_chunk list" where
  "fuse_reciprocal_rank lexical semantic limit =
     take limit (sort_key fusion_order (fuse_channel Semantic 1 semantic (fuse_channel Lexical 1 lexical [])))"

definition to_result :: "fused_chunk \<Rightarrow> search_result" where
  "to_result x =
     (let k = fu_chunk x
      in \<lparr>sr_agreement = rk_agreement k, sr_title = rk_title k, sr_type = rk_type k, sr_status = rk_status k,
          sr_preview = take 500 (rk_content k),
          sr_citation = \<lparr>sc_chunk_id = rk_chunk_id k, sc_anchor_ids = rk_anchor_ids k,
            sc_source_checksum = rk_source_checksum k, sc_source_version = rk_source_checksum k\<rparr>,
          sr_navigation = (rk_agreement k, rk_anchor_ids k), sr_lexical_rank = fu_lexical x,
          sr_semantic_rank = fu_semantic x, sr_score = fu_score x, sr_build = rk_build k,
          sr_chunker_version = rk_chunker_version k, sr_source_checksum = rk_source_checksum k,
          sr_embedding_index_version = rk_embedding_index_version k\<rparr>)"

definition hybrid_search ::
  "'z ai_db_scheme \<Rightarrow> search_backend \<Rightarrow> semantic_provider \<Rightarrow> uuid \<Rightarrow> uuid \<Rightarrow> uuid \<Rightarrow> search_filters \<Rightarrow> nat
   \<Rightarrow> search_response result" where
  "hybrid_search s db pv actor g w f limit =
     bindR (require (can_access_workspace s actor g w SEARCH_QUERY) SearchNotAuthorizedError) (\<lambda>_.
     let result_limit = min limit MAX_RESULT_LIMIT;
         lexical = lexical_candidates s db g w f MAX_CANDIDATES_PER_CHANNEL;
         semantic = (case semantic_provider_candidates s db pv g w f MAX_CANDIDATES_PER_CHANNEL of
           Inl _ \<Rightarrow> [] | Inr ks \<Rightarrow> ks)
     in Inr \<lparr>se_items = map to_result (fuse_reciprocal_rank lexical semantic result_limit), se_limit = result_limit\<rparr>)"

end
