(* ===== verification/Guardrails.thy ===== *)
theory Guardrails
  imports Regex Py_Text
begin

text \<open>
  The guardrails on untrusted evidence (\<open>guardrails.py\<close>): which texts are blocked before a model sees them. The
  decoders are those of the standard library: \<open>bytes.fromhex\<close>, and \<open>base64.b64decode\<close> with \<open>validate=True\<close>, which
  accepts only complete quads with the padding they need. A decoded text is ASCII like every string here, so
  one with other characters counts as not decodable.
\<close>

section \<open>Patterns\<close>

definition POLICY_VERSION :: string where
  "POLICY_VERSION = ''untrusted-evidence.v1''"

text \<open>A word of a list between boundaries, and \<open>.{0,n}\<close> under \<open>re.DOTALL\<close>.\<close>

definition any_word_ci :: "string list \<Rightarrow> rx" where
  "any_word_ci ws = bounded (alts (map lit_ci ws))"

definition within_chars :: "nat \<Rightarrow> rx" where
  "within_chars n = at_most n (Cls (\<lambda>_. True))"

definition INSTRUCTION_OVERRIDE :: rx where
  "INSTRUCTION_OVERRIDE = seqs [any_word_ci [''forget'', ''ignore'', ''disregard'', ''override''], within_chars 48,
     bounded (alts [Seq (lit_ci ''instruction'') (optional (lit_ci ''s'')), Seq (lit_ci ''rule'') (optional (lit_ci ''s'')),
       lit_ci ''system'', lit_ci ''developer'', lit_ci ''message''])]"

definition PROMPT_EXFILTRATION :: rx where
  "PROMPT_EXFILTRATION = seqs [bounded (alts [lit_ci ''disclose'', lit_ci ''repeat'', lit_ci ''reveal'', lit_ci ''show'',
       lit_ci ''print'', lit_ci ''expose'', lit_ci ''output'',
       Seq (lit_ci ''tell'') (optional (Seq spaces (lit_ci ''me'')))]), within_chars 48,
     any_word_ci [''system'', ''developer'', ''hidden'', ''prompt'', ''instruction'']]"

text \<open>\<open>(?:^|(?<=[.!?]))\<close> under \<open>re.MULTILINE\<close>, and \<open>(?!\s+of\b)\<close>.\<close>

definition sentence_start :: "string \<Rightarrow> nat \<Rightarrow> bool" where
  "sentence_start s i \<longleftrightarrow> i = 0 \<or> (i \<le> length s \<and> (s ! (i - 1) = char_of (10::nat) \<or> s ! (i - 1) \<in> set ''.!?''))"

definition not_of :: rx where
  "not_of = Look (\<lambda>s i. rx_ends (seqs [spaces, lit_ci ''of'', WordBoundary]) s i = [])"

definition TOOL_OR_WRITE_ACTION :: rx where
  "TOOL_OR_WRITE_ACTION = seqs [Look sentence_start, Star (Cls is_space),
     optional (Alt
       (Seq (Alt (lit_ci ''please'') (seqs [lit_ci ''you'', spaces, Alt (lit_ci ''must'') (lit_ci ''should'')])) spaces)
       (seqs [lit_ci ''instruction'', Star (Cls is_space), lit '':'', Star (Cls is_space)])),
     alts [
       seqs [alts [Seq (lit_ci ''use'') not_of, Seq (lit_ci ''call'') not_of, lit_ci ''invoke'', lit_ci ''run'',
           lit_ci ''execute''], WordBoundary, within_chars 32,
         any_word_ci [''tool'', ''function'', ''mcp'', ''api'']],
       seqs [alts (map lit_ci [''delete'', ''write'', ''update'', ''upload'', ''send'']), WordBoundary, within_chars 32,
         any_word_ci [''file'', ''database'', ''record'', ''agreement'', ''external'', ''http'']],
       seqs [alts (map lit_ci [''email'', ''send'', ''forward'']), WordBoundary, within_chars 48,
         bounded (Alt
           (seqs [lit_ci ''confidential'', spaces, lit_ci ''clause'', optional (lit_ci ''s'')])
           (seqs [lit_ci ''complete'', spaces, lit_ci ''document'']))]]]"

definition is_base64 :: "char \<Rightarrow> bool" where
  "is_base64 c \<longleftrightarrow> is_alnum c \<or> c \<in> set ''+/_-''"

definition BASE64_TOKEN :: rx where
  "BASE64_TOKEN = seqs [Look (\<lambda>s i. i = 0 \<or> \<not> is_base64 (s ! (i - 1))), between 8 4096 (Cls is_base64),
     optional (between 1 2 (lit ''='')),
     Look (\<lambda>s i. length s \<le> i \<or> \<not> (is_base64 (s ! i) \<or> s ! i = CHR ''=''))]"

definition is_hexdigit :: "char \<Rightarrow> bool" where
  "is_hexdigit c \<longleftrightarrow> is_digit c \<or> c \<in> set ''abcdefABCDEF''"

definition HEX_TOKEN :: rx where
  "HEX_TOKEN = bounded (between 8 2048 (times 2 (Cls is_hexdigit)))"

definition MAX_DECODE_DEPTH :: nat where "MAX_DECODE_DEPTH = 2"
definition MAX_DECODE_CANDIDATES :: nat where "MAX_DECODE_CANDIDATES = 8"
definition MAX_DECODE_CHARACTERS :: nat where "MAX_DECODE_CHARACTERS = 4096"

section \<open>Decoding\<close>

definition hex_value :: "char \<Rightarrow> nat" where
  "hex_value c =
     (if is_digit c then char_code c - 48 else if is_upper c then char_code c - 55 else char_code c - 87)"

fun hex_bytes :: "string \<Rightarrow> nat list" where
  "hex_bytes (a # b # s) = (16 * hex_value a + hex_value b) # hex_bytes s"
| "hex_bytes _ = []"

text \<open>The value of a character of the alphabet; \<open>altchars\<close> adds \<open>-\<close> and \<open>_\<close> for \<open>+\<close> and \<open>/\<close>.\<close>

definition base64_value :: "char \<Rightarrow> nat" where
  "base64_value c =
     (if is_upper c then char_code c - 65 else if is_lower c then char_code c - 71
      else if is_digit c then char_code c + 4 else if c \<in> set ''+-'' then 62 else 63)"

text \<open>The bytes of complete quads, and of a last one of two or three characters.\<close>

fun base64_bytes :: "nat list \<Rightarrow> nat list" where
  "base64_bytes (a # b # c # d # vs) =
     (4 * a + b div 16) # (16 * (b mod 16) + c div 4) # (64 * (c mod 4) + d) # base64_bytes vs"
| "base64_bytes [a, b, c] = [4 * a + b div 16, 16 * (b mod 16) + c div 4]"
| "base64_bytes [a, b] = [4 * a + b div 16]"
| "base64_bytes _ = []"

definition b64decode :: "string \<Rightarrow> nat list option" where
  "b64decode padded =
     (let characters = takeWhile is_base64 padded; padding = drop (length characters) padded
      in if list_all (\<lambda>c. c = CHR ''='') padding \<and> length characters mod 4 \<noteq> 1 \<and>
            length padding = (4 - length characters mod 4) mod 4
         then Some (base64_bytes (map base64_value characters)) else None)"

text \<open>\<open>decode("utf-8")\<close> and \<open>isprintable\<close>, restricted to ASCII.\<close>

definition printable_ascii :: "nat list \<Rightarrow> string option" where
  "printable_ascii bs = (if list_all (\<lambda>b. 32 \<le> b \<and> b \<le> 126) bs then Some (map char_of bs) else None)"

definition decode_token :: "string \<Rightarrow> string option" where
  "decode_token token =
     Option.bind
       (Option.bind
         (if rx_fullmatch HEX_TOKEN token then Some (hex_bytes token)
          else b64decode (token @ replicate ((4 - length token mod 4) mod 4) (CHR ''='')))
         printable_ascii)
       (\<lambda>v. if length v \<le> MAX_DECODE_CHARACTERS then Some v else None)"

text \<open>\<open>finish_fragment\<close> and \<open>finish_sequence\<close>, on the tokens, the fragments and the current fragment.\<close>

type_synonym fragment_state = "string list \<times> string list \<times> string"

definition finish_fragment :: "fragment_state \<Rightarrow> fragment_state" where
  "finish_fragment x = (case x of (tokens, fragments, cur) \<Rightarrow>
     if cur \<noteq> [] then (tokens, fragments @ [cur], []) else x)"

definition rstrip_padding :: "string \<Rightarrow> string" where
  "rstrip_padding s = rev (dropWhile (\<lambda>c. c = CHR ''='') (rev s))"

definition finish_sequence :: "fragment_state \<Rightarrow> fragment_state" where
  "finish_sequence x = (case finish_fragment x of (tokens, fragments, cur) \<Rightarrow>
     let candidate = concat fragments; characters = rstrip_padding candidate;
         padding = drop (length characters) candidate
     in if 1 < length fragments \<and> 8 \<le> length characters \<and> length characters \<le> MAX_DECODE_CHARACTERS \<and>
           length characters mod 4 \<noteq> 1 \<and> padding \<in> {[], ''='', ''==''} \<and> CHR ''='' \<notin> set characters
        then (tokens @ [candidate], [], cur) else (tokens, [], cur))"

fun scan_fragments :: "string \<Rightarrow> fragment_state \<Rightarrow> fragment_state" where
  "scan_fragments [] x = finish_sequence x"
| "scan_fragments (c # s) x =
     scan_fragments s
       (if is_base64 c \<or> c = CHR ''=''
        then (case x of (tokens, fragments, cur) \<Rightarrow> (tokens, fragments, cur @ [c]))
        else if char_code c \<in> {32, 9, 13, 10} then finish_fragment x else finish_sequence x)"

definition fragmented_base64_tokens :: "string \<Rightarrow> string list" where
  "fragmented_base64_tokens value = fst (scan_fragments (take MAX_DECODE_CHARACTERS value) ([], [], []))"

definition tokens_of :: "string \<Rightarrow> string list" where
  "tokens_of value = rx_findall BASE64_TOKEN value @ fragmented_base64_tokens value @ rx_findall HEX_TOKEN value"

text \<open>The tokens of one depth: the candidates so far, those of this depth, and whether the cap was met.\<close>

fun decode_tokens :: "string list \<Rightarrow> string list \<Rightarrow> string list \<Rightarrow> string list \<times> string list \<times> bool" where
  "decode_tokens [] candidates fresh = (candidates, fresh, False)"
| "decode_tokens (t # ts) candidates fresh =
     (case decode_token t of
        Some d \<Rightarrow>
          if d \<in> set candidates then decode_tokens ts candidates fresh
          else if MAX_DECODE_CANDIDATES \<le> Suc (length candidates) then (candidates @ [d], fresh @ [d], True)
          else decode_tokens ts (candidates @ [d]) (fresh @ [d])
      | None \<Rightarrow> decode_tokens ts candidates fresh)"

definition CANDIDATE_CAP :: string where
  "CANDIDATE_CAP = ''__decode_candidate_cap__''"

fun decode_depths :: "nat \<Rightarrow> string list \<Rightarrow> string list \<Rightarrow> string list" where
  "decode_depths 0 pending candidates = candidates"
| "decode_depths (Suc n) pending candidates =
     (case decode_tokens (concat (map tokens_of pending)) candidates [] of
        (candidates, fresh, capped) \<Rightarrow>
          if capped then candidates @ [CANDIDATE_CAP]
          else if fresh = [] then candidates else decode_depths n fresh candidates)"

definition decoded_text_candidates :: "string \<Rightarrow> string list" where
  "decoded_text_candidates text = decode_depths MAX_DECODE_DEPTH [take MAX_DECODE_CHARACTERS text] []"

section \<open>The decision\<close>

datatype guardrail_status = Allow | Review | Block

fun guardrail_status_value :: "guardrail_status \<Rightarrow> string" where
  "guardrail_status_value Allow = ''allow''"
| "guardrail_status_value Review = ''review''"
| "guardrail_status_value Block = ''block''"

record guardrail_decision =
  gd_status :: guardrail_status
  gd_reasons :: "string list"
  gd_policy_version :: string

definition guardrail_provenance :: "guardrail_decision \<Rightarrow> json" where
  "guardrail_provenance d = JObj [(''policy_version'', JStr (gd_policy_version d)),
     (''status'', JStr (guardrail_status_value (gd_status d))), (''reason_codes'', JList (map JStr (gd_reasons d)))]"

definition prohibited_request :: "string \<Rightarrow> bool" where
  "prohibited_request text \<longleftrightarrow> text = CANDIDATE_CAP \<or> rx_search PROMPT_EXFILTRATION text \<or>
     rx_search TOOL_OR_WRITE_ACTION text \<or> rx_search INSTRUCTION_OVERRIDE text"

definition add_reason :: "string \<Rightarrow> string list \<Rightarrow> string list" where
  "add_reason r rs = (if r \<in> set rs then rs else rs @ [r])"

definition text_reasons :: "string \<Rightarrow> string list \<Rightarrow> string list" where
  "text_reasons text rs =
     (let rs = (if rx_search PROMPT_EXFILTRATION text then add_reason ''prompt_exfiltration_request'' rs
                else if rx_search TOOL_OR_WRITE_ACTION text then add_reason ''tool_or_write_action_request'' rs
                else if rx_search INSTRUCTION_OVERRIDE text then add_reason ''instruction_override_marker'' rs
                else rs)
      in if list_ex prohibited_request (decoded_text_candidates text)
         then add_reason ''encoded_exfiltration_request'' rs else rs)"

fun evidence_reasons :: "string list \<Rightarrow> (string \<times> string) list \<Rightarrow> string list \<Rightarrow> string list" where
  "evidence_reasons allowed [] rs = rs"
| "evidence_reasons allowed ((anchor, text) # es) rs =
     evidence_reasons allowed es
       (text_reasons text (if anchor \<in> set allowed then rs else add_reason ''unknown_anchor_id'' rs))"

definition BLOCK_REASONS :: "string list" where
  "BLOCK_REASONS = [''unknown_anchor_id'', ''prompt_exfiltration_request'', ''encoded_exfiltration_request'',
     ''tool_or_write_action_request'']"

definition validate_untrusted_evidence :: "(string \<times> string) list \<Rightarrow> string list \<Rightarrow> guardrail_decision" where
  "validate_untrusted_evidence evidence allowed =
     (let rs = evidence_reasons allowed evidence []
      in \<lparr>gd_status = (if list_ex (\<lambda>r. r \<in> set BLOCK_REASONS) rs then Block else if rs \<noteq> [] then Review else Allow),
          gd_reasons = rs, gd_policy_version = POLICY_VERSION\<rparr>)"

end
