(* ===== verification/Question_Service.thy ===== *)
theory Question_Service
  imports Search Evidence_Validation Py_Uuid
begin

text \<open>
  Questions on the evidence of a workspace (\<open>qa/models.py\<close>, \<open>qa/repository.py\<close>, \<open>qa/service.py\<close>, and the answerer
  and the responses of \<open>qa/routes.py\<close>): every turn searches and authorizes its evidence anew, and a stored turn is
  shown without the claims whose agreements are no longer visible. The service is the one the routes build: over
  the database and the hybrid search. The answer model and Python's \<open>str\<close> of a value that is no text are
  parameters.
\<close>

section \<open>Values\<close>

record question_audit_row =
  qa_id :: uuid
  qa_org :: uuid
  qa_ws :: uuid
  qa_thread :: uuid
  qa_turn :: "uuid option"
  qa_actor :: uuid
  qa_action :: string
  qa_outcome :: string
  qa_metadata :: json
  qa_occurred_at :: datetime

record question_db = ai_db +
  question_audit :: "question_audit_row list"

record question_thread =
  th_id :: uuid
  th_org :: uuid
  th_ws :: uuid
  th_agreement_ids :: "uuid list option"

record citation_source =
  cs_agreement :: uuid
  cs_source_checksum :: string
  cs_source_version :: string

record question_turn =
  tn_id :: uuid
  tn_question :: string
  tn_answer :: grounded_answer
  tn_created_at :: datetime
  tn_sources :: "(string \<times> citation_source) list"

type_synonym thread_view = "question_thread \<times> question_turn list"

record question_service =
  qs_backend :: search_backend
  qs_provider :: semantic_provider
  qs_answerer :: answerer
  qs_str :: "json \<Rightarrow> string"

definition not_available :: exn where
  "not_available = PermissionError ''question thread is not available''"

section \<open>The repository\<close>

definition visible_agreement_ids :: "'z processing_db_scheme \<Rightarrow> uuid \<Rightarrow> uuid \<Rightarrow> uuid list \<Rightarrow> uuid list" where
  "visible_agreement_ids s g w ids =
     map ag_id (filter (\<lambda>a. ag_org a = g \<and> ag_ws a = w \<and> ag_archived_at a = None \<and>
       ag_deletion_requested_at a = None \<and> ag_id a \<in> set ids) (agreements s))"

definition all_visible :: "'z processing_db_scheme \<Rightarrow> uuid \<Rightarrow> uuid \<Rightarrow> uuid list \<Rightarrow> bool" where
  "all_visible s g w ids \<longleftrightarrow> set (visible_agreement_ids s g w ids) = set ids"

definition get_thread :: "'z processing_db_scheme \<Rightarrow> uuid \<Rightarrow> uuid \<Rightarrow> uuid \<Rightarrow> question_thread_row option" where
  "get_thread s g w i = find (\<lambda>t. qt_id t = i \<and> qt_org t = g \<and> qt_ws t = w) (question_threads s)"

definition list_turns :: "'z processing_db_scheme \<Rightarrow> uuid \<Rightarrow> uuid \<Rightarrow> uuid \<Rightarrow> question_turn_row list" where
  "list_turns s g w i =
     sort_key (\<lambda>u. (qu_created_at u, qu_id u))
       (filter (\<lambda>u. qu_org u = g \<and> qu_ws u = w \<and> qu_thread u = i) (question_turns s))"

definition add_question_event ::
  "question_thread \<Rightarrow> uuid option \<Rightarrow> uuid \<Rightarrow> string \<Rightarrow> string \<Rightarrow> datetime \<Rightarrow> 'z question_db_scheme
   \<Rightarrow> 'z question_db_scheme" where
  "add_question_event t turn actor action outcome clock s = draw s\<lparr>question_audit := question_audit s @
     [\<lparr>qa_id = uuid4 s, qa_org = th_org t, qa_ws = th_ws t, qa_thread = th_id t, qa_turn = turn, qa_actor = actor,
       qa_action = action, qa_outcome = outcome, qa_metadata = JObj [], qa_occurred_at = clock\<rparr>]\<rparr>"

section \<open>Sources and evidence of a search\<close>

text \<open>The loop over the anchors of a result: the sources so far and the ambiguous anchors.\<close>

fun add_sources ::
  "citation_source \<Rightarrow> string list \<Rightarrow> (string \<times> citation_source) list \<times> string list
   \<Rightarrow> (string \<times> citation_source) list \<times> string list" where
  "add_sources src [] x = x"
| "add_sources src (i # is) (sources, ambiguous) =
     add_sources src is
       (case map_of sources i of
          None \<Rightarrow> (sources @ [(i, src)], ambiguous)
        | Some e \<Rightarrow> (sources, if e = src then ambiguous else i # ambiguous))"

definition source_of_result :: "search_result \<Rightarrow> citation_source" where
  "source_of_result r = \<lparr>cs_agreement = sr_agreement r, cs_source_checksum = sc_source_checksum (sr_citation r),
     cs_source_version = sc_source_version (sr_citation r)\<rparr>"

fun sources_of_results ::
  "search_result list \<Rightarrow> (string \<times> citation_source) list \<times> string list
   \<Rightarrow> (string \<times> citation_source) list \<times> string list" where
  "sources_of_results [] x = x"
| "sources_of_results (r # rs) x =
     sources_of_results rs (add_sources (source_of_result r) (sc_anchor_ids (sr_citation r)) x)"

definition citation_sources_from_search :: "search_response \<Rightarrow> (string \<times> citation_source) list" where
  "citation_sources_from_search results =
     (case sources_of_results (se_items results) ([], []) of
        (sources, ambiguous) \<Rightarrow> filter (\<lambda>(i, _). i \<notin> set ambiguous) sources)"

definition snippet_of_result :: "search_result \<Rightarrow> string \<Rightarrow> evidence_snippet" where
  "snippet_of_result r i =
     \<lparr>sn_anchor = \<lparr>an_id = i, an_checksum = sc_source_checksum (sr_citation r), an_page = 1, an_start = 0,
        an_end = int (length (sr_preview r)), an_conflicts = []\<rparr>,
      sn_text = sr_preview r\<rparr>"

definition evidence_from_search ::
  "search_response \<Rightarrow> (string \<times> citation_source) list \<Rightarrow> evidence_snippet list" where
  "evidence_from_search results sources =
     concat (map (\<lambda>r. map (snippet_of_result r)
         (filter (\<lambda>i. map_of sources i \<noteq> None) (sc_anchor_ids (sr_citation r))))
       (se_items results))"

section \<open>Stored turns\<close>

definition citation_sources_payload :: "(string \<times> citation_source) list \<Rightarrow> json" where
  "citation_sources_payload sources = JObj (map (\<lambda>(i, c). (i, JObj [(''agreement_id'', JStr (cs_agreement c)),
     (''source_checksum'', JStr (cs_source_checksum c)), (''source_version'', JStr (cs_source_version c))])) sources)"

definition citation_source_of :: "json \<Rightarrow> citation_source option" where
  "citation_source_of v =
     (case (json_get v ''agreement_id'', json_get v ''source_checksum'', json_get v ''source_version'') of
        (Some (JStr a), Some (JStr c), Some (JStr n)) \<Rightarrow>
          map_option (\<lambda>i. \<lparr>cs_agreement = i, cs_source_checksum = c, cs_source_version = n\<rparr>) (parse_uuid a)
      | _ \<Rightarrow> None)"

definition citation_sources_from_payload :: "json \<Rightarrow> (string \<times> citation_source) list" where
  "citation_sources_from_payload payload =
     (case json_get payload ''citation_sources'' of
        Some (JObj kvs) \<Rightarrow>
          concat (map (\<lambda>(i, v). case citation_source_of v of Some c \<Rightarrow> [(i, c)] | None \<Rightarrow> []) kvs)
      | _ \<Rightarrow> [])"

definition claims_payload :: "grounded_answer \<Rightarrow> json" where
  "claims_payload a = JList (map (\<lambda>m. JObj [(''text'', JStr (gm_text m)),
     (''citations'', JList (map (\<lambda>c. JObj [(''anchor_id'', JStr (gc_anchor c)),
       (''supporting_quote'', JStr (gc_quote c))]) (gm_citations m)))]) (ga_claims a))"

text \<open>Iteration over a decoded value, \<open>payload[key]\<close>, and \<open>str(value)\<close>.\<close>

fun json_iter :: "json \<Rightarrow> json list result" where
  "json_iter (JList xs) = Inr xs"
| "json_iter (JObj kvs) = Inr (map (JStr \<circ> fst) kvs)"
| "json_iter (JStr s) = Inr (map (\<lambda>c. JStr [c]) s)"
| "json_iter _ = Inl (TypeError ''object is not iterable'')"

definition text_at :: "(json \<Rightarrow> string) \<Rightarrow> json \<Rightarrow> string \<Rightarrow> string result" where
  "text_at str v k =
     bindR (some_or (json_get v k) (KeyError k)) (\<lambda>x. Inr (case x of JStr t \<Rightarrow> t | _ \<Rightarrow> str x))"

fun stored_citations :: "(json \<Rightarrow> string) \<Rightarrow> json list \<Rightarrow> grounded_citation list result" where
  "stored_citations str [] = Inr []"
| "stored_citations str (JObj kvs # vs) =
     bindR (text_at str (JObj kvs) ''anchor_id'') (\<lambda>a.
     bindR (text_at str (JObj kvs) ''supporting_quote'') (\<lambda>q.
     bindR (stored_citations str vs) (\<lambda>cs. Inr (\<lparr>gc_anchor = a, gc_quote = q\<rparr> # cs))))"
| "stored_citations str (_ # vs) = stored_citations str vs"

fun stored_claims :: "(json \<Rightarrow> string) \<Rightarrow> json list \<Rightarrow> grounded_claim list result" where
  "stored_claims str [] = Inr []"
| "stored_claims str (v # vs) =
     (case json_get v ''text'' of
        Some (JStr t) \<Rightarrow>
          bindR (json_iter (case json_get v ''citations'' of None \<Rightarrow> JList [] | Some c \<Rightarrow> c)) (\<lambda>items.
          bindR (stored_citations str items) (\<lambda>cs.
          bindR (stored_claims str vs) (\<lambda>ms. Inr (\<lparr>gm_text = t, gm_citations = cs\<rparr> # ms))))
      | _ \<Rightarrow> stored_claims str vs)"

definition REVIEW_REASONS :: "string list" where
  "REVIEW_REASONS = [''instruction_override_marker'']"

fun json_texts :: "json list \<Rightarrow> string list option" where
  "json_texts [] = Some []"
| "json_texts (JStr s # vs) = map_option ((#) s) (json_texts vs)"
| "json_texts (_ # vs) = None"

definition guardrail_status_of :: "string \<Rightarrow> guardrail_status option" where
  "guardrail_status_of v = find (\<lambda>x. guardrail_status_value x = v) [Allow, Review, Block]"

definition consistent_reasons :: "guardrail_status \<Rightarrow> string list \<Rightarrow> bool" where
  "consistent_reasons st reasons \<longleftrightarrow> distinct reasons \<and> set reasons \<subseteq> set (BLOCK_REASONS @ REVIEW_REASONS) \<and>
     (case st of
        Allow \<Rightarrow> reasons = []
      | Review \<Rightarrow> reasons \<noteq> [] \<and> set reasons \<subseteq> set REVIEW_REASONS
      | Block \<Rightarrow> list_ex (\<lambda>r. r \<in> set BLOCK_REASONS) reasons)"

definition guardrail_decision_from_payload :: "json \<Rightarrow> guardrail_decision option result" where
  "guardrail_decision_from_payload payload =
     (case json_get payload ''guardrail'' of
        Some (JObj kvs) \<Rightarrow>
          if fst ` set kvs \<noteq> {''policy_version'', ''status'', ''reason_codes''} \<or>
             map_of kvs ''policy_version'' \<noteq> Some (JStr ''untrusted-evidence.v1'') then Inr None
          else
            (case map_of kvs ''status'' of
               Some (JList _) \<Rightarrow> Inl (TypeError ''unhashable type: list'')
             | Some (JObj _) \<Rightarrow> Inl (TypeError ''unhashable type: dict'')
             | Some (JStr v) \<Rightarrow>
                 Inr (case (guardrail_status_of v, map_of kvs ''reason_codes'') of
                   (Some st, Some (JList rs)) \<Rightarrow>
                     Option.bind (json_texts rs) (\<lambda>reasons.
                       if consistent_reasons st reasons
                       then Some \<lparr>gd_status = st, gd_reasons = reasons, gd_policy_version = ''untrusted-evidence.v1''\<rparr>
                       else None)
                 | _ \<Rightarrow> None)
             | _ \<Rightarrow> Inr None)
      | _ \<Rightarrow> Inr None)"

definition answer_status_of :: "string \<Rightarrow> answer_status" where
  "answer_status_of v =
     (case find (\<lambda>x. answer_status_value x = v)
        [Answered, InsufficientEvidence, ConflictingEvidence, Partial, ModelUnavailable] of
        Some x \<Rightarrow> x | None \<Rightarrow> InsufficientEvidence)"

definition stored_answer :: "question_turn_row \<Rightarrow> grounded_claim list \<Rightarrow> guardrail_decision \<Rightarrow> grounded_answer" where
  "stored_answer u ms d =
     (if gd_status d = Allow
      then \<lparr>ga_status = answer_status_of (qu_answer_status u), ga_claims = ms, ga_message = qu_answer_message u,
            ga_guardrail = d\<rparr>
      else \<lparr>ga_status = InsufficientEvidence, ga_claims = [], ga_message = ''Prior evidence requires review.'',
            ga_guardrail = d\<rparr>)"

definition turn_from_record :: "(json \<Rightarrow> string) \<Rightarrow> question_turn_row \<Rightarrow> question_turn result" where
  "turn_from_record str u =
     bindR (json_iter (qu_claims u)) (\<lambda>items.
     bindR (stored_claims str items) (\<lambda>ms.
     bindR (guardrail_decision_from_payload (qu_retrieval_provenance u)) (\<lambda>decision.
     Inr
       (case decision of
          None \<Rightarrow> \<lparr>tn_id = qu_id u, tn_question = qu_question u,
            tn_answer = \<lparr>ga_status = InsufficientEvidence, ga_claims = [],
              ga_message = ''Prior evidence provenance is unavailable.'',
              ga_guardrail = \<lparr>gd_status = Review, gd_reasons = [''invalid_persisted_guardrail_provenance''],
                gd_policy_version = POLICY_VERSION\<rparr>\<rparr>,
            tn_created_at = qu_created_at u, tn_sources = []\<rparr>
        | Some d \<Rightarrow> \<lparr>tn_id = qu_id u, tn_question = qu_question u, tn_answer = stored_answer u ms d,
            tn_created_at = qu_created_at u, tn_sources = citation_sources_from_payload (qu_retrieval_provenance u)\<rparr>))))"

text \<open>\<open>_redact_turn\<close>: the claims and sources an accessor may still see.\<close>

definition redacted_sources :: "uuid list \<Rightarrow> (string \<times> citation_source) list \<Rightarrow> (string \<times> citation_source) list" where
  "redacted_sources visible sources = filter (\<lambda>(_, c). cs_agreement c \<in> set visible) sources"

definition redact_turn :: "uuid list \<Rightarrow> question_turn \<Rightarrow> question_turn" where
  "redact_turn visible t =
     (let sources = redacted_sources visible (tn_sources t); valid = map fst sources;
          ms = filter (\<lambda>m. gm_citations m \<noteq> [] \<and> list_all (\<lambda>c. gc_anchor c \<in> set valid) (gm_citations m))
            (ga_claims (tn_answer t))
      in if length ms = length (ga_claims (tn_answer t)) then t\<lparr>tn_sources := sources\<rparr>
         else if ms = [] then t\<lparr>tn_answer := \<lparr>ga_status = InsufficientEvidence, ga_claims = [],
             ga_message = ''Prior evidence is no longer available to your current access.'',
             ga_guardrail = default_guardrail\<rparr>, tn_sources := sources\<rparr>
         else t\<lparr>tn_answer := \<lparr>ga_status = Partial, ga_claims = ms,
             ga_message = ''Some prior evidence is no longer available to your current access.'',
             ga_guardrail = default_guardrail\<rparr>, tn_sources := sources\<rparr>)"

fun turns_from_records :: "(json \<Rightarrow> string) \<Rightarrow> question_turn_row list \<Rightarrow> question_turn list result" where
  "turns_from_records str [] = Inr []"
| "turns_from_records str (u # us) =
     bindR (turn_from_record str u) (\<lambda>t. bindR (turns_from_records str us) (\<lambda>ts. Inr (t # ts)))"

definition load_turns ::
  "question_service \<Rightarrow> 'z processing_db_scheme \<Rightarrow> question_thread \<Rightarrow> question_turn list result" where
  "load_turns v s t = turns_from_records (qs_str v) (list_turns s (th_org t) (th_ws t) (th_id t))"

definition redact_inaccessible_turns ::
  "question_service \<Rightarrow> 'z processing_db_scheme \<Rightarrow> question_thread \<Rightarrow> question_turn list result" where
  "redact_inaccessible_turns v s t =
     bindR (load_turns v s t) (\<lambda>ts.
     let ids = concat (map (\<lambda>x. map (cs_agreement \<circ> snd) (tn_sources x)) ts)
     in Inr (map (redact_turn (visible_agreement_ids s (th_org t) (th_ws t) ids)) ts))"

definition validated_context :: "question_turn list \<Rightarrow> string list" where
  "validated_context ts =
     concat (map (\<lambda>t. map gm_text (ga_claims (tn_answer t)))
       (filter (\<lambda>t. ga_status (tn_answer t) \<in> {Answered, Partial} \<and>
         gd_status (ga_guardrail (tn_answer t)) = Allow) ts))"

section \<open>The service\<close>

definition require_question_access :: "'z identity_db_scheme \<Rightarrow> uuid \<Rightarrow> uuid \<Rightarrow> uuid \<Rightarrow> unit result" where
  "require_question_access s actor g w = require (can_access_workspace s actor g w SEARCH_QUERY) not_available"

fun parse_ids :: "string list \<Rightarrow> uuid list result" where
  "parse_ids [] = Inr []"
| "parse_ids (x # xs) =
     bindR (some_or (parse_uuid x) (ValueError ''badly formed hexadecimal UUID string'')) (\<lambda>i.
     bindR (parse_ids xs) (\<lambda>is. Inr (i # is)))"

definition load_thread :: "'z processing_db_scheme \<Rightarrow> question_thread \<Rightarrow> question_thread option result" where
  "load_thread s t =
     (case get_thread s (th_org t) (th_ws t) (th_id t) of
        None \<Rightarrow> Inr None
      | Some r \<Rightarrow>
          bindR (parse_ids (case qt_agreement_ids r of None \<Rightarrow> [] | Some xs \<Rightarrow> xs)) (\<lambda>ids.
          if ids \<noteq> [] \<and> \<not> all_visible s (qt_org r) (qt_ws r) ids then Inr None
          else Inr (Some \<lparr>th_id = qt_id r, th_org = qt_org r, th_ws = qt_ws r,
            th_agreement_ids = (if ids = [] then None else Some ids)\<rparr>)))"

definition create_thread ::
  "'z question_db_scheme \<Rightarrow> uuid \<Rightarrow> uuid \<Rightarrow> uuid \<Rightarrow> uuid list option \<Rightarrow> datetime
   \<Rightarrow> (question_thread \<times> 'z question_db_scheme) result" where
  "create_thread s actor g w agreement_ids clock =
     bindR (require_question_access s actor g w) (\<lambda>_.
     bindR (require (case agreement_ids of None \<Rightarrow> True | Some ids \<Rightarrow> ids = [] \<or> all_visible s g w ids) not_available) (\<lambda>_.
     let t = \<lparr>th_id = uuid4 s, th_org = g, th_ws = w, th_agreement_ids = agreement_ids\<rparr>;
         s = draw s\<lparr>question_threads := question_threads s @
           [\<lparr>qt_id = uuid4 s, qt_org = g, qt_ws = w,
             qt_agreement_ids = (case agreement_ids of Some (x # xs) \<Rightarrow> Some (x # xs) | _ \<Rightarrow> None),
             qt_created_by = actor, qt_created_at = clock\<rparr>]\<rparr>
     in Inr (t, add_question_event t None actor ''thread_created'' ''created'' clock s)))"

definition read_thread ::
  "question_service \<Rightarrow> 'z question_db_scheme \<Rightarrow> uuid \<Rightarrow> question_thread \<Rightarrow> thread_view option result" where
  "read_thread v s actor thread =
     bindR (load_thread s thread) (\<lambda>loaded.
     case loaded of
       None \<Rightarrow> Inr None
     | Some t \<Rightarrow>
         if \<not> can_access_workspace s actor (th_org t) (th_ws t) SEARCH_QUERY then Inr None
         else bindR (redact_inaccessible_turns v s t) (\<lambda>ts. Inr (Some (t, ts))))"

definition last_turns :: "nat \<Rightarrow> 'a list \<Rightarrow> 'a list" where
  "last_turns n xs = drop (length xs - n) xs"

definition answer_with_context ::
  "question_service \<Rightarrow> 'z processing_db_scheme \<Rightarrow> question_thread \<Rightarrow> answerer" where
  "answer_with_context v s t request =
     (case redact_inaccessible_turns v s t of
        Inl _ \<Rightarrow> Raised
      | Inr ts \<Rightarrow> qs_answerer v (request\<lparr>gq_context := validated_context (last_turns 10 ts)\<rparr>))"

definition turn_row ::
  "uuid \<Rightarrow> question_thread \<Rightarrow> string \<Rightarrow> grounded_answer \<Rightarrow> nat \<Rightarrow> (string \<times> citation_source) list \<Rightarrow> datetime
   \<Rightarrow> question_turn_row" where
  "turn_row i t question answer result_count sources clock =
     \<lparr>qu_id = i, qu_org = th_org t, qu_ws = th_ws t, qu_thread = th_id t, qu_question = question,
      qu_answer_status = answer_status_value (ga_status answer), qu_answer_message = ga_message answer,
      qu_claims = claims_payload answer,
      qu_retrieval_provenance = JObj [(''result_count'', JInt (int result_count)),
        (''citation_sources'', citation_sources_payload sources),
        (''guardrail'', guardrail_provenance (ga_guardrail answer))],
      qu_created_at = clock\<rparr>"

definition question_filters :: "string \<Rightarrow> question_thread \<Rightarrow> search_filters" where
  "question_filters question t = \<lparr>sf_query = question, sf_agreement_type = None, sf_party = None, sf_status = None,
     sf_updated_after = None, sf_updated_before = None, sf_source_version = None,
     sf_agreement_ids = th_agreement_ids t\<rparr>"

definition ask ::
  "question_service \<Rightarrow> 'z question_db_scheme \<Rightarrow> uuid \<Rightarrow> question_thread \<Rightarrow> string \<Rightarrow> datetime \<Rightarrow> datetime
   \<Rightarrow> (question_turn \<times> 'z question_db_scheme) result" where
  "ask v s actor thread question now clock =
     bindR (load_thread s thread) (\<lambda>loaded.
     bindR (some_or loaded not_available) (\<lambda>t.
     bindR (require_question_access s actor (th_org t) (th_ws t)) (\<lambda>_.
     bindR (checked_filters (question_filters question t)) (\<lambda>f.
     bindR (hybrid_search s (qs_backend v) (qs_provider v) actor (th_org t) (th_ws t) f DEFAULT_RESULT_LIMIT) (\<lambda>results.
     let sources = citation_sources_from_search results;
         answer = answer_question question (evidence_from_search results sources) (answer_with_context v s t)
           (Some (th_org t)) (Some (th_ws t));
         turn = \<lparr>tn_id = uuid4 s, tn_question = question, tn_answer = answer, tn_created_at = now,
           tn_sources = sources\<rparr>;
         s = draw s\<lparr>question_turns := question_turns s @
           [turn_row (uuid4 s) t question answer (length (se_items results)) sources clock]\<rparr>
     in Inr (turn, add_question_event t (Some (tn_id turn)) actor ''question_answered''
          (answer_status_value (ga_status answer)) clock s))))))"

section \<open>The routes\<close>

text \<open>The answerer over a gateway, which gives an answer and the anchors it cites or raises.\<close>

definition gateway_answerer ::
  "(string \<Rightarrow> (string \<times> string) list \<Rightarrow> string list \<Rightarrow> (string \<times> string list) option) option \<Rightarrow> answerer" where
  "gateway_answerer gateway request =
     (let evidence = map (\<lambda>e. (an_id (sn_anchor e), sn_text e)) (gq_evidence request)
      in case Option.bind gateway (\<lambda>ask. ask (gq_question request) evidence (gq_context request)) of
           None \<Rightarrow> Raised
         | Some (answer, ids) \<Rightarrow>
             if list_all (\<lambda>i. map_of evidence i \<noteq> None) ids
             then Candidate [\<lparr>gm_text = answer, gm_citations = map (\<lambda>i. \<lparr>gc_anchor = i,
               gc_quote = (case extract_supporting_quote answer (the (map_of evidence i)) of None \<Rightarrow> [] | Some q \<Rightarrow> q)\<rparr>) ids\<rparr>]
             else Raised)"

record citation_response =
  cr_anchor :: string
  cr_quote :: string
  cr_source :: citation_source

definition claim_citations :: "question_turn \<Rightarrow> grounded_claim \<Rightarrow> citation_response list" where
  "claim_citations t m =
     concat (map (\<lambda>c. case map_of (tn_sources t) (gc_anchor c) of
         Some src \<Rightarrow> [\<lparr>cr_anchor = gc_anchor c, cr_quote = gc_quote c, cr_source = src\<rparr>]
       | None \<Rightarrow> []) (gm_citations m))"

definition turn_response :: "question_turn \<Rightarrow> (string \<times> citation_response list) list" where
  "turn_response t = map (\<lambda>m. (gm_text m, claim_citations t m)) (ga_claims (tn_answer t))"

end
