(* ===== verification/Search_Results.thy ===== *)
theory Search_Results
  imports Search
begin

text \<open>
  What a search returns: the fusion ranks by the sum of the reciprocal ranks of both channels and leaves nothing
  better out, and every result is of a searchable chunk of the workspace, whatever the models answer.
\<close>

section \<open>The fused dictionary\<close>

text \<open>The rank of a key in a channel, counted from \<open>n\<close>, and its share of the score.\<close>

fun rank_from :: "nat \<Rightarrow> ranked_chunk list \<Rightarrow> uuid \<times> uuid \<times> string \<Rightarrow> nat option" where
  "rank_from n [] i = None"
| "rank_from n (k # ks) i = (if chunk_key k = i then Some n else rank_from (Suc n) ks i)"

definition share :: "nat option \<Rightarrow> rat" where
  "share r = (case r of None \<Rightarrow> 0 | Some n \<Rightarrow> 1 / of_nat (60 + n))"

definition shares :: "ranked_chunk list \<Rightarrow> ranked_chunk list \<Rightarrow> uuid \<times> uuid \<times> string \<Rightarrow> rat" where
  "shares lexical semantic i = share (rank_from 1 lexical i) + share (rank_from 1 semantic i)"

abbreviation fused_key :: "fused_chunk \<Rightarrow> uuid \<times> uuid \<times> string" where
  "fused_key x \<equiv> chunk_key (fu_chunk x)"

abbreviation fused_at :: "fused_chunk list \<Rightarrow> uuid \<times> uuid \<times> string \<Rightarrow> fused_chunk option" where
  "fused_at xs i \<equiv> find (\<lambda>x. fused_key x = i) xs"

lemma fused_with_key [simp]: "fused_key (fused_with ch n k prior) = chunk_key k" "fu_chunk (fused_with ch n k prior) = k"
  by (simp_all add: fused_with_def)

lemma rank_from_None: "rank_from n ks i = None \<longleftrightarrow> i \<notin> set (map chunk_key ks)"
  by (induction ks arbitrary: n) auto

lemma put_fused_keys: "set (map fused_key (put_fused ch n k xs)) = insert (chunk_key k) (set (map fused_key xs))"
  by (induction xs) auto

lemma put_fused_distinct: "distinct (map fused_key xs) \<Longrightarrow> distinct (map fused_key (put_fused ch n k xs))"
proof (induction xs)
  case (Cons x xs)
  then show ?case using put_fused_keys [of ch n k xs] by auto
qed simp

lemma fused_at_put:
  "fused_at (put_fused ch n k xs) i = (if i = chunk_key k then Some (fused_with ch n k (fused_at xs i)) else fused_at xs i)"
  by (induction xs) auto

lemma put_fused_chunks: "x \<in> set (put_fused ch n k xs) \<Longrightarrow> fu_chunk x = k \<or> x \<in> set xs"
  by (induction xs) (auto split: if_splits)

lemma fuse_channel_keys:
  "set (map fused_key (fuse_channel ch n ks xs)) = set (map chunk_key ks) \<union> set (map fused_key xs)"
proof (induction ks arbitrary: n xs)
  case (Cons k ks)
  then show ?case using put_fused_keys [of ch n k xs] by auto
qed simp

lemma fuse_channel_distinct: "distinct (map fused_key xs) \<Longrightarrow> distinct (map fused_key (fuse_channel ch n ks xs))"
  by (induction ks arbitrary: n xs) (auto intro: put_fused_distinct)

lemma fuse_channel_chunks: "x \<in> set (fuse_channel ch n ks xs) \<Longrightarrow> fu_chunk x \<in> set ks \<union> fu_chunk ` set xs"
proof (induction ks arbitrary: n xs)
  case (Cons k ks)
  then show ?case using put_fused_chunks [of _ ch n k xs] by fastforce
qed auto

text \<open>A channel without repeated keys adds each chunk's rank and share to what is there.\<close>

lemma fused_at_channel:
  assumes "distinct (map chunk_key ks)"
  shows "fused_at (fuse_channel ch n ks xs) i =
    (case rank_from n ks i of
       None \<Rightarrow> fused_at xs i
     | Some r \<Rightarrow> Some (fused_with ch r (the (find (\<lambda>k. chunk_key k = i) ks)) (fused_at xs i)))"
  using assms
proof (induction ks arbitrary: n xs)
  case (Cons k ks)
  have n: "rank_from (Suc n) ks (chunk_key k) = None" using Cons.prems by (auto simp: rank_from_None)
  show ?case
  proof (cases "i = chunk_key k")
    case True
    then show ?thesis using n Cons by (simp add: fused_at_put)
  next
    case False
    then show ?thesis using Cons False [symmetric] by (simp add: fused_at_put split: option.split)
  qed
qed simp

definition all_fused :: "ranked_chunk list \<Rightarrow> ranked_chunk list \<Rightarrow> fused_chunk list" where
  "all_fused lexical semantic = fuse_channel Semantic 1 semantic (fuse_channel Lexical 1 lexical [])"

lemma all_fused_keys:
  "set (map fused_key (all_fused lexical semantic)) = chunk_key ` (set lexical \<union> set semantic)"
  "distinct (map fused_key (all_fused lexical semantic))"
  unfolding all_fused_def by (auto simp: fuse_channel_keys fuse_channel_distinct simp del: set_map)
    (auto simp: fuse_channel_keys)

lemma all_fused_chunk: "x \<in> set (all_fused lexical semantic) \<Longrightarrow> fu_chunk x \<in> set lexical \<union> set semantic"
  unfolding all_fused_def by (drule fuse_channel_chunks) (auto dest: fuse_channel_chunks)

lemma all_fused_ranks:
  assumes "distinct (map chunk_key lexical)" "distinct (map chunk_key semantic)" "x \<in> set (all_fused lexical semantic)"
  shows "fu_lexical x = rank_from 1 lexical (fused_key x)" "fu_semantic x = rank_from 1 semantic (fused_key x)"
    "fu_score x = shares lexical semantic (fused_key x)"
proof -
  have x: "fused_at (all_fused lexical semantic) (fused_key x) = Some x"
    using find_distinct_key [OF all_fused_keys(2) assms(3)] by simp
  have field: "map_option g (fused_at (all_fused lexical semantic) (fused_key x)) = Some (g x)" for g :: "fused_chunk \<Rightarrow> 'g"
    by (simp add: x)
  note channels = all_fused_def fused_at_channel [OF assms(2)] fused_at_channel [OF assms(1)]
  show "fu_lexical x = rank_from 1 lexical (fused_key x)"
    using field [of fu_lexical] unfolding channels by (auto simp: fused_with_def split: option.splits)
  show "fu_semantic x = rank_from 1 semantic (fused_key x)"
    using field [of fu_semantic] unfolding channels by (auto simp: fused_with_def split: option.splits)
  show "fu_score x = shares lexical semantic (fused_key x)"
    using field [of fu_score] unfolding channels
    by (auto simp: fused_with_def shares_def share_def RRF_K_def split: option.splits)
qed

section \<open>Ranking\<close>

lemma sort_take_first:
  fixes f :: "'a \<Rightarrow> 'b::linorder"
  assumes "x \<in> set (take n (sort_key f xs))" "y \<in> set xs" "y \<notin> set (take n (sort_key f xs))"
  shows "f x \<le> f y"
proof -
  let ?l = "sort_key f xs"
  have "y \<in> set (drop n ?l)" using assms(2,3) by (metis Un_iff append_take_drop_id set_append set_sort)
  moreover have "sorted (map f (take n ?l @ drop n ?l))" by simp
  ultimately show ?thesis using assms(1) by (auto simp: sorted_append simp del: append_take_drop_id)
qed

text \<open>
  C37: Fusion ranks by both channels. The results have distinct keys and come in the order of their scores; each carries
  its true rank in either channel and the sum of the reciprocals of 60 plus these ranks; and a candidate that is left
  out scores no more than any result, and only when the limit is reached.
\<close>

theorem fusion_ranked:
  fixes lexical semantic limit
  assumes "distinct (map chunk_key lexical)" "distinct (map chunk_key semantic)"
    and "r = fuse_reciprocal_rank lexical semantic limit"
  shows "distinct (map fused_key r) \<and> sorted_wrt (\<lambda>x y. fu_score y \<le> fu_score x) r \<and>
    (\<forall>x \<in> set r. fu_chunk x \<in> set lexical \<union> set semantic \<and> fu_lexical x = rank_from 1 lexical (fused_key x) \<and>
       fu_semantic x = rank_from 1 semantic (fused_key x) \<and> fu_score x = shares lexical semantic (fused_key x)) \<and>
    (\<forall>k \<in> set lexical \<union> set semantic. chunk_key k \<in> fused_key ` set r \<or>
       length r = limit \<and> (\<forall>x \<in> set r. shares lexical semantic (chunk_key k) \<le> fu_score x))"
proof -
  let ?a = "all_fused lexical semantic" and ?o = "sort_key fusion_order (all_fused lexical semantic)"
  have r: "r = take limit ?o" using assms(3) by (simp add: fuse_reciprocal_rank_def all_fused_def)
  have le: "fu_score y \<le> fu_score x" if "fusion_order x \<le> fusion_order y" for x y
    using that by (auto simp: fusion_order_def less_eq_prod_def)
  have d: "distinct (map fused_key ?o)" using all_fused_keys(2) [of lexical semantic]
    by (metis distinct_map mset_sort mset_eq_imp_distinct_iff set_sort)
  have "sorted_wrt (\<lambda>x y. fusion_order x \<le> fusion_order y) r" unfolding r
    using sorted_sort_key [of fusion_order ?a] by (simp add: sorted_map sorted_wrt_take)
  then have s: "sorted_wrt (\<lambda>x y. fu_score y \<le> fu_score x) r" by (rule sorted_wrt_mono_rel [rotated]) (rule le)
  have m: "x \<in> set ?a" if "x \<in> set r" for x using that unfolding r by (auto dest: in_set_takeD)
  have out: "chunk_key k \<in> fused_key ` set r \<or> length r = limit \<and> (\<forall>x \<in> set r. shares lexical semantic (chunk_key k) \<le> fu_score x)"
    if "k \<in> set lexical \<union> set semantic" for k
  proof -
    have "chunk_key k \<in> fused_key ` set ?a" using all_fused_keys(1) [of lexical semantic] that by (auto simp del: image_Un)
    then obtain y where y: "y \<in> set ?a" "fused_key y = chunk_key k" by auto
    show ?thesis
    proof (cases "y \<in> set r")
      case False
      then have "\<forall>x \<in> set r. fusion_order x \<le> fusion_order y" using y(1) unfolding r by (auto intro: sort_take_first)
      then have "\<forall>x \<in> set r. shares lexical semantic (chunk_key k) \<le> fu_score x"
        by (metis le all_fused_ranks(3) [OF assms(1,2) y(1)] y(2))
      moreover have "length r = limit"
      proof (rule ccontr)
        assume "length r \<noteq> limit"
        then have "r = ?o" unfolding r by (simp add: min_def split: if_splits)
        then show False using False y(1) by simp
      qed
      ultimately show ?thesis by blast
    next
      case True
      then show ?thesis by (simp add: y(2) [symmetric])
    qed
  qed
  have "distinct (map fused_key r)" unfolding r using d by (metis distinct_take take_map)
  moreover have "\<forall>x \<in> set r. fu_chunk x \<in> set lexical \<union> set semantic \<and> fu_lexical x = rank_from 1 lexical (fused_key x) \<and>
      fu_semantic x = rank_from 1 semantic (fused_key x) \<and> fu_score x = shares lexical semantic (fused_key x)"
    using m all_fused_chunk all_fused_ranks [OF assms(1,2)] by simp
  ultimately show ?thesis using s out by simp
qed

definition demo_ranked :: "string \<Rightarrow> ranked_chunk" where
  "demo_ranked i = \<lparr>rk_chunk_id = i, rk_agreement = ''A1'', rk_title = ''Lease'', rk_type = ''lease'', rk_status = ''active'',
     rk_source_checksum = ''c1'', rk_chunker_version = ''v1'', rk_build = ''B1'', rk_anchor_ids = [i], rk_content = i,
     rk_embedding_index_version = None\<rparr>"

theorem fusion_ranked_witness:
  "map fused_key (fuse_reciprocal_rank [demo_ranked ''a'', demo_ranked ''b''] [demo_ranked ''b''] 1) = [(''A1'', ''B1'', ''b'')] \<and>
   shares [demo_ranked ''a'', demo_ranked ''b''] [demo_ranked ''b''] (''A1'', ''B1'', ''a'') \<le>
   shares [demo_ranked ''a'', demo_ranked ''b''] [demo_ranked ''b''] (''A1'', ''B1'', ''b'')"
proof -
  let ?l = "[demo_ranked ''a'', demo_ranked ''b'']" and ?s = "[demo_ranked ''b'']"
  have r: "map fused_key (fuse_reciprocal_rank ?l ?s 1) = [(''A1'', ''B1'', ''b'')]" by code_simp
  have d: "distinct (map chunk_key ?l)" "distinct (map chunk_key ?s)" by (simp_all add: demo_ranked_def chunk_key_def)
  have a: "demo_ranked ''a'' \<in> set ?l \<union> set ?s" "chunk_key (demo_ranked ''a'') = (''A1'', ''B1'', ''a'')"
    by (simp_all add: demo_ranked_def chunk_key_def)
  obtain x where x: "fuse_reciprocal_rank ?l ?s 1 = [x]" "fused_key x = (''A1'', ''B1'', ''b'')" using r by auto
  show ?thesis using r fusion_ranked [OF d refl, of 1] a unfolding x(1) by (auto simp: x(2))
qed

section \<open>Scope\<close>

text \<open>A ranked chunk is one of the workspace that passes the filters, and a result shows such a chunk.\<close>

definition live_chunk ::
  "'z processing_db_scheme \<Rightarrow> search_backend \<Rightarrow> uuid \<Rightarrow> uuid \<Rightarrow> search_filters \<Rightarrow> chunk_row \<Rightarrow> index_build_row
   \<Rightarrow> agreement_row \<Rightarrow> bool" where
  "live_chunk s db g w f k b a \<longleftrightarrow> k \<in> set (chunks s) \<and> b \<in> set (index_builds s) \<and> a \<in> set (agreements s) \<and>
     searchable g w k b a \<and> passes_filters db f k a"

definition ranks_live :: "'z processing_db_scheme \<Rightarrow> search_backend \<Rightarrow> uuid \<Rightarrow> uuid \<Rightarrow> search_filters \<Rightarrow> ranked_chunk \<Rightarrow> bool" where
  "ranks_live s db g w f r \<longleftrightarrow> (\<exists>k b a v. live_chunk s db g w f k b a \<and> r = ranked_of v k b a)"

lemma search_rows_live: "(k, b, a) \<in> set (search_rows s db g w f) \<Longrightarrow> live_chunk s db g w f k b a"
  by (auto simp: search_rows_def live_chunk_def)

lemma ranked_rows_live:
  "set rows \<subseteq> set (search_rows s db g w f) \<Longrightarrow> r \<in> set (map (\<lambda>(k, b, a). ranked_of v k b a) rows) \<Longrightarrow>
     ranks_live s db g w f r"
  unfolding ranks_live_def by (auto dest!: subsetD search_rows_live)

lemma lexical_live: "r \<in> set (lexical_candidates s db g w f limit) \<Longrightarrow> ranks_live s db g w f r"
  unfolding lexical_candidates_def Let_def
  by (erule ranked_rows_live [rotated]) (auto dest: in_set_takeD)

lemma semantic_live:
  assumes "r \<in> set (semantic_candidates s db g w f q v d c m limit)"
  shows "ranks_live s db g w f r"
proof -
  obtain k b a e where "((k, b, a), e) \<in> set (embedded_rows s db g w f v d)" "r = ranked_of (Some (ce_index_version e)) k b a"
    using assms unfolding semantic_candidates_def by (auto dest!: in_set_takeD)
  then show ?thesis using search_rows_live unfolding ranks_live_def embedded_rows_def by fastforce
qed

lemma configuration_live:
  assumes "candidates_for_configuration s db gw ec c g w f limit = Inr rs" "r \<in> set rs"
  shows "ranks_live s db g w f r"
proof -
  obtain vectors m where c: "(case vectors of
       [v] \<Rightarrow>
         if length v \<noteq> ec_dimensions ec then Inr []
         else Inr (semantic_candidates s db g w f v (ec_index_version ec) (int (ec_dimensions ec)) (vc_version c) m limit)
     | _ \<Rightarrow> Inr []) = (Inr rs :: ranked_chunk list result)"
    using assms(1) unfolding candidates_for_configuration_def bindR_Inr_iff by fastforce
  show ?thesis
  proof (cases vectors)
    case (Cons v vs)
    then show ?thesis using c assms(2) by (cases vs) (auto split: if_splits intro: semantic_live)
  qed (use c assms(2) in simp)
qed

lemma add_unseen_live:
  "fst (add_unseen ks seen results) = rs \<Longrightarrow> r \<in> set rs \<Longrightarrow> r \<in> set ks \<or> r \<in> set results"
  by (induction ks seen results arbitrary: rs rule: add_unseen.induct) (auto split: if_splits)

lemma prior_spaces_live:
  assumes "\<And>r. r \<in> set results \<Longrightarrow> ranks_live s db g w f r"
    and "r \<in> set (prior_spaces s db gw ec version g w f limit xs seen results)"
  shows "ranks_live s db g w f r"
  using assms
proof (induction xs arbitrary: seen results)
  case (Cons x xs)
  consider (stop) "prior_spaces s db gw ec version g w f limit (x # xs) seen results = results"
    | (skip) "prior_spaces s db gw ec version g w f limit (x # xs) seen results =
        prior_spaces s db gw ec version g w f limit xs seen results"
    | (add) c fallback where "candidates_for_configuration s db gw ec c g w f (limit - length results) = Inr fallback"
        "prior_spaces s db gw ec version g w f limit (x # xs) seen results =
         prior_spaces s db gw ec version g w f limit xs (snd (add_unseen fallback seen results))
           (fst (add_unseen fallback seen results))"
  proof (cases "limit \<le> length results \<or> es_configuration_version x = version")
    case True
    then show ?thesis using stop skip by (cases "limit \<le> length results") simp_all
  next
    case False
    show ?thesis
    proof (cases "resolve_configuration_by_version (Some s) Embedding (es_configuration_version x) (Some g) (Some w)")
      case None
      then show ?thesis using skip False by simp
    next
      case (Some c)
      then show ?thesis using skip add False
        by (cases "candidates_for_configuration s db gw ec c g w f (limit - length results)") (simp_all add: case_prod_beta)
    qed
  qed
  then show ?case
  proof cases
    case add
    have "ranks_live s db g w f y" if "y \<in> set (fst (add_unseen fallback seen results))" for y
      using add_unseen_live [OF refl that] configuration_live [OF add(1)] Cons.prems(1) by blast
    then show ?thesis using Cons.IH Cons.prems(2) unfolding add(2) by blast
  qed (use Cons in auto)
qed simp

lemma provider_live:
  assumes "semantic_provider_candidates s db pv g w f limit = Inr rs" "r \<in> set rs"
  shows "ranks_live s db g w f r"
proof (cases "sv_gateway pv")
  case (Some gw)
  then obtain active xs version where "candidates_for_configuration s db gw (sv_configuration pv)
        (resolve_configuration (Some s) Embedding (sv_environment pv) (Some g) (Some w)) g w f limit = Inr active"
      "rs = take limit (prior_spaces s db gw (sv_configuration pv) version g w f limit xs (map chunk_key active) active)"
    using assms(1) unfolding semantic_provider_candidates_def by (auto simp: bindR_Inr_iff Let_def)
  then show ?thesis using assms(2) configuration_live prior_spaces_live by (metis in_set_takeD)
qed (use assms in \<open>auto simp: semantic_provider_candidates_def\<close>)

lemma hybrid_search_chunks:
  assumes "hybrid_search s db pv actor g w f limit = Inr res" "i \<in> set (se_items res)"
  obtains k b a v x where "live_chunk s db g w f k b a" "i = to_result x" "fu_chunk x = ranked_of v k b a"
proof -
  let ?l = "lexical_candidates s db g w f MAX_CANDIDATES_PER_CHANNEL"
  let ?s = "case semantic_provider_candidates s db pv g w f MAX_CANDIDATES_PER_CHANNEL of Inl _ \<Rightarrow> [] | Inr ks \<Rightarrow> ks"
  obtain x where x: "x \<in> set (fuse_reciprocal_rank ?l ?s (min limit MAX_RESULT_LIMIT))" "i = to_result x"
    using assms unfolding hybrid_search_def by (auto simp: bindR_Inr_iff Let_def require_Inr_iff)
  have "x \<in> set (all_fused ?l ?s)" using x(1) unfolding fuse_reciprocal_rank_def all_fused_def by (auto dest: in_set_takeD)
  then have "fu_chunk x \<in> set ?l \<union> set ?s" by (rule all_fused_chunk)
  then have "ranks_live s db g w f (fu_chunk x)"
    using lexical_live provider_live
    by (cases "semantic_provider_candidates s db pv g w f MAX_CANDIDATES_PER_CHANNEL") auto
  then show thesis using x(2) that unfolding ranks_live_def by metis
qed

end
