(* ===== verification/Answer_Grounding.thy ===== *)
theory Answer_Grounding
  imports Evidence_Validation
begin

text \<open>
  What the validation of an answer guarantees on its own: an accepted claim stands, up to case and spacing, in the
  text of every snippet it cites.
\<close>

section \<open>Normalized text\<close>

text \<open>Writing more characters before or after a text only extends its normal form.\<close>

abbreviation words_of :: "string \<Rightarrow> string list" where
  "words_of s \<equiv> runs (\<lambda>c. \<not> is_space c) s"

abbreviation spaced :: "string list \<Rightarrow> string" where
  "spaced ws \<equiv> join_with '' '' ws"

lemma contains_refl [simp]: "contains s s"
  unfolding contains_iff by (metis append_Nil append_Nil2)

lemma contains_trans: "contains a b \<Longrightarrow> contains b c \<Longrightarrow> contains a c"
  unfolding contains_iff by (metis append.assoc)

lemma spaced_Cons: "spaced (w # ws) = w @ (if ws = [] then [] else '' '' @ spaced ws)"
  by (cases ws) simp_all

lemma words_all: "(\<forall>c \<in> set w. \<not> is_space c) \<Longrightarrow> words_of w = (if w = [] then [] else [w])"
  by (rule runs_word)

lemma words_space: "is_space c \<Longrightarrow> words_of (a @ c # b) = words_of a @ words_of b"
  by (rule runs_sep) simp

lemma spaced_words_Nil: "spaced (words_of s) = [] \<longleftrightarrow> words_of s = []"
proof (cases "words_of s")
  case (Cons w ws)
  then have "w \<noteq> []" using runs_nonempty [of w "\<lambda>c. \<not> is_space c" s] by simp
  then show ?thesis by (simp add: Cons spaced_Cons)
qed simp

lemma spaced_words_suffix: "\<exists>a. spaced (words_of (p @ s)) = a @ spaced (words_of s)"
proof (induction p)
  case (Cons c p)
  then obtain a where a: "spaced (words_of (p @ s)) = a @ spaced (words_of s)" by blast
  show ?case
  proof (cases "is_space c")
    case True
    then show ?thesis using a by simp
  next
    case False
    let ?t = "p @ s"
    have w: "words_of (c # ?t) = (c # takeWhile (\<lambda>c. \<not> is_space c) ?t) # words_of (dropWhile (\<lambda>c. \<not> is_space c) ?t)"
      using False by simp
    have "\<exists>b. spaced (words_of (c # ?t)) = b @ spaced (words_of ?t)"
    proof (cases ?t)
      case (Cons d u)
      show ?thesis
      proof (cases "is_space d")
        case True
        have "spaced (words_of (c # ?t)) = [c] @ (if words_of u = [] then [] else '' '' @ spaced (words_of u))"
          using w Cons True by (simp add: spaced_Cons)
        moreover have "words_of ?t = words_of u" using Cons True by simp
        ultimately show ?thesis by (cases "words_of u = []") (auto intro: exI [of _ "[c] @ '' ''"])
      next
        case False
        have "words_of ?t = takeWhile (\<lambda>c. \<not> is_space c) ?t # words_of (dropWhile (\<lambda>c. \<not> is_space c) ?t)"
          using Cons False by simp
        then have "spaced (words_of (c # ?t)) = [c] @ spaced (words_of ?t)" using w by (simp only: spaced_Cons) simp
        then show ?thesis by blast
      qed
    qed simp
    then show ?thesis using a by (metis append.assoc append_Cons)
  qed
qed (auto intro: exI [of _ "[]"])

lemma spaced_words_prefix: "\<exists>b. spaced (words_of (s @ t)) = spaced (words_of s) @ b"
proof (induction "\<lambda>c. \<not> is_space c" s rule: runs.induct)
  case (2 c s)
  show ?case
  proof (cases "is_space c")
    case False
    let ?p = "\<lambda>c. \<not> is_space c"
    show ?thesis
    proof (cases "\<forall>x \<in> set s. ?p x")
      case True
      then have t: "takeWhile ?p s = s" "dropWhile ?p s = []" "takeWhile ?p (s @ t) = s @ takeWhile ?p t" by simp_all
      have "words_of (c # s) = [c # s]" using words_all [of "c # s"] False True by simp
      moreover have "words_of (c # s @ t) = (c # s @ takeWhile ?p t) # words_of (dropWhile ?p (s @ t))" using False t by simp
      ultimately show ?thesis by (simp add: spaced_Cons)
    next
      case nosp: False
      then have t: "takeWhile ?p (s @ t) = takeWhile ?p s" "dropWhile ?p (s @ t) = dropWhile ?p s @ t"
        by (auto simp: takeWhile_append dropWhile_append)
      obtain b where b: "spaced (words_of (dropWhile ?p s @ t)) = spaced (words_of (dropWhile ?p s)) @ b"
        using 2(1) False by auto
      have "words_of (c # s) = (c # takeWhile ?p s) # words_of (dropWhile ?p s)" using False by simp
      moreover have "words_of (c # s @ t) = (c # takeWhile ?p s) # words_of (dropWhile ?p s @ t)" using False t by simp
      ultimately show ?thesis using b
        by (cases "words_of (dropWhile ?p s) = []"; cases "words_of (dropWhile ?p s @ t) = []") (auto simp: spaced_Cons spaced_words_Nil simp del: runs.simps)
    qed
  qed (use 2(2) in auto)
qed simp

lemma normalized_contains: "contains (normalized_sentence s) (normalized_sentence (a @ s @ b))"
proof -
  obtain x where x: "spaced (words_of (str_lower a @ str_lower s @ str_lower b)) = x @ spaced (words_of (str_lower s @ str_lower b))"
    using spaced_words_suffix by blast
  obtain y where "spaced (words_of (str_lower s @ str_lower b)) = spaced (words_of (str_lower s)) @ y"
    using spaced_words_prefix by blast
  then have "normalized_sentence (a @ s @ b) = x @ normalized_sentence s @ y"
    using x by (simp add: normalized_sentence_def str_split_def str_lower_def)
  then show ?thesis unfolding contains_iff by blast
qed

section \<open>Sentences\<close>

lemma strip_within: "\<exists>a b. s = a @ str_strip s @ b"
proof -
  have "dropWhile is_space s = rev (dropWhile is_space (rev (dropWhile is_space s))) @
      rev (takeWhile is_space (rev (dropWhile is_space s)))"
    by (metis rev_append rev_rev_ident takeWhile_dropWhile_id)
  then have "s = takeWhile is_space s @ str_strip s @ rev (takeWhile is_space (rev (dropWhile is_space s)))"
    unfolding str_strip_def by (metis takeWhile_dropWhile_id)
  then show ?thesis by blast
qed

lemma sentence_within: "x \<in> set (sentences_from cur s) \<Longrightarrow> \<exists>a b. cur @ s = a @ x @ b"
proof (induction s arbitrary: cur)
  case Nil
  then show ?case using strip_within [of cur] by (auto simp: push_sentence_def split: if_splits)
next
  case (Cons c s)
  have pushed: "x \<in> set (push_sentence p rest) \<Longrightarrow> x = str_strip p \<or> x \<in> set rest" for p rest
    by (auto simp: push_sentence_def split: if_splits)
  consider "x = str_strip (cur @ [c])" | "x = str_strip cur" | "x \<in> set (sentences_from [] s)"
    | "x \<in> set (sentences_from (cur @ [c]) s)"
    using Cons.prems pushed by (auto split: if_splits)
  then show ?case
  proof cases
    case 1
    then show ?thesis using strip_within [of "cur @ [c]"] by (metis append.assoc append_Cons append_Nil)
  next
    case 2
    then show ?thesis using strip_within [of cur] by (metis append.assoc)
  next
    case 3
    then obtain a b where "s = a @ x @ b" using Cons.IH [of "[]"] by auto
    then have "cur @ c # s = (cur @ c # a) @ x @ b" by simp
    then show ?thesis by blast
  next
    case 4
    then show ?thesis using Cons.IH [of "cur @ [c]"] by simp
  qed
qed

lemma supporting_quote:
  assumes "extract_supporting_quote claim quoted \<noteq> None"
  shows "contains (normalized_sentence claim) (normalized_sentence quoted)"
proof -
  obtain x where x: "x \<in> set (sentences_of quoted)" "normalized_sentence x = normalized_sentence claim"
    using assms unfolding extract_supporting_quote_def by (auto split: if_splits dest: find_SomeD)
  obtain a b where "quoted = a @ x @ b" using sentence_within [of x "[]" quoted] x(1) unfolding sentences_of_def by auto
  then show ?thesis using normalized_contains [of x a b] x(2) by simp
qed

section \<open>Accepted claims\<close>

text \<open>A citation carries a claim when its snippet is evidence and its quote says the claim.\<close>

definition carries :: "evidence_snippet list \<Rightarrow> grounded_claim \<Rightarrow> grounded_citation \<Rightarrow> evidence_snippet \<Rightarrow> bool" where
  "carries es m c e \<longleftrightarrow> e \<in> set es \<and> an_id (sn_anchor e) = gc_anchor c \<and>
     quote_is_in_snippet (gc_quote c) (sn_text e) \<and> extract_supporting_quote (gm_text m) (gc_quote c) \<noteq> None"

lemma carries_text:
  "carries es m c e \<Longrightarrow> contains (normalized_sentence (gm_text m)) (normalized_sentence (sn_text e))"
  unfolding carries_def quote_is_in_snippet_def using supporting_quote contains_trans by blast

lemma snippet_ofD: "snippet_of es i = Some e \<Longrightarrow> e \<in> set es \<and> an_id (sn_anchor e) = i"
  unfolding snippet_of_def by (auto dest: find_SomeD)

lemma valid_citations_carried:
  "valid_citations (gm_text m) es cs = (True, x) \<Longrightarrow> c \<in> set cs \<Longrightarrow> \<exists>e. carries es m c e"
proof (induction cs)
  case (Cons d cs)
  obtain e where "snippet_of es (gc_anchor d) = Some e" "carries es m d e" "valid_citations (gm_text m) es cs = (True, x)"
    using Cons.prems(1) by (auto simp: carries_def split: option.splits if_splits dest: snippet_ofD)
  then show ?case using Cons by auto
qed simp

lemma valid_claim_carried:
  "valid_claim es m = (True, x) \<Longrightarrow> gm_citations m \<noteq> [] \<and> (\<forall>c \<in> set (gm_citations m). \<exists>e. carries es m c e)"
  unfolding valid_claim_def by (auto split: if_splits dest: valid_citations_carried)

definition claim_carried :: "evidence_snippet list \<Rightarrow> grounded_claim \<Rightarrow> bool" where
  "claim_carried es m \<longleftrightarrow> gm_citations m \<noteq> [] \<and> (\<forall>c \<in> set (gm_citations m). \<exists>e. carries es m c e)"

lemma validate_claims_carried:
  "validate_claims es ms accepted rejected = (out, x) \<Longrightarrow> list_all (claim_carried es) accepted \<Longrightarrow>
     list_all (claim_carried es) out"
  by (induction ms arbitrary: accepted rejected)
    (auto simp: claim_carried_def split: prod.splits if_splits dest: valid_claim_carried)

lemma answer_claims_carried: "m \<in> set (ga_claims (answer_question q es answerer g w)) \<Longrightarrow> claim_carried es m"
proof -
  have v: "m \<in> set (ga_claims (validated_answer es ms d)) \<Longrightarrow> claim_carried es m" for ms d
    using validate_claims_carried [of es ms "[]" False]
    by (cases "validate_claims es ms [] False")
      (auto simp: validated_answer_def refusal_def list_all_iff split: if_splits)
  then show "m \<in> set (ga_claims (answer_question q es answerer g w)) \<Longrightarrow> claim_carried es m"
    by (auto simp: answer_question_def Let_def refusal_def split: if_splits model_reply.splits)
qed

end
