(* ===== verification/Question_Answers.thy ===== *)
theory Question_Answers
  imports Question_Service Search_Results Answer_Grounding
begin

text \<open>
  What a question returns and what a thread shows: claims that stand in live chunks the asker may search, a history
  without the claims of agreements that are gone, and the refusal of evidence whose chunks overlap.
\<close>

section \<open>Sources\<close>

lemma add_sources_keeps: "map_of (fst x) i = Some e \<Longrightarrow> map_of (fst (add_sources src is x)) i = Some e"
  by (induction src "is" x rule: add_sources.induct) (auto split: option.split)

lemma add_sources_ambiguous: "set (snd x) \<subseteq> set (snd (add_sources src is x))"
proof (induction "is" arbitrary: x)
  case (Cons j js)
  obtain sources ambiguous where x: "x = (sources, ambiguous)" by (cases x)
  let ?y = "case map_of sources j of None \<Rightarrow> (sources @ [(j, src)], ambiguous)
    | Some e \<Rightarrow> (sources, if e = src then ambiguous else j # ambiguous)"
  have "set ambiguous \<subseteq> set (snd ?y)" by (auto split: option.split)
  then show ?case using Cons [of ?y] by (auto simp: x)
qed simp

lemma add_sources_covers:
  "i \<in> set is \<Longrightarrow> \<exists>e. map_of (fst (add_sources src is x)) i = Some e \<and> (e = src \<or> i \<in> set (snd (add_sources src is x)))"
proof (induction "is" arbitrary: x)
  case (Cons j js)
  obtain sources ambiguous where x: "x = (sources, ambiguous)" by (cases x)
  let ?y = "case map_of sources j of None \<Rightarrow> (sources @ [(j, src)], ambiguous)
    | Some e \<Rightarrow> (sources, if e = src then ambiguous else j # ambiguous)"
  have y: "\<exists>e. map_of (fst ?y) j = Some e \<and> (e = src \<or> j \<in> set (snd ?y))"
    by (auto simp: map_add_Some_iff split: option.split)
  show ?case
  proof (cases "i = j")
    case True
    then show ?thesis using y add_sources_keeps [of ?y j _ src js] add_sources_ambiguous [of ?y src js] by (fastforce simp: x)
  next
    case False
    then show ?thesis using Cons by (simp add: x)
  qed
qed simp

lemma sources_of_results_keep: "map_of (fst x) i = Some e \<Longrightarrow> map_of (fst (sources_of_results rs x)) i = Some e"
  by (induction rs arbitrary: x) (simp_all add: add_sources_keeps)

lemma sources_of_results_ambiguous: "set (snd x) \<subseteq> set (snd (sources_of_results rs x))"
proof (induction rs arbitrary: x)
  case (Cons r rs)
  then show ?case
    using add_sources_ambiguous [of x "source_of_result r" "sc_anchor_ids (sr_citation r)"] unfolding sources_of_results.simps
    by (rule subset_trans [rotated])
qed simp

lemma sources_of_results_cover:
  "r \<in> set rs \<Longrightarrow> i \<in> set (sc_anchor_ids (sr_citation r)) \<Longrightarrow>
     \<exists>e. map_of (fst (sources_of_results rs x)) i = Some e \<and>
       (e = source_of_result r \<or> i \<in> set (snd (sources_of_results rs x)))"
proof (induction rs arbitrary: x)
  case (Cons q rs)
  show ?case
  proof (cases "r = q")
    case True
    let ?y = "add_sources (source_of_result q) (sc_anchor_ids (sr_citation q)) x"
    obtain e where e: "map_of (fst ?y) i = Some e" "e = source_of_result q \<or> i \<in> set (snd ?y)"
      using add_sources_covers Cons.prems(2) True by blast
    then have "e = source_of_result q \<or> i \<in> set (snd (sources_of_results rs ?y))"
      using sources_of_results_ambiguous by blast
    then show ?thesis using sources_of_results_keep [OF e(1), of rs] True by simp
  next
    case False
    then show ?thesis using Cons by auto
  qed
qed simp

lemma map_of_filter_key: "map_of (filter (\<lambda>(i, _). P i) xs) i = (if P i then map_of xs i else None)"
  by (induction xs) auto

lemma citation_source_of_anchor:
  assumes "map_of (citation_sources_from_search res) i \<noteq> None" "r \<in> set (se_items res)"
    "i \<in> set (sc_anchor_ids (sr_citation r))"
  shows "map_of (citation_sources_from_search res) i = Some (source_of_result r)"
proof -
  obtain sources ambiguous where s: "sources_of_results (se_items res) ([], []) = (sources, ambiguous)"
    by (cases "sources_of_results (se_items res) ([], [])")
  have m: "map_of (citation_sources_from_search res) i = (if i \<notin> set ambiguous then map_of sources i else None)"
    unfolding citation_sources_from_search_def s by (simp add: map_of_filter_key)
  then show ?thesis using sources_of_results_cover [OF assms(2,3), of "([], [])"] assms(1) s by (auto split: if_splits)
qed

section \<open>Evidence\<close>

lemma evidence_of_result:
  assumes "e \<in> set (evidence_from_search res sources)"
  obtains r where "r \<in> set (se_items res)" "an_id (sn_anchor e) \<in> set (sc_anchor_ids (sr_citation r))"
    "map_of sources (an_id (sn_anchor e)) \<noteq> None" "sn_text e = sr_preview r"
  using assms unfolding evidence_from_search_def by (auto simp: snippet_of_result_def)

lemma preview_within: "contains (normalized_sentence (take n s)) (normalized_sentence s)"
  using normalized_contains [of "take n s" "[]" "drop n s"] by simp

lemma load_threadD:
  "load_thread s thread = Inr (Some t) \<Longrightarrow> th_org t = th_org thread \<and> th_ws t = th_ws thread \<and> th_id t = th_id thread"
  unfolding load_thread_def get_thread_def
  by (auto simp: bindR_Inr_iff split: option.splits if_splits dest!: find_SomeD)

lemma ask_parts:
  assumes "ask v s actor thread question now clock = Inr (turn, s')"
  obtains t res where "load_thread s thread = Inr (Some t)" "can_access_workspace s actor (th_org t) (th_ws t) SEARCH_QUERY"
    "hybrid_search s (qs_backend v) (qs_provider v) actor (th_org t) (th_ws t) (question_filters question t)
       DEFAULT_RESULT_LIMIT = Inr res"
    "turn = \<lparr>tn_id = uuid4 s, tn_question = question,
       tn_answer = answer_question question (evidence_from_search res (citation_sources_from_search res))
         (answer_with_context v s t) (Some (th_org t)) (Some (th_ws t)),
       tn_created_at = now, tn_sources = citation_sources_from_search res\<rparr>"
    "s' = add_question_event t (Some (tn_id turn)) actor ''question_answered''
       (answer_status_value (ga_status (tn_answer turn))) clock
       (draw s\<lparr>question_turns := question_turns s @
          [turn_row (uuid4 s) t question (tn_answer turn) (length (se_items res)) (tn_sources turn) clock]\<rparr>)"
proof -
  obtain loaded t u f res where l: "load_thread s thread = Inr loaded" "loaded = Some t"
      "require_question_access s actor (th_org t) (th_ws t) = Inr u" "checked_filters (question_filters question t) = Inr f"
      "hybrid_search s (qs_backend v) (qs_provider v) actor (th_org t) (th_ws t) f DEFAULT_RESULT_LIMIT = Inr res"
    and result: "\<lparr>tn_id = uuid4 s, tn_question = question,
       tn_answer = answer_question question (evidence_from_search res (citation_sources_from_search res))
         (answer_with_context v s t) (Some (th_org t)) (Some (th_ws t)),
       tn_created_at = now, tn_sources = citation_sources_from_search res\<rparr> = turn"
      "add_question_event t (Some (uuid4 s)) actor ''question_answered''
       (answer_status_value (ga_status (answer_question question (evidence_from_search res (citation_sources_from_search res))
         (answer_with_context v s t) (Some (th_org t)) (Some (th_ws t))))) clock
       (draw s\<lparr>question_turns := question_turns s @
          [turn_row (uuid4 s) t question (answer_question question (evidence_from_search res (citation_sources_from_search res))
         (answer_with_context v s t) (Some (th_org t)) (Some (th_ws t))) (length (se_items res))
           (citation_sources_from_search res) clock]\<rparr>) = s'"
    using assms unfolding ask_def bindR_Inr_iff some_or_Inr_iff Let_def sum.inject prod.inject question_turn.select_convs
    by (elim exE conjE) (rule that, assumption+)
  have "f = question_filters question t" using l(4) by (simp add: checked_filters_def split: if_splits)
  then show thesis
    using that [of t res] l result by (auto simp: require_question_access_def require_Inr_iff)
qed

text \<open>A citation stands in a chunk of the workspace that a search may show, and its source is the chunk's agreement.\<close>

definition stands_in_chunk ::
  "'z processing_db_scheme \<Rightarrow> question_thread \<Rightarrow> (string \<times> citation_source) list \<Rightarrow> grounded_claim \<Rightarrow> grounded_citation
   \<Rightarrow> bool" where
  "stands_in_chunk s t sources m c \<longleftrightarrow> (\<exists>k \<in> set (chunks s). \<exists>b \<in> set (index_builds s). \<exists>a \<in> set (agreements s).
     searchable (th_org t) (th_ws t) k b a \<and> when_some (\<lambda>ids. ag_id a \<in> set ids) (th_agreement_ids t) \<and>
     gc_anchor c \<in> set (ck_anchor_ids k) \<and>
     contains (normalized_sentence (gm_text m)) (normalized_sentence (ck_content k)) \<and>
     map_of sources (gc_anchor c) =
       Some \<lparr>cs_agreement = ag_id a, cs_source_checksum = ck_source_checksum k, cs_source_version = ck_source_checksum k\<rparr>)"

lemma carried_stands:
  assumes h: "hybrid_search s db pv actor (th_org t) (th_ws t) (question_filters question t) limit = Inr res"
    and c: "carries (evidence_from_search res (citation_sources_from_search res)) m c e"
  shows "stands_in_chunk s t (citation_sources_from_search res) m c"
proof -
  have e: "e \<in> set (evidence_from_search res (citation_sources_from_search res))" "an_id (sn_anchor e) = gc_anchor c"
    using c by (simp_all add: carries_def)
  obtain r where r: "r \<in> set (se_items res)" "gc_anchor c \<in> set (sc_anchor_ids (sr_citation r))"
      "map_of (citation_sources_from_search res) (gc_anchor c) \<noteq> None" "sn_text e = sr_preview r"
    using evidence_of_result [OF e(1)] unfolding e(2) by metis
  obtain k b a u x where k: "live_chunk s db (th_org t) (th_ws t) (question_filters question t) k b a"
      "r = to_result x" "fu_chunk x = ranked_of u k b a"
    using hybrid_search_chunks [OF h r(1)] by metis
  have n: "contains (normalized_sentence (gm_text m)) (normalized_sentence (ck_content k))"
    using carries_text [OF c] preview_within [of 500 "ck_content k"] r(4) k(2,3) contains_trans
    by (simp add: to_result_def Let_def ranked_of_def)
  have src: "map_of (citation_sources_from_search res) (gc_anchor c) = Some (source_of_result r)"
    using citation_source_of_anchor [OF r(3,1,2)] .
  have f: "source_of_result r = \<lparr>cs_agreement = ag_id a, cs_source_checksum = ck_source_checksum k,
      cs_source_version = ck_source_checksum k\<rparr>" "gc_anchor c \<in> set (ck_anchor_ids k)"
    using r(2) k(2,3) by (simp_all add: to_result_def Let_def ranked_of_def source_of_result_def)
  have l: "k \<in> set (chunks s)" "b \<in> set (index_builds s)" "a \<in> set (agreements s)" "searchable (th_org t) (th_ws t) k b a"
      "when_some (\<lambda>ids. ag_id a \<in> set ids) (th_agreement_ids t)"
    using k(1) by (simp_all add: live_chunk_def passes_filters_def question_filters_def)
  show ?thesis unfolding stands_in_chunk_def using l n src f by metis
qed

text \<open>
  C38: Answers stand in live evidence. A question is answered only to a principal who may search the workspace, and every
  claim of the answer cites something; for each of its citations there is a chunk of an active index build, of an
  agreement of the thread that is neither archived nor being deleted, which has the cited anchor and whose text
  contains the whole claim up to case and spacing; and the recorded source of the citation is that agreement.
\<close>

theorem answers_cite_live_evidence:
  assumes "ask v s actor thread question now clock = Inr (turn, s')"
  shows "\<exists>t. load_thread s thread = Inr (Some t) \<and> th_org t = th_org thread \<and> th_ws t = th_ws thread \<and>
    can_access_workspace s actor (th_org t) (th_ws t) SEARCH_QUERY \<and>
    (\<forall>m \<in> set (ga_claims (tn_answer turn)). gm_citations m \<noteq> [] \<and>
      (\<forall>c \<in> set (gm_citations m). stands_in_chunk s t (tn_sources turn) m c))"
proof -
  obtain t res where p: "load_thread s thread = Inr (Some t)" "can_access_workspace s actor (th_org t) (th_ws t) SEARCH_QUERY"
      "hybrid_search s (qs_backend v) (qs_provider v) actor (th_org t) (th_ws t) (question_filters question t)
         DEFAULT_RESULT_LIMIT = Inr res"
      "tn_sources turn = citation_sources_from_search res"
      "tn_answer turn = answer_question question (evidence_from_search res (citation_sources_from_search res))
         (answer_with_context v s t) (Some (th_org t)) (Some (th_ws t))"
    using ask_parts [OF assms] by (metis question_turn.select_convs(3,5))
  have "claim_carried (evidence_from_search res (citation_sources_from_search res)) m"
    if "m \<in> set (ga_claims (tn_answer turn))" for m using that answer_claims_carried unfolding p(5) by blast
  then show ?thesis using p(1,2,4) load_threadD [OF p(1)] carried_stands [OF p(3)] unfolding claim_carried_def by metis
qed

end
