(* ===== verification/Question_History.thy ===== *)
theory Question_History
  imports Question_Answers Document_Chunks
begin

text \<open>
  Stored turns: what a thread shows of them, that a fresh turn is shown again as it was answered, and the evidence of
  overlapping chunks, which is refused.
\<close>

section \<open>Redaction\<close>

definition visible_agreement :: "'z processing_db_scheme \<Rightarrow> uuid \<Rightarrow> uuid \<Rightarrow> uuid \<Rightarrow> bool" where
  "visible_agreement s g w i \<longleftrightarrow> (\<exists>a \<in> set (agreements s). ag_id a = i \<and> ag_org a = g \<and> ag_ws a = w \<and>
     ag_archived_at a = None \<and> ag_deletion_requested_at a = None)"

lemma visible_ids: "i \<in> set (visible_agreement_ids s g w ids) \<longleftrightarrow> visible_agreement s g w i \<and> i \<in> set ids"
  by (auto simp: visible_agreement_ids_def visible_agreement_def)

lemma redact_turn_sources: "tn_sources (redact_turn visible t) = redacted_sources visible (tn_sources t)"
  by (simp add: redact_turn_def Let_def)

lemma filter_same_length: "length (filter p xs) = length xs \<Longrightarrow> filter p xs = xs"
  by (metis filter_True length_filter_less less_irrefl)

lemma redact_turn_claims:
  "m \<in> set (ga_claims (tn_answer (redact_turn visible t))) \<Longrightarrow> gm_citations m \<noteq> [] \<and>
     (\<forall>c \<in> set (gm_citations m). gc_anchor c \<in> fst ` set (redacted_sources visible (tn_sources t)))"
proof -
  let ?ok = "\<lambda>m. gm_citations m \<noteq> [] \<and> list_all (\<lambda>c. gc_anchor c \<in> set (map fst (redacted_sources visible (tn_sources t)))) (gm_citations m)"
  assume m: "m \<in> set (ga_claims (tn_answer (redact_turn visible t)))"
  have "ga_claims (tn_answer (redact_turn visible t)) = filter ?ok (ga_claims (tn_answer t))"
  proof (cases "length (filter ?ok (ga_claims (tn_answer t))) = length (ga_claims (tn_answer t))")
    case True
    then show ?thesis using filter_same_length [OF True] by (simp add: redact_turn_def Let_def)
  qed (simp add: redact_turn_def Let_def)
  then show ?thesis using m by (auto simp: list_all_iff)
qed

text \<open>
  C39: History shows nothing of agreements that are gone. Whatever was stored, the turns a thread shows carry only claims
  with citations, all of whose anchors have a source, and every source is an agreement of the workspace that is
  neither archived nor being deleted at the time of reading; and the reader may search the workspace.
\<close>

theorem history_redacted:
  assumes "read_thread v s actor thread = Inr (Some (t, ts))"
  shows "can_access_workspace s actor (th_org thread) (th_ws thread) SEARCH_QUERY \<and>
    (\<forall>x \<in> set ts. (\<forall>(i, src) \<in> set (tn_sources x). visible_agreement s (th_org thread) (th_ws thread) (cs_agreement src)) \<and>
       (\<forall>m \<in> set (ga_claims (tn_answer x)). gm_citations m \<noteq> [] \<and>
          (\<forall>c \<in> set (gm_citations m). \<exists>src. map_of (tn_sources x) (gc_anchor c) = Some src)))"
proof -
  obtain loaded where l: "load_thread s thread = Inr loaded" "(case loaded of None \<Rightarrow> Inr None | Some t \<Rightarrow>
         if \<not> can_access_workspace s actor (th_org t) (th_ws t) SEARCH_QUERY then Inr None
         else bindR (redact_inaccessible_turns v s t) (\<lambda>ts. Inr (Some (t, ts)))) = Inr (Some (t, ts))"
    using assms unfolding read_thread_def bindR_Inr_iff by (elim exE conjE) (rule that, assumption+)
  then have t: "load_thread s thread = Inr (Some t)" "can_access_workspace s actor (th_org t) (th_ws t) SEARCH_QUERY"
      "redact_inaccessible_turns v s t = Inr ts"
    by (auto simp: bindR_Inr_iff split: option.splits if_splits)
  have scope: "th_org t = th_org thread" "th_ws t = th_ws thread" using load_threadD [OF t(1)] by simp_all
  obtain us ids where ts: "ts = map (redact_turn (visible_agreement_ids s (th_org t) (th_ws t) ids)) us"
    using t(3) unfolding redact_inaccessible_turns_def bindR_Inr_iff Let_def by blast
  show ?thesis
  proof (intro conjI ballI)
    show "can_access_workspace s actor (th_org thread) (th_ws thread) SEARCH_QUERY" using t(2) scope by simp
    fix x assume "x \<in> set ts"
    then obtain u where x: "x = redact_turn (visible_agreement_ids s (th_org t) (th_ws t) ids) u" using ts by auto
    fix y assume "y \<in> set (tn_sources x)"
    then show "case y of (i, src) \<Rightarrow> visible_agreement s (th_org thread) (th_ws thread) (cs_agreement src)"
      unfolding x redact_turn_sources redacted_sources_def using scope by (auto simp: visible_ids)
  next
    fix x m assume "x \<in> set ts" and m: "m \<in> set (ga_claims (tn_answer x))"
    then obtain u where x: "x = redact_turn (visible_agreement_ids s (th_org t) (th_ws t) ids) u" using ts by auto
    show "gm_citations m \<noteq> []" using redact_turn_claims m unfolding x by blast
    fix c assume "c \<in> set (gm_citations m)"
    then have "gc_anchor c \<in> fst ` set (tn_sources x)" using redact_turn_claims m unfolding x redact_turn_sources by blast
    then show "\<exists>src. map_of (tn_sources x) (gc_anchor c) = Some src" by (meson domD domIff map_of_eq_None_iff)
  qed
qed

section \<open>Overlapping chunks\<close>

text \<open>The chunks of a single long block all carry its anchor, and nothing else.\<close>

lemma remdups_replicate: "remdups (replicate n i) = (if n = 0 then [] else [i])"
  by (induction n) auto

lemma window_anchors:
  assumes "covering (source_tokens [(i, text)]) 0 ws" "(w, st) \<in> set ws" "w \<noteq> []"
  shows "unique_anchors (map fst w) = [i]"
proof -
  have "w = take 1000 (drop st (source_tokens [(i, text)]))" using assms(1,2) by (auto simp: covering_def)
  then have "fst y = i" if "y \<in> set w" for y
    using that in_set_takeD in_set_dropD by (fastforce simp: source_tokens_def)
  then have "map fst w = replicate (length w) i" by (simp add: list_eq_iff_nth_eq)
  then show ?thesis using assms(3) unfolding unique_anchors_def by (simp add: remdups_replicate)
qed

section \<open>Refused evidence\<close>

text \<open>An anchor all of whose results are of one source is not ambiguous.\<close>

lemma add_sources_of_one:
  assumes "i \<in> set is \<longrightarrow> src = src0" "\<forall>e. map_of (fst x) i = Some e \<longrightarrow> e = src0" "i \<notin> set (snd x)"
  shows "(\<forall>e. map_of (fst (add_sources src is x)) i = Some e \<longrightarrow> e = src0) \<and> i \<notin> set (snd (add_sources src is x))"
  using assms
proof (induction "is" arbitrary: x)
  case (Cons j js)
  obtain sources ambiguous where x: "x = (sources, ambiguous)" by (cases x)
  let ?y = "case map_of sources j of None \<Rightarrow> (sources @ [(j, src)], ambiguous)
    | Some e \<Rightarrow> (sources, if e = src then ambiguous else j # ambiguous)"
  have y: "(\<forall>e. map_of (fst ?y) i = Some e \<longrightarrow> e = src0) \<and> i \<notin> set (snd ?y)"
    using Cons.prems unfolding x by (auto simp: map_add_Some_iff split: option.splits if_splits)
  have "i \<in> set js \<longrightarrow> src = src0" using Cons.prems(1) by simp
  from Cons.IH [OF this conjunct1 [OF y] conjunct2 [OF y]] show ?case unfolding x add_sources.simps .
qed simp

lemma sources_of_one:
  assumes "\<forall>r \<in> set rs. i \<in> set (sc_anchor_ids (sr_citation r)) \<longrightarrow> source_of_result r = src0"
    "\<forall>e. map_of (fst x) i = Some e \<longrightarrow> e = src0" "i \<notin> set (snd x)"
  shows "i \<notin> set (snd (sources_of_results rs x))"
  using assms
proof (induction rs arbitrary: x)
  case (Cons r rs)
  have "i \<in> set (sc_anchor_ids (sr_citation r)) \<longrightarrow> source_of_result r = src0" using Cons.prems(1) by simp
  note y = add_sources_of_one [OF this Cons.prems(2,3)]
  have "\<forall>r \<in> set rs. i \<in> set (sc_anchor_ids (sr_citation r)) \<longrightarrow> source_of_result r = src0" using Cons.prems(1) by simp
  from Cons.IH [OF this conjunct1 [OF y] conjunct2 [OF y]] show ?case unfolding sources_of_results.simps .
qed simp

lemma unambiguous_source:
  assumes "\<forall>r \<in> set (se_items res). i \<in> set (sc_anchor_ids (sr_citation r)) \<longrightarrow> source_of_result r = src"
    "r \<in> set (se_items res)" "i \<in> set (sc_anchor_ids (sr_citation r))"
  shows "map_of (citation_sources_from_search res) i \<noteq> None"
proof -
  obtain sources ambiguous where s: "sources_of_results (se_items res) ([], []) = (sources, ambiguous)"
    by (cases "sources_of_results (se_items res) ([], [])")
  have "i \<notin> set ambiguous" using sources_of_one [OF assms(1), of "([], [])"] s by simp
  then show ?thesis using sources_of_results_cover [OF assms(2,3), of "([], [])"] s
    unfolding citation_sources_from_search_def by (auto simp: map_of_filter_key)
qed

lemma anchors_valid_seen: "anchors_valid es seen \<Longrightarrow> distinct (map (an_id \<circ> sn_anchor) es) \<and> set (map (an_id \<circ> sn_anchor) es) \<inter> set seen = {}"
  by (induction es seen rule: anchors_valid.induct) (auto simp: Let_def)

lemma evidence_anchors:
  "map (an_id \<circ> sn_anchor) (evidence_from_search res sources) =
     concat (map (\<lambda>r. filter (\<lambda>i. map_of sources i \<noteq> None) (sc_anchor_ids (sr_citation r))) (se_items res))"
  unfolding evidence_from_search_def by (induction "se_items res") (simp_all add: snippet_of_result_def map_concat comp_def)

text \<open>
  Overlapping chunks refuse every question. When two results of a search carry the same anchor of the same source, as
  the consecutive chunks of a long block always do, the evidence lists the anchor twice: the question is refused as
  one without evidence, and the model is never asked.
\<close>

theorem overlapping_chunks_refused:
  assumes "se_items res = xs @ r1 # ys @ r2 # zs" "i \<in> set (sc_anchor_ids (sr_citation r1))"
    "i \<in> set (sc_anchor_ids (sr_citation r2))"
    "\<forall>r \<in> set (se_items res). i \<in> set (sc_anchor_ids (sr_citation r)) \<longrightarrow> source_of_result r = source_of_result r1"
  shows "answer_question question (evidence_from_search res (citation_sources_from_search res)) answerer g w =
    refusal InsufficientEvidence ''No authorized evidence is available for this question.'' default_guardrail"
proof -
  let ?sources = "citation_sources_from_search res"
  have "map_of ?sources i \<noteq> None" using unambiguous_source [OF assms(4), of r1] assms(1,2) by simp
  then have "\<not> distinct (map (an_id \<circ> sn_anchor) (evidence_from_search res ?sources))"
    using assms(1-3) unfolding evidence_anchors by auto
  then have "\<not> valid_evidence (evidence_from_search res ?sources)"
    using anchors_valid_seen unfolding valid_evidence_def by blast
  then show ?thesis unfolding answer_question_def by simp
qed

end
