(* ===== verification/Question_Memory.thy ===== *)
theory Question_Memory
  imports Question_History
begin

text \<open>
  A turn that was just asked is shown in its thread again: what \<open>ask\<close> writes into the row of a turn, the reading of
  the thread decodes, and the redaction keeps, because the sources are live. An answer the guardrails allowed comes
  back unchanged; the reading of the row replaces every other one by a fixed notice.
\<close>

section \<open>The stored values\<close>

lemma stored_citations_payload:
  "stored_citations str (map (\<lambda>c. JObj [(''anchor_id'', JStr (gc_anchor c)), (''supporting_quote'', JStr (gc_quote c))]) cs) = Inr cs"
  by (induction cs) (simp_all add: text_at_def)

lemma stored_claims_payload: "bindR (json_iter (claims_payload a)) (stored_claims str) = Inr (ga_claims a)"
proof -
  have "stored_claims str (map (\<lambda>m. JObj [(''text'', JStr (gm_text m)),
     (''citations'', JList (map (\<lambda>c. JObj [(''anchor_id'', JStr (gc_anchor c)),
       (''supporting_quote'', JStr (gc_quote c))]) (gm_citations m)))]) ms) = Inr ms" for ms
    by (induction ms) (simp_all add: stored_citations_payload)
  then show ?thesis by (simp add: claims_payload_def)
qed

lemma stored_sources_payload:
  assumes "\<forall>(i, c) \<in> set sources. parse_uuid (cs_agreement c) = Some (cs_agreement c)"
  shows "citation_sources_from_payload (JObj [(x, y), (''citation_sources'', citation_sources_payload sources), z]) =
    (if x = ''citation_sources'' then citation_sources_from_payload (JObj [(x, y)]) else sources)"
proof -
  have "concat (map (\<lambda>(i, v). case citation_source_of v of Some c \<Rightarrow> [(i, c)] | None \<Rightarrow> [])
      (map (\<lambda>(i, c). (i, JObj [(''agreement_id'', JStr (cs_agreement c)),
       (''source_checksum'', JStr (cs_source_checksum c)), (''source_version'', JStr (cs_source_version c))])) sources)) = sources"
    using assms by (induction sources) (auto simp: citation_source_of_def)
  then show ?thesis by (simp add: citation_sources_from_payload_def citation_sources_payload_def)
qed

section \<open>Guardrail decisions\<close>

lemma add_reason_distinct: "distinct rs \<Longrightarrow> distinct (add_reason r rs)" "set (add_reason r rs) = insert r (set rs)"
  by (auto simp: add_reason_def)

definition known_reasons :: "string list \<Rightarrow> bool" where
  "known_reasons rs \<longleftrightarrow> distinct rs \<and> set rs \<subseteq> set (BLOCK_REASONS @ REVIEW_REASONS)"

lemma add_known: "known_reasons rs \<Longrightarrow> r \<in> set (BLOCK_REASONS @ REVIEW_REASONS) \<Longrightarrow> known_reasons (add_reason r rs)"
  by (auto simp: known_reasons_def add_reason_def)

lemma reasons_known:
  "''unknown_anchor_id'' \<in> set (BLOCK_REASONS @ REVIEW_REASONS)"
  "''prompt_exfiltration_request'' \<in> set (BLOCK_REASONS @ REVIEW_REASONS)"
  "''tool_or_write_action_request'' \<in> set (BLOCK_REASONS @ REVIEW_REASONS)"
  "''encoded_exfiltration_request'' \<in> set (BLOCK_REASONS @ REVIEW_REASONS)"
  "''instruction_override_marker'' \<in> set (BLOCK_REASONS @ REVIEW_REASONS)"
  by (simp_all add: BLOCK_REASONS_def REVIEW_REASONS_def)

lemma text_reasons_known: "known_reasons rs \<Longrightarrow> known_reasons (text_reasons text rs)"
  unfolding text_reasons_def Let_def by (auto intro: add_known reasons_known)

lemma evidence_reasons_known: "known_reasons rs \<Longrightarrow> known_reasons (evidence_reasons allowed es rs)"
proof (induction allowed es rs rule: evidence_reasons.induct)
  case (2 allowed i body es rs)
  have "known_reasons (if i \<in> set allowed then rs else add_reason ''unknown_anchor_id'' rs)"
    using 2(2) add_known reasons_known(1) by simp
  then show ?case using 2(1) text_reasons_known by simp
qed simp

definition storable_decision :: "guardrail_decision \<Rightarrow> bool" where
  "storable_decision d \<longleftrightarrow> gd_policy_version d = POLICY_VERSION \<and> consistent_reasons (gd_status d) (gd_reasons d)"

lemma validated_decision_storable: "storable_decision (validate_untrusted_evidence es allowed)"
proof -
  let ?rs = "evidence_reasons allowed es []"
  have k: "known_reasons ?rs" by (rule evidence_reasons_known) (simp add: known_reasons_def)
  then show ?thesis
    unfolding storable_decision_def validate_untrusted_evidence_def consistent_reasons_def known_reasons_def Let_def
    by (auto simp: list_ex_iff)
qed

lemma default_decision_storable: "storable_decision default_guardrail"
  by (simp add: storable_decision_def default_guardrail_def consistent_reasons_def)

lemma answer_decision_storable: "storable_decision (ga_guardrail (answer_question q es answerer g w))"
proof -
  have "ga_guardrail (validated_answer es ms d) = d" for ms d
    by (simp add: validated_answer_def refusal_def split: prod.split)
  then show ?thesis
    unfolding answer_question_def
    by (auto simp: Let_def refusal_def default_decision_storable validated_decision_storable split: model_reply.split)
qed

lemma json_texts_map: "json_texts (map JStr xs) = Some xs"
  by (induction xs) simp_all

lemma stored_decision:
  assumes "storable_decision d"
  shows "guardrail_decision_from_payload (JObj [x, y, (''guardrail'', guardrail_provenance d)]) =
    (if fst x = ''guardrail'' \<or> fst y = ''guardrail'' then guardrail_decision_from_payload (JObj [x, y]) else Inr (Some d))"
proof -
  have st: "guardrail_status_of (guardrail_status_value (gd_status d)) = Some (gd_status d)"
    by (cases "gd_status d") (simp_all add: guardrail_status_of_def)
  have keys: "fst ` set [(''policy_version'', a), (''status'', b), (''reason_codes'', c)] = {''policy_version'', ''status'', ''reason_codes''}"
    for a b c :: json by simp
  have d: "d = \<lparr>gd_status = gd_status d, gd_reasons = gd_reasons d, gd_policy_version = ''untrusted-evidence.v1''\<rparr>"
    using assms by (simp add: storable_decision_def POLICY_VERSION_def)
  show ?thesis using assms d unfolding guardrail_decision_from_payload_def guardrail_provenance_def
    by (cases x; cases y) (simp add: st json_texts_map storable_decision_def POLICY_VERSION_def keys)
qed

lemma answer_status_stored: "answer_status_of (answer_status_value st) = st"
  by (cases st) (simp_all add: answer_status_of_def)

section \<open>The row of a turn\<close>

text \<open>The answer a later reader sees: a refused evidence hides the text of the answer.\<close>

definition shown_answer :: "grounded_answer \<Rightarrow> grounded_answer" where
  "shown_answer a = (if gd_status (ga_guardrail a) = Allow then a
     else \<lparr>ga_status = InsufficientEvidence, ga_claims = [], ga_message = ''Prior evidence requires review.'',
       ga_guardrail = ga_guardrail a\<rparr>)"

lemma turn_row_read:
  assumes "storable_decision (ga_guardrail answer)"
    "\<forall>(i, c) \<in> set sources. parse_uuid (cs_agreement c) = Some (cs_agreement c)"
  shows "turn_from_record str (turn_row i t question answer n sources clock) =
    Inr \<lparr>tn_id = i, tn_question = question, tn_answer = shown_answer answer, tn_created_at = clock, tn_sources = sources\<rparr>"
proof -
  obtain items where it: "json_iter (claims_payload answer) = Inr items" "stored_claims str items = Inr (ga_claims answer)"
    using stored_claims_payload [of answer str] unfolding bindR_Inr_iff by blast
  have p: "citation_sources_from_payload (qu_retrieval_provenance (turn_row i t question answer n sources clock)) = sources"
    using stored_sources_payload [OF assms(2), of "''result_count''"] by (simp add: turn_row_def)
  have d: "guardrail_decision_from_payload (qu_retrieval_provenance (turn_row i t question answer n sources clock)) =
      Inr (Some (ga_guardrail answer))"
    using stored_decision [OF assms(1)] by (simp add: turn_row_def)
  have a: "stored_answer (turn_row i t question answer n sources clock) (ga_claims answer) (ga_guardrail answer) = shown_answer answer"
    by (simp add: stored_answer_def shown_answer_def turn_row_def answer_status_stored)
  have f: "qu_claims (turn_row i t question answer n sources clock) = claims_payload answer"
      "qu_id (turn_row i t question answer n sources clock) = i" "qu_question (turn_row i t question answer n sources clock) = question"
      "qu_created_at (turn_row i t question answer n sources clock) = clock"
    by (simp_all add: turn_row_def)
  show ?thesis unfolding turn_from_record_def f it(1) d bindR.simps it(2) p option.case a by simp
qed

section \<open>Shown again\<close>

text \<open>The scope of a chunk is that of its agreement, and the ids of agreements are canonical.\<close>

definition chunks_scoped :: "'z processing_db_scheme \<Rightarrow> bool" where
  "chunks_scoped s \<longleftrightarrow> (\<forall>k \<in> set (chunks s). \<forall>a \<in> set (agreements s). ck_agreement k = ag_id a \<longrightarrow>
     ag_org a = ck_org k \<and> ag_ws a = ck_ws k)"

definition canonical_ids :: "'z agreement_db_scheme \<Rightarrow> bool" where
  "canonical_ids s \<longleftrightarrow> (\<forall>a \<in> set (agreements s). parse_uuid (ag_id a) = Some (ag_id a))"

lemma add_sources_origin: "(i, e) \<in> set (fst (add_sources src is x)) \<Longrightarrow> e = src \<or> (i, e) \<in> set (fst x)"
proof (induction "is" arbitrary: x)
  case (Cons j js)
  obtain sources ambiguous where x: "x = (sources, ambiguous)" by (cases x)
  let ?y = "case map_of sources j of None \<Rightarrow> (sources @ [(j, src)], ambiguous)
    | Some e \<Rightarrow> (sources, if e = src then ambiguous else j # ambiguous)"
  have "e = src \<or> (i, e) \<in> set (fst ?y)" using Cons.IH [of ?y] Cons.prems unfolding x by simp
  then show ?case unfolding x by (auto split: option.splits)
qed simp

lemma sources_of_results_origin:
  "(i, e) \<in> set (fst (sources_of_results rs x)) \<Longrightarrow> (\<exists>r \<in> set rs. e = source_of_result r) \<or> (i, e) \<in> set (fst x)"
proof (induction rs arbitrary: x)
  case (Cons r rs)
  then show ?case
    using add_sources_origin [of i e "source_of_result r" "sc_anchor_ids (sr_citation r)" x] by fastforce
qed simp

lemma citation_source_origin:
  "(i, e) \<in> set (citation_sources_from_search res) \<Longrightarrow> \<exists>r \<in> set (se_items res). e = source_of_result r"
  unfolding citation_sources_from_search_def
  using sources_of_results_origin [of i e "se_items res" "([], [])"]
  by (cases "sources_of_results (se_items res) ([], [])") auto

lemma search_source_live:
  assumes "hybrid_search s db pv actor g w f limit = Inr res" "(i, e) \<in> set (citation_sources_from_search res)"
    "chunks_scoped s" "canonical_ids s"
  shows "visible_agreement s g w (cs_agreement e) \<and> parse_uuid (cs_agreement e) = Some (cs_agreement e)"
proof -
  obtain r where r: "r \<in> set (se_items res)" "e = source_of_result r" using citation_source_origin [OF assms(2)] by blast
  obtain k b a u x where k: "live_chunk s db g w f k b a" "r = to_result x" "fu_chunk x = ranked_of u k b a"
    using hybrid_search_chunks [OF assms(1) r(1)] by metis
  have e: "cs_agreement e = ag_id a" using r(2) k(2,3) by (simp add: source_of_result_def to_result_def Let_def ranked_of_def)
  have a: "k \<in> set (chunks s)" "a \<in> set (agreements s)" "ck_agreement k = ag_id a" "ck_org k = g" "ck_ws k = w"
      "ag_archived_at a = None" "ag_deletion_requested_at a = None"
    using k(1) by (auto simp: live_chunk_def searchable_def)
  then have "ag_org a = g" "ag_ws a = w" using assms(3) by (auto simp: chunks_scoped_def)
  then show ?thesis using a assms(4) e by (auto simp: visible_agreement_def canonical_ids_def)
qed

lemma redact_visible:
  assumes "\<forall>(i, e) \<in> set (tn_sources t). cs_agreement e \<in> set visible"
    "\<forall>m \<in> set (ga_claims (tn_answer t)). gm_citations m \<noteq> [] \<and>
       (\<forall>c \<in> set (gm_citations m). gc_anchor c \<in> fst ` set (tn_sources t))"
  shows "redact_turn visible t = t"
proof -
  have "redacted_sources visible (tn_sources t) = tn_sources t"
    unfolding redacted_sources_def filter_id_conv using assms(1) by auto
  moreover have "filter (\<lambda>m. gm_citations m \<noteq> [] \<and> list_all (\<lambda>c. gc_anchor c \<in> set (map fst (tn_sources t))) (gm_citations m))
      (ga_claims (tn_answer t)) = ga_claims (tn_answer t)"
    unfolding filter_id_conv using assms(2) by (auto simp: list_all_iff)
  ultimately show ?thesis by (simp add: redact_turn_def Let_def)
qed

lemma in_concat_map: "x \<in> set xs \<Longrightarrow> y \<in> set (f x) \<Longrightarrow> y \<in> set (concat (map f xs))"
  by auto

lemma turns_from_records_in:
  "turns_from_records str us = Inr ts \<Longrightarrow> u \<in> set us \<Longrightarrow> turn_from_record str u = Inr t \<Longrightarrow> t \<in> set ts"
  by (induction us arbitrary: ts) (auto simp: bindR_Inr_iff)

lemma turns_readable:
  "(\<exists>ts. turns_from_records str us = Inr ts) \<longleftrightarrow> (\<forall>u \<in> set us. \<exists>t. turn_from_record str u = Inr t)"
  by (induction us) (auto simp: bindR_Inr_iff)

lemma question_event_fields [simp]:
  "question_turns (add_question_event t turn actor action outcome clock s) = question_turns s"
  "question_threads (add_question_event t turn actor action outcome clock s) = question_threads s"
  "agreements (add_question_event t turn actor action outcome clock s) = agreements s"
  "can_access_workspace (add_question_event t turn actor action outcome clock s) = can_access_workspace s"
  by (simp_all add: add_question_event_def draw_def fun_eq_iff can_access_workspace_granted granted_def membership_role_def)

lemma add_turn_fields [simp]:
  "question_turns (draw s\<lparr>question_turns := us\<rparr>) = us"
  "question_threads (draw s\<lparr>question_turns := us\<rparr>) = question_threads s"
  "agreements (draw s\<lparr>question_turns := us\<rparr>) = agreements s"
  "can_access_workspace (draw s\<lparr>question_turns := us\<rparr>) = can_access_workspace s"
  by (simp_all add: draw_def fun_eq_iff can_access_workspace_granted granted_def membership_role_def)

lemma load_thread_fields:
  assumes "question_threads s' = question_threads s" "agreements s' = agreements s"
  shows "load_thread s' thread = load_thread s thread"
proof -
  have v: "all_visible s' g w ids = all_visible s g w ids" for g w ids
    by (simp add: all_visible_def visible_agreement_ids_def assms)
  show ?thesis unfolding load_thread_def get_thread_def assms v by (rule refl)
qed

lemma read_thread_Some:
  "read_thread v s actor thread = Inr (Some (t, ts)) \<longleftrightarrow> load_thread s thread = Inr (Some t) \<and>
     can_access_workspace s actor (th_org t) (th_ws t) SEARCH_QUERY \<and> redact_inaccessible_turns v s t = Inr ts"
  by (auto simp: read_thread_def bindR_Inr_iff split: option.splits)

lemma shown_in_view:
  assumes "load_turns v s t = Inr us" "x \<in> set us"
    and "\<And>ids. \<forall>(i, e) \<in> set (tn_sources x). cs_agreement e \<in> set ids \<Longrightarrow>
      redact_turn (visible_agreement_ids s (th_org t) (th_ws t) ids) x = x"
  shows "\<exists>ts. redact_inaccessible_turns v s t = Inr ts \<and> x \<in> set ts"
proof -
  let ?ids = "concat (map (\<lambda>x. map (cs_agreement \<circ> snd) (tn_sources x)) us)"
  have "\<forall>(i, e) \<in> set (tn_sources x). cs_agreement e \<in> set ?ids"
  proof clarify
    fix i e assume "(i, e) \<in> set (tn_sources x)"
    then have "cs_agreement e \<in> set (map (cs_agreement \<circ> snd) (tn_sources x))" by force
    then show "cs_agreement e \<in> set ?ids" by (rule in_concat_map [OF assms(2)])
  qed
  then have kept: "redact_turn (visible_agreement_ids s (th_org t) (th_ws t) ?ids) x = x" by (rule assms(3))
  have "redact_turn (visible_agreement_ids s (th_org t) (th_ws t) ?ids) x \<in>
      set (map (redact_turn (visible_agreement_ids s (th_org t) (th_ws t) ?ids)) us)"
    unfolding set_map by (rule imageI) (rule assms(2))
  then show ?thesis unfolding kept redact_inaccessible_turns_def assms(1) Let_def bindR.simps by blast
qed

text \<open>The sources of a fresh turn are visible, so redacting it changes nothing.\<close>

lemma fresh_turn_kept:
  assumes h: "hybrid_search s db pv actor g w f limit = Inr res" and inv: "chunks_scoped s" "canonical_ids s"
    and t: "tn_sources t = citation_sources_from_search res"
      "tn_answer t = shown_answer (answer_question q (evidence_from_search res (citation_sources_from_search res)) answerer x y)"
    and ids: "\<forall>(i, e) \<in> set (tn_sources t). cs_agreement e \<in> set ids"
  shows "redact_turn (visible_agreement_ids s g w ids) t = t"
proof (rule redact_visible)
  show "\<forall>(i, e) \<in> set (tn_sources t). cs_agreement e \<in> set (visible_agreement_ids s g w ids)"
    using search_source_live [OF h _ inv] ids unfolding t(1) by (auto simp: visible_ids)
  have "gc_anchor c \<in> fst ` set (citation_sources_from_search res)"
    if "carries (evidence_from_search res (citation_sources_from_search res)) m c e" for m c e
  proof -
    have "map_of (citation_sources_from_search res) (gc_anchor c) \<noteq> None"
      using that evidence_of_result unfolding carries_def by metis
    then show ?thesis by (simp add: map_of_eq_None_iff)
  qed
  moreover have "claim_carried (evidence_from_search res (citation_sources_from_search res)) m"
    if "m \<in> set (ga_claims (tn_answer t))" for m
    using that answer_claims_carried unfolding t(2) shown_answer_def by (auto split: if_splits)
  ultimately show "\<forall>m \<in> set (ga_claims (tn_answer t)). gm_citations m \<noteq> [] \<and>
      (\<forall>c \<in> set (gm_citations m). gc_anchor c \<in> fst ` set (tn_sources t))"
    unfolding claim_carried_def t(1) by metis
qed

lemma asked_turn_read:
  assumes "read_thread v s actor thread = Inr (Some (t, ts))" "ask v s actor thread question now clock = Inr (turn, s')"
    "chunks_scoped s" "canonical_ids s"
  shows "\<exists>ts'. read_thread v s' actor thread = Inr (Some (t, ts')) \<and>
    turn\<lparr>tn_answer := shown_answer (tn_answer turn), tn_created_at := clock\<rparr> \<in> set ts'"
proof -
  obtain t' res where p: "load_thread s thread = Inr (Some t')"
      "hybrid_search s (qs_backend v) (qs_provider v) actor (th_org t') (th_ws t') (question_filters question t')
         DEFAULT_RESULT_LIMIT = Inr res"
    and turn: "turn = \<lparr>tn_id = uuid4 s, tn_question = question,
       tn_answer = answer_question question (evidence_from_search res (citation_sources_from_search res))
         (answer_with_context v s t') (Some (th_org t')) (Some (th_ws t')),
       tn_created_at = now, tn_sources = citation_sources_from_search res\<rparr>"
    and s': "s' = add_question_event t' (Some (tn_id turn)) actor ''question_answered''
       (answer_status_value (ga_status (tn_answer turn))) clock
       (draw s\<lparr>question_turns := question_turns s @
          [turn_row (uuid4 s) t' question (tn_answer turn) (length (se_items res)) (tn_sources turn) clock]\<rparr>)"
    using ask_parts [OF assms(2)] by metis
  let ?shown = "turn\<lparr>tn_answer := shown_answer (tn_answer turn), tn_created_at := clock\<rparr>"
  let ?row = "turn_row (uuid4 s) t' question (tn_answer turn) (length (se_items res)) (tn_sources turn) clock"
  have r: "load_thread s thread = Inr (Some t)" "can_access_workspace s actor (th_org t) (th_ws t) SEARCH_QUERY"
      "\<exists>us. turns_from_records (qs_str v) (list_turns s (th_org t) (th_ws t) (th_id t)) = Inr us"
    using assms(1) unfolding read_thread_Some redact_inaccessible_turns_def load_turns_def bindR_Inr_iff by auto
  then have t: "t' = t" using p(1) by simp
  have src: "\<forall>(i, c) \<in> set (tn_sources turn). parse_uuid (cs_agreement c) = Some (cs_agreement c)"
    using search_source_live [OF p(2) _ assms(3,4)] by (auto simp: turn)
  have "storable_decision (ga_guardrail (tn_answer turn))" by (simp add: turn answer_decision_storable)
  then have row: "turn_from_record (qs_str v) ?row = Inr ?shown" using src by (simp add: turn_row_read) (simp add: turn)
  have rows: "set (list_turns s' (th_org t) (th_ws t) (th_id t)) = insert ?row (set (list_turns s (th_org t) (th_ws t) (th_id t)))"
    by (auto simp: list_turns_def s' t turn_row_def)
  then obtain us where us: "turns_from_records (qs_str v) (list_turns s' (th_org t) (th_ws t) (th_id t)) = Inr us"
    using r(3) row turns_readable [of "qs_str v"] by (metis insert_iff)
  have in_us: "?shown \<in> set us" by (rule turns_from_records_in [OF us _ row]) (simp add: rows)
  have "visible_agreement_ids s' g w ids = visible_agreement_ids s g w ids" for g w ids
    by (simp add: visible_agreement_ids_def s')
  then have "redact_turn (visible_agreement_ids s' (th_org t) (th_ws t) ids) ?shown = ?shown"
    if "\<forall>(i, e) \<in> set (tn_sources ?shown). cs_agreement e \<in> set ids" for ids
    using fresh_turn_kept [OF p(2) assms(3,4), of ?shown] that unfolding t by (simp add: turn)
  then obtain ts' where "redact_inaccessible_turns v s' t = Inr ts'" "?shown \<in> set ts'"
    using shown_in_view [of v s' t us ?shown] us in_us unfolding load_turns_def by blast
  then show ?thesis
    unfolding read_thread_Some using r(1,2) load_thread_fields [of s' s thread] by (auto simp: s')
qed

text \<open>
  C40: An answered question is read back. In a database whose agreements have canonical ids (uuids as Python writes
  them) and whose chunks have the tenant and workspace of their agreement, a principal who could read a thread and
  asked a question reads the thread with the new turn in it, under the time of the database. An answer the guardrails
  allowed is read back unchanged: the same question, status, message, claims, citations and sources. The answer of a
  question whose evidence they refused or held for review is read back as ``insufficient evidence'' without a claim,
  with the message \<open>Prior evidence requires review.\<close> in place of the one that \<open>ask\<close> returned; its question, its
  guardrail decision and its sources are kept.
\<close>

theorem turn_shown_again:
  assumes "read_thread v s actor thread = Inr (Some (t, ts))" "ask v s actor thread question now clock = Inr (turn, s')"
    "chunks_scoped s" "canonical_ids s"
  shows "\<exists>ts'. read_thread v s' actor thread = Inr (Some (t, ts')) \<and>
    (gd_status (ga_guardrail (tn_answer turn)) = Allow \<longrightarrow> turn\<lparr>tn_created_at := clock\<rparr> \<in> set ts') \<and>
    (gd_status (ga_guardrail (tn_answer turn)) \<noteq> Allow \<longrightarrow>
      turn\<lparr>tn_answer := \<lparr>ga_status = InsufficientEvidence, ga_claims = [], ga_message = ''Prior evidence requires review.'',
         ga_guardrail = ga_guardrail (tn_answer turn)\<rparr>, tn_created_at := clock\<rparr> \<in> set ts')"
  using asked_turn_read [OF assms] by (auto simp: shown_answer_def)

end
