(* ===== verification/Question_Demo.thy ===== *)
theory Question_Demo
  imports Question_Memory Processing_Demo
begin

text \<open>
  A thread on one indexed lease, and a model that repeats one of its sentences: the concrete case of the properties of
  questions.
\<close>

definition lease_id :: uuid where
  "lease_id = ''11111111-1111-4111-8111-111111111111''"

definition demo_lease :: agreement_row where
  "demo_lease = demo_contract\<lparr>ag_id := lease_id\<rparr>"

definition demo_build :: index_build_row where
  "demo_build = \<lparr>ib_id = ''B1'', ib_org = ''G1'', ib_ws = ''W1'', ib_agreement = lease_id, ib_source_checksum = ''c1'',
     ib_chunker_version = ''v1'', ib_state = ''active'', ib_created_at = 0, ib_activated_at = Some 0\<rparr>"

definition demo_chunk :: chunk_row where
  "demo_chunk = \<lparr>ck_chunk_id = ''K1'', ck_org = ''G1'', ck_ws = ''W1'', ck_agreement = lease_id, ck_build = ''B1'',
     ck_source_checksum = ''c1'', ck_chunker_version = ''v1'', ck_ordinal = 0, ck_heading_path = [],
     ck_anchor_ids = [''a1''], ck_content = ''Due.''\<rparr>"

definition demo_thread_row :: question_thread_row where
  "demo_thread_row = \<lparr>qt_id = ''T1'', qt_org = ''G1'', qt_ws = ''W1'', qt_agreement_ids = None, qt_created_by = ''P1'',
     qt_created_at = 0\<rparr>"

definition demo_questions :: question_db where
  "demo_questions = demo_tenant \<lparr>agreements = [demo_lease], agreement_versions = [],
     policies = [], policy_versions = [], policy_stages = [], policy_audit = [], audit_events = [],
     evaluations = [], findings = [], review_decisions = [], review_audit = [],
     review_cases = [], assignments = [], comments = [], notifications = [],
     workflows = [], workflow_stages = [], workflow_decisions = [], workflow_outbox = [],
     final_packages = [], jobs = [], artifacts = [], intents = [], processing_outbox = [],
     comparison_runs = [], comparison_changes = [], index_builds = [demo_build], chunks = [demo_chunk],
     chunk_embeddings = [], question_threads = [demo_thread_row], question_turns = [], deletion_requests = [],
     deletion_objects = [], deletion_outbox = [], deletion_audit = [], object_registry = [], version_audit = [],
     ai_versions = [], ai_promotions = [], ai_audit = [], question_audit = []\<rparr>"

definition demo_thread :: question_thread where
  "demo_thread = \<lparr>th_id = ''T1'', th_org = ''G1'', th_ws = ''W1'', th_agreement_ids = None\<rparr>"

definition demo_claim :: grounded_claim where
  "demo_claim = \<lparr>gm_text = ''Due.'',
     gm_citations = [\<lparr>gc_anchor = ''a1'', gc_quote = ''Due.''\<rparr>]\<rparr>"

definition demo_question_service :: question_service where
  "demo_question_service = \<lparr>qs_backend = \<lparr>sb_postgres = False, sb_text_rank = (\<lambda>_ _. None), sb_distance = (\<lambda>_ _. 0),
       sb_json_text = (\<lambda>_. [])\<rparr>,
     qs_provider = \<lparr>sv_gateway = None, sv_configuration = \<lparr>ec_model = ''m'', ec_dimensions = 1, ec_index_version = ''i''\<rparr>,
       sv_environment = ''local''\<rparr>,
     qs_answerer = (\<lambda>_. Candidate [demo_claim]), qs_str = (\<lambda>_. [])\<rparr>"

section \<open>The search\<close>

definition demo_results :: search_response where
  "demo_results = \<lparr>se_items = [\<lparr>sr_agreement = lease_id, sr_title = ''T'', sr_type = ''client'', sr_status = ''draft'',
     sr_preview = ''Due.'', sr_citation = \<lparr>sc_chunk_id = ''K1'', sc_anchor_ids = [''a1''], sc_source_checksum = ''c1'',
       sc_source_version = ''c1''\<rparr>, sr_navigation = (lease_id, [''a1'']), sr_lexical_rank = Some 1,
     sr_semantic_rank = None, sr_score = 1 / 61, sr_build = ''B1'', sr_chunker_version = ''v1'',
     sr_source_checksum = ''c1'', sr_embedding_index_version = None\<rparr>], se_limit = 20\<rparr>"

lemma same_tenant_questions: "same_tenant demo_questions"
  by (simp add: demo_questions_def)

lemma demo_question_access: "can_access_workspace demo_questions ''P1'' ''G1'' ''W1'' SEARCH_QUERY"
  unfolding same_tenant_access [OF same_tenant_questions] by code_simp

lemma demo_rows_found: "search_rows demo_questions (qs_backend demo_question_service) ''G1'' ''W1''
    (question_filters ''due'' demo_thread) = [(demo_chunk, demo_build, demo_lease)]"
  by (simp add: search_rows_def demo_questions_def demo_tenant_def searchable_def build_of_chunk_def passes_filters_def
      question_filters_def demo_thread_def demo_chunk_def demo_build_def demo_lease_def demo_contract_def)

lemma demo_due: "like_contains ''due'' ''Due.''"
  by code_simp

lemma demo_search: "hybrid_search demo_questions (qs_backend demo_question_service) (qs_provider demo_question_service)
    ''P1'' ''G1'' ''W1'' (question_filters ''due'' demo_thread) DEFAULT_RESULT_LIMIT = Inr demo_results"
proof -
  have "lexical_candidates demo_questions (qs_backend demo_question_service) ''G1'' ''W1''
      (question_filters ''due'' demo_thread) 50 = [ranked_of None demo_chunk demo_build demo_lease]"
    unfolding lexical_candidates_def demo_rows_found
    by (simp add: demo_question_service_def question_filters_def demo_chunk_def demo_due)
  then show ?thesis
    by (simp add: hybrid_search_def demo_question_access semantic_provider_candidates_def demo_question_service_def
        MAX_CANDIDATES_PER_CHANNEL_def MAX_RESULT_LIMIT_def DEFAULT_RESULT_LIMIT_def fuse_reciprocal_rank_def
        fused_with_def to_result_def ranked_of_def demo_chunk_def demo_build_def demo_lease_def demo_contract_def
        demo_results_def RRF_K_def)
qed

section \<open>The answer\<close>

lemma demo_prompt: "\<not> rx_search PROMPT_EXFILTRATION ''Due.''"
  by code_simp

lemma demo_action: "\<not> rx_search TOOL_OR_WRITE_ACTION ''Due.''"
  by code_simp

lemma demo_override: "\<not> rx_search INSTRUCTION_OVERRIDE ''Due.''"
  by code_simp

text \<open>A text of fewer than eight characters has no encoded token.\<close>

lemma times_ends:
  assumes "\<And>i e. e \<in> set (rx_ends r s i) \<Longrightarrow> i + k \<le> e \<and> e \<le> length s" "e \<in> set (rx_ends (times n r) s i)"
  shows "i + n * k \<le> e \<and> (n = 0 \<or> e \<le> length s)"
  using assms(2)
proof (induction n arbitrary: i)
  case (Suc n)
  then obtain j where "j \<in> set (rx_ends r s i)" "e \<in> set (rx_ends (times n r) s j)" by auto
  then show ?case using Suc.IH [of j] assms(1) [of j i] by (cases n) auto
qed simp

lemma class_ends: "e \<in> set (rx_ends (Cls p) s i) \<Longrightarrow> i + 1 \<le> e \<and> e \<le> length s"
  by (simp split: if_splits)

lemma short_times:
  assumes "\<And>i e. e \<in> set (rx_ends r s i) \<Longrightarrow> i + 1 \<le> e \<and> e \<le> length s" "length s < 8"
  shows "rx_ends (times 8 r) s i = []"
proof (rule ccontr)
  assume "rx_ends (times 8 r) s i \<noteq> []"
  then obtain e where e: "e \<in> set (rx_ends (times 8 r) s i)" by (meson list.set_sel(1))
  have "i + 8 * 1 \<le> e \<and> ((8 :: nat) = 0 \<or> e \<le> length s)" by (rule times_ends [OF _ e]) (rule assms(1))
  then show False using assms(2) by simp
qed

lemma pair_ends:
  assumes "e \<in> set (rx_ends (times 2 (Cls p)) s i)"
  shows "i + 1 \<le> e \<and> e \<le> length s"
proof -
  have "i + 2 * 1 \<le> e \<and> ((2 :: nat) = 0 \<or> e \<le> length s)" by (rule times_ends [OF _ assms]) (rule class_ends)
  then show ?thesis by simp
qed

lemma short_token: "length s < 8 \<Longrightarrow> rx_ends (times 8 (Cls p)) s i = []"
  "length s < 8 \<Longrightarrow> rx_ends (times 8 (times 2 (Cls p))) s i = []"
  by (rule short_times, erule class_ends, assumption) (rule short_times, erule pair_ends, assumption)

lemma nothing_found: "(\<And>i. rx_ends r s i = []) \<Longrightarrow> rx_findall r s = []"
proof -
  assume "\<And>i. rx_ends r s i = []"
  then have "rx_find_from r s n i = []" for n i by (induction n arbitrary: i) auto
  then show ?thesis unfolding rx_findall_def .
qed

lemma demo_tokens: "tokens_of ''Due.'' = []"
proof -
  have "rx_ends BASE64_TOKEN ''Due.'' i = []" "rx_ends HEX_TOKEN ''Due.'' i = []" for i
    by (simp_all add: BASE64_TOKEN_def HEX_TOKEN_def bounded_def between_def short_token del: times.simps at_most.simps)
  then have "rx_findall BASE64_TOKEN ''Due.'' = []" "rx_findall HEX_TOKEN ''Due.'' = []" using nothing_found by blast+
  moreover have "fragmented_base64_tokens ''Due.'' = []" by code_simp
  ultimately show ?thesis by (simp add: tokens_of_def)
qed

lemma demo_decoded: "decoded_text_candidates ''Due.'' = []"
  by (simp add: decoded_text_candidates_def MAX_DECODE_DEPTH_def MAX_DECODE_CHARACTERS_def numeral_2_eq_2 demo_tokens)

lemma demo_decision: "validate_untrusted_evidence [(''a1'', ''Due.'')] [''a1''] = default_guardrail"
  by (simp add: validate_untrusted_evidence_def text_reasons_def demo_prompt demo_action demo_override demo_decoded default_guardrail_def)

definition demo_sources :: "(string \<times> citation_source) list" where
  "demo_sources = [(''a1'', \<lparr>cs_agreement = lease_id, cs_source_checksum = ''c1'', cs_source_version = ''c1''\<rparr>)]"

definition demo_evidence :: "evidence_snippet list" where
  "demo_evidence = [\<lparr>sn_anchor = \<lparr>an_id = ''a1'', an_checksum = ''c1'', an_page = 1, an_start = 0, an_end = 4,
     an_conflicts = []\<rparr>, sn_text = ''Due.''\<rparr>]"

definition demo_answer :: grounded_answer where
  "demo_answer = \<lparr>ga_status = Answered, ga_claims = [demo_claim], ga_message = ''Grounded answer.'',
     ga_guardrail = default_guardrail\<rparr>"

lemma demo_sources_found: "citation_sources_from_search demo_results = demo_sources"
  by (simp add: citation_sources_from_search_def demo_results_def demo_sources_def source_of_result_def)

lemma demo_evidence_found: "evidence_from_search demo_results demo_sources = demo_evidence"
  by (simp add: evidence_from_search_def demo_results_def demo_sources_def demo_evidence_def snippet_of_result_def)

lemma demo_validated: "validated_answer demo_evidence [demo_claim] default_guardrail = demo_answer"
  unfolding demo_answer_def demo_evidence_def by code_simp

lemma demo_evidence_valid: "valid_evidence demo_evidence" "material_text ''due''" "str_strip ''due'' = ''due''"
  unfolding demo_evidence_def by code_simp+

lemma demo_loaded: "load_thread demo_questions demo_thread = Inr (Some demo_thread)"
  by (simp add: load_thread_def get_thread_def demo_questions_def demo_tenant_def demo_thread_row_def demo_thread_def)

lemma demo_context: "answer_with_context demo_question_service demo_questions demo_thread request = Candidate [demo_claim]"
  by (simp add: answer_with_context_def redact_inaccessible_turns_def load_turns_def list_turns_def demo_questions_def
      demo_tenant_def demo_question_service_def)

lemma demo_answered: "answer_question ''due'' demo_evidence (answer_with_context demo_question_service demo_questions demo_thread) g w =
    demo_answer"
proof -
  have "map (\<lambda>e. (an_id (sn_anchor e), sn_text e)) demo_evidence = [(''a1'', ''Due.'')]"
      "map (an_id \<circ> sn_anchor) demo_evidence = [''a1'']" by (simp_all add: demo_evidence_def)
  then show ?thesis unfolding answer_question_def
    by (simp add: demo_evidence_valid demo_decision demo_context demo_validated Let_def default_guardrail_def [symmetric])
      (simp add: default_guardrail_def)
qed

lemma demo_ask: "\<exists>s'. ask demo_question_service demo_questions ''P1'' demo_thread ''due'' 5 6 =
    Inr (\<lparr>tn_id = uuid4 demo_questions, tn_question = ''due'', tn_answer = demo_answer, tn_created_at = 5,
      tn_sources = demo_sources\<rparr>, s')"
proof -
  have t: "th_org demo_thread = ''G1''" "th_ws demo_thread = ''W1''" by (simp_all add: demo_thread_def)
  have f: "checked_filters (question_filters ''due'' demo_thread) = Inr (question_filters ''due'' demo_thread)"
    by (simp add: checked_filters_def question_filters_def shorter_def)
  show ?thesis unfolding ask_def
    by (simp add: demo_loaded require_question_access_def t demo_question_access f demo_search Let_def
        demo_sources_found demo_evidence_found demo_answered)
qed

section \<open>Witnesses\<close>

theorem answers_cite_live_evidence_witness:
  "\<exists>(turn :: question_turn) (t :: question_thread). ga_claims (tn_answer turn) = [demo_claim] \<and> load_thread demo_questions demo_thread = Inr (Some t) \<and>
     stands_in_chunk demo_questions t (tn_sources turn) demo_claim \<lparr>gc_anchor = ''a1'', gc_quote = ''Due.''\<rparr>"
proof -
  obtain turn s' where a: "ask demo_question_service demo_questions ''P1'' demo_thread ''due'' 5 6 = Inr (turn, s')"
      "ga_claims (tn_answer turn) = [demo_claim]"
    using demo_ask by (metis demo_answer_def grounded_answer.select_convs(2) question_turn.select_convs(3))
  obtain t where t: "load_thread demo_questions demo_thread = Inr (Some t)"
      "\<forall>m \<in> set [demo_claim]. gm_citations m \<noteq> [] \<and>
        (\<forall>c \<in> set (gm_citations m). stands_in_chunk demo_questions t (tn_sources turn) m c)"
    using answers_cite_live_evidence [OF a(1)] unfolding a(2) by blast
  have "\<lparr>gc_anchor = ''a1'', gc_quote = ''Due.''\<rparr> \<in> set (gm_citations demo_claim)" by (simp add: demo_claim_def)
  then have "stands_in_chunk demo_questions t (tn_sources turn) demo_claim \<lparr>gc_anchor = ''a1'', gc_quote = ''Due.''\<rparr>"
    using t(2) by simp
  then show ?thesis using a(2) t(1) by blast
qed

text \<open>The thread after the turn was stored.\<close>

definition demo_history :: question_db where
  "demo_history = demo_questions\<lparr>question_turns := [turn_row ''Q1'' demo_thread ''due'' demo_answer 1 demo_sources 6]\<rparr>"

lemma demo_id_parsed: "parse_uuid lease_id = Some lease_id"
  unfolding lease_id_def by code_simp

lemma demo_turn_read: "turn_from_record str (turn_row ''Q1'' demo_thread ''due'' demo_answer 1 demo_sources 6) =
    Inr \<lparr>tn_id = ''Q1'', tn_question = ''due'', tn_answer = demo_answer, tn_created_at = 6, tn_sources = demo_sources\<rparr>"
proof -
  have d: "storable_decision (ga_guardrail demo_answer)" by (simp add: demo_answer_def default_decision_storable)
  have i: "\<forall>(i, c) \<in> set demo_sources. parse_uuid (cs_agreement c) = Some (cs_agreement c)"
    by (simp add: demo_sources_def demo_id_parsed)
  have "shown_answer demo_answer = demo_answer" by (simp add: shown_answer_def demo_answer_def default_guardrail_def)
  then show ?thesis using turn_row_read [OF d i, of str "''Q1''" demo_thread "''due''" 1 6] by (simp only:)
qed

lemma demo_thread_simps: "th_id demo_thread = ''T1''" "th_org demo_thread = ''G1''" "th_ws demo_thread = ''W1''"
  by (simp_all add: demo_thread_def)

lemma demo_history_access: "can_access_workspace demo_history ''P1'' ''G1'' ''W1'' SEARCH_QUERY"
  using demo_question_access by (simp add: demo_history_def can_access_workspace_granted granted_def membership_role_def)

lemma demo_history_read: "read_thread demo_question_service demo_history ''P1'' demo_thread = Inr (Some (demo_thread,
    [\<lparr>tn_id = ''Q1'', tn_question = ''due'', tn_answer = demo_answer, tn_created_at = 6, tn_sources = demo_sources\<rparr>]))"
    (is "_ = Inr (Some (_, [?t]))")
proof -
  have l: "load_thread demo_history demo_thread = Inr (Some demo_thread)"
    using demo_loaded load_thread_fields [of demo_history demo_questions demo_thread] by (simp add: demo_history_def)
  have "list_turns demo_history ''G1'' ''W1'' ''T1'' = [turn_row ''Q1'' demo_thread ''due'' demo_answer 1 demo_sources 6]"
    by (simp add: list_turns_def demo_history_def turn_row_def demo_thread_simps)
  then have t: "load_turns demo_question_service demo_history demo_thread = Inr [?t]"
    unfolding load_turns_def demo_thread_simps by (simp add: demo_turn_read del: One_nat_def)
  have "visible_agreement_ids demo_history ''G1'' ''W1'' [lease_id] = [lease_id]"
    by (simp add: visible_agreement_ids_def demo_history_def demo_questions_def demo_tenant_def demo_lease_def demo_contract_def)
  moreover have "redact_turn [lease_id] ?t = ?t"
    by (rule redact_visible) (simp_all add: demo_sources_def demo_answer_def demo_claim_def)
  ultimately have "redact_inaccessible_turns demo_question_service demo_history demo_thread = Inr [?t]"
    unfolding redact_inaccessible_turns_def t bindR.simps demo_thread_simps by (simp add: demo_sources_def Let_def)
  then show ?thesis unfolding read_thread_Some using l demo_history_access by (simp add: demo_thread_simps)
qed

theorem history_redacted_witness:
  "\<exists>src. map_of demo_sources ''a1'' = Some src \<and> visible_agreement demo_history ''G1'' ''W1'' (cs_agreement src)"
proof -
  have "(''a1'', \<lparr>cs_agreement = lease_id, cs_source_checksum = ''c1'', cs_source_version = ''c1''\<rparr>) \<in> set demo_sources"
    by (simp add: demo_sources_def)
  then show ?thesis
    using history_redacted [OF demo_history_read] by (auto simp: demo_sources_def demo_thread_def)
qed

theorem overlapping_chunks_refused_witness:
  "\<exists>res. length (se_items res) = 2 \<and> (\<forall>answerer.
     ga_status (answer_question ''due'' (evidence_from_search res (citation_sources_from_search res)) answerer None None) =
     InsufficientEvidence)"
proof -
  let ?r = "hd (se_items demo_results)"
  let ?res = "\<lparr>se_items = [?r, ?r], se_limit = 20\<rparr>"
  have i: "''a1'' \<in> set (sc_anchor_ids (sr_citation ?r))" by (simp add: demo_results_def)
  have "ga_status (answer_question ''due'' (evidence_from_search ?res (citation_sources_from_search ?res)) answerer None None) =
      InsufficientEvidence" for answerer
    using overlapping_chunks_refused [of ?res "[]" ?r "[]" ?r "[]" "''a1''" "''due''" answerer None None] i
    by (simp add: refusal_def)
  then show ?thesis by (intro exI [of _ ?res]) simp
qed

theorem turn_shown_again_witness:
  "\<exists>turn s' ts. ask demo_question_service demo_questions ''P1'' demo_thread ''due'' 5 6 = Inr (turn, s') \<and>
     read_thread demo_question_service s' ''P1'' demo_thread = Inr (Some (demo_thread, ts)) \<and>
     turn\<lparr>tn_created_at := 6\<rparr> \<in> set ts"
proof -
  obtain turn s' where a: "ask demo_question_service demo_questions ''P1'' demo_thread ''due'' 5 6 = Inr (turn, s')"
      "tn_answer turn = demo_answer"
    using demo_ask by (metis question_turn.select_convs(3))
  have "read_thread demo_question_service demo_questions ''P1'' demo_thread = Inr (Some (demo_thread, []))"
    unfolding read_thread_Some using demo_loaded demo_question_access
    by (simp add: demo_thread_def redact_inaccessible_turns_def load_turns_def list_turns_def demo_questions_def demo_tenant_def)
  moreover have "chunks_scoped demo_questions" "canonical_ids demo_questions"
    by (simp_all add: chunks_scoped_def canonical_ids_def demo_questions_def demo_tenant_def demo_chunk_def demo_lease_def
        demo_contract_def demo_id_parsed)
  moreover have "gd_status (ga_guardrail (tn_answer turn)) = Allow"
    by (simp add: a(2) demo_answer_def default_guardrail_def)
  ultimately show ?thesis using turn_shown_again [OF _ a(1)] a(1) by blast
qed

end
