(* ===== verification/AI_Demo.thy ===== *)
theory AI_Demo
  imports AI_Resolution Question_Demo
begin

text \<open>
  A configuration that is drafted, published and promoted, for the witnesses of the resolution.
\<close>

definition demo_externals :: ai_externals where
  "demo_externals = \<lparr>cx_sha256 = (\<lambda>t. t), cx_json_sha256 = (\<lambda>_. ''h''), cx_schema_ok = (\<lambda>_. True), cx_environment = ''local''\<rparr>"

definition demo_ai_request :: create_ai_request where
  "demo_ai_request = \<lparr>ci_operation = GroundedQa, ci_version = ''1.0.0'', ci_prompt = ''p'', ci_schema = JObj [(''type'', JNull)],
     ci_route = ''openai:m'', ci_parameters = JObj []\<rparr>"

definition demo_draft :: ai_version_row where
  "demo_draft = draft_of_request demo_externals (uuid4 demo_questions) ''P1'' ''G1'' ''W1'' demo_ai_request 1"

definition demo_published :: ai_version_row where
  "demo_published = demo_draft\<lparr>av_status := ''published'', av_published_at := Some 2\<rparr>"

lemma demo_draft_valid: "ensure_valid_configuration demo_externals demo_draft = Inr ()"
  unfolding demo_draft_def demo_externals_def demo_ai_request_def by code_simp

lemma demo_ai_authorized: "same_tenant s \<Longrightarrow> authorize_ai s ''P1'' ''G1'' ''W1'' = Inr ()"
  by (simp add: authorize_ai_def same_tenant_access demo_access_def permissions_for_def PermissionKey_def)

lemma demo_draft_simps: "av_org demo_draft = ''G1''" "av_ws demo_draft = ''W1''" "av_operation demo_draft = ''grounded_qa''"
  "av_status demo_draft = ''draft''" "av_id demo_draft = uuid4 demo_questions"
  by (simp_all add: demo_draft_def draft_of_request_def demo_ai_request_def)

lemma demo_response: "av_operation v = ''grounded_qa'' \<Longrightarrow> configuration_response v = Inr v"
  by (simp add: configuration_response_def ai_operation_of_def)

lemma demo_ai_created: "\<exists>s. create_configuration demo_externals demo_questions ''P1'' ''G1'' ''W1'' demo_ai_request 1 = Inr (demo_draft, s) \<and>
    same_tenant s \<and> ai_versions s = [demo_draft] \<and> ai_promotions s = []"
proof -
  have "ai_versions demo_questions = []" "ai_promotions demo_questions = []" by (simp_all add: demo_questions_def demo_tenant_def)
  then show ?thesis
    using same_tenant_questions
    by (simp add: create_configuration_def demo_ai_authorized Let_def demo_draft_def [symmetric] demo_response
        demo_draft_simps audit_configuration_def same_tenant_def draw_def)
qed

lemma demo_ai_published:
  assumes "same_tenant s" "ai_versions s = [demo_draft]" "ai_promotions s = []"
  shows "\<exists>s'. publish_configuration demo_externals s ''P1'' ''G1'' ''W1'' (av_id demo_draft) 2 2 = Inr (demo_published, s') \<and>
    same_tenant s' \<and> ai_versions s' = [demo_published] \<and> ai_promotions s' = []"
  using assms
  by (simp add: publish_configuration_def demo_ai_authorized configuration_record_def demo_draft_simps(1,2,4)
      ensure_draft_configuration_def demo_draft_valid Let_def demo_published_def [symmetric] demo_response)
    (simp add: demo_published_def demo_draft_simps audit_configuration_def same_tenant_def draw_def demo_response)

lemma demo_ai_promoted:
  assumes "same_tenant s" "ai_versions s = [demo_published]" "ai_promotions s = []"
  shows "\<exists>p s'. promote_configuration demo_externals deliver s ''P1'' ''G1'' ''W1'' (av_id demo_draft) ''local'' 3 3 = Inr (p, s') \<and>
    ai_versions s' = [demo_published] \<and> ai_promotions s' = [promotion_of (uuid4 s) demo_published ''local'' ''P1'' 3]"
proof -
  have v: "ensure_valid_configuration demo_externals demo_published = Inr ()"
    by (simp add: demo_published_def demo_draft_valid)
  have f: "av_org demo_published = ''G1''" "av_ws demo_published = ''W1''" "av_status demo_published = ''published''"
      "av_id demo_published = av_id demo_draft" "av_operation demo_published = ''grounded_qa''"
    by (simp_all add: demo_published_def demo_draft_simps)
  show ?thesis
    using assms v f
    by (simp add: promote_configuration_def demo_ai_authorized configuration_record_def Let_def
        enqueue_embedding_reindex_jobs_def reindexes_def promotion_response_def promotion_of_def ai_operation_of_def
        audit_configuration_def draw_def)
qed

lemma demo_ai_reach:
  obtains s :: question_db and i where "ai_reach demo_externals s" "ai_versions s = [demo_published]"
    "ai_promotions s = [promotion_of i demo_published ''local'' ''P1'' 3]"
proof -
  have "ai_reach demo_externals demo_questions"
    by (rule ai_reach.init) (simp_all add: demo_questions_def demo_tenant_def inj_demo_uuid)
  moreover obtain s where s: "create_configuration demo_externals demo_questions ''P1'' ''G1'' ''W1'' demo_ai_request 1 = Inr (demo_draft, s)"
      "same_tenant s" "ai_versions s = [demo_draft]" "ai_promotions s = []"
    using demo_ai_created by blast
  moreover obtain s' where s': "publish_configuration demo_externals s ''P1'' ''G1'' ''W1'' (av_id demo_draft) 2 2 = Inr (demo_published, s')"
      "same_tenant s'" "ai_versions s' = [demo_published]" "ai_promotions s' = []"
    using demo_ai_published [OF s(2-4)] by blast
  moreover obtain p s'' where s'': "promote_configuration demo_externals (\<lambda>_. True) s' ''P1'' ''G1'' ''W1'' (av_id demo_draft) ''local'' 3 3 = Inr (p, s'')"
      "ai_versions s'' = [demo_published]" "ai_promotions s'' = [promotion_of (uuid4 s') demo_published ''local'' ''P1'' 3]"
    using demo_ai_promoted [OF s'(2-4)] by blast
  ultimately have "ai_reach demo_externals s''"
    by (meson ai_reach.step ai_step.create ai_step.publish ai_step.promote)
  then show thesis using that s'' by blast
qed

theorem resolvers_agree_witness:
  "\<exists>s :: question_db. ai_versions s = [demo_published] \<and>
     (\<exists>r. resolve_promoted s ''G1'' ''W1'' (ai_operation_value GroundedQa) ''local'' None = Inr r \<and>
       load_configuration s GroundedQa ''local'' (Some ''G1'') (Some ''W1'') = map_option snapshot_of r)"
proof -
  obtain s :: question_db and i where s: "ai_reach demo_externals s" "ai_versions s = [demo_published]"
    using demo_ai_reach by metis
  then show ?thesis using resolvers_agree [OF s(1), where g = "''G1''" and w = "''W1''" and op = GroundedQa and environment = "''local''"] by blast
qed

theorem resolved_configuration_usable_witness:
  "\<exists>s :: question_db. resolve_configuration (Some s) GroundedQa ''local'' (Some ''G1'') (Some ''W1'') = snapshot_of demo_published"
proof -
  obtain s :: question_db and i where s: "ai_reach demo_externals s" "ai_versions s = [demo_published]"
      "ai_promotions s = [promotion_of i demo_published ''local'' ''P1'' 3]"
    using demo_ai_reach .
  have "filter (\<lambda>p. ap_org p = ''G1'' \<and> ap_ws p = ''W1'' \<and> ap_operation p = ai_operation_value GroundedQa \<and>
      ap_environment p = ''local'') (ai_promotions s) \<noteq> []"
    by (simp add: s(3) promotion_of_def demo_published_def demo_draft_simps)
  then show ?thesis
    using resolved_configuration_usable [OF s(1) refl refl, where op = GroundedQa and environment = "''local''" and
        g = "''G1''" and w = "''W1''"] s(2) by auto
qed

end
