(* ===== verification/Comparison_Service.thy ===== *)
theory Comparison_Service
  imports Processing_Service Version_Materiality
begin

text \<open>
  Comparisons of agreement versions as the API serves them (\<open>comparisons/service.py\<close>,
  \<open>comparisons/repository.py\<close>, \<open>comparisons/schemas.py\<close>): a comparison is requested once per pair of versions and
  analysis, becomes a processing job, and its changes are read once the worker stored them. The queue publisher is a
  parameter. Two requests are serial, so the branch for a violated UNIQUE constraint is not taken. A stored word
  difference is a list of dictionaries of strings, as the type of its column says.
\<close>

section \<open>Requests and responses\<close>

record create_comparison_request =
  cq_baseline :: "uuid option"
  cq_target :: "uuid option"
  cq_analysis_version :: string

record change_response =
  cg_id :: uuid
  cg_ordinal :: int
  cg_alignment_kind :: string
  cg_baseline_element_ids :: "string list"
  cg_target_element_ids :: "string list"
  cg_baseline_citation_ids :: "string list"
  cg_target_citation_ids :: "string list"
  cg_word_diff :: "(string \<times> string) list"
  cg_confidence :: rat
  cg_review_required :: bool
  cg_severity :: string
  cg_legal_concepts :: "string list"
  cg_rationale :: string
  cg_provider_provenance :: json

text \<open>The response of a run is its row, once the state is one of the literals.\<close>

definition run_response :: "comparison_run_row \<Rightarrow> comparison_run_row result" where
  "run_response r =
     bindR (require (cr_state r \<in> {''queued'', ''processing'', ''completed'', ''failed''}) (ValueError ''state''))
       (\<lambda>_. Inr r)"

section \<open>The repository\<close>

definition live_runs :: "'z processing_db_scheme \<Rightarrow> comparison_run_row list" where
  "live_runs s = filter (\<lambda>r. agreement_is_active s (cr_agreement r)) (comparison_runs s)"

definition get_run :: "'z processing_db_scheme \<Rightarrow> uuid \<Rightarrow> comparison_run_row option" where
  "get_run s i = find (\<lambda>r. cr_id r = i) (live_runs s)"

definition run_by_identity ::
  "'z processing_db_scheme \<Rightarrow> uuid \<Rightarrow> uuid \<Rightarrow> uuid \<Rightarrow> string \<Rightarrow> comparison_run_row option" where
  "run_by_identity s agreement_id baseline_id target_id analysis_version =
     find (\<lambda>r. cr_agreement r = agreement_id \<and> cr_baseline_version r = baseline_id \<and>
       cr_target_version r = target_id \<and> cr_analysis_version r = analysis_version) (live_runs s)"

definition run_by_idempotency_key ::
  "'z processing_db_scheme \<Rightarrow> uuid \<Rightarrow> string \<Rightarrow> comparison_run_row option" where
  "run_by_idempotency_key s agreement_id key =
     find (\<lambda>r. cr_agreement r = agreement_id \<and> cr_idempotency_key r = key) (live_runs s)"

definition create_run :: "comparison_run_row \<Rightarrow> 'z processing_db_scheme \<Rightarrow> 'z processing_db_scheme result" where
  "create_run r s =
     bindR (require (active_agreement s (cr_agreement r) (cr_org r) (cr_ws r) \<noteq> None)
       (RuntimeError ''cannot compare a deleted agreement'')) (\<lambda>_.
     Inr (s\<lparr>comparison_runs := comparison_runs s @ [r]\<rparr>))"

text \<open>One stored part of a word difference: the shape of the API, or that of the worker.\<close>

fun string_pairs :: "(string \<times> json) list \<Rightarrow> (string \<times> string) list option" where
  "string_pairs [] = Some []"
| "string_pairs ((k, JStr v) # kvs) = map_option (\<lambda>rest. (k, v) # rest) (string_pairs kvs)"
| "string_pairs (_ # kvs) = None"

fun word_diff_parts :: "json list \<Rightarrow> (string \<times> string) list list option" where
  "word_diff_parts [] = Some []"
| "word_diff_parts (JObj kvs # parts) =
     Option.bind (string_pairs kvs) (\<lambda>p. map_option (\<lambda>rest. p # rest) (word_diff_parts parts))"
| "word_diff_parts (_ # parts) = None"

definition item_or_empty :: "(string \<times> string) list \<Rightarrow> string \<Rightarrow> string" where
  "item_or_empty part k = (case map_of part k of None \<Rightarrow> [] | Some v \<Rightarrow> v)"

definition rendered_part :: "(string \<times> string) list \<Rightarrow> (string \<times> string) list" where
  "rendered_part part =
     (let operation = map_of part ''operation''; content = item_or_empty part ''text'';
          kind = map_of part ''kind''; baseline = item_or_empty part ''baseline_tokens'';
          target = item_or_empty part ''target_tokens''
      in if operation \<in> {Some ''equal'', Some ''insert'', Some ''delete''} \<and> content \<noteq> []
         then [(the operation, content)]
         else if kind = Some ''equal'' \<and> (baseline \<noteq> [] \<or> target \<noteq> [])
         then [(''equal'', if baseline \<noteq> [] then baseline else target)]
         else if kind = Some ''delete'' \<and> baseline \<noteq> [] then [(''delete'', baseline)]
         else if kind = Some ''insert'' \<and> target \<noteq> [] then [(''insert'', target)]
         else if kind = Some ''replace''
         then (if baseline \<noteq> [] then [(''delete'', baseline)] else []) @
              (if target \<noteq> [] then [(''insert'', target)] else [])
         else [])"

definition render_word_diff :: "(string \<times> string) list list \<Rightarrow> (string \<times> string) list" where
  "render_word_diff parts = concat (map rendered_part parts)"

definition string_list :: "json \<Rightarrow> string list result" where
  "string_list v = (case v of JList vs \<Rightarrow> some_or (json_strings vs) (ValueError ''list of strings'')
     | _ \<Rightarrow> Inl (ValueError ''list of strings''))"

definition dictionary_or_empty :: "json \<Rightarrow> json result" where
  "dictionary_or_empty v =
     (if v \<in> {JNull, JBool False, JInt 0, JFloat 0, JStr [], JList []} then Inr (JObj [])
      else case v of JObj kvs \<Rightarrow> Inr (JObj kvs) | _ \<Rightarrow> Inl (ValueError ''dictionary''))"

definition stored_word_diff :: "json \<Rightarrow> (string \<times> string) list list result" where
  "stored_word_diff v = (case v of JList vs \<Rightarrow> some_or (word_diff_parts vs) (TypeError ''word difference'')
     | _ \<Rightarrow> Inl (TypeError ''word difference''))"

definition change_shown :: "comparison_change_row \<Rightarrow> change_response result" where
  "change_shown c =
     bindR (string_list (ch_baseline_element_ids c)) (\<lambda>bs.
     bindR (string_list (ch_target_element_ids c)) (\<lambda>ts.
     bindR (string_list (ch_baseline_citation_ids c)) (\<lambda>bc.
     bindR (string_list (ch_target_citation_ids c)) (\<lambda>tc.
     bindR (stored_word_diff (ch_word_diff c)) (\<lambda>parts.
     bindR (string_list (ch_legal_concepts c)) (\<lambda>concepts.
     bindR (dictionary_or_empty (ch_provider_provenance c)) (\<lambda>pv.
     Inr \<lparr>cg_id = ch_id c, cg_ordinal = ch_ordinal c, cg_alignment_kind = ch_alignment_kind c,
          cg_baseline_element_ids = bs, cg_target_element_ids = ts, cg_baseline_citation_ids = bc,
          cg_target_citation_ids = tc, cg_word_diff = render_word_diff parts, cg_confidence = ch_confidence c,
          cg_review_required = ch_review_required c, cg_severity = ch_severity c, cg_legal_concepts = concepts,
          cg_rationale = ch_rationale c, cg_provider_provenance = pv\<rparr>)))))))"

definition list_changes :: "'z processing_db_scheme \<Rightarrow> uuid \<Rightarrow> change_response list result" where
  "list_changes s run_id = mapR change_shown
     (sort_key ch_ordinal (filter (\<lambda>c. ch_run c = run_id \<and>
        exists_row (\<lambda>r. cr_id r = ch_run c) (live_runs s)) (comparison_changes s)))"

definition run_result ::
  "'z processing_db_scheme \<Rightarrow> comparison_run_row \<Rightarrow> (comparison_run_row \<times> change_response list) result" where
  "run_result s r =
     bindR (run_response r) (\<lambda>response. bindR (list_changes s (cr_id r)) (\<lambda>changes. Inr (response, changes)))"

section \<open>The service\<close>

text \<open>
  The two versions of a request. \<open>completed[-2:]\<close> of a list of at least two are its last two elements.
\<close>

definition requested_pair ::
  "'z processing_db_scheme \<Rightarrow> uuid \<Rightarrow> create_comparison_request
   \<Rightarrow> (agreement_version_row \<times> agreement_version_row) result" where
  "requested_pair s agreement_id request =
     (let completed = filter (\<lambda>v. vr_processing_state v = ''completed'') (list_versions s agreement_id)
      in case (cq_baseline request, cq_target request) of
           (None, None) \<Rightarrow>
             (case drop (length completed - 2) completed of
                [baseline, target] \<Rightarrow> Inr (baseline, target)
              | _ \<Rightarrow> Inl VersionComparisonConflictError)
         | (Some b, Some t) \<Rightarrow>
             (case (get_version s b, get_version s t) of
                (Some baseline, Some target) \<Rightarrow> Inr (baseline, target)
              | _ \<Rightarrow> Inl VersionComparisonConflictError)
         | _ \<Rightarrow> Inl VersionComparisonConflictError)"

definition comparable_pair :: "uuid \<Rightarrow> agreement_version_row \<Rightarrow> agreement_version_row \<Rightarrow> bool" where
  "comparable_pair agreement_id baseline target \<longleftrightarrow>
     vr_agreement baseline = agreement_id \<and> vr_agreement target = agreement_id \<and>
     vr_processing_state baseline = ''completed'' \<and> vr_processing_state target = ''completed'' \<and>
     vr_number baseline < vr_number target"

definition resolve_versions ::
  "'z processing_db_scheme \<Rightarrow> uuid \<Rightarrow> create_comparison_request \<Rightarrow> (uuid \<times> uuid) result" where
  "resolve_versions s agreement_id request =
     bindR (requested_pair s agreement_id request) (\<lambda>(baseline, target).
     bindR (require (comparable_pair agreement_id baseline target) VersionComparisonConflictError) (\<lambda>_.
     Inr (vr_id baseline, vr_id target)))"

definition new_run ::
  "uuid \<Rightarrow> uuid \<Rightarrow> uuid \<Rightarrow> uuid \<Rightarrow> uuid \<Rightarrow> uuid \<Rightarrow> uuid \<Rightarrow> string \<Rightarrow> string \<Rightarrow> datetime \<Rightarrow> comparison_run_row" where
  "new_run i job_id organization_id workspace_id agreement_id baseline_id target_id key analysis_version now =
     \<lparr>cr_id = i, cr_org = organization_id, cr_ws = workspace_id, cr_agreement = agreement_id,
      cr_baseline_version = baseline_id, cr_target_version = target_id, cr_job = Some job_id,
      cr_idempotency_key = key, cr_analysis_version = analysis_version, cr_state = ''queued'',
      cr_failure_category = None, cr_failure_message = None,
      cr_analysis_provenance = JObj [(''mode'', JStr ''deterministic''), (''analysis_version'', JStr analysis_version)],
      cr_created_at = now, cr_updated_at = now, cr_completed_at = None\<rparr>"

definition comparison_job ::
  "uuid \<Rightarrow> uuid \<Rightarrow> uuid \<Rightarrow> uuid \<Rightarrow> uuid \<Rightarrow> agreement_version_row \<Rightarrow> datetime \<Rightarrow> job_row" where
  "comparison_job i run_id organization_id workspace_id agreement_id target now =
     \<lparr>jb_id = i, jb_org = organization_id, jb_ws = workspace_id, jb_agreement = agreement_id,
      jb_version = Some (vr_id target), jb_idempotency_key = ''comparison:'' @ run_id,
      jb_profile = ''version-comparison'', jb_source_storage_key = Some (vr_storage_key target),
      jb_source_checksum = Some (vr_checksum target), jb_source_content_type = Some (vr_content_type target),
      jb_state = JQueued, jb_attempt_count = 0, jb_failure_category = None, jb_failure_message = None,
      jb_next_retry_at = None, jb_claim_token = None, jb_claim_lease_expires_at = None, jb_queued_at = now,
      jb_processing_started_at = None, jb_completed_at = None, jb_failed_at = None, jb_created_at = now,
      jb_updated_at = now\<rparr>"

definition create_new_comparison ::
  "(processing_outbox_row \<Rightarrow> bool) \<Rightarrow> 'z processing_db_scheme \<Rightarrow> uuid \<Rightarrow> uuid \<Rightarrow> uuid \<Rightarrow> uuid \<Rightarrow> uuid
   \<Rightarrow> string \<Rightarrow> string \<Rightarrow> datetime \<Rightarrow> (comparison_run_row \<times> bool \<times> 'z processing_db_scheme) result" where
  "create_new_comparison publish s organization_id workspace_id agreement_id baseline_id target_id key
      analysis_version now =
     bindR (some_or (get_version s target_id) (RuntimeError ''assertion'')) (\<lambda>target.
     let run_id = uuid4 s; job_id = uuid4 (draw s);
         job = comparison_job job_id run_id organization_id workspace_id agreement_id target now;
         run = new_run run_id job_id organization_id workspace_id agreement_id baseline_id target_id key
           analysis_version now
     in bindR (create_job job (draw (draw s))) (\<lambda>s.
        bindR (create_run run s) (\<lambda>s.
        let s = snd (dispatch_processing publish now organization_id workspace_id 50 (enqueue_outbox job now s))
        in bindR (some_or (get_run s run_id) AgreementNotFoundError) (\<lambda>committed.
           bindR (run_response committed) (\<lambda>response. Inr (response, True, s))))))"

definition same_comparison :: "comparison_run_row \<Rightarrow> uuid \<Rightarrow> uuid \<Rightarrow> string \<Rightarrow> bool" where
  "same_comparison r baseline_id target_id analysis_version \<longleftrightarrow>
     cr_baseline_version r = baseline_id \<and> cr_target_version r = target_id \<and>
     cr_analysis_version r = analysis_version"

definition create_comparison ::
  "(processing_outbox_row \<Rightarrow> bool) \<Rightarrow> 'z processing_db_scheme \<Rightarrow> uuid \<Rightarrow> uuid \<Rightarrow> uuid \<Rightarrow> uuid \<Rightarrow> string
   \<Rightarrow> create_comparison_request \<Rightarrow> datetime \<Rightarrow> (comparison_run_row \<times> bool \<times> 'z processing_db_scheme) result" where
  "create_comparison publish s actor organization_id workspace_id agreement_id key request now =
     bindR (authorize_agreement AGREEMENTS_READ s actor organization_id workspace_id) (\<lambda>_.
     bindR (agreement_in_scope s agreement_id organization_id workspace_id) (\<lambda>_.
     bindR (resolve_versions s agreement_id request) (\<lambda>(baseline_id, target_id).
     case run_by_idempotency_key s agreement_id key of
       Some r \<Rightarrow>
         bindR (require (same_comparison r baseline_id target_id (cq_analysis_version request))
           VersionComparisonConflictError) (\<lambda>_. bindR (run_response r) (\<lambda>response. Inr (response, False, s)))
     | None \<Rightarrow>
         (case run_by_identity s agreement_id baseline_id target_id (cq_analysis_version request) of
            Some r \<Rightarrow> bindR (run_response r) (\<lambda>response. Inr (response, False, s))
          | None \<Rightarrow> create_new_comparison publish s organization_id workspace_id agreement_id baseline_id target_id
              key (cq_analysis_version request) now))))"

definition get_comparison ::
  "'z processing_db_scheme \<Rightarrow> uuid \<Rightarrow> uuid \<Rightarrow> uuid \<Rightarrow> uuid \<Rightarrow> uuid
   \<Rightarrow> (comparison_run_row \<times> change_response list) result" where
  "get_comparison s actor organization_id workspace_id agreement_id comparison_id =
     bindR (authorize_agreement AGREEMENTS_READ s actor organization_id workspace_id) (\<lambda>_.
     bindR (some_or (get_run s comparison_id) AgreementNotFoundError) (\<lambda>r.
     bindR (require (cr_agreement r = agreement_id \<and> cr_org r = organization_id \<and> cr_ws r = workspace_id)
       AgreementNotFoundError) (\<lambda>_. run_result s r)))"

end
