(* ===== verification/Comparison_Properties.thy ===== *)
theory Comparison_Properties
  imports Comparison_Processor Comparison_Service Alignment_Claims
begin

text \<open>
  The comparison of two versions from end to end: what the worker prepares from the two analyses, stores inside the
  fence and the API then shows.
\<close>

section \<open>Sorted dictionaries\<close>

lemma map_of_insort:
  "map_of (insort_key fst p kvs) k = (if fst p = k then Some (snd p) else map_of kvs k)"
  by (induction kvs) auto

lemma map_of_sort_key [simp]: "map_of (sort_key fst kvs) k = map_of kvs k"
  by (induction kvs) (auto simp: map_of_insort)

lemma map_of_map_value: "map_of (map (\<lambda>(k, v). (k, f v)) kvs) k = map_option f (map_of kvs k)"
  by (induction kvs) auto

lemma json_get_sorted [simp]: "json_get (sorted_json v) k = map_option sorted_json (json_get v k)"
  by (cases v) (simp_all add: map_of_map_value)

lemma sorted_strings [simp]: "sorted_json (JList (map JStr ts)) = JList (map JStr ts)"
  by simp

lemma keys_sorted [simp]: "set (change_keys (sorted_json v)) = set (change_keys v)"
proof (cases v)
  case (JObj kvs)
  then show ?thesis by (simp add: image_image case_prod_beta)
qed simp_all

lemma insort_key_map: "insort_key fst (k, f v) (map (\<lambda>(k, v). (k, f v)) kvs) =
    map (\<lambda>(k, v). (k, f v)) (insort_key fst (k, v) kvs)"
  by (induction kvs) auto

lemma sort_key_map: "sort_key fst (map (\<lambda>(k, v). (k, f v)) kvs) = map (\<lambda>(k, v). (k, f v)) (sort_key fst kvs)"
  by (induction kvs) (auto simp: insort_key_map)

lemma json_strings_map [simp]: "json_strings (map JStr ts) = Some ts"
  by (induction ts) auto

lemma string_pairs_map: "string_pairs (map (\<lambda>(k, v). (k, JStr v)) kvs) = Some kvs"
  by (induction kvs) auto

section \<open>Word differences as they are shown\<close>

definition stored_part :: "word_diff_operation \<Rightarrow> (string \<times> string) list" where
  "stored_part item =
     [(''kind'', tag_value (wo_kind item)), (''baseline_tokens'', join_with '' '' (wo_baseline item)),
      (''target_tokens'', join_with '' '' (wo_target item))]"

lemma sorted_part:
  "sorted_json (word_diff_part item) = JObj (map (\<lambda>(k, v). (k, JStr v)) (sort_key fst (stored_part item)))"
proof -
  have "word_diff_part item = JObj (map (\<lambda>(k, v). (k, JStr v)) (stored_part item))"
    by (simp add: word_diff_part_def stored_part_def)
  moreover have "map (\<lambda>(k, v). (k, sorted_json v)) (map (\<lambda>(k, v). (k, JStr v)) kvs) =
      map (\<lambda>(k, v). (k, JStr v)) kvs" for kvs :: "(string \<times> string) list"
    by (induction kvs) auto
  ultimately show ?thesis by (simp only: sorted_json.simps sort_key_map)
qed

lemma word_diff_parts_sorted:
  "word_diff_parts (map (sorted_json \<circ> word_diff_part) items) = Some (map (sort_key fst \<circ> stored_part) items)"
  by (induction items) (simp_all add: sorted_part string_pairs_map)

lemma rendered_part_sorted [simp]: "rendered_part (sort_key fst part) = rendered_part part"
  by (simp add: rendered_part_def item_or_empty_def)

text \<open>The words one side of a shown difference keeps: all but those the other side has alone.\<close>

definition side_words :: "string \<Rightarrow> (string \<times> string) list \<Rightarrow> string list" where
  "side_words other shown = concat (map (\<lambda>(operation, t). if operation = other then [] else words t) shown)"

lemma side_words_append [simp]: "side_words k (xs @ ys) = side_words k xs @ side_words k ys"
  by (simp add: side_words_def)

lemma words_join:
  assumes "set ws \<subseteq> set (words t)"
  shows "words (join_with '' '' ws) = ws"
  unfolding words_def
proof (rule split_join_words)
  show "w \<noteq> [] \<and> (\<forall>c \<in> set w. \<not> is_space c)" if "w \<in> set ws" for w
    using runs_nonempty [of w "\<lambda>c. \<not> is_space c" t] assms that by (auto simp: words_def)
qed (simp add: is_space_def)

lemma words_Nil [simp]: "words [] = []"
  by (simp add: words_def)

lemma join_words_Nil: "set ws \<subseteq> set (words t) \<Longrightarrow> join_with '' '' ws = [] \<longleftrightarrow> ws = []"
  by (metis words_join words_Nil join_with.simps(1))

lemma rendered_item:
  assumes "item \<in> set (word_diff old new)"
  shows "side_words ''insert'' (rendered_part (stored_part item)) = wo_baseline item \<and>
    side_words ''delete'' (rendered_part (stored_part item)) = wo_target item"
proof -
  have b: "set (wo_baseline item) \<subseteq> set (words old)" and t: "set (wo_target item) \<subseteq> set (words new)"
    using word_diff_sides [of old new] assms by (metis UN_upper set_concat set_map image_eqI)+
  have "case wo_kind item of Equal \<Rightarrow> wo_baseline item = wo_target item \<and> wo_baseline item \<noteq> []
        | Insert \<Rightarrow> wo_baseline item = [] | Delete \<Rightarrow> wo_target item = [] | Replace \<Rightarrow> True"
    using word_diff_rebuilds assms by blast
  then show ?thesis
    using words_join [OF b] words_join [OF t] join_words_Nil [OF b] join_words_Nil [OF t]
    by (cases "wo_kind item")
      (auto simp: rendered_part_def stored_part_def item_or_empty_def side_words_def Let_def)
qed

lemma shown_words:
  fixes old new :: string
  defines "shown \<equiv> render_word_diff (map (sort_key fst \<circ> stored_part) (word_diff old new))"
  shows "side_words ''insert'' shown = words old \<and> side_words ''delete'' shown = words new"
proof -
  have "side_words ''insert'' (render_word_diff (map (sort_key fst \<circ> stored_part) items)) = concat (map wo_baseline items) \<and>
      side_words ''delete'' (render_word_diff (map (sort_key fst \<circ> stored_part) items)) = concat (map wo_target items)"
    if "set items \<subseteq> set (word_diff old new)" for items
    using that by (induction items) (auto simp: render_word_diff_def rendered_item, simp_all add: side_words_def)
  then show ?thesis unfolding shown_def using word_diff_sides [of old new] by auto
qed

section \<open>What is prepared\<close>

lemma element_by_id_in:
  assumes "distinct (map el_id es)" and "e \<in> set es"
  shows "element_by_id es (el_id e) = Inr e"
proof -
  have "distinct (map el_id (rev es))" using assms(1) by (simp flip: rev_map)
  then show ?thesis using find_distinct_key [of el_id "rev es" e] assms(2) by (simp add: element_by_id_def)
qed

lemma mapR_elements:
  assumes "distinct (map el_id es)" and "set ids \<subseteq> el_id ` set es"
  shows "\<exists>sel. mapR (element_by_id es) ids = Inr sel \<and> map el_id sel = ids \<and> set sel \<subseteq> set es"
  using assms(2)
proof (induction ids)
  case (Cons i ids)
  obtain e where e: "e \<in> set es" "i = el_id e" using Cons.prems by auto
  obtain sel where "mapR (element_by_id es) ids = Inr sel" "map el_id sel = ids" "set sel \<subseteq> set es"
    using Cons by auto
  then show ?case using e element_by_id_in [OF assms(1) e(1)] by (intro exI [of _ "e # sel"]) simp
qed simp

text \<open>The candidate of an alignment holds the texts and the citations of exactly the sections it names.\<close>

definition sections_compared ::
  "canonical_version \<Rightarrow> string list \<Rightarrow> string \<Rightarrow> string list \<Rightarrow> bool" where
  "sections_compared v ids t citations \<longleftrightarrow>
     (\<exists>es. map el_id es = ids \<and> set es \<subseteq> set (cv_elements v) \<and> t = lines_of es \<and>
        citations = concat (map el_anchors es))"

definition compared :: "canonical_version \<Rightarrow> canonical_version \<Rightarrow> alignment \<Rightarrow> materiality_candidate \<Rightarrow> bool" where
  "compared v w a c \<longleftrightarrow>
     sections_compared v (al_baseline a) (mc_baseline_text c) (mc_baseline_citations c) \<and>
     sections_compared w (al_target a) (mc_target_text c) (mc_target_citations c)"

lemma valid_anchors: "valid_element e \<Longrightarrow> el_anchors e \<noteq> []"
  by (auto simp: valid_element_def checked_element_def split: if_splits)

lemma anchors_nonempty: "(\<forall>e \<in> set es. valid_element e) \<Longrightarrow> es \<noteq> [] \<Longrightarrow> concat (map el_anchors es) \<noteq> []"
  using valid_anchors by (cases es) auto

lemma lines_of_Nil [simp]: "lines_of [] = []"
  by (simp add: lines_of_def)

lemma candidate_ok:
  assumes v: "valid_version v" and w: "valid_version w" and a: "checked_alignment a = Inr a"
    and b: "set (al_baseline a) \<subseteq> el_id ` set (cv_elements v)" and t: "set (al_target a) \<subseteq> el_id ` set (cv_elements w)"
  shows "\<exists>c. alignment_candidate (cv_elements v) (cv_elements w) a = Inr c \<and> compared v w a c"
proof -
  obtain old where old: "mapR (element_by_id (cv_elements v)) (al_baseline a) = Inr old"
      "map el_id old = al_baseline a" "set old \<subseteq> set (cv_elements v)"
    using mapR_elements b v unfolding valid_version_def by blast
  obtain new where new: "mapR (element_by_id (cv_elements w)) (al_target a) = Inr new"
      "map el_id new = al_target a" "set new \<subseteq> set (cv_elements w)"
    using mapR_elements t w unfolding valid_version_def by blast
  let ?c = "\<lparr>mc_change = change_type_of (al_kind a), mc_baseline_text = lines_of old, mc_target_text = lines_of new,
        mc_baseline_citations = concat (map el_anchors old), mc_target_citations = concat (map el_anchors new),
        mc_confidence = al_confidence a, mc_review = al_review a\<rparr>"
  have valid: "\<forall>e \<in> set old. valid_element e" "\<forall>e \<in> set new. valid_element e"
    using v w old(3) new(3) by (auto simp: valid_version_def)
  have empty: "al_baseline a = [] \<longleftrightarrow> old = []" "al_target a = [] \<longleftrightarrow> new = []"
    using old(2) new(2) by auto
  have "checked_candidate ?c = Inr ?c"
    using a anchors_nonempty [OF valid(1)] anchors_nonempty [OF valid(2)]
    by (cases "al_kind a") (auto simp: checked_alignment_def checked_candidate_def empty simp del: concat_eq_Nil_conv
        split: if_splits)
  then show ?thesis
    using old(2,3) new(2,3) by (auto simp: alignment_candidate_def old(1) new(1) compared_def sections_compared_def)
qed

definition prepared_change ::
  "materiality_gateway option \<Rightarrow> resolved_ai_configuration \<Rightarrow> (nat \<Rightarrow> uuid) \<Rightarrow> datetime \<Rightarrow> processing_job
   \<Rightarrow> uuid \<times> uuid \<Rightarrow> comparison_run_row \<Rightarrow> (alignment \<Rightarrow> materiality_candidate) \<Rightarrow> nat \<times> alignment \<Rightarrow> json" where
  "prepared_change gateway cfg fresh now job scope run cand = (\<lambda>(n, a).
     change_object (fresh n) now job scope run n a (cand a) (assess_materiality_with_model (cand a) gateway cfg))"

lemma prepared_changes_ok:
  assumes v: "valid_version v" and w: "valid_version w"
  obtains as cand where "align_versions v w = Inr as" "\<forall>a \<in> set as. compared v w a (cand a)"
    "prepared_changes gateway cfg fresh now job scope run v w =
       Inr (map (prepared_change gateway cfg fresh now job scope run cand) (enumerate 0 as))"
    "mset (concat (map al_baseline as)) = mset (map el_id (cv_elements v))"
    "mset (concat (map al_target as)) = mset (map el_id (cv_elements w))"
proof -
  obtain as where as: "align_versions v w = Inr as" "\<forall>a \<in> set as. checked_alignment a = Inr a"
    "mset (concat (map al_baseline as)) = mset (map el_id (cv_elements v))"
    "mset (concat (map al_target as)) = mset (map el_id (cv_elements w))"
    using align_versions_partition [OF v w] by blast
  have sub: "set (al_baseline a) \<subseteq> el_id ` set (cv_elements v)" "set (al_target a) \<subseteq> el_id ` set (cv_elements w)"
    if "a \<in> set as" for a
    using that mset_eq_setD [OF as(3)] mset_eq_setD [OF as(4)] by auto
  have "\<forall>a \<in> set as. \<exists>c. alignment_candidate (cv_elements v) (cv_elements w) a = Inr c \<and> compared v w a c"
    using candidate_ok [OF v w] as(2) sub by blast
  then obtain cand where cand: "\<And>a. a \<in> set as \<Longrightarrow> alignment_candidate (cv_elements v) (cv_elements w) a = Inr (cand a) \<and>
      compared v w a (cand a)" by metis
  have mem: "a \<in> set as" if "(n, a) \<in> set (enumerate 0 as)" for n a
    using that by (auto simp: in_set_enumerate_eq)
  have "prepared_changes gateway cfg fresh now job scope run v w =
      Inr (map (prepared_change gateway cfg fresh now job scope run cand) (enumerate 0 as))"
    unfolding prepared_changes_def as(1) bindR.simps
    by (rule mapR_Inr_map) (use cand mem in \<open>fastforce simp: prepared_change_def\<close>)
  then show ?thesis using that as cand by blast
qed

section \<open>What is stored\<close>

definition faithful_externals :: "comparison_externals \<Rightarrow> datetime \<Rightarrow> bool" where
  "faithful_externals x now \<longleftrightarrow>
     (\<forall>v. cx_loads x (cx_dumps x (sorted_json v)) = Some (sorted_json v)) \<and>
     cx_fromisoformat x (isoformat now) = Some now"

definition canonical_id :: "uuid \<Rightarrow> bool" where
  "canonical_id i \<longleftrightarrow> parse_uuid i = Some i"

definition stored_row ::
  "uuid \<Rightarrow> datetime \<Rightarrow> processing_job \<Rightarrow> uuid \<times> uuid \<Rightarrow> comparison_run_row \<Rightarrow> nat \<Rightarrow> alignment
   \<Rightarrow> materiality_candidate \<Rightarrow> materiality_result \<Rightarrow> comparison_change_row" where
  "stored_row i now job scope run n a c r =
     \<lparr>ch_id = i, ch_run = cr_id run, ch_org = fst scope, ch_ws = snd scope, ch_agreement = pj_agreement job,
      ch_ordinal = int n, ch_alignment_kind = alignment_value (al_kind a),
      ch_baseline_element_ids = JList (map JStr (al_baseline a)),
      ch_target_element_ids = JList (map JStr (al_target a)),
      ch_baseline_citation_ids = JList (map JStr (mc_baseline_citations c)),
      ch_target_citation_ids = JList (map JStr (mc_target_citations c)),
      ch_word_diff = JList (map (sorted_json \<circ> word_diff_part) (mr_word_diff r)),
      ch_confidence = mr_confidence r, ch_review_required = mr_review r,
      ch_severity = severity_value (mr_severity r), ch_legal_concepts = JList (map JStr (mr_concepts r)),
      ch_rationale = mr_rationale r,
      ch_provider_provenance = sorted_json (case mr_provenance r of None \<Rightarrow> JNull | Some v \<Rightarrow> v),
      ch_created_at = now\<rparr>"

lemma change_object_get:
  "json_get (change_object i now job scope run n a c r) k = map_of
     [(''id'', JStr i), (''comparison_run_id'', JStr (cr_id run)),
      (''organization_id'', JStr (fst scope)), (''workspace_id'', JStr (snd scope)),
      (''agreement_id'', JStr (pj_agreement job)), (''ordinal'', JInt (int n)),
      (''alignment_kind'', JStr (alignment_value (al_kind a))),
      (''baseline_element_ids'', JList (map JStr (al_baseline a))),
      (''target_element_ids'', JList (map JStr (al_target a))),
      (''baseline_citation_ids'', JList (map JStr (mc_baseline_citations c))),
      (''target_citation_ids'', JList (map JStr (mc_target_citations c))),
      (''word_diff'', JList (map word_diff_part (mr_word_diff r))),
      (''confidence'', JFloat (mr_confidence r)), (''review_required'', JBool (mr_review r)),
      (''severity'', JStr (severity_value (mr_severity r))),
      (''legal_concepts'', JList (map JStr (mr_concepts r))), (''rationale'', JStr (mr_rationale r)),
      (''provider_provenance'', (case mr_provenance r of None \<Rightarrow> JNull | Some v \<Rightarrow> v)),
      (''created_at'', JStr (isoformat now))] k"
  by (simp add: change_object_def)

lemma converted_ok:
  assumes "faithful_externals x now" and "canonical_id i" and "canonical_id (cr_id run)" and "canonical_id (fst scope)"
    and "canonical_id (snd scope)" and "canonical_id (pj_agreement job)"
  shows "converted_change x (sorted_json (change_object i now job scope run n a c r)) =
    Inr (i, cr_id run, fst scope, snd scope, pj_agreement job, now)"
  using assms
  by (simp add: converted_change_def uuid_field_def time_field_def change_object_get str_value_def
      faithful_externals_def canonical_id_def)

lemma change_keys_object: "set (change_keys (change_object i now job scope run n a c r)) \<subseteq> set CHANGE_COLUMNS"
  by (simp add: change_object_def CHANGE_COLUMNS_def)

lemma change_row_ok:
  "change_row (sorted_json (change_object i now job scope run n a c r),
      i, cr_id run, fst scope, snd scope, pj_agreement job, now) = Inr (stored_row i now job scope run n a c r)"
  using change_keys_object [of i now job scope run n a c r]
  by (simp add: change_row_def column_def change_object_get stored_row_def)


definition stored_of ::
  "materiality_gateway option \<Rightarrow> resolved_ai_configuration \<Rightarrow> (nat \<Rightarrow> uuid) \<Rightarrow> datetime \<Rightarrow> processing_job
   \<Rightarrow> uuid \<times> uuid \<Rightarrow> comparison_run_row \<Rightarrow> (alignment \<Rightarrow> materiality_candidate) \<Rightarrow> nat \<times> alignment
   \<Rightarrow> comparison_change_row" where
  "stored_of gateway cfg fresh now job scope run cand = (\<lambda>(n, a).
     stored_row (fresh n) now job scope run n a (cand a) (assess_materiality_with_model (cand a) gateway cfg))"

lemma mapR_all: "(\<And>n. f (g n) = Inr (h n)) \<Longrightarrow> mapR f (map g ns) = Inr (map h ns)"
  by (induction ns) simp_all

lemma zip_maps: "zip (map f ns) (map g ns) = map (\<lambda>n. (f n, g n)) ns"
  by (induction ns) simp_all

lemma finalize_ok:
  assumes x: "faithful_externals x now" and fresh: "\<And>n. canonical_id (fresh n)"
    and ids: "canonical_id (cr_id run)" "canonical_id g" "canonical_id w" "canonical_id (pj_agreement job)"
    and tenant: "pj_org job = Some g" "pj_ws job = Some w"
    and run': "run_of_job s (pj_id job) = Some run'" "cr_id run' = cr_id run"
      "cr_baseline_version run' = cr_baseline_version run" "cr_target_version run' = cr_target_version run"
    and raw: "raw = cx_dumps x (sorted_json (comparison_payload job (g, w) run
        (map (prepared_change gateway cfg fresh now job (g, w) run cand) nas) provenance))"
  shows "\<exists>stored. finalize_comparison x later job p (Some raw) s = Inr (store_changes later run'
    (map (stored_of gateway cfg fresh now job (g, w) run cand) nas) stored s)"
proof -
  let ?changes = "map (prepared_change gateway cfg fresh now job (g, w) run cand) nas"
  define kvs where "kvs = comparison_identity job (g, w) run @ [(''changes'', JList ?changes),
        (''analysis_provenance'', JObj (dict_put ''alignment'' (JStr ''deterministic'') provenance))]"
  define payload where "payload = sort_key fst (map (\<lambda>(k, v). (k, sorted_json v)) kvs)"
  have "sorted_json (comparison_payload job (g, w) run ?changes provenance) = JObj payload"
    by (simp only: comparison_payload_def kvs_def payload_def sorted_json.simps)
  then have loads: "cx_loads x raw = Some (JObj payload)"
    using x by (metis raw faithful_externals_def)
  have get: "map_of payload k = map_option sorted_json (map_of kvs k)" for k
    by (simp add: payload_def map_of_map_value)
  have identity: "list_all (\<lambda>(k, v). map_of payload k = Some v) (comparison_identity job (g, w) run')"
    unfolding get by (simp add: kvs_def comparison_identity_def run'(2-4))
  have changes: "map_of payload ''changes'' = Some (JList (map sorted_json ?changes))"
    unfolding get by (simp add: kvs_def comparison_identity_def)
  obtain stored where stored: "map_of payload ''analysis_provenance'' = Some (JObj stored)"
    unfolding get by (simp add: kvs_def comparison_identity_def)
  have conv: "mapR (converted_change x) (map sorted_json ?changes) =
      Inr (map (\<lambda>(n, a). (fresh n, cr_id run, g, w, pj_agreement job, now)) nas)"
    unfolding map_map
    by (rule mapR_all) (use converted_ok [OF x fresh ids(1) _ _ ids(4), where scope = "(g, w)"] ids(2,3) in
      \<open>simp add: prepared_change_def case_prod_beta\<close>)
  have rows: "mapR change_row (zip (map sorted_json ?changes)
      (map (\<lambda>(n, a). (fresh n, cr_id run, g, w, pj_agreement job, now)) nas)) =
      Inr (map (stored_of gateway cfg fresh now job (g, w) run cand) nas)"
    unfolding map_map zip_maps
    by (rule mapR_all) (use change_row_ok [where scope = "(g, w)"] in
      \<open>simp add: prepared_change_def stored_of_def case_prod_beta\<close>)
  show ?thesis
    unfolding finalize_comparison_def some_or_simps bindR.simps loads option.case json.case run'(1) tenant id_text.simps
      identity [THEN eqTrueI] require_simps changes stored prod.case conv rows by blast
qed

section \<open>What is shown\<close>

lemma augment_fields:
  "mr_word_diff (augment_materiality r p pv) = mr_word_diff r \<and>
   (mr_provenance (augment_materiality r p pv) = mr_provenance r \<or>
    (\<exists>kvs. mr_provenance (augment_materiality r p pv) = Some (JObj kvs)))"
  using augment_cases [of r p pv] safe_provenance_keys [of pv] by fastforce

lemma assessed_fields:
  "mr_word_diff (assess_materiality_with_model c gateway cfg) = word_diff (mc_baseline_text c) (mc_target_text c) \<and>
   (mr_provenance (assess_materiality_with_model c gateway cfg) = None \<or>
    (\<exists>kvs. mr_provenance (assess_materiality_with_model c gateway cfg) = Some (JObj kvs)))"
proof -
  have base: "mr_word_diff (assess_materiality c) = word_diff (mc_baseline_text c) (mc_target_text c)"
    "mr_provenance (assess_materiality c) = None"
    by (simp_all add: assess_materiality_def Let_def)
  from with_model_cases [of c gateway cfg] show ?thesis
    using augment_fields [of "assess_materiality c"] by (elim disjE exE) (auto simp: base)
qed

text \<open>A shown change is of its alignment and its candidate.\<close>

definition shown_change :: "nat \<Rightarrow> alignment \<Rightarrow> materiality_candidate \<Rightarrow> change_response \<Rightarrow> bool" where
  "shown_change n a c g \<longleftrightarrow>
     cg_ordinal g = int n \<and> cg_alignment_kind g = alignment_value (al_kind a) \<and>
     cg_baseline_element_ids g = al_baseline a \<and> cg_target_element_ids g = al_target a \<and>
     cg_baseline_citation_ids g = mc_baseline_citations c \<and> cg_target_citation_ids g = mc_target_citations c \<and>
     side_words ''insert'' (cg_word_diff g) = words (mc_baseline_text c) \<and>
     side_words ''delete'' (cg_word_diff g) = words (mc_target_text c)"

lemma string_list_map [simp]: "string_list (JList (map JStr ts)) = Inr ts"
  by (simp add: string_list_def)

lemma change_shown_ok:
  assumes "r = assess_materiality_with_model c gateway cfg"
  shows "\<exists>g. change_shown (stored_row i now job scope run n a c r) = Inr g \<and> shown_change n a c g"
proof -
  have diff: "mr_word_diff r = word_diff (mc_baseline_text c) (mc_target_text c)"
    using assessed_fields [of c gateway cfg] assms by simp
  have parts: "stored_word_diff (JList (map (sorted_json \<circ> word_diff_part) (mr_word_diff r))) =
      Inr (map (sort_key fst \<circ> stored_part) (word_diff (mc_baseline_text c) (mc_target_text c)))"
    by (simp add: stored_word_diff_def diff word_diff_parts_sorted)
  obtain pv where pv: "dictionary_or_empty (sorted_json (case mr_provenance r of None \<Rightarrow> JNull | Some v \<Rightarrow> v)) = Inr pv"
    using assessed_fields [of c gateway cfg] assms by (auto simp: dictionary_or_empty_def)
  show ?thesis
    using shown_words [of "mc_baseline_text c" "mc_target_text c"]
    by (simp add: change_shown_def stored_row_def pv parts shown_change_def del: sorted_json.simps)
qed

lemma stored_sorted:
  "sort_key ch_ordinal (map (stored_of gateway cfg fresh now job scope run cand) (enumerate 0 as)) =
     map (stored_of gateway cfg fresh now job scope run cand) (enumerate 0 as)"
proof (rule sort_key_id_if_sorted)
  have "map ch_ordinal (map (stored_of gateway cfg fresh now job scope run cand) (enumerate 0 as)) =
      map int (map fst (enumerate 0 as))"
    by (simp add: comp_def stored_of_def stored_row_def case_prod_beta del: map_fst_enumerate)
  then show "sorted (map ch_ordinal (map (stored_of gateway cfg fresh now job scope run cand) (enumerate 0 as)))"
    by (simp add: sorted_map)
qed

lemma list_changes_ok:
  assumes run': "cr_id run' = cr_id run" "run' \<in> set (comparison_runs s)"
    and active: "agreement_is_active s (cr_agreement run')"
  shows "\<exists>gs. list_changes (store_changes later run' (map (stored_of gateway cfg fresh now job scope run cand) (enumerate 0 as))
      stored s) (cr_id run) = Inr gs \<and>
    list_all2 (\<lambda>(n, a) g. shown_change n a (cand a) g) (enumerate 0 as) gs"
proof -
  let ?rows = "map (stored_of gateway cfg fresh now job scope run cand) (enumerate 0 as)"
  let ?s = "store_changes later run' ?rows stored s"
  have run_of: "ch_run c = cr_id run" if "c \<in> set ?rows" for c
    using that by (auto simp: stored_of_def stored_row_def)
  have live: "exists_row (\<lambda>r. cr_id r = cr_id run) (live_runs ?s)"
    using assms by (auto simp: live_runs_def store_changes_def in_update_where completed_run_def agreement_is_active_def
        intro!: exI [of _ "completed_run stored later run'"] bexI [of _ run'])
  have "filter (\<lambda>c. ch_run c = cr_id run \<and> exists_row (\<lambda>r. cr_id r = ch_run c) (live_runs ?s))
      (comparison_changes ?s) = ?rows"
    using live run_of by (auto simp: store_changes_def run'(1) filter_empty_conv intro!: filter_True)
  then have "list_changes ?s (cr_id run) = mapR change_shown ?rows"
    unfolding list_changes_def by (simp only: stored_sorted)
  moreover have "\<exists>g. change_shown (stored_of gateway cfg fresh now job scope run cand na) = Inr g \<and>
      shown_change (fst na) (snd na) (cand (snd na)) g" for na
    using change_shown_ok [OF refl] by (simp add: stored_of_def case_prod_beta)
  then obtain g where g: "\<And>na. change_shown (stored_of gateway cfg fresh now job scope run cand na) = Inr (g na) \<and>
      shown_change (fst na) (snd na) (cand (snd na)) (g na)" by metis
  have "mapR change_shown ?rows = Inr (map g (enumerate 0 as))"
    by (rule mapR_all) (use g in blast)
  ultimately show ?thesis using g by (auto simp: list_all2_map2 case_prod_beta intro!: list_all2_refl)
qed

lemma manifest_valid:
  assumes "canonical_version_from_manifest m = Inr v"
  shows "valid_version v"
proof -
  obtain bs where "blocks_from_manifest m = Inr bs"
    using assms by (auto simp: canonical_version_from_manifest_def result_simps split: option.splits json.splits)
  then show ?thesis using manifest_version_valid [OF assms] by blast
qed

lemma run_of_jobD: "run_of_job s i = Some r \<Longrightarrow> r \<in> set (comparison_runs s) \<and> cr_job r = Some i"
  by (auto simp: run_of_job_def dest: find_SomeD)

lemma store_changes_access:
  "authorize_agreement p (store_changes later run rows stored s) u g w = authorize_agreement p s u g w"
  unfolding authorize_agreement_def
  by (rule arg_cong [where f = "\<lambda>b. require b _"], rule granted_identity_only) (simp_all add: store_changes_def)

lemma get_run_stored:
  assumes "distinct (map cr_id (comparison_runs s))" and "run \<in> set (comparison_runs s)"
    and "agreement_is_active s (cr_agreement run)"
  shows "get_run (store_changes later run rows stored s) (cr_id run) = Some (completed_run stored later run)"
proof -
  let ?upd = "\<lambda>r. if cr_id r = cr_id run then completed_run stored later r else r"
  have keep: "cr_agreement (?upd r) = cr_agreement r" "cr_id (?upd r) = cr_id r" for r
    by (simp_all add: completed_run_def)
  have live: "live_runs (store_changes later run rows stored s) = map ?upd (live_runs s)"
    by (simp add: live_runs_def store_changes_def update_where_def filter_map comp_def keep agreement_is_active_def)
  have "find (\<lambda>r. cr_id r = cr_id run) (live_runs s) = Some run"
  proof (rule find_distinct_key)
    show "distinct (map cr_id (live_runs s))" using assms(1) by (simp add: live_runs_def distinct_map_filter)
    show "run \<in> set (live_runs s)" using assms(2,3) by (simp add: live_runs_def)
  qed
  moreover have "find (\<lambda>r. cr_id r = i) (map ?upd rs) = map_option ?upd (find (\<lambda>r. cr_id r = i) rs)" for i rs
    by (induction rs) (auto simp: completed_run_def)
  ultimately show ?thesis by (simp add: get_run_def live)
qed

lemma shown_ids:
  assumes "list_all2 (\<lambda>(n, a) g. shown_change n a (cand a) g) (enumerate k as) gs"
  shows "map cg_ordinal gs = map int [k..<k + length as] \<and> map cg_baseline_element_ids gs = map al_baseline as \<and>
    map cg_target_element_ids gs = map al_target as"
  using assms
proof (induction as arbitrary: k gs)
  case (Cons a as)
  obtain g gs' where gs: "gs = g # gs'" "shown_change k a (cand a) g"
    "list_all2 (\<lambda>(n, a) g. shown_change n a (cand a) g) (enumerate (Suc k) as) gs'"
    using Cons.prems by (auto simp: list_all2_Cons1)
  show ?case using Cons.IH [OF gs(3)] gs(1,2) by (simp add: shown_change_def upt_conv_Cons [of k] del: upt_Suc)
qed simp_all

lemma shown_texts:
  assumes "list_all2 (\<lambda>(n, a) g. shown_change n a (cand a) g) (enumerate k as) gs" and "g \<in> set gs"
    and "\<forall>a \<in> set as. compared v w a (cand a)"
  shows "\<exists>old new.
    sections_compared v (cg_baseline_element_ids g) old (cg_baseline_citation_ids g) \<and>
    sections_compared w (cg_target_element_ids g) new (cg_target_citation_ids g) \<and>
    side_words ''insert'' (cg_word_diff g) = words old \<and> side_words ''delete'' (cg_word_diff g) = words new"
proof -
  obtain n a where a: "(n, a) \<in> set (enumerate k as)" "shown_change n a (cand a) g"
    using assms(1,2) by (auto simp: list_all2_conv_all_nth in_set_conv_nth case_prod_beta) (metis prod.collapse nth_mem length_enumerate)
  have "a \<in> set as" using a(1) by (auto simp: in_set_enumerate_eq)
  then show ?thesis using a(2) assms(3) unfolding compared_def shown_change_def by metis
qed

section \<open>Properties\<close>

text \<open>
  C17: a comparison comes through from end to end: whenever both analyses of its run can be read, the worker prepares it
  without an exception, the commit stores it, however the model answered, and the API then shows the run as completed.
  Its changes are numbered in order and name every section of either version exactly once, each with the citations of
  its sections, and its word difference gives the words of the baseline when the insertions are left out, and the
  words of the target when the deletions are.
\<close>

theorem comparison_shown:
  assumes x: "faithful_externals x now" and fresh: "\<And>n. canonical_id (fresh n)"
    and ids: "canonical_id (cr_id run)" "canonical_id g" "canonical_id w" "canonical_id (pj_agreement job)"
    and tenant: "pj_org job = Some g" "pj_ws job = Some w" and run: "run_of_job s (pj_id job) = Some run"
    and sources: "comparison_sources s run = Inr (baseline_key, target_key)"
      "bindR (read_manifest x store baseline_key) canonical_version_from_manifest = Inr v"
      "bindR (read_manifest x store target_key) canonical_version_from_manifest = Inr u"
      "run_provenance run = Inr provenance"
    and run': "run_of_job s' (pj_id job) = Some run'" "cr_id run' = cr_id run"
      "cr_baseline_version run' = cr_baseline_version run" "cr_target_version run' = cr_target_version run"
      "cr_agreement run' = pj_agreement job" "cr_org run' = g" "cr_ws run' = w"
      "distinct (map cr_id (comparison_runs s'))" "agreement_is_active s' (pj_agreement job)"
    and actor: "authorize_agreement AGREEMENTS_READ s' actor g w = Inr ()"
  shows "\<exists>p s'' r gs.
    prepare_comparison x gateway cfg fresh now job s store = Inr p \<and>
    finalize_comparison x later job p (pa_content p) s' = Inr s'' \<and>
    get_comparison s'' actor g w (pj_agreement job) (cr_id run) = Inr (r, gs) \<and> cr_state r = ''completed'' \<and>
    map cg_ordinal gs = map int [0..<length gs] \<and>
    mset (concat (map cg_baseline_element_ids gs)) = mset (map el_id (cv_elements v)) \<and>
    mset (concat (map cg_target_element_ids gs)) = mset (map el_id (cv_elements u)) \<and>
    (\<forall>c \<in> set gs. \<exists>old new.
       sections_compared v (cg_baseline_element_ids c) old (cg_baseline_citation_ids c) \<and>
       sections_compared u (cg_target_element_ids c) new (cg_target_citation_ids c) \<and>
       side_words ''insert'' (cg_word_diff c) = words old \<and> side_words ''delete'' (cg_word_diff c) = words new)"
proof -
  have valid: "valid_version v" "valid_version u" using sources(2,3) manifest_valid by (auto simp: result_simps)
  obtain as cand where as: "\<forall>a \<in> set as. compared v u a (cand a)"
    "prepared_changes gateway cfg fresh now job (g, w) run v u =
       Inr (map (prepared_change gateway cfg fresh now job (g, w) run cand) (enumerate 0 as))"
    "mset (concat (map al_baseline as)) = mset (map el_id (cv_elements v))"
    "mset (concat (map al_target as)) = mset (map el_id (cv_elements u))"
    using prepared_changes_ok [OF valid] by metis
  define raw where "raw = cx_dumps x (sorted_json (comparison_payload job (g, w) run
    (map (prepared_change gateway cfg fresh now job (g, w) run cand) (enumerate 0 as)) provenance))"
  obtain p where p: "prepare_comparison x gateway cfg fresh now job s store = Inr p" "pa_content p = Some raw"
    by (simp add: prepare_comparison_def comparison_scope_def tenant run sources as(2) raw_def)
  obtain stored where f: "finalize_comparison x later job p (Some raw) s' = Inr (store_changes later run'
    (map (stored_of gateway cfg fresh now job (g, w) run cand) (enumerate 0 as)) stored s')"
    using finalize_ok [OF x fresh ids tenant run'(1-4) raw_def] by blast
  let ?s = "store_changes later run' (map (stored_of gateway cfg fresh now job (g, w) run cand) (enumerate 0 as)) stored s'"
  have in_runs: "run' \<in> set (comparison_runs s')" using run_of_jobD [OF run'(1)] by simp
  obtain gs where gs: "list_changes ?s (cr_id run) = Inr gs"
    "list_all2 (\<lambda>(n, a) g. shown_change n a (cand a) g) (enumerate 0 as) gs"
    using list_changes_ok [OF run'(2) in_runs] run'(5,9) by metis
  have "get_comparison ?s actor g w (pj_agreement job) (cr_id run) = Inr (completed_run stored later run', gs)"
    using get_run_stored [OF run'(8) in_runs] run'(2,5-7,9) gs(1)
    by (simp add: get_comparison_def store_changes_access actor run_result_def run_response_def completed_run_def)
  moreover have "length gs = length as" using list_all2_lengthD [OF gs(2)] by simp
  ultimately show ?thesis
    using p f shown_ids [OF gs(2)] as(3,4) shown_texts [OF gs(2) _ as(1)]
    by (intro exI [of _ p] exI [of _ ?s] exI [of _ "completed_run stored later run'"] exI [of _ gs])
      (simp add: completed_run_def)
qed

end
