(* ===== verification/Comparison_Requests.thy ===== *)
theory Comparison_Requests
  imports Comparison_Properties Processing_Submission
begin

text \<open>
  Requests of comparisons: a pair of versions is compared once per analysis, under one job, and what the service finds
  as the analysis of a version that was already compared.
\<close>

section \<open>What a request leaves alone\<close>

lemma deliver_runs [simp]: "comparison_runs (snd (deliver_outbox publish now ms d s)) = comparison_runs s"
  by (induction ms arbitrary: d s) simp_all

lemma dispatch_runs [simp]:
  "comparison_runs (snd (dispatch_processing publish now g w n (enqueue_outbox j t s))) = comparison_runs s"
  by (simp add: dispatch_processing_def enqueue_outbox_def)

lemma create_run_effect:
  assumes "create_run r s = Inr s'"
  shows "s' = s\<lparr>comparison_runs := comparison_runs s @ [r]\<rparr>"
  using assms by (auto simp: create_run_def result_simps)

lemma same_scope_runs: "same_scope s (s\<lparr>comparison_runs := rs\<rparr>)"
  by (simp add: same_scope_def ag_keys_def)

text \<open>The uniqueness constraints of the table.\<close>

definition comparisons_unique :: "'z processing_db_scheme \<Rightarrow> bool" where
  "comparisons_unique s \<longleftrightarrow>
     distinct (map (\<lambda>r. (cr_agreement r, cr_baseline_version r, cr_target_version r, cr_analysis_version r))
       (comparison_runs s)) \<and>
     distinct (map (\<lambda>r. (cr_agreement r, cr_idempotency_key r)) (comparison_runs s))"

lemma create_new_effect:
  assumes "create_new_comparison publish s g w a b t key version now = Inr (r, created, s')"
    and fresh: "uuid4 s \<notin> cr_id ` set (comparison_runs s)"
  obtains target where "created" "r = new_run (uuid4 s) (uuid4 (draw s)) g w a b t key version now"
    "comparison_runs s' = comparison_runs s @ [r]" "same_scope s s'" "agreement_versions s' = agreement_versions s"
    "get_version s t = Some target" "jobs s' = jobs s @ [comparison_job (uuid4 (draw s)) (uuid4 s) g w a target now]"
    "map po_job (processing_outbox s') = map po_job (processing_outbox s) @ [uuid4 (draw s)]"
    "agreement_is_active s a"
proof -
  let ?run = "new_run (uuid4 s) (uuid4 (draw s)) g w a b t key version now"
  obtain target s1 s2 committed where target: "get_version s t = Some target"
    and s1: "create_job (comparison_job (uuid4 (draw s)) (uuid4 s) g w a target now) (draw (draw s)) = Inr s1"
    and s2: "create_run ?run s1 = Inr s2"
    and s': "s' = snd (dispatch_processing publish now g w 50
      (enqueue_outbox (comparison_job (uuid4 (draw s)) (uuid4 s) g w a target now) now s2))"
    and committed: "get_run s' (uuid4 s) = Some committed" "run_response committed = Inr r" and created: "created"
    using assms(1) unfolding create_new_comparison_def Let_def bindR_Inr_iff some_or_Inr_iff by auto
  have s2': "s2 = s1\<lparr>comparison_runs := comparison_runs s1 @ [?run]\<rparr>" using create_run_effect [OF s2] .
  have runs1: "comparison_runs s1 = comparison_runs s"
    using s1 by (auto simp: create_job_def result_simps)
  have runs: "comparison_runs s' = comparison_runs s @ [?run]" by (simp add: s' s2' runs1)
  note e1 = create_job_effect [OF s1]
  note e2 = announce_effect [OF s']
  have scope: "same_scope s s'"
    using e1 e2 same_scope_runs [of s1 "comparison_runs s1 @ [?run]"] scope_draw [of s] scope_draw [of "draw s"]
    unfolding s2' by (meson same_scope_trans)
  have "committed \<in> set (comparison_runs s')" "cr_id committed = uuid4 s"
    using find_SomeD [OF committed(1) [unfolded get_run_def]] by (auto simp: live_runs_def)
  then have "committed = ?run" using fresh unfolding runs by (auto simp: image_iff)
  then have r: "r = ?run" using committed(2) by (simp add: run_response_def new_run_def)
  have "agreement_is_active s a"
    using e1 same_scope_active [OF scope_draw [of s]] same_scope_active [OF scope_draw [of "draw s"]]
    by (simp add: comparison_job_def)
  then show ?thesis
    using that created r runs scope target e1 e2 by (simp add: s2' comparison_job_def)
qed

lemma same_versions:
  assumes "same_scope s s'" and "agreement_versions s' = agreement_versions s"
  shows "resolve_versions s' a request = resolve_versions s a request"
proof -
  have "live_versions s' = live_versions s" using same_scope_active [OF assms(1)] assms(2) by (simp add: live_versions_def)
  then have "get_version s' = get_version s" "list_versions s' = list_versions s"
    by (simp_all add: fun_eq_iff get_version_def list_versions_def)
  then show ?thesis by (simp only: resolve_versions_def requested_pair_def)
qed

lemma resolved_pair:
  assumes "resolve_versions s a request = Inr (b, t)"
  shows "\<exists>baseline target. {baseline, target} \<subseteq> set (live_versions s) \<and> vr_id baseline = b \<and> vr_id target = t \<and>
    comparable_pair a baseline target"
proof -
  obtain baseline target where p: "requested_pair s a request = Inr (baseline, target)" "comparable_pair a baseline target"
    "b = vr_id baseline" "t = vr_id target"
    using assms by (auto simp: resolve_versions_def result_simps)
  let ?completed = "filter (\<lambda>v. vr_processing_state v = ''completed'') (list_versions s a)"
  have "{baseline, target} \<subseteq> set (live_versions s)"
  proof (cases "cq_baseline request = None \<and> cq_target request = None")
    case True
    then have "drop (length ?completed - 2) ?completed = [baseline, target]"
      using p(1) by (auto simp: requested_pair_def Let_def split: list.splits)
    then have "{baseline, target} \<subseteq> set ?completed" using set_drop_subset [of "length ?completed - 2" ?completed] by simp
    then show ?thesis by (auto simp: list_versions_def)
  next
    case False
    then show ?thesis
      using p(1) by (auto simp: requested_pair_def get_version_def Let_def dest: find_SomeD split: option.splits)
  qed
  then show ?thesis using p by blast
qed

lemma unique_append:
  assumes "comparisons_unique s" and "comparison_runs s' = comparison_runs s @ [r]"
    and "agreement_is_active s (cr_agreement r)"
    and "run_by_idempotency_key s (cr_agreement r) (cr_idempotency_key r) = None"
    and "run_by_identity s (cr_agreement r) (cr_baseline_version r) (cr_target_version r) (cr_analysis_version r) = None"
  shows "comparisons_unique s'"
proof -
  have "q \<in> set (live_runs s)" if "q \<in> set (comparison_runs s)" "cr_agreement q = cr_agreement r" for q
    using that assms(3) by (simp add: live_runs_def)
  then have "\<And>q. q \<in> set (comparison_runs s) \<Longrightarrow> cr_agreement q = cr_agreement r \<Longrightarrow>
      cr_idempotency_key q \<noteq> cr_idempotency_key r \<and>
      \<not> (cr_baseline_version q = cr_baseline_version r \<and> cr_target_version q = cr_target_version r \<and>
         cr_analysis_version q = cr_analysis_version r)"
    using assms(4,5) unfolding run_by_idempotency_key_def run_by_identity_def find_None_iff' by blast
  then show ?thesis
    using assms(1) unfolding comparisons_unique_def assms(2) map_append distinct_append by fastforce
qed

lemma latest_job:
  assumes "j \<in> set (jobs s)" "jb_version j = Some version_id" "jb_state j = JCompleted"
    and largest: "\<And>k. k \<in> set (jobs s) \<Longrightarrow> jb_version k = Some version_id \<Longrightarrow> jb_state k = JCompleted \<Longrightarrow>
      jb_id k < jb_id j \<or> k = j"
  shows "latest_completed_job s version_id = Some j"
proof -
  let ?jobs = "sort_key jb_id (filter (\<lambda>k. jb_version k = Some version_id \<and> jb_state k = JCompleted) (jobs s))"
  have j: "j \<in> set ?jobs" using assms by simp
  then have "rev ?jobs \<noteq> []" by (metis empty_iff list.set(1) rev_is_Nil_conv)
  then obtain k rest where k: "rev ?jobs = k # rest" by (meson neq_Nil_conv)
  have "?jobs = rev rest @ [k]" using k by (metis rev_rev_ident rev.simps(2))
  then have "sorted (map jb_id (rev rest @ [k]))" "j \<in> set (rev rest @ [k])"
    using j sorted_sort_key [of jb_id] by metis+
  then have "jb_id j \<le> jb_id k" by (auto simp: sorted_append)
  moreover have "k \<in> set ?jobs" using k by (metis list.set_intros(1) set_rev)
  ultimately have "k = j" using largest [of k] by auto
  then show ?thesis by (simp add: latest_completed_job_def k)
qed

lemma payload_sourceless: "json_get (sorted_json (comparison_payload job scope run changes provenance)) ''source'' = None"
  by (simp add: comparison_payload_def comparison_identity_def del: sorted_json.simps)

lemma payload_read:
  assumes "faithful_externals x now" and "store key = Some (owner, cx_dumps x (sorted_json
      (comparison_payload job scope run changes provenance)))"
  shows "read_manifest x store key = Inr (sorted_json (comparison_payload job scope run changes provenance))"
proof -
  obtain kvs where kvs: "sorted_json (comparison_payload job scope run changes provenance) = JObj kvs"
    by (simp add: comparison_payload_def)
  then have "cx_loads x (cx_dumps x (JObj kvs)) = Some (JObj kvs)"
    using assms(1) unfolding faithful_externals_def by metis
  then show ?thesis unfolding read_manifest_def assms(2) kvs option.map prod.sel some_or_simps bindR.simps by simp
qed

section \<open>Properties\<close>

text \<open>
  C18: a comparison is requested once: a request keeps the constraints that a pair of versions has one run per analysis
  and a key one run, and the same request sent again is answered with the same run and writes nothing. The run names
  two completed versions of the agreement in their order, and a created run has the one new job, announced once.
\<close>

theorem comparison_requested_once:
  assumes u: "comparisons_unique s" and fresh: "uuid4 s \<notin> cr_id ` set (comparison_runs s)"
    and c: "create_comparison publish s actor g w a key request now = Inr (r, created, s')"
  shows "comparisons_unique s' \<and>
    create_comparison publish' s' actor g w a key request later = Inr (r, False, s') \<and>
    (\<exists>baseline target. {baseline, target} \<subseteq> set (live_versions s) \<and> vr_id baseline = cr_baseline_version r \<and>
       vr_id target = cr_target_version r \<and> comparable_pair a baseline target) \<and>
    cr_agreement r = a \<and> cr_analysis_version r = cq_analysis_version request \<and>
    (if created
     then \<exists>j. jobs s' = jobs s @ [j] \<and> cr_job r = Some (jb_id j) \<and> jb_version j = Some (cr_target_version r) \<and>
       map po_job (processing_outbox s') = map po_job (processing_outbox s) @ [jb_id j]
     else s' = s)"
proof -
  obtain x b t where pre: "authorize_agreement AGREEMENTS_READ s actor g w = Inr ()" "agreement_in_scope s a g w = Inr x"
    "resolve_versions s a request = Inr (b, t)"
    and rest: "(case run_by_idempotency_key s a key of
       Some r \<Rightarrow> bindR (require (same_comparison r b t (cq_analysis_version request)) VersionComparisonConflictError)
           (\<lambda>_. bindR (run_response r) (\<lambda>response. Inr (response, False, s)))
     | None \<Rightarrow> (case run_by_identity s a b t (cq_analysis_version request) of
            Some r \<Rightarrow> bindR (run_response r) (\<lambda>response. Inr (response, False, s))
          | None \<Rightarrow> create_new_comparison publish s g w a b t key (cq_analysis_version request) now)) = Inr (r, created, s')"
    using c unfolding create_comparison_def bindR_Inr_iff by auto
  note pair = resolved_pair [OF pre(3)]
  show ?thesis
  proof (cases "run_by_idempotency_key s a key = None \<and> run_by_identity s a b t (cq_analysis_version request) = None")
    case False
    then have old: "s' = s" "\<not> created" "run_response r = Inr r" "cr_baseline_version r = b" "cr_target_version r = t"
      "cr_agreement r = a" "cr_analysis_version r = cq_analysis_version request"
      using rest by (auto simp: result_simps run_response_def same_comparison_def run_by_identity_def
          run_by_idempotency_key_def dest: find_SomeD split: option.splits)
    have "create_comparison publish' s actor g w a key request later = Inr (r, False, s)"
      using rest False by (auto simp: create_comparison_def pre old(1,2) result_simps split: option.splits)
    then show ?thesis using old u pair by simp
  next
    case True
    then have "create_new_comparison publish s g w a b t key (cq_analysis_version request) now = Inr (r, created, s')"
      using rest by simp
    then obtain target where new: "created"
      "r = new_run (uuid4 s) (uuid4 (draw s)) g w a b t key (cq_analysis_version request) now"
      "comparison_runs s' = comparison_runs s @ [r]" "same_scope s s'" "agreement_versions s' = agreement_versions s"
      "get_version s t = Some target" "jobs s' = jobs s @ [comparison_job (uuid4 (draw s)) (uuid4 s) g w a target now]"
      "map po_job (processing_outbox s') = map po_job (processing_outbox s) @ [uuid4 (draw s)]"
      "agreement_is_active s a"
      using create_new_effect [OF _ fresh] by metis
    have fields: "cr_agreement r = a" "cr_baseline_version r = b" "cr_target_version r = t" "cr_idempotency_key r = key"
      "cr_analysis_version r = cq_analysis_version request" "cr_job r = Some (uuid4 (draw s))" "run_response r = Inr r"
      by (simp_all add: new(2) new_run_def run_response_def)
    have "live_runs s' = live_runs s @ [r]"
      using new(3,9) same_scope_active [OF new(4)] fields(1) by (simp add: live_runs_def)
    then have "run_by_idempotency_key s' a key = Some r"
      using True fields by (simp add: run_by_idempotency_key_def find_append)
    moreover obtain x' where "agreement_in_scope s' a g w = Inr x'" using same_scope_in_scope [OF new(4) pre(2)] by blast
    moreover have "same_comparison r b t (cq_analysis_version request)" using fields by (simp add: same_comparison_def)
    ultimately have "create_comparison publish' s' actor g w a key request later = Inr (r, False, s')"
      using same_versions [OF new(4,5)] same_scope_access [OF new(4)] pre fields(7) by (simp add: create_comparison_def)
    moreover have "vr_id target = t" using new(6) by (auto simp: get_version_def dest: find_SomeD)
    moreover have "comparisons_unique s'" using unique_append [OF u new(3)] new(9) True fields by simp
    ultimately show ?thesis using new pair fields by (simp add: comparison_job_def)
  qed
qed

text \<open>
  C19: the analysis of a version is looked up among all its completed jobs, and a comparison with that version as its
  target is one of them. When the id of its job is the largest, every later comparison of the version reads the changes
  of the earlier one in place of an analysis: as its baseline it raises at once, as its target it raises as soon as the
  baseline was read, so that no such comparison is prepared.
\<close>

theorem compared_version_misread:
  assumes j: "j \<in> set (jobs s)" "jb_version j = Some version_id" "jb_state j = JCompleted"
    and largest: "\<And>k. k \<in> set (jobs s) \<Longrightarrow> jb_version k = Some version_id \<Longrightarrow> jb_state k = JCompleted \<Longrightarrow>
      jb_id k < jb_id j \<or> k = j"
    and artifact: "filter (\<lambda>f. af_job f = jb_id j) (artifacts s) = [f]" "af_key f = comparison_artifact_key (cr_id earlier)"
    and stored: "faithful_externals x now" "store (af_key f) = Some (owner, cx_dumps x (sorted_json
      (comparison_payload earlier_job scope earlier changes provenance)))"
    and run: "comparison_scope job = Inr scope'" "run_of_job s (pj_id job) = Some run"
    and sources: "comparison_sources s run = Inr (baseline_key, target_key)"
  shows "(cr_baseline_version run = version_id \<longrightarrow> baseline_key = comparison_artifact_key (cr_id earlier) \<and>
      prepare_comparison x gateway cfg fresh later job s store =
        Inl (ValueError ''Canonical analysis artifact has no source'')) \<and>
    (cr_target_version run = version_id \<longrightarrow> target_key = comparison_artifact_key (cr_id earlier) \<and>
      prepare_comparison x gateway cfg fresh later job s store =
        bindR (bindR (read_manifest x store baseline_key) canonical_version_from_manifest)
          (\<lambda>_. Inl (ValueError ''Canonical analysis artifact has no source'')))"
proof -
  have "latest_completed_job s version_id = Some j" by (rule latest_job [OF j]) (fact largest)
  then have key: "artifact_key_for_version s version_id = Inr (af_key f)"
    unfolding artifact_key_for_version_def latest_artifact_def by (simp add: artifact(1))
  have keys: "cr_baseline_version run = version_id \<Longrightarrow> baseline_key = af_key f"
    "cr_target_version run = version_id \<Longrightarrow> target_key = af_key f"
    using sources key
    unfolding comparison_sources_def comparison_source_def bindR_Inr_iff some_or_Inr_iff
    by (auto dest!: find_SomeD)
  have "read_manifest x store (af_key f) =
      Inr (sorted_json (comparison_payload earlier_job scope earlier changes provenance))"
    by (rule payload_read) (fact stored)+
  moreover have "canonical_version_from_manifest (sorted_json (comparison_payload earlier_job scope earlier changes provenance)) =
      Inl (ValueError ''Canonical analysis artifact has no source'')"
    using payload_sourceless by (simp add: canonical_version_from_manifest_def del: sorted_json.simps)
  ultimately have "bindR (read_manifest x store (af_key f)) canonical_version_from_manifest =
      Inl (ValueError ''Canonical analysis artifact has no source'')" by (simp del: sorted_json.simps)
  then show ?thesis
    using keys artifact(2) by (auto simp: prepare_comparison_def run sources)
qed

end
