(* ===== verification/Comparison_Demo.thy ===== *)
theory Comparison_Demo
  imports Comparison_Requests "HOL-Library.Countable"
begin

text \<open>
  One contract with two analysed versions and a comparison of them: the concrete case of the properties of comparisons.
\<close>

section \<open>Externals\<close>

instance json :: countable
  by countable_datatype

text \<open>Bytes that stand for a JSON value: as many characters as its number.\<close>

definition demo_externals_of :: "datetime \<Rightarrow> comparison_externals" where
  "demo_externals_of now =
     \<lparr>cx_dumps = (\<lambda>v. replicate (to_nat v) (CHR ''j'')), cx_loads = (\<lambda>t. Some (from_nat (length t))),
      cx_fromisoformat = (\<lambda>_. Some now), cx_str = (\<lambda>_. [])\<rparr>"

lemma demo_faithful: "faithful_externals (demo_externals_of now) now"
  by (simp add: faithful_externals_def demo_externals_of_def)

section \<open>The database\<close>

definition demo_id :: "string \<Rightarrow> uuid" where
  "demo_id c = ''00000000-0000-4000-8000-00000000000'' @ c"

lemma demo_id_canonical: "canonical_id (demo_id ''0'')" "canonical_id (demo_id ''1'')" "canonical_id (demo_id ''2'')"
    "canonical_id (demo_id ''3'')"
  by code_simp+

definition compared_agreement :: agreement_row where
  "compared_agreement = demo_contract\<lparr>ag_id := demo_id ''2'', ag_org := demo_id ''0'', ag_ws := demo_id ''1''\<rparr>"

definition compared_version :: "uuid \<Rightarrow> int \<Rightarrow> agreement_version_row" where
  "compared_version i n = \<lparr>vr_id = i, vr_agreement = demo_id ''2'', vr_org = demo_id ''0'', vr_ws = demo_id ''1'', vr_number = n,
     vr_predecessor = None, vr_file_name = ''f'', vr_content_type = ''c'', vr_storage_key = ''k'' @ i, vr_checksum = ''s'',
     vr_byte_size = 1, vr_uploaded_by = ''P1'', vr_uploaded_at = 0, vr_processing_state = ''completed'',
     vr_processing_job = None, vr_extraction_version = None, vr_analysis_provenance = JNull, vr_idempotency_key = i\<rparr>"

definition analysis_job :: "uuid \<Rightarrow> uuid \<Rightarrow> job_row" where
  "analysis_job i v = demo_job\<lparr>jb_id := i, jb_org := demo_id ''0'', jb_ws := demo_id ''1'', jb_agreement := demo_id ''2'',
     jb_version := Some v, jb_state := JCompleted\<rparr>"

definition analysis_artifact :: "uuid \<Rightarrow> string \<Rightarrow> artifact_row" where
  "analysis_artifact job_id key = \<lparr>af_id = ''A'' @ job_id, af_job = job_id, af_org = demo_id ''0'', af_ws = demo_id ''1'',
     af_agreement = demo_id ''2'', af_key = key, af_created_at = 0\<rparr>"

definition demo_run :: comparison_run_row where
  "demo_run = new_run (demo_id ''3'') ''J3'' (demo_id ''0'') (demo_id ''1'') (demo_id ''2'') ''V1'' ''V2'' ''k''
     ''version-comparison.v1'' 0"

definition demo_comparisons :: processing_db where
  "demo_comparisons = demo_rows\<lparr>
     workspaces := [\<lparr>ws_id = demo_id ''1'', ws_org = demo_id ''0'', ws_name = ''Ws'', ws_slug = ''ws''\<rparr>],
     memberships := [\<lparr>mb_id = ''M1'', mb_org = demo_id ''0'', mb_user = ''P1'', mb_role = ''R4''\<rparr>],
     agreements := [compared_agreement], agreement_versions := [compared_version ''V1'' 1, compared_version ''V2'' 2],
     jobs := [analysis_job ''J1'' ''V1'', analysis_job ''J2'' ''V2''],
     artifacts := [analysis_artifact ''J1'' ''m1'', analysis_artifact ''J2'' ''m2''], comparison_runs := [demo_run]\<rparr>"

definition demo_section :: "string \<Rightarrow> json" where
  "demo_section t = JObj [(''kind'', JStr ''paragraph''), (''anchor_id'', JStr ''a1''), (''text'', JStr t)]"

definition analysis_of :: "string \<Rightarrow> json" where
  "analysis_of t = JObj [(''source'', JObj [(''checksum'', JStr ''sha'')]),
     (''document'', JObj [(''pages'', JList [JObj [(''blocks'', JList [demo_section t])]])])]"

definition demo_store :: object_store where
  "demo_store = [''m1'' \<mapsto> (demo_id ''2'', cx_dumps (demo_externals_of 5) (analysis_of ''Pay 10 USD.'')),
     ''m2'' \<mapsto> (demo_id ''2'', cx_dumps (demo_externals_of 5) (analysis_of ''Pay 12 USD.''))]"

definition demo_worker :: processing_job where
  "demo_worker = \<lparr>pj_id = ''J3'', pj_agreement = demo_id ''2'', pj_state = JProcessing, pj_attempt_count = 1,
     pj_org = Some (demo_id ''0''), pj_ws = Some (demo_id ''1''), pj_profile = Some ''version-comparison'',
     pj_source_storage_key = None, pj_source_checksum = None, pj_source_content_type = None,
     pj_failure_category = None, pj_failure_message = None, pj_next_retry_at = None, pj_processing_started_at = None,
     pj_completed_at = None, pj_claim_token = None, pj_claim_lease_expires_at = None\<rparr>"

lemma demo_access_comparison:
  "authorize_agreement AGREEMENTS_READ demo_comparisons ''P1'' (demo_id ''0'') (demo_id ''1'') = Inr ()"
  by code_simp

lemma demo_sources: "comparison_sources demo_comparisons demo_run = Inr (''m1'', ''m2'')"
  by code_simp

definition version_of :: "string \<Rightarrow> canonical_version" where
  "version_of t = \<lparr>cv_checksum = ''sha'', cv_elements = [\<lparr>el_id = ''section-sha-0'', el_ordinal = 0,
     el_heading_path = [], el_clause_type = None, el_text = t, el_anchors = [''a1'']\<rparr>]\<rparr>"

lemma demo_manifests:
  "bindR (read_manifest (demo_externals_of 5) demo_store ''m1'') canonical_version_from_manifest = Inr (version_of ''Pay 10 USD.'')"
  "bindR (read_manifest (demo_externals_of 5) demo_store ''m2'') canonical_version_from_manifest = Inr (version_of ''Pay 12 USD.'')"
proof -
  have "read_manifest (demo_externals_of 5) demo_store ''m1'' = Inr (analysis_of ''Pay 10 USD.'')"
    "read_manifest (demo_externals_of 5) demo_store ''m2'' = Inr (analysis_of ''Pay 12 USD.'')"
    by (simp_all add: read_manifest_def demo_store_def demo_externals_of_def analysis_of_def)
  moreover have "canonical_version_from_manifest (analysis_of ''Pay 10 USD.'') = Inr (version_of ''Pay 10 USD.'')"
    "canonical_version_from_manifest (analysis_of ''Pay 12 USD.'') = Inr (version_of ''Pay 12 USD.'')"
    by code_simp+
  ultimately show "bindR (read_manifest (demo_externals_of 5) demo_store ''m1'') canonical_version_from_manifest =
      Inr (version_of ''Pay 10 USD.'')"
    "bindR (read_manifest (demo_externals_of 5) demo_store ''m2'') canonical_version_from_manifest =
      Inr (version_of ''Pay 12 USD.'')" by simp_all
qed

section \<open>Witnesses\<close>

definition demo_configuration :: resolved_ai_configuration where
  "demo_configuration = \<lparr>ai_operation = ''version_materiality'', ai_version = ''v1'', ai_prompt_template = [],
     ai_schema = [], ai_model_route = ''r'', ai_parameters = [], ai_schema_checksum = ''c''\<rparr>"

lemma demo_run_simps:
  "cr_id demo_run = demo_id ''3''" "cr_agreement demo_run = demo_id ''2''" "cr_org demo_run = demo_id ''0''"
  "cr_ws demo_run = demo_id ''1''"
  by (simp_all add: demo_run_def new_run_def)

lemma demo_worker_simps:
  "pj_agreement demo_worker = demo_id ''2''" "pj_org demo_worker = Some (demo_id ''0'')"
  "pj_ws demo_worker = Some (demo_id ''1'')"
  by (simp_all add: demo_worker_def)

lemma demo_run_found:
  "run_of_job demo_comparisons (pj_id demo_worker) = Some demo_run" "distinct (map cr_id (comparison_runs demo_comparisons))"
  "agreement_is_active demo_comparisons (demo_id ''2'')"
  by (simp_all add: run_of_job_def demo_comparisons_def demo_run_def new_run_def demo_worker_def agreement_is_active_def
      compared_agreement_def)

lemma demo_provenance: "\<exists>kvs. run_provenance demo_run = Inr kvs"
  by (simp add: run_provenance_def demo_run_def new_run_def)

theorem comparison_shown_witness:
  "\<exists>p s'' r gs.
    prepare_comparison (demo_externals_of 5) None demo_configuration (\<lambda>_. demo_id ''1'') 5 demo_worker demo_comparisons
      demo_store = Inr p \<and>
    finalize_comparison (demo_externals_of 5) 6 demo_worker p (pa_content p) demo_comparisons = Inr s'' \<and>
    get_comparison s'' ''P1'' (demo_id ''0'') (demo_id ''1'') (demo_id ''2'') (demo_id ''3'') = Inr (r, gs) \<and>
    mset (concat (map cg_baseline_element_ids gs)) = {#''section-sha-0''#}"
proof -
  obtain kvs where kvs: "run_provenance demo_run = Inr kvs" using demo_provenance by blast
  have ids: "mset (map el_id (cv_elements (version_of ''Pay 10 USD.''))) = {#''section-sha-0''#}"
    by (simp add: version_of_def)
  from comparison_shown [where x = "demo_externals_of 5" and now = 5 and later = 6 and run = demo_run and run' = demo_run
      and g = "demo_id ''0''" and w = "demo_id ''1''" and job = demo_worker and s = demo_comparisons and
      s' = demo_comparisons and store = demo_store and fresh = "\<lambda>_. demo_id ''1''" and actor = "''P1''"
      and gateway = None and cfg = demo_configuration,
      unfolded demo_run_simps demo_worker_simps,
      OF demo_faithful demo_id_canonical(2,4,1,2,3) refl refl demo_run_found(1) demo_sources demo_manifests kvs
      demo_run_found(1) refl refl refl refl refl refl demo_run_found(2,3) demo_access_comparison]
  show ?thesis unfolding ids by blast
qed

definition demo_requests :: processing_db where
  "demo_requests = demo_comparisons\<lparr>comparison_runs := []\<rparr>"

definition demo_pair :: create_comparison_request where
  "demo_pair = \<lparr>cq_baseline = None, cq_target = None, cq_analysis_version = ''version-comparison.v1''\<rparr>"

lemma demo_requested:
  "\<exists>r s'. create_comparison (\<lambda>_. True) demo_requests ''P1'' (demo_id ''0'') (demo_id ''1'') (demo_id ''2'') ''k'' demo_pair 7 =
    Inr (r, True, s')"
proof -
  have "case create_comparison (\<lambda>_. True) demo_requests ''P1'' (demo_id ''0'') (demo_id ''1'') (demo_id ''2'') ''k'' demo_pair 7 of
      Inr (r, c, s') \<Rightarrow> c | _ \<Rightarrow> False" by code_simp
  then show ?thesis by (auto split: sum.splits prod.splits)
qed

theorem comparison_requested_once_witness:
  "\<exists>r s'. create_comparison (\<lambda>_. True) demo_requests ''P1'' (demo_id ''0'') (demo_id ''1'') (demo_id ''2'') ''k'' demo_pair 7 =
      Inr (r, True, s') \<and>
    create_comparison (\<lambda>_. False) s' ''P1'' (demo_id ''0'') (demo_id ''1'') (demo_id ''2'') ''k'' demo_pair 8 =
      Inr (r, False, s')"
proof -
  have "comparisons_unique demo_requests" "uuid4 demo_requests \<notin> cr_id ` set (comparison_runs demo_requests)"
    by (simp_all add: comparisons_unique_def demo_requests_def)
  moreover obtain r s' where "create_comparison (\<lambda>_. True) demo_requests ''P1'' (demo_id ''0'') (demo_id ''1'') (demo_id ''2'')
    ''k'' demo_pair 7 = Inr (r, True, s')" using demo_requested by blast
  ultimately show ?thesis
    using comparison_requested_once [of demo_requests "\<lambda>_. True" "''P1''" "demo_id ''0''" "demo_id ''1''" "demo_id ''2''"
        "''k''" demo_pair 7 r True s' "\<lambda>_. False" 8] by blast
qed

text \<open>
  The second version was compared with the first; it is now compared with a third, or once more with the first.
\<close>

definition compared_job :: job_row where
  "compared_job = (analysis_job ''J9'' ''V2'')\<lparr>jb_profile := ''version-comparison''\<rparr>"

definition demo_next :: comparison_run_row where
  "demo_next = demo_run\<lparr>cr_id := demo_id ''4'', cr_baseline_version := ''V2'', cr_target_version := ''V3''\<rparr>"

definition demo_again :: comparison_run_row where
  "demo_again = demo_run\<lparr>cr_id := demo_id ''4'', cr_baseline_version := ''V1'', cr_target_version := ''V2''\<rparr>"

definition demo_compared :: "comparison_run_row \<Rightarrow> processing_db" where
  "demo_compared next_run = demo_comparisons\<lparr>
     agreement_versions := [compared_version ''V1'' 1, compared_version ''V2'' 2, compared_version ''V3'' 3],
     jobs := [analysis_job ''J1'' ''V1'', analysis_job ''J2'' ''V2'', analysis_job ''J4'' ''V3'', compared_job],
     artifacts := [analysis_artifact ''J1'' ''m1'', analysis_artifact ''J2'' ''m2'', analysis_artifact ''J4'' ''m4'',
       analysis_artifact ''J9'' (comparison_artifact_key (demo_id ''3''))],
     comparison_runs := [next_run]\<rparr>"

definition compared_store :: object_store where
  "compared_store = demo_store(comparison_artifact_key (demo_id ''3'') \<mapsto> (demo_id ''2'', cx_dumps (demo_externals_of 5)
     (sorted_json (comparison_payload demo_worker (demo_id ''0'', demo_id ''1'') demo_run [] []))))"

lemma demo_next_sources:
  "comparison_sources (demo_compared demo_next) demo_next = Inr (comparison_artifact_key (demo_id ''3''), ''m4'')"
  "comparison_sources (demo_compared demo_again) demo_again = Inr (''m1'', comparison_artifact_key (demo_id ''3''))"
  by code_simp+

lemma demo_baseline_read:
  "bindR (read_manifest (demo_externals_of 5) compared_store ''m1'') canonical_version_from_manifest =
     Inr (version_of ''Pay 10 USD.'')"
proof -
  have "comparison_artifact_key (demo_id ''3'') \<noteq> ''m1''" by code_simp
  then have "read_manifest (demo_externals_of 5) compared_store ''m1'' = read_manifest (demo_externals_of 5) demo_store ''m1''"
    by (simp add: read_manifest_def compared_store_def)
  then show ?thesis using demo_manifests(1) by simp
qed

theorem compared_version_misread_witness:
  "prepare_comparison (demo_externals_of 5) None demo_configuration (\<lambda>_. demo_id ''1'') 5 demo_worker
       (demo_compared demo_next) compared_store = Inl (ValueError ''Canonical analysis artifact has no source'') \<and>
   prepare_comparison (demo_externals_of 5) None demo_configuration (\<lambda>_. demo_id ''1'') 5 demo_worker
       (demo_compared demo_again) compared_store = Inl (ValueError ''Canonical analysis artifact has no source'')"
    (is "?raises demo_next \<and> ?raises demo_again")
proof -
  have "?raises r" if r: "r \<in> {demo_next, demo_again}" for r
  proof -
    let ?f = "analysis_artifact ''J9'' (comparison_artifact_key (demo_id ''3''))"
    have j: "compared_job \<in> set (jobs (demo_compared r))" "jb_version compared_job = Some ''V2''" "jb_state compared_job = JCompleted"
      by (simp_all add: demo_compared_def compared_job_def analysis_job_def)
    have largest: "jb_id k < jb_id compared_job \<or> k = compared_job"
      if "k \<in> set (jobs (demo_compared r))" "jb_version k = Some ''V2''" "jb_state k = JCompleted" for k
    proof -
      have "k = analysis_job ''J2'' ''V2'' \<or> k = compared_job"
        using that by (auto simp: demo_compared_def analysis_job_def)
      moreover have "jb_id (analysis_job ''J2'' ''V2'') < jb_id compared_job" by code_simp
      ultimately show ?thesis by auto
    qed
    have artifact: "filter (\<lambda>f. af_job f = jb_id compared_job) (artifacts (demo_compared r)) = [?f]"
      by (simp add: demo_compared_def compared_job_def analysis_job_def analysis_artifact_def)
    have key: "af_key ?f = comparison_artifact_key (cr_id demo_run)"
      by (simp add: analysis_artifact_def demo_run_simps)
    have store: "compared_store (af_key ?f) = Some (demo_id ''2'', cx_dumps (demo_externals_of 5)
        (sorted_json (comparison_payload demo_worker (demo_id ''0'', demo_id ''1'') demo_run [] [])))"
      by (simp add: compared_store_def analysis_artifact_def)
    have run: "comparison_scope demo_worker = Inr (demo_id ''0'', demo_id ''1'')"
      "run_of_job (demo_compared r) (pj_id demo_worker) = Some r"
      using r by (auto simp: comparison_scope_def demo_worker_def run_of_job_def demo_compared_def demo_next_def
          demo_again_def demo_run_def new_run_def)
    note misread = compared_version_misread [where store = compared_store and x = "demo_externals_of 5" and now = 5 and
        f = ?f and gateway = None and cfg = demo_configuration and fresh = "\<lambda>_. demo_id ''1''" and later = 5,
        OF j largest artifact key demo_faithful store run]
    have "\<exists>b t. comparison_sources (demo_compared r) r = Inr (b, t) \<and>
        (cr_baseline_version r = ''V2'' \<or> cr_target_version r = ''V2'' \<and> b = ''m1'')"
    proof (cases "r = demo_next")
      case True
      have "cr_baseline_version demo_next = ''V2''" by (simp add: demo_next_def)
      then show ?thesis unfolding True demo_next_sources(1) by simp
    next
      case False
      then have again: "r = demo_again" using r by simp
      have "cr_target_version demo_again = ''V2''" by (simp add: demo_again_def)
      then show ?thesis unfolding again demo_next_sources(2) by simp
    qed
    then obtain b t where src: "comparison_sources (demo_compared r) r = Inr (b, t)"
      and v: "cr_baseline_version r = ''V2'' \<or> cr_target_version r = ''V2'' \<and> b = ''m1''" by blast
    let ?p = "prepare_comparison (demo_externals_of 5) None demo_configuration (\<lambda>_. demo_id ''1'') 5 demo_worker
      (demo_compared r) compared_store"
    let ?e = "ValueError ''Canonical analysis artifact has no source''"
    have "(cr_baseline_version r = ''V2'' \<longrightarrow> b = comparison_artifact_key (cr_id demo_run) \<and> ?p = Inl ?e) \<and>
      (cr_target_version r = ''V2'' \<longrightarrow> t = comparison_artifact_key (cr_id demo_run) \<and>
        ?p = bindR (bindR (read_manifest (demo_externals_of 5) compared_store b) canonical_version_from_manifest)
          (\<lambda>_. Inl ?e))"
      by (rule misread [OF _ _ _ src])
    then show "?raises r"
      using v demo_baseline_read by (metis bindR.simps(2))
  qed
  then show ?thesis by simp
qed

end
