(* ===== verification/Spec2Isabelle.thy ===== *)
theory Spec2Isabelle
  imports Identity Approval_Policies Audit_Ledger Workflow_Claims Workflow_Dispatch Review_Lineage Alignment_Claims
    Version_Materiality Usage_Limits Deletion_Properties Deletion_Safety Deletion_Rows Processing_Progress Processing_Submission Playbook_Findings
    Playbook_Routes Evaluation_Agreement Document_Chunks AI_Demo Comparison_Demo
begin

text \<open>
  A formal model of Agreement Intelligence, a service that stores agreements with their versions, analyses them in a
  worker, evaluates them against legal playbooks, routes their review through approval policies, answers questions on
  them and deletes them. The program is Python: an API (\<open>src/apps/api\<close>, services over SQLAlchemy sessions), a
  worker (\<open>src/apps/worker\<close>, driven by a queue) and a shared package (\<open>src/packages/platform-core\<close>). The two
  processes meet in one PostgreSQL database, an object store and queues.

  \<^bold>\<open>Reading the model.\<close> A table is a list of rows, a row class a record, an enumeration a datatype. The state of the
  database grows by record extension along the packages: \<open>identity_db\<close>, \<open>agreement_db\<close>, the policy and audit tables,
  \<open>review_db\<close>, \<open>processing_db\<close>, and the AI configuration and question tables. A service method is a function from the
  state to an error or a result with the new state, \<open>exn + _\<close>: an exception rolls its transaction back, so \<open>Inl\<close>
  carries no state (where the source commits before it raises, the state stands beside the outcome). The methods run
  one after the other; row locks are read as that order, and interleavings of operations are runs of inductive step
  relations. Ids come from \<open>uuid_src\<close>, times are arguments in microseconds. Decimal and floating-point numbers are
  exact rationals and strings are ASCII.

  \<^bold>\<open>Theories and sources.\<close>
  \<^item> \<open>Prelude\<close>, \<open>Py_Text\<close>, \<open>Py_Uuid\<close>, \<open>Regex\<close>, \<open>Difflib\<close>: exceptions, results, JSON, tables and timestamps; the
    parts of the Python library the sources use (string methods, \<open>uuid.UUID\<close>, \<open>re\<close>, \<open>difflib\<close>), from its
    documentation.
  \<^item> \<open>Identity\<close> (\<open>identity/service.py\<close>, \<open>permissions.py\<close>): role catalogue, memberships, access decisions.
  \<^item> \<open>Agreements\<close>, \<open>Agreement_Service\<close>, \<open>Agreement_Api\<close> (\<open>agreements/\<close>): agreements, versions, object registry, the
    acceptance of a deletion.
  \<^item> \<open>Approval_Policies\<close> (\<open>approval_policies/\<close>) and \<open>Audit_Ledger\<close> (\<open>audit/\<close>): versioned policies with routing,
    the redacting ledger.
  \<^item> \<open>Review_Tables\<close>, \<open>Review_Workflow\<close>, \<open>Workflow_Dispatch\<close> (\<open>reviews/workflow.py\<close>): starting, deciding, escalating,
    the transactional outbox. \<open>Workflow_Safety\<close>, \<open>Workflow_Invariant\<close>, \<open>Workflow_Properties\<close> and \<open>Workflow_Claims\<close>
    hold the effect of a decision on each table, the invariant, the abstract approval machine and the properties.
  \<^item> \<open>Review_Collaboration\<close>, \<open>Review_Lineage\<close>, \<open>Review_Decisions\<close>, \<open>Review_Evaluations\<close> (\<open>reviews/collaboration.py\<close>,
    \<open>decisions.py\<close>, \<open>service.py\<close>): assignments and comments, decisions on findings, the evaluation by the API.
  \<^item> \<open>Playbooks\<close>, \<open>Playbook_Routes\<close> (\<open>playbooks/service.py\<close>) and \<open>Playbook_Evaluation\<close>, \<open>Playbook_Sink\<close>,
    \<open>Playbook_Findings\<close>, \<open>Evaluation_Agreement\<close> (worker, \<open>playbook_evaluation.py\<close>): legal rules, their evaluation in
    the two processes, and where the two agree.
  \<^item> \<open>Processing_Tables\<close>, \<open>Processing_Repository\<close>, \<open>Job_Processor\<close> (worker, \<open>processing.py\<close>), \<open>Processing_Service\<close>
    (\<open>processing/\<close>): claims with leases, the commit fence, retries, submission. \<open>Profile_Processor\<close> (worker,
    \<open>main.py\<close>, with the prefix of \<open>embedding_indexing.py\<close> and the artifact checks of \<open>document_processor.py\<close>): which
    processor takes a job, and what each expects, commits and discards. \<open>Processing_Properties\<close>,
    \<open>Processing_Progress\<close> and \<open>Processing_Submission\<close> hold fencing, progress and idempotence.
  \<^item> \<open>Deletion_Repository\<close>, \<open>Deletion_Purge\<close>, \<open>Deletion_Processor\<close> (worker, \<open>agreement_deletion.py\<close>): the durable
    deletion. \<open>Deletion_Core\<close> views the database as sets of facts, \<open>Deletion_Machine\<close> argues on that view,
    \<open>Deletion_Steps\<close> shows that the operations are such changes, \<open>Deletion_Safety\<close> runs the system of API, processing
    workers and deletion workers; \<open>Deletion_Rows\<close> and \<open>Deletion_Properties\<close> hold the constraints and the sweeper.
  \<^item> \<open>Version_Alignment\<close>, \<open>Version_Materiality\<close>, \<open>Alignment_Claims\<close>, \<open>Comparison_Processor\<close> (worker) and
    \<open>Comparison_Service\<close> (\<open>comparisons/\<close>): the comparison of two versions; \<open>Comparison_Properties\<close> and
    \<open>Comparison_Requests\<close> follow it from the request to the response.
  \<^item> \<open>Usage_Limits\<close> (\<open>usage.py\<close>, \<open>limits.py\<close>) and \<open>AI_Configuration\<close>, \<open>AI_Resolution\<close> (\<open>ai_config/\<close> and the
    worker's \<open>ai_configuration.py\<close>): budgets, rate limits, versioned configurations.
  \<^item> \<open>Document_Indexing\<close>, \<open>Document_Chunks\<close> (worker), \<open>Search\<close>, \<open>Search_Results\<close> (\<open>search/\<close>), \<open>Guardrails\<close>,
    \<open>Evidence_Validation\<close>, \<open>Answer_Grounding\<close> (worker) and \<open>Question_Service\<close>, \<open>Question_Answers\<close>, \<open>Question_History\<close>,
    \<open>Question_Memory\<close> (\<open>qa/\<close>): from the chunks of a document to grounded answers and their history.
  \<^item> The theories named \<open>_Demo\<close>, and the last section of some others, hold concrete states that witness the properties.

  \<^bold>\<open>What the theorems show.\<close> Access decisions are the declared grants. A policy selects at most one route, and what was
  published never changes. An approved workflow went through every stage with its quorum, with duties separated, under
  every order of operations; decisions are idempotent, refuse stale revisions and refine an abstract machine. A worker
  that lost its claim changes nothing, a job settles after the attempts its policy allows, a submission is idempotent.
  While no worker commits a job with a malformed reindex profile, a completed deletion leaves no analysis and no
  comparison of the agreement in the store (uploaded sources and final packages have writers of their own and are not
  in it); a pass of the sweeper ends. What the ledger records is redacted, the usage budget holds as long as no
  cancelled reservation is settled, and a key under \<open>recovery-0035\<close> stops the deletion of its agreement. A compared pair of
  versions is shown completely, once, with its citations. Models never create compliance, lower a severity, or put a
  claim into an answer that is not a sentence of live evidence; histories show nothing whose evidence is gone. Several
  theorems show where the code does not do what it says; the findings of the manifest refer to them.

  \<^bold>\<open>Bounds and fuel.\<close> Recursion is structural or has a measure. \<open>rx_star\<close> of \<open>Regex\<close> has the length of the text as
  fuel, since an iteration that consumes nothing adds no end, and the search for a position has one more than that
  length. The guardrails decode to the depth the source fixes, two. The loop of the outbox sweeper over one organization
  has the number of undelivered announcements as its measure; a whole pass takes at most three transactions per organization
  and two per delivered announcement.

  \<^bold>\<open>Parameters.\<close> Code outside the repository is an argument: the models and gateways (any answer, or none where the
  caught errors are raised), queue publishers, the object store's acceptance of a deletion, full-text ranks and vector
  distances, digests, the JSON Schema checker, the conversions of single values by pydantic, the decoding and encoding of JSON and timestamps, Python's \<open>str\<close> of a
  value that is no text. Laws of these that a theorem needs stand among its hypotheses.

  \<^bold>\<open>Not modelled.\<close> Row-level security and the tenant setting of PostgreSQL (a second line of defence behind the checks
  modelled here); foreign keys, and UNIQUE constraints where serial execution cannot violate them (the clause types of
  a playbook and the keys of AI configurations can, and raise); column lengths; the HTTP routes beyond those of
  questions; authentication; telemetry; the parsing of documents and the model providers; the checkpointer and the
  rendering of final packages; the evaluation harnesses, the MCP facade and the web application. In the step
  relations of \<open>Deletion_Safety\<close>, \<open>Playbook_Routes\<close>, \<open>AI_Resolution\<close> and \<open>Review_Lineage\<close>, a step \<open>other\<close> stands
  for any operation that leaves the tables of the argument alone.
\<close>

end
